(* ===== verification/Prelude.thy ===== *)
theory Prelude
  imports Complex_Main "HOL-Library.Sublist" "HOL-Library.Char_ord" "HOL-Library.List_Lexorder"
begin

text \<open>
  The vocabulary the component theories share: the parts of the JavaScript string and JSON
  libraries the backend uses, HTTP errors as values, and database tables.

  Strings are \<open>char list\<close>s; a \<open>char\<close> stands for one code unit of the Latin-1 range (which
  holds the Swedish letters), so character tests and case mappings below are JavaScript's on
  that range. \<open>None\<close> is JavaScript's \<open>null\<close> or \<open>undefined\<close>. Instants and durations are
  milliseconds (\<open>int\<close>).
\<close>

named_theorems js_simps "evaluation of the JavaScript string and option helpers"
named_theorems table_simps "laws of table lookup and update"

section \<open>Optional values\<close>

text \<open>\<open>a ?? d\<close> with a default that is a value, and with one that may be null itself.\<close>

definition or_default :: "'a option \<Rightarrow> 'a \<Rightarrow> 'a" where
  "or_default x d = (case x of None \<Rightarrow> d | Some v \<Rightarrow> v)"

definition or_else :: "'a option \<Rightarrow> 'a option \<Rightarrow> 'a option" where
  "or_else x y = (case x of None \<Rightarrow> y | Some v \<Rightarrow> Some v)"

lemma or_default_simps [simp, js_simps]:
  "or_default None d = d" "or_default (Some v) d = v"
  by (simp_all add: or_default_def)

lemma or_else_simps [simp, js_simps]:
  "or_else None y = y" "or_else (Some v) y = Some v" "or_else x None = x"
  by (simp_all add: or_else_def split: option.splits)

text \<open>\<open>s || null\<close> on a string: the empty string is falsy.\<close>

definition nonempty :: "string \<Rightarrow> string option" where
  "nonempty s = (if s = [] then None else Some s)"

lemma nonempty_simps [simp, js_simps]:
  "nonempty [] = None" "nonempty (c # s) = Some (c # s)"
  by (simp_all add: nonempty_def)

text \<open>\<open>!!s\<close> on a nullable string.\<close>

definition truthy_str :: "string option \<Rightarrow> bool" where
  "truthy_str s \<longleftrightarrow> (s \<noteq> None \<and> s \<noteq> Some [])"

lemma truthy_str_simps [simp, js_simps]:
  "\<not> truthy_str None" "\<not> truthy_str (Some [])" "truthy_str (Some (c # s))"
  by (simp_all add: truthy_str_def)

lemma nonempty_SomeD: "nonempty s = Some t \<Longrightarrow> t = s \<and> s \<noteq> []"
  by (auto simp: nonempty_def split: if_splits)

section \<open>Characters and strings\<close>

definition code :: "char \<Rightarrow> nat" where
  "code c = of_char c"

definition is_digit :: "char \<Rightarrow> bool" where
  "is_digit c \<longleftrightarrow> 48 \<le> code c \<and> code c \<le> 57"

definition is_upper :: "char \<Rightarrow> bool" where
  "is_upper c \<longleftrightarrow> 65 \<le> code c \<and> code c \<le> 90"

definition is_lower :: "char \<Rightarrow> bool" where
  "is_lower c \<longleftrightarrow> 97 \<le> code c \<and> code c \<le> 122"

text \<open>JavaScript's white space and line terminators (\<open>trim\<close>, \<open>\s\<close>) in the Latin-1 range.\<close>

definition is_space :: "char \<Rightarrow> bool" where
  "is_space c \<longleftrightarrow> code c \<in> {9, 10, 11, 12, 13, 32, 160}"

definition trim :: "string \<Rightarrow> string" where
  "trim s = rev (dropWhile is_space (rev (dropWhile is_space s)))"

text \<open>\<open>toLowerCase\<close> and \<open>toUpperCase\<close> on the letters whose image stays in the range.\<close>

definition lower_char :: "char \<Rightarrow> char" where
  "lower_char c = (let n = code c in
     if (65 \<le> n \<and> n \<le> 90) \<or> (192 \<le> n \<and> n \<le> 222 \<and> n \<noteq> 215) then char_of (n + 32) else c)"

definition upper_char :: "char \<Rightarrow> char" where
  "upper_char c = (let n = code c in
     if (97 \<le> n \<and> n \<le> 122) \<or> (224 \<le> n \<and> n \<le> 254 \<and> n \<noteq> 247) then char_of (n - 32) else c)"

abbreviation to_lower :: "string \<Rightarrow> string" where
  "to_lower \<equiv> map lower_char"

abbreviation to_upper :: "string \<Rightarrow> string" where
  "to_upper \<equiv> map upper_char"

text \<open>\<open>s.split(c)\<close> for a one-character separator: always at least one piece.\<close>

fun split_on :: "char \<Rightarrow> string \<Rightarrow> string list" where
  "split_on c [] = [[]]"
| "split_on c (x # xs) =
     (if x = c then [] # split_on c xs
      else (case split_on c xs of [] \<Rightarrow> [[x]] | p # ps \<Rightarrow> (x # p) # ps))"

fun join :: "string \<Rightarrow> string list \<Rightarrow> string" where
  "join sep [] = []"
| "join sep [s] = s"
| "join sep (s # ss) = s @ sep @ join sep ss"

text \<open>\<open>s.includes(pat)\<close>, \<open>s.endsWith(suf)\<close>, and the removal of all non-digits (\<open>/\D/g\<close>).\<close>

fun has_sub :: "string \<Rightarrow> string \<Rightarrow> bool" where
  "has_sub pat [] = (pat = [])"
| "has_sub pat (c # s) = (prefix pat (c # s) \<or> has_sub pat s)"

definition ends_with :: "string \<Rightarrow> string \<Rightarrow> bool" where
  "ends_with suf s = suffix suf s"

definition digits_only :: "string \<Rightarrow> string" where
  "digits_only = filter is_digit"

text \<open>
  An anchored regular expression of fixed length is its list of character classes:
  \<open>/^\d{4}-\d{2}$/\<close> is four digit classes, a dash and two digit classes.
\<close>

definition matches :: "(char \<Rightarrow> bool) list \<Rightarrow> string \<Rightarrow> bool" where
  "matches cs s \<longleftrightarrow> list_all2 (\<lambda>p c. p c) cs s"

abbreviation lit :: "char \<Rightarrow> char \<Rightarrow> bool" where
  "lit c \<equiv> (\<lambda>x. x = c)"

definition digits :: "nat \<Rightarrow> (char \<Rightarrow> bool) list" where
  "digits n = replicate n is_digit"

lemma matches_length: "matches cs s \<Longrightarrow> length s = length cs"
  by (simp add: matches_def list_all2_lengthD)

lemma matches_digits: "matches (digits n) s \<longleftrightarrow> length s = n \<and> (\<forall>c \<in> set s. is_digit c)"
proof (induction n arbitrary: s)
  case 0
  then show ?case by (auto simp: matches_def digits_def)
next
  case (Suc n)
  then show ?case
    by (cases s) (auto simp: matches_def digits_def)
qed

text \<open>\<open>xs[i]\<close> for a non-negative index: undefined out of range.\<close>

definition nth_opt :: "'a list \<Rightarrow> nat \<Rightarrow> 'a option" where
  "nth_opt xs i = (if i < length xs then Some (xs ! i) else None)"

lemma nth_opt_simps [simp, js_simps]:
  "nth_opt [] i = None" "nth_opt (x # xs) 0 = Some x" "nth_opt (x # xs) (Suc i) = nth_opt xs i"
  by (auto simp: nth_opt_def)

lemma nth_opt_numeral [simp, js_simps]: "nth_opt (x # xs) (numeral n) = nth_opt xs (pred_numeral n)"
  by (simp add: numeral_eq_Suc)

lemma split_on_not_Nil [simp]: "split_on c s \<noteq> []"
  by (induction s) (auto split: list.splits)

lemma split_on_no_sep: "p \<in> set (split_on c s) \<Longrightarrow> c \<notin> set p"
proof (induction s arbitrary: p)
  case Nil
  then show ?case by simp
next
  case (Cons x xs)
  then show ?case
    by (cases "split_on c xs") (auto split: if_splits)
qed

lemma join_split_on: "join [c] (split_on c s) = s"
proof (induction s)
  case Nil
  then show ?case by simp
next
  case (Cons x xs)
  obtain p ps where p: "split_on c xs = p # ps"
    using split_on_not_Nil [of c xs] by (cases "split_on c xs") auto
  with Cons show ?case
    by (cases ps) auto
qed

lemma split_on_append:
  "c \<notin> set s \<Longrightarrow> split_on c (s @ c # t) = s # split_on c t"
  by (induction s) auto

lemma split_on_single: "c \<notin> set s \<Longrightarrow> split_on c s = [s]"
  by (induction s) auto

lemma split_on_join:
  "ss \<noteq> [] \<Longrightarrow> \<forall>s \<in> set ss. c \<notin> set s \<Longrightarrow> split_on c (join [c] ss) = ss"
proof (induction "[c]" ss rule: join.induct)
  case 1
  then show ?case by simp
next
  case (2 s)
  then show ?case by (simp add: split_on_single)
next
  case (3 s t ts)
  then show ?case by (simp add: split_on_append)
qed

lemma dropWhile_idem: "dropWhile P (dropWhile P xs) = dropWhile P xs"
  by (induction xs) auto

lemma trim_nil_iff: "trim s = [] \<longleftrightarrow> (\<forall>c \<in> set s. is_space c)"
  by (simp add: trim_def) (metis dropWhile_eq_Nil_conv dropWhile_idem)

lemma set_trim: "c \<in> set (trim s) \<Longrightarrow> c \<in> set s"
  unfolding trim_def by (metis set_dropWhileD set_rev)

lemma digits_only_digits: "\<forall>c \<in> set (digits_only s). is_digit c"
  by (simp add: digits_only_def)

lemma digits_only_idem [simp]: "digits_only (digits_only s) = digits_only s"
  by (simp add: digits_only_def)

section \<open>Decimal numerals\<close>

text \<open>\<open>String(n)\<close> for an integer below \<open>10^21\<close>, where JavaScript prints no exponent.\<close>

definition digit_char :: "nat \<Rightarrow> char" where
  "digit_char d = char_of (48 + d)"

fun show_nat :: "nat \<Rightarrow> string" where
  "show_nat n = (if n < 10 then [digit_char n] else show_nat (n div 10) @ [digit_char (n mod 10)])"

declare show_nat.simps [simp del]

definition show_int :: "int \<Rightarrow> string" where
  "show_int i = (if i < 0 then CHR ''-'' # show_nat (nat (- i)) else show_nat (nat i))"

definition read_nat :: "string \<Rightarrow> nat" where
  "read_nat = foldl (\<lambda>a c. 10 * a + (code c - 48)) 0"

lemma code_digit_char [simp]: "d < 10 \<Longrightarrow> code (digit_char d) = 48 + d"
  by (simp add: code_def digit_char_def)

lemma is_digit_digit_char [simp]: "d < 10 \<Longrightarrow> is_digit (digit_char d)"
  by (simp add: is_digit_def)

lemma read_show_nat [simp]: "read_nat (show_nat n) = n"
proof (induction n rule: show_nat.induct)
  case (1 n)
  then show ?case
    by (subst show_nat.simps) (auto simp: read_nat_def)
qed

lemma show_nat_inj: "show_nat m = show_nat n \<longleftrightarrow> m = n"
  by (metis read_show_nat)

lemma show_nat_digits: "\<forall>c \<in> set (show_nat n). is_digit c"
proof (induction n rule: show_nat.induct)
  case (1 n)
  then show ?case
    by (subst show_nat.simps) auto
qed

lemma show_nat_nonempty [simp]: "show_nat n \<noteq> []"
  by (subst show_nat.simps) simp

lemma minus_not_digit: "\<not> is_digit (CHR ''-'')"
  by (simp add: is_digit_def code_def)

lemma show_nat_not_minus: "show_nat n \<noteq> CHR ''-'' # s"
  using show_nat_digits [of n] minus_not_digit by auto

lemma show_int_inj: "show_int i = show_int j \<longleftrightarrow> i = j"
  using show_nat_not_minus [of "nat i"] show_nat_not_minus [of "nat j", THEN not_sym]
  by (auto simp: show_int_def show_nat_inj)

lemma show_int_nonempty [simp]: "show_int i \<noteq> []"
  by (simp add: show_int_def)

section \<open>Loops and sets\<close>

text \<open>A \<open>Set\<close> in insertion order; the invariant of a loop over a list.\<close>

definition insert_new :: "'a \<Rightarrow> 'a list \<Rightarrow> 'a list" where
  "insert_new k ks = (if k \<in> set ks then ks else ks @ [k])"

definition distinct_in_order :: "'a list \<Rightarrow> 'a list" where
  "distinct_in_order xs = fold insert_new xs []"

lemma set_distinct_fold: "set (fold insert_new xs ys) = set ys \<union> set xs"
  by (induction xs arbitrary: ys) (auto simp: insert_new_def)

lemma set_distinct_in_order [simp]: "set (distinct_in_order xs) = set xs"
  by (simp add: distinct_in_order_def set_distinct_fold)

lemma distinct_fold: "distinct ys \<Longrightarrow> distinct (fold insert_new xs ys)"
  by (induction xs arbitrary: ys) (auto simp: insert_new_def)

lemma distinct_distinct_in_order [simp]: "distinct (distinct_in_order xs)"
  by (simp add: distinct_in_order_def distinct_fold)

lemma distinct_in_order_Nil_iff [simp]: "distinct_in_order xs = [] \<longleftrightarrow> xs = []"
  by (metis set_distinct_in_order set_empty)

lemma fold_inv:
  "(\<And>x s. x \<in> set xs \<Longrightarrow> I s \<Longrightarrow> I (f x s)) \<Longrightarrow> I s \<Longrightarrow> I (fold f xs s)"
  by (induction xs arbitrary: s) auto

section \<open>JSON values\<close>

text \<open>
  The type of numbers is a parameter: \<open>int\<close> where documents are compared as text, \<open>rat\<close>
  where numbers are computed with. An object is its list of own members in enumeration order.
\<close>

datatype 'n json =
    JNull
  | JBool bool
  | JNum 'n
  | JStr string
  | JArr "'n json list"
  | JObj "(string \<times> 'n json) list"

type_synonym 'n members = "(string \<times> 'n json) list"

text \<open>
  \<open>v?.k\<close> and \<open>v?.[i]\<close>: \<open>None\<close> is \<open>undefined\<close>. An index also selects a character of a
  string and a member of an object.
\<close>

fun member_of :: "string \<Rightarrow> 'n json option \<Rightarrow> 'n json option" where
  "member_of k (Some (JObj ms)) = map_of ms k"
| "member_of k _ = None"

fun item_of :: "nat \<Rightarrow> 'n json option \<Rightarrow> 'n json option" where
  "item_of i (Some (JArr xs)) = nth_opt xs i"
| "item_of i (Some (JStr s)) = map_option (\<lambda>c. JStr [c]) (nth_opt s i)"
| "item_of i (Some (JObj ms)) = map_of ms (show_nat i)"
| "item_of i _ = None"

text \<open>\<open>a ?? b\<close> on values that may be \<open>undefined\<close> or JSON \<open>null\<close>.\<close>

fun nullish_or :: "'n json option \<Rightarrow> 'n json option \<Rightarrow> 'n json option" where
  "nullish_or None b = b"
| "nullish_or (Some JNull) b = b"
| "nullish_or (Some v) b = Some v"

text \<open>\<open>!!v\<close>\<close>

fun truthy :: "'n :: zero json option \<Rightarrow> bool" where
  "truthy (Some (JBool b)) = b"
| "truthy (Some (JNum n)) = (n \<noteq> 0)"
| "truthy (Some (JStr s)) = (s \<noteq> [])"
| "truthy (Some (JArr xs)) = True"
| "truthy (Some (JObj ms)) = True"
| "truthy _ = False"

text \<open>\<open>typeof v === 'string'\<close> with the string.\<close>

fun string_of :: "'n json option \<Rightarrow> string option" where
  "string_of (Some (JStr s)) = Some s"
| "string_of _ = None"

text \<open>\<open>typeof x === 'string' ? x : typeof x?.k === 'string' ? x.k : \<dots>\<close> for the keys in turn.\<close>

fun first_text :: "'n json option \<Rightarrow> string list \<Rightarrow> string option" where
  "first_text v [] = None"
| "first_text v (k # ks) =
     (case string_of (member_of k v) of Some s \<Rightarrow> Some s | None \<Rightarrow> first_text v ks)"

definition text_or_member :: "string list \<Rightarrow> 'n json option \<Rightarrow> string option" where
  "text_or_member ks v = (case string_of v of Some s \<Rightarrow> Some s | None \<Rightarrow> first_text v ks)"

text \<open>\<open>v.k ?? null\<close>, and a string that may be \<open>null\<close>.\<close>

definition json_field :: "string \<Rightarrow> 'n json option \<Rightarrow> 'n json" where
  "json_field k v = or_default (member_of k v) JNull"

definition json_pick :: "string list \<Rightarrow> 'n json option \<Rightarrow> 'n json" where
  "json_pick ks v = JObj (map (\<lambda>k. (k, json_field k v)) ks)"

definition json_text :: "string option \<Rightarrow> 'n json" where
  "json_text s = (case s of None \<Rightarrow> JNull | Some t \<Rightarrow> JStr t)"

text \<open>Object spread \<open>{...a, ...b}\<close>: members of \<open>b\<close> overwrite those of \<open>a\<close> in place.\<close>

fun put_member :: "string \<Rightarrow> 'v \<Rightarrow> (string \<times> 'v) list \<Rightarrow> (string \<times> 'v) list" where
  "put_member k v [] = [(k, v)]"
| "put_member k v ((k', v') # ms) =
     (if k' = k then (k, v) # ms else (k', v') # put_member k v ms)"

definition spread :: "(string \<times> 'v) list \<Rightarrow> (string \<times> 'v) list \<Rightarrow> (string \<times> 'v) list" where
  "spread a b = fold (\<lambda>(k, v). put_member k v) b a"

lemma map_of_put_member [simp]: "map_of (put_member k v ms) = (map_of ms)(k \<mapsto> v)"
  by (induction ms) (auto simp: fun_eq_iff)

lemma keys_put_member: "fst ` set (put_member k v ms) = insert k (fst ` set ms)"
  by (simp add: dom_map_of_conv_image_fst [symmetric])

lemma distinct_put_member:
  "distinct (map fst ms) \<Longrightarrow> distinct (map fst (put_member k v ms))"
proof (induction ms)
  case Nil
  then show ?case by simp
next
  case (Cons m ms)
  then show ?case
    using keys_put_member [of k v ms] by (cases m) auto
qed

lemma spread_Nil [simp]: "spread a [] = a"
  by (simp add: spread_def)

lemma spread_Cons [simp]: "spread a ((k, v) # b) = spread (put_member k v a) b"
  by (simp add: spread_def)

lemma map_of_spread: "distinct (map fst b) \<Longrightarrow> map_of (spread a b) = map_of a ++ map_of b"
proof (induction b arbitrary: a)
  case Nil
  then show ?case by simp
next
  case (Cons m b)
  obtain k v where m: "m = (k, v)" by (cases m)
  with Cons have "map_of b k = None" by (auto simp: map_of_eq_None_iff)
  with Cons m show ?case
    by (auto simp: fun_eq_iff map_add_def split: option.splits)
qed

section \<open>HTTP errors\<close>

text \<open>
  The NestJS exceptions the services throw, with their message, and \<open>Failure\<close> for a plain
  \<open>Error\<close>. An operation that may throw returns \<open>Inl\<close> of one of them.
\<close>

datatype http_error =
    BadRequest string
  | Unauthorized string
  | Forbidden string
  | NotFound string
  | Conflict string
  | TooManyRequests string
  | InternalError string
  | Failure string

type_synonym 'a result = "http_error + 'a"

section \<open>Pages\<close>

text \<open>The pages of a list, put together.\<close>

lemma pages_concat: "concat (map (\<lambda>p. take l (drop (p * l) xs)) [0..<n]) = take (n * l) xs"
proof (induction n)
  case 0
  then show ?case by simp
next
  case (Suc n)
  then show ?case by (simp add: add.commute [of l] take_add)
qed

end
