(* ===== verification/Tables.thy ===== *)
theory Tables
  imports Prelude
begin

text \<open>
  Database tables as lists of rows in insertion order, with the repository calls the services
  use: \<open>findOne\<close> and \<open>find\<close> with a \<open>where\<close> predicate and an \<open>order\<close>, \<open>save\<close>, the bulk
  \<open>update\<close> and \<open>delete\<close> of the query builder, and \<open>count\<close>. Where a query names no order,
  the database may return any matching row first; the model returns the oldest one. The
  \<open>entity_store\<close> interface states what the services rely on.
\<close>

section \<open>Queries\<close>

definition find_one :: "('r \<Rightarrow> bool) \<Rightarrow> 'r list \<Rightarrow> 'r option" where
  "find_one p t = find p t"

text \<open>\<open>find({where, order: {key: 'ASC'}})\<close> and \<open>'DESC'\<close>; equal keys keep insertion order.\<close>

definition find_asc :: "('r \<Rightarrow> bool) \<Rightarrow> ('r \<Rightarrow> 'k :: linorder) \<Rightarrow> 'r list \<Rightarrow> 'r list" where
  "find_asc p key t = sort_key key (filter p t)"

definition find_desc :: "('r \<Rightarrow> bool) \<Rightarrow> ('r \<Rightarrow> int) \<Rightarrow> 'r list \<Rightarrow> 'r list" where
  "find_desc p key t = sort_key (\<lambda>r. - key r) (filter p t)"

text \<open>\<open>findOne({where, order: {key: 'DESC'}})\<close>.\<close>

definition find_latest :: "('r \<Rightarrow> bool) \<Rightarrow> ('r \<Rightarrow> int) \<Rightarrow> 'r list \<Rightarrow> 'r option" where
  "find_latest p key t = (case find_desc p key t of [] \<Rightarrow> None | r # _ \<Rightarrow> Some r)"

definition count_where :: "('r \<Rightarrow> bool) \<Rightarrow> 'r list \<Rightarrow> nat" where
  "count_where p t = length (filter p t)"

section \<open>Writes\<close>

text \<open>\<open>save(r)\<close>: replaces the row with the same key, or inserts.\<close>

fun save :: "('r \<Rightarrow> 'k) \<Rightarrow> 'r \<Rightarrow> 'r list \<Rightarrow> 'r list" where
  "save key r [] = [r]"
| "save key r (x # t) = (if key x = key r then r # t else x # save key r t)"

definition update_where :: "('r \<Rightarrow> bool) \<Rightarrow> ('r \<Rightarrow> 'r) \<Rightarrow> 'r list \<Rightarrow> 'r list" where
  "update_where p f t = map (\<lambda>r. if p r then f r else r) t"

definition delete_where :: "('r \<Rightarrow> bool) \<Rightarrow> 'r list \<Rightarrow> 'r list" where
  "delete_where p t = filter (\<lambda>r. \<not> p r) t"

definition find_key :: "('r \<Rightarrow> 'k) \<Rightarrow> 'k \<Rightarrow> 'r list \<Rightarrow> 'r option" where
  "find_key key k t = find_one (\<lambda>r. key r = k) t"

definition unique_keys :: "('r \<Rightarrow> 'k) \<Rightarrow> 'r list \<Rightarrow> bool" where
  "unique_keys key t \<longleftrightarrow> distinct (map key t)"

section \<open>Laws\<close>

lemma unique_keys_Nil [table_simps]: "unique_keys key []"
  by (simp add: unique_keys_def)

lemma unique_keys_Cons [table_simps]:
  "unique_keys key (x # t) \<longleftrightarrow> (\<forall>y \<in> set t. key y \<noteq> key x) \<and> unique_keys key t"
  by (auto simp: unique_keys_def image_iff)

lemma unique_keysD:
  "unique_keys key t \<Longrightarrow> x \<in> set t \<Longrightarrow> y \<in> set t \<Longrightarrow> key x = key y \<Longrightarrow> x = y"
  by (induction t) (auto simp: table_simps)

lemma find_one_Nil [table_simps]: "find_one p [] = None"
  by (simp add: find_one_def)

lemma find_one_Cons [table_simps]:
  "find_one p (r # t) = (if p r then Some r else find_one p t)"
  by (simp add: find_one_def)

lemma find_one_None_iff: "find_one p t = None \<longleftrightarrow> (\<forall>r \<in> set t. \<not> p r)"
  by (induction t) (simp_all add: find_one_def)

lemma find_one_SomeD: "find_one p t = Some r \<Longrightarrow> r \<in> set t \<and> p r"
  by (induction t) (auto simp: find_one_def split: if_splits)

lemma find_one_unique:
  "r \<in> set t \<Longrightarrow> p r \<Longrightarrow> (\<And>x. x \<in> set t \<Longrightarrow> p x \<Longrightarrow> x = r) \<Longrightarrow> find_one p t = Some r"
  by (metis find_one_None_iff find_one_SomeD option.exhaust)

lemma find_one_append:
  "find_one p (t @ u) = (case find_one p t of None \<Rightarrow> find_one p u | Some r \<Rightarrow> Some r)"
  by (induction t) (auto simp: find_one_def)

lemma set_find_asc: "set (find_asc p key t) = {r \<in> set t. p r}"
  by (auto simp: find_asc_def)

lemma sorted_find_asc: "sorted (map key (find_asc p key t))"
  by (simp add: find_asc_def)

lemma set_find_desc: "set (find_desc p key t) = {r \<in> set t. p r}"
  by (auto simp: find_desc_def)

lemma find_latest_None_iff: "find_latest p key t = None \<longleftrightarrow> (\<forall>r \<in> set t. \<not> p r)"
proof -
  have "find_latest p key t = None \<longleftrightarrow> find_desc p key t = []"
    by (simp add: find_latest_def split: list.splits)
  also have "\<dots> \<longleftrightarrow> set (find_desc p key t) = {}" by simp
  finally show ?thesis by (auto simp: set_find_desc)
qed

lemma find_latest_SomeD:
  assumes "find_latest p key t = Some r"
  shows "r \<in> set t" "p r" "\<forall>x \<in> set t. p x \<longrightarrow> key x \<le> key r"
proof -
  from assms obtain rs where rs: "find_desc p key t = r # rs"
    by (auto simp: find_latest_def split: list.splits)
  then have mem: "set (r # rs) = {x \<in> set t. p x}"
    using set_find_desc [of p key t] by simp
  then show "r \<in> set t" "p r" by auto
  have "sorted (map (\<lambda>x. - key x) (find_desc p key t))"
    by (simp add: find_desc_def)
  with rs have "\<forall>x \<in> set rs. key x \<le> key r" by auto
  with mem show "\<forall>x \<in> set t. p x \<longrightarrow> key x \<le> key r" by auto
qed

text \<open>When one matching row is strictly newer than all others, it is the one returned.\<close>

lemma find_latest_eqI:
  assumes "r \<in> set t" "p r" "\<And>x. x \<in> set t \<Longrightarrow> p x \<Longrightarrow> x \<noteq> r \<Longrightarrow> key x < key r"
  shows "find_latest p key t = Some r"
proof (cases "find_latest p key t")
  case None
  with assms show ?thesis by (auto simp: find_latest_None_iff)
next
  case (Some x)
  then have "x \<in> set t" "p x" "key r \<le> key x"
    using find_latest_SomeD [OF Some] assms(1,2) by auto
  with assms(3) [of x] have "x = r" by fastforce
  with Some show ?thesis by simp
qed

lemma save_save_same: "key r = key q \<Longrightarrow> save key r (save key q t) = save key r t"
  by (induction t) auto

lemma set_save_subset: "set (save key r t) \<subseteq> insert r (set t)"
  by (induction t) auto

lemma in_set_save [simp]: "r \<in> set (save key r t)"
  by (induction t) auto

lemma set_save:
  "unique_keys key t \<Longrightarrow> set (save key r t) = insert r {x \<in> set t. key x \<noteq> key r}"
  by (induction t) (auto simp: table_simps)

lemma keys_save: "key ` set (save key r t) = insert (key r) (key ` set t)"
  by (induction t) auto

lemma unique_keys_save: "unique_keys key t \<Longrightarrow> unique_keys key (save key r t)"
  by (induction t) (auto simp: table_simps set_save)

lemma length_save:
  "length (save key r t) = (if key r \<in> key ` set t then length t else Suc (length t))"
  by (induction t) auto

lemma save_new: "key r \<notin> key ` set t \<Longrightarrow> save key r t = t @ [r]"
  by (induction t) auto

lemma save_existing:
  "unique_keys key t \<Longrightarrow> key r \<in> key ` set t \<Longrightarrow>
    save key r t = map (\<lambda>x. if key x = key r then r else x) t"
proof (induction t)
  case Nil
  then show ?case by simp
next
  case (Cons x t)
  show ?case
  proof (cases "key x = key r")
    case True
    with Cons.prems(1) have "\<forall>y \<in> set t. key y \<noteq> key r" by (simp add: table_simps)
    then have "map (\<lambda>x. if key x = key r then r else x) t = t" by (intro map_idI) simp
    with True show ?thesis by simp
  next
    case False
    with Cons show ?thesis by (simp add: table_simps)
  qed
qed

lemma find_one_save_other:
  "\<not> p r \<Longrightarrow> \<forall>x \<in> set t. key x = key r \<longrightarrow> \<not> p x \<Longrightarrow> find_one p (save key r t) = find_one p t"
  by (induction t) (auto simp: find_one_def)

lemma find_key_save [table_simps]:
  "find_key key k (save key r t) = (if k = key r then Some r else find_key key k t)"
  by (induction t) (auto simp: find_key_def find_one_def)

lemma find_key_SomeD: "find_key key k t = Some r \<Longrightarrow> r \<in> set t \<and> key r = k"
  by (auto simp: find_key_def dest: find_one_SomeD)

lemma find_key_self:
  "unique_keys key t \<Longrightarrow> r \<in> set t \<Longrightarrow> find_key key (key r) t = Some r"
  unfolding find_key_def by (rule find_one_unique) (auto dest: unique_keysD)

lemma set_update_where: "set (update_where p f t) = (\<lambda>r. if p r then f r else r) ` set t"
  by (simp add: update_where_def)

lemma length_update_where [simp]: "length (update_where p f t) = length t"
  by (simp add: update_where_def)

lemma unique_keys_update_where:
  "(\<And>r. key (f r) = key r) \<Longrightarrow> unique_keys key (update_where p f t) = unique_keys key t"
  by (simp add: unique_keys_def update_where_def o_def if_distrib cong: if_cong)

lemma set_delete_where [simp]: "set (delete_where p t) = {r \<in> set t. \<not> p r}"
  by (auto simp: delete_where_def)

section \<open>The entity store interface\<close>

text \<open>
  What the services rely on when they load a row by its key, change it and save it: a lookup
  after a save sees the saved row and no other row moves. \<open>modified\<close> is the load, modify,
  save sequence.
\<close>

locale entity_store =
  fixes row_key :: "'r \<Rightarrow> 'k"
    and lookup :: "'k \<Rightarrow> 't \<Rightarrow> 'r option"
    and put :: "'r \<Rightarrow> 't \<Rightarrow> 't"
  assumes lookup_put: "lookup k (put r t) = (if k = row_key r then Some r else lookup k t)"
    and lookup_key: "lookup k t = Some r \<Longrightarrow> row_key r = k"
begin

lemma lookup_put_same [simp]: "lookup (row_key r) (put r t) = Some r"
  by (simp add: lookup_put)

lemma lookup_put_other: "k \<noteq> row_key r \<Longrightarrow> lookup k (put r t) = lookup k t"
  by (simp add: lookup_put)

lemma put_put: "row_key r = row_key q \<Longrightarrow> lookup k (put r (put q t)) = lookup k (put r t)"
  by (simp add: lookup_put)

lemma put_commute:
  "row_key r \<noteq> row_key q \<Longrightarrow> lookup k (put r (put q t)) = lookup k (put q (put r t))"
  by (simp add: lookup_put)

lemma modify_lookup:
  assumes "lookup k t = Some r" and "row_key (f r) = row_key r"
  shows "lookup k (put (f r) t) = Some (f r)"
  using assms lookup_key [OF assms(1)] by (simp add: lookup_put)

lemma modify_other:
  assumes "lookup k t = Some r" and "row_key (f r) = row_key r" and "j \<noteq> k"
  shows "lookup j (put (f r) t) = lookup j t"
  using assms lookup_key [OF assms(1)] by (simp add: lookup_put)

end

text \<open>Every table keyed by a column is an entity store.\<close>

lemma table_entity_store: "entity_store key (find_key key) (save key)"
  by unfold_locales (auto simp: table_simps dest: find_key_SomeD)

section \<open>Machines with an invariant\<close>

text \<open>
  A service whose every operation keeps an invariant of its state: then every sequence of
  operations does, in any order and number.
\<close>

locale invariant_machine =
  fixes step :: "'e \<Rightarrow> 's \<Rightarrow> 's"
    and inv :: "'s \<Rightarrow> bool"
  assumes step_inv: "inv s \<Longrightarrow> inv (step e s)"
begin

lemma run_inv: "inv s \<Longrightarrow> inv (fold step es s)"
  by (induction es arbitrary: s) (auto intro: step_inv)

lemma run_prefix_inv: "inv s \<Longrightarrow> inv (fold step (take n es) s)"
  by (rule run_inv)

end

text \<open>A machine that also only ever grows a measure of its state, such as a log or a counter.\<close>

locale monotone_machine =
  fixes step :: "'e \<Rightarrow> 's \<Rightarrow> 's"
    and level :: "'s \<Rightarrow> 'm :: preorder"
  assumes step_mono: "level s \<le> level (step e s)"
begin

lemma run_mono: "level s \<le> level (fold step es s)"
  by (induction es arbitrary: s) (auto intro: order_trans step_mono)

end

end
