(* ===== verification/Credentials.thy ===== *)
theory Credentials
  imports Tables
begin

text \<open>
  The credentials of API clients and the guards that check them: \<open>ApiKeysService\<close>
  (backend/src/api-keys/api-keys.service.ts), \<open>OauthService\<close> (backend/src/oauth/oauth.service.ts),
  \<open>PublicApiKeyGuard\<close> (backend/src/public-api/guards/public-api-key.guard.ts), \<open>JwtAuthGuard\<close>,
  \<open>RolesGuard\<close> and \<open>ScopeGuard\<close> (backend/src/common). Random strings, new ids and the clock are
  arguments. The cryptographic packages are parameters, collected in a record: the SHA-256
  digest, bcrypt's hash (from a salt) and comparison, and the signing of a JWT with a secret, the
  time and a lifetime in milliseconds.
\<close>

section \<open>Data\<close>

datatype environment = Live | Sandbox

record jwt_claims =
  jc_sub :: string
  jc_tenantId :: string
  jc_role :: string
  jc_email :: "string option"
  jc_fullName :: "string option"
  jc_authType :: "string option"
  jc_environment :: "environment option"
  jc_scopes :: "string list option"
  jc_clientId :: "string option"

record crypto =
  cr_sha256 :: "string \<Rightarrow> string"
  cr_hash :: "string \<Rightarrow> string \<Rightarrow> string"
  cr_compare :: "string \<Rightarrow> string \<Rightarrow> bool"
  cr_sign :: "string \<Rightarrow> jwt_claims \<Rightarrow> int \<Rightarrow> int \<Rightarrow> string"

record api_key =
  ak_id :: string
  ak_tenantId :: string
  ak_name :: string
  ak_keyPrefix :: string
  ak_keyHash :: string
  ak_environment :: environment
  ak_lastUsedAt :: "int option"
  ak_revokedAt :: "int option"
  ak_createdAt :: int

record oauth_client =
  oc_id :: string
  oc_tenantId :: string
  oc_name :: string
  oc_clientId :: string
  oc_clientSecretHash :: string
  oc_scopes :: "string list"
  oc_environment :: environment
  oc_lastUsedAt :: "int option"
  oc_revokedAt :: "int option"
  oc_createdAt :: int

section \<open>API keys\<close>

definition api_key_active :: "api_key \<Rightarrow> bool" where
  "api_key_active k \<longleftrightarrow> ak_revokedAt k = None"

definition list_keys :: "string \<Rightarrow> api_key list \<Rightarrow> api_key list" where
  "list_keys tenantId t = find_desc (\<lambda>k. ak_tenantId k = tenantId \<and> api_key_active k) ak_createdAt t"

definition list_keys_in :: "string \<Rightarrow> environment \<Rightarrow> api_key list \<Rightarrow> api_key list" where
  "list_keys_in tenantId env t =
     find_desc (\<lambda>k. ak_tenantId k = tenantId \<and> ak_environment k = env \<and> api_key_active k) ak_createdAt t"

definition raw_key :: "string \<Rightarrow> string" where
  "raw_key random = ''viq_'' @ random"

definition create_key ::
  "crypto \<Rightarrow> int \<Rightarrow> string \<Rightarrow> string \<Rightarrow> string \<Rightarrow> string \<Rightarrow> environment \<Rightarrow> api_key list \<Rightarrow>
   (string \<times> api_key) \<times> api_key list" where
  "create_key cr now newId random tenantId name env t =
     (let rawKey = raw_key random;
          saved = \<lparr>ak_id = newId, ak_tenantId = tenantId, ak_name = name,
            ak_keyPrefix = take 12 rawKey, ak_keyHash = cr_sha256 cr rawKey, ak_environment = env,
            ak_lastUsedAt = None, ak_revokedAt = None, ak_createdAt = now\<rparr>
      in ((rawKey, saved), save ak_id saved t))"

definition revoke_key :: "int \<Rightarrow> string \<Rightarrow> string \<Rightarrow> api_key list \<Rightarrow> unit result \<times> api_key list" where
  "revoke_key now tenantId i t =
     (case find_one (\<lambda>k. ak_id k = i \<and> ak_tenantId k = tenantId \<and> api_key_active k) t of
        None \<Rightarrow> (Inl (NotFound ''API key not found''), t)
      | Some k \<Rightarrow> (Inr (), save ak_id (k\<lparr>ak_revokedAt := Some now\<rparr>) t))"

definition ensure_sandbox_key ::
  "crypto \<Rightarrow> int \<Rightarrow> string \<Rightarrow> string \<Rightarrow> string \<Rightarrow> api_key list \<Rightarrow>
   (string option \<times> api_key) \<times> api_key list" where
  "ensure_sandbox_key cr now newId random tenantId t =
     (case find_latest (\<lambda>k. ak_tenantId k = tenantId \<and> ak_environment k = Sandbox \<and> api_key_active k)
        ak_createdAt t of
        Some k \<Rightarrow> ((None, k), t)
      | None \<Rightarrow>
          (let ((rawKey, k), t') = create_key cr now newId random tenantId ''Sandbox key'' Sandbox t
           in ((Some rawKey, k), t')))"

text \<open>What the guard writes on the request.\<close>

record api_identity =
  ai_tenantId :: string
  ai_environment :: environment
  ai_keyId :: string

datatype header = NoHeader | OneHeader string | ManyHeaders "string list"

fun header_value :: "header \<Rightarrow> string option" where
  "header_value NoHeader = None"
| "header_value (OneHeader s) = Some s"
| "header_value (ManyHeaders ss) = nth_opt ss 0"

definition public_api_key_guard ::
  "crypto \<Rightarrow> int \<Rightarrow> header \<Rightarrow> api_key list \<Rightarrow> api_identity result \<times> api_key list" where
  "public_api_key_guard cr now h t =
     (case Option.bind (header_value h) nonempty of
        None \<Rightarrow> (Inl (Unauthorized ''Missing x-api-key''), t)
      | Some key \<Rightarrow>
          (case find_one (\<lambda>k. ak_keyHash k = cr_sha256 cr key \<and> api_key_active k) t of
             None \<Rightarrow> (Inl (Unauthorized ''Invalid API key''), t)
           | Some k \<Rightarrow>
               (Inr \<lparr>ai_tenantId = ak_tenantId k, ai_environment = ak_environment k,
                  ai_keyId = ak_id k\<rparr>,
                save ak_id (k\<lparr>ak_lastUsedAt := Some now\<rparr>) t)))"

section \<open>OAuth clients\<close>

definition client_active :: "oauth_client \<Rightarrow> bool" where
  "client_active c \<longleftrightarrow> oc_revokedAt c = None"

definition list_clients :: "string \<Rightarrow> environment option \<Rightarrow> oauth_client list \<Rightarrow> oauth_client list" where
  "list_clients tenantId env t =
     find_desc (\<lambda>c. oc_tenantId c = tenantId \<and> client_active c \<and>
       (case env of None \<Rightarrow> True | Some e \<Rightarrow> oc_environment c = e)) oc_createdAt t"

definition create_client ::
  "crypto \<Rightarrow> int \<Rightarrow> string \<Rightarrow> string \<Rightarrow> string \<Rightarrow> string \<Rightarrow> string \<Rightarrow> string \<Rightarrow> string list option \<Rightarrow>
   environment option \<Rightarrow> oauth_client list \<Rightarrow> (oauth_client \<times> string) \<times> oauth_client list" where
  "create_client cr now newId idRandom secretRandom salt tenantId name scopes env t =
     (let clientSecret = ''viq_cs_'' @ secretRandom;
          saved = \<lparr>oc_id = newId, oc_tenantId = tenantId, oc_name = name,
            oc_clientId = ''viq_cl_'' @ idRandom, oc_clientSecretHash = cr_hash cr salt clientSecret,
            oc_scopes = or_default scopes [], oc_environment = or_default env Live,
            oc_lastUsedAt = None, oc_revokedAt = None, oc_createdAt = now\<rparr>
      in ((saved, clientSecret), save oc_id saved t))"

definition ensure_sandbox_client ::
  "crypto \<Rightarrow> int \<Rightarrow> string \<Rightarrow> string \<Rightarrow> string \<Rightarrow> string \<Rightarrow> string \<Rightarrow> oauth_client list \<Rightarrow>
   (oauth_client \<times> string option) \<times> oauth_client list" where
  "ensure_sandbox_client cr now newId idRandom secretRandom salt tenantId t =
     (case find_latest (\<lambda>c. oc_tenantId c = tenantId \<and> oc_environment c = Sandbox \<and> client_active c)
        oc_createdAt t of
        Some c \<Rightarrow> ((c, None), t)
      | None \<Rightarrow>
          (let ((c, secret), t') = create_client cr now newId idRandom secretRandom salt tenantId
                 ''Sandbox OAuth client''
                 (Some [''companies:read'', ''financials:read'', ''ownership:read'', ''ownership:write''])
                 (Some Sandbox) t
           in ((c, Some secret), t')))"

definition revoke_client :: "int \<Rightarrow> string \<Rightarrow> string \<Rightarrow> oauth_client list \<Rightarrow> bool \<times> oauth_client list" where
  "revoke_client now tenantId i t =
     (case find_one (\<lambda>c. oc_id c = i \<and> oc_tenantId c = tenantId \<and> client_active c) t of
        None \<Rightarrow> (False, t)
      | Some c \<Rightarrow> (True, save oc_id (c\<lparr>oc_revokedAt := Some now\<rparr>) t))"

record token_response =
  tr_access_token :: string
  tr_token_type :: string
  tr_expires_in :: int
  tr_scope :: string

definition requested_scopes :: "string option \<Rightarrow> string list" where
  "requested_scopes s =
     filter (\<lambda>x. x \<noteq> []) (map trim (split_on (CHR '' '') (or_default s [])))"

definition granted_scopes :: "string option \<Rightarrow> oauth_client \<Rightarrow> string list" where
  "granted_scopes requestedScope client =
     (let requested = requested_scopes requestedScope
      in if requested \<noteq> [] then filter (\<lambda>s. s \<in> set (oc_scopes client)) requested
         else oc_scopes client)"

definition client_claims :: "oauth_client \<Rightarrow> string list \<Rightarrow> jwt_claims" where
  "client_claims client scopes =
     \<lparr>jc_sub = ''oauth:'' @ oc_id client, jc_tenantId = oc_tenantId client, jc_role = ''api_client'',
      jc_email = None, jc_fullName = None, jc_authType = Some ''oauth_client_credentials'',
      jc_environment = Some (oc_environment client), jc_scopes = Some scopes,
      jc_clientId = Some (oc_clientId client)\<rparr>"

definition find_active_client :: "string \<Rightarrow> oauth_client list \<Rightarrow> oauth_client option" where
  "find_active_client clientId t = find_one (\<lambda>c. oc_clientId c = clientId \<and> client_active c) t"

definition issue_client_credentials_token ::
  "crypto \<Rightarrow> string \<Rightarrow> int \<Rightarrow> string \<Rightarrow> string \<Rightarrow> string option \<Rightarrow> oauth_client list \<Rightarrow>
   token_response result \<times> oauth_client list" where
  "issue_client_credentials_token cr jwtSecret now clientId clientSecret requestedScope t =
     (case find_active_client clientId t of
        None \<Rightarrow> (Inl (Unauthorized ''invalid_client''), t)
      | Some client \<Rightarrow>
          if \<not> cr_compare cr clientSecret (oc_clientSecretHash client)
          then (Inl (Unauthorized ''invalid_client''), t)
          else (let scopes = granted_scopes requestedScope client
                in (Inr \<lparr>tr_access_token = cr_sign cr jwtSecret (client_claims client scopes) now
                        (3600 * 1000),
                      tr_token_type = ''Bearer'', tr_expires_in = 3600,
                      tr_scope = join '' '' scopes\<rparr>,
                    save oc_id (client\<lparr>oc_lastUsedAt := Some now\<rparr>) t)))"

definition revoke_by_client_credentials ::
  "crypto \<Rightarrow> int \<Rightarrow> string \<Rightarrow> string \<Rightarrow> oauth_client list \<Rightarrow> bool result \<times> oauth_client list" where
  "revoke_by_client_credentials cr now clientId clientSecret t =
     (case find_active_client clientId t of
        None \<Rightarrow> (Inr False, t)
      | Some client \<Rightarrow>
          if \<not> cr_compare cr clientSecret (oc_clientSecretHash client)
          then (Inl (Unauthorized ''invalid_client''), t)
          else (Inr True, save oc_id (client\<lparr>oc_revokedAt := Some now\<rparr>) t))"

section \<open>Guards on access tokens\<close>

definition app_roles :: "string list" where
  "app_roles = [''admin'', ''compliance'', ''reviewer'', ''analyst'']"

text \<open>\<open>handleRequest(err, user)\<close> of the passport guard.\<close>

definition jwt_handle_request ::
  "http_error option \<Rightarrow> jwt_claims option \<Rightarrow> jwt_claims result" where
  "jwt_handle_request err user =
     (case (err, user) of
        (Some e, _) \<Rightarrow> Inl e
      | (None, None) \<Rightarrow> Inl (Unauthorized ''Invalid or missing access token'')
      | (None, Some u) \<Rightarrow>
          if jc_sub u = [] \<or> jc_tenantId u = [] \<or> jc_role u = []
          then Inl (Unauthorized ''Access token is missing required claims'') else Inr u)"

definition roles_guard :: "string list option \<Rightarrow> jwt_claims option \<Rightarrow> bool" where
  "roles_guard requiredRoles user =
     (let role = map_option jc_role user
      in if or_default requiredRoles [] = [] then True
         else (case Option.bind role nonempty of
             None \<Rightarrow> False
           | Some r \<Rightarrow> if r \<notin> set app_roles then False else r \<in> set (or_default requiredRoles [])))"

definition scope_guard :: "string list option \<Rightarrow> jwt_claims option \<Rightarrow> bool result" where
  "scope_guard requiredScopes user =
     (let required = or_default requiredScopes [];
          role = Option.bind (map_option jc_role user) nonempty
      in if required = [] then Inr True
         else if role \<noteq> Some ''api_client'' then Inr True
         else (let scopes = or_default (Option.bind user jc_scopes) []
               in if \<forall>s \<in> set required. s \<in> set scopes then Inr True
                  else Inl (Forbidden ''insufficient_scope'')))"

section \<open>Laws\<close>

interpretation api_keys: entity_store ak_id "find_key ak_id" "save ak_id"
  by (rule table_entity_store)

interpretation oauth_clients: entity_store oc_id "find_key oc_id" "save oc_id"
  by (rule table_entity_store)

lemma granted_scopes_subset: "set (granted_scopes s c) \<subseteq> set (oc_scopes c)"
  by (auto simp: granted_scopes_def Let_def)

lemma find_active_client_SomeD:
  "find_active_client i t = Some c \<Longrightarrow> c \<in> set t \<and> oc_clientId c = i \<and> client_active c"
  by (auto simp: find_active_client_def dest: find_one_SomeD)

lemma find_one_save_new_key:
  assumes "ak_id k \<notin> ak_id ` set t" "p k" "\<forall>x \<in> set t. \<not> p x"
  shows "find_one p (save ak_id k t) = Some k"
  using assms find_one_None_iff [of p t] by (simp add: save_new find_one_append table_simps)

section \<open>Properties\<close>

definition sample_crypto :: crypto where
  "sample_crypto = \<lparr>cr_sha256 = (\<lambda>s. s), cr_hash = (\<lambda>salt s. take 72 s),
     cr_compare = (\<lambda>s h. take 72 s = h), cr_sign = (\<lambda>secret c now ttl. secret @ ''.'' @ jc_sub c)\<rparr>"

text \<open>A new API key is accepted by the guard under the tenant and environment it was made for,
  and rejected as soon as that tenant revokes it. (Its id and its digest are new to the table.)\<close>

theorem api_key_lifecycle:
  assumes "unique_keys ak_id t" and "newId \<notin> ak_id ` set t"
    and "\<forall>k \<in> set t. ak_keyHash k \<noteq> cr_sha256 cr (raw_key random)"
    and "create_key cr now newId random tenantId name env t = ((key, k), t1)"
  shows "fst (public_api_key_guard cr now1 (OneHeader key) t1) =
      Inr \<lparr>ai_tenantId = tenantId, ai_environment = env, ai_keyId = newId\<rparr> \<and>
    (let (r, t2) = revoke_key now2 tenantId newId (snd (public_api_key_guard cr now1 (OneHeader key) t1))
     in r = Inr () \<and>
      fst (public_api_key_guard cr now3 (OneHeader key) t2) = Inl (Unauthorized ''Invalid API key''))"
proof -
  have k: "key = raw_key random" "ak_id k = newId" "ak_tenantId k = tenantId" "ak_environment k = env"
    "ak_keyHash k = cr_sha256 cr key" "api_key_active k" "t1 = save ak_id k t"
    using assms(4) by (auto simp: create_key_def Let_def api_key_active_def)
  have t1: "t1 = t @ [k]" using k(2,7) assms(2) by (simp add: save_new)
  have key: "Option.bind (header_value (OneHeader key)) nonempty = Some key"
    by (simp add: k(1) raw_key_def)
  let ?p = "\<lambda>x. ak_keyHash x = cr_sha256 cr key \<and> api_key_active x"
  have none: "find_one ?p t = None" using assms(3) k(1) by (auto simp: find_one_None_iff)
  then have found: "find_one ?p t1 = Some k" using k(5,6) by (simp add: t1 find_one_append table_simps)
  let ?k = "k\<lparr>ak_lastUsedAt := Some now1\<rparr>"
  have id: "\<forall>x \<in> set t. ak_id x \<noteq> newId" using assms(2) by force
  have saved: "save ak_id k' (t @ [k'']) = t @ [k']" if "ak_id k' = newId" "ak_id k'' = newId" for k' k''
    using id that by (induction t) auto
  have guard: "public_api_key_guard cr now1 (OneHeader key) t1 =
      (Inr \<lparr>ai_tenantId = tenantId, ai_environment = env, ai_keyId = newId\<rparr>, t @ [?k])"
    unfolding public_api_key_guard_def key option.case found
    using k(2,3,4) saved [of ?k k] by (simp add: t1)
  have "find_one (\<lambda>x. ak_id x = newId \<and> ak_tenantId x = tenantId \<and> api_key_active x) t = None"
    using id by (simp add: find_one_None_iff)
  then have revoke: "revoke_key now2 tenantId newId (t @ [?k]) =
      (Inr (), t @ [?k\<lparr>ak_revokedAt := Some now2\<rparr>])"
    using k saved [of "?k\<lparr>ak_revokedAt := Some now2\<rparr>" ?k]
    by (simp add: revoke_key_def find_one_append table_simps api_key_active_def)
  have "find_one ?p (t @ [?k\<lparr>ak_revokedAt := Some now2\<rparr>]) = None"
    using none by (simp add: find_one_append table_simps api_key_active_def)
  then have "fst (public_api_key_guard cr now3 (OneHeader key) (t @ [?k\<lparr>ak_revokedAt := Some now2\<rparr>])) =
      Inl (Unauthorized ''Invalid API key'')"
    unfolding public_api_key_guard_def key option.case by simp
  with guard revoke show ?thesis by simp
qed

theorem api_key_lifecycle_witness:
  "fst (public_api_key_guard sample_crypto 2 (OneHeader ''viq_r'')
     (snd (create_key sample_crypto 1 ''k1'' ''r'' ''t1'' ''main'' Live []))) =
   Inr \<lparr>ai_tenantId = ''t1'', ai_environment = Live, ai_keyId = ''k1''\<rparr>"
proof -
  have "create_key sample_crypto 1 ''k1'' ''r'' ''t1'' ''main'' Live [] =
      ((''viq_r'', snd (fst (create_key sample_crypto 1 ''k1'' ''r'' ''t1'' ''main'' Live []))),
       snd (create_key sample_crypto 1 ''k1'' ''r'' ''t1'' ''main'' Live []))"
    by (simp add: create_key_def raw_key_def Let_def)
  from api_key_lifecycle [OF _ _ _ this, THEN conjunct1] show ?thesis
    by (simp add: table_simps)
qed

text \<open>A client credentials token is issued only to an active client that presents its secret;
  its claims name that client's tenant and environment, and the scope guard then admits the
  token exactly where every required scope is granted, so never beyond the client's own scopes.\<close>

theorem client_token_within_scopes:
  assumes "issue_client_credentials_token cr key now i secret requested t = (Inr r, t')"
  shows "\<exists>c \<in> set t. oc_clientId c = i \<and> client_active c \<and> cr_compare cr secret (oc_clientSecretHash c) \<and>
    (let claims = client_claims c (granted_scopes requested c) in
      tr_access_token r = cr_sign cr key claims now 3600000 \<and>
      jc_tenantId claims = oc_tenantId c \<and> jc_environment claims = Some (oc_environment c) \<and>
      (scope_guard (Some required) (Some claims) = Inr True \<longleftrightarrow>
        set required \<subseteq> set (granted_scopes requested c)) \<and>
      set (granted_scopes requested c) \<subseteq> set (oc_scopes c))"
proof -
  from assms obtain c where c: "find_active_client i t = Some c"
    "cr_compare cr secret (oc_clientSecretHash c)"
    "tr_access_token r = cr_sign cr key (client_claims c (granted_scopes requested c)) now 3600000"
    by (auto simp: issue_client_credentials_token_def Let_def split: option.splits if_splits)
  have "scope_guard (Some required) (Some (client_claims c (granted_scopes requested c))) = Inr True \<longleftrightarrow>
      set required \<subseteq> set (granted_scopes requested c)"
    by (auto simp: scope_guard_def client_claims_def Let_def)
  with c find_active_client_SomeD [OF c(1)] granted_scopes_subset show ?thesis
    by (intro bexI [of _ c]) (auto simp: Let_def client_claims_def)
qed

theorem client_token_within_scopes_witness:
  "\<exists>r t'. issue_client_credentials_token sample_crypto ''k'' 2 ''viq_cl_a'' ''viq_cs_b'' (Some ''x y'')
      (snd (create_client sample_crypto 1 ''c1'' ''a'' ''b'' [] ''t1'' ''main'' (Some [''x'']) None [])) =
      (Inr r, t') \<and>
    (\<exists>c. jc_scopes (client_claims c (granted_scopes (Some ''x y'') c)) = Some [''x''])"
proof -
  let ?t = "snd (create_client sample_crypto 1 ''c1'' ''a'' ''b'' [] ''t1'' ''main'' (Some [''x'']) None [])"
  obtain r t' where r: "issue_client_credentials_token sample_crypto ''k'' 2 ''viq_cl_a'' ''viq_cs_b''
      (Some ''x y'') ?t = (Inr r, t')"
    by (simp add: issue_client_credentials_token_def find_active_client_def create_client_def Let_def
        client_active_def sample_crypto_def table_simps)
  from client_token_within_scopes [OF r] obtain c where c: "c \<in> set ?t" by blast
  then have "oc_scopes c = [''x'']" by (simp add: create_client_def Let_def)
  then have "granted_scopes (Some ''x y'') c = [''x'']"
    by (simp add: granted_scopes_def requested_scopes_def trim_def is_space_def code_def Let_def)
  with r show ?thesis by (auto simp: client_claims_def)
qed

end
