(* ===== verification/Billing.thy ===== *)
theory Billing
  imports Credentials
begin

text \<open>
  \<open>BillingService\<close> (backend/src/billing/billing.service.ts): subscriptions of tenants, check-out,
  the confirmation of a payment and Stripe's webhooks. Stripe's library is a parameter: the
  sessions it creates and retrieves and the events it verifies. A signed event carries an id and
  a type; the rest of it is read as JSON. \<open>db_error\<close> is the error, if any, that the
  database raises while an event is processed.
\<close>

section \<open>State\<close>

record plan =
  pl_code :: string
  pl_name :: string
  pl_monthlyPriceCents :: int
  pl_currency :: string
  pl_isActive :: bool

definition default_plans :: "plan list" where
  "default_plans =
     [\<lparr>pl_code = ''free'', pl_name = ''Free'', pl_monthlyPriceCents = 0, pl_currency = ''SEK'', pl_isActive = True\<rparr>,
      \<lparr>pl_code = ''basic'', pl_name = ''Basic'', pl_monthlyPriceCents = 4900, pl_currency = ''SEK'', pl_isActive = True\<rparr>,
      \<lparr>pl_code = ''pro'', pl_name = ''Pro'', pl_monthlyPriceCents = 99900, pl_currency = ''SEK'', pl_isActive = True\<rparr>]"

record subscription =
  sb_id :: string
  sb_tenantId :: string
  sb_planCode :: string
  sb_status :: string
  sb_providerCustomerId :: "string option"
  sb_providerSubscriptionId :: "string option"
  sb_currentPeriodStart :: "int option"
  sb_currentPeriodEnd :: "int option"
  sb_canceledAt :: "int option"

record webhook_row =
  wr_provider :: string
  wr_eventId :: string
  wr_eventType :: string
  wr_processedAt :: int
  wr_status :: string
  wr_errorMessage :: "string option"

record billing_state =
  bs_subscriptions :: "subscription list"
  bs_webhooks :: "webhook_row list"
  bs_apiKeys :: "api_key list"
  bs_clients :: "oauth_client list"

record stripe_event =
  ev_id :: string
  ev_type :: string
  ev_data :: "rat json option"

record checkout_session =
  cs_id :: string
  cs_url :: "string option"
  cs_paymentStatus :: string
  cs_status :: "string option"
  cs_customer :: "string option"
  cs_subscription :: "string option"

record stripe_api =
  sp_create :: "string option \<Rightarrow> string \<Rightarrow> string \<Rightarrow> string \<Rightarrow> checkout_session result"
  sp_retrieve :: "string \<Rightarrow> checkout_session result"
  sp_construct :: "string \<Rightarrow> string \<Rightarrow> string \<Rightarrow> stripe_event result"
  sp_portal :: "string \<Rightarrow> string result"

record billing_config =
  bc_production :: bool
  bc_webhookSecret :: string
  bc_dashboardBaseUrl :: string
  bc_priceIds :: "string \<Rightarrow> string option"

interpretation subscriptions: entity_store sb_id "find_key sb_id" "save sb_id"
  by (rule table_entity_store)

section \<open>Subscriptions\<close>

definition get_subscription :: "string \<Rightarrow> subscription list \<Rightarrow> subscription option" where
  "get_subscription tenantId t = find_one (\<lambda>s. sb_tenantId s = tenantId) t"

definition upsert_subscription ::
  "string \<Rightarrow> int \<Rightarrow> string \<Rightarrow> string \<Rightarrow> string option \<Rightarrow> subscription list \<Rightarrow>
   subscription \<times> subscription list" where
  "upsert_subscription newId now tenantId planCode status t =
     (case get_subscription tenantId t of
        Some s \<Rightarrow> (let s = s\<lparr>sb_planCode := planCode, sb_status := or_default status (sb_status s)\<rparr>
                 in (s, save sb_id s t))
      | None \<Rightarrow> (let s = \<lparr>sb_id = newId, sb_tenantId = tenantId, sb_planCode = planCode,
                   sb_status = or_default status ''trialing'', sb_providerCustomerId = None,
                   sb_providerSubscriptionId = None, sb_currentPeriodStart = Some now,
                   sb_currentPeriodEnd = None, sb_canceledAt = None\<rparr>
                 in (s, save sb_id s t)))"

definition provision_keys ::
  "crypto \<Rightarrow> (string \<Rightarrow> string) \<Rightarrow> int \<Rightarrow> string \<Rightarrow> string \<Rightarrow> billing_state \<Rightarrow> billing_state" where
  "provision_keys cr fr now tenantId planCode st =
     (let keys = snd (ensure_sandbox_key cr now (fr ''sandbox key id'') (fr ''sandbox key'') tenantId
            (bs_apiKeys st));
          keys = (if planCode \<noteq> ''free'' \<and> list_keys_in tenantId Live keys = []
            then snd (create_key cr now (fr ''live key id'') (fr ''live key'') tenantId
              ''Live API key'' Live keys) else keys)
      in st\<lparr>bs_apiKeys := keys,
            bs_clients := snd (ensure_sandbox_client cr now (fr ''client row id'') (fr ''client id'')
              (fr ''client secret'') (fr ''client salt'') tenantId (bs_clients st))\<rparr>)"

definition activate_plan ::
  "crypto \<Rightarrow> (string \<Rightarrow> string) \<Rightarrow> int \<Rightarrow> string \<Rightarrow> string \<Rightarrow> string option \<Rightarrow> string option \<Rightarrow>
   billing_state \<Rightarrow> subscription \<times> billing_state" where
  "activate_plan cr fr now tenantId planCode customerId subscriptionId st =
     (let (s, t) = upsert_subscription (fr ''subscription id'') now tenantId planCode
            (Some (if planCode = ''free'' then ''trialing'' else ''active'')) (bs_subscriptions st);
          s = s\<lparr>sb_providerCustomerId := or_else customerId (sb_providerCustomerId s),
            sb_providerSubscriptionId := or_else subscriptionId (sb_providerSubscriptionId s),
            sb_currentPeriodStart := Some now\<rparr>
      in (s, provision_keys cr fr now tenantId planCode
               (st\<lparr>bs_subscriptions := save sb_id s t\<rparr>)))"

section \<open>Check-out and confirmation\<close>

definition price_id_for_plan :: "billing_config \<Rightarrow> string \<Rightarrow> string option" where
  "price_id_for_plan cfg planCode =
     (if planCode \<in> set [''free'', ''basic'', ''pro''] then bc_priceIds cfg planCode else None)"

record checkout_reply =
  cy_checkoutUrl :: string
  cy_sessionId :: string

definition create_checkout_session ::
  "billing_config \<Rightarrow> stripe_api option \<Rightarrow> int \<Rightarrow> string \<Rightarrow> string option \<Rightarrow> string \<Rightarrow>
   checkout_reply result" where
  "create_checkout_session cfg stripe now tenantId userEmail planCode =
     (let priceId = Option.bind (price_id_for_plan cfg planCode) nonempty
      in if planCode \<notin> set [''free'', ''basic'', ''pro''] then Inl (BadRequest ''invalid_plan_code'')
         else (case (stripe, priceId) of
             (Some sp, Some price) \<Rightarrow>
               (case sp_create sp userEmail price tenantId planCode of
                  Inl e \<Rightarrow> Inl e
                | Inr s \<Rightarrow> Inr \<lparr>cy_checkoutUrl = or_default (cs_url s) [], cy_sessionId = cs_id s\<rparr>)
           | _ \<Rightarrow>
               if bc_production cfg then Inl (InternalError ''stripe_not_configured'')
               else Inr \<lparr>cy_checkoutUrl = bc_dashboardBaseUrl cfg @ ''/billing?mock=1&plan='' @ planCode,
                 cy_sessionId = ''mock_'' @ tenantId @ ''_'' @ show_int now\<rparr>))"

definition confirm_payment ::
  "crypto \<Rightarrow> (string \<Rightarrow> string) \<Rightarrow> int \<Rightarrow> stripe_api option \<Rightarrow> string \<Rightarrow> string \<Rightarrow> string \<Rightarrow>
   billing_state \<Rightarrow> bool result \<times> billing_state" where
  "confirm_payment cr fr now stripe tenantId sessionId planCode st =
     (case stripe of
        None \<Rightarrow> (Inr True, snd (activate_plan cr fr now tenantId planCode None None st))
      | Some sp \<Rightarrow>
          (case sp_retrieve sp sessionId of
             Inl e \<Rightarrow> (Inl e, st)
           | Inr s \<Rightarrow>
               if cs_paymentStatus s \<noteq> ''paid'' \<and> cs_status s \<noteq> Some ''complete'' then (Inr False, st)
               else (Inr True, snd (activate_plan cr fr now tenantId planCode (cs_customer s)
                      (cs_subscription s) st))))"

definition create_portal_session ::
  "billing_config \<Rightarrow> stripe_api option \<Rightarrow> string \<Rightarrow> billing_state \<Rightarrow> string result" where
  "create_portal_session cfg stripe tenantId st =
     (case (stripe, Option.bind (Option.bind (get_subscription tenantId (bs_subscriptions st))
              sb_providerCustomerId) nonempty) of
        (Some sp, Some customer) \<Rightarrow> sp_portal sp customer
      | _ \<Rightarrow> Inr (bc_dashboardBaseUrl cfg @ ''/billing''))"

section \<open>Webhooks\<close>

text \<open>\<open>event.data.object\<close>, then a member of it; reading from null or undefined throws.\<close>

definition is_nullish :: "rat json option \<Rightarrow> bool" where
  "is_nullish v \<longleftrightarrow> v = None \<or> v = Some JNull"

definition event_object :: "stripe_event \<Rightarrow> rat json option result" where
  "event_object ev =
     (if is_nullish (ev_data ev) then Inl (Failure ''TypeError'')
      else (let s = member_of ''object'' (ev_data ev)
            in if is_nullish s then Inl (Failure ''TypeError'') else Inr s))"

definition checkout_completed ::
  "crypto \<Rightarrow> (string \<Rightarrow> string) \<Rightarrow> int \<Rightarrow> rat json option \<Rightarrow> billing_state \<Rightarrow> billing_state" where
  "checkout_completed cr fr now s st =
     (let metadata = member_of ''metadata'' s;
          tenantId = string_of (member_of ''tenantId'' metadata);
          planCode = or_default (string_of (member_of ''planCode'' metadata)) ''basic''
      in case Option.bind tenantId nonempty of
           None \<Rightarrow> st
         | Some t \<Rightarrow> snd (activate_plan cr fr now t planCode (string_of (member_of ''customer'' s))
                     (string_of (member_of ''subscription'' s)) st))"

definition invoice_paid :: "rat json option \<Rightarrow> billing_state \<Rightarrow> billing_state" where
  "invoice_paid invoice st =
     (case Option.bind (string_of (member_of ''subscription'' invoice)) nonempty of
        None \<Rightarrow> st
      | Some sid \<Rightarrow>
          (case find_one (\<lambda>s. sb_providerSubscriptionId s = Some sid) (bs_subscriptions st) of
             None \<Rightarrow> st
           | Some s \<Rightarrow> st\<lparr>bs_subscriptions :=
               save sb_id (s\<lparr>sb_status := ''active''\<rparr>) (bs_subscriptions st)\<rparr>))"

text \<open>An undefined id in the \<open>where\<close> of the query does not restrict it.\<close>

definition subscription_deleted :: "int \<Rightarrow> rat json option \<Rightarrow> billing_state \<Rightarrow> billing_state" where
  "subscription_deleted now deleted st =
     (let sid = string_of (member_of ''id'' deleted)
      in case find_one (\<lambda>s. sid = None \<or> sb_providerSubscriptionId s = sid) (bs_subscriptions st) of
           None \<Rightarrow> st
         | Some s \<Rightarrow> st\<lparr>bs_subscriptions :=
             save sb_id (s\<lparr>sb_status := ''canceled'', sb_canceledAt := Some now\<rparr>) (bs_subscriptions st)\<rparr>)"

definition process_event ::
  "crypto \<Rightarrow> (string \<Rightarrow> string) \<Rightarrow> int \<Rightarrow> string option \<Rightarrow> stripe_event \<Rightarrow> billing_state \<Rightarrow>
   unit result \<times> billing_state" where
  "process_event cr fr now db_error ev st =
     (let handled = (\<lambda>f. case event_object ev of
            Inl e \<Rightarrow> (Inl e, st)
          | Inr s \<Rightarrow> (case db_error of Some m \<Rightarrow> (Inl (Failure m), st) | None \<Rightarrow> (Inr (), f s)))
      in if ev_type ev = ''checkout.session.completed''
         then handled (\<lambda>s. checkout_completed cr fr now s st)
         else if ev_type ev = ''invoice.payment_succeeded'' then handled (\<lambda>s. invoice_paid s st)
         else if ev_type ev = ''customer.subscription.deleted''
         then handled (\<lambda>s. subscription_deleted now s st)
         else (Inr (), st))"

fun error_message :: "http_error \<Rightarrow> string" where
  "error_message (BadRequest m) = m"
| "error_message (Unauthorized m) = m"
| "error_message (Forbidden m) = m"
| "error_message (NotFound m) = m"
| "error_message (Conflict m) = m"
| "error_message (TooManyRequests m) = m"
| "error_message (InternalError m) = m"
| "error_message (Failure m) = m"

datatype webhook_reply = Skipped | Duplicate | Handled bool

text \<open>The raw body with what \<open>JSON.parse\<close> makes of it.\<close>

record webhook_body =
  wb_raw :: string
  wb_parsed :: "stripe_event result"

definition receive_event ::
  "billing_config \<Rightarrow> stripe_api \<Rightarrow> webhook_body \<Rightarrow> string option \<Rightarrow> stripe_event result" where
  "receive_event cfg sp body signature =
     (case (nonempty (bc_webhookSecret cfg), Option.bind signature nonempty) of
        (Some secret, Some sig) \<Rightarrow> sp_construct sp (wb_raw body) sig secret
      | _ \<Rightarrow> if bc_production cfg then Inl (BadRequest ''stripe_signature_required'')
             else wb_parsed body)"

definition record_event ::
  "crypto \<Rightarrow> (string \<Rightarrow> string) \<Rightarrow> int \<Rightarrow> string option \<Rightarrow> stripe_event \<Rightarrow> billing_state \<Rightarrow>
   webhook_reply \<times> billing_state" where
  "record_event cr fr now db_error ev st =
     (case find_one (\<lambda>w. wr_provider w = ''stripe'' \<and> wr_eventId w = ev_id ev) (bs_webhooks st) of
        Some _ \<Rightarrow> (Duplicate, st)
      | None \<Rightarrow>
          (let row = \<lparr>wr_provider = ''stripe'', wr_eventId = ev_id ev, wr_eventType = ev_type ev,
                 wr_processedAt = now, wr_status = ''processed'', wr_errorMessage = None\<rparr>;
               (r, st) = process_event cr fr now db_error ev st;
               row = (case r of Inl e \<Rightarrow> row\<lparr>wr_status := ''failed'', wr_errorMessage := Some (error_message e)\<rparr>
                      | Inr _ \<Rightarrow> row)
           in (Handled (wr_status row \<noteq> ''failed''), st\<lparr>bs_webhooks := bs_webhooks st @ [row]\<rparr>)))"

definition handle_stripe_webhook ::
  "billing_config \<Rightarrow> stripe_api option \<Rightarrow> crypto \<Rightarrow> (string \<Rightarrow> string) \<Rightarrow> int \<Rightarrow> string option \<Rightarrow>
   webhook_body \<Rightarrow> string option \<Rightarrow> billing_state \<Rightarrow> webhook_reply result \<times> billing_state" where
  "handle_stripe_webhook cfg stripe cr fr now db_error body signature st =
     (case stripe of
        None \<Rightarrow> (Inr Skipped, st)
      | Some sp \<Rightarrow>
          if bc_production cfg \<and> bc_webhookSecret cfg = []
          then (Inl (InternalError ''stripe_webhook_secret_missing''), st)
          else (case receive_event cfg sp body signature of
                  Inl e \<Rightarrow> (Inl e, st)
                | Inr ev \<Rightarrow> (let (reply, st) = record_event cr fr now db_error ev st
                            in (Inr reply, st))))"

section \<open>Laws\<close>

definition one_subscription_each :: "subscription list \<Rightarrow> bool" where
  "one_subscription_each t \<longleftrightarrow> unique_keys sb_id t \<and> unique_keys sb_tenantId t"

lemma get_subscription_key: "get_subscription tenantId t = find_key sb_tenantId tenantId t"
  by (simp add: get_subscription_def find_key_def)

lemma get_subscription_SomeD: "get_subscription i t = Some s \<Longrightarrow> s \<in> set t \<and> sb_tenantId s = i"
  by (auto simp: get_subscription_key dest: find_key_SomeD)

text \<open>A row whose id and tenant select the same rows is saved alike by either.\<close>

definition agrees :: "subscription \<Rightarrow> subscription list \<Rightarrow> bool" where
  "agrees s t \<longleftrightarrow> (\<forall>x \<in> set t. sb_id x = sb_id s \<longleftrightarrow> sb_tenantId x = sb_tenantId s)"

lemma save_agrees: "agrees s t \<Longrightarrow> save sb_id s t = save sb_tenantId s t"
  by (induction t) (auto simp: agrees_def)

lemma agrees_old:
  "one_subscription_each t \<Longrightarrow> s \<in> set t \<Longrightarrow> agrees s t"
  by (auto simp: one_subscription_each_def agrees_def dest: unique_keysD)

lemma agrees_new:
  "sb_id s \<notin> sb_id ` set t \<Longrightarrow> get_subscription (sb_tenantId s) t = None \<Longrightarrow> agrees s t"
  by (fastforce simp: agrees_def get_subscription_def find_one_None_iff image_iff)

lemma agrees_cong: "agrees s t \<Longrightarrow> sb_id r = sb_id s \<Longrightarrow> sb_tenantId r = sb_tenantId s \<Longrightarrow> agrees r t"
  by (simp add: agrees_def)

lemma one_subscription_each_save:
  "one_subscription_each t \<Longrightarrow> save sb_id s t = save sb_tenantId s t \<Longrightarrow>
    one_subscription_each (save sb_id s t)"
  unfolding one_subscription_each_def by (metis unique_keys_save)

lemma upsert_subscription_effect:
  assumes "one_subscription_each t" and "newId \<notin> sb_id ` set t"
    and "upsert_subscription newId now tenantId planCode status t = (s, t')"
  shows "t' = save sb_id s t \<and> agrees s t \<and> sb_tenantId s = tenantId \<and> sb_planCode s = planCode \<and>
    (\<forall>x. status = Some x \<longrightarrow> sb_status s = x)"
proof (cases "get_subscription tenantId t")
  case None
  from assms(3) have s: "sb_id s = newId" "sb_tenantId s = tenantId"
    by (auto simp: None upsert_subscription_def Let_def)
  then have "agrees s t" using None assms(2) by (intro agrees_new) simp_all
  with assms(3) show ?thesis by (auto simp: None upsert_subscription_def Let_def)
next
  case (Some old)
  note old = get_subscription_SomeD [OF Some]
  from assms(3) have s: "sb_id s = sb_id old" "sb_tenantId s = sb_tenantId old"
    by (auto simp: Some upsert_subscription_def Let_def)
  then have "agrees s t" using agrees_cong [OF agrees_old [OF assms(1)]] old by blast
  with assms(3) old show ?thesis by (auto simp: Some upsert_subscription_def Let_def)
qed

lemma activate_plan_effect:
  assumes "one_subscription_each (bs_subscriptions st)" and "fr ''subscription id'' \<notin> sb_id ` set (bs_subscriptions st)"
    and "activate_plan cr fr now tenantId planCode c i st = (s, st')"
  shows "bs_subscriptions st' = save sb_tenantId s (bs_subscriptions st)"
    "one_subscription_each (bs_subscriptions st')"
    "sb_tenantId s = tenantId" "sb_planCode s = planCode"
    "sb_status s = (if planCode = ''free'' then ''trialing'' else ''active'')"
    "bs_webhooks st' = bs_webhooks st"
proof -
  let ?status = "if planCode = ''free'' then ''trialing'' else ''active''"
  obtain s0 t0 where up: "upsert_subscription (fr ''subscription id'') now tenantId planCode (Some ?status)
      (bs_subscriptions st) = (s0, t0)"
    by (cases "upsert_subscription (fr ''subscription id'') now tenantId planCode (Some ?status)
      (bs_subscriptions st)")
  note u = upsert_subscription_effect [OF assms(1,2) up]
  have s: "s = s0\<lparr>sb_providerCustomerId := or_else c (sb_providerCustomerId s0),
      sb_providerSubscriptionId := or_else i (sb_providerSubscriptionId s0), sb_currentPeriodStart := Some now\<rparr>"
    and st': "bs_subscriptions st' = save sb_id s t0" and webhooks: "bs_webhooks st' = bs_webhooks st"
    using assms(3) up by (auto simp: activate_plan_def provision_keys_def Let_def)
  have "save sb_id s t0 = save sb_id s (bs_subscriptions st)"
    using u save_save_same [of sb_id s s0 "bs_subscriptions st"] unfolding s by simp
  moreover have by_tenant: "save sb_id s (bs_subscriptions st) = save sb_tenantId s (bs_subscriptions st)"
    using save_agrees [OF agrees_cong [of s0 _ s]] u unfolding s by simp
  ultimately show "bs_subscriptions st' = save sb_tenantId s (bs_subscriptions st)" by (simp add: st')
  then show "one_subscription_each (bs_subscriptions st')"
    using one_subscription_each_save [OF assms(1) by_tenant] by_tenant by simp
  show "sb_tenantId s = tenantId" "sb_planCode s = planCode" "sb_status s = ?status"
    using u by (simp_all add: s)
  show "bs_webhooks st' = bs_webhooks st" by (rule webhooks)
qed

lemma get_after_activate:
  assumes "one_subscription_each (bs_subscriptions st)" and "fr ''subscription id'' \<notin> sb_id ` set (bs_subscriptions st)"
    and "activate_plan cr fr now tenantId planCode c i st = (s, st')"
  shows "get_subscription j (bs_subscriptions st') =
    (if j = tenantId then Some s else get_subscription j (bs_subscriptions st))"
  using activate_plan_effect [OF assms] by (simp add: get_subscription_key table_simps)

lemma in_list_keys_in:
  "k \<in> set (list_keys_in i e t) \<longleftrightarrow> k \<in> set t \<and> ak_tenantId k = i \<and> ak_environment k = e \<and> api_key_active k"
  by (auto simp: list_keys_in_def set_find_desc)

lemma ensure_sandbox_key_listed:
  "\<exists>k \<in> set (snd (ensure_sandbox_key cr now newId random i t)).
     ak_tenantId k = i \<and> ak_environment k = Sandbox \<and> api_key_active k"
proof (cases "find_latest (\<lambda>k. ak_tenantId k = i \<and> ak_environment k = Sandbox \<and> api_key_active k) ak_createdAt t")
  case None
  then show ?thesis
    by (simp add: ensure_sandbox_key_def create_key_def Let_def)
      (rule bexI [OF _ in_set_save], simp add: api_key_active_def)
next
  case (Some k)
  with find_latest_SomeD [OF Some] show ?thesis by (auto simp: ensure_sandbox_key_def)
qed


definition empty_billing :: billing_state where
  "empty_billing = \<lparr>bs_subscriptions = [], bs_webhooks = [], bs_apiKeys = [], bs_clients = []\<rparr>"

definition sample_event :: stripe_event where
  "sample_event = \<lparr>ev_id = ''evt_1'', ev_type = ''checkout.session.completed'',
     ev_data = Some (JObj [(''object'', JObj [(''customer'', JStr ''cus_1''),
       (''metadata'', JObj [(''tenantId'', JStr ''t1''), (''planCode'', JStr ''pro'')])])])\<rparr>"

lemma sample_event_object: "event_object sample_event = Inr (Some (JObj [(''customer'', JStr ''cus_1''),
    (''metadata'', JObj [(''tenantId'', JStr ''t1''), (''planCode'', JStr ''pro'')])]))"
  by (simp add: event_object_def sample_event_def is_nullish_def Let_def)


lemma known_event:
  assumes "\<exists>w \<in> set (bs_webhooks st). wr_provider w = ''stripe'' \<and> wr_eventId w = ev_id ev"
  shows "record_event cr fr now err ev st = (Duplicate, st)"
proof -
  from assms have "find_one (\<lambda>w. wr_provider w = ''stripe'' \<and> wr_eventId w = ev_id ev) (bs_webhooks st) \<noteq> None"
    by (auto simp: find_one_None_iff)
  then show ?thesis by (auto simp: record_event_def)
qed

text \<open>An event whose processing fails is lost. Its row is stored under the event's id before it
  could be tried again, so every later delivery, however often, is taken for a duplicate
  and the subscriptions stay as they were before the first.\<close>

theorem failed_event_is_lost:
  assumes "\<forall>w \<in> set (bs_webhooks st). wr_eventId w \<noteq> ev_id ev"
    and "ev_type ev = ''checkout.session.completed''" and "event_object ev = Inr s"
    and "record_event cr fr now (Some m) ev st = (reply, st1)"
  shows "reply = Handled False \<and> bs_subscriptions st1 = bs_subscriptions st \<and>
    fold (\<lambda>(fr, now). \<lambda>x. snd (record_event cr fr now None ev x)) deliveries st1 = st1 \<and>
    fst (record_event cr fr2 now2 None ev st1) = Duplicate"
proof -
  have "find_one (\<lambda>w. wr_provider w = ''stripe'' \<and> wr_eventId w = ev_id ev) (bs_webhooks st) = None"
    using assms(1) by (simp add: find_one_None_iff)
  then have r: "record_event cr fr now (Some m) ev st = (Handled False, st\<lparr>bs_webhooks := bs_webhooks st @
      [\<lparr>wr_provider = ''stripe'', wr_eventId = ev_id ev, wr_eventType = ev_type ev, wr_processedAt = now,
        wr_status = ''failed'', wr_errorMessage = Some m\<rparr>]\<rparr>)"
    using assms(2,3) by (simp add: record_event_def process_event_def Let_def)
  moreover have dup: "record_event cr f n None ev st1 = (Duplicate, st1)" for f n
    using r assms(4) by (intro known_event) auto
  moreover have "fold (\<lambda>(fr, now). \<lambda>x. snd (record_event cr fr now None ev x)) deliveries st1 = st1"
    by (induction deliveries) (auto simp: dup)
  ultimately show ?thesis using assms(4) by simp
qed

theorem failed_event_is_lost_witness:
  "\<exists>reply st1. record_event sample_crypto id 5 (Some ''deadlock'') sample_event empty_billing = (reply, st1) \<and>
    reply = Handled False \<and> get_subscription ''t1'' (bs_subscriptions st1) = None"
proof -
  obtain reply st1 where r: "record_event sample_crypto id 5 (Some ''deadlock'') sample_event empty_billing = (reply, st1)"
    by (cases "record_event sample_crypto id 5 (Some ''deadlock'') sample_event empty_billing")
  have "reply = Handled False" "bs_subscriptions st1 = []"
    using failed_event_is_lost [OF _ _ sample_event_object r]
    by (auto simp: empty_billing_def sample_event_def)
  with r show ?thesis by (auto simp: get_subscription_def table_simps)
qed

text \<open>A payment is confirmed for whatever tenant and plan the caller names. Once any session is
  paid, its id activates the named plan, although nothing compares them with the tenant and
  plan the session was paid for.\<close>

theorem confirm_payment_any_plan:
  assumes "one_subscription_each (bs_subscriptions st)"
    and "fr ''subscription id'' \<notin> sb_id ` set (bs_subscriptions st)"
    and "sp_retrieve sp sessionId = Inr session" and "cs_paymentStatus session = ''paid''"
    and "confirm_payment cr fr now (Some sp) tenantId sessionId planCode st = (r, st1)"
  shows "r = Inr True \<and> (\<exists>sub. get_subscription tenantId (bs_subscriptions st1) = Some sub \<and>
    sb_planCode sub = planCode \<and>
    sb_status sub = (if planCode = ''free'' then ''trialing'' else ''active''))"
proof -
  obtain sub st0 where act: "activate_plan cr fr now tenantId planCode (cs_customer session)
      (cs_subscription session) st = (sub, st0)"
    by (cases "activate_plan cr fr now tenantId planCode (cs_customer session) (cs_subscription session) st")
  with assms(3-5) have "r = Inr True" "st1 = st0" by (simp_all add: confirm_payment_def)
  then show ?thesis
    using get_after_activate [OF assms(1,2) act] activate_plan_effect [OF assms(1,2) act] by simp
qed

definition sample_stripe :: stripe_api where
  "sample_stripe = \<lparr>sp_create = (\<lambda>email price tenant planCode. Inl (Failure ''unused'')),
     sp_retrieve = (\<lambda>i. Inr \<lparr>cs_id = i, cs_url = None, cs_paymentStatus = ''paid'', cs_status = None,
       cs_customer = None, cs_subscription = None\<rparr>),
     sp_construct = (\<lambda>raw sig secret. Inr sample_event), sp_portal = (\<lambda>c. Inr c)\<rparr>"

theorem confirm_payment_any_plan_witness:
  "\<exists>r st1 sub. confirm_payment sample_crypto id 5 (Some sample_stripe) ''t2'' ''basic session of t1'' ''pro''
      empty_billing = (r, st1) \<and>
    get_subscription ''t2'' (bs_subscriptions st1) = Some sub \<and> sb_planCode sub = ''pro''"
proof -
  obtain r st1 where r: "confirm_payment sample_crypto id 5 (Some sample_stripe) ''t2'' ''basic session of t1''
      ''pro'' empty_billing = (r, st1)"
    by (cases "confirm_payment sample_crypto id 5 (Some sample_stripe) ''t2'' ''basic session of t1''
      ''pro'' empty_billing")
  have "one_subscription_each (bs_subscriptions empty_billing)"
    by (simp add: one_subscription_each_def empty_billing_def table_simps)
  from confirm_payment_any_plan [OF this _ _ _ r]
  have "\<exists>sub. get_subscription ''t2'' (bs_subscriptions st1) = Some sub \<and> sb_planCode sub = ''pro''"
    by (auto simp: empty_billing_def sample_stripe_def)
  with r show ?thesis by blast
qed

end
