(* ===== verification/Dates.thy ===== *)
theory Dates
  imports Prelude
begin

text \<open>
  \<open>Date.prototype.toISOString\<close>: the calendar date and time of an instant in milliseconds since
  1970, in the proleptic Gregorian calendar and UTC.
\<close>

section \<open>Calendar\<close>

definition ms_per_day :: int where
  "ms_per_day = 86400000"

text \<open>
  The civil date of a day number, with years that begin on the first of March: within an era
  of 400 years (146097 days) the year, then the day of that year, then the month.
\<close>

definition civil_of_day :: "int \<Rightarrow> int \<times> int \<times> int" where
  "civil_of_day day =
     (let z = day + 719468;
          era = z div 146097;
          doe = z mod 146097;
          yoe = (doe - doe div 1460 + doe div 36524 - doe div 146096) div 365;
          doy = doe - (365 * yoe + yoe div 4 - yoe div 100);
          mp = (5 * doy + 2) div 153;
          d = doy - (153 * mp + 2) div 5 + 1;
          m = (if mp < 10 then mp + 3 else mp - 9);
          y = yoe + era * 400
      in (if m \<le> 2 then y + 1 else y, m, d))"

definition pad :: "nat \<Rightarrow> int \<Rightarrow> string" where
  "pad w i = (let s = show_int i in replicate (w - length s) (CHR ''0'') @ s)"

text \<open>Years outside 0 to 9999 print a sign and six digits.\<close>

definition iso_year :: "int \<Rightarrow> string" where
  "iso_year y = (if 0 \<le> y \<and> y \<le> 9999 then pad 4 y
     else if y < 0 then ''-'' @ pad 6 (- y) else ''+'' @ pad 6 y)"

definition iso_string :: "int \<Rightarrow> string" where
  "iso_string ms =
     (let (y, m, d) = civil_of_day (ms div ms_per_day);
          t = ms mod ms_per_day
      in iso_year y @ ''-'' @ pad 2 m @ ''-'' @ pad 2 d @ ''T'' @
         pad 2 (t div 3600000) @ '':'' @ pad 2 (t div 60000 mod 60) @ '':'' @
         pad 2 (t div 1000 mod 60) @ ''.'' @ pad 3 (t mod 1000) @ ''Z'')"

lemma civil_of_samples:
  "civil_of_day 0 = (1970, 1, 1)" "civil_of_day (- 1) = (1969, 12, 31)"
  "civil_of_day 19782 = (2024, 2, 29)" "civil_of_day 19783 = (2024, 3, 1)"
  "civil_of_day 11016 = (2000, 2, 29)" "civil_of_day 47541 = (2100, 3, 1)"
  by code_simp+

lemma iso_string_sample: "iso_string 1709212807045 = ''2024-02-29T13:20:07.045Z''"
  by code_simp

end
