(* ===== verification/ApiQuota.thy ===== *)
theory ApiQuota
  imports Billing Dates
begin

text \<open>
  \<open>ApiQuotaService\<close> (backend/src/common/services/api-quota.service.ts) and \<open>ApiQuotaInterceptor\<close>
  (backend/src/common/interceptors/api-quota.interceptor.ts): the daily quota of API calls,
  counted in Redis. Redis is its map of counters with their expiry, and whether it can be
  reached; an operation counts the calls of one key and UTC day.
\<close>

section \<open>Configuration\<close>

text \<open>An environment variable as \<open>Number\<close> reads it; limits are whole numbers. \<open>None\<close> as a
  limit is \<open>NaN\<close>, with which every comparison fails.\<close>

datatype env_number = Unset | NotANumber | Number int

record quota_config =
  qc_api :: "string \<Rightarrow> env_number"
  qc_ar :: "string \<Rightarrow> env_number"

text \<open>\<open>Number(first ?? '') || Number(second ?? fallback)\<close>\<close>

definition configured_limit :: "env_number \<Rightarrow> env_number \<Rightarrow> int \<Rightarrow> int option" where
  "configured_limit first second fallback =
     (let rest = (case second of Unset \<Rightarrow> Some fallback | NotANumber \<Rightarrow> None | Number n \<Rightarrow> Some n)
      in case first of Number n \<Rightarrow> if n \<noteq> 0 then Some n else rest | _ \<Rightarrow> rest)"

definition plan_code_for_tenant :: "string \<Rightarrow> subscription list \<Rightarrow> string" where
  "plan_code_for_tenant tenantId subs =
     (let raw = to_lower (or_default (map_option sb_planCode (get_subscription tenantId subs)) ''free'')
      in if raw = ''pro'' then ''pro'' else if raw = ''basic'' then ''basic'' else ''free'')"

definition plan_default :: "string \<Rightarrow> int" where
  "plan_default plan = (if plan = ''pro'' then 50000 else if plan = ''basic'' then 5000 else 500)"

definition daily_limit_for_plan :: "quota_config \<Rightarrow> string \<Rightarrow> int option" where
  "daily_limit_for_plan cfg plan =
     map_option (max 1) (configured_limit (qc_api cfg plan) (qc_ar cfg plan) (plan_default plan))"

section \<open>Redis\<close>

record counter =
  ct_value :: int
  ct_expiresAt :: "int option"

record redis =
  rd_ready :: bool
  rd_counters :: "string \<Rightarrow> counter option"

definition live_counter :: "int \<Rightarrow> string \<Rightarrow> redis \<Rightarrow> counter option" where
  "live_counter now key rd =
     (case rd_counters rd key of
        None \<Rightarrow> None
      | Some c \<Rightarrow> (case ct_expiresAt c of
          None \<Rightarrow> Some c
        | Some e \<Rightarrow> if now < e then Some c else None))"

definition redis_incr :: "int \<Rightarrow> string \<Rightarrow> redis \<Rightarrow> int \<times> redis" where
  "redis_incr now key rd =
     (let c = (case live_counter now key rd of
            None \<Rightarrow> \<lparr>ct_value = 1, ct_expiresAt = None\<rparr>
          | Some c \<Rightarrow> c\<lparr>ct_value := ct_value c + 1\<rparr>)
      in (ct_value c, rd\<lparr>rd_counters := (rd_counters rd)(key \<mapsto> c)\<rparr>))"

definition redis_expire :: "int \<Rightarrow> string \<Rightarrow> int \<Rightarrow> redis \<Rightarrow> redis" where
  "redis_expire now key seconds rd =
     (case live_counter now key rd of
        None \<Rightarrow> rd
      | Some c \<Rightarrow> rd\<lparr>rd_counters := (rd_counters rd)
          (key \<mapsto> c\<lparr>ct_expiresAt := Some (now + seconds * 1000)\<rparr>)\<rparr>)"

definition redis_get :: "int \<Rightarrow> string \<Rightarrow> redis \<Rightarrow> int option" where
  "redis_get now key rd = map_option ct_value (live_counter now key rd)"

section \<open>The quota\<close>

definition utc_day :: "int \<Rightarrow> string" where
  "utc_day now = take 10 (iso_string now)"

definition redis_key :: "string \<Rightarrow> string \<Rightarrow> string \<Rightarrow> string \<Rightarrow> string \<Rightarrow> string" where
  "redis_key bucket environment tenantId clientKey day =
     (if bucket = ''financial-api''
      then join '':'' [''quota:financial-api'', environment, tenantId, clientKey, day]
      else join '':'' [''quota:api'', bucket, environment, tenantId, clientKey, day])"

record quota_params =
  qp_tenantId :: string
  qp_environment :: string
  qp_clientKey :: string
  qp_bucket :: string

record quota_reply =
  qr_allowed :: bool
  qr_limit :: "int option"
  qr_remaining :: "int option"
  qr_plan :: string

definition quota_key :: "int \<Rightarrow> quota_params \<Rightarrow> string" where
  "quota_key now p =
     redis_key (qp_bucket p) (qp_environment p) (qp_tenantId p) (qp_clientKey p) (utc_day now)"

definition consume_quota ::
  "quota_config \<Rightarrow> subscription list \<Rightarrow> int \<Rightarrow> quota_params \<Rightarrow> redis \<Rightarrow> quota_reply \<times> redis" where
  "consume_quota cfg subs now p rd =
     (let plan = plan_code_for_tenant (qp_tenantId p) subs;
          limit = daily_limit_for_plan cfg plan
      in if \<not> rd_ready rd
         then (\<lparr>qr_allowed = True, qr_limit = limit, qr_remaining = limit, qr_plan = plan\<rparr>, rd)
         else (let key = quota_key now p;
                   (used, rd) = redis_incr now key rd;
                   rd = (if used = 1 then redis_expire now key (60 * 60 * 24 + 120) rd else rd)
               in (\<lparr>qr_allowed = (case limit of None \<Rightarrow> False | Some l \<Rightarrow> used \<le> l), qr_limit = limit,
                    qr_remaining = map_option (\<lambda>l. max 0 (l - used)) limit, qr_plan = plan\<rparr>, rd)))"

record quota_reading =
  qd_limit :: "int option"
  qd_remaining :: "int option"
  qd_used :: int
  qd_plan :: string

definition read_quota ::
  "quota_config \<Rightarrow> subscription list \<Rightarrow> int \<Rightarrow> quota_params \<Rightarrow> redis \<Rightarrow> quota_reading" where
  "read_quota cfg subs now p rd =
     (let plan = plan_code_for_tenant (qp_tenantId p) subs;
          limit = daily_limit_for_plan cfg plan
      in if \<not> rd_ready rd
         then \<lparr>qd_limit = limit, qd_remaining = limit, qd_used = 0, qd_plan = plan\<rparr>
         else (let used = max 0 (or_default (redis_get now (quota_key now p) rd) 0)
               in \<lparr>qd_limit = limit, qd_remaining = map_option (\<lambda>l. max 0 (l - used)) limit,
                   qd_used = used, qd_plan = plan\<rparr>))"

section \<open>The interceptor\<close>

text \<open>The members of the request's user that are strings.\<close>

record quota_user =
  qu_tenantId :: "string option"
  qu_environment :: "string option"
  qu_clientId :: "string option"
  qu_sub :: "string option"

datatype 'a intercepted =
    PassOn 'a "(string \<times> string) list"
  | RateLimited "(string \<times> string) list"

definition show_limit :: "int option \<Rightarrow> string" where
  "show_limit l = (case l of None \<Rightarrow> ''NaN'' | Some n \<Rightarrow> show_int n)"

definition quota_headers :: "string \<Rightarrow> quota_reply \<Rightarrow> (string \<times> string) list" where
  "quota_headers environment q =
     [(''X-RateLimit-Limit'', show_limit (qr_limit q)),
      (''X-RateLimit-Remaining'', show_limit (qr_remaining q)),
      (''X-Plan'', qr_plan q), (''X-Environment'', environment)]"

definition quota_intercept ::
  "quota_config \<Rightarrow> subscription list \<Rightarrow> int \<Rightarrow> string option \<Rightarrow> quota_user option \<Rightarrow> (unit \<Rightarrow> 'a) \<Rightarrow>
   redis \<Rightarrow> 'a intercepted result \<times> redis" where
  "quota_intercept cfg subs now bucket user handle rd =
     (case Option.bind bucket nonempty of
        None \<Rightarrow> (Inr (PassOn (handle ()) []), rd)
      | Some b \<Rightarrow>
          (case Option.bind (Option.bind user qu_tenantId) nonempty of
             None \<Rightarrow> (Inl (BadRequest ''tenant_required''), rd)
           | Some tenantId \<Rightarrow>
               (let environment = or_default (Option.bind user qu_environment) ''live'';
                    clientKey = or_default (or_else (Option.bind user qu_clientId) (Option.bind user qu_sub)) ''user'';
                    (q, rd) = consume_quota cfg subs now \<lparr>qp_tenantId = tenantId,
                      qp_environment = environment, qp_clientKey = clientKey, qp_bucket = b\<rparr> rd
                in if \<not> qr_allowed q then (Inr (RateLimited (quota_headers environment q)), rd)
                   else (Inr (PassOn (handle ()) (quota_headers environment q)), rd))))"

section \<open>Laws\<close>

lemma length_pad: "w \<le> length (pad w i)"
  by (simp add: pad_def Let_def)

lemma length_iso_year: "4 \<le> length (iso_year y)"
  using length_pad [of 4 y] length_pad [of 6 y] length_pad [of 6 "- y"] by (simp add: iso_year_def)

lemma utc_day_eq:
  "utc_day now = (let (y, m, d) = civil_of_day (now div ms_per_day)
     in take 10 (iso_year y @ ''-'' @ pad 2 m @ ''-'' @ pad 2 d))"
proof -
  obtain y m d where c: "civil_of_day (now div ms_per_day) = (y, m, d)"
    by (cases "civil_of_day (now div ms_per_day)")
  have "10 \<le> length (iso_year y @ ''-'' @ pad 2 m @ ''-'' @ pad 2 d)"
    using length_iso_year [of y] length_pad [of 2 m] length_pad [of 2 d] by simp
  then have "take 10 ((iso_year y @ ''-'' @ pad 2 m @ ''-'' @ pad 2 d) @ z) =
      take 10 (iso_year y @ ''-'' @ pad 2 m @ ''-'' @ pad 2 d)" for z
    by (simp only: take_append) simp
  then show ?thesis
    by (simp add: utc_day_def iso_string_def c Let_def)
qed

lemma utc_day_cong: "s div ms_per_day = t div ms_per_day \<Longrightarrow> utc_day s = utc_day t"
  by (simp add: utc_day_eq)

lemma quota_key_cong: "s div ms_per_day = t div ms_per_day \<Longrightarrow> quota_key s p = quota_key t p"
  by (simp add: quota_key_def utc_day_cong [of s t])

text \<open>The calls of a list of instants, one after the other.\<close>

fun quota_calls ::
  "quota_config \<Rightarrow> subscription list \<Rightarrow> quota_params \<Rightarrow> int list \<Rightarrow> redis \<Rightarrow> quota_reply list \<times> redis" where
  "quota_calls cfg subs p [] rd = ([], rd)"
| "quota_calls cfg subs p (t # ts) rd =
     (let (q, rd) = consume_quota cfg subs t p rd;
          (qs, rd) = quota_calls cfg subs p ts rd
      in (q # qs, rd))"

definition counts :: "string \<Rightarrow> int \<Rightarrow> nat \<Rightarrow> redis \<Rightarrow> bool" where
  "counts key d n rd \<longleftrightarrow> rd_ready rd \<and>
     (if n = 0 then rd_counters rd key = None
      else (\<exists>e. rd_counters rd key = Some \<lparr>ct_value = int n, ct_expiresAt = Some e\<rparr> \<and> (d + 1) * ms_per_day \<le> e))"

lemma day_bounds: "t div ms_per_day = d \<Longrightarrow> d * ms_per_day \<le> t \<and> t < (d + 1) * ms_per_day"
  by (auto simp: ms_per_day_def)

lemma consume_counts:
  assumes "counts key d n rd" and "t div ms_per_day = d" and "key = quota_key t p"
    and "daily_limit_for_plan cfg (plan_code_for_tenant (qp_tenantId p) subs) = Some l"
  shows "\<exists>q rd'. consume_quota cfg subs t p rd = (q, rd') \<and> qr_allowed q = (int (Suc n) \<le> l) \<and>
    counts key d (Suc n) rd'"
proof (cases n)
  case 0
  have "(d + 1) * ms_per_day \<le> t + 86520000"
    using day_bounds [OF assms(2)] by (simp add: ms_per_day_def)
  with 0 assms show ?thesis
    by (simp add: consume_quota_def counts_def redis_incr_def redis_expire_def live_counter_def Let_def)
next
  case (Suc m)
  with assms(1) obtain e where e: "rd_ready rd"
    "rd_counters rd key = Some \<lparr>ct_value = int n, ct_expiresAt = Some e\<rparr>" "(d + 1) * ms_per_day \<le> e"
    by (auto simp: counts_def)
  then have "t < e" using day_bounds [OF assms(2)] by simp
  with e Suc assms(3,4) show ?thesis
    by (simp add: consume_quota_def counts_def redis_incr_def live_counter_def Let_def)
qed

lemma quota_calls_counts:
  assumes "counts key d n rd" and "\<forall>t \<in> set ts. t div ms_per_day = d \<and> key = quota_key t p"
    and "daily_limit_for_plan cfg (plan_code_for_tenant (qp_tenantId p) subs) = Some l"
  shows "map qr_allowed (fst (quota_calls cfg subs p ts rd)) = map (\<lambda>i. int (n + i) < l) [0..<length ts] \<and>
    counts key d (n + length ts) (snd (quota_calls cfg subs p ts rd))"
  using assms(1,2)
proof (induction ts arbitrary: n rd)
  case Nil
  then show ?case by simp
next
  case (Cons t ts)
  from Cons.prems consume_counts [OF Cons.prems(1) _ _ assms(3), of t] obtain q rd' where
    q: "consume_quota cfg subs t p rd = (q, rd')" "qr_allowed q = (int (Suc n) \<le> l)" "counts key d (Suc n) rd'"
    by auto
  have "map (\<lambda>i. int (n + i) < l) [0..<Suc (length ts)] =
      (int n < l) # map (\<lambda>i. int (Suc n + i) < l) [0..<length ts]"
    by (simp add: upt_conv_Cons map_Suc_upt [symmetric] algebra_simps del: upt_Suc)
  with Cons.IH [OF q(3)] Cons.prems(2) q(1,2) show ?case
    by (auto simp: case_prod_beta)
qed

lemma configured_limit_None:
  "configured_limit a b f = None \<longleftrightarrow> (b = NotANumber \<and> (\<forall>n. a = Number n \<longrightarrow> n = 0))"
  by (auto simp: configured_limit_def split: env_number.splits)

text \<open>C29: On one UTC day the calls of one client are allowed one by one until the plan's limit is
  used up, and none after that; the quota then reads as that many calls used. The counter of
  the day never expires before the day is over.\<close>

theorem daily_quota_exact:
  assumes "rd_ready rd" and "\<forall>x \<in> set (t # ts). x div ms_per_day = d"
    and "rd_counters rd (quota_key t p) = None"
    and "daily_limit_for_plan cfg (plan_code_for_tenant (qp_tenantId p) subs) = Some l"
  shows "map qr_allowed (fst (quota_calls cfg subs p (t # ts) rd)) =
      map (\<lambda>i. int i < l) [0..<Suc (length ts)] \<and>
    qd_used (read_quota cfg subs t p (snd (quota_calls cfg subs p (t # ts) rd))) = int (Suc (length ts))"
proof -
  have "counts (quota_key t p) d 0 rd" using assms(1,3) by (simp add: counts_def)
  moreover have "\<forall>x \<in> set (t # ts). x div ms_per_day = d \<and> quota_key t p = quota_key x p"
    using assms(2) by (auto intro!: quota_key_cong)
  ultimately have run: "map qr_allowed (fst (quota_calls cfg subs p (t # ts) rd)) =
      map (\<lambda>i. int (0 + i) < l) [0..<length (t # ts)]"
    "counts (quota_key t p) d (0 + length (t # ts)) (snd (quota_calls cfg subs p (t # ts) rd))"
    using quota_calls_counts [OF _ _ assms(4), of "quota_key t p" d 0 rd "t # ts"] by blast+
  have "t < (d + 1) * ms_per_day" using day_bounds [of t d] assms(2) by simp
  define rd' where "rd' = snd (quota_calls cfg subs p (t # ts) rd)"
  from run(2) obtain e where "rd_ready rd'" "rd_counters rd' (quota_key t p) =
      Some \<lparr>ct_value = int (Suc (length ts)), ct_expiresAt = Some e\<rparr>" "(d + 1) * ms_per_day \<le> e"
    unfolding rd'_def [symmetric] counts_def by (auto simp del: quota_calls.simps)
  with \<open>t < (d + 1) * ms_per_day\<close> have "qd_used (read_quota cfg subs t p rd') = int (Suc (length ts))"
    by (simp add: read_quota_def redis_get_def live_counter_def Let_def)
  with run(1) show ?thesis unfolding rd'_def [symmetric] by simp
qed

definition sample_quota_config :: quota_config where
  "sample_quota_config = \<lparr>qc_api = (\<lambda>plan. if plan = ''free'' then Number 2 else Unset), qc_ar = (\<lambda>_. Unset)\<rparr>"

definition sample_quota_params :: quota_params where
  "sample_quota_params = \<lparr>qp_tenantId = ''t1'', qp_environment = ''live'', qp_clientKey = ''user'',
     qp_bucket = ''financial-api''\<rparr>"

theorem daily_quota_exact_witness:
  "map qr_allowed (fst (quota_calls sample_quota_config [] sample_quota_params [10, 20, 30]
     \<lparr>rd_ready = True, rd_counters = (\<lambda>_. None)\<rparr>)) = [True, True, False]"
proof -
  have limit: "daily_limit_for_plan sample_quota_config (plan_code_for_tenant (qp_tenantId sample_quota_params) []) = Some 2"
    by (simp add: daily_limit_for_plan_def plan_code_for_tenant_def get_subscription_def table_simps
        sample_quota_config_def configured_limit_def lower_char_def code_def Let_def)
  show ?thesis
    using daily_quota_exact [OF _ _ _ limit, where rd = "\<lparr>rd_ready = True, rd_counters = (\<lambda>_. None)\<rparr>" and t = 10 and ts = "[20, 30]" and d = 0,
        THEN conjunct1]
    by (simp add: ms_per_day_def upt_rec del: quota_calls.simps)
qed

lemma get_subscription_save:
  assumes "unique_keys sb_id t" and "s \<in> set t" and "sb_id s' = sb_id s" and "sb_tenantId s' = sb_tenantId s"
  shows "get_subscription j (save sb_id s' t) = map_option (\<lambda>x. if x = s then s' else x) (get_subscription j t)"
  using assms
proof (induction t)
  case Nil
  then show ?case by simp
next
  case (Cons x t)
  show ?case
  proof (cases "x = s")
    case True
    have "map_option (\<lambda>x. if x = s then s' else x) (get_subscription j t) = get_subscription j t"
      using Cons.prems(1) True get_subscription_SomeD [of j t]
      by (cases "get_subscription j t") (auto simp: table_simps)
    with True Cons.prems show ?thesis by (auto simp: get_subscription_def table_simps)
  next
    case False
    with Cons show ?thesis by (auto simp: get_subscription_def table_simps)
  qed
qed

text \<open>The cancellation of a subscription does not touch the quota. Stripe's event sets the
  status of the subscription, but the quota looks only at the plan code, so every tenant's
  calls are counted against the same limit before and after.\<close>

theorem canceled_keeps_quota:
  assumes "unique_keys sb_id (bs_subscriptions st)" and "string_of (member_of ''id'' deleted) = Some sid"
    and "find_one (\<lambda>s. sb_providerSubscriptionId s = Some sid) (bs_subscriptions st) = Some s"
    and "get_subscription (sb_tenantId s) (bs_subscriptions st) = Some s"
  shows "map_option sb_status (get_subscription (sb_tenantId s)
      (bs_subscriptions (subscription_deleted now deleted st))) = Some ''canceled'' \<and>
    consume_quota cfg (bs_subscriptions (subscription_deleted now deleted st)) t p rd =
      consume_quota cfg (bs_subscriptions st) t p rd"
proof -
  let ?s = "s\<lparr>sb_status := ''canceled'', sb_canceledAt := Some now\<rparr>"
  have subs: "bs_subscriptions (subscription_deleted now deleted st) = save sb_id ?s (bs_subscriptions st)"
    using assms(2,3) by (simp add: subscription_deleted_def)
  have "s \<in> set (bs_subscriptions st)" using find_one_SomeD [OF assms(3)] by simp
  note get = get_subscription_save [OF assms(1) this, of ?s]
  have "map_option sb_planCode (get_subscription j (save sb_id ?s (bs_subscriptions st))) =
      map_option sb_planCode (get_subscription j (bs_subscriptions st))" for j
    by (cases "get_subscription j (bs_subscriptions st)") (auto simp: get)
  then have "plan_code_for_tenant j (save sb_id ?s (bs_subscriptions st)) =
      plan_code_for_tenant j (bs_subscriptions st)" for j
    by (simp add: plan_code_for_tenant_def)
  with assms(4) show ?thesis by (simp add: subs get consume_quota_def)
qed

definition paying_state :: billing_state where
  "paying_state = empty_billing\<lparr>bs_subscriptions := [\<lparr>sb_id = ''s1'', sb_tenantId = ''t1'', sb_planCode = ''pro'',
     sb_status = ''active'', sb_providerCustomerId = None, sb_providerSubscriptionId = Some ''sub_1'',
     sb_currentPeriodStart = None, sb_currentPeriodEnd = None, sb_canceledAt = None\<rparr>]\<rparr>"

theorem canceled_keeps_quota_witness:
  "fst (consume_quota sample_quota_config
     (bs_subscriptions (subscription_deleted 5 (Some (JObj [(''id'', JStr ''sub_1'')])) paying_state)) 10 sample_quota_params
     \<lparr>rd_ready = False, rd_counters = (\<lambda>_. None)\<rparr>) =
   \<lparr>qr_allowed = True, qr_limit = Some 50000, qr_remaining = Some 50000, qr_plan = ''pro''\<rparr>"
proof -
  have "consume_quota sample_quota_config
     (bs_subscriptions (subscription_deleted 5 (Some (JObj [(''id'', JStr ''sub_1'')])) paying_state)) 10 sample_quota_params
     \<lparr>rd_ready = False, rd_counters = (\<lambda>_. None)\<rparr> = consume_quota sample_quota_config
     (bs_subscriptions paying_state) 10 sample_quota_params \<lparr>rd_ready = False, rd_counters = (\<lambda>_. None)\<rparr>"
    using canceled_keeps_quota [of paying_state "Some (JObj [(''id'', JStr ''sub_1'')])" "''sub_1''"
        "hd (bs_subscriptions paying_state)" 5 sample_quota_config 10 sample_quota_params
        "\<lparr>rd_ready = False, rd_counters = (\<lambda>_. None)\<rparr>"]
    by (simp add: paying_state_def get_subscription_def table_simps)
  then show ?thesis
    by (simp add: consume_quota_def paying_state_def sample_quota_params_def plan_code_for_tenant_def
        get_subscription_def table_simps daily_limit_for_plan_def sample_quota_config_def
        configured_limit_def plan_default_def lower_char_def code_def Let_def)
qed

end
