(* ===== verification/AuditTrail.thy ===== *)
theory AuditTrail
  imports Tables
begin

text \<open>
  \<open>AuditService\<close> (backend/src/audit/audit.service.ts) with its three tables. Every write is
  best effort: a database error is caught and logged, so a write never fails for the caller;
  \<open>au_up\<close> says whether the database takes writes. Row ids, which nothing reads, are left out.
\<close>

datatype audit_event_type =
    LOOKUP_INITIATED | LOOKUP_COMPLETED | REFRESH_INITIATED | REFRESH_COMPLETED
  | FORCE_REFRESH | SENSITIVE_ACCESS | PERMISSION_DENIED | CACHE_HIT | CACHE_MISS
  | STALE_SERVED | PROVIDER_CALLED | FAILURE_STATE

record audit_row =
  ar_tenantId :: string
  ar_actorUserId :: "string option"
  ar_category :: string
  ar_action :: string
  ar_entityType :: string
  ar_entityId :: "string option"
  ar_metadata :: "rat members"
  ar_createdAt :: int

record audit_event =
  ae_tenantId :: string
  ae_userId :: "string option"
  ae_eventType :: audit_event_type
  ae_action :: string
  ae_status :: string
  ae_resourceId :: "string option"
  ae_correlationId :: "string option"
  ae_costImpact :: "rat members"
  ae_metadata :: "rat members"
  ae_retentionExpiresAt :: "int option"
  ae_createdAt :: int

text \<open>The tables, the database clock and its availability.\<close>

record audit_store =
  au_logs :: "audit_row list"
  au_events :: "audit_event list"
  au_usage :: "audit_event list"
  au_now :: int
  au_up :: bool

definition empty_audit :: audit_store where
  "empty_audit = \<lparr>au_logs = [], au_events = [], au_usage = [], au_now = 0, au_up = True\<rparr>"

record create_audit_log_input =
  al_tenantId :: string
  al_actorId :: "string option"
  al_action :: string
  al_resourceType :: string
  al_resourceId :: string
  al_metadata :: "rat members option"

record create_audit_event_input =
  ei_tenantId :: string
  ei_userId :: "string option"
  ei_eventType :: audit_event_type
  ei_action :: string
  ei_status :: string
  ei_resourceId :: "string option"
  ei_correlationId :: "string option"
  ei_costImpact :: "rat members option"
  ei_metadata :: "rat members option"
  ei_retentionExpiresAt :: "int option"

text \<open>A nullable string in audit metadata.\<close>

definition json_str :: "string option \<Rightarrow> rat json" where
  "json_str s = (case s of None \<Rightarrow> JNull | Some t \<Rightarrow> JStr t)"

section \<open>Operations\<close>

definition is_hex :: "char \<Rightarrow> bool" where
  "is_hex c \<longleftrightarrow> is_digit c \<or> (let n = code (lower_char c) in 97 \<le> n \<and> n \<le> 102)"

definition uuid_regex :: "(char \<Rightarrow> bool) list" where
  "uuid_regex = replicate 8 is_hex @ [lit CHR ''-''] @ replicate 4 is_hex @ [lit CHR ''-''] @
     [\<lambda>c. c \<in> set ''12345''] @ replicate 3 is_hex @ [lit CHR ''-''] @
     [\<lambda>c. lower_char c \<in> set ''89ab''] @ replicate 3 is_hex @ [lit CHR ''-''] @
     replicate 12 is_hex"

definition is_uuid :: "string \<Rightarrow> bool" where
  "is_uuid s = matches uuid_regex s"

definition audit_category :: "create_audit_log_input \<Rightarrow> string" where
  "audit_category i =
     (if CHR ''.'' \<in> set (al_action i) then hd (split_on CHR ''.'' (al_action i))
      else al_resourceType i)"

definition log_row :: "int \<Rightarrow> create_audit_log_input \<Rightarrow> audit_row" where
  "log_row now i =
     (let entityId = (if is_uuid (al_resourceId i) then Some (al_resourceId i) else None)
      in \<lparr>ar_tenantId = al_tenantId i,
          ar_actorUserId = al_actorId i,
          ar_category = audit_category i,
          ar_action = al_action i,
          ar_entityType = al_resourceType i,
          ar_entityId = entityId,
          ar_metadata = spread (or_default (al_metadata i) [])
            (case entityId of None \<Rightarrow> [(''resourceId'', JStr (al_resourceId i))] | Some _ \<Rightarrow> []),
          ar_createdAt = now\<rparr>)"

definition audit_log :: "create_audit_log_input \<Rightarrow> audit_store \<Rightarrow> audit_store" where
  "audit_log i st =
     (if au_up st then st\<lparr>au_logs := au_logs st @ [log_row (au_now st) i]\<rparr> else st)"

definition event_row :: "int \<Rightarrow> create_audit_event_input \<Rightarrow> audit_event" where
  "event_row now i =
     \<lparr>ae_tenantId = ei_tenantId i,
      ae_userId = ei_userId i,
      ae_eventType = ei_eventType i,
      ae_action = ei_action i,
      ae_status = ei_status i,
      ae_resourceId = ei_resourceId i,
      ae_correlationId = ei_correlationId i,
      ae_costImpact = or_default (ei_costImpact i) [],
      ae_metadata = or_default (ei_metadata i) [],
      ae_retentionExpiresAt = ei_retentionExpiresAt i,
      ae_createdAt = now\<rparr>"

definition emit_audit_event ::
  "create_audit_event_input \<Rightarrow> audit_store \<Rightarrow> audit_event option \<times> audit_store" where
  "emit_audit_event i st =
     (if au_up st
      then (let e = event_row (au_now st) i in (Some e, st\<lparr>au_events := au_events st @ [e]\<rparr>))
      else (None, st))"

definition emit_usage_event ::
  "create_audit_event_input \<Rightarrow> audit_store \<Rightarrow> audit_event option \<times> audit_store" where
  "emit_usage_event i st =
     (if au_up st
      then (let e = event_row (au_now st) i in (Some e, st\<lparr>au_usage := au_usage st @ [e]\<rparr>))
      else (None, st))"

text \<open>\<open>listForTenant\<close>: \<open>None\<close> is a limit that is not finite.\<close>

definition list_for_tenant :: "string \<Rightarrow> nat option \<Rightarrow> audit_store \<Rightarrow> audit_row list" where
  "list_for_tenant tenantId limit st =
     (let safeLimit = (case limit of Some n \<Rightarrow> min n 200 | None \<Rightarrow> 50)
      in take safeLimit (find_desc (\<lambda>r. ar_tenantId r = tenantId) ar_createdAt (au_logs st)))"

section \<open>Properties\<close>

lemma audit_log_frame [simp]:
  "au_events (audit_log i st) = au_events st"
  "au_usage (audit_log i st) = au_usage st"
  "au_now (audit_log i st) = au_now st"
  "au_up (audit_log i st) = au_up st"
  by (simp_all add: audit_log_def)

lemma au_logs_audit_log:
  "au_logs (audit_log i st) = au_logs st @ (if au_up st then [log_row (au_now st) i] else [])"
  by (simp add: audit_log_def)

lemma emit_audit_event_frame [simp]:
  "au_logs (snd (emit_audit_event i st)) = au_logs st"
  "au_usage (snd (emit_audit_event i st)) = au_usage st"
  "au_up (snd (emit_audit_event i st)) = au_up st"
  by (simp_all add: emit_audit_event_def Let_def)

text \<open>The resource a stored row is about, read back from the row.\<close>

definition row_resource :: "audit_row \<Rightarrow> string option" where
  "row_resource r =
     (case ar_entityId r of
        Some i \<Rightarrow> Some i
      | None \<Rightarrow> (case map_of (ar_metadata r) ''resourceId'' of Some (JStr i) \<Rightarrow> Some i | _ \<Rightarrow> None))"

lemma row_resource_log_row: "row_resource (log_row now i) = Some (al_resourceId i)"
  by (simp add: row_resource_def log_row_def Let_def)

lemma is_uuid_length: "is_uuid s \<Longrightarrow> length s = 36"
  by (drule matches_length [of uuid_regex s, folded is_uuid_def]) (simp add: uuid_regex_def)

text \<open>
  A trace of audit calls: what any service does to the audit tables.
\<close>

datatype audit_call = Log create_audit_log_input | Event create_audit_event_input
  | Usage create_audit_event_input

fun audit_step :: "audit_call \<Rightarrow> audit_store \<Rightarrow> audit_store" where
  "audit_step (Log i) st = audit_log i st"
| "audit_step (Event i) st = snd (emit_audit_event i st)"
| "audit_step (Usage i) st = snd (emit_usage_event i st)"

definition audit_size :: "audit_store \<Rightarrow> nat" where
  "audit_size st = length (au_logs st) + length (au_events st) + length (au_usage st)"

interpretation audit_trail: monotone_machine audit_step audit_size
proof
  fix st e
  show "audit_size st \<le> audit_size (audit_step e st)"
    by (cases e) (auto simp: audit_size_def audit_log_def emit_audit_event_def
        emit_usage_event_def Let_def)
qed

lemma audit_step_prefix:
  "prefix (au_logs st) (au_logs (audit_step e st)) \<and>
   prefix (au_events st) (au_events (audit_step e st)) \<and>
   prefix (au_usage st) (au_usage (audit_step e st))"
  by (cases e) (auto simp: audit_log_def emit_audit_event_def emit_usage_event_def Let_def)

lemma audit_fold_prefix: "prefix (au_logs st) (au_logs (fold audit_step es st))"
proof (induction es arbitrary: st)
  case Nil
  then show ?case by simp
next
  case (Cons e es)
  then show ?case
    using audit_step_prefix [of st e] prefix_order.order_trans by fastforce
qed

lemma list_for_tenant_isolated:
  "\<forall>r \<in> set (list_for_tenant t n st). ar_tenantId r = t \<and> r \<in> set (au_logs st)"
  by (auto simp: list_for_tenant_def Let_def set_find_desc dest!: in_set_takeD)

lemma list_for_tenant_bounded: "length (list_for_tenant t n st) \<le> 200"
  by (auto simp: list_for_tenant_def Let_def split: option.splits)

end
