(* ===== verification/Entitlements.thy ===== *)
theory Entitlements
  imports AuditTrail
begin

text \<open>
  \<open>EntitlementsService\<close> (backend/src/entitlements/entitlements.service.ts) over the entitlement and
  usage event tables (backend/src/entitlements/entities): which dataset families a tenant may
  use, the monthly quota, and the record of usage. Ids of new rows are arguments.
\<close>

section \<open>State\<close>

record entitlement =
  en_id :: string
  en_tenantId :: string
  en_datasetFamily :: string
  en_isEnabled :: bool
  en_monthlyQuota :: "int option"
  en_currentMonthUsage :: int
  en_planTier :: "string option"
  en_metadata :: "rat members"

record usage_event =
  us_tenantId :: string
  us_userId :: "string option"
  us_datasetFamily :: string
  us_action :: string
  us_resourceId :: "string option"
  us_resourceType :: "string option"
  us_billingUnits :: int
  us_metadata :: "rat members"
  us_occurredAt :: int

record entitlement_store =
  es_entitlements :: "entitlement list"
  es_usage :: "usage_event list"
  es_audit :: audit_store

record set_entitlement_dto =
  se_datasetFamily :: string
  se_isEnabled :: "bool option"
  se_monthlyQuota :: "int option"
  se_planTier :: "string option"
  se_metadata :: "rat members option"

record record_usage_dto =
  ru_datasetFamily :: string
  ru_action :: string
  ru_resourceId :: "string option"
  ru_resourceType :: "string option"
  ru_billingUnits :: "int option"
  ru_metadata :: "rat members option"

definition all_dataset_families :: "string list" where
  "all_dataset_families =
     [''company_info'', ''ownership'', ''beneficial_owner'', ''legal_events'', ''sanctions_pep'',
      ''person_data'', ''company_documents'', ''financial_data'', ''ratings'', ''property_data'',
      ''board_assignments'', ''group_tree'', ''workplace_data'', ''credit_decisioning'']"

text \<open>The table is unique on tenant and family.\<close>

definition en_key :: "entitlement \<Rightarrow> string \<times> string" where
  "en_key e = (en_tenantId e, en_datasetFamily e)"

interpretation entitlement_rows: entity_store en_key "find_key en_key" "save en_key"
  by (rule table_entity_store)

section \<open>Operations\<close>

definition find_entitlement :: "string \<Rightarrow> string \<Rightarrow> entitlement_store \<Rightarrow> entitlement option" where
  "find_entitlement tenantId family st = find_key en_key (tenantId, family) (es_entitlements st)"

definition dto_members :: "set_entitlement_dto \<Rightarrow> rat members" where
  "dto_members d =
     [(''datasetFamily'', JStr (se_datasetFamily d))] @
     (case se_isEnabled d of None \<Rightarrow> [] | Some b \<Rightarrow> [(''isEnabled'', JBool b)]) @
     (case se_monthlyQuota d of None \<Rightarrow> [] | Some q \<Rightarrow> [(''monthlyQuota'', JNum (of_int q))]) @
     (case se_planTier d of None \<Rightarrow> [] | Some p \<Rightarrow> [(''planTier'', JStr p)]) @
     (case se_metadata d of None \<Rightarrow> [] | Some m \<Rightarrow> [(''metadata'', JObj m)])"

definition set_entitlement ::
  "string \<Rightarrow> string \<Rightarrow> string option \<Rightarrow> set_entitlement_dto \<Rightarrow> entitlement_store \<Rightarrow>
   entitlement \<times> entitlement_store" where
  "set_entitlement newId tenantId actorId dto st =
     (let saved =
        (case find_entitlement tenantId (se_datasetFamily dto) st of
           Some e \<Rightarrow> e\<lparr>en_isEnabled := or_default (se_isEnabled dto) (en_isEnabled e),
             en_monthlyQuota := or_else (se_monthlyQuota dto) (en_monthlyQuota e),
             en_planTier := or_else (se_planTier dto) (en_planTier e),
             en_metadata := or_default (se_metadata dto) (en_metadata e)\<rparr>
         | None \<Rightarrow> \<lparr>en_id = newId, en_tenantId = tenantId, en_datasetFamily = se_datasetFamily dto,
             en_isEnabled = or_default (se_isEnabled dto) True,
             en_monthlyQuota = se_monthlyQuota dto, en_currentMonthUsage = 0,
             en_planTier = se_planTier dto, en_metadata = or_default (se_metadata dto) []\<rparr>)
      in (saved, st\<lparr>es_entitlements := save en_key saved (es_entitlements st),
            es_audit := audit_log \<lparr>al_tenantId = tenantId, al_actorId = actorId,
              al_action = ''entitlement.set'', al_resourceType = ''dataset_entitlement'',
              al_resourceId = en_id saved, al_metadata = Some (dto_members dto)\<rparr> (es_audit st)\<rparr>))"

definition list_entitlements :: "string \<Rightarrow> entitlement_store \<Rightarrow> entitlement list" where
  "list_entitlements tenantId st =
     find_asc (\<lambda>e. en_tenantId e = tenantId) en_datasetFamily (es_entitlements st)"

definition check_entitlement :: "string \<Rightarrow> string \<Rightarrow> entitlement_store \<Rightarrow> bool" where
  "check_entitlement tenantId family st =
     (case find_entitlement tenantId family st of
        None \<Rightarrow> False
      | Some e \<Rightarrow>
          if \<not> en_isEnabled e then False
          else (case en_monthlyQuota e of None \<Rightarrow> True | Some q \<Rightarrow> en_currentMonthUsage e < q))"

definition record_usage ::
  "int \<Rightarrow> string \<Rightarrow> string option \<Rightarrow> record_usage_dto \<Rightarrow> entitlement_store \<Rightarrow>
   usage_event \<times> entitlement_store" where
  "record_usage now tenantId userId dto st =
     (let units = or_default (ru_billingUnits dto) 1;
          saved = \<lparr>us_tenantId = tenantId, us_userId = userId,
            us_datasetFamily = ru_datasetFamily dto, us_action = ru_action dto,
            us_resourceId = ru_resourceId dto, us_resourceType = ru_resourceType dto,
            us_billingUnits = units, us_metadata = or_default (ru_metadata dto) [],
            us_occurredAt = now\<rparr>
      in (saved, st\<lparr>es_usage := es_usage st @ [saved],
            es_entitlements := update_where (\<lambda>e. en_key e = (tenantId, ru_datasetFamily dto))
              (\<lambda>e. e\<lparr>en_currentMonthUsage := en_currentMonthUsage e + units\<rparr>) (es_entitlements st)\<rparr>))"

record usage_total =
  ut_datasetFamily :: string
  ut_totalCalls :: int
  ut_totalUnits :: int

definition in_period :: "int option \<Rightarrow> int option \<Rightarrow> usage_event \<Rightarrow> bool" where
  "in_period fromDate toDate u \<longleftrightarrow>
     (case fromDate of None \<Rightarrow> True | Some f \<Rightarrow> f \<le> us_occurredAt u) \<and>
     (case toDate of None \<Rightarrow> True | Some t \<Rightarrow> us_occurredAt u \<le> t)"

text \<open>\<open>GROUP BY\<close> with \<open>COUNT(*)\<close> and \<open>SUM\<close>, ordered by the family.\<close>

definition get_usage_summary ::
  "string \<Rightarrow> int option \<Rightarrow> int option \<Rightarrow> entitlement_store \<Rightarrow> usage_total list" where
  "get_usage_summary tenantId fromDate toDate st =
     (let rows = filter (\<lambda>u. us_tenantId u = tenantId \<and> in_period fromDate toDate u) (es_usage st);
          families = sort (remdups (map us_datasetFamily rows))
      in map (\<lambda>f. \<lparr>ut_datasetFamily = f,
           ut_totalCalls = int (count_where (\<lambda>u. us_datasetFamily u = f) rows),
           ut_totalUnits = sum_list (map us_billingUnits (filter (\<lambda>u. us_datasetFamily u = f) rows))\<rparr>)
         families)"

definition list_usage_events ::
  "string \<Rightarrow> string option \<Rightarrow> nat \<Rightarrow> entitlement_store \<Rightarrow> usage_event list" where
  "list_usage_events tenantId family limit st =
     take limit (find_desc (\<lambda>u. us_tenantId u = tenantId \<and>
       (case Option.bind family nonempty of None \<Rightarrow> True | Some f \<Rightarrow> us_datasetFamily u = f))
       us_occurredAt (es_usage st))"

definition default_entitlement :: "string \<Rightarrow> string \<Rightarrow> string \<Rightarrow> entitlement" where
  "default_entitlement newId tenantId family =
     \<lparr>en_id = newId, en_tenantId = tenantId, en_datasetFamily = family, en_isEnabled = True,
      en_monthlyQuota = None, en_currentMonthUsage = 0, en_planTier = None, en_metadata = []\<rparr>"

text \<open>The loop over the families; \<open>new_id\<close> gives the id the database draws for each.\<close>

fun initialize_families ::
  "(string \<Rightarrow> string) \<Rightarrow> string \<Rightarrow> string list \<Rightarrow> entitlement_store \<Rightarrow>
   entitlement list \<times> entitlement_store" where
  "initialize_families new_id tenantId [] st = ([], st)"
| "initialize_families new_id tenantId (f # fs) st =
     (case find_entitlement tenantId f st of
        Some e \<Rightarrow>
          (let (es, st') = initialize_families new_id tenantId fs st in (e # es, st'))
      | None \<Rightarrow>
          (let e = default_entitlement (new_id f) tenantId f;
               (es, st') = initialize_families new_id tenantId fs
                 (st\<lparr>es_entitlements := save en_key e (es_entitlements st)\<rparr>)
           in (e # es, st')))"

definition initialize_default_entitlements ::
  "(string \<Rightarrow> string) \<Rightarrow> string \<Rightarrow> entitlement_store \<Rightarrow> entitlement list \<times> entitlement_store" where
  "initialize_default_entitlements new_id tenantId st =
     initialize_families new_id tenantId all_dataset_families st"

section \<open>Laws\<close>

lemma find_save_entitlement:
  "find_entitlement t f (st\<lparr>es_entitlements := save en_key e (es_entitlements st)\<rparr>) =
    (if (t, f) = en_key e then Some e else find_entitlement t f st)"
  by (simp add: find_entitlement_def entitlement_rows.lookup_put)

lemma find_initialize:
  "find_entitlement t f (snd (initialize_families new_id tenantId fs st)) =
    (case find_entitlement t f st of
       Some e \<Rightarrow> Some e
     | None \<Rightarrow> if t = tenantId \<and> f \<in> set fs
         then Some (default_entitlement (new_id f) tenantId f)
         else None)"
proof (induction fs arbitrary: st)
  case Nil
  then show ?case by (simp split: option.split)
next
  case (Cons g fs)
  show ?case
  proof (cases "find_entitlement tenantId g st")
    case (Some e)
    with Cons.IH [of st] show ?thesis by (auto split: prod.splits option.splits)
  next
    case None
    let ?e = "default_entitlement (new_id g) tenantId g"
    let ?st = "st\<lparr>es_entitlements := save en_key ?e (es_entitlements st)\<rparr>"
    have find: "find_entitlement t f ?st = (if t = tenantId \<and> f = g then Some ?e else find_entitlement t f st)"
      by (simp add: find_save_entitlement en_key_def default_entitlement_def)
    have step: "snd (initialize_families new_id tenantId (g # fs) st) =
        snd (initialize_families new_id tenantId fs ?st)"
      using None by (simp add: Let_def case_prod_beta)
    show ?thesis
    proof (cases "t = tenantId \<and> f = g")
      case True
      with None Cons.IH [of ?st] show ?thesis unfolding step find by simp
    next
      case False
      then have "find_entitlement t f ?st = find_entitlement t f st" using find by auto
      with False Cons.IH [of ?st] show ?thesis unfolding step by auto
    qed
  qed
qed

lemma initialize_id:
  "\<forall>f \<in> set fs. find_entitlement tenantId f st \<noteq> None \<Longrightarrow>
    snd (initialize_families new_id tenantId fs st) = st"
  by (induction fs arbitrary: st) (auto simp: case_prod_beta)

lemma find_entitlement_update:
  "find_entitlement t f (snd (record_usage now tenantId u dto st)) =
    (if t = tenantId \<and> f = ru_datasetFamily dto
     then map_option (\<lambda>e. e\<lparr>en_currentMonthUsage := en_currentMonthUsage e +
       or_default (ru_billingUnits dto) 1\<rparr>) (find_entitlement t f st)
     else find_entitlement t f st)"
proof -
  have "find_key en_key k (update_where (\<lambda>e. en_key e = j) (\<lambda>e. e\<lparr>en_currentMonthUsage := en_currentMonthUsage e + n\<rparr>) es) =
      (if k = j then map_option (\<lambda>e. e\<lparr>en_currentMonthUsage := en_currentMonthUsage e + n\<rparr>) (find_key en_key k es)
       else find_key en_key k es)" for k j n es
    by (induction es) (auto simp: find_key_def table_simps update_where_def en_key_def)
  then show ?thesis by (auto simp: record_usage_def find_entitlement_def Let_def)
qed

definition units_of :: "record_usage_dto \<Rightarrow> int" where
  "units_of dto = or_default (ru_billingUnits dto) 1"

lemma find_entitlement_usages:
  "find_entitlement t f (fold (\<lambda>dto st. snd (record_usage now t u dto st)) dtos st) =
    map_option (\<lambda>e. e\<lparr>en_currentMonthUsage := en_currentMonthUsage e +
      sum_list (map units_of (filter (\<lambda>d. ru_datasetFamily d = f) dtos))\<rparr>) (find_entitlement t f st)"
proof (induction dtos arbitrary: st)
  case Nil
  then show ?case by (cases "find_entitlement t f st") simp_all
next
  case (Cons d dtos)
  then show ?case
    by (cases "f = ru_datasetFamily d"; cases "find_entitlement t f st")
      (simp_all add: find_entitlement_update units_of_def)
qed

section \<open>Properties\<close>

definition empty_entitlements :: entitlement_store where
  "empty_entitlements = \<lparr>es_entitlements = [], es_usage = [], es_audit = empty_audit\<rparr>"

definition sample_usage :: "int \<Rightarrow> record_usage_dto" where
  "sample_usage n = \<lparr>ru_datasetFamily = ''ownership'', ru_action = ''read'', ru_resourceId = None,
     ru_resourceType = None, ru_billingUnits = Some n, ru_metadata = None\<rparr>"

text \<open>Initialising a tenant entitles it to every dataset family, enabled and without a
  quota where nothing was set before; it changes no entitlement that exists, of any tenant, and
  doing it again changes nothing.\<close>

theorem initialize_entitlements:
  "let st' = snd (initialize_default_entitlements new_id t st) in
    (f \<in> set all_dataset_families \<longrightarrow> find_entitlement t f st' \<noteq> None \<and>
      (find_entitlement t f st = None \<longrightarrow> check_entitlement t f st')) \<and>
    (find_entitlement t' f st \<noteq> None \<longrightarrow> find_entitlement t' f st' = find_entitlement t' f st) \<and>
    snd (initialize_default_entitlements new_id' t st') = st'"
proof -
  let ?st = "snd (initialize_default_entitlements new_id t st)"
  have all: "find_entitlement t g ?st \<noteq> None" if "g \<in> set all_dataset_families" for g
    using that by (simp add: initialize_default_entitlements_def find_initialize split: option.split)
  then have "snd (initialize_default_entitlements new_id' t ?st) = ?st"
    unfolding initialize_default_entitlements_def [of new_id'] by (intro initialize_id ballI)
  then show ?thesis
    using all by (auto simp: Let_def check_entitlement_def initialize_default_entitlements_def
        find_initialize default_entitlement_def split: option.splits)
qed

theorem initialize_entitlements_witness:
  "check_entitlement ''t1'' ''ownership''
     (snd (initialize_default_entitlements (\<lambda>f. f) ''t1'' empty_entitlements))"
  using initialize_entitlements [of "\<lambda>f. f" "''t1''" empty_entitlements "''ownership''" "''t1''" "\<lambda>f. f"]
  by (simp add: Let_def all_dataset_families_def empty_entitlements_def find_entitlement_def
      find_key_def table_simps)

text \<open>Usage is metered exactly: after any sequence of recorded usages of a tenant, a family
  is allowed exactly when its entitlement is enabled and, if it has a monthly quota, the units
  used before and those recorded for this family stay below it.\<close>

theorem usage_meters_quota:
  assumes "find_entitlement t f st = Some e"
  shows "check_entitlement t f (fold (\<lambda>dto st. snd (record_usage now t u dto st)) dtos st) \<longleftrightarrow>
    en_isEnabled e \<and>
    (case en_monthlyQuota e of None \<Rightarrow> True
     | Some q \<Rightarrow> en_currentMonthUsage e +
         sum_list (map units_of (filter (\<lambda>d. ru_datasetFamily d = f) dtos)) < q)"
  using assms by (simp add: check_entitlement_def find_entitlement_usages split: option.split)

theorem usage_meters_quota_witness:
  "\<not> check_entitlement ''t1'' ''ownership''
     (fold (\<lambda>dto st. snd (record_usage 0 ''t1'' None dto st)) [sample_usage 2, sample_usage 1]
       (snd (set_entitlement ''e1'' ''t1'' None \<lparr>se_datasetFamily = ''ownership'', se_isEnabled = None,
         se_monthlyQuota = Some 3, se_planTier = None, se_metadata = None\<rparr> empty_entitlements)))"
proof -
  let ?st = "snd (set_entitlement ''e1'' ''t1'' None \<lparr>se_datasetFamily = ''ownership'', se_isEnabled = None,
         se_monthlyQuota = Some 3, se_planTier = None, se_metadata = None\<rparr> empty_entitlements)"
  have "find_entitlement ''t1'' ''ownership'' ?st = Some \<lparr>en_id = ''e1'', en_tenantId = ''t1'',
      en_datasetFamily = ''ownership'', en_isEnabled = True, en_monthlyQuota = Some 3,
      en_currentMonthUsage = 0, en_planTier = None, en_metadata = []\<rparr>"
    by (simp add: set_entitlement_def empty_entitlements_def find_entitlement_def find_key_def
        table_simps en_key_def Let_def)
  from usage_meters_quota [OF this, of 0 None "[sample_usage 2, sample_usage 1]"] show ?thesis
    by (simp add: sample_usage_def units_of_def)
qed

end
