(* ===== verification/Auth.thy ===== *)
theory Auth
  imports Credentials Entitlements
begin

text \<open>
  \<open>AuthService\<close> (backend/src/auth/auth.service.ts) over its tables (backend/src/auth/entities,
  backend/src/users/user.entity.ts, backend/src/tenants/tenant.entity.ts): rate limits, sign-up
  and e-mail verification, passwords, log-in, refresh and log-out. An operation takes the
  instant it runs at and the fresh values it draws (row ids, random strings, bcrypt salts), by
  the name of their use. Mails are the list of links handed to the transport. bcrypt, SHA-256 and
  JWT signing are the parameters of \<open>crypto\<close>.
\<close>

section \<open>State\<close>

datatype user_status = PendingVerification | VerifiedPendingPassword | ActiveUser | Suspended

record user =
  ur_id :: string
  ur_tenantId :: string
  ur_email :: string
  ur_passwordHash :: string
  ur_fullName :: string
  ur_role :: string
  ur_status :: user_status
  ur_emailVerifiedAt :: "int option"
  ur_mustChangePassword :: bool
  ur_isActive :: bool
  ur_lastLoginAt :: "int option"

record tenant =
  te_id :: string
  te_slug :: string
  te_name :: string
  te_status :: string

record refresh_token =
  rt_id :: string
  rt_tenantId :: string
  rt_userId :: string
  rt_tokenHash :: string
  rt_expiresAt :: int
  rt_revokedAt :: "int option"
  rt_createdAt :: int

datatype signup_status = SignupPending | SignupVerified | SignupCompleted | SignupExpired

record pending_signup =
  ps_id :: string
  ps_email :: string
  ps_fullName :: string
  ps_companyName :: "string option"
  ps_status :: signup_status
  ps_emailVerifiedAt :: "int option"
  ps_tenantId :: "string option"
  ps_userId :: "string option"

record verification_token =
  vt_id :: string
  vt_pendingSignupId :: string
  vt_email :: string
  vt_tokenHash :: string
  vt_expiresAt :: int
  vt_consumedAt :: "int option"
  vt_createdAt :: int

datatype token_type = Setup | Reset

record password_token =
  pt_id :: string
  pt_userId :: string
  pt_tokenType :: token_type
  pt_tokenHash :: string
  pt_expiresAt :: int
  pt_consumedAt :: "int option"
  pt_createdAt :: int

datatype mail_kind = VerifyMail | SetPasswordMail | ResetPasswordMail
datatype mail_channel = Smtp | ConsoleLog

record auth_mail =
  am_channel :: mail_channel
  am_kind :: mail_kind
  am_to :: string
  am_link :: string

record auth_config =
  ac_jwtSecret :: string
  ac_refreshSecret :: string
  ac_appBaseUrl :: string
  ac_smtp :: bool
  ac_production :: bool

record auth_state =
  as_users :: "user list"
  as_tenants :: "tenant list"
  as_refresh :: "refresh_token list"
  as_pending :: "pending_signup list"
  as_verification :: "verification_token list"
  as_passwordTokens :: "password_token list"
  as_apiKeys :: "api_key list"
  as_clients :: "oauth_client list"
  as_entitlements :: entitlement_store
  as_rate :: "string \<Rightarrow> int list option"
  as_outbox :: "auth_mail list"

type_synonym fresh = "string \<Rightarrow> string"

interpretation users: entity_store ur_id "find_key ur_id" "save ur_id"
  by (rule table_entity_store)

interpretation password_tokens: entity_store pt_id "find_key pt_id" "save pt_id"
  by (rule table_entity_store)

section \<open>Helpers\<close>

definition normalize_email :: "string \<Rightarrow> string" where
  "normalize_email email = to_lower (trim email)"

text \<open>A bucket holds the accepted calls of a key; a refused call does not change it.\<close>

definition consume_rate_limit ::
  "string \<Rightarrow> nat \<Rightarrow> int \<Rightarrow> int \<Rightarrow> (string \<Rightarrow> int list option) \<Rightarrow>
   unit result \<times> (string \<Rightarrow> int list option)" where
  "consume_rate_limit key limit windowMs now m =
     (let bucket = or_default (m key) [];
          pruned = filter (\<lambda>ts. now - ts \<le> windowMs) bucket
      in if length pruned \<ge> limit
         then (Inl (TooManyRequests ''Please wait before trying again.''), m)
         else (Inr (), m(key \<mapsto> pruned @ [now])))"

definition password_policy :: "string \<Rightarrow> unit result" where
  "password_policy password =
     (let hasUpper = (\<exists>c \<in> set password. is_upper c);
          hasLower = (\<exists>c \<in> set password. is_lower c);
          hasDigit = (\<exists>c \<in> set password. is_digit c)
      in if length password < 10 \<or> \<not> hasUpper \<or> \<not> hasLower \<or> \<not> hasDigit
         then Inl (BadRequest ''Password must be at least 10 characters and include uppercase, lowercase, and number.'')
         else Inr ())"

text \<open>The regular expressions of the slug: runs outside \<open>[a-z0-9]\<close> become one dash.\<close>

definition slug_char :: "char \<Rightarrow> bool" where
  "slug_char c \<longleftrightarrow> is_lower c \<or> is_digit c"

fun dash_runs :: "bool \<Rightarrow> string \<Rightarrow> string" where
  "dash_runs in_run [] = []"
| "dash_runs in_run (c # s) =
     (if slug_char c then c # dash_runs False s
      else if in_run then dash_runs True s else CHR ''-'' # dash_runs True s)"

definition strip_dashes :: "string \<Rightarrow> string" where
  "strip_dashes s =
     rev (dropWhile (\<lambda>c. c = CHR ''-'') (rev (dropWhile (\<lambda>c. c = CHR ''-'') s)))"

definition slug_base :: "string \<Rightarrow> string" where
  "slug_base raw =
     or_default (nonempty (take 60 (strip_dashes (dash_runs False (to_lower raw))))) ''workspace''"

fun capitalize :: "string \<Rightarrow> string" where
  "capitalize [] = []"
| "capitalize (c # s) = upper_char c # s"

definition derive_tenant :: "string \<Rightarrow> string \<Rightarrow> string option \<Rightarrow> string \<times> string" where
  "derive_tenant random email companyName =
     (let company = Option.bind (map_option trim companyName) nonempty;
          domain = Option.bind (nth_opt (split_on CHR ''@'' email) 1)
            (\<lambda>d. Option.bind (nth_opt (split_on CHR ''.'' d) 0) nonempty);
          raw = or_default (or_else company domain) ''workspace''
      in (slug_base raw @ ''-'' @ random,
          or_default company (capitalize raw @ '' Workspace'')))"

text \<open>\<open>encodeURIComponent\<close> in the Latin-1 range: UTF-8 bytes of all but the unreserved.\<close>

definition uri_hex :: "nat \<Rightarrow> char" where
  "uri_hex d = (if d < 10 then char_of (48 + d) else char_of (55 + d))"

definition percent :: "nat \<Rightarrow> string" where
  "percent b = [CHR ''%'', uri_hex (b div 16), uri_hex (b mod 16)]"

definition uri_char :: "char \<Rightarrow> string" where
  "uri_char c =
     (if is_upper c \<or> is_lower c \<or> is_digit c \<or> c \<in> set ''-_.!~*()'' \<or> code c = 39 then [c]
      else if code c < 128 then percent (code c)
      else percent (192 + code c div 64) @ percent (128 + code c mod 64))"

definition encode_uri_component :: "string \<Rightarrow> string" where
  "encode_uri_component s = concat (map uri_char s)"

definition send_auth_link_email ::
  "auth_config \<Rightarrow> mail_kind \<Rightarrow> string \<Rightarrow> string \<Rightarrow> auth_state \<Rightarrow> auth_state" where
  "send_auth_link_email cfg kind recipient link st =
     (let mail = (\<lambda>ch. \<lparr>am_channel = ch, am_kind = kind, am_to = recipient, am_link = link\<rparr>)
      in if ac_smtp cfg then st\<lparr>as_outbox := as_outbox st @ [mail Smtp]\<rparr>
         else if \<not> ac_production cfg then st\<lparr>as_outbox := as_outbox st @ [mail ConsoleLog]\<rparr>
         else st)"

definition audit_in :: "create_audit_log_input \<Rightarrow> auth_state \<Rightarrow> auth_state" where
  "audit_in i st =
     st\<lparr>as_entitlements := (as_entitlements st)
          \<lparr>es_audit := audit_log i (es_audit (as_entitlements st))\<rparr>\<rparr>"

definition user_audit :: "string \<Rightarrow> user \<Rightarrow> rat members option \<Rightarrow> create_audit_log_input" where
  "user_audit action u metadata =
     \<lparr>al_tenantId = ur_tenantId u, al_actorId = Some (ur_id u), al_action = action,
      al_resourceType = ''user'', al_resourceId = ur_id u, al_metadata = metadata\<rparr>"

text \<open>A user is saved through the hook that normalises its e-mail address in place.\<close>

definition save_user :: "user \<Rightarrow> auth_state \<Rightarrow> user \<times> auth_state" where
  "save_user u st =
     (let u = u\<lparr>ur_email := normalize_email (ur_email u)\<rparr>
      in (u, st\<lparr>as_users := save ur_id u (as_users st)\<rparr>))"

section \<open>Tokens\<close>

definition create_verification_token ::
  "crypto \<Rightarrow> fresh \<Rightarrow> int \<Rightarrow> pending_signup \<Rightarrow> auth_state \<Rightarrow> string \<times> auth_state" where
  "create_verification_token cr fr now pending st =
     (let token = fr ''verification token''
      in (token, st\<lparr>as_verification := as_verification st @
            [\<lparr>vt_id = fr ''verification token id'', vt_pendingSignupId = ps_id pending,
              vt_email = ps_email pending, vt_tokenHash = cr_sha256 cr token,
              vt_expiresAt = now + 1000 * 60 * 60 * 24, vt_consumedAt = None,
              vt_createdAt = now\<rparr>]\<rparr>))"

definition create_password_token ::
  "crypto \<Rightarrow> fresh \<Rightarrow> int \<Rightarrow> string \<Rightarrow> token_type \<Rightarrow> auth_state \<Rightarrow> string \<times> auth_state" where
  "create_password_token cr fr now userId tokenType st =
     (let token = fr ''password token''
      in (token, st\<lparr>as_passwordTokens := as_passwordTokens st @
            [\<lparr>pt_id = fr ''password token id'', pt_userId = userId, pt_tokenType = tokenType,
              pt_tokenHash = cr_sha256 cr token, pt_expiresAt = now + 1000 * 60 * 60 * 2,
              pt_consumedAt = None, pt_createdAt = now\<rparr>]\<rparr>))"

record issued_tokens =
  it_accessToken :: string
  it_refreshToken :: string
  it_userId :: string
  it_email :: string
  it_role :: string
  it_tenantId :: string
  it_fullName :: string

definition user_claims :: "user \<Rightarrow> jwt_claims" where
  "user_claims u =
     \<lparr>jc_sub = ur_id u, jc_tenantId = ur_tenantId u, jc_role = ur_role u,
      jc_email = Some (ur_email u), jc_fullName = Some (ur_fullName u), jc_authType = None,
      jc_environment = None, jc_scopes = None, jc_clientId = None\<rparr>"

definition access_token_of :: "crypto \<Rightarrow> auth_config \<Rightarrow> int \<Rightarrow> user \<Rightarrow> string" where
  "access_token_of cr cfg now u = cr_sign cr (ac_jwtSecret cfg) (user_claims u) now (15 * 60 * 1000)"

definition refresh_token_of :: "crypto \<Rightarrow> auth_config \<Rightarrow> int \<Rightarrow> user \<Rightarrow> string" where
  "refresh_token_of cr cfg now u = cr_sign cr (ac_refreshSecret cfg) (user_claims u) now (7 * 86400000)"

definition issue_tokens ::
  "crypto \<Rightarrow> auth_config \<Rightarrow> fresh \<Rightarrow> int \<Rightarrow> user \<Rightarrow> auth_state \<Rightarrow> issued_tokens \<times> auth_state" where
  "issue_tokens cr cfg fr now u st =
     (let accessToken = access_token_of cr cfg now u;
          refreshToken = refresh_token_of cr cfg now u;
          entity = \<lparr>rt_id = fr ''refresh token id'', rt_tenantId = ur_tenantId u,
            rt_userId = ur_id u, rt_tokenHash = cr_hash cr (fr ''refresh salt'') refreshToken,
            rt_expiresAt = now + 7 * 86400000, rt_revokedAt = None, rt_createdAt = now\<rparr>
      in (\<lparr>it_accessToken = accessToken, it_refreshToken = refreshToken, it_userId = ur_id u,
           it_email = ur_email u, it_role = ur_role u, it_tenantId = ur_tenantId u,
           it_fullName = ur_fullName u\<rparr>,
          st\<lparr>as_refresh := as_refresh st @ [entity]\<rparr>))"

section \<open>Log-in, refresh, log-out\<close>

definition login ::
  "crypto \<Rightarrow> auth_config \<Rightarrow> fresh \<Rightarrow> int \<Rightarrow> string \<Rightarrow> string \<Rightarrow> auth_state \<Rightarrow>
   issued_tokens result \<times> auth_state" where
  "login cr cfg fr now rawEmail password st =
     (let email = normalize_email rawEmail;
          (r, rate) = consume_rate_limit (''auth:login:'' @ email) 10 60000 now (as_rate st)
      in case r of
        Inl e \<Rightarrow> (Inl e, st)
      | Inr _ \<Rightarrow>
          (let st = st\<lparr>as_rate := rate\<rparr>
           in case find_one (\<lambda>u. ur_email u = email) (as_users st) of
                None \<Rightarrow> (Inl (Unauthorized []), st)
              | Some u \<Rightarrow>
                  if \<not> ur_isActive u \<or> ur_status u \<noteq> ActiveUser
                  then (Inl (Unauthorized ''Account is not active.''), st)
                  else if \<not> cr_compare cr password (ur_passwordHash u)
                  then (Inl (Unauthorized []), st)
                  else if ur_mustChangePassword u
                  then (Inl (Unauthorized ''Password reset required.''), st)
                  else (let u = u\<lparr>ur_lastLoginAt := Some now\<rparr>;
                            (u, st) = save_user u st;
                            st = audit_in (user_audit ''auth.login.success'' u
                              (Some [(''email'', JStr email)])) st;
                            (tokens, st) = issue_tokens cr cfg fr now u st
                        in (Inr tokens, st))))"

text \<open>The first unrevoked row, in table order, that the presented token matches.\<close>

definition matching_refresh :: "crypto \<Rightarrow> string \<Rightarrow> auth_state \<Rightarrow> refresh_token option" where
  "matching_refresh cr presented st =
     find_one (\<lambda>r. cr_compare cr presented (rt_tokenHash r))
       (filter (\<lambda>r. rt_revokedAt r = None) (as_refresh st))"

definition refresh ::
  "crypto \<Rightarrow> auth_config \<Rightarrow> fresh \<Rightarrow> int \<Rightarrow> string \<Rightarrow> auth_state \<Rightarrow>
   issued_tokens result \<times> auth_state" where
  "refresh cr cfg fr now presented st =
     (case matching_refresh cr presented st of
        None \<Rightarrow> (Inl (Unauthorized []), st)
      | Some row \<Rightarrow>
          if rt_expiresAt row \<le> now then (Inl (Unauthorized []), st)
          else (let st = st\<lparr>as_refresh := save rt_id (row\<lparr>rt_revokedAt := Some now\<rparr>) (as_refresh st)\<rparr>
                in case find_key ur_id (rt_userId row) (as_users st) of
                     None \<Rightarrow> (Inl (Failure ''user is null''), st)
                   | Some u \<Rightarrow> (let (tokens, st) = issue_tokens cr cfg fr now u st
                                in (Inr tokens, st))))"

definition logout :: "crypto \<Rightarrow> int \<Rightarrow> string \<Rightarrow> auth_state \<Rightarrow> auth_state" where
  "logout cr now presented st =
     st\<lparr>as_refresh := fold (\<lambda>r t. if cr_compare cr presented (rt_tokenHash r)
            then save rt_id (r\<lparr>rt_revokedAt := Some now\<rparr>) t else t)
          (filter (\<lambda>r. rt_revokedAt r = None) (as_refresh st)) (as_refresh st)\<rparr>"

section \<open>Sign-up\<close>

record signup_dto =
  sd_fullName :: string
  sd_email :: string
  sd_companyName :: "string option"
  sd_termsAccepted :: bool

definition new_pending :: "fresh \<Rightarrow> string \<Rightarrow> signup_dto \<Rightarrow> pending_signup" where
  "new_pending fr email dto =
     \<lparr>ps_id = fr ''pending id'', ps_email = email, ps_fullName = trim (sd_fullName dto),
      ps_companyName = Option.bind (map_option trim (sd_companyName dto)) nonempty,
      ps_status = SignupPending, ps_emailVerifiedAt = None, ps_tenantId = None, ps_userId = None\<rparr>"

definition mail_verification ::
  "crypto \<Rightarrow> auth_config \<Rightarrow> fresh \<Rightarrow> int \<Rightarrow> string \<Rightarrow> pending_signup \<Rightarrow> auth_state \<Rightarrow> auth_state" where
  "mail_verification cr cfg fr now email pending st =
     (let (token, st) = create_verification_token cr fr now pending st
      in send_auth_link_email cfg VerifyMail email
           (ac_appBaseUrl cfg @ ''/verify-email?token='' @ encode_uri_component token) st)"

definition signup ::
  "crypto \<Rightarrow> auth_config \<Rightarrow> fresh \<Rightarrow> int \<Rightarrow> signup_dto \<Rightarrow> auth_state \<Rightarrow> string result \<times> auth_state" where
  "signup cr cfg fr now dto st =
     (if \<not> sd_termsAccepted dto then (Inl (BadRequest ''Terms must be accepted.''), st)
      else (let email = normalize_email (sd_email dto);
                (r, rate) = consume_rate_limit (''auth:signup:'' @ email) 5 60000 now (as_rate st)
            in case r of
              Inl e \<Rightarrow> (Inl e, st)
            | Inr _ \<Rightarrow>
                (let st = st\<lparr>as_rate := rate\<rparr>;
                     existing = find_one (\<lambda>u. ur_email u = email) (as_users st)
                 in if map_option ur_status existing = Some ActiveUser
                    then (Inl (Conflict ''An account already exists. Please log in.''), st)
                    else (let (pending, st) =
                            (case find_one (\<lambda>p. ps_email p = email) (as_pending st) of
                               Some p \<Rightarrow> (p, st)
                             | None \<Rightarrow> (let p = new_pending fr email dto
                                 in (p, st\<lparr>as_pending := as_pending st @ [p]\<rparr>)))
                          in (Inr ''verification_sent'',
                              mail_verification cr cfg fr now email pending st)))))"

definition resend_verification ::
  "crypto \<Rightarrow> auth_config \<Rightarrow> fresh \<Rightarrow> int \<Rightarrow> string \<Rightarrow> auth_state \<Rightarrow> string result \<times> auth_state" where
  "resend_verification cr cfg fr now rawEmail st =
     (let email = normalize_email rawEmail;
          (r, rate) = consume_rate_limit (''auth:resend:'' @ email) 5 60000 now (as_rate st)
      in case r of
        Inl e \<Rightarrow> (Inl e, st)
      | Inr _ \<Rightarrow>
          (let st = st\<lparr>as_rate := rate\<rparr>
           in case find_one (\<lambda>p. ps_email p = email) (as_pending st) of
                None \<Rightarrow> (Inr ''ok'', st)
              | Some pending \<Rightarrow>
                  if ps_status pending = SignupCompleted then (Inr ''ok'', st)
                  else (Inr ''verification_sent'',
                        mail_verification cr cfg fr now email pending st)))"

text \<open>The tenant, its administrator and its sandbox, made when an address is first verified.\<close>

definition provision ::
  "crypto \<Rightarrow> fresh \<Rightarrow> int \<Rightarrow> pending_signup \<Rightarrow> auth_state \<Rightarrow> pending_signup \<times> auth_state" where
  "provision cr fr now pending st =
     (let (slug, name) = derive_tenant (fr ''slug suffix'') (ps_email pending) (ps_companyName pending);
          tenant = \<lparr>te_id = fr ''tenant id'', te_slug = slug, te_name = name, te_status = ''active''\<rparr>;
          user = \<lparr>ur_id = fr ''user id'', ur_tenantId = te_id tenant, ur_email = ps_email pending,
            ur_passwordHash = cr_hash cr (fr ''user salt'') (fr ''random password''),
            ur_fullName = ps_fullName pending, ur_role = ''admin'',
            ur_status = VerifiedPendingPassword, ur_emailVerifiedAt = ps_emailVerifiedAt pending,
            ur_mustChangePassword = True, ur_isActive = False, ur_lastLoginAt = None\<rparr>;
          user = user\<lparr>ur_email := normalize_email (ur_email user)\<rparr>;
          st = st\<lparr>as_tenants := as_tenants st @ [tenant], as_users := as_users st @ [user],
            as_entitlements := snd (initialize_default_entitlements
              (\<lambda>f. fr (''entitlement '' @ f)) (te_id tenant) (as_entitlements st)),
            as_apiKeys := snd (ensure_sandbox_key cr now (fr ''api key id'') (fr ''api key'')
              (te_id tenant) (as_apiKeys st)),
            as_clients := snd (ensure_sandbox_client cr now (fr ''client row id'') (fr ''client id'')
              (fr ''client secret'') (fr ''client salt'') (te_id tenant) (as_clients st))\<rparr>
      in (pending\<lparr>ps_tenantId := Some (te_id tenant), ps_userId := Some (ur_id user)\<rparr>,
          audit_in (user_audit ''auth.signup.verified'' user
            (Some [(''email'', JStr (ur_email user))])) st))"

record verified_signup =
  vs_passwordSetupToken :: string
  vs_redirectUrl :: string

definition verify_email_token ::
  "crypto \<Rightarrow> auth_config \<Rightarrow> fresh \<Rightarrow> int \<Rightarrow> string \<Rightarrow> auth_state \<Rightarrow>
   verified_signup result \<times> auth_state" where
  "verify_email_token cr cfg fr now token st =
     (case find_latest (\<lambda>v. vt_tokenHash v = cr_sha256 cr token \<and> vt_consumedAt v = None)
        vt_createdAt (as_verification st) of
        None \<Rightarrow> (Inl (BadRequest ''Invalid verification token.''), st)
      | Some row \<Rightarrow>
          if vt_expiresAt row \<le> now then (Inl (BadRequest ''Verification token expired.''), st)
          else (let st = st\<lparr>as_verification :=
                      save vt_id (row\<lparr>vt_consumedAt := Some now\<rparr>) (as_verification st)\<rparr>
                in case find_key ps_id (vt_pendingSignupId row) (as_pending st) of
                     None \<Rightarrow> (Inl (Failure ''EntityNotFound''), st)
                   | Some p \<Rightarrow>
                       (let p = p\<lparr>ps_emailVerifiedAt := Some now, ps_status := SignupVerified\<rparr>;
                            (p, st) = (if \<not> truthy_str (ps_tenantId p) \<or> \<not> truthy_str (ps_userId p)
                              then provision cr fr now p st else (p, st));
                            st = st\<lparr>as_pending := save ps_id p (as_pending st)\<rparr>;
                            (setupToken, st) = create_password_token cr fr now
                              (or_default (ps_userId p) []) Setup st
                        in (Inr \<lparr>vs_passwordSetupToken = setupToken,
                              vs_redirectUrl = ac_appBaseUrl cfg @ ''/set-password?token='' @
                                encode_uri_component setupToken\<rparr>, st))))"

section \<open>Passwords\<close>

definition open_token :: "crypto \<Rightarrow> token_type \<Rightarrow> string \<Rightarrow> auth_state \<Rightarrow> password_token option" where
  "open_token cr ty token st =
     find_latest (\<lambda>p. pt_tokenHash p = cr_sha256 cr token \<and> pt_tokenType p = ty \<and> pt_consumedAt p = None)
       pt_createdAt (as_passwordTokens st)"

definition consume_password_token :: "int \<Rightarrow> password_token \<Rightarrow> auth_state \<Rightarrow> auth_state" where
  "consume_password_token now row st =
     st\<lparr>as_passwordTokens := save pt_id (row\<lparr>pt_consumedAt := Some now\<rparr>) (as_passwordTokens st)\<rparr>"

definition set_password ::
  "crypto \<Rightarrow> auth_config \<Rightarrow> fresh \<Rightarrow> int \<Rightarrow> string \<Rightarrow> string \<Rightarrow> auth_state \<Rightarrow>
   issued_tokens result \<times> auth_state" where
  "set_password cr cfg fr now token password st =
     (case password_policy password of
        Inl e \<Rightarrow> (Inl e, st)
      | Inr _ \<Rightarrow>
          (case open_token cr Setup token st of
             None \<Rightarrow> (Inl (BadRequest ''Invalid setup token.''), st)
           | Some row \<Rightarrow>
               if pt_expiresAt row \<le> now then (Inl (BadRequest ''Setup token expired.''), st)
               else (case find_key ur_id (pt_userId row) (as_users st) of
                       None \<Rightarrow> (Inl (Failure ''EntityNotFound''), st)
                     | Some u \<Rightarrow>
                         (let u = u\<lparr>ur_passwordHash := cr_hash cr (fr ''password salt'') password,
                                ur_status := ActiveUser, ur_isActive := True,
                                ur_mustChangePassword := False,
                                ur_emailVerifiedAt := or_else (ur_emailVerifiedAt u) (Some now)\<rparr>;
                              (u, st) = save_user u st;
                              st = audit_in (user_audit ''auth.password.setup'' u None) st;
                              st = consume_password_token now row st;
                              st = st\<lparr>as_pending := update_where (\<lambda>p. ps_userId p = Some (ur_id u))
                                (\<lambda>p. p\<lparr>ps_status := SignupCompleted\<rparr>) (as_pending st)\<rparr>;
                              (tokens, st) = issue_tokens cr cfg fr now u st
                          in (Inr tokens, st)))))"

definition forgot_password ::
  "crypto \<Rightarrow> auth_config \<Rightarrow> fresh \<Rightarrow> int \<Rightarrow> string \<Rightarrow> auth_state \<Rightarrow> string result \<times> auth_state" where
  "forgot_password cr cfg fr now rawEmail st =
     (let email = normalize_email rawEmail;
          (r, rate) = consume_rate_limit (''auth:forgot:'' @ email) 5 60000 now (as_rate st)
      in case r of
        Inl e \<Rightarrow> (Inl e, st)
      | Inr _ \<Rightarrow>
          (let st = st\<lparr>as_rate := rate\<rparr>
           in case find_one (\<lambda>u. ur_email u = email \<and> ur_status u = ActiveUser \<and> ur_isActive u)
                (as_users st) of
                None \<Rightarrow> (Inr ''ok'', st)
              | Some u \<Rightarrow>
                  (let (token, st) = create_password_token cr fr now (ur_id u) Reset st
                   in (Inr ''ok'', send_auth_link_email cfg ResetPasswordMail email
                        (ac_appBaseUrl cfg @ ''/reset-password?token='' @ encode_uri_component token)
                        st))))"

definition revoke_all :: "int \<Rightarrow> string \<Rightarrow> refresh_token list \<Rightarrow> refresh_token list" where
  "revoke_all now userId t =
     update_where (\<lambda>r. rt_userId r = userId \<and> rt_revokedAt r = None)
       (\<lambda>r. r\<lparr>rt_revokedAt := Some now\<rparr>) t"

definition reset_password ::
  "crypto \<Rightarrow> fresh \<Rightarrow> int \<Rightarrow> string \<Rightarrow> string \<Rightarrow> auth_state \<Rightarrow> string result \<times> auth_state" where
  "reset_password cr fr now token password st =
     (case password_policy password of
        Inl e \<Rightarrow> (Inl e, st)
      | Inr _ \<Rightarrow>
          (case open_token cr Reset token st of
             None \<Rightarrow> (Inl (BadRequest ''Invalid reset token.''), st)
           | Some row \<Rightarrow>
               if pt_expiresAt row \<le> now then (Inl (BadRequest ''Reset token expired.''), st)
               else (case find_key ur_id (pt_userId row) (as_users st) of
                       None \<Rightarrow> (Inl (Failure ''EntityNotFound''), st)
                     | Some u \<Rightarrow>
                         (let u = u\<lparr>ur_passwordHash := cr_hash cr (fr ''password salt'') password,
                                ur_mustChangePassword := False, ur_status := ActiveUser,
                                ur_isActive := True\<rparr>;
                              (u, st) = save_user u st;
                              st = consume_password_token now row st;
                              st = st\<lparr>as_refresh := revoke_all now (ur_id u) (as_refresh st)\<rparr>;
                              st = audit_in (user_audit ''auth.password.reset'' u None) st
                          in (Inr ''password_reset'', st)))))"

section \<open>The rate limiter\<close>

text \<open>The instants of the admitted calls of one key, with the limiter's state, call by call.\<close>

definition rate_step ::
  "string \<Rightarrow> nat \<Rightarrow> int \<Rightarrow> int \<Rightarrow> int list \<times> (string \<Rightarrow> int list option) \<Rightarrow>
   int list \<times> (string \<Rightarrow> int list option)" where
  "rate_step key limit w t s =
     (case consume_rate_limit key limit w t (snd s) of
        (Inl _, m) \<Rightarrow> (fst s, m)
      | (Inr _, m) \<Rightarrow> (fst s @ [t], m))"

definition admitted :: "string \<Rightarrow> nat \<Rightarrow> int \<Rightarrow> int list \<Rightarrow> int list" where
  "admitted key limit w ts = fst (fold (rate_step key limit w) ts ([], (\<lambda>_. None)))"

definition recent :: "int \<Rightarrow> int \<Rightarrow> int list \<Rightarrow> int list" where
  "recent w t xs = filter (\<lambda>x. t - x \<le> w) xs"

lemma recent_recent: "t \<le> t' \<Longrightarrow> recent w t' (recent w t xs) = recent w t' xs"
  by (induction xs) (auto simp: recent_def)

lemma recent_append: "recent w t (xs @ ys) = recent w t xs @ recent w t ys"
  by (simp add: recent_def)

lemma rate_step_eq:
  "rate_step key limit w t (a, m) =
    (if length (recent w t (or_default (m key) [])) \<ge> limit then (a, m)
     else (a @ [t], m(key \<mapsto> recent w t (or_default (m key) []) @ [t])))"
  by (simp add: rate_step_def consume_rate_limit_def Let_def recent_def)

lemma bucket_holds_recent:
  assumes "sorted ts" and "fold (rate_step key limit w) ts ([], (\<lambda>_. None)) = (a, m)"
    and "\<forall>x \<in> set ts. x \<le> t"
  shows "recent w t (or_default (m key) []) = recent w t a \<and> set a \<subseteq> set ts"
  using assms
proof (induction ts arbitrary: a m t rule: rev_induct)
  case Nil
  then show ?case by (auto simp: recent_def)
next
  case (snoc x ts)
  obtain a' m' where run: "fold (rate_step key limit w) ts ([], (\<lambda>_. None)) = (a', m')"
    by (cases "fold (rate_step key limit w) ts ([], (\<lambda>_. None))")
  have sorted: "sorted ts" "\<forall>y \<in> set ts. y \<le> x" using snoc.prems(1) by (auto simp: sorted_append)
  have "x \<le> t" using snoc.prems(3) by simp
  have here: "recent w x (or_default (m' key) []) = recent w x a'" "set a' \<subseteq> set ts"
    using snoc.IH [OF sorted(1) run sorted(2)] by simp_all
  have later: "recent w t (or_default (m' key) []) = recent w t a'"
    using snoc.IH [OF sorted(1) run] snoc.prems(3) by simp
  show ?case
    using snoc.prems(2) here later run recent_recent [OF \<open>x \<le> t\<close>, of w a']
    by (auto simp: rate_step_eq recent_append split: if_splits)
qed

lemma admitted_snoc:
  assumes "sorted (ts @ [t])"
  shows "admitted key limit w (ts @ [t]) =
    admitted key limit w ts @ (if length (recent w t (admitted key limit w ts)) < limit then [t] else [])"
proof -
  obtain a m where run: "fold (rate_step key limit w) ts ([], (\<lambda>_. None)) = (a, m)"
    by (cases "fold (rate_step key limit w) ts ([], (\<lambda>_. None))")
  then have "recent w t (or_default (m key) []) = recent w t a"
    using bucket_holds_recent [of ts key limit w a m t] assms by (simp add: sorted_append)
  with run show ?thesis by (auto simp: admitted_def rate_step_eq)
qed

lemma admitted_subset: "sorted ts \<Longrightarrow> set (admitted key limit w ts) \<subseteq> set ts"
proof (induction ts rule: rev_induct)
  case Nil
  then show ?case by (simp add: admitted_def)
next
  case (snoc t ts)
  then show ?case by (auto simp: admitted_snoc sorted_append)
qed

lemma length_filter_le_imp: "(\<And>x. p x \<Longrightarrow> q x) \<Longrightarrow> length (filter p xs) \<le> length (filter q xs)"
  by (induction xs) auto

text \<open>The rate limiter is an exact sliding window. For calls in the order of time, a call is
  admitted exactly when fewer than the limit were admitted in the window before it, and so no
  window of that length ever holds more than the limit.\<close>

theorem rate_limit_sliding_window:
  assumes "sorted (ts @ [t])"
  shows "admitted key limit w (ts @ [t]) =
      admitted key limit w ts @ (if length (recent w t (admitted key limit w ts)) < limit then [t] else []) \<and>
    length (filter (\<lambda>x. a \<le> x \<and> x \<le> a + w) (admitted key limit w (ts @ [t]))) \<le> limit"
proof -
  have "length (filter (\<lambda>x. a \<le> x \<and> x \<le> a + w) (admitted key limit w us)) \<le> limit" if "sorted us" for us
    using that
  proof (induction us rule: rev_induct)
    case Nil
    then show ?case by (simp add: admitted_def)
  next
    case (snoc u us)
    let ?A = "admitted key limit w us"
    have "length (filter (\<lambda>x. a \<le> x \<and> x \<le> a + w) ?A) \<le> length (recent w u ?A)" if "u \<le> a + w"
      using that unfolding recent_def by (intro length_filter_le_imp) auto
    with snoc show ?case by (auto simp: admitted_snoc sorted_append)
  qed
  from admitted_snoc [OF assms] this [OF assms] show ?thesis by (rule conjI)
qed

theorem rate_limit_sliding_window_witness:
  "admitted ''k'' 2 10 [0, 1, 5, 11, 12] = [0, 1, 11, 12]"
  using rate_limit_sliding_window [of "[0, 1, 5, 11]" 12 "''k''" 2 10]
    admitted_snoc [of "[0, 1, 5]" 11 "''k''" 2 10] admitted_snoc [of "[0, 1]" 5 "''k''" 2 10]
    admitted_snoc [of "[0]" 1 "''k''" 2 10] admitted_snoc [of "[]" 0 "''k''" 2 10]
  by (simp add: recent_def admitted_def)

section \<open>Spent tokens\<close>

datatype auth_op =
    Login string string
  | Refresh string
  | Logout string
  | Signup signup_dto
  | Resend string
  | VerifyEmail string
  | SetPassword string string
  | ForgotPassword string
  | ResetPassword string string

fun auth_step :: "crypto \<Rightarrow> auth_config \<Rightarrow> fresh \<times> int \<times> auth_op \<Rightarrow> auth_state \<Rightarrow> auth_state" where
  "auth_step cr cfg (fr, now, Login e p) st = snd (login cr cfg fr now e p st)"
| "auth_step cr cfg (fr, now, Refresh r) st = snd (refresh cr cfg fr now r st)"
| "auth_step cr cfg (fr, now, Logout r) st = logout cr now r st"
| "auth_step cr cfg (fr, now, Signup d) st = snd (signup cr cfg fr now d st)"
| "auth_step cr cfg (fr, now, Resend e) st = snd (resend_verification cr cfg fr now e st)"
| "auth_step cr cfg (fr, now, VerifyEmail t) st = snd (verify_email_token cr cfg fr now t st)"
| "auth_step cr cfg (fr, now, SetPassword t p) st = snd (set_password cr cfg fr now t p st)"
| "auth_step cr cfg (fr, now, ForgotPassword e) st = snd (forgot_password cr cfg fr now e st)"
| "auth_step cr cfg (fr, now, ResetPassword t p) st = snd (reset_password cr fr now t p st)"

datatype token_ref = PasswordRef string | VerificationRef string | RefreshRef string

definition spent_in :: "('r \<Rightarrow> string) \<Rightarrow> ('r \<Rightarrow> int option) \<Rightarrow> 'r list \<Rightarrow> string set" where
  "spent_in key used t = key ` {r \<in> set t. used r \<noteq> None}"

definition spent :: "auth_state \<Rightarrow> token_ref set" where
  "spent st =
     PasswordRef ` spent_in pt_id pt_consumedAt (as_passwordTokens st) \<union>
     VerificationRef ` spent_in vt_id vt_consumedAt (as_verification st) \<union>
     RefreshRef ` spent_in rt_id rt_revokedAt (as_refresh st)"

lemma spent_in_append [simp]:
  "spent_in key used (t @ u) = spent_in key used t \<union> spent_in key used u"
  by (auto simp: spent_in_def)

lemma spent_in_single [simp]: "spent_in key used [r] = (if used r = None then {} else {key r})"
  by (auto simp: spent_in_def)

lemma spent_in_save: "used r \<noteq> None \<Longrightarrow> spent_in key used t \<subseteq> spent_in key used (save key r t)"
proof (induction t)
  case Nil
  then show ?case by (simp add: spent_in_def)
next
  case (Cons x t)
  have split: "spent_in key used (y # u) = spent_in key used [y] \<union> spent_in key used u" for y u
    by (auto simp: spent_in_def)
  from Cons show ?case
    by (auto simp: split [of x] split [of r])
qed

lemma spent_in_revoke_all: "spent_in rt_id rt_revokedAt t \<subseteq> spent_in rt_id rt_revokedAt (revoke_all now u t)"
  by (auto simp: spent_in_def revoke_all_def set_update_where image_iff)

lemma spent_in_logout:
  "spent_in rt_id rt_revokedAt t \<subseteq> spent_in rt_id rt_revokedAt (fold (\<lambda>r t.
     if p r then save rt_id (r\<lparr>rt_revokedAt := Some now\<rparr>) t else t) rs t)"
proof (induction rs arbitrary: t)
  case Nil
  then show ?case by simp
next
  case (Cons r rs)
  then show ?case
    using spent_in_save [of rt_revokedAt "r\<lparr>rt_revokedAt := Some now\<rparr>" rt_id t]
    by (auto intro: order_trans)
qed

text \<open>The tables of tokens, which is all \<open>spent\<close> reads, after each helper.\<close>

definition token_tables ::
  "auth_state \<Rightarrow> password_token list \<times> verification_token list \<times> refresh_token list" where
  "token_tables st = (as_passwordTokens st, as_verification st, as_refresh st)"

lemma spent_cong: "token_tables st = token_tables st' \<Longrightarrow> spent st = spent st'"
  by (simp add: spent_def token_tables_def)

lemma token_tables_frame [simp]:
  "token_tables (audit_in i st) = token_tables st"
  "token_tables (snd (save_user u st)) = token_tables st"
  "token_tables (send_auth_link_email cfg k recipient l st) = token_tables st"
  "token_tables (snd (provision cr fr now p st)) = token_tables st"
  "token_tables (st\<lparr>as_rate := m\<rparr>) = token_tables st"
  "token_tables (st\<lparr>as_pending := ps\<rparr>) = token_tables st"
  by (simp_all add: token_tables_def audit_in_def save_user_def send_auth_link_email_def
      provision_def Let_def case_prod_beta)

lemmas spent_frame [simp] = token_tables_frame [THEN spent_cong]

lemma spent_issue_tokens [simp]: "spent (snd (issue_tokens cr cfg fr now u st)) = spent st"
  by (simp add: spent_def issue_tokens_def Let_def)

lemma spent_create_password_token [simp]:
  "spent (snd (create_password_token cr fr now u ty st)) = spent st"
  by (simp add: spent_def create_password_token_def Let_def)

lemma spent_mail_verification [simp]: "spent (mail_verification cr cfg fr now e p st) = spent st"
  by (simp add: mail_verification_def case_prod_beta)
    (simp add: spent_def create_verification_token_def Let_def)

lemma spent_consume [simp]: "spent st \<subseteq> spent (consume_password_token now row st)"
  using spent_in_save [of pt_consumedAt "row\<lparr>pt_consumedAt := Some now\<rparr>" pt_id "as_passwordTokens st"]
  by (auto simp: spent_def consume_password_token_def)

lemma spent_login: "spent st \<subseteq> spent (snd (login cr cfg fr now e p st))"
  by (auto simp: login_def Let_def case_prod_beta split: sum.splits option.splits)

lemma spent_refresh: "spent st \<subseteq> spent (snd (refresh cr cfg fr now r st))"
proof -
  have "spent st \<subseteq> spent (st\<lparr>as_refresh := save rt_id (row\<lparr>rt_revokedAt := Some now\<rparr>) (as_refresh st)\<rparr>)" for row
    using spent_in_save [of rt_revokedAt "row\<lparr>rt_revokedAt := Some now\<rparr>" rt_id "as_refresh st"]
    by (auto simp: spent_def)
  then show ?thesis
    by (simp add: refresh_def Let_def case_prod_beta split: option.splits)
qed

lemma spent_logout: "spent st \<subseteq> spent (logout cr now r st)"
  using spent_in_logout [of "as_refresh st" "\<lambda>row. cr_compare cr r (rt_tokenHash row)" now
      "filter (\<lambda>r. rt_revokedAt r = None) (as_refresh st)"]
  by (auto simp: spent_def logout_def)

lemma spent_signup: "spent (snd (signup cr cfg fr now d st)) = spent st"
  by (auto simp: signup_def Let_def case_prod_beta split: sum.splits option.splits)

lemma spent_resend: "spent (snd (resend_verification cr cfg fr now e st)) = spent st"
  by (auto simp: resend_verification_def Let_def case_prod_beta split: sum.splits option.splits)

lemma spent_forgot: "spent (snd (forgot_password cr cfg fr now e st)) = spent st"
  by (auto simp: forgot_password_def Let_def case_prod_beta split: sum.splits option.splits)

lemma spent_verify: "spent st \<subseteq> spent (snd (verify_email_token cr cfg fr now t st))"
proof -
  have "spent st \<subseteq> spent (st\<lparr>as_verification := save vt_id (row\<lparr>vt_consumedAt := Some now\<rparr>) (as_verification st)\<rparr>)" for row
    using spent_in_save [of vt_consumedAt "row\<lparr>vt_consumedAt := Some now\<rparr>" vt_id "as_verification st"]
    by (auto simp: spent_def)
  then show ?thesis
    by (simp add: verify_email_token_def Let_def case_prod_beta split: option.splits)
qed

lemma spent_set_password: "spent st \<subseteq> spent (snd (set_password cr cfg fr now t p st))"
proof -
  have "spent st \<subseteq> spent (consume_password_token now row (audit_in i (snd (save_user u st))))" for row i u
    using spent_consume [of "audit_in i (snd (save_user u st))" now row] by simp
  then show ?thesis
    by (simp add: set_password_def Let_def case_prod_beta split: sum.splits option.splits)
qed

lemma spent_reset_password: "spent st \<subseteq> spent (snd (reset_password cr fr now t p st))"
proof -
  have revoke: "spent s \<subseteq> spent (s\<lparr>as_refresh := revoke_all now u (as_refresh s)\<rparr>)" for s u
    using spent_in_revoke_all [of "as_refresh s" now u] by (auto simp: spent_def)
  have "spent st \<subseteq> spent (consume_password_token now row (snd (save_user u st)))" for row u
    using spent_consume [of "snd (save_user u st)" now row] by simp
  then have "spent st \<subseteq> spent ((consume_password_token now row (snd (save_user u st)))
      \<lparr>as_refresh := revoke_all now i (as_refresh (consume_password_token now row (snd (save_user u st))))\<rparr>)"
    for row u i
    using revoke by (rule subset_trans)
  then show ?thesis
    by (simp add: reset_password_def Let_def case_prod_beta split: sum.splits option.splits)
qed

interpretation spent_tokens: monotone_machine "auth_step cr cfg" spent for cr cfg
proof
  fix st :: auth_state and e :: "fresh \<times> int \<times> auth_op"
  obtain fr now op where e: "e = (fr, now, op)" by (cases e)
  show "spent st \<subseteq> spent (auth_step cr cfg e st)"
    unfolding e
    by (cases op) (simp_all add: spent_login spent_refresh spent_logout spent_signup spent_resend
        spent_verify spent_set_password spent_forgot spent_reset_password)
qed

text \<open>C32: No operation of the service, in any order and number, reopens a consumed verification,
  setup or reset token or a revoked refresh token.\<close>

theorem spent_tokens_stay_spent: "spent st \<subseteq> spent (fold (auth_step cr cfg) ops st)"
  by (rule spent_tokens.run_mono)

section \<open>Password resets\<close>

definition acceptable_password :: "string \<Rightarrow> bool" where
  "acceptable_password p \<longleftrightarrow> password_policy p = Inr ()"

definition tokens_distinct :: "auth_state \<Rightarrow> bool" where
  "tokens_distinct st \<longleftrightarrow>
     unique_keys pt_id (as_passwordTokens st) \<and> unique_keys pt_tokenHash (as_passwordTokens st)"

lemma open_token_SomeD:
  assumes "open_token cr ty token st = Some row"
  shows "row \<in> set (as_passwordTokens st)" "pt_tokenHash row = cr_sha256 cr token"
    "pt_tokenType row = ty" "pt_consumedAt row = None"
  using find_latest_SomeD [OF assms [unfolded open_token_def]] by simp_all

lemma open_token_consumed:
  assumes "tokens_distinct st" and "open_token cr ty token st = Some row"
    and "as_passwordTokens st' = save pt_id (row\<lparr>pt_consumedAt := Some now\<rparr>) (as_passwordTokens st)"
  shows "open_token cr ty token st' = None"
  using assms(1,3) open_token_SomeD [OF assms(2)]
  by (auto simp: open_token_def find_latest_None_iff tokens_distinct_def set_save
      dest: unique_keysD [of pt_tokenHash])

lemma reset_password_InrD:
  assumes "reset_password cr fr now token password st = (Inr r, st')"
  obtains row u where "acceptable_password password" "open_token cr Reset token st = Some row"
    "now < pt_expiresAt row" "find_key ur_id (pt_userId row) (as_users st) = Some u"
    "as_users st' = save ur_id (u\<lparr>ur_passwordHash := cr_hash cr (fr ''password salt'') password,
       ur_mustChangePassword := False, ur_status := ActiveUser, ur_isActive := True,
       ur_email := normalize_email (ur_email u)\<rparr>) (as_users st)"
    "as_passwordTokens st' = save pt_id (row\<lparr>pt_consumedAt := Some now\<rparr>) (as_passwordTokens st)"
    "as_refresh st' = revoke_all now (ur_id u) (as_refresh st)"
  using assms
  by (fastforce simp: reset_password_def Let_def case_prod_beta acceptable_password_def save_user_def
      consume_password_token_def audit_in_def split: sum.splits option.splits if_splits)

text \<open>C31: A successful reset replaces the password of the token's user with the new one, leaves
  that user without any unrevoked refresh token and no other user's tokens touched, and cannot
  be repeated with the same token. It also makes the account active whatever its status was.\<close>

theorem reset_password_effects:
  assumes "reset_password cr fr now token password st = (Inr r, st')"
    and "tokens_distinct st"
    and "\<forall>p salt. cr_compare cr p (cr_hash cr salt p)"
  shows "\<exists>row u'. row \<in> set (as_passwordTokens st) \<and> pt_tokenHash row = cr_sha256 cr token \<and>
    find_key ur_id (pt_userId row) (as_users st') = Some u' \<and>
    cr_compare cr password (ur_passwordHash u') \<and> ur_status u' = ActiveUser \<and> ur_isActive u' \<and>
    (\<forall>t \<in> set (as_refresh st'). rt_userId t = pt_userId row \<longrightarrow> rt_revokedAt t \<noteq> None) \<and>
    filter (\<lambda>t. rt_userId t \<noteq> pt_userId row) (as_refresh st') =
      filter (\<lambda>t. rt_userId t \<noteq> pt_userId row) (as_refresh st) \<and>
    (\<forall>fr2 now2 password2. \<exists>e. reset_password cr fr2 now2 token password2 st' = (Inl e, st'))"
proof -
  from reset_password_InrD [OF assms(1)] obtain row u where
    row: "open_token cr Reset token st = Some row" "find_key ur_id (pt_userId row) (as_users st) = Some u"
    and users: "as_users st' = save ur_id (u\<lparr>ur_passwordHash := cr_hash cr (fr ''password salt'') password,
       ur_mustChangePassword := False, ur_status := ActiveUser, ur_isActive := True,
       ur_email := normalize_email (ur_email u)\<rparr>) (as_users st)" (is "_ = save ur_id ?u _")
    and tokens: "as_passwordTokens st' =
      save pt_id (row\<lparr>pt_consumedAt := Some now\<rparr>) (as_passwordTokens st)"
    and refresh: "as_refresh st' = revoke_all now (ur_id u) (as_refresh st)"
    by metis
  have id: "ur_id u = pt_userId row" using users.lookup_key [OF row(2)] .
  then have "find_key ur_id (pt_userId row) (as_users st') = Some ?u"
    using users.lookup_put_same [of ?u "as_users st"] by (simp add: users)
  moreover have "filter (\<lambda>t. rt_userId t \<noteq> i) (revoke_all now i ts) = filter (\<lambda>t. rt_userId t \<noteq> i) ts" for i ts
    by (induction ts) (auto simp: revoke_all_def update_where_def)
  moreover have "\<exists>e. reset_password cr fr2 now2 token password2 st' = (Inl e, st')" for fr2 now2 password2
    using open_token_consumed [OF assms(2) row(1) tokens]
    by (simp add: reset_password_def split: sum.split)
  ultimately show ?thesis
    using open_token_SomeD [OF row(1)] assms(3) id refresh
    by (intro exI [of _ row] exI [of _ ?u]) (auto simp: revoke_all_def set_update_where)
qed

definition sample_config :: auth_config where
  "sample_config = \<lparr>ac_jwtSecret = ''access'', ac_refreshSecret = ''refresh'',
     ac_appBaseUrl = ''http://app'', ac_smtp = True, ac_production = True\<rparr>"

definition empty_auth :: auth_state where
  "empty_auth = \<lparr>as_users = [], as_tenants = [], as_refresh = [], as_pending = [],
     as_verification = [], as_passwordTokens = [], as_apiKeys = [], as_clients = [],
     as_entitlements = empty_entitlements, as_rate = (\<lambda>_. None), as_outbox = []\<rparr>"

definition sample_user :: user where
  "sample_user = \<lparr>ur_id = ''u1'', ur_tenantId = ''t1'', ur_email = ''a@b.se'', ur_passwordHash = ''x'',
     ur_fullName = ''A B'', ur_role = ''admin'', ur_status = Suspended, ur_emailVerifiedAt = None,
     ur_mustChangePassword = False, ur_isActive = False, ur_lastLoginAt = None\<rparr>"

definition reset_state :: auth_state where
  "reset_state = empty_auth\<lparr>as_users := [sample_user],
     as_passwordTokens := [\<lparr>pt_id = ''p1'', pt_userId = ''u1'', pt_tokenType = Reset,
       pt_tokenHash = ''secret'', pt_expiresAt = 100, pt_consumedAt = None, pt_createdAt = 0\<rparr>]\<rparr>"

lemma sample_crypto_compare: "\<forall>p salt. cr_compare sample_crypto p (cr_hash sample_crypto salt p)"
  by (simp add: sample_crypto_def)

lemma sample_password: "password_policy ''Abcdefgh12'' = Inr ()"
  by (simp add: password_policy_def is_upper_def is_lower_def is_digit_def code_def)

theorem reset_password_effects_witness:
  "\<exists>st'. reset_password sample_crypto id 5 ''secret'' ''Abcdefgh12'' reset_state =
     (Inr ''password_reset'', st') \<and>
   (\<exists>u'. find_key ur_id ''u1'' (as_users st') = Some u' \<and> ur_status u' = ActiveUser)"
proof -
  obtain st' where r: "reset_password sample_crypto id 5 ''secret'' ''Abcdefgh12'' reset_state =
      (Inr ''password_reset'', st')"
    by (simp add: reset_password_def sample_password open_token_def find_latest_def find_desc_def
        reset_state_def empty_auth_def sample_crypto_def sample_user_def find_key_def find_one_def
        Let_def case_prod_beta)
  have "tokens_distinct reset_state"
    by (simp add: tokens_distinct_def reset_state_def table_simps)
  from reset_password_effects [OF r this sample_crypto_compare] obtain row u' where
    "row \<in> set (as_passwordTokens reset_state)" "find_key ur_id (pt_userId row) (as_users st') = Some u'"
    "ur_status u' = ActiveUser"
    by blast
  with r show ?thesis by (auto simp: reset_state_def)
qed

section \<open>Refresh\<close>

text \<open>bcrypt reads only the first 72 bytes, and the tokens of one user agree on them: the
  header and the start of the payload with the user's id. So after tokens are issued, any
  string with that prefix, such as the access token of the same user, is accepted as a refresh
  token for seven days; the state of the account is not looked at either.\<close>

theorem refresh_accepts_prefix:
  assumes "\<forall>p q h. take 72 p = take 72 q \<longrightarrow> cr_compare cr p h = cr_compare cr q h"
    and "\<forall>p salt. cr_compare cr p (cr_hash cr salt p)"
    and "issue_tokens cr cfg fr now u st = (issued, st1)"
    and "take 72 presented = take 72 (it_refreshToken issued)"
    and "matching_refresh cr presented st = None"
    and "find_key ur_id (ur_id u) (as_users st) = Some u"
    and "now2 < now + 7 * 86400000"
  shows "\<exists>tokens st2. refresh cr cfg fr2 now2 presented st1 = (Inr tokens, st2) \<and>
    it_userId tokens = ur_id u"
proof -
  from assms(3) have st1: "as_refresh st1 = as_refresh st @
      [\<lparr>rt_id = fr ''refresh token id'', rt_tenantId = ur_tenantId u, rt_userId = ur_id u,
        rt_tokenHash = cr_hash cr (fr ''refresh salt'') (it_refreshToken issued),
        rt_expiresAt = now + 7 * 86400000, rt_revokedAt = None, rt_createdAt = now\<rparr>]" (is "_ = _ @ [?row]")
    "as_users st1 = as_users st"
    by (auto simp: issue_tokens_def Let_def)
  have "cr_compare cr presented (rt_tokenHash ?row)"
    using assms(1,2,4) by (metis refresh_token.select_convs(4))
  then have "matching_refresh cr presented st1 = Some ?row"
    using assms(5) by (simp add: matching_refresh_def st1 find_one_append table_simps)
  with assms(6,7) show ?thesis
    by (simp add: refresh_def st1 Let_def case_prod_beta) (simp add: issue_tokens_def Let_def)
qed

theorem refresh_accepts_prefix_witness:
  "\<exists>issued st1 tokens st2.
    issue_tokens (sample_crypto\<lparr>cr_sign := (\<lambda>secret c now ttl. replicate 72 CHR ''h'' @ secret)\<rparr>)
      sample_config id 0 sample_user (empty_auth\<lparr>as_users := [sample_user]\<rparr>) = (issued, st1) \<and>
    it_accessToken issued \<noteq> it_refreshToken issued \<and>
    refresh (sample_crypto\<lparr>cr_sign := (\<lambda>secret c now ttl. replicate 72 CHR ''h'' @ secret)\<rparr>)
      sample_config id 10 (it_accessToken issued) st1 = (Inr tokens, st2)"
proof -
  let ?cr = "sample_crypto\<lparr>cr_sign := (\<lambda>secret c now ttl. replicate 72 CHR ''h'' @ secret)\<rparr>"
  let ?st = "empty_auth\<lparr>as_users := [sample_user]\<rparr>"
  let ?i = "issue_tokens ?cr sample_config id 0 sample_user ?st"
  have i: "?i = (fst ?i, snd ?i)" by simp
  have "it_accessToken (fst ?i) \<noteq> it_refreshToken (fst ?i)"
    "take 72 (it_accessToken (fst ?i)) = take 72 (it_refreshToken (fst ?i))"
    by (simp_all add: issue_tokens_def Let_def access_token_of_def refresh_token_of_def sample_config_def)
  moreover from refresh_accepts_prefix [OF _ _ i this(2), of 10 id]
  have "\<exists>tokens st2. refresh ?cr sample_config id 10 (it_accessToken (fst ?i)) (snd ?i) = (Inr tokens, st2)"
    by (auto simp: sample_crypto_def matching_refresh_def empty_auth_def table_simps find_key_def)
  ultimately show ?thesis using i by metis
qed

section \<open>From sign-up to log-in\<close>

lemma code_lower_char:
  "code (lower_char c) = (if (65 \<le> code c \<and> code c \<le> 90) \<or>
     (192 \<le> code c \<and> code c \<le> 222 \<and> code c \<noteq> 215) then code c + 32 else code c)"
  by (auto simp: lower_char_def Let_def code_def)

lemma code_inject: "code c = code d \<Longrightarrow> c = d"
  by (metis code_def char_of_char)

lemma lower_char_idem: "lower_char (lower_char c) = lower_char c"
  by (rule code_inject) (auto simp: code_lower_char)

lemma is_space_lower: "is_space (lower_char c) = is_space c"
  by (auto simp: is_space_def code_lower_char)

lemma dropWhile_space_lower: "dropWhile is_space (to_lower s) = to_lower (dropWhile is_space s)"
  by (induction s) (auto simp: is_space_lower)

lemma trim_lower: "trim (to_lower s) = to_lower (trim s)"
  by (simp add: trim_def dropWhile_space_lower rev_map)

lemma trim_idem: "trim (trim s) = trim s"
proof -
  define t where "t = dropWhile is_space s"
  have trim: "trim s = rev (dropWhile is_space (rev t))" by (simp add: trim_def t_def)
  have "dropWhile is_space (trim s) = trim s"
  proof (cases "trim s")
    case Nil
    then show ?thesis by simp
  next
    case (Cons c cs)
    have "rev t = takeWhile is_space (rev t) @ dropWhile is_space (rev t)" by simp
    then have "t = trim s @ rev (takeWhile is_space (rev t))"
      unfolding trim by (metis rev_append rev_rev_ident)
    with Cons have "t \<noteq> [] \<and> hd t = c" by (metis append_Cons list.distinct(1) list.sel(1))
    then have "\<not> is_space c" unfolding t_def using hd_dropWhile by metis
    with Cons show ?thesis by simp
  qed
  then show ?thesis
    unfolding trim_def [of "trim s"] by (simp add: trim dropWhile_idem)
qed

lemma normalize_email_idem [simp]: "normalize_email (normalize_email e) = normalize_email e"
  by (simp add: normalize_email_def trim_lower trim_idem lower_char_idem)

lemma consume_rate_limit_error:
  "fst (consume_rate_limit k n w t m) = Inl e \<Longrightarrow> e = TooManyRequests ''Please wait before trying again.''"
  by (auto simp: consume_rate_limit_def Let_def split: if_splits)

lemma login_inactive:
  assumes "find_one (\<lambda>u. ur_email u = normalize_email e) (as_users st) = Some u"
    and "\<not> ur_isActive u \<or> ur_status u \<noteq> ActiveUser"
  shows "fst (login cr cfg fr now e p st) \<in>
    {Inl (Unauthorized ''Account is not active.''), Inl (TooManyRequests ''Please wait before trying again.'')}"
  using assms by (auto simp: login_def Let_def case_prod_beta dest: consume_rate_limit_error split: sum.split)

lemma login_active:
  assumes "find_one (\<lambda>u. ur_email u = normalize_email e) (as_users st) = Some u"
    and "ur_isActive u" "ur_status u = ActiveUser" "\<not> ur_mustChangePassword u"
    and "cr_compare cr p (ur_passwordHash u)"
    and "fst (consume_rate_limit (''auth:login:'' @ normalize_email e) 10 60000 now (as_rate st)) = Inr ()"
  shows "\<exists>tokens. fst (login cr cfg fr now e p st) = Inr tokens \<and> it_userId tokens = ur_id u \<and>
    it_tenantId tokens = ur_tenantId u"
  using assms
  by (simp add: login_def Let_def case_prod_beta) (simp add: issue_tokens_def save_user_def Let_def)

text \<open>The user a provisioned sign-up gets.\<close>

definition new_admin :: "crypto \<Rightarrow> fresh \<Rightarrow> int \<Rightarrow> pending_signup \<Rightarrow> user" where
  "new_admin cr fr now p =
     \<lparr>ur_id = fr ''user id'', ur_tenantId = fr ''tenant id'', ur_email = normalize_email (ps_email p),
      ur_passwordHash = cr_hash cr (fr ''user salt'') (fr ''random password''),
      ur_fullName = ps_fullName p, ur_role = ''admin'', ur_status = VerifiedPendingPassword,
      ur_emailVerifiedAt = Some now, ur_mustChangePassword = True, ur_isActive = False,
      ur_lastLoginAt = None\<rparr>"

lemma verify_email_token_provisions:
  assumes "find_latest (\<lambda>v. vt_tokenHash v = cr_sha256 cr token \<and> vt_consumedAt v = None)
      vt_createdAt (as_verification st) = Some row"
    and "now < vt_expiresAt row" and "find_key ps_id (vt_pendingSignupId row) (as_pending st) = Some p"
    and "ps_userId p = None"
  shows "\<exists>v st1. verify_email_token cr cfg fr now token st = (Inr v, st1) \<and>
    vs_passwordSetupToken v = fr ''password token'' \<and>
    as_users st1 = as_users st @ [new_admin cr fr now p] \<and>
    es_entitlements (as_entitlements st1) = es_entitlements (snd (initialize_default_entitlements
      (\<lambda>f. fr (''entitlement '' @ f)) (fr ''tenant id'') (as_entitlements st))) \<and>
    as_passwordTokens st1 = as_passwordTokens st @ [\<lparr>pt_id = fr ''password token id'',
      pt_userId = fr ''user id'', pt_tokenType = Setup,
      pt_tokenHash = cr_sha256 cr (fr ''password token''), pt_expiresAt = now + 1000 * 60 * 60 * 2,
      pt_consumedAt = None, pt_createdAt = now\<rparr>]"
  using assms
  by (simp add: verify_email_token_def Let_def case_prod_beta provision_def create_password_token_def
      audit_in_def new_admin_def)

lemma find_latest_only:
  "\<forall>x \<in> set t. \<not> p x \<Longrightarrow> p r \<Longrightarrow> find_latest p key (t @ [r]) = Some r"
  by (rule find_latest_eqI) auto

lemma set_password_activates:
  assumes "acceptable_password password" and "open_token cr Setup token st = Some row"
    and "now < pt_expiresAt row" and "find_key ur_id (pt_userId row) (as_users st) = Some u"
  shows "\<exists>tokens st2. set_password cr cfg fr now token password st = (Inr tokens, st2) \<and>
    it_userId tokens = ur_id u \<and>
    as_users st2 = save ur_id (u\<lparr>ur_passwordHash := cr_hash cr (fr ''password salt'') password,
      ur_status := ActiveUser, ur_isActive := True, ur_mustChangePassword := False,
      ur_emailVerifiedAt := or_else (ur_emailVerifiedAt u) (Some now),
      ur_email := normalize_email (ur_email u)\<rparr>) (as_users st)"
  using assms
  by (simp add: set_password_def acceptable_password_def Let_def case_prod_beta)
    (simp add: issue_tokens_def save_user_def audit_in_def consume_password_token_def Let_def)

text \<open>C24: The path from a verified address to the first log-in. The verification of a new sign-up
  creates an inactive administrator whom no password logs in, and the tenant's entitlements; its
  setup token, within two hours, sets an acceptable password, and from then on that password
  logs the administrator in to the new tenant, whenever the rate limit lets it through.\<close>

theorem signup_lifecycle:
  assumes "find_latest (\<lambda>v. vt_tokenHash v = cr_sha256 cr token \<and> vt_consumedAt v = None)
      vt_createdAt (as_verification st) = Some row"
    and "now < vt_expiresAt row" and "find_key ps_id (vt_pendingSignupId row) (as_pending st) = Some p"
    and "ps_userId p = None"
    and "\<forall>u \<in> set (as_users st). ur_id u \<noteq> fr ''user id'' \<and> ur_email u \<noteq> normalize_email (ps_email p)"
    and "\<forall>q \<in> set (as_passwordTokens st). pt_tokenHash q \<noteq> cr_sha256 cr (fr ''password token'')"
    and "\<forall>q salt. cr_compare cr q (cr_hash cr salt q)"
  shows "\<exists>v st1. verify_email_token cr cfg fr now token st = (Inr v, st1) \<and>
    (\<forall>f \<in> set all_dataset_families. find_entitlement (fr ''tenant id'') f (as_entitlements st1) \<noteq> None) \<and>
    (\<forall>fr' t q tokens. fst (login cr cfg fr' t (ps_email p) q st1) \<noteq> Inr tokens) \<and>
    (\<forall>fr2 now2 password. acceptable_password password \<and> now2 < now + 7200000 \<longrightarrow>
      (\<exists>tokens2 st2. set_password cr cfg fr2 now2 (vs_passwordSetupToken v) password st1 = (Inr tokens2, st2) \<and>
        (\<forall>fr3 now3. fst (consume_rate_limit (''auth:login:'' @ normalize_email (ps_email p)) 10 60000
            now3 (as_rate st2)) = Inr () \<longrightarrow>
          (\<exists>tokens3. fst (login cr cfg fr3 now3 (ps_email p) password st2) = Inr tokens3 \<and>
            it_userId tokens3 = fr ''user id'' \<and> it_tenantId tokens3 = fr ''tenant id''))))"
proof -
  let ?a = "new_admin cr fr now p"
  have a [simp]: "ur_id ?a = fr ''user id''" "ur_email ?a = normalize_email (ps_email p)"
    "ur_tenantId ?a = fr ''tenant id''" "\<not> ur_isActive ?a"
    by (simp_all add: new_admin_def)
  let ?tok = "\<lparr>pt_id = fr ''password token id'', pt_userId = fr ''user id'', pt_tokenType = Setup,
      pt_tokenHash = cr_sha256 cr (fr ''password token''), pt_expiresAt = now + 1000 * 60 * 60 * 2,
      pt_consumedAt = None, pt_createdAt = now\<rparr>"
  from verify_email_token_provisions [OF assms(1-4), of cfg fr] obtain v st1 where
    v: "verify_email_token cr cfg fr now token st = (Inr v, st1)"
      "vs_passwordSetupToken v = fr ''password token''"
    and users: "as_users st1 = as_users st @ [?a]"
    and ents: "es_entitlements (as_entitlements st1) = es_entitlements (snd (initialize_default_entitlements
      (\<lambda>f. fr (''entitlement '' @ f)) (fr ''tenant id'') (as_entitlements st)))"
    and toks: "as_passwordTokens st1 = as_passwordTokens st @ [?tok]"
    by blast
  have "find_entitlement (fr ''tenant id'') f (as_entitlements st1) \<noteq> None"
    if "f \<in> set all_dataset_families" for f
    using that find_initialize [of "fr ''tenant id''" f _ "fr ''tenant id''" all_dataset_families]
    unfolding find_entitlement_def ents initialize_default_entitlements_def
    by (auto simp: find_entitlement_def split: option.splits)
  moreover have byMail: "find_one (\<lambda>u. ur_email u = normalize_email (ps_email p)) (as_users st1) = Some ?a"
    using assms(5) by (auto simp: users find_one_append find_one_None_iff table_simps split: option.split
        dest: find_one_SomeD)
  then have "fst (login cr cfg fr' t (ps_email p) q st1) \<noteq> Inr tokens" for fr' t q tokens
    using login_inactive [OF byMail, of cr cfg fr' t q] by auto
  moreover have "\<exists>tokens2 st2. set_password cr cfg fr2 now2 (fr ''password token'') password st1 = (Inr tokens2, st2) \<and>
      (\<forall>fr3 now3. fst (consume_rate_limit (''auth:login:'' @ normalize_email (ps_email p)) 10 60000
          now3 (as_rate st2)) = Inr () \<longrightarrow>
        (\<exists>tokens3. fst (login cr cfg fr3 now3 (ps_email p) password st2) = Inr tokens3 \<and>
          it_userId tokens3 = fr ''user id'' \<and> it_tenantId tokens3 = fr ''tenant id''))"
    if ok: "acceptable_password password" "now2 < now + 7200000" for fr2 now2 password
  proof -
    have tok: "open_token cr Setup (fr ''password token'') st1 = Some ?tok"
      unfolding open_token_def toks using assms(6) by (intro find_latest_only) auto
    have byId: "find_key ur_id (pt_userId ?tok) (as_users st1) = Some ?a"
      using assms(5) by (auto simp: users find_key_def find_one_append find_one_None_iff table_simps
          split: option.split dest: find_one_SomeD)
    from set_password_activates [OF ok(1) tok _ byId, of now2 cfg fr2] ok(2) obtain tokens2 st2 where
      set: "set_password cr cfg fr2 now2 (fr ''password token'') password st1 = (Inr tokens2, st2)"
      and users2: "as_users st2 = save ur_id (?a\<lparr>ur_passwordHash := cr_hash cr (fr2 ''password salt'') password,
        ur_status := ActiveUser, ur_isActive := True, ur_mustChangePassword := False,
        ur_emailVerifiedAt := or_else (ur_emailVerifiedAt ?a) (Some now2),
        ur_email := normalize_email (ur_email ?a)\<rparr>) (as_users st1)" (is "_ = save ur_id ?b _")
      by auto
    have "save ur_id ?b (ts @ [?a]) = ts @ [?b]" if "\<forall>u \<in> set ts. ur_id u \<noteq> fr ''user id''" for ts
      using that by (induction ts) auto
    with assms(5) have "as_users st2 = as_users st @ [?b]" by (simp add: users2 users)
    then have "find_one (\<lambda>u. ur_email u = normalize_email (ps_email p)) (as_users st2) = Some ?b"
      using assms(5) by (auto simp: find_one_append find_one_None_iff table_simps split: option.split
          dest: find_one_SomeD)
    from login_active [OF this, of cr password _ _] assms(7) set show ?thesis by auto
  qed
  ultimately show ?thesis using v by auto
qed

definition verify_state :: auth_state where
  "verify_state = empty_auth\<lparr>as_pending := [\<lparr>ps_id = ''s1'', ps_email = ''a@b.se'', ps_fullName = ''A B'',
       ps_companyName = None, ps_status = SignupPending, ps_emailVerifiedAt = None,
       ps_tenantId = None, ps_userId = None\<rparr>],
     as_verification := [\<lparr>vt_id = ''v1'', vt_pendingSignupId = ''s1'', vt_email = ''a@b.se'',
       vt_tokenHash = ''secret'', vt_expiresAt = 100, vt_consumedAt = None, vt_createdAt = 0\<rparr>]\<rparr>"

theorem signup_lifecycle_witness:
  "\<exists>v st1 tokens2 st2.
    verify_email_token sample_crypto sample_config id 5 ''secret'' verify_state = (Inr v, st1) \<and>
    set_password sample_crypto sample_config id 6 (vs_passwordSetupToken v) ''Abcdefgh12'' st1 =
      (Inr tokens2, st2)"
proof -
  have row: "find_latest (\<lambda>v. vt_tokenHash v = cr_sha256 sample_crypto ''secret'' \<and> vt_consumedAt v = None)
      vt_createdAt (as_verification verify_state) = Some (hd (as_verification verify_state))"
    by (simp add: find_latest_def find_desc_def verify_state_def sample_crypto_def)
  have p: "find_key ps_id (vt_pendingSignupId (hd (as_verification verify_state))) (as_pending verify_state) =
      Some (hd (as_pending verify_state))"
    by (simp add: verify_state_def find_key_def table_simps)
  have "acceptable_password ''Abcdefgh12''" by (simp add: acceptable_password_def sample_password)
  moreover have "(5 :: int) < vt_expiresAt (hd (as_verification verify_state))"
    "ps_userId (hd (as_pending verify_state)) = None"
    "as_users verify_state = []" "as_passwordTokens verify_state = []"
    by (simp_all add: verify_state_def empty_auth_def)
  ultimately show ?thesis
    using signup_lifecycle [OF row _ p _ _ _ sample_crypto_compare, of 5 id sample_config]
    by (auto dest!: spec [of _ id] spec [of _ 6] spec [of _ "''Abcdefgh12''"])
qed

end
