(* ===== verification/CachePolicy.thy ===== *)
theory CachePolicy
  imports AuditTrail
begin

text \<open>
  \<open>CachePolicyEvaluationService\<close>
  (backend/src/companies/services/cache-policy-evaluation.service.ts): which policy row applies
  to a tenant and entity, and what a policy says about data of a given age. Ages are
  fractional hours (\<open>rat\<close>). \<open>ps_up\<close> says whether the policy table can be read.
\<close>

section \<open>State and data\<close>

record cache_policy =
  cp_id :: string
  cp_tenantId :: "string option"
  cp_entityType :: "string option"
  cp_entityId :: "string option"
  cp_policyName :: string
  cp_freshnessWindowHours :: int
  cp_maxAgeHours :: int
  cp_refreshTriggerHours :: int
  cp_staleFallbackAllowed :: bool
  cp_forceRefreshCostFlags :: "rat members"
  cp_isSystemDefault :: bool
  cp_isActive :: bool
  cp_createdAt :: int
  cp_updatedAt :: int

datatype policy_decision = Fresh | StaleServe | RefreshRequired | ProviderCall

record policy_evaluation_result =
  pe_decision :: policy_decision
  pe_isFresh :: bool
  pe_isStale :: bool
  pe_isExpired :: bool
  pe_shouldTriggerRefresh :: bool
  pe_staleFallbackAllowed :: bool
  pe_costFlags :: "rat members"
  pe_policyId :: string
  pe_usedSystemDefault :: bool
  pe_dataAgeHours :: rat

record policy_store =
  ps_rows :: "cache_policy list"
  ps_up :: bool

record evaluate_opts =
  eo_entityType :: "string option"
  eo_entityId :: "string option"
  eo_correlationId :: "string option"
  eo_actorId :: "string option"
  eo_orgNumber :: "string option"

abbreviation no_opts :: evaluate_opts where
  "no_opts \<equiv> \<lparr>eo_entityType = None, eo_entityId = None, eo_correlationId = None,
     eo_actorId = None, eo_orgNumber = None\<rparr>"

text \<open>\<open>SAFE_DEFAULT_POLICY\<close>; the fields it does not have are never read from it.\<close>

definition safe_default_policy :: cache_policy where
  "safe_default_policy =
     \<lparr>cp_id = ''system-safe-default'', cp_tenantId = None, cp_entityType = None,
      cp_entityId = None, cp_policyName = [], cp_freshnessWindowHours = 720,
      cp_maxAgeHours = 2160, cp_refreshTriggerHours = 1440, cp_staleFallbackAllowed = True,
      cp_forceRefreshCostFlags = [], cp_isSystemDefault = False, cp_isActive = True,
      cp_createdAt = 0, cp_updatedAt = 0\<rparr>"

section \<open>Operations\<close>

definition entity_policy :: "string \<Rightarrow> string option \<Rightarrow> string option \<Rightarrow> cache_policy \<Rightarrow> bool" where
  "entity_policy tenantId entityType entityId p \<longleftrightarrow>
     cp_tenantId p = Some tenantId \<and> cp_entityType p = entityType \<and>
     cp_entityId p = entityId \<and> cp_isActive p"

definition tenant_policy :: "string \<Rightarrow> cache_policy \<Rightarrow> bool" where
  "tenant_policy tenantId p \<longleftrightarrow>
     cp_tenantId p = Some tenantId \<and> cp_entityType p = None \<and> cp_entityId p = None \<and>
     cp_isActive p"

definition default_policy :: "cache_policy \<Rightarrow> bool" where
  "default_policy p \<longleftrightarrow> cp_isSystemDefault p \<and> cp_isActive p"

definition resolve_policy ::
  "policy_store \<Rightarrow> string \<Rightarrow> string option \<Rightarrow> string option \<Rightarrow> cache_policy option result" where
  "resolve_policy ps tenantId entityType entityId =
     (if \<not> ps_up ps then Inl (Failure ''policy lookup failed'')
      else Inr (or_else
        (if truthy_str entityType \<and> truthy_str entityId
         then find_latest (entity_policy tenantId entityType entityId) cp_createdAt (ps_rows ps)
         else None)
        (or_else
          (find_latest (tenant_policy tenantId) cp_createdAt (ps_rows ps))
          (find_latest default_policy cp_createdAt (ps_rows ps)))))"

definition compute_decision ::
  "cache_policy option \<Rightarrow> rat \<Rightarrow> bool \<Rightarrow> policy_evaluation_result" where
  "compute_decision policy dataAgeHours usedSystemDefault =
     (let p = or_default policy safe_default_policy;
          isFresh = dataAgeHours < of_int (cp_freshnessWindowHours p);
          isExpired = of_int (cp_maxAgeHours p) \<le> dataAgeHours;
          isStale = (\<not> isFresh \<and> \<not> isExpired);
          shouldTriggerRefresh = of_int (cp_refreshTriggerHours p) \<le> dataAgeHours;
          decision =
            (if isFresh then Fresh
             else if isExpired then ProviderCall
             else if shouldTriggerRefresh then RefreshRequired
             else if cp_staleFallbackAllowed p then StaleServe else RefreshRequired)
      in \<lparr>pe_decision = decision, pe_isFresh = isFresh, pe_isStale = isStale,
          pe_isExpired = isExpired, pe_shouldTriggerRefresh = shouldTriggerRefresh,
          pe_staleFallbackAllowed = cp_staleFallbackAllowed p,
          pe_costFlags = cp_forceRefreshCostFlags p, pe_policyId = cp_id p,
          pe_usedSystemDefault = usedSystemDefault, pe_dataAgeHours = dataAgeHours\<rparr>)"

fun decision_text :: "policy_decision \<Rightarrow> string" where
  "decision_text Fresh = ''fresh''"
| "decision_text StaleServe = ''stale_serve''"
| "decision_text RefreshRequired = ''refresh_required''"
| "decision_text ProviderCall = ''provider_call''"

definition evaluation_audit ::
  "string \<Rightarrow> string option \<Rightarrow> policy_evaluation_result \<Rightarrow> string option \<Rightarrow> string option \<Rightarrow>
   create_audit_log_input" where
  "evaluation_audit tenantId actorId r correlationId orgNumber =
     \<lparr>al_tenantId = tenantId, al_actorId = actorId, al_action = ''cache_policy.evaluated'',
      al_resourceType = ''cache_policy'', al_resourceId = pe_policyId r,
      al_metadata = Some
        [(''correlationId'', json_str correlationId), (''orgNumber'', json_str orgNumber),
         (''decision'', JStr (decision_text (pe_decision r))),
         (''dataAgeHours'', JNum (pe_dataAgeHours r)),
         (''isFresh'', JBool (pe_isFresh r)), (''isStale'', JBool (pe_isStale r)),
         (''isExpired'', JBool (pe_isExpired r)),
         (''shouldTriggerRefresh'', JBool (pe_shouldTriggerRefresh r)),
         (''staleFallbackAllowed'', JBool (pe_staleFallbackAllowed r)),
         (''usedSystemDefault'', JBool (pe_usedSystemDefault r))]\<rparr>"

definition resolved :: "cache_policy option result \<Rightarrow> cache_policy option" where
  "resolved r = (case r of Inl _ \<Rightarrow> None | Inr p \<Rightarrow> p)"

definition evaluate ::
  "policy_store \<Rightarrow> string \<Rightarrow> rat \<Rightarrow> evaluate_opts \<Rightarrow> audit_store \<Rightarrow>
   policy_evaluation_result \<times> audit_store" where
  "evaluate ps tenantId dataAgeHours opts aud =
     (let policy = resolved (resolve_policy ps tenantId (eo_entityType opts) (eo_entityId opts));
          usedSystemDefault = (case policy of None \<Rightarrow> True | Some p \<Rightarrow> cp_isSystemDefault p);
          r = compute_decision policy dataAgeHours usedSystemDefault
      in (r, audit_log (evaluation_audit tenantId (eo_actorId opts) r (eo_correlationId opts)
                          (eo_orgNumber opts)) aud))"

definition get_policy_for_tenant :: "policy_store \<Rightarrow> string \<Rightarrow> cache_policy option" where
  "get_policy_for_tenant ps tenantId = resolved (resolve_policy ps tenantId None None)"

definition list_policies :: "policy_store \<Rightarrow> cache_policy list" where
  "list_policies ps = find_asc cp_isActive cp_createdAt (ps_rows ps)"

definition get_policy_by_id :: "policy_store \<Rightarrow> string \<Rightarrow> cache_policy option" where
  "get_policy_by_id ps i = find_one (\<lambda>p. cp_id p = i) (ps_rows ps)"

section \<open>The evaluator interface\<close>

text \<open>
  What the refresh decision relies on: the flags and the decision agree, the fallback
  permission does not depend on the age, and older data is never judged more leniently.
\<close>

fun severity :: "policy_decision \<Rightarrow> nat" where
  "severity Fresh = 0"
| "severity StaleServe = 1"
| "severity RefreshRequired = 2"
| "severity ProviderCall = 3"

locale policy_evaluator =
  fixes evaluation :: "rat \<Rightarrow> policy_evaluation_result"
  assumes fresh_iff: "pe_decision (evaluation a) = Fresh \<longleftrightarrow> pe_isFresh (evaluation a)"
    and call_expired: "pe_decision (evaluation a) = ProviderCall \<Longrightarrow> pe_isExpired (evaluation a)"
    and stale_allowed:
      "pe_decision (evaluation a) = StaleServe \<Longrightarrow> pe_staleFallbackAllowed (evaluation a)"
    and fallback_uniform:
      "pe_staleFallbackAllowed (evaluation a) = pe_staleFallbackAllowed (evaluation b)"
    and severity_mono:
      "a \<le> b \<Longrightarrow> severity (pe_decision (evaluation a)) \<le> severity (pe_decision (evaluation b))"
begin

lemma fresh_downward:
  assumes "pe_decision (evaluation b) = Fresh" and "a \<le> b"
  shows "pe_decision (evaluation a) = Fresh"
  using severity_mono [OF assms(2)] assms(1) by (cases "pe_decision (evaluation a)") auto

lemma call_upward:
  assumes "pe_decision (evaluation a) = ProviderCall" and "a \<le> b"
  shows "pe_decision (evaluation b) = ProviderCall"
  using severity_mono [OF assms(2)] assms(1) by (cases "pe_decision (evaluation b)") auto

end

lemma compute_decision_simps:
  "pe_decision (compute_decision p a d) =
     (let q = or_default p safe_default_policy in
      if a < of_int (cp_freshnessWindowHours q) then Fresh
      else if of_int (cp_maxAgeHours q) \<le> a then ProviderCall
      else if of_int (cp_refreshTriggerHours q) \<le> a \<or> \<not> cp_staleFallbackAllowed q
      then RefreshRequired else StaleServe)"
  "pe_isFresh (compute_decision p a d) =
     (a < of_int (cp_freshnessWindowHours (or_default p safe_default_policy)))"
  "pe_isExpired (compute_decision p a d) =
     (of_int (cp_maxAgeHours (or_default p safe_default_policy)) \<le> a)"
  "pe_isStale (compute_decision p a d) =
     (\<not> pe_isFresh (compute_decision p a d) \<and> \<not> pe_isExpired (compute_decision p a d))"
  "pe_staleFallbackAllowed (compute_decision p a d) =
     cp_staleFallbackAllowed (or_default p safe_default_policy)"
  "pe_policyId (compute_decision p a d) = cp_id (or_default p safe_default_policy)"
  "pe_usedSystemDefault (compute_decision p a d) = d"
  "pe_dataAgeHours (compute_decision p a d) = a"
  by (simp_all add: compute_decision_def Let_def)

interpretation cache_policy_evaluator: policy_evaluator "\<lambda>age. compute_decision p age d" for p d
proof
  fix a b :: rat
  show "pe_decision (compute_decision p a d) = Fresh \<longleftrightarrow> pe_isFresh (compute_decision p a d)"
    by (simp add: compute_decision_simps Let_def)
  show "pe_decision (compute_decision p a d) = ProviderCall \<Longrightarrow>
    pe_isExpired (compute_decision p a d)"
    by (simp add: compute_decision_simps Let_def split: if_splits)
  show "pe_decision (compute_decision p a d) = StaleServe \<Longrightarrow>
    pe_staleFallbackAllowed (compute_decision p a d)"
    by (simp add: compute_decision_simps Let_def split: if_splits)
  show "pe_staleFallbackAllowed (compute_decision p a d) =
    pe_staleFallbackAllowed (compute_decision p b d)"
    by (simp add: compute_decision_simps)
  show "a \<le> b \<Longrightarrow> severity (pe_decision (compute_decision p a d)) \<le>
    severity (pe_decision (compute_decision p b d))"
    by (auto simp: compute_decision_simps Let_def)
qed

section \<open>Properties\<close>

lemma find_latest_newest:
  "find_latest p key t = Some r \<longleftrightarrow>
    find_latest p key t = Some r \<and> r \<in> set t \<and> p r \<and> (\<forall>x \<in> set t. p x \<longrightarrow> key x \<le> key r)"
  using find_latest_SomeD [of p key t r] by auto

definition newest_of :: "(cache_policy \<Rightarrow> bool) \<Rightarrow> cache_policy list \<Rightarrow> cache_policy \<Rightarrow> bool" where
  "newest_of sel rows p \<longleftrightarrow>
     p \<in> set rows \<and> sel p \<and> (\<forall>q \<in> set rows. sel q \<longrightarrow> cp_createdAt q \<le> cp_createdAt p)"

lemma find_latest_newest_of:
  "find_latest sel cp_createdAt rows = Some p \<Longrightarrow> newest_of sel rows p"
  using find_latest_SomeD [of sel cp_createdAt rows p] by (auto simp: newest_of_def)

lemma find_latest_exists:
  "\<exists>q \<in> set rows. sel q \<Longrightarrow> \<exists>p. find_latest sel key rows = Some p"
  using find_latest_None_iff [of sel key rows] by (cases "find_latest sel key rows") auto

lemma find_latest_absent: "\<not> (\<exists>q \<in> set rows. sel q) \<Longrightarrow> find_latest sel key rows = None"
  by (simp add: find_latest_None_iff)

text \<open>
  Policy resolution picks the most specific class of policy that has an active row - the
  entity's override, else the tenant's policy, else the system default - and the newest row of
  that class; a row of another tenant or a disabled row is never applied.
\<close>

theorem resolve_policy_most_specific:
  assumes "resolve_policy ps t ty i = Inr (Some p)"
  shows "cp_isActive p \<and> (cp_tenantId p = Some t \<or> cp_isSystemDefault p) \<and>
    (if truthy_str ty \<and> truthy_str i \<and> (\<exists>q \<in> set (ps_rows ps). entity_policy t ty i q)
     then newest_of (entity_policy t ty i) (ps_rows ps) p
     else if \<exists>q \<in> set (ps_rows ps). tenant_policy t q
     then newest_of (tenant_policy t) (ps_rows ps) p
     else newest_of default_policy (ps_rows ps) p)"
proof -
  let ?fe = "find_latest (entity_policy t ty i) cp_createdAt (ps_rows ps)"
  let ?ft = "find_latest (tenant_policy t) cp_createdAt (ps_rows ps)"
  let ?fd = "find_latest default_policy cp_createdAt (ps_rows ps)"
  have eq: "or_else (if truthy_str ty \<and> truthy_str i then ?fe else None) (or_else ?ft ?fd) = Some p"
    using assms by (auto simp: resolve_policy_def split: if_splits)
  have cls: "(if truthy_str ty \<and> truthy_str i \<and> (\<exists>q \<in> set (ps_rows ps). entity_policy t ty i q)
     then newest_of (entity_policy t ty i) (ps_rows ps) p
     else if \<exists>q \<in> set (ps_rows ps). tenant_policy t q
     then newest_of (tenant_policy t) (ps_rows ps) p
     else newest_of default_policy (ps_rows ps) p)" (is ?C)
    using eq find_latest_exists [of "ps_rows ps" "entity_policy t ty i" cp_createdAt]
      find_latest_exists [of "ps_rows ps" "tenant_policy t" cp_createdAt]
      find_latest_absent [of "ps_rows ps" "entity_policy t ty i" cp_createdAt]
      find_latest_absent [of "ps_rows ps" "tenant_policy t" cp_createdAt]
    by (auto simp: or_else_def split: if_splits option.splits dest: find_latest_newest_of)
  then show ?thesis
    by (auto simp: newest_of_def entity_policy_def tenant_policy_def default_policy_def
        split: if_splits)
qed

definition sample_policy :: cache_policy where
  "sample_policy =
     \<lparr>cp_id = ''p1'', cp_tenantId = Some ''t1'', cp_entityType = None, cp_entityId = None,
      cp_policyName = ''tenant'', cp_freshnessWindowHours = 24, cp_maxAgeHours = 96,
      cp_refreshTriggerHours = 48, cp_staleFallbackAllowed = False,
      cp_forceRefreshCostFlags = [], cp_isSystemDefault = False, cp_isActive = True,
      cp_createdAt = 5, cp_updatedAt = 5\<rparr>"

definition sample_policies :: policy_store where
  "sample_policies =
     \<lparr>ps_rows = [safe_default_policy\<lparr>cp_id := ''d'', cp_isSystemDefault := True\<rparr>,
        sample_policy\<lparr>cp_id := ''p0'', cp_createdAt := 2\<rparr>, sample_policy], ps_up = True\<rparr>"

lemma sample_resolution:
  "resolve_policy sample_policies ''t1'' (Some ''company'') (Some ''5560000001'') =
    Inr (Some sample_policy)"
  by (simp add: resolve_policy_def sample_policies_def find_latest_def find_desc_def truthy_str_def
      entity_policy_def tenant_policy_def sample_policy_def safe_default_policy_def)

theorem resolve_policy_most_specific_witness:
  "newest_of (tenant_policy ''t1'') (ps_rows sample_policies) sample_policy"
  using resolve_policy_most_specific [OF sample_resolution]
  by (auto simp: sample_policies_def sample_policy_def safe_default_policy_def
      entity_policy_def tenant_policy_def)

text \<open>
  For one tenant and entity, older data is never judged more leniently: with the same
  policy table, the evaluated decision can only move from fresh to stale-serve to
  refresh-required to provider-call as the age grows, whatever thresholds are configured.
\<close>

theorem evaluate_severity_mono:
  assumes "a \<le> b"
  shows "severity (pe_decision (fst (evaluate ps t a opts aud))) \<le>
    severity (pe_decision (fst (evaluate ps t b opts aud')))"
  using cache_policy_evaluator.severity_mono [OF assms]
  by (simp add: evaluate_def Let_def)

theorem evaluate_severity_mono_witness:
  "severity (pe_decision (fst (evaluate sample_policies ''t1'' 30
      no_opts empty_audit))) \<le>
   severity (pe_decision (fst (evaluate sample_policies ''t1'' 100
      no_opts empty_audit)))"
  by (rule evaluate_severity_mono) simp

text \<open>
  When the policy table cannot be read, or holds no row that applies, evaluation still
  answers, with the built-in policy: fresh below 720 hours, a provider call from 2160 hours,
  a refresh from 1440 hours and stale serving between; the result says so.
\<close>

theorem evaluate_safe_default:
  assumes "resolved (resolve_policy ps t (eo_entityType opts) (eo_entityId opts)) = None"
  shows "let r = fst (evaluate ps t a opts aud) in
    pe_policyId r = ''system-safe-default'' \<and> pe_usedSystemDefault r \<and>
    pe_decision r = (if a < 720 then Fresh else if 2160 \<le> a then ProviderCall
      else if 1440 \<le> a then RefreshRequired else StaleServe)"
  using assms
  by (simp add: evaluate_def Let_def compute_decision_simps) (simp add: safe_default_policy_def)

theorem evaluate_safe_default_witness:
  "let r = fst (evaluate \<lparr>ps_rows = [sample_policy], ps_up = False\<rparr> ''t1'' 1500
      no_opts
      empty_audit) in
    pe_policyId r = ''system-safe-default'' \<and> pe_decision r = RefreshRequired"
  using evaluate_safe_default [of "\<lparr>ps_rows = [sample_policy], ps_up = False\<rparr>" "''t1''"
      "no_opts" 1500
      "empty_audit"]
  by (simp add: resolve_policy_def resolved_def Let_def)

end
