(* ===== verification/RefreshDecision.thy ===== *)
theory RefreshDecision
  imports CachePolicy
begin

text \<open>
  \<open>RefreshDecisionService\<close> (backend/src/companies/services/refresh-decision.service.ts): where a
  lookup is served from. A quota hook is a function of its context that answers or throws;
  hooks do not write to the draft they are shown.
\<close>

section \<open>Data\<close>

datatype serve_from = FromDb | FromStaleDb | FromApi

record refresh_decision =
  rd_serve_from :: serve_from
  rd_reason :: string
  rd_cost_flags :: "rat members"
  rd_force_refresh :: bool

record quota_hook_context =
  hc_tenantId :: string
  hc_entityId :: "string option"
  hc_entityType :: "string option"
  hc_correlationId :: "string option"
  hc_draftDecision :: refresh_decision

record hook_modification =
  hm_serve_from :: "serve_from option"
  hm_reason :: "string option"
  hm_cost_flags :: "rat members option"

datatype hook_outcome =
    HookThrows
  | HookResult (allow: bool) (modified: "hook_modification option")

type_synonym quota_hook = "quota_hook_context \<Rightarrow> hook_outcome"

record refresh_decision_params =
  rp_tenantId :: string
  rp_dataAgeHours :: rat
  rp_forceRefresh :: bool
  rp_entityId :: "string option"
  rp_entityType :: "string option"
  rp_correlationId :: "string option"
  rp_actorId :: "string option"
  rp_isApiAvailable :: bool
  rp_quotaHooks :: "quota_hook list"

record batch_refresh_decision_result =
  br_decisions :: "(refresh_decision_params \<times> refresh_decision) list"
  br_apiCallCount :: nat
  br_dbHitCount :: nat
  br_staleFallbackCount :: nat

section \<open>Operations\<close>

text \<open>\<open>None\<close> is an evaluation that failed.\<close>

definition map_policy_to_decision ::
  "policy_evaluation_result option \<Rightarrow> rat \<Rightarrow> refresh_decision" where
  "map_policy_to_decision policyResult dataAgeHours =
     (case policyResult of
        None \<Rightarrow>
          \<lparr>rd_serve_from = (if 0 < dataAgeHours then FromStaleDb else FromApi),
           rd_reason = ''policy_evaluation_error_safe_fallback'', rd_cost_flags = [],
           rd_force_refresh = False\<rparr>
      | Some r \<Rightarrow>
          (let (serve, reason) =
             (case pe_decision r of
                Fresh \<Rightarrow> (FromDb, ''policy_fresh'')
              | StaleServe \<Rightarrow> (FromStaleDb, ''policy_stale_serve'')
              | RefreshRequired \<Rightarrow>
                  (if pe_staleFallbackAllowed r
                   then (FromStaleDb, ''policy_refresh_required_stale_fallback'')
                   else (FromApi, ''policy_refresh_required''))
              | ProviderCall \<Rightarrow> (FromApi, ''policy_provider_call''))
           in \<lparr>rd_serve_from = serve, rd_reason = reason, rd_cost_flags = pe_costFlags r,
               rd_force_refresh = False\<rparr>))"

definition apply_stale_fallback :: "refresh_decision \<Rightarrow> refresh_decision" where
  "apply_stale_fallback d =
     d\<lparr>rd_serve_from := FromStaleDb,
       rd_reason := rd_reason d @ ''_api_unavailable_stale_fallback''\<rparr>"

definition apply_hook :: "hook_outcome \<Rightarrow> refresh_decision \<Rightarrow> refresh_decision" where
  "apply_hook out d =
     (case out of
        HookThrows \<Rightarrow>
          d\<lparr>rd_serve_from := FromStaleDb, rd_reason := rd_reason d @ ''_quota_hook_error_fallback''\<rparr>
      | HookResult ok md \<Rightarrow>
          (if \<not> ok then
             d\<lparr>rd_serve_from := FromStaleDb, rd_reason := rd_reason d @ ''_quota_veto'',
               rd_cost_flags := spread (rd_cost_flags d) [(''quota_exceeded'', JBool True)]\<rparr>
           else (case md of
               None \<Rightarrow> d
             | Some m \<Rightarrow>
                 d\<lparr>rd_serve_from := or_default (hm_serve_from m) (rd_serve_from d),
                   rd_reason := or_default (hm_reason m) (rd_reason d),
                   rd_cost_flags :=
                     spread (rd_cost_flags d) (or_default (hm_cost_flags m) [])\<rparr>)))"

definition hook_context :: "refresh_decision_params \<Rightarrow> refresh_decision \<Rightarrow> quota_hook_context" where
  "hook_context p d =
     \<lparr>hc_tenantId = rp_tenantId p, hc_entityId = rp_entityId p, hc_entityType = rp_entityType p,
      hc_correlationId = rp_correlationId p, hc_draftDecision = d\<rparr>"

fun run_quota_hooks ::
  "refresh_decision_params \<Rightarrow> quota_hook list \<Rightarrow> refresh_decision \<Rightarrow> refresh_decision" where
  "run_quota_hooks p [] d = d"
| "run_quota_hooks p (h # hs) d = run_quota_hooks p hs (apply_hook (h (hook_context p d)) d)"

fun serve_text :: "serve_from \<Rightarrow> string" where
  "serve_text FromDb = ''db''"
| "serve_text FromStaleDb = ''stale_db''"
| "serve_text FromApi = ''api''"

definition decision_audit ::
  "refresh_decision_params \<Rightarrow> refresh_decision \<Rightarrow> create_audit_log_input" where
  "decision_audit p d =
     \<lparr>al_tenantId = rp_tenantId p, al_actorId = rp_actorId p,
      al_action = ''refresh_decision.made'',
      al_resourceType = or_default (rp_entityType p) ''entity'',
      al_resourceId = or_default (rp_entityId p) (rp_tenantId p),
      al_metadata = Some
        [(''correlationId'', json_str (rp_correlationId p)),
         (''entityId'', json_str (rp_entityId p)), (''entityType'', json_str (rp_entityType p)),
         (''dataAgeHours'', JNum (rp_dataAgeHours p)),
         (''serve_from'', JStr (serve_text (rd_serve_from d))), (''reason'', JStr (rd_reason d)),
         (''cost_flags'', JObj (rd_cost_flags d)),
         (''force_refresh'', JBool (rd_force_refresh d))]\<rparr>"

definition force_decision :: refresh_decision where
  "force_decision =
     \<lparr>rd_serve_from = FromApi, rd_reason = ''force_refresh_override'',
      rd_cost_flags = [(''force_refresh'', JBool True)], rd_force_refresh = True\<rparr>"

definition params_opts :: "refresh_decision_params \<Rightarrow> evaluate_opts" where
  "params_opts p =
     \<lparr>eo_entityType = rp_entityType p, eo_entityId = rp_entityId p,
      eo_correlationId = rp_correlationId p, eo_actorId = rp_actorId p, eo_orgNumber = None\<rparr>"

text \<open>Steps 1 and 2: the draft decision and what the evaluation appended to the audit log.\<close>

definition draft_decision ::
  "policy_store \<Rightarrow> refresh_decision_params \<Rightarrow> audit_store \<Rightarrow> refresh_decision \<times> audit_store" where
  "draft_decision ps p aud =
     (if rp_forceRefresh p then (force_decision, aud)
      else (let (r, aud') = evaluate ps (rp_tenantId p) (rp_dataAgeHours p) (params_opts p) aud
            in (map_policy_to_decision (Some r) (rp_dataAgeHours p), aud')))"

definition check_api :: "refresh_decision_params \<Rightarrow> refresh_decision \<Rightarrow> refresh_decision" where
  "check_api p d =
     (if rd_serve_from d = FromApi \<and> \<not> rp_isApiAvailable p then apply_stale_fallback d else d)"

definition decide ::
  "policy_store \<Rightarrow> refresh_decision_params \<Rightarrow> audit_store \<Rightarrow> refresh_decision \<times> audit_store" where
  "decide ps p aud =
     (let (draft, aud') = draft_decision ps p aud;
          d = run_quota_hooks p (rp_quotaHooks p) (check_api p draft)
      in (d, audit_log (decision_audit p d) aud'))"

text \<open>\<open>decide\<close> cannot throw, so the per-item fallback of \<open>decideBatch\<close> is never taken.\<close>

fun decide_items ::
  "policy_store \<Rightarrow> refresh_decision_params list \<Rightarrow> audit_store \<Rightarrow>
   (refresh_decision_params \<times> refresh_decision) list \<times> audit_store" where
  "decide_items ps [] aud = ([], aud)"
| "decide_items ps (p # items) aud =
     (let (d, aud') = decide ps p aud; (rs, aud'') = decide_items ps items aud'
      in ((p, d) # rs, aud''))"

definition decide_batch ::
  "policy_store \<Rightarrow> refresh_decision_params list \<Rightarrow> audit_store \<Rightarrow>
   batch_refresh_decision_result \<times> audit_store" where
  "decide_batch ps items aud =
     (let (results, aud') = decide_items ps items aud;
          n = (\<lambda>s. length (filter (\<lambda>r. rd_serve_from (snd r) = s) results))
      in (\<lparr>br_decisions = results, br_apiCallCount = n FromApi, br_dbHitCount = n FromDb,
           br_staleFallbackCount = n FromStaleDb\<rparr>, aud'))"

section \<open>What follows from the evaluator interface\<close>

context policy_evaluator
begin

lemma served_from_db_iff:
  "rd_serve_from (map_policy_to_decision (Some (evaluation a)) a) = FromDb \<longleftrightarrow>
    pe_isFresh (evaluation a)"
  using fresh_iff [of a]
  by (auto simp: map_policy_to_decision_def split: policy_decision.splits)

lemma db_only_while_younger:
  assumes "rd_serve_from (map_policy_to_decision (Some (evaluation b)) b) = FromDb" and "a \<le> b"
  shows "rd_serve_from (map_policy_to_decision (Some (evaluation a)) a) = FromDb"
  using assms fresh_downward [OF _ assms(2)] served_from_db_iff fresh_iff by blast

lemma api_only_when_needed:
  assumes "rd_serve_from (map_policy_to_decision (Some (evaluation a)) a) = FromApi"
  shows "pe_isExpired (evaluation a) \<or> \<not> pe_staleFallbackAllowed (evaluation a)"
  using assms call_expired [of a]
  by (auto simp: map_policy_to_decision_def split: policy_decision.splits if_splits)

lemma api_upward:
  assumes "rd_serve_from (map_policy_to_decision (Some (evaluation a)) a) = FromApi" and "a \<le> b"
  shows "rd_serve_from (map_policy_to_decision (Some (evaluation b)) b) = FromApi"
  using assms severity_mono [OF assms(2)] fallback_uniform [of a b] stale_allowed [of b]
  by (cases "pe_decision (evaluation a)"; cases "pe_decision (evaluation b)")
    (auto simp: map_policy_to_decision_def split: if_splits)

end

section \<open>Lemmas\<close>

lemma serve_from_check_api:
  "rd_serve_from (check_api p d) =
    (if rd_serve_from d = FromApi \<and> \<not> rp_isApiAvailable p then FromStaleDb else rd_serve_from d)"
  by (simp add: check_api_def apply_stale_fallback_def)

lemma force_refresh_apply_hook [simp]:
  "rd_force_refresh (apply_hook out d) = rd_force_refresh d"
  by (auto simp: apply_hook_def split: hook_outcome.splits option.splits)

lemma force_refresh_run_hooks [simp]:
  "rd_force_refresh (run_quota_hooks p hs d) = rd_force_refresh d"
  by (induction p hs d rule: run_quota_hooks.induct) simp_all

lemma run_quota_hooks_append:
  "run_quota_hooks p (hs @ hs') d = run_quota_hooks p hs' (run_quota_hooks p hs d)"
  by (induction p hs d rule: run_quota_hooks.induct) simp_all

text \<open>The only way a hook asks for a live call.\<close>

definition requests_api :: "hook_outcome \<Rightarrow> bool" where
  "requests_api out \<longleftrightarrow>
     (case out of HookThrows \<Rightarrow> False
      | HookResult ok md \<Rightarrow> ok \<and> (case md of None \<Rightarrow> False | Some m \<Rightarrow> hm_serve_from m = Some FromApi))"

lemma apply_hook_api:
  "rd_serve_from (apply_hook out d) = FromApi \<Longrightarrow> requests_api out \<or> rd_serve_from d = FromApi"
  by (auto simp: apply_hook_def requests_api_def or_default_def
      split: hook_outcome.splits option.splits if_splits)

lemma run_quota_hooks_api:
  assumes "rd_serve_from (run_quota_hooks p hs d) = FromApi"
  shows "rd_serve_from d = FromApi \<or> (\<exists>h \<in> set hs. \<exists>ctx. requests_api (h ctx))"
  using assms
proof (induction p hs d rule: run_quota_hooks.induct)
  case (1 p d)
  then show ?case by simp
next
  case (2 p h hs d)
  then show ?case
    using apply_hook_api [of "h (hook_context p d)" d] by auto
qed

lemma fst_decide:
  "fst (decide ps p aud) =
    run_quota_hooks p (rp_quotaHooks p) (check_api p (fst (draft_decision ps p aud)))"
  by (simp add: decide_def Let_def split: prod.splits)

lemma fst_draft_decision:
  "fst (draft_decision ps p aud) =
    (if rp_forceRefresh p then force_decision
     else map_policy_to_decision
       (Some (fst (evaluate ps (rp_tenantId p) (rp_dataAgeHours p) (params_opts p) aud)))
       (rp_dataAgeHours p))"
  by (simp add: draft_decision_def split: prod.splits)

lemma length_decide_items: "length (fst (decide_items ps items aud)) = length items"
  by (induction ps items aud rule: decide_items.induct) (auto split: prod.splits)

lemma map_fst_decide_items: "map fst (fst (decide_items ps items aud)) = items"
  by (induction ps items aud rule: decide_items.induct) (auto split: prod.splits)

lemma serve_from_partition:
  "length (filter (\<lambda>r. rd_serve_from (snd r) = FromApi) rs) +
   length (filter (\<lambda>r. rd_serve_from (snd r) = FromDb) rs) +
   length (filter (\<lambda>r. rd_serve_from (snd r) = FromStaleDb) rs) = length rs"
  by (induction rs) (auto split: serve_from.splits intro: serve_from.exhaust)

section \<open>Properties\<close>

definition applied_policy :: "policy_store \<Rightarrow> refresh_decision_params \<Rightarrow> cache_policy" where
  "applied_policy ps p =
     or_default (resolved (resolve_policy ps (rp_tenantId p) (rp_entityType p) (rp_entityId p)))
       safe_default_policy"

lemma fst_evaluate:
  "fst (evaluate ps t a opts aud) =
    (let q = resolved (resolve_policy ps t (eo_entityType opts) (eo_entityId opts))
     in compute_decision q a (case q of None \<Rightarrow> True | Some p \<Rightarrow> cp_isSystemDefault p))"
  by (simp add: evaluate_def Let_def)

lemma fst_decide_independent: "fst (decide ps p aud) = fst (decide ps p aud')"
  by (simp add: fst_decide fst_draft_decision fst_evaluate)

definition sample_params :: refresh_decision_params where
  "sample_params =
     \<lparr>rp_tenantId = ''t1'', rp_dataAgeHours = 60, rp_forceRefresh = False,
      rp_entityId = Some ''5560000001'', rp_entityType = Some ''company'',
      rp_correlationId = None, rp_actorId = None, rp_isApiAvailable = True, rp_quotaHooks = []\<rparr>"

lemma sample_params_simps [simp]:
  "rp_forceRefresh sample_params = False" "rp_quotaHooks sample_params = []"
  "rp_dataAgeHours sample_params = 60" "rp_isApiAvailable sample_params = True"
  by (simp_all add: sample_params_def)

lemma sample_applied [simp]: "applied_policy sample_policies sample_params = sample_policy"
  by (simp add: applied_policy_def sample_params_def sample_resolution resolved_def)

text \<open>
  Without force and hooks, the decision is the documented function of the applied
  policy's thresholds: the database serves data inside the freshness window; outside it, the
  provider is called exactly when the data is past its maximum age or stale fallback is
  forbidden, and only if the API is available; stale data is served in every other case.
\<close>

theorem decide_serve_from:
  assumes "\<not> rp_forceRefresh p" and "rp_quotaHooks p = []"
  shows "rd_serve_from (fst (decide ps p aud)) =
    (let q = applied_policy ps p; a = rp_dataAgeHours p in
     if a < of_int (cp_freshnessWindowHours q) then FromDb
     else if (of_int (cp_maxAgeHours q) \<le> a \<or> \<not> cp_staleFallbackAllowed q) \<and> rp_isApiAvailable p
     then FromApi else FromStaleDb)"
proof -
  let ?r = "fst (evaluate ps (rp_tenantId p) (rp_dataAgeHours p) (params_opts p) aud)"
  have dec: "pe_decision ?r =
    (let q = applied_policy ps p; a = rp_dataAgeHours p in
     if a < of_int (cp_freshnessWindowHours q) then Fresh
     else if of_int (cp_maxAgeHours q) \<le> a then ProviderCall
     else if of_int (cp_refreshTriggerHours q) \<le> a \<or> \<not> cp_staleFallbackAllowed q
     then RefreshRequired else StaleServe)"
    and fb: "pe_staleFallbackAllowed ?r = cp_staleFallbackAllowed (applied_policy ps p)"
    by (simp_all add: fst_evaluate Let_def compute_decision_simps applied_policy_def params_opts_def)
  have "rd_serve_from (fst (decide ps p aud)) =
      rd_serve_from (check_api p (map_policy_to_decision (Some ?r) (rp_dataAgeHours p)))"
    using assms by (simp add: fst_decide fst_draft_decision)
  then show ?thesis
    by (simp add: serve_from_check_api map_policy_to_decision_def dec fb Let_def)
qed

theorem decide_serve_from_witness:
  "rd_serve_from (fst (decide sample_policies sample_params empty_audit)) = FromApi"
  using decide_serve_from [of sample_params sample_policies empty_audit]
  by (simp add: sample_policy_def Let_def)

text \<open>
  When the provider is reported unavailable, a decision never sends the lookup to the API
  unless a quota hook itself asks for the API; hook vetoes and hook failures never do.
\<close>

theorem decide_api_down:
  assumes "\<not> rp_isApiAvailable p"
    and "rd_serve_from (fst (decide ps p aud)) = FromApi"
  shows "\<exists>h \<in> set (rp_quotaHooks p). \<exists>ctx. requests_api (h ctx)"
  using assms run_quota_hooks_api [of p "rp_quotaHooks p"]
  by (fastforce simp: fst_decide serve_from_check_api split: if_splits)

definition pushy_hook :: quota_hook where
  "pushy_hook ctx = HookResult True
     (Some \<lparr>hm_serve_from = Some FromApi, hm_reason = None, hm_cost_flags = None\<rparr>)"

theorem decide_api_down_witness:
  "\<exists>h \<in> set [pushy_hook]. \<exists>ctx. requests_api (h ctx)"
  using decide_api_down [of "sample_params\<lparr>rp_isApiAvailable := False,
      rp_quotaHooks := [pushy_hook]\<rparr>" sample_policies empty_audit]
  by (simp add: fst_decide pushy_hook_def apply_hook_def)

text \<open>
  A veto by the last quota hook wins over everything before it - a forced refresh, the
  policy, the other hooks: the lookup is served stale, the decision carries the
  quota-exceeded flag, and it still records whether the caller forced the refresh.
\<close>

theorem decide_last_veto:
  assumes "rp_quotaHooks p = hs @ [h]" and "\<And>ctx. \<exists>md. h ctx = HookResult False md"
  shows "rd_serve_from (fst (decide ps p aud)) = FromStaleDb \<and>
    map_of (rd_cost_flags (fst (decide ps p aud))) ''quota_exceeded'' = Some (JBool True) \<and>
    rd_force_refresh (fst (decide ps p aud)) = rp_forceRefresh p"
proof -
  let ?d = "run_quota_hooks p hs (check_api p (fst (draft_decision ps p aud)))"
  obtain md where md: "h (hook_context p ?d) = HookResult False md"
    using assms(2) by blast
  have "fst (decide ps p aud) = apply_hook (HookResult False md) ?d"
    using assms(1) md by (simp add: fst_decide run_quota_hooks_append)
  moreover have "rd_force_refresh ?d = rp_forceRefresh p"
    by (simp add: fst_draft_decision check_api_def apply_stale_fallback_def force_decision_def
        map_policy_to_decision_def split: prod.splits)
  ultimately show ?thesis by (simp add: apply_hook_def)
qed

definition veto_hook :: quota_hook where
  "veto_hook ctx = HookResult False None"

theorem decide_last_veto_witness:
  "rd_serve_from (fst (decide sample_policies
     (sample_params\<lparr>rp_forceRefresh := True, rp_quotaHooks := [pushy_hook, veto_hook]\<rparr>)
     empty_audit)) = FromStaleDb"
  using decide_last_veto [of "sample_params\<lparr>rp_forceRefresh := True,
      rp_quotaHooks := [pushy_hook, veto_hook]\<rparr>" "[pushy_hook]" veto_hook sample_policies
      empty_audit]
  by (simp add: veto_hook_def)

text \<open>
  A batch gives each item, in input order, exactly the decision the item gets alone, and
  its three counters add up to the number of items.
\<close>

theorem decide_batch_pointwise:
  "br_decisions (fst (decide_batch ps items aud)) =
     map (\<lambda>p. (p, fst (decide ps p empty_audit))) items \<and>
   br_apiCallCount (fst (decide_batch ps items aud)) +
   br_dbHitCount (fst (decide_batch ps items aud)) +
   br_staleFallbackCount (fst (decide_batch ps items aud)) = length items"
proof -
  have "fst (decide_items ps items aud) = map (\<lambda>p. (p, fst (decide ps p empty_audit))) items"
  proof (induction ps items aud rule: decide_items.induct)
    case (1 ps aud)
    then show ?case by simp
  next
    case (2 ps p items aud)
    then show ?case
      using fst_decide_independent [of ps p aud empty_audit]
      by (cases "decide ps p aud") (auto split: prod.splits)
  qed
  then show ?thesis
    using serve_from_partition [of "fst (decide_items ps items aud)"]
    by (cases "decide_items ps items aud") (auto simp: decide_batch_def Let_def)
qed

end
