(* ===== verification/FailureState.thy ===== *)
theory FailureState
  imports AuditTrail Dates
begin

text \<open>
  \<open>FailureStateService\<close> (backend/src/companies/services/failure-state.service.ts) over the
  failure state table (backend/src/companies/entities/failure-state.entity.ts): how a provider
  error is classified, the append-only record of failures and recoveries of an entity, and when
  the next call may be tried.
\<close>

section \<open>State\<close>

datatype failure_state =
  SUCCESS | PROVIDER_TIMEOUT | PROVIDER_ERROR | PROVIDER_UNAVAILABLE | NO_DATA_AVAILABLE | DEGRADED

record failure_row =
  fs_tenantId :: string
  fs_entityType :: string
  fs_entityId :: string
  fs_failureState :: failure_state
  fs_failureReason :: "string option"
  fs_lastAttempted :: int
  fs_fallbackUsed :: bool
  fs_staleDataTimestamp :: "int option"
  fs_retryCount :: int
  fs_isRecoverable :: bool
  fs_createdAt :: int

record failure_store =
  fst_rows :: "failure_row list"
  fst_audit :: audit_store

record failure_classification =
  fc_failureState :: failure_state
  fc_failureReason :: string
  fc_isRecoverable :: bool
  fc_isPermissionFailure :: bool
  fc_isQuotaFailure :: bool

record failure_record_input =
  fi_tenantId :: string
  fi_entityType :: string
  fi_entityId :: string
  fi_failureState :: failure_state
  fi_failureReason :: string
  fi_isRecoverable :: bool
  fi_fallbackUsed :: bool
  fi_staleDataTimestamp :: "int option"
  fi_correlationId :: "string option"
  fi_actorId :: "string option"
  fi_incrementRetry :: "bool option"

record failure_success_input =
  si_tenantId :: string
  si_entityType :: string
  si_entityId :: string
  si_correlationId :: "string option"
  si_actorId :: "string option"

record failure_recovery_status =
  rs_state :: failure_state
  rs_isRecoverable :: bool
  rs_retryCount :: int
  rs_lastAttempted :: "int option"
  rs_nextRetryAt :: "int option"
  rs_canRetry :: bool
  rs_failureReason :: "string option"
  rs_fallbackUsed :: bool

text \<open>
  What a provider call may throw: the NestJS exceptions the classifier tests for, any other
  \<open>HttpException\<close> with its status, and other errors with their message and \<open>code\<close>.
\<close>

datatype provider_exception =
    GatewayTimeoutException string
  | UnauthorizedException string
  | ForbiddenException string
  | HttpException nat string
  | OtherError string "string option"

section \<open>Classification\<close>

definition network_error_codes :: "string list" where
  "network_error_codes =
     [''ECONNREFUSED'', ''ECONNRESET'', ''ENOTFOUND'', ''EAI_AGAIN'', ''ETIMEDOUT'']"

definition timeout_patterns :: "string list" where
  "timeout_patterns = [''timeout'', ''timed out'', ''time out'']"

definition classification ::
  "failure_state \<Rightarrow> string \<Rightarrow> bool \<Rightarrow> bool \<Rightarrow> bool \<Rightarrow> failure_classification" where
  "classification state reason recoverable permission quota =
     \<lparr>fc_failureState = state, fc_failureReason = reason, fc_isRecoverable = recoverable,
      fc_isPermissionFailure = permission, fc_isQuotaFailure = quota\<rparr>"

text \<open>The last part of \<open>classifyFailure\<close>, by error code and message.\<close>

definition classify_message :: "string \<Rightarrow> string option \<Rightarrow> failure_classification" where
  "classify_message message errorCode =
     (case Option.bind errorCode nonempty of
        Some c \<Rightarrow>
          if c \<in> set network_error_codes
          then classification PROVIDER_UNAVAILABLE (''network_'' @ to_lower c) True False False
          else if \<exists>p \<in> set timeout_patterns. has_sub p (to_lower message)
          then classification PROVIDER_TIMEOUT ''timeout'' True False False
          else classification PROVIDER_ERROR
            (or_default (nonempty (to_lower message)) ''unknown_error'') True False False
      | None \<Rightarrow>
          if \<exists>p \<in> set timeout_patterns. has_sub p (to_lower message)
          then classification PROVIDER_TIMEOUT ''timeout'' True False False
          else classification PROVIDER_ERROR
            (or_default (nonempty (to_lower message)) ''unknown_error'') True False False)"

fun classify_failure :: "provider_exception \<Rightarrow> failure_classification" where
  "classify_failure (GatewayTimeoutException m) =
     classification PROVIDER_TIMEOUT ''timeout'' True False False"
| "classify_failure (UnauthorizedException m) =
     classification PROVIDER_ERROR ''permission_denied'' False True False"
| "classify_failure (ForbiddenException m) =
     classification PROVIDER_ERROR ''permission_denied'' False True False"
| "classify_failure (HttpException status m) =
     (if status = 408 \<or> status = 504
      then classification PROVIDER_TIMEOUT (''http_'' @ show_nat status @ ''_timeout'') True False False
      else if status = 429 then classification PROVIDER_ERROR ''quota_exceeded'' True False True
      else if status = 502 \<or> status = 503
      then classification PROVIDER_UNAVAILABLE (''http_'' @ show_nat status @ ''_unavailable'')
        True False False
      else if 500 \<le> status
      then classification PROVIDER_ERROR (''http_'' @ show_nat status @ ''_server_error'')
        True False False
      else if status = 400 then classification PROVIDER_ERROR ''bad_request'' False False False
      else classify_message m None)"
| "classify_failure (OtherError m c) = classify_message m c"

section \<open>Backoff\<close>

definition base_delay_ms :: int where
  "base_delay_ms = 60000"

definition max_delay_ms :: int where
  "max_delay_ms = 15 * 60000"

text \<open>\<open>Math.floor(Math.log2(n))\<close>; the quotient of the two delays is a whole number.\<close>

fun floor_log2 :: "nat \<Rightarrow> nat" where
  "floor_log2 n = (if n < 2 then 0 else Suc (floor_log2 (n div 2)))"

declare floor_log2.simps [simp del]

definition max_backoff_exponent :: nat where
  "max_backoff_exponent =
     (if base_delay_ms \<le> max_delay_ms then floor_log2 (nat (max_delay_ms div base_delay_ms)) else 0)"

definition compute_backoff_ms :: "int \<Rightarrow> int" where
  "compute_backoff_ms retryCount =
     (if retryCount \<le> 1 then base_delay_ms
      else (let exponent = nat (retryCount - 1); cappedExponent = min exponent max_backoff_exponent
            in base_delay_ms * 2 ^ cappedExponent))"

section \<open>Queries\<close>

definition of_entity :: "string \<Rightarrow> string \<Rightarrow> string \<Rightarrow> failure_row \<Rightarrow> bool" where
  "of_entity tenantId entityType entityId r \<longleftrightarrow>
     fs_tenantId r = tenantId \<and> fs_entityType r = entityType \<and> fs_entityId r = entityId"

definition get_current_state ::
  "string \<Rightarrow> string \<Rightarrow> string \<Rightarrow> failure_store \<Rightarrow> failure_row option" where
  "get_current_state tenantId entityType entityId st =
     find_latest (of_entity tenantId entityType entityId) fs_createdAt (fst_rows st)"

definition list_history ::
  "string \<Rightarrow> string \<Rightarrow> string \<Rightarrow> nat \<Rightarrow> failure_store \<Rightarrow> failure_row list" where
  "list_history tenantId entityType entityId limit st =
     take limit (find_desc (of_entity tenantId entityType entityId) fs_createdAt (fst_rows st))"

definition get_recovery_status :: "int \<Rightarrow> failure_row option \<Rightarrow> failure_recovery_status" where
  "get_recovery_status now current =
     (case current of
        None \<Rightarrow>
          \<lparr>rs_state = SUCCESS, rs_isRecoverable = True, rs_retryCount = 0, rs_lastAttempted = None,
           rs_nextRetryAt = None, rs_canRetry = True, rs_failureReason = None,
           rs_fallbackUsed = False\<rparr>
      | Some c \<Rightarrow>
          (if fs_failureState c = SUCCESS then
             \<lparr>rs_state = SUCCESS, rs_isRecoverable = True, rs_retryCount = 0,
              rs_lastAttempted = None, rs_nextRetryAt = None, rs_canRetry = True,
              rs_failureReason = None, rs_fallbackUsed = False\<rparr>
           else if \<not> fs_isRecoverable c then
             \<lparr>rs_state = fs_failureState c, rs_isRecoverable = False,
              rs_retryCount = fs_retryCount c, rs_lastAttempted = Some (fs_lastAttempted c),
              rs_nextRetryAt = None, rs_canRetry = False,
              rs_failureReason = fs_failureReason c, rs_fallbackUsed = fs_fallbackUsed c\<rparr>
           else (let backoffMs = compute_backoff_ms (fs_retryCount c);
                     nextRetryAt = fs_lastAttempted c + backoffMs
                 in \<lparr>rs_state = fs_failureState c, rs_isRecoverable = fs_isRecoverable c,
                     rs_retryCount = fs_retryCount c,
                     rs_lastAttempted = Some (fs_lastAttempted c),
                     rs_nextRetryAt = Some nextRetryAt, rs_canRetry = (nextRetryAt \<le> now),
                     rs_failureReason = fs_failureReason c,
                     rs_fallbackUsed = fs_fallbackUsed c\<rparr>)))"

definition get_recovery_status_for_entity ::
  "int \<Rightarrow> string \<Rightarrow> string \<Rightarrow> string \<Rightarrow> failure_store \<Rightarrow> failure_recovery_status" where
  "get_recovery_status_for_entity now tenantId entityType entityId st =
     get_recovery_status now (get_current_state tenantId entityType entityId st)"

section \<open>Record updates\<close>

definition failure_state_text :: "failure_state \<Rightarrow> string" where
  "failure_state_text s = (case s of
     SUCCESS \<Rightarrow> ''SUCCESS'' | PROVIDER_TIMEOUT \<Rightarrow> ''PROVIDER_TIMEOUT''
   | PROVIDER_ERROR \<Rightarrow> ''PROVIDER_ERROR'' | PROVIDER_UNAVAILABLE \<Rightarrow> ''PROVIDER_UNAVAILABLE''
   | NO_DATA_AVAILABLE \<Rightarrow> ''NO_DATA_AVAILABLE'' | DEGRADED \<Rightarrow> ''DEGRADED'')"

definition next_retry_count :: "failure_record_input \<Rightarrow> failure_row option \<Rightarrow> int" where
  "next_retry_count i previous =
     (if fi_incrementRetry i \<noteq> Some False
      then (case previous of
              Some p \<Rightarrow> if fs_failureState p \<noteq> SUCCESS then fs_retryCount p + 1 else 1
            | None \<Rightarrow> 1)
      else (case previous of Some p \<Rightarrow> fs_retryCount p | None \<Rightarrow> 0))"

text \<open>\<open>now\<close> is the clock of the server, \<open>created\<close> that of the database.\<close>

definition record_failure ::
  "int \<Rightarrow> int \<Rightarrow> failure_record_input \<Rightarrow> failure_store \<Rightarrow> failure_row \<times> failure_store" where
  "record_failure now created i st =
     (let previous = get_current_state (fi_tenantId i) (fi_entityType i) (fi_entityId i) st;
          retryCount = next_retry_count i previous;
          failureState = (if fi_fallbackUsed i then DEGRADED else fi_failureState i);
          saved = \<lparr>fs_tenantId = fi_tenantId i, fs_entityType = fi_entityType i,
            fs_entityId = fi_entityId i, fs_failureState = failureState,
            fs_failureReason = Some (fi_failureReason i), fs_lastAttempted = now,
            fs_fallbackUsed = fi_fallbackUsed i,
            fs_staleDataTimestamp = fi_staleDataTimestamp i, fs_retryCount = retryCount,
            fs_isRecoverable = fi_isRecoverable i, fs_createdAt = created\<rparr>;
          aud = snd (emit_audit_event
            \<lparr>ei_tenantId = fi_tenantId i, ei_userId = fi_actorId i, ei_eventType = FAILURE_STATE,
             ei_action = ''company.provider_failure'', ei_status = failure_state_text failureState,
             ei_resourceId = Some (fi_entityId i), ei_correlationId = fi_correlationId i,
             ei_costImpact = None,
             ei_metadata = Some
               [(''entityType'', JStr (fi_entityType i)),
                (''failureState'', JStr (failure_state_text failureState)),
                (''failureReason'', JStr (fi_failureReason i)),
                (''retryCount'', JNum (of_int retryCount)),
                (''isRecoverable'', JBool (fi_isRecoverable i)),
                (''fallbackUsed'', JBool (fi_fallbackUsed i)),
                (''staleDataTimestamp'', json_str (map_option iso_string (fi_staleDataTimestamp i)))],
             ei_retentionExpiresAt = None\<rparr> (fst_audit st))
      in (saved, st\<lparr>fst_rows := fst_rows st @ [saved], fst_audit := aud\<rparr>))"

definition record_success ::
  "int \<Rightarrow> int \<Rightarrow> failure_success_input \<Rightarrow> failure_store \<Rightarrow> failure_row \<times> failure_store" where
  "record_success now created i st =
     (let saved = \<lparr>fs_tenantId = si_tenantId i, fs_entityType = si_entityType i,
            fs_entityId = si_entityId i, fs_failureState = SUCCESS, fs_failureReason = None,
            fs_lastAttempted = now, fs_fallbackUsed = False, fs_staleDataTimestamp = None,
            fs_retryCount = 0, fs_isRecoverable = True, fs_createdAt = created\<rparr>;
          aud = snd (emit_audit_event
            \<lparr>ei_tenantId = si_tenantId i, ei_userId = si_actorId i, ei_eventType = FAILURE_STATE,
             ei_action = ''company.provider_recovered'', ei_status = ''SUCCESS'',
             ei_resourceId = Some (si_entityId i), ei_correlationId = si_correlationId i,
             ei_costImpact = None,
             ei_metadata = Some [(''entityType'', JStr (si_entityType i)),
               (''failureState'', JStr ''SUCCESS'')],
             ei_retentionExpiresAt = None\<rparr> (fst_audit st))
      in (saved, st\<lparr>fst_rows := fst_rows st @ [saved], fst_audit := aud\<rparr>))"

section \<open>Laws of the backoff\<close>

lemma max_backoff_exponent: "max_backoff_exponent = 3"
  by (simp add: max_backoff_exponent_def max_delay_ms_def base_delay_ms_def floor_log2.simps)

lemma floor_log2_bounds: "0 < n \<Longrightarrow> 2 ^ floor_log2 n \<le> n \<and> n < 2 ^ Suc (floor_log2 n)"
proof (induction n rule: floor_log2.induct)
  case (1 n)
  show ?case
  proof (cases "n < 2")
    case True
    with 1 show ?thesis by (simp add: floor_log2.simps [of n])
  next
    case False
    then have "0 < n div 2" by simp
    from 1(1) [OF False this] have "2 ^ floor_log2 (n div 2) \<le> n div 2"
      "n div 2 < 2 ^ Suc (floor_log2 (n div 2))" by auto
    then have "2 * 2 ^ floor_log2 (n div 2) \<le> n" "n < 2 * 2 ^ Suc (floor_log2 (n div 2))"
      by linarith+
    with False show ?thesis by (simp add: floor_log2.simps [of n])
  qed
qed

lemma compute_backoff_power: "compute_backoff_ms n = 60000 * 2 ^ min (nat (n - 1)) 3"
  by (simp add: compute_backoff_ms_def base_delay_ms_def max_backoff_exponent Let_def)

lemma mono_compute_backoff: "mono compute_backoff_ms"
  unfolding compute_backoff_power by (intro monoI mult_left_mono power_increasing) auto

lemma compute_backoff_bounds: "60000 \<le> compute_backoff_ms n \<and> compute_backoff_ms n \<le> 480000"
proof -
  have "(2::int) ^ min (nat (n - 1)) 3 \<le> 2 ^ 3" by (rule power_increasing) auto
  then show ?thesis by (simp add: compute_backoff_power)
qed

section \<open>The record of an entity\<close>

lemma find_latest_snoc_other:
  "\<not> p r \<Longrightarrow> find_latest p key (t @ [r]) = find_latest p key t"
  by (simp add: find_latest_def find_desc_def)

lemma find_latest_snoc_new:
  "p r \<Longrightarrow> \<forall>x \<in> set t. p x \<longrightarrow> key x < key r \<Longrightarrow> find_latest p key (t @ [r]) = Some r"
  by (rule find_latest_eqI) auto

lemma record_failure_row:
  obtains r where "fst (record_failure now created i st) = r"
    "fst_rows (snd (record_failure now created i st)) = fst_rows st @ [r]"
    "of_entity (fi_tenantId i) (fi_entityType i) (fi_entityId i) r"
    "fs_retryCount r = next_retry_count i
       (get_current_state (fi_tenantId i) (fi_entityType i) (fi_entityId i) st)"
    "fs_failureState r = (if fi_fallbackUsed i then DEGRADED else fi_failureState i)"
    "fs_isRecoverable r = fi_isRecoverable i" "fs_lastAttempted r = now" "fs_createdAt r = created"
    "fs_fallbackUsed r = fi_fallbackUsed i"
  by (rule that [OF refl]) (simp_all add: record_failure_def of_entity_def Let_def)

lemma record_success_row:
  obtains r where "fst (record_success now created i st) = r"
    "fst_rows (snd (record_success now created i st)) = fst_rows st @ [r]"
    "of_entity (si_tenantId i) (si_entityType i) (si_entityId i) r"
    "fs_retryCount r = 0" "fs_failureState r = SUCCESS" "fs_createdAt r = created"
    "fs_fallbackUsed r = False"
  by (rule that [OF refl]) (simp_all add: record_success_def of_entity_def Let_def)

text \<open>The rows of an entity are all older than an instant of the database clock.\<close>

definition all_before :: "string \<Rightarrow> string \<Rightarrow> string \<Rightarrow> int \<Rightarrow> failure_store \<Rightarrow> bool" where
  "all_before t ty e c st \<longleftrightarrow> (\<forall>r \<in> set (fst_rows st). of_entity t ty e r \<longrightarrow> fs_createdAt r < c)"

fun fail_repeatedly :: "failure_record_input \<Rightarrow> (int \<times> int) list \<Rightarrow> failure_store \<Rightarrow> failure_store" where
  "fail_repeatedly i [] st = st"
| "fail_repeatedly i ((now, created) # ts) st =
     fail_repeatedly i ts (snd (record_failure now created i st))"

lemma current_after_failure:
  assumes "all_before (fi_tenantId i) (fi_entityType i) (fi_entityId i) created st"
  shows "get_current_state (fi_tenantId i) (fi_entityType i) (fi_entityId i)
      (snd (record_failure now created i st)) = Some (fst (record_failure now created i st))"
proof -
  obtain r where r: "fst (record_failure now created i st) = r"
    "fst_rows (snd (record_failure now created i st)) = fst_rows st @ [r]"
    "of_entity (fi_tenantId i) (fi_entityType i) (fi_entityId i) r" "fs_createdAt r = created"
    by (rule record_failure_row)
  then show ?thesis
    using assms by (simp add: get_current_state_def all_before_def find_latest_snoc_new)
qed

lemma all_before_failure:
  assumes "all_before t ty e created st" "created < later"
  shows "all_before t ty e later (snd (record_failure now created i st))"
proof -
  obtain r where "fst_rows (snd (record_failure now created i st)) = fst_rows st @ [r]"
    "fs_createdAt r = created"
    by (rule record_failure_row)
  with assms show ?thesis by (auto simp: all_before_def)
qed

definition failures_so_far :: "failure_row option \<Rightarrow> int" where
  "failures_so_far r = (case r of
     None \<Rightarrow> 0 | Some c \<Rightarrow> if fs_failureState c = SUCCESS then 0 else fs_retryCount c)"

lemma fail_repeatedly_counts:
  assumes "fi_incrementRetry i \<noteq> Some False"
    and "fi_fallbackUsed i \<or> fi_failureState i \<noteq> SUCCESS"
    and "ts \<noteq> []" "sorted_wrt (<) (map snd ts)"
    and "all_before (fi_tenantId i) (fi_entityType i) (fi_entityId i) (snd (hd ts)) st"
  shows "\<exists>r. get_current_state (fi_tenantId i) (fi_entityType i) (fi_entityId i)
      (fail_repeatedly i ts st) = Some r \<and>
    fs_retryCount r = failures_so_far
      (get_current_state (fi_tenantId i) (fi_entityType i) (fi_entityId i) st) + int (length ts) \<and>
    fs_failureState r \<noteq> SUCCESS \<and> fs_isRecoverable r = fi_isRecoverable i \<and>
    fs_lastAttempted r = fst (last ts)"
  using assms(3-5)
proof (induction ts arbitrary: st)
  case Nil
  then show ?case by simp
next
  case (Cons x ts)
  obtain now created where x: "x = (now, created)" by (cases x)
  let ?st = "snd (record_failure now created i st)"
  obtain r where r: "fst (record_failure now created i st) = r"
    "fs_retryCount r = next_retry_count i
       (get_current_state (fi_tenantId i) (fi_entityType i) (fi_entityId i) st)"
    "fs_failureState r = (if fi_fallbackUsed i then DEGRADED else fi_failureState i)"
    "fs_isRecoverable r = fi_isRecoverable i" "fs_lastAttempted r = now"
    by (rule record_failure_row)
  have cur: "get_current_state (fi_tenantId i) (fi_entityType i) (fi_entityId i) ?st = Some r"
    using current_after_failure Cons.prems(3) x r(1) by simp
  have count: "fs_retryCount r = failures_so_far
      (get_current_state (fi_tenantId i) (fi_entityType i) (fi_entityId i) st) + 1"
    using assms(1) r(2) by (auto simp: next_retry_count_def failures_so_far_def split: option.splits)
  have bad: "fs_failureState r \<noteq> SUCCESS" using assms(2) r(3) by auto
  show ?case
  proof (cases "ts = []")
    case True
    with cur count bad r x show ?thesis by simp
  next
    case False
    then have "sorted_wrt (<) (map snd ts)" "created < snd (hd ts)"
      using Cons.prems(2) x by auto
    moreover from this(2) have
      "all_before (fi_tenantId i) (fi_entityType i) (fi_entityId i) (snd (hd ts)) ?st"
      using Cons.prems(3) x by (intro all_before_failure) auto
    moreover have "failures_so_far (Some r) = fs_retryCount r"
      using bad by (simp add: failures_so_far_def)
    ultimately show ?thesis
      using Cons.IH [of ?st] False cur count x by auto
  qed
qed

section \<open>Every run keeps the table consistent\<close>

datatype failure_event =
    RecordFailure int int failure_record_input
  | RecordSuccess int int failure_success_input

fun failure_step :: "failure_event \<Rightarrow> failure_store \<Rightarrow> failure_store" where
  "failure_step (RecordFailure now created i) st = snd (record_failure now created i st)"
| "failure_step (RecordSuccess now created i) st = snd (record_success now created i st)"

definition consistent_row :: "failure_row \<Rightarrow> bool" where
  "consistent_row r \<longleftrightarrow> 0 \<le> fs_retryCount r \<and> (fs_fallbackUsed r \<longrightarrow> fs_failureState r = DEGRADED)"

definition consistent :: "failure_store \<Rightarrow> bool" where
  "consistent st \<longleftrightarrow> list_all consistent_row (fst_rows st)"

lemma get_current_state_mem: "get_current_state t ty e st = Some r \<Longrightarrow> r \<in> set (fst_rows st)"
  by (auto simp: get_current_state_def dest: find_latest_SomeD)

lemma consistent_record_failure:
  assumes "consistent st"
  shows "consistent (snd (record_failure now created i st))"
proof -
  obtain r where r: "fst_rows (snd (record_failure now created i st)) = fst_rows st @ [r]"
    "fs_retryCount r = next_retry_count i
       (get_current_state (fi_tenantId i) (fi_entityType i) (fi_entityId i) st)"
    "fs_failureState r = (if fi_fallbackUsed i then DEGRADED else fi_failureState i)"
    "fs_fallbackUsed r = fi_fallbackUsed i"
    by (rule record_failure_row)
  have "0 \<le> fs_retryCount r"
    using assms unfolding r(2) next_retry_count_def
    by (auto simp: consistent_def list_all_iff consistent_row_def split: option.splits
        dest!: get_current_state_mem)
  with assms r show ?thesis by (simp add: consistent_def consistent_row_def)
qed

lemma consistent_record_success:
  assumes "consistent st"
  shows "consistent (snd (record_success now created i st))"
proof -
  obtain r where "fst_rows (snd (record_success now created i st)) = fst_rows st @ [r]"
    "fs_retryCount r = 0" "fs_fallbackUsed r = False"
    by (rule record_success_row)
  with assms show ?thesis by (simp add: consistent_def consistent_row_def)
qed

interpretation failure_record: invariant_machine failure_step consistent
proof
  fix e st
  show "consistent st \<Longrightarrow> consistent (failure_step e st)"
    by (cases e) (simp_all add: consistent_record_failure consistent_record_success)
qed

section \<open>Properties\<close>

definition empty_failures :: failure_store where
  "empty_failures = \<lparr>fst_rows = [], fst_audit = empty_audit\<rparr>"

definition sample_failure :: failure_record_input where
  "sample_failure = \<lparr>fi_tenantId = ''t1'', fi_entityType = ''company'', fi_entityId = ''5560000001'',
     fi_failureState = PROVIDER_TIMEOUT, fi_failureReason = ''timeout'', fi_isRecoverable = True,
     fi_fallbackUsed = False, fi_staleDataTimestamp = None, fi_correlationId = None,
     fi_actorId = None, fi_incrementRetry = None\<rparr>"

definition sample_recovery :: failure_success_input where
  "sample_recovery = \<lparr>si_tenantId = ''t1'', si_entityType = ''company'',
     si_entityId = ''5560000001'', si_correlationId = None, si_actorId = None\<rparr>"



text \<open>A recorded success resets the entity: its status is SUCCESS with no retries and a
  call allowed at once, while the state of every other entity is what it was.\<close>

theorem recovery_resets:
  assumes "all_before (si_tenantId i) (si_entityType i) (si_entityId i) created st"
  shows "let st' = snd (record_success now created i st) in
    get_recovery_status_for_entity later (si_tenantId i) (si_entityType i) (si_entityId i) st' =
      get_recovery_status later None \<and>
    (\<forall>t ty e. (t, ty, e) \<noteq> (si_tenantId i, si_entityType i, si_entityId i) \<longrightarrow>
      get_current_state t ty e st' = get_current_state t ty e st)"
proof -
  obtain r where r: "fst_rows (snd (record_success now created i st)) = fst_rows st @ [r]"
    "of_entity (si_tenantId i) (si_entityType i) (si_entityId i) r"
    "fs_failureState r = SUCCESS" "fs_createdAt r = created"
    by (rule record_success_row)
  then have "get_current_state (si_tenantId i) (si_entityType i) (si_entityId i)
      (snd (record_success now created i st)) = Some r"
    using assms by (simp add: get_current_state_def all_before_def find_latest_snoc_new)
  moreover have "\<not> of_entity t ty e r"
    if "(t, ty, e) \<noteq> (si_tenantId i, si_entityType i, si_entityId i)" for t ty e
    using that r(2) by (auto simp: of_entity_def)
  ultimately show ?thesis
    using r by (simp add: get_recovery_status_for_entity_def get_recovery_status_def
        get_current_state_def find_latest_snoc_other Let_def)
qed

theorem recovery_resets_witness:
  "rs_canRetry (get_recovery_status_for_entity 61000 ''t1'' ''company'' ''5560000001''
     (snd (record_success 61000 2 sample_recovery
       (snd (record_failure 1000 1 sample_failure empty_failures)))))"
  using recovery_resets [of sample_recovery 2 "snd (record_failure 1000 1 sample_failure empty_failures)"
      61000 61000]
  by (simp add: sample_recovery_def sample_failure_def empty_failures_def all_before_def
      record_failure_def of_entity_def get_recovery_status_def Let_def)

text \<open>In every table that recorded failures and successes build, in any order, the retry
  counts are not negative and a response served from a fallback is recorded as DEGRADED.\<close>

theorem failure_record_consistent: "consistent (fold failure_step es empty_failures)"
  by (rule failure_record.run_inv) (simp add: consistent_def empty_failures_def)

text \<open>The failures classified as not recoverable are the permission exceptions and bad
  requests and no others; a quota failure is exactly status 429; and every classification is
  one of the three provider states.\<close>

theorem classify_failure_recoverable:
  "(\<not> fc_isRecoverable (classify_failure e) \<longleftrightarrow>
     (\<exists>m. e \<in> {UnauthorizedException m, ForbiddenException m, HttpException 400 m})) \<and>
   (fc_isQuotaFailure (classify_failure e) \<longleftrightarrow> (\<exists>m. e = HttpException 429 m)) \<and>
   fc_failureState (classify_failure e) \<in> {PROVIDER_TIMEOUT, PROVIDER_ERROR, PROVIDER_UNAVAILABLE}"
proof -
  have m: "fc_isRecoverable (classify_message m c)" "\<not> fc_isQuotaFailure (classify_message m c)"
    "fc_failureState (classify_message m c) \<in> {PROVIDER_TIMEOUT, PROVIDER_ERROR, PROVIDER_UNAVAILABLE}"
    for m c
    by (auto simp: classify_message_def classification_def split: option.splits)
  show ?thesis
    using m by (cases e) (auto simp: classification_def)
qed

end
