(* ===== verification/JsonText.thy ===== *)
theory JsonText
  imports Prelude
begin

text \<open>
  \<open>JSON.stringify\<close> and \<open>Object.keys\<close> order, which the comparison and normalization services
  use to compare values: the text of a JSON value determines the value, so comparing texts
  compares values with their members in enumeration order.
\<close>

section \<open>Text of a value\<close>

definition hex_digit :: "nat \<Rightarrow> char" where
  "hex_digit n = (if n < 10 then char_of (48 + n) else char_of (87 + n))"

text \<open>The short escapes, \<open>\u00xx\<close> for the other control characters, and the character itself.\<close>

definition escape_char :: "char \<Rightarrow> string" where
  "escape_char c =
     (let n = code c in
      if n = 34 then [CHR 0x5C, CHR 0x22]
      else if n = 92 then [CHR 0x5C, CHR 0x5C]
      else if n = 8 then [CHR 0x5C, CHR ''b'']
      else if n = 9 then [CHR 0x5C, CHR ''t'']
      else if n = 10 then [CHR 0x5C, CHR ''n'']
      else if n = 12 then [CHR 0x5C, CHR ''f'']
      else if n = 13 then [CHR 0x5C, CHR ''r'']
      else if n < 32 then [CHR 0x5C, CHR ''u'', CHR ''0'', CHR ''0'',
        hex_digit (n div 16), hex_digit (n mod 16)]
      else [c])"

abbreviation dquote :: char where
  "dquote \<equiv> CHR 0x22"

definition quote :: "string \<Rightarrow> string" where
  "quote s = dquote # concat (map escape_char s) @ [dquote]"

fun stringify :: "int json \<Rightarrow> string" where
  "stringify JNull = ''null''"
| "stringify (JBool b) = (if b then ''true'' else ''false'')"
| "stringify (JNum i) = show_int i"
| "stringify (JStr s) = quote s"
| "stringify (JArr xs) = ''['' @ join '','' (map stringify xs) @ '']''"
| "stringify (JObj ms) =
     ''{'' @ join '','' (map (\<lambda>(k, v). quote k @ '':'' @ stringify v) ms) @ ''}''"

section \<open>Enumeration order\<close>

text \<open>
  An object enumerates the keys that are array indices first, in numeric order, then the
  others in insertion order. \<open>enumerated\<close> is the order of an object built by inserting the
  members in the given order.
\<close>

definition array_index :: "string \<Rightarrow> bool" where
  "array_index k \<longleftrightarrow> k = show_nat (read_nat k) \<and> read_nat k < 2 ^ 32 - 1"

definition enumerated :: "(string \<times> 'v) list \<Rightarrow> (string \<times> 'v) list" where
  "enumerated ms =
     sort_key (\<lambda>m. read_nat (fst m)) (filter (\<lambda>m. array_index (fst m)) ms) @
     filter (\<lambda>m. \<not> array_index (fst m)) ms"

section \<open>Unique reading\<close>

text \<open>A set of texts that can be told apart when something follows that \<open>P\<close> allows.\<close>

definition delimited :: "string \<Rightarrow> bool" where
  "delimited r \<longleftrightarrow> (r = [] \<or> hd r \<in> set '',]}'')"

fun unescape :: "string \<Rightarrow> (char \<times> string) option" where
  "unescape [] = None"
| "unescape (c # r) =
     (if code c = 92 then
        (case r of
           [] \<Rightarrow> None
         | d # r' \<Rightarrow>
             if d = CHR ''b'' then Some (CHR 0x08, r')
             else if d = CHR ''t'' then Some (CHR 0x09, r')
             else if d = CHR ''n'' then Some (CHR 0x0A, r')
             else if d = CHR ''f'' then Some (CHR 0x0C, r')
             else if d = CHR ''r'' then Some (CHR 0x0D, r')
             else if d = CHR ''u'' then
               (case r' of
                  z1 # z2 # h # l # r'' \<Rightarrow>
                    Some (char_of (16 * (code h - 48) +
                      (if is_digit l then code l - 48 else code l - 87)), r'')
                | _ \<Rightarrow> None)
             else Some (d, r'))
      else Some (c, r))"

lemma code_char_of [simp]: "n < 256 \<Longrightarrow> code (char_of n) = n"
  by (simp add: code_def)

lemma char_of_code [simp]: "char_of (code c) = c"
  by (simp add: code_def)

lemma code_inj: "code c = code d \<longleftrightarrow> c = d"
  by (metis char_of_code)

lemma code_eqD:
  "code c = 34 \<Longrightarrow> c = CHR 0x22" "code c = 92 \<Longrightarrow> c = CHR 0x5C" "code c = 8 \<Longrightarrow> c = CHR 0x08"
  "code c = 9 \<Longrightarrow> c = CHR 0x09" "code c = 10 \<Longrightarrow> c = CHR 0x0A" "code c = 12 \<Longrightarrow> c = CHR 0x0C"
  "code c = 13 \<Longrightarrow> c = CHR 0x0D"
  by (subst code_inj [symmetric], simp add: code_def)+

lemma unescape_control:
  "n < 32 \<Longrightarrow> n \<noteq> 8 \<Longrightarrow> n \<noteq> 9 \<Longrightarrow> n \<noteq> 10 \<Longrightarrow> n \<noteq> 12 \<Longrightarrow> n \<noteq> 13 \<Longrightarrow>
    unescape ([CHR 0x5C, CHR ''u'', CHR ''0'', CHR ''0'', hex_digit (n div 16),
      hex_digit (n mod 16)] @ r) = Some (char_of n, r)"
proof -
  assume n: "n < 32"
  then have h: "code (hex_digit (n div 16)) = 48 + n div 16" by (simp add: hex_digit_def)
  have l: "(if is_digit (hex_digit (n mod 16)) then code (hex_digit (n mod 16)) - 48
      else code (hex_digit (n mod 16)) - 87) = n mod 16"
    by (auto simp: hex_digit_def is_digit_def)
  show ?thesis using h l by (simp add: code_def [of "CHR 0x5C"])
qed

lemma unescape_escape: "unescape (escape_char c @ r) = Some (c, r)"
proof -
  consider "code c = 34" | "code c = 92" | "code c = 8" | "code c = 9" | "code c = 10"
    | "code c = 12" | "code c = 13"
    | (control) "code c < 32" "code c \<noteq> 8" "code c \<noteq> 9" "code c \<noteq> 10" "code c \<noteq> 12" "code c \<noteq> 13"
    | (plain) "32 \<le> code c" "code c \<noteq> 34" "code c \<noteq> 92"
    by linarith
  then show ?thesis
  proof cases
    case control
    then show ?thesis using unescape_control [OF control, of r] by (simp add: escape_char_def Let_def)
  next
    case plain
    then show ?thesis by (simp add: escape_char_def Let_def)
  qed (drule code_eqD, simp add: escape_char_def Let_def code_def)+
qed

lemma escape_not_dquote: "escape_char c @ r \<noteq> dquote # s"
proof
  assume "escape_char c @ r = dquote # s"
  then have "hd (escape_char c) = dquote" by (auto simp: escape_char_def Let_def split: if_splits)
  moreover have "code dquote = 34" by (simp add: code_def)
  ultimately show False by (auto simp: escape_char_def Let_def split: if_splits)
qed

lemma escaped_unique:
  "concat (map escape_char s) @ dquote # r = concat (map escape_char t) @ dquote # u \<Longrightarrow>
    s = t \<and> r = u"
proof (induction s arbitrary: t)
  case Nil
  then show ?case
    by (cases t) (auto dest: escape_not_dquote [THEN notE, OF sym])
next
  case (Cons c s)
  show ?case
  proof (cases t)
    case Nil
    with Cons.prems escape_not_dquote [of c] show ?thesis by simp
  next
    case (Cons d t')
    with Cons.prems have "unescape (escape_char c @ concat (map escape_char s) @ dquote # r) =
        unescape (escape_char d @ concat (map escape_char t') @ dquote # u)"
      by simp
    then have "c = d" "concat (map escape_char s) @ dquote # r = concat (map escape_char t') @ dquote # u"
      by (simp_all add: unescape_escape)
    with Cons.IH [of t'] Cons show ?thesis by simp
  qed
qed

lemma quote_unique: "quote s @ r = quote t @ u \<longleftrightarrow> s = t \<and> r = u"
  using escaped_unique [of s r t u] by (auto simp: quote_def)


lemma quote_same [simp]: "quote s = quote t \<longleftrightarrow> s = t"
  using quote_unique [of s "[]" t "[]"] by simp

text \<open>A number ends at the first delimiter.\<close>

lemma delimited_not_digit: "delimited r \<Longrightarrow> r = c # r' \<Longrightarrow> \<not> is_digit c"
  by (auto simp: delimited_def is_digit_def code_def)

lemma takeWhile_digits:
  "\<forall>c \<in> set ds. is_digit c \<Longrightarrow> delimited r \<Longrightarrow> takeWhile is_digit (ds @ r) = ds"
  by (cases r) (auto simp: takeWhile_append2 dest: delimited_not_digit)

lemma show_nat_unique:
  assumes "show_nat m @ r = show_nat n @ u" "delimited r" "delimited u"
  shows "m = n \<and> r = u"
proof -
  have "show_nat m = show_nat n"
    using takeWhile_digits [OF show_nat_digits assms(2)] takeWhile_digits [OF show_nat_digits assms(3)]
      assms(1) by metis
  with assms(1) show ?thesis by (simp add: show_nat_inj)
qed

lemma hd_show_nat: "is_digit (hd (show_nat n))"
  using show_nat_digits [of n] by (cases "show_nat n") auto

lemma show_int_unique:
  assumes "show_int i @ r = show_int j @ u" "delimited r" "delimited u"
  shows "i = j \<and> r = u"
proof -
  have hd: "show_nat n @ x \<noteq> CHR ''-'' # y" for n x y
    using hd_show_nat [of n] minus_not_digit by (cases "show_nat n") auto
  show ?thesis
  proof (cases "i < 0 \<longleftrightarrow> j < 0")
    case True
    then show ?thesis
      using show_nat_unique [of "nat (- i)" r "nat (- j)" u] show_nat_unique [of "nat i" r "nat j" u] assms
      by (auto simp: show_int_def split: if_splits)
  next
    case False
    then show ?thesis
      using assms(1) hd [of "nat i" r] hd [of "nat j" u]
      by (auto simp: show_int_def split: if_splits dest: sym)
  qed
qed

lemma hd_show_int: "hd (show_int i) = CHR ''-'' \<or> is_digit (hd (show_int i))"
  by (simp add: show_int_def hd_show_nat)

text \<open>The first character of a text tells the constructor of the value.\<close>

datatype shape = ShNull | ShTrue | ShFalse | ShNum | ShStr | ShArr | ShObj | ShEnd

definition shape_of :: "string \<Rightarrow> shape" where
  "shape_of s = (if s = [] then ShEnd else let c = hd s in
     if c = CHR ''n'' then ShNull else if c = CHR ''t'' then ShTrue
     else if c = CHR ''f'' then ShFalse else if c = CHR ''-'' \<or> is_digit c then ShNum
     else if c = dquote then ShStr else if c = CHR ''['' then ShArr
     else if c = CHR ''{'' then ShObj else ShEnd)"

fun json_shape :: "'n json \<Rightarrow> shape" where
  "json_shape JNull = ShNull"
| "json_shape (JBool b) = (if b then ShTrue else ShFalse)"
| "json_shape (JNum i) = ShNum"
| "json_shape (JStr s) = ShStr"
| "json_shape (JArr xs) = ShArr"
| "json_shape (JObj ms) = ShObj"

lemma stringify_nonempty [simp]: "stringify v \<noteq> []"
  by (cases v) (auto simp: quote_def)

lemma not_digit_letters [simp]:
  "\<not> is_digit CHR ''n''" "\<not> is_digit CHR ''t''" "\<not> is_digit CHR ''f''" "\<not> is_digit CHR ''-''"
  "\<not> is_digit dquote" "\<not> is_digit CHR ''[''" "\<not> is_digit CHR ''{''" "\<not> is_digit CHR '']''"
  "\<not> is_digit CHR ''}''"
  by (simp_all add: is_digit_def code_def)

lemma shape_of_stringify: "shape_of (stringify v @ r) = json_shape v"
proof (cases v)
  case (JNum i)
  then show ?thesis
    using hd_show_int [of i] by (auto simp: shape_of_def Let_def hd_append)
qed (auto simp: shape_of_def quote_def)

lemma shape_not_end: "json_shape v \<noteq> ShEnd"
  by (cases v) auto

lemma stringify_not_close:
  "stringify v @ r \<noteq> CHR '']'' # s" "stringify v @ r \<noteq> CHR ''}'' # s"
proof -
  have end1: "shape_of (CHR '']'' # s) = ShEnd" "shape_of (CHR ''}'' # s) = ShEnd"
    by (simp_all add: shape_of_def)
  show "stringify v @ r \<noteq> CHR '']'' # s" "stringify v @ r \<noteq> CHR ''}'' # s"
    using shape_of_stringify [of v r] shape_not_end [of v] end1 by metis+
qed

text \<open>Comma-separated texts that can each be read uniquely, up to a closing bracket.\<close>

lemma join_unique:
  assumes "\<And>x y r u. x \<in> set xs \<Longrightarrow> delimited r \<Longrightarrow> delimited u \<Longrightarrow> f x @ r = f y @ u \<Longrightarrow> x = y \<and> r = u"
    and "c = CHR '']'' \<or> c = CHR ''}''"
    and "\<And>x r s. f x @ r \<noteq> c # s"
    and "join '','' (map f xs) @ c # r = join '','' (map f ys) @ c # u"
  shows "xs = ys \<and> r = u"
  using assms(1,4)
proof (induction xs arbitrary: ys)
  case Nil
  then show ?case
  proof (cases ys)
    case (Cons y ys')
    then obtain z where "join '','' (map f ys) @ c # u = f y @ z"
      by (cases ys') auto
    with Nil assms(3) [of y z r] show ?thesis by (metis append_Nil join.simps(1) list.map(1))
  qed simp
next
  case (Cons x xs)
  obtain z where z: "join '','' (map f (x # xs)) @ c # r = f x @ z" "delimited z"
    and zc: "z = (if xs = [] then c # r else CHR '','' # join '','' (map f xs) @ c # r)"
    using assms(2) by (cases xs) (auto simp: delimited_def)
  show ?case
  proof (cases ys)
    case Nil
    with Cons.prems(2) z(1) assms(3) [of x z u] show ?thesis
      by (metis append_Nil join.simps(1) list.map(1))
  next
    case (Cons y ys')
    obtain w where w: "join '','' (map f ys) @ c # u = f y @ w" "delimited w"
      and wc: "w = (if ys' = [] then c # u else CHR '','' # join '','' (map f ys') @ c # u)"
      using assms(2) Cons by (cases ys') (auto simp: delimited_def)
    have "f x @ z = f y @ w" using Cons.prems(2) z(1) w(1) by simp
    then have xy: "x = y" and zw: "z = w" using Cons.prems(1) [of x z w y] z(2) w(2) by auto
    show ?thesis
    proof (cases "xs = [] \<or> ys' = []")
      case True
      with zw zc wc assms(2) xy Cons show ?thesis by (auto split: if_splits)
    next
      case False
      with zw zc wc have "join '','' (map f xs) @ c # r = join '','' (map f ys') @ c # u" by simp
      with Cons.IH [of ys'] Cons.prems(1) have "xs = ys' \<and> r = u" by (meson list.set_intros(2))
      with xy Cons show ?thesis by simp
    qed
  qed
qed

lemma stringify_shape: "stringify v @ r = stringify w @ u \<Longrightarrow> json_shape v = json_shape w"
  by (metis shape_of_stringify)

lemma json_shape_simps [simp]:
  "ShArr = json_shape w \<longleftrightarrow> (\<exists>xs. w = JArr xs)" "ShObj = json_shape w \<longleftrightarrow> (\<exists>ms. w = JObj ms)"
  "ShNull = json_shape w \<longleftrightarrow> w = JNull" "ShTrue = json_shape w \<longleftrightarrow> w = JBool True"
  "ShFalse = json_shape w \<longleftrightarrow> w = JBool False" "ShNum = json_shape w \<longleftrightarrow> (\<exists>i. w = JNum i)"
  "ShStr = json_shape w \<longleftrightarrow> (\<exists>s. w = JStr s)"
  by (cases w; auto)+

lemma stringify_unique:
  "delimited r \<Longrightarrow> delimited u \<Longrightarrow> stringify v @ r = stringify w @ u \<Longrightarrow> v = w \<and> r = u"
proof (induction v arbitrary: w r u rule: stringify.induct)
  case (5 xs)
  then obtain ys where w: "w = JArr ys"
    using stringify_shape [OF 5(4)] by auto
  with 5 have "join '','' (map stringify xs) @ CHR '']'' # r = join '','' (map stringify ys) @ CHR '']'' # u"
    by simp
  then have "xs = ys \<and> r = u"
    by (rule join_unique [rotated 3]) (use 5(1) stringify_not_close in auto)
  with w show ?case by simp
next
  case (6 ms)
  let ?f = "\<lambda>(k, v). quote k @ '':'' @ stringify v"
  obtain ns where w: "w = JObj ns"
    using stringify_shape [OF 6(4)] by auto
  have mem: "x = y \<and> p = q"
    if "x \<in> set ms" "delimited p" "delimited q" "?f x @ p = ?f y @ q" for x y p q
  proof -
    obtain k v l z where xy: "x = (k, v)" "y = (l, z)" by (cases x, cases y) auto
    with that(4) have k: "k = l" and v: "stringify v @ p = stringify z @ q"
      by (auto simp: quote_unique)
    moreover have "v = z \<and> p = q"
      by (rule 6(1) [OF that(1) xy(1) [symmetric] that(2,3) v])
    ultimately show ?thesis using xy by simp
  qed
  from w 6(4) have eq: "join '','' (map ?f ms) @ CHR ''}'' # r = join '','' (map ?f ns) @ CHR ''}'' # u"
    by simp
  have close: "?f x @ p \<noteq> CHR ''}'' # q" for x p q
    by (cases x) (simp add: quote_def)
  have "ms = ns \<and> r = u"
    by (rule join_unique [OF mem _ close eq]) simp_all
  with w show ?case by simp
next
  case 1
  then show ?case using stringify_shape [OF 1(3)] by auto
next
  case (2 b)
  then show ?case using stringify_shape [OF 2(3)] by (cases b) auto
next
  case (3 i)
  then show ?case using stringify_shape [OF 3(3)] show_int_unique [of i r _ u] by auto
next
  case (4 s)
  then show ?case using stringify_shape [OF 4(3)] by (auto simp: quote_unique)
qed

theorem stringify_inject: "stringify v = stringify w \<longleftrightarrow> v = w"
  using stringify_unique [of "[]" "[]" v w] by (auto simp: delimited_def)

end
