(* ===== verification/Normalization.thy ===== *)
theory Normalization
  imports AuditTrail JsonText Dates
begin

text \<open>
  \<open>CompanyNormalizer\<close> (backend/src/companies/mappers/company-normalizer.ts) and
  \<open>NormalizationService\<close> (backend/src/companies/services/normalization.service.ts) over the
  normalized company and company version tables
  (backend/src/companies/entities/normalized-company.entity.ts, company-version.entity.ts).

  Two parameters stand for code outside the repository: \<open>to_date\<close> is the \<open>Date\<close> constructor
  on a payload value, and \<open>jsonb\<close> is what a read of a \<open>jsonb\<close> column returns for a value
  written to it (PostgreSQL keeps the value but not the order of an object's members).
\<close>

section \<open>Extraction from the payload\<close>

record normalized_payload =
  np_organisationNumber :: "int json"
  np_legalName :: "int json"
  np_companyForm :: "string option"
  np_status :: "string option"
  np_registeredAt :: "int json option"
  np_countryCode :: string
  np_businessDescription :: "string option"
  np_signatoryText :: "string option"
  np_officers :: "int json list"
  np_shareInformation :: "int json"
  np_financialReports :: "int json"

definition or_value :: "int json option \<Rightarrow> int json \<Rightarrow> int json" where
  "or_value a b = the (nullish_or a (Some b))"

fun array_or_empty :: "int json option \<Rightarrow> int json list" where
  "array_or_empty (Some (JArr xs)) = xs"
| "array_or_empty _ = []"

definition organisation_of :: "int json option \<Rightarrow> int json option" where
  "organisation_of v =
     nullish_or (member_of ''organisation'' v) (item_of 0 (member_of ''organisationer'' v))"

definition first_status :: "int json option \<Rightarrow> int json option" where
  "first_status v = member_of ''status'' (item_of 0 (member_of ''organisationsstatusar'' v))"

definition normalize :: "int json option \<Rightarrow> int json option \<Rightarrow> normalized_payload" where
  "normalize highValue richInfo =
     (let hv = nullish_or (organisation_of highValue) (Some (JObj []));
          rich = nullish_or (organisation_of richInfo) (nullish_or richInfo (Some (JObj [])));
          officers = nullish_or (member_of ''funktionarer'' rich)
            (nullish_or (member_of ''foretradare'' rich)
              (nullish_or (member_of ''funktionarer'' hv) (Some (JArr []))))
      in \<lparr>np_organisationNumber = or_value (member_of ''identitetsbeteckning'' hv)
            (or_value (member_of ''identitetsbeteckning'' rich) (JStr [])),
          np_legalName = or_value (member_of ''namn'' hv)
            (or_value (member_of ''namn'' rich) (JStr ''Unknown company'')),
          np_companyForm = text_or_member [''klartext'', ''kod'']
            (nullish_or (member_of ''organisationsform'' hv) (member_of ''organisationsform'' rich)),
          np_status = text_or_member [''klartext'', ''kod'']
            (nullish_or (first_status hv) (first_status rich)),
          np_registeredAt = nullish_or (member_of ''registreringsdatum'' hv)
            (member_of ''registreringsdatum'' rich),
          np_countryCode = ''SE'',
          np_businessDescription = text_or_member [''text'', ''klartext'']
            (nullish_or (member_of ''verksamhetsbeskrivning'' rich)
              (member_of ''verksamhetsbeskrivning'' hv)),
          np_signatoryText = text_or_member [''text''] (member_of ''firmateckning'' rich),
          np_officers = array_or_empty officers,
          np_shareInformation = or_value (member_of ''aktieinformation'' rich) (JObj []),
          np_financialReports = or_value (member_of ''finansiellaRapporter'' rich) (JArr [])\<rparr>)"

section \<open>State\<close>

datatype js_date = ValidDate int | InvalidDate

text \<open>The fields of \<open>TRACKED_FIELDS\<close>, in their order there.\<close>

datatype tracked_field =
  LegalName | CompanyForm | Status | CountryCode | RegisteredAt | Address | BusinessDescription
| SignatoryText | Officers | ShareInformation | FinancialReports

definition tracked_fields :: "tracked_field list" where
  "tracked_fields = [LegalName, CompanyForm, Status, CountryCode, RegisteredAt, Address,
     BusinessDescription, SignatoryText, Officers, ShareInformation, FinancialReports]"

record company_attributes =
  na_legalName :: "int json"
  na_companyForm :: "string option"
  na_status :: "string option"
  na_countryCode :: string
  na_registeredAt :: "js_date option"
  na_address :: "int json"
  na_businessDescription :: "string option"
  na_signatoryText :: "string option"
  na_officers :: "int json list"
  na_shareInformation :: "int json"
  na_financialReports :: "int json list"

datatype freshness_status = Fresh | Stale | Degraded

record normalized_company =
  nc_id :: string
  nc_tenantId :: string
  nc_orgNumber :: string
  nc_attributes :: company_attributes
  nc_version :: int
  nc_schemaVersion :: string
  nc_freshnessStatus :: freshness_status
  nc_lastNormalizedAt :: "int option"
  nc_lastSnapshotId :: "string option"
  nc_lastRawPayloadId :: "string option"

record company_version =
  cv_tenantId :: string
  cv_orgNumber :: string
  cv_normalizedCompanyId :: string
  cv_version :: int
  cv_attributes :: company_attributes
  cv_changedFields :: "tracked_field list"
  cv_schemaVersion :: string
  cv_snapshotId :: "string option"
  cv_rawPayloadId :: "string option"

text \<open>The tables hold rows as a read returns them; \<open>nm_versions_err\<close> is the error a write of a
  version row raises, if any.\<close>

record normalization_store =
  nm_companies :: "normalized_company list"
  nm_versions :: "company_version list"
  nm_versions_err :: "string option"
  nm_audit :: audit_store

record upsert_input =
  ui_tenantId :: string
  ui_orgNumber :: string
  ui_rawPayloadContent :: "int members"
  ui_snapshotId :: "string option"
  ui_rawPayloadId :: "string option"
  ui_freshnessStatus :: freshness_status
  ui_correlationId :: "string option"
  ui_actorId :: "string option"

record upsert_result =
  ur_normalizedCompany :: normalized_company
  ur_version :: "company_version option"
  ur_isNew :: bool
  ur_isUpdated :: bool
  ur_changedFields :: "tracked_field list"

record stale_fallback_input =
  sf_tenantId :: string
  sf_orgNumber :: string
  sf_reason :: string
  sf_snapshotId :: "string option"
  sf_actorId :: "string option"

section \<open>Attributes and changes\<close>

definition build_attributes ::
  "(int json \<Rightarrow> js_date) \<Rightarrow> normalized_payload \<Rightarrow> company_attributes" where
  "build_attributes to_date n =
     \<lparr>na_legalName = or_value (Some (np_legalName n)) (JStr ''Unknown''),
      na_companyForm = np_companyForm n,
      na_status = np_status n,
      na_countryCode = np_countryCode n,
      na_registeredAt =
        (if truthy (np_registeredAt n) then Some (to_date (the (np_registeredAt n))) else None),
      na_address = JObj [],
      na_businessDescription = np_businessDescription n,
      na_signatoryText = np_signatoryText n,
      na_officers = np_officers n,
      na_shareInformation = or_value (Some (np_shareInformation n)) (JObj []),
      na_financialReports = array_or_empty (Some (np_financialReports n))\<rparr>"

definition json_text :: "string option \<Rightarrow> int json" where
  "json_text s = (case s of None \<Rightarrow> JNull | Some t \<Rightarrow> JStr t)"

text \<open>\<open>JSON.stringify\<close> of a date is its ISO string, or \<open>null\<close> when it is invalid.\<close>

definition date_json :: "js_date option \<Rightarrow> int json" where
  "date_json d = (case d of Some (ValidDate ms) \<Rightarrow> JStr (iso_string ms) | _ \<Rightarrow> JNull)"

fun field_value :: "tracked_field \<Rightarrow> company_attributes \<Rightarrow> int json" where
  "field_value LegalName a = na_legalName a"
| "field_value CompanyForm a = json_text (na_companyForm a)"
| "field_value Status a = json_text (na_status a)"
| "field_value CountryCode a = JStr (na_countryCode a)"
| "field_value RegisteredAt a = date_json (na_registeredAt a)"
| "field_value Address a = na_address a"
| "field_value BusinessDescription a = json_text (na_businessDescription a)"
| "field_value SignatoryText a = json_text (na_signatoryText a)"
| "field_value Officers a = JArr (na_officers a)"
| "field_value ShareInformation a = na_shareInformation a"
| "field_value FinancialReports a = JArr (na_financialReports a)"

definition detect_changes :: "company_attributes \<Rightarrow> company_attributes \<Rightarrow> tracked_field list" where
  "detect_changes existing incoming =
     filter (\<lambda>f. stringify (field_value f existing) \<noteq> stringify (field_value f incoming))
       tracked_fields"

text \<open>
  What a read returns after the attributes were written: the driver sends a value for a
  varchar column as text, and \<open>jsonb\<close> columns pass through \<open>jsonb\<close>.
\<close>

definition column_text :: "int json \<Rightarrow> string" where
  "column_text v = (case v of JStr s \<Rightarrow> s | _ \<Rightarrow> stringify v)"

fun items :: "int json \<Rightarrow> int json list" where
  "items (JArr xs) = xs"
| "items v = []"

definition stored :: "(int json \<Rightarrow> int json) \<Rightarrow> company_attributes \<Rightarrow> company_attributes" where
  "stored jsonb a =
     a\<lparr>na_legalName := JStr (column_text (na_legalName a)),
       na_address := jsonb (na_address a),
       na_officers := items (jsonb (JArr (na_officers a))),
       na_shareInformation := jsonb (na_shareInformation a),
       na_financialReports := items (jsonb (JArr (na_financialReports a)))\<rparr>"

text \<open>The database refuses an invalid date for a timestamp.\<close>

definition writable :: "company_attributes \<Rightarrow> bool" where
  "writable a \<longleftrightarrow> na_registeredAt a \<noteq> Some InvalidDate"

section \<open>Operations\<close>

definition of_org :: "string \<Rightarrow> string \<Rightarrow> normalized_company \<Rightarrow> bool" where
  "of_org t org c \<longleftrightarrow> nc_tenantId c = t \<and> nc_orgNumber c = org"

definition find_company :: "string \<Rightarrow> string \<Rightarrow> normalization_store \<Rightarrow> normalized_company option" where
  "find_company t org st = find_one (of_org t org) (nm_companies st)"

definition save_company ::
  "(int json \<Rightarrow> int json) \<Rightarrow> normalized_company \<Rightarrow> normalization_store \<Rightarrow>
   normalized_company result \<times> normalization_store" where
  "save_company jsonb c st =
     (if writable (nc_attributes c)
      then (Inr c, st\<lparr>nm_companies :=
        save nc_id (c\<lparr>nc_attributes := stored jsonb (nc_attributes c)\<rparr>) (nm_companies st)\<rparr>)
      else (Inl (Failure ''invalid input syntax for type timestamp''), st))"

definition version_row ::
  "normalized_company \<Rightarrow> tracked_field list \<Rightarrow> string option \<Rightarrow> string option \<Rightarrow> company_version"
where
  "version_row saved changed snapshotId rawPayloadId =
     \<lparr>cv_tenantId = nc_tenantId saved, cv_orgNumber = nc_orgNumber saved,
      cv_normalizedCompanyId = nc_id saved, cv_version = nc_version saved,
      cv_attributes = nc_attributes saved, cv_changedFields = changed,
      cv_schemaVersion = nc_schemaVersion saved, cv_snapshotId = snapshotId,
      cv_rawPayloadId = rawPayloadId\<rparr>"

definition save_version ::
  "(int json \<Rightarrow> int json) \<Rightarrow> company_version \<Rightarrow> normalization_store \<Rightarrow>
   company_version result \<times> normalization_store" where
  "save_version jsonb v st =
     (case nm_versions_err st of
        Some e \<Rightarrow> (Inl (Failure e), st)
      | None \<Rightarrow> (Inr v, st\<lparr>nm_versions :=
          nm_versions st @ [v\<lparr>cv_attributes := stored jsonb (cv_attributes v)\<rparr>]\<rparr>))"

definition freshness_text :: "freshness_status \<Rightarrow> string" where
  "freshness_text f = (case f of Fresh \<Rightarrow> ''fresh'' | Stale \<Rightarrow> ''stale'' | Degraded \<Rightarrow> ''degraded'')"

definition field_name :: "tracked_field \<Rightarrow> string" where
  "field_name f = (case f of
     LegalName \<Rightarrow> ''legalName'' | CompanyForm \<Rightarrow> ''companyForm'' | Status \<Rightarrow> ''status''
   | CountryCode \<Rightarrow> ''countryCode'' | RegisteredAt \<Rightarrow> ''registeredAt'' | Address \<Rightarrow> ''address''
   | BusinessDescription \<Rightarrow> ''businessDescription'' | SignatoryText \<Rightarrow> ''signatoryText''
   | Officers \<Rightarrow> ''officers'' | ShareInformation \<Rightarrow> ''shareInformation''
   | FinancialReports \<Rightarrow> ''financialReports'')"

definition log_company ::
  "string \<Rightarrow> upsert_input \<Rightarrow> normalized_company \<Rightarrow> rat members \<Rightarrow> normalization_store \<Rightarrow>
   normalization_store" where
  "log_company action i saved changed st =
     st\<lparr>nm_audit := audit_log
       \<lparr>al_tenantId = ui_tenantId i, al_actorId = ui_actorId i, al_action = action,
        al_resourceType = ''normalized_company'', al_resourceId = nc_id saved,
        al_metadata = Some
          ([(''orgNumber'', JStr (nc_orgNumber saved)), (''version'', JNum (of_int (nc_version saved)))] @
           changed @
           [(''snapshotId'', json_str (ui_snapshotId i)),
            (''rawPayloadId'', json_str (ui_rawPayloadId i)),
            (''correlationId'', json_str (ui_correlationId i)),
            (''freshnessStatus'', JStr (freshness_text (ui_freshnessStatus i)))])\<rparr> (nm_audit st)\<rparr>"

definition update_company ::
  "(int json \<Rightarrow> int json) \<Rightarrow> int \<Rightarrow> upsert_input \<Rightarrow> company_attributes \<Rightarrow>
   normalized_company \<Rightarrow> normalization_store \<Rightarrow> upsert_result result \<times> normalization_store" where
  "update_company jsonb now i attrs existing st =
     (let changedFields = detect_changes (nc_attributes existing) attrs;
          hasChanges = (changedFields \<noteq> []);
          updated = (if hasChanges
            then existing\<lparr>nc_attributes := attrs, nc_version := nc_version existing + 1\<rparr>
            else existing)\<lparr>nc_freshnessStatus := ui_freshnessStatus i,
              nc_lastNormalizedAt := Some now, nc_lastSnapshotId := ui_snapshotId i,
              nc_lastRawPayloadId := ui_rawPayloadId i\<rparr>
      in case save_company jsonb updated st of
           (Inl e, st1) \<Rightarrow> (Inl e, st1)
         | (Inr saved, st1) \<Rightarrow>
             (case (if hasChanges
                then (case save_version jsonb (version_row saved changedFields (ui_snapshotId i)
                        (ui_rawPayloadId i)) st1 of
                     (Inl e, st2) \<Rightarrow> (Inl e, st2)
                   | (Inr v, st2) \<Rightarrow> (Inr (Some v), st2))
                else (Inr None, st1)) of
                (Inl e, st2) \<Rightarrow> (Inl e, st2)
              | (Inr versionEntity, st2) \<Rightarrow>
                  (Inr \<lparr>ur_normalizedCompany = saved, ur_version = versionEntity,
                     ur_isNew = False, ur_isUpdated = hasChanges,
                     ur_changedFields = changedFields\<rparr>,
                   log_company (if hasChanges then ''normalized_company.updated''
                       else ''normalized_company.refreshed'') i saved
                     [(''changedFields'', JArr (map (\<lambda>f. JStr (field_name f)) changedFields))] st2)))"

definition create_company ::
  "(int json \<Rightarrow> int json) \<Rightarrow> int \<Rightarrow> string \<Rightarrow> upsert_input \<Rightarrow> string \<Rightarrow> company_attributes \<Rightarrow>
   normalization_store \<Rightarrow> upsert_result result \<times> normalization_store" where
  "create_company jsonb now newId i org attrs st =
     (let entity = \<lparr>nc_id = newId, nc_tenantId = ui_tenantId i, nc_orgNumber = org,
            nc_attributes = attrs, nc_version = 1, nc_schemaVersion = ''1'',
            nc_freshnessStatus = ui_freshnessStatus i, nc_lastNormalizedAt = Some now,
            nc_lastSnapshotId = ui_snapshotId i, nc_lastRawPayloadId = ui_rawPayloadId i\<rparr>
      in case save_company jsonb entity st of
           (Inl e, st1) \<Rightarrow> (Inl e, st1)
         | (Inr saved, st1) \<Rightarrow>
             (case save_version jsonb (version_row saved [] (ui_snapshotId i) (ui_rawPayloadId i)) st1 of
                (Inl e, st2) \<Rightarrow> (Inl e, st2)
              | (Inr v, st2) \<Rightarrow>
                  (Inr \<lparr>ur_normalizedCompany = saved, ur_version = Some v, ur_isNew = True,
                     ur_isUpdated = False, ur_changedFields = []\<rparr>,
                   log_company ''normalized_company.created'' i saved [] st2)))"

definition upsert_normalized_company ::
  "(int json \<Rightarrow> int json) \<Rightarrow> (int json \<Rightarrow> js_date) \<Rightarrow> int \<Rightarrow> string \<Rightarrow> upsert_input \<Rightarrow>
   normalization_store \<Rightarrow> upsert_result result \<times> normalization_store" where
  "upsert_normalized_company jsonb to_date now newId i st =
     (let normalized = normalize (map_of (ui_rawPayloadContent i) ''highValueDataset'')
            (map_of (ui_rawPayloadContent i) ''organisationInformation'')
      in if \<not> truthy (Some (np_organisationNumber normalized)) \<and> ui_orgNumber i = []
         then (Inl (Failure (''Normalization produced no organisationNumber for org '' @
           ui_orgNumber i @ '' (tenant '' @ ui_tenantId i @ '')'')), st)
         else (let org = (if ui_orgNumber i \<noteq> [] then ui_orgNumber i
                     else column_text (np_organisationNumber normalized));
                   attrs = build_attributes to_date normalized
               in case find_company (ui_tenantId i) org st of
                    Some existing \<Rightarrow> update_company jsonb now i attrs existing st
                  | None \<Rightarrow> create_company jsonb now newId i org attrs st))"

definition mark_stale_fallback ::
  "(int json \<Rightarrow> int json) \<Rightarrow> stale_fallback_input \<Rightarrow> normalization_store \<Rightarrow>
   normalized_company option result \<times> normalization_store" where
  "mark_stale_fallback jsonb i st =
     (case find_company (sf_tenantId i) (sf_orgNumber i) st of
        None \<Rightarrow> (Inr None, st)
      | Some existing \<Rightarrow>
          (let updated = existing\<lparr>nc_freshnessStatus := Degraded,
             nc_lastSnapshotId := or_else (sf_snapshotId i) (nc_lastSnapshotId existing)\<rparr>
           in case save_company jsonb updated st of
                (Inl e, st1) \<Rightarrow> (Inl e, st1)
              | (Inr saved, st1) \<Rightarrow>
                  (Inr (Some saved), st1\<lparr>nm_audit := audit_log
                     \<lparr>al_tenantId = sf_tenantId i, al_actorId = sf_actorId i,
                      al_action = ''normalized_company.stale_fallback'',
                      al_resourceType = ''normalized_company'', al_resourceId = nc_id saved,
                      al_metadata = Some [(''orgNumber'', JStr (sf_orgNumber i)),
                        (''reason'', JStr (sf_reason i)),
                        (''snapshotId'', json_str (sf_snapshotId i))]\<rparr> (nm_audit st1)\<rparr>)))"

section \<open>Lookups after a write\<close>

definition org_key :: "normalized_company \<Rightarrow> string \<times> string" where
  "org_key c = (nc_tenantId c, nc_orgNumber c)"

definition versions_of :: "string \<Rightarrow> string \<Rightarrow> normalization_store \<Rightarrow> company_version list" where
  "versions_of t org st =
     filter (\<lambda>v. cv_tenantId v = t \<and> cv_orgNumber v = org) (nm_versions st)"

lemma find_company_SomeD:
  "find_company t org st = Some c \<Longrightarrow> c \<in> set (nm_companies st) \<and> nc_tenantId c = t \<and> nc_orgNumber c = org"
  by (auto simp: find_company_def of_org_def dest: find_one_SomeD)

lemma of_org_unique: "of_org t org c \<Longrightarrow> of_org t' o' c \<longleftrightarrow> t' = t \<and> o' = org"
  by (auto simp: of_org_def)

lemma find_one_save_org:
  assumes "unique_keys nc_id rows" "find_one (of_org t org) rows = Some c"
    and "nc_id c' = nc_id c" "of_org t org c'"
  shows "find_one (of_org t' o') (save nc_id c' rows) =
    (if t' = t \<and> o' = org then Some c' else find_one (of_org t' o') rows)"
  using assms(1,2)
proof (induction rows)
  case Nil
  then show ?case by (simp add: table_simps)
next
  case (Cons x rows)
  show ?case
  proof (cases "of_org t org x")
    case True
    with Cons.prems have x: "x = c" by (simp add: table_simps)
    with True have "of_org t org c" by simp
    with x assms(3) show ?thesis
      by (simp add: table_simps of_org_unique [OF assms(4)] of_org_unique [OF \<open>of_org t org c\<close>])
  next
    case False
    with Cons.prems have c: "find_one (of_org t org) rows = Some c" by (simp add: table_simps)
    then have "nc_id x \<noteq> nc_id c"
      using Cons.prems(1) by (auto simp: table_simps dest!: find_one_SomeD)
    with Cons False c assms(3) show ?thesis by (auto simp: table_simps)
  qed
qed

lemma find_one_save_new:
  assumes "nc_id c \<notin> nc_id ` set rows" "find_one (of_org (nc_tenantId c) (nc_orgNumber c)) rows = None"
  shows "find_one (of_org t org) (save nc_id c rows) =
    (if of_org t org c then Some c else find_one (of_org t org) rows)"
  using assms by (auto simp: save_new find_one_append table_simps of_org_def split: option.splits)

lemma unique_org_save_existing:
  assumes "unique_keys nc_id rows" "unique_keys org_key rows" "c \<in> set rows"
    and "nc_id c' = nc_id c" "org_key c' = org_key c"
  shows "unique_keys org_key (save nc_id c' rows)"
proof -
  have "save nc_id c' rows = map (\<lambda>x. if nc_id x = nc_id c' then c' else x) rows"
    by (rule save_existing) (use assms in auto)
  moreover have "map org_key \<dots> = map org_key rows"
    using assms unique_keysD [OF assms(1) assms(3)] by (auto intro: arg_cong [of _ _ org_key])
  ultimately show ?thesis using assms(2) by (simp add: unique_keys_def del: map_map)
qed

lemma unique_org_save_new:
  assumes "unique_keys org_key rows" "nc_id c \<notin> nc_id ` set rows"
    and "find_one (of_org (nc_tenantId c) (nc_orgNumber c)) rows = None"
  shows "unique_keys org_key (save nc_id c rows)"
  using assms by (auto simp: save_new unique_keys_def find_one_None_iff org_key_def of_org_def)

section \<open>What an upsert does\<close>

lemma stored_writable [simp]: "writable (stored jsonb a) = writable a"
  by (simp add: writable_def stored_def)

lemma update_company_Ok:
  assumes "nm_versions_err st = None"
    and "writable (nc_attributes existing)" "writable attrs"
  obtains r st' where "update_company jsonb now i attrs existing st = (Inr r, st')"
    "ur_changedFields r = detect_changes (nc_attributes existing) attrs"
    "ur_isUpdated r \<longleftrightarrow> ur_changedFields r \<noteq> []" "\<not> ur_isNew r"
    "nc_id (ur_normalizedCompany r) = nc_id existing"
    "nc_tenantId (ur_normalizedCompany r) = nc_tenantId existing"
    "nc_orgNumber (ur_normalizedCompany r) = nc_orgNumber existing"
    "nc_freshnessStatus (ur_normalizedCompany r) = ui_freshnessStatus i"
    "nc_lastNormalizedAt (ur_normalizedCompany r) = Some now"
    "nc_attributes (ur_normalizedCompany r) =
       (if ur_isUpdated r then attrs else nc_attributes existing)"
    "nc_version (ur_normalizedCompany r) =
       (if ur_isUpdated r then nc_version existing + 1 else nc_version existing)"
    "nm_companies st' = save nc_id ((ur_normalizedCompany r)\<lparr>nc_attributes :=
       stored jsonb (nc_attributes (ur_normalizedCompany r))\<rparr>) (nm_companies st)"
    "nm_versions st' = nm_versions st @ (if ur_isUpdated r
       then [(version_row (ur_normalizedCompany r) (ur_changedFields r) (ui_snapshotId i)
         (ui_rawPayloadId i))\<lparr>cv_attributes := stored jsonb attrs\<rparr>] else [])"
    "nm_versions_err st' = None"
  by (rule that [OF prod_eqI [of "update_company jsonb now i attrs existing st" "(Inr (projr (fst
      (update_company jsonb now i attrs existing st))), snd (update_company jsonb now i attrs existing st))"]])
    (use assms in \<open>auto simp: update_company_def save_company_def save_version_def log_company_def
      Let_def version_row_def\<close>)

lemma create_company_Ok:
  assumes "nm_versions_err st = None" "writable attrs"
  obtains r st' where "create_company jsonb now newId i org attrs st = (Inr r, st')"
    "ur_isNew r" "nc_id (ur_normalizedCompany r) = newId"
    "nc_tenantId (ur_normalizedCompany r) = ui_tenantId i"
    "nc_orgNumber (ur_normalizedCompany r) = org"
    "nc_attributes (ur_normalizedCompany r) = attrs" "nc_version (ur_normalizedCompany r) = 1"
    "nm_companies st' = save nc_id ((ur_normalizedCompany r)\<lparr>nc_attributes := stored jsonb attrs\<rparr>)
       (nm_companies st)"
    "nm_versions st' = nm_versions st @ [(version_row (ur_normalizedCompany r) [] (ui_snapshotId i)
         (ui_rawPayloadId i))\<lparr>cv_attributes := stored jsonb attrs\<rparr>]"
    "nm_versions_err st' = None"
  by (rule that [OF prod_eqI [of "create_company jsonb now newId i org attrs st" "(Inr (projr (fst
      (create_company jsonb now newId i org attrs st))), snd (create_company jsonb now newId i org attrs st))"]])
    (use assms in \<open>auto simp: create_company_def save_company_def save_version_def log_company_def
      Let_def version_row_def\<close>)

lemma update_company_unwritable:
  assumes "\<not> writable attrs" "writable (nc_attributes existing)"
    and "detect_changes (nc_attributes existing) attrs \<noteq> []"
  shows "snd (update_company jsonb now i attrs existing st) = st"
  using assms by (simp add: update_company_def save_company_def Let_def)

section \<open>The version history\<close>

text \<open>What the model relies on of a \<open>jsonb\<close> column: a second round trip changes nothing more,
  and an array stays an array.\<close>

definition jsonb_column :: "(int json \<Rightarrow> int json) \<Rightarrow> bool" where
  "jsonb_column jsonb \<longleftrightarrow>
     (\<forall>v. jsonb (jsonb v) = jsonb v) \<and> (\<forall>xs. \<exists>ys. jsonb (JArr xs) = JArr ys)"

lemma stored_idem:
  assumes "jsonb_column jsonb"
  shows "stored jsonb (stored jsonb a) = stored jsonb a"
proof -
  have "JArr (items (jsonb (JArr xs))) = jsonb (JArr xs)" for xs
    using assms unfolding jsonb_column_def by (metis items.simps(1))
  then show ?thesis
    using assms by (simp add: stored_def column_text_def jsonb_column_def)
qed

definition numbered :: "int \<Rightarrow> int list" where
  "numbered n = map (\<lambda>i. int i + 1) [0..<nat n]"

lemma numbered_Suc: "0 \<le> n \<Longrightarrow> numbered (n + 1) = numbered n @ [n + 1]"
  by (simp add: numbered_def nat_add_distrib)

lemma numbered_one: "numbered 1 = [1]"
  by (simp add: numbered_def)

text \<open>
  The specification of the two tables together: the versions of a company are numbered from 1
  to its current version, in order, the last one holds its current attributes, and a company
  that is not there has none.
\<close>

definition company_history :: "string \<Rightarrow> string \<Rightarrow> normalization_store \<Rightarrow> bool" where
  "company_history t org st \<longleftrightarrow>
     (case find_company t org st of
        None \<Rightarrow> versions_of t org st = []
      | Some c \<Rightarrow>
          1 \<le> nc_version c \<and> writable (nc_attributes c) \<and>
          map cv_version (versions_of t org st) = numbered (nc_version c) \<and>
          cv_attributes (last (versions_of t org st)) = nc_attributes c)"

definition history_kept :: "(int json \<Rightarrow> int json) \<Rightarrow> normalization_store \<Rightarrow> bool" where
  "history_kept jsonb st \<longleftrightarrow>
     nm_versions_err st = None \<and> unique_keys nc_id (nm_companies st) \<and>
     unique_keys org_key (nm_companies st) \<and>
     (\<forall>c \<in> set (nm_companies st). stored jsonb (nc_attributes c) = nc_attributes c) \<and>
     (\<forall>t org. company_history t org st)"

lemma numbered_not_Nil: "1 \<le> n \<Longrightarrow> numbered n \<noteq> []"
  by (simp add: numbered_def)

lemma versions_of_snoc:
  "versions_of t org (st\<lparr>nm_versions := vs @ ws\<rparr>) =
    versions_of t org (st\<lparr>nm_versions := vs\<rparr>) @ versions_of t org (st\<lparr>nm_versions := ws\<rparr>)"
  by (simp add: versions_of_def)

text \<open>A write of one company with at most one version row keeps the history of every company.\<close>

lemma history_after_write:
  assumes "history_kept jsonb st" and "jsonb_column jsonb"
    and "find_company t org st = Some c \<and> nc_id c' = nc_id c \<or>
      find_company t org st = None \<and> nc_id c' \<notin> nc_id ` set (nm_companies st)"
    and "of_org t org c'" "stored jsonb (nc_attributes c') = nc_attributes c'"
    and "writable (nc_attributes c')"
    and "nm_companies st' = save nc_id c' (nm_companies st)"
    and "nm_versions st' = nm_versions st @ vs" "nm_versions_err st' = None"
    and "vs = [] \<and> find_company t org st = Some c \<and> nc_version c' = nc_version c \<and>
        nc_attributes c' = nc_attributes c \<or>
      (\<exists>v. vs = [v] \<and> cv_tenantId v = t \<and> cv_orgNumber v = org \<and> cv_version v = nc_version c' \<and>
        cv_attributes v = nc_attributes c' \<and>
        nc_version c' = (case find_company t org st of None \<Rightarrow> 1 | Some c \<Rightarrow> nc_version c + 1))"
  shows "history_kept jsonb st'"
proof -
  have ok: "unique_keys nc_id (nm_companies st)" "unique_keys org_key (nm_companies st)"
    "\<And>t org. company_history t org st"
    "\<forall>c \<in> set (nm_companies st). stored jsonb (nc_attributes c) = nc_attributes c"
    using assms(1) by (auto simp: history_kept_def)
  have org: "nc_tenantId c' = t" "nc_orgNumber c' = org" using assms(4) by (auto simp: of_org_def)
  have find: "find_company t' o' st' =
      (if t' = t \<and> o' = org then Some c' else find_company t' o' st)" for t' o'
    using assms(3)
  proof
    assume "find_company t org st = Some c \<and> nc_id c' = nc_id c"
    then show ?thesis
      using find_one_save_org [OF ok(1), of t org c c'] assms(4,7) by (simp add: find_company_def)
  next
    assume "find_company t org st = None \<and> nc_id c' \<notin> nc_id ` set (nm_companies st)"
    then show ?thesis
      using find_one_save_new [of c' "nm_companies st" t' o'] assms(4,7) org
        of_org_unique [OF assms(4), of t' o'] by (simp add: find_company_def)
  qed
  have unique: "unique_keys org_key (nm_companies st')"
    using assms(3)
  proof
    assume "find_company t org st = Some c \<and> nc_id c' = nc_id c"
    then have "c \<in> set (nm_companies st)" "nc_id c' = nc_id c" "org_key c' = org_key c"
      using find_company_SomeD [of t org st c] org by (auto simp: org_key_def)
    then show ?thesis unfolding assms(7) by (rule unique_org_save_existing [OF ok(1,2)])
  next
    assume "find_company t org st = None \<and> nc_id c' \<notin> nc_id ` set (nm_companies st)"
    then show ?thesis
      unfolding assms(7) using unique_org_save_new [OF ok(2), of c'] org by (simp add: find_company_def)
  qed
  have vs: "versions_of t' o' st' = versions_of t' o' st @ (if t' = t \<and> o' = org then vs else [])"
    for t' o'
    using assms(10) by (auto simp: versions_of_def assms(8))
  have "company_history t' o' st'" for t' o'
  proof (cases "t' = t \<and> o' = org")
    case False
    then have "find_company t' o' st' = find_company t' o' st"
      "versions_of t' o' st' = versions_of t' o' st"
      using find [of t' o'] vs [of t' o'] by auto
    then show ?thesis using ok(3) [of t' o'] by (simp add: company_history_def split: option.splits)
  next
    case True
    have hist: "company_history t org st" by (rule ok(3))
    from assms(10) show ?thesis
    proof
      assume "vs = [] \<and> find_company t org st = Some c \<and> nc_version c' = nc_version c \<and>
        nc_attributes c' = nc_attributes c"
      with hist True find vs assms(6) show ?thesis by (simp add: company_history_def)
    next
      assume "\<exists>v. vs = [v] \<and> cv_tenantId v = t \<and> cv_orgNumber v = org \<and>
        cv_version v = nc_version c' \<and> cv_attributes v = nc_attributes c' \<and>
        nc_version c' = (case find_company t org st of None \<Rightarrow> 1 | Some c \<Rightarrow> nc_version c + 1)"
      with hist True find vs assms(6) show ?thesis
        by (cases "find_company t org st")
          (auto simp: company_history_def numbered_Suc numbered_one)
    qed
  qed
  moreover have "\<forall>c \<in> set (nm_companies st'). stored jsonb (nc_attributes c) = nc_attributes c"
    using ok(4) assms(5) set_save_subset [of nc_id c' "nm_companies st"] unfolding assms(7) by auto
  ultimately show ?thesis
    using unique unique_keys_save [OF ok(1), of c'] assms(9) by (simp add: history_kept_def assms(7))
qed

text \<open>One call of the service. The database never draws an id twice.\<close>

datatype normalization_event = Upsert int string upsert_input | StaleFallback stale_fallback_input

fun normalization_step ::
  "(int json \<Rightarrow> int json) \<Rightarrow> (int json \<Rightarrow> js_date) \<Rightarrow> normalization_event \<Rightarrow>
   normalization_store \<Rightarrow> normalization_store" where
  "normalization_step jsonb to_date (Upsert now newId i) st =
     (if newId \<in> nc_id ` set (nm_companies st) then st
      else snd (upsert_normalized_company jsonb to_date now newId i st))"
| "normalization_step jsonb to_date (StaleFallback i) st = snd (mark_stale_fallback jsonb i st)"

lemma version_row_simps [simp]:
  "cv_tenantId (version_row c f s r) = nc_tenantId c" "cv_orgNumber (version_row c f s r) = nc_orgNumber c"
  "cv_version (version_row c f s r) = nc_version c"
  by (simp_all add: version_row_def)

lemma history_kept_existing:
  assumes "history_kept jsonb st" "find_company t org st = Some c"
  shows "writable (nc_attributes c)" "stored jsonb (nc_attributes c) = nc_attributes c"
    "c \<in> set (nm_companies st)" "of_org t org c" "nm_versions_err st = None"
proof -
  have "company_history t org st" using assms(1) by (simp add: history_kept_def)
  with assms(2) show "writable (nc_attributes c)" by (simp add: company_history_def)
qed (use assms find_company_SomeD [OF assms(2)] in \<open>auto simp: history_kept_def of_org_def\<close>)

lemma update_keeps_history:
  assumes "history_kept jsonb st" "jsonb_column jsonb" "find_company t org st = Some c"
  shows "history_kept jsonb (snd (update_company jsonb now i attrs c st))"
proof (cases "writable attrs \<or> detect_changes (nc_attributes c) attrs = []")
  case False
  then show ?thesis
    using update_company_unwritable [of attrs c] history_kept_existing(1) [OF assms(1,3)] assms(1) by simp
next
  case True
  note c = history_kept_existing [OF assms(1,3)]
  show ?thesis
  proof (cases "writable attrs")
    case True
    obtain r st' where r: "update_company jsonb now i attrs c st = (Inr r, st')"
      "nc_id (ur_normalizedCompany r) = nc_id c"
      "nc_tenantId (ur_normalizedCompany r) = nc_tenantId c"
      "nc_orgNumber (ur_normalizedCompany r) = nc_orgNumber c"
      "nc_attributes (ur_normalizedCompany r) = (if ur_isUpdated r then attrs else nc_attributes c)"
      "nc_version (ur_normalizedCompany r) = (if ur_isUpdated r then nc_version c + 1 else nc_version c)"
      "nm_companies st' = save nc_id ((ur_normalizedCompany r)\<lparr>nc_attributes :=
         stored jsonb (nc_attributes (ur_normalizedCompany r))\<rparr>) (nm_companies st)"
      "nm_versions st' = nm_versions st @ (if ur_isUpdated r
         then [(version_row (ur_normalizedCompany r) (ur_changedFields r) (ui_snapshotId i)
           (ui_rawPayloadId i))\<lparr>cv_attributes := stored jsonb attrs\<rparr>] else [])"
      "nm_versions_err st' = None"
      by (rule update_company_Ok [OF c(5) c(1) True])
    show ?thesis
      unfolding r(1) snd_conv
      by (rule history_after_write [OF assms(1,2) _ _ _ _ r(7,8,9), of t org c])
        (use r c True assms(2,3) in \<open>auto simp: of_org_def stored_idem\<close>)
  next
    case False
    with \<open>writable attrs \<or> detect_changes (nc_attributes c) attrs = []\<close>
    have none: "detect_changes (nc_attributes c) attrs = []" by simp
    let ?c = "c\<lparr>nc_freshnessStatus := ui_freshnessStatus i, nc_lastNormalizedAt := Some now,
      nc_lastSnapshotId := ui_snapshotId i, nc_lastRawPayloadId := ui_rawPayloadId i\<rparr>"
    have st': "nm_companies (snd (update_company jsonb now i attrs c st)) =
        save nc_id (?c\<lparr>nc_attributes := stored jsonb (nc_attributes c)\<rparr>) (nm_companies st)"
      "nm_versions (snd (update_company jsonb now i attrs c st)) = nm_versions st @ []"
      "nm_versions_err (snd (update_company jsonb now i attrs c st)) = None"
      using c none by (simp_all add: update_company_def save_company_def log_company_def Let_def)
    show ?thesis
      by (rule history_after_write [OF assms(1,2) _ _ _ _ st', of t org c])
        (use c assms(2,3) in \<open>auto simp: of_org_def stored_idem\<close>)
  qed
qed

lemma create_keeps_history:
  assumes "history_kept jsonb st" "jsonb_column jsonb"
    and "find_company (ui_tenantId i) org st = None" "newId \<notin> nc_id ` set (nm_companies st)"
  shows "history_kept jsonb (snd (create_company jsonb now newId i org attrs st))"
proof (cases "writable attrs")
  case False
  with assms(1) show ?thesis by (simp add: create_company_def save_company_def Let_def)
next
  case True
  have none: "nm_versions_err st = None" using assms(1) by (simp add: history_kept_def)
  obtain r st' where r: "create_company jsonb now newId i org attrs st = (Inr r, st')"
    "nc_id (ur_normalizedCompany r) = newId"
    "nc_tenantId (ur_normalizedCompany r) = ui_tenantId i"
    "nc_orgNumber (ur_normalizedCompany r) = org"
    "nc_attributes (ur_normalizedCompany r) = attrs" "nc_version (ur_normalizedCompany r) = 1"
    "nm_companies st' = save nc_id ((ur_normalizedCompany r)\<lparr>nc_attributes := stored jsonb attrs\<rparr>)
       (nm_companies st)"
    "nm_versions st' = nm_versions st @ [(version_row (ur_normalizedCompany r) [] (ui_snapshotId i)
         (ui_rawPayloadId i))\<lparr>cv_attributes := stored jsonb attrs\<rparr>]"
    "nm_versions_err st' = None"
    by (rule create_company_Ok [OF none True])
  show ?thesis
    unfolding r(1) snd_conv
    by (rule history_after_write [OF assms(1,2) _ _ _ _ r(7,8,9), of "ui_tenantId i" org])
      (use r True assms in \<open>auto simp: of_org_def stored_idem\<close>)
qed

lemma stale_keeps_history:
  assumes "history_kept jsonb st" "jsonb_column jsonb"
  shows "history_kept jsonb (snd (mark_stale_fallback jsonb i st))"
proof (cases "find_company (sf_tenantId i) (sf_orgNumber i) st")
  case None
  with assms show ?thesis by (simp add: mark_stale_fallback_def)
next
  case (Some c)
  note c = history_kept_existing [OF assms(1) Some]
  let ?c = "c\<lparr>nc_freshnessStatus := Degraded,
    nc_lastSnapshotId := or_else (sf_snapshotId i) (nc_lastSnapshotId c)\<rparr>"
  have st': "nm_companies (snd (mark_stale_fallback jsonb i st)) =
      save nc_id (?c\<lparr>nc_attributes := stored jsonb (nc_attributes c)\<rparr>) (nm_companies st)"
    "nm_versions (snd (mark_stale_fallback jsonb i st)) = nm_versions st @ []"
    "nm_versions_err (snd (mark_stale_fallback jsonb i st)) = None"
    using c Some by (simp_all add: mark_stale_fallback_def save_company_def Let_def)
  show ?thesis
    by (rule history_after_write [OF assms _ _ _ _ st', of "sf_tenantId i" "sf_orgNumber i" c])
      (use c assms(2) Some in \<open>auto simp: of_org_def stored_idem\<close>)
qed

lemma step_keeps_history:
  assumes "jsonb_column jsonb" "history_kept jsonb st"
  shows "history_kept jsonb (normalization_step jsonb to_date e st)"
proof (cases e)
  case (Upsert now newId i)
  then show ?thesis
    using assms
    by (auto simp: upsert_normalized_company_def Let_def update_keeps_history create_keeps_history
        split: option.splits)
next
  case (StaleFallback i)
  with assms show ?thesis by (simp add: stale_keeps_history)
qed

text \<open>A step with a column that is not a \<open>jsonb\<close> column is no step of the system.\<close>

interpretation version_history: invariant_machine
  "\<lambda>e st. if jsonb_column jsonb then normalization_step jsonb to_date e st else st"
  "history_kept jsonb" for jsonb to_date
  by unfold_locales (simp add: step_keeps_history)

section \<open>Properties\<close>

definition empty_normalization :: normalization_store where
  "empty_normalization =
     \<lparr>nm_companies = [], nm_versions = [], nm_versions_err = None, nm_audit = empty_audit\<rparr>"

definition sample_upsert :: "int json list \<Rightarrow> upsert_input" where
  "sample_upsert officers = \<lparr>ui_tenantId = ''t1'', ui_orgNumber = ''5560000001'',
     ui_rawPayloadContent = [(''organisationInformation'', JObj [(''funktionarer'', JArr officers)])],
     ui_snapshotId = None, ui_rawPayloadId = None, ui_freshnessStatus = Fresh,
     ui_correlationId = None, ui_actorId = None\<rparr>"

definition no_date :: "int json \<Rightarrow> js_date" where
  "no_date v = InvalidDate"

lemma history_kept_empty: "history_kept jsonb empty_normalization"
  by (simp add: history_kept_def empty_normalization_def company_history_def find_company_def
      versions_of_def table_simps)

lemma jsonb_column_id: "jsonb_column (\<lambda>v. v)"
  by (simp add: jsonb_column_def)

lemma sample_attributes:
  "build_attributes no_date (normalize None (Some (JObj [(''funktionarer'', JArr xs)]))) =
    \<lparr>na_legalName = JStr ''Unknown company'', na_companyForm = None, na_status = None,
     na_countryCode = ''SE'', na_registeredAt = None, na_address = JObj [],
     na_businessDescription = None, na_signatoryText = None, na_officers = xs,
     na_shareInformation = JObj [], na_financialReports = []\<rparr>"
  by (simp add: build_attributes_def normalize_def organisation_of_def first_status_def
      text_or_member_def or_value_def Let_def)

text \<open>C23: Whatever upserts and stale fallbacks the service runs, in any order, the version
  history of every company is complete: its version rows are numbered 1, 2, and so on up to the
  current version with none missing or repeated, the last holds the current attributes, and a
  company never stored has no version row.\<close>

theorem version_history_complete:
  assumes "jsonb_column jsonb"
  shows "company_history t org (fold (normalization_step jsonb to_date) es empty_normalization)"
  using version_history.run_inv [OF history_kept_empty, of jsonb to_date es] assms
  by (simp add: history_kept_def)

theorem version_history_complete_witness:
  "company_history ''t1'' ''5560000001'' (fold (normalization_step (\<lambda>v. v) no_date)
     [Upsert 1 ''a'' (sample_upsert []), Upsert 2 ''b'' (sample_upsert [JNull])] empty_normalization)"
  by (rule version_history_complete [OF jsonb_column_id])

lemma upsert_existing_report:
  assumes "history_kept jsonb st" and "find_company (ui_tenantId i) (ui_orgNumber i) st = Some c"
    and "ui_orgNumber i \<noteq> []"
    and "attrs = build_attributes to_date (normalize (map_of (ui_rawPayloadContent i) ''highValueDataset'')
      (map_of (ui_rawPayloadContent i) ''organisationInformation''))"
    and "writable attrs"
  shows "\<exists>r st'. upsert_normalized_company jsonb to_date now newId i st = (Inr r, st') \<and>
    ur_changedFields r =
      filter (\<lambda>f. field_value f (nc_attributes c) \<noteq> field_value f attrs) tracked_fields \<and>
    (ur_isUpdated r \<longleftrightarrow> ur_changedFields r \<noteq> []) \<and> \<not> ur_isNew r \<and>
    nc_attributes (ur_normalizedCompany r) = (if ur_isUpdated r then attrs else nc_attributes c) \<and>
    nc_version (ur_normalizedCompany r) = (if ur_isUpdated r then nc_version c + 1 else nc_version c) \<and>
    length (nm_versions st') = (if ur_isUpdated r then Suc (length (nm_versions st)) else length (nm_versions st)) \<and>
    nc_freshnessStatus (ur_normalizedCompany r) = ui_freshnessStatus i \<and>
    nc_lastNormalizedAt (ur_normalizedCompany r) = Some now"
proof -
  note c = history_kept_existing [OF assms(1,2)]
  have up: "upsert_normalized_company jsonb to_date now newId i st = update_company jsonb now i attrs c st"
    using assms(2-4) by (simp add: upsert_normalized_company_def Let_def)
  obtain r st' where r: "update_company jsonb now i attrs c st = (Inr r, st')"
    "ur_changedFields r = detect_changes (nc_attributes c) attrs"
    "ur_isUpdated r \<longleftrightarrow> ur_changedFields r \<noteq> []" "\<not> ur_isNew r"
    "nc_freshnessStatus (ur_normalizedCompany r) = ui_freshnessStatus i"
    "nc_lastNormalizedAt (ur_normalizedCompany r) = Some now"
    "nc_attributes (ur_normalizedCompany r) = (if ur_isUpdated r then attrs else nc_attributes c)"
    "nc_version (ur_normalizedCompany r) = (if ur_isUpdated r then nc_version c + 1 else nc_version c)"
    "nm_versions st' = nm_versions st @ (if ur_isUpdated r
       then [(version_row (ur_normalizedCompany r) (ur_changedFields r) (ui_snapshotId i)
         (ui_rawPayloadId i))\<lparr>cv_attributes := stored jsonb attrs\<rparr>] else [])"
    by (rule update_company_Ok [OF c(5,1) assms(5)])
  show ?thesis
    unfolding up r(1) using r(2-9) by (simp add: detect_changes_def stringify_inject)
qed

text \<open>An upsert of a stored company reports as changed exactly the tracked fields whose
  value differs from the stored one; if there are any it takes the new attributes, raises the
  version by one and appends one version row, and otherwise it keeps attributes, version and
  history; in both cases it refreshes the freshness metadata.\<close>

theorem upsert_existing_company:
  assumes "history_kept jsonb st" and "find_company (ui_tenantId i) (ui_orgNumber i) st = Some c"
    and "ui_orgNumber i \<noteq> []"
    and "attrs = build_attributes to_date (normalize (map_of (ui_rawPayloadContent i) ''highValueDataset'')
      (map_of (ui_rawPayloadContent i) ''organisationInformation''))"
    and "writable attrs"
  shows "\<exists>r st'. upsert_normalized_company jsonb to_date now newId i st = (Inr r, st') \<and>
    ur_changedFields r =
      filter (\<lambda>f. field_value f (nc_attributes c) \<noteq> field_value f attrs) tracked_fields \<and>
    (ur_isUpdated r \<longleftrightarrow> ur_changedFields r \<noteq> []) \<and> \<not> ur_isNew r \<and>
    nc_attributes (ur_normalizedCompany r) = (if ur_isUpdated r then attrs else nc_attributes c) \<and>
    nc_version (ur_normalizedCompany r) = (if ur_isUpdated r then nc_version c + 1 else nc_version c) \<and>
    length (nm_versions st') = (if ur_isUpdated r then Suc (length (nm_versions st)) else length (nm_versions st)) \<and>
    nc_freshnessStatus (ur_normalizedCompany r) = ui_freshnessStatus i \<and>
    nc_lastNormalizedAt (ur_normalizedCompany r) = Some now"
  using assms by (rule upsert_existing_report)

lemma sample_upsert_attributes:
  "build_attributes no_date (normalize (map_of (ui_rawPayloadContent (sample_upsert xs)) ''highValueDataset'')
      (map_of (ui_rawPayloadContent (sample_upsert xs)) ''organisationInformation'')) =
    build_attributes no_date (normalize None (Some (JObj [(''funktionarer'', JArr xs)])))"
  by (simp add: sample_upsert_def)

definition sample_company :: "company_attributes \<Rightarrow> normalized_company" where
  "sample_company a = \<lparr>nc_id = ''a'', nc_tenantId = ''t1'', nc_orgNumber = ''5560000001'',
     nc_attributes = a, nc_version = 1, nc_schemaVersion = ''1'', nc_freshnessStatus = Fresh,
     nc_lastNormalizedAt = Some 1, nc_lastSnapshotId = None, nc_lastRawPayloadId = None\<rparr>"

lemma sample_first_upsert:
  "fst (upsert_normalized_company jsonb no_date 1 ''a'' (sample_upsert xs) empty_normalization) \<noteq> Inl e \<and>
   find_company ''t1'' ''5560000001''
     (normalization_step jsonb no_date (Upsert 1 ''a'' (sample_upsert xs)) empty_normalization) =
   Some (sample_company (stored jsonb (build_attributes no_date
     (normalize None (Some (JObj [(''funktionarer'', JArr xs)]))))))"
proof -
  have w: "writable (build_attributes no_date (normalize None (Some (JObj [(''funktionarer'', JArr xs)]))))"
    by (simp add: sample_attributes writable_def)
  have o: "ui_orgNumber (sample_upsert xs) = ''5560000001''" "ui_tenantId (sample_upsert xs) = ''t1''"
    by (simp_all add: sample_upsert_def)
  show ?thesis
    using w by (simp add: upsert_normalized_company_def sample_upsert_attributes o Let_def
        empty_normalization_def find_company_def table_simps create_company_def save_company_def
        save_version_def log_company_def of_org_def sample_company_def)
      (simp add: sample_upsert_def)
qed

lemma history_kept_first:
  "history_kept (\<lambda>v. v) (normalization_step (\<lambda>v. v) no_date (Upsert 1 ''a'' (sample_upsert xs))
    empty_normalization)"
  by (rule step_keeps_history [OF jsonb_column_id history_kept_empty])

theorem upsert_existing_company_witness:
  "\<exists>r st'. upsert_normalized_company (\<lambda>v. v) no_date 2 ''b'' (sample_upsert [JNull])
      (normalization_step (\<lambda>v. v) no_date (Upsert 1 ''a'' (sample_upsert [])) empty_normalization) =
      (Inr r, st') \<and> \<not> ur_isNew r"
proof -
  let ?attrs = "build_attributes no_date (normalize None (Some (JObj [(''funktionarer'', JArr [JNull])])))"
  have "find_company (ui_tenantId (sample_upsert [JNull])) (ui_orgNumber (sample_upsert [JNull]))
      (normalization_step (\<lambda>v. v) no_date (Upsert 1 ''a'' (sample_upsert [])) empty_normalization) =
      Some (sample_company (stored (\<lambda>v. v) (build_attributes no_date
        (normalize None (Some (JObj [(''funktionarer'', JArr [])]))))))"
    using sample_first_upsert [of "\<lambda>v. v" "[]"] by (simp add: sample_upsert_def)
  from upsert_existing_company [OF history_kept_first this, of ?attrs no_date 2 "''b''"]
  show ?thesis
    by (simp add: sample_upsert_attributes sample_attributes writable_def) 
      (auto simp: sample_upsert_def)
qed

text \<open>A stale fallback marks the company degraded and changes nothing else that is served:
  attributes, version and version history of every company are what they were, and a company
  that is not stored is not created.\<close>

theorem stale_fallback_preserves:
  assumes "history_kept jsonb st"
  shows "let st' = snd (mark_stale_fallback jsonb i st) in
    nm_versions st' = nm_versions st \<and>
    (\<forall>t org. map_option (\<lambda>c. (nc_attributes c, nc_version c)) (find_company t org st') =
       map_option (\<lambda>c. (nc_attributes c, nc_version c)) (find_company t org st)) \<and>
    map_option nc_freshnessStatus (find_company (sf_tenantId i) (sf_orgNumber i) st') =
       map_option (\<lambda>c. Degraded) (find_company (sf_tenantId i) (sf_orgNumber i) st)"
proof (cases "find_company (sf_tenantId i) (sf_orgNumber i) st")
  case None
  then show ?thesis by (simp add: mark_stale_fallback_def)
next
  case (Some c)
  note c = history_kept_existing [OF assms Some]
  let ?c = "c\<lparr>nc_freshnessStatus := Degraded,
    nc_lastSnapshotId := or_else (sf_snapshotId i) (nc_lastSnapshotId c)\<rparr>"
  have st': "nm_companies (snd (mark_stale_fallback jsonb i st)) =
      save nc_id ?c (nm_companies st)"
    "nm_versions (snd (mark_stale_fallback jsonb i st)) = nm_versions st"
    using c Some by (simp_all add: mark_stale_fallback_def save_company_def Let_def)
  have "unique_keys nc_id (nm_companies st)" using assms by (simp add: history_kept_def)
  moreover have "find_one (of_org (sf_tenantId i) (sf_orgNumber i)) (nm_companies st) = Some c"
    using Some by (simp add: find_company_def)
  ultimately have "find_company t org (snd (mark_stale_fallback jsonb i st)) =
      (if t = sf_tenantId i \<and> org = sf_orgNumber i then Some ?c else find_company t org st)" for t org
    unfolding find_company_def st'(1)
    by (rule find_one_save_org) (use c(4) in \<open>simp_all add: of_org_def\<close>)
  with st'(2) Some show ?thesis by (simp add: Let_def)
qed

theorem stale_fallback_preserves_witness:
  "nm_versions (snd (mark_stale_fallback (\<lambda>v. v) \<lparr>sf_tenantId = ''t1'', sf_orgNumber = ''5560000001'',
      sf_reason = ''x'', sf_snapshotId = None, sf_actorId = None\<rparr>
    (normalization_step (\<lambda>v. v) no_date (Upsert 1 ''a'' (sample_upsert [])) empty_normalization))) =
   nm_versions (normalization_step (\<lambda>v. v) no_date (Upsert 1 ''a'' (sample_upsert [])) empty_normalization)"
  by (rule stale_fallback_preserves [OF history_kept_first, unfolded Let_def, THEN conjunct1])

text \<open>Change detection compares JSON texts, so it depends on the order of object members,
  which a \<open>jsonb\<close> column does not keep: when the read of the stored officers differs in text from
  the payload, a second upsert of the very same payload reports \<open>officers\<close> as changed.\<close>

theorem same_payload_reported_changed:
  assumes "jsonb_column jsonb" and "jsonb (JArr officers) \<noteq> JArr officers"
    and "st = normalization_step jsonb no_date (Upsert 1 ''a'' (sample_upsert officers)) empty_normalization"
  shows "\<exists>r st'. upsert_normalized_company jsonb no_date 2 ''b'' (sample_upsert officers) st = (Inr r, st') \<and>
    Officers \<in> set (ur_changedFields r) \<and> nc_version (ur_normalizedCompany r) = 2"
proof -
  let ?attrs = "build_attributes no_date (normalize None (Some (JObj [(''funktionarer'', JArr officers)])))"
  have kept: "history_kept jsonb st"
    unfolding assms(3) by (rule step_keeps_history [OF assms(1) history_kept_empty])
  have found: "find_company (ui_tenantId (sample_upsert officers)) (ui_orgNumber (sample_upsert officers)) st =
      Some (sample_company (stored jsonb ?attrs))"
    using sample_first_upsert [of jsonb officers] assms(3) by (simp add: sample_upsert_def)
  obtain ys where ys: "jsonb (JArr officers) = JArr ys"
    using assms(1) unfolding jsonb_column_def by blast
  with assms(2) have "field_value Officers (stored jsonb ?attrs) \<noteq> field_value Officers ?attrs"
    by (simp add: stored_def sample_attributes)
  then have changed: "Officers \<in> set (filter (\<lambda>f. field_value f (nc_attributes
      (sample_company (stored jsonb ?attrs))) \<noteq> field_value f ?attrs) tracked_fields)"
    by (simp add: sample_company_def tracked_fields_def)
  have org: "ui_orgNumber (sample_upsert officers) \<noteq> []" by (simp add: sample_upsert_def)
  have w: "writable ?attrs" by (simp add: sample_attributes writable_def)
  from upsert_existing_report [OF kept found org sample_upsert_attributes [symmetric] w, of 2 "''b''"]
  obtain r st' where r: "upsert_normalized_company jsonb no_date 2 ''b'' (sample_upsert officers) st = (Inr r, st')"
    "ur_changedFields r = filter (\<lambda>f. field_value f (nc_attributes
      (sample_company (stored jsonb ?attrs))) \<noteq> field_value f ?attrs) tracked_fields"
    "ur_isUpdated r \<longleftrightarrow> ur_changedFields r \<noteq> []"
    "nc_version (ur_normalizedCompany r) = (if ur_isUpdated r
       then nc_version (sample_company (stored jsonb ?attrs)) + 1
       else nc_version (sample_company (stored jsonb ?attrs)))"
    by blast
  have "Officers \<in> set (ur_changedFields r)" unfolding r(2) by (rule changed)
  moreover from this have "ur_isUpdated r" unfolding r(3) by auto
  ultimately show ?thesis using r(1,4) by (simp add: sample_company_def)
qed

theorem same_payload_reported_changed_witness:
  "\<exists>jsonb r st'. upsert_normalized_company jsonb no_date 2 ''b''
      (sample_upsert [JObj [(''namn'', JNull), (''id'', JNull)]])
      (normalization_step jsonb no_date (Upsert 1 ''a''
        (sample_upsert [JObj [(''namn'', JNull), (''id'', JNull)]])) empty_normalization) =
      (Inr r, st') \<and> Officers \<in> set (ur_changedFields r)"
proof -
  let ?v = "[JObj [(''namn'', JNull), (''id'', JNull)]] :: int json list"
  let ?jsonb = "\<lambda>v. if v = JArr ?v then JArr [JObj [(''id'', JNull), (''namn'', JNull)]] else v"
  have "jsonb_column ?jsonb" "?jsonb (JArr ?v) \<noteq> JArr ?v" by (auto simp: jsonb_column_def)
  from same_payload_reported_changed [OF this refl] show ?thesis by blast
qed

end
