(* ===== verification/BulkJobs.thy ===== *)
theory BulkJobs
  imports Tables
begin

text \<open>
  \<open>BulkService\<close> (backend/src/bulk/bulk.service.ts), its queue worker (bulk.processor.ts) and
  \<open>ProviderRateLimitService\<close> (provider-rate-limit.service.ts). A bulk job is a list of items that
  workers take from a queue and look up one by one. The parts of \<open>processItem\<close> between two
  waits are functions of their own; a step relation interleaves them for any number of workers.
  The lookup itself is an outcome chosen by the environment.
\<close>

section \<open>State\<close>

datatype item_status = ItemQueued | ItemProcessing | ItemCompleted | ItemFailed
datatype job_status = JobQueued | JobProcessing | JobPartial | JobCompleted

record bulk_job =
  bj_id :: string
  bj_tenantId :: string
  bj_fileName :: string
  bj_rowsTotal :: int
  bj_rowsProcessed :: int
  bj_successCount :: int
  bj_failedCount :: int
  bj_remainingCount :: int
  bj_status :: job_status
  bj_errorMessage :: "string option"
  bj_completedAt :: "int option"
  bj_createdAt :: int

record lookup_summary =
  ls_snapshotId :: "string option"
  ls_source :: string
  ls_freshness :: string
  ls_fetchedAt :: string

record bulk_item =
  bi_id :: string
  bi_tenantId :: string
  bi_jobId :: string
  bi_identifier :: string
  bi_status :: item_status
  bi_attemptCount :: nat
  bi_errorReason :: "string option"
  bi_snapshotId :: "string option"
  bi_result :: "lookup_summary option"
  bi_createdAt :: int
  bi_updatedAt :: int

record bulk_config =
  bc_maxAttempts :: int
  bc_tenantConcurrency :: int

record queue_entry =
  qe_jobId :: string
  qe_itemId :: string

record bulk_state =
  bu_jobs :: "bulk_job list"
  bu_items :: "bulk_item list"
  bu_queue :: "queue_entry list"
  bu_inFlight :: "string \<Rightarrow> int option"

record create_bulk_job_dto =
  cb_fileName :: string
  cb_rowsTotal :: "int option"
  cb_identifiers :: "string list option"

text \<open>\<open>Math.max(1, limit)\<close> of the two environment variables.\<close>

definition make_config :: "int \<Rightarrow> int \<Rightarrow> bulk_config" where
  "make_config attempts concurrency =
     \<lparr>bc_maxAttempts = max 1 attempts, bc_tenantConcurrency = max 1 concurrency\<rparr>"

interpretation bulk_items: entity_store bi_id "find_key bi_id" "save bi_id"
  by (rule table_entity_store)

interpretation bulk_job_rows: entity_store bj_id "find_key bj_id" "save bj_id"
  by (rule table_entity_store)

section \<open>Jobs\<close>

text \<open>\<open>Array.from(new Set(xs))\<close> keeps the first of equal elements.\<close>

definition distinct_first :: "'a list \<Rightarrow> 'a list" where
  "distinct_first xs = rev (remdups (rev xs))"

definition job_identifiers :: "create_bulk_job_dto \<Rightarrow> string list" where
  "job_identifiers dto =
     distinct_first (filter (\<lambda>x. x \<noteq> []) (map trim (or_default (cb_identifiers dto) [])))"

definition new_item :: "int \<Rightarrow> string \<Rightarrow> string \<Rightarrow> string \<Rightarrow> string \<Rightarrow> bulk_item" where
  "new_item now itemId tenantId jobId identifier =
     \<lparr>bi_id = itemId, bi_tenantId = tenantId, bi_jobId = jobId, bi_identifier = identifier,
      bi_status = ItemQueued, bi_attemptCount = 0, bi_errorReason = None, bi_snapshotId = None,
      bi_result = None, bi_createdAt = now, bi_updatedAt = now\<rparr>"

text \<open>\<open>new_id k\<close> is the id of the item with index \<open>k\<close>.\<close>

definition created_items :: "int \<Rightarrow> string \<Rightarrow> (nat \<Rightarrow> string) \<Rightarrow> string \<Rightarrow> string list \<Rightarrow> bulk_item list" where
  "created_items now jobId new_id t ids =
     map (\<lambda>(k, x). new_item now (new_id k) t jobId x) (zip [0..<length ids] ids)"

definition create_job ::
  "int \<Rightarrow> string \<Rightarrow> (nat \<Rightarrow> string) \<Rightarrow> string \<Rightarrow> create_bulk_job_dto \<Rightarrow> bulk_state \<Rightarrow>
   bulk_job \<times> bulk_state" where
  "create_job now jobId new_id tenantId dto st =
     (let identifiers = job_identifiers dto;
          rowsTotal = or_default (cb_rowsTotal dto) (int (length identifiers));
          job = \<lparr>bj_id = jobId, bj_tenantId = tenantId, bj_fileName = cb_fileName dto,
            bj_rowsTotal = rowsTotal, bj_rowsProcessed = 0, bj_successCount = 0, bj_failedCount = 0,
            bj_remainingCount = rowsTotal, bj_status = JobQueued, bj_errorMessage = None,
            bj_completedAt = None, bj_createdAt = now\<rparr>;
          items = created_items now jobId new_id tenantId identifiers
      in if identifiers = [] then (job, st\<lparr>bu_jobs := bu_jobs st @ [job]\<rparr>)
         else (let job = job\<lparr>bj_status := JobProcessing\<rparr>
               in (job, st\<lparr>bu_jobs := bu_jobs st @ [job], bu_items := bu_items st @ items,
                     bu_queue := bu_queue st @
                       map (\<lambda>i. \<lparr>qe_jobId = jobId, qe_itemId = bi_id i\<rparr>) items\<rparr>)))"

definition list_jobs :: "string \<Rightarrow> bulk_state \<Rightarrow> bulk_job list" where
  "list_jobs tenantId st = take 50 (find_desc (\<lambda>j. bj_tenantId j = tenantId) bj_createdAt (bu_jobs st))"

definition get_job :: "string \<Rightarrow> string \<Rightarrow> bulk_state \<Rightarrow> bulk_job result" where
  "get_job tenantId jobId st =
     (case find_one (\<lambda>j. bj_id j = jobId \<and> bj_tenantId j = tenantId) (bu_jobs st) of
        None \<Rightarrow> Inl (NotFound ''Bulk job not found'')
      | Some j \<Rightarrow> Inr j)"

definition list_job_items :: "string \<Rightarrow> string \<Rightarrow> bulk_state \<Rightarrow> bulk_item list result" where
  "list_job_items tenantId jobId st =
     (case get_job tenantId jobId st of
        Inl e \<Rightarrow> Inl e
      | Inr _ \<Rightarrow> Inr (find_asc (\<lambda>i. bi_tenantId i = tenantId \<and> bi_jobId i = jobId) bi_createdAt
                       (bu_items st)))"

definition requeued :: "int \<Rightarrow> bulk_item \<Rightarrow> bulk_item" where
  "requeued now i = i\<lparr>bi_status := ItemQueued, bi_errorReason := None, bi_updatedAt := now\<rparr>"

definition failed_items :: "string \<Rightarrow> string \<Rightarrow> bulk_state \<Rightarrow> bulk_item list" where
  "failed_items tenantId jobId st =
     find_asc (\<lambda>i. bi_tenantId i = tenantId \<and> bi_jobId i = jobId \<and> bi_status i = ItemFailed)
       bi_updatedAt (bu_items st)"

definition retry_failed_items ::
  "int \<Rightarrow> string \<Rightarrow> string \<Rightarrow> bulk_state \<Rightarrow> nat result \<times> bulk_state" where
  "retry_failed_items now tenantId jobId st =
     (case get_job tenantId jobId st of
        Inl e \<Rightarrow> (Inl e, st)
      | Inr job \<Rightarrow>
          (let failed = failed_items tenantId jobId st;
               reset = map (requeued now) failed
           in (Inr (length failed),
               st\<lparr>bu_items := fold (save bi_id) reset (bu_items st),
                  bu_jobs := save bj_id (job\<lparr>bj_status := JobProcessing\<rparr>) (bu_jobs st),
                  bu_queue := bu_queue st @
                    map (\<lambda>i. \<lparr>qe_jobId = jobId, qe_itemId = bi_id i\<rparr>) reset\<rparr>)))"

section \<open>Tenant slots\<close>

definition slots_used :: "string \<Rightarrow> bulk_state \<Rightarrow> int" where
  "slots_used tenantId st = or_default (bu_inFlight st tenantId) 0"

text \<open>The condition \<open>waitForTenantSlot\<close> polls for, and what it does then.\<close>

definition slot_free :: "bulk_config \<Rightarrow> string \<Rightarrow> bulk_state \<Rightarrow> bool" where
  "slot_free cfg tenantId st \<longleftrightarrow> slots_used tenantId st < bc_tenantConcurrency cfg"

definition take_slot :: "string \<Rightarrow> bulk_state \<Rightarrow> bulk_state" where
  "take_slot tenantId st =
     st\<lparr>bu_inFlight := (bu_inFlight st)(tenantId \<mapsto> slots_used tenantId st + 1)\<rparr>"

definition release_tenant_slot :: "string \<Rightarrow> bulk_state \<Rightarrow> bulk_state" where
  "release_tenant_slot tenantId st =
     (let current = slots_used tenantId st
      in if current \<le> 1 then st\<lparr>bu_inFlight := (bu_inFlight st)(tenantId := None)\<rparr>
         else st\<lparr>bu_inFlight := (bu_inFlight st)(tenantId \<mapsto> current - 1)\<rparr>)"

section \<open>Processing an item\<close>

definition load_item :: "queue_entry \<Rightarrow> bulk_state \<Rightarrow> bulk_item option" where
  "load_item q st =
     (case find_one (\<lambda>i. bi_id i = qe_itemId q \<and> bi_jobId i = qe_jobId q) (bu_items st) of
        None \<Rightarrow> None
      | Some i \<Rightarrow>
          (case find_one (\<lambda>j. bj_id j = qe_jobId q \<and> bj_tenantId j = bi_tenantId i) (bu_jobs st) of
             None \<Rightarrow> None
           | Some _ \<Rightarrow> Some i))"

definition begin_item :: "int \<Rightarrow> bulk_item \<Rightarrow> bulk_state \<Rightarrow> bulk_item \<times> bulk_state" where
  "begin_item now i st =
     (let i = i\<lparr>bi_status := ItemProcessing, bi_attemptCount := bi_attemptCount i + 1,
            bi_updatedAt := now\<rparr>
      in (i, st\<lparr>bu_items := save bi_id i (bu_items st)\<rparr>))"

definition lookup_outcome :: "string + lookup_summary \<Rightarrow> bulk_item \<Rightarrow> bulk_item" where
  "lookup_outcome out i =
     (case out of
        Inl message \<Rightarrow> i\<lparr>bi_status := ItemFailed, bi_errorReason := Some message\<rparr>
      | Inr s \<Rightarrow> i\<lparr>bi_status := ItemCompleted, bi_snapshotId := ls_snapshotId s,
          bi_result := Some s, bi_errorReason := None\<rparr>)"

definition finish_item :: "int \<Rightarrow> string + lookup_summary \<Rightarrow> bulk_item \<Rightarrow> bulk_state \<Rightarrow> bulk_state" where
  "finish_item now out i st =
     release_tenant_slot (bi_tenantId i)
       (st\<lparr>bu_items := save bi_id ((lookup_outcome out i)\<lparr>bi_updatedAt := now\<rparr>) (bu_items st)\<rparr>)"

definition count_items :: "string \<Rightarrow> item_status \<Rightarrow> bulk_state \<Rightarrow> int" where
  "count_items jobId s st = int (count_where (\<lambda>i. bi_jobId i = jobId \<and> bi_status i = s) (bu_items st))"

definition recomputed :: "int \<Rightarrow> bulk_state \<Rightarrow> bulk_job \<Rightarrow> bulk_job" where
  "recomputed now st job =
     (let completed = count_items (bj_id job) ItemCompleted st;
          failedCount = count_items (bj_id job) ItemFailed st;
          queued = count_items (bj_id job) ItemQueued st;
          processing = count_items (bj_id job) ItemProcessing st;
          job = job\<lparr>bj_rowsProcessed := completed + failedCount, bj_successCount := completed,
            bj_failedCount := failedCount, bj_remainingCount := queued + processing\<rparr>
      in if bj_rowsProcessed job \<ge> bj_rowsTotal job \<or> (queued = 0 \<and> processing = 0)
         then job\<lparr>bj_status := (if failedCount > 0 then JobPartial else JobCompleted),
                bj_completedAt := Some now\<rparr>
         else job\<lparr>bj_status := JobProcessing, bj_completedAt := None\<rparr>)"

definition recompute_job :: "int \<Rightarrow> string \<Rightarrow> bulk_state \<Rightarrow> bulk_state" where
  "recompute_job now jobId st =
     (case find_key bj_id jobId (bu_jobs st) of
        None \<Rightarrow> st
      | Some job \<Rightarrow> st\<lparr>bu_jobs := save bj_id (recomputed now st job) (bu_jobs st)\<rparr>)"

text \<open>\<open>processItem\<close> run by one worker without others in between.\<close>

definition process_item ::
  "int \<Rightarrow> string + lookup_summary \<Rightarrow> queue_entry \<Rightarrow> bulk_state \<Rightarrow> bulk_state" where
  "process_item now out q st =
     (case load_item q st of
        None \<Rightarrow> st
      | Some i \<Rightarrow>
          (let st = take_slot (bi_tenantId i) st;
               (i, st) = begin_item now i st
           in recompute_job now (qe_jobId q) (finish_item now out i st)))"

section \<open>Export\<close>

definition double_quotes :: "string \<Rightarrow> string" where
  "double_quotes s = concat (map (\<lambda>c. if c = CHR 0x22 then [CHR 0x22, CHR 0x22] else [c]) s)"

definition status_text :: "item_status \<Rightarrow> string" where
  "status_text s = (case s of ItemQueued \<Rightarrow> ''queued'' | ItemProcessing \<Rightarrow> ''processing''
     | ItemCompleted \<Rightarrow> ''completed'' | ItemFailed \<Rightarrow> ''failed'')"

definition csv_line :: "bulk_item \<Rightarrow> string" where
  "csv_line i =
     (let field = (\<lambda>f. or_default (map_option f (bi_result i)) [])
      in join '','' [bi_identifier i, status_text (bi_status i), show_nat (bi_attemptCount i),
           [CHR 0x22] @ double_quotes (or_default (bi_errorReason i) []) @ [CHR 0x22],
           or_default (bi_snapshotId i) [], field ls_source, field ls_freshness, field ls_fetchedAt])"

definition export_csv :: "string \<Rightarrow> string \<Rightarrow> bulk_state \<Rightarrow> string result" where
  "export_csv tenantId jobId st =
     (case list_job_items tenantId jobId st of
        Inl e \<Rightarrow> Inl e
      | Inr items \<Rightarrow> Inr (join [CHR 0x0A]
          (''identifier,status,attempt_count,error_reason,snapshot_id,source,freshness,fetched_at''
           # map csv_line items) @ [CHR 0x0A]))"

section \<open>The provider's rate\<close>

definition min_interval_ms :: "int \<Rightarrow> int" where
  "min_interval_ms rps = max 50 (1000 div max 1 rps)"

text \<open>A call at \<open>now\<close>: the instant it may go on at, and the next reservation.\<close>

definition wait_turn :: "int \<Rightarrow> int \<Rightarrow> int \<Rightarrow> int \<times> int" where
  "wait_turn rps now nextAllowedAt =
     (let waitMs = max 0 (nextAllowedAt - now)
      in (now + waitMs, max nextAllowedAt now + min_interval_ms rps))"

section \<open>Interleaved workers\<close>

text \<open>
  A worker of the queue (bulk.processor.ts) is idle, polls for a slot of the item's tenant, is
  inside the lookup with its own copy of the item, or has released the slot and is about to
  recompute the job's counters. A step is one worker's move between two waits, or a request
  that creates a job or retries one; ids drawn by the database are fresh.
\<close>

datatype worker = Idle | Waiting queue_entry bulk_item | Calling queue_entry bulk_item | Recomputing string

record bulk_run =
  br_state :: bulk_state
  br_workers :: "worker list"

inductive bulk_step :: "bulk_config \<Rightarrow> bulk_run \<Rightarrow> bulk_run \<Rightarrow> bool" for cfg :: bulk_config where
  take_entry: "bu_queue st = q # rest \<Longrightarrow> w < length ws \<Longrightarrow> ws ! w = Idle \<Longrightarrow>
     load_item q st = Some i \<Longrightarrow>
     bulk_step cfg \<lparr>br_state = st, br_workers = ws\<rparr>
       \<lparr>br_state = st\<lparr>bu_queue := rest\<rparr>, br_workers = ws[w := Waiting q i]\<rparr>"
| skip_entry: "bu_queue st = q # rest \<Longrightarrow> w < length ws \<Longrightarrow> ws ! w = Idle \<Longrightarrow>
     load_item q st = None \<Longrightarrow>
     bulk_step cfg \<lparr>br_state = st, br_workers = ws\<rparr>
       \<lparr>br_state = st\<lparr>bu_queue := rest\<rparr>, br_workers = ws\<rparr>"
| start_call: "w < length ws \<Longrightarrow> ws ! w = Waiting q i \<Longrightarrow> slot_free cfg (bi_tenantId i) st \<Longrightarrow>
     begin_item now i (take_slot (bi_tenantId i) st) = (i', st') \<Longrightarrow>
     bulk_step cfg \<lparr>br_state = st, br_workers = ws\<rparr>
       \<lparr>br_state = st', br_workers = ws[w := Calling q i']\<rparr>"
| end_call: "w < length ws \<Longrightarrow> ws ! w = Calling q i \<Longrightarrow>
     bulk_step cfg \<lparr>br_state = st, br_workers = ws\<rparr>
       \<lparr>br_state = finish_item now out i st, br_workers = ws[w := Recomputing (qe_jobId q)]\<rparr>"
| recompute: "w < length ws \<Longrightarrow> ws ! w = Recomputing j \<Longrightarrow>
     bulk_step cfg \<lparr>br_state = st, br_workers = ws\<rparr>
       \<lparr>br_state = recompute_job now j st, br_workers = ws[w := Idle]\<rparr>"
| create_request: "jobId \<notin> bj_id ` set (bu_jobs st) \<Longrightarrow> inj new_id \<Longrightarrow>
     range new_id \<inter> bi_id ` set (bu_items st) = {} \<Longrightarrow>
     create_job now jobId new_id tenantId dto st = (job, st') \<Longrightarrow>
     bulk_step cfg \<lparr>br_state = st, br_workers = ws\<rparr> \<lparr>br_state = st', br_workers = ws\<rparr>"
| retry_request: "retry_failed_items now tenantId jobId st = (r, st') \<Longrightarrow>
     bulk_step cfg \<lparr>br_state = st, br_workers = ws\<rparr> \<lparr>br_state = st', br_workers = ws\<rparr>"

inductive_cases bulk_stepE: "bulk_step cfg r r'"

definition bulk_start :: "nat \<Rightarrow> bulk_run" where
  "bulk_start workers =
     \<lparr>br_state = \<lparr>bu_jobs = [], bu_items = [], bu_queue = [], bu_inFlight = Map.empty\<rparr>,
      br_workers = replicate workers Idle\<rparr>"

inductive bulk_reachable :: "bulk_config \<Rightarrow> nat \<Rightarrow> bulk_run \<Rightarrow> bool"
  for cfg :: bulk_config and workers :: nat where
  initial: "bulk_reachable cfg workers (bulk_start workers)"
| step: "bulk_reachable cfg workers r \<Longrightarrow> bulk_step cfg r r' \<Longrightarrow> bulk_reachable cfg workers r'"

fun calls_for :: "string \<Rightarrow> worker \<Rightarrow> bool" where
  "calls_for t (Calling q i) = (bi_tenantId i = t)"
| "calls_for t w = False"

definition calls_in_flight :: "string \<Rightarrow> bulk_run \<Rightarrow> nat" where
  "calls_in_flight t r = count_where (calls_for t) (br_workers r)"

section \<open>The slots are never overdrawn\<close>

lemma count_where_update:
  "w < length xs \<Longrightarrow>
    count_where p (xs[w := x]) + (if p (xs ! w) then 1 else 0) =
    count_where p xs + (if p x then 1 else 0)"
proof (induction xs arbitrary: w)
  case Nil
  then show ?case by simp
next
  case (Cons y xs)
  then show ?case
    by (cases w) (auto simp: count_where_def split: if_splits)
qed

lemma slots_used_take:
  "slots_used t (take_slot u st) = slots_used t st + (if t = u then 1 else 0)"
  by (simp add: slots_used_def take_slot_def)

lemma slots_used_release:
  "0 < slots_used u st \<Longrightarrow>
    slots_used t (release_tenant_slot u st) = slots_used t st - (if t = u then 1 else 0)"
  by (auto simp: slots_used_def release_tenant_slot_def Let_def split: if_splits)

definition slots_ok :: "bulk_config \<Rightarrow> bulk_run \<Rightarrow> bool" where
  "slots_ok cfg r \<longleftrightarrow>
     (\<forall>t. slots_used t (br_state r) = int (calls_in_flight t r) \<and>
          int (calls_in_flight t r) \<le> bc_tenantConcurrency cfg)"

lemma slots_used_cong: "bu_inFlight st' = bu_inFlight st \<Longrightarrow> slots_used t st' = slots_used t st"
  by (simp add: slots_used_def)

lemma in_flight_create: "create_job now jobId new_id t dto st = (job, st') \<Longrightarrow>
    bu_inFlight st' = bu_inFlight st"
  by (auto simp: create_job_def Let_def split: if_splits)

lemma in_flight_retry: "retry_failed_items now t jobId st = (r, st') \<Longrightarrow>
    bu_inFlight st' = bu_inFlight st"
  by (auto simp: retry_failed_items_def Let_def split: sum.splits)

lemma in_flight_recompute: "bu_inFlight (recompute_job now j st) = bu_inFlight st"
  by (auto simp: recompute_job_def split: option.splits)

lemma calls_update:
  assumes "w < length ws"
  shows "int (calls_in_flight t \<lparr>br_state = st', br_workers = ws[w := x]\<rparr>) =
    int (calls_in_flight t \<lparr>br_state = st, br_workers = ws\<rparr>)
      + (if calls_for t x then 1 else 0) - (if calls_for t (ws ! w) then 1 else 0)"
  using count_where_update [OF assms, of "calls_for t" x]
  by (auto simp: calls_in_flight_def split: if_splits)

lemma calls_positive:
  "w < length ws \<Longrightarrow> calls_for t (ws ! w) \<Longrightarrow> 0 < calls_in_flight t \<lparr>br_state = st, br_workers = ws\<rparr>"
  by (auto simp: calls_in_flight_def count_where_def filter_empty_conv intro!: bexI [of _ "ws ! w"])

lemma slots_ok_step:
  assumes "slots_ok cfg r" and "bulk_step cfg r r'"
  shows "slots_ok cfg r'"
  using assms(2,1)
proof (cases rule: bulk_step.cases)
  case (start_call w ws q i st now i' st')
  have used: "slots_used t st' = slots_used t st + (if t = bi_tenantId i then 1 else 0)" for t
    using start_call(6) slots_used_take [of t "bi_tenantId i" st]
    by (auto simp: begin_item_def Let_def slots_used_def)
  have t: "bi_tenantId i' = bi_tenantId i"
    using start_call(6) by (auto simp: begin_item_def Let_def)
  show ?thesis
    using assms(1) start_call(4,5)
    by (auto simp: start_call(1,2) slots_ok_def calls_update [OF start_call(3), of _ _ _ st] used t
        slot_free_def)
next
  case (end_call w ws q i st now out)
  have pos: "0 < slots_used (bi_tenantId i) st"
    using assms(1) calls_positive [OF end_call(3), of "bi_tenantId i" st] end_call(4)
    by (simp add: slots_ok_def end_call(1))
  have used: "slots_used t (finish_item now out i st) =
      slots_used t st - (if t = bi_tenantId i then 1 else 0)" for t
    using slots_used_release [of "bi_tenantId i" "st\<lparr>bu_items := us\<rparr>" for us] pos
    by (simp add: finish_item_def slots_used_def)
  have le: "int (calls_in_flight (bi_tenantId i) \<lparr>br_state = st, br_workers = ws\<rparr>) - 1
      \<le> bc_tenantConcurrency cfg"
    using assms(1) by (simp add: slots_ok_def end_call(1) diff_le_eq add_increasing2)
  show ?thesis
    using assms(1) end_call(4) le
    by (auto simp: end_call(1,2) slots_ok_def calls_update [OF end_call(3), of _ _ _ st] used)
next
  case (take_entry st q rest w ws i)
  show ?thesis
    using assms(1) take_entry(5)
    by (simp add: take_entry(1,2) slots_ok_def calls_update [OF take_entry(4), of _ _ _ st]
        slots_used_def)
next
  case (skip_entry st q rest w ws)
  then show ?thesis
    using assms(1) by (simp add: slots_ok_def slots_used_def calls_in_flight_def)
next
  case (recompute w ws j st now)
  show ?thesis
    using assms(1) recompute(4)
    by (simp add: recompute(1,2) slots_ok_def calls_update [OF recompute(3), of _ _ _ st]
        slots_used_cong [OF in_flight_recompute])
next
  case (create_request jobId st new_id now tenantId dto job st' ws)
  then show ?thesis
    using assms(1) by (simp add: slots_ok_def slots_used_cong [OF in_flight_create [OF create_request(6)]]
        calls_in_flight_def)
next
  case (retry_request now tenantId jobId st r0 st' ws)
  then show ?thesis
    using assms(1) by (simp add: slots_ok_def slots_used_cong [OF in_flight_retry [OF retry_request(3)]]
        calls_in_flight_def)
qed

lemma slots_ok_start: "0 \<le> bc_tenantConcurrency cfg \<Longrightarrow> slots_ok cfg (bulk_start workers)"
  by (simp add: slots_ok_def bulk_start_def slots_used_def calls_in_flight_def count_where_def)

text \<open>C26: However many workers run and however their steps interleave with new jobs and retries, a
  tenant never has more lookups in flight than the configured limit, and the in-memory counter
  is exactly the number of those lookups.
\<close>

theorem tenant_concurrency_respected:
  assumes "bulk_reachable (make_config attempts limit) workers r"
  shows "int (calls_in_flight t r) \<le> max 1 limit \<and>
    slots_used t (br_state r) = int (calls_in_flight t r)"
proof -
  have "slots_ok (make_config attempts limit) r"
    using assms
    by (induction rule: bulk_reachable.induct)
      (auto intro: slots_ok_step slots_ok_start simp: make_config_def)
  then show ?thesis by (simp add: slots_ok_def make_config_def)
qed

section \<open>No item is lost\<close>

text \<open>
  An item that is queued has an entry in the queue or a worker polling for a slot; an item
  being processed has the worker that looks it up.
\<close>

definition queued_somewhere :: "bulk_run \<Rightarrow> bulk_item \<Rightarrow> bool" where
  "queued_somewhere r i \<longleftrightarrow>
     (\<exists>q \<in> set (bu_queue (br_state r)). qe_itemId q = bi_id i \<and> qe_jobId q = bi_jobId i) \<or>
     (\<exists>q i'. Waiting q i' \<in> set (br_workers r) \<and> bi_id i' = bi_id i)"

definition looked_up :: "bulk_run \<Rightarrow> bulk_item \<Rightarrow> bool" where
  "looked_up r i \<longleftrightarrow> (\<exists>q i'. Calling q i' \<in> set (br_workers r) \<and> bi_id i' = bi_id i)"

definition has_job :: "bulk_state \<Rightarrow> bulk_item \<Rightarrow> bool" where
  "has_job st i \<longleftrightarrow> (\<exists>j \<in> set (bu_jobs st). bj_id j = bi_jobId i \<and> bj_tenantId j = bi_tenantId i)"

text \<open>The copy of an item in a worker agrees with its row on the job.\<close>

definition copy_ok :: "bulk_state \<Rightarrow> queue_entry \<Rightarrow> bulk_item \<Rightarrow> bool" where
  "copy_ok st q i \<longleftrightarrow> has_job st i \<and> qe_jobId q = bi_jobId i \<and>
     (\<exists>x \<in> set (bu_items st). bi_id x = bi_id i \<and> bi_jobId x = bi_jobId i)"

definition open_item :: "string \<Rightarrow> bulk_state \<Rightarrow> bool" where
  "open_item jobId st \<longleftrightarrow> (\<exists>x \<in> set (bu_items st). bi_jobId x = jobId \<and>
     bi_status x \<in> {ItemQueued, ItemProcessing})"

definition job_counts_current :: "bulk_state \<Rightarrow> bulk_job \<Rightarrow> bool" where
  "job_counts_current st j \<longleftrightarrow>
     bj_successCount j = count_items (bj_id j) ItemCompleted st \<and>
     bj_failedCount j = count_items (bj_id j) ItemFailed st \<and>
     bj_rowsProcessed j = bj_successCount j + bj_failedCount j"

definition tables_ok :: "bulk_state \<Rightarrow> bool" where
  "tables_ok st \<longleftrightarrow> unique_keys bi_id (bu_items st) \<and> unique_keys bj_id (bu_jobs st) \<and>
     (\<forall>i \<in> set (bu_items st). has_job st i)"

definition bulk_inv :: "bulk_run \<Rightarrow> bool" where
  "bulk_inv r \<longleftrightarrow> tables_ok (br_state r) \<and>
     (\<forall>q i. Waiting q i \<in> set (br_workers r) \<or> Calling q i \<in> set (br_workers r) \<longrightarrow>
        copy_ok (br_state r) q i) \<and>
     (\<forall>i \<in> set (bu_items (br_state r)).
        (bi_status i = ItemQueued \<longrightarrow> queued_somewhere r i) \<and>
        (bi_status i = ItemProcessing \<longrightarrow> looked_up r i)) \<and>
     (\<forall>j \<in> set (bu_jobs (br_state r)). open_item (bj_id j) (br_state r) \<or>
        Recomputing (bj_id j) \<in> set (br_workers r) \<or> job_counts_current (br_state r) j)"

lemma set_fold_save:
  "unique_keys key t \<Longrightarrow> distinct (map key rs) \<Longrightarrow>
    set (fold (save key) rs t) = set rs \<union> {x \<in> set t. key x \<notin> key ` set rs} \<and>
    unique_keys key (fold (save key) rs t)"
proof (induction rs arbitrary: t)
  case Nil
  then show ?case by simp
next
  case (Cons r rs)
  then show ?case
    by (auto simp: set_save unique_keys_save)
qed

lemma count_where_card:
  "unique_keys key t \<Longrightarrow> count_where p t = card {x \<in> set t. p x}"
  by (metis count_where_def distinct_card distinct_filter distinct_map set_filter unique_keys_def)

text \<open>The counters of a job depend only on the set of its items.\<close>

lemma same_items_same_counts:
  assumes "unique_keys bi_id (bu_items st)" "unique_keys bi_id (bu_items st')"
    and "{x \<in> set (bu_items st'). bi_jobId x = jobId} = {x \<in> set (bu_items st). bi_jobId x = jobId}"
  shows "count_items jobId s st' = count_items jobId s st"
    and "open_item jobId st' = open_item jobId st"
proof -
  have "{x \<in> set (bu_items st'). bi_jobId x = jobId \<and> bi_status x = s} =
      {x \<in> set (bu_items st). bi_jobId x = jobId \<and> bi_status x = s}"
    using assms(3) by blast
  then show "count_items jobId s st' = count_items jobId s st"
    using assms(1,2) by (simp add: count_items_def count_where_card [of bi_id])
  show "open_item jobId st' = open_item jobId st"
    unfolding open_item_def using assms(3) by blast
qed

lemma in_set_update:
  "x \<in> set (ws[w := y]) \<Longrightarrow> x = y \<or> x \<in> set ws"
  by (metis insertE set_update_subset_insert subsetD)

lemma in_set_update_same: "w < length ws \<Longrightarrow> y \<in> set (ws[w := y])"
  by (simp add: set_update_memI)

lemma in_set_update_other:
  "x \<in> set ws \<Longrightarrow> x \<noteq> ws ! w \<Longrightarrow> x \<in> set (ws[w := y])"
  by (metis in_set_conv_nth length_list_update nth_list_update_neq)

lemma load_item_SomeD:
  assumes "load_item q st = Some i"
  shows "i \<in> set (bu_items st)" "bi_id i = qe_itemId q" "bi_jobId i = qe_jobId q"
  using assms by (auto simp: load_item_def split: option.splits dest: find_one_SomeD)

lemma load_item_None:
  assumes "load_item q st = None" "tables_ok st" "i \<in> set (bu_items st)"
  shows "bi_id i \<noteq> qe_itemId q \<or> bi_jobId i \<noteq> qe_jobId q"
proof (rule ccontr)
  assume "\<not> ?thesis"
  then have i: "bi_id i = qe_itemId q" "bi_jobId i = qe_jobId q" by auto
  then have "find_one (\<lambda>i. bi_id i = qe_itemId q \<and> bi_jobId i = qe_jobId q) (bu_items st) = Some i"
    using assms(2,3) by (intro find_one_unique) (auto simp: tables_ok_def dest: unique_keysD)
  moreover have "has_job st i" using assms(2,3) by (simp add: tables_ok_def)
  ultimately show False
    using assms(1) i by (auto simp: load_item_def has_job_def find_one_None_iff split: option.splits)
qed

lemma bulk_invD:
  assumes "bulk_inv \<lparr>br_state = st, br_workers = ws\<rparr>"
  shows "unique_keys bi_id (bu_items st)" "unique_keys bj_id (bu_jobs st)"
    "\<And>i. i \<in> set (bu_items st) \<Longrightarrow> has_job st i"
    "\<And>q i. Waiting q i \<in> set ws \<Longrightarrow> copy_ok st q i"
    "\<And>q i. Calling q i \<in> set ws \<Longrightarrow> copy_ok st q i"
    "\<And>i. i \<in> set (bu_items st) \<Longrightarrow> bi_status i = ItemQueued \<Longrightarrow>
       queued_somewhere \<lparr>br_state = st, br_workers = ws\<rparr> i"
    "\<And>i. i \<in> set (bu_items st) \<Longrightarrow> bi_status i = ItemProcessing \<Longrightarrow>
       looked_up \<lparr>br_state = st, br_workers = ws\<rparr> i"
    "\<And>j. j \<in> set (bu_jobs st) \<Longrightarrow> open_item (bj_id j) st \<or> Recomputing (bj_id j) \<in> set ws \<or>
       job_counts_current st j"
  using assms by (auto simp: bulk_inv_def tables_ok_def)

lemma bulk_inv_take:
  assumes inv: "bulk_inv \<lparr>br_state = st, br_workers = ws\<rparr>"
    and q: "bu_queue st = q # rest" and w: "w < length ws" "ws ! w = Idle"
    and i: "load_item q st = Some i"
  shows "bulk_inv \<lparr>br_state = st\<lparr>bu_queue := rest\<rparr>, br_workers = ws[w := Waiting q i]\<rparr>"
proof -
  note I = bulk_invD [OF inv] and L = load_item_SomeD [OF i]
  let ?ws = "ws[w := Waiting q i]"
  have keep: "x \<in> set ws \<Longrightarrow> x \<noteq> Idle \<Longrightarrow> x \<in> set ?ws" for x
    using in_set_update_other [of x ws w] w by simp
  have new: "Waiting q i \<in> set ?ws" by (rule in_set_update_same [OF w(1)])
  have "copy_ok (st\<lparr>bu_queue := rest\<rparr>) q' x"
    if "Waiting q' x \<in> set ?ws \<or> Calling q' x \<in> set ?ws" for q' x
  proof -
    have "copy_ok st q' x"
      using that I(3) [OF L(1)] I(4,5) L by (auto simp: copy_ok_def dest!: in_set_update)
    then show ?thesis by (simp add: copy_ok_def has_job_def)
  qed
  moreover have "queued_somewhere \<lparr>br_state = st\<lparr>bu_queue := rest\<rparr>, br_workers = ?ws\<rparr> x"
    if "x \<in> set (bu_items st)" "bi_status x = ItemQueued" for x
    using I(6) [OF that] keep new L q by (fastforce simp: queued_somewhere_def)
  moreover have "looked_up \<lparr>br_state = st\<lparr>bu_queue := rest\<rparr>, br_workers = ?ws\<rparr> x"
    if "x \<in> set (bu_items st)" "bi_status x = ItemProcessing" for x
    using I(7) [OF that] keep by (fastforce simp: looked_up_def)
  moreover have "open_item (bj_id j) st \<or> Recomputing (bj_id j) \<in> set ?ws \<or> job_counts_current st j"
    if "j \<in> set (bu_jobs st)" for j
    using I(8) [OF that] keep by blast
  ultimately show ?thesis
    using I(1-3)
    by (auto simp: bulk_inv_def tables_ok_def has_job_def open_item_def job_counts_current_def
        count_items_def)
qed

lemma bulk_inv_skip:
  assumes inv: "bulk_inv \<lparr>br_state = st, br_workers = ws\<rparr>"
    and q: "bu_queue st = q # rest" and none: "load_item q st = None"
  shows "bulk_inv \<lparr>br_state = st\<lparr>bu_queue := rest\<rparr>, br_workers = ws\<rparr>"
proof -
  note I = bulk_invD [OF inv]
  have "tables_ok st" using inv by (simp add: bulk_inv_def)
  then have "queued_somewhere \<lparr>br_state = st\<lparr>bu_queue := rest\<rparr>, br_workers = ws\<rparr> x"
    if "x \<in> set (bu_items st)" "bi_status x = ItemQueued" for x
    using I(6) [OF that] load_item_None [OF none _ that(1)] q by (auto simp: queued_somewhere_def)
  with inv show ?thesis
    by (auto simp: bulk_inv_def tables_ok_def has_job_def open_item_def job_counts_current_def
        count_items_def copy_ok_def looked_up_def)
qed

text \<open>Saving a worker's copy with a new status moves no other item and no other job.\<close>

lemma save_copy:
  assumes "bulk_inv \<lparr>br_state = st, br_workers = ws\<rparr>" and "copy_ok st q i"
    and "bi_id i' = bi_id i" "bi_jobId i' = bi_jobId i" "bi_tenantId i' = bi_tenantId i"
    and st': "bu_items st' = save bi_id i' (bu_items st)" "bu_jobs st' = bu_jobs st"
  shows "tables_ok st'"
    and "set (bu_items st') = insert i' {x \<in> set (bu_items st). bi_id x \<noteq> bi_id i}"
    and "copy_ok st p y \<Longrightarrow> copy_ok st' p y"
    and "k \<noteq> bi_jobId i \<Longrightarrow> count_items k s st' = count_items k s st"
    and "k \<noteq> bi_jobId i \<Longrightarrow> open_item k st' = open_item k st"
proof -
  note I = bulk_invD [OF assms(1)]
  obtain x where x: "x \<in> set (bu_items st)" "bi_id x = bi_id i" "bi_jobId x = bi_jobId i"
    and job: "has_job st i" using assms(2) by (auto simp: copy_ok_def)
  show s: "set (bu_items st') = insert i' {x \<in> set (bu_items st). bi_id x \<noteq> bi_id i}"
    by (simp add: st' set_save [OF I(1)] assms(3))
  have u: "unique_keys bi_id (bu_items st')" by (simp add: st' unique_keys_save [OF I(1)])
  have j: "has_job st' = has_job st" by (simp add: has_job_def fun_eq_iff st')
  show "tables_ok st'"
    using I(2,3) job u s
    by (auto simp: tables_ok_def st' j) (auto simp: has_job_def assms)
  have same: "bi_jobId y = bi_jobId i" if "y \<in> set (bu_items st)" "bi_id y = bi_id i" for y
    using unique_keysD [OF I(1) that(1) x(1)] that(2) x(2,3) by simp
  have "\<exists>z \<in> set (bu_items st'). bi_id z = bi_id y \<and> bi_jobId z = bi_jobId y"
    if "y \<in> set (bu_items st)" for y
    using that same [OF that] assms(3,4) by (cases "bi_id y = bi_id i") (auto simp: s)
  then show "copy_ok st p y \<Longrightarrow> copy_ok st' p y"
    unfolding copy_ok_def j by metis
  have other: "{y \<in> set (bu_items st'). bi_jobId y = k} = {y \<in> set (bu_items st). bi_jobId y = k}"
    if "k \<noteq> bi_jobId i"
    using that same assms(4) by (auto simp: s)
  show "k \<noteq> bi_jobId i \<Longrightarrow> count_items k s st' = count_items k s st"
    by (rule same_items_same_counts(1) [OF I(1) u other])
  show "k \<noteq> bi_jobId i \<Longrightarrow> open_item k st' = open_item k st"
    by (rule same_items_same_counts(2) [OF I(1) u other])
qed

lemma bulk_inv_start_call:
  assumes inv: "bulk_inv \<lparr>br_state = st, br_workers = ws\<rparr>"
    and w: "w < length ws" "ws ! w = Waiting q i"
    and b: "begin_item now i (take_slot (bi_tenantId i) st) = (i', st')"
  shows "bulk_inv \<lparr>br_state = st', br_workers = ws[w := Calling q i']\<rparr>"
proof -
  note I = bulk_invD [OF inv]
  let ?ws = "ws[w := Calling q i']"
  have c: "copy_ok st q i" using I(4) w nth_mem by metis
  have i': "bi_id i' = bi_id i" "bi_jobId i' = bi_jobId i" "bi_tenantId i' = bi_tenantId i"
      "bi_status i' = ItemProcessing"
    and st': "bu_items st' = save bi_id i' (bu_items st)" "bu_jobs st' = bu_jobs st"
      "bu_queue st' = bu_queue st"
    using b by (auto simp: begin_item_def Let_def take_slot_def)
  note S = save_copy [OF inv c i'(1-3) st'(1,2)]
  have keep: "x \<in> set ws \<Longrightarrow> x \<noteq> Waiting q i \<Longrightarrow> x \<in> set ?ws" for x
    using in_set_update_other [of x ws w] w by simp
  have new: "Calling q i' \<in> set ?ws" by (rule in_set_update_same [OF w(1)])
  have "copy_ok st' q' x" if "Waiting q' x \<in> set ?ws \<or> Calling q' x \<in> set ?ws" for q' x
  proof (rule S(3))
    have "copy_ok st q i'" using c i' by (simp add: copy_ok_def has_job_def)
    then show "copy_ok st q' x"
      using that I(4,5) by (auto dest!: in_set_update)
  qed
  moreover have "queued_somewhere \<lparr>br_state = st', br_workers = ?ws\<rparr> x"
    if "x \<in> set (bu_items st')" "bi_status x = ItemQueued" for x
  proof -
    have x: "x \<in> set (bu_items st)" "bi_id x \<noteq> bi_id i"
      using that i'(4) by (auto simp: S(2))
    show ?thesis
      using I(6) [OF x(1) that(2)] x(2) keep st'(3) by (fastforce simp: queued_somewhere_def)
  qed
  moreover have "looked_up \<lparr>br_state = st', br_workers = ?ws\<rparr> x"
    if "x \<in> set (bu_items st')" "bi_status x = ItemProcessing" for x
  proof (cases "x = i'")
    case True
    with new show ?thesis by (auto simp: looked_up_def)
  next
    case False
    then have "x \<in> set (bu_items st)" using that by (auto simp: S(2))
    with I(7) [OF this that(2)] keep show ?thesis by (fastforce simp: looked_up_def)
  qed
  moreover have "open_item (bj_id j) st' \<or> Recomputing (bj_id j) \<in> set ?ws \<or> job_counts_current st' j"
    if "j \<in> set (bu_jobs st')" for j
  proof (cases "bj_id j = bi_jobId i")
    case True
    then show ?thesis using i' by (auto simp: open_item_def S(2))
  next
    case False
    then show ?thesis
      using I(8) [of j] that S(4,5) [OF False] keep st'(2) by (auto simp: job_counts_current_def)
  qed
  ultimately show ?thesis
    using S(1) by (simp add: bulk_inv_def)
qed

lemma finish_item_tables:
  "bu_items (finish_item now out i st) = save bi_id ((lookup_outcome out i)\<lparr>bi_updatedAt := now\<rparr>) (bu_items st)"
  "bu_jobs (finish_item now out i st) = bu_jobs st"
  "bu_queue (finish_item now out i st) = bu_queue st"
  by (simp_all add: finish_item_def release_tenant_slot_def Let_def)

lemma lookup_outcome_frame:
  "bi_id (lookup_outcome out i) = bi_id i" "bi_jobId (lookup_outcome out i) = bi_jobId i"
  "bi_tenantId (lookup_outcome out i) = bi_tenantId i"
  "bi_status (lookup_outcome out i) \<noteq> ItemQueued" "bi_status (lookup_outcome out i) \<noteq> ItemProcessing"
  by (auto simp: lookup_outcome_def split: sum.splits)

lemma bulk_inv_end_call:
  assumes inv: "bulk_inv \<lparr>br_state = st, br_workers = ws\<rparr>"
    and w: "w < length ws" "ws ! w = Calling q i"
  shows "bulk_inv \<lparr>br_state = finish_item now out i st, br_workers = ws[w := Recomputing (qe_jobId q)]\<rparr>"
proof -
  note I = bulk_invD [OF inv]
  let ?ws = "ws[w := Recomputing (qe_jobId q)]" and ?st = "finish_item now out i st"
  have c: "copy_ok st q i" using I(5) w nth_mem by metis
  let ?i = "(lookup_outcome out i)\<lparr>bi_updatedAt := now\<rparr>"
  have fr: "bi_id ?i = bi_id i" "bi_jobId ?i = bi_jobId i" "bi_tenantId ?i = bi_tenantId i"
    by (simp_all add: lookup_outcome_frame)
  note S = save_copy [OF inv c fr finish_item_tables(1,2)]
  have keep: "x \<in> set ws \<Longrightarrow> x \<noteq> Calling q i \<Longrightarrow> x \<in> set ?ws" for x
    using in_set_update_other [of x ws w] w by simp
  have new: "Recomputing (bi_jobId i) \<in> set ?ws"
    using in_set_update_same [OF w(1)] c by (simp add: copy_ok_def)
  have "copy_ok ?st q' x" if "Waiting q' x \<in> set ?ws \<or> Calling q' x \<in> set ?ws" for q' x
    using that I(4,5) by (intro S(3)) (auto dest!: in_set_update)
  moreover have old: "x \<in> set (bu_items st)" "bi_id x \<noteq> bi_id i"
    if "x \<in> set (bu_items ?st)" "bi_status x = ItemQueued \<or> bi_status x = ItemProcessing" for x
    using that lookup_outcome_frame(4,5) [of out i] by (auto simp: S(2))
  then have "queued_somewhere \<lparr>br_state = ?st, br_workers = ?ws\<rparr> x"
    if "x \<in> set (bu_items ?st)" "bi_status x = ItemQueued" for x
    using I(6) [of x] that keep
    by (fastforce simp: queued_somewhere_def finish_item_tables(3))
  moreover have "looked_up \<lparr>br_state = ?st, br_workers = ?ws\<rparr> x"
    if "x \<in> set (bu_items ?st)" "bi_status x = ItemProcessing" for x
    using I(7) [of x] that old [of x] keep by (fastforce simp: looked_up_def)
  moreover have "open_item (bj_id j) ?st \<or> Recomputing (bj_id j) \<in> set ?ws \<or> job_counts_current ?st j"
    if "j \<in> set (bu_jobs ?st)" for j
  proof (cases "bj_id j = bi_jobId i")
    case True
    with new show ?thesis by simp
  next
    case False
    then show ?thesis
      using I(8) [of j] that S(4,5) [OF False] keep
      by (auto simp: job_counts_current_def finish_item_tables(2))
  qed
  ultimately show ?thesis
    using S(1) by (simp add: bulk_inv_def)
qed

lemma recomputed_frame [simp]:
  "bj_id (recomputed now st j) = bj_id j" "bj_tenantId (recomputed now st j) = bj_tenantId j"
  by (simp_all add: recomputed_def Let_def)

lemma recomputed_current:
  "job_counts_current st (recomputed now st j)"
  by (simp add: job_counts_current_def recomputed_def Let_def)

lemma has_job_save:
  assumes "unique_keys bj_id (bu_jobs st)" "j \<in> set (bu_jobs st)"
    and "bj_id j' = bj_id j" "bj_tenantId j' = bj_tenantId j"
    and "bu_jobs st' = save bj_id j' (bu_jobs st)"
  shows "has_job st' = has_job st"
proof
  fix i
  have "x = j" if "x \<in> set (bu_jobs st)" "bj_id x = bj_id j" for x
    using unique_keysD [OF assms(1) that(1) assms(2)] that(2) by simp
  then show "has_job st' i = has_job st i"
    using assms(2-4) by (auto simp: has_job_def assms(5) set_save [OF assms(1)])
qed

lemma recompute_job_frame:
  "bu_items (recompute_job now k st) = bu_items st" "bu_queue (recompute_job now k st) = bu_queue st"
  by (simp_all add: recompute_job_def split: option.splits)

lemma bulk_inv_recompute:
  assumes inv: "bulk_inv \<lparr>br_state = st, br_workers = ws\<rparr>"
    and w: "w < length ws" "ws ! w = Recomputing k"
  shows "bulk_inv \<lparr>br_state = recompute_job now k st, br_workers = ws[w := Idle]\<rparr>"
proof -
  note I = bulk_invD [OF inv]
  let ?ws = "ws[w := Idle]" and ?st = "recompute_job now k st"
  have keep: "x \<in> set ws \<Longrightarrow> x \<noteq> Recomputing k \<Longrightarrow> x \<in> set ?ws" for x
    using in_set_update_other [of x ws w] w by simp
  note items = recompute_job_frame [of now k st]
  have counts: "count_items i s ?st = count_items i s st" "open_item i ?st = open_item i st" for i s
    by (simp_all add: count_items_def open_item_def items)
  have jobs: "has_job ?st = has_job st \<and> unique_keys bj_id (bu_jobs ?st) \<and>
      (\<forall>j \<in> set (bu_jobs ?st). j \<in> set (bu_jobs st) \<and> bj_id j \<noteq> k \<or> job_counts_current ?st j)"
  proof (cases "find_key bj_id k (bu_jobs st)")
    case None
    then have "\<forall>j \<in> set (bu_jobs st). bj_id j \<noteq> k"
      by (simp add: find_key_def find_one_None_iff)
    with None I(2) show ?thesis by (simp add: recompute_job_def)
  next
    case (Some j)
    then have j: "j \<in> set (bu_jobs st)" "bj_id j = k" using find_key_SomeD by metis+
    have bu: "bu_jobs ?st = save bj_id (recomputed now st j) (bu_jobs st)"
      using Some by (simp add: recompute_job_def)
    have "job_counts_current ?st (recomputed now st j)"
      using recomputed_current [of st now j] by (simp add: job_counts_current_def counts)
    then show ?thesis
      using has_job_save [OF I(2) j(1) recomputed_frame bu] j(2)
      by (auto simp: bu unique_keys_save [OF I(2)] set_save [OF I(2)])
  qed
  have "copy_ok ?st q x" if "Waiting q x \<in> set ?ws \<or> Calling q x \<in> set ?ws" for q x
  proof -
    have "copy_ok st q x" using that I(4,5) by (auto dest!: in_set_update)
    then show ?thesis using jobs by (simp add: copy_ok_def items)
  qed
  moreover have "queued_somewhere \<lparr>br_state = ?st, br_workers = ?ws\<rparr> x"
    if "x \<in> set (bu_items st)" "bi_status x = ItemQueued" for x
    using I(6) [OF that] keep by (fastforce simp: queued_somewhere_def items)
  moreover have "looked_up \<lparr>br_state = ?st, br_workers = ?ws\<rparr> x"
    if "x \<in> set (bu_items st)" "bi_status x = ItemProcessing" for x
    using I(7) [OF that] keep by (fastforce simp: looked_up_def)
  moreover have "open_item (bj_id j) st \<or> Recomputing (bj_id j) \<in> set ?ws \<or> job_counts_current ?st j"
    if "j \<in> set (bu_jobs ?st)" for j
    using jobs that I(8) [of j] keep [of "Recomputing (bj_id j)"]
    by (auto simp: job_counts_current_def counts)
  ultimately show ?thesis
    using I(1,3) jobs by (simp add: bulk_inv_def tables_ok_def items counts)
qed
text \<open>\<open>retryFailedItems\<close> opens items of one job and queues them.\<close>

lemma requeued_frame:
  "bi_id (requeued now i) = bi_id i" "bi_jobId (requeued now i) = bi_jobId i"
  "bi_tenantId (requeued now i) = bi_tenantId i" "bi_status (requeued now i) = ItemQueued"
  by (simp_all add: requeued_def)

lemma set_failed_items:
  "set (failed_items t k st) =
    {i \<in> set (bu_items st). bi_tenantId i = t \<and> bi_jobId i = k \<and> bi_status i = ItemFailed}"
  by (simp add: failed_items_def set_find_asc)

lemma failed_items_by_id:
  assumes "unique_keys bi_id (bu_items st)" "x \<in> set (bu_items st)"
    and "bi_id x \<in> bi_id ` set (failed_items t k st)"
  shows "x \<in> set (failed_items t k st)"
proof -
  obtain g where g: "g \<in> set (failed_items t k st)" "bi_id g = bi_id x" using assms(3) by auto
  then have "g = x" using unique_keysD [OF assms(1) _ assms(2)] by (simp add: set_failed_items)
  with g(1) show ?thesis by simp
qed

lemma retry_tables:
  assumes u: "unique_keys bi_id (bu_items st)" "unique_keys bj_id (bu_jobs st)"
    and r: "retry_failed_items now t k st = (Inr n, st')"
  shows "set (bu_items st') = requeued now ` set (failed_items t k st) \<union>
      {x \<in> set (bu_items st). x \<notin> set (failed_items t k st)}"
    and "unique_keys bi_id (bu_items st')" and "unique_keys bj_id (bu_jobs st')"
    and "set (bu_queue st') = set (bu_queue st) \<union>
      (\<lambda>i. \<lparr>qe_jobId = k, qe_itemId = bi_id i\<rparr>) ` set (failed_items t k st)"
    and "has_job st' = has_job st"
    and "\<And>j s. j \<in> set (bu_jobs st') \<Longrightarrow> \<exists>j0 \<in> set (bu_jobs st). bj_id j = bj_id j0 \<and>
      (job_counts_current s j \<longleftrightarrow> job_counts_current s j0)"
proof -
  let ?fs = "failed_items t k st"
  obtain job where gj: "get_job t k st = Inr job"
    using r by (cases "get_job t k st") (auto simp: retry_failed_items_def)
  then have job: "job \<in> set (bu_jobs st)" "bj_id job = k"
    by (auto simp: get_job_def split: option.splits dest: find_one_SomeD)
  have st': "bu_items st' = fold (save bi_id) (map (requeued now) ?fs) (bu_items st)"
      "bu_jobs st' = save bj_id (job\<lparr>bj_status := JobProcessing\<rparr>) (bu_jobs st)"
      "bu_queue st' = bu_queue st @
         map (\<lambda>i. \<lparr>qe_jobId = k, qe_itemId = bi_id i\<rparr>) (map (requeued now) ?fs)"
    using r gj by (auto simp: retry_failed_items_def Let_def)
  have "distinct (map bi_id ?fs)"
    using u(1) by (auto simp: failed_items_def find_asc_def unique_keys_def distinct_map
        intro: inj_on_subset)
  then have "distinct (map bi_id (map (requeued now) ?fs))" by (simp add: o_def requeued_frame)
  note S = set_fold_save [OF u(1) this]
  show "set (bu_items st') = requeued now ` set ?fs \<union> {x \<in> set (bu_items st). x \<notin> set ?fs}"
    using S failed_items_by_id [OF u(1), of _ t k] by (auto simp: st' image_image requeued_frame)
  show "unique_keys bi_id (bu_items st')" using S by (simp add: st')
  show "unique_keys bj_id (bu_jobs st')" by (simp add: st' unique_keys_save [OF u(2)])
  show "set (bu_queue st') = set (bu_queue st) \<union>
      (\<lambda>i. \<lparr>qe_jobId = k, qe_itemId = bi_id i\<rparr>) ` set ?fs"
    by (auto simp: st' requeued_frame)
  show "has_job st' = has_job st"
    by (rule has_job_save [OF u(2) job(1) _ _ st'(2)]) simp_all
  show "\<And>j s. j \<in> set (bu_jobs st') \<Longrightarrow> \<exists>j0 \<in> set (bu_jobs st). bj_id j = bj_id j0 \<and>
      (job_counts_current s j \<longleftrightarrow> job_counts_current s j0)"
    using job by (auto simp: st' set_save [OF u(2)] job_counts_current_def)
qed

lemma bulk_inv_retry:
  assumes inv: "bulk_inv \<lparr>br_state = st, br_workers = ws\<rparr>"
    and r: "retry_failed_items now t k st = (Inr n, st')"
  shows "bulk_inv \<lparr>br_state = st', br_workers = ws\<rparr>"
proof -
  note I = bulk_invD [OF inv]
  note R = retry_tables [OF I(1,2) r]
  note fs = set_failed_items [of t k st]
  have "\<exists>z \<in> set (bu_items st'). bi_id z = bi_id y \<and> bi_jobId z = bi_jobId y"
    if "y \<in> set (bu_items st)" for y
  proof (cases "y \<in> set (failed_items t k st)")
    case True
    then show ?thesis by (intro bexI [of _ "requeued now y"]) (auto simp: R(1) requeued_frame)
  next
    case False
    with that show ?thesis by (auto simp: R(1))
  qed
  then have "copy_ok st' q x" if "copy_ok st q x" for q x
    using that unfolding copy_ok_def R(5) by metis
  moreover have "has_job st x" if "x \<in> set (bu_items st')" for x
    using that I(3) by (auto simp: R(1) fs has_job_def requeued_frame)
  moreover have "queued_somewhere \<lparr>br_state = st', br_workers = ws\<rparr> x"
    if "x \<in> set (bu_items st')" "bi_status x = ItemQueued" for x
  proof (cases "x \<in> requeued now ` set (failed_items t k st)")
    case True
    then show ?thesis by (force simp: queued_somewhere_def R(4) requeued_frame fs)
  next
    case False
    with that I(6) [of x] show ?thesis by (auto simp: queued_somewhere_def R(1,4))
  qed
  moreover have "looked_up \<lparr>br_state = st', br_workers = ws\<rparr> x"
    if "x \<in> set (bu_items st')" "bi_status x = ItemProcessing" for x
    using I(7) [of x] that by (auto simp: looked_up_def requeued_frame R(1))
  moreover have "open_item (bj_id j) st' \<or> Recomputing (bj_id j) \<in> set ws \<or> job_counts_current st' j"
    if j: "j \<in> set (bu_jobs st')" for j
  proof (cases "bj_id j = k \<and> set (failed_items t k st) \<noteq> {}")
    case True
    then obtain g where "g \<in> set (failed_items t k st)"
      by (meson all_not_in_conv)
    with True have "open_item (bj_id j) st'"
      unfolding open_item_def
      by (intro bexI [of _ "requeued now g"]) (auto simp: R(1) requeued_frame fs)
    then show ?thesis ..
  next
    case False
    then have "{x \<in> set (bu_items st'). bi_jobId x = bj_id j} =
        {x \<in> set (bu_items st). bi_jobId x = bj_id j}"
      by (auto simp: R(1) requeued_frame fs)
    note same = same_items_same_counts [OF I(1) R(2) this]
    then have "job_counts_current st' j = job_counts_current st j"
      by (simp add: job_counts_current_def)
    then show ?thesis
      using R(6) [OF j, of st] I(8) same(2) by metis
  qed
  ultimately show ?thesis
    using I(4,5) R(2,3) by (simp add: bulk_inv_def tables_ok_def R(5))
qed

text \<open>\<open>createJob\<close> adds queued items with an entry each.\<close>

lemma set_distinct_first [simp]: "set (distinct_first xs) = set xs"
  by (simp add: distinct_first_def)

lemma distinct_distinct_first [simp]: "distinct (distinct_first xs)"
  by (simp add: distinct_first_def)

lemma set_created_items:
  "i \<in> set (created_items now jobId new_id t ids) \<Longrightarrow>
    bi_id i \<in> range new_id \<and> bi_jobId i = jobId \<and> bi_tenantId i = t \<and> bi_status i = ItemQueued"
  by (auto simp: created_items_def new_item_def)

lemma keys_created_items:
  "inj new_id \<Longrightarrow> unique_keys bi_id (created_items now jobId new_id t ids)"
proof -
  assume "inj new_id"
  have "map bi_id (created_items now jobId new_id t ids) = map (new_id \<circ> fst) (zip [0..<length ids] ids)"
    by (simp add: created_items_def new_item_def split_def)
  also have "\<dots> = map new_id [0..<length ids]"
    by (simp flip: map_map)
  finally have "map bi_id (created_items now jobId new_id t ids) = map new_id [0..<length ids]" .
  with \<open>inj new_id\<close> show ?thesis by (simp add: unique_keys_def distinct_map inj_on_def)
qed

lemma create_job_tables:
  assumes "create_job now jobId new_id t dto st = (job, st')"
  defines "items \<equiv> created_items now jobId new_id t (job_identifiers dto)"
  shows "bu_items st' = bu_items st @ items" and "bu_jobs st' = bu_jobs st @ [job]"
    and "set (bu_queue st') = set (bu_queue st) \<union> (\<lambda>i. \<lparr>qe_jobId = jobId, qe_itemId = bi_id i\<rparr>) ` set items"
    and "bj_id job = jobId" "bj_tenantId job = t"
    and "bj_successCount job = 0" "bj_failedCount job = 0" "bj_rowsProcessed job = 0"
  using assms(1)
  by (auto simp: create_job_def Let_def items_def split: if_splits)
    (simp_all add: created_items_def)

lemma bulk_inv_create:
  assumes inv: "bulk_inv \<lparr>br_state = st, br_workers = ws\<rparr>"
    and fresh: "jobId \<notin> bj_id ` set (bu_jobs st)" "inj new_id"
      "range new_id \<inter> bi_id ` set (bu_items st) = {}"
    and c: "create_job now jobId new_id t dto st = (job, st')"
  shows "bulk_inv \<lparr>br_state = st', br_workers = ws\<rparr>"
proof -
  note I = bulk_invD [OF inv] and C = create_job_tables [OF c]
  let ?items = "created_items now jobId new_id t (job_identifiers dto)"
  note new = set_created_items [of _ now jobId new_id t "job_identifiers dto"]
  have hj: "has_job st x \<Longrightarrow> has_job st' x" for x by (auto simp: has_job_def C(2))
  have u: "unique_keys bi_id (bu_items st')"
    using I(1) keys_created_items [OF fresh(2)] new fresh(3)
    by (fastforce simp: C(1) unique_keys_def)
  have "unique_keys bj_id (bu_jobs st')"
    using I(2) fresh(1) by (simp add: C(2,4) unique_keys_def)
  moreover have "has_job st' x" if "x \<in> set (bu_items st')" for x
    using that I(3) [of x] hj new [of x] by (auto simp: C(1)) (auto simp: has_job_def C(2,4,5))
  moreover have "copy_ok st' q x" if "copy_ok st q x" for q x
    using that hj by (auto simp: copy_ok_def C(1))
  moreover have "queued_somewhere \<lparr>br_state = st', br_workers = ws\<rparr> x"
    if "x \<in> set (bu_items st')" "bi_status x = ItemQueued" for x
  proof (cases "x \<in> set ?items")
    case True
    then show ?thesis using new [OF True] by (force simp: queued_somewhere_def C(3))
  next
    case False
    with that I(6) [of x] show ?thesis by (auto simp: queued_somewhere_def C(1,3))
  qed
  moreover have "looked_up \<lparr>br_state = st', br_workers = ws\<rparr> x"
    if "x \<in> set (bu_items st')" "bi_status x = ItemProcessing" for x
    using that I(7) [of x] new [of x] by (auto simp: looked_up_def C(1))
  moreover have "open_item (bj_id j) st' \<or> Recomputing (bj_id j) \<in> set ws \<or> job_counts_current st' j"
    if j: "j \<in> set (bu_jobs st')" for j
  proof (cases "j = job")
    case True
    have "bi_jobId x \<noteq> jobId" if "x \<in> set (bu_items st)" for x
      using I(3) [OF that] fresh(1) by (force simp: has_job_def)
    with new have "{x \<in> set (bu_items st'). bi_jobId x = jobId \<and> bi_status x = s} =
        {x \<in> set ?items. bi_status x = s}" for s
      using new by (auto simp: C(1))
    then have "count_items jobId s st' = 0 \<or> s = ItemQueued" for s
      using new by (cases s) (auto simp: count_items_def count_where_card [OF u])
    then show ?thesis
      using True C(4,6-8) by (auto simp: job_counts_current_def)
  next
    case False
    with j have j: "j \<in> set (bu_jobs st)" by (simp add: C(2))
    then have "bj_id j \<noteq> jobId" using fresh(1) by auto
    then have "{x \<in> set (bu_items st'). bi_jobId x = bj_id j} =
        {x \<in> set (bu_items st). bi_jobId x = bj_id j}"
      using new by (auto simp: C(1))
    note same_items_same_counts [OF I(1) u this]
    with I(8) [OF j] show ?thesis by (auto simp: job_counts_current_def)
  qed
  ultimately show ?thesis
    using I(4,5) u by (simp add: bulk_inv_def tables_ok_def)
qed

lemma bulk_inv_step:
  assumes "bulk_inv r" and "bulk_step cfg r r'"
  shows "bulk_inv r'"
  using assms(2,1)
proof (cases rule: bulk_step.cases)
  case (retry_request now tenantId jobId st res st' ws)
  show ?thesis
  proof (cases res)
    case (Inl e)
    then have "st' = st"
      using retry_request(3) by (auto simp: retry_failed_items_def Let_def split: sum.splits)
    with assms(1) retry_request(1,2) show ?thesis by simp
  next
    case (Inr n)
    with assms(1) retry_request show ?thesis by (auto intro: bulk_inv_retry)
  qed
qed (use assms(1) in \<open>auto intro: bulk_inv_take bulk_inv_skip bulk_inv_start_call
  bulk_inv_end_call bulk_inv_recompute bulk_inv_create\<close>)

lemma bulk_inv_start: "bulk_inv (bulk_start workers)"
  by (auto simp: bulk_start_def bulk_inv_def tables_ok_def table_simps)

lemma bulk_inv_reachable: "bulk_reachable cfg workers r \<Longrightarrow> bulk_inv r"
  by (induction rule: bulk_reachable.induct) (auto intro: bulk_inv_step bulk_inv_start)

lemma count_by_status:
  "count_items k ItemCompleted st + count_items k ItemFailed st +
    (count_items k ItemQueued st + count_items k ItemProcessing st) =
    int (count_where (\<lambda>i. bi_jobId i = k) (bu_items st))"
proof -
  have "length (filter (\<lambda>i. bi_jobId i = k \<and> bi_status i = ItemCompleted) xs) +
      length (filter (\<lambda>i. bi_jobId i = k \<and> bi_status i = ItemFailed) xs) +
      (length (filter (\<lambda>i. bi_jobId i = k \<and> bi_status i = ItemQueued) xs) +
       length (filter (\<lambda>i. bi_jobId i = k \<and> bi_status i = ItemProcessing) xs)) =
      length (filter (\<lambda>i. bi_jobId i = k) xs)" for xs :: "bulk_item list"
  proof (induction xs)
    case (Cons x xs)
    then show ?case by (cases "bi_status x") auto
  qed simp
  from this [of "bu_items st"] show ?thesis
    unfolding count_items_def count_where_def by linarith
qed

lemma count_items_nonneg: "0 \<le> count_items k s st"
  by (simp add: count_items_def)


text \<open>The counters \<open>recomputeJob\<close> writes cover every item of the job once, and it marks the job
  finished exactly when the items accounted for reach the announced number of rows or none is
  queued or in process; a finished job is partial exactly when an item failed.
\<close>

theorem recompute_job_counters:
  "bj_successCount (recomputed now st j) + bj_failedCount (recomputed now st j) +
     bj_remainingCount (recomputed now st j) =
     int (count_where (\<lambda>i. bi_jobId i = bj_id j) (bu_items st)) \<and>
   (bj_completedAt (recomputed now st j) = Some now \<longleftrightarrow>
     bj_rowsProcessed (recomputed now st j) \<ge> bj_rowsTotal j \<or>
     bj_remainingCount (recomputed now st j) = 0) \<and>
   (bj_status (recomputed now st j) = JobPartial \<longleftrightarrow>
     bj_completedAt (recomputed now st j) = Some now \<and> bj_failedCount (recomputed now st j) > 0) \<and>
   (bj_status (recomputed now st j) = JobCompleted \<longleftrightarrow>
     bj_completedAt (recomputed now st j) = Some now \<and> bj_failedCount (recomputed now st j) = 0)"
proof -
  let ?c = "\<lambda>s. count_items (bj_id j) s st"
  have zero: "?c ItemQueued + ?c ItemProcessing = 0 \<longleftrightarrow> ?c ItemQueued = 0 \<and> ?c ItemProcessing = 0"
    using count_items_nonneg by (simp add: add_nonneg_eq_0_iff)
  have neg: "\<not> 0 < ?c ItemFailed \<longleftrightarrow> ?c ItemFailed = 0"
    using count_items_nonneg [of "bj_id j" ItemFailed st] by linarith
  show ?thesis
    using count_by_status [of "bj_id j" st] neg zero
    by (simp add: recomputed_def Let_def)
qed

text \<open>
  A retry of a job without failed items still marks it as processing, and no item is left
  whose end would finish it again.
\<close>

lemma retry_without_failures:
  assumes "get_job t k st = Inr job" and "failed_items t k st = []"
  shows "retry_failed_items now t k st =
    (Inr 0, st\<lparr>bu_jobs := save bj_id (job\<lparr>bj_status := JobProcessing\<rparr>) (bu_jobs st)\<rparr>)"
  using assms by (simp add: retry_failed_items_def)

section \<open>The spacing of provider calls\<close>

text \<open>The release instants of calls arriving at \<open>nows\<close>.\<close>

fun released_at :: "int \<Rightarrow> int \<Rightarrow> int list \<Rightarrow> int list" where
  "released_at rps nextAllowedAt [] = []"
| "released_at rps nextAllowedAt (now # nows) =
     (let (t, n) = wait_turn rps now nextAllowedAt in t # released_at rps n nows)"

lemma wait_turn_eq: "wait_turn rps now n = (max n now, max n now + min_interval_ms rps)"
  by (simp add: wait_turn_def Let_def)

lemma released_after: "t \<in> set (released_at rps n nows) \<Longrightarrow> n \<le> t"
proof (induction nows arbitrary: n)
  case Nil
  then show ?case by simp
next
  case (Cons now nows)
  have "0 \<le> min_interval_ms rps" by (simp add: min_interval_ms_def)
  with Cons show ?case by (fastforce simp: wait_turn_eq)
qed

text \<open>Calls to the provider are spaced out: whatever the instants at which callers ask for their
  turn, each is released no earlier than it asked and at least the configured interval, and
  never less than 50 ms, after the one before it.
\<close>

theorem provider_calls_spaced:
  "length (released_at rps n nows) = length nows \<and>
   list_all2 (\<le>) nows (released_at rps n nows) \<and>
   sorted_wrt (\<lambda>a b. a + min_interval_ms rps \<le> b) (released_at rps n nows) \<and>
   50 \<le> min_interval_ms rps"
proof (induction nows arbitrary: n)
  case Nil
  then show ?case by (simp add: min_interval_ms_def)
next
  case (Cons now nows)
  from Cons [of "max n now + min_interval_ms rps"] show ?case
    using released_after [of _ rps "max n now + min_interval_ms rps" nows]
    by (auto simp: wait_turn_eq)
qed

section \<open>Witnesses\<close>

text \<open>One job with one identifier, taken by one of two workers, looked up and recomputed.\<close>

definition sample_dto :: create_bulk_job_dto where
  "sample_dto = \<lparr>cb_fileName = ''f.csv'', cb_rowsTotal = None, cb_identifiers = Some [''5560001''] \<rparr>"

definition sample_id :: "nat \<Rightarrow> string" where
  "sample_id k = show_nat k"

definition sample_created :: bulk_state where
  "sample_created = snd (create_job 1 ''j1'' sample_id ''t1'' sample_dto (br_state (bulk_start 2)))"

definition sample_item :: bulk_item where
  "sample_item = new_item 1 (sample_id 0) ''t1'' ''j1'' ''5560001''"

definition sample_entry :: queue_entry where
  "sample_entry = \<lparr>qe_jobId = ''j1'', qe_itemId = sample_id 0\<rparr>"

lemma sample_identifiers: "job_identifiers sample_dto = [''5560001'']"
  by (simp add: job_identifiers_def sample_dto_def trim_def is_space_def code_def distinct_first_def)

lemma sample_created_eq:
  "sample_created = \<lparr>bu_jobs = [\<lparr>bj_id = ''j1'', bj_tenantId = ''t1'', bj_fileName = ''f.csv'',
       bj_rowsTotal = 1, bj_rowsProcessed = 0, bj_successCount = 0, bj_failedCount = 0,
       bj_remainingCount = 1, bj_status = JobProcessing, bj_errorMessage = None,
       bj_completedAt = None, bj_createdAt = 1\<rparr>],
     bu_items = [sample_item], bu_queue = [sample_entry], bu_inFlight = Map.empty\<rparr>"
  by (simp add: sample_created_def create_job_def sample_identifiers Let_def bulk_start_def
      created_items_def sample_item_def sample_entry_def new_item_def)
    (simp add: sample_dto_def)

lemma sample_create_step:
  "bulk_reachable cfg 2 \<lparr>br_state = sample_created, br_workers = [Idle, Idle]\<rparr>"
proof (rule bulk_reachable.step [OF bulk_reachable.initial])
  have "inj sample_id" by (simp add: inj_on_def sample_id_def show_nat_inj)
  then show "bulk_step cfg (bulk_start 2) \<lparr>br_state = sample_created, br_workers = [Idle, Idle]\<rparr>"
    using bulk_step.create_request [of "''j1''" "br_state (bulk_start 2)" sample_id 1 "''t1''" sample_dto
        "fst (create_job 1 ''j1'' sample_id ''t1'' sample_dto (br_state (bulk_start 2)))"
        sample_created cfg "[Idle, Idle]"]
    by (simp add: bulk_start_def sample_created_def numeral_2_eq_2)
qed

lemma sample_take_step:
  "bulk_reachable cfg 2 \<lparr>br_state = sample_created\<lparr>bu_queue := []\<rparr>,
     br_workers = [Waiting sample_entry sample_item, Idle]\<rparr>"
proof (rule bulk_reachable.step [OF sample_create_step])
  have "load_item sample_entry sample_created = Some sample_item"
    by (simp add: load_item_def sample_created_eq sample_entry_def sample_item_def new_item_def
        find_one_def)
  then show "bulk_step cfg \<lparr>br_state = sample_created, br_workers = [Idle, Idle]\<rparr>
      \<lparr>br_state = sample_created\<lparr>bu_queue := []\<rparr>, br_workers = [Waiting sample_entry sample_item, Idle]\<rparr>"
    using bulk_step.take_entry [of sample_created sample_entry "[]" 0 "[Idle, Idle]" sample_item cfg]
    by (simp add: sample_created_eq)
qed

definition sample_called :: "bulk_item \<times> bulk_state" where
  "sample_called = begin_item 2 sample_item (take_slot ''t1'' (sample_created\<lparr>bu_queue := []\<rparr>))"

lemma sample_call_step:
  "bulk_reachable (make_config 3 2) 2 \<lparr>br_state = snd sample_called,
     br_workers = [Calling sample_entry (fst sample_called), Idle]\<rparr>"
proof (rule bulk_reachable.step [OF sample_take_step])
  have "bi_tenantId sample_item = ''t1''" by (simp add: sample_item_def new_item_def)
  then show "bulk_step (make_config 3 2)
      \<lparr>br_state = sample_created\<lparr>bu_queue := []\<rparr>, br_workers = [Waiting sample_entry sample_item, Idle]\<rparr>
      \<lparr>br_state = snd sample_called, br_workers = [Calling sample_entry (fst sample_called), Idle]\<rparr>"
    using bulk_step.start_call [of 0 "[Waiting sample_entry sample_item, Idle]" sample_entry sample_item
        "make_config 3 2" "sample_created\<lparr>bu_queue := []\<rparr>" 2 "fst sample_called" "snd sample_called"]
    by (simp add: sample_called_def slot_free_def slots_used_def sample_created_eq make_config_def)
qed

theorem tenant_concurrency_respected_witness:
  "int (calls_in_flight ''t1'' \<lparr>br_state = snd sample_called,
     br_workers = [Calling sample_entry (fst sample_called), Idle]\<rparr>) \<le> max 1 2 \<and>
   slots_used ''t1'' (snd sample_called) = 1"
proof -
  have "calls_in_flight ''t1'' \<lparr>br_state = snd sample_called,
      br_workers = [Calling sample_entry (fst sample_called), Idle]\<rparr> = 1"
    by (simp add: calls_in_flight_def count_where_def sample_called_def begin_item_def Let_def
        sample_item_def new_item_def)
  then show ?thesis
    using tenant_concurrency_respected [OF sample_call_step, of "''t1''"] by simp
qed


end
