(* ===== verification/JsonCompare.thy ===== *)
theory JsonCompare
  imports Prelude
begin

text \<open>
  JavaScript's comparison operators on JSON values and \<open>undefined\<close> (\<open>None\<close>), as the rule
  engines of the backend apply them to values they do not check: \<open>===\<close>, \<open>includes\<close> and the
  relational operators with their conversions. How a number is printed and how a string is
  read as a number (\<open>None\<close> is \<open>NaN\<close>) are the two functions of a parameter record; numerals
  of infinite value are left out.
\<close>

record js_numbers =
  number_text :: "rat \<Rightarrow> string"
  number_value :: "string \<Rightarrow> rat option"

text \<open>\<open>String(v)\<close>; \<open>null\<close> inside an array prints nothing.\<close>

fun js_string :: "js_numbers \<Rightarrow> rat json \<Rightarrow> string" where
  "js_string js JNull = ''null''"
| "js_string js (JBool b) = (if b then ''true'' else ''false'')"
| "js_string js (JNum n) = number_text js n"
| "js_string js (JStr s) = s"
| "js_string js (JArr xs) = join '','' (map (\<lambda>x. if x = JNull then [] else js_string js x) xs)"
| "js_string js (JObj ms) = ''[object Object]''"

text \<open>The key of a property access \<open>o[v]\<close>.\<close>

definition js_key :: "js_numbers \<Rightarrow> rat json option \<Rightarrow> string" where
  "js_key js v = (case v of None \<Rightarrow> ''undefined'' | Some x \<Rightarrow> js_string js x)"

text \<open>\<open>Number(v)\<close>.\<close>

fun js_number :: "js_numbers \<Rightarrow> rat json option \<Rightarrow> rat option" where
  "js_number js None = None"
| "js_number js (Some JNull) = Some 0"
| "js_number js (Some (JBool b)) = Some (if b then 1 else 0)"
| "js_number js (Some (JNum n)) = Some n"
| "js_number js (Some v) = number_value js (js_string js v)"

text \<open>Values whose primitive is a string.\<close>

fun js_stringy :: "rat json option \<Rightarrow> bool" where
  "js_stringy (Some (JStr s)) = True"
| "js_stringy (Some (JArr xs)) = True"
| "js_stringy (Some (JObj ms)) = True"
| "js_stringy v = False"

text \<open>\<open>a < b\<close>; \<open>None\<close> when an operand is \<open>NaN\<close>, so that the comparison fails either way.\<close>

definition js_less :: "js_numbers \<Rightarrow> rat json option \<Rightarrow> rat json option \<Rightarrow> bool option" where
  "js_less js a b =
     (if js_stringy a \<and> js_stringy b
      then Some (js_key js a < js_key js b)
      else (case (js_number js a, js_number js b) of
              (Some x, Some y) \<Rightarrow> Some (x < y)
            | _ \<Rightarrow> None))"

definition js_gt :: "js_numbers \<Rightarrow> rat json option \<Rightarrow> rat json option \<Rightarrow> bool" where
  "js_gt js a b \<longleftrightarrow> js_less js b a = Some True"

definition js_lt :: "js_numbers \<Rightarrow> rat json option \<Rightarrow> rat json option \<Rightarrow> bool" where
  "js_lt js a b \<longleftrightarrow> js_less js a b = Some True"

definition js_ge :: "js_numbers \<Rightarrow> rat json option \<Rightarrow> rat json option \<Rightarrow> bool" where
  "js_ge js a b \<longleftrightarrow> js_less js a b = Some False"

definition js_le :: "js_numbers \<Rightarrow> rat json option \<Rightarrow> rat json option \<Rightarrow> bool" where
  "js_le js a b \<longleftrightarrow> js_less js b a = Some False"

text \<open>
  \<open>a === b\<close> on values of two different documents: two arrays or objects are never the same
  reference.
\<close>

fun js_same :: "rat json option \<Rightarrow> rat json option \<Rightarrow> bool" where
  "js_same None None = True"
| "js_same (Some JNull) (Some JNull) = True"
| "js_same (Some (JBool a)) (Some (JBool b)) = (a = b)"
| "js_same (Some (JNum a)) (Some (JNum b)) = (a = b)"
| "js_same (Some (JStr a)) (Some (JStr b)) = (a = b)"
| "js_same a b = False"

definition js_includes :: "rat json list \<Rightarrow> rat json option \<Rightarrow> bool" where
  "js_includes xs v \<longleftrightarrow> list_ex (\<lambda>x. js_same (Some x) v) xs"

text \<open>An optional field of a DTO; an absent one leaves no member in its JSON form.\<close>

definition opt_member :: "string \<Rightarrow> 'n json option \<Rightarrow> 'n members" where
  "opt_member k v = (case v of None \<Rightarrow> [] | Some x \<Rightarrow> [(k, x)])"

section \<open>Laws\<close>

lemma js_same_sym: "js_same a b = js_same b a"
  by (cases "(a, b)" rule: js_same.cases) auto

lemma js_same_eq: "js_same a b \<Longrightarrow> a = b"
  by (cases "(a, b)" rule: js_same.cases) auto

lemma js_same_trans: "js_same a b \<Longrightarrow> js_same b c \<Longrightarrow> js_same a c"
  using js_same_eq by blast

text \<open>On numbers the operators are those of the numbers.\<close>

lemma js_compare_numbers [simp]:
  "js_gt js (Some (JNum a)) (Some (JNum b)) \<longleftrightarrow> b < a"
  "js_lt js (Some (JNum a)) (Some (JNum b)) \<longleftrightarrow> a < b"
  "js_ge js (Some (JNum a)) (Some (JNum b)) \<longleftrightarrow> b \<le> a"
  "js_le js (Some (JNum a)) (Some (JNum b)) \<longleftrightarrow> a \<le> b"
  by (auto simp: js_gt_def js_lt_def js_ge_def js_le_def js_less_def)

text \<open>A missing value fails every relational comparison; \<open>null\<close> counts as zero.\<close>

lemma js_compare_undefined [simp]:
  "\<not> js_gt js None b" "\<not> js_lt js None b" "\<not> js_ge js None b" "\<not> js_le js None b"
  by (cases "js_number js b"; simp add: js_gt_def js_lt_def js_ge_def js_le_def js_less_def)+

lemma js_compare_null [simp]:
  "js_gt js (Some JNull) (Some (JNum b)) \<longleftrightarrow> b < 0"
  "js_lt js (Some JNull) (Some (JNum b)) \<longleftrightarrow> 0 < b"
  by (auto simp: js_gt_def js_lt_def js_less_def)

lemma js_less_asym: "js_less js a b = Some True \<Longrightarrow> js_less js b a = Some False"
  by (auto simp: js_less_def split: if_splits option.splits)

lemma js_gt_not_le: "js_gt js a b \<Longrightarrow> \<not> js_le js a b \<and> js_ge js a b"
  using js_less_asym [of js b a] by (auto simp: js_gt_def js_le_def js_ge_def)

end
