(* ===== verification/CreditDecision.thy ===== *)
theory CreditDecision
  imports JsonCompare AuditTrail "HOL-Library.Multiset"
begin

text \<open>
  \<open>CreditDecisioningService\<close> (backend/src/credit-decisioning/credit-decisioning.service.ts):
  templates of rules, the decision a template takes on a document of input data, and the
  stored results. Rules have the fields of the interface \<open>DecisionRule\<close>; input data and
  thresholds are any JSON. Scores are summed exactly.
\<close>

section \<open>Data\<close>

record decision_rule =
  dr_field :: string
  dr_operator :: string
  dr_threshold :: "rat json option"
  dr_action :: string
  dr_weight :: "rat option"
  dr_reason :: "string option"

record credit_template =
  ct_id :: string
  ct_tenantId :: string
  ct_name :: string
  ct_description :: "string option"
  ct_isActive :: bool
  ct_targetEntityType :: string
  ct_rules :: "decision_rule list"
  ct_approveConditions :: "rat members"
  ct_rejectConditions :: "rat members"
  ct_manualReviewConditions :: "rat members"
  ct_metadata :: "rat members"
  ct_createdByUserId :: "string option"
  ct_createdAt :: int

datatype credit_outcome = Approve | Reject | ManualReview

record rule_result =
  rr_field :: string
  rr_operator :: string
  rr_threshold :: "rat json option"
  rr_action :: string
  rr_weight :: rat
  rr_passed :: bool
  rr_reason :: "string option"

record credit_reason =
  cr_rule :: string
  cr_outcome :: string
  cr_reason :: "string option"

record credit_result =
  ce_id :: string
  ce_tenantId :: string
  ce_templateId :: "string option"
  ce_templateName :: "string option"
  ce_organisationNumber :: "string option"
  ce_personnummer :: "string option"
  ce_entityType :: string
  ce_decision :: credit_outcome
  ce_score :: rat
  ce_reasons :: "credit_reason list"
  ce_ruleResults :: "rule_result list"
  ce_inputData :: "rat members"
  ce_requestedByUserId :: "string option"
  ce_decidedAt :: int

record create_template_dto =
  td_name :: string
  td_description :: "string option"
  td_isActive :: "bool option"
  td_targetEntityType :: "string option"
  td_rules :: "decision_rule list option"
  td_approveConditions :: "rat members option"
  td_rejectConditions :: "rat members option"
  td_manualReviewConditions :: "rat members option"
  td_metadata :: "rat members option"

record run_decision_dto =
  rd_templateId :: "string option"
  rd_organisationNumber :: "string option"
  rd_personnummer :: "string option"
  rd_entityType :: "string option"
  rd_inputData :: "rat members option"

record credit_store =
  cs_templates :: "credit_template list"
  cs_results :: "credit_result list"
  cs_audit :: audit_store

section \<open>Rules\<close>

definition evaluate_rule :: "js_numbers \<Rightarrow> rat members \<Rightarrow> decision_rule \<Rightarrow> bool" where
  "evaluate_rule js inputData r =
     (let v = map_of inputData (dr_field r);
          t = dr_threshold r;
          op = dr_operator r
      in if op = ''gt'' then js_gt js v t
         else if op = ''lt'' then js_lt js v t
         else if op = ''gte'' then js_ge js v t
         else if op = ''lte'' then js_le js v t
         else if op = ''eq'' then js_same v t
         else if op = ''neq'' then \<not> js_same v t
         else if op = ''in'' then (case t of Some (JArr xs) \<Rightarrow> js_includes xs v | _ \<Rightarrow> False)
         else if op = ''not_in'' then (case t of Some (JArr xs) \<Rightarrow> \<not> js_includes xs v | _ \<Rightarrow> False)
         else False)"

record rule_flags =
  rf_score :: rat
  rf_reject :: bool
  rf_approve :: bool
  rf_manualReview :: bool

text \<open>The body of the loop over the rules, without the list of results.\<close>

definition apply_rule :: "js_numbers \<Rightarrow> rat members \<Rightarrow> decision_rule \<Rightarrow> rule_flags \<Rightarrow> rule_flags" where
  "apply_rule js inputData r f =
     (if \<not> evaluate_rule js inputData r then f
      else if dr_action r = ''reject'' then f\<lparr>rf_reject := True\<rparr>
      else if dr_action r = ''approve'' then f\<lparr>rf_approve := True\<rparr>
      else if dr_action r = ''manual_review'' then f\<lparr>rf_manualReview := True\<rparr>
      else if dr_action r = ''score'' then f\<lparr>rf_score := rf_score f + or_default (dr_weight r) 0\<rparr>
      else f)"

definition rule_result_of :: "js_numbers \<Rightarrow> rat members \<Rightarrow> decision_rule \<Rightarrow> rule_result" where
  "rule_result_of js inputData r =
     \<lparr>rr_field = dr_field r, rr_operator = dr_operator r, rr_threshold = dr_threshold r,
      rr_action = dr_action r, rr_weight = or_default (dr_weight r) 0,
      rr_passed = evaluate_rule js inputData r, rr_reason = dr_reason r\<rparr>"

definition run_rules :: "js_numbers \<Rightarrow> rat members \<Rightarrow> decision_rule list \<Rightarrow> rule_flags" where
  "run_rules js inputData rules =
     fold (apply_rule js inputData) rules
       \<lparr>rf_score = 0, rf_reject = False, rf_approve = False, rf_manualReview = False\<rparr>"

text \<open>\<open>approveConditions.minScore ?? 0\<close> and the decision from the flags.\<close>

definition min_score :: "rat members \<Rightarrow> rat json option" where
  "min_score approveConditions = nullish_or (map_of approveConditions ''minScore'') (Some (JNum 0))"

definition outcome_of :: "js_numbers \<Rightarrow> rat members \<Rightarrow> rule_flags \<Rightarrow> credit_outcome" where
  "outcome_of js approveConditions f =
     (if rf_reject f then Reject
      else if rf_manualReview f then ManualReview
      else if rf_approve f then Approve
      else if js_ge js (Some (JNum (rf_score f))) (min_score approveConditions) then Approve
      else ManualReview)"

definition reasons_of :: "rule_result list \<Rightarrow> credit_reason list" where
  "reasons_of rs =
     map (\<lambda>r. \<lparr>cr_rule = rr_field r, cr_outcome = rr_action r, cr_reason = rr_reason r\<rparr>)
       (filter rr_passed rs)"

section \<open>Operations\<close>

definition rule_json :: "decision_rule \<Rightarrow> rat json" where
  "rule_json r = JObj
     ([(''field'', JStr (dr_field r)), (''operator'', JStr (dr_operator r))] @
      opt_member ''threshold'' (dr_threshold r) @ [(''action'', JStr (dr_action r))] @
      opt_member ''weight'' (map_option JNum (dr_weight r)) @
      opt_member ''reason'' (map_option JStr (dr_reason r)))"

definition template_dto_json :: "create_template_dto \<Rightarrow> rat members" where
  "template_dto_json dto =
     [(''name'', JStr (td_name dto))] @
     opt_member ''description'' (map_option JStr (td_description dto)) @
     opt_member ''isActive'' (map_option JBool (td_isActive dto)) @
     opt_member ''targetEntityType'' (map_option JStr (td_targetEntityType dto)) @
     opt_member ''rules'' (map_option (\<lambda>rs. JArr (map rule_json rs)) (td_rules dto)) @
     opt_member ''approveConditions'' (map_option JObj (td_approveConditions dto)) @
     opt_member ''rejectConditions'' (map_option JObj (td_rejectConditions dto)) @
     opt_member ''manualReviewConditions'' (map_option JObj (td_manualReviewConditions dto)) @
     opt_member ''metadata'' (map_option JObj (td_metadata dto))"

definition create_template ::
  "int \<Rightarrow> string \<Rightarrow> string \<Rightarrow> string option \<Rightarrow> create_template_dto \<Rightarrow> credit_store \<Rightarrow>
   credit_template \<times> credit_store" where
  "create_template now newId tenantId actorId dto st =
     (let t = \<lparr>ct_id = newId, ct_tenantId = tenantId, ct_name = td_name dto,
            ct_description = td_description dto, ct_isActive = or_default (td_isActive dto) True,
            ct_targetEntityType = or_default (td_targetEntityType dto) ''company'',
            ct_rules = or_default (td_rules dto) [],
            ct_approveConditions = or_default (td_approveConditions dto) [],
            ct_rejectConditions = or_default (td_rejectConditions dto) [],
            ct_manualReviewConditions = or_default (td_manualReviewConditions dto) [],
            ct_metadata = or_default (td_metadata dto) [],
            ct_createdByUserId = actorId, ct_createdAt = now\<rparr>
      in (t, st\<lparr>cs_templates := cs_templates st @ [t],
            cs_audit := audit_log \<lparr>al_tenantId = tenantId, al_actorId = actorId,
              al_action = ''credit_decision.template.created'',
              al_resourceType = ''credit_decision_template'', al_resourceId = newId,
              al_metadata = Some (template_dto_json dto)\<rparr> (cs_audit st)\<rparr>))"

definition list_templates :: "string \<Rightarrow> credit_store \<Rightarrow> credit_template list" where
  "list_templates tenantId st =
     find_desc (\<lambda>t. ct_tenantId t = tenantId \<and> ct_isActive t) ct_createdAt (cs_templates st)"

definition get_template :: "string \<Rightarrow> string \<Rightarrow> credit_store \<Rightarrow> credit_template result" where
  "get_template tenantId templateId st =
     (case find_one (\<lambda>t. ct_id t = templateId \<and> ct_tenantId t = tenantId) (cs_templates st) of
        None \<Rightarrow> Inl (NotFound ''Template not found'')
      | Some t \<Rightarrow> Inr t)"

text \<open>The template a request names, if it names one.\<close>

definition requested_template ::
  "string \<Rightarrow> run_decision_dto \<Rightarrow> credit_store \<Rightarrow> credit_template option result" where
  "requested_template tenantId dto st =
     (if truthy_str (rd_templateId dto)
      then (case get_template tenantId (or_default (rd_templateId dto) []) st of
              Inl e \<Rightarrow> Inl e
            | Inr t \<Rightarrow> Inr (Some t))
      else Inr None)"

definition outcome_text :: "credit_outcome \<Rightarrow> string" where
  "outcome_text d = (case d of Approve \<Rightarrow> ''approve'' | Reject \<Rightarrow> ''reject''
     | ManualReview \<Rightarrow> ''manual_review'')"

definition decision_result ::
  "js_numbers \<Rightarrow> int \<Rightarrow> string \<Rightarrow> string \<Rightarrow> string option \<Rightarrow> run_decision_dto \<Rightarrow>
   credit_template option \<Rightarrow> credit_result" where
  "decision_result js now newId tenantId actorId dto template =
     (let rules = or_default (map_option ct_rules template) [];
          inputData = or_default (rd_inputData dto) [];
          flags = run_rules js inputData rules;
          ruleResults = map (rule_result_of js inputData) rules
      in \<lparr>ce_id = newId, ce_tenantId = tenantId,
          ce_templateId = map_option ct_id template, ce_templateName = map_option ct_name template,
          ce_organisationNumber = rd_organisationNumber dto, ce_personnummer = rd_personnummer dto,
          ce_entityType = or_default (rd_entityType dto) ''company'',
          ce_decision = outcome_of js (or_default (map_option ct_approveConditions template) []) flags,
          ce_score = rf_score flags, ce_reasons = reasons_of ruleResults,
          ce_ruleResults = ruleResults, ce_inputData = inputData,
          ce_requestedByUserId = actorId, ce_decidedAt = now\<rparr>)"

definition run_decision ::
  "js_numbers \<Rightarrow> int \<Rightarrow> string \<Rightarrow> string \<Rightarrow> string option \<Rightarrow> run_decision_dto \<Rightarrow> credit_store \<Rightarrow>
   credit_result result \<times> credit_store" where
  "run_decision js now newId tenantId actorId dto st =
     (case requested_template tenantId dto st of
        Inl e \<Rightarrow> (Inl e, st)
      | Inr template \<Rightarrow>
          (let r = decision_result js now newId tenantId actorId dto template
           in (Inr r, st\<lparr>cs_results := cs_results st @ [r],
                 cs_audit := audit_log \<lparr>al_tenantId = tenantId, al_actorId = actorId,
                   al_action = ''credit_decision.result.created'',
                   al_resourceType = ''credit_decision_result'', al_resourceId = newId,
                   al_metadata = Some ([(''decision'', JStr (outcome_text (ce_decision r))),
                     (''score'', JNum (ce_score r))] @
                     opt_member ''organisationNumber'' (map_option JStr (rd_organisationNumber dto)))\<rparr>
                   (cs_audit st)\<rparr>)))"

definition list_decision_results :: "string \<Rightarrow> string option \<Rightarrow> credit_store \<Rightarrow> credit_result list" where
  "list_decision_results tenantId organisationNumber st =
     find_desc (\<lambda>r. ce_tenantId r = tenantId \<and>
       (truthy_str organisationNumber \<longrightarrow> ce_organisationNumber r = organisationNumber))
       ce_decidedAt (cs_results st)"

section \<open>The decision\<close>

definition passed_with :: "js_numbers \<Rightarrow> rat members \<Rightarrow> decision_rule list \<Rightarrow> string \<Rightarrow> bool" where
  "passed_with js d rules a \<longleftrightarrow> (\<exists>r \<in> set rules. evaluate_rule js d r \<and> dr_action r = a)"

definition passed_score :: "js_numbers \<Rightarrow> rat members \<Rightarrow> decision_rule list \<Rightarrow> rat" where
  "passed_score js d rules =
     sum_list (map (\<lambda>r. or_default (dr_weight r) 0)
       (filter (\<lambda>r. evaluate_rule js d r \<and> dr_action r = ''score'') rules))"

lemma apply_rule_flags:
  "rf_score (apply_rule js d r f) =
     rf_score f + (if evaluate_rule js d r \<and> dr_action r = ''score'' then or_default (dr_weight r) 0 else 0)"
  "rf_reject (apply_rule js d r f) \<longleftrightarrow> rf_reject f \<or> evaluate_rule js d r \<and> dr_action r = ''reject''"
  "rf_approve (apply_rule js d r f) \<longleftrightarrow> rf_approve f \<or> evaluate_rule js d r \<and> dr_action r = ''approve''"
  "rf_manualReview (apply_rule js d r f) \<longleftrightarrow>
     rf_manualReview f \<or> evaluate_rule js d r \<and> dr_action r = ''manual_review''"
  by (simp_all add: apply_rule_def)

lemma passed_Cons:
  "passed_score js d (r # rules) =
     (if evaluate_rule js d r \<and> dr_action r = ''score'' then or_default (dr_weight r) 0 else 0)
       + passed_score js d rules"
  "passed_with js d (r # rules) a \<longleftrightarrow> evaluate_rule js d r \<and> dr_action r = a \<or> passed_with js d rules a"
  by (simp_all add: passed_score_def passed_with_def)

lemma fold_apply_rule:
  "rf_score (fold (apply_rule js d) rules f) = rf_score f + passed_score js d rules"
  "rf_reject (fold (apply_rule js d) rules f) \<longleftrightarrow> rf_reject f \<or> passed_with js d rules ''reject''"
  "rf_approve (fold (apply_rule js d) rules f) \<longleftrightarrow> rf_approve f \<or> passed_with js d rules ''approve''"
  "rf_manualReview (fold (apply_rule js d) rules f) \<longleftrightarrow>
     rf_manualReview f \<or> passed_with js d rules ''manual_review''"
  by (induction rules arbitrary: f)
    (simp_all add: apply_rule_flags passed_Cons add.assoc disj_assoc,
     simp_all add: passed_score_def passed_with_def)

lemma run_rules_flags:
  "rf_score (run_rules js d rules) = passed_score js d rules"
  "rf_reject (run_rules js d rules) = passed_with js d rules ''reject''"
  "rf_approve (run_rules js d rules) = passed_with js d rules ''approve''"
  "rf_manualReview (run_rules js d rules) = passed_with js d rules ''manual_review''"
  using fold_apply_rule [of js d rules]
  by (simp_all add: run_rules_def)

lemma passed_with_mset: "mset rules' = mset rules \<Longrightarrow> passed_with js d rules' a = passed_with js d rules a"
  unfolding passed_with_def by (metis set_mset_mset)

lemma passed_score_mset:
  assumes "mset rules' = mset rules"
  shows "passed_score js d rules' = passed_score js d rules"
proof -
  let ?p = "\<lambda>r. evaluate_rule js d r \<and> dr_action r = ''score''" and ?w = "\<lambda>r. or_default (dr_weight r) 0"
  have "mset (map ?w (filter ?p rules')) = mset (map ?w (filter ?p rules))"
    by (simp add: assms)
  then have "sum_mset (mset (map ?w (filter ?p rules'))) = sum_mset (mset (map ?w (filter ?p rules)))"
    by (rule arg_cong)
  then show ?thesis
    unfolding passed_score_def by (simp only: sum_mset_sum_list)
qed

text \<open>The decision of a template on a document: rejected exactly when a passed rule rejects;
  otherwise a passed rule asking for manual review decides, then a passed approval, and when
  no passed rule decides, the sum of the weights of the passed score rules is compared with
  the minimum score. The stored score is that sum.
\<close>

theorem decision_from_passed_rules:
  "let d = or_default (rd_inputData dto) []; rules = ct_rules t;
       r = decision_result js now newId tenantId actorId dto (Some t)
   in ce_score r = passed_score js d rules \<and>
      (ce_decision r = Reject \<longleftrightarrow> passed_with js d rules ''reject'') \<and>
      (ce_decision r = Approve \<longleftrightarrow>
         \<not> passed_with js d rules ''reject'' \<and> \<not> passed_with js d rules ''manual_review'' \<and>
         (passed_with js d rules ''approve'' \<or>
          js_ge js (Some (JNum (passed_score js d rules))) (min_score (ct_approveConditions t)))) \<and>
      (ce_decision r = ManualReview \<longleftrightarrow>
         \<not> passed_with js d rules ''reject'' \<and>
         (passed_with js d rules ''manual_review'' \<or>
          \<not> passed_with js d rules ''approve'' \<and>
          \<not> js_ge js (Some (JNum (passed_score js d rules))) (min_score (ct_approveConditions t))))"
  by (simp add: Let_def decision_result_def outcome_of_def run_rules_flags)


definition sample_js :: js_numbers where
  "sample_js = \<lparr>number_text = (\<lambda>n. show_int \<lfloor>n\<rfloor>), number_value = (\<lambda>s. None)\<rparr>"

definition sample_template :: credit_template where
  "sample_template = \<lparr>ct_id = ''c1'', ct_tenantId = ''t1'', ct_name = ''standard'', ct_description = None,
     ct_isActive = True, ct_targetEntityType = ''company'',
     ct_rules = [\<lparr>dr_field = ''revenue'', dr_operator = ''gt'', dr_threshold = Some (JNum 100),
         dr_action = ''score'', dr_weight = Some 5, dr_reason = None\<rparr>,
       \<lparr>dr_field = ''status'', dr_operator = ''eq'', dr_threshold = Some (JStr ''BANKRUPT''),
         dr_action = ''reject'', dr_weight = None, dr_reason = Some ''bankrupt''\<rparr>],
     ct_approveConditions = [], ct_rejectConditions = [], ct_manualReviewConditions = [],
     ct_metadata = [], ct_createdByUserId = None, ct_createdAt = 0\<rparr>"

definition sample_request :: run_decision_dto where
  "sample_request = \<lparr>rd_templateId = Some ''c1'', rd_organisationNumber = Some ''5560001'',
     rd_personnummer = None, rd_entityType = None,
     rd_inputData = Some [(''revenue'', JNum 250), (''status'', JStr ''BANKRUPT'')]\<rparr>"


section \<open>Stored results\<close>

lemma requested_template_tenant:
  "requested_template tenantId dto st = Inr (Some t) \<Longrightarrow>
    t \<in> set (cs_templates st) \<and> ct_tenantId t = tenantId \<and> rd_templateId dto = Some (ct_id t)"
  by (auto simp: requested_template_def get_template_def truthy_str_def or_default_def
      split: if_splits option.splits sum.splits dest: find_one_SomeD)

lemma find_desc_append_other: "\<not> p r \<Longrightarrow> find_desc p key (rs @ [r]) = find_desc p key rs"
  by (simp add: find_desc_def)

text \<open>A tenant decides with its own templates only: a request that names a template of another
  tenant is refused and stores nothing. Any other request stores exactly one result, under its
  tenant, which that tenant's listing shows, while the listing of every other tenant is
  unchanged; with the database up it is audited with its decision.
\<close>

theorem run_decision_stores_one_result:
  assumes "run_decision js now newId tenantId actorId dto st = (res, st')"
  shows "(truthy_str (rd_templateId dto) \<and>
      (\<forall>t \<in> set (cs_templates st). ct_id t = the (rd_templateId dto) \<longrightarrow> ct_tenantId t \<noteq> tenantId) \<longrightarrow>
      res = Inl (NotFound ''Template not found'')) \<and>
    (case res of
       Inl e \<Rightarrow> st' = st
     | Inr r \<Rightarrow> ce_tenantId r = tenantId \<and> cs_results st' = cs_results st @ [r] \<and>
         cs_templates st' = cs_templates st \<and>
         r \<in> set (list_decision_results tenantId None st') \<and>
         (\<forall>u n. u \<noteq> tenantId \<longrightarrow> list_decision_results u n st' = list_decision_results u n st) \<and>
         (au_up (cs_audit st) \<longrightarrow> (\<exists>a. au_logs (cs_audit st') = au_logs (cs_audit st) @ [a] \<and>
            map_of (ar_metadata a) ''decision'' = Some (JStr (outcome_text (ce_decision r))))))"
proof (cases "requested_template tenantId dto st")
  case (Inl e)
  then have "e = NotFound ''Template not found''"
    by (auto simp: requested_template_def get_template_def split: if_splits option.splits sum.splits)
  with Inl assms have "res = Inl (NotFound ''Template not found'') \<and> st' = st"
    by (simp add: run_decision_def)
  then show ?thesis by simp
next
  case (Inr template)
  let ?r = "decision_result js now newId tenantId actorId dto template"
  have r: "res = Inr ?r" "cs_results st' = cs_results st @ [?r]" "cs_templates st' = cs_templates st"
    using assms Inr by (auto simp: run_decision_def Let_def)
  have t: "ce_tenantId ?r = tenantId" by (simp add: decision_result_def Let_def)
  have "list_decision_results u n st' = list_decision_results u n st" if "u \<noteq> tenantId" for u n
    using that t by (simp add: list_decision_results_def r find_desc_append_other)
  moreover have "?r \<in> set (list_decision_results tenantId None st')"
    using t by (simp add: list_decision_results_def set_find_desc r)
  moreover have "au_up (cs_audit st) \<longrightarrow> (\<exists>a. au_logs (cs_audit st') = au_logs (cs_audit st) @ [a] \<and>
      map_of (ar_metadata a) ''decision'' = Some (JStr (outcome_text (ce_decision ?r))))"
    using assms Inr
    by (auto simp: run_decision_def Let_def au_logs_audit_log log_row_def split: option.splits)
  moreover have "\<not> (truthy_str (rd_templateId dto) \<and>
      (\<forall>t \<in> set (cs_templates st). ct_id t = the (rd_templateId dto) \<longrightarrow> ct_tenantId t \<noteq> tenantId))"
  proof (cases template)
    case None
    with Inr show ?thesis by (auto simp: requested_template_def split: if_splits sum.splits)
  next
    case (Some t)
    with requested_template_tenant [of tenantId dto st t] Inr show ?thesis by auto
  qed
  ultimately show ?thesis using r t by simp
qed

theorem run_decision_stores_one_result_witness:
  "let st = \<lparr>cs_templates = [sample_template], cs_results = [], cs_audit = empty_audit\<rparr>
   in run_decision sample_js 1 ''r1'' ''t2'' None sample_request st =
        (Inl (NotFound ''Template not found''), st) \<and>
      list_decision_results ''t2'' None
        (snd (run_decision sample_js 1 ''r1'' ''t1'' None sample_request st)) = []"
proof -
  let ?st = "\<lparr>cs_templates = [sample_template], cs_results = [], cs_audit = empty_audit\<rparr>"
  obtain r1 s1 where 1: "run_decision sample_js 1 ''r1'' ''t2'' None sample_request ?st = (r1, s1)" by fastforce
  obtain r2 s2 where 2: "run_decision sample_js 1 ''r1'' ''t1'' None sample_request ?st = (r2, s2)" by fastforce
  have "r1 = Inl (NotFound ''Template not found'') \<and> s1 = ?st"
    using run_decision_stores_one_result [OF 1]
    by (cases r1) (simp_all add: sample_request_def sample_template_def)
  moreover have "list_decision_results ''t2'' None s2 = list_decision_results ''t2'' None ?st"
    using run_decision_stores_one_result [OF 2] by (cases r2) auto
  ultimately show ?thesis using 1 2 by (simp add: list_decision_results_def find_desc_def)
qed

text \<open>
  The reject and the manual review conditions of a template never take part in a decision, and
  an inactive template decides as an active one does.
\<close>

lemma conditions_without_effect:
  "decision_result js now newId tenantId actorId dto
     (Some (t\<lparr>ct_rejectConditions := a, ct_manualReviewConditions := b, ct_isActive := c\<rparr>)) =
   decision_result js now newId tenantId actorId dto (Some t)"
  by (simp add: decision_result_def Let_def)

end
