(* ===== verification/RiskIndicators.thy ===== *)
theory RiskIndicators
  imports JsonCompare AuditTrail
begin

text \<open>
  \<open>RiskIndicatorsService\<close> (backend/src/risk-indicators/risk-indicators.service.ts): indicator
  configurations of a tenant with a condition over a company's data, and one stored result per
  enabled configuration for each evaluation. A condition that is not a list makes
  \<open>conditions.some\<close> throw, which ends the evaluation after the results stored so far.
\<close>

section \<open>Data\<close>

record indicator_config =
  ic_id :: string
  ic_tenantId :: string
  ic_name :: string
  ic_description :: "string option"
  ic_category :: string
  ic_datasetFamily :: "string option"
  ic_isEnabled :: bool
  ic_severity :: string
  ic_threshold :: "rat members"
  ic_conditionLogic :: "rat members"
  ic_metadata :: "rat members"
  ic_createdByUserId :: "string option"
  ic_createdAt :: int

record indicator_result =
  ir_id :: string
  ir_tenantId :: string
  ir_configId :: string
  ir_indicatorName :: string
  ir_indicatorCategory :: string
  ir_organisationNumber :: string
  ir_entityType :: string
  ir_isTriggered :: bool
  ir_severity :: "string option"
  ir_triggerReason :: "string option"
  ir_triggerDetails :: "rat members"
  ir_evaluatedAt :: int

record create_indicator_dto =
  id_name :: string
  id_category :: string
  id_description :: "string option"
  id_datasetFamily :: "string option"
  id_isEnabled :: "bool option"
  id_severity :: "string option"
  id_threshold :: "rat members option"
  id_conditionLogic :: "rat members option"
  id_metadata :: "rat members option"

record evaluate_indicators_dto =
  ed_organisationNumber :: string
  ed_entityData :: "rat members option"

record indicator_store =
  is_configs :: "indicator_config list"
  is_results :: "indicator_result list"
  is_audit :: audit_store

section \<open>Conditions\<close>

text \<open>
  One condition. Reading a field of \<open>null\<close> throws; the fields of another value that is no
  object are undefined.
\<close>

definition condition_matches :: "js_numbers \<Rightarrow> rat members \<Rightarrow> rat json \<Rightarrow> bool result" where
  "condition_matches js entityData c =
     (if c = JNull then Inl (Failure ''Cannot read properties of null'')
      else
        (let operator = member_of ''operator'' (Some c);
             v = member_of ''value'' (Some c);
             e = map_of entityData (js_key js (member_of ''field'' (Some c)))
         in Inr
           (if operator = Some (JStr ''equals'') then js_same e v
            else if operator = Some (JStr ''not_equals'') then \<not> js_same e v
            else if operator = Some (JStr ''exists'') then e \<noteq> None \<and> e \<noteq> Some JNull
            else (case (e, v) of
                (Some (JNum x), Some (JNum y)) \<Rightarrow>
                  (if operator = Some (JStr ''gt'') then x > y
                   else if operator = Some (JStr ''lt'') then x < y else False)
              | _ \<Rightarrow> False))))"

text \<open>\<open>Array.some\<close>: stops at the first match, or at the first error.\<close>

fun some_condition :: "js_numbers \<Rightarrow> rat members \<Rightarrow> rat json list \<Rightarrow> bool result" where
  "some_condition js d [] = Inr False"
| "some_condition js d (c # cs) =
     (case condition_matches js d c of
        Inl e \<Rightarrow> Inl e
      | Inr True \<Rightarrow> Inr True
      | Inr False \<Rightarrow> some_condition js d cs)"

definition evaluate_condition_logic :: "js_numbers \<Rightarrow> rat members \<Rightarrow> rat members \<Rightarrow> bool result" where
  "evaluate_condition_logic js conditionLogic entityData =
     (let conditions = map_of conditionLogic ''conditions''
      in if \<not> truthy conditions then Inr False
         else (case conditions of
             Some (JArr cs) \<Rightarrow> some_condition js entityData cs
           | Some (JObj ms) \<Rightarrow>
               (if map_of ms ''length'' = Some (JNum 0) then Inr False
                else Inl (Failure ''conditions.some is not a function''))
           | _ \<Rightarrow> Inl (Failure ''conditions.some is not a function'')))"

section \<open>Operations\<close>

definition indicator_dto_json :: "create_indicator_dto \<Rightarrow> rat members" where
  "indicator_dto_json dto =
     [(''name'', JStr (id_name dto)), (''category'', JStr (id_category dto))] @
     opt_member ''description'' (map_option JStr (id_description dto)) @
     opt_member ''datasetFamily'' (map_option JStr (id_datasetFamily dto)) @
     opt_member ''isEnabled'' (map_option JBool (id_isEnabled dto)) @
     opt_member ''severity'' (map_option JStr (id_severity dto)) @
     opt_member ''threshold'' (map_option JObj (id_threshold dto)) @
     opt_member ''conditionLogic'' (map_option JObj (id_conditionLogic dto)) @
     opt_member ''metadata'' (map_option JObj (id_metadata dto))"

definition create_config ::
  "int \<Rightarrow> string \<Rightarrow> string \<Rightarrow> string option \<Rightarrow> create_indicator_dto \<Rightarrow> indicator_store \<Rightarrow>
   indicator_config \<times> indicator_store" where
  "create_config now newId tenantId actorId dto st =
     (let c = \<lparr>ic_id = newId, ic_tenantId = tenantId, ic_name = id_name dto,
            ic_description = id_description dto, ic_category = id_category dto,
            ic_datasetFamily = id_datasetFamily dto, ic_isEnabled = or_default (id_isEnabled dto) True,
            ic_severity = or_default (id_severity dto) ''medium'',
            ic_threshold = or_default (id_threshold dto) [],
            ic_conditionLogic = or_default (id_conditionLogic dto) [],
            ic_metadata = or_default (id_metadata dto) [],
            ic_createdByUserId = actorId, ic_createdAt = now\<rparr>
      in (c, st\<lparr>is_configs := is_configs st @ [c],
            is_audit := audit_log \<lparr>al_tenantId = tenantId, al_actorId = actorId,
              al_action = ''risk_indicator.config.created'',
              al_resourceType = ''risk_indicator_config'', al_resourceId = newId,
              al_metadata = Some (indicator_dto_json dto)\<rparr> (is_audit st)\<rparr>))"

definition list_configs :: "string \<Rightarrow> string option \<Rightarrow> indicator_store \<Rightarrow> indicator_config list" where
  "list_configs tenantId category st =
     find_desc (\<lambda>c. ic_tenantId c = tenantId \<and> (truthy_str category \<longrightarrow> Some (ic_category c) = category))
       ic_createdAt (is_configs st)"

definition indicator_result_of ::
  "int \<Rightarrow> string \<Rightarrow> string \<Rightarrow> evaluate_indicators_dto \<Rightarrow> indicator_config \<Rightarrow> bool \<Rightarrow> indicator_result" where
  "indicator_result_of now newId tenantId dto c triggered =
     \<lparr>ir_id = newId, ir_tenantId = tenantId, ir_configId = ic_id c, ir_indicatorName = ic_name c,
      ir_indicatorCategory = ic_category c, ir_organisationNumber = ed_organisationNumber dto,
      ir_entityType = ''company'', ir_isTriggered = triggered,
      ir_severity = (if triggered then Some (ic_severity c) else None),
      ir_triggerReason =
        (if triggered then Some (''Condition matched for indicator: '' @ ic_name c) else None),
      ir_triggerDetails = (if triggered then [(''conditionLogic'', JObj (ic_conditionLogic c))] else []),
      ir_evaluatedAt = now\<rparr>"

text \<open>The loop over the configurations; \<open>new_id k\<close> is the id of result \<open>k\<close>.\<close>

fun evaluate_configs ::
  "js_numbers \<Rightarrow> int \<Rightarrow> (nat \<Rightarrow> string) \<Rightarrow> nat \<Rightarrow> string \<Rightarrow> evaluate_indicators_dto \<Rightarrow>
   indicator_config list \<Rightarrow> indicator_result list result \<times> indicator_result list" where
  "evaluate_configs js now new_id k tenantId dto [] = (Inr [], [])"
| "evaluate_configs js now new_id k tenantId dto (c # cs) =
     (case evaluate_condition_logic js (ic_conditionLogic c) (or_default (ed_entityData dto) []) of
        Inl e \<Rightarrow> (Inl e, [])
      | Inr triggered \<Rightarrow>
          (let r = indicator_result_of now (new_id k) tenantId dto c triggered;
               (res, saved) = evaluate_configs js now new_id (Suc k) tenantId dto cs
           in (case res of Inl e \<Rightarrow> Inl e | Inr rs \<Rightarrow> Inr (r # rs), r # saved)))"

definition enabled_configs :: "string \<Rightarrow> indicator_store \<Rightarrow> indicator_config list" where
  "enabled_configs tenantId st =
     filter (\<lambda>c. ic_tenantId c = tenantId \<and> ic_isEnabled c) (is_configs st)"

definition evaluate_indicators ::
  "js_numbers \<Rightarrow> int \<Rightarrow> (nat \<Rightarrow> string) \<Rightarrow> string \<Rightarrow> string option \<Rightarrow> evaluate_indicators_dto \<Rightarrow>
   indicator_store \<Rightarrow> indicator_result list result \<times> indicator_store" where
  "evaluate_indicators js now new_id tenantId actorId dto st =
     (let (res, saved) = evaluate_configs js now new_id 0 tenantId dto (enabled_configs tenantId st);
          st = st\<lparr>is_results := is_results st @ saved\<rparr>
      in case res of
           Inl e \<Rightarrow> (Inl e, st)
         | Inr rs \<Rightarrow> (Inr rs, st\<lparr>is_audit := audit_log \<lparr>al_tenantId = tenantId, al_actorId = actorId,
             al_action = ''risk_indicator.evaluated'', al_resourceType = ''risk_indicator_result'',
             al_resourceId = ed_organisationNumber dto,
             al_metadata = Some [(''organisationNumber'', JStr (ed_organisationNumber dto)),
               (''resultsCount'', JNum (of_nat (length rs)))]\<rparr> (is_audit st)\<rparr>))"

definition list_indicator_results :: "string \<Rightarrow> string option \<Rightarrow> indicator_store \<Rightarrow> indicator_result list" where
  "list_indicator_results tenantId organisationNumber st =
     find_desc (\<lambda>r. ir_tenantId r = tenantId \<and>
       (truthy_str organisationNumber \<longrightarrow> Some (ir_organisationNumber r) = organisationNumber))
       ir_evaluatedAt (is_results st)"

section \<open>Laws\<close>

text \<open>The conditions a configuration lists, when they are a list of objects.\<close>

definition well_formed_logic :: "rat members \<Rightarrow> bool" where
  "well_formed_logic l \<longleftrightarrow>
     (case map_of l ''conditions'' of
        None \<Rightarrow> True
      | Some (JArr cs) \<Rightarrow> list_all (\<lambda>c. c \<noteq> JNull) cs
      | _ \<Rightarrow> False)"

definition logic_holds :: "js_numbers \<Rightarrow> rat members \<Rightarrow> rat members \<Rightarrow> bool" where
  "logic_holds js l d \<longleftrightarrow>
     (case map_of l ''conditions'' of
        Some (JArr cs) \<Rightarrow> (\<exists>c \<in> set cs. condition_matches js d c = Inr True)
      | _ \<Rightarrow> False)"

lemma some_condition_eq:
  "list_all (\<lambda>c. c \<noteq> JNull) cs \<Longrightarrow>
    some_condition js d cs = Inr (\<exists>c \<in> set cs. condition_matches js d c = Inr True)"
proof (induction cs)
  case Nil
  then show ?case by simp
next
  case (Cons c cs)
  then obtain b where b: "condition_matches js d c = Inr b"
    by (auto simp: condition_matches_def Let_def)
  then show ?case using Cons by (cases b) auto
qed

lemma evaluate_condition_logic_eq:
  "well_formed_logic l \<Longrightarrow> evaluate_condition_logic js l d = Inr (logic_holds js l d)"
  by (auto simp: well_formed_logic_def evaluate_condition_logic_def logic_holds_def some_condition_eq
      split: option.splits json.splits)

lemma evaluate_configs_eq:
  "\<forall>c \<in> set cs. well_formed_logic (ic_conditionLogic c) \<Longrightarrow>
    evaluate_configs js now new_id k tenantId dto cs =
      (let rs = map (\<lambda>(i, c). indicator_result_of now (new_id i) tenantId dto c
           (logic_holds js (ic_conditionLogic c) (or_default (ed_entityData dto) [])))
           (zip [k..<k + length cs] cs)
       in (Inr rs, rs))"
proof (induction cs arbitrary: k)
  case Nil
  then show ?case by simp
next
  case (Cons c cs)
  have "[k..<k + length (c # cs)] = k # [Suc k..<Suc k + length cs]"
    using upt_conv_Cons [of k "Suc (k + length cs)"] by simp
  with Cons show ?case
    by (simp add: evaluate_condition_logic_eq Let_def)
qed

text \<open>An evaluation stores one result per enabled configuration of the tenant, in their order, each
  marked triggered, with the severity and the condition of its configuration, exactly when some
  condition of it matches the company's data; it is audited with their number, and no result
  of another tenant appears or changes.
\<close>

theorem indicators_evaluated_pointwise:
  assumes "\<forall>c \<in> set (enabled_configs tenantId st). well_formed_logic (ic_conditionLogic c)"
    and "evaluate_indicators js now new_id tenantId actorId dto st = (res, st')"
  shows "\<exists>rs. res = Inr rs \<and> is_results st' = is_results st @ rs \<and> is_configs st' = is_configs st \<and>
    map ir_configId rs = map ic_id (enabled_configs tenantId st) \<and>
    map ir_isTriggered rs = map (\<lambda>c. logic_holds js (ic_conditionLogic c)
      (or_default (ed_entityData dto) [])) (enabled_configs tenantId st) \<and>
    (\<forall>r \<in> set rs. ir_severity r \<noteq> None \<longleftrightarrow> ir_isTriggered r) \<and>
    (\<forall>u n. u \<noteq> tenantId \<longrightarrow> list_indicator_results u n st' = list_indicator_results u n st) \<and>
    (au_up (is_audit st) \<longrightarrow> length (au_logs (is_audit st')) = Suc (length (au_logs (is_audit st))))"
proof -
  let ?cs = "enabled_configs tenantId st"
  define rs where "rs = map (\<lambda>(i, c). indicator_result_of now (new_id i) tenantId dto c
    (logic_holds js (ic_conditionLogic c) (or_default (ed_entityData dto) []))) (zip [0..<length ?cs] ?cs)"
  have e: "evaluate_configs js now new_id 0 tenantId dto ?cs = (Inr rs, rs)"
    using evaluate_configs_eq [OF assms(1), of js now new_id 0 tenantId dto]
    by (simp add: rs_def Let_def)
  have res: "res = Inr rs" "is_results st' = is_results st @ rs" "is_configs st' = is_configs st"
    "au_up (is_audit st) \<longrightarrow> length (au_logs (is_audit st')) = Suc (length (au_logs (is_audit st)))"
    using assms(2) by (auto simp: evaluate_indicators_def e au_logs_audit_log)
  have "map ir_configId rs = map ic_id ?cs"
    "map ir_isTriggered rs = map (\<lambda>c. logic_holds js (ic_conditionLogic c)
      (or_default (ed_entityData dto) [])) ?cs"
    by (rule nth_equalityI; simp add: rs_def indicator_result_of_def split_def)+
  moreover have "\<forall>r \<in> set rs. ir_tenantId r = tenantId \<and> (ir_severity r \<noteq> None \<longleftrightarrow> ir_isTriggered r)"
    by (auto simp: rs_def indicator_result_of_def split: if_splits)
  moreover from this have "list_indicator_results u n st' = list_indicator_results u n st"
    if "u \<noteq> tenantId" for u n
    using that by (auto simp: list_indicator_results_def res(2) find_desc_def filter_empty_conv)
  ultimately show ?thesis using res by simp
qed

definition sample_numbers :: js_numbers where
  "sample_numbers = \<lparr>number_text = (\<lambda>n. show_int \<lfloor>n\<rfloor>), number_value = (\<lambda>s. None)\<rparr>"

definition sample_indicators :: indicator_store where
  "sample_indicators =
     snd (create_config 2 ''i2'' ''t2'' None
       \<lparr>id_name = ''other'', id_category = ''x'', id_description = None, id_datasetFamily = None,
        id_isEnabled = None, id_severity = None, id_threshold = None, id_conditionLogic = None,
        id_metadata = None\<rparr>
      (snd (create_config 1 ''i1'' ''t1'' None
       \<lparr>id_name = ''loss'', id_category = ''finance'', id_description = None, id_datasetFamily = None,
        id_isEnabled = None, id_severity = Some ''high'', id_threshold = None,
        id_conditionLogic = Some [(''conditions'', JArr [JObj [(''field'', JStr ''netResult''),
          (''operator'', JStr ''lt''), (''value'', JNum 0)]])], id_metadata = None\<rparr>
      \<lparr>is_configs = [], is_results = [], is_audit = empty_audit\<rparr>)))"

theorem indicators_evaluated_pointwise_witness:
  "\<exists>rs st'. evaluate_indicators sample_numbers 5 show_nat ''t1'' None
      \<lparr>ed_organisationNumber = ''5560001'', ed_entityData = Some [(''netResult'', JNum (- 3))]\<rparr>
      sample_indicators = (Inr rs, st') \<and>
    map ir_configId rs = [''i1''] \<and> map ir_isTriggered rs = [True]"
proof -
  let ?dto = "\<lparr>ed_organisationNumber = ''5560001'', ed_entityData = Some [(''netResult'', JNum (- 3))]\<rparr>"
  have configs: "map ic_id (enabled_configs ''t1'' sample_indicators) = [''i1'']"
    "map ic_conditionLogic (enabled_configs ''t1'' sample_indicators) =
       [[(''conditions'', JArr [JObj [(''field'', JStr ''netResult''), (''operator'', JStr ''lt''),
         (''value'', JNum 0)]])]]"
    by (simp_all add: sample_indicators_def create_config_def Let_def enabled_configs_def)
  then have ok: "\<forall>c \<in> set (enabled_configs ''t1'' sample_indicators). well_formed_logic (ic_conditionLogic c)"
    by (cases "enabled_configs ''t1'' sample_indicators") (auto simp: well_formed_logic_def)
  have holds: "logic_holds sample_numbers
      [(''conditions'', JArr [JObj [(''field'', JStr ''netResult''), (''operator'', JStr ''lt''),
         (''value'', JNum 0)]])] [(''netResult'', JNum (- 3))]"
    by (simp add: logic_holds_def condition_matches_def js_key_def)
  obtain res st' where e: "evaluate_indicators sample_numbers 5 show_nat ''t1'' None ?dto
      sample_indicators = (res, st')"
    by fastforce
  have "map (\<lambda>c. logic_holds sample_numbers (ic_conditionLogic c) [(''netResult'', JNum (- 3))])
      (enabled_configs ''t1'' sample_indicators) = [True]"
    using configs(2) holds
    by (cases "enabled_configs ''t1'' sample_indicators") auto
  then show ?thesis
    using indicators_evaluated_pointwise [OF ok e] configs(1) e by auto
qed

end
