(* ===== verification/SnapshotChain.thy ===== *)
theory SnapshotChain
  imports AuditTrail
begin

text \<open>
  \<open>SnapshotChainService\<close> (backend/src/companies/services/snapshot-chain.service.ts) over the
  snapshot table (backend/src/companies/entities/bv-fetch-snapshot.entity.ts): the version
  chain of a company's fetch snapshots. The SHA-256 digest of Node's crypto module is the
  parameter \<open>sha256\<close>.
\<close>

section \<open>State\<close>

datatype snapshot_policy_decision = CacheHit | FreshFetch | ForceRefreshFetch | StaleFallbackFetch

record snapshot =
  sn_id :: string
  sn_tenantId :: string
  sn_organisationId :: "string option"
  sn_organisationsnummer :: string
  sn_sourceName :: string
  sn_identifierUsed :: string
  sn_identifierType :: string
  sn_fetchStatus :: string
  sn_isFromCache :: bool
  sn_cacheHitReason :: "string option"
  sn_payloadHash :: "string option"
  sn_rawPayloadSummary :: "int members"
  sn_normalisedSummary :: "int members"
  sn_errorMessage :: "string option"
  sn_fetchedAt :: int
  sn_apiCallCount :: int
  sn_dataFreshnessDays :: "int option"
  sn_correlationId :: "string option"
  sn_actorId :: "string option"
  sn_policyDecision :: snapshot_policy_decision
  sn_costImpactFlags :: "int members"
  sn_isStaleFallback :: bool
  sn_rawPayloadId :: "string option"
  sn_previousSnapshotId :: "string option"
  sn_versionNumber :: int
  sn_sequenceNumber :: int
  sn_replayId :: "string option"
  sn_chainBroken :: bool

record snapshot_store =
  ss_rows :: "snapshot list"
  ss_audit :: audit_store

interpretation snapshot_rows: entity_store sn_id "find_key sn_id" "save sn_id"
  by (rule table_entity_store)

definition generate_replay_id ::
  "(string \<Rightarrow> string) \<Rightarrow> string \<Rightarrow> string \<Rightarrow> string \<Rightarrow> string option \<Rightarrow> string" where
  "generate_replay_id sha256 tenantId organisationsnummer snapshotId payloadHash =
     (let payload = tenantId @ '':'' @ organisationsnummer @ '':'' @ snapshotId @ '':'' @
        or_default payloadHash []
      in ''rp-'' @ take 48 (sha256 payload))"

section \<open>Operations\<close>

definition chain_audit ::
  "string \<Rightarrow> snapshot \<Rightarrow> rat members \<Rightarrow> create_audit_log_input" where
  "chain_audit action s metadata =
     \<lparr>al_tenantId = sn_tenantId s, al_actorId = sn_actorId s, al_action = action,
      al_resourceType = ''bv_fetch_snapshot'', al_resourceId = sn_id s,
      al_metadata = Some (spread
        [(''organisationsnummer'', JStr (sn_organisationsnummer s)),
         (''versionNumber'', JNum (of_int (sn_versionNumber s))),
         (''sequenceNumber'', JNum (of_int (sn_sequenceNumber s)))] metadata)\<rparr>"

definition of_company :: "string \<Rightarrow> string \<Rightarrow> snapshot \<Rightarrow> bool" where
  "of_company tenantId org s \<longleftrightarrow> sn_tenantId s = tenantId \<and> sn_organisationsnummer s = org"

definition find_snapshot :: "string \<Rightarrow> string \<Rightarrow> snapshot list \<Rightarrow> snapshot option" where
  "find_snapshot tenantId i rows = find_one (\<lambda>s. sn_id s = i \<and> sn_tenantId s = tenantId) rows"

text \<open>\<open>order: {fetchedAt: 'DESC', versionNumber: 'DESC'}\<close>: a stable sort by each key in turn.\<close>

definition newest_snapshot :: "string \<Rightarrow> string \<Rightarrow> snapshot list \<Rightarrow> snapshot option" where
  "newest_snapshot tenantId org rows =
     find_latest (\<lambda>s. True) sn_fetchedAt
       (find_desc (of_company tenantId org) sn_versionNumber rows)"

definition link_snapshot ::
  "(string \<Rightarrow> string) \<Rightarrow> string \<Rightarrow> string \<Rightarrow> string \<Rightarrow> snapshot_store \<Rightarrow>
   snapshot result \<times> snapshot_store" where
  "link_snapshot sha256 tenantId newSnapshotId organisationsnummer st =
     (case find_snapshot tenantId newSnapshotId (ss_rows st) of
        None \<Rightarrow> (Inl (Failure ''Cannot link snapshot: not found''), st)
      | Some newSnapshot \<Rightarrow>
          (let predecessor = newest_snapshot tenantId organisationsnummer (ss_rows st);
               actualPredecessor =
                 (case predecessor of
                    None \<Rightarrow> None
                  | Some p \<Rightarrow> if sn_id p = newSnapshotId then None else Some p);
               versionNumber =
                 (case actualPredecessor of None \<Rightarrow> 1 | Some p \<Rightarrow> sn_versionNumber p + 1);
               replayId = generate_replay_id sha256 tenantId organisationsnummer newSnapshotId
                 (sn_payloadHash newSnapshot);
               saved = newSnapshot\<lparr>
                 sn_previousSnapshotId := map_option sn_id actualPredecessor,
                 sn_versionNumber := versionNumber,
                 sn_sequenceNumber := versionNumber,
                 sn_replayId := Some replayId,
                 sn_chainBroken := False\<rparr>;
               aud = audit_log (chain_audit ''snapshot_chain.link_created'' saved
                 [(''previousSnapshotId'', json_str (map_option sn_id actualPredecessor)),
                  (''versionNumber'', JNum (of_int versionNumber)),
                  (''replayId'', JStr replayId)]) (ss_audit st)
           in (Inr saved, st\<lparr>ss_rows := save sn_id saved (ss_rows st), ss_audit := aud\<rparr>)))"

definition get_version_chain ::
  "string \<Rightarrow> string \<Rightarrow> nat \<Rightarrow> snapshot_store \<Rightarrow> snapshot list" where
  "get_version_chain tenantId org limit st =
     take (min limit 200) (find_desc (of_company tenantId org) sn_sequenceNumber (ss_rows st))"

definition flag_broken :: "string \<Rightarrow> snapshot \<Rightarrow> snapshot_store \<Rightarrow> snapshot_store" where
  "flag_broken missing s st =
     st\<lparr>ss_rows := save sn_id s (ss_rows st),
        ss_audit := audit_log (chain_audit ''snapshot_chain.broken_link_detected'' s
          [(''missingPredecessorId'', JStr missing)]) (ss_audit st)\<rparr>"

text \<open>The loop of \<open>walkChain\<close>; the first argument counts the steps left.\<close>

fun walk_loop ::
  "nat \<Rightarrow> string \<Rightarrow> string option \<Rightarrow> string set \<Rightarrow> snapshot list \<Rightarrow> snapshot_store \<Rightarrow>
   snapshot list \<times> snapshot_store" where
  "walk_loop 0 tenantId currentId seen chain st = (chain, st)"
| "walk_loop (Suc n) tenantId None seen chain st = (chain, st)"
| "walk_loop (Suc n) tenantId (Some i) seen chain st =
     (if i \<in> seen then (chain, st)
      else (case find_snapshot tenantId i (ss_rows st) of
          None \<Rightarrow>
            (if chain = [] \<or> sn_chainBroken (last chain) then (chain, st)
             else (let l = (last chain)\<lparr>sn_chainBroken := True\<rparr>
                   in (butlast chain @ [l], flag_broken i l st)))
        | Some s \<Rightarrow>
            walk_loop n tenantId (sn_previousSnapshotId s) (insert i seen) (chain @ [s]) st))"

definition walk_chain ::
  "string \<Rightarrow> string \<Rightarrow> nat \<Rightarrow> snapshot_store \<Rightarrow> snapshot list \<times> snapshot_store" where
  "walk_chain tenantId startSnapshotId maxSteps st =
     walk_loop maxSteps tenantId (Some startSnapshotId) {} [] st"

definition find_snapshot_at_timestamp ::
  "string \<Rightarrow> string \<Rightarrow> int \<Rightarrow> snapshot_store \<Rightarrow> snapshot option" where
  "find_snapshot_at_timestamp tenantId org timestamp st =
     find_latest (\<lambda>s. of_company tenantId org s \<and> sn_fetchedAt s \<le> timestamp) sn_fetchedAt
       (ss_rows st)"

definition find_by_replay_id :: "string \<Rightarrow> string \<Rightarrow> snapshot_store \<Rightarrow> snapshot option" where
  "find_by_replay_id tenantId replayId st =
     find_one (\<lambda>s. sn_tenantId s = tenantId \<and> sn_replayId s = Some replayId) (ss_rows st)"

definition compute_replay_id :: "(string \<Rightarrow> string) \<Rightarrow> snapshot \<Rightarrow> string" where
  "compute_replay_id sha256 s =
     generate_replay_id sha256 (sn_tenantId s) (sn_organisationsnummer s) (sn_id s)
       (sn_payloadHash s)"

section \<open>Validation\<close>

text \<open>The issue strings, one constructor for each message with the values it prints.\<close>

datatype chain_issue =
    FlaggedBroken string int
  | SequenceGap string int int
  | BrokenLink string string
  | VersionMismatch string int string int
  | CycleDetected string

record chain_validation_result =
  cv_valid :: bool
  cv_issues :: "chain_issue list"
  cv_snapshotCount :: nat
  cv_brokenLinkCount :: nat

text \<open>The checks on the snapshot at position \<open>i\<close>: its issues and the broken links counted.\<close>

definition snapshot_issues ::
  "(string \<rightharpoonup> snapshot) \<Rightarrow> nat \<Rightarrow> snapshot \<Rightarrow> chain_issue list \<times> nat" where
  "snapshot_issues byId i s =
     (let flagged = (if sn_chainBroken s then [FlaggedBroken (sn_id s) (sn_versionNumber s)] else []);
          expectedSeq = int i + 1;
          gap = (if sn_sequenceNumber s \<noteq> expectedSeq
                 then [SequenceGap (sn_id s) (sn_sequenceNumber s) expectedSeq] else []);
          (link, missing) =
            (case sn_previousSnapshotId s of
               None \<Rightarrow> ([], 0)
             | Some p \<Rightarrow>
                 (case byId p of
                    None \<Rightarrow> ([BrokenLink (sn_id s) p], 1)
                  | Some prev \<Rightarrow>
                      (if sn_versionNumber prev \<noteq> sn_versionNumber s - 1
                       then [VersionMismatch (sn_id s) (sn_versionNumber s) (sn_id prev)
                               (sn_versionNumber prev)]
                       else [], 0)))
      in (flagged @ gap @ link, (if sn_chainBroken s then 1 else 0) + missing))"

definition prev_of :: "(string \<rightharpoonup> snapshot) \<Rightarrow> string \<Rightarrow> string option" where
  "prev_of byId i =
     (case byId i of
        None \<Rightarrow> None
      | Some s \<Rightarrow> (case sn_previousSnapshotId s of None \<Rightarrow> None | Some p \<Rightarrow> nonempty p))"

text \<open>
  The recursive search for a back edge over the previous pointers. It returns the answer, the
  visited set and the stack set; when it answers yes the stack is left as it is. The list
  \<open>ids\<close> of known snapshots bounds the recursion: every call but perhaps the first visits a
  new one or stops.
\<close>

function detect_cycle ::
  "string list \<Rightarrow> (string \<Rightarrow> string option) \<Rightarrow> string \<Rightarrow> string set \<Rightarrow> string set \<Rightarrow>
   bool \<times> string set \<times> string set" where
  "detect_cycle ids prev i visited inStack =
     (let visited' = insert i visited; inStack' = insert i inStack
      in if i \<notin> set ids then (False, visited', inStack' - {i})
         else (case prev i of
            None \<Rightarrow> (False, visited', inStack' - {i})
          | Some p \<Rightarrow>
              if p \<notin> visited' then
                (let (found, v, s) = detect_cycle ids prev p visited' inStack'
                 in if found then (True, v, s) else (False, v, s - {i}))
              else if p \<in> inStack' then (True, visited', inStack')
              else (False, visited', inStack' - {i})))"
  by pat_completeness auto

text \<open>The unvisited ids shrink, except on a first call for a visited id.\<close>

definition cycle_measure :: "string list \<Rightarrow> string \<Rightarrow> string set \<Rightarrow> nat" where
  "cycle_measure ids i visited =
     2 * card (set ids - visited) + (if i \<in> visited then 1 else 0)"

termination detect_cycle
proof (relation "measure (\<lambda>(ids, prev, i, visited, inStack). cycle_measure ids i visited)",
    goal_cases)
  case 1
  show ?case by simp
next
  case (2 ids prev i visited inStack visited' inStack' p)
  then show ?case
  proof (cases "i \<in> visited")
    case True
    with 2 show ?thesis by (simp add: cycle_measure_def insert_absorb)
  next
    case False
    with 2 have "set ids - insert i visited \<subset> set ids - visited" by auto
    then have "card (set ids - insert i visited) < card (set ids - visited)"
      by (simp add: psubset_card_mono)
    with 2 False show ?thesis by (simp add: cycle_measure_def)
  qed
qed

declare detect_cycle.simps [simp del]

fun cycle_issues ::
  "string list \<Rightarrow> (string \<Rightarrow> string option) \<Rightarrow> string list \<Rightarrow> string set \<Rightarrow> string set \<Rightarrow>
   chain_issue list" where
  "cycle_issues ids prev [] visited inStack = []"
| "cycle_issues ids prev (i # is) visited inStack =
     (if i \<in> visited then cycle_issues ids prev is visited inStack
      else (let (found, v, s) = detect_cycle ids prev i visited inStack
            in (if found then [CycleDetected i] else []) @ cycle_issues ids prev is v s))"

fun position_issues ::
  "(string \<rightharpoonup> snapshot) \<Rightarrow> nat \<Rightarrow> snapshot list \<Rightarrow> chain_issue list \<times> nat" where
  "position_issues byId i [] = ([], 0)"
| "position_issues byId i (s # ss) =
     (let (issues, n) = snapshot_issues byId i s; (rest, m) = position_issues byId (Suc i) ss
      in (issues @ rest, n + m))"

definition by_id :: "snapshot list \<Rightarrow> string \<rightharpoonup> snapshot" where
  "by_id ss = map_of (rev (map (\<lambda>s. (sn_id s, s)) ss))"

definition validate_chain ::
  "string \<Rightarrow> string \<Rightarrow> snapshot_store \<Rightarrow> chain_validation_result" where
  "validate_chain tenantId org st =
     (let snapshots = find_asc (of_company tenantId org) sn_sequenceNumber (ss_rows st);
          byId = by_id snapshots;
          (issues, broken) = position_issues byId 0 snapshots;
          cycles = cycle_issues (map sn_id snapshots) (prev_of byId) (map sn_id snapshots) {} {};
          allIssues = issues @ cycles
      in \<lparr>cv_valid = (allIssues = []), cv_issues = allIssues,
          cv_snapshotCount = length snapshots, cv_brokenLinkCount = broken\<rparr>)"

section \<open>Reconstruction\<close>

record chain_reconstruction_result =
  cr_relinkedCount :: nat
  cr_fullyReconstructed :: bool

definition relinked ::
  "(string \<Rightarrow> string) \<Rightarrow> string \<Rightarrow> string \<Rightarrow> string option \<Rightarrow> nat \<Rightarrow> snapshot \<Rightarrow> snapshot" where
  "relinked sha256 tenantId org expectedPreviousId i s =
     s\<lparr>sn_previousSnapshotId := expectedPreviousId, sn_versionNumber := int i + 1,
       sn_sequenceNumber := int i + 1, sn_chainBroken := False,
       sn_replayId := Some (generate_replay_id sha256 tenantId org (sn_id s) (sn_payloadHash s))\<rparr>"

definition needs_update :: "string option \<Rightarrow> nat \<Rightarrow> snapshot \<Rightarrow> bool" where
  "needs_update expectedPreviousId i s \<longleftrightarrow>
     sn_previousSnapshotId s \<noteq> expectedPreviousId \<or> sn_versionNumber s \<noteq> int i + 1 \<or>
     sn_sequenceNumber s \<noteq> int i + 1 \<or> sn_chainBroken s"

text \<open>The loop: position, id of the snapshot before, snapshots left; counts the saves.\<close>

fun relink_loop ::
  "(string \<Rightarrow> string) \<Rightarrow> string \<Rightarrow> string \<Rightarrow> nat \<Rightarrow> string option \<Rightarrow> snapshot list \<Rightarrow>
   snapshot list \<Rightarrow> nat \<times> snapshot list" where
  "relink_loop sha256 tenantId org i prev [] rows = (0, rows)"
| "relink_loop sha256 tenantId org i prev (s # ss) rows =
     (if needs_update prev i s
      then (let (n, rows') = relink_loop sha256 tenantId org (Suc i) (Some (sn_id s)) ss
                   (save sn_id (relinked sha256 tenantId org prev i s) rows)
            in (Suc n, rows'))
      else relink_loop sha256 tenantId org (Suc i) (Some (sn_id s)) ss rows)"

definition reconstruct_chain ::
  "(string \<Rightarrow> string) \<Rightarrow> string \<Rightarrow> string \<Rightarrow> snapshot_store \<Rightarrow>
   chain_reconstruction_result \<times> snapshot_store" where
  "reconstruct_chain sha256 tenantId org st =
     (let snapshots = find_asc (of_company tenantId org) sn_fetchedAt (ss_rows st)
      in if snapshots = []
         then (\<lparr>cr_relinkedCount = 0, cr_fullyReconstructed = True\<rparr>, st)
         else (let (n, rows) = relink_loop sha256 tenantId org 0 None snapshots (ss_rows st);
                   k = length snapshots - 1;
                   l = last snapshots;
                   prev = (if k = 0 then None else Some (sn_id (snapshots ! (k - 1))));
                   representative =
                     (if needs_update prev k l then relinked sha256 tenantId org prev k l else l);
                   aud = audit_log (chain_audit ''snapshot_chain.reconstruction_attempted''
                     representative
                     [(''totalSnapshots'', JNum (of_nat (length snapshots))),
                      (''relinkedCount'', JNum (of_nat n)),
                      (''fullyReconstructed'', JBool True)]) (ss_audit st)
               in (\<lparr>cr_relinkedCount = n, cr_fullyReconstructed = True\<rparr>,
                   st\<lparr>ss_rows := rows, ss_audit := aud\<rparr>)))"

section \<open>Linking a new snapshot\<close>

lemma set_newest_candidates:
  "set (find_desc (of_company t org) sn_versionNumber rows) = {s \<in> set rows. of_company t org s}"
  by (simp add: set_find_desc)

lemma newest_snapshot_SomeD:
  assumes "newest_snapshot t org rows = Some p"
  shows "p \<in> set rows" "of_company t org p"
    "\<forall>x \<in> set rows. of_company t org x \<longrightarrow> sn_fetchedAt x \<le> sn_fetchedAt p"
  using find_latest_SomeD [OF assms [unfolded newest_snapshot_def]]
  by (auto simp: set_newest_candidates)

lemma newest_snapshot_eqI:
  assumes "s \<in> set rows" "of_company t org s"
    and "\<And>x. x \<in> set rows \<Longrightarrow> of_company t org x \<Longrightarrow> x \<noteq> s \<Longrightarrow> sn_fetchedAt x < sn_fetchedAt s"
  shows "newest_snapshot t org rows = Some s"
  unfolding newest_snapshot_def
  by (rule find_latest_eqI) (use assms in \<open>auto simp: set_newest_candidates\<close>)

lemma link_snapshot_unfold:
  assumes "find_snapshot t i (ss_rows st) = Some s"
  shows "\<exists>r. fst (link_snapshot sha256 t i org st) = Inr r \<and>
    ss_rows (snd (link_snapshot sha256 t i org st)) = save sn_id r (ss_rows st) \<and>
    sn_id r = sn_id s \<and> sn_chainBroken r = False \<and> sn_sequenceNumber r = sn_versionNumber r \<and>
    (case newest_snapshot t org (ss_rows st) of
       None \<Rightarrow> sn_versionNumber r = 1 \<and> sn_previousSnapshotId r = None
     | Some p \<Rightarrow> if sn_id p = i then sn_versionNumber r = 1 \<and> sn_previousSnapshotId r = None
         else sn_versionNumber r = sn_versionNumber p + 1 \<and>
           sn_previousSnapshotId r = Some (sn_id p))"
  using assms by (auto simp: link_snapshot_def Let_def split: option.splits)

section \<open>Walking the chain\<close>

text \<open>Consecutive snapshots of a list are linked by their previous pointers.\<close>

fun linked :: "snapshot list \<Rightarrow> bool" where
  "linked [] = True"
| "linked [s] = True"
| "linked (s # q # ss) = (sn_previousSnapshotId s = Some (sn_id q) \<and> linked (q # ss))"

lemma linked_snoc:
  "linked (ss @ [s]) \<longleftrightarrow>
    linked ss \<and> (ss \<noteq> [] \<longrightarrow> sn_previousSnapshotId (last ss) = Some (sn_id s))"
  by (induction ss rule: linked.induct) auto

lemma linked_flag_last:
  assumes "linked ss" "ss \<noteq> []" "sn_id l = sn_id (last ss)"
  shows "linked (butlast ss @ [l])"
  using assms linked_snoc [of "butlast ss" "last ss"] by (simp add: linked_snoc)

lemma find_snapshot_SomeD:
  "find_snapshot t i rows = Some s \<Longrightarrow> s \<in> set rows \<and> sn_id s = i \<and> sn_tenantId s = t"
  by (auto simp: find_snapshot_def dest: find_one_SomeD)

definition walk_inv :: "string \<Rightarrow> string option \<Rightarrow> string set \<Rightarrow> snapshot list \<Rightarrow> bool" where
  "walk_inv t cur seen chain \<longleftrightarrow>
     linked chain \<and> distinct (map sn_id chain) \<and> seen = set (map sn_id chain) \<and>
     (\<forall>s \<in> set chain. sn_tenantId s = t) \<and>
     (chain \<noteq> [] \<longrightarrow> sn_previousSnapshotId (last chain) = cur)"

lemma walk_inv_step:
  assumes "walk_inv t (Some i) seen chain" "i \<notin> seen" "find_snapshot t i rows = Some s"
  shows "walk_inv t (sn_previousSnapshotId s) (insert i seen) (chain @ [s])"
  using assms find_snapshot_SomeD [OF assms(3)] by (auto simp: walk_inv_def linked_snoc)

lemma map_id_flag_last:
  "ss \<noteq> [] \<Longrightarrow> map sn_id (butlast ss @ [(last ss)\<lparr>sn_chainBroken := True\<rparr>]) = map sn_id ss"
  by (induction ss) auto

lemma walk_loop_inv:
  assumes "walk_inv t cur seen chain"
  shows "linked (fst (walk_loop n t cur seen chain st)) \<and>
    distinct (map sn_id (fst (walk_loop n t cur seen chain st))) \<and>
    (\<forall>s \<in> set (fst (walk_loop n t cur seen chain st)). sn_tenantId s = t) \<and>
    length (fst (walk_loop n t cur seen chain st)) \<le> length chain + n"
  using assms
proof (induction n t cur seen chain st rule: walk_loop.induct)
  case (1 t cur seen chain st)
  then show ?case by (simp add: walk_inv_def)
next
  case (2 n t seen chain st)
  then show ?case by (simp add: walk_inv_def)
next
  case (3 n t i seen chain st)
  consider (seen) "i \<in> seen" | (missing) "i \<notin> seen" "find_snapshot t i (ss_rows st) = None"
    | (found) s where "i \<notin> seen" "find_snapshot t i (ss_rows st) = Some s"
    by (cases "find_snapshot t i (ss_rows st)") auto
  then show ?case
  proof cases
    case seen
    with 3(2) show ?thesis by (simp add: walk_inv_def)
  next
    case found
    from walk_inv_step [OF 3(2) found] have
      "walk_inv t (sn_previousSnapshotId s) (insert i seen) (chain @ [s])" .
    with 3(1) [OF found] found show ?thesis by simp
  next
    case missing
    let ?c = "butlast chain @ [(last chain)\<lparr>sn_chainBroken := True\<rparr>]"
    show ?thesis
    proof (cases "chain = [] \<or> sn_chainBroken (last chain)")
      case True
      with missing 3(2) show ?thesis by (simp add: walk_inv_def)
    next
      case False
      then have eq: "fst (walk_loop (Suc n) t (Some i) seen chain st) = ?c"
        using missing by (simp add: Let_def)
      have "map sn_id ?c = map sn_id chain"
        using False map_id_flag_last by blast
      moreover have "linked ?c" "length ?c = length chain"
        using 3(2) False by (auto simp: walk_inv_def intro: linked_flag_last)
      moreover have "\<forall>s \<in> set ?c. sn_tenantId s = t"
        using 3(2) False by (auto simp: walk_inv_def dest: in_set_butlastD)
      ultimately show ?thesis
        using 3(2) unfolding eq by (simp add: walk_inv_def del: map_append)
    qed
  qed
qed

section \<open>What validation accepts\<close>

text \<open>
  The specification of an intact chain: in the order of the sequence numbers, the snapshots
  are numbered \<open>1, 2, \<dots>\<close> without gaps, none is flagged, and every previous pointer leads to a
  snapshot of the chain whose version is one lower.
\<close>

definition intact :: "snapshot list \<Rightarrow> bool" where
  "intact ss \<longleftrightarrow>
     (\<forall>i < length ss. let s = ss ! i in
        \<not> sn_chainBroken s \<and> sn_sequenceNumber s = int i + 1 \<and>
        (case sn_previousSnapshotId s of
           None \<Rightarrow> True
         | Some p \<Rightarrow> \<exists>q \<in> set ss. sn_id q = p \<and> sn_versionNumber q = sn_versionNumber s - 1))"

lemma by_id_Some_iff:
  assumes "unique_keys sn_id ss"
  shows "by_id ss i = Some q \<longleftrightarrow> q \<in> set ss \<and> sn_id q = i"
proof -
  have "distinct (map fst (rev (map (\<lambda>s. (sn_id s, s)) ss)))"
    using assms by (simp add: unique_keys_def rev_map [symmetric] o_def)
  then have "by_id ss i = Some q \<longleftrightarrow> (i, q) \<in> set (rev (map (\<lambda>s. (sn_id s, s)) ss))"
    unfolding by_id_def by (rule map_of_eq_Some_iff)
  then show ?thesis by auto
qed

lemma by_id_None_iff:
  "unique_keys sn_id ss \<Longrightarrow> by_id ss i = None \<longleftrightarrow> (\<forall>q \<in> set ss. sn_id q \<noteq> i)"
  using by_id_Some_iff [of ss i] by (cases "by_id ss i") auto

lemma snapshot_issues_Nil_iff:
  assumes "unique_keys sn_id ss"
  shows "fst (snapshot_issues (by_id ss) i s) = [] \<longleftrightarrow>
    \<not> sn_chainBroken s \<and> sn_sequenceNumber s = int i + 1 \<and>
    (case sn_previousSnapshotId s of
       None \<Rightarrow> True
     | Some p \<Rightarrow> \<exists>q \<in> set ss. sn_id q = p \<and> sn_versionNumber q = sn_versionNumber s - 1)"
proof (cases "sn_previousSnapshotId s")
  case None
  then show ?thesis by (auto simp: snapshot_issues_def Let_def)
next
  case (Some p)
  show ?thesis
  proof (cases "by_id ss p")
    case None
    then have "\<forall>q \<in> set ss. sn_id q \<noteq> p" by (simp add: by_id_None_iff [OF assms])
    with Some None show ?thesis by (auto simp: snapshot_issues_def Let_def)
  next
    case (Some q)
    then have q: "q \<in> set ss" "sn_id q = p" by (simp_all add: by_id_Some_iff [OF assms])
    then have "\<And>r. r \<in> set ss \<Longrightarrow> sn_id r = p \<Longrightarrow> r = q"
      using assms by (auto dest: unique_keysD)
    with q have "(\<exists>r \<in> set ss. sn_id r = p \<and> sn_versionNumber r = sn_versionNumber s - 1) \<longleftrightarrow>
        sn_versionNumber q = sn_versionNumber s - 1"
      by blast
    with Some \<open>sn_previousSnapshotId s = Some p\<close> show ?thesis
      by (simp add: snapshot_issues_def Let_def)
  qed
qed

lemma all_Suc_less: "(\<forall>j < Suc n. P j) \<longleftrightarrow> P 0 \<and> (\<forall>j < n. P (Suc j))"
  by (metis less_Suc_eq_0_disj zero_less_Suc Suc_less_eq)

lemma position_issues_Nil_iff:
  "fst (position_issues m i ss) = [] \<longleftrightarrow>
    (\<forall>j < length ss. fst (snapshot_issues m (i + j) (ss ! j)) = [])"
proof (induction ss arbitrary: i)
  case Nil
  then show ?case by simp
next
  case (Cons s ss)
  have "fst (position_issues m i (s # ss)) = [] \<longleftrightarrow>
      fst (snapshot_issues m i s) = [] \<and> fst (position_issues m (Suc i) ss) = []"
    by (simp split: prod.splits)
  also have "\<dots> \<longleftrightarrow> (\<forall>j < Suc (length ss). fst (snapshot_issues m (i + j) ((s # ss) ! j)) = [])"
    by (simp add: Cons.IH all_Suc_less)
  finally show ?case by simp
qed

text \<open>A pointer structure along which a rank falls has no back edge for the search to find.\<close>

lemma detect_cycle_ranked:
  assumes "\<And>i p. i \<in> set ids \<Longrightarrow> prev i = Some p \<Longrightarrow> p \<in> set ids \<and> (rank p :: int) < rank i"
    and "\<forall>x \<in> inStack. rank i < rank x"
  shows "\<not> fst (detect_cycle ids prev i visited inStack) \<and>
    snd (snd (detect_cycle ids prev i visited inStack)) = inStack"
  using assms
proof (induction ids prev i visited inStack rule: detect_cycle.induct)
  case (1 ids prev i visited inStack)
  have fresh: "i \<notin> inStack" using 1(3) by auto
  show ?case
  proof (cases "i \<in> set ids \<and> prev i \<noteq> None")
    case False
    with fresh show ?thesis
      by (auto simp: detect_cycle.simps [of ids prev i visited inStack] Let_def split: option.splits)
  next
    case True
    then obtain p where p: "i \<in> set ids" "prev i = Some p" by auto
    with 1(2) [OF p] 1(3) have below: "\<forall>x \<in> insert i inStack. rank p < rank x" by fastforce
    then have "p \<notin> insert i inStack" by auto
    show ?thesis
    proof (cases "p \<in> insert i visited")
      case True
      with p fresh \<open>p \<notin> insert i inStack\<close> show ?thesis
        by (auto simp: detect_cycle.simps [of ids prev i visited inStack] Let_def)
    next
      case False
      have IH: "\<not> fst (detect_cycle ids prev p (insert i visited) (insert i inStack)) \<and>
        snd (snd (detect_cycle ids prev p (insert i visited) (insert i inStack))) = insert i inStack"
        by (rule 1(1)) (use p False below 1(2) in auto)
      then obtain v where
        "detect_cycle ids prev p (insert i visited) (insert i inStack) = (False, v, insert i inStack)"
        by (metis prod.collapse)
      with p False fresh show ?thesis
        by (simp add: detect_cycle.simps [of ids prev i visited inStack] Let_def)
    qed
  qed
qed

lemma cycle_issues_ranked:
  assumes "\<And>i p. i \<in> set ids \<Longrightarrow> prev i = Some p \<Longrightarrow> p \<in> set ids \<and> (rank p :: int) < rank i"
  shows "cycle_issues ids prev is visited {} = []"
proof (induction "is" arbitrary: visited)
  case Nil
  then show ?case by simp
next
  case (Cons i "is")
  then show ?case
    using detect_cycle_ranked [of ids prev rank "{}" i visited, OF assms]
    by (auto split: prod.splits)
qed

lemma intact_no_cycle:
  assumes "unique_keys sn_id ss" and "intact ss"
  shows "cycle_issues (map sn_id ss) (prev_of (by_id ss)) is visited {} = []"
proof (rule cycle_issues_ranked [where rank = "\<lambda>i. sn_versionNumber (the (by_id ss i))"])
  fix i p
  assume i: "i \<in> set (map sn_id ss)" and p: "prev_of (by_id ss) i = Some p"
  from i obtain k where k: "k < length ss" "i = sn_id (ss ! k)"
    by (auto simp: in_set_conv_nth)
  then have s: "by_id ss i = Some (ss ! k)" by (simp add: by_id_Some_iff [OF assms(1)])
  with p have "sn_previousSnapshotId (ss ! k) = Some p"
    by (auto simp: prev_of_def split: option.splits dest: nonempty_SomeD)
  moreover from assms(2) k(1) have "case sn_previousSnapshotId (ss ! k) of None \<Rightarrow> True
     | Some p \<Rightarrow> \<exists>q \<in> set ss. sn_id q = p \<and> sn_versionNumber q = sn_versionNumber (ss ! k) - 1"
    unfolding intact_def Let_def by blast
  ultimately obtain q where q: "q \<in> set ss" "sn_id q = p"
    "sn_versionNumber q = sn_versionNumber (ss ! k) - 1"
    by auto
  then have "by_id ss p = Some q" by (simp add: by_id_Some_iff [OF assms(1)])
  with q s show "p \<in> set (map sn_id ss) \<and>
    sn_versionNumber (the (by_id ss p)) < sn_versionNumber (the (by_id ss i))"
    by auto
qed

definition chain_order :: "string \<Rightarrow> string \<Rightarrow> snapshot list \<Rightarrow> snapshot list" where
  "chain_order t org rows = find_asc (of_company t org) sn_sequenceNumber rows"

lemma unique_keys_find_asc: "unique_keys key rows \<Longrightarrow> unique_keys key (find_asc p f rows)"
proof -
  assume "unique_keys key rows"
  then have "distinct rows" and inj: "inj_on key (set rows)"
    by (auto simp: unique_keys_def distinct_map)
  then have "distinct (find_asc p f rows)" by (simp add: find_asc_def)
  moreover from inj have "inj_on key (set (find_asc p f rows))"
    by (rule inj_on_subset) (auto simp: set_find_asc)
  ultimately show ?thesis by (simp add: unique_keys_def distinct_map)
qed

lemma cv_valid_iff:
  assumes "unique_keys sn_id (ss_rows st)"
  shows "cv_valid (validate_chain t org st) \<longleftrightarrow> intact (chain_order t org (ss_rows st))"
proof -
  let ?ss = "chain_order t org (ss_rows st)"
  let ?cycles = "cycle_issues (map sn_id ?ss) (prev_of (by_id ?ss)) (map sn_id ?ss) {} {}"
  have u: "unique_keys sn_id ?ss"
    unfolding chain_order_def by (rule unique_keys_find_asc [OF assms])
  have "cv_valid (validate_chain t org st) \<longleftrightarrow>
      fst (position_issues (by_id ?ss) 0 ?ss) = [] \<and> ?cycles = []"
    by (simp add: validate_chain_def chain_order_def Let_def split: prod.splits)
  moreover have "fst (position_issues (by_id ?ss) 0 ?ss) = [] \<longleftrightarrow> intact ?ss"
    by (simp add: position_issues_Nil_iff snapshot_issues_Nil_iff [OF u] intact_def Let_def)
  ultimately show ?thesis using intact_no_cycle [OF u] by blast
qed

section \<open>What reconstruction produces\<close>

text \<open>The snapshots of the company after reconstruction, in chronological order.\<close>

fun relinked_list ::
  "(string \<Rightarrow> string) \<Rightarrow> string \<Rightarrow> string \<Rightarrow> nat \<Rightarrow> string option \<Rightarrow> snapshot list \<Rightarrow> snapshot list" where
  "relinked_list sha256 t org i prev [] = []"
| "relinked_list sha256 t org i prev (s # ss) =
     (if needs_update prev i s then relinked sha256 t org prev i s else s)
       # relinked_list sha256 t org (Suc i) (Some (sn_id s)) ss"

lemma relinked_simps [simp]:
  "sn_id (relinked h t org p i s) = sn_id s"
  "of_company t' o' (relinked h t org p i s) = of_company t' o' s"
  "sn_fetchedAt (relinked h t org p i s) = sn_fetchedAt s"
  "sn_payloadHash (relinked h t org p i s) = sn_payloadHash s"
  by (simp_all add: relinked_def of_company_def)

lemma length_relinked_list [simp]: "length (relinked_list h t org i prev ss) = length ss"
  by (induction h t org i prev ss rule: relinked_list.induct) simp_all

lemma map_id_relinked_list [simp]: "map sn_id (relinked_list h t org i prev ss) = map sn_id ss"
  by (induction h t org i prev ss rule: relinked_list.induct) simp_all

lemma company_relinked_list:
  "\<forall>s \<in> set ss. of_company t' o' s \<Longrightarrow> \<forall>s \<in> set (relinked_list h t org i prev ss). of_company t' o' s"
  by (induction h t org i prev ss rule: relinked_list.induct) auto

lemma nth_relinked_list:
  "j < length ss \<Longrightarrow>
    let s = relinked_list h t org i prev ss ! j in
      sn_previousSnapshotId s = (if j = 0 then prev else Some (sn_id (ss ! (j - 1)))) \<and>
      sn_versionNumber s = int (i + j) + 1 \<and> sn_sequenceNumber s = int (i + j) + 1 \<and>
      \<not> sn_chainBroken s \<and> sn_fetchedAt s = sn_fetchedAt (ss ! j)"
proof (induction h t org i prev ss arbitrary: j rule: relinked_list.induct)
  case (1 h t org i prev)
  then show ?case by simp
next
  case (2 h t org i prev s ss)
  show ?case
  proof (cases j)
    case 0
    then show ?thesis by (simp add: relinked_def needs_update_def)
  next
    case (Suc k)
    with 2(2) have "k < length ss" by simp
    from 2(1) [OF this] Suc show ?thesis
      by (cases k) (auto simp: Let_def)
  qed
qed

lemma save_same: "unique_keys key t \<Longrightarrow> r \<in> set t \<Longrightarrow> save key r t = t"
  by (induction t) (auto simp: table_simps)

lemma set_relink_loop:
  assumes "unique_keys sn_id rows" and "set ss \<subseteq> set rows" and "unique_keys sn_id ss"
  shows "set (snd (relink_loop h t org i prev ss rows)) =
      set (relinked_list h t org i prev ss) \<union> {x \<in> set rows. sn_id x \<notin> sn_id ` set ss} \<and>
    unique_keys sn_id (snd (relink_loop h t org i prev ss rows))"
  using assms
proof (induction ss arbitrary: i prev rows)
  case Nil
  then show ?case by simp
next
  case (Cons s ss)
  let ?s = "if needs_update prev i s then relinked h t org prev i s else s"
  let ?rows = "save sn_id ?s rows"
  have s: "sn_id ?s = sn_id s" "s \<in> set rows" using Cons.prems(2) by auto
  have other: "\<And>x. x \<in> set rows \<Longrightarrow> sn_id x = sn_id s \<Longrightarrow> x = s"
    using Cons.prems(1) s(2) by (auto dest: unique_keysD)
  have fresh: "\<forall>x \<in> set ss. sn_id x \<noteq> sn_id s" and u: "unique_keys sn_id ss"
    using Cons.prems(3) by (simp_all add: table_simps)
  have u': "unique_keys sn_id ?rows" by (rule unique_keys_save [OF Cons.prems(1)])
  have set': "set ?rows = insert ?s {x \<in> set rows. sn_id x \<noteq> sn_id s}"
    using set_save [OF Cons.prems(1), of ?s] s(1) by simp
  then have sub: "set ss \<subseteq> set ?rows" using Cons.prems(2) fresh by auto
  have step: "snd (relink_loop h t org i prev (s # ss) rows) =
      snd (relink_loop h t org (Suc i) (Some (sn_id s)) ss ?rows)"
    using save_same [OF Cons.prems(1) s(2)] by (simp split: prod.splits)
  have IH: "set (snd (relink_loop h t org (Suc i) (Some (sn_id s)) ss ?rows)) =
      set (relinked_list h t org (Suc i) (Some (sn_id s)) ss) \<union>
      {x \<in> set ?rows. sn_id x \<notin> sn_id ` set ss} \<and>
    unique_keys sn_id (snd (relink_loop h t org (Suc i) (Some (sn_id s)) ss ?rows))"
    by (rule Cons.IH [OF u' sub u])
  have "{x \<in> set ?rows. sn_id x \<notin> sn_id ` set ss} =
      insert ?s {x \<in> set rows. sn_id x \<notin> sn_id ` set (s # ss)}"
    using set' s(1) fresh by auto
  with IH step show ?case by simp
qed

lemma intact_relinked_list:
  assumes "unique_keys sn_id ss"
  shows "intact (relinked_list h t org 0 None ss)"
  unfolding intact_def Let_def
proof (intro allI impI)
  fix i assume "i < length (relinked_list h t org 0 None ss)"
  then have i: "i < length ss" by simp
  let ?R = "relinked_list h t org 0 None ss"
  note pos = nth_relinked_list [OF i, of h t org 0 None, unfolded Let_def]
  have link: "\<exists>q \<in> set ?R. sn_id q = sn_id (ss ! (i - 1)) \<and>
      sn_versionNumber q = sn_versionNumber (?R ! i) - 1" if "i \<noteq> 0"
  proof (intro bexI [of _ "?R ! (i - 1)"] conjI)
    have j: "i - 1 < length ss" using i by simp
    show "sn_id (?R ! (i - 1)) = sn_id (ss ! (i - 1))"
      using j by (metis length_relinked_list map_id_relinked_list nth_map)
    show "sn_versionNumber (?R ! (i - 1)) = sn_versionNumber (?R ! i) - 1"
      using nth_relinked_list [OF j, of h t org 0 None, unfolded Let_def] pos that by simp
    show "?R ! (i - 1) \<in> set ?R" using i by (simp add: less_imp_diff_less)
  qed
  show "\<not> sn_chainBroken (?R ! i) \<and> sn_sequenceNumber (?R ! i) = int i + 1 \<and>
    (case sn_previousSnapshotId (?R ! i) of None \<Rightarrow> True
     | Some p \<Rightarrow> \<exists>q \<in> set ?R. sn_id q = p \<and> sn_versionNumber q = sn_versionNumber (?R ! i) - 1)"
    using pos link by (auto split: option.splits)
qed

lemma sequence_relinked_list:
  "map sn_sequenceNumber (relinked_list h t org 0 None ss) = map (\<lambda>i. int i + 1) [0..<length ss]"
proof (rule nth_equalityI)
  fix i assume "i < length (map sn_sequenceNumber (relinked_list h t org 0 None ss))"
  then have "i < length ss" by simp
  from nth_relinked_list [OF this, of h t org 0 None]
  show "map sn_sequenceNumber (relinked_list h t org 0 None ss) ! i =
      map (\<lambda>i. int i + 1) [0..<length ss] ! i"
    using \<open>i < length ss\<close> by (simp add: Let_def)
qed simp

lemma sorted_numbers: "sorted (map (\<lambda>i. int i + 1) [0..<n]) \<and> distinct (map (\<lambda>i. int i + 1) [0..<n])"
  by (auto simp: distinct_map inj_on_def sorted_iff_nth_mono)

lemma chronological_unique:
  "unique_keys sn_id rows \<Longrightarrow> unique_keys sn_id (find_asc (of_company t org) sn_fetchedAt rows)"
  by (rule unique_keys_find_asc)

lemma set_reconstruct_rows:
  fixes t org
  assumes "unique_keys sn_id (ss_rows st)"
  defines "L \<equiv> find_asc (of_company t org) sn_fetchedAt (ss_rows st)"
  shows "set (ss_rows (snd (reconstruct_chain h t org st))) =
      set (relinked_list h t org 0 None L) \<union> {x \<in> set (ss_rows st). \<not> of_company t org x} \<and>
    unique_keys sn_id (ss_rows (snd (reconstruct_chain h t org st)))"
proof (cases "L = []")
  case True
  then have "set (ss_rows st) = {x \<in> set (ss_rows st). \<not> of_company t org x}"
    using set_find_asc [of "of_company t org" sn_fetchedAt "ss_rows st"] by (auto simp: L_def)
  with True assms(1) show ?thesis by (simp add: reconstruct_chain_def L_def)
next
  case False
  have rows: "ss_rows (snd (reconstruct_chain h t org st)) =
      snd (relink_loop h t org 0 None L (ss_rows st))"
    using False by (simp add: reconstruct_chain_def L_def Let_def split: prod.splits)
  have L: "set L = {x \<in> set (ss_rows st). of_company t org x}"
    by (simp add: L_def set_find_asc)
  then have "{x \<in> set (ss_rows st). sn_id x \<notin> sn_id ` set L} =
      {x \<in> set (ss_rows st). \<not> of_company t org x}"
    using assms(1) by (auto dest: unique_keysD)
  with set_relink_loop [of "ss_rows st" L h t org 0 None] show ?thesis
    using assms(1) L unfolding rows
    by (simp add: L_def chronological_unique)
qed

lemma chain_order_reconstruct:
  assumes "unique_keys sn_id (ss_rows st)"
  shows "chain_order t org (ss_rows (snd (reconstruct_chain h t org st))) =
    relinked_list h t org 0 None (find_asc (of_company t org) sn_fetchedAt (ss_rows st))"
proof -
  let ?L = "find_asc (of_company t org) sn_fetchedAt (ss_rows st)"
  let ?R = "relinked_list h t org 0 None ?L"
  let ?C = "chain_order t org (ss_rows (snd (reconstruct_chain h t org st)))"
  have "\<forall>s \<in> set ?R. of_company t org s"
    by (rule company_relinked_list) (simp add: set_find_asc)
  then have set: "set ?C = set ?R"
    using set_reconstruct_rows [OF assms, of h t org] by (auto simp: chain_order_def set_find_asc)
  have R: "sorted (map sn_sequenceNumber ?R)" "distinct (map sn_sequenceNumber ?R)"
    using sorted_numbers by (simp_all add: sequence_relinked_list)
  then have inj: "inj_on sn_sequenceNumber (set ?R)" by (simp add: distinct_map)
  have "unique_keys sn_id ?C"
    using set_reconstruct_rows [OF assms, of h t org] by (simp add: chain_order_def unique_keys_find_asc)
  then have "distinct ?C" by (simp add: unique_keys_def distinct_map)
  then have C: "sorted (map sn_sequenceNumber ?C)" "distinct (map sn_sequenceNumber ?C)"
    using inj by (simp_all add: chain_order_def sorted_find_asc distinct_map set [unfolded chain_order_def])
  show ?thesis
    by (rule map_sorted_distinct_set_unique [of sn_sequenceNumber]) (use inj set R C in auto)
qed

lemma walk_down:
  assumes "k < length ss" and "k < n"
    and "\<And>j. j \<le> k \<Longrightarrow> find_snapshot t (sn_id (ss ! j)) (ss_rows st) = Some (ss ! j)"
    and "\<And>j. j \<le> k \<Longrightarrow> sn_previousSnapshotId (ss ! j) = (if j = 0 then None else Some (sn_id (ss ! (j - 1))))"
    and "distinct (map sn_id ss)" and "\<And>j. j \<le> k \<Longrightarrow> sn_id (ss ! j) \<notin> seen"
  shows "walk_loop n t (Some (sn_id (ss ! k))) seen chain st = (chain @ rev (take (Suc k) ss), st)"
  using assms
proof (induction k arbitrary: n seen chain)
  case 0
  then obtain m where "n = Suc m" by (cases n) auto
  moreover have "walk_loop m t None (insert (sn_id (ss ! 0)) seen) (chain @ [ss ! 0]) st =
      (chain @ [ss ! 0], st)"
    by (cases m) simp_all
  ultimately show ?case
    using 0 by (simp add: take_Suc_conv_app_nth)
next
  case (Suc k)
  then obtain m where m: "n = Suc m" by (cases n) auto
  have ids: "sn_id (ss ! j) \<noteq> sn_id (ss ! Suc k)" if "j \<le> k" for j
    using nth_eq_iff_index_eq [OF Suc.prems(5), of j "Suc k"] Suc.prems(1) that by simp
  have "walk_loop m t (Some (sn_id (ss ! k))) (insert (sn_id (ss ! Suc k)) seen)
      (chain @ [ss ! Suc k]) st = ((chain @ [ss ! Suc k]) @ rev (take (Suc k) ss), st)"
  proof (rule Suc.IH)
    show "k < length ss" "k < m" using Suc.prems(1,2) m by simp_all
    show "distinct (map sn_id ss)" by (rule Suc.prems(5))
    fix j assume "j \<le> k"
    then have j: "j \<le> Suc k" by simp
    show "find_snapshot t (sn_id (ss ! j)) (ss_rows st) = Some (ss ! j)" by (rule Suc.prems(3) [OF j])
    show "sn_previousSnapshotId (ss ! j) = (if j = 0 then None else Some (sn_id (ss ! (j - 1))))"
      by (rule Suc.prems(4) [OF j])
    show "sn_id (ss ! j) \<notin> insert (sn_id (ss ! Suc k)) seen"
      using ids [OF \<open>j \<le> k\<close>] Suc.prems(6) [OF j] by simp
  qed
  with m Suc.prems(3) [of "Suc k"] Suc.prems(4) [of "Suc k"] Suc.prems(6) [of "Suc k"] Suc.prems(1)
  show ?case by (simp add: take_Suc_conv_app_nth [of "Suc k"])
qed


section \<open>Sample data\<close>

definition sample_snapshot :: "string \<Rightarrow> int \<Rightarrow> string option \<Rightarrow> int \<Rightarrow> snapshot" where
  "sample_snapshot i fetched prev n =
     \<lparr>sn_id = i, sn_tenantId = ''t1'', sn_organisationId = None,
      sn_organisationsnummer = ''5560000001'', sn_sourceName = ''bolagsverket'',
      sn_identifierUsed = ''5560000001'', sn_identifierType = ''legal_entity'',
      sn_fetchStatus = ''success'', sn_isFromCache = False, sn_cacheHitReason = None,
      sn_payloadHash = None, sn_rawPayloadSummary = [], sn_normalisedSummary = [],
      sn_errorMessage = None, sn_fetchedAt = fetched, sn_apiCallCount = 1,
      sn_dataFreshnessDays = None, sn_correlationId = None, sn_actorId = None,
      sn_policyDecision = FreshFetch, sn_costImpactFlags = [], sn_isStaleFallback = False,
      sn_rawPayloadId = None, sn_previousSnapshotId = prev, sn_versionNumber = n,
      sn_sequenceNumber = n, sn_replayId = None, sn_chainBroken = False\<rparr>"

definition sample_store :: "snapshot list \<Rightarrow> snapshot_store" where
  "sample_store rows = \<lparr>ss_rows = rows, ss_audit = empty_audit\<rparr>"

section \<open>Properties\<close>

text \<open>Every walk over the version chain, from any start and over any table, broken
  or cyclic ones included, ends within \<open>maxSteps\<close> snapshots, never returns a snapshot twice,
  returns the snapshots of the tenant only, and each one returned is the predecessor the one
  before it names.\<close>

theorem walk_chain_sound:
  "linked (fst (walk_chain t i n st)) \<and> distinct (map sn_id (fst (walk_chain t i n st))) \<and>
   sn_tenantId ` set (fst (walk_chain t i n st)) \<subseteq> {t} \<and>
   length (fst (walk_chain t i n st)) \<le> n"
proof -
  have "walk_inv t (Some i) {} []" by (simp add: walk_inv_def)
  from walk_loop_inv [OF this, of n st] show ?thesis
    by (auto simp: walk_chain_def)
qed

text \<open>C1: \<open>validateChain\<close> decides chain integrity exactly: it answers valid if and only
  if, in the order of the sequence numbers, the company's snapshots are numbered from 1 without
  gaps, none is flagged as broken, and every previous pointer leads to a snapshot of the same
  company whose version is one lower. In particular its cycle search raises no issue of its own
  on a chain that passes the other checks.\<close>

theorem validate_chain_iff_intact:
  assumes "unique_keys sn_id (ss_rows st)"
  shows "cv_valid (validate_chain t org st) =
    intact (find_asc (of_company t org) sn_sequenceNumber (ss_rows st))"
  using cv_valid_iff [OF assms] by (simp add: chain_order_def)

theorem validate_chain_iff_intact_witness:
  "cv_valid (validate_chain ''t1'' ''5560000001''
     (sample_store [sample_snapshot ''a'' 10 None 1, sample_snapshot ''b'' 20 (Some ''a'') 2]))"
proof -
  have u: "unique_keys sn_id
      (ss_rows (sample_store [sample_snapshot ''a'' 10 None 1, sample_snapshot ''b'' 20 (Some ''a'') 2]))"
    by (simp add: unique_keys_def sample_store_def sample_snapshot_def)
  show ?thesis
    unfolding validate_chain_iff_intact [OF u]
    by (simp add: sample_store_def sample_snapshot_def find_asc_def of_company_def intact_def
        All_less_Suc less_Suc_eq nth_Cons' Let_def)
qed

text \<open>C2: After \<open>reconstructChain\<close>, whatever state the company's chain was in,
  \<open>validateChain\<close> finds it valid; its chain order is the chronological order of the fetches, and
  the rows of other companies and tenants are exactly those there were.\<close>

theorem reconstruct_chain_repairs:
  assumes "unique_keys sn_id (ss_rows st)"
  shows "let st' = snd (reconstruct_chain h t org st) in
    cv_valid (validate_chain t org st') \<and>
    map sn_id (find_asc (of_company t org) sn_sequenceNumber (ss_rows st')) =
      map sn_id (find_asc (of_company t org) sn_fetchedAt (ss_rows st)) \<and>
    {s \<in> set (ss_rows st'). \<not> of_company t org s} = {s \<in> set (ss_rows st). \<not> of_company t org s}"
proof -
  let ?st = "snd (reconstruct_chain h t org st)"
  let ?L = "find_asc (of_company t org) sn_fetchedAt (ss_rows st)"
  note rows = set_reconstruct_rows [OF assms, of h t org]
  note order = chain_order_reconstruct [OF assms, of t org h]
  have "cv_valid (validate_chain t org ?st)"
    using rows intact_relinked_list [OF chronological_unique [OF assms], of h t org]
    by (simp add: cv_valid_iff order)
  moreover have "\<forall>s \<in> set (relinked_list h t org 0 None ?L). of_company t org s"
    by (rule company_relinked_list) (simp add: set_find_asc)
  ultimately show ?thesis
    using rows order by (auto simp: chain_order_def Let_def)
qed

theorem reconstruct_chain_repairs_witness:
  "cv_valid (validate_chain ''t1'' ''5560000001'' (snd (reconstruct_chain (\<lambda>s. s) ''t1'' ''5560000001''
     (sample_store [sample_snapshot ''b'' 20 (Some ''gone'') 7, sample_snapshot ''a'' 10 (Some ''b'') 7]))))"
  by (rule reconstruct_chain_repairs [unfolded Let_def, THEN conjunct1])
    (simp add: unique_keys_def sample_store_def sample_snapshot_def)

text \<open>After \<open>reconstructChain\<close>, a walk from the newest fetch of the company with enough
  steps returns the company's whole history, newest first, ends at the root and flags nothing.\<close>

theorem reconstruct_then_walk:
  fixes t org
  assumes "unique_keys sn_id (ss_rows st)"
    and "\<exists>s \<in> set (ss_rows st). of_company t org s"
    and "count_where (of_company t org) (ss_rows st) \<le> n"
  shows "let st' = snd (reconstruct_chain h t org st);
      history = find_asc (of_company t org) sn_sequenceNumber (ss_rows st')
    in walk_chain t (sn_id (last history)) n st' = (rev history, st')"
proof -
  let ?st = "snd (reconstruct_chain h t org st)"
  let ?L = "find_asc (of_company t org) sn_fetchedAt (ss_rows st)"
  let ?R = "relinked_list h t org 0 None ?L"
  have hist: "find_asc (of_company t org) sn_sequenceNumber (ss_rows ?st) = ?R"
    using chain_order_reconstruct [OF assms(1)] by (simp add: chain_order_def)
  have "set ?L \<noteq> {}" using assms(2) by (auto simp: set_find_asc)
  then have len: "0 < length ?L" by simp
  have n: "length ?L \<le> n" using assms(3) by (simp add: count_where_def find_asc_def)
  have u: "unique_keys sn_id (ss_rows ?st)" and mem: "set ?R \<subseteq> set (ss_rows ?st)"
    using set_reconstruct_rows [OF assms(1), of h t org] by auto
  have company: "\<forall>s \<in> set ?R. of_company t org s"
    by (rule company_relinked_list) (simp add: set_find_asc)
  let ?k = "length ?L - 1"
  have ids: "distinct (map sn_id ?R)"
    using chronological_unique [OF assms(1), of t org] by (simp add: unique_keys_def)
  have "walk_loop n t (Some (sn_id (?R ! ?k))) {} [] ?st = ([] @ rev (take (Suc ?k) ?R), ?st)"
  proof (rule walk_down [OF _ _ _ _ ids])
    show "?k < length ?R" using len by simp
    show "?k < n" using len n by linarith
    fix j assume "j \<le> ?k"
    then have j: "j < length ?L" using len by linarith
    then have "?R ! j \<in> set ?R" by simp
    then show "find_snapshot t (sn_id (?R ! j)) (ss_rows ?st) = Some (?R ! j)"
      unfolding find_snapshot_def
      using mem u company by (intro find_one_unique) (auto simp: of_company_def dest: unique_keysD)
    have "sn_id (?R ! (j - 1)) = sn_id (?L ! (j - 1))"
      using j by (metis length_relinked_list less_imp_diff_less map_id_relinked_list nth_map)
    with nth_relinked_list [OF j, of h t org 0 None]
    show "sn_previousSnapshotId (?R ! j) = (if j = 0 then None else Some (sn_id (?R ! (j - 1))))"
      by (simp add: Let_def)
  qed simp
  moreover have "last ?R = ?R ! ?k"
    using len by (simp add: last_conv_nth flip: length_greater_0_conv)
  ultimately show ?thesis
    using len unfolding Let_def hist walk_chain_def by simp
qed

theorem reconstruct_then_walk_witness:
  "let st = sample_store [sample_snapshot ''b'' 20 None 1, sample_snapshot ''a'' 10 None 1];
       st' = snd (reconstruct_chain (\<lambda>s. s) ''t1'' ''5560000001'' st);
       history = find_asc (of_company ''t1'' ''5560000001'') sn_sequenceNumber (ss_rows st')
   in walk_chain ''t1'' (sn_id (last history)) 2 st' = (rev history, st')"
  unfolding Let_def
  by (rule reconstruct_then_walk [unfolded Let_def])
    (simp_all add: unique_keys_def sample_store_def sample_snapshot_def of_company_def count_where_def)

text \<open>\<open>linkSnapshot\<close> reads the newest snapshot of the company, which is the new snapshot
  itself once it is stored with the latest fetch time; it then links to nothing and restarts the
  version numbers at 1, although older snapshots of the company exist.\<close>

theorem link_newest_restarts_chain:
  assumes "find_snapshot t i (ss_rows st) = Some s" and "of_company t org s"
    and "\<forall>x \<in> set (ss_rows st). of_company t org x \<and> x \<noteq> s \<longrightarrow> sn_fetchedAt x < sn_fetchedAt s"
  shows "\<exists>r. fst (link_snapshot sha256 t i org st) = Inr r \<and>
    sn_previousSnapshotId r = None \<and> sn_versionNumber r = 1 \<and> sn_sequenceNumber r = 1 \<and>
    ss_rows (snd (link_snapshot sha256 t i org st)) = save sn_id r (ss_rows st)"
proof -
  note s = find_snapshot_SomeD [OF assms(1)]
  have "newest_snapshot t org (ss_rows st) = Some s"
    by (rule newest_snapshot_eqI) (use s assms in auto)
  with link_snapshot_unfold [OF assms(1), of sha256 org] s show ?thesis by auto
qed

theorem link_newest_restarts_chain_witness:
  "\<exists>r. fst (link_snapshot (\<lambda>s. s) ''t1'' ''b'' ''5560000001''
      (sample_store [sample_snapshot ''a'' 10 None 1, sample_snapshot ''b'' 20 None 1])) = Inr r \<and>
    sn_previousSnapshotId r = None \<and> sn_versionNumber r = 1"
  using link_newest_restarts_chain [of "''t1''" "''b''"
      "sample_store [sample_snapshot ''a'' 10 None 1, sample_snapshot ''b'' 20 None 1]"
      "sample_snapshot ''b'' 20 None 1" "''5560000001''" "\<lambda>s. s"]
  by (auto simp: sample_store_def sample_snapshot_def find_snapshot_def of_company_def table_simps)

text \<open>When the newest snapshot of the company is another one, \<open>linkSnapshot\<close> makes it the
  predecessor and gives the new snapshot the next version; no other row of the table changes.\<close>

theorem link_snapshot_extends:
  assumes "unique_keys sn_id (ss_rows st)"
    and "find_snapshot t i (ss_rows st) = Some s"
    and "newest_snapshot t org (ss_rows st) = Some p" and "sn_id p \<noteq> i"
  shows "\<exists>r. fst (link_snapshot sha256 t i org st) = Inr r \<and> sn_id r = i \<and>
    sn_previousSnapshotId r = Some (sn_id p) \<and> sn_versionNumber r = sn_versionNumber p + 1 \<and>
    (\<forall>j. find_key sn_id j (ss_rows (snd (link_snapshot sha256 t i org st))) =
       (if j = i then Some r else find_key sn_id j (ss_rows st)))"
proof -
  note s = find_snapshot_SomeD [OF assms(2)]
  from link_snapshot_unfold [OF assms(2), of sha256 org] assms(3,4) s show ?thesis
    by (auto simp: snapshot_rows.lookup_put)
qed

theorem link_snapshot_extends_witness:
  "\<exists>r. fst (link_snapshot (\<lambda>s. s) ''t1'' ''b'' ''5560000001''
      (sample_store [sample_snapshot ''a'' 30 None 4, sample_snapshot ''b'' 20 None 1])) = Inr r \<and>
    sn_previousSnapshotId r = Some ''a'' \<and> sn_versionNumber r = 5"
  using link_snapshot_extends [of "sample_store [sample_snapshot ''a'' 30 None 4,
        sample_snapshot ''b'' 20 None 1]" "''t1''" "''b''" "sample_snapshot ''b'' 20 None 1"
      "''5560000001''" "sample_snapshot ''a'' 30 None 4" "\<lambda>s. s"]
  by (auto simp: sample_store_def sample_snapshot_def find_snapshot_def of_company_def table_simps
      unique_keys_def newest_snapshot_def find_latest_def find_desc_def)

end
