(* ===== verification/SnapshotComparison.thy ===== *)
theory SnapshotComparison
  imports SnapshotChain JsonText
begin

text \<open>
  \<open>SnapshotComparisonService\<close> (backend/src/companies/services/snapshot-comparison.service.ts)
  with the change event table (backend/src/companies/entities/company-change-event.entity.ts)
  and \<open>DecisionRefreshTriggerService.enqueue\<close>
  (backend/src/companies/services/decision-refresh-trigger.service.ts): the attribute
  differences of two snapshots, how they are recorded, and the refresh jobs they start. The
  job queue is the list of the jobs handed to it.
\<close>

section \<open>State\<close>

datatype change_type = ADDED | MODIFIED | REMOVED | UNCHANGED | UNKNOWN

record change_event =
  ce_tenantId :: string
  ce_orgNumber :: string
  ce_snapshotIdBefore :: "string option"
  ce_snapshotIdAfter :: string
  ce_attributeName :: string
  ce_oldValue :: "string option"
  ce_newValue :: "string option"
  ce_changeType :: change_type
  ce_correlationId :: "string option"
  ce_actorId :: "string option"

record attribute_change =
  ac_attributeName :: string
  ac_oldValue :: "int json option"
  ac_newValue :: "int json option"
  ac_changeType :: change_type

record comparison_result =
  cmp_snapshotIdBefore :: "string option"
  cmp_snapshotIdAfter :: string
  cmp_orgNumber :: string
  cmp_tenantId :: string
  cmp_changes :: "attribute_change list"
  cmp_success :: bool
  cmp_errorMessage :: "string option"

record batch_comparison_input =
  bi_tenantId :: string
  bi_snapshotIdAfter :: string
  bi_snapshotIdBefore :: "string option"

datatype refresh_reason = SignalRecompute | OwnershipChange | FilingsChange

record refresh_job =
  rj_tenantId :: string
  rj_organisationNumber :: string
  rj_reason :: refresh_reason
  rj_triggerId :: string

text \<open>
  The tables, the audit log and the queue. The error fields hold the message of the database
  driver while a table cannot be reached.
\<close>

record comparison_store =
  cs_snapshots :: "snapshot list"
  cs_snapshots_err :: "string option"
  cs_events :: "change_event list"
  cs_events_err :: "string option"
  cs_audit :: audit_store
  cs_queue :: "(string \<times> refresh_job) list"

section \<open>Equality of values\<close>

fun sorted_keys :: "int json \<Rightarrow> int json" where
  "sorted_keys (JArr xs) = JArr (map sorted_keys xs)"
| "sorted_keys (JObj ms) =
     JObj (enumerated (sort_key fst (map (\<lambda>(k, v). (k, sorted_keys v)) ms)))"
| "sorted_keys v = v"

fun type_of :: "'n json \<Rightarrow> string" where
  "type_of (JBool b) = ''boolean''"
| "type_of (JNum i) = ''number''"
| "type_of (JStr s) = ''string''"
| "type_of v = ''object''"

fun primitive :: "'n json \<Rightarrow> bool" where
  "primitive (JArr xs) = False"
| "primitive (JObj ms) = False"
| "primitive v = True"

text \<open>
  \<open>===\<close> on primitive values; two objects that are one reference have equal texts, so that
  test of the code adds nothing to the last one.
\<close>

definition deep_equal :: "int json \<Rightarrow> int json \<Rightarrow> bool" where
  "deep_equal a b =
     (if primitive a \<and> a = b then True
      else if a = JNull \<or> b = JNull then False
      else if type_of a \<noteq> type_of b then False
      else if type_of a \<noteq> ''object'' then False
      else stringify (sorted_keys a) = stringify (sorted_keys b))"

section \<open>Attributes and their differences\<close>

definition full_key :: "string \<Rightarrow> string \<Rightarrow> string" where
  "full_key pre key = (if pre = [] then key else pre @ ''.'' @ key)"

lemma members_size: "size_list (\<lambda>m. size (snd m)) ms < Suc (Suc (size_list (\<lambda>m. Suc (size (snd m))) ms + n))"
  using size_list_pointwise [of ms "\<lambda>m. size (snd m)" "\<lambda>m. Suc (size (snd m))"] by simp

function flatten_into :: "string \<Rightarrow> int members \<Rightarrow> int members \<Rightarrow> int members" where
  "flatten_into pre [] result = result"
| "flatten_into pre ((key, value) # ms) result =
     flatten_into pre ms
       (case value of
          JObj nested \<Rightarrow> spread result (flatten_into (full_key pre key) nested [])
        | _ \<Rightarrow> put_member (full_key pre key) value result)"
  by pat_completeness auto

termination flatten_into
  by (relation "measure (\<lambda>(pre, ms, result). size_list (\<lambda>m. size (snd m)) ms)") 
    (auto simp: size_prod_simp members_size)

definition flatten_attributes :: "int members \<Rightarrow> int members" where
  "flatten_attributes obj = flatten_into [] obj []"

definition attribute_change_of ::
  "(int json \<Rightarrow> int json \<Rightarrow> bool) \<Rightarrow> int members \<Rightarrow> int members \<Rightarrow> string \<Rightarrow> attribute_change" where
  "attribute_change_of eq before after key =
     (case (map_of before key, map_of after key) of
        (None, new) \<Rightarrow>
          \<lparr>ac_attributeName = key, ac_oldValue = None, ac_newValue = new, ac_changeType = ADDED\<rparr>
      | (Some old, None) \<Rightarrow>
          \<lparr>ac_attributeName = key, ac_oldValue = Some old, ac_newValue = None,
           ac_changeType = REMOVED\<rparr>
      | (Some old, Some new) \<Rightarrow>
          \<lparr>ac_attributeName = key, ac_oldValue = Some old, ac_newValue = Some new,
           ac_changeType = (if eq old new then UNCHANGED else MODIFIED)\<rparr>)"

text \<open>\<open>new Set([...before.keys(), ...after.keys()])\<close> in insertion order.\<close>

definition all_keys :: "'v members \<Rightarrow> 'v members \<Rightarrow> string list" where
  "all_keys before after =
     map fst before @ filter (\<lambda>k. k \<notin> fst ` set before) (map fst after)"

definition diff_by ::
  "(int json \<Rightarrow> int json \<Rightarrow> bool) \<Rightarrow> int members \<Rightarrow> int members \<Rightarrow> attribute_change list" where
  "diff_by eq before after = map (attribute_change_of eq before after) (all_keys before after)"

definition diff_attributes :: "int members \<Rightarrow> int members \<Rightarrow> attribute_change list" where
  "diff_attributes = diff_by deep_equal"

section \<open>Comparing two snapshots\<close>

definition ownership_words :: "string list" where
  "ownership_words =
     [''owner'', ''ownership'', ''beneficial'', ''verklig'', ''huvudman'', ''control'']"

definition filings_words :: "string list" where
  "filings_words = [''arende'', ''dokument'', ''document'', ''filing'', ''status'', ''snapshot'',
     ''registrering'']"

text \<open>A case-insensitive alternative of words (\<open>/(a|b)/i\<close>) on the changed attributes.\<close>

definition any_changed :: "string list \<Rightarrow> attribute_change list \<Rightarrow> bool" where
  "any_changed words changes \<longleftrightarrow>
     (\<exists>c \<in> set changes. ac_changeType c \<noteq> UNCHANGED \<and>
        (\<exists>w \<in> set words. has_sub w (to_lower (ac_attributeName c))))"

definition reason_text :: "refresh_reason \<Rightarrow> string" where
  "reason_text r = (case r of
     SignalRecompute \<Rightarrow> ''signal_recompute'' | OwnershipChange \<Rightarrow> ''ownership_change''
   | FilingsChange \<Rightarrow> ''filings_change'')"

definition enqueue ::
  "refresh_job \<Rightarrow> (string \<times> refresh_job) list \<Rightarrow> (string \<times> refresh_job) list" where
  "enqueue payload queue =
     (let org = digits_only (rj_organisationNumber payload)
      in if length org \<noteq> 10 \<and> length org \<noteq> 12 then queue
         else (let jobId = map (\<lambda>c. if c = CHR '':'' then CHR ''-'' else c)
                 (''dr-'' @ rj_tenantId payload @ ''-'' @ org @ ''-'' @
                  reason_text (rj_reason payload) @ ''-'' @ rj_triggerId payload)
               in queue @ [(jobId, payload\<lparr>rj_organisationNumber := org\<rparr>)]))"

definition change_event_of ::
  "string \<Rightarrow> snapshot \<Rightarrow> string option \<Rightarrow> string \<Rightarrow> attribute_change \<Rightarrow> change_event" where
  "change_event_of tenantId afterSnap snapshotIdBefore snapshotIdAfter change =
     \<lparr>ce_tenantId = tenantId,
      ce_orgNumber = sn_organisationsnummer afterSnap,
      ce_snapshotIdBefore = snapshotIdBefore,
      ce_snapshotIdAfter = snapshotIdAfter,
      ce_attributeName = ac_attributeName change,
      ce_oldValue = map_option stringify (ac_oldValue change),
      ce_newValue = map_option stringify (ac_newValue change),
      ce_changeType = ac_changeType change,
      ce_correlationId = sn_correlationId afterSnap,
      ce_actorId = sn_actorId afterSnap\<rparr>"

definition count_changes :: "change_type \<Rightarrow> attribute_change list \<Rightarrow> rat json" where
  "count_changes t changes = JNum (of_nat (count_where (\<lambda>c. ac_changeType c = t) changes))"

definition comparison_audit ::
  "snapshot \<Rightarrow> string option \<Rightarrow> attribute_change list \<Rightarrow> create_audit_log_input" where
  "comparison_audit afterSnap snapshotIdBefore changes =
     \<lparr>al_tenantId = sn_tenantId afterSnap, al_actorId = sn_actorId afterSnap,
      al_action = ''snapshot.comparison_completed'', al_resourceType = ''bv_fetch_snapshot'',
      al_resourceId = sn_id afterSnap,
      al_metadata = Some
        [(''snapshotIdBefore'', json_str snapshotIdBefore),
         (''organisationsnummer'', JStr (sn_organisationsnummer afterSnap)),
         (''added'', count_changes ADDED changes),
         (''modified'', count_changes MODIFIED changes),
         (''removed'', count_changes REMOVED changes),
         (''unchanged'', count_changes UNCHANGED changes),
         (''total'', JNum (of_nat (length changes)))]\<rparr>"

definition load_snapshot ::
  "string \<Rightarrow> string \<Rightarrow> string \<Rightarrow> comparison_store \<Rightarrow> snapshot result" where
  "load_snapshot kind tenantId i st =
     (case cs_snapshots_err st of
        Some e \<Rightarrow> Inl (Failure e)
      | None \<Rightarrow>
          (case find_snapshot tenantId i (cs_snapshots st) of
             None \<Rightarrow> Inl (Failure (''[P02-T08] '' @ kind @ ''-snapshot not found: id='' @ i @
               '' tenant='' @ tenantId))
           | Some s \<Rightarrow> Inr s))"

definition trigger_refresh ::
  "string \<Rightarrow> snapshot \<Rightarrow> string \<Rightarrow> attribute_change list \<Rightarrow>
   (string \<times> refresh_job) list \<Rightarrow> (string \<times> refresh_job) list" where
  "trigger_refresh tenantId afterSnap snapshotIdAfter changes queue =
     (let job = (\<lambda>reason. \<lparr>rj_tenantId = tenantId,
            rj_organisationNumber = sn_organisationsnummer afterSnap,
            rj_reason = reason, rj_triggerId = snapshotIdAfter\<rparr>);
          q1 = (if any_changed ownership_words changes
                then enqueue (job OwnershipChange) queue else queue)
      in (if any_changed filings_words changes then enqueue (job FilingsChange) q1 else q1))"

definition before_attributes ::
  "string \<Rightarrow> string option \<Rightarrow> comparison_store \<Rightarrow> int members result" where
  "before_attributes tenantId snapshotIdBefore st =
     (case snapshotIdBefore of
        None \<Rightarrow> Inr []
      | Some b \<Rightarrow>
          (if b = [] then Inr []
           else (case load_snapshot ''Before'' tenantId b st of
               Inl e \<Rightarrow> Inl e
             | Inr s \<Rightarrow> Inr (flatten_attributes (sn_normalisedSummary s)))))"

definition do_compare ::
  "string \<Rightarrow> string \<Rightarrow> string option \<Rightarrow> comparison_store \<Rightarrow>
   comparison_result result \<times> comparison_store" where
  "do_compare tenantId snapshotIdAfter snapshotIdBefore st =
     (case load_snapshot ''After'' tenantId snapshotIdAfter st of
        Inl e \<Rightarrow> (Inl e, st)
      | Inr afterSnap \<Rightarrow>
          (case before_attributes tenantId snapshotIdBefore st of
             Inl e \<Rightarrow> (Inl e, st)
           | Inr beforeAttrs \<Rightarrow>
               (let afterAttrs = flatten_attributes (sn_normalisedSummary afterSnap);
                    changes = diff_attributes beforeAttrs afterAttrs;
                    events = map (change_event_of tenantId afterSnap snapshotIdBefore
                      snapshotIdAfter) changes
                in case (events, cs_events_err st) of
                     (_ # _, Some e) \<Rightarrow> (Inl (Failure e), st)
                   | _ \<Rightarrow>
                       (Inr \<lparr>cmp_snapshotIdBefore = snapshotIdBefore,
                          cmp_snapshotIdAfter = snapshotIdAfter,
                          cmp_orgNumber = sn_organisationsnummer afterSnap,
                          cmp_tenantId = tenantId, cmp_changes = changes, cmp_success = True,
                          cmp_errorMessage = None\<rparr>,
                        st\<lparr>cs_events := cs_events st @ events,
                           cs_audit := audit_log (comparison_audit afterSnap snapshotIdBefore
                             changes) (cs_audit st),
                           cs_queue := trigger_refresh tenantId afterSnap snapshotIdAfter
                             changes (cs_queue st)\<rparr>))))"

definition unknown_event ::
  "string \<Rightarrow> string \<Rightarrow> string option \<Rightarrow> string \<Rightarrow> comparison_store \<Rightarrow> change_event" where
  "unknown_event tenantId snapshotIdAfter snapshotIdBefore errorMessage st =
     (let afterSnap = (case load_snapshot ''After'' tenantId snapshotIdAfter st of
            Inl e \<Rightarrow> None | Inr s \<Rightarrow> Some s)
      in \<lparr>ce_tenantId = tenantId,
          ce_orgNumber = or_default (map_option sn_organisationsnummer afterSnap) [],
          ce_snapshotIdBefore = snapshotIdBefore,
          ce_snapshotIdAfter = snapshotIdAfter,
          ce_attributeName = ''__comparison_failure__'',
          ce_oldValue = None,
          ce_newValue = Some (stringify (JObj [(''error'', JStr errorMessage)])),
          ce_changeType = UNKNOWN,
          ce_correlationId = Option.bind afterSnap sn_correlationId,
          ce_actorId = Option.bind afterSnap sn_actorId\<rparr>)"

fun message_of :: "http_error \<Rightarrow> string" where
  "message_of (BadRequest m) = m"
| "message_of (Unauthorized m) = m"
| "message_of (Forbidden m) = m"
| "message_of (NotFound m) = m"
| "message_of (Conflict m) = m"
| "message_of (TooManyRequests m) = m"
| "message_of (InternalError m) = m"
| "message_of (Failure m) = m"

definition compare_snapshots ::
  "string \<Rightarrow> string \<Rightarrow> string option \<Rightarrow> comparison_store \<Rightarrow>
   comparison_result \<times> comparison_store" where
  "compare_snapshots tenantId snapshotIdAfter snapshotIdBefore st =
     (case do_compare tenantId snapshotIdAfter snapshotIdBefore st of
        (Inr r, st') \<Rightarrow> (r, st')
      | (Inl err, st') \<Rightarrow>
          (\<lparr>cmp_snapshotIdBefore = snapshotIdBefore, cmp_snapshotIdAfter = snapshotIdAfter,
            cmp_orgNumber = [], cmp_tenantId = tenantId, cmp_changes = [],
            cmp_success = False, cmp_errorMessage = Some (message_of err)\<rparr>,
           (case cs_events_err st' of
              None \<Rightarrow> st'\<lparr>cs_events := cs_events st' @
                [unknown_event tenantId snapshotIdAfter snapshotIdBefore (message_of err) st']\<rparr>
            | Some _ \<Rightarrow> st')))"

fun compare_batch ::
  "batch_comparison_input list \<Rightarrow> comparison_store \<Rightarrow> comparison_result list \<times> comparison_store"
where
  "compare_batch [] st = ([], st)"
| "compare_batch (i # is) st =
     (let (r, st1) = compare_snapshots (bi_tenantId i) (bi_snapshotIdAfter i)
            (bi_snapshotIdBefore i) st;
          (rs, st2) = compare_batch is st1
      in (r # rs, st2))"

section \<open>What the equality decides\<close>

lemma deep_equal_sorted: "deep_equal a b \<longleftrightarrow> sorted_keys a = sorted_keys b"
  by (cases a; cases b) (auto simp: deep_equal_def stringify_inject simp del: stringify.simps)

text \<open>
  The specification: equal primitives, arrays equal element by element, objects with the same
  members in any order.
\<close>

function same_value :: "int json \<Rightarrow> int json \<Rightarrow> bool" where
  "same_value a b =
     (case (a, b) of
        (JArr xs, JArr ys) \<Rightarrow>
          length xs = length ys \<and> (\<forall>(x, y) \<in> set (zip xs ys). same_value x y)
      | (JObj ms, JObj ns) \<Rightarrow>
          fst ` set ms = fst ` set ns \<and>
          (\<forall>(k, v) \<in> set ms. \<forall>(l, w) \<in> set ns. k = l \<longrightarrow> same_value v w)
      | _ \<Rightarrow> a = b)"
  by pat_completeness auto

lemma size_member: "(k, v) \<in> set ms \<Longrightarrow> size v < Suc (size_list (size_prod (\<lambda>_. 0) size) ms)"
  by (induction ms) auto

termination same_value
  by (relation "measure (\<lambda>(a, b). size a)")
    (auto dest!: set_zip_leftD dest: size_member simp: size_list_estimation' less_Suc_eq_le)

declare same_value.simps [simp del]

fun wf_json :: "int json \<Rightarrow> bool" where
  "wf_json (JArr xs) = (\<forall>x \<in> set xs. wf_json x)"
| "wf_json (JObj ms) = (distinct (map fst ms) \<and> (\<forall>(k, v) \<in> set ms. wf_json v))"
| "wf_json v = True"

lemma set_enumerated [simp]: "set (enumerated ms) = set ms"
  by (auto simp: enumerated_def)

lemma sort_members_eq:
  fixes ms ns :: "(string \<times> 'v) list"
  assumes "distinct (map fst ms)" "distinct (map fst ns)" "set ms = set ns"
  shows "sort_key fst ms = sort_key fst ns"
proof (rule map_sorted_distinct_set_unique [of fst])
  show "inj_on fst (set (sort_key fst ms) \<union> set (sort_key fst ns))"
    using assms by (simp add: distinct_map)
qed (use assms in \<open>simp_all add: distinct_map\<close>)

lemma enumerated_sorted_eq_iff:
  fixes ms ns :: "(string \<times> 'v) list"
  assumes "distinct (map fst ms)" "distinct (map fst ns)"
  shows "enumerated (sort_key fst ms) = enumerated (sort_key fst ns) \<longleftrightarrow> set ms = set ns"
  using sort_members_eq [OF assms] set_enumerated [of "sort_key fst ms"]
    set_enumerated [of "sort_key fst ns"] by (metis set_sort)

lemma mapped_members_eq_iff:
  assumes "distinct (map fst ms)" "distinct (map fst ns)"
  shows "(\<lambda>(k, v). (k, f v)) ` set ms = (\<lambda>(k, v). (k, f v)) ` set ns \<longleftrightarrow>
    fst ` set ms = fst ` set ns \<and> (\<forall>(k, v) \<in> set ms. \<forall>(l, w) \<in> set ns. k = l \<longrightarrow> f v = f w)"
    (is "?L \<longleftrightarrow> ?R")
proof
  assume L: ?L
  have "fst ` (\<lambda>(k, v). (k, f v)) ` set xs = fst ` set xs" for xs :: "('a \<times> 'b) list"
    by (force simp: image_iff)
  with L have keys: "fst ` set ms = fst ` set ns" by metis
  have "f v = f w" if "(k, v) \<in> set ms" "(k, w) \<in> set ns" for k v w
  proof -
    from that(1) L obtain w' where "(k, w') \<in> set ns" "f v = f w'" by force
    with that(2) assms(2) show ?thesis by (auto dest: eq_key_imp_eq_value)
  qed
  with keys show ?R by auto
next
  assume R: ?R
  have "(k, f v) \<in> (\<lambda>(k, v). (k, f v)) ` set ns" if "(k, v) \<in> set ms" for k v
  proof -
    from R that obtain w where "(k, w) \<in> set ns" by (metis (no_types, lifting) fst_conv image_iff prod.collapse)
    with R that show ?thesis by force
  qed
  moreover have "(k, f v) \<in> (\<lambda>(k, v). (k, f v)) ` set ms" if "(k, v) \<in> set ns" for k v
  proof -
    from R that obtain w where "(k, w) \<in> set ms" by (metis (no_types, lifting) fst_conv image_iff prod.collapse)
    with R that show ?thesis by force
  qed
  ultimately show ?L by auto
qed

lemma sorted_keys_obj_eq:
  assumes "wf_json (JObj ms)" "wf_json (JObj ns)"
  shows "sorted_keys (JObj ms) = sorted_keys (JObj ns) \<longleftrightarrow>
    fst ` set ms = fst ` set ns \<and>
    (\<forall>(k, v) \<in> set ms. \<forall>(l, w) \<in> set ns. k = l \<longrightarrow> sorted_keys v = sorted_keys w)"
proof -
  let ?f = "\<lambda>(k, v). (k, sorted_keys v)"
  have d: "distinct (map fst (map ?f ms))" "distinct (map fst (map ?f ns))"
    using assms by (simp_all add: o_def split_def)
  have "sorted_keys (JObj ms) = sorted_keys (JObj ns) \<longleftrightarrow> ?f ` set ms = ?f ` set ns"
    using enumerated_sorted_eq_iff [OF d] by simp
  also have "\<dots> \<longleftrightarrow> fst ` set ms = fst ` set ns \<and>
    (\<forall>(k, v) \<in> set ms. \<forall>(l, w) \<in> set ns. k = l \<longrightarrow> sorted_keys v = sorted_keys w)"
    using assms by (intro mapped_members_eq_iff) simp_all
  finally show ?thesis .
qed

lemma sorted_keys_arr_eq:
  "sorted_keys (JArr xs) = sorted_keys (JArr ys) \<longleftrightarrow>
    length xs = length ys \<and> (\<forall>(x, y) \<in> set (zip xs ys). sorted_keys x = sorted_keys y)"
proof -
  have "map sorted_keys xs = map sorted_keys ys \<longleftrightarrow> list_all2 (\<lambda>x y. sorted_keys x = sorted_keys y) xs ys"
    by (auto simp: list_all2_conv_all_nth list_eq_iff_nth_eq)
  then show ?thesis by (simp add: list_all2_iff)
qed

lemma members_ball:
  "(\<forall>(k, v) \<in> A. \<forall>(l, w) \<in> B. k = l \<longrightarrow> P v w) \<longleftrightarrow>
    (\<forall>k v w. (k, v) \<in> A \<longrightarrow> (k, w) \<in> B \<longrightarrow> P v w)"
  by auto

lemma sorted_keys_eq_same:
  "wf_json a \<Longrightarrow> wf_json b \<Longrightarrow> sorted_keys a = sorted_keys b \<longleftrightarrow> same_value a b"
proof (induction a b rule: same_value.induct)
  case (1 a b)
  consider (arr) xs ys where "a = JArr xs" "b = JArr ys"
    | (obj) ms ns where "a = JObj ms" "b = JObj ns"
    | (other) "\<not> (\<exists>xs ys. a = JArr xs \<and> b = JArr ys)" "\<not> (\<exists>ms ns. a = JObj ms \<and> b = JObj ns)"
    by blast
  then show ?case
  proof cases
    case arr
    have "(sorted_keys x = sorted_keys y) = same_value x y" if "(x, y) \<in> set (zip xs ys)" for x y
      by (rule 1(1) [OF refl arr that(1) refl])
        (use that(1) arr 1(3,4) in \<open>auto dest: set_zip_leftD set_zip_rightD\<close>)
    then show ?thesis
      unfolding arr sorted_keys_arr_eq same_value.simps [of "JArr xs" "JArr ys"] by auto
  next
    case obj
    have "(sorted_keys v = sorted_keys w) = same_value v w"
      if "(k, v) \<in> set ms" "(k, w) \<in> set ns" for k v w
      by (rule 1(2) [OF refl obj that(1) refl that(2) refl refl]) (use that obj 1(3,4) in auto)
    then have "(\<forall>k v w. (k, v) \<in> set ms \<longrightarrow> (k, w) \<in> set ns \<longrightarrow> sorted_keys v = sorted_keys w) \<longleftrightarrow>
        (\<forall>k v w. (k, v) \<in> set ms \<longrightarrow> (k, w) \<in> set ns \<longrightarrow> same_value v w)"
      by blast
    then show ?thesis
      using sorted_keys_obj_eq [of ms ns] 1(3,4)
      unfolding obj same_value.simps [of "JObj ms" "JObj ns"] members_ball by simp
  next
    case other
    then have "same_value a b \<longleftrightarrow> a = b"
      by (subst same_value.simps) (auto split: json.splits)
    moreover have "sorted_keys a = sorted_keys b \<longleftrightarrow> a = b"
      using other by (cases a; cases b) auto
    ultimately show ?thesis by simp
  qed
qed

lemma deep_equal_iff_same: "wf_json a \<Longrightarrow> wf_json b \<Longrightarrow> deep_equal a b \<longleftrightarrow> same_value a b"
  by (simp add: deep_equal_sorted sorted_keys_eq_same)

text \<open>C21: \<open>_deepEqual\<close>, which sorts the keys of both values at every depth and compares
  their JSON texts, decides equality of values: it answers true exactly when the two are the
  same primitive, or arrays of equal elements, or objects with the same keys and equal values
  under them, in whatever order the members were inserted.\<close>

theorem deep_equal_iff_same_value:
  assumes "wf_json a" "wf_json b"
  shows "deep_equal a b \<longleftrightarrow> same_value a b"
  by (rule deep_equal_iff_same [OF assms])

theorem deep_equal_iff_same_value_witness:
  "same_value (JObj [(''b'', JNum 1), (''a'', JArr [JStr ''x''])])
     (JObj [(''a'', JArr [JStr ''x'']), (''b'', JNum 1)])"
  by (subst deep_equal_iff_same_value [symmetric])
    (simp_all add: deep_equal_sorted enumerated_def array_index_def read_nat_def)

section \<open>Differences under any equality of values\<close>

text \<open>Comparing in the other direction mirrors every change.\<close>

definition mirrored :: "attribute_change \<Rightarrow> attribute_change" where
  "mirrored c = c\<lparr>ac_oldValue := ac_newValue c, ac_newValue := ac_oldValue c,
     ac_changeType := (case ac_changeType c of ADDED \<Rightarrow> REMOVED | REMOVED \<Rightarrow> ADDED | t \<Rightarrow> t)\<rparr>"

text \<open>What the comparison relies on when it tells unchanged attributes from modified ones.\<close>

locale value_equality =
  fixes eq :: "int json \<Rightarrow> int json \<Rightarrow> bool"
  assumes eq_refl: "eq v v"
    and eq_sym: "eq v w \<Longrightarrow> eq w v"
    and eq_trans: "eq u v \<Longrightarrow> eq v w \<Longrightarrow> eq u w"
begin

lemma diff_self: "c \<in> set (diff_by eq m m) \<Longrightarrow> ac_changeType c = UNCHANGED"
  by (auto simp: diff_by_def all_keys_def attribute_change_of_def eq_refl
      split: option.splits dest!: weak_map_of_SomeI map_of_eq_None_iff [THEN iffD1])

lemma eq_commute: "eq v w = eq w v"
  using eq_sym by blast

lemma change_swap:
  "map_of before k \<noteq> None \<or> map_of after k \<noteq> None \<Longrightarrow>
    attribute_change_of eq after before k = mirrored (attribute_change_of eq before after k)"
  by (auto simp: attribute_change_of_def mirrored_def eq_commute split: option.splits)

text \<open>Two attributes unchanged in a row are unchanged overall.\<close>

lemma unchanged_trans:
  assumes "map_of a k = Some u" "map_of b k = Some v" "map_of c k = Some w"
    and "ac_changeType (attribute_change_of eq a b k) = UNCHANGED"
    and "ac_changeType (attribute_change_of eq b c k) = UNCHANGED"
  shows "ac_changeType (attribute_change_of eq a c k) = UNCHANGED"
  using assms eq_trans by (auto simp: attribute_change_of_def split: if_splits)

end

interpretation json_values: value_equality deep_equal
  by unfold_locales (simp_all add: deep_equal_sorted)

section \<open>The shape of a comparison\<close>

lemma set_all_keys: "set (all_keys b a) = fst ` set b \<union> fst ` set a"
  by (auto simp: all_keys_def)

lemma distinct_all_keys:
  "distinct (map fst b) \<Longrightarrow> distinct (map fst a) \<Longrightarrow> distinct (all_keys b a)"
  by (auto simp: all_keys_def)

lemma ac_attributeName_change [simp]: "ac_attributeName (attribute_change_of eq b a k) = k"
  by (auto simp: attribute_change_of_def split: option.splits)

lemma names_diff_by [simp]: "map ac_attributeName (diff_by eq b a) = all_keys b a"
  by (simp add: diff_by_def o_def)

lemma distinct_spread: "distinct (map fst a) \<Longrightarrow> distinct (map fst (spread a b))"
  by (induction b arbitrary: a) (auto simp: distinct_put_member)

lemma distinct_flatten_into:
  "distinct (map fst result) \<Longrightarrow> distinct (map fst (flatten_into pre ms result))"
proof (induction pre ms result rule: flatten_into.induct)
  case (1 pre result)
  then show ?case by simp
next
  case (2 pre key v ms result)
  have "distinct (map fst (case v of
      JObj nested \<Rightarrow> spread result (flatten_into (full_key pre key) nested [])
    | _ \<Rightarrow> put_member (full_key pre key) v result))"
    using 2(3) by (cases v) (simp_all add: distinct_put_member distinct_spread)
  with 2(2) show ?case by simp
qed

lemma distinct_flatten: "distinct (map fst (flatten_attributes ms))"
  by (simp add: flatten_attributes_def distinct_flatten_into)


lemma do_compare_OkD:
  assumes "do_compare t a b st = (Inr r, st')"
  obtains s before where "load_snapshot ''After'' t a st = Inr s"
    "before_attributes t b st = Inr before"
    "cmp_changes r = diff_attributes before (flatten_attributes (sn_normalisedSummary s))"
    "cmp_success r" "cmp_orgNumber r = sn_organisationsnummer s"
    "cs_events st' = cs_events st @ map (change_event_of t s b a) (cmp_changes r)"
    "cs_snapshots st' = cs_snapshots st" "cs_events_err st' = cs_events_err st"
    "cs_queue st' = trigger_refresh t s a (cmp_changes r) (cs_queue st)"
  using assms
  by (auto simp: do_compare_def Let_def split: sum.splits list.splits option.splits)

lemma do_compare_ErrD: "do_compare t a b st = (Inl e, st') \<Longrightarrow> st' = st"
  by (auto simp: do_compare_def Let_def split: sum.splits list.splits option.splits)

definition sample_comparison :: "int members \<Rightarrow> int members \<Rightarrow> comparison_store" where
  "sample_comparison before after =
     \<lparr>cs_snapshots =
        [(sample_snapshot ''a'' 10 None 1)\<lparr>sn_normalisedSummary := before\<rparr>,
         (sample_snapshot ''b'' 20 (Some ''a'') 2)\<lparr>sn_normalisedSummary := after\<rparr>],
      cs_snapshots_err = None, cs_events = [], cs_events_err = None, cs_audit = empty_audit,
      cs_queue = []\<rparr>"

definition classified :: "int members \<Rightarrow> int members \<Rightarrow> attribute_change \<Rightarrow> bool" where
  "classified before after c \<longleftrightarrow>
     ac_oldValue c = map_of before (ac_attributeName c) \<and>
     ac_newValue c = map_of after (ac_attributeName c) \<and>
     (case (ac_oldValue c, ac_newValue c) of
        (None, None) \<Rightarrow> False
      | (None, Some _) \<Rightarrow> ac_changeType c = ADDED
      | (Some _, None) \<Rightarrow> ac_changeType c = REMOVED
      | (Some v, Some w) \<Rightarrow> ac_changeType c = (if same_value v w then UNCHANGED else MODIFIED))"

lemma classified_change:
  assumes "\<And>v w. map_of b k = Some v \<Longrightarrow> map_of a k = Some w \<Longrightarrow> wf_json v \<and> wf_json w"
    and "k \<in> fst ` set b \<union> fst ` set a"
  shows "classified b a (attribute_change_of deep_equal b a k)"
proof -
  have "map_of b k \<noteq> None \<or> map_of a k \<noteq> None"
    using assms(2) by (auto simp: map_of_eq_None_iff)
  then show ?thesis
    using assms(1) deep_equal_iff_same by (auto simp: classified_def attribute_change_of_def split: option.splits)
qed

lemma set_put_member: "x \<in> set (put_member k v ms) \<Longrightarrow> x = (k, v) \<or> x \<in> set ms"
  by (induction ms) (auto split: if_splits)

lemma set_spread: "x \<in> set (spread a b) \<Longrightarrow> x \<in> set a \<or> x \<in> set b"
  by (induction b arbitrary: a) (fastforce dest: set_put_member)+

lemma wf_flatten_into:
  "\<forall>(k, v) \<in> set ms. wf_json v \<Longrightarrow> \<forall>(k, v) \<in> set result. wf_json v \<Longrightarrow>
    \<forall>(k, v) \<in> set (flatten_into pre ms result). wf_json v"
proof (induction pre ms result rule: flatten_into.induct)
  case (1 pre result)
  then show ?case by simp
next
  case (2 pre key v ms result)
  let ?r = "case v of
      JObj nested \<Rightarrow> spread result (flatten_into (full_key pre key) nested [])
    | _ \<Rightarrow> put_member (full_key pre key) v result"
  have "\<forall>(k, v) \<in> set ?r. wf_json v"
  proof (cases v)
    case (JObj nested)
    have "\<forall>(k, v) \<in> set (flatten_into (full_key pre key) nested []). wf_json v"
      by (rule 2(1) [OF JObj]) (use 2(3) JObj in auto)
    with JObj 2(4) show ?thesis by (auto dest!: set_spread)
  qed (use 2(3,4) in \<open>auto dest!: set_put_member\<close>)
  with 2(2,3) show ?case by simp
qed

lemma wf_flatten:
  "wf_json (JObj ms) \<Longrightarrow> map_of (flatten_attributes ms) k = Some v \<Longrightarrow> wf_json v"
  using wf_flatten_into [of ms "[]" "[]"] by (auto simp: flatten_attributes_def dest!: map_of_SomeD)

lemma compare_snapshots_found:
  assumes "find_snapshot t a (cs_snapshots st) = Some s"
    and "find_snapshot t b (cs_snapshots st) = Some p" and "b \<noteq> []"
    and "cs_snapshots_err st = None" "cs_events_err st = None"
  obtains r st' where "compare_snapshots t a (Some b) st = (r, st')" "cmp_success r"
    "cmp_changes r = diff_attributes (flatten_attributes (sn_normalisedSummary p))
       (flatten_attributes (sn_normalisedSummary s))"
    "cs_events st' = cs_events st @ map (change_event_of t s (Some b) a) (cmp_changes r)"
    "cs_queue st' = trigger_refresh t s a (cmp_changes r) (cs_queue st)"
  by (rule that [OF prod.collapse [symmetric]])
    (use assms in \<open>simp_all add: compare_snapshots_def do_compare_def load_snapshot_def
        before_attributes_def Let_def split: list.split\<close>)

section \<open>Properties of a comparison\<close>

text \<open>C22: A comparison of two snapshots of a tenant reports every attribute of either
  summary exactly once, with the values it had: ADDED when only the new summary has it, REMOVED
  when only the old one has, and otherwise UNCHANGED or MODIFIED according to whether the two
  values are equal up to the order of object members; and it stores one event for each.\<close>

theorem compare_snapshots_classifies:
  assumes "find_snapshot t a (cs_snapshots st) = Some s"
    and "find_snapshot t b (cs_snapshots st) = Some p" and "b \<noteq> []"
    and "cs_snapshots_err st = None" "cs_events_err st = None"
    and "wf_json (JObj (sn_normalisedSummary s))" "wf_json (JObj (sn_normalisedSummary p))"
  shows "let (r, st') = compare_snapshots t a (Some b) st;
      old = flatten_attributes (sn_normalisedSummary p);
      new = flatten_attributes (sn_normalisedSummary s);
      names = map ac_attributeName (cmp_changes r)
    in cmp_success r \<and> distinct names \<and> set names = fst ` set old \<union> fst ` set new \<and>
      list_all (classified old new) (cmp_changes r) \<and>
      cs_events st' = cs_events st @ map (change_event_of t s (Some b) a) (cmp_changes r)"
proof -
  from compare_snapshots_found [OF assms(1-5)] obtain r st' where
    r: "compare_snapshots t a (Some b) st = (r, st')" "cmp_success r"
    "cmp_changes r = diff_attributes (flatten_attributes (sn_normalisedSummary p))
       (flatten_attributes (sn_normalisedSummary s))"
    "cs_events st' = cs_events st @ map (change_event_of t s (Some b) a) (cmp_changes r)" .
  have "list_all (classified (flatten_attributes (sn_normalisedSummary p))
      (flatten_attributes (sn_normalisedSummary s))) (cmp_changes r)"
    unfolding r(3) diff_attributes_def diff_by_def list_all_iff
    using wf_flatten [OF assms(6)] wf_flatten [OF assms(7)]
    by (auto simp: set_all_keys intro!: classified_change)
  moreover have "map ac_attributeName (cmp_changes r) = all_keys
      (flatten_attributes (sn_normalisedSummary p)) (flatten_attributes (sn_normalisedSummary s))"
    unfolding r(3) diff_attributes_def by (rule names_diff_by)
  ultimately show ?thesis
    using r(1,2,4) unfolding Let_def
    by (simp add: set_all_keys distinct_all_keys distinct_flatten del: set_map)
qed

theorem compare_snapshots_classifies_witness:
  "cmp_success (fst (compare_snapshots ''t1'' ''b'' (Some ''a'')
     (sample_comparison [(''name'', JStr ''x'')] [(''name'', JStr ''y''), (''seat'', JNull)])))"
  using compare_snapshots_classifies [of "''t1''" "''b''"
      "sample_comparison [(''name'', JStr ''x'')] [(''name'', JStr ''y''), (''seat'', JNull)]"
      "(sample_snapshot ''b'' 20 (Some ''a'') 2)\<lparr>sn_normalisedSummary :=
         [(''name'', JStr ''y''), (''seat'', JNull)]\<rparr>" "''a''"
      "(sample_snapshot ''a'' 10 None 1)\<lparr>sn_normalisedSummary := [(''name'', JStr ''x'')]\<rparr>"]
  by (simp add: sample_comparison_def sample_snapshot_def find_snapshot_def table_simps Let_def
      split: prod.splits)

text \<open>Two snapshots with the same attributes produce UNCHANGED events only and start no
  refresh job.\<close>

theorem compare_same_attributes:
  assumes "find_snapshot t a (cs_snapshots st) = Some s"
    and "find_snapshot t b (cs_snapshots st) = Some p" and "b \<noteq> []"
    and "cs_snapshots_err st = None" "cs_events_err st = None"
    and "flatten_attributes (sn_normalisedSummary p) = flatten_attributes (sn_normalisedSummary s)"
  shows "ac_changeType ` set (cmp_changes (fst (compare_snapshots t a (Some b) st))) \<subseteq> {UNCHANGED} \<and>
    cs_queue (snd (compare_snapshots t a (Some b) st)) = cs_queue st"
proof -
  from compare_snapshots_found [OF assms(1-5)] obtain r st' where
    r: "compare_snapshots t a (Some b) st = (r, st')"
    "cmp_changes r = diff_attributes (flatten_attributes (sn_normalisedSummary p))
       (flatten_attributes (sn_normalisedSummary s))"
    "cs_queue st' = trigger_refresh t s a (cmp_changes r) (cs_queue st)" .
  have "\<forall>c \<in> set (cmp_changes r). ac_changeType c = UNCHANGED"
    unfolding r(2) assms(6) diff_attributes_def by (blast intro: json_values.diff_self)
  with r show ?thesis by (auto simp: trigger_refresh_def any_changed_def)
qed

theorem compare_same_attributes_witness:
  "cs_queue (snd (compare_snapshots ''t1'' ''b'' (Some ''a'')
     (sample_comparison [(''status'', JStr ''x'')] [(''status'', JStr ''x'')]))) = []"
  using compare_same_attributes [of "''t1''" "''b''"
      "sample_comparison [(''status'', JStr ''x'')] [(''status'', JStr ''x'')]"
      "(sample_snapshot ''b'' 20 (Some ''a'') 2)\<lparr>sn_normalisedSummary := [(''status'', JStr ''x'')]\<rparr>"
      "''a''" "(sample_snapshot ''a'' 10 None 1)\<lparr>sn_normalisedSummary := [(''status'', JStr ''x'')]\<rparr>"]
  by (simp add: sample_comparison_def sample_snapshot_def find_snapshot_def table_simps)

text \<open>A comparison that fails, because a snapshot is missing or a table cannot be
  reached, still returns: it reports no change, writes no audit row and starts no job, and leaves
  one UNKNOWN event that names the failure if the event table takes it.\<close>

theorem compare_failure_recorded:
  assumes "compare_snapshots t a b st = (r, st')" and "\<not> cmp_success r"
  shows "cmp_changes r = [] \<and> cmp_errorMessage r \<noteq> None \<and>
    cs_audit st' = cs_audit st \<and> cs_queue st' = cs_queue st \<and> cs_snapshots st' = cs_snapshots st \<and>
    cs_events st' = cs_events st @ (case cs_events_err st of
        None \<Rightarrow> [unknown_event t a b (the (cmp_errorMessage r)) st]
      | Some _ \<Rightarrow> [])"
proof (cases "do_compare t a b st")
  case (Pair x s)
  show ?thesis
  proof (cases x)
    case (Inl e)
    with Pair have "s = st" using do_compare_ErrD by simp
    with Inl Pair assms show ?thesis
      by (auto simp: compare_snapshots_def split: option.splits)
  next
    case (Inr q)
    with Pair have "cmp_success q" using do_compare_OkD [of t a b st q s] by blast
    with Inr Pair assms show ?thesis by (simp add: compare_snapshots_def)
  qed
qed

theorem compare_failure_recorded_witness:
  "cmp_changes (fst (compare_snapshots ''t2'' ''b'' None (sample_comparison [] []))) = []"
proof -
  have "\<not> cmp_success (fst (compare_snapshots ''t2'' ''b'' None (sample_comparison [] [])))"
    by (simp add: compare_snapshots_def do_compare_def load_snapshot_def sample_comparison_def
        sample_snapshot_def find_snapshot_def table_simps)
  from compare_failure_recorded [OF prod.collapse [symmetric] this] show ?thesis by simp
qed

end
