(* ===== verification/RawPayloads.thy ===== *)
theory RawPayloads
  imports SnapshotComparison Dates
begin

text \<open>
  \<open>RawPayloadStorageService\<close> (backend/src/companies/services/raw-payload-storage.service.ts):
  provider responses stored once per tenant and content. SHA-256 is the parameter \<open>sha\<close>; the
  theorems that need it assume that it does not collide on the texts at hand.
\<close>

section \<open>Data\<close>

record raw_payload =
  rw_id :: string
  rw_tenantId :: string
  rw_checksum :: string
  rw_providerSource :: string
  rw_organisationsnummer :: string
  rw_content :: "int members"
  rw_metadata :: "int members"
  rw_payloadVersion :: string
  rw_payloadSizeBytes :: nat
  rw_snapshotId :: "string option"
  rw_isDuplicate :: bool
  rw_createdAt :: int

record store_payload_input =
  sp_tenantId :: string
  sp_providerSource :: string
  sp_organisationsnummer :: string
  sp_content :: "int members"
  sp_metadata :: "int members option"
  sp_snapshotId :: "string option"
  sp_payloadVersion :: "string option"

record store_payload_result =
  sr_rawPayload :: raw_payload
  sr_isDeduplicated :: bool

record raw_store =
  rs_payloads :: "raw_payload list"
  rs_audit :: audit_store

section \<open>Checksum\<close>

fun sort_json_keys :: "int json \<Rightarrow> int json" where
  "sort_json_keys (JArr xs) = JArr (map sort_json_keys xs)"
| "sort_json_keys (JObj ms) =
     JObj (enumerated (sort_key fst (map (\<lambda>(k, v). (k, sort_json_keys v)) ms)))"
| "sort_json_keys v = v"

definition checksum_text :: "int members \<Rightarrow> string" where
  "checksum_text content = stringify (sort_json_keys (JObj content))"

definition compute_checksum :: "(string \<Rightarrow> string) \<Rightarrow> int members \<Rightarrow> string" where
  "compute_checksum sha content = sha (checksum_text content)"

text \<open>\<open>Buffer.byteLength(s, 'utf8')\<close> of a string in the Latin-1 range.\<close>

definition utf8_length :: "string \<Rightarrow> nat" where
  "utf8_length s = sum_list (map (\<lambda>c. if code c < 128 then 1 else 2) s)"

section \<open>Storage\<close>

definition raw_payload_of ::
  "(string \<Rightarrow> string) \<Rightarrow> int \<Rightarrow> string \<Rightarrow> store_payload_input \<Rightarrow> raw_payload" where
  "raw_payload_of sha now newId i =
     (let version = or_default (sp_payloadVersion i) ''1''
      in \<lparr>rw_id = newId, rw_tenantId = sp_tenantId i,
          rw_checksum = compute_checksum sha (sp_content i),
          rw_providerSource = sp_providerSource i,
          rw_organisationsnummer = sp_organisationsnummer i, rw_content = sp_content i,
          rw_metadata = spread (or_default (sp_metadata i) [])
            [(''payloadVersion'', JStr version), (''storedAt'', JStr (iso_string now))],
          rw_payloadVersion = version,
          rw_payloadSizeBytes = utf8_length (stringify (JObj (sp_content i))),
          rw_snapshotId = sp_snapshotId i, rw_isDuplicate = False, rw_createdAt = now\<rparr>)"

definition existing_payload ::
  "(string \<Rightarrow> string) \<Rightarrow> store_payload_input \<Rightarrow> raw_store \<Rightarrow> raw_payload option" where
  "existing_payload sha i st =
     find_one (\<lambda>p. rw_tenantId p = sp_tenantId i \<and>
       rw_checksum p = compute_checksum sha (sp_content i)) (rs_payloads st)"

definition payload_audit :: "string \<Rightarrow> string \<Rightarrow> string \<Rightarrow> rat members \<Rightarrow> create_audit_log_input" where
  "payload_audit action tenantId resourceId meta =
     \<lparr>al_tenantId = tenantId, al_actorId = None, al_action = action,
      al_resourceType = ''bv_raw_payload'', al_resourceId = resourceId, al_metadata = Some meta\<rparr>"

definition store_raw_payload ::
  "(string \<Rightarrow> string) \<Rightarrow> int \<Rightarrow> string \<Rightarrow> store_payload_input \<Rightarrow> raw_store \<Rightarrow>
   store_payload_result \<times> raw_store" where
  "store_raw_payload sha now newId i st =
     (let origin = [(''checksum'', JStr (compute_checksum sha (sp_content i))),
            (''providerSource'', JStr (sp_providerSource i)),
            (''organisationsnummer'', JStr (sp_organisationsnummer i))]
      in case existing_payload sha i st of
           Some e \<Rightarrow>
             (\<lparr>sr_rawPayload = e, sr_isDeduplicated = True\<rparr>,
              st\<lparr>rs_audit := audit_log (payload_audit ''raw_payload.deduplication_hit'' (sp_tenantId i)
                (rw_id e) (origin @ [(''snapshotId'', json_str (sp_snapshotId i))])) (rs_audit st)\<rparr>)
         | None \<Rightarrow>
             (let p = raw_payload_of sha now newId i
              in (\<lparr>sr_rawPayload = p, sr_isDeduplicated = False\<rparr>,
                  st\<lparr>rs_payloads := rs_payloads st @ [p],
                     rs_audit := audit_log (payload_audit ''raw_payload.stored'' (sp_tenantId i) newId
                       (origin @ [(''payloadSizeBytes'', JNum (of_nat (rw_payloadSizeBytes p))),
                         (''snapshotId'', json_str (sp_snapshotId i))])) (rs_audit st)\<rparr>)))"

section \<open>Laws\<close>

text \<open>The same normal form as that of the snapshot comparison.\<close>

lemma sort_json_keys_eq: "sort_json_keys v = sorted_keys v"
proof (induction v rule: sort_json_keys.induct)
  case (1 xs)
  then show ?case by simp
next
  case (2 ms)
  then have "map (\<lambda>(k, v). (k, sort_json_keys v)) ms = map (\<lambda>(k, v). (k, sorted_keys v)) ms"
    by (intro map_cong) auto
  then show ?case by (simp only: sort_json_keys.simps sorted_keys.simps)
qed simp_all

lemma checksum_text_eq_iff:
  "wf_json (JObj a) \<Longrightarrow> wf_json (JObj b) \<Longrightarrow>
    checksum_text a = checksum_text b \<longleftrightarrow> same_value (JObj a) (JObj b)"
  by (simp only: checksum_text_def sort_json_keys_eq stringify_inject sorted_keys_eq_same)

text \<open>What the table guarantees: rows with their own checksum, one per tenant and checksum.\<close>

definition payloads_ok :: "(string \<Rightarrow> string) \<Rightarrow> raw_store \<Rightarrow> bool" where
  "payloads_ok sha st \<longleftrightarrow>
     unique_keys (\<lambda>p. (rw_tenantId p, rw_checksum p)) (rs_payloads st) \<and>
     (\<forall>p \<in> set (rs_payloads st). rw_checksum p = compute_checksum sha (rw_content p) \<and>
        wf_json (JObj (rw_content p)))"

lemma payloads_ok_store:
  assumes "payloads_ok sha st" and "wf_json (JObj (sp_content i))"
  shows "payloads_ok sha (snd (store_raw_payload sha now newId i st))"
proof (cases "existing_payload sha i st")
  case None
  then have "\<forall>p \<in> set (rs_payloads st). rw_tenantId p = sp_tenantId i \<longrightarrow>
      rw_checksum p \<noteq> compute_checksum sha (sp_content i)"
    by (auto simp: existing_payload_def find_one_None_iff)
  then show ?thesis
    using assms None
    by (auto simp: store_raw_payload_def Let_def payloads_ok_def raw_payload_of_def unique_keys_def)
next
  case (Some e)
  with assms show ?thesis by (simp add: store_raw_payload_def Let_def payloads_ok_def)
qed

text \<open>A store request with the clock and the id the database gives; ill-formed JSON is none.\<close>

definition store_step ::
  "(string \<Rightarrow> string) \<Rightarrow> int \<times> string \<times> store_payload_input \<Rightarrow> raw_store \<Rightarrow> raw_store" where
  "store_step sha req st =
     (let (now, newId, i) = req
      in if wf_json (JObj (sp_content i)) then snd (store_raw_payload sha now newId i st) else st)"

interpretation raw_payloads: invariant_machine "store_step sha" "payloads_ok sha"
  by unfold_locales (auto simp: store_step_def split: prod.splits intro: payloads_ok_store)

text \<open>Storing a payload returns a row of its tenant with the same content up to the order of object
  members, and reuses an existing row exactly when the tenant already holds that content;
  otherwise the table grows by the returned row. Hypotheses: SHA-256 does not collide on the
  stored contents and the new one, the table holds well-formed rows with their checksums.
\<close>

theorem store_returns_same_content:
  assumes "payloads_ok sha st" and "wf_json (JObj (sp_content i))"
    and "inj_on sha (checksum_text ` insert (sp_content i) (rw_content ` set (rs_payloads st)))"
    and "store_raw_payload sha now newId i st = (res, st')"
  shows "sr_rawPayload res \<in> set (rs_payloads st') \<and>
    rw_tenantId (sr_rawPayload res) = sp_tenantId i \<and>
    same_value (JObj (rw_content (sr_rawPayload res))) (JObj (sp_content i)) \<and>
    (sr_isDeduplicated res \<longleftrightarrow> (\<exists>p \<in> set (rs_payloads st). rw_tenantId p = sp_tenantId i \<and>
       same_value (JObj (rw_content p)) (JObj (sp_content i)))) \<and>
    rs_payloads st' = (if sr_isDeduplicated res then rs_payloads st
      else rs_payloads st @ [sr_rawPayload res])"
proof -
  have same: "rw_checksum p = compute_checksum sha (sp_content i) \<longleftrightarrow>
      same_value (JObj (rw_content p)) (JObj (sp_content i))" if "p \<in> set (rs_payloads st)" for p
  proof -
    have p: "rw_checksum p = compute_checksum sha (rw_content p)" "wf_json (JObj (rw_content p))"
      using assms(1) that by (auto simp: payloads_ok_def)
    have "sha (checksum_text (rw_content p)) = sha (checksum_text (sp_content i)) \<longleftrightarrow>
        checksum_text (rw_content p) = checksum_text (sp_content i)"
      by (rule inj_on_eq_iff [OF assms(3)]) (use that in auto)
    then show ?thesis
      using p checksum_text_eq_iff [OF p(2) assms(2)] by (simp add: compute_checksum_def)
  qed
  have refl: "same_value (JObj (sp_content i)) (JObj (sp_content i))"
    using checksum_text_eq_iff [OF assms(2,2)] by simp
  show ?thesis
  proof (cases "existing_payload sha i st")
    case None
    let ?p = "raw_payload_of sha now newId i"
    have res: "sr_rawPayload res = ?p" "\<not> sr_isDeduplicated res" "rs_payloads st' = rs_payloads st @ [?p]"
      using assms(4) None by (auto simp: store_raw_payload_def Let_def)
    have "rw_tenantId ?p = sp_tenantId i" "rw_content ?p = sp_content i"
      by (simp_all add: raw_payload_of_def Let_def)
    moreover have "\<forall>p \<in> set (rs_payloads st). rw_tenantId p = sp_tenantId i \<longrightarrow>
        \<not> same_value (JObj (rw_content p)) (JObj (sp_content i))"
      using None same by (auto simp: existing_payload_def find_one_None_iff)
    ultimately show ?thesis using refl by (auto simp: res)
  next
    case (Some e)
    then have "e \<in> set (rs_payloads st)" "rw_tenantId e = sp_tenantId i"
        "rw_checksum e = compute_checksum sha (sp_content i)"
      by (auto simp: existing_payload_def dest: find_one_SomeD)
    then show ?thesis
      using assms(4) Some same by (auto simp: store_raw_payload_def Let_def)
  qed
qed

text \<open>However often payloads are stored, a tenant never holds the same content twice: of two
  different rows of one tenant, the contents differ in more than the order of members.
\<close>

theorem stored_contents_distinct:
  assumes "p \<in> set (rs_payloads st)" and "q \<in> set (rs_payloads st)" and "p \<noteq> q"
    and "st = fold (store_step sha) reqs \<lparr>rs_payloads = [], rs_audit = a\<rparr>"
    and "rw_tenantId p = rw_tenantId q"
  shows "\<not> same_value (JObj (rw_content p)) (JObj (rw_content q))"
proof -
  have "payloads_ok sha st"
    unfolding assms(4) by (rule raw_payloads.run_inv) (simp add: payloads_ok_def unique_keys_def)
  then have k: "unique_keys (\<lambda>p. (rw_tenantId p, rw_checksum p)) (rs_payloads st)"
    and sums: "rw_checksum p = compute_checksum sha (rw_content p)"
      "rw_checksum q = compute_checksum sha (rw_content q)"
    and wf: "wf_json (JObj (rw_content p))" "wf_json (JObj (rw_content q))"
    using assms(1,2) by (auto simp: payloads_ok_def)
  have "rw_checksum p \<noteq> rw_checksum q"
    using unique_keysD [OF k assms(1,2)] assms(3,5) by auto
  then show ?thesis
    using checksum_text_eq_iff [OF wf] sums by (auto simp: compute_checksum_def)
qed

definition sample_payload :: "int members \<Rightarrow> store_payload_input" where
  "sample_payload c = \<lparr>sp_tenantId = ''t1'', sp_providerSource = ''bolagsverket'',
     sp_organisationsnummer = ''5560001'', sp_content = c, sp_metadata = None, sp_snapshotId = None,
     sp_payloadVersion = None\<rparr>"

definition sample_raw :: raw_store where
  "sample_raw = snd (store_raw_payload id 0 ''p1'' (sample_payload [(''a'', JNum 1), (''b'', JNull)])
     \<lparr>rs_payloads = [], rs_audit = empty_audit\<rparr>)"

lemma sample_raw_rows:
  "rs_payloads sample_raw = [raw_payload_of id 0 ''p1'' (sample_payload [(''a'', JNum 1), (''b'', JNull)])]"
  by (simp add: sample_raw_def store_raw_payload_def existing_payload_def find_one_def Let_def)

theorem store_returns_same_content_witness:
  "sr_isDeduplicated (fst (store_raw_payload id 1 ''p2''
     (sample_payload [(''b'', JNull), (''a'', JNum 1)]) sample_raw))"
proof -
  let ?i = "sample_payload [(''b'', JNull), (''a'', JNum 1)]"
  have ok: "payloads_ok id sample_raw"
    unfolding sample_raw_def
    by (rule payloads_ok_store) (simp_all add: payloads_ok_def unique_keys_def sample_payload_def)
  obtain res st' where r: "store_raw_payload id 1 ''p2'' ?i sample_raw = (res, st')" by fastforce
  have "wf_json (JObj (sp_content ?i))" by (simp add: sample_payload_def)
  note * = store_returns_same_content [OF ok this _ r]
  have "checksum_text [(''a'', JNum 1), (''b'', JNull)] = checksum_text [(''b'', JNull), (''a'', JNum 1)]"
    by (simp add: checksum_text_def stringify_inject enumerated_def)
  then have "same_value (JObj [(''a'', JNum 1), (''b'', JNull)]) (JObj [(''b'', JNull), (''a'', JNum 1)])"
    by (subst (asm) checksum_text_eq_iff) simp_all
  with * r show ?thesis
    by (simp add: sample_raw_rows raw_payload_of_def sample_payload_def Let_def)
qed

theorem stored_contents_distinct_witness:
  "let reqs = [(0, ''p1'', sample_payload [(''a'', JNum 1)]), (1, ''p2'', sample_payload [(''a'', JNum 2)])];
       st = fold (store_step id) reqs \<lparr>rs_payloads = [], rs_audit = empty_audit\<rparr>
   in length (rs_payloads st) = 2 \<and> \<not> same_value (JObj [(''a'', JNum 1)]) (JObj [(''a'', JNum 2)])"
proof -
  let ?reqs = "[(0, ''p1'', sample_payload [(''a'', JNum 1)]), (1, ''p2'', sample_payload [(''a'', JNum 2)])]"
  let ?st = "fold (store_step id) ?reqs \<lparr>rs_payloads = [], rs_audit = empty_audit\<rparr>"
  let ?p = "raw_payload_of id 0 ''p1'' (sample_payload [(''a'', JNum 1)])"
  let ?q = "raw_payload_of id 1 ''p2'' (sample_payload [(''a'', JNum 2)])"
  have "checksum_text [(''a'', JNum 1)] \<noteq> checksum_text [(''a'', JNum 2)]"
    by (simp add: checksum_text_def stringify_inject enumerated_def show_int_inj)
  then have rows: "rs_payloads ?st = [?p, ?q]"
    by (simp add: store_step_def store_raw_payload_def existing_payload_def find_one_def Let_def
        sample_payload_def raw_payload_of_def compute_checksum_def)
  have pq: "rw_id ?p \<noteq> rw_id ?q" "rw_tenantId ?p = rw_tenantId ?q"
      "rw_content ?p = [(''a'', JNum 1)]" "rw_content ?q = [(''a'', JNum 2)]"
    by (simp_all add: raw_payload_of_def sample_payload_def Let_def)
  then have "?p \<noteq> ?q" by metis
  then show ?thesis
    using stored_contents_distinct [of ?p ?st ?q, OF _ _ _ refl] rows pq by (simp add: Let_def)
qed

end
