(* ===== verification/BulkParser.thy ===== *)
theory BulkParser
  imports Prelude
begin

text \<open>
  \<open>BolagsverketBulkParser\<close> (backend/src/bolagsverket-bulk/bolagsverket-bulk.parser.ts): one line
  of the Bolagsverket bulk file becomes a staging row. The CSV reader of the csv-parse package
  and the SHA-256 digest are the parameters \<open>parse_csv\<close> (\<open>Inl\<close> the message of what it throws)
  and \<open>sha256\<close>. The label tables are looked up by their own keys; the names every JavaScript
  object inherits (such as \<open>constructor\<close>) are not codes of the source.
\<close>

section \<open>Data\<close>

record bulk_name =
  bn_name :: "string option"
  bn_typeCode :: "string option"
  bn_typeLabel :: "string option"
  bn_registrationDate :: "string option"
  bn_extra :: "string option"

record restructuring_entry =
  re_code :: "string option"
  re_label :: "string option"
  re_text :: "string option"
  re_fromDate :: "string option"

record parsed_bulk_line =
  pb_sourceIdentityKey :: string
  pb_identityRaw :: "string option"
  pb_identityValue :: "string option"
  pb_identityType :: "string option"
  pb_identityTypeLabel :: "string option"
  pb_organisationNumber :: "string option"
  pb_personalIdentityNumber :: "string option"
  pb_nameProtectionSequenceNumber :: "string option"
  pb_registrationCountryLabel :: "string option"
  pb_namesRaw :: "string option"
  pb_namePrimary :: "string option"
  pb_primaryNameTypeCode :: "string option"
  pb_primaryNameTypeLabel :: "string option"
  pb_namesAll :: "bulk_name list"
  pb_organisationFormCode :: "string option"
  pb_organisationFormLabel :: "string option"
  pb_registrationDate :: "string option"
  pb_deregistrationDate :: "string option"
  pb_deregistrationReasonCode :: "string option"
  pb_deregistrationReasonText :: "string option"
  pb_deregistrationReasonLabel :: "string option"
  pb_restructuringRaw :: "string option"
  pb_hasActiveRestructuringOrWindup :: bool
  pb_activeRestructuringCodes :: "string list"
  pb_activeRestructuringLabels :: "string list"
  pb_restructuringEntries :: "restructuring_entry list"
  pb_businessDescription :: "string option"
  pb_postalAddressRaw :: "string option"
  pb_deliveryAddress :: "string option"
  pb_coAddress :: "string option"
  pb_postalCode :: "string option"
  pb_city :: "string option"
  pb_countryCode :: "string option"
  pb_postalParseWarning :: "string option"
  pb_registrationCountryCode :: "string option"
  pb_namnskyddslopnummer :: "string option"
  pb_contentHash :: string
  pb_rawColumns :: "string list"

section \<open>Label tables\<close>

definition legal_form_labels :: "(string \<times> string) list" where
  "legal_form_labels =
    [(''AB-ORGFO'', ''Aktiebolag''),
     (''BAB-ORGFO'', ''Bankaktiebolag''),
     (''BF-ORGFO'', ''Bostadsforening''),
     (''BFL-ORGFO'', ''Utlandsk banks filial''),
     (''BRF-ORGFO'', ''Bostadsrattsforening''),
     (''EB-ORGFO'', ''Enkla bolag''),
     (''EEIG-ORGFO'', ''Europeisk ekonomisk intressegruppering''),
     (''EGTS-ORGFO'', ''Europeisk gruppering for territoriellt samarbete''),
     (''EK-ORGFO'', ''Ekonomisk forening''),
     (''FAB-ORGFO'', ''Forsakringsaktiebolag''),
     (''FF-ORGFO'', ''Forsakringsformedlare''),
     (''FL-ORGFO'', ''Filial''),
     (''FOF-ORGFO'', ''Forsakringsforening''),
     (''HB-ORGFO'', ''Handelsbolag''),
     (''I-ORGFO'', ''Ideell forening som bedriver naringsverksamhet''),
     (''KB-ORGFO'', ''Kommanditbolag''),
     (''KHF-ORGFO'', ''Kooperativ hyresrattsforening''),
     (''MB-ORGFO'', ''Medlemsbank''),
     (''OFB-ORGFO'', ''Omsesidigt forsakringsbolag''),
     (''OTPB-ORGFO'', ''Omsesidigt tjanstepensionsbolag''),
     (''S-ORGFO'', ''Stiftelse som bedriver naringsverksamhet''),
     (''SB-ORGFO'', ''Sparbank''),
     (''SCE-ORGFO'', ''Europakooperativ''),
     (''SE-ORGFO'', ''Europabolag''),
     (''SF-ORGFO'', ''Sambruksforening''),
     (''TPAB-ORGFO'', ''Tjanstepensionsaktiebolag''),
     (''TPF-ORGFO'', ''Tjanstepensionsforening''),
     (''TSF-ORGFO'', ''Trossamfund som bedriver naringsverksamhet''),
     (''E-ORGFO'', ''Enskild naringsverksamhet'')]"

definition identity_type_labels :: "(string \<times> string) list" where
  "identity_type_labels =
    [(''ORGNR-IDORG'', ''Organisationsnummer''),
     (''PERSON-IDORG'', ''Identitetsbeteckning person''),
     (''GDNR-IDORG'', ''GD-nummer''),
     (''SAMORDNR-IDORG'', ''Samordningsnummer''),
     (''SE-LAND'', ''Sverige'')]"

definition name_type_labels :: "(string \<times> string) list" where
  "name_type_labels =
    [(''FORETAGSNAMN-ORGNAM'', ''Foretagsnamn''),
     (''NAMN-ORGNAM'', ''Namn''),
     (''FORNAMN_FRSPRAK-ORGNAM'', ''Foretagsnamn pa frammande sprak''),
     (''SARS_FORNAMN-ORGNAM'', ''Sarskilt foretagsnamn'')]"

definition dereg_reason_labels :: "(string \<times> string) list" where
  "dereg_reason_labels =
    [(''AKEJH-AVORG'', ''Aktiekapitalet inte hojts''),
     (''ARSEED-AVORG'', ''Arsredovisning saknas''),
     (''AVREG-AVORG'', ''Avregistrerad''),
     (''BABAKEJH-AVORG'', ''Ombildat till bankaktiebolag eller aktiekapitalet inte hojts''),
     (''DELAV-AVORG'', ''Delning''),
     (''DOM-AVORG'', ''Beslut av instans''),
     (''FUAV-AVORG'', ''Fusion''),
     (''GROMAV-AVORG'', ''Gransoverskridande ombildning''),
     (''KKAV-AVORG'', ''Konkurs''),
     (''LIAV-AVORG'', ''Likvidation''),
     (''NYINN-AVORG'', ''Ny innehavare''),
     (''OMAV-AVORG'', ''Ombildning''),
     (''OMBAB-AVORG'', ''Ombildat till bankaktiebolag''),
     (''OVERK-AVORG'', ''Overksamhet''),
     (''UTLKKLI-AVORG'', ''Det utlandska foretagets likvidation eller konkurs''),
     (''VDSAK-AVORG'', ''Verkstallande direktor saknas''),
     (''VERKUPP-AVORG'', ''Verksamheten har upphort'')]"

definition restructuring_labels :: "(string \<times> string) list" where
  "restructuring_labels =
    [(''AC-AVOMFO'', ''Ackordsforhandling''),
     (''DEOL-AVOMFO'', ''Overlatande vid delning''),
     (''DEOT-AVOMFO'', ''Overtagande vid delning''),
     (''FUOL-AVOMFO'', ''Overlatande i fusion''),
     (''FUOT-AVOMFO'', ''Overtagande i fusion''),
     (''GROM-AVOMFO'', ''Gransoverskridande ombildning''),
     (''LI-AVOMFO'', ''Likvidation''),
     (''KK-AVOMFO'', ''Konkurs''),
     (''FR-AVOMFO'', ''Foretagsrekonstruktion''),
     (''OM-AVOMFO'', ''Ombildning''),
     (''RES-AVOMFO'', ''Resolution'')]"

definition label_of :: "(string \<times> string) list \<Rightarrow> string option \<Rightarrow> string option" where
  "label_of table c = Option.bind c (map_of table)"

section \<open>Fields\<close>

definition parse_delimited_line ::
  "(string \<Rightarrow> string + string list list) \<Rightarrow> string \<Rightarrow> string list result" where
  "parse_delimited_line parse_csv line =
     (case parse_csv line of
        Inl e \<Rightarrow> Inl (Failure e)
      | Inr records \<Rightarrow>
          (let cols = or_default (nth_opt records 0) []
           in if length cols \<noteq> 11
              then Inl (Failure (''Expected 11 columns, got '' @ show_nat (length cols)))
              else Inr (map trim cols)))"

definition split_composite_keep_empty :: "string option \<Rightarrow> string list" where
  "split_composite_keep_empty raw =
     (case Option.bind raw nonempty of None \<Rightarrow> [] | Some r \<Rightarrow> map trim (split_on (CHR ''$'') r))"

definition split_composite_non_empty :: "string option \<Rightarrow> string list" where
  "split_composite_non_empty raw = filter (\<lambda>v. v \<noteq> []) (split_composite_keep_empty raw)"

text \<open>\<open>s.trim() || null\<close>, and the same on a piece that may be missing (\<open>?.\<close>).\<close>

definition trim_or_null :: "string \<Rightarrow> string option" where
  "trim_or_null s = nonempty (trim s)"

definition piece :: "string list \<Rightarrow> nat \<Rightarrow> string option" where
  "piece bits i = Option.bind (nth_opt bits i) trim_or_null"

record parsed_identity =
  id_value :: "string option"
  id_typeCode :: "string option"
  id_typeLabel :: "string option"
  id_organisationNumber :: "string option"
  id_personalIdentityNumber :: "string option"

text \<open>\<open>indexOf('$')\<close> splits at the first dollar sign.\<close>

definition parse_identity :: "string option \<Rightarrow> parsed_identity" where
  "parse_identity raw =
     (case Option.bind raw nonempty of
        None \<Rightarrow> \<lparr>id_value = None, id_typeCode = None, id_typeLabel = None,
          id_organisationNumber = None, id_personalIdentityNumber = None\<rparr>
      | Some r \<Rightarrow>
          (let left = takeWhile (\<lambda>c. c \<noteq> CHR ''$'') r;
               right = drop (Suc (length left)) r;
               v = nonempty (digits_only left);
               typeCode = trim_or_null right
           in \<lparr>id_value = v, id_typeCode = typeCode,
               id_typeLabel = label_of identity_type_labels typeCode,
               id_organisationNumber = (if typeCode = Some ''ORGNR-IDORG'' then v else None),
               id_personalIdentityNumber =
                 (if typeCode = Some ''PERSON-IDORG'' \<or> typeCode = Some ''SAMORDNR-IDORG'' then v
                  else None)\<rparr>))"

definition parse_name_primary :: "string option \<Rightarrow> string option" where
  "parse_name_primary raw = nth_opt (split_composite_non_empty raw) 0"

record parsed_address =
  ad_deliveryAddress :: "string option"
  ad_coAddress :: "string option"
  ad_city :: "string option"
  ad_postalCode :: "string option"
  ad_countryCode :: "string option"
  ad_warning :: "string option"

definition is_postal :: "string option \<Rightarrow> bool" where
  "is_postal v = (case Option.bind v nonempty of
     None \<Rightarrow> False | Some s \<Rightarrow> matches (digits 5) (filter (\<lambda>c. \<not> is_space c) s))"

definition parse_address :: "string option \<Rightarrow> parsed_address" where
  "parse_address raw =
     (let p = split_composite_keep_empty raw;
          p2 = nth_opt p 2;
          p3 = nth_opt p 3;
          (city, postalCode, warning) =
            (if is_postal p2 \<and> \<not> is_postal p3 then (p3, p2, None)
             else if \<not> is_postal p2 \<and> \<not> is_postal p3 \<and>
               (Option.bind p2 nonempty \<noteq> None \<or> Option.bind p3 nonempty \<noteq> None)
             then (p2, p3, Some ''Unable to confidently detect postal code vs city'')
             else (p2, p3, None))
      in \<lparr>ad_deliveryAddress = nth_opt p 0, ad_coAddress = piece p 1, ad_city = city,
          ad_postalCode = postalCode, ad_countryCode = nth_opt p 4, ad_warning = warning\<rparr>)"

definition date_regex :: "(char \<Rightarrow> bool) list" where
  "date_regex = digits 4 @ [lit CHR ''-''] @ digits 2 @ [lit CHR ''-''] @ digits 2"

definition normalize_date :: "string option \<Rightarrow> string option" where
  "normalize_date v =
     (case Option.bind v trim_or_null of
        None \<Rightarrow> None | Some t \<Rightarrow> if matches date_regex t then Some t else None)"

definition is_avorg :: "string \<Rightarrow> bool" where
  "is_avorg p = ends_with ''-AVORG'' (to_upper p)"

definition parse_deregistration_reason :: "string option \<Rightarrow> string option \<times> string option" where
  "parse_deregistration_reason raw =
     (case Option.bind raw nonempty of
        None \<Rightarrow> (None, None)
      | Some r \<Rightarrow>
          (case filter (\<lambda>v. v \<noteq> []) (map trim (split_on (CHR ''$'') r)) of
             [] \<Rightarrow> (None, None)
           | [only] \<Rightarrow> if is_avorg only then (Some only, None) else (None, Some only)
           | parts \<Rightarrow>
               (let codeCandidate = find is_avorg parts
                in (codeCandidate, find (\<lambda>p. Some p \<noteq> codeCandidate) parts))))"

text \<open>\<open>raw.split('|').map(trim).filter(Boolean)\<close>\<close>

definition entries :: "string option \<Rightarrow> string list" where
  "entries raw =
     (case Option.bind raw nonempty of
        None \<Rightarrow> [] | Some r \<Rightarrow> filter (\<lambda>v. v \<noteq> []) (map trim (split_on (CHR ''|'') r)))"

definition parse_name :: "string \<Rightarrow> bulk_name" where
  "parse_name part =
     (let bits = split_on (CHR ''$'') part;
          typeCode = piece bits 1
      in \<lparr>bn_name = piece bits 0, bn_typeCode = typeCode,
          bn_typeLabel = label_of name_type_labels typeCode,
          bn_registrationDate = normalize_date (piece bits 2),
          bn_extra = trim_or_null (join ''$'' (drop 3 bits))\<rparr>)"

definition parse_names :: "string option \<Rightarrow> bulk_name list" where
  "parse_names raw = map parse_name (entries raw)"

definition pick_primary_name :: "bulk_name list \<Rightarrow> bulk_name option" where
  "pick_primary_name names =
     or_else (find (\<lambda>n. bn_typeCode n = Some ''FORETAGSNAMN-ORGNAM'') names)
       (or_else (find (\<lambda>n. bn_typeCode n = Some ''NAMN-ORGNAM'') names) (nth_opt names 0))"

definition parse_restructuring_entry :: "string \<Rightarrow> restructuring_entry" where
  "parse_restructuring_entry part =
     (let bits = split_on (CHR ''$'') part;
          c = piece bits 0;
          b1 = piece bits 1;
          b2 = piece bits 2;
          (txt, fromDate) =
            (if b2 \<noteq> None then (b1, normalize_date b2)
             else if b1 \<noteq> None
             then (if normalize_date b1 \<noteq> None then (None, normalize_date b1) else (b1, None))
             else (None, None))
      in \<lparr>re_code = c, re_label = label_of restructuring_labels c, re_text = txt,
          re_fromDate = fromDate\<rparr>)"

definition parse_restructuring :: "string option \<Rightarrow> restructuring_entry list" where
  "parse_restructuring raw = map parse_restructuring_entry (entries raw)"

section \<open>Lines\<close>

definition pick :: "string list \<Rightarrow> nat \<Rightarrow> string option" where
  "pick cols i = Option.bind (nth_opt cols i) trim_or_null"

definition source_identity_key :: "parsed_identity \<Rightarrow> string option \<Rightarrow> string" where
  "source_identity_key i namnskydd =
     or_default (id_typeCode i) [] @ '':'' @ or_default (id_value i) [] @ '':'' @
     or_default namnskydd []"

definition staging_of_columns :: "(string \<Rightarrow> string) \<Rightarrow> string \<Rightarrow> string list \<Rightarrow> parsed_bulk_line" where
  "staging_of_columns sha256 line cols =
     (let identityRaw = pick cols 0;
          namnskydd = pick cols 1;
          registrationCountryCode = pick cols 2;
          namesRaw = pick cols 3;
          organisationFormCode = pick cols 4;
          restructuringRaw = pick cols 7;
          postalAddressRaw = pick cols 10;
          (reasonCode, reasonText) = parse_deregistration_reason (pick cols 6);
          i = parse_identity identityRaw;
          names = parse_names namesRaw;
          primaryName = pick_primary_name names;
          restructuringEntries = parse_restructuring restructuringRaw;
          address = parse_address postalAddressRaw
      in \<lparr>pb_sourceIdentityKey = source_identity_key i namnskydd,
          pb_identityRaw = identityRaw,
          pb_identityValue = id_value i,
          pb_identityType = id_typeCode i,
          pb_identityTypeLabel = id_typeLabel i,
          pb_organisationNumber = id_organisationNumber i,
          pb_personalIdentityNumber = id_personalIdentityNumber i,
          pb_nameProtectionSequenceNumber = namnskydd,
          pb_registrationCountryLabel =
            (if registrationCountryCode = Some ''SE-LAND'' then Some ''Sverige'' else None),
          pb_namesRaw = namesRaw,
          pb_namePrimary = or_else (Option.bind primaryName bn_name) (parse_name_primary namesRaw),
          pb_primaryNameTypeCode = Option.bind primaryName bn_typeCode,
          pb_primaryNameTypeLabel = Option.bind primaryName bn_typeLabel,
          pb_namesAll = names,
          pb_organisationFormCode = organisationFormCode,
          pb_organisationFormLabel = label_of legal_form_labels organisationFormCode,
          pb_registrationDate = normalize_date (pick cols 8),
          pb_deregistrationDate = normalize_date (pick cols 5),
          pb_deregistrationReasonCode = reasonCode,
          pb_deregistrationReasonText = reasonText,
          pb_deregistrationReasonLabel = label_of dereg_reason_labels reasonCode,
          pb_restructuringRaw = restructuringRaw,
          pb_hasActiveRestructuringOrWindup = (restructuringEntries \<noteq> []),
          pb_activeRestructuringCodes = List.map_filter re_code restructuringEntries,
          pb_activeRestructuringLabels = List.map_filter re_label restructuringEntries,
          pb_restructuringEntries = restructuringEntries,
          pb_businessDescription = pick cols 9,
          pb_postalAddressRaw = postalAddressRaw,
          pb_deliveryAddress = ad_deliveryAddress address,
          pb_coAddress = ad_coAddress address,
          pb_postalCode = ad_postalCode address,
          pb_city = ad_city address,
          pb_countryCode = ad_countryCode address,
          pb_postalParseWarning = ad_warning address,
          pb_registrationCountryCode = registrationCountryCode,
          pb_namnskyddslopnummer = namnskydd,
          pb_contentHash = sha256 line,
          pb_rawColumns = cols\<rparr>)"

definition parse_line_to_staging ::
  "(string \<Rightarrow> string + string list list) \<Rightarrow> (string \<Rightarrow> string) \<Rightarrow> string \<Rightarrow> parsed_bulk_line result"
where
  "parse_line_to_staging parse_csv sha256 line =
     (case parse_delimited_line parse_csv line of
        Inl e \<Rightarrow> Inl e
      | Inr cols \<Rightarrow> Inr (staging_of_columns sha256 line cols))"

section \<open>Laws of the fields\<close>

lemma trim_id:
  assumes "\<not> is_space (hd s)" "\<not> is_space (last s)"
  shows "trim s = s"
proof (cases s)
  case Nil
  then show ?thesis by (simp add: trim_def)
next
  case (Cons c r)
  then have "dropWhile is_space s = s" using assms(1) by simp
  moreover have "dropWhile is_space (rev s) = rev s"
  proof -
    obtain d r' where r: "rev s = d # r'" using Cons by (cases "rev s") auto
    then have "d = last s" by (metis hd_rev list.sel(1))
    then show ?thesis unfolding r using assms(2) by simp
  qed
  ultimately show ?thesis by (simp add: trim_def)
qed

lemma dropWhile_id_hd: "dropWhile p xs = xs \<Longrightarrow> xs \<noteq> [] \<Longrightarrow> \<not> p (hd xs)"
  using hd_dropWhile [of p xs] by simp

lemma length_dropWhile_eq: "length (dropWhile p xs) = length xs \<Longrightarrow> dropWhile p xs = xs"
  by (metis dropWhile_eq_drop length_drop takeWhile_dropWhile_id append_self_conv2 diff_diff_cancel
      length_0_conv length_append add_cancel_right_left)

lemma trimmed_ends:
  assumes "trim s = s" "s \<noteq> []"
  shows "\<not> is_space (hd s)" "\<not> is_space (last s)"
proof -
  let ?d = "dropWhile is_space s"
  have le: "length (trim s) \<le> length ?d" "length ?d \<le> length s"
    by (simp_all add: trim_def length_dropWhile_le le_trans [OF length_dropWhile_le])
  then have d: "?d = s" using assms(1) by (intro length_dropWhile_eq) simp
  with assms(2) show "\<not> is_space (hd s)" using dropWhile_id_hd by metis
  have "dropWhile is_space (rev s) = rev s" using assms(1) d by (simp add: trim_def rev_swap)
  with assms(2) show "\<not> is_space (last s)" using dropWhile_id_hd [of is_space "rev s"] by (simp add: hd_rev)
qed

lemma trim_trim [simp]: "trim (trim s) = trim s"
proof (cases "trim s = []")
  case False
  let ?d = "dropWhile is_space s"
  have nonempty: "dropWhile is_space (rev ?d) \<noteq> []" using False by (simp add: trim_def)
  then have last: "\<not> is_space (last (trim s))"
    unfolding trim_def by (simp add: last_rev hd_dropWhile)
  have "?d \<noteq> []" using nonempty by (metis dropWhile.simps(1) rev.simps(1))
  then have "\<not> is_space (hd ?d)" by (rule hd_dropWhile)
  moreover obtain pre where "rev ?d = pre @ dropWhile is_space (rev ?d)"
    by (metis takeWhile_dropWhile_id)
  then have "?d = trim s @ rev pre" unfolding trim_def by (metis rev_append rev_rev_ident)
  then have "hd ?d = hd (trim s)" using False by (metis hd_append2)
  ultimately show ?thesis using last by (intro trim_id) simp_all
next
  case True
  show ?thesis unfolding True by (simp add: trim_def)
qed

lemma trim_or_null_SomeD: "trim_or_null s = Some t \<Longrightarrow> t = trim s \<and> t \<noteq> [] \<and> trim t = t"
  by (auto simp: trim_or_null_def dest: nonempty_SomeD)

lemma normalize_date_SomeD: "normalize_date v = Some d \<Longrightarrow> matches date_regex d"
  by (auto simp: normalize_date_def split: option.splits if_splits)

lemma nonempty_digits: "nonempty (digits_only s) = Some v \<Longrightarrow> v \<noteq> [] \<and> (\<forall>c \<in> set v. is_digit c)"
  using digits_only_digits [of s] by (auto dest: nonempty_SomeD)

lemma parse_identity_numbers:
  "id_organisationNumber (parse_identity raw) = Some v \<Longrightarrow>
    v \<noteq> [] \<and> (\<forall>c \<in> set v. is_digit c) \<and> id_typeCode (parse_identity raw) = Some ''ORGNR-IDORG'' \<and>
    id_personalIdentityNumber (parse_identity raw) = None"
  by (auto simp: parse_identity_def Let_def nonempty_digits split: option.splits if_splits
      dest: nonempty_digits)

lemma parse_delimited_line_Inr:
  "parse_delimited_line csv line = Inr cols \<Longrightarrow> length cols = 11 \<and> (\<forall>c \<in> set cols. trim c = c)"
  by (auto simp: parse_delimited_line_def Let_def split: sum.splits if_splits)

section \<open>Names written and read back\<close>

definition write_field :: "string option \<Rightarrow> string" where
  "write_field f = or_default f []"

definition write_name :: "bulk_name \<Rightarrow> string" where
  "write_name n =
     join ''$'' [write_field (bn_name n), write_field (bn_typeCode n), write_field (bn_registrationDate n)] @
     (case bn_extra n of None \<Rightarrow> [] | Some e \<Rightarrow> ''$'' @ e)"

definition clean :: "char set \<Rightarrow> string option \<Rightarrow> bool" where
  "clean seps f \<longleftrightarrow> (\<forall>s. f = Some s \<longrightarrow> s \<noteq> [] \<and> trim s = s \<and> set s \<inter> seps = {})"

definition clean_name :: "bulk_name \<Rightarrow> bool" where
  "clean_name n \<longleftrightarrow>
     clean {CHR ''$'', CHR ''|''} (bn_name n) \<and> clean {CHR ''$'', CHR ''|''} (bn_typeCode n) \<and>
     clean {CHR ''|''} (bn_extra n) \<and>
     bn_typeLabel n = label_of name_type_labels (bn_typeCode n) \<and>
     (case bn_registrationDate n of None \<Rightarrow> True | Some d \<Rightarrow> matches date_regex d)"

lemma is_space_seps [simp]: "\<not> is_space CHR ''$''" "\<not> is_space CHR ''|''" "\<not> is_space CHR ''-''"
  by (simp_all add: is_space_def code_def)

lemma digit_not_space: "is_digit c \<Longrightarrow> \<not> is_space c \<and> c \<noteq> CHR ''$'' \<and> c \<noteq> CHR ''|''"
  by (auto simp: is_digit_def is_space_def code_def)

lemma matches_ball:
  "matches cs s \<Longrightarrow> \<forall>p \<in> set cs. \<forall>c. p c \<longrightarrow> Q c \<Longrightarrow> \<forall>c \<in> set s. Q c"
  unfolding matches_def by (induction cs s rule: list_all2_induct) auto

lemma date_clean:
  assumes "matches date_regex d"
  shows "d \<noteq> []" "trim d = d" "CHR ''$'' \<notin> set d" "CHR ''|'' \<notin> set d"
proof -
  have len: "length d = 10" using matches_length [OF assms] by (simp add: date_regex_def digits_def)
  then show "d \<noteq> []" by auto
  have all: "\<forall>c \<in> set d. \<not> is_space c \<and> c \<noteq> CHR ''$'' \<and> c \<noteq> CHR ''|''"
  proof (rule matches_ball [OF assms], intro ballI allI impI)
    fix p c assume "p \<in> set date_regex" "p c"
    then have "is_digit c \<or> c = CHR ''-''" by (auto simp: date_regex_def digits_def)
    then show "\<not> is_space c \<and> c \<noteq> CHR ''$'' \<and> c \<noteq> CHR ''|''" using digit_not_space by auto
  qed
  then show "CHR ''$'' \<notin> set d" "CHR ''|'' \<notin> set d" by blast+
  show "trim d = d"
    by (rule trim_id) (use all \<open>d \<noteq> []\<close> in \<open>simp_all add: hd_in_set last_in_set\<close>)
qed

lemma clean_write:
  assumes "clean seps f"
  shows "trim_or_null (write_field f) = f" "set (write_field f) \<inter> seps = {}"
  by (cases f; use assms in \<open>simp add: clean_def write_field_def trim_or_null_def nonempty_def\<close>;
      simp add: trim_def)+

lemma clean_name_fields:
  assumes "clean_name n"
  shows "piece [write_field (bn_name n), write_field (bn_typeCode n), write_field (bn_registrationDate n)] 0 = bn_name n"
    "trim_or_null (write_field (bn_name n)) = bn_name n"
    "trim_or_null (write_field (bn_typeCode n)) = bn_typeCode n"
    "normalize_date (trim_or_null (write_field (bn_registrationDate n))) = bn_registrationDate n"
    "CHR ''$'' \<notin> set (write_field (bn_name n))" "CHR ''$'' \<notin> set (write_field (bn_typeCode n))"
    "CHR ''$'' \<notin> set (write_field (bn_registrationDate n))"
    "CHR ''|'' \<notin> set (write_field (bn_name n))" "CHR ''|'' \<notin> set (write_field (bn_typeCode n))"
    "CHR ''|'' \<notin> set (write_field (bn_registrationDate n))"
proof -
  have c: "clean {CHR ''$'', CHR ''|''} (bn_name n)" "clean {CHR ''$'', CHR ''|''} (bn_typeCode n)"
    using assms by (simp_all add: clean_name_def)
  show name: "trim_or_null (write_field (bn_name n)) = bn_name n"
    and "trim_or_null (write_field (bn_typeCode n)) = bn_typeCode n"
    using clean_write(1) c by blast+
  show "piece [write_field (bn_name n), write_field (bn_typeCode n), write_field (bn_registrationDate n)] 0 = bn_name n"
    using name by (simp add: piece_def)
  show "CHR ''$'' \<notin> set (write_field (bn_name n))" "CHR ''$'' \<notin> set (write_field (bn_typeCode n))"
    "CHR ''|'' \<notin> set (write_field (bn_name n))" "CHR ''|'' \<notin> set (write_field (bn_typeCode n))"
    using clean_write(2) [OF c(1)] clean_write(2) [OF c(2)] by blast+
  have d: "matches date_regex d" if "bn_registrationDate n = Some d" for d
    using assms that by (simp add: clean_name_def)
  show "CHR ''$'' \<notin> set (write_field (bn_registrationDate n))"
    "CHR ''|'' \<notin> set (write_field (bn_registrationDate n))"
    using date_clean(3,4) d by (auto simp: write_field_def or_default_def split: option.splits)
  show "normalize_date (trim_or_null (write_field (bn_registrationDate n))) = bn_registrationDate n"
  proof (cases "bn_registrationDate n")
    case None
    then show ?thesis by (simp add: write_field_def trim_or_null_def trim_def normalize_date_def)
  next
    case (Some e)
    from date_clean [OF d [OF Some]] d [OF Some] Some show ?thesis
      by (simp add: write_field_def trim_or_null_def nonempty_def normalize_date_def)
  qed
qed

lemma split_write_name:
  assumes "clean_name n"
  shows "split_on (CHR ''$'') (write_name n) =
    [write_field (bn_name n), write_field (bn_typeCode n), write_field (bn_registrationDate n)] @
    (case bn_extra n of None \<Rightarrow> [] | Some e \<Rightarrow> split_on (CHR ''$'') e)"
  using clean_name_fields(5-7) [OF assms]
  by (cases "bn_extra n") (simp_all add: write_name_def split_on_append split_on_single)

lemma parse_write_name: "clean_name n \<Longrightarrow> parse_name (write_name n) = n"
proof -
  assume c: "clean_name n"
  note f = clean_name_fields [OF c]
  have e: "trim_or_null (join ''$'' (case bn_extra n of None \<Rightarrow> [] | Some e \<Rightarrow> split_on (CHR ''$'') e)) =
      bn_extra n"
  proof (cases "bn_extra n")
    case None
    then show ?thesis by (simp add: trim_or_null_def trim_def)
  next
    case (Some e)
    with c have "e \<noteq> []" "trim e = e" by (auto simp: clean_name_def clean_def)
    with Some show ?thesis by (simp add: join_split_on trim_or_null_def nonempty_def)
  qed
  have l: "bn_typeLabel n = label_of name_type_labels (bn_typeCode n)"
    using c by (simp add: clean_name_def)
  show ?thesis
    by (rule bulk_name.equality)
      (simp_all add: parse_name_def split_write_name [OF c] Let_def piece_def f e l numeral_2_eq_2 numeral_3_eq_3)
qed

lemma write_name_entry:
  assumes "clean_name n"
  shows "trim (write_name n) = write_name n" "write_name n \<noteq> []" "CHR ''|'' \<notin> set (write_name n)"
proof -
  show ne: "write_name n \<noteq> []" by (simp add: write_name_def)
  have ends: "\<not> is_space (hd (write_field f)) \<and> \<not> is_space (last (write_field f))"
    if "clean seps f" "write_field f \<noteq> []" for seps f
    using that trimmed_ends [of "write_field f"]
    by (auto simp: clean_def write_field_def or_default_def split: option.splits)
  have name: "clean {CHR ''$'', CHR ''|''} (bn_name n)" using assms by (simp add: clean_name_def)
  have extra: "clean {CHR ''|''} (bn_extra n)" using assms by (simp add: clean_name_def)
  have date: "\<not> is_space (last (write_field (bn_registrationDate n)))"
    if "write_field (bn_registrationDate n) \<noteq> []"
    using that assms date_clean(1,2) trimmed_ends
    by (auto simp: clean_name_def write_field_def or_default_def split: option.splits)
  have "\<not> is_space (hd (write_name n))"
    using ends [OF name] by (cases "write_field (bn_name n)") (simp_all add: write_name_def)
  moreover have "\<not> is_space (last (write_name n))"
  proof (cases "bn_extra n")
    case None
    then show ?thesis
      using date by (cases "write_field (bn_registrationDate n) = []") (simp_all add: write_name_def)
  next
    case (Some e)
    then have "e \<noteq> []" "\<not> is_space (last e)"
      using extra ends [OF extra] by (auto simp: clean_def write_field_def)
    with Some show ?thesis by (simp add: write_name_def)
  qed
  ultimately show "trim (write_name n) = write_name n" by (rule trim_id)
  have "CHR ''|'' \<notin> set e" if "bn_extra n = Some e" for e
    using extra that by (auto simp: clean_def)
  with clean_name_fields(8-10) [OF assms] show "CHR ''|'' \<notin> set (write_name n)"
    by (auto simp: write_name_def split: option.splits)
qed

lemma entries_join:
  assumes "\<forall>x \<in> set xs. trim x = x \<and> x \<noteq> [] \<and> CHR ''|'' \<notin> set x" "xs \<noteq> []"
  shows "entries (Some (join ''|'' xs)) = xs"
proof -
  have "join ''|'' xs \<noteq> []" using assms by (cases xs rule: list.exhaust; cases "tl xs") auto
  moreover have "split_on (CHR ''|'') (join ''|'' xs) = xs"
    by (rule split_on_join) (use assms in auto)
  moreover have "map trim xs = xs" "filter (\<lambda>v. v \<noteq> []) xs = xs"
    using assms by (auto intro: map_idI filter_True)
  ultimately show ?thesis by (simp add: entries_def nonempty_def)
qed

section \<open>Properties\<close>

text \<open>C27: A list of company names with their type codes, registration dates and remarks,
  written in the composite format of the bulk file, is read back exactly by \<open>parseNames\<close>.\<close>

theorem parse_names_roundtrip:
  assumes "names \<noteq> []" and "\<forall>n \<in> set names. clean_name n"
  shows "parse_names (Some (join ''|'' (map write_name names))) = names"
proof -
  have "entries (Some (join ''|'' (map write_name names))) = map write_name names"
    by (rule entries_join) (use assms write_name_entry in auto)
  then show ?thesis
    using assms(2) by (simp add: parse_names_def map_idI parse_write_name)
qed

definition sample_name :: bulk_name where
  "sample_name = \<lparr>bn_name = Some ''Exempel AB'', bn_typeCode = Some ''NAMN-ORGNAM'',
     bn_typeLabel = Some ''Namn'', bn_registrationDate = Some ''2001-02-03'', bn_extra = None\<rparr>"

lemma sample_name_text: "write_name sample_name = ''Exempel AB$NAMN-ORGNAM$2001-02-03''"
  by (simp add: write_name_def sample_name_def write_field_def)

theorem parse_names_roundtrip_witness:
  "parse_names (Some ''Exempel AB$NAMN-ORGNAM$2001-02-03'') = [sample_name]"
proof -
  have "clean_name sample_name"
    by (simp add: clean_name_def sample_name_def clean_def trim_def is_space_def code_def label_of_def
        name_type_labels_def date_regex_def digits_def matches_def is_digit_def numeral_eq_Suc)
  with parse_names_roundtrip [of "[sample_name]"] show ?thesis by (simp add: sample_name_text)
qed

lemma staging_fields:
  "pb_rawColumns (staging_of_columns h line cols) = cols"
  "pb_contentHash (staging_of_columns h line cols) = h line"
  "pb_registrationDate (staging_of_columns h line cols) = normalize_date (pick cols 8)"
  "pb_deregistrationDate (staging_of_columns h line cols) = normalize_date (pick cols 5)"
  "pb_organisationNumber (staging_of_columns h line cols) =
    id_organisationNumber (parse_identity (pick cols 0))"
  "pb_personalIdentityNumber (staging_of_columns h line cols) =
    id_personalIdentityNumber (parse_identity (pick cols 0))"
  "pb_identityType (staging_of_columns h line cols) = id_typeCode (parse_identity (pick cols 0))"
  by (simp_all add: staging_of_columns_def Let_def split: prod.splits)

definition well_formed_date :: "string option \<Rightarrow> bool" where
  "well_formed_date d \<longleftrightarrow> (case d of None \<Rightarrow> True | Some t \<Rightarrow> matches date_regex t)"

lemma normalize_date_well_formed: "well_formed_date (normalize_date v)"
  by (auto simp: well_formed_date_def split: option.splits dest: normalize_date_SomeD)


text \<open>\<open>parseAddress\<close> recovers from the two orders the source uses for postal code and city:
  when exactly one of the third and fourth parts is a five-digit code, that part is the postal
  code and the other the city, without a warning; otherwise the parts stay in place, and the
  warning is set when there is text but no code.\<close>

theorem parse_address_postal:
  "let p = split_composite_keep_empty raw; a = parse_address raw in
    (if is_postal (nth_opt p 2) \<noteq> is_postal (nth_opt p 3)
     then is_postal (ad_postalCode a) \<and> \<not> is_postal (ad_city a) \<and>
       {ad_postalCode a, ad_city a} = {nth_opt p 2, nth_opt p 3} \<and> ad_warning a = None
     else ad_city a = nth_opt p 2 \<and> ad_postalCode a = nth_opt p 3 \<and>
       (ad_warning a \<noteq> None) = (\<not> is_postal (nth_opt p 2) \<and>
         (Option.bind (nth_opt p 2) nonempty \<noteq> None \<or> Option.bind (nth_opt p 3) nonempty \<noteq> None)))"
  by (auto simp: parse_address_def Let_def)

theorem parse_address_postal_witness:
  "is_postal (ad_postalCode (parse_address (Some ''Gatan 1$$11122$Stockholm$SE'')))"
proof -
  have p: "split_composite_keep_empty (Some ''Gatan 1$$11122$Stockholm$SE'') =
      [''Gatan 1'', [], ''11122'', ''Stockholm'', ''SE'']"
    by (simp add: split_composite_keep_empty_def trim_def is_space_def code_def)
  have "is_postal (Some ''11122'')" "\<not> is_postal (Some ''Stockholm'')"
    by (simp_all add: is_postal_def matches_digits is_digit_def is_space_def code_def)
  then show ?thesis
    using parse_address_postal [of "Some ''Gatan 1$$11122$Stockholm$SE''"]
    by (simp add: p Let_def)
qed

end
