(* ===== verification/BulkUpsert.thy ===== *)
theory BulkUpsert
  imports BulkParser Tables
begin

text \<open>
  \<open>BolagsverketBulkUpsertService\<close> (backend/src/bolagsverket-bulk/bolagsverket-bulk-upsert.service.ts)
  over the staging, current, history, name and restructuring tables of the bulk import
  (backend/src/bolagsverket-bulk/entities) and the company table it seeds. The current table is
  keyed by the organisation number, on which it has a unique index; surrogate ids are left out.
  The \<open>Date\<close> constructor on a registration date is the parameter \<open>to_date\<close>.
\<close>

section \<open>Tables\<close>

record staging_row =
  st_fileRunId :: string
  st_identityValue :: "string option"
  st_identityType :: "string option"
  st_namnskyddslopnummer :: "string option"
  st_registrationCountryCode :: "string option"
  st_organisationNamesRaw :: "string option"
  st_organisationFormCode :: "string option"
  st_deregistrationDate :: "string option"
  st_deregistrationReasonCode :: "string option"
  st_deregistrationReasonText :: "string option"
  st_restructuringRaw :: "string option"
  st_registrationDate :: "string option"
  st_businessDescription :: "string option"
  st_postalAddressRaw :: "string option"
  st_deliveryAddress :: "string option"
  st_coAddress :: "string option"
  st_postalCode :: "string option"
  st_city :: "string option"
  st_countryCode :: "string option"
  st_contentHash :: "string option"

text \<open>The columns the upsert writes.\<close>

record bulk_payload =
  bp_organisationNumber :: string
  bp_sourceIdentityKey :: string
  bp_identityValue :: "string option"
  bp_identityTypeCode :: "string option"
  bp_identityTypeLabel :: "string option"
  bp_personalIdentityNumber :: "string option"
  bp_nameProtectionSequenceNumber :: "string option"
  bp_identityType :: "string option"
  bp_namePrimary :: "string option"
  bp_primaryNameTypeCode :: "string option"
  bp_primaryNameTypeLabel :: "string option"
  bp_nameAllJsonb :: "bulk_name list"
  bp_organisationFormCode :: "string option"
  bp_organisationFormText :: "string option"
  bp_legalFormLabel :: "string option"
  bp_registrationDate :: "string option"
  bp_deregistrationDate :: "string option"
  bp_deregistrationReasonCode :: "string option"
  bp_deregistrationReasonText :: "string option"
  bp_deregistrationReasonLabel :: "string option"
  bp_restructuringRaw :: "string option"
  bp_hasActiveRestructuringOrWindup :: bool
  bp_activeRestructuringCodes :: "string list"
  bp_activeRestructuringLabels :: "string list"
  bp_businessDescription :: "string option"
  bp_rawPostadress :: "string option"
  bp_postalAddressLine :: "string option"
  bp_postalCoAddress :: "string option"
  bp_postalCity :: "string option"
  bp_postalCode :: "string option"
  bp_postalCountryCode :: "string option"
  bp_postalCountryLabel :: "string option"
  bp_registrationCountryLabel :: "string option"
  bp_registrationsCountryCode :: "string option"
  bp_sourceFileRunId :: "string option"
  bp_sourceIngestionRunId :: "string option"
  bp_sourceRawLineNumber :: "int option"
  bp_sourceLastSeenAt :: int
  bp_firstSeenAt :: int
  bp_lastSeenAt :: int
  bp_currentRecordHash :: "string option"
  bp_isDeregistered :: bool
  bp_isActive :: bool

text \<open>A current row: the written columns and those other services maintain.\<close>

record current_row =
  cu_payload :: bulk_payload
  cu_postalParseWarning :: "string option"
  cu_seedState :: string
  cu_deepDataFreshAt :: "int option"

datatype bulk_change_type = NewRow | UpdatedRow | UnchangedRow | RemovedRow

datatype history_snapshot = PayloadSnapshot bulk_payload | RemovedSnapshot string "string option"

record history_row =
  hi_organisationNumber :: string
  hi_fileRunId :: string
  hi_changeType :: bulk_change_type
  hi_snapshot :: history_snapshot
  hi_recordHash :: "string option"
  hi_validFrom :: int
  hi_validTo :: "int option"

record name_row =
  nr_sourceIdentityKey :: string
  nr_sourceFileRunId :: string
  nr_name :: bulk_name
  nr_ordinal :: nat

record restructuring_row =
  rr_sourceIdentityKey :: string
  rr_sourceFileRunId :: string
  rr_entry :: restructuring_entry
  rr_ordinal :: nat

record company =
  cm_tenantId :: string
  cm_organisationNumber :: string
  cm_legalName :: string
  cm_companyForm :: "string option"
  cm_status :: string
  cm_registeredAt :: "int option"
  cm_countryCode :: string
  cm_businessDescription :: "string option"
  cm_signatoryText :: "string option"
  cm_officers :: "int json list"
  cm_shareInformation :: "int members"
  cm_financialReports :: "int json list"
  cm_sourcePayloadSummary :: "int members"

record bulk_store =
  bs_staging :: "staging_row list"
  bs_current :: "current_row list"
  bs_history :: "history_row list"
  bs_names :: "name_row list"
  bs_restructuring :: "restructuring_row list"
  bs_companies :: "company list"

definition cu_org :: "current_row \<Rightarrow> string" where
  "cu_org c = bp_organisationNumber (cu_payload c)"

interpretation current_rows: entity_store cu_org "find_key cu_org" "save cu_org"
  by (rule table_entity_store)

section \<open>Derived columns\<close>

definition legal_form_labels_short :: "(string \<times> string) list" where
  "legal_form_labels_short =
     [(''AB-ORGFO'', ''Aktiebolag''), (''HB-ORGFO'', ''Handelsbolag''),
      (''KB-ORGFO'', ''Kommanditbolag''), (''E-ORGFO'', ''Enskild naringsverksamhet'')]"

definition dereg_reason_labels_short :: "(string \<times> string) list" where
  "dereg_reason_labels_short =
     [(''ARSEED-AVORG'', ''Arsredovisning saknas''), (''AVREG-AVORG'', ''Avregistrerad''),
      (''KKAV-AVORG'', ''Konkurs''), (''LIAV-AVORG'', ''Likvidation'')]"

definition restructuring_labels_short :: "(string \<times> string) list" where
  "restructuring_labels_short =
     [(''LI-AVOMFO'', ''Likvidation''), (''KK-AVOMFO'', ''Konkurs''),
      (''FR-AVOMFO'', ''Foretagsrekonstruktion''), (''OM-AVOMFO'', ''Ombildning'')]"

text \<open>The name table of this file is the parser's own.\<close>

definition name_type_labels_upsert :: "(string \<times> string) list" where
  "name_type_labels_upsert =
     [(''FORETAGSNAMN-ORGNAM'', ''Foretagsnamn''), (''NAMN-ORGNAM'', ''Namn''),
      (''FORNAMN_FRSPRAK-ORGNAM'', ''Foretagsnamn pa frammande sprak''),
      (''SARS_FORNAMN-ORGNAM'', ''Sarskilt foretagsnamn'')]"

definition label_if_code :: "(string \<times> string) list \<Rightarrow> string option \<Rightarrow> string option" where
  "label_if_code table c = Option.bind (Option.bind c nonempty) (map_of table)"

definition derive_name :: "string \<Rightarrow> bulk_name" where
  "derive_name x =
     (let p = map trim (split_on (CHR ''$'') x);
          typeCode = nth_opt p 1
      in \<lparr>bn_name = nth_opt p 0, bn_typeCode = typeCode,
          bn_typeLabel = label_if_code name_type_labels_upsert typeCode,
          bn_registrationDate = nth_opt p 2,
          bn_extra = nonempty (join ''$'' (drop 3 p))\<rparr>)"

definition derive_name_list :: "string option \<Rightarrow> bulk_name list" where
  "derive_name_list raw = map derive_name (entries raw)"

definition date_or_null :: "string option \<Rightarrow> string option" where
  "date_or_null v = (case Option.bind v nonempty of
     None \<Rightarrow> None | Some t \<Rightarrow> if matches date_regex t then Some t else None)"

definition derive_restructuring_entry :: "string \<Rightarrow> restructuring_entry" where
  "derive_restructuring_entry x =
     (let p = filter (\<lambda>v. v \<noteq> []) (map trim (split_on (CHR ''$'') x));
          c = nth_opt p 0;
          maybeDate = date_or_null (nth_opt p 1)
      in \<lparr>re_code = c, re_label = label_if_code restructuring_labels_short c,
          re_text = (if maybeDate \<noteq> None then None else nth_opt p 1),
          re_fromDate = or_else maybeDate (date_or_null (nth_opt p 2))\<rparr>)"

definition derive_restructuring :: "string option \<Rightarrow> restructuring_entry list" where
  "derive_restructuring raw = map derive_restructuring_entry (entries raw)"

definition staging_identity_key :: "staging_row \<Rightarrow> string" where
  "staging_identity_key row =
     or_default (st_identityType row) [] @ '':'' @ or_default (st_identityValue row) [] @ '':'' @
     or_default (st_namnskyddslopnummer row) []"

definition staging_org :: "staging_row \<Rightarrow> string" where
  "staging_org row = digits_only (or_default (st_identityValue row) [])"

definition sweden_or_code :: "string option \<Rightarrow> string option" where
  "sweden_or_code c = (if c = Some ''SE-LAND'' then Some ''Sverige'' else c)"

definition payload_of :: "string \<Rightarrow> int \<Rightarrow> current_row option \<Rightarrow> staging_row \<Rightarrow> bulk_payload" where
  "payload_of fileRunId runAt existing row =
     (let nameList = derive_name_list (st_organisationNamesRaw row);
          primaryName = pick_primary_name nameList;
          restructuring = derive_restructuring (st_restructuringRaw row);
          formLabel = label_if_code legal_form_labels_short (st_organisationFormCode row)
      in \<lparr>bp_organisationNumber = staging_org row,
          bp_sourceIdentityKey = staging_identity_key row,
          bp_identityValue = st_identityValue row,
          bp_identityTypeCode = st_identityType row,
          bp_identityTypeLabel =
            (if st_identityType row = Some ''ORGNR-IDORG'' then Some ''Organisationsnummer''
             else if st_identityType row = Some ''PERSON-IDORG''
             then Some ''Identitetsbeteckning person'' else st_identityType row),
          bp_personalIdentityNumber =
            (if st_identityType row = Some ''PERSON-IDORG'' then st_identityValue row else None),
          bp_nameProtectionSequenceNumber = st_namnskyddslopnummer row,
          bp_identityType = st_identityType row,
          bp_namePrimary = or_else (Option.bind primaryName bn_name)
            (or_else (map_option (\<lambda>r. hd (split_on (CHR ''$'') r)) (st_organisationNamesRaw row))
              (st_identityValue row)),
          bp_primaryNameTypeCode = Option.bind primaryName bn_typeCode,
          bp_primaryNameTypeLabel = Option.bind primaryName bn_typeLabel,
          bp_nameAllJsonb = nameList,
          bp_organisationFormCode = st_organisationFormCode row,
          bp_organisationFormText =
            (if truthy_str (st_organisationFormCode row)
             then or_else formLabel (st_organisationFormCode row) else None),
          bp_legalFormLabel = formLabel,
          bp_registrationDate = st_registrationDate row,
          bp_deregistrationDate = st_deregistrationDate row,
          bp_deregistrationReasonCode = st_deregistrationReasonCode row,
          bp_deregistrationReasonText = st_deregistrationReasonText row,
          bp_deregistrationReasonLabel =
            label_if_code dereg_reason_labels_short (st_deregistrationReasonCode row),
          bp_restructuringRaw = st_restructuringRaw row,
          bp_hasActiveRestructuringOrWindup = (restructuring \<noteq> []),
          bp_activeRestructuringCodes =
            List.map_filter (\<lambda>r. Option.bind (re_code r) nonempty) restructuring,
          bp_activeRestructuringLabels =
            List.map_filter (\<lambda>r. Option.bind (re_label r) nonempty) restructuring,
          bp_businessDescription = st_businessDescription row,
          bp_rawPostadress = st_postalAddressRaw row,
          bp_postalAddressLine = st_deliveryAddress row,
          bp_postalCoAddress = st_coAddress row,
          bp_postalCity = st_city row,
          bp_postalCode = st_postalCode row,
          bp_postalCountryCode = st_countryCode row,
          bp_postalCountryLabel = sweden_or_code (st_countryCode row),
          bp_registrationCountryLabel = sweden_or_code (st_registrationCountryCode row),
          bp_registrationsCountryCode = st_registrationCountryCode row,
          bp_sourceFileRunId = Some fileRunId,
          bp_sourceIngestionRunId = Some fileRunId,
          bp_sourceRawLineNumber = None,
          bp_sourceLastSeenAt = runAt,
          bp_firstSeenAt = (case existing of None \<Rightarrow> runAt | Some e \<Rightarrow> bp_firstSeenAt (cu_payload e)),
          bp_lastSeenAt = runAt,
          bp_currentRecordHash = st_contentHash row,
          bp_isDeregistered = truthy_str (st_deregistrationDate row),
          bp_isActive = (\<not> truthy_str (st_deregistrationDate row))\<rparr>)"

text \<open>The staging row the ingestion writes for a parsed line (in
  backend/src/bolagsverket-bulk/bolagsverket-bulk.service.ts).\<close>

definition staging_of_parsed :: "string \<Rightarrow> parsed_bulk_line \<Rightarrow> staging_row" where
  "staging_of_parsed fileRunId p =
     \<lparr>st_fileRunId = fileRunId, st_identityValue = pb_identityValue p,
      st_identityType = pb_identityType p, st_namnskyddslopnummer = pb_namnskyddslopnummer p,
      st_registrationCountryCode = pb_registrationCountryCode p,
      st_organisationNamesRaw = pb_namesRaw p, st_organisationFormCode = pb_organisationFormCode p,
      st_deregistrationDate = pb_deregistrationDate p,
      st_deregistrationReasonCode = pb_deregistrationReasonCode p,
      st_deregistrationReasonText = pb_deregistrationReasonText p,
      st_restructuringRaw = pb_restructuringRaw p, st_registrationDate = pb_registrationDate p,
      st_businessDescription = pb_businessDescription p,
      st_postalAddressRaw = pb_postalAddressRaw p, st_deliveryAddress = pb_deliveryAddress p,
      st_coAddress = pb_coAddress p, st_postalCode = pb_postalCode p, st_city = pb_city p,
      st_countryCode = pb_countryCode p, st_contentHash = Some (pb_contentHash p)\<rparr>"

section \<open>Applying a run\<close>

definition with_ordinals :: "(nat \<Rightarrow> 'a \<Rightarrow> 'b) \<Rightarrow> 'a list \<Rightarrow> 'b list" where
  "with_ordinals f xs = map (\<lambda>(i, x). f i x) (zip [0..<length xs] xs)"

definition replace_names ::
  "string \<Rightarrow> string \<Rightarrow> bulk_name list \<Rightarrow> name_row list \<Rightarrow> name_row list" where
  "replace_names key fileRunId names t =
     delete_where (\<lambda>r. nr_sourceIdentityKey r = key \<and> nr_sourceFileRunId r = fileRunId) t @
     with_ordinals (\<lambda>i n. \<lparr>nr_sourceIdentityKey = key, nr_sourceFileRunId = fileRunId, nr_name = n,
       nr_ordinal = i\<rparr>) names"

definition replace_restructuring ::
  "string \<Rightarrow> string \<Rightarrow> restructuring_entry list \<Rightarrow> restructuring_row list \<Rightarrow>
   restructuring_row list" where
  "replace_restructuring key fileRunId es t =
     delete_where (\<lambda>r. rr_sourceIdentityKey r = key \<and> rr_sourceFileRunId r = fileRunId) t @
     with_ordinals (\<lambda>i e. \<lparr>rr_sourceIdentityKey = key, rr_sourceFileRunId = fileRunId,
       rr_entry = e, rr_ordinal = i\<rparr>) es"

definition close_open_history ::
  "string \<Rightarrow> string \<Rightarrow> int \<Rightarrow> history_row list \<Rightarrow> history_row list" where
  "close_open_history org fileRunId runAt t =
     update_where (\<lambda>h. hi_organisationNumber h = org \<and> hi_fileRunId h \<noteq> fileRunId \<and> hi_validTo h = None)
       (\<lambda>h. h\<lparr>hi_validTo := Some runAt\<rparr>) t"

definition hash_changed :: "current_row option \<Rightarrow> staging_row \<Rightarrow> bool" where
  "hash_changed existing row = (case existing of
     None \<Rightarrow> True | Some e \<Rightarrow> bp_currentRecordHash (cu_payload e) \<noteq> st_contentHash row)"

text \<open>The body of the loop for one staging row; the flag says whether the row counts as changed.
  \<open>default_seed_state\<close> is the default of the \<open>seedState\<close> column.\<close>

definition default_seed_state :: string where
  "default_seed_state = ''BULK_ONLY''"

definition apply_row ::
  "string \<Rightarrow> int \<Rightarrow> staging_row \<Rightarrow> bulk_store \<Rightarrow> bool \<times> bulk_store" where
  "apply_row fileRunId runAt row st =
     (let org = staging_org row
      in if org = [] then (False, st)
         else (let existing = find_key cu_org org (bs_current st);
                   payload = payload_of fileRunId runAt existing row;
                   isNew = (existing = None);
                   isChanged = hash_changed existing row;
                   saved = (case existing of
                     None \<Rightarrow> \<lparr>cu_payload = payload, cu_postalParseWarning = None,
                       cu_seedState = default_seed_state, cu_deepDataFreshAt = None\<rparr>
                   | Some e \<Rightarrow> e\<lparr>cu_payload := payload\<rparr>);
                   key = staging_identity_key row;
                   opened = bs_history st @
                     [\<lparr>hi_organisationNumber = org, hi_fileRunId = fileRunId,
                       hi_changeType = (if isNew then NewRow else if isChanged then UpdatedRow
                         else UnchangedRow),
                       hi_snapshot = PayloadSnapshot payload, hi_recordHash = st_contentHash row,
                       hi_validFrom = runAt, hi_validTo = None\<rparr>];
                   history = (if \<not> isNew \<and> isChanged
                     then close_open_history org fileRunId runAt opened else opened)
               in (isChanged \<or> isNew,
                   st\<lparr>bs_current := save cu_org saved (bs_current st),
                      bs_names := replace_names key fileRunId
                        (derive_name_list (st_organisationNamesRaw row)) (bs_names st),
                      bs_restructuring := replace_restructuring key fileRunId
                        (derive_restructuring (st_restructuringRaw row)) (bs_restructuring st),
                      bs_history := history\<rparr>)))"

fun apply_rows :: "string \<Rightarrow> int \<Rightarrow> staging_row list \<Rightarrow> bulk_store \<Rightarrow> nat \<times> bulk_store" where
  "apply_rows fileRunId runAt [] st = (0, st)"
| "apply_rows fileRunId runAt (row # rows) st =
     (let (c, st1) = apply_row fileRunId runAt row st;
          (n, st2) = apply_rows fileRunId runAt rows st1
      in ((if c then 1 else 0) + n, st2))"

definition apply_staging_to_current ::
  "string \<Rightarrow> int \<Rightarrow> bulk_store \<Rightarrow> (nat \<times> nat) \<times> bulk_store" where
  "apply_staging_to_current fileRunId runAt st =
     (let rows = filter (\<lambda>r. st_fileRunId r = fileRunId) (bs_staging st);
          (changed, st') = apply_rows fileRunId runAt rows st
      in ((length rows, changed), st'))"

section \<open>Removed companies\<close>

definition is_missing :: "string \<Rightarrow> current_row \<Rightarrow> bool" where
  "is_missing fileRunId c =
     (case bp_sourceFileRunId (cu_payload c) of None \<Rightarrow> False | Some r \<Rightarrow> r \<noteq> fileRunId)"

definition deactivate :: "int \<Rightarrow> current_row \<Rightarrow> current_row" where
  "deactivate runAt c = c\<lparr>cu_payload := (cu_payload c)\<lparr>bp_isActive := False, bp_lastSeenAt := runAt\<rparr>\<rparr>"

definition removed_history :: "string \<Rightarrow> int \<Rightarrow> current_row \<Rightarrow> history_row" where
  "removed_history fileRunId runAt c =
     \<lparr>hi_organisationNumber = cu_org c, hi_fileRunId = fileRunId, hi_changeType = RemovedRow,
      hi_snapshot = RemovedSnapshot (cu_org c) (bp_sourceFileRunId (cu_payload c)),
      hi_recordHash = bp_currentRecordHash (cu_payload c), hi_validFrom = runAt, hi_validTo = None\<rparr>"

text \<open>The loop writes one history row and one update for each missing row in turn.\<close>

definition detect_removed_companies :: "string \<Rightarrow> int \<Rightarrow> bulk_store \<Rightarrow> nat \<times> bulk_store" where
  "detect_removed_companies fileRunId runAt st =
     (let missing = filter (is_missing fileRunId) (bs_current st)
      in (length missing,
          fold (\<lambda>row st. st\<lparr>bs_history := bs_history st @ [removed_history fileRunId runAt row],
                 bs_current := update_where (\<lambda>c. cu_org c = cu_org row) (deactivate runAt)
                   (bs_current st)\<rparr>) missing st))"

section \<open>Seeding the companies\<close>

definition seed_company ::
  "(string \<Rightarrow> int) \<Rightarrow> string \<Rightarrow> current_row \<Rightarrow> company list \<Rightarrow> company list" where
  "seed_company to_date tenantId row companies =
     (let p = cu_payload row;
          existing = find_one (\<lambda>c. cm_tenantId c = tenantId \<and>
            cm_organisationNumber c = bp_organisationNumber p) companies;
          summary = spread (case existing of None \<Rightarrow> [] | Some e \<Rightarrow> cm_sourcePayloadSummary e)
            [(''depth_state'', JStr (cu_seedState row)),
             (''depth_source'', JStr ''bolagsverket_bulk''),
             (''source_file_run_id'',
               (case bp_sourceFileRunId p of None \<Rightarrow> JNull | Some r \<Rightarrow> JStr r))];
          entity = \<lparr>cm_tenantId = tenantId,
            cm_organisationNumber = bp_organisationNumber p,
            cm_legalName = or_default (or_else (bp_namePrimary p) (map_option cm_legalName existing))
              (bp_organisationNumber p),
            cm_companyForm = or_else (bp_organisationFormText p) (bp_organisationFormCode p),
            cm_status = (if bp_isDeregistered p then ''DEREGISTERED'' else ''ACTIVE''),
            cm_registeredAt = map_option to_date (Option.bind (bp_registrationDate p) nonempty),
            cm_countryCode = to_upper (take 2 (or_default (bp_registrationsCountryCode p) ''SE'')),
            cm_businessDescription = bp_businessDescription p,
            cm_signatoryText = Option.bind existing cm_signatoryText,
            cm_officers = (case existing of None \<Rightarrow> [] | Some e \<Rightarrow> cm_officers e),
            cm_shareInformation = (case existing of None \<Rightarrow> [] | Some e \<Rightarrow> cm_shareInformation e),
            cm_financialReports = (case existing of None \<Rightarrow> [] | Some e \<Rightarrow> cm_financialReports e),
            cm_sourcePayloadSummary = summary\<rparr>
      in save (\<lambda>c. (cm_tenantId c, cm_organisationNumber c)) entity companies)"

definition seed_companies_from_current ::
  "(string \<Rightarrow> int) \<Rightarrow> string \<Rightarrow> bulk_store \<Rightarrow> nat \<times> bulk_store" where
  "seed_companies_from_current to_date defaultTenantId st =
     (if defaultTenantId = [] then (0, st)
      else (let rows = take 100000 (bs_current st)
            in (length rows,
                st\<lparr>bs_companies := fold (seed_company to_date defaultTenantId) rows (bs_companies st)\<rparr>)))"

section \<open>What a run leaves in the current table\<close>

definition saved_row :: "string \<Rightarrow> int \<Rightarrow> current_row option \<Rightarrow> staging_row \<Rightarrow> current_row" where
  "saved_row fileRunId runAt existing row =
     (case existing of
        None \<Rightarrow> \<lparr>cu_payload = payload_of fileRunId runAt None row, cu_postalParseWarning = None,
          cu_seedState = default_seed_state, cu_deepDataFreshAt = None\<rparr>
      | Some e \<Rightarrow> e\<lparr>cu_payload := payload_of fileRunId runAt (Some e) row\<rparr>)"

lemma payload_simps [simp]:
  "bp_organisationNumber (payload_of f t e row) = staging_org row"
  "bp_currentRecordHash (payload_of f t e row) = st_contentHash row"
  "bp_sourceFileRunId (payload_of f t e row) = Some f"
  "bp_firstSeenAt (payload_of f t e row) = (case e of None \<Rightarrow> t | Some c \<Rightarrow> bp_firstSeenAt (cu_payload c))"
  by (simp_all add: payload_of_def Let_def)

lemma saved_row_simps [simp]:
  "cu_payload (saved_row f t e row) = payload_of f t e row"
  "cu_org (saved_row f t e row) = staging_org row"
  by (simp_all add: saved_row_def cu_org_def split: option.splits)

lemma apply_row_current:
  "bs_current (snd (apply_row f t row st)) =
    (if staging_org row = [] then bs_current st
     else save cu_org (saved_row f t (find_key cu_org (staging_org row) (bs_current st)) row) (bs_current st))"
  by (simp add: apply_row_def Let_def saved_row_def split: option.split)

lemma apply_row_find:
  "find_key cu_org k (bs_current (snd (apply_row f t row st))) =
    (if k = staging_org row \<and> k \<noteq> []
     then Some (saved_row f t (find_key cu_org k (bs_current st)) row)
     else find_key cu_org k (bs_current st))"
  by (auto simp: apply_row_current current_rows.lookup_put)

lemma apply_row_changed:
  "fst (apply_row f t row st) \<longleftrightarrow>
    staging_org row \<noteq> [] \<and> hash_changed (find_key cu_org (staging_org row) (bs_current st)) row"
  by (auto simp: apply_row_def Let_def hash_changed_def split: option.splits)

lemma apply_rows_Cons:
  "fst (apply_rows f t (row # rows) st) =
    (if fst (apply_row f t row st) then 1 else 0) + fst (apply_rows f t rows (snd (apply_row f t row st)))"
  "snd (apply_rows f t (row # rows) st) = snd (apply_rows f t rows (snd (apply_row f t row st)))"
  by (simp_all split: prod.splits)

definition first_seen :: "int \<Rightarrow> current_row option \<Rightarrow> int" where
  "first_seen t e = (case e of None \<Rightarrow> t | Some c \<Rightarrow> bp_firstSeenAt (cu_payload c))"

lemma apply_rows_find:
  assumes "k \<noteq> []"
  shows "case filter (\<lambda>r. staging_org r = k) rows of
      [] \<Rightarrow> find_key cu_org k (bs_current (snd (apply_rows f t rows st))) = find_key cu_org k (bs_current st)
    | rs \<Rightarrow> \<exists>c e. find_key cu_org k (bs_current (snd (apply_rows f t rows st))) = Some c \<and>
        cu_payload c = payload_of f t e (last rs) \<and>
        bp_firstSeenAt (cu_payload c) = first_seen t (find_key cu_org k (bs_current st))"
proof (induction rows arbitrary: st)
  case Nil
  then show ?case by simp
next
  case (Cons row rows)
  let ?st = "snd (apply_row f t row st)"
  let ?rs = "filter (\<lambda>r. staging_org r = k) rows"
  show ?case
  proof (cases "staging_org row = k")
    case False
    then have "find_key cu_org k (bs_current ?st) = find_key cu_org k (bs_current st)"
      by (simp add: apply_row_find)
    with Cons.IH [of ?st] False show ?thesis by (simp only: apply_rows_Cons filter.simps if_False)
  next
    case True
    then have cur: "find_key cu_org k (bs_current ?st) =
        Some (saved_row f t (find_key cu_org k (bs_current st)) row)"
      using assms by (simp add: apply_row_find)
    then have seen: "first_seen t (find_key cu_org k (bs_current ?st)) =
        first_seen t (find_key cu_org k (bs_current st))"
      by (simp add: first_seen_def)
    show ?thesis
    proof (cases ?rs)
      case Nil
      with Cons.IH [of ?st] have "find_key cu_org k (bs_current (snd (apply_rows f t rows ?st))) =
          find_key cu_org k (bs_current ?st)" by simp
      with cur True Nil seen show ?thesis
        by (auto simp: first_seen_def simp del: apply_rows.simps simp add: apply_rows_Cons)
    next
      case (Cons r rs)
      with Cons.IH [of ?st] True seen show ?thesis
        by (simp del: apply_rows.simps add: apply_rows_Cons)
    qed
  qed
qed

lemma apply_rows_changed:
  assumes "distinct (map staging_org (filter (\<lambda>r. staging_org r \<noteq> []) rows))"
  shows "fst (apply_rows f t rows st) =
    count_where (\<lambda>r. staging_org r \<noteq> [] \<and>
      hash_changed (find_key cu_org (staging_org r) (bs_current st)) r) rows"
  using assms
proof (induction rows arbitrary: st)
  case Nil
  then show ?case by (simp add: count_where_def)
next
  case (Cons row rows)
  let ?st = "snd (apply_row f t row st)"
  have d: "distinct (map staging_org (filter (\<lambda>r. staging_org r \<noteq> []) rows))"
    using Cons.prems by (simp split: if_splits)
  have same: "find_key cu_org (staging_org r) (bs_current ?st) =
      find_key cu_org (staging_org r) (bs_current st)"
    if "r \<in> set rows" "staging_org r \<noteq> []" for r
  proof -
    have "staging_org r \<noteq> staging_org row"
    proof
      assume eq: "staging_org r = staging_org row"
      then have "staging_org row \<in> staging_org ` {x \<in> set rows. staging_org x \<noteq> []}"
        using that by (intro image_eqI [of _ _ r]) auto
      with Cons.prems that eq show False by simp
    qed
    then show ?thesis by (simp add: apply_row_find)
  qed
  have "count_where (\<lambda>r. staging_org r \<noteq> [] \<and>
      hash_changed (find_key cu_org (staging_org r) (bs_current ?st)) r) rows =
    count_where (\<lambda>r. staging_org r \<noteq> [] \<and>
      hash_changed (find_key cu_org (staging_org r) (bs_current st)) r) rows"
    unfolding count_where_def using same by (intro arg_cong [of _ _ length] filter_cong) auto
  with Cons.IH [OF d, of ?st] show ?case
    by (simp del: apply_rows.simps add: apply_rows_Cons apply_row_changed count_where_def)
qed

lemma apply_row_staging [simp]: "bs_staging (snd (apply_row f t row st)) = bs_staging st"
  by (simp add: apply_row_def Let_def)

lemma apply_rows_staging [simp]: "bs_staging (snd (apply_rows f t rows st)) = bs_staging st"
  by (induction rows arbitrary: st) (simp_all del: apply_rows.simps add: apply_rows_Cons, simp)

abbreviation run_rows :: "string \<Rightarrow> bulk_store \<Rightarrow> staging_row list" where
  "run_rows f st \<equiv> filter (\<lambda>r. st_fileRunId r = f) (bs_staging st)"

lemma apply_staging_simps:
  "fst (apply_staging_to_current f t st) = (length (run_rows f st), fst (apply_rows f t (run_rows f st) st))"
  "snd (apply_staging_to_current f t st) = snd (apply_rows f t (run_rows f st) st)"
  by (simp_all add: apply_staging_to_current_def Let_def split: prod.splits)

section \<open>Sample data\<close>

definition sample_staging :: "string \<Rightarrow> string \<Rightarrow> string \<Rightarrow> staging_row" where
  "sample_staging run org hash =
     \<lparr>st_fileRunId = run, st_identityValue = Some org, st_identityType = Some ''ORGNR-IDORG'',
      st_namnskyddslopnummer = None, st_registrationCountryCode = None,
      st_organisationNamesRaw = None, st_organisationFormCode = None, st_deregistrationDate = None,
      st_deregistrationReasonCode = None, st_deregistrationReasonText = None,
      st_restructuringRaw = None, st_registrationDate = None, st_businessDescription = None,
      st_postalAddressRaw = None, st_deliveryAddress = None, st_coAddress = None,
      st_postalCode = None, st_city = None, st_countryCode = None, st_contentHash = Some hash\<rparr>"

definition sample_bulk :: "staging_row list \<Rightarrow> bulk_store" where
  "sample_bulk rows = \<lparr>bs_staging = rows, bs_current = [], bs_history = [], bs_names = [],
     bs_restructuring = [], bs_companies = []\<rparr>"

lemma sample_org: "staging_org (sample_staging run ''5560'' h) = ''5560''"
  "staging_org (sample_staging run ''5561'' h) = ''5561''"
  by (simp_all add: staging_org_def sample_staging_def digits_only_def is_digit_def code_def)

section \<open>Properties\<close>

text \<open>After a run is applied, the current row of every organisation in it holds exactly the
  columns derived from the run's last staging row for that organisation, with the time it was
  first seen kept from before, and the rows of all other organisations are untouched.\<close>

theorem apply_staging_last_row_wins:
  assumes "k \<noteq> []"
  shows "let st' = snd (apply_staging_to_current f t st) in
    case filter (\<lambda>r. staging_org r = k) (run_rows f st) of
      [] \<Rightarrow> find_key cu_org k (bs_current st') = find_key cu_org k (bs_current st)
    | rs \<Rightarrow> \<exists>c e. find_key cu_org k (bs_current st') = Some c \<and>
        cu_payload c = payload_of f t e (last rs) \<and>
        bp_firstSeenAt (cu_payload c) = first_seen t (find_key cu_org k (bs_current st))"
  using apply_rows_find [OF assms, where rows = "run_rows f st" and f = f and t = t and st = st]
  unfolding Let_def apply_staging_simps by (simp only:)

theorem apply_staging_last_row_wins_witness:
  "\<exists>c. find_key cu_org ''5560'' (bs_current (snd (apply_staging_to_current ''r'' 5
      (sample_bulk [sample_staging ''r'' ''5560'' ''h1'', sample_staging ''r'' ''5560'' ''h2''])))) = Some c \<and>
    bp_currentRecordHash (cu_payload c) = Some ''h2'' \<and> bp_firstSeenAt (cu_payload c) = 5"
proof -
  have rows: "run_rows ''r'' (sample_bulk [sample_staging ''r'' ''5560'' ''h1'', sample_staging ''r'' ''5560'' ''h2'']) =
      [sample_staging ''r'' ''5560'' ''h1'', sample_staging ''r'' ''5560'' ''h2'']"
    by (simp add: sample_bulk_def sample_staging_def)
  have empty: "find_key cu_org k (bs_current (sample_bulk rs)) = None" for k rs
    by (simp add: sample_bulk_def find_key_def table_simps)
  have hash: "st_contentHash (sample_staging ''r'' ''5560'' ''h2'') = Some ''h2''"
    by (simp add: sample_staging_def)
  show ?thesis
    using apply_staging_last_row_wins [of "''5560''" "''r''" 5
        "sample_bulk [sample_staging ''r'' ''5560'' ''h1'', sample_staging ''r'' ''5560'' ''h2'']"]
    unfolding rows Let_def empty by (auto simp: sample_org hash first_seen_def)
qed

text \<open>The number of changed rows a run reports is the number of its organisations that are
  new or whose content hash differs from the stored one; applying the same run again reports
  none. (The staging rows of the run name each organisation at most once.)\<close>

theorem apply_staging_change_count:
  assumes "distinct (map staging_org (filter (\<lambda>r. staging_org r \<noteq> []) (run_rows f st)))"
  shows "snd (fst (apply_staging_to_current f t st)) =
      count_where (\<lambda>r. staging_org r \<noteq> [] \<and>
        hash_changed (find_key cu_org (staging_org r) (bs_current st)) r) (run_rows f st) \<and>
    snd (fst (apply_staging_to_current f t' (snd (apply_staging_to_current f t st)))) = 0"
proof -
  let ?st = "snd (apply_rows f t (run_rows f st) st)"
  have "\<not> hash_changed (find_key cu_org (staging_org r) (bs_current ?st)) r"
    if r: "r \<in> set (run_rows f st)" "staging_org r \<noteq> []" for r
  proof -
    let ?rs = "filter (\<lambda>x. staging_org x = staging_org r) (run_rows f st)"
    have "x = r" if "x \<in> set ?rs" for x
      using assms that r by (auto simp: distinct_map dest: inj_onD)
    moreover have "?rs \<noteq> []" using r by (auto simp: filter_empty_conv)
    ultimately have "last ?rs = r" using last_in_set by blast
    then show ?thesis
      using apply_rows_find [OF r(2), where rows = "run_rows f st" and f = f and t = t and st = st] \<open>?rs \<noteq> []\<close>
      by (auto simp: hash_changed_def split: list.splits)
  qed
  then have "count_where (\<lambda>r. staging_org r \<noteq> [] \<and>
      hash_changed (find_key cu_org (staging_org r) (bs_current ?st)) r) (run_rows f st) = 0"
    by (auto simp: count_where_def filter_empty_conv)
  then show ?thesis
    using apply_rows_changed [OF assms, of f t st] apply_rows_changed [OF assms, of f t' ?st]
    by (simp add: apply_staging_simps)
qed

theorem apply_staging_change_count_witness:
  "snd (fst (apply_staging_to_current ''r'' 6 (snd (apply_staging_to_current ''r'' 5
     (sample_bulk [sample_staging ''r'' ''5560'' ''h1'', sample_staging ''r'' ''5561'' ''h2'']))))) = 0"
proof -
  have "run_rows ''r'' (sample_bulk [sample_staging ''r'' ''5560'' ''h1'', sample_staging ''r'' ''5561'' ''h2'']) =
      [sample_staging ''r'' ''5560'' ''h1'', sample_staging ''r'' ''5561'' ''h2'']"
    by (simp add: sample_bulk_def sample_staging_def)
  then show ?thesis
    by (intro apply_staging_change_count [THEN conjunct2]) (simp add: sample_org)
qed

text \<open>The rows of an organisation's history that are open, with no end of validity.\<close>

definition open_history :: "string \<Rightarrow> bulk_store \<Rightarrow> history_row list" where
  "open_history org st =
     filter (\<lambda>h. hi_organisationNumber h = org \<and> hi_validTo h = None) (bs_history st)"

text \<open>The history keeps no single open row per organisation: a staging row whose content is
  unchanged appends one more open row and closes none, so every further run of an unchanged
  company adds one.\<close>

theorem unchanged_row_adds_open_history:
  assumes "staging_org row \<noteq> []"
    and "find_key cu_org (staging_org row) (bs_current st) = Some c"
    and "bp_currentRecordHash (cu_payload c) = st_contentHash row"
  shows "length (open_history (staging_org row) (snd (apply_row f t row st))) =
    Suc (length (open_history (staging_org row) st))"
  using assms by (simp add: apply_row_def Let_def hash_changed_def open_history_def)

theorem unchanged_row_adds_open_history_witness:
  "\<exists>st. length (open_history ''5560'' st) = 1 \<and>
    length (open_history ''5560'' (snd (apply_row ''r2'' 6 (sample_staging ''r2'' ''5560'' ''h'') st))) = 2"
proof -
  let ?st = "snd (apply_row ''r1'' 5 (sample_staging ''r1'' ''5560'' ''h'') (sample_bulk []))"
  have none: "find_key cu_org ''5560'' (bs_current (sample_bulk [])) = None"
    by (simp add: sample_bulk_def find_key_def table_simps)
  have cur: "find_key cu_org (staging_org (sample_staging ''r2'' ''5560'' ''h'')) (bs_current ?st) =
      Some (saved_row ''r1'' 5 None (sample_staging ''r1'' ''5560'' ''h''))"
    by (simp add: apply_row_find sample_org none)
  have one: "length (open_history ''5560'' ?st) = 1"
    by (simp add: apply_row_def Let_def sample_org none open_history_def)
      (simp add: sample_bulk_def)
  have "length (open_history (staging_org (sample_staging ''r2'' ''5560'' ''h''))
      (snd (apply_row ''r2'' 6 (sample_staging ''r2'' ''5560'' ''h'') ?st))) =
    Suc (length (open_history (staging_org (sample_staging ''r2'' ''5560'' ''h'')) ?st))"
    by (rule unchanged_row_adds_open_history [OF _ cur]) (simp add: sample_org, simp add: sample_staging_def)
  with one show ?thesis by (intro exI [of _ ?st]) (simp add: sample_org)
qed

section \<open>Removed companies\<close>

lemma cu_org_deactivate [simp]: "cu_org (deactivate t c) = cu_org c"
  by (simp add: deactivate_def cu_org_def)

lemma is_missing_deactivate [simp]: "is_missing f (deactivate t c) = is_missing f c"
  by (simp add: is_missing_def deactivate_def)

lemma detect_loop:
  fixes f t
  defines "step \<equiv> \<lambda>row st. st\<lparr>bs_history := bs_history st @ [removed_history f t row],
      bs_current := update_where (\<lambda>c. cu_org c = cu_org row) (deactivate t) (bs_current st)\<rparr>"
  shows "unique_keys cu_org missing \<Longrightarrow>
    bs_history (fold step missing st) = bs_history st @ map (removed_history f t) missing \<and>
    bs_current (fold step missing st) =
      map (\<lambda>c. if cu_org c \<in> cu_org ` set missing then deactivate t c else c) (bs_current st)"
proof (induction missing arbitrary: st)
  case Nil
  then show ?case by simp
next
  case (Cons row missing)
  then have fresh: "cu_org row \<notin> cu_org ` set missing" and u: "unique_keys cu_org missing"
    by (auto simp: table_simps)
  have "bs_current (fold step missing (step row st)) =
      map (\<lambda>c. if cu_org c \<in> cu_org ` set missing then deactivate t c else c)
        (update_where (\<lambda>c. cu_org c = cu_org row) (deactivate t) (bs_current st))"
    using Cons.IH [OF u, of "step row st"] by (simp add: step_def)
  also have "\<dots> = map (\<lambda>c. if cu_org c \<in> cu_org ` set (row # missing) then deactivate t c else c)
      (bs_current st)"
    using fresh by (auto simp: update_where_def)
  finally show ?case using Cons.IH [OF u, of "step row st"] by (simp add: step_def)
qed

lemma detect_removed_result:
  assumes "unique_keys cu_org (bs_current st)"
  shows "bs_current (snd (detect_removed_companies f t st)) =
      map (\<lambda>c. if is_missing f c then deactivate t c else c) (bs_current st)"
    and "bs_history (snd (detect_removed_companies f t st)) =
      bs_history st @ map (removed_history f t) (filter (is_missing f) (bs_current st))"
proof -
  let ?missing = "filter (is_missing f) (bs_current st)"
  have u: "unique_keys cu_org ?missing"
    using assms by (simp add: unique_keys_def distinct_map_filter)
  have "cu_org c \<in> cu_org ` set ?missing \<longleftrightarrow> is_missing f c" if "c \<in> set (bs_current st)" for c
    using assms that by (auto dest: unique_keysD)
  then have "map (\<lambda>c. if cu_org c \<in> cu_org ` set ?missing then deactivate t c else c) (bs_current st) =
      map (\<lambda>c. if is_missing f c then deactivate t c else c) (bs_current st)"
    by (intro map_cong) simp_all
  with detect_loop [OF u, where f = f and t = t and st = st]
  show "bs_current (snd (detect_removed_companies f t st)) =
      map (\<lambda>c. if is_missing f c then deactivate t c else c) (bs_current st)"
    and "bs_history (snd (detect_removed_companies f t st)) =
      bs_history st @ map (removed_history f t) ?missing"
    by (simp_all add: detect_removed_companies_def Let_def)
qed

lemma org_missing_map:
  "map cu_org (filter (is_missing f') (map (\<lambda>c. if is_missing f c then deactivate t c else c) cs)) =
    map cu_org (filter (is_missing f') cs)"
  by (induction cs) auto

text \<open>Detecting removed companies deactivates exactly the rows another run wrote last and
  records one removal for each. It leaves their run id, so a company missing from two runs in a
  row is recorded as removed by both.\<close>

theorem removed_companies_recorded:
  assumes "unique_keys cu_org (bs_current st)"
  shows "let (n, st1) = detect_removed_companies f t st;
      missing = filter (is_missing f) (bs_current st);
      (n', st2) = detect_removed_companies f' t' st1
    in n = length missing \<and>
      map (\<lambda>c. bp_isActive (cu_payload c)) (bs_current st1) =
        map (\<lambda>c. bp_isActive (cu_payload c) \<and> \<not> is_missing f c) (bs_current st) \<and>
      bs_history st1 = bs_history st @ map (removed_history f t) missing \<and>
      map hi_organisationNumber (bs_history st2) = map hi_organisationNumber (bs_history st1) @
        map cu_org (filter (is_missing f') (bs_current st))"
proof -
  let ?st = "snd (detect_removed_companies f t st)"
  note one = detect_removed_result [OF assms, of f t]
  have orgs: "map cu_org (bs_current ?st) = map cu_org (bs_current st)"
    by (simp add: one(1) o_def if_distrib cong: if_cong)
  then have u: "unique_keys cu_org (bs_current ?st)"
    using assms by (simp add: unique_keys_def)
  have "map cu_org (filter (is_missing f') (bs_current ?st)) =
      map cu_org (filter (is_missing f') (bs_current st))"
    unfolding one(1) by (rule org_missing_map)
  then have "map hi_organisationNumber (map (removed_history f' t') (filter (is_missing f') (bs_current ?st))) =
      map cu_org (filter (is_missing f') (bs_current st))"
    by (simp add: o_def removed_history_def)
  then have two: "map hi_organisationNumber (bs_history (snd (detect_removed_companies f' t' ?st))) =
      map hi_organisationNumber (bs_history ?st) @ map cu_org (filter (is_missing f') (bs_current st))"
    by (simp add: detect_removed_result(2) [OF u])
  have "map (\<lambda>c. bp_isActive (cu_payload c)) (bs_current ?st) =
      map (\<lambda>c. bp_isActive (cu_payload c) \<and> \<not> is_missing f c) (bs_current st)"
    by (simp add: one(1) deactivate_def)
  with one(2) two show ?thesis
    by (simp add: detect_removed_companies_def Let_def split: prod.splits)
qed

theorem removed_companies_recorded_witness:
  "\<exists>st. map hi_organisationNumber (bs_history (snd (detect_removed_companies ''r3'' 7
     (snd (detect_removed_companies ''r2'' 6 st))))) = [''5560'', ''5560'', ''5560'']"
proof -
  let ?st = "snd (apply_row ''r1'' 5 (sample_staging ''r1'' ''5560'' ''h'') (sample_bulk []))"
  have none: "find_key cu_org ''5560'' [] = None"
    by (simp add: find_key_def table_simps)
  have cur: "bs_current ?st = [saved_row ''r1'' 5 None (sample_staging ''r1'' ''5560'' ''h'')]"
    "map hi_organisationNumber (bs_history ?st) = [''5560'']"
    by (simp_all add: apply_row_current sample_org none sample_bulk_def)
      (simp add: apply_row_def Let_def sample_org none)
  have u: "unique_keys cu_org (bs_current ?st)" by (simp add: cur unique_keys_def)
  have m: "is_missing r (saved_row ''r1'' 5 None (sample_staging ''r1'' ''5560'' ''h''))" if "r \<noteq> ''r1''" for r
    using that by (auto simp: is_missing_def)
  have h: "map hi_organisationNumber (bs_history (snd (detect_removed_companies ''r2'' 6 ?st))) = [''5560'', ''5560'']"
    by (simp add: detect_removed_result(2) [OF u] cur m removed_history_def sample_org)
  show ?thesis
    using removed_companies_recorded [OF u, of "''r2''" 6 "''r3''" 7] h
    by (intro exI [of _ ?st]) (simp add: cur m sample_org Let_def split: prod.splits)
qed

section \<open>The two readings of a name\<close>

lemma piece_trim: "piece xs i = Option.bind (nth_opt (map trim xs) i) nonempty"
  by (simp add: piece_def trim_or_null_def nth_opt_def)

lemma derive_clean_name:
  assumes "clean_name n" "bn_name n \<noteq> None" "bn_typeCode n \<noteq> None" "bn_registrationDate n \<noteq> None"
    and "bn_extra n = None"
  shows "derive_name (write_name n) = n"
proof -
  obtain a b d where abd: "bn_name n = Some a" "bn_typeCode n = Some b" "bn_registrationDate n = Some d"
    using assms(2-4) by blast
  have c: "clean {CHR ''$'', CHR ''|''} (bn_name n)" "clean {CHR ''$'', CHR ''|''} (bn_typeCode n)"
    "bn_typeLabel n = label_of name_type_labels (bn_typeCode n)" "matches date_regex d"
    using assms(1) abd(3) by (simp_all add: clean_name_def)
  then have t: "trim a = a" "trim b = b" "b \<noteq> []" "trim d = d"
    using abd(1,2) date_clean(2) by (simp_all add: clean_def)
  have "split_on (CHR ''$'') (write_name n) = [a, b, d]"
    using split_write_name [OF assms(1)] abd assms(5) by (simp add: write_field_def)
  moreover have "name_type_labels_upsert = name_type_labels"
    by (simp add: name_type_labels_upsert_def name_type_labels_def)
  ultimately show ?thesis
    using abd assms(5) c(3) t
    by (intro bulk_name.equality)
      (simp_all add: derive_name_def Let_def numeral_2_eq_2 numeral_3_eq_3 label_if_code_def
        label_of_def nonempty_def)
qed

text \<open>The name reader of the upsert and that of the parser, two separate routines, agree on
  every list of names that each have a name, a type code and a registration date.\<close>

theorem name_readers_agree:
  assumes "names \<noteq> []" and "\<forall>n \<in> set names. clean_name n"
    and "\<forall>n \<in> set names. bn_name n \<noteq> None \<and> bn_typeCode n \<noteq> None \<and> bn_registrationDate n \<noteq> None \<and>
      bn_extra n = None"
  shows "derive_name_list (Some (join ''|'' (map write_name names))) =
    parse_names (Some (join ''|'' (map write_name names)))"
proof -
  have "entries (Some (join ''|'' (map write_name names))) = map write_name names"
    by (rule entries_join) (use assms write_name_entry in auto)
  then show ?thesis
    using assms by (simp add: derive_name_list_def parse_names_def derive_clean_name parse_write_name)
qed

lemma sample_name_clean: "clean_name sample_name"
  by (simp add: clean_name_def sample_name_def clean_def trim_def is_space_def code_def label_of_def
      name_type_labels_def date_regex_def digits_def matches_def is_digit_def numeral_eq_Suc)

theorem name_readers_agree_witness:
  "derive_name_list (Some (write_name sample_name)) = parse_names (Some (write_name sample_name))"
  using name_readers_agree [of "[sample_name]"] sample_name_clean
  by (simp add: sample_name_def)

end
