(* ===== verification/Signals.thy ===== *)
theory Signals
  imports SnapshotComparison BulkUpsert Dates "HOL-Library.Product_Lexorder"
begin

text \<open>
  Company signals: the scores computed from a row of the company index and counts of related
  records (backend/src/companies/signals/signals-catalog.ts), the queue worker that stores them
  (company-signals.processor.ts) and the read side (company-signals.service.ts). Decimal columns
  are rationals; a stored score is the number its text reads back as.
\<close>

section \<open>Catalog\<close>

text \<open>The dash of the fourth text is an em dash in the code, which is no Latin-1 character.\<close>

definition signal_catalog :: "(string \<times> string) list" where
  "signal_catalog =
     [(''acquisition_likelihood'',
       ''Heuristic likelihood that the entity could be an acquisition target: legal health, dataset richness, and absence of distress flags.''),
      (''ownership_transition_probability'',
       ''Proxy for governance churn using officer roster size and company status (no predictive model; index-only).''),
      (''seller_readiness'',
       ''Readiness proxy: active registration, presence of signing / share metadata, and data completeness flags.''),
      (''growth_vs_stagnation'',
       ''Uses count of stored FI financial report stubs and record freshness - not audited financial performance.''),
      (''compliance_ownership_complexity'',
       ''Higher when many officers/roles are stored or when status implies structural events (liquidation, etc.).''),
      (''financial_stress'',
       ''Distress proxy from legal status and absence of financial report metadata on the index row.''),
      (''board_network_signals'',
       ''Board depth proxy from officer array length (Bolagsverket funktion'' @ [CHR 0xE4] @
         ''rer payload on the company row).'')]"

definition signal_engine_version :: string where
  "signal_engine_version = ''2026.04.1''"

record signal_row =
  so_signalType :: string
  so_score :: int
  so_explanation :: "rat json"

record signal_evidence =
  se_financialStatementsCount :: int
  se_ownershipLinksCount :: int
  se_companyCasesCount :: int
  se_latestRevenue :: "rat option"
  se_latestNetResult :: "rat option"
  se_latestEquityRatio :: "rat option"

text \<open>A row of the company index, with its unchecked JSON columns.\<close>

record indexed_company =
  xc_tenantId :: string
  xc_organisationNumber :: string
  xc_status :: "string option"
  xc_businessDescription :: "string option"
  xc_signatoryText :: "string option"
  xc_officers :: "int json"
  xc_shareInformation :: "int json"
  xc_financialReports :: "int json"
  xc_sourcePayloadSummary :: "int members"

section \<open>Scores\<close>

definition clamp01 :: "int \<Rightarrow> int" where
  "clamp01 n = max 0 (min 100 n)"

text \<open>\<open>String(v ?? '') === 'true'\<close>; an array of one element prints that element.\<close>

fun prints_true :: "'n json \<Rightarrow> bool" where
  "prints_true (JBool b) = b"
| "prints_true (JStr s) = (s = ''true'')"
| "prints_true (JArr [x]) = prints_true x"
| "prints_true v = False"

definition summary_flag :: "string \<Rightarrow> indexed_company \<Rightarrow> bool" where
  "summary_flag k c =
     (case map_of (xc_sourcePayloadSummary c) k of None \<Rightarrow> False | Some v \<Rightarrow> prints_true v)"

definition upper_status :: "string option \<Rightarrow> string" where
  "upper_status s = to_upper (or_default s [])"

definition status_stress :: "string option \<Rightarrow> int" where
  "status_stress s =
     (let u = upper_status s
      in if u = ''BANKRUPT'' then 90
         else if u = ''LIQUIDATION'' then 70
         else if u = ''INACTIVE'' \<or> u = ''DISSOLVED'' then 55
         else 15)"

fun json_array_length :: "'n json \<Rightarrow> int" where
  "json_array_length (JArr xs) = int (length xs)"
| "json_array_length v = 0"

text \<open>\<open>Object.keys\<close> of a value that is an object or an array.\<close>

fun own_key_count :: "'n json \<Rightarrow> int" where
  "own_key_count (JArr xs) = int (length xs)"
| "own_key_count (JObj ms) = int (length ms)"
| "own_key_count v = 0"

definition trimmed_length :: "string option \<Rightarrow> int" where
  "trimmed_length s = int (length (trim (or_default s [])))"

text \<open>The local variables of \<open>computeAllSignalsForCompany\<close>.\<close>

record signal_inputs =
  si_rich :: bool
  si_hvd :: bool
  si_active :: bool
  si_liquidation :: bool
  si_stress :: int
  si_frLen :: int
  si_offLen :: int
  si_descLen :: int
  si_shareKeys :: int
  si_signLen :: int
  si_fsCount :: int
  si_olCount :: int
  si_ccCount :: int
  si_revenue :: "rat option"
  si_netResult :: "rat option"
  si_equityRatio :: "rat option"

definition inputs_of :: "indexed_company \<Rightarrow> signal_evidence \<Rightarrow> signal_inputs" where
  "inputs_of c e =
     \<lparr>si_rich = summary_flag ''hasRichOrganisationInformation'' c,
      si_hvd = summary_flag ''hasHighValueDataset'' c,
      si_active = (upper_status (xc_status c) = ''ACTIVE''),
      si_liquidation = (upper_status (xc_status c) = ''LIQUIDATION''),
      si_stress = status_stress (xc_status c),
      si_frLen = json_array_length (xc_financialReports c),
      si_offLen = json_array_length (xc_officers c),
      si_descLen = trimmed_length (xc_businessDescription c),
      si_shareKeys = own_key_count (xc_shareInformation c),
      si_signLen = trimmed_length (xc_signatoryText c),
      si_fsCount = max 0 (se_financialStatementsCount e),
      si_olCount = max 0 (se_ownershipLinksCount e),
      si_ccCount = max 0 (se_companyCasesCount e),
      si_revenue = se_latestRevenue e, si_netResult = se_latestNetResult e,
      si_equityRatio = se_latestEquityRatio e\<rparr>"

definition is_some_and :: "('a \<Rightarrow> bool) \<Rightarrow> 'a option \<Rightarrow> bool" where
  "is_some_and p v = (case v of None \<Rightarrow> False | Some x \<Rightarrow> p x)"

definition financial_stress :: "signal_inputs \<Rightarrow> int" where
  "financial_stress s = clamp01
     (si_stress s + (if si_frLen s = 0 then 8 else 0) + (if si_fsCount s = 0 then 10 else 0) +
      (if is_some_and (\<lambda>x. x < 0) (si_netResult s) then 12 else 0) +
      (if is_some_and (\<lambda>x. x < 1 / 5) (si_equityRatio s) then 10 else 0))"

definition compliance_complexity :: "signal_inputs \<Rightarrow> int" where
  "compliance_complexity s = clamp01
     (si_offLen s * 5 + si_olCount s * 3 + si_ccCount s * 4 + (if si_liquidation s then 25 else 0) +
      (if si_rich s then 5 else 0))"

definition acquisition_likelihood :: "signal_inputs \<Rightarrow> int" where
  "acquisition_likelihood s = clamp01
     ((if si_active s then 42 else 10) + (if si_rich s then 22 else 0) + (if si_hvd s then 12 else 0) +
      min 18 (si_frLen s * 4) + min 14 (si_fsCount s * 3) + min 12 (si_descLen s div 40) +
      (if is_some_and (\<lambda>x. x > 0) (si_revenue s) then 8 else 0) -
      (if financial_stress s > 60 then 28 else 0))"

definition ownership_transition :: "signal_inputs \<Rightarrow> int" where
  "ownership_transition s = clamp01
     (20 + si_offLen s * 4 + si_olCount s * 6 + si_ccCount s * 2 + (if si_active s then 10 else 25))"

definition seller_readiness :: "signal_inputs \<Rightarrow> int" where
  "seller_readiness s = clamp01
     ((if si_active s then 30 else 5) + (if si_signLen s > 0 then 18 else 0) +
      (if si_shareKeys s > 2 then 20 else if si_shareKeys s > 0 then 10 else 0) +
      (if si_rich s then 22 else 0))"

definition growth_vs_stagnation :: "signal_inputs \<Rightarrow> int" where
  "growth_vs_stagnation s = clamp01
     (min 40 (si_frLen s * 9) + min 35 (si_fsCount s * 8) +
      (if is_some_and (\<lambda>x. x > 0) (si_revenue s) then 10 else 0) +
      (if is_some_and (\<lambda>x. x > 0) (si_netResult s) then 10 else 0) +
      (if si_descLen s \<ge> 80 then 8 else if si_descLen s \<ge> 24 then 4 else 0))"

definition board_network :: "signal_inputs \<Rightarrow> int" where
  "board_network s =
     clamp01 (min 100 (si_offLen s * 10 + si_olCount s * 5 + (if si_rich s then 8 else 0)))"

section \<open>Rows\<close>

definition driver :: "string \<Rightarrow> rat json \<Rightarrow> string \<Rightarrow> rat json" where
  "driver k v weight = JObj [(''key'', JStr k), (''value'', v), (''weight'', JStr weight)]"

definition num_json :: "int \<Rightarrow> rat json" where
  "num_json n = JNum (of_int n)"

definition num_opt_json :: "rat option \<Rightarrow> rat json" where
  "num_opt_json v = (case v of None \<Rightarrow> JNull | Some x \<Rightarrow> JNum x)"

definition signal_definition :: "string \<Rightarrow> string" where
  "signal_definition t = or_default (map_of signal_catalog t) []"

definition signal_of :: "string \<Rightarrow> int \<Rightarrow> rat json list \<Rightarrow> signal_row" where
  "signal_of t score drivers = \<lparr>so_signalType = t, so_score = score,
     so_explanation = JObj [(''definition'', JStr (signal_definition t)), (''drivers'', JArr drivers)]\<rparr>"

definition compute_all_signals :: "indexed_company \<Rightarrow> signal_evidence \<Rightarrow> signal_row list" where
  "compute_all_signals c e =
     (let s = inputs_of c e; status = json_str (xc_status c)
      in [signal_of ''acquisition_likelihood'' (acquisition_likelihood s)
            [driver ''active'' (JBool (si_active s)) ''high'',
             driver ''hasRichOrganisationInformation'' (JBool (si_rich s)) ''high'',
             driver ''hasHighValueDataset'' (JBool (si_hvd s)) ''medium'',
             driver ''financial_report_rows'' (num_json (si_frLen s)) ''medium'',
             driver ''financial_statement_rows'' (num_json (si_fsCount s)) ''medium'',
             driver ''latest_revenue'' (num_opt_json (si_revenue s)) ''low'',
             driver ''financial_stress_penalty'' (JBool (financial_stress s > 60)) ''high''],
          signal_of ''ownership_transition_probability'' (ownership_transition s)
            [driver ''officer_rows'' (num_json (si_offLen s)) ''high'',
             driver ''ownership_links_rows'' (num_json (si_olCount s)) ''high'',
             driver ''company_cases_rows'' (num_json (si_ccCount s)) ''medium'',
             driver ''status'' status ''medium''],
          signal_of ''seller_readiness'' (seller_readiness s)
            [driver ''active'' (JBool (si_active s)) ''high'',
             driver ''signatory_text_chars'' (num_json (si_signLen s)) ''medium'',
             driver ''share_information_keys'' (num_json (si_shareKeys s)) ''medium'',
             driver ''hasRichOrganisationInformation'' (JBool (si_rich s)) ''high''],
          signal_of ''growth_vs_stagnation'' (growth_vs_stagnation s)
            [driver ''financial_report_rows'' (num_json (si_frLen s)) ''high'',
             driver ''financial_statement_rows'' (num_json (si_fsCount s)) ''high'',
             driver ''latest_net_result'' (num_opt_json (si_netResult s)) ''medium'',
             driver ''business_description_chars'' (num_json (si_descLen s)) ''medium''],
          signal_of ''compliance_ownership_complexity'' (compliance_complexity s)
            [driver ''officer_rows'' (num_json (si_offLen s)) ''high'',
             driver ''ownership_links_rows'' (num_json (si_olCount s)) ''medium'',
             driver ''company_cases_rows'' (num_json (si_ccCount s)) ''high'',
             driver ''status'' status ''high'',
             driver ''hasRichOrganisationInformation'' (JBool (si_rich s)) ''low''],
          signal_of ''financial_stress'' (financial_stress s)
            [driver ''status'' status ''high'',
             driver ''financial_report_rows'' (num_json (si_frLen s)) ''medium'',
             driver ''financial_statement_rows'' (num_json (si_fsCount s)) ''high'',
             driver ''latest_net_result'' (num_opt_json (si_netResult s)) ''high'',
             driver ''latest_equity_ratio'' (num_opt_json (si_equityRatio s)) ''medium''],
          signal_of ''board_network_signals'' (board_network s)
            [driver ''officer_rows'' (num_json (si_offLen s)) ''high'',
             driver ''ownership_links_rows'' (num_json (si_olCount s)) ''medium'',
             driver ''hasRichOrganisationInformation'' (JBool (si_rich s)) ''low'']])"

section \<open>Worker\<close>

record signal_entity =
  sg_tenantId :: string
  sg_organisationNumber :: string
  sg_signalType :: string
  sg_engineVersion :: string
  sg_score :: "int option"
  sg_explanation :: "rat json"
  sg_jobId :: "string option"
  sg_computedAt :: int

record financial_statement =
  fs_tenantId :: string
  fs_organisationNumber :: string
  fs_fiscalYear :: string
  fs_fiscalYearEnd :: "int option"
  fs_updatedAt :: int
  fs_revenue :: "rat option"
  fs_netResult :: "rat option"
  fs_totalEquity :: "rat option"
  fs_totalAssets :: "rat option"

record ownership_link_key =
  ol_tenantId :: string
  ol_ownedOrganisationNumber :: string
  ol_isCurrent :: bool

record company_case_key =
  cc_tenantId :: string
  cc_organisationNumber :: string

record signal_store =
  ss_companies :: "indexed_company list"
  ss_signals :: "signal_entity list"
  ss_statements :: "financial_statement list"
  ss_links :: "ownership_link_key list"
  ss_cases :: "company_case_key list"
  ss_queue :: "(string \<times> refresh_job) list"

record signal_job =
  sj_name :: string
  sj_id :: "string option"
  sj_tenantId :: string
  sj_organisationNumber :: string
  sj_engineVersion :: string

text \<open>Descending by fiscal year end, where the database puts the missing ones first, then by update.\<close>

definition latest_statement :: "string \<Rightarrow> string \<Rightarrow> signal_store \<Rightarrow> financial_statement option" where
  "latest_statement tenantId org st =
     (case find_asc (\<lambda>f. fs_tenantId f = tenantId \<and> fs_organisationNumber f = org)
         (\<lambda>f. (fs_fiscalYearEnd f \<noteq> None, - or_default (fs_fiscalYearEnd f) 0, - fs_updatedAt f))
         (ss_statements st) of
        [] \<Rightarrow> None
      | f # _ \<Rightarrow> Some f)"

definition equity_ratio :: "financial_statement \<Rightarrow> rat option" where
  "equity_ratio f =
     (case (fs_totalEquity f, fs_totalAssets f) of
        (Some e, Some a) \<Rightarrow> (if a \<noteq> 0 then Some (e / a) else None)
      | _ \<Rightarrow> None)"

definition evidence_of :: "string \<Rightarrow> string \<Rightarrow> signal_store \<Rightarrow> signal_evidence" where
  "evidence_of tenantId org st =
     (let latestFs = latest_statement tenantId org st
      in \<lparr>se_financialStatementsCount = int (count_where
            (\<lambda>f. fs_tenantId f = tenantId \<and> fs_organisationNumber f = org) (ss_statements st)),
          se_ownershipLinksCount = int (count_where
            (\<lambda>l. ol_tenantId l = tenantId \<and> ol_ownedOrganisationNumber l = org \<and> ol_isCurrent l)
            (ss_links st)),
          se_companyCasesCount = int (count_where
            (\<lambda>c. cc_tenantId c = tenantId \<and> cc_organisationNumber c = org) (ss_cases st)),
          se_latestRevenue = Option.bind latestFs fs_revenue,
          se_latestNetResult = Option.bind latestFs fs_netResult,
          se_latestEquityRatio = Option.bind latestFs equity_ratio\<rparr>)"

definition valid_org_length :: "string \<Rightarrow> bool" where
  "valid_org_length org \<longleftrightarrow> length org = 10 \<or> length org = 12"

definition find_company :: "string \<Rightarrow> string \<Rightarrow> signal_store \<Rightarrow> indexed_company option" where
  "find_company tenantId org st =
     find_one (\<lambda>c. xc_tenantId c = tenantId \<and> xc_organisationNumber c = org) (ss_companies st)"

definition signal_entities :: "int \<Rightarrow> signal_job \<Rightarrow> string \<Rightarrow> signal_row list \<Rightarrow> signal_entity list" where
  "signal_entities now job org rows =
     map (\<lambda>r. \<lparr>sg_tenantId = sj_tenantId job, sg_organisationNumber = org,
       sg_signalType = so_signalType r,
       sg_engineVersion = or_default (nonempty (sj_engineVersion job)) signal_engine_version,
       sg_score = Some (so_score r), sg_explanation = so_explanation r, sg_jobId = sj_id job,
       sg_computedAt = now\<rparr>) rows"

definition process_signal_job :: "int \<Rightarrow> signal_job \<Rightarrow> signal_store \<Rightarrow> signal_store" where
  "process_signal_job now job st =
     (if sj_name job \<noteq> ''recompute-org-signals'' then st
      else let org = digits_only (sj_organisationNumber job)
      in if \<not> valid_org_length org then st
      else case find_company (sj_tenantId job) org st of
             None \<Rightarrow> st
           | Some c \<Rightarrow>
               st\<lparr>ss_signals := ss_signals st @ signal_entities now job org
                    (compute_all_signals c (evidence_of (sj_tenantId job) org st)),
                  ss_queue := enqueue \<lparr>rj_tenantId = sj_tenantId job, rj_organisationNumber = org,
                    rj_reason = SignalRecompute,
                    rj_triggerId = or_default (sj_id job) (show_int now)\<rparr> (ss_queue st)\<rparr>)"

section \<open>Read side\<close>

record signal_view =
  sv_signal_type :: string
  sv_definition :: string
  sv_engine_version :: "string option"
  sv_score :: "int option"
  sv_explanation :: "rat json option"
  sv_computed_at :: "string option"

record signal_listing =
  sl_organisation_number :: string
  sl_engine_catalog_version :: string
  sl_data :: "signal_view list"

text \<open>\<open>DISTINCT ON (signal_type)\<close> with the newest row first: the row of each type.\<close>

definition latest_signal :: "string \<Rightarrow> string \<Rightarrow> string \<Rightarrow> signal_store \<Rightarrow> signal_entity option" where
  "latest_signal tenantId org t st =
     find_latest (\<lambda>r. sg_tenantId r = tenantId \<and> sg_organisationNumber r = org \<and> sg_signalType r = t)
       sg_computedAt (ss_signals st)"

definition signal_view_of :: "string \<times> string \<Rightarrow> signal_entity option \<Rightarrow> signal_view" where
  "signal_view_of c row =
     \<lparr>sv_signal_type = fst c, sv_definition = snd c,
      sv_engine_version = map_option sg_engineVersion row,
      sv_score = Option.bind row sg_score,
      sv_explanation = map_option sg_explanation row,
      sv_computed_at = map_option (\<lambda>r. iso_string (sg_computedAt r)) row\<rparr>"

definition list_latest :: "string \<Rightarrow> string \<Rightarrow> signal_store \<Rightarrow> signal_listing result" where
  "list_latest tenantId organisationNumberRaw st =
     (let org = digits_only organisationNumberRaw
      in if \<not> valid_org_length org then Inl (NotFound ''Invalid organisation number'')
         else if find_company tenantId org st = None
           then Inl (NotFound ''Company not found in tenant index'')
         else Inr \<lparr>sl_organisation_number = org, sl_engine_catalog_version = signal_engine_version,
           sl_data = map (\<lambda>c. signal_view_of c (latest_signal tenantId org (fst c) st)) signal_catalog\<rparr>)"

definition enqueue_recompute ::
  "string \<Rightarrow> string \<Rightarrow> string \<Rightarrow> signal_store \<Rightarrow> signal_job list \<Rightarrow> string result \<times> signal_job list" where
  "enqueue_recompute newJobId tenantId organisationNumberRaw st jobs =
     (let org = digits_only organisationNumberRaw
      in if \<not> valid_org_length org then (Inl (NotFound ''Invalid organisation number''), jobs)
         else if find_company tenantId org st = None
           then (Inl (NotFound ''Company not found in tenant index''), jobs)
         else (Inr newJobId, jobs @ [\<lparr>sj_name = ''recompute-org-signals'', sj_id = Some newJobId,
           sj_tenantId = tenantId, sj_organisationNumber = org,
           sj_engineVersion = signal_engine_version\<rparr>]))"

text \<open>The job whose state \<open>getJobStatus\<close> shows.\<close>

definition visible_job :: "string \<Rightarrow> string \<Rightarrow> signal_job list \<Rightarrow> signal_job result" where
  "visible_job tenantId jobId jobs =
     (case find_one (\<lambda>j. sj_id j = Some jobId) jobs of
        None \<Rightarrow> Inl (NotFound ''Signal job not found'')
      | Some j \<Rightarrow>
          (if sj_tenantId j = [] \<or> sj_tenantId j \<noteq> tenantId
           then Inl (NotFound ''Signal job not found'') else Inr j))"

section \<open>Scores are percentages\<close>

lemma clamp01_bounds [simp]: "0 \<le> clamp01 n" "clamp01 n \<le> 100"
  by (simp_all add: clamp01_def)

lemma clamp01_mono: "m \<le> n \<Longrightarrow> clamp01 m \<le> clamp01 n"
  by (simp add: clamp01_def)

lemma score_bounds:
  "0 \<le> acquisition_likelihood s \<and> acquisition_likelihood s \<le> 100"
  "0 \<le> ownership_transition s \<and> ownership_transition s \<le> 100"
  "0 \<le> seller_readiness s \<and> seller_readiness s \<le> 100"
  "0 \<le> growth_vs_stagnation s \<and> growth_vs_stagnation s \<le> 100"
  "0 \<le> compliance_complexity s \<and> compliance_complexity s \<le> 100"
  "0 \<le> financial_stress s \<and> financial_stress s \<le> 100"
  "0 \<le> board_network s \<and> board_network s \<le> 100"
  by (simp_all add: acquisition_likelihood_def ownership_transition_def seller_readiness_def
      growth_vs_stagnation_def compliance_complexity_def financial_stress_def board_network_def)

lemma so_signal_of [simp]:
  "so_signalType (signal_of t n ds) = t" "so_score (signal_of t n ds) = n"
  by (simp_all add: signal_of_def)

lemma signal_types: "map so_signalType (compute_all_signals c e) = map fst signal_catalog"
  by (simp add: compute_all_signals_def Let_def signal_catalog_def)

text \<open>
  More filings make a company no less attractive: with more stored reports and statements and a
  longer description, and all else equal, financial stress does not rise.
\<close>

definition more_filings :: "signal_inputs \<Rightarrow> signal_inputs \<Rightarrow> bool" where
  "more_filings s s' \<longleftrightarrow>
     0 \<le> si_frLen s \<and> si_frLen s \<le> si_frLen s' \<and> 0 \<le> si_fsCount s \<and> si_fsCount s \<le> si_fsCount s' \<and>
     si_descLen s \<le> si_descLen s' \<and>
     s' = s\<lparr>si_frLen := si_frLen s', si_fsCount := si_fsCount s', si_descLen := si_descLen s'\<rparr>"

lemma more_filings_frame:
  assumes "more_filings s s'"
  shows "si_stress s' = si_stress s" "si_netResult s' = si_netResult s"
    "si_equityRatio s' = si_equityRatio s" "si_active s' = si_active s" "si_rich s' = si_rich s"
    "si_hvd s' = si_hvd s" "si_revenue s' = si_revenue s"
proof -
  have s': "s' = s\<lparr>si_frLen := si_frLen s', si_fsCount := si_fsCount s', si_descLen := si_descLen s'\<rparr>"
    using assms by (simp add: more_filings_def)
  show "si_stress s' = si_stress s" "si_netResult s' = si_netResult s"
    "si_equityRatio s' = si_equityRatio s" "si_active s' = si_active s" "si_rich s' = si_rich s"
    "si_hvd s' = si_hvd s" "si_revenue s' = si_revenue s"
    by (subst s', simp)+
qed

lemma financial_stress_antimono:
  assumes "more_filings s s'"
  shows "financial_stress s' \<le> financial_stress s"
  using assms unfolding financial_stress_def more_filings_frame [OF assms]
  by (intro clamp01_mono) (auto simp: more_filings_def)

text \<open>Every computation returns one row per catalog entry, in catalog order, each with a score from
  0 to 100; and filing more never hurts: with more stored reports or statements or a longer
  description and all else equal, neither the acquisition likelihood nor the growth score falls
  and the financial stress does not rise.
\<close>

theorem signals_bounded_and_monotone:
  "map so_signalType (compute_all_signals c e) = map fst signal_catalog \<and>
   (\<forall>r \<in> set (compute_all_signals c e). 0 \<le> so_score r \<and> so_score r \<le> 100) \<and>
   (more_filings s s' \<longrightarrow>
      acquisition_likelihood s \<le> acquisition_likelihood s' \<and>
      growth_vs_stagnation s \<le> growth_vs_stagnation s' \<and>
      financial_stress s' \<le> financial_stress s)"
proof (intro conjI impI)
  show "map so_signalType (compute_all_signals c e) = map fst signal_catalog"
    by (rule signal_types)
  show "\<forall>r \<in> set (compute_all_signals c e). 0 \<le> so_score r \<and> so_score r \<le> 100"
    by (simp add: compute_all_signals_def Let_def score_bounds)
  assume m: "more_filings s s'"
  show stress: "financial_stress s' \<le> financial_stress s"
    by (rule financial_stress_antimono [OF m])
  have le: "si_frLen s \<le> si_frLen s'" "si_fsCount s \<le> si_fsCount s'" "si_descLen s \<le> si_descLen s'"
      "si_descLen s div 40 \<le> si_descLen s' div 40"
    using m by (simp_all add: more_filings_def zdiv_mono1)
  have mins: "min k (si_frLen s * n) \<le> min k (si_frLen s' * n)"
      "min k (si_fsCount s * n) \<le> min k (si_fsCount s' * n)"
      "min k (si_descLen s div 40) \<le> min k (si_descLen s' div 40)" if "0 \<le> n" for k n
    using le that by (auto intro!: min.coboundedI2 mult_right_mono)
  show "acquisition_likelihood s \<le> acquisition_likelihood s'"
    unfolding acquisition_likelihood_def more_filings_frame [OF m]
    by (intro clamp01_mono diff_mono add_mono order_refl mins) (use stress in auto)
  show "growth_vs_stagnation s \<le> growth_vs_stagnation s'"
    unfolding growth_vs_stagnation_def more_filings_frame [OF m]
    by (intro clamp01_mono add_mono order_refl mins) (use le(3) in auto)
qed

definition sample_inputs :: signal_inputs where
  "sample_inputs = \<lparr>si_rich = True, si_hvd = False, si_active = True, si_liquidation = False,
     si_stress = 15, si_frLen = 0, si_offLen = 3, si_descLen = 30, si_shareKeys = 1, si_signLen = 0,
     si_fsCount = 0, si_olCount = 0, si_ccCount = 0, si_revenue = None, si_netResult = Some (- 1),
     si_equityRatio = Some (1 / 10)\<rparr>"

theorem signals_bounded_and_monotone_witness:
  "acquisition_likelihood sample_inputs \<le> acquisition_likelihood (sample_inputs\<lparr>si_frLen := 2\<rparr>) \<and>
   financial_stress (sample_inputs\<lparr>si_frLen := 2\<rparr>) = 47 \<and> financial_stress sample_inputs = 55"
proof -
  have m: "more_filings sample_inputs (sample_inputs\<lparr>si_frLen := 2\<rparr>)"
    by (simp add: more_filings_def sample_inputs_def)
  have "financial_stress (sample_inputs\<lparr>si_frLen := 2\<rparr>) = 47" "financial_stress sample_inputs = 55"
    by (simp_all add: financial_stress_def sample_inputs_def is_some_and_def clamp01_def)
  with m show ?thesis
    using signals_bounded_and_monotone [of undefined undefined sample_inputs "sample_inputs\<lparr>si_frLen := 2\<rparr>"]
    by blast
qed

section \<open>What is stored is what is read\<close>

text \<open>A row that is newer than all others of its type is the latest one.\<close>

lemma latest_signal_new:
  assumes "\<forall>r \<in> set old. sg_tenantId r = t \<longrightarrow> sg_organisationNumber r = org \<longrightarrow> sg_computedAt r < now"
    and "ss_signals st = old @ new" and "n \<in> set new"
    and "\<forall>r \<in> set new. sg_tenantId r = t \<and> sg_organisationNumber r = org \<and> sg_computedAt r = now"
    and "distinct (map sg_signalType new)"
  shows "latest_signal t org (sg_signalType n) st = Some n"
  unfolding latest_signal_def
proof (rule find_latest_eqI)
  fix x
  assume x: "x \<in> set (ss_signals st)"
    "sg_tenantId x = t \<and> sg_organisationNumber x = org \<and> sg_signalType x = sg_signalType n" "x \<noteq> n"
  have "x \<notin> set new"
    using x(2,3) assms(3,5) by (auto simp: distinct_map dest: inj_onD)
  then show "sg_computedAt x < sg_computedAt n"
    using x(1,2) assms by auto
qed (use assms in auto)

text \<open>A recomputation of a company in the index stores one row per catalog entry and asks for a
  decision refresh; read back at once, the listing shows exactly the scores computed from the
  company and its related records at that time, in catalog order, under the engine version of
  the job.
\<close>

theorem recompute_then_list:
  assumes "sj_name job = ''recompute-org-signals''"
    and "valid_org_length (digits_only (sj_organisationNumber job))"
    and "find_company (sj_tenantId job) (digits_only (sj_organisationNumber job)) st = Some c"
    and "\<forall>r \<in> set (ss_signals st). sg_tenantId r = sj_tenantId job \<longrightarrow>
       sg_organisationNumber r = digits_only (sj_organisationNumber job) \<longrightarrow> sg_computedAt r < now"
  shows "let org = digits_only (sj_organisationNumber job);
       e = evidence_of (sj_tenantId job) org st; st' = process_signal_job now job st
     in length (ss_signals st') = length (ss_signals st) + 7 \<and>
       (\<exists>l. list_latest (sj_tenantId job) (sj_organisationNumber job) st' = Inr l \<and>
          map sv_score (sl_data l) = map (\<lambda>r. Some (so_score r)) (compute_all_signals c e) \<and>
          map sv_signal_type (sl_data l) = map fst signal_catalog)"
proof -
  let ?org = "digits_only (sj_organisationNumber job)"
  let ?rows = "compute_all_signals c (evidence_of (sj_tenantId job) ?org st)"
  let ?new = "signal_entities now job ?org ?rows"
  let ?st' = "process_signal_job now job st"
  have st': "ss_signals ?st' = ss_signals st @ ?new" "ss_companies ?st' = ss_companies st"
    using assms(1-3) by (simp_all add: process_signal_job_def Let_def)
  have types: "map sg_signalType ?new = map fst signal_catalog"
    using signal_types [of c "evidence_of (sj_tenantId job) ?org st"]
    by (simp add: signal_entities_def o_def)
  have len: "length ?new = 7" "length signal_catalog = 7"
    using arg_cong [OF types, of length] by (simp_all add: signal_catalog_def)
  have "distinct (map fst signal_catalog)" by (simp add: signal_catalog_def)
  then have latest: "latest_signal (sj_tenantId job) ?org (sg_signalType n) ?st' = Some n"
    if "n \<in> set ?new" for n
    using latest_signal_new [OF assms(4) st'(1) that] types by (simp add: signal_entities_def)
  have "map (\<lambda>k. Option.bind (latest_signal (sj_tenantId job) ?org k ?st') sg_score)
      (map sg_signalType ?new) = map sg_score ?new"
    using latest by simp
  then have "map (\<lambda>k. Option.bind (latest_signal (sj_tenantId job) ?org (fst k) ?st') sg_score)
      signal_catalog = map (\<lambda>r. Some (so_score r)) ?rows"
    unfolding types by (simp add: o_def signal_entities_def)
  then show ?thesis
    using assms(2,3) len
    by (simp add: list_latest_def find_company_def st' signal_view_of_def o_def Let_def)
qed

definition sample_company :: indexed_company where
  "sample_company = \<lparr>xc_tenantId = ''t1'', xc_organisationNumber = ''5560001234'', xc_status = Some ''Bankrupt'',
     xc_businessDescription = None, xc_signatoryText = None, xc_officers = JArr [],
     xc_shareInformation = JObj [], xc_financialReports = JArr [], xc_sourcePayloadSummary = []\<rparr>"

definition sample_signals :: signal_store where
  "sample_signals = \<lparr>ss_companies = [sample_company], ss_signals = [], ss_statements = [], ss_links = [],
     ss_cases = [], ss_queue = []\<rparr>"

definition sample_job :: signal_job where
  "sample_job = \<lparr>sj_name = ''recompute-org-signals'', sj_id = Some ''1'', sj_tenantId = ''t1'',
     sj_organisationNumber = ''556000-1234'', sj_engineVersion = signal_engine_version\<rparr>"

theorem recompute_then_list_witness:
  "length (ss_signals (process_signal_job 9 sample_job sample_signals)) = 7"
proof -
  have d: "digits_only (sj_organisationNumber sample_job) = ''5560001234''"
    by (simp add: sample_job_def digits_only_def is_digit_def code_def)
  have "find_company (sj_tenantId sample_job) (digits_only (sj_organisationNumber sample_job)) sample_signals
      = Some sample_company"
    unfolding d by (simp add: find_company_def sample_signals_def sample_company_def sample_job_def find_one_def)
  from recompute_then_list [OF _ _ this, of 9] show ?thesis
    by (simp add: Let_def sample_job_def sample_signals_def valid_org_length_def digits_only_def
        is_digit_def code_def)
qed

section \<open>Companies from the bulk file\<close>

text \<open>The index row as the signals read it.\<close>

definition indexed_of :: "company \<Rightarrow> indexed_company" where
  "indexed_of c = \<lparr>xc_tenantId = cm_tenantId c, xc_organisationNumber = cm_organisationNumber c,
     xc_status = Some (cm_status c), xc_businessDescription = cm_businessDescription c,
     xc_signatoryText = cm_signatoryText c, xc_officers = JArr (cm_officers c),
     xc_shareInformation = JObj (cm_shareInformation c), xc_financialReports = JArr (cm_financialReports c),
     xc_sourcePayloadSummary = cm_sourcePayloadSummary c\<rparr>"

text \<open>Seeding and scoring disagree on deregistered companies: a row the bulk file marks as
  deregistered is seeded with a status the scores do not know, so its legal status adds no more
  stress than that of an active company, and 40 less than that of a company marked dissolved.
\<close>

theorem deregistered_scored_as_healthy:
  assumes "c \<in> set (seed_company to_date tenantId row companies)"
    and "cm_tenantId c = tenantId" and "cm_organisationNumber c = bp_organisationNumber (cu_payload row)"
    and "unique_keys (\<lambda>c. (cm_tenantId c, cm_organisationNumber c)) companies"
    and "bp_isDeregistered (cu_payload row)"
  shows "si_stress (inputs_of (indexed_of c) e) =
      si_stress (inputs_of (indexed_of (c\<lparr>cm_status := ''ACTIVE''\<rparr>)) e) \<and>
    si_stress (inputs_of (indexed_of (c\<lparr>cm_status := ''DISSOLVED''\<rparr>)) e) =
      si_stress (inputs_of (indexed_of c) e) + 40"
proof -
  have "cm_status c = ''DEREGISTERED''"
    using assms by (auto simp: seed_company_def Let_def set_save)
  then show ?thesis
    by (simp add: inputs_of_def indexed_of_def status_stress_def upper_status_def Let_def
        upper_char_def code_def)
qed

definition sample_deregistered :: current_row where
  "sample_deregistered =
     \<lparr>cu_payload = (payload_of ''r'' 1 None (sample_staging ''r'' ''5560'' ''h''))\<lparr>bp_isDeregistered := True\<rparr>,
      cu_postalParseWarning = None, cu_seedState = default_seed_state, cu_deepDataFreshAt = None\<rparr>"

theorem deregistered_scored_as_healthy_witness:
  "\<exists>c. seed_company (\<lambda>_. 0) ''t1'' sample_deregistered [] = [c] \<and>
     si_stress (inputs_of (indexed_of (c\<lparr>cm_status := ''DISSOLVED''\<rparr>)) (evidence_of ''t1'' ''5560'' sample_signals)) =
     si_stress (inputs_of (indexed_of c) (evidence_of ''t1'' ''5560'' sample_signals)) + 40"
proof -
  obtain c where c: "seed_company (\<lambda>_. 0) ''t1'' sample_deregistered [] = [c]" "cm_tenantId c = ''t1''"
      "cm_organisationNumber c = bp_organisationNumber (cu_payload sample_deregistered)"
    by (simp add: seed_company_def Let_def)
  have "bp_isDeregistered (cu_payload sample_deregistered)" by (simp add: sample_deregistered_def)
  with c deregistered_scored_as_healthy [of c "\<lambda>_. 0" "''t1''" sample_deregistered "[]"
      "evidence_of ''t1'' ''5560'' sample_signals"] show ?thesis
    by (auto simp: unique_keys_Nil)
qed

end
