(* ===== verification/IntegrationTokens.thy ===== *)
theory IntegrationTokens
  imports JsonCompare AuditTrail Dates
begin

text \<open>
  \<open>IntegrationTokenService\<close> (backend/src/companies/services/integration-token.service.ts):
  access tokens of the provider, fetched afresh for every lookup with bounded retries, stored
  encrypted and audited. The token endpoint is a function from the number of the request to its
  answer; encryption is a parameter. The table has the unique constraint on tenant and provider
  key of its entity and migration.
\<close>

section \<open>Data\<close>

datatype token_auth = HvdAuth | OrgAuth

record token_error =
  te_status :: "nat option"
  te_message :: string

datatype token_answer = TokenFailed token_error | TokenAnswered "rat json"

record oauth_token =
  ot_access_token :: string
  ot_token_type :: "string option"
  ot_expires_in :: rat
  ot_scope :: "string option"

record token_row =
  it_tenantId :: string
  it_providerKey :: string
  it_encryptedAccessToken :: string
  it_encryptedRefreshToken :: "string option"
  it_expiresAt :: int
  it_tokenType :: "string option"
  it_scope :: "string option"
  it_lastRefreshedAt :: "int option"

record token_store =
  ts_rows :: "token_row list"
  ts_audit :: audit_store

type_synonym token_config = "string \<Rightarrow> string option"

section \<open>Configuration\<close>

definition default_hvd_scopes :: string where
  "default_hvd_scopes = ''vardefulla-datamangder:read vardefulla-datamangder:ping''"

definition default_hvd_token_url :: string where
  "default_hvd_token_url = ''https://portal.api.bolagsverket.se/oauth2/token''"

definition token_scopes :: "token_config \<Rightarrow> token_auth \<Rightarrow> string" where
  "token_scopes cfg auth =
     (case auth of
        HvdAuth \<Rightarrow> or_default (cfg ''BV_HVD_SCOPES'') default_hvd_scopes
      | OrgAuth \<Rightarrow> or_default (cfg ''BV_FORETAGSINFO_SCOPES'') [])"

definition provider_key :: "token_config \<Rightarrow> token_auth \<Rightarrow> string" where
  "provider_key cfg auth =
     (case auth of
        HvdAuth \<Rightarrow> ''bolagsverket:hvd:'' @ token_scopes cfg HvdAuth
      | OrgAuth \<Rightarrow> ''bolagsverket:org:'' @ token_scopes cfg OrgAuth)"

definition hvd_token_url :: "token_config \<Rightarrow> string" where
  "hvd_token_url cfg = or_default (cfg ''BV_HVD_TOKEN_URL'') default_hvd_token_url"

definition token_url :: "token_config \<Rightarrow> token_auth \<Rightarrow> string" where
  "token_url cfg auth =
     (case auth of
        HvdAuth \<Rightarrow> hvd_token_url cfg
      | OrgAuth \<Rightarrow> or_default (cfg ''BV_FORETAGSINFO_TOKEN_URL'') (hvd_token_url cfg))"

definition client_setting :: "token_config \<Rightarrow> string \<Rightarrow> string \<Rightarrow> string \<Rightarrow> token_error + string" where
  "client_setting cfg key fallback message =
     (let v = or_else (cfg key) (cfg fallback)
      in if truthy_str v then Inr (or_default v [])
         else Inl \<lparr>te_status = None, te_message = message\<rparr>)"

definition token_client_id :: "token_config \<Rightarrow> token_auth \<Rightarrow> token_error + string" where
  "token_client_id cfg auth =
     client_setting cfg
       (case auth of HvdAuth \<Rightarrow> ''BV_HVD_CLIENT_ID'' | OrgAuth \<Rightarrow> ''BV_FORETAGSINFO_CLIENT_ID'')
       ''BV_CLIENT_ID'' ''Bolagsverket OAuth client ID is missing''"

definition token_client_secret :: "token_config \<Rightarrow> token_auth \<Rightarrow> token_error + string" where
  "token_client_secret cfg auth =
     client_setting cfg
       (case auth of HvdAuth \<Rightarrow> ''BV_HVD_CLIENT_SECRET'' | OrgAuth \<Rightarrow> ''BV_FORETAGSINFO_CLIENT_SECRET'')
       ''BV_CLIENT_SECRET'' ''Bolagsverket OAuth client secret is missing''"

section \<open>One request\<close>

definition retryable_status_codes :: "nat list" where
  "retryable_status_codes = [408, 429, 500, 502, 503, 504]"

text \<open>An optional string of the schema: absent or a string.\<close>

definition optional_string :: "rat json option \<Rightarrow> string option option" where
  "optional_string v =
     (case v of None \<Rightarrow> Some None | Some (JStr s) \<Rightarrow> Some (Some s) | _ \<Rightarrow> None)"

text \<open>
  The schema check and the check of \<open>expires_in\<close>. The errors carry no HTTP status: a schema
  error has no response, and the response of an \<open>UnauthorizedException\<close> has no \<open>status\<close> field.
\<close>

definition parse_token :: "js_numbers \<Rightarrow> rat json \<Rightarrow> token_error + oauth_token" where
  "parse_token js body =
     (case (member_of ''access_token'' (Some body), optional_string (member_of ''token_type'' (Some body)),
            member_of ''expires_in'' (Some body), optional_string (member_of ''scope'' (Some body))) of
        (Some (JStr token), Some tokenType, Some e, Some scope) \<Rightarrow>
          (if token = [] \<or> \<not> (case e of JNum _ \<Rightarrow> True | JStr _ \<Rightarrow> True | _ \<Rightarrow> False)
           then Inl \<lparr>te_status = None, te_message = ''schema''\<rparr>
           else (case js_number js (Some e) of
               Some n \<Rightarrow>
                 (if n > 0 then Inr \<lparr>ot_access_token = token, ot_token_type = tokenType,
                    ot_expires_in = n, ot_scope = scope\<rparr>
                  else Inl \<lparr>te_status = None, te_message =
                    ''Bolagsverket token response contains invalid expires_in: '' @ js_string js e\<rparr>)
             | None \<Rightarrow> Inl \<lparr>te_status = None, te_message =
                 ''Bolagsverket token response contains invalid expires_in: '' @ js_string js e\<rparr>))
      | _ \<Rightarrow> Inl \<lparr>te_status = None, te_message = ''schema''\<rparr>)"

definition token_of :: "js_numbers \<Rightarrow> token_answer \<Rightarrow> token_error + oauth_token" where
  "token_of js a = (case a of TokenFailed e \<Rightarrow> Inl e | TokenAnswered body \<Rightarrow> parse_token js body)"

definition retryable :: "token_error \<Rightarrow> bool" where
  "retryable e \<longleftrightarrow>
     (case te_status e of None \<Rightarrow> True | Some s \<Rightarrow> s \<in> set retryable_status_codes)"

section \<open>Requests with retries\<close>

definition max_total_attempts :: nat where
  "max_total_attempts = 4"

definition initial_delay_ms :: int where
  "initial_delay_ms = 1000"

definition next_delay_ms :: "int \<Rightarrow> int" where
  "next_delay_ms d = min (d * 2) 30000"

text \<open>
  The loop from attempt \<open>k\<close> with \<open>n\<close> attempts left; it also returns the waits before each
  further request. With no attempt left the code's last \<open>throw\<close> would be reached, which the
  loop never does.
\<close>

fun token_attempts ::
  "js_numbers \<Rightarrow> (nat \<Rightarrow> token_answer) \<Rightarrow> nat \<Rightarrow> nat \<Rightarrow> int \<Rightarrow> (token_error + oauth_token) \<times> int list" where
  "token_attempts js ans k 0 delay =
     (Inl \<lparr>te_status = None, te_message = ''Bolagsverket token request failed''\<rparr>, [])"
| "token_attempts js ans k (Suc n) delay =
     (case token_of js (ans k) of
        Inr t \<Rightarrow> (Inr t, [])
      | Inl e \<Rightarrow>
          (if retryable e \<and> n > 0
           then (let (r, ds) = token_attempts js ans (Suc k) n (next_delay_ms delay) in (r, delay # ds))
           else (Inl e, [])))"

definition request_access_token ::
  "js_numbers \<Rightarrow> token_config \<Rightarrow> token_auth \<Rightarrow> (nat \<Rightarrow> token_answer) \<Rightarrow>
   (token_error + oauth_token) \<times> int list" where
  "request_access_token js cfg auth ans =
     (case token_client_id cfg auth of
        Inl e \<Rightarrow> (Inl e, [])
      | Inr _ \<Rightarrow>
          (case token_client_secret cfg auth of
             Inl e \<Rightarrow> (Inl e, [])
           | Inr _ \<Rightarrow> token_attempts js ans 0 max_total_attempts initial_delay_ms))"

section \<open>Tokens of a tenant\<close>

definition calculate_expiry :: "int \<Rightarrow> rat \<Rightarrow> int" where
  "calculate_expiry now expiresIn = \<lfloor>of_int now + expiresIn * 1000\<rfloor>"

text \<open>\<open>save\<close> of a new row under the unique constraint.\<close>

definition insert_token :: "token_row \<Rightarrow> token_row list \<Rightarrow> token_error + token_row list" where
  "insert_token r t =
     (if \<exists>x \<in> set t. it_tenantId x = it_tenantId r \<and> it_providerKey x = it_providerKey r
      then Inl \<lparr>te_status = None, te_message = ''duplicate key value violates unique constraint''\<rparr>
      else Inr (t @ [r]))"

definition token_event ::
  "string \<Rightarrow> string option \<Rightarrow> string option \<Rightarrow> audit_event_type \<Rightarrow> string \<Rightarrow> string \<Rightarrow> rat members \<Rightarrow>
   token_store \<Rightarrow> token_store" where
  "token_event tenantId actorId correlationId event status providerKey meta st =
     st\<lparr>ts_audit := snd (emit_audit_event \<lparr>ei_tenantId = tenantId, ei_userId = actorId,
       ei_eventType = event, ei_action = ''integration.token.refresh'', ei_status = status,
       ei_resourceId = Some providerKey, ei_correlationId = correlationId, ei_costImpact = None,
       ei_metadata = Some meta, ei_retentionExpiresAt = None\<rparr> (ts_audit st))\<rparr>"

definition token_row_of ::
  "(string \<Rightarrow> string) \<Rightarrow> int \<Rightarrow> string \<Rightarrow> string \<Rightarrow> oauth_token \<Rightarrow> token_row" where
  "token_row_of encrypt now tenantId providerKey t =
     \<lparr>it_tenantId = tenantId, it_providerKey = providerKey,
      it_encryptedAccessToken = encrypt (ot_access_token t), it_encryptedRefreshToken = None,
      it_expiresAt = calculate_expiry now (ot_expires_in t), it_tokenType = ot_token_type t,
      it_scope = ot_scope t, it_lastRefreshedAt = Some now\<rparr>"

definition get_tenant_access_token ::
  "js_numbers \<Rightarrow> (string \<Rightarrow> string) \<Rightarrow> token_config \<Rightarrow> int \<Rightarrow> string \<Rightarrow> token_auth \<Rightarrow> string option \<Rightarrow>
   string option \<Rightarrow> (nat \<Rightarrow> token_answer) \<Rightarrow> token_store \<Rightarrow> (token_error + string) \<times> token_store" where
  "get_tenant_access_token js encrypt cfg now tenantId auth correlationId actorId ans st =
     (let key = provider_key cfg auth;
          event = token_event tenantId actorId correlationId;
          st = event REFRESH_INITIATED ''initiated'' key
            [(''providerKey'', JStr key), (''tokenUrl'', JStr (token_url cfg auth)),
             (''scope'', JStr (token_scopes cfg auth))] st;
          failed = (\<lambda>e. (Inl e, event FAILURE_STATE ''error'' key
            [(''providerKey'', JStr key), (''message'', JStr (te_message e))] st))
      in case fst (request_access_token js cfg auth ans) of
           Inl e \<Rightarrow> failed e
         | Inr t \<Rightarrow>
             (case insert_token (token_row_of encrypt now tenantId key t) (ts_rows st) of
                Inl e \<Rightarrow> failed e
              | Inr rows \<Rightarrow>
                  (Inr (ot_access_token t),
                   event REFRESH_COMPLETED ''success'' key
                     [(''providerKey'', JStr key), (''tokenType'', json_str (ot_token_type t)),
                      (''scope'', json_str (ot_scope t)),
                      (''expiresAt'', JStr (iso_string (calculate_expiry now (ot_expires_in t))))]
                     (st\<lparr>ts_rows := rows\<rparr>))))"

section \<open>Retries\<close>

lemma token_attempts_delays:
  "snd (token_attempts js ans k n d) =
    take (length (snd (token_attempts js ans k n d)))
      (map (\<lambda>i. (next_delay_ms ^^ i) d) [0..<n - 1])"
proof (induction n arbitrary: k d)
  case 0
  then show ?case by simp
next
  case (Suc n)
  show ?case
  proof (cases "\<exists>e. token_of js (ans k) = Inl e \<and> retryable e \<and> n > 0")
    case False
    then show ?thesis by (auto split: sum.splits)
  next
    case True
    then obtain m where m: "n = Suc m" by (cases n) auto
    let ?r = "token_attempts js ans (Suc k) n (next_delay_ms d)"
    have r: "snd (token_attempts js ans k (Suc n) d) = d # snd ?r"
      using True by (auto simp: case_prod_beta Let_def)
    have "map (\<lambda>i. (next_delay_ms ^^ i) d) [0..<Suc n - 1] =
        d # map (\<lambda>i. (next_delay_ms ^^ i) (next_delay_ms d)) [0..<n - 1]"
      unfolding m by (simp add: upt_conv_Cons map_Suc_upt [symmetric] funpow_swap1 del: upt_Suc)
    then show ?thesis
      using Suc.IH [of "Suc k" "next_delay_ms d"] unfolding r by simp
  qed
qed

lemma token_attempts_success:
  "fst (token_attempts js ans k n d) = Inr t \<longleftrightarrow>
    (\<exists>i < n. token_of js (ans (k + i)) = Inr t \<and>
      (\<forall>j < i. \<exists>e. token_of js (ans (k + j)) = Inl e \<and> retryable e))"
proof (induction n arbitrary: k d)
  case 0
  then show ?case by simp
next
  case (Suc n)
  show ?case
  proof (cases "token_of js (ans k)")
    case (Inr s)
    then show ?thesis by (auto simp: less_Suc_eq_0_disj)
  next
    case (Inl e)
    show ?thesis
    proof (cases "retryable e \<and> n > 0")
      case True
      then have "fst (token_attempts js ans k (Suc n) d) = fst (token_attempts js ans (Suc k) n (next_delay_ms d))"
        using Inl by (simp add: case_prod_beta Let_def)
      then show ?thesis
        using Suc.IH [of "Suc k" "next_delay_ms d"] Inl True
        by (auto simp: Ex_less_Suc2 All_less_Suc2)
    next
      case False
      then show ?thesis using Inl by (auto simp: Ex_less_Suc2 All_less_Suc2)
    qed
  qed
qed

text \<open>A token request is bounded: it makes at most four requests and waits 1, 2 and 4 seconds
  between them; it succeeds exactly when one of the first four answers is a valid token and
  every answer before it is a failure that may pass (a network error, an invalid answer, or one
  of six status codes). Hypothesis: the client id and secret are configured.
\<close>

theorem token_request_bounded:
  assumes "token_client_id cfg auth = Inr cid" and "token_client_secret cfg auth = Inr secret"
  shows "let (r, waits) = request_access_token js cfg auth ans
    in length waits \<le> 3 \<and> waits = take (length waits) [1000, 2000, 4000] \<and>
       (\<forall>t. r = Inr t \<longleftrightarrow> (\<exists>i < 4. token_of js (ans i) = Inr t \<and>
          (\<forall>j < i. \<exists>e. token_of js (ans j) = Inl e \<and> retryable e)))"
proof -
  let ?a = "token_attempts js ans 0 4 1000"
  have r: "request_access_token js cfg auth ans = ?a"
    using assms by (simp add: request_access_token_def max_total_attempts_def initial_delay_ms_def)
  have "map (\<lambda>i. (next_delay_ms ^^ i) 1000) [0..<4 - 1] = [1000, 2000, 4000]"
    by (simp add: upt_rec next_delay_ms_def numeral_2_eq_2)
  then have "snd ?a = take (length (snd ?a)) [1000, 2000, 4000]"
    using token_attempts_delays [of js ans 0 4 1000] by metis
  moreover from this have "length (snd ?a) \<le> 3"
    by (metis length_take min.cobounded1 list.size(3,4) numeral_3_eq_3 One_nat_def add_Suc_right add_0_right)
  ultimately show ?thesis
    using token_attempts_success [of js ans 0 4 1000] by (simp add: r case_prod_beta)
qed

section \<open>What is stored and audited\<close>

lemma token_event_rows [simp]: "ts_rows (token_event t a c ev s k m st) = ts_rows st"
  by (simp add: token_event_def)

text \<open>An answer with another access token.\<close>

definition with_token :: "string \<Rightarrow> oauth_token \<Rightarrow> oauth_token" where
  "with_token s t = t\<lparr>ot_access_token := s\<rparr>"

text \<open>The access token leaves the service only as its result and encrypted: if two answers differ
  only in their access tokens and these encrypt to the same text, the tables and the audit
  trail after the call are the same, though the caller gets the token of its own answer; no
  audit record depends on it.
\<close>

theorem access_token_stays_secret:
  assumes "fst (request_access_token js cfg auth ans) = Inr t"
    and "fst (request_access_token js cfg auth ans') = Inr (with_token s t)"
    and "encrypt s = encrypt (ot_access_token t)"
  shows "snd (get_tenant_access_token js encrypt cfg now tenantId auth corr actor ans st) =
      snd (get_tenant_access_token js encrypt cfg now tenantId auth corr actor ans' st) \<and>
    (\<forall>token. fst (get_tenant_access_token js encrypt cfg now tenantId auth corr actor ans' st) = Inr token
      \<longrightarrow> token = s)"
proof -
  have "token_row_of encrypt now tenantId k (with_token s t) = token_row_of encrypt now tenantId k t" for k
    by (simp add: token_row_of_def with_token_def assms(3))
  then show ?thesis
    using assms(1,2)
    by (auto simp: get_tenant_access_token_def Let_def with_token_def split: sum.splits)
qed

text \<open>Tokens are fetched once only: the service inserts a new row for every lookup, but the table
  is unique in tenant and provider key, so after one successful fetch every further fetch of
  the tenant with the same configuration fails, whatever the endpoint answers and whenever it
  happens, and leaves the table as it is.
\<close>

theorem second_fetch_fails:
  assumes "get_tenant_access_token js encrypt cfg now tenantId auth corr actor ans st = (Inr token, st')"
  shows "\<exists>e. get_tenant_access_token js encrypt' cfg later tenantId auth corr' actor' ans' st' =
      (Inl e, snd (get_tenant_access_token js encrypt' cfg later tenantId auth corr' actor' ans' st')) \<and>
    ts_rows (snd (get_tenant_access_token js encrypt' cfg later tenantId auth corr' actor' ans' st')) =
      ts_rows st'"
proof -
  obtain t where "ts_rows st' = ts_rows st @ [token_row_of encrypt now tenantId (provider_key cfg auth) t]"
    using assms
    by (auto simp: get_tenant_access_token_def Let_def insert_token_def split: sum.splits if_splits)
  then have "\<exists>x \<in> set (ts_rows st'). it_tenantId x = tenantId \<and> it_providerKey x = provider_key cfg auth"
    by (auto simp: token_row_of_def)
  then have "insert_token (token_row_of encrypt' later tenantId (provider_key cfg auth) u) (ts_rows st') =
      Inl \<lparr>te_status = None, te_message = ''duplicate key value violates unique constraint''\<rparr>" for u
    by (simp add: insert_token_def token_row_of_def)
  then show ?thesis
    by (simp add: get_tenant_access_token_def Let_def split: sum.splits)
qed

section \<open>Witnesses\<close>

definition sample_token_config :: token_config where
  "sample_token_config =
     [''BV_CLIENT_ID'' \<mapsto> ''id'', ''BV_CLIENT_SECRET'' \<mapsto> ''secret'', ''BV_HVD_SCOPES'' \<mapsto> ''read'']"

definition sample_answer :: "string \<Rightarrow> nat \<Rightarrow> token_answer" where
  "sample_answer token k =
     (if k = 0 then TokenFailed \<lparr>te_status = Some 503, te_message = ''unavailable''\<rparr>
      else TokenAnswered (JObj [(''access_token'', JStr token), (''expires_in'', JNum 3600)]))"

definition plain_numbers :: js_numbers where
  "plain_numbers = \<lparr>number_text = (\<lambda>n. show_int \<lfloor>n\<rfloor>), number_value = (\<lambda>s. None)\<rparr>"

definition sample_tokens :: token_store where
  "sample_tokens = \<lparr>ts_rows = [], ts_audit = empty_audit\<rparr>"

lemma sample_client:
  "token_client_id sample_token_config HvdAuth = Inr ''id''"
  "token_client_secret sample_token_config HvdAuth = Inr ''secret''"
  by (simp_all add: token_client_id_def token_client_secret_def client_setting_def sample_token_config_def)

lemma sample_token_of:
  "token_of plain_numbers (sample_answer token 0) = Inl \<lparr>te_status = Some 503, te_message = ''unavailable''\<rparr>"
  "token \<noteq> [] \<Longrightarrow> token_of plain_numbers (sample_answer token (Suc k)) =
     Inr \<lparr>ot_access_token = token, ot_token_type = None, ot_expires_in = 3600, ot_scope = None\<rparr>"
  by (simp_all add: token_of_def sample_answer_def parse_token_def optional_string_def)

lemma sample_request_token:
  "token \<noteq> [] \<Longrightarrow> request_access_token plain_numbers sample_token_config HvdAuth (sample_answer token) =
     (Inr \<lparr>ot_access_token = token, ot_token_type = None, ot_expires_in = 3600, ot_scope = None\<rparr>, [1000])"
  by (simp add: request_access_token_def sample_client max_total_attempts_def initial_delay_ms_def
      numeral_eq_Suc sample_token_of retryable_def retryable_status_codes_def)

theorem token_request_bounded_witness:
  "\<exists>i < 4. token_of plain_numbers (sample_answer ''abc'' i) =
     Inr \<lparr>ot_access_token = ''abc'', ot_token_type = None, ot_expires_in = 3600, ot_scope = None\<rparr>"
  using token_request_bounded [OF sample_client, of plain_numbers "sample_answer ''abc''"]
  by (auto simp: sample_request_token)

theorem access_token_stays_secret_witness:
  "snd (get_tenant_access_token plain_numbers (\<lambda>_. ''x'') sample_token_config 0 ''t1'' HvdAuth None None
     (sample_answer ''abc'') sample_tokens) =
   snd (get_tenant_access_token plain_numbers (\<lambda>_. ''x'') sample_token_config 0 ''t1'' HvdAuth None None
     (sample_answer ''def'') sample_tokens)"
  using access_token_stays_secret [of plain_numbers sample_token_config HvdAuth "sample_answer ''abc''" _
      "sample_answer ''def''" "''def''" "\<lambda>_. ''x''"]
  by (simp add: sample_request_token with_token_def)

theorem second_fetch_fails_witness:
  "\<exists>st' e. get_tenant_access_token plain_numbers (\<lambda>_. ''x'') sample_token_config 0 ''t1'' HvdAuth None None
       (sample_answer ''abc'') sample_tokens = (Inr ''abc'', st') \<and>
     fst (get_tenant_access_token plain_numbers (\<lambda>_. ''x'') sample_token_config 99 ''t1'' HvdAuth None None
       (sample_answer ''def'') st') = Inl e"
proof -
  obtain st' where s: "get_tenant_access_token plain_numbers (\<lambda>_. ''x'') sample_token_config 0 ''t1'' HvdAuth
      None None (sample_answer ''abc'') sample_tokens = (Inr ''abc'', st')"
    by (simp add: get_tenant_access_token_def Let_def sample_request_token insert_token_def sample_tokens_def)
  from second_fetch_fails [OF s, of "\<lambda>_. ''x''" 99 None None "sample_answer ''def''"] s show ?thesis
    by (metis fst_conv)
qed

end
