(* ===== verification/Ownership.thy ===== *)
theory Ownership
  imports JsonCompare AuditTrail "HOL-Library.Product_Lexorder"
begin

text \<open>
  \<open>OwnershipService\<close> (backend/src/ownership/ownership.service.ts), first part: the tables of
  ownership links, beneficial owners and workplaces, the collection of the links above a
  company, and the effective shares of persons through chains of companies. Percentages are
  exact rationals; \<open>to_date\<close> is the \<open>Date\<close> constructor on a DTO's date.
\<close>

section \<open>Data\<close>

text \<open>\<open>v && typeof v === 'object'\<close>\<close>

fun object_like :: "'n json \<Rightarrow> bool" where
  "object_like (JObj ms) = True"
| "object_like (JArr xs) = True"
| "object_like v = False"

datatype owner_type = PersonOwner | CompanyOwner

record ownership_link =
  lk_id :: string
  lk_tenantId :: string
  lk_ownerType :: owner_type
  lk_ownerPersonId :: "string option"
  lk_ownerCompanyId :: "string option"
  lk_ownerName :: string
  lk_ownerOrganisationNumber :: "string option"
  lk_ownerPersonnummer :: "string option"
  lk_ownedCompanyId :: "string option"
  lk_ownedOrganisationNumber :: string
  lk_ownedCompanyName :: string
  lk_ownershipPercentage :: "rat option"
  lk_ownershipType :: "string option"
  lk_ownershipClass :: "string option"
  lk_controlPercentage :: "rat option"
  lk_validFrom :: "int option"
  lk_validTo :: "int option"
  lk_isCurrent :: bool
  lk_ingestionSource :: "string option"
  lk_fiParsedSnapshotId :: "rat option"
  lk_dedupeKey :: "string option"
  lk_sourceData :: "rat members"
  lk_createdAt :: int
  lk_updatedAt :: int

record beneficial_owner =
  bo_id :: string
  bo_tenantId :: string
  bo_organisationNumber :: string
  bo_companyId :: "string option"
  bo_personName :: string
  bo_personnummer :: "string option"
  bo_ownershipPercentage :: "rat option"
  bo_controlPercentage :: "rat option"
  bo_ownershipType :: "string option"
  bo_isAlternativeBeneficialOwner :: bool
  bo_alternativeReason :: "string option"
  bo_isCurrent :: bool
  bo_validFrom :: "int option"
  bo_validTo :: "int option"
  bo_sourceType :: "string option"
  bo_sourceData :: "rat members"
  bo_createdAt :: int

record create_link_dto =
  ld_ownerType :: owner_type
  ld_ownerName :: string
  ld_ownedOrganisationNumber :: string
  ld_ownedCompanyName :: string
  ld_ownerPersonId :: "string option"
  ld_ownerCompanyId :: "string option"
  ld_ownerOrganisationNumber :: "string option"
  ld_ownerPersonnummer :: "string option"
  ld_ownedCompanyId :: "string option"
  ld_ownershipPercentage :: "rat option"
  ld_ownershipType :: "string option"
  ld_ownershipClass :: "string option"
  ld_controlPercentage :: "rat option"
  ld_validFrom :: "string option"
  ld_validTo :: "string option"
  ld_isCurrent :: "bool option"
  ld_sourceData :: "rat members option"

record create_owner_dto =
  od_organisationNumber :: string
  od_personName :: string
  od_companyId :: "string option"
  od_personnummer :: "string option"
  od_ownershipPercentage :: "rat option"
  od_controlPercentage :: "rat option"
  od_ownershipType :: "string option"
  od_isAlternativeBeneficialOwner :: "bool option"
  od_alternativeReason :: "string option"
  od_isCurrent :: "bool option"
  od_validFrom :: "string option"
  od_validTo :: "string option"
  od_sourceType :: "string option"
  od_sourceData :: "rat members option"

record ownership_store =
  os_links :: "ownership_link list"
  os_owners :: "beneficial_owner list"
  os_audit :: audit_store

section \<open>Creation and listing\<close>

definition owner_type_text :: "owner_type \<Rightarrow> string" where
  "owner_type_text t = (case t of PersonOwner \<Rightarrow> ''person'' | CompanyOwner \<Rightarrow> ''company'')"

definition opt_date :: "(string \<Rightarrow> int) \<Rightarrow> string option \<Rightarrow> int option" where
  "opt_date to_date d = map_option to_date (Option.bind d nonempty)"

definition link_dto_json :: "create_link_dto \<Rightarrow> rat members" where
  "link_dto_json d =
     [(''ownerType'', JStr (owner_type_text (ld_ownerType d))), (''ownerName'', JStr (ld_ownerName d)),
      (''ownedOrganisationNumber'', JStr (ld_ownedOrganisationNumber d)),
      (''ownedCompanyName'', JStr (ld_ownedCompanyName d))] @
     opt_member ''ownerPersonId'' (map_option JStr (ld_ownerPersonId d)) @
     opt_member ''ownerCompanyId'' (map_option JStr (ld_ownerCompanyId d)) @
     opt_member ''ownerOrganisationNumber'' (map_option JStr (ld_ownerOrganisationNumber d)) @
     opt_member ''ownerPersonnummer'' (map_option JStr (ld_ownerPersonnummer d)) @
     opt_member ''ownedCompanyId'' (map_option JStr (ld_ownedCompanyId d)) @
     opt_member ''ownershipPercentage'' (map_option JNum (ld_ownershipPercentage d)) @
     opt_member ''ownershipType'' (map_option JStr (ld_ownershipType d)) @
     opt_member ''ownershipClass'' (map_option JStr (ld_ownershipClass d)) @
     opt_member ''controlPercentage'' (map_option JNum (ld_controlPercentage d)) @
     opt_member ''validFrom'' (map_option JStr (ld_validFrom d)) @
     opt_member ''validTo'' (map_option JStr (ld_validTo d)) @
     opt_member ''isCurrent'' (map_option JBool (ld_isCurrent d)) @
     opt_member ''sourceData'' (map_option JObj (ld_sourceData d))"

definition create_ownership_link ::
  "(string \<Rightarrow> int) \<Rightarrow> int \<Rightarrow> string \<Rightarrow> string \<Rightarrow> string option \<Rightarrow> create_link_dto \<Rightarrow>
   ownership_store \<Rightarrow> ownership_link \<times> ownership_store" where
  "create_ownership_link to_date now newId tenantId actorId d st =
     (let l = \<lparr>lk_id = newId, lk_tenantId = tenantId, lk_ownerType = ld_ownerType d,
            lk_ownerPersonId = ld_ownerPersonId d, lk_ownerCompanyId = ld_ownerCompanyId d,
            lk_ownerName = ld_ownerName d, lk_ownerOrganisationNumber = ld_ownerOrganisationNumber d,
            lk_ownerPersonnummer = ld_ownerPersonnummer d, lk_ownedCompanyId = ld_ownedCompanyId d,
            lk_ownedOrganisationNumber = ld_ownedOrganisationNumber d,
            lk_ownedCompanyName = ld_ownedCompanyName d,
            lk_ownershipPercentage = ld_ownershipPercentage d,
            lk_ownershipType = ld_ownershipType d, lk_ownershipClass = ld_ownershipClass d,
            lk_controlPercentage = ld_controlPercentage d,
            lk_validFrom = opt_date to_date (ld_validFrom d),
            lk_validTo = opt_date to_date (ld_validTo d),
            lk_isCurrent = or_default (ld_isCurrent d) True, lk_ingestionSource = None,
            lk_fiParsedSnapshotId = None, lk_dedupeKey = None,
            lk_sourceData = or_default (ld_sourceData d) [],
            lk_createdAt = now, lk_updatedAt = now\<rparr>
      in (l, st\<lparr>os_links := os_links st @ [l],
            os_audit := audit_log \<lparr>al_tenantId = tenantId, al_actorId = actorId,
              al_action = ''ownership.link.created'', al_resourceType = ''ownership_link'',
              al_resourceId = newId, al_metadata = Some (link_dto_json d)\<rparr> (os_audit st)\<rparr>))"

definition owner_dto_json :: "create_owner_dto \<Rightarrow> rat members" where
  "owner_dto_json d =
     [(''organisationNumber'', JStr (od_organisationNumber d)), (''personName'', JStr (od_personName d))] @
     opt_member ''companyId'' (map_option JStr (od_companyId d)) @
     opt_member ''personnummer'' (map_option JStr (od_personnummer d)) @
     opt_member ''ownershipPercentage'' (map_option JNum (od_ownershipPercentage d)) @
     opt_member ''controlPercentage'' (map_option JNum (od_controlPercentage d)) @
     opt_member ''ownershipType'' (map_option JStr (od_ownershipType d)) @
     opt_member ''isAlternativeBeneficialOwner'' (map_option JBool (od_isAlternativeBeneficialOwner d)) @
     opt_member ''alternativeReason'' (map_option JStr (od_alternativeReason d)) @
     opt_member ''isCurrent'' (map_option JBool (od_isCurrent d)) @
     opt_member ''validFrom'' (map_option JStr (od_validFrom d)) @
     opt_member ''validTo'' (map_option JStr (od_validTo d)) @
     opt_member ''sourceType'' (map_option JStr (od_sourceType d)) @
     opt_member ''sourceData'' (map_option JObj (od_sourceData d))"

definition create_beneficial_owner ::
  "(string \<Rightarrow> int) \<Rightarrow> int \<Rightarrow> string \<Rightarrow> string \<Rightarrow> string option \<Rightarrow> create_owner_dto \<Rightarrow>
   ownership_store \<Rightarrow> beneficial_owner \<times> ownership_store" where
  "create_beneficial_owner to_date now newId tenantId actorId d st =
     (let b = \<lparr>bo_id = newId, bo_tenantId = tenantId,
            bo_organisationNumber = od_organisationNumber d, bo_companyId = od_companyId d,
            bo_personName = od_personName d, bo_personnummer = od_personnummer d,
            bo_ownershipPercentage = od_ownershipPercentage d,
            bo_controlPercentage = od_controlPercentage d, bo_ownershipType = od_ownershipType d,
            bo_isAlternativeBeneficialOwner = or_default (od_isAlternativeBeneficialOwner d) False,
            bo_alternativeReason = od_alternativeReason d,
            bo_isCurrent = or_default (od_isCurrent d) True,
            bo_validFrom = opt_date to_date (od_validFrom d),
            bo_validTo = opt_date to_date (od_validTo d), bo_sourceType = od_sourceType d,
            bo_sourceData = or_default (od_sourceData d) [], bo_createdAt = now\<rparr>
      in (b, st\<lparr>os_owners := os_owners st @ [b],
            os_audit := audit_log \<lparr>al_tenantId = tenantId, al_actorId = actorId,
              al_action = ''ownership.beneficial_owner.created'', al_resourceType = ''beneficial_owner'',
              al_resourceId = newId, al_metadata = Some (owner_dto_json d)\<rparr> (os_audit st)\<rparr>))"

definition list_ownership_links :: "string \<Rightarrow> string option \<Rightarrow> ownership_store \<Rightarrow> ownership_link list" where
  "list_ownership_links tenantId org st =
     find_desc (\<lambda>l. lk_tenantId l = tenantId \<and>
       (truthy_str org \<longrightarrow> Some (lk_ownedOrganisationNumber l) = org)) lk_createdAt (os_links st)"

definition list_owners :: "string \<Rightarrow> string \<Rightarrow> ownership_store \<Rightarrow> ownership_link list" where
  "list_owners tenantId org st =
     find_desc (\<lambda>l. lk_tenantId l = tenantId \<and> lk_ownedOrganisationNumber l = org) lk_createdAt
       (os_links st)"

definition list_owned_companies :: "string \<Rightarrow> string \<Rightarrow> ownership_store \<Rightarrow> ownership_link list" where
  "list_owned_companies tenantId ownerOrg st =
     find_desc (\<lambda>l. lk_tenantId l = tenantId \<and> lk_ownerOrganisationNumber l = Some ownerOrg)
       lk_createdAt (os_links st)"

definition list_beneficial_owners :: "string \<Rightarrow> string \<Rightarrow> ownership_store \<Rightarrow> beneficial_owner list" where
  "list_beneficial_owners tenantId org st =
     find_desc (\<lambda>b. bo_tenantId b = tenantId \<and> bo_organisationNumber b = org) bo_createdAt (os_owners st)"

section \<open>Links above a company\<close>

definition max_waves :: nat where
  "max_waves = 48"

definition in_query_chunk :: nat where
  "in_query_chunk = 400"

function chunks :: "nat \<Rightarrow> 'a list \<Rightarrow> 'a list list" where
  "chunks n xs = (if xs = [] \<or> n = 0 then [] else take n xs # chunks n (drop n xs))"
  by pat_completeness auto
termination chunks by (relation "measure (\<lambda>(n, xs). length xs)") auto

declare chunks.simps [simp del]

definition query_links :: "string \<Rightarrow> string list \<Rightarrow> ownership_link list \<Rightarrow> ownership_link list" where
  "query_links tenantId chunk links =
     find_desc (\<lambda>l. lk_tenantId l = tenantId \<and> lk_isCurrent l \<and>
       lk_ownedOrganisationNumber l \<in> set chunk) lk_createdAt links"

text \<open>The digits of the owner of a link whose owner is a company with a number.\<close>

definition owner_org :: "ownership_link \<Rightarrow> string option" where
  "owner_org l =
     (if lk_ownerType l = CompanyOwner
      then nonempty (digits_only (or_default (lk_ownerOrganisationNumber l) []))
      else None)"

definition add_link ::
  "ownership_link \<Rightarrow> ownership_link list \<times> string list \<Rightarrow> ownership_link list \<times> string list" where
  "add_link l acc =
     (let (collected, frontier) = acc
      in if lk_id l \<in> lk_id ` set collected then (collected, frontier)
         else (collected @ [l],
           (case owner_org l of
              None \<Rightarrow> frontier
            | Some o' \<Rightarrow> if o' \<in> set frontier then frontier else frontier @ [o'])))"

record link_subgraph =
  sub_links :: "ownership_link list"
  sub_expansionWaves :: nat
  sub_ownedVisited :: nat

text \<open>The loop with the waves left, the collected links, the queried numbers and the frontier.\<close>

fun collect_waves ::
  "string \<Rightarrow> ownership_link list \<Rightarrow> nat \<Rightarrow> nat \<Rightarrow> ownership_link list \<Rightarrow> string list \<Rightarrow> string list \<Rightarrow>
   link_subgraph" where
  "collect_waves tenantId links 0 waves collected seen frontier =
     \<lparr>sub_links = collected, sub_expansionWaves = waves, sub_ownedVisited = length seen\<rparr>"
| "collect_waves tenantId links (Suc n) waves collected seen frontier =
     (if frontier = []
      then \<lparr>sub_links = collected, sub_expansionWaves = waves, sub_ownedVisited = length seen\<rparr>
      else (let toQuery = filter (\<lambda>x. x \<notin> set seen) frontier
        in if toQuery = []
           then \<lparr>sub_links = collected, sub_expansionWaves = Suc waves, sub_ownedVisited = length seen\<rparr>
           else (let rows = concat (map (\<lambda>c. query_links tenantId c links) (chunks in_query_chunk toQuery));
                     (collected', frontier') = fold add_link rows (collected, [])
                 in collect_waves tenantId links n (Suc waves) collected' (seen @ toQuery) frontier')))"

definition collect_relevant_links :: "string \<Rightarrow> string \<Rightarrow> ownership_link list \<Rightarrow> link_subgraph" where
  "collect_relevant_links tenantId rootOrg links =
     collect_waves tenantId links max_waves 0 [] [] [rootOrg]"

section \<open>Effective shares\<close>

definition normalise_person_key :: "string option \<Rightarrow> string \<Rightarrow> string" where
  "normalise_person_key personnummer name =
     (let d = digits_only (or_default personnummer [])
      in if length d \<ge> 10 then d else ''name:'' @ to_lower (trim name))"

definition link_control_pct :: "ownership_link \<Rightarrow> rat option" where
  "link_control_pct l = or_else (lk_controlPercentage l) (lk_ownershipPercentage l)"

definition is_positive :: "rat option \<Rightarrow> bool" where
  "is_positive v = (case v of None \<Rightarrow> False | Some x \<Rightarrow> x > 0)"

definition edge_weights_complete :: "ownership_link \<Rightarrow> bool" where
  "edge_weights_complete l \<longleftrightarrow> is_positive (lk_ownershipPercentage l) \<or> is_positive (link_control_pct l)"

text \<open>\<open>ownedByMap.get(org)\<close>: the links of a company, by the digits of its number.\<close>

definition owned_by :: "ownership_link list \<Rightarrow> string \<Rightarrow> ownership_link list" where
  "owned_by links org =
     filter (\<lambda>l. digits_only (lk_ownedOrganisationNumber l) \<noteq> [] \<and>
       digits_only (lk_ownedOrganisationNumber l) = org) links"

record share_aggregate =
  sa_name :: string
  sa_personnummer :: "string option"
  sa_ownership :: rat
  sa_control :: rat
  sa_paths :: nat

type_synonym aggregates = "(string \<times> share_aggregate) list"

definition new_aggregate :: "string \<Rightarrow> string option \<Rightarrow> share_aggregate" where
  "new_aggregate name personnummer =
     \<lparr>sa_name = name, sa_personnummer = personnummer, sa_ownership = 0, sa_control = 0, sa_paths = 0\<rparr>"

definition link_key :: "ownership_link \<Rightarrow> string" where
  "link_key l = normalise_person_key (lk_ownerPersonnummer l) (lk_ownerName l)"

definition own_pct :: "ownership_link \<Rightarrow> rat" where
  "own_pct l = or_default (lk_ownershipPercentage l) 0"

definition ctrl_pct :: "ownership_link \<Rightarrow> rat" where
  "ctrl_pct l = or_default (link_control_pct l) 0"

definition add_person_share ::
  "ownership_link \<Rightarrow> rat \<Rightarrow> rat \<Rightarrow> aggregates \<Rightarrow> aggregates" where
  "add_person_share l ownership control aggs =
     (let key = link_key l;
          curr = or_default (map_of aggs key) (new_aggregate (lk_ownerName l) (lk_ownerPersonnummer l))
      in put_member key (curr\<lparr>sa_ownership := sa_ownership curr + ownership,
           sa_control := sa_control curr + control, sa_paths := sa_paths curr + 1\<rparr>) aggs)"

text \<open>
  \<open>traverse\<close> with the levels left; depth 0 to 5 is six levels. The company branch tests the
  number for truth only, so a number without digits is followed as the empty one, which owns
  nothing.
\<close>

fun traverse_shares ::
  "ownership_link list \<Rightarrow> nat \<Rightarrow> string \<Rightarrow> rat \<Rightarrow> rat \<Rightarrow> aggregates \<Rightarrow> aggregates" where
  "traverse_shares links 0 org om cm aggs = aggs"
| "traverse_shares links (Suc n) org om cm aggs =
     fold (\<lambda>l a.
         let no = om * own_pct l / 100; nc = cm * ctrl_pct l / 100
         in if lk_ownerType l = PersonOwner then add_person_share l no nc a
            else if truthy_str (lk_ownerOrganisationNumber l)
              then traverse_shares links n (digits_only (or_default (lk_ownerOrganisationNumber l) [])) no nc a
            else a)
       (owned_by links org) aggs"

definition traverse_levels :: nat where
  "traverse_levels = 6"

definition merge_beneficial_owner :: "beneficial_owner \<Rightarrow> aggregates \<Rightarrow> aggregates" where
  "merge_beneficial_owner b aggs =
     (let key = normalise_person_key (bo_personnummer b) (bo_personName b);
          curr = or_default (map_of aggs key) (new_aggregate (bo_personName b) (bo_personnummer b));
          ownership = max (sa_ownership curr) (or_default (bo_ownershipPercentage b) 0);
          control = max (sa_control curr) (or_default (bo_controlPercentage b) ownership)
      in put_member key (curr\<lparr>sa_ownership := ownership, sa_control := control,
           sa_paths := sa_paths curr + 1\<rparr>) aggs)"

definition share_aggregates :: "ownership_link list \<Rightarrow> beneficial_owner list \<Rightarrow> string \<Rightarrow> aggregates" where
  "share_aggregates links owners rootOrg =
     fold merge_beneficial_owner owners (traverse_shares links traverse_levels rootOrg 100 100 [])"

definition qualifies :: "share_aggregate \<Rightarrow> bool" where
  "qualifies a \<longleftrightarrow> sa_ownership a \<ge> 25 \<or> sa_control a \<ge> 25"

definition ubos_of :: "aggregates \<Rightarrow> share_aggregate list" where
  "ubos_of aggs = sort_key (\<lambda>a. (- sa_control a, - sa_ownership a)) (filter qualifies (map snd aggs))"

section \<open>The collected links\<close>

definition current_link :: "string \<Rightarrow> ownership_link list \<Rightarrow> ownership_link \<Rightarrow> bool" where
  "current_link tenantId links l \<longleftrightarrow> l \<in> set links \<and> lk_tenantId l = tenantId \<and> lk_isCurrent l"

text \<open>One step up: a company, and a company that owns a part of it.\<close>

definition owner_step :: "string \<Rightarrow> ownership_link list \<Rightarrow> (string \<times> string) set" where
  "owner_step tenantId links =
     {(o1, o2). \<exists>l. current_link tenantId links l \<and> lk_ownedOrganisationNumber l = o1 \<and> owner_org l = Some o2}"

lemma concat_chunks: "n > 0 \<Longrightarrow> concat (chunks n xs) = xs"
  by (induction n xs rule: chunks.induct) (subst chunks.simps, auto)

lemma set_queried:
  "set (concat (map (\<lambda>c. query_links t c links) (chunks in_query_chunk toQuery))) =
    {l. current_link t links l \<and> lk_ownedOrganisationNumber l \<in> set toQuery}"
proof -
  have "set toQuery = (\<Union>c \<in> set (chunks in_query_chunk toQuery). set c)"
    using arg_cong [OF concat_chunks [of in_query_chunk toQuery], of set]
    by (simp add: in_query_chunk_def)
  then show ?thesis
    by (auto simp: query_links_def set_find_desc current_link_def)
qed

lemma add_link_simps:
  "lk_id l \<in> lk_id ` set collected \<Longrightarrow> add_link l (collected, frontier) = (collected, frontier)"
  "lk_id l \<notin> lk_id ` set collected \<Longrightarrow> add_link l (collected, frontier) = (collected @ [l],
     case owner_org l of None \<Rightarrow> frontier
     | Some x \<Rightarrow> if x \<in> set frontier then frontier else frontier @ [x])"
  by (simp_all add: add_link_def)

lemma fold_add_link:
  assumes "fold add_link rows (collected, frontier) = (collected', frontier')"
    and "\<forall>l \<in> set rows \<union> set collected. \<forall>m \<in> set rows \<union> set collected. lk_id l = lk_id m \<longrightarrow> l = m"
  shows "set collected' = set collected \<union> set rows \<and>
    set frontier' = set frontier \<union> {x. \<exists>l \<in> set rows - set collected. owner_org l = Some x}"
  using assms
proof (induction rows arbitrary: collected frontier)
  case Nil
  then show ?case by simp
next
  case (Cons l rows)
  show ?case
  proof (cases "lk_id l \<in> lk_id ` set collected")
    case True
    then have l: "l \<in> set collected" using Cons.prems(2) by auto
    have "fold add_link rows (collected, frontier) = (collected', frontier')"
      using Cons.prems(1) True by (simp add: add_link_simps(1))
    from Cons.IH [OF this] Cons.prems(2) l show ?thesis by auto
  next
    case False
    let ?f = "case owner_org l of None \<Rightarrow> frontier
      | Some x \<Rightarrow> if x \<in> set frontier then frontier else frontier @ [x]"
    have f: "set ?f = set frontier \<union> {x. owner_org l = Some x}" by (auto split: option.splits)
    have "fold add_link rows (collected @ [l], ?f) = (collected', frontier')"
      using Cons.prems(1) False by (simp add: add_link_simps(2))
    from Cons.IH [OF this] Cons.prems(2)
    have IH: "set collected' = set (collected @ [l]) \<union> set rows"
      "set frontier' = set ?f \<union> {x. \<exists>m \<in> set rows - set (collected @ [l]). owner_org m = Some x}"
      by auto
    have "l \<notin> set collected" using False by auto
    then show ?thesis unfolding IH f by auto
  qed
qed

text \<open>
  The state of the loop: the collected links are those of the queried numbers, every owner of
  one is queried or in the frontier, and all of them are above the root.
\<close>

definition waves_inv ::
  "string \<Rightarrow> ownership_link list \<Rightarrow> string \<Rightarrow> ownership_link list \<Rightarrow> string list \<Rightarrow> string list \<Rightarrow> bool" where
  "waves_inv t links r collected seen frontier \<longleftrightarrow>
     set collected = {l. current_link t links l \<and> lk_ownedOrganisationNumber l \<in> set seen} \<and>
     (\<forall>a \<in> set seen. \<forall>b. (a, b) \<in> owner_step t links \<longrightarrow> b \<in> set seen \<union> set frontier) \<and>
     r \<in> set seen \<union> set frontier \<and>
     set seen \<union> set frontier \<subseteq> {b. (r, b) \<in> (owner_step t links)\<^sup>*}"

lemma waves_inv_closed:
  assumes "waves_inv t links r collected seen frontier" and "set frontier \<subseteq> set seen"
  shows "set collected = {l. current_link t links l \<and>
    (r, lk_ownedOrganisationNumber l) \<in> (owner_step t links)\<^sup>*}"
proof -
  have "b \<in> set seen" if "(r, b) \<in> (owner_step t links)\<^sup>*" for b
    using that
  proof (induction rule: rtrancl_induct)
    case base
    then show ?case using assms by (auto simp: waves_inv_def)
  next
    case (step y z)
    then show ?case using assms unfolding waves_inv_def by blast
  qed
  then show ?thesis using assms unfolding waves_inv_def by blast
qed

lemma waves_inv_next:
  assumes inv: "waves_inv t links r collected seen frontier" and ids: "unique_keys lk_id links"
    and q: "toQuery = filter (\<lambda>x. x \<notin> set seen) frontier"
    and f: "fold add_link (concat (map (\<lambda>c. query_links t c links) (chunks in_query_chunk toQuery)))
      (collected, []) = (collected', frontier')"
  shows "waves_inv t links r collected' (seen @ toQuery) frontier'"
proof -
  define R where "R = concat (map (\<lambda>c. query_links t c links) (chunks in_query_chunk toQuery))"
  have rows: "set R = {l. current_link t links l \<and> lk_ownedOrganisationNumber l \<in> set toQuery}"
    unfolding R_def by (rule set_queried)
  have I: "set collected = {l. current_link t links l \<and> lk_ownedOrganisationNumber l \<in> set seen}"
    "\<forall>a \<in> set seen. \<forall>b. (a, b) \<in> owner_step t links \<longrightarrow> b \<in> set seen \<union> set frontier"
    "r \<in> set seen \<union> set frontier"
    "set seen \<union> set frontier \<subseteq> {b. (r, b) \<in> (owner_step t links)\<^sup>*}"
    using inv unfolding waves_inv_def by auto
  have sub: "set R \<union> set collected \<subseteq> set links"
    unfolding rows I(1) by (auto simp: current_link_def)
  have "\<forall>l \<in> set R \<union> set collected. \<forall>m \<in> set R \<union> set collected. lk_id l = lk_id m \<longrightarrow> l = m"
    using sub unique_keysD [OF ids] by blast
  note F = fold_add_link [OF f [folded R_def] this]
  have front: "set frontier' =
      {x. \<exists>l. current_link t links l \<and> lk_ownedOrganisationNumber l \<in> set toQuery \<and> owner_org l = Some x}"
    using F unfolding rows I(1) q by auto
  have up: "b \<in> set frontier'" if "a \<in> set toQuery" "(a, b) \<in> owner_step t links" for a b
    using that unfolding front owner_step_def by auto
  have reach: "(r, b) \<in> (owner_step t links)\<^sup>*" if "b \<in> set frontier'" for b
  proof -
    from that obtain a where "a \<in> set toQuery" "(a, b) \<in> owner_step t links"
      unfolding front owner_step_def by auto
    then show ?thesis using I(4) unfolding q by (auto intro: rtrancl_into_rtrancl)
  qed
  have "set collected' = {l. current_link t links l \<and> lk_ownedOrganisationNumber l \<in> set (seen @ toQuery)}"
    using F unfolding rows I(1) by auto
  moreover have "\<forall>a \<in> set (seen @ toQuery). \<forall>b. (a, b) \<in> owner_step t links \<longrightarrow>
      b \<in> set (seen @ toQuery) \<union> set frontier'"
    using I(2) up unfolding q by auto
  ultimately show ?thesis
    using I(3,4) reach unfolding waves_inv_def q by auto
qed

lemma collect_waves_sound:
  assumes "waves_inv t links r collected seen frontier" and "unique_keys lk_id links"
    and "collect_waves t links n w collected seen frontier = s"
  shows "set (sub_links s) \<subseteq> {l. current_link t links l \<and>
      (r, lk_ownedOrganisationNumber l) \<in> (owner_step t links)\<^sup>*} \<and>
    sub_expansionWaves s \<le> w + n \<and>
    (sub_expansionWaves s < w + n \<longrightarrow> set (sub_links s) = {l. current_link t links l \<and>
      (r, lk_ownedOrganisationNumber l) \<in> (owner_step t links)\<^sup>*})"
  using assms
proof (induction n arbitrary: w collected seen frontier)
  case 0
  then show ?case by (auto simp: waves_inv_def)
next
  case (Suc n)
  define toQuery where "toQuery = filter (\<lambda>x. x \<notin> set seen) frontier"
  show ?case
  proof (cases "toQuery = []")
    case True
    then have sub: "set frontier \<subseteq> set seen" by (auto simp: toQuery_def filter_empty_conv)
    have "sub_links s = collected \<and> sub_expansionWaves s \<le> Suc w"
      using Suc.prems(3) True by (auto simp: toQuery_def Let_def split: if_splits)
    then show ?thesis using waves_inv_closed [OF Suc.prems(1) sub] by auto
  next
    case False
    obtain collected' frontier' where f:
      "fold add_link (concat (map (\<lambda>c. query_links t c links) (chunks in_query_chunk toQuery)))
        (collected, []) = (collected', frontier')"
      by fastforce
    have "frontier \<noteq> []" using False by (auto simp: toQuery_def)
    then have "collect_waves t links n (Suc w) collected' (seen @ toQuery) frontier' = s"
      using Suc.prems(3) False f by (simp add: Let_def flip: toQuery_def)
    from Suc.IH [OF waves_inv_next [OF Suc.prems(1,2) toQuery_def f] Suc.prems(2) this]
    show ?thesis by simp
  qed
qed

text \<open>The links loaded for a company are current links of its tenant on a chain of owners above it,
  after at most 48 queries of a level; and when the loop ended before that bound, they are all
  of them.
\<close>

theorem collected_links_exact:
  assumes "unique_keys lk_id links"
  shows "let s = collect_relevant_links t org links;
      above = {l. current_link t links l \<and> (org, lk_ownedOrganisationNumber l) \<in> (owner_step t links)\<^sup>*}
    in set (sub_links s) \<subseteq> above \<and> sub_expansionWaves s \<le> 48 \<and>
       (sub_expansionWaves s < 48 \<longrightarrow> set (sub_links s) = above)"
proof -
  have "waves_inv t links org [] [] [org]" by (simp add: waves_inv_def)
  from collect_waves_sound [OF this assms refl, of max_waves 0] show ?thesis
    by (simp add: collect_relevant_links_def max_waves_def Let_def)
qed

section \<open>Shares are sums over ownership paths\<close>

text \<open>
  The reference: a path is the list of links from a company up to a person, through at most
  \<open>n\<close> levels; its weight is the product of the shares of its links.
\<close>

definition followed_org :: "ownership_link \<Rightarrow> string" where
  "followed_org l = digits_only (or_default (lk_ownerOrganisationNumber l) [])"

fun person_paths :: "ownership_link list \<Rightarrow> nat \<Rightarrow> string \<Rightarrow> ownership_link list list" where
  "person_paths links 0 org = []"
| "person_paths links (Suc n) org =
     concat (map (\<lambda>l.
         if lk_ownerType l = PersonOwner then [[l]]
         else if truthy_str (lk_ownerOrganisationNumber l)
           then map ((#) l) (person_paths links n (followed_org l))
         else [])
       (owned_by links org))"

definition path_weight :: "(ownership_link \<Rightarrow> rat) \<Rightarrow> ownership_link list \<Rightarrow> rat" where
  "path_weight w p = prod_list (map (\<lambda>l. w l / 100) p)"

definition path_share ::
  "(ownership_link \<Rightarrow> rat) \<Rightarrow> (ownership_link \<Rightarrow> bool) \<Rightarrow> ownership_link list \<Rightarrow> nat \<Rightarrow> string \<Rightarrow> rat" where
  "path_share w sel links n org =
     sum_list (map (path_weight w) (filter (\<lambda>p. sel (last p)) (person_paths links n org)))"

lemma person_paths_nonempty: "p \<in> set (person_paths links n org) \<Longrightarrow> p \<noteq> []"
  by (cases n) (auto split: if_splits)

lemma sum_filter_concat:
  "sum_list (map f (filter p (concat xss))) = sum_list (map (\<lambda>xs. sum_list (map f (filter p xs))) xss)"
  by (induction xss) auto

definition link_share ::
  "(ownership_link \<Rightarrow> rat) \<Rightarrow> (ownership_link \<Rightarrow> bool) \<Rightarrow> ownership_link list \<Rightarrow> nat \<Rightarrow> ownership_link \<Rightarrow> rat" where
  "link_share w sel links n l =
     (if lk_ownerType l = PersonOwner then (if sel l then w l / 100 else 0)
      else if truthy_str (lk_ownerOrganisationNumber l)
        then w l / 100 * path_share w sel links n (followed_org l)
      else 0)"

lemma path_weight_Cons: "path_weight w (l # p) = w l / 100 * path_weight w p"
  by (simp add: path_weight_def)

lemma sum_extended_paths:
  "\<forall>p \<in> set ps. p \<noteq> [] \<Longrightarrow>
    sum_list (map (path_weight w) (filter (\<lambda>p. sel (last p)) (map ((#) l) ps))) =
      w l / 100 * sum_list (map (path_weight w) (filter (\<lambda>p. sel (last p)) ps))"
  by (induction ps) (simp_all add: path_weight_Cons distrib_left)

lemma path_share_Suc:
  "path_share w sel links (Suc n) org = sum_list (map (link_share w sel links n) (owned_by links org))"
  unfolding path_share_def person_paths.simps sum_filter_concat map_map
proof (rule arg_cong [of _ _ sum_list], rule map_cong [OF refl])
  fix l
  assume "l \<in> set (owned_by links org)"
  have "\<forall>p \<in> set (person_paths links n (followed_org l)). p \<noteq> []"
    using person_paths_nonempty by blast
  note ext = sum_extended_paths [OF this, of w sel l]
  show "((\<lambda>xs. sum_list (map (path_weight w) (filter (\<lambda>p. sel (last p)) xs))) \<circ>
      (\<lambda>l. if lk_ownerType l = PersonOwner then [[l]]
        else if truthy_str (lk_ownerOrganisationNumber l)
          then map ((#) l) (person_paths links n (followed_org l)) else [])) l =
      link_share w sel links n l"
    using ext by (simp add: link_share_def path_share_def path_weight_def)
qed

lemma fold_additive:
  fixes g :: "'b \<Rightarrow> rat"
  assumes "\<And>x a. x \<in> set xs \<Longrightarrow> g (f x a) = g a + h x"
  shows "g (fold f xs a) = g a + sum_list (map h xs)"
  using assms by (induction xs arbitrary: a) (auto simp: algebra_simps)

text \<open>
  A measure of aggregates to which a person's link adds its share when the link is selected
  is, after the traversal, the sum of the weights of the paths that end in a selected link.
\<close>

lemma traverse_additive:
  fixes g :: "aggregates \<Rightarrow> rat"
  assumes "\<And>l no nc a. g (add_person_share l no nc a) = g a + (if sel l then (if c then nc else no) else 0)"
  shows "g (traverse_shares links n org om cm a) =
    g a + (if c then cm * path_share ctrl_pct sel links n org else om * path_share own_pct sel links n org)"
proof (induction n arbitrary: org om cm a)
  case 0
  then show ?case by (simp add: path_share_def)
next
  case (Suc n)
  let ?h = "\<lambda>l. if c then cm * link_share ctrl_pct sel links n l else om * link_share own_pct sel links n l"
  have "g (traverse_shares links (Suc n) org om cm a) = g a + sum_list (map ?h (owned_by links org))"
    unfolding traverse_shares.simps
    by (rule fold_additive)
      (simp add: Let_def assms Suc.IH link_share_def followed_org_def [symmetric])
  then show ?case
    by (cases c) (simp_all add: path_share_Suc sum_list_const_mult)
qed

definition ownership_of :: "string \<Rightarrow> aggregates \<Rightarrow> rat" where
  "ownership_of k aggs = (case map_of aggs k of None \<Rightarrow> 0 | Some a \<Rightarrow> sa_ownership a)"

definition control_of :: "string \<Rightarrow> aggregates \<Rightarrow> rat" where
  "control_of k aggs = (case map_of aggs k of None \<Rightarrow> 0 | Some a \<Rightarrow> sa_control a)"

definition total_ownership :: "aggregates \<Rightarrow> rat" where
  "total_ownership aggs = sum_list (map (\<lambda>m. sa_ownership (snd m)) aggs)"

lemma aggregate_add:
  "ownership_of k (add_person_share l no nc a) = ownership_of k a + (if link_key l = k then no else 0)"
  "control_of k (add_person_share l no nc a) = control_of k a + (if link_key l = k then nc else 0)"
  by (auto simp: ownership_of_def control_of_def add_person_share_def Let_def new_aggregate_def
      or_default_def split: option.splits)

lemma sum_put_member:
  fixes f :: "'v \<Rightarrow> rat"
  shows "sum_list (map (\<lambda>m. f (snd m)) (put_member k v ms)) =
    sum_list (map (\<lambda>m. f (snd m)) ms) + f v - (case map_of ms k of None \<Rightarrow> 0 | Some u \<Rightarrow> f u)"
  by (induction ms) (auto split: option.splits)

lemma total_add: "total_ownership (add_person_share l no nc a) = total_ownership a + no"
  by (auto simp: total_ownership_def add_person_share_def Let_def sum_put_member new_aggregate_def
      or_default_def split: option.splits)

text \<open>C34: The effective share the recursion computes for a person, in ownership as in control, is the
  sum over all chains of up to six links from the company to that person of the product of the
  percentages along the chain.
\<close>

theorem effective_share_is_path_sum:
  "let aggs = traverse_shares links traverse_levels org 100 100 []; sel = (\<lambda>l. link_key l = k)
   in ownership_of k aggs = 100 * path_share own_pct sel links 6 org \<and>
      control_of k aggs = 100 * path_share ctrl_pct sel links 6 org"
proof -
  have "ownership_of k [] = 0" "control_of k [] = 0"
    by (simp_all add: ownership_of_def control_of_def)
  then show ?thesis
    using traverse_additive [of "ownership_of k" "\<lambda>l. link_key l = k" False links 6 org 100 100 "[]"]
      traverse_additive [of "control_of k" "\<lambda>l. link_key l = k" True links 6 org 100 100 "[]"]
    by (simp add: aggregate_add traverse_levels_def Let_def)
qed

text \<open>Direct shares that are a distribution: not negative, at most 100 percent in each company.\<close>

definition shares_within :: "ownership_link list \<Rightarrow> bool" where
  "shares_within links \<longleftrightarrow> (\<forall>l \<in> set links. 0 \<le> own_pct l) \<and>
     (\<forall>org. sum_list (map own_pct (owned_by links org)) \<le> 100)"

lemma sum_list_divide: "sum_list (map (\<lambda>x. f x / c) xs) = sum_list (map f xs) / (c :: rat)"
  by (induction xs) (simp_all add: add_divide_distrib)

lemma owned_by_subset: "l \<in> set (owned_by links org) \<Longrightarrow> l \<in> set links"
  by (simp add: owned_by_def)

lemma path_share_bounds:
  assumes "shares_within links"
  shows "0 \<le> path_share own_pct (\<lambda>_. True) links n org \<and> path_share own_pct (\<lambda>_. True) links n org \<le> 1"
proof (induction n arbitrary: org)
  case 0
  then show ?case by (simp add: path_share_def)
next
  case (Suc n)
  let ?s = "link_share own_pct (\<lambda>_. True) links n"
  have each: "0 \<le> ?s l \<and> ?s l \<le> own_pct l / 100" if "l \<in> set (owned_by links org)" for l
  proof -
    have "0 \<le> own_pct l" using assms owned_by_subset [OF that] by (simp add: shares_within_def)
    then show ?thesis
      using Suc.IH [of "followed_org l"]
      by (auto simp: link_share_def intro: mult_left_le divide_right_mono)
  qed
  have "sum_list (map ?s (owned_by links org)) \<le> sum_list (map (\<lambda>l. own_pct l / 100) (owned_by links org))"
    by (rule sum_list_mono) (use each in auto)
  also have "\<dots> = sum_list (map own_pct (owned_by links org)) / 100"
    by (rule sum_list_divide)
  also have "\<dots> \<le> 1" using assms by (simp add: shares_within_def)
  finally have "sum_list (map ?s (owned_by links org)) \<le> 1" .
  moreover have "0 \<le> sum_list (map ?s (owned_by links org))"
    by (rule sum_list_nonneg) (use each in auto)
  ultimately show ?case by (simp add: path_share_Suc)
qed

text \<open>Ownership is conserved: when the direct shares in every company are not negative and add up
  to at most 100 percent, the effective ownerships computed for all persons together are at
  most 100 percent, even where companies own each other in a circle.
\<close>

theorem effective_ownership_conserved:
  assumes "shares_within links"
  shows "total_ownership (traverse_shares links traverse_levels org 100 100 []) \<le> 100"
proof -
  have "total_ownership (traverse_shares links traverse_levels org 100 100 []) =
      100 * path_share own_pct (\<lambda>_. True) links traverse_levels org"
    using traverse_additive [of total_ownership "\<lambda>_. True" False links traverse_levels org 100 100 "[]"]
    by (simp add: total_add) (simp add: total_ownership_def)
  then show ?thesis using path_share_bounds [OF assms, of traverse_levels org] by simp
qed

section \<open>Numbers with separators\<close>

lemma above_is_digits:
  assumes "(digits_only o', x) \<in> (owner_step t links)\<^sup>*"
  shows "digits_only x = x"
  using assms
proof (induction rule: rtrancl_induct)
  case base
  then show ?case by simp
next
  case (step y z)
  then show ?case
    by (auto simp: owner_step_def owner_org_def split: if_splits dest!: nonempty_SomeD)
qed

text \<open>A link stored with a separator in the number of the owned company is lost: creation keeps the
  number as it is given, while the graph looks for digits, so no ownership graph of any company
  loads the link, although the plain listing by that number shows it.
\<close>

theorem separated_number_never_loaded:
  assumes "create_ownership_link to_date now newId t actor d st = (l, st')"
    and "digits_only (ld_ownedOrganisationNumber d) \<noteq> ld_ownedOrganisationNumber d"
    and "unique_keys lk_id (os_links st')"
  shows "l \<notin> set (sub_links (collect_relevant_links t (digits_only org) (os_links st'))) \<and>
    l \<in> set (list_owners t (ld_ownedOrganisationNumber d) st')"
proof -
  have l: "lk_ownedOrganisationNumber l = ld_ownedOrganisationNumber d" "lk_tenantId l = t"
    "os_links st' = os_links st @ [l]"
    using assms(1) by (auto simp: create_ownership_link_def Let_def)
  have "waves_inv t (os_links st') (digits_only org) [] [] [digits_only org]"
    by (simp add: waves_inv_def)
  from collect_waves_sound [OF this assms(3) refl, of max_waves 0]
  have "set (sub_links (collect_relevant_links t (digits_only org) (os_links st'))) \<subseteq>
      {m. (digits_only org, lk_ownedOrganisationNumber m) \<in> (owner_step t (os_links st'))\<^sup>*}"
    by (auto simp: collect_relevant_links_def)
  then have "l \<notin> set (sub_links (collect_relevant_links t (digits_only org) (os_links st')))"
    using above_is_digits [of org _ t "os_links st'"] l(1) assms(2) by auto
  then show ?thesis using l by (simp add: list_owners_def set_find_desc)
qed

section \<open>Witnesses\<close>

definition sample_link :: "string \<Rightarrow> owner_type \<Rightarrow> string \<Rightarrow> string option \<Rightarrow> string \<Rightarrow> rat \<Rightarrow> ownership_link" where
  "sample_link i ty name org owned pct =
     \<lparr>lk_id = i, lk_tenantId = ''t1'', lk_ownerType = ty, lk_ownerPersonId = None,
      lk_ownerCompanyId = None, lk_ownerName = name, lk_ownerOrganisationNumber = org,
      lk_ownerPersonnummer = None, lk_ownedCompanyId = None, lk_ownedOrganisationNumber = owned,
      lk_ownedCompanyName = ''Company '' @ owned, lk_ownershipPercentage = Some pct,
      lk_ownershipType = None, lk_ownershipClass = None, lk_controlPercentage = None,
      lk_validFrom = None, lk_validTo = None, lk_isCurrent = True, lk_ingestionSource = None,
      lk_fiParsedSnapshotId = None, lk_dedupeKey = None, lk_sourceData = [],
      lk_createdAt = 0, lk_updatedAt = 0\<rparr>"

text \<open>Two companies that own parts of each other, and a person who owns the rest.\<close>

definition sample_links :: "ownership_link list" where
  "sample_links =
     [sample_link ''l1'' PersonOwner ''Anna'' None ''11'' 60,
      sample_link ''l2'' CompanyOwner ''B'' (Some ''22'') ''11'' 40,
      sample_link ''l3'' CompanyOwner ''A'' (Some ''11'') ''22'' 50,
      sample_link ''l4'' PersonOwner ''Anna'' None ''22'' 50]"

lemma sample_digits: "digits_only ''11'' = ''11''" "digits_only ''22'' = ''22''"
  by (simp_all add: digits_only_def is_digit_def code_def)

lemma sample_shares_within: "shares_within sample_links"
proof -
  have "sum_list (map own_pct (owned_by sample_links org)) \<le> 100" for org
    by (cases "org = ''11''"; cases "org = ''22''")
      (simp_all add: owned_by_def sample_links_def sample_link_def sample_digits own_pct_def)
  then show ?thesis
    by (simp add: shares_within_def) (simp add: sample_links_def sample_link_def own_pct_def)
qed

theorem effective_ownership_conserved_witness:
  "total_ownership (traverse_shares sample_links traverse_levels ''11'' 100 100 []) \<le> 100"
  by (rule effective_ownership_conserved [OF sample_shares_within])

theorem collected_links_exact_witness:
  "sub_expansionWaves (collect_relevant_links ''t1'' ''11'' sample_links) \<le> 48"
proof -
  have "unique_keys lk_id sample_links"
    by (simp add: sample_links_def sample_link_def unique_keys_def)
  from collected_links_exact [OF this] show ?thesis by (simp add: Let_def)
qed

definition sample_link_dto :: create_link_dto where
  "sample_link_dto = \<lparr>ld_ownerType = PersonOwner, ld_ownerName = ''Anna'',
     ld_ownedOrganisationNumber = ''556000-1234'', ld_ownedCompanyName = ''A'', ld_ownerPersonId = None,
     ld_ownerCompanyId = None, ld_ownerOrganisationNumber = None, ld_ownerPersonnummer = None,
     ld_ownedCompanyId = None, ld_ownershipPercentage = Some 100, ld_ownershipType = None,
     ld_ownershipClass = None, ld_controlPercentage = None, ld_validFrom = None, ld_validTo = None,
     ld_isCurrent = None, ld_sourceData = None\<rparr>"

theorem separated_number_never_loaded_witness:
  "\<exists>l st'. create_ownership_link (\<lambda>_. 0) 0 ''l1'' ''t1'' None sample_link_dto
       \<lparr>os_links = [], os_owners = [], os_audit = empty_audit\<rparr> = (l, st') \<and>
     l \<notin> set (sub_links (collect_relevant_links ''t1'' (digits_only ''556000-1234'') (os_links st')))"
proof -
  obtain l st' where c: "create_ownership_link (\<lambda>_. 0) 0 ''l1'' ''t1'' None sample_link_dto
       \<lparr>os_links = [], os_owners = [], os_audit = empty_audit\<rparr> = (l, st')" by fastforce
  moreover from this have "unique_keys lk_id (os_links st')"
    by (auto simp: create_ownership_link_def Let_def unique_keys_def)
  moreover have "digits_only (ld_ownedOrganisationNumber sample_link_dto) \<noteq> ld_ownedOrganisationNumber sample_link_dto"
    by (simp add: sample_link_dto_def digits_only_def is_digit_def code_def)
  ultimately show ?thesis using separated_number_never_loaded by blast
qed

end
