(* ===== verification/OwnershipGraph.thy ===== *)
theory OwnershipGraph
  imports Ownership Dates
begin

text \<open>
  \<open>OwnershipService.getOwnershipGraph\<close> (backend/src/ownership/ownership.service.ts): nodes and
  edges above a company, control paths to persons, and the reconciliation of the derived
  beneficial owners with the register. \<open>collate\<close> is the collation key of \<open>localeCompare\<close>. The
  arrow of a path summary and the dash for a missing name, no Latin-1 characters, are written
  as \<open>->\<close> and \<open>-\<close>.
\<close>

section \<open>Data\<close>

record graph_node =
  gn_id :: string
  gn_label :: string
  gn_type :: owner_type
  gn_organisationNumber :: "string option"
  gn_personnummer :: "string option"

record graph_edge =
  ge_id :: string
  ge_from :: string
  ge_to :: string
  ge_ownershipPercentage :: "rat option"
  ge_controlPercentage :: "rat option"
  ge_ownershipType :: "string option"
  ge_direct :: bool

record control_step =
  cp_linkId :: string
  cp_fromLabel :: string
  cp_fromOrganisationNumber :: "string option"
  cp_fromPersonnummer :: "string option"
  cp_ownerType :: owner_type
  cp_toOrganisationNumber :: string
  cp_toCompanyName :: string
  cp_ownershipPercentage :: "rat option"
  cp_controlPercentage :: "rat option"
  cp_weightComplete :: bool

record control_path =
  pa_summary :: string
  pa_cumulativeOwnership :: rat
  pa_cumulativeControl :: rat
  pa_hasUnknownEdgeWeights :: bool
  pa_steps :: "control_step list"

record vh_payload_row =
  vr_tenantId :: string
  vr_organisationsnummer :: string
  vr_fetchedAt :: "int option"
  vr_requestId :: "string option"
  vr_payload :: "rat json"
  vr_createdAt :: int

record vh_snapshot =
  vs_fetchedAt :: "string option"
  vs_requestId :: "string option"
  vs_payload :: "rat json option"

record register_person =
  vp_key :: string
  vp_name :: string
  vp_personnummer :: "string option"
  vp_anonym :: bool

datatype reconciliation_status = Aligned | RegisterOnly | DerivedUboOnly | ChainContext

record reconciliation_row =
  rc_key :: string
  rc_label :: string
  rc_registerListed :: bool
  rc_derivedMeetsThreshold :: bool
  rc_inDerivedUboTable :: bool
  rc_effectiveOwnership :: "rat option"
  rc_effectiveControl :: "rat option"
  rc_status :: reconciliation_status

record ubo_view =
  ub_name :: string
  ub_personnummer :: "string option"
  ub_effectiveOwnership :: rat
  ub_effectiveControl :: rat
  ub_qualificationReason :: string

datatype opaque_risk = LowRisk | MediumRisk | HighRisk

record ownership_graph =
  og_organisationNumber :: string
  og_nodes :: "graph_node list"
  og_edges :: "graph_edge list"
  og_ubos :: "ubo_view list"
  og_controlPaths :: "control_path list"
  og_hasOwnershipLinks :: bool
  og_hasBeneficialOwnerRows :: bool
  og_opaqueOwnershipRisk :: opaque_risk
  og_hasVhSnapshot :: bool
  og_ownerNodes :: nat
  og_maxChainDepth :: nat
  og_subgraph :: link_subgraph
  og_register :: "(string option \<times> string option \<times> register_person list) option"
  og_summary :: "nat \<times> nat \<times> nat \<times> nat"
  og_rows :: "reconciliation_row list"

section \<open>Nodes and edges\<close>

definition owner_node_id :: "ownership_link \<Rightarrow> string" where
  "owner_node_id l =
     (case lk_ownerType l of
        PersonOwner \<Rightarrow> ''person:'' @ or_default (lk_ownerPersonnummer l) (lk_ownerName l)
      | CompanyOwner \<Rightarrow> ''company:'' @ followed_org l)"

definition company_node_id :: "string \<Rightarrow> string" where
  "company_node_id org = ''company:'' @ org"

definition add_node :: "graph_node \<Rightarrow> graph_node list \<Rightarrow> graph_node list" where
  "add_node n ns = (if gn_id n \<in> gn_id ` set ns then ns else ns @ [n])"

definition graph_edge_of :: "string \<Rightarrow> nat \<Rightarrow> ownership_link \<Rightarrow> graph_edge" where
  "graph_edge_of org depth l =
     \<lparr>ge_id = lk_id l, ge_from = owner_node_id l, ge_to = company_node_id org,
      ge_ownershipPercentage = lk_ownershipPercentage l, ge_controlPercentage = lk_controlPercentage l,
      ge_ownershipType = lk_ownershipType l, ge_direct = (depth = 0)\<rparr>"

definition graph_link ::
  "string \<Rightarrow> nat \<Rightarrow> ownership_link \<Rightarrow> graph_node list \<times> graph_edge list \<times> (string \<times> nat) list \<Rightarrow>
   graph_node list \<times> graph_edge list \<times> (string \<times> nat) list" where
  "graph_link org depth l acc =
     (let (nodes, edges, queue) = acc;
          owner = \<lparr>gn_id = owner_node_id l, gn_label = lk_ownerName l, gn_type = lk_ownerType l,
            gn_organisationNumber = lk_ownerOrganisationNumber l,
            gn_personnummer = lk_ownerPersonnummer l\<rparr>;
          target = \<lparr>gn_id = company_node_id org,
            gn_label = (if lk_ownedCompanyName l = [] then org else lk_ownedCompanyName l),
            gn_type = CompanyOwner, gn_organisationNumber = Some org, gn_personnummer = None\<rparr>
      in (add_node target (add_node owner nodes), edges @ [graph_edge_of org depth l],
          if lk_ownerType l = CompanyOwner \<and> truthy_str (lk_ownerOrganisationNumber l)
          then queue @ [(followed_org l, depth + 1)] else queue))"

definition owned_keys :: "ownership_link list \<Rightarrow> string set" where
  "owned_keys links = (\<lambda>l. digits_only (lk_ownedOrganisationNumber l)) ` set links"

lemma owned_by_empty: "org \<notin> owned_keys links \<Longrightarrow> owned_by links org = []"
  by (auto simp: owned_keys_def owned_by_def filter_empty_conv)

lemma unvisited_mono: "card (owned_keys links - insert org v) \<le> card (owned_keys links - v)"
  by (rule card_mono) (auto simp: owned_keys_def)

lemma unvisited_less:
  "org \<in> owned_keys links \<Longrightarrow> org \<notin> v \<Longrightarrow>
    card (owned_keys links - insert org v) < card (owned_keys links - v)"
  by (rule psubset_card_mono) (auto simp: owned_keys_def)

lemma expansion_decreases:
  assumes "org \<notin> visited"
    and "(ns, es, queue') = fold (graph_link org depth) (owned_by links org) (nodes, edges, queue)"
    and "card (owned_keys links - insert org visited) = card (owned_keys links - visited) \<longrightarrow>
      \<not> length queue' < Suc (length queue)"
  shows "card (owned_keys links - insert org visited) < card (owned_keys links - visited)"
proof (cases "org \<in> owned_keys links")
  case True
  then show ?thesis using unvisited_less assms(1) by simp
next
  case False
  then have "queue' = queue" using assms(2) owned_by_empty [OF False] by simp
  moreover have "owned_keys links - insert org visited = owned_keys links - visited"
    using False by auto
  ultimately show ?thesis using assms(3) by simp
qed

text \<open>The queue loop: every company is expanded once, so a queued company is new or skipped.\<close>

function graph_bfs ::
  "ownership_link list \<Rightarrow> (string \<times> nat) list \<Rightarrow> string set \<Rightarrow> graph_node list \<Rightarrow> graph_edge list \<Rightarrow>
   graph_node list \<times> graph_edge list" where
  "graph_bfs links [] visited nodes edges = (nodes, edges)"
| "graph_bfs links ((org, depth) # queue) visited nodes edges =
     (if depth > 4 then graph_bfs links queue visited nodes edges
      else if org \<in> visited then graph_bfs links queue visited nodes edges
      else (let (nodes', edges', queue') = fold (graph_link org depth) (owned_by links org) (nodes, edges, queue)
            in graph_bfs links queue' (insert org visited) nodes' edges'))"
  by pat_completeness auto

termination graph_bfs
  by (relation "measures [\<lambda>(links, queue, visited, _). card (owned_keys links - visited),
    \<lambda>(links, queue, _). length queue]") (simp, simp, simp, clarsimp, erule (2) expansion_decreases)

definition root_node :: "string \<Rightarrow> graph_node" where
  "root_node org = \<lparr>gn_id = company_node_id org, gn_label = org, gn_type = CompanyOwner,
     gn_organisationNumber = Some org, gn_personnummer = None\<rparr>"

definition graph_of :: "ownership_link list \<Rightarrow> string \<Rightarrow> graph_node list \<times> graph_edge list" where
  "graph_of links org = graph_bfs links [(org, 0)] {} [root_node org] []"

section \<open>Control paths\<close>

text \<open>\<open>Number(x.toFixed(d))\<close>: rounds half up on the absolute value.\<close>

definition to_fixed :: "nat \<Rightarrow> rat \<Rightarrow> rat" where
  "to_fixed d x =
     (let r = (\<lambda>y. of_int \<lfloor>y * 10 ^ d + 1 / 2\<rfloor> / 10 ^ d) in if x < 0 then - r (- x) else r x)"

definition control_step_of :: "ownership_link \<Rightarrow> control_step" where
  "control_step_of l =
     \<lparr>cp_linkId = lk_id l, cp_fromLabel = lk_ownerName l,
      cp_fromOrganisationNumber =
        Option.bind (lk_ownerOrganisationNumber l) (\<lambda>s. nonempty (digits_only s)),
      cp_fromPersonnummer = lk_ownerPersonnummer l, cp_ownerType = lk_ownerType l,
      cp_toOrganisationNumber = digits_only (lk_ownedOrganisationNumber l),
      cp_toCompanyName = lk_ownedCompanyName l,
      cp_ownershipPercentage = lk_ownershipPercentage l,
      cp_controlPercentage = lk_controlPercentage l, cp_weightComplete = edge_weights_complete l\<rparr>"

text \<open>The summary names the owners from the company up, then the last link's company.\<close>

definition path_summary :: "string \<Rightarrow> ownership_link list \<Rightarrow> string" where
  "path_summary rootOrg chain =
     join '' -> '' (map lk_ownerName chain @
       [lk_ownedCompanyName (last chain) @ '' ('' @ rootOrg @ '')''])"

definition control_path_of :: "string \<Rightarrow> rat \<Rightarrow> rat \<Rightarrow> ownership_link list \<Rightarrow> control_path" where
  "control_path_of rootOrg own ctrl chain =
     (let steps = map control_step_of chain
      in \<lparr>pa_summary = path_summary rootOrg chain, pa_cumulativeOwnership = to_fixed 4 own,
          pa_cumulativeControl = to_fixed 4 ctrl,
          pa_hasUnknownEdgeWeights = list_ex (\<lambda>s. \<not> cp_weightComplete s) steps, pa_steps = steps\<rparr>)"

definition positive_factor :: "rat option \<Rightarrow> rat" where
  "positive_factor v = (case v of None \<Rightarrow> 0 | Some x \<Rightarrow> if x > 0 then x / 100 else 0)"

definition ctrl_factor :: "ownership_link \<Rightarrow> rat" where
  "ctrl_factor l =
     (if is_positive (link_control_pct l) then positive_factor (link_control_pct l)
      else positive_factor (lk_ownershipPercentage l))"

definition max_path_records :: nat where
  "max_path_records = 40"

text \<open>\<open>walkUp\<close> with the levels left; depth 0 to 6 is seven levels.\<close>

fun walk_up ::
  "ownership_link list \<Rightarrow> string \<Rightarrow> nat \<Rightarrow> string \<Rightarrow> rat \<Rightarrow> rat \<Rightarrow> ownership_link list \<Rightarrow>
   control_path list \<Rightarrow> control_path list" where
  "walk_up links rootOrg 0 org own ctrl chain acc = acc"
| "walk_up links rootOrg (Suc n) org own ctrl chain acc =
     (if length acc \<ge> max_path_records then acc
      else fold (\<lambda>l acc.
          let own' = own * positive_factor (lk_ownershipPercentage l);
              ctrl' = ctrl * ctrl_factor l;
              chain' = chain @ [l]
          in if lk_ownerType l = PersonOwner then acc @ [control_path_of rootOrg own' ctrl' chain']
             else if truthy_str (lk_ownerOrganisationNumber l) \<and> followed_org l \<noteq> []
               then walk_up links rootOrg n (followed_org l) own' ctrl' chain' acc
             else acc)
        (owned_by links org) acc)"

definition path_signature :: "control_path \<Rightarrow> string" where
  "path_signature p = join ''>'' (map cp_linkId (pa_steps p))"

definition dedupe_paths :: "control_path list \<Rightarrow> control_path list" where
  "dedupe_paths ps =
     fold (\<lambda>p acc. if path_signature p \<in> path_signature ` set acc then acc else acc @ [p]) ps []"

definition control_paths :: "ownership_link list \<Rightarrow> string \<Rightarrow> control_path list" where
  "control_paths links org = walk_up links org 7 org 100 100 [] []"

definition top_paths :: "control_path list \<Rightarrow> control_path list" where
  "top_paths ps = take 25 (sort_key (\<lambda>p. - pa_cumulativeControl p) (dedupe_paths ps))"

definition max_chain_depth :: "control_path list \<Rightarrow> graph_edge list \<Rightarrow> nat" where
  "max_chain_depth ps edges =
     fold (\<lambda>e d. if ge_direct e then max d 1 else d) edges
       (fold (\<lambda>p d. if length (pa_steps p) > d then length (pa_steps p) else d) ps 0)"

section \<open>The register of beneficial owners\<close>

definition latest_vh_payload :: "string \<Rightarrow> string \<Rightarrow> vh_payload_row list \<Rightarrow> vh_snapshot" where
  "latest_vh_payload tenantId org rows =
     (case find_asc (\<lambda>r. vr_tenantId r = tenantId \<and> vr_organisationsnummer r = org)
         (\<lambda>r. (vr_fetchedAt r = None, - or_default (vr_fetchedAt r) 0, - vr_createdAt r)) rows of
        [] \<Rightarrow> \<lparr>vs_fetchedAt = None, vs_requestId = None, vs_payload = None\<rparr>
      | r # _ \<Rightarrow>
          (case vr_payload r of
             JObj _ \<Rightarrow> \<lparr>vs_fetchedAt = map_option iso_string (vr_fetchedAt r),
               vs_requestId = vr_requestId r, vs_payload = Some (vr_payload r)\<rparr>
           | JArr _ \<Rightarrow> \<lparr>vs_fetchedAt = map_option iso_string (vr_fetchedAt r),
               vs_requestId = vr_requestId r, vs_payload = Some (vr_payload r)\<rparr>
           | _ \<Rightarrow> \<lparr>vs_fetchedAt = None, vs_requestId = None, vs_payload = None\<rparr>))"

definition missing_name :: string where
  "missing_name = ''-''"

definition register_name :: "js_numbers \<Rightarrow> rat json option \<Rightarrow> string" where
  "register_name js pn =
     (case pn of
        None \<Rightarrow> missing_name
      | Some v \<Rightarrow>
          (if \<not> object_like v then missing_name
           else (let part = (\<lambda>k. case member_of k (Some v) of
                     None \<Rightarrow> [] | Some JNull \<Rightarrow> []
                   | Some x \<Rightarrow> if trim (js_string js x) = [] then [] else [js_string js x]);
                   name = join '' '' (part ''fornamn'' @ part ''mellannamn'' @ part ''efternamn'')
                 in if name = [] then missing_name else name)))"

definition register_person_of :: "js_numbers \<Rightarrow> rat json \<Rightarrow> register_person" where
  "register_person_of js p =
     (let name = register_name js (member_of ''personnamn'' (Some p));
          rawId = (case member_of ''identitetsbeteckning'' (member_of ''identitet'' (Some p)) of
              None \<Rightarrow> None | Some JNull \<Rightarrow> None | Some x \<Rightarrow> Some (js_string js x));
          personnummer = Option.bind rawId (\<lambda>s. nonempty (digits_only s))
      in \<lparr>vp_key = normalise_person_key personnummer name, vp_name = name,
          vp_personnummer = personnummer,
          vp_anonym = (member_of ''arAnonym'' (Some p) = Some (JBool True))\<rparr>)"

definition register_block :: "js_numbers \<Rightarrow> rat json option \<Rightarrow> register_person list" where
  "register_block js v =
     (case v of Some (JArr xs) \<Rightarrow> map (register_person_of js) (filter object_like xs) | _ \<Rightarrow> [])"

definition vh_register_persons :: "js_numbers \<Rightarrow> rat json \<Rightarrow> register_person list" where
  "vh_register_persons js payload =
     register_block js (member_of ''verkligHuvudman'' (Some payload)) @
     register_block js (member_of ''foretradare'' (Some payload))"

section \<open>Reconciliation\<close>

definition person_keys :: "aggregates \<Rightarrow> register_person list \<Rightarrow> string list" where
  "person_keys aggs persons = fold insert_new (map fst aggs @ map vp_key persons) []"

definition reconciliation_status_of :: "bool \<Rightarrow> bool \<Rightarrow> bool \<Rightarrow> reconciliation_status" where
  "reconciliation_status_of listed meets inUbo =
     (if listed \<and> meets then Aligned else if listed then RegisterOnly
      else if inUbo then DerivedUboOnly else ChainContext)"

definition reconciliation_row_of ::
  "aggregates \<Rightarrow> register_person list \<Rightarrow> string list \<Rightarrow> string \<Rightarrow> reconciliation_row" where
  "reconciliation_row_of aggs persons uboKeys key =
     (let agg = map_of aggs key;
          vh = map_of (rev (map (\<lambda>p. (vp_key p, p)) persons)) key;
          meets = (case agg of None \<Rightarrow> False | Some a \<Rightarrow> qualifies a);
          listed = (vh \<noteq> None);
          inUbo = (key \<in> set uboKeys)
      in \<lparr>rc_key = key,
          rc_label = or_default (or_else (map_option vp_name vh) (map_option sa_name agg)) key,
          rc_registerListed = listed, rc_derivedMeetsThreshold = meets,
          rc_inDerivedUboTable = inUbo,
          rc_effectiveOwnership = map_option (\<lambda>a. to_fixed 2 (sa_ownership a)) agg,
          rc_effectiveControl = map_option (\<lambda>a. to_fixed 2 (sa_control a)) agg,
          rc_status = reconciliation_status_of listed meets inUbo\<rparr>)"

definition status_order :: "reconciliation_status \<Rightarrow> nat" where
  "status_order s = (case s of Aligned \<Rightarrow> 0 | RegisterOnly \<Rightarrow> 1 | DerivedUboOnly \<Rightarrow> 2 | ChainContext \<Rightarrow> 3)"

definition ubo_keys :: "aggregates \<Rightarrow> string list" where
  "ubo_keys aggs = map (\<lambda>u. normalise_person_key (sa_personnummer u) (sa_name u)) (ubos_of aggs)"

definition reconciliation_rows ::
  "(string \<Rightarrow> nat list) \<Rightarrow> aggregates \<Rightarrow> register_person list \<Rightarrow> reconciliation_row list" where
  "reconciliation_rows collate aggs persons =
     sort_key (\<lambda>r. (status_order (rc_status r), collate (rc_label r)))
       (map (reconciliation_row_of aggs persons (ubo_keys aggs)) (person_keys aggs persons))"

section \<open>The graph\<close>

definition ubo_view_of :: "share_aggregate \<Rightarrow> ubo_view" where
  "ubo_view_of u =
     \<lparr>ub_name = sa_name u, ub_personnummer = sa_personnummer u,
      ub_effectiveOwnership = to_fixed 2 (sa_ownership u), ub_effectiveControl = to_fixed 2 (sa_control u),
      ub_qualificationReason = (if sa_control u \<ge> 25 then ''control>=25%'' else ''ownership>=25%'')\<rparr>"

definition count_status :: "reconciliation_status \<Rightarrow> reconciliation_row list \<Rightarrow> nat" where
  "count_status s rows = count_where (\<lambda>r. rc_status r = s) rows"

definition get_ownership_graph ::
  "js_numbers \<Rightarrow> (string \<Rightarrow> nat list) \<Rightarrow> string \<Rightarrow> string \<Rightarrow> vh_payload_row list \<Rightarrow> ownership_store \<Rightarrow>
   ownership_graph" where
  "get_ownership_graph js collate tenantId organisationNumber vhRows st =
     (let rootOrg = digits_only organisationNumber;
          subgraph = collect_relevant_links tenantId rootOrg (os_links st);
          owners = find_desc (\<lambda>b. bo_tenantId b = tenantId \<and> bo_organisationNumber b = rootOrg \<and>
            bo_isCurrent b) bo_createdAt (os_owners st);
          vh = latest_vh_payload tenantId rootOrg vhRows;
          links = sub_links subgraph;
          (nodes, edges) = graph_of links rootOrg;
          aggs = share_aggregates links owners rootOrg;
          topPaths = top_paths (control_paths links rootOrg);
          persons = (case vs_payload vh of None \<Rightarrow> []
            | Some p \<Rightarrow> filter (\<lambda>p. \<not> vp_anonym p) (vh_register_persons js p));
          rows = reconciliation_rows collate aggs persons;
          hasLinks = (edges \<noteq> []);
          hasBoRows = (owners \<noteq> [])
      in \<lparr>og_organisationNumber = rootOrg, og_nodes = nodes, og_edges = edges,
          og_ubos = map ubo_view_of (ubos_of aggs), og_controlPaths = topPaths,
          og_hasOwnershipLinks = hasLinks, og_hasBeneficialOwnerRows = hasBoRows,
          og_opaqueOwnershipRisk = (if \<not> hasLinks \<and> \<not> hasBoRows then HighRisk
            else if \<not> hasLinks \<or> \<not> hasBoRows then MediumRisk else LowRisk),
          og_hasVhSnapshot = (vs_payload vh \<noteq> None),
          og_ownerNodes = count_where (\<lambda>n. gn_id n \<noteq> company_node_id rootOrg) nodes,
          og_maxChainDepth = max_chain_depth topPaths edges, og_subgraph = subgraph,
          og_register = (case vs_payload vh of None \<Rightarrow> None
            | Some _ \<Rightarrow> Some (vs_fetchedAt vh, vs_requestId vh, persons)),
          og_summary = (count_status Aligned rows, count_status RegisterOnly rows,
            count_status DerivedUboOnly rows, count_status ChainContext rows),
          og_rows = rows\<rparr>)"

section \<open>Nodes and edges fit together\<close>

lemma add_node_ids:
  "gn_id ` set (add_node n ns) = insert (gn_id n) (gn_id ` set ns)"
  "distinct (map gn_id ns) \<Longrightarrow> distinct (map gn_id (add_node n ns))"
  by (auto simp: add_node_def)

lemma fold_graph_link:
  assumes "fold (graph_link org depth) ls (nodes, edges, queue) = (nodes', edges', queue')"
  shows "edges' = edges @ map (graph_edge_of org depth) ls \<and>
    gn_id ` set nodes' = gn_id ` set nodes \<union> owner_node_id ` set ls \<union>
      (if ls = [] then {} else {company_node_id org}) \<and>
    (distinct (map gn_id nodes) \<longrightarrow> distinct (map gn_id nodes'))"
  using assms
proof (induction ls arbitrary: nodes edges queue)
  case Nil
  then show ?case by simp
next
  case (Cons l ls)
  obtain n1 q1 where step: "graph_link org depth l (nodes, edges, queue) = (n1, edges @ [graph_edge_of org depth l], q1)"
    and ids: "gn_id ` set n1 = insert (company_node_id org) (insert (owner_node_id l) (gn_id ` set nodes))"
    and d: "distinct (map gn_id nodes) \<longrightarrow> distinct (map gn_id n1)"
    by (simp add: graph_link_def Let_def add_node_ids)
  have "fold (graph_link org depth) ls (n1, edges @ [graph_edge_of org depth l], q1) = (nodes', edges', queue')"
    using Cons.prems step by simp
  from Cons.IH [OF this] ids d show ?case by (auto split: if_splits)
qed

definition graph_ok ::
  "ownership_link list \<Rightarrow> string set \<Rightarrow> graph_node list \<Rightarrow> graph_edge list \<Rightarrow> bool" where
  "graph_ok links visited nodes edges \<longleftrightarrow>
     distinct (map gn_id nodes) \<and>
     (\<forall>e \<in> set edges. ge_from e \<in> gn_id ` set nodes \<and> ge_to e \<in> gn_id ` set nodes) \<and>
     (\<forall>e \<in> set edges. \<exists>l \<in> set links. ge_id e = lk_id l \<and> ge_from e = owner_node_id l \<and>
        ge_to e = company_node_id (digits_only (lk_ownedOrganisationNumber l)) \<and>
        digits_only (lk_ownedOrganisationNumber l) \<in> visited) \<and>
     (unique_keys lk_id links \<longrightarrow> distinct (map ge_id edges))"

lemma graph_ok_expand:
  assumes ok: "graph_ok links visited nodes edges" and new: "org \<notin> visited"
    and f: "fold (graph_link org depth) (owned_by links org) (nodes, edges, queue) = (nodes', edges', queue')"
  shows "graph_ok links (insert org visited) nodes' edges'"
proof -
  note F = fold_graph_link [OF f]
  let ?ls = "owned_by links org"
  have ls: "l \<in> set links \<and> digits_only (lk_ownedOrganisationNumber l) = org" if "l \<in> set ?ls" for l
    using that by (auto simp: owned_by_def)
  have edges': "edges' = edges @ map (graph_edge_of org depth) ?ls" using F by simp
  have ids: "gn_id ` set nodes' = gn_id ` set nodes \<union> owner_node_id ` set ?ls \<union>
      (if ?ls = [] then {} else {company_node_id org})" using F by simp
  have "distinct (map ge_id edges')" if u: "unique_keys lk_id links"
  proof -
    have e: "ge_id \<circ> graph_edge_of org depth = lk_id"
      by (simp add: fun_eq_iff graph_edge_of_def)
    have "distinct (map lk_id ?ls)"
      using u by (auto simp: unique_keys_def owned_by_def distinct_map intro: inj_on_subset)
    moreover have "lk_id l \<notin> ge_id ` set edges" if "l \<in> set ?ls" for l
    proof
      assume "lk_id l \<in> ge_id ` set edges"
      then obtain m where "m \<in> set links" "lk_id m = lk_id l"
        "digits_only (lk_ownedOrganisationNumber m) \<in> visited"
        using ok unfolding graph_ok_def by fastforce
      then show False using unique_keysD [OF u] ls [OF that] new by metis
    qed
    then have "lk_id ` set ?ls \<inter> ge_id ` set edges = {}" by blast
    then have "set (map ge_id edges) \<inter> set (map lk_id ?ls) = {}" by (simp add: Int_commute)
    moreover have "distinct (map ge_id edges)" using ok u by (simp add: graph_ok_def)
    moreover have "map ge_id edges' = map ge_id edges @ map lk_id ?ls"
      by (simp only: edges' map_append map_map e)
    ultimately show ?thesis by (simp only: distinct_append)
  qed
  moreover have "\<forall>e \<in> set edges'. ge_from e \<in> gn_id ` set nodes' \<and> ge_to e \<in> gn_id ` set nodes'"
    using ok unfolding edges' ids graph_ok_def by (auto simp: graph_edge_of_def)
  moreover have "\<forall>e \<in> set edges'. \<exists>l \<in> set links. ge_id e = lk_id l \<and> ge_from e = owner_node_id l \<and>
      ge_to e = company_node_id (digits_only (lk_ownedOrganisationNumber l)) \<and>
      digits_only (lk_ownedOrganisationNumber l) \<in> insert org visited"
    using ok ls unfolding edges' graph_ok_def by (auto simp: graph_edge_of_def)
  moreover have "distinct (map gn_id nodes')" using F ok by (simp add: graph_ok_def)
  ultimately show ?thesis by (simp add: graph_ok_def)
qed

lemma graph_bfs_ok:
  "graph_ok links visited nodes edges \<Longrightarrow>
    graph_bfs links queue visited nodes edges = (nodes', edges') \<Longrightarrow>
    \<exists>visited'. graph_ok links visited' nodes' edges'"
proof (induction links queue visited nodes edges rule: graph_bfs.induct)
  case (1 links visited nodes edges)
  then show ?case by auto
next
  case (2 links org depth queue visited nodes edges)
  show ?case
  proof (cases "depth > 4 \<or> org \<in> visited")
    case True
    then show ?thesis using 2 by (auto split: if_splits)
  next
    case False
    obtain n1 e1 q1 where f: "fold (graph_link org depth) (owned_by links org) (nodes, edges, queue) = (n1, e1, q1)"
      by (metis prod_cases3)
    have "graph_ok links (insert org visited) n1 e1"
      using graph_ok_expand [OF "2.prems"(1) _ f] False by simp
    moreover have "graph_bfs links q1 (insert org visited) n1 e1 = (nodes', edges')"
      using "2.prems"(2) False f by simp
    ultimately show ?thesis using "2.IH"(3) False f by simp
  qed
qed

text \<open>C36: The ownership graph is well formed: node ids are distinct, every edge joins two of its nodes
  and stands for one loaded link, from its owner to its company, and no link gives two edges,
  whatever circles the links form.
\<close>

theorem ownership_graph_well_formed:
  assumes "graph_of links org = (nodes, edges)" and "unique_keys lk_id links"
  shows "distinct (map gn_id nodes) \<and> distinct (map ge_id edges) \<and>
    (\<forall>e \<in> set edges. ge_from e \<in> gn_id ` set nodes \<and> ge_to e \<in> gn_id ` set nodes \<and>
      (\<exists>l \<in> set links. ge_id e = lk_id l \<and> ge_from e = owner_node_id l \<and>
         ge_to e = company_node_id (digits_only (lk_ownedOrganisationNumber l))))"
proof -
  have "graph_ok links {} [root_node org] []" by (simp add: graph_ok_def)
  from graph_bfs_ok [OF this assms(1) [unfolded graph_of_def]] obtain visited'
    where "graph_ok links visited' nodes edges" by blast
  then show ?thesis using assms(2) unfolding graph_ok_def by blast
qed

theorem ownership_graph_well_formed_witness:
  "\<exists>nodes edges. graph_of sample_links ''11'' = (nodes, edges) \<and> distinct (map gn_id nodes)"
proof -
  obtain nodes edges where g: "graph_of sample_links ''11'' = (nodes, edges)" by fastforce
  moreover have "unique_keys lk_id sample_links"
    by (simp add: sample_links_def sample_link_def unique_keys_def)
  ultimately show ?thesis using ownership_graph_well_formed [OF g] by blast
qed

text \<open>
  The summary of a path over two links ends in the name of the company between them, with the
  number of the company asked about.
\<close>

lemma path_summary_two_links:
  "path_summary rootOrg [l, m] = lk_ownerName l @ '' -> '' @ lk_ownerName m @ '' -> '' @
     lk_ownedCompanyName m @ '' ('' @ rootOrg @ '')''"
  by (simp add: path_summary_def)

end
