(* ===== verification/OwnershipInsights.thy ===== *)
theory OwnershipInsights
  imports OwnershipGraph "HOL-Library.Multiset"
begin

text \<open>
  The advanced ownership insights of \<open>OwnershipService\<close>
  (backend/src/ownership/ownership.service.ts, from \<open>getAdvancedOwnershipInsights\<close>), their
  cache, and the precompute jobs of the queue \<open>ownership-advanced-insights\<close>. Two readings of
  the clock within one call are taken to be equal.
\<close>

section \<open>Data\<close>

record anomaly =
  an_code :: string
  an_severity :: string
  an_riskTier :: string
  an_analystPriority :: nat
  an_count :: nat
  an_description :: string

record path_flag =
  pf_code :: string
  pf_severity :: string
  pf_riskTier :: string
  pf_analystPriority :: nat
  pf_summary :: string
  pf_reason :: string

record insights =
  in_organisationNumber :: string
  in_generatedAt :: string
  in_ownershipRiskScore :: nat
  in_anomalies :: "anomaly list"
  in_suspiciousPathFlags :: "path_flag list"
  in_hiddenOwnershipIndicators :: "string list"
  in_nodes :: nat
  in_edges :: nat
  in_maxChainDepth :: nat
  in_potentialCycleNodes :: nat
  in_ownershipLinksCurrent :: nat
  in_beneficialOwnerRows :: bool
  in_vhSnapshotPresent :: bool

section \<open>Cycles\<close>

definition successors :: "graph_edge list \<Rightarrow> string \<Rightarrow> string list" where
  "successors edges n = map ge_to (filter (\<lambda>e. ge_from e = n) edges)"

text \<open>
  \<open>walk\<close> with \<open>visited\<close> and \<open>cycleNodes\<close> as state. \<open>stack\<close>, which every call leaves as it was,
  is an argument. A call below another has one more node on the stack, so a fuel of one more
  than the number of nodes is enough.
\<close>

fun cycle_walk ::
  "graph_edge list \<Rightarrow> nat \<Rightarrow> string set \<Rightarrow> string \<Rightarrow> string set \<times> string set \<Rightarrow> string set \<times> string set"
where
  "cycle_walk edges 0 stack n st = st"
| "cycle_walk edges (Suc k) stack n (visited, cyc) =
     (if n \<in> stack then (visited, insert n cyc)
      else if n \<in> visited then (visited, cyc)
      else fold (cycle_walk edges k (insert n stack)) (successors edges n) (insert n visited, cyc))"

definition cycle_nodes :: "graph_node list \<Rightarrow> graph_edge list \<Rightarrow> string set" where
  "cycle_nodes nodes edges =
     snd (fold (cycle_walk edges (length nodes + 1) {}) (map gn_id nodes) ({}, {}))"

section \<open>Anomalies\<close>

definition unknown_weight_edges :: "graph_edge list \<Rightarrow> nat" where
  "unknown_weight_edges edges =
     count_where (\<lambda>e. ge_ownershipPercentage e = None \<and> ge_controlPercentage e = None) edges"

definition high_control_low_economic :: "graph_edge list \<Rightarrow> nat" where
  "high_control_low_economic edges =
     count_where (\<lambda>e. let control = or_default (ge_controlPercentage e) 0;
                          ownership = or_default (ge_ownershipPercentage e) 0
                      in control \<ge> 50 \<and> ownership > 0 \<and> ownership < 20) edges"

definition hidden_ownership :: "graph_edge list \<Rightarrow> string list" where
  "hidden_ownership edges =
     filter (\<lambda>n. count_where (\<lambda>e. ge_to e = n) edges \<ge> 4) (fold insert_new (map ge_to edges) [])"

definition cycle_anomaly :: "nat \<Rightarrow> anomaly" where
  "cycle_anomaly c =
     \<lparr>an_code = ''ownership_cycle_detected'', an_severity = (if c > 0 then ''high'' else ''low''),
      an_riskTier = (if c \<ge> 2 then ''tier_1'' else if c > 0 then ''tier_2'' else ''tier_4''),
      an_analystPriority = (if c \<ge> 2 then 1 else if c > 0 then 2 else 4), an_count = c,
      an_description =
        (if c > 0 then ''Circular control path(s) detected in current ownership graph.''
         else ''No circular control paths detected.'')\<rparr>"

definition unknown_anomaly :: "nat \<Rightarrow> anomaly" where
  "unknown_anomaly u =
     \<lparr>an_code = ''unknown_edge_weights'',
      an_severity = (if u \<ge> 5 then ''high'' else if u > 0 then ''medium'' else ''low''),
      an_riskTier = (if u \<ge> 10 then ''tier_1'' else if u \<ge> 5 then ''tier_2''
        else if u > 0 then ''tier_3'' else ''tier_4''),
      an_analystPriority = (if u \<ge> 10 then 1 else if u \<ge> 5 then 2 else if u > 0 then 3 else 4),
      an_count = u,
      an_description = ''Ownership/control percentages missing on current link edges.''\<rparr>"

definition control_anomaly :: "nat \<Rightarrow> anomaly" where
  "control_anomaly h =
     \<lparr>an_code = ''high_control_low_economic'',
      an_severity = (if h > 0 then ''medium'' else ''low''),
      an_riskTier = (if h \<ge> 3 then ''tier_2'' else if h > 0 then ''tier_3'' else ''tier_4''),
      an_analystPriority = (if h \<ge> 3 then 2 else if h > 0 then 3 else 4), an_count = h,
      an_description = ''Control concentration appears materially above economic ownership.''\<rparr>"

definition anomalies_of :: "nat \<Rightarrow> nat \<Rightarrow> nat \<Rightarrow> anomaly list" where
  "anomalies_of c u h =
     sort_key (\<lambda>a. (int (an_analystPriority a), - int (an_count a)))
       [cycle_anomaly c, unknown_anomaly u, control_anomaly h]"

section \<open>Suspicious paths and turnover\<close>

definition path_flags :: "control_path \<Rightarrow> path_flag list" where
  "path_flags p =
     (let steps = pa_steps p
      in if steps = [] then []
         else (if count_where (\<lambda>s. cp_ownerType s = CompanyOwner) steps \<ge> 3
               then [\<lparr>pf_code = ''nominee_chain_candidate'', pf_severity = ''medium'',
                      pf_riskTier = ''tier_2'', pf_analystPriority = 2, pf_summary = pa_summary p,
                      pf_reason = ''Control path traverses three or more company layers before natural person endpoint.''\<rparr>]
               else []) @
              (if list_ex (\<lambda>s. \<not> cp_weightComplete s) steps \<and> length steps \<ge> 2
               then [\<lparr>pf_code = ''opaque_multihop_path'', pf_severity = ''medium'',
                      pf_riskTier = ''tier_3'', pf_analystPriority = 3, pf_summary = pa_summary p,
                      pf_reason = ''Multi-hop ownership path includes one or more edges without complete weights.''\<rparr>]
               else []))"

text \<open>The links of the company itself, most recently updated first, at most 120.\<close>

definition historic_links :: "string \<Rightarrow> string \<Rightarrow> ownership_link list \<Rightarrow> ownership_link list" where
  "historic_links tenantId org links =
     take 120 (sort_key (\<lambda>l. (- lk_updatedAt l, - lk_createdAt l))
       (filter (\<lambda>l. lk_tenantId l = tenantId \<and> lk_ownedOrganisationNumber l = org) links))"

definition owner_key :: "ownership_link \<Rightarrow> string" where
  "owner_key l =
     (case lk_ownerType l of
       PersonOwner \<Rightarrow> ''p:'' @ or_default (lk_ownerPersonnummer l) (to_lower (lk_ownerName l))
     | CompanyOwner \<Rightarrow> ''c:'' @ digits_only (or_default (lk_ownerOrganisationNumber l) []))"

fun transitions :: "string list \<Rightarrow> nat" where
  "transitions (x # y # ks) = (if y \<noteq> x then 1 else 0) + transitions (y # ks)"
| "transitions _ = 0"

definition one_year_ms :: int where
  "one_year_ms = 365 * 24 * 60 * 60 * 1000"

definition owner_transitions :: "int \<Rightarrow> string \<Rightarrow> string \<Rightarrow> ownership_link list \<Rightarrow> nat" where
  "owner_transitions now tenantId org links =
     transitions (map owner_key
       (filter (\<lambda>l. lk_updatedAt l \<ge> now - one_year_ms) (historic_links tenantId org links)))"

definition turnover_flags :: "nat \<Rightarrow> path_flag list" where
  "turnover_flags t =
     (let summary = ''Owner transitions in last 12 months: '' @ show_nat t
      in if t \<ge> 6 then [\<lparr>pf_code = ''rapid_owner_turnover'', pf_severity = ''high'',
           pf_riskTier = ''tier_1'', pf_analystPriority = 1, pf_summary = summary,
           pf_reason = ''Frequent ownership identity changes suggest potential nominee rotation or instability.''\<rparr>]
         else if t \<ge> 3 then [\<lparr>pf_code = ''owner_turnover_watch'', pf_severity = ''medium'',
           pf_riskTier = ''tier_2'', pf_analystPriority = 2, pf_summary = summary,
           pf_reason = ''Moderate ownership turnover indicates governance or control volatility.''\<rparr>]
         else [])"

definition suspicious_flags ::
  "int \<Rightarrow> string \<Rightarrow> string \<Rightarrow> ownership_link list \<Rightarrow> control_path list \<Rightarrow> path_flag list" where
  "suspicious_flags now tenantId org links paths =
     sort_key pf_analystPriority
       (concat (map path_flags (take 30 paths)) @
        turnover_flags (owner_transitions now tenantId org links))"

section \<open>Risk score\<close>

definition anomaly_points :: "anomaly \<Rightarrow> nat" where
  "anomaly_points a =
     (let p = an_analystPriority a
      in (if p \<le> 1 then 14 else if p = 2 then 9 else if p = 3 then 5 else 2) * min 5 (an_count a))"

definition flag_points :: "path_flag \<Rightarrow> nat" where
  "flag_points f =
     (let p = pf_analystPriority f in if p \<le> 1 then 15 else if p = 2 then 10 else if p = 3 then 6 else 2)"

definition ownership_risk_score :: "anomaly list \<Rightarrow> path_flag list \<Rightarrow> nat" where
  "ownership_risk_score as fs =
     min 100 (sum_list (map anomaly_points as) + sum_list (map flag_points fs))"

definition compute_insights ::
  "int \<Rightarrow> string \<Rightarrow> string \<Rightarrow> ownership_link list \<Rightarrow> ownership_graph \<Rightarrow> insights" where
  "compute_insights now tenantId org links g =
     (let edges = og_edges g;
          cycles = card (cycle_nodes (og_nodes g) edges);
          as = anomalies_of cycles (unknown_weight_edges edges) (high_control_low_economic edges);
          fs = suspicious_flags now tenantId org links (og_controlPaths g)
      in \<lparr>in_organisationNumber = og_organisationNumber g, in_generatedAt = iso_string now,
          in_ownershipRiskScore = ownership_risk_score as fs, in_anomalies = as,
          in_suspiciousPathFlags = fs, in_hiddenOwnershipIndicators = hidden_ownership edges,
          in_nodes = length (og_nodes g), in_edges = length edges,
          in_maxChainDepth = og_maxChainDepth g, in_potentialCycleNodes = cycles,
          in_ownershipLinksCurrent = length (sub_links (og_subgraph g)),
          in_beneficialOwnerRows = og_hasBeneficialOwnerRows g,
          in_vhSnapshotPresent = og_hasVhSnapshot g\<rparr>)"

section \<open>Cache and precompute jobs\<close>

record precompute_job =
  pj_jobId :: string
  pj_tenantId :: string
  pj_organisationNumber :: string
  pj_removeOnFail :: nat
  pj_attempts :: nat

record insights_state =
  ic_cache :: "string \<rightharpoonup> int \<times> insights"
  ic_hits :: "string \<Rightarrow> nat"
  ic_queue :: "precompute_job list"

datatype enqueue_result = InvalidOrg | Queued string

definition insights_ttl_ms :: int where
  "insights_ttl_ms = 3 * 60 * 1000"

definition insights_key :: "string \<Rightarrow> string \<Rightarrow> string" where
  "insights_key tenantId org = tenantId @ '':'' @ org"

definition enqueue_precompute ::
  "string \<Rightarrow> string \<Rightarrow> insights_state \<Rightarrow> enqueue_result \<times> insights_state" where
  "enqueue_precompute tenantId organisationNumber st =
     (let org = digits_only organisationNumber;
          jobId = ''own-adv-'' @ tenantId @ ''-'' @ org
      in if length org \<noteq> 10 \<and> length org \<noteq> 12 then (InvalidOrg, st)
         else (Queued jobId, st\<lparr>ic_queue := ic_queue st @
           [\<lparr>pj_jobId = jobId, pj_tenantId = tenantId, pj_organisationNumber = org,
             pj_removeOnFail = 500, pj_attempts = 2\<rparr>]\<rparr>))"

definition bump_traffic :: "string \<Rightarrow> string \<Rightarrow> insights_state \<Rightarrow> insights_state" where
  "bump_traffic tenantId org st =
     (let key = insights_key tenantId org;
          hits = ic_hits st key + 1;
          st' = st\<lparr>ic_hits := (ic_hits st)(key := hits)\<rparr>
      in if hits mod 8 = 0 then snd (enqueue_precompute tenantId org st') else st')"

definition fresh_insights ::
  "js_numbers \<Rightarrow> (string \<Rightarrow> nat list) \<Rightarrow> int \<Rightarrow> string \<Rightarrow> string \<Rightarrow> vh_payload_row list \<Rightarrow>
   ownership_store \<Rightarrow> insights" where
  "fresh_insights js collate now tenantId org vhRows db =
     compute_insights now tenantId org (os_links db)
       (get_ownership_graph js collate tenantId org vhRows db)"

definition get_advanced_insights ::
  "js_numbers \<Rightarrow> (string \<Rightarrow> nat list) \<Rightarrow> int \<Rightarrow> string \<Rightarrow> string \<Rightarrow> vh_payload_row list \<Rightarrow>
   ownership_store \<Rightarrow> insights_state \<Rightarrow> (insights \<times> bool) \<times> insights_state" where
  "get_advanced_insights js collate now tenantId organisationNumber vhRows db st =
     (let org = digits_only organisationNumber;
          key = insights_key tenantId org;
          refetch = (let d = fresh_insights js collate now tenantId org vhRows db
            in ((d, False), bump_traffic tenantId org (st\<lparr>ic_cache := (ic_cache st)(key \<mapsto> (now, d))\<rparr>)))
      in case ic_cache st key of
           Some (cachedAt, d) \<Rightarrow>
             if now - cachedAt \<le> insights_ttl_ms then ((d, True), bump_traffic tenantId org st)
             else refetch
         | None \<Rightarrow> refetch)"

definition precompute_insights ::
  "js_numbers \<Rightarrow> (string \<Rightarrow> nat list) \<Rightarrow> int \<Rightarrow> string \<Rightarrow> string \<Rightarrow> vh_payload_row list \<Rightarrow>
   ownership_store \<Rightarrow> insights_state \<Rightarrow> insights_state" where
  "precompute_insights js collate now tenantId organisationNumber vhRows db st =
     (let org = digits_only organisationNumber
      in st\<lparr>ic_cache := (ic_cache st)(insights_key tenantId org \<mapsto>
            (now, fresh_insights js collate now tenantId org vhRows db))\<rparr>)"

text \<open>\<open>OwnershipAdvancedInsightsProcessor.process\<close> on a precompute job.\<close>

definition process_insights_job ::
  "js_numbers \<Rightarrow> (string \<Rightarrow> nat list) \<Rightarrow> int \<Rightarrow> precompute_job \<Rightarrow> vh_payload_row list \<Rightarrow>
   ownership_store \<Rightarrow> insights_state \<Rightarrow> insights_state" where
  "process_insights_job js collate now job vhRows db st =
     (let org = digits_only (pj_organisationNumber job)
      in if length org \<noteq> 10 \<and> length org \<noteq> 12 then st
         else precompute_insights js collate now (pj_tenantId job) org vhRows db st)"

section \<open>The search finds the circles\<close>

definition edge_rel :: "graph_edge list \<Rightarrow> (string \<times> string) set" where
  "edge_rel edges = (\<lambda>e. (ge_from e, ge_to e)) ` set edges"

lemma set_successors: "set (successors edges n) = edge_rel edges `` {n}"
  by (auto simp: successors_def edge_rel_def)

text \<open>Sound: a recorded node lies on a circle.\<close>

definition on_path :: "graph_edge list \<Rightarrow> string set \<Rightarrow> string \<Rightarrow> bool" where
  "on_path edges stack n \<longleftrightarrow> (\<forall>s \<in> stack. (s, n) \<in> (edge_rel edges)\<^sup>+)"

definition all_cyclic :: "graph_edge list \<Rightarrow> string set \<Rightarrow> bool" where
  "all_cyclic edges cyc \<longleftrightarrow> (\<forall>n \<in> cyc. (n, n) \<in> (edge_rel edges)\<^sup>+)"

lemma on_path_child:
  assumes "on_path edges stack n" and "m \<in> set (successors edges n)"
  shows "on_path edges (insert n stack) m"
proof -
  have e: "(n, m) \<in> edge_rel edges" using assms(2) by (simp add: set_successors)
  then show ?thesis using assms(1) unfolding on_path_def by (auto intro: trancl_into_trancl)
qed

lemma cycle_walk_sound:
  "all_cyclic edges (snd st) \<Longrightarrow> on_path edges stack n \<Longrightarrow>
    all_cyclic edges (snd (cycle_walk edges k stack n st))"
proof (induction k arbitrary: stack n st)
  case (Suc k)
  obtain visited cyc where st: "st = (visited, cyc)" by (cases st)
  show ?case
  proof (cases "n \<in> stack \<or> n \<in> visited")
    case True
    then show ?thesis using Suc.prems st by (auto simp: all_cyclic_def on_path_def)
  next
    case False
    have "all_cyclic edges (snd (fold (cycle_walk edges k (insert n stack)) (successors edges n)
        (insert n visited, cyc)))"
      by (rule fold_inv [where I = "\<lambda>s. all_cyclic edges (snd s)"])
        (use Suc st on_path_child in auto)
    then show ?thesis using False st by simp
  qed
qed simp

text \<open>
  Complete: while nothing is recorded, the finished nodes (visited and off the stack) are
  closed under edges and lie on no circle.
\<close>

definition finished_ok :: "graph_edge list \<Rightarrow> string set \<Rightarrow> string set \<Rightarrow> bool" where
  "finished_ok edges stack visited \<longleftrightarrow> stack \<subseteq> visited \<and>
     (\<forall>x \<in> visited - stack. edge_rel edges `` {x} \<subseteq> visited - stack \<and> (x, x) \<notin> (edge_rel edges)\<^sup>+)"

lemma closed_trancl:
  assumes "(x, y) \<in> r\<^sup>*" and "x \<in> F" and "\<And>z. z \<in> F \<Longrightarrow> r `` {z} \<subseteq> F"
  shows "y \<in> F"
  using assms(1,2) by (induction rule: rtrancl_induct) (use assms(3) in blast)+

lemma finished_ok_pop:
  assumes ok: "finished_ok edges (insert n stack) visited" and "n \<notin> stack"
    and succ: "edge_rel edges `` {n} \<subseteq> visited - insert n stack"
  shows "finished_ok edges stack visited"
proof -
  let ?F = "visited - insert n stack"
  have closed: "edge_rel edges `` {x} \<subseteq> ?F" if "x \<in> ?F" for x
    using ok that unfolding finished_ok_def by blast
  have F: "visited - stack = insert n ?F" using ok assms(2) by (auto simp: finished_ok_def)
  have "(n, n) \<notin> (edge_rel edges)\<^sup>+"
  proof
    assume "(n, n) \<in> (edge_rel edges)\<^sup>+"
    then obtain m where "(n, m) \<in> edge_rel edges" "(m, n) \<in> (edge_rel edges)\<^sup>*"
      by (metis tranclD)
    moreover from this succ have "m \<in> ?F" by blast
    ultimately have "n \<in> ?F" using closed_trancl closed by metis
    then show False by simp
  qed
  then show ?thesis using ok succ unfolding finished_ok_def F by blast
qed

lemma cycle_walk_cyc_mono: "snd st \<subseteq> snd (cycle_walk edges k stack n st)"
proof (induction k arbitrary: stack n st)
  case (Suc k)
  obtain visited cyc where st: "st = (visited, cyc)" by (cases st)
  have "cyc \<subseteq> snd (fold (cycle_walk edges k (insert n stack)) (successors edges n)
      (insert n visited, cyc))"
    by (rule fold_inv [where I = "\<lambda>s. cyc \<subseteq> snd s"], erule subset_trans, rule Suc.IH) simp
  then show ?case using st by auto
qed simp

lemma cycle_walk_fold_cyc_mono: "snd st \<subseteq> snd (fold (cycle_walk edges k stack) ns st)"
  by (rule fold_inv [where I = "\<lambda>s. snd st \<subseteq> snd s"], erule subset_trans,
      rule cycle_walk_cyc_mono) simp

text \<open>What a call that records nothing leaves behind.\<close>

definition walked :: "graph_edge list \<Rightarrow> string set \<Rightarrow> string set \<Rightarrow> string set \<Rightarrow> string set \<Rightarrow> bool" where
  "walked edges stack new visited visited' \<longleftrightarrow>
     finished_ok edges stack visited' \<and> visited \<subseteq> visited' \<and> new \<subseteq> visited' - stack"

lemma fold_cycle_walk_complete:
  assumes step: "\<And>m v w. m \<in> set ns \<Longrightarrow> finished_ok edges stack v \<Longrightarrow>
      cycle_walk edges k stack m (v, {}) = (w, {}) \<Longrightarrow> walked edges stack {m} v w"
    and "finished_ok edges stack visited"
    and "fold (cycle_walk edges k stack) ns (visited, {}) = (visited', {})"
  shows "walked edges stack (set ns) visited visited'"
  using assms
proof (induction ns arbitrary: visited)
  case Nil
  then show ?case by (simp add: walked_def)
next
  case (Cons m ns)
  obtain w c where w: "cycle_walk edges k stack m (visited, {}) = (w, c)" by fastforce
  have "c \<subseteq> snd (fold (cycle_walk edges k stack) ns (w, c))"
    using cycle_walk_fold_cyc_mono [of "(w, c)"] by simp
  then have c: "c = {}" using Cons.prems(3) w by auto
  have a: "walked edges stack {m} visited w" using Cons.prems(1,2) w c by simp
  have "walked edges stack (set ns) w visited'"
  proof (rule Cons.IH)
    show "walked edges stack {x} v u" if "x \<in> set ns" "finished_ok edges stack v"
      "cycle_walk edges k stack x (v, {}) = (u, {})" for x v u
      using Cons.prems(1) that by simp
    show "finished_ok edges stack w" using a by (simp add: walked_def)
    show "fold (cycle_walk edges k stack) ns (w, {}) = (visited', {})" using Cons.prems(3) w c by simp
  qed
  then show ?case using a unfolding walked_def by auto
qed

lemma cycle_walk_complete:
  assumes "finished_ok edges stack visited" and "cycle_walk edges k stack n (visited, {}) = (visited', {})"
    and "finite N" "stack \<subseteq> N" "n \<in> N" "edge_rel edges \<subseteq> N \<times> N" "card N < k + card stack"
  shows "walked edges stack {n} visited visited'"
  using assms
proof (induction k arbitrary: stack n visited visited')
  case 0
  then show ?case using card_mono [of N stack] by simp
next
  case (Suc k)
  have ns: "n \<notin> stack" using Suc.prems(2) by auto
  show ?case
  proof (cases "n \<in> visited")
    case True
    then show ?thesis using Suc.prems(1,2) ns by (auto simp: walked_def)
  next
    case False
    have f: "fold (cycle_walk edges k (insert n stack)) (successors edges n) (insert n visited, {}) =
        (visited', {})"
      using Suc.prems(2) False ns by simp
    have fin: "finished_ok edges (insert n stack) (insert n visited)"
      using Suc.prems(1) False ns unfolding finished_ok_def by auto
    have "finite stack" using Suc.prems(3,4) by (rule rev_finite_subset)
    then have bound: "card N < k + card (insert n stack)" using Suc.prems(7) ns by simp
    have child: "walked edges (insert n stack) {m} v w"
      if "m \<in> set (successors edges n)" "finished_ok edges (insert n stack) v"
        "cycle_walk edges k (insert n stack) m (v, {}) = (w, {})" for m v w
    proof (rule Suc.IH [OF that(2,3)])
      show "m \<in> N" using that(1) Suc.prems(6) by (auto simp: set_successors)
    qed (use Suc.prems bound in auto)
    have w: "walked edges (insert n stack) (set (successors edges n)) (insert n visited) visited'"
      by (rule fold_cycle_walk_complete [OF child fin f])
    then have "finished_ok edges stack visited'"
      using finished_ok_pop ns unfolding walked_def set_successors by metis
    then show ?thesis using w ns unfolding walked_def by auto
  qed
qed

lemma cycle_nodes_iff:
  assumes ends: "\<forall>e \<in> set edges. ge_from e \<in> gn_id ` set nodes \<and> ge_to e \<in> gn_id ` set nodes"
  shows "cycle_nodes nodes edges \<noteq> {} \<longleftrightarrow> (\<exists>n. (n, n) \<in> (edge_rel edges)\<^sup>+)"
proof
  let ?run = "fold (cycle_walk edges (length nodes + 1) {}) (map gn_id nodes) ({}, {})"
  have "all_cyclic edges (snd ?run)"
    by (rule fold_inv [where I = "\<lambda>s. all_cyclic edges (snd s)"], erule cycle_walk_sound)
      (simp_all add: on_path_def all_cyclic_def)
  then show "\<exists>n. (n, n) \<in> (edge_rel edges)\<^sup>+" if "cycle_nodes nodes edges \<noteq> {}"
    using that unfolding cycle_nodes_def all_cyclic_def by blast
  show "cycle_nodes nodes edges \<noteq> {}" if "\<exists>n. (n, n) \<in> (edge_rel edges)\<^sup>+"
  proof
    assume none: "cycle_nodes nodes edges = {}"
    let ?N = "gn_id ` set nodes"
    have N: "edge_rel edges \<subseteq> ?N \<times> ?N" using ends by (auto simp: edge_rel_def)
    have c: "card ?N < length nodes + 1 + card {}"
      using card_image_le [of "set nodes" gn_id] card_length [of nodes] by simp
    obtain visited where run: "?run = (visited, {})"
      using none unfolding cycle_nodes_def by (metis prod.collapse)
    have step: "walked edges {} {m} v w"
      if "m \<in> set (map gn_id nodes)" "finished_ok edges {} v"
        "cycle_walk edges (length nodes + 1) {} m (v, {}) = (w, {})" for m v w
      by (rule cycle_walk_complete [OF that(2,3) _ _ _ N c]) (use that(1) in auto)
    have "finished_ok edges {} {}" by (simp add: finished_ok_def)
    from fold_cycle_walk_complete [OF step this run]
    have w: "finished_ok edges {} visited" "?N \<subseteq> visited" by (auto simp: walked_def)
    from that obtain n where n: "(n, n) \<in> (edge_rel edges)\<^sup>+" by blast
    then have "n \<in> ?N" using N by (meson mem_Sigma_iff subsetD tranclD)
    then show False using w n unfolding finished_ok_def by blast
  qed
qed

lemma cycle_nodes_card:
  "card (cycle_nodes nodes edges) > 0 \<longleftrightarrow> cycle_nodes nodes edges \<noteq> {}"
proof -
  have walk: "finite (snd st) \<Longrightarrow> finite (snd (cycle_walk edges k stack n st))" for k stack n st
  proof (induction k arbitrary: stack n st)
    case (Suc k)
    obtain visited cyc where st: "st = (visited, cyc)" by (cases st)
    have "finite (snd (fold (cycle_walk edges k (insert n stack)) (successors edges n)
        (insert n visited, cyc)))"
      by (rule fold_inv [where I = "\<lambda>s. finite (snd s)"], erule Suc.IH)
        (use Suc.prems st in simp)
    then show ?case using st Suc.prems by auto
  qed simp
  have "finite (cycle_nodes nodes edges)"
    unfolding cycle_nodes_def
    by (rule fold_inv [where I = "\<lambda>s. finite (snd s)"], erule walk) simp
  then show ?thesis by (simp add: card_gt_0_iff)
qed

lemma anomalies_of_cycle:
  "(\<exists>a \<in> set (anomalies_of c u h). an_code a = ''ownership_cycle_detected'' \<and>
      an_severity a = ''high'') \<longleftrightarrow> c > 0"
  unfolding anomalies_of_def set_sort
  by (simp add: cycle_anomaly_def unknown_anomaly_def control_anomaly_def del: sort_key_simps)

lemma graph_of_ends:
  assumes "graph_of links org = (nodes, edges)"
  shows "\<forall>e \<in> set edges. ge_from e \<in> gn_id ` set nodes \<and> ge_to e \<in> gn_id ` set nodes"
proof -
  have "graph_ok links {} [root_node org] []" by (simp add: graph_ok_def)
  from graph_bfs_ok [OF this assms [unfolded graph_of_def]] show ?thesis
    unfolding graph_ok_def by blast
qed

lemma get_ownership_graph_ends:
  "\<forall>e \<in> set (og_edges (get_ownership_graph js collate tenantId org vhRows db)).
     ge_from e \<in> gn_id ` set (og_nodes (get_ownership_graph js collate tenantId org vhRows db)) \<and>
     ge_to e \<in> gn_id ` set (og_nodes (get_ownership_graph js collate tenantId org vhRows db))"
  using graph_of_ends
  by (auto simp: get_ownership_graph_def Let_def split: prod.splits)

text \<open>C35: The insights report a severe circle of ownership exactly when the edges of the ownership graph
  contain one, whatever the order in which the search meets them.
\<close>

theorem ownership_circles_detected:
  "(\<exists>a \<in> set (in_anomalies (fresh_insights js collate now tenantId org vhRows db)).
      an_code a = ''ownership_cycle_detected'' \<and> an_severity a = ''high'') \<longleftrightarrow>
   (\<exists>n. (n, n) \<in> (edge_rel (og_edges (get_ownership_graph js collate tenantId org vhRows db)))\<^sup>+)"
  unfolding fresh_insights_def compute_insights_def Let_def insights.simps anomalies_of_cycle
    cycle_nodes_card
  by (rule cycle_nodes_iff [OF get_ownership_graph_ends])

section \<open>What the cache serves\<close>

lemma insights_key_inj:
  assumes "digits_only a = a" "digits_only b = b"
  shows "insights_key s a = insights_key t b \<longleftrightarrow> s = t \<and> a = b"
proof -
  have colon: "\<not> is_digit (CHR '':'')" by code_simp
  have tail: "takeWhile is_digit (rev (insights_key u c)) = rev c"
    "dropWhile is_digit (rev (insights_key u c)) = CHR '':'' # rev u"
    if "digits_only c = c" for u c
    using digits_only_digits [of c] that colon
    by (simp_all add: insights_key_def takeWhile_append dropWhile_append)
  show ?thesis
    using tail [OF assms(1), of s] tail [OF assms(2), of t] by (metis list.inject rev_rev_ident)
qed

datatype insights_call =
    ReadInsights int string string "vh_payload_row list" ownership_store
  | RunJob int precompute_job "vh_payload_row list" ownership_store

fun insights_step ::
  "js_numbers \<Rightarrow> (string \<Rightarrow> nat list) \<Rightarrow> insights_call \<Rightarrow> insights_state \<Rightarrow> insights_state" where
  "insights_step js collate (ReadInsights now tenantId org vhRows db) st =
     snd (get_advanced_insights js collate now tenantId org vhRows db st)"
| "insights_step js collate (RunJob now job vhRows db) st =
     process_insights_job js collate now job vhRows db st"

definition no_insights :: insights_state where
  "no_insights = \<lparr>ic_cache = Map.empty, ic_hits = (\<lambda>_. 0), ic_queue = []\<rparr>"

text \<open>The clock, tenant, number and data a call computes with.\<close>

fun call_inputs :: "insights_call \<Rightarrow> int \<times> string \<times> string \<times> vh_payload_row list \<times> ownership_store"
where
  "call_inputs (ReadInsights now tenantId org vhRows db) = (now, tenantId, digits_only org, vhRows, db)"
| "call_inputs (RunJob now job vhRows db) =
     (now, pj_tenantId job, digits_only (pj_organisationNumber job), vhRows, db)"

definition cache_ok ::
  "js_numbers \<Rightarrow> (string \<Rightarrow> nat list) \<Rightarrow> insights_call list \<Rightarrow> insights_state \<Rightarrow> bool" where
  "cache_ok js collate calls st \<longleftrightarrow>
     (\<forall>tenantId org t d. digits_only org = org \<longrightarrow>
        ic_cache st (insights_key tenantId org) = Some (t, d) \<longrightarrow>
        (\<exists>c \<in> set calls. \<exists>vhRows db. call_inputs c = (t, tenantId, org, vhRows, db) \<and>
           d = fresh_insights js collate t tenantId org vhRows db))"

lemma bump_traffic_cache [simp]: "ic_cache (bump_traffic tenantId org st) = ic_cache st"
  by (simp add: bump_traffic_def enqueue_precompute_def Let_def)

lemma cache_ok_store:
  assumes "cache_ok js collate calls st" and "call_inputs c = (t, tenantId, org, vhRows, db)"
    and "digits_only org = org"
    and "ic_cache st' = (ic_cache st)(insights_key tenantId org \<mapsto>
       (t, fresh_insights js collate t tenantId org vhRows db))"
  shows "cache_ok js collate (calls @ [c]) st'"
  unfolding cache_ok_def
proof (intro allI impI)
  fix tenantId' org' t' d
  assume *: "digits_only org' = org'" "ic_cache st' (insights_key tenantId' org') = Some (t', d)"
  show "\<exists>c \<in> set (calls @ [c]). \<exists>vhRows db. call_inputs c = (t', tenantId', org', vhRows, db) \<and>
      d = fresh_insights js collate t' tenantId' org' vhRows db"
  proof (cases "tenantId' = tenantId \<and> org' = org")
    case True
    then show ?thesis using * assms(2,4) by auto
  next
    case False
    then have "insights_key tenantId' org' \<noteq> insights_key tenantId org"
      using insights_key_inj * assms(3) by auto
    then have "ic_cache st (insights_key tenantId' org') = Some (t', d)" using * assms(4) by simp
    then show ?thesis using assms(1) *(1) unfolding cache_ok_def by fastforce
  qed
qed

lemma cache_ok_keep:
  "cache_ok js collate calls st \<Longrightarrow> ic_cache st' = ic_cache st \<Longrightarrow>
    cache_ok js collate (calls @ [c]) st'"
  unfolding cache_ok_def by fastforce

lemma insights_step_ok:
  assumes ok: "cache_ok js collate calls st"
  shows "cache_ok js collate (calls @ [c]) (insights_step js collate c st)"
proof (cases c)
  case (ReadInsights now tenantId org vhRows db)
  let ?key = "insights_key tenantId (digits_only org)"
  have store: "cache_ok js collate (calls @ [c]) st'"
    if "ic_cache st' = (ic_cache st)(?key \<mapsto>
      (now, fresh_insights js collate now tenantId (digits_only org) vhRows db))" for st'
    by (rule cache_ok_store [OF ok _ _ that]) (simp_all add: ReadInsights)
  show ?thesis
  proof (cases "ic_cache st ?key")
    case None
    then show ?thesis using store by (simp add: ReadInsights get_advanced_insights_def Let_def)
  next
    case (Some e)
    obtain t d where e: "e = (t, d)" by (cases e)
    show ?thesis
    proof (cases "now - t \<le> insights_ttl_ms")
      case True
      then show ?thesis using Some e cache_ok_keep [OF ok]
        by (simp add: ReadInsights get_advanced_insights_def Let_def)
    next
      case False
      then show ?thesis using Some e store by (simp add: ReadInsights get_advanced_insights_def Let_def)
    qed
  qed
next
  case (RunJob now job vhRows db)
  show ?thesis
  proof (cases "length (digits_only (pj_organisationNumber job)) \<in> {10, 12}")
    case True
    show ?thesis
      by (rule cache_ok_store [OF ok, where vhRows = vhRows and db = db])
        (use True in \<open>auto simp: RunJob process_insights_job_def precompute_insights_def Let_def\<close>)
  next
    case False
    then show ?thesis using cache_ok_keep [OF ok refl]
      by (simp add: RunJob process_insights_job_def Let_def)
  qed
qed

lemma insights_run_ok: "cache_ok js collate calls (fold (insights_step js collate) calls no_insights)"
proof (induction calls rule: rev_induct)
  case Nil
  show ?case by (simp add: cache_ok_def no_insights_def)
next
  case (snoc c calls)
  then show ?case using insights_step_ok by simp
qed

text \<open>After any calls and background jobs, the insights served for a tenant and company were computed
  for that same tenant and company, from the data of a call at most three minutes ago.
\<close>

theorem cached_insights_fresh:
  "\<exists>c \<in> set (calls @ [ReadInsights now tenantId org vhRows db]). \<exists>t vhRows' db'.
     call_inputs c = (t, tenantId, digits_only org, vhRows', db') \<and> now - t \<le> 180000 \<and>
     fst (fst (get_advanced_insights js collate now tenantId org vhRows db
       (fold (insights_step js collate) calls no_insights))) =
     fresh_insights js collate t tenantId (digits_only org) vhRows' db'"
proof -
  let ?st = "fold (insights_step js collate) calls no_insights"
  let ?key = "insights_key tenantId (digits_only org)"
  show ?thesis
  proof (cases "\<exists>t d. ic_cache ?st ?key = Some (t, d) \<and> now - t \<le> insights_ttl_ms")
    case True
    then obtain t d where hit: "ic_cache ?st ?key = Some (t, d)" "now - t \<le> insights_ttl_ms" by blast
    then have "fst (fst (get_advanced_insights js collate now tenantId org vhRows db ?st)) = d"
      by (simp add: get_advanced_insights_def Let_def)
    moreover obtain c vhRows' db' where "c \<in> set calls"
      "call_inputs c = (t, tenantId, digits_only org, vhRows', db')"
      "d = fresh_insights js collate t tenantId (digits_only org) vhRows' db'"
      using insights_run_ok [of js collate calls] hit(1) digits_only_idem [of org]
      unfolding cache_ok_def by blast
    moreover have "now - t \<le> 180000" using hit(2) by (simp add: insights_ttl_ms_def)
    ultimately show ?thesis by (intro bexI [of _ c]) auto
  next
    case False
    then have "fst (fst (get_advanced_insights js collate now tenantId org vhRows db ?st)) =
        fresh_insights js collate now tenantId (digits_only org) vhRows db"
      by (auto simp: get_advanced_insights_def Let_def split: option.splits)
    then show ?thesis by auto
  qed
qed

section \<open>Unchanging owners\<close>

lemma transitions_distinct: "distinct ks \<Longrightarrow> transitions ks = length ks - 1"
  by (induction ks rule: transitions.induct) auto

text \<open>
  The turnover counts neighbours with different owners, not changes: seven current owners that
  never changed are reported as a rapid turnover.
\<close>

lemma steady_owners_flagged:
  assumes here: "\<forall>l \<in> set links. lk_tenantId l = tenantId \<and> lk_ownedOrganisationNumber l = org \<and>
      lk_isCurrent l \<and> lk_updatedAt l \<ge> now - one_year_ms"
    and owners: "distinct (map owner_key links)" and "7 \<le> length links" "length links \<le> 120"
  shows "\<exists>f \<in> set (suspicious_flags now tenantId org links paths). pf_code f = ''rapid_owner_turnover''"
proof -
  let ?h = "historic_links tenantId org links"
  have f: "filter (\<lambda>l. lk_tenantId l = tenantId \<and> lk_ownedOrganisationNumber l = org) links = links"
    using here by (auto intro: filter_True)
  then have m: "mset ?h = mset links" using assms(4) by (simp add: historic_links_def)
  then have "filter (\<lambda>l. lk_updatedAt l \<ge> now - one_year_ms) ?h = ?h"
    using here by (auto intro!: filter_True dest: mset_eq_setD)
  moreover have "mset (map owner_key ?h) = mset (map owner_key links)" using m by simp
  then have "distinct (map owner_key ?h)" using owners by (metis mset_eq_imp_distinct_iff)
  moreover have "length ?h = length links" using m by (metis size_mset)
  ultimately have "owner_transitions now tenantId org links = length links - 1"
    by (simp add: owner_transitions_def transitions_distinct)
  then have "owner_transitions now tenantId org links \<ge> 6" using assms(3) by simp
  then show ?thesis by (auto simp: suspicious_flags_def turnover_flags_def Let_def)
qed

end
