(* ===== verification/OwnershipIngestion.thy ===== *)
theory OwnershipIngestion
  imports Ownership Dates
begin

text \<open>
  Ownership links from Bolagsverket: the extraction of
  backend/src/ownership/ownership-bv-extract.util.ts and \<open>OwnershipBvIngestionService\<close>
  (ownership-bv-ingestion.service.ts), which rebuilds the links of a company from its latest
  parsed snapshot. The logging of malformed queue rows is left out.
\<close>

section \<open>Extraction\<close>

record owner_edge =
  oe_dedupeKey :: string
  oe_ownerType :: owner_type
  oe_ownerName :: string
  oe_ownerOrganisationNumber :: "string option"
  oe_ownerPersonnummer :: "string option"
  oe_ownedOrganisationNumber :: string
  oe_ownedCompanyName :: string
  oe_ownershipPercentage :: "rat option"
  oe_controlPercentage :: "rat option"
  oe_ownershipType :: string
  oe_ownershipClass :: "string option"
  oe_rawEngagement :: "rat members"

definition a_umlaut :: char where
  "a_umlaut = CHR 0xE4"

definition partner_role_hints :: "string list" where
  "partner_role_hints =
     [''del'' @ [a_umlaut] @ ''gare'', ''komplement'' @ [a_umlaut] @ ''r'', ''bolagsman'', ''medlem'',
      ''delagare'', ''komplementar'', ''handelsbolag'', ''kommanditbolag'']"

definition kod_klartext_str :: "rat json \<Rightarrow> string" where
  "kod_klartext_str v =
     (case v of JStr s \<Rightarrow> s | _ \<Rightarrow> or_default (string_of (member_of ''klartext'' (Some v))) [])"

definition kod_klartext_kod :: "rat json \<Rightarrow> string" where
  "kod_klartext_kod v = or_default (string_of (member_of ''kod'' (Some v))) []"

text \<open>A character of an amount, and the search for \<open>([\d.,]+)\s*%\<close> from each position.\<close>

definition amount_char :: "char \<Rightarrow> bool" where
  "amount_char c \<longleftrightarrow> is_digit c \<or> c = CHR ''.'' \<or> c = CHR '',''"

fun percent_match :: "string \<Rightarrow> string option" where
  "percent_match [] = None"
| "percent_match (c # s) =
     (let rest = dropWhile is_space (dropWhile amount_char (c # s))
      in if amount_char c \<and> rest \<noteq> [] \<and> hd rest = CHR ''%'' then Some (takeWhile amount_char (c # s))
         else percent_match s)"

text \<open>\<open>s.replace(',', '.')\<close>: the first comma only.\<close>

fun comma_to_dot :: "string \<Rightarrow> string" where
  "comma_to_dot [] = []"
| "comma_to_dot (c # s) = (if c = CHR '','' then CHR ''.'' # s else c # comma_to_dot s)"

definition parse_insats_percent :: "js_numbers \<Rightarrow> rat json option \<Rightarrow> rat option" where
  "parse_insats_percent js insats =
     (case insats of None \<Rightarrow> None | Some JNull \<Rightarrow> None
      | Some v \<Rightarrow>
          (let s = trim (js_string js v)
           in if s = [] then None
              else case percent_match s of
                Some m \<Rightarrow> number_value js (comma_to_dot m)
              | None \<Rightarrow>
                  if list_all amount_char s then number_value js (comma_to_dot s) else None))"

definition items_of :: "'n json option \<Rightarrow> 'n json list" where
  "items_of v = (case v of Some (JArr xs) \<Rightarrow> xs | _ \<Rightarrow> [])"

text \<open>\<open>String(v ?? '')\<close>\<close>

definition text_or_empty :: "js_numbers \<Rightarrow> rat json option \<Rightarrow> string" where
  "text_or_empty js v = (case v of None \<Rightarrow> [] | Some JNull \<Rightarrow> [] | Some x \<Rightarrow> js_string js x)"

definition collect_role_hints :: "js_numbers \<Rightarrow> rat json \<Rightarrow> string" where
  "collect_role_hints js f =
     to_lower (join '' ''
       (concat (map (\<lambda>r. [kod_klartext_str r, kod_klartext_kod r])
          (filter object_like (items_of (member_of ''funktionarsroller'' (Some f))))) @
        concat (map (\<lambda>r. [text_or_empty js (member_of ''rollbeskrivning'' (Some r)),
            text_or_empty js (member_of ''rollkod'' (Some r))])
          (filter object_like (items_of (member_of ''roller'' (Some f)))))))"

definition looks_like_partner_role :: "js_numbers \<Rightarrow> rat json \<Rightarrow> bool" where
  "looks_like_partner_role js f =
     (let blob = collect_role_hints js f @ '' '' @
        to_lower (text_or_empty js (member_of ''anteckning'' (Some f)))
      in list_ex (\<lambda>h. has_sub h blob) partner_role_hints)"

definition identity_text :: "rat json option \<Rightarrow> string option" where
  "identity_text v = string_of (member_of ''identitetsbeteckning'' (member_of ''identitet'' v))"

definition legacy_identity_text :: "rat json option \<Rightarrow> string option" where
  "legacy_identity_text v = string_of (member_of ''identitetsbeteckning'' v)"

definition identity_org_digits :: "rat json \<Rightarrow> string option" where
  "identity_org_digits f =
     (let legacy = (case legacy_identity_text (Some f) of
            Some raw \<Rightarrow> (let d = digits_only raw in if length d = 10 then Some d else None) | None \<Rightarrow> None)
      in case identity_text (Some f) of
           Some raw \<Rightarrow>
             (let d = digits_only raw
              in if length d = 10 then Some d else if length d = 12 then None
                 else if length d \<ge> 10 then Some (take 10 d) else legacy)
         | None \<Rightarrow> legacy)"

definition identity_person_digits :: "rat json \<Rightarrow> string option" where
  "identity_person_digits f =
     (let twelve = (\<lambda>t. case t of Some raw \<Rightarrow>
            (let d = digits_only raw in if length d = 12 then Some d else None) | None \<Rightarrow> None)
      in or_else (twelve (identity_text (Some f))) (twelve (legacy_identity_text (Some f))))"

definition trimmed_text :: "rat json option \<Rightarrow> string option" where
  "trimmed_text v = Option.bind (string_of v) (\<lambda>s. nonempty (trim s))"

definition name_of :: "rat json \<Rightarrow> string option" where
  "name_of v =
     or_else (trimmed_text (member_of ''namn'' (member_of ''organisationsnamn'' (Some v))))
       (trimmed_text (member_of ''namn'' (Some v)))"

definition unknown_owner :: string where
  "unknown_owner = ''Ok'' @ [a_umlaut] @ ''nd '' @ [a_umlaut] @ ''gare''"

definition owner_display_name :: "js_numbers \<Rightarrow> rat json \<Rightarrow> string" where
  "owner_display_name js f =
     (let pn = member_of ''personnamn'' (Some f);
          full = trim (trim (text_or_empty js (member_of ''fornamn'' pn)) @ '' '' @
            trim (text_or_empty js (member_of ''efternamn'' pn)))
      in or_default (or_else (nonempty full) (name_of f)) unknown_owner)"

text \<open>The first ten digits of an identity of at least ten digits.\<close>

definition ten_digits :: "string option \<Rightarrow> string option" where
  "ten_digits t =
     (case t of Some raw \<Rightarrow> (let d = digits_only raw in if length d \<ge> 10 then Some (take 10 d) else None)
      | None \<Rightarrow> None)"

definition related_org_digits :: "rat json option \<Rightarrow> string option" where
  "related_org_digits v = or_else (ten_digits (identity_text v)) (ten_digits (legacy_identity_text v))"

definition engagement_array :: "rat json \<Rightarrow> rat json list" where
  "engagement_array raw =
     items_of (member_of ''funktionarsOrganisationsengagemang''
       (member_of ''organisationsengagemang'' (Some raw)))"

definition subject_org :: "rat json \<Rightarrow> string \<Rightarrow> string" where
  "subject_org raw fallback =
     or_default (or_else (related_org_digits (Some raw)) (nonempty (take 10 (digits_only fallback)))) fallback"

definition subject_name :: "rat json \<Rightarrow> string" where
  "subject_name raw = or_default (name_of raw) []"

text \<open>
  The summary of the share classes. A class that is \<open>null\<close> makes the code throw.
\<close>

definition share_class_row :: "nat \<Rightarrow> rat json \<Rightarrow> rat json option \<times> rat json" where
  "share_class_row i c =
     (let num = (\<lambda>v. case v of Some (JNum n) \<Rightarrow> Some (JNum n) | _ \<Rightarrow> None);
          antal = or_else (num (member_of ''antal'' (Some c))) (num (member_of ''antalAktier'' (Some c)))
      in (antal, JObj [(''index'', JNum (of_nat i)),
           (''namn'', or_default (nullish_or (member_of ''namn'' (Some c))
              (nullish_or (member_of ''aktieslagsnamn'' (Some c)) (Some JNull))) JNull),
           (''antal'', or_default antal JNull),
           (''rostvarde'', or_default (nullish_or (member_of ''rostvarde'' (Some c)) (Some JNull)) JNull)]))"

definition json_num :: "rat json option \<Rightarrow> rat" where
  "json_num v = (case v of Some (JNum n) \<Rightarrow> n | _ \<Rightarrow> 0)"

definition extract_share_summary :: "rat json \<Rightarrow> rat json option result" where
  "extract_share_summary raw =
     (let ai = member_of ''aktieinformation'' (Some raw); classes = items_of (member_of ''aktieslag'' ai)
      in if classes = [] then Inr None
         else if JNull \<in> set classes then Inl (Failure ''null class'')
         else (let rows = map (\<lambda>(i, c). share_class_row i c) (enumerate 0 classes);
                   total = sum_list (map (json_num \<circ> fst) rows)
               in Inr (Some (JObj [(''totalAntalAktier'', if total = 0 then JNull else JNum total),
                    (''antalAktierCompany'', or_default (nullish_or (member_of ''antalAktier'' ai) (Some JNull)) JNull),
                    (''classes'', JArr (map snd rows))]))))"

definition edge_of_engagement ::
  "js_numbers \<Rightarrow> string \<Rightarrow> string \<Rightarrow> nat \<Rightarrow> rat json \<Rightarrow> owner_edge option" where
  "edge_of_engagement js subject ownedCompanyName rank raw =
     (case (raw, member_of ''funktionar'' (Some raw)) of
        (JObj e, Some f) \<Rightarrow>
          if \<not> object_like f then None
          else (let rel = related_org_digits (member_of ''organisation'' (Some raw));
                    insPct = parse_insats_percent js (member_of ''insats'' (Some f))
                in if rel \<noteq> None \<and> rel \<noteq> Some subject then None
                   else if \<not> (looks_like_partner_role js f \<or> insPct \<noteq> None) then None
                   else (let orgDigits = identity_org_digits f;
                             ownerType = (if orgDigits \<noteq> None then CompanyOwner else PersonOwner);
                             pnr = (if ownerType = PersonOwner then identity_person_digits f else None);
                             name = owner_display_name js f
                         in Some \<lparr>oe_dedupeKey = join ''|'' [''bv.fi.organisationsengagemang'', subject,
                                show_nat rank, owner_type_text ownerType, or_default orgDigits [],
                                or_default pnr [], name],
                              oe_ownerType = ownerType, oe_ownerName = name,
                              oe_ownerOrganisationNumber = orgDigits, oe_ownerPersonnummer = pnr,
                              oe_ownedOrganisationNumber = subject, oe_ownedCompanyName = ownedCompanyName,
                              oe_ownershipPercentage = insPct, oe_controlPercentage = None,
                              oe_ownershipType = ''BOLAGSVERKET_FI_ORGANISATIONSENGAGEMANG'',
                              oe_ownershipClass = None, oe_rawEngagement = e\<rparr>))
      | _ \<Rightarrow> None)"

definition extract_ownership_edges :: "js_numbers \<Rightarrow> rat json \<Rightarrow> string \<Rightarrow> owner_edge list" where
  "extract_ownership_edges js raw org =
     (let subject = subject_org raw org;
          name = or_default (nonempty (subject_name raw)) subject
      in List.map_filter (\<lambda>(i, e). edge_of_engagement js subject name i e)
           (enumerate 1 (engagement_array raw)))"

section \<open>The service\<close>

text \<open>A row of \<open>bv_parsed.v_fi_organisation_latest\<close>, and of the ingest queue.\<close>

record fi_row =
  fi_id :: rat
  fi_tenantId :: string
  fi_organisationsnummer :: string
  fi_raw_item :: "rat json option"
  fi_payload_created_at :: "int option"
  fi_snapshot_id :: "string option"

record ingest_row =
  iq_id :: int
  iq_tenantId :: "string option"
  iq_organisationsnummer :: "string option"
  iq_processedAt :: "int option"

record ingest_state =
  in_queue :: "ingest_row list"
  in_links :: "ownership_link list"

definition bv_source :: string where
  "bv_source = ''bolagsverket_fi.organisationsengagemang''"

text \<open>The current links of a company that an earlier ingestion wrote.\<close>

definition bv_current :: "string \<Rightarrow> string \<Rightarrow> ownership_link \<Rightarrow> bool" where
  "bv_current tenantId org l \<longleftrightarrow> lk_tenantId l = tenantId \<and> lk_ownedOrganisationNumber l = org \<and>
     lk_isCurrent l \<and> lk_ingestionSource l = Some bv_source"

definition utc_midnight :: "int \<Rightarrow> int" where
  "utc_midnight t = t div ms_per_day * ms_per_day"

definition voting_note :: string where
  "voting_note = ''Bolagsverket FI did not provide voting % distinct from legal stake for this engagement; graph falls back to legal % where applicable.''"

definition opt_json :: "('a \<Rightarrow> rat json) \<Rightarrow> 'a option \<Rightarrow> rat json" where
  "opt_json f v = (case v of None \<Rightarrow> JNull | Some x \<Rightarrow> f x)"

definition base_lineage :: "fi_row \<Rightarrow> rat json option \<Rightarrow> rat members" where
  "base_lineage fi shareSummary =
     [(''bolagsverket'', JObj [(''fiParsedSnapshotId'', JNum (fi_id fi)),
        (''bvFetchSnapshotId'', opt_json JStr (fi_snapshot_id fi)),
        (''payloadCreatedAt'', opt_json (JStr \<circ> iso_string) (fi_payload_created_at fi)),
        (''shareClassesSummary'', or_default shareSummary JNull)])]"

definition link_of_edge ::
  "int \<Rightarrow> int \<Rightarrow> string \<Rightarrow> rat \<Rightarrow> rat members \<Rightarrow> string \<Rightarrow> owner_edge \<Rightarrow> ownership_link" where
  "link_of_edge now validFromDay tenantId fiSnapshotId baseLineage newId e =
     \<lparr>lk_id = newId, lk_tenantId = tenantId, lk_ownerType = oe_ownerType e, lk_ownerPersonId = None,
      lk_ownerCompanyId = None, lk_ownerName = oe_ownerName e,
      lk_ownerOrganisationNumber = oe_ownerOrganisationNumber e,
      lk_ownerPersonnummer = oe_ownerPersonnummer e, lk_ownedCompanyId = None,
      lk_ownedOrganisationNumber = oe_ownedOrganisationNumber e,
      lk_ownedCompanyName = oe_ownedCompanyName e,
      lk_ownershipPercentage = oe_ownershipPercentage e, lk_ownershipType = Some (oe_ownershipType e),
      lk_ownershipClass = oe_ownershipClass e, lk_controlPercentage = oe_controlPercentage e,
      lk_validFrom = Some validFromDay, lk_validTo = None, lk_isCurrent = True,
      lk_ingestionSource = Some bv_source, lk_fiParsedSnapshotId = Some fiSnapshotId,
      lk_dedupeKey = Some (oe_dedupeKey e),
      lk_sourceData = baseLineage @
        [(''rawEngagement'', JObj (oe_rawEngagement e)),
         (''interpretation'', JObj
           [(''legalOwnershipPct'', opt_json JNum (oe_ownershipPercentage e)),
            (''votingControlPct'', opt_json JNum (oe_controlPercentage e)),
            (''note'', if oe_controlPercentage e = None then JStr voting_note else JNull)])],
      lk_createdAt = now, lk_updatedAt = now\<rparr>"

definition retire_link :: "int \<Rightarrow> int \<Rightarrow> ownership_link \<Rightarrow> ownership_link" where
  "retire_link now validTo l = l\<lparr>lk_isCurrent := False, lk_validTo := Some validTo, lk_updatedAt := now\<rparr>"

text \<open>
  \<open>syncFromLatestFiSnapshot\<close>; \<open>newId i\<close> is the id the database gives the \<open>i\<close>th link.
\<close>

definition sync_from_latest_fi_snapshot ::
  "js_numbers \<Rightarrow> int \<Rightarrow> (nat \<Rightarrow> string) \<Rightarrow> fi_row list \<Rightarrow> string \<Rightarrow> string \<Rightarrow> ownership_link list \<Rightarrow>
   ownership_link list result" where
  "sync_from_latest_fi_snapshot js now newId fis tenantId organisationsnummer links =
     (let safeTenantId = trim tenantId; safeOrg = trim organisationsnummer
      in if safeTenantId = [] \<or> safeOrg = [] then Inr links
         else case find_one (\<lambda>r. fi_tenantId r = safeTenantId \<and> fi_organisationsnummer r = safeOrg) fis of
           None \<Rightarrow> Inr links
         | Some fi \<Rightarrow>
             (case fi_raw_item fi of
                None \<Rightarrow> Inr links
              | Some rawItem \<Rightarrow>
                  if \<not> object_like rawItem then Inr links
                  else (case extract_share_summary rawItem of
                      Inl e \<Rightarrow> Inl e
                    | Inr shareSummary \<Rightarrow>
                        (let edges = extract_ownership_edges js rawItem safeOrg;
                             validFromDay = utc_midnight (or_default (fi_payload_created_at fi) now);
                             retired = update_where (bv_current tenantId safeOrg)
                               (retire_link now validFromDay) links
                         in Inr (retired @ map (\<lambda>(i, e). link_of_edge now validFromDay tenantId (fi_id fi)
                              (base_lineage fi shareSummary) (newId i) e) (enumerate 0 edges))))))"

text \<open>
  \<open>drainIngestQueue\<close>: rows another transaction holds (\<open>locked\<close>) are skipped; the picked rows
  are marked in the transaction that picks them, then synchronised one by one. SQL's \<open>TRIM\<close>
  removes spaces only.
\<close>

definition pick_rows :: "nat \<Rightarrow> (int \<Rightarrow> bool) \<Rightarrow> ingest_row list \<Rightarrow> ingest_row list" where
  "pick_rows batchSize locked queue =
     take batchSize (find_asc (\<lambda>r. iq_processedAt r = None \<and> iq_tenantId r \<noteq> None \<and>
       \<not> locked (iq_id r) \<and>
       (case iq_organisationsnummer r of None \<Rightarrow> False | Some s \<Rightarrow> \<not> list_all (\<lambda>c. c = CHR '' '') s))
       iq_id queue)"

definition mark_processed :: "int \<Rightarrow> ingest_row list \<Rightarrow> ingest_row list \<Rightarrow> ingest_row list" where
  "mark_processed now picked queue =
     update_where (\<lambda>r. iq_id r \<in> iq_id ` set picked) (\<lambda>r. r\<lparr>iq_processedAt := Some now\<rparr>) queue"

definition ingest_one ::
  "js_numbers \<Rightarrow> int \<Rightarrow> (int \<Rightarrow> nat \<Rightarrow> string) \<Rightarrow> fi_row list \<Rightarrow> ingest_row \<Rightarrow>
   nat \<times> ownership_link list \<Rightarrow> nat \<times> ownership_link list" where
  "ingest_one js now newId fis r acc =
     (let (n, links) = acc; tenantId = trim (or_default (iq_tenantId r) []);
          organisationNumber = trim (or_default (iq_organisationsnummer r) [])
      in if tenantId = [] \<or> organisationNumber = [] then (n, links)
         else case sync_from_latest_fi_snapshot js now (newId (iq_id r)) fis tenantId organisationNumber links of
           Inl e \<Rightarrow> (n, links)
         | Inr links' \<Rightarrow> (n + 1, links'))"

definition drain_ingest_queue ::
  "js_numbers \<Rightarrow> int \<Rightarrow> (int \<Rightarrow> nat \<Rightarrow> string) \<Rightarrow> fi_row list \<Rightarrow> nat \<Rightarrow> (int \<Rightarrow> bool) \<Rightarrow>
   ingest_state \<Rightarrow> nat \<times> ingest_state" where
  "drain_ingest_queue js now newId fis batchSize locked st =
     (let picked = pick_rows batchSize locked (in_queue st);
          (n, links) = fold (ingest_one js now newId fis) picked (0, in_links st)
      in (n, \<lparr>in_queue = mark_processed now picked (in_queue st), in_links = links\<rparr>))"

section \<open>What an ingestion leaves\<close>

definition link_facts :: "ownership_link \<Rightarrow> owner_type \<times> string \<times> string option \<times> string option \<times> rat option" where
  "link_facts l = (lk_ownerType l, lk_ownerName l, lk_ownerOrganisationNumber l, lk_ownerPersonnummer l,
     lk_ownershipPercentage l)"

definition edge_facts :: "owner_edge \<Rightarrow> owner_type \<times> string \<times> string option \<times> string option \<times> rat option" where
  "edge_facts e = (oe_ownerType e, oe_ownerName e, oe_ownerOrganisationNumber e, oe_ownerPersonnummer e,
     oe_ownershipPercentage e)"

text \<open>The snapshot the service finds for a company.\<close>

definition has_snapshot :: "fi_row list \<Rightarrow> string \<Rightarrow> string \<Rightarrow> rat json \<Rightarrow> bool" where
  "has_snapshot fis t org raw \<longleftrightarrow> trim t = t \<and> t \<noteq> [] \<and> trim org = org \<and> org \<noteq> [] \<and> object_like raw \<and>
     Option.bind (find_one (\<lambda>r. fi_tenantId r = t \<and> fi_organisationsnummer r = org) fis) fi_raw_item = Some raw"

lemma edge_owned:
  "edge_of_engagement js subject name i e = Some x \<Longrightarrow> oe_ownedOrganisationNumber x = subject"
  by (auto simp: edge_of_engagement_def Let_def split: json.splits option.splits if_splits)

lemma extracted_owned:
  "x \<in> set (extract_ownership_edges js raw org) \<Longrightarrow> oe_ownedOrganisationNumber x = subject_org raw org"
  by (auto simp: extract_ownership_edges_def Let_def List.map_filter_def dest: edge_owned)

lemma map_snd_enumerate: "map (\<lambda>p. f (snd p)) (enumerate n xs) = map f xs"
  by (induction xs arbitrary: n) simp_all

text \<open>The links a synchronisation writes: the old ones retired, then one for every edge.\<close>

lemma sync_shape:
  assumes "has_snapshot fis t org raw"
    and "sync_from_latest_fi_snapshot js now newId fis t org links = Inr links'"
  obtains new validTo where "links' = update_where (bv_current t org) (retire_link now validTo) links @ new"
    and "map link_facts new = map edge_facts (extract_ownership_edges js raw org)"
    and "\<forall>l \<in> set new. bv_current t (subject_org raw org) l"
proof -
  obtain fi where fi: "find_one (\<lambda>r. fi_tenantId r = t \<and> fi_organisationsnummer r = org) fis = Some fi"
    "fi_raw_item fi = Some raw" "object_like raw" "trim t = t" "t \<noteq> []" "trim org = org" "org \<noteq> []"
    using assms(1) by (auto simp: has_snapshot_def bind_eq_Some_conv)
  then obtain s where s: "extract_share_summary raw = Inr s"
    using assms(2) by (auto simp: sync_from_latest_fi_snapshot_def Let_def split: sum.splits)
  define mk where "mk = link_of_edge now (utc_midnight (or_default (fi_payload_created_at fi) now)) t
    (fi_id fi) (base_lineage fi s)"
  define es where "es = extract_ownership_edges js raw org"
  define new where "new = map (\<lambda>(i, e). mk (newId i) e) (enumerate 0 es)"
  have facts: "link_facts (mk i e) = edge_facts e" for i e
    by (simp add: mk_def link_of_edge_def link_facts_def edge_facts_def)
  have cur: "bv_current t (oe_ownedOrganisationNumber e) (mk i e)" for i e
    by (simp add: mk_def link_of_edge_def bv_current_def)
  show thesis
  proof
    show "links' = update_where (bv_current t org)
        (retire_link now (utc_midnight (or_default (fi_payload_created_at fi) now))) links @ new"
      using assms(2) fi s
      by (auto simp: sync_from_latest_fi_snapshot_def Let_def new_def es_def mk_def)
    have "map link_facts new = map (\<lambda>p. edge_facts (snd p)) (enumerate 0 es)"
      by (simp add: new_def facts split_def o_def)
    also have "\<dots> = map edge_facts es"
      by (rule map_snd_enumerate)
    finally show "map link_facts new = map edge_facts (extract_ownership_edges js raw org)"
      by (simp add: es_def)
    show "\<forall>l \<in> set new. bv_current t (subject_org raw org) l"
    proof
      fix l
      assume "l \<in> set new"
      then obtain i e where l: "l = mk (newId i) e" and "(i, e) \<in> set (enumerate 0 es)"
        by (auto simp: new_def)
      then have "e \<in> set es" by (auto simp: in_set_enumerate_eq)
      then show "bv_current t (subject_org raw org) l"
        using cur [of e "newId i"] by (simp add: l es_def extracted_owned)
    qed
  qed
qed

lemma not_current_retired: "\<not> bv_current t o' (retire_link now v l)"
  by (simp add: bv_current_def retire_link_def)

lemma current_retire: "filter (bv_current t org) (update_where (bv_current t org) (retire_link now v) links) = []"
  by (auto simp: filter_empty_conv set_update_where not_current_retired)


section \<open>Snapshots of another number\<close>

lemma other_current_retire:
  assumes "o' \<noteq> org"
  shows "filter (bv_current t o') (update_where (bv_current t org) (retire_link now v) ls) =
    filter (bv_current t o') ls"
proof (induction ls)
  case Nil
  then show ?case by (simp add: update_where_def)
next
  case (Cons l ls)
  have "bv_current t org l \<Longrightarrow> \<not> bv_current t o' l" using assms by (simp add: bv_current_def)
  then show ?case using Cons by (auto simp: update_where_def not_current_retired)
qed

lemma concat_replicate_commute: "concat (replicate n xs) @ xs = xs @ concat (replicate n xs)"
  by (induction n) simp_all

text \<open>\<open>n\<close> ingestions of the same snapshot, one after the other.\<close>

primrec sync_times ::
  "js_numbers \<Rightarrow> int \<Rightarrow> (nat \<Rightarrow> nat \<Rightarrow> string) \<Rightarrow> fi_row list \<Rightarrow> string \<Rightarrow> string \<Rightarrow> nat \<Rightarrow> ownership_link list \<Rightarrow>
   ownership_link list result" where
  "sync_times js now newId fis t org 0 links = Inr links"
| "sync_times js now newId fis t org (Suc n) links =
     (case sync_times js now newId fis t org n links of Inl e \<Rightarrow> Inl e
      | Inr links' \<Rightarrow> sync_from_latest_fi_snapshot js now (newId n) fis t org links')"

text \<open>When the snapshot of a company identifies it by another number than the one it is stored
  under, as it does for a number of twelve digits, which the extraction cuts to its first ten,
  nothing is ever retired: every ingestion adds the extracted owners again as current links, so
  that after \<open>n\<close> of them each owner is current \<open>n\<close> times.
\<close>

theorem foreign_number_links_pile_up:
  assumes "has_snapshot fis t org raw" and "subject_org raw org \<noteq> org"
    and "sync_times js now newId fis t org n [] = Inr links"
  shows "map link_facts (filter (bv_current t (subject_org raw org)) links) =
    concat (replicate n (map edge_facts (extract_ownership_edges js raw org)))"
  using assms(3)
proof (induction n arbitrary: links)
  case 0
  then show ?case by simp
next
  case (Suc n)
  let ?s = "subject_org raw org"
  from Suc.prems obtain old where old: "sync_times js now newId fis t org n [] = Inr old"
    and step: "sync_from_latest_fi_snapshot js now (newId n) fis t org old = Inr links"
    by (auto split: sum.splits)
  from sync_shape [OF assms(1) step] obtain new v where
    n: "links = update_where (bv_current t org) (retire_link now v) old @ new"
      "map link_facts new = map edge_facts (extract_ownership_edges js raw org)"
      "\<forall>l \<in> set new. bv_current t ?s l"
    by metis
  have "filter (bv_current t ?s) new = new" using n(3) by (simp add: filter_id_conv)
  moreover have "filter (bv_current t ?s) (update_where (bv_current t org) (retire_link now v) old) =
      filter (bv_current t ?s) old"
    by (rule other_current_retire [OF assms(2)])
  ultimately have "map link_facts (filter (bv_current t ?s) links) =
      concat (replicate n (map edge_facts (extract_ownership_edges js raw org))) @
      map edge_facts (extract_ownership_edges js raw org)"
    using Suc.IH [OF old] unfolding n(1) filter_append map_append by (simp only: n(2))
  then show ?case by (simp only: concat_replicate_commute replicate_Suc concat.simps)
qed

section \<open>The queue\<close>

definition processed_row :: "int \<Rightarrow> ingest_state \<Rightarrow> bool" where
  "processed_row i st \<longleftrightarrow> (\<forall>r \<in> set (in_queue st). iq_id r = i \<longrightarrow> iq_processedAt r \<noteq> None)"

text \<open>The drains of several workers: each with its time, batch and the rows locked by others.\<close>

type_synonym drain_event = "int \<times> nat \<times> (int \<Rightarrow> bool)"

definition drain_step ::
  "js_numbers \<Rightarrow> (int \<Rightarrow> nat \<Rightarrow> string) \<Rightarrow> fi_row list \<Rightarrow> drain_event \<Rightarrow> ingest_state \<Rightarrow> ingest_state" where
  "drain_step js newId fis e st =
     (let (now, batchSize, locked) = e in snd (drain_ingest_queue js now newId fis batchSize locked st))"

lemma drain_queue:
  "in_queue (snd (drain_ingest_queue js now newId fis b locked st)) =
    mark_processed now (pick_rows b locked (in_queue st)) (in_queue st)"
  by (simp add: drain_ingest_queue_def Let_def split: prod.splits)

lemma processed_row_drain: "processed_row i st \<Longrightarrow> processed_row i (drain_step js newId fis e st)"
  by (auto simp: processed_row_def drain_step_def drain_queue mark_processed_def set_update_where
      split: prod.splits if_splits)

interpretation ingest: invariant_machine "drain_step js newId fis" "processed_row i"
  by unfold_locales (rule processed_row_drain)

lemma picked_row:
  assumes "r \<in> set (pick_rows b locked queue)"
  shows "r \<in> set queue \<and> iq_processedAt r = None"
proof -
  have "r \<in> set (find_asc (\<lambda>r. iq_processedAt r = None \<and> iq_tenantId r \<noteq> None \<and> \<not> locked (iq_id r) \<and>
       (case iq_organisationsnummer r of None \<Rightarrow> False | Some s \<Rightarrow> \<not> list_all (\<lambda>c. c = CHR '' '') s))
       iq_id queue)"
    using assms in_set_takeD unfolding pick_rows_def by fast
  then show ?thesis by (simp add: set_find_asc)
qed

text \<open>A row of the ingest queue is worked on at most once, whether or not its synchronisation
  succeeds: the drain that picks it marks it first, and no later drain, by any worker, with any
  batch size, picks a row of that id again. So a company whose synchronisation failed keeps its old
  links until it is enqueued anew.
\<close>

theorem ingest_at_most_once:
  assumes "r \<in> set (pick_rows b locked (in_queue st))"
  shows "let st' = fold (drain_step js newId fis) es (drain_step js newId fis (now, b, locked) st)
    in \<forall>q \<in> set (pick_rows b' locked' (in_queue st')). iq_id q \<noteq> iq_id r"
proof -
  have "processed_row (iq_id r) (drain_step js newId fis (now, b, locked) st)"
    using assms by (auto simp: processed_row_def drain_step_def drain_queue mark_processed_def set_update_where)
  then have p: "processed_row (iq_id r)
      (fold (drain_step js newId fis) es (drain_step js newId fis (now, b, locked) st))"
    by (rule ingest.run_inv)
  show ?thesis
    unfolding Let_def
  proof
    fix q
    assume "q \<in> set (pick_rows b' locked' (in_queue
      (fold (drain_step js newId fis) es (drain_step js newId fis (now, b, locked) st))))"
    from picked_row [OF this] p show "iq_id q \<noteq> iq_id r" by (auto simp: processed_row_def)
  qed
qed

section \<open>Witnesses\<close>

definition sample_numbers :: js_numbers where
  "sample_numbers = \<lparr>number_text = (\<lambda>_. []), number_value = (\<lambda>s. if s = ''60'' then Some 60 else None)\<rparr>"

definition sample_item :: "string \<Rightarrow> rat json" where
  "sample_item org =
     JObj [(''identitet'', JObj [(''identitetsbeteckning'', JStr org)]),
       (''organisationsengagemang'', JObj [(''funktionarsOrganisationsengagemang'',
         JArr [JObj [(''funktionar'', JObj [(''insats'', JStr ''60 %''), (''namn'', JStr ''Anna'')])]])])]"

definition sample_fi :: "string \<Rightarrow> fi_row" where
  "sample_fi org = \<lparr>fi_id = 7, fi_tenantId = ''t1'', fi_organisationsnummer = org,
     fi_raw_item = Some (sample_item org), fi_payload_created_at = Some 0, fi_snapshot_id = None\<rparr>"

lemma sample_subject:
  "subject_org (sample_item ''5560001234'') ''5560001234'' = ''5560001234''"
  "subject_org (sample_item ''195560001234'') ''195560001234'' = ''1955600012''"
  by code_simp+

lemma sample_edges:
  "map edge_facts (extract_ownership_edges sample_numbers (sample_item ''5560001234'') ''5560001234'') =
    [(PersonOwner, ''Anna'', None, None, Some 60)]"
  "map edge_facts (extract_ownership_edges sample_numbers (sample_item ''195560001234'') ''195560001234'') =
    [(PersonOwner, ''Anna'', None, None, Some 60)]"
  by code_simp+

lemma sample_has_snapshot:
  "has_snapshot [sample_fi ''5560001234''] ''t1'' ''5560001234'' (sample_item ''5560001234'')"
  "has_snapshot [sample_fi ''195560001234''] ''t1'' ''195560001234'' (sample_item ''195560001234'')"
  by (simp_all add: has_snapshot_def sample_fi_def sample_item_def find_one_def trim_def is_space_def code_def)

lemma sample_sync:
  assumes "has_snapshot [sample_fi org] ''t1'' org (sample_item org)"
  shows "\<exists>links'. sync_from_latest_fi_snapshot js 0 newId [sample_fi org] ''t1'' org links = Inr links'"
proof -
  have "extract_share_summary (sample_item org) = Inr None"
    by (simp add: sample_item_def extract_share_summary_def items_of_def Let_def)
  then show ?thesis
    using assms by (auto simp: has_snapshot_def sync_from_latest_fi_snapshot_def Let_def bind_eq_Some_conv)
qed


theorem foreign_number_links_pile_up_witness:
  "\<exists>links. sync_times sample_numbers 0 (\<lambda>_ _. ''n1'') [sample_fi ''195560001234''] ''t1''
       ''195560001234'' 2 [] = Inr links \<and>
     map link_facts (filter (bv_current ''t1'' ''1955600012'') links) =
       [(PersonOwner, ''Anna'', None, None, Some 60), (PersonOwner, ''Anna'', None, None, Some 60)]"
proof -
  let ?f = "sync_times sample_numbers 0 (\<lambda>_ _. ''n1'') [sample_fi ''195560001234''] ''t1'' ''195560001234''"
  obtain l1 where "?f (Suc 0) [] = Inr l1"
    using sample_sync [OF sample_has_snapshot(2)] by fastforce
  then obtain l2 where l: "?f 2 [] = Inr l2"
    using sample_sync [OF sample_has_snapshot(2)] by (fastforce simp: numeral_2_eq_2)
  have "subject_org (sample_item ''195560001234'') ''195560001234'' \<noteq> ''195560001234''"
    by (simp add: sample_subject)
  from foreign_number_links_pile_up [OF sample_has_snapshot(2) this l] l
  show ?thesis by (simp add: sample_edges sample_subject numeral_2_eq_2)
qed

definition sample_queue :: ingest_state where
  "sample_queue = \<lparr>in_queue = [\<lparr>iq_id = 1, iq_tenantId = Some ''t1'',
     iq_organisationsnummer = Some ''5560001234'', iq_processedAt = None\<rparr>], in_links = []\<rparr>"

theorem ingest_at_most_once_witness:
  "pick_rows 25 (\<lambda>_. False) (in_queue sample_queue) \<noteq> [] \<and>
   (let st' = fold (drain_step sample_numbers (\<lambda>_ _. ''n1'') []) [(5, 25, \<lambda>_. False)]
        (drain_step sample_numbers (\<lambda>_ _. ''n1'') [] (0, 25, \<lambda>_. False) sample_queue)
    in \<forall>q \<in> set (pick_rows 25 (\<lambda>_. False) (in_queue st')). iq_id q \<noteq> 1)"
proof -
  have "pick_rows 25 (\<lambda>_. False) (in_queue sample_queue) = in_queue sample_queue"
    by (simp add: pick_rows_def find_asc_def sample_queue_def)
  then show ?thesis
    using ingest_at_most_once [of "hd (in_queue sample_queue)" 25 "\<lambda>_. False" sample_queue
        sample_numbers "\<lambda>_ _. ''n1''" "[]" "[(5, 25, \<lambda>_. False)]" 0 25 "\<lambda>_. False"]
    by (simp add: sample_queue_def)
qed

end
