(* ===== verification/Workplaces.thy ===== *)
theory Workplaces
  imports JsonCompare AuditTrail
begin

text \<open>
  The workplaces of a company: \<open>createWorkplace\<close> and \<open>listWorkplaces\<close> of
  backend/src/ownership/ownership.service.ts.
\<close>

section \<open>Data\<close>

record workplace =
  wp_id :: string
  wp_tenantId :: string
  wp_organisationNumber :: string
  wp_companyId :: "string option"
  wp_cfarNumber :: "string option"
  wp_workplaceName :: "string option"
  wp_phone :: "string option"
  wp_email :: "string option"
  wp_postalAddress :: "rat members"
  wp_deliveryAddress :: "rat members option"
  wp_coordinates :: "rat members option"
  wp_municipalityCode :: "string option"
  wp_municipalityName :: "string option"
  wp_countyCode :: "string option"
  wp_countyName :: "string option"
  wp_industryCode :: "string option"
  wp_industryDescription :: "string option"
  wp_isActive :: bool
  wp_sourceData :: "rat members"
  wp_createdAt :: int
  wp_updatedAt :: int

record create_workplace_dto =
  wd_organisationNumber :: string
  wd_companyId :: "string option"
  wd_cfarNumber :: "string option"
  wd_workplaceName :: "string option"
  wd_phone :: "string option"
  wd_email :: "string option"
  wd_postalAddress :: "rat members option"
  wd_deliveryAddress :: "rat members option"
  wd_coordinates :: "rat members option"
  wd_municipalityCode :: "string option"
  wd_municipalityName :: "string option"
  wd_countyCode :: "string option"
  wd_countyName :: "string option"
  wd_industryCode :: "string option"
  wd_industryDescription :: "string option"
  wd_isActive :: "bool option"
  wd_sourceData :: "rat members option"

record workplace_store =
  ws_workplaces :: "workplace list"
  ws_audit :: audit_store

section \<open>Operations\<close>

definition workplace_dto_json :: "create_workplace_dto \<Rightarrow> rat members" where
  "workplace_dto_json d =
     [(''organisationNumber'', JStr (wd_organisationNumber d))] @
     opt_member ''companyId'' (map_option JStr (wd_companyId d)) @
     opt_member ''cfarNumber'' (map_option JStr (wd_cfarNumber d)) @
     opt_member ''workplaceName'' (map_option JStr (wd_workplaceName d)) @
     opt_member ''phone'' (map_option JStr (wd_phone d)) @
     opt_member ''email'' (map_option JStr (wd_email d)) @
     opt_member ''postalAddress'' (map_option JObj (wd_postalAddress d)) @
     opt_member ''deliveryAddress'' (map_option JObj (wd_deliveryAddress d)) @
     opt_member ''coordinates'' (map_option JObj (wd_coordinates d)) @
     opt_member ''municipalityCode'' (map_option JStr (wd_municipalityCode d)) @
     opt_member ''municipalityName'' (map_option JStr (wd_municipalityName d)) @
     opt_member ''countyCode'' (map_option JStr (wd_countyCode d)) @
     opt_member ''countyName'' (map_option JStr (wd_countyName d)) @
     opt_member ''industryCode'' (map_option JStr (wd_industryCode d)) @
     opt_member ''industryDescription'' (map_option JStr (wd_industryDescription d)) @
     opt_member ''isActive'' (map_option JBool (wd_isActive d)) @
     opt_member ''sourceData'' (map_option JObj (wd_sourceData d))"

definition create_workplace ::
  "int \<Rightarrow> string \<Rightarrow> string \<Rightarrow> string option \<Rightarrow> create_workplace_dto \<Rightarrow> workplace_store \<Rightarrow>
   workplace \<times> workplace_store" where
  "create_workplace now newId tenantId actorId d st =
     (let w = \<lparr>wp_id = newId, wp_tenantId = tenantId,
            wp_organisationNumber = wd_organisationNumber d, wp_companyId = wd_companyId d,
            wp_cfarNumber = wd_cfarNumber d, wp_workplaceName = wd_workplaceName d,
            wp_phone = wd_phone d, wp_email = wd_email d,
            wp_postalAddress = or_default (wd_postalAddress d) [],
            wp_deliveryAddress = wd_deliveryAddress d, wp_coordinates = wd_coordinates d,
            wp_municipalityCode = wd_municipalityCode d,
            wp_municipalityName = wd_municipalityName d, wp_countyCode = wd_countyCode d,
            wp_countyName = wd_countyName d, wp_industryCode = wd_industryCode d,
            wp_industryDescription = wd_industryDescription d,
            wp_isActive = or_default (wd_isActive d) True,
            wp_sourceData = or_default (wd_sourceData d) [],
            wp_createdAt = now, wp_updatedAt = now\<rparr>
      in (w, st\<lparr>ws_workplaces := ws_workplaces st @ [w],
            ws_audit := audit_log \<lparr>al_tenantId = tenantId, al_actorId = actorId,
              al_action = ''ownership.workplace.created'', al_resourceType = ''workplace'',
              al_resourceId = newId, al_metadata = Some (workplace_dto_json d)\<rparr> (ws_audit st)\<rparr>))"

definition list_workplaces :: "string \<Rightarrow> string option \<Rightarrow> workplace_store \<Rightarrow> workplace list" where
  "list_workplaces tenantId org st =
     find_desc (\<lambda>w. wp_tenantId w = tenantId \<and>
       (truthy_str org \<longrightarrow> Some (wp_organisationNumber w) = org)) wp_createdAt (ws_workplaces st)"

text \<open>A created workplace is listed for its tenant and number, and for no other tenant.\<close>

lemma created_workplace_listed:
  assumes "create_workplace now newId tenantId actorId d st = (w, st')"
  shows "set (list_workplaces tenantId (Some (wd_organisationNumber d)) st') =
      insert w (set (list_workplaces tenantId (Some (wd_organisationNumber d)) st)) \<and>
    (t \<noteq> tenantId \<longrightarrow> list_workplaces t org st' = list_workplaces t org st)"
  using assms
  by (auto simp: create_workplace_def list_workplaces_def set_find_desc find_desc_def Let_def)

end
