(* ===== verification/TargetLists.thy ===== *)
theory TargetLists
  imports AuditTrail Dates
begin

text \<open>
  \<open>TargetListsService\<close> (backend/src/companies/services/target-lists.service.ts): named lists of
  companies per tenant, their items and playbook.
\<close>

section \<open>Data\<close>

record target_list =
  tl_id :: string
  tl_tenantId :: string
  tl_name :: string
  tl_createdByUserId :: "string option"
  tl_playbook :: "rat members"
  tl_createdAt :: int
  tl_updatedAt :: int

record target_item =
  ti_id :: string
  ti_tenantId :: string
  ti_targetListId :: string
  ti_organisationNumber :: string
  ti_dealMode :: "string option"
  ti_sourcingSnapshot :: "rat members"
  ti_createdAt :: int

record target_store =
  ts_lists :: "target_list list"
  ts_items :: "target_item list"
  ts_audit :: audit_store

definition no_targets :: target_store where
  "no_targets = \<lparr>ts_lists = [], ts_items = [], ts_audit = empty_audit\<rparr>"

section \<open>Operations\<close>

definition normalize_org_number :: "string \<Rightarrow> string" where
  "normalize_org_number raw = or_default (nonempty (digits_only raw)) raw"

definition target_log ::
  "string \<Rightarrow> string option \<Rightarrow> string \<Rightarrow> string \<Rightarrow> string \<Rightarrow> rat members option \<Rightarrow>
   target_store \<Rightarrow> target_store" where
  "target_log tenantId actorId action resourceType resourceId metadata st =
     st\<lparr>ts_audit := audit_log \<lparr>al_tenantId = tenantId, al_actorId = actorId, al_action = action,
       al_resourceType = resourceType, al_resourceId = resourceId, al_metadata = metadata\<rparr>
       (ts_audit st)\<rparr>"

definition create_list ::
  "int \<Rightarrow> string \<Rightarrow> string \<Rightarrow> string option \<Rightarrow> string \<Rightarrow> target_store \<Rightarrow> target_list \<times> target_store"
where
  "create_list now newId tenantId actorId name st =
     (let l = \<lparr>tl_id = newId, tl_tenantId = tenantId, tl_name = trim name,
            tl_createdByUserId = actorId, tl_playbook = [], tl_createdAt = now, tl_updatedAt = now\<rparr>
      in (l, target_log tenantId actorId ''target_list.created'' ''target_list'' newId
            (Some [(''name'', JStr (tl_name l))]) (st\<lparr>ts_lists := ts_lists st @ [l]\<rparr>)))"

definition list_orgs :: "string \<Rightarrow> string \<Rightarrow> target_store \<Rightarrow> string list" where
  "list_orgs tenantId listId st =
     map ti_organisationNumber
       (find_asc (\<lambda>i. ti_tenantId i = tenantId \<and> ti_targetListId i = listId) ti_createdAt (ts_items st))"

text \<open>
  \<open>listLists\<close> loads the items of all lists in one query and groups them; per list that is the
  query of its items.
\<close>

definition list_lists :: "string \<Rightarrow> target_store \<Rightarrow> (target_list \<times> string list) list" where
  "list_lists tenantId st =
     (let tls = find_desc (\<lambda>l. tl_tenantId l = tenantId) tl_updatedAt (ts_lists st);
          ids = map tl_id tls;
          items = find_asc (\<lambda>i. ti_tenantId i = tenantId \<and> ti_targetListId i \<in> set ids)
            ti_createdAt (ts_items st)
      in map (\<lambda>l. (l, map ti_organisationNumber
            (filter (\<lambda>i. ti_targetListId i = tl_id l) items))) tls)"

definition find_list :: "string \<Rightarrow> string \<Rightarrow> target_store \<Rightarrow> target_list option" where
  "find_list tenantId listId st =
     find_one (\<lambda>l. tl_id l = listId \<and> tl_tenantId l = tenantId) (ts_lists st)"

definition find_item :: "string \<Rightarrow> string \<Rightarrow> string \<Rightarrow> target_item list \<Rightarrow> target_item option" where
  "find_item tenantId listId org items =
     find_one (\<lambda>i. ti_tenantId i = tenantId \<and> ti_targetListId i = listId \<and>
       ti_organisationNumber i = org) items"

definition list_not_found :: "'a result" where
  "list_not_found = Inl (NotFound ''Target list not found'')"

definition delete_list ::
  "string \<Rightarrow> string option \<Rightarrow> string \<Rightarrow> target_store \<Rightarrow> string result \<times> target_store" where
  "delete_list tenantId actorId listId st =
     (case find_list tenantId listId st of
        None \<Rightarrow> (list_not_found, st)
      | Some _ \<Rightarrow>
          (Inr listId, target_log tenantId actorId ''target_list.deleted'' ''target_list'' listId None
             (st\<lparr>ts_items := delete_where (\<lambda>i. ti_tenantId i = tenantId \<and> ti_targetListId i = listId)
                  (ts_items st),
                 ts_lists := delete_where (\<lambda>l. tl_id l = listId \<and> tl_tenantId l = tenantId)
                  (ts_lists st)\<rparr>)))"

text \<open>One number of \<open>addItemsBulk\<close>; \<open>newId\<close> gives the id of the n-th number's row.\<close>

definition valid_org :: "string \<Rightarrow> bool" where
  "valid_org org \<longleftrightarrow> length org = 10 \<or> length org = 12"

definition bulk_step ::
  "int \<Rightarrow> string \<Rightarrow> string \<Rightarrow> string option \<Rightarrow> string \<times> string \<Rightarrow>
   nat \<times> target_item list \<times> target_item list \<Rightarrow> nat \<times> target_item list \<times> target_item list" where
  "bulk_step now tenantId listId dealMode idAndRaw acc =
     (let (newId, raw) = idAndRaw;
          (skipped, saved, items) = acc;
          org = normalize_org_number raw
      in if \<not> valid_org org \<or> find_item tenantId listId org items \<noteq> None
         then (skipped + 1, saved, items)
         else (let item = \<lparr>ti_id = newId, ti_tenantId = tenantId, ti_targetListId = listId,
                     ti_organisationNumber = org, ti_dealMode = dealMode,
                     ti_sourcingSnapshot = (if truthy_str dealMode
                       then [(''dealMode'', json_str dealMode), (''addedAt'', JStr (iso_string now))]
                       else []),
                     ti_createdAt = now\<rparr>
               in (skipped, saved @ [item], items @ [item])))"

definition add_items_bulk ::
  "int \<Rightarrow> (nat \<Rightarrow> string) \<Rightarrow> string \<Rightarrow> string option \<Rightarrow> string \<Rightarrow> string list \<Rightarrow> string option \<Rightarrow>
   target_store \<Rightarrow> (nat \<times> nat \<times> target_item list) result \<times> target_store" where
  "add_items_bulk now newIds tenantId actorId listId orgs dealMode st =
     (case find_list tenantId listId st of
        None \<Rightarrow> (list_not_found, st)
      | Some _ \<Rightarrow>
          (let (skipped, saved, items) =
                 fold (bulk_step now tenantId listId dealMode)
                   (zip (map newIds [0..<length orgs]) orgs) (0, [], ts_items st);
               added = length saved
           in (Inr (added, skipped, saved),
               target_log tenantId actorId ''target_list.items_bulk_added'' ''target_list'' listId
                 (Some [(''added'', JNum (of_nat added)), (''skipped'', JNum (of_nat skipped)),
                        (''requested'', JNum (of_nat (length orgs))),
                        (''deal_mode'', json_str dealMode)])
                 (st\<lparr>ts_items := items\<rparr>))))"

definition update_playbook ::
  "int \<Rightarrow> string \<Rightarrow> string option \<Rightarrow> string \<Rightarrow> string option \<Rightarrow> string option \<Rightarrow>
   target_store \<Rightarrow> target_list result \<times> target_store" where
  "update_playbook now tenantId actorId listId dealMode thesis st =
     (case find_list tenantId listId st of
        None \<Rightarrow> (list_not_found, st)
      | Some l \<Rightarrow>
          (let next = spread (tl_playbook l)
                 ((if truthy_str dealMode then [(''dealMode'', json_str dealMode)] else []) @
                  (if truthy_str thesis then [(''thesis'', json_str thesis)] else []) @
                  [(''updatedAt'', JStr (iso_string now)), (''updatedBy'', json_str actorId)]);
               l' = l\<lparr>tl_playbook := next, tl_updatedAt := now\<rparr>
           in (Inr l', target_log tenantId actorId ''target_list.playbook_updated'' ''target_list'' listId
                 (Some [(''deal_mode'', json_str dealMode)])
                 (st\<lparr>ts_lists := save tl_id l' (ts_lists st)\<rparr>))))"

definition add_item ::
  "int \<Rightarrow> string \<Rightarrow> string \<Rightarrow> string option \<Rightarrow> string \<Rightarrow> string \<Rightarrow> target_store \<Rightarrow>
   target_item result \<times> target_store" where
  "add_item now newId tenantId actorId listId raw st =
     (case find_list tenantId listId st of
        None \<Rightarrow> (list_not_found, st)
      | Some _ \<Rightarrow>
          (let org = normalize_org_number raw
           in case find_item tenantId listId org (ts_items st) of
                Some i \<Rightarrow> (Inr i, st)
              | None \<Rightarrow>
                  (let i = \<lparr>ti_id = newId, ti_tenantId = tenantId, ti_targetListId = listId,
                         ti_organisationNumber = org, ti_dealMode = None, ti_sourcingSnapshot = [],
                         ti_createdAt = now\<rparr>
                   in (Inr i, target_log tenantId actorId ''target_list.item_added''
                         ''target_list_item'' newId
                         (Some [(''targetListId'', JStr listId), (''organisationNumber'', JStr org)])
                         (st\<lparr>ts_items := ts_items st @ [i]\<rparr>)))))"

definition remove_item ::
  "string \<Rightarrow> string option \<Rightarrow> string \<Rightarrow> string \<Rightarrow> target_store \<Rightarrow> string \<times> target_store" where
  "remove_item tenantId actorId listId raw st =
     (let org = normalize_org_number raw
      in (org, target_log tenantId actorId ''target_list.item_removed'' ''target_list_item''
            (listId @ '':'' @ org)
            (Some [(''targetListId'', JStr listId), (''organisationNumber'', JStr org)])
            (st\<lparr>ts_items := delete_where (\<lambda>i. ti_tenantId i = tenantId \<and> ti_targetListId i = listId \<and>
               ti_organisationNumber i = org) (ts_items st)\<rparr>)))"

section \<open>Runs\<close>

datatype target_op =
    CreateList int string string "string option" string
  | DeleteList string "string option" string
  | AddItems int "nat \<Rightarrow> string" string "string option" string "string list" "string option"
  | UpdatePlaybook int string "string option" string "string option" "string option"
  | AddItem int string string "string option" string string
  | RemoveItem string "string option" string string

text \<open>The primary key refuses a list id that is taken.\<close>

fun target_step :: "target_op \<Rightarrow> target_store \<Rightarrow> target_store" where
  "target_step (CreateList now newId t a name) st =
     (if newId \<in> tl_id ` set (ts_lists st) then st else snd (create_list now newId t a name st))"
| "target_step (DeleteList t a l) st = snd (delete_list t a l st)"
| "target_step (AddItems now newIds t a l orgs mode) st = snd (add_items_bulk now newIds t a l orgs mode st)"
| "target_step (UpdatePlaybook now t a l mode thesis) st = snd (update_playbook now t a l mode thesis st)"
| "target_step (AddItem now newId t a l raw) st = snd (add_item now newId t a l raw st)"
| "target_step (RemoveItem t a l raw) st = snd (remove_item t a l raw st)"

fun target_tenant :: "target_op \<Rightarrow> string" where
  "target_tenant (CreateList now newId t a name) = t"
| "target_tenant (DeleteList t a l) = t"
| "target_tenant (AddItems now newIds t a l orgs mode) = t"
| "target_tenant (UpdatePlaybook now t a l mode thesis) = t"
| "target_tenant (AddItem now newId t a l raw) = t"
| "target_tenant (RemoveItem t a l raw) = t"

definition item_key :: "target_item \<Rightarrow> string \<times> string \<times> string" where
  "item_key i = (ti_tenantId i, ti_targetListId i, ti_organisationNumber i)"

definition item_listed :: "target_list list \<Rightarrow> target_item \<Rightarrow> bool" where
  "item_listed tls i \<longleftrightarrow> (\<exists>l \<in> set tls. tl_id l = ti_targetListId i \<and> tl_tenantId l = ti_tenantId i)"

definition targets_ok :: "target_store \<Rightarrow> bool" where
  "targets_ok st \<longleftrightarrow> unique_keys tl_id (ts_lists st) \<and> unique_keys item_key (ts_items st) \<and>
     (\<forall>i \<in> set (ts_items st). item_listed (ts_lists st) i)"

lemma target_log_frame [simp]:
  "ts_lists (target_log t a act rt ri m st) = ts_lists st"
  "ts_items (target_log t a act rt ri m st) = ts_items st"
  by (simp_all add: target_log_def)

lemma unique_keys_snoc [simp]:
  "unique_keys key (t @ [r]) \<longleftrightarrow> unique_keys key t \<and> key r \<notin> key ` set t"
  by (auto simp: unique_keys_def)

lemma unique_keys_delete: "unique_keys key t \<Longrightarrow> unique_keys key (delete_where p t)"
  by (simp add: unique_keys_def delete_where_def distinct_map_filter)

lemma find_item_None: "find_item t l org items = None \<longleftrightarrow> (t, l, org) \<notin> item_key ` set items"
  by (auto simp: find_item_def find_one_None_iff item_key_def)

text \<open>What the loop of \<open>addItemsBulk\<close> does to the items and its counters.\<close>

definition bulk_keys :: "string \<Rightarrow> string \<Rightarrow> string list \<Rightarrow> (string \<times> string \<times> string) set" where
  "bulk_keys t l raws = (\<lambda>org. (t, l, org)) ` {org \<in> normalize_org_number ` set raws. valid_org org}"

lemma bulk_keys_Nil [simp]: "bulk_keys t l [] = {}"
  by (simp add: bulk_keys_def)

lemma bulk_keys_Cons:
  "bulk_keys t l (raw # raws) =
     (if valid_org (normalize_org_number raw) then insert (t, l, normalize_org_number raw) else id)
       (bulk_keys t l raws)"
  by (auto simp: bulk_keys_def)

definition bulk_effect ::
  "string \<Rightarrow> string \<Rightarrow> string list \<Rightarrow> nat \<Rightarrow> target_item list \<Rightarrow> nat \<Rightarrow> target_item list \<Rightarrow>
   target_item list \<Rightarrow> bool" where
  "bulk_effect tenantId listId raws skipped items skipped' new items' \<longleftrightarrow>
     items' = items @ new \<and> skipped' + length new = skipped + length raws \<and>
     (\<forall>i \<in> set new. ti_tenantId i = tenantId \<and> ti_targetListId i = listId) \<and>
     (unique_keys item_key items \<longrightarrow> unique_keys item_key items') \<and>
     item_key ` set items' = item_key ` set items \<union> bulk_keys tenantId listId raws"

lemma bulk_effect_skip:
  assumes "bulk_effect t l raws (skipped + 1) items skipped' new items'"
    and "\<not> valid_org (normalize_org_number raw) \<or> (t, l, normalize_org_number raw) \<in> item_key ` set items"
  shows "bulk_effect t l (raw # raws) skipped items skipped' new items'"
  using assms unfolding bulk_effect_def by (auto simp: bulk_keys_Cons)

lemma bulk_effect_add:
  assumes eff: "bulk_effect t l raws skipped (items @ [i]) skipped' new items'"
    and "valid_org (normalize_org_number raw)" "(t, l, normalize_org_number raw) \<notin> item_key ` set items"
    and i: "item_key i = (t, l, normalize_org_number raw)"
  shows "bulk_effect t l (raw # raws) skipped items skipped' (i # new) items'"
proof -
  have k: "item_key ` set items' = item_key ` set (items @ [i]) \<union> bulk_keys t l raws"
    "items' = (items @ [i]) @ new" "skipped' + length new = skipped + length raws"
    "\<forall>i \<in> set new. ti_tenantId i = t \<and> ti_targetListId i = l"
    "unique_keys item_key (items @ [i]) \<longrightarrow> unique_keys item_key items'"
    using eff unfolding bulk_effect_def by blast+
  have "item_key ` set items' = item_key ` set items \<union> bulk_keys t l (raw # raws)"
    unfolding k(1) using i assms(2) by (simp add: bulk_keys_Cons)
  moreover have "ti_tenantId i = t \<and> ti_targetListId i = l" using i by (simp add: item_key_def)
  moreover have "unique_keys item_key items \<longrightarrow> unique_keys item_key items'"
    using assms(3) i k(5) by simp
  ultimately show ?thesis using k(2-4) unfolding bulk_effect_def by simp
qed

lemma bulk_fold:
  assumes "fold (bulk_step now tenantId listId mode) ps (skipped, saved, items) = (skipped', saved', items')"
  shows "\<exists>new. saved' = saved @ new \<and>
    bulk_effect tenantId listId (map snd ps) skipped items skipped' new items'"
  using assms
proof (induction ps arbitrary: skipped saved items)
  case Nil
  then show ?case by (simp add: bulk_effect_def)
next
  case (Cons p ps)
  obtain newId raw where p: "p = (newId, raw)" by (cases p)
  let ?org = "normalize_org_number raw"
  show ?case
  proof (cases "\<not> valid_org ?org \<or> find_item tenantId listId ?org items \<noteq> None")
    case True
    then have "bulk_step now tenantId listId mode p (skipped, saved, items) = (skipped + 1, saved, items)"
      by (simp add: bulk_step_def p Let_def)
    from Cons.IH [OF Cons.prems [simplified fold_Cons comp_apply, unfolded this]]
    obtain new where "saved' = saved @ new"
      "bulk_effect tenantId listId (map snd ps) (skipped + 1) items skipped' new items'" by blast
    moreover have "\<not> valid_org ?org \<or> (tenantId, listId, ?org) \<in> item_key ` set items"
      using True find_item_None [of tenantId listId ?org items] by simp
    ultimately show ?thesis using bulk_effect_skip p by fastforce
  next
    case False
    then obtain item where step: "bulk_step now tenantId listId mode p (skipped, saved, items) =
        (skipped, saved @ [item], items @ [item])" and key: "item_key item = (tenantId, listId, ?org)"
      by (simp add: bulk_step_def p Let_def item_key_def)
    from Cons.IH [OF Cons.prems [simplified fold_Cons comp_apply, unfolded step]]
    obtain new where new: "saved' = (saved @ [item]) @ new"
      "bulk_effect tenantId listId (map snd ps) skipped (items @ [item]) skipped' new items'" by blast
    have "bulk_effect tenantId listId (raw # map snd ps) skipped items skipped' (item # new) items'"
      by (rule bulk_effect_add [OF new(2) _ _ key])
        (use False find_item_None [of tenantId listId ?org items] in simp_all)
    then show ?thesis using new(1) p by auto
  qed
qed

lemma find_list_SomeD:
  "find_list t l st = Some r \<Longrightarrow> r \<in> set (ts_lists st) \<and> tl_id r = l \<and> tl_tenantId r = t"
  by (auto simp: find_list_def dest: find_one_SomeD)

lemma add_items_bulk_eq:
  assumes "add_items_bulk now newIds tenantId actorId listId orgs mode st = (Inr (added, skipped, saved), st')"
  shows "find_list tenantId listId st \<noteq> None \<and> added = length saved \<and> ts_lists st' = ts_lists st \<and>
    fold (bulk_step now tenantId listId mode) (zip (map newIds [0..<length orgs]) orgs)
      (0, [], ts_items st) = (skipped, saved, ts_items st')"
  using assms
  by (auto simp: add_items_bulk_def list_not_found_def Let_def split: option.splits prod.splits)

lemma add_items_bulk_new:
  assumes "add_items_bulk now newIds t a l orgs mode st = (Inr (added, skipped, saved), st')"
  shows "ts_items st' = ts_items st @ saved \<and>
    (\<forall>i \<in> set saved. ti_tenantId i = t \<and> ti_targetListId i = l) \<and>
    (unique_keys item_key (ts_items st) \<longrightarrow> unique_keys item_key (ts_items st'))"
  using bulk_fold [of now t l mode _ 0 "[]" "ts_items st" skipped saved "ts_items st'"]
    add_items_bulk_eq [OF assms]
  by (auto simp: bulk_effect_def)

lemma add_items_bulk_found:
  assumes "find_list t l st \<noteq> None"
  shows "\<exists>added skipped saved st'. add_items_bulk now newIds t a l orgs mode st =
      (Inr (added, skipped, saved), st')"
proof -
  obtain skipped saved items where "fold (bulk_step now t l mode)
      (zip (map newIds [0..<length orgs]) orgs) (0, [], ts_items st) = (skipped, saved, items)"
    by (rule prod_cases3)
  then show ?thesis using assms by (auto simp: add_items_bulk_def Let_def)
qed

lemma add_items_bulk_cases:
  obtains "add_items_bulk now newIds t a l orgs mode st = (list_not_found, st)"
  | added skipped saved st' where
    "add_items_bulk now newIds t a l orgs mode st = (Inr (added, skipped, saved), st')"
proof (cases "find_list t l st")
  case None
  then show thesis using that(1) by (simp add: add_items_bulk_def)
next
  case (Some r)
  then show thesis using add_items_bulk_found that(2) by (metis option.distinct(1))
qed

lemma item_listed_save:
  "unique_keys tl_id tls \<Longrightarrow> l \<in> set tls \<Longrightarrow> tl_id l' = tl_id l \<Longrightarrow> tl_tenantId l' = tl_tenantId l \<Longrightarrow>
    item_listed tls i \<Longrightarrow> item_listed (save tl_id l' tls) i"
  unfolding item_listed_def by (auto simp: set_save dest: unique_keysD)

lemma targets_ok_step:
  assumes ok: "targets_ok st"
  shows "targets_ok (target_step e st)"
proof (cases e)
  case (CreateList now newId t a name)
  then show ?thesis using ok
    by (auto simp: targets_ok_def create_list_def Let_def item_listed_def)
next
  case (DeleteList t a l)
  show ?thesis
  proof (cases "find_list t l st")
    case None
    then show ?thesis using ok DeleteList by (simp add: delete_list_def)
  next
    case (Some r)
    have "item_listed (delete_where (\<lambda>l'. tl_id l' = l \<and> tl_tenantId l' = t) (ts_lists st)) i"
      if i: "i \<in> set (ts_items st)" "\<not> (ti_tenantId i = t \<and> ti_targetListId i = l)" for i
    proof -
      obtain l' where "l' \<in> set (ts_lists st)" "tl_id l' = ti_targetListId i" "tl_tenantId l' = ti_tenantId i"
        using ok i(1) unfolding targets_ok_def item_listed_def by blast
      then show ?thesis using i(2) by (auto simp: item_listed_def)
    qed
    then show ?thesis using ok Some
      by (simp add: DeleteList delete_list_def targets_ok_def unique_keys_delete)
  qed
next
  case (AddItems now newIds t a l orgs mode)
  show ?thesis
  proof (cases rule: add_items_bulk_cases [of now newIds t a l orgs mode st])
    case 1
    then show ?thesis using ok AddItems by simp
  next
    case (2 added skipped saved st')
    note E = add_items_bulk_eq [OF 2]
    obtain r where r: "r \<in> set (ts_lists st)" "tl_id r = l" "tl_tenantId r = t"
      using E find_list_SomeD by blast
    note new = add_items_bulk_new [OF 2]
    have "item_listed (ts_lists st) i" if "i \<in> set saved" for i
      using that new r by (auto simp: item_listed_def)
    then have "targets_ok st'" using ok E new by (auto simp: targets_ok_def)
    then show ?thesis using 2 AddItems by simp
  qed
next
  case (UpdatePlaybook now t a l mode thesis)
  show ?thesis
  proof (cases "find_list t l st")
    case None
    then show ?thesis using ok UpdatePlaybook by (simp add: update_playbook_def list_not_found_def)
  next
    case (Some r)
    then show ?thesis using ok find_list_SomeD [OF Some]
      by (auto simp: UpdatePlaybook update_playbook_def targets_ok_def Let_def unique_keys_save
          intro!: item_listed_save)
  qed
next
  case (AddItem now newId t a l raw)
  show ?thesis
  proof (cases "find_list t l st")
    case None
    then show ?thesis using ok AddItem by (simp add: add_item_def list_not_found_def)
  next
    case (Some r)
    have "item_listed (ts_lists st) i" if "ti_tenantId i = t" "ti_targetListId i = l" for i
      using that find_list_SomeD [OF Some] by (auto simp: item_listed_def)
    then show ?thesis using ok Some find_item_None [of t l "normalize_org_number raw" "ts_items st"]
      by (auto simp: AddItem add_item_def targets_ok_def Let_def item_key_def split: option.splits)
  qed
next
  case (RemoveItem t a l raw)
  then show ?thesis using ok by (simp add: remove_item_def Let_def targets_ok_def unique_keys_delete)
qed

interpretation target_machine: invariant_machine target_step targets_ok
  by unfold_locales (rule targets_ok_step)

text \<open>After any operations of any tenants, every item belongs to an existing list of its tenant and
  no list holds a company twice.
\<close>

theorem target_lists_consistent:
  "(\<forall>i \<in> set (ts_items (fold target_step ops no_targets)).
      \<exists>l \<in> set (ts_lists (fold target_step ops no_targets)).
        tl_id l = ti_targetListId i \<and> tl_tenantId l = ti_tenantId i) \<and>
   distinct (map (\<lambda>i. (ti_tenantId i, ti_targetListId i, ti_organisationNumber i))
     (ts_items (fold target_step ops no_targets)))"
proof -
  have "targets_ok no_targets" by (simp add: targets_ok_def no_targets_def unique_keys_def)
  then have "targets_ok (fold target_step ops no_targets)" by (rule target_machine.run_inv)
  then show ?thesis
    by (simp add: targets_ok_def unique_keys_def item_listed_def item_key_def [abs_def])
qed

lemma set_list_orgs:
  "set (list_orgs t l st) = {org. (t, l, org) \<in> item_key ` set (ts_items st)}"
  by (auto simp: list_orgs_def set_find_asc item_key_def)

text \<open>A bulk addition accounts for every number of the request, as added or as skipped, and leaves
  the list with what it held and the valid numbers of the request.
\<close>

theorem bulk_add_accounts:
  assumes "add_items_bulk now newIds tenantId actorId listId orgs mode st =
    (Inr (added, skipped, saved), st')"
  shows "added + skipped = length orgs \<and>
    ts_items st' = ts_items st @ saved \<and> length saved = added \<and>
    set (list_orgs tenantId listId st') = set (list_orgs tenantId listId st) \<union>
      {org \<in> normalize_org_number ` set orgs. length org = 10 \<or> length org = 12}"
proof -
  note E = add_items_bulk_eq [OF assms]
  let ?ps = "zip (map newIds [0..<length orgs]) orgs"
  have fold: "fold (bulk_step now tenantId listId mode) ?ps (0, [], ts_items st) =
      (skipped, saved, ts_items st')" using E by simp
  have "map snd ?ps = orgs" by simp
  then have eff: "bulk_effect tenantId listId orgs 0 (ts_items st) skipped saved (ts_items st')"
    using bulk_fold [OF fold] by simp
  then have keys: "item_key ` set (ts_items st') = item_key ` set (ts_items st) \<union>
       (\<lambda>org. (tenantId, listId, org)) ` {org \<in> normalize_org_number ` set orgs. valid_org org}"
    unfolding bulk_effect_def bulk_keys_def by blast
  have "set (list_orgs tenantId listId st') = set (list_orgs tenantId listId st) \<union>
      {org \<in> normalize_org_number ` set orgs. length org = 10 \<or> length org = 12}"
    unfolding set_list_orgs keys valid_org_def by blast
  then show ?thesis using E eff by (simp add: bulk_effect_def)
qed

text \<open>Operations of one tenant do not reach the lists and items of another.\<close>

lemma delete_where_other:
  "(\<And>r. q r \<Longrightarrow> \<not> p r) \<Longrightarrow> filter q (delete_where p t) = filter q t"
  unfolding delete_where_def filter_filter by (rule filter_cong) auto

lemma filter_save_other:
  "unique_keys key t \<Longrightarrow> x \<in> set t \<Longrightarrow> key r = key x \<Longrightarrow> \<not> p x \<Longrightarrow> \<not> p r \<Longrightarrow>
    filter p (save key r t) = filter p t"
  by (induction t) (auto simp: table_simps dest: unique_keysD)

text \<open>An operation of one tenant leaves the lists and the items of every other tenant as they are.
\<close>

theorem target_lists_isolated:
  assumes "target_tenant e \<noteq> t"
  shows "filter (\<lambda>l. tl_tenantId l = t) (ts_lists (target_step e (fold target_step ops no_targets))) =
      filter (\<lambda>l. tl_tenantId l = t) (ts_lists (fold target_step ops no_targets)) \<and>
    filter (\<lambda>i. ti_tenantId i = t) (ts_items (target_step e (fold target_step ops no_targets))) =
      filter (\<lambda>i. ti_tenantId i = t) (ts_items (fold target_step ops no_targets))"
proof -
  define st where "st = fold target_step ops no_targets"
  have "targets_ok no_targets" by (simp add: targets_ok_def no_targets_def unique_keys_def)
  then have u: "unique_keys tl_id (ts_lists st)"
    unfolding st_def using target_machine.run_inv by (auto simp: targets_ok_def)
  have "filter (\<lambda>l. tl_tenantId l = t) (ts_lists (target_step e st)) =
      filter (\<lambda>l. tl_tenantId l = t) (ts_lists st) \<and>
    filter (\<lambda>i. ti_tenantId i = t) (ts_items (target_step e st)) =
      filter (\<lambda>i. ti_tenantId i = t) (ts_items st)"
  proof (cases e)
    case (CreateList now newId t' a name)
    then show ?thesis using assms by (auto simp: create_list_def Let_def)
  next
    case (DeleteList t' a l)
    then have "tenant \<noteq> t'" if "tenant = t" for tenant using assms that by simp
    then show ?thesis using DeleteList
      by (cases "find_list t' l st")
        (auto simp: delete_list_def list_not_found_def intro!: delete_where_other)
  next
    case (AddItems now newIds t' a l orgs mode)
    show ?thesis
    proof (cases rule: add_items_bulk_cases [of now newIds t' a l orgs mode st])
      case 1
      then show ?thesis using AddItems by simp
    next
      case (2 added skipped saved st')
      note E = add_items_bulk_eq [OF 2]
      then show ?thesis using add_items_bulk_new [OF 2] 2 AddItems assms
        by (simp add: filter_empty_conv)
    qed
  next
    case (UpdatePlaybook now t' a l mode thesis)
    show ?thesis
    proof (cases "find_list t' l st")
      case None
      then show ?thesis using UpdatePlaybook by (simp add: update_playbook_def list_not_found_def)
    next
      case (Some r)
      have other: "filter (\<lambda>l. tl_tenantId l = t) (save tl_id l' (ts_lists st)) =
          filter (\<lambda>l. tl_tenantId l = t) (ts_lists st)"
        if "tl_id l' = tl_id r" "tl_tenantId l' = tl_tenantId r" for l'
        by (rule filter_save_other [OF u, of r])
          (use that find_list_SomeD [OF Some] assms UpdatePlaybook in simp_all)
      show ?thesis unfolding UpdatePlaybook target_step.simps update_playbook_def Some option.case Let_def
        by (simp add: other)
    qed
  next
    case (AddItem now newId t' a l raw)
    then show ?thesis using assms
      by (auto simp: add_item_def list_not_found_def Let_def split: option.splits)
  next
    case (RemoveItem t' a l raw)
    then show ?thesis using assms by (auto simp: remove_item_def Let_def intro!: delete_where_other)
  qed
  then show ?thesis by (simp add: st_def)
qed

theorem target_lists_isolated_witness:
  "filter (\<lambda>l. tl_tenantId l = ''b'') (ts_lists (target_step (DeleteList ''a'' None ''x'')
     (fold target_step [CreateList 0 ''x'' ''a'' None ''n''] no_targets))) =
   filter (\<lambda>l. tl_tenantId l = ''b'') (ts_lists
     (fold target_step [CreateList 0 ''x'' ''a'' None ''n''] no_targets))"
proof -
  have "target_tenant (DeleteList ''a'' None ''x'') \<noteq> ''b''" by simp
  from target_lists_isolated [OF this] show ?thesis by blast
qed

theorem bulk_add_accounts_witness:
  "\<exists>added skipped saved st'. add_items_bulk 0 (\<lambda>_. ''i'') ''a'' None ''x'' [''5560001234'', ''12''] None
      (fold target_step [CreateList 0 ''x'' ''a'' None ''n''] no_targets) =
      (Inr (added, skipped, saved), st') \<and> added + skipped = (2 :: nat)"
proof -
  let ?st = "fold target_step [CreateList 0 ''x'' ''a'' None ''n''] no_targets"
  have "find_list ''a'' ''x'' ?st \<noteq> None"
    by (simp add: find_list_def create_list_def no_targets_def Let_def find_one_def)
  from add_items_bulk_found [OF this] obtain added skipped saved st' where
    b: "add_items_bulk 0 (\<lambda>_. ''i'') ''a'' None ''x'' [''5560001234'', ''12''] None ?st =
      (Inr (added, skipped, saved), st')"
    by blast
  have "added + skipped = 2" using bulk_add_accounts [OF b] by simp
  with b show ?thesis by blast
qed

definition sample_ops :: "target_op list" where
  "sample_ops = [CreateList 0 ''x'' ''a'' None ''n'', AddItem 1 ''i'' ''a'' None ''x'' ''556000-1234'']"

lemma sample_ops_items:
  "map (\<lambda>i. (ti_targetListId i, ti_organisationNumber i)) (ts_items (fold target_step sample_ops no_targets)) =
    [(''x'', ''5560001234'')]"
  by code_simp

theorem target_lists_consistent_witness:
  "(\<exists>i \<in> set (ts_items (fold target_step sample_ops no_targets)). ti_organisationNumber i = ''5560001234'') \<and>
   (\<exists>l \<in> set (ts_lists (fold target_step sample_ops no_targets)). tl_id l = ''x'')"
proof -
  have "(''x'', ''5560001234'') \<in> (\<lambda>i. (ti_targetListId i, ti_organisationNumber i)) `
      set (ts_items (fold target_step sample_ops no_targets))"
    using arg_cong [OF sample_ops_items, of set] by simp
  then obtain i where i: "i \<in> set (ts_items (fold target_step sample_ops no_targets))"
    "ti_targetListId i = ''x''" "ti_organisationNumber i = ''5560001234''" by auto
  moreover from i(1) have "\<exists>l \<in> set (ts_lists (fold target_step sample_ops no_targets)).
      tl_id l = ti_targetListId i \<and> tl_tenantId l = ti_tenantId i"
    using target_lists_consistent [of sample_ops] by blast
  ultimately show ?thesis by auto
qed

end
