(* ===== verification/SqlText.thy ===== *)
theory SqlText
  imports Prelude
begin

text \<open>
  \<open>LIKE\<close> and \<open>ILIKE\<close> of PostgreSQL, which the services use for substring search with patterns
  \<open>%needle%\<close>: \<open>%\<close> matches any text, \<open>_\<close> one character, a backslash takes the next character
  literally.
\<close>

fun like :: "string \<Rightarrow> string \<Rightarrow> bool" where
  "like [] s = (s = [])"
| "like (c # p) s =
     (if c = CHR ''%'' then like p s \<or> (if s = [] then False else like (c # p) (tl s))
      else if c = CHR ''_'' then (if s = [] then False else like p (tl s))
      else if c = CHR 0x5C then
        (case p of [] \<Rightarrow> False | d # q \<Rightarrow> if s = [] then False else hd s = d \<and> like q (tl s))
      else (if s = [] then False else hd s = c \<and> like p (tl s)))"

definition ilike :: "string \<Rightarrow> string \<Rightarrow> bool" where
  "ilike p s = like (to_lower p) (to_lower s)"

definition plain_char :: "char \<Rightarrow> bool" where
  "plain_char c \<longleftrightarrow> c \<noteq> CHR ''%'' \<and> c \<noteq> CHR ''_'' \<and> c \<noteq> CHR 0x5C"

lemma like_all: "like ''%'' s"
  by (induction s) auto

lemma like_plain_prefix:
  "list_all plain_char n \<Longrightarrow> like (n @ ''%'') s \<longleftrightarrow> prefix n s"
proof (induction n arbitrary: s)
  case Nil
  then show ?case using like_all by simp
next
  case (Cons c n)
  then show ?case by (cases s) (auto simp: plain_char_def)
qed

text \<open>For a needle without special characters the pattern is the substring test.\<close>

lemma like_contains:
  assumes "list_all plain_char n"
  shows "like (''%'' @ n @ ''%'') s \<longleftrightarrow> has_sub n s"
proof (induction s)
  case Nil
  then show ?case using like_plain_prefix [OF assms, of "[]"] by simp
next
  case (Cons c s)
  then show ?case using like_plain_prefix [OF assms, of "c # s"] by simp
qed

lemma has_sub_prefix: "prefix n s \<Longrightarrow> has_sub n s"
  by (cases s) auto

lemma has_sub_append: "has_sub n (a @ n @ b)"
  by (induction a) (simp_all add: has_sub_prefix)

text \<open>Any needle without a backslash is found in a text that contains it, whatever else it holds.\<close>

lemma like_prefix_self: "CHR 0x5C \<notin> set n \<Longrightarrow> like (n @ ''%'') (n @ b)"
proof (induction n)
  case Nil
  then show ?case using like_all by simp
next
  case (Cons c n)
  then have "like (n @ ''%'') (n @ b)" by simp
  moreover from this have "like (CHR ''%'' # n @ ''%'') (n @ b)" by simp
  ultimately show ?case using Cons.prems by auto
qed

lemma like_contains_self: "CHR 0x5C \<notin> set n \<Longrightarrow> like (''%'' @ n @ ''%'') (a @ n @ b)"
proof (induction a)
  case Nil
  then show ?case using like_prefix_self by simp
next
  case (Cons c a)
  then show ?case by simp
qed

lemma has_sub_split: "has_sub n s \<longleftrightarrow> (\<exists>a b. s = a @ n @ b)"
proof
  show "has_sub n s \<Longrightarrow> \<exists>a b. s = a @ n @ b"
  proof (induction s)
    case Nil
    then show ?case by simp
  next
    case (Cons c s)
    show ?case
    proof (cases "prefix n (c # s)")
      case True
      then obtain b where "c # s = [] @ n @ b" by (auto simp: prefix_def)
      then show ?thesis by blast
    next
      case False
      then obtain a b where "c # s = (c # a) @ n @ b" using Cons by auto
      then show ?thesis by blast
    qed
  qed
qed (auto simp: has_sub_append)

lemma lower_backslash: "lower_char c = CHR 0x5C \<longleftrightarrow> c = CHR 0x5C"
proof -
  have eq: "x = y \<longleftrightarrow> code x = code y" for x y by (simp add: code_def)
  have "code c < 256" by (simp add: code_def)
  then have "code (char_of (code c + 32)) = code c + 32" if "code c \<le> 222"
    using that by (simp add: code_def)
  moreover have "code (CHR 0x5C) = 92" by (simp add: code_def)
  ultimately show ?thesis unfolding eq lower_char_def by (auto simp: Let_def)
qed

end
