(* ===== verification/Lineage.thy ===== *)
theory Lineage
  imports AuditTrail SqlText
begin

text \<open>
  Lineage records: \<open>LineageMetadataCaptureService\<close> and \<open>LineageQueryService\<close>
  (backend/src/companies/services/lineage-metadata-capture.service.ts and
  lineage-query.service.ts). A capture never throws; \<open>lg_up\<close> says whether the database takes
  the insert. A limit is taken to be positive.
\<close>

section \<open>Data\<close>

datatype trigger_type = API_REQUEST | SCHEDULED_REFRESH | FORCED_REFRESH | BACKGROUND_JOB | ALERT_TRIGGERED

record lineage_row =
  lr_id :: string
  lr_tenantId :: string
  lr_userId :: "string option"
  lr_correlationId :: string
  lr_triggerType :: trigger_type
  lr_httpMethod :: "string option"
  lr_sourceEndpoint :: "string option"
  lr_requestParameters :: "rat members"
  lr_createdAt :: int

record lineage_input =
  li_tenantId :: string
  li_userId :: "string option"
  li_correlationId :: string
  li_triggerType :: trigger_type
  li_httpMethod :: "string option"
  li_sourceEndpoint :: "string option"
  li_requestParameters :: "rat members option"

record lineage_store =
  lg_rows :: "lineage_row list"
  lg_audit :: audit_store
  lg_up :: bool

record lineage_query =
  lq_correlationId :: "string option"
  lq_userId :: "string option"
  lq_triggerType :: "trigger_type option"
  lq_sourceEndpoint :: "string option"
  lq_fromDate :: "string option"
  lq_toDate :: "string option"
  lq_limit :: "nat option"

definition trigger_text :: "trigger_type \<Rightarrow> string" where
  "trigger_text t =
     (case t of API_REQUEST \<Rightarrow> ''API_REQUEST'' | SCHEDULED_REFRESH \<Rightarrow> ''SCHEDULED_REFRESH''
      | FORCED_REFRESH \<Rightarrow> ''FORCE_REFRESH'' | BACKGROUND_JOB \<Rightarrow> ''BACKGROUND_JOB''
      | ALERT_TRIGGERED \<Rightarrow> ''ALERT_TRIGGERED'')"

section \<open>Redaction\<close>

text \<open>The patterns: letters in either case, \<open>.?\<close> as at most one character that ends no line.\<close>

definition ilit :: "char \<Rightarrow> char \<Rightarrow> bool" where
  "ilit c x \<longleftrightarrow> lower_char x = c"

definition dot :: "char \<Rightarrow> bool" where
  "dot x \<longleftrightarrow> x \<noteq> CHR 0x0A \<and> x \<noteq> CHR 0x0D"

definition exact_key :: "string \<Rightarrow> string \<Rightarrow> bool" where
  "exact_key w key = matches (map ilit w) key"

definition dotted_key :: "string \<Rightarrow> string \<Rightarrow> string \<Rightarrow> bool" where
  "dotted_key w v key \<longleftrightarrow>
     matches (map ilit w @ map ilit v) key \<or> matches (map ilit w @ [dot] @ map ilit v) key"

definition sensitive_key_patterns :: "(string \<Rightarrow> bool) list" where
  "sensitive_key_patterns =
     [exact_key ''password'', exact_key ''passwd'', exact_key ''secret'', exact_key ''token'',
      dotted_key ''api'' ''key'', exact_key ''auth'', exact_key ''authorization'',
      (\<lambda>key. exact_key ''credential'' (take 10 key)), dotted_key ''private'' ''key'',
      dotted_key ''access'' ''key'', dotted_key ''refresh'' ''token'',
      dotted_key ''client'' ''secret'', exact_key ''ssn'',
      (\<lambda>key. exact_key ''socialsecurity'' (take 14 key) \<or>
         dotted_key ''social'' ''security'' (take 15 key)),
      exact_key ''cvv'', dotted_key ''card'' ''number'']"

definition is_sensitive_key :: "string \<Rightarrow> bool" where
  "is_sensitive_key key = list_ex (\<lambda>re. re key) sensitive_key_patterns"

definition redacted :: "rat json" where
  "redacted = JStr ''[REDACTED]''"

text \<open>An assignment to \<open>__proto__\<close> sets the prototype of the copy and no member.\<close>

definition sanitize_parameters :: "rat members option \<Rightarrow> rat members" where
  "sanitize_parameters params =
     map (\<lambda>(k, v). (k, if is_sensitive_key k then redacted else v))
       (filter (\<lambda>(k, v). k \<noteq> ''__proto__'') (or_default params []))"

section \<open>Capture\<close>

definition resolve_trigger_type :: "bool option \<Rightarrow> trigger_type option \<Rightarrow> trigger_type" where
  "resolve_trigger_type forceRefresh triggerType =
     (if forceRefresh = Some True then FORCED_REFRESH else or_default triggerType API_REQUEST)"

definition lineage_event :: "lineage_row \<Rightarrow> create_audit_log_input" where
  "lineage_event r =
     \<lparr>al_tenantId = lr_tenantId r, al_actorId = lr_userId r, al_action = ''lineage.captured'',
      al_resourceType = ''lineage_metadata'', al_resourceId = lr_id r,
      al_metadata = Some [(''correlationId'', JStr (lr_correlationId r)),
        (''triggerType'', JStr (trigger_text (lr_triggerType r))),
        (''sourceEndpoint'', json_str (lr_sourceEndpoint r)),
        (''httpMethod'', json_str (lr_httpMethod r))]\<rparr>"

definition lineage_row_of :: "int \<Rightarrow> string \<Rightarrow> lineage_input \<Rightarrow> lineage_row" where
  "lineage_row_of now newId i =
     \<lparr>lr_id = newId, lr_tenantId = li_tenantId i, lr_userId = li_userId i,
      lr_correlationId = li_correlationId i, lr_triggerType = li_triggerType i,
      lr_httpMethod = li_httpMethod i, lr_sourceEndpoint = li_sourceEndpoint i,
      lr_requestParameters = sanitize_parameters (li_requestParameters i), lr_createdAt = now\<rparr>"

definition capture ::
  "int \<Rightarrow> string \<Rightarrow> lineage_input \<Rightarrow> lineage_store \<Rightarrow> (string \<times> string) option \<times> lineage_store"
where
  "capture now newId i st =
     (let r = lineage_row_of now newId i
      in if lg_up st
         then (Some (lr_id r, lr_correlationId r),
               st\<lparr>lg_rows := lg_rows st @ [r], lg_audit := audit_log (lineage_event r) (lg_audit st)\<rparr>)
         else (None, st))"

section \<open>Queries\<close>

definition lineage_by_id :: "string \<Rightarrow> string \<Rightarrow> lineage_store \<Rightarrow> lineage_row option" where
  "lineage_by_id tenantId i st = find_one (\<lambda>r. lr_id r = i \<and> lr_tenantId r = tenantId) (lg_rows st)"

definition lineage_by_correlation :: "string \<Rightarrow> string \<Rightarrow> lineage_store \<Rightarrow> lineage_row list" where
  "lineage_by_correlation tenantId correlationId st =
     find_asc (\<lambda>r. lr_tenantId r = tenantId \<and> lr_correlationId r = correlationId) lr_createdAt
       (lg_rows st)"

definition lineage_by_user :: "string \<Rightarrow> string \<Rightarrow> nat option \<Rightarrow> lineage_store \<Rightarrow> lineage_row list" where
  "lineage_by_user tenantId userId limit st =
     take (min (or_default limit 50) 200)
       (find_desc (\<lambda>r. lr_tenantId r = tenantId \<and> lr_userId r = Some userId) lr_createdAt (lg_rows st))"

definition given :: "string option \<Rightarrow> (string \<Rightarrow> bool) \<Rightarrow> bool" where
  "given s p \<longleftrightarrow> (truthy_str s \<longrightarrow> p (or_default s []))"

definition list_for_audit ::
  "(string \<Rightarrow> int) \<Rightarrow> string \<Rightarrow> lineage_query \<Rightarrow> lineage_store \<Rightarrow> lineage_row list" where
  "list_for_audit to_date tenantId q st =
     take (min (or_default (lq_limit q) 50) 200)
       (find_desc (\<lambda>r. lr_tenantId r = tenantId \<and>
          given (lq_correlationId q) (\<lambda>c. lr_correlationId r = c) \<and>
          given (lq_userId q) (\<lambda>u. lr_userId r = Some u) \<and>
          (lq_triggerType q \<noteq> None \<longrightarrow> Some (lr_triggerType r) = lq_triggerType q) \<and>
          given (lq_sourceEndpoint q) (\<lambda>e. case lr_sourceEndpoint r of None \<Rightarrow> False
            | Some s \<Rightarrow> ilike (''%'' @ e @ ''%'') s) \<and>
          given (lq_fromDate q) (\<lambda>d. lr_createdAt r \<ge> to_date d) \<and>
          given (lq_toDate q) (\<lambda>d. lr_createdAt r \<le> to_date d)) lr_createdAt (lg_rows st))"

text \<open>The order of the groups is the database's; the model takes the order of first rows.\<close>

definition trigger_type_stats ::
  "(string \<Rightarrow> int) \<Rightarrow> string \<Rightarrow> string option \<Rightarrow> string option \<Rightarrow> lineage_store \<Rightarrow>
   (trigger_type \<times> nat) list" where
  "trigger_type_stats to_date tenantId fromDate toDate st =
     (let rows = filter (\<lambda>r. lr_tenantId r = tenantId \<and>
            given fromDate (\<lambda>d. lr_createdAt r \<ge> to_date d) \<and>
            given toDate (\<lambda>d. lr_createdAt r \<le> to_date d)) (lg_rows st)
      in map (\<lambda>t. (t, count_where (\<lambda>r. lr_triggerType r = t) rows))
           (rev (remdups (rev (map lr_triggerType rows)))))"

section \<open>Properties\<close>

lemma map_of_sanitized:
  "map_of (sanitize_parameters params) k =
     (if k = ''__proto__'' then None
      else map_option (\<lambda>v. if is_sensitive_key k then redacted else v) (map_of (or_default params []) k))"
proof -
  have "map_of (map (\<lambda>(k, v). (k, if is_sensitive_key k then redacted else v))
      (filter (\<lambda>(k, v). k \<noteq> ''__proto__'') ms)) k =
    (if k = ''__proto__'' then None
     else map_option (\<lambda>v. if is_sensitive_key k then redacted else v) (map_of ms k))" for ms
    by (induction ms) auto
  then show ?thesis by (simp add: sanitize_parameters_def)
qed

text \<open>A capture that succeeds stores one record, found by its id for its tenant only, in which every
  parameter with a sensitive name is redacted and every other one is kept.
\<close>

theorem captured_lineage_redacted:
  assumes "capture now newId i st = (Some (lineageId, corr), st')"
    and "newId \<notin> lr_id ` set (lg_rows st)"
  shows "\<exists>r. lineage_by_id (li_tenantId i) lineageId st' = Some r \<and>
    (\<forall>t. t \<noteq> li_tenantId i \<longrightarrow> lineage_by_id t lineageId st' = None) \<and>
    r \<in> set (lineage_by_correlation (li_tenantId i) corr st') \<and>
    (\<forall>k. k \<noteq> ''__proto__'' \<longrightarrow> map_of (lr_requestParameters r) k =
      (if is_sensitive_key k then map_option (\<lambda>_. JStr ''[REDACTED]'') else id)
        (map_of (or_default (li_requestParameters i) []) k))"
proof -
  define r where "r = lineage_row_of now newId i"
  have st': "lg_rows st' = lg_rows st @ [r]" "lineageId = lr_id r" "corr = lr_correlationId r"
    using assms(1) unfolding capture_def Let_def r_def [symmetric] by (auto split: if_splits)
  have r: "lr_id r = newId" "lr_tenantId r = li_tenantId i"
      "lr_requestParameters r = sanitize_parameters (li_requestParameters i)"
    by (simp_all add: r_def lineage_row_of_def)
  have none: "find_one (\<lambda>r. lr_id r = newId \<and> lr_tenantId r = t) (lg_rows st) = None" for t
    using assms(2) by (auto simp: find_one_None_iff)
  have "lineage_by_id t lineageId st' = (if t = li_tenantId i then Some r else None)" for t
    by (simp add: lineage_by_id_def st' r find_one_append none table_simps)
  moreover have "r \<in> set (lineage_by_correlation (li_tenantId i) corr st')"
    by (simp add: lineage_by_correlation_def set_find_asc st' r)
  moreover have "map_of (lr_requestParameters r) k =
      (if is_sensitive_key k then map_option (\<lambda>_. JStr ''[REDACTED]'') else id)
        (map_of (or_default (li_requestParameters i) []) k)" if "k \<noteq> ''__proto__''" for k
    using that unfolding r(3) map_of_sanitized redacted_def
    by (cases "map_of (or_default (li_requestParameters i) []) k") simp_all
  ultimately show ?thesis by (intro exI [of _ r]) simp
qed

text \<open>
  The comment on the patterns promises matches of substrings; the patterns are anchored, so a
  name that only contains a sensitive word is stored with its value.
\<close>

lemma compound_key_not_sensitive:
  "\<not> is_sensitive_key ''userPassword''" "\<not> is_sensitive_key ''accessToken''"
  by code_simp+

lemma sensitive_samples:
  "is_sensitive_key ''Password''" "is_sensitive_key ''api-key''" "is_sensitive_key ''apiKey''"
  "is_sensitive_key ''credentials''" "is_sensitive_key ''social_security_no''"
  by code_simp+

definition sample_capture :: lineage_input where
  "sample_capture = \<lparr>li_tenantId = ''t'', li_userId = None, li_correlationId = ''c'',
     li_triggerType = API_REQUEST, li_httpMethod = None, li_sourceEndpoint = None,
     li_requestParameters = Some [(''token'', JStr ''x''), (''q'', JStr ''y'')]\<rparr>"

theorem captured_lineage_redacted_witness:
  "\<exists>r. lineage_by_id ''t'' ''l'' (snd (capture 0 ''l'' sample_capture
      \<lparr>lg_rows = [], lg_audit = empty_audit, lg_up = True\<rparr>)) = Some r \<and>
    map_of (lr_requestParameters r) ''token'' = Some (JStr ''[REDACTED]'') \<and>
    map_of (lr_requestParameters r) ''q'' = Some (JStr ''y'')"
proof -
  obtain st' where c: "capture 0 ''l'' sample_capture \<lparr>lg_rows = [], lg_audit = empty_audit, lg_up = True\<rparr> =
      (Some (''l'', ''c''), st')"
    by (simp add: capture_def lineage_row_of_def sample_capture_def Let_def)
  have "is_sensitive_key ''token''" "\<not> is_sensitive_key ''q''" by code_simp+
  moreover have "''l'' \<notin> lr_id ` set (lg_rows \<lparr>lg_rows = [], lg_audit = empty_audit, lg_up = True\<rparr>)"
    by simp
  from captured_lineage_redacted [OF c this] obtain r where
    "lineage_by_id ''t'' ''l'' st' = Some r"
    "\<forall>k. k \<noteq> ''__proto__'' \<longrightarrow> map_of (lr_requestParameters r) k =
      (if is_sensitive_key k then map_option (\<lambda>_. JStr ''[REDACTED]'') else id)
        (map_of (or_default (li_requestParameters sample_capture) []) k)"
    by (auto simp: sample_capture_def)
  ultimately show ?thesis using c
    by (intro exI [of _ r]) (simp add: sample_capture_def)
qed

end
