(* ===== verification/Monitoring.thy ===== *)
theory Monitoring
  imports JsonCompare SnapshotComparison Signals SqlText Dates "HOL-Library.Product_Lexorder"
begin

text \<open>
  \<open>MonitoringService\<close> and \<open>MonitoringScheduler\<close> (backend/src/monitoring): subscriptions, alerts and
  the detection that turns change events and signals into alerts. \<open>payload_text\<close> is the text of
  a \<open>jsonb\<close> object.
\<close>

section \<open>Data\<close>

record subscription =
  su_id :: string
  su_tenantId :: string
  su_partyId :: "string option"
  su_companyId :: "string option"
  su_status :: string
  su_eventTypes :: "string list"
  su_subjectType :: string
  su_organisationNumber :: "string option"
  su_personnummer :: "string option"
  su_datasetFamilies :: "string list"
  su_alertConfig :: "rat members"
  su_createdByUserId :: "string option"
  su_createdAt :: int

record alert =
  ma_id :: string
  ma_tenantId :: string
  ma_subscriptionId :: string
  ma_alertType :: string
  ma_severity :: string
  ma_status :: string
  ma_title :: string
  ma_description :: "string option"
  ma_payload :: "rat members"
  ma_datasetFamily :: "string option"
  ma_organisationNumber :: "string option"
  ma_personnummer :: "string option"
  ma_isAcknowledged :: bool
  ma_acknowledgedAt :: "int option"
  ma_acknowledgedByUserId :: "string option"
  ma_createdAt :: int

text \<open>The stored change events and signals with the columns detection reads besides.\<close>

record stored_event = change_event +
  se_id :: string
  se_createdAt :: int

record stored_signal = signal_entity +
  ss_id :: string

record named_company =
  nm_tenantId :: string
  nm_organisationNumber :: string
  nm_legalName :: "string option"

record monitoring_store =
  mo_subs :: "subscription list"
  mo_alerts :: "alert list"
  mo_audit :: audit_store

record subscription_dto =
  sd_partyId :: "string option"
  sd_companyId :: "string option"
  sd_eventTypes :: "string list"
  sd_subjectType :: "string option"
  sd_organisationNumber :: "string option"
  sd_personnummer :: "string option"
  sd_datasetFamilies :: "string list option"
  sd_alertConfig :: "rat members option"

record alert_dto =
  ad_subscriptionId :: string
  ad_alertType :: string
  ad_severity :: string
  ad_title :: string
  ad_description :: "string option"
  ad_payload :: "rat members option"

section \<open>Subscriptions and alerts\<close>

definition normalize_org :: "string option \<Rightarrow> string option" where
  "normalize_org raw =
     (if \<not> truthy_str raw then None
      else (let n = digits_only (or_default raw []) in if length n = 10 \<or> length n = 12 then Some n else None))"

definition monitoring_log ::
  "string \<Rightarrow> string option \<Rightarrow> string \<Rightarrow> string \<Rightarrow> string \<Rightarrow> rat members option \<Rightarrow>
   monitoring_store \<Rightarrow> monitoring_store" where
  "monitoring_log tenantId actorId action resourceType resourceId metadata st =
     st\<lparr>mo_audit := audit_log \<lparr>al_tenantId = tenantId, al_actorId = actorId, al_action = action,
       al_resourceType = resourceType, al_resourceId = resourceId, al_metadata = metadata\<rparr>
       (mo_audit st)\<rparr>"

definition strings_json :: "string list \<Rightarrow> rat json" where
  "strings_json ss = JArr (map JStr ss)"

definition subscription_dto_json :: "subscription_dto \<Rightarrow> rat members" where
  "subscription_dto_json d =
     opt_member ''partyId'' (map_option JStr (sd_partyId d)) @
     opt_member ''companyId'' (map_option JStr (sd_companyId d)) @
     [(''eventTypes'', strings_json (sd_eventTypes d))] @
     opt_member ''subjectType'' (map_option JStr (sd_subjectType d)) @
     opt_member ''organisationNumber'' (map_option JStr (sd_organisationNumber d)) @
     opt_member ''personnummer'' (map_option JStr (sd_personnummer d)) @
     opt_member ''datasetFamilies'' (map_option strings_json (sd_datasetFamilies d)) @
     opt_member ''alertConfig'' (map_option JObj (sd_alertConfig d))"

definition create_subscription ::
  "int \<Rightarrow> string \<Rightarrow> string \<Rightarrow> subscription_dto \<Rightarrow> string option \<Rightarrow> monitoring_store \<Rightarrow>
   subscription \<times> monitoring_store" where
  "create_subscription now newId tenantId d actorId st =
     (let s = \<lparr>su_id = newId, su_tenantId = tenantId, su_partyId = sd_partyId d,
            su_companyId = sd_companyId d, su_status = ''active'', su_eventTypes = sd_eventTypes d,
            su_subjectType = or_default (sd_subjectType d) ''company'',
            su_organisationNumber = sd_organisationNumber d, su_personnummer = sd_personnummer d,
            su_datasetFamilies = or_default (sd_datasetFamilies d) [],
            su_alertConfig = or_default (sd_alertConfig d) [], su_createdByUserId = actorId,
            su_createdAt = now\<rparr>
      in (s, monitoring_log tenantId actorId ''monitoring.subscription.created''
            ''monitoring_subscription'' newId (Some (subscription_dto_json d))
            (st\<lparr>mo_subs := mo_subs st @ [s]\<rparr>)))"

definition list_subscriptions :: "string \<Rightarrow> monitoring_store \<Rightarrow> subscription list" where
  "list_subscriptions tenantId st =
     find_desc (\<lambda>s. su_tenantId s = tenantId) su_createdAt (mo_subs st)"

definition list_subscriptions_by_org :: "string \<Rightarrow> string \<Rightarrow> monitoring_store \<Rightarrow> subscription list" where
  "list_subscriptions_by_org tenantId raw st =
     (let org = or_default (normalize_org (Some raw)) raw
      in find_desc (\<lambda>s. su_tenantId s = tenantId \<and> su_organisationNumber s = Some org) su_createdAt
           (mo_subs st))"

definition alert_dto_json :: "alert_dto \<Rightarrow> rat members" where
  "alert_dto_json d =
     [(''subscriptionId'', JStr (ad_subscriptionId d)), (''alertType'', JStr (ad_alertType d)),
      (''severity'', JStr (ad_severity d)), (''title'', JStr (ad_title d))] @
     opt_member ''description'' (map_option JStr (ad_description d)) @
     opt_member ''payload'' (map_option JObj (ad_payload d))"

text \<open>The code takes \<open>payload.datasetFamily\<close> to be a string where there is one.\<close>

definition create_alert ::
  "int \<Rightarrow> string \<Rightarrow> string \<Rightarrow> alert_dto \<Rightarrow> string option \<Rightarrow> monitoring_store \<Rightarrow>
   alert result \<times> monitoring_store" where
  "create_alert now newId tenantId d actorId st =
     (case find_one (\<lambda>s. su_id s = ad_subscriptionId d \<and> su_tenantId s = tenantId) (mo_subs st) of
        None \<Rightarrow> (Inl (NotFound ''Subscription not found''), st)
      | Some s \<Rightarrow>
          (let a = \<lparr>ma_id = newId, ma_tenantId = su_tenantId s, ma_subscriptionId = su_id s,
                 ma_alertType = ad_alertType d, ma_severity = ad_severity d, ma_status = ''open'',
                 ma_title = ad_title d, ma_description = ad_description d,
                 ma_payload = or_default (ad_payload d) [],
                 ma_datasetFamily = string_of (member_of ''datasetFamily'' (map_option JObj (ad_payload d))),
                 ma_organisationNumber = su_organisationNumber s, ma_personnummer = su_personnummer s,
                 ma_isAcknowledged = False, ma_acknowledgedAt = None, ma_acknowledgedByUserId = None,
                 ma_createdAt = now\<rparr>
           in (Inr a, monitoring_log (su_tenantId s) actorId ''monitoring.alert.created''
                 ''monitoring_alert'' newId (Some (alert_dto_json d))
                 (st\<lparr>mo_alerts := mo_alerts st @ [a]\<rparr>))))"

definition list_alerts :: "string \<Rightarrow> monitoring_store \<Rightarrow> alert list" where
  "list_alerts tenantId st = find_desc (\<lambda>a. ma_tenantId a = tenantId) ma_createdAt (mo_alerts st)"

definition list_alerts_by_family :: "string \<Rightarrow> string \<Rightarrow> monitoring_store \<Rightarrow> alert list" where
  "list_alerts_by_family tenantId family st =
     find_desc (\<lambda>a. ma_tenantId a = tenantId \<and> ma_datasetFamily a = Some family) ma_createdAt
       (mo_alerts st)"

record alert_group =
  ag_organisationNumber :: "string option"
  ag_alertType :: string
  ag_latestCreatedAt :: int
  ag_alertCount :: nat
  ag_openCount :: nat

definition list_alert_feed_grouped :: "string \<Rightarrow> int option \<Rightarrow> monitoring_store \<Rightarrow> alert_group list" where
  "list_alert_feed_grouped tenantId limit st =
     (let rows = filter (\<lambda>a. ma_tenantId a = tenantId) (mo_alerts st);
          key = (\<lambda>a. (or_default (ma_organisationNumber a) ''unknown'', ma_alertType a));
          group = (\<lambda>k. let ms = filter (\<lambda>a. key a = k) rows
            in \<lparr>ag_organisationNumber = (if fst k = ''unknown'' then None else Some (fst k)),
                ag_alertType = snd k, ag_latestCreatedAt = foldr max (map ma_createdAt ms) (ma_createdAt (hd ms)),
                ag_alertCount = length ms,
                ag_openCount = count_where (\<lambda>a. \<not> ma_isAcknowledged a) ms\<rparr>)
      in take (nat (min (max (or_default limit 100) 1) 500))
           (sort_key (\<lambda>g. - ag_latestCreatedAt g) (map group (remdups (map key rows)))))"

definition acknowledge_alert ::
  "int \<Rightarrow> string \<Rightarrow> string \<Rightarrow> string option \<Rightarrow> monitoring_store \<Rightarrow> alert result \<times> monitoring_store"
where
  "acknowledge_alert now tenantId alertId actorId st =
     (case find_one (\<lambda>a. ma_id a = alertId \<and> ma_tenantId a = tenantId) (mo_alerts st) of
        None \<Rightarrow> (Inl (NotFound ''Alert not found''), st)
      | Some a \<Rightarrow>
          (let a' = a\<lparr>ma_isAcknowledged := True, ma_acknowledgedAt := Some now,
                 ma_acknowledgedByUserId := actorId\<rparr>
           in (Inr a', monitoring_log (ma_tenantId a) actorId ''monitoring.alert.acknowledged''
                 ''monitoring_alert'' alertId None
                 (st\<lparr>mo_alerts := save ma_id a' (mo_alerts st)\<rparr>))))"

section \<open>Detection\<close>

definition alert_type_for_attribute :: "string \<Rightarrow> string option" where
  "alert_type_for_attribute attr =
     (let a = to_lower attr; hits = (\<lambda>ws. list_ex (\<lambda>w. has_sub w a) ws)
      in if hits [''owner'', ''ownership'', ''beneficial'', ''verklig'', ''huvudman'', ''control'']
           then Some ''ownership.change''
         else if hits [''officer'', ''director'', ''board'', ''styrelse'', ''firmateckn'',
             ''funktionar'', ''funktion'' @ [CHR 0xE4] @ ''r'']
           then Some ''board.change''
         else if hits [''arende'', ''dokument'', ''document'', ''filing'', ''status'', ''snapshot'',
             ''registrering'']
           then Some ''filings.change''
         else None)"

definition severity_for_alert_type :: "string \<Rightarrow> string" where
  "severity_for_alert_type t =
     (if t = ''ownership.change'' then ''high'' else if t = ''board.change'' then ''medium''
      else if t = ''signal.change'' then ''medium'' else ''low'')"

text \<open>The argument of \<open>createAlertIfMissing\<close>; the dedupe key is also a member of the payload.\<close>

record alert_input =
  ai_tenantId :: string
  ai_subscriptionId :: string
  ai_organisationNumber :: "string option"
  ai_alertType :: string
  ai_title :: string
  ai_description :: string
  ai_payload :: "rat members"
  ai_datasetFamily :: "string option"
  ai_cooldownMinutes :: rat

definition cooldown_since :: "int \<Rightarrow> rat \<Rightarrow> int" where
  "cooldown_since now minutes = \<lfloor>of_int now - minutes * 60 * 1000\<rfloor>"

definition in_cooldown :: "int \<Rightarrow> alert_input \<Rightarrow> alert \<Rightarrow> bool" where
  "in_cooldown now i a \<longleftrightarrow>
     ma_tenantId a = ai_tenantId i \<and> ma_subscriptionId a = ai_subscriptionId i \<and>
     ma_alertType a = ai_alertType i \<and>
     or_default (ma_organisationNumber a) [] = or_default (ai_organisationNumber i) [] \<and>
     ma_createdAt a \<ge> cooldown_since now (ai_cooldownMinutes i)"

definition dedupe_key :: "rat members \<Rightarrow> string" where
  "dedupe_key payload = (case map_of payload ''dedupeKey'' of Some (JStr s) \<Rightarrow> s | _ \<Rightarrow> [])"

definition is_duplicate :: "(rat members \<Rightarrow> string) \<Rightarrow> alert_input \<Rightarrow> alert \<Rightarrow> bool" where
  "is_duplicate payload_text i a \<longleftrightarrow>
     ma_tenantId a = ai_tenantId i \<and> ma_subscriptionId a = ai_subscriptionId i \<and>
     ma_alertType a = ai_alertType i \<and>
     ilike (''%'' @ dedupe_key (ai_payload i) @ ''%'') (payload_text (ma_payload a))"

definition alert_of :: "int \<Rightarrow> string \<Rightarrow> alert_input \<Rightarrow> alert" where
  "alert_of now newId i =
     \<lparr>ma_id = newId, ma_tenantId = ai_tenantId i, ma_subscriptionId = ai_subscriptionId i,
      ma_alertType = ai_alertType i, ma_severity = severity_for_alert_type (ai_alertType i),
      ma_status = ''open'', ma_title = ai_title i, ma_description = Some (ai_description i),
      ma_payload = ai_payload i, ma_datasetFamily = ai_datasetFamily i,
      ma_organisationNumber = ai_organisationNumber i, ma_personnummer = None,
      ma_isAcknowledged = False, ma_acknowledgedAt = None, ma_acknowledgedByUserId = None,
      ma_createdAt = now\<rparr>"

definition create_alert_if_missing ::
  "(rat members \<Rightarrow> string) \<Rightarrow> int \<Rightarrow> string \<Rightarrow> alert_input \<Rightarrow> alert list \<Rightarrow> bool \<times> alert list" where
  "create_alert_if_missing payload_text now newId i alerts =
     (if list_ex (in_cooldown now i) alerts then (False, alerts)
      else if dedupe_key (ai_payload i) \<noteq> [] \<and> list_ex (is_duplicate payload_text i) alerts
        then (False, alerts)
      else (True, alerts @ [alert_of now newId i]))"

record detect_state =
  ds_alerts :: "alert list"
  ds_created :: nat
  ds_triggered :: "string list"
  ds_failed :: bool

text \<open>
  A cooldown that is no number (\<open>None\<close>) makes an invalid timestamp, which the query refuses: the
  run throws, with the alerts saved so far.
\<close>

definition config_number :: "js_numbers \<Rightarrow> string \<Rightarrow> rat \<Rightarrow> subscription \<Rightarrow> rat option" where
  "config_number js key d s =
     js_number js (nullish_or (map_of (su_alertConfig s) key) (Some (JNum d)))"

definition attempt ::
  "(rat members \<Rightarrow> string) \<Rightarrow> int \<Rightarrow> (nat \<Rightarrow> string) \<Rightarrow> rat option \<Rightarrow> (rat \<Rightarrow> alert_input) \<Rightarrow>
   detect_state \<Rightarrow> detect_state" where
  "attempt payload_text now newIds cooldown mk ds =
     (if ds_failed ds then ds
      else case cooldown of
        None \<Rightarrow> ds\<lparr>ds_failed := True\<rparr>
      | Some c \<Rightarrow>
          (let (created, as) = create_alert_if_missing payload_text now (newIds (length (ds_alerts ds)))
                 (mk c) (ds_alerts ds)
           in if created
              then ds\<lparr>ds_alerts := as, ds_created := ds_created ds + 1,
                     ds_triggered := insert_new (ai_alertType (mk c)) (ds_triggered ds)\<rparr>
              else ds))"

definition change_type_text :: "change_type \<Rightarrow> string" where
  "change_type_text t =
     (case t of ADDED \<Rightarrow> ''ADDED'' | MODIFIED \<Rightarrow> ''MODIFIED'' | REMOVED \<Rightarrow> ''REMOVED''
      | UNCHANGED \<Rightarrow> ''UNCHANGED'' | UNKNOWN \<Rightarrow> ''UNKNOWN'')"

text \<open>\<open>s.replace('.', ' ')\<close>: the first dot only.\<close>

fun dot_to_space :: "string \<Rightarrow> string" where
  "dot_to_space [] = []"
| "dot_to_space (c # s) = (if c = CHR ''.'' then CHR '' '' # s else c # dot_to_space s)"

definition event_key :: "string \<Rightarrow> stored_event \<Rightarrow> string" where
  "event_key mapped e = mapped @ '':'' @ se_id e"

definition event_input ::
  "string \<Rightarrow> string \<Rightarrow> (string \<Rightarrow> string) \<Rightarrow> subscription \<Rightarrow> stored_event \<Rightarrow> string \<Rightarrow> rat \<Rightarrow> alert_input"
where
  "event_input tenantId org name s e mapped cooldown =
     \<lparr>ai_tenantId = tenantId, ai_subscriptionId = su_id s, ai_organisationNumber = Some org,
      ai_alertType = mapped, ai_title = dot_to_space mapped @ '' detected'',
      ai_description = name org @ '': '' @ ce_attributeName e @ '' ('' @
        change_type_text (ce_changeType e) @ '')'',
      ai_payload = [(''dedupeKey'', JStr (event_key mapped e)), (''changeEventId'', JStr (se_id e)),
        (''attributeName'', JStr (ce_attributeName e)),
        (''changeType'', JStr (change_type_text (ce_changeType e))),
        (''oldValue'', json_str (ce_oldValue e)), (''newValue'', json_str (ce_newValue e)),
        (''createdAt'', JStr (iso_string (se_createdAt e)))],
      ai_datasetFamily = Some (if mapped = ''filings.change'' then ''filings''
        else if mapped = ''ownership.change'' then ''ownership'' else ''board''),
      ai_cooldownMinutes = cooldown\<rparr>"

definition signed_text :: "int \<Rightarrow> string" where
  "signed_text d = (if d > 0 then ''+'' else []) @ show_int d @ ''.0''"

definition signal_input ::
  "string \<Rightarrow> string \<Rightarrow> (string \<Rightarrow> string) \<Rightarrow> subscription \<Rightarrow> stored_signal \<Rightarrow> stored_signal \<Rightarrow>
   int \<Rightarrow> int \<Rightarrow> rat \<Rightarrow> alert_input" where
  "signal_input tenantId org name s latest prev latestN prevN cooldown =
     \<lparr>ai_tenantId = tenantId, ai_subscriptionId = su_id s, ai_organisationNumber = Some org,
      ai_alertType = ''signal.change'', ai_title = ''Signal moved: '' @ sg_signalType latest,
      ai_description = name org @ '': '' @ sg_signalType latest @ '' moved '' @
        signed_text (latestN - prevN) @ ''.'',
      ai_payload = [(''dedupeKey'', JStr (''signal.change:'' @ ss_id latest)),
        (''signalType'', JStr (sg_signalType latest)), (''latestScore'', JNum (of_int latestN)),
        (''previousScore'', JNum (of_int prevN)), (''delta'', JNum (of_int (latestN - prevN))),
        (''latestSignalId'', JStr (ss_id latest)), (''previousSignalId'', JStr (ss_id prev))],
      ai_datasetFamily = Some ''signals'', ai_cooldownMinutes = cooldown\<rparr>"

text \<open>What one run has read: change events, signals and company names.\<close>

record detect_data =
  dd_events :: "stored_event list"
  dd_signals :: "stored_signal list"
  dd_companies :: "named_company list"

definition company_name :: "detect_data \<Rightarrow> string \<Rightarrow> string" where
  "company_name d org =
     or_default (or_default (map_of (rev (map (\<lambda>c. (nm_organisationNumber c, nm_legalName c))
       (dd_companies d))) org) None) org"

text \<open>\<open>signalByOrgType\<close>: the signals of a company by type, in the order of the query.\<close>

definition signal_groups :: "string \<Rightarrow> detect_data \<Rightarrow> stored_signal list list" where
  "signal_groups org d =
     (let rows = filter (\<lambda>g. sg_organisationNumber g = org) (dd_signals d)
      in map (\<lambda>t. filter (\<lambda>g. sg_signalType g = t) rows)
           (fold insert_new (map sg_signalType rows) []))"

definition sub_types :: "subscription \<Rightarrow> string list" where
  "sub_types s = map to_lower (su_eventTypes s)"

definition detect_event ::
  "(rat members \<Rightarrow> string) \<Rightarrow> js_numbers \<Rightarrow> int \<Rightarrow> (nat \<Rightarrow> string) \<Rightarrow> string \<Rightarrow> detect_data \<Rightarrow>
   subscription \<Rightarrow> string \<Rightarrow> stored_event \<Rightarrow> detect_state \<Rightarrow> detect_state" where
  "detect_event payload_text js now newIds tenantId d s org e ds =
     (case alert_type_for_attribute (ce_attributeName e) of
        None \<Rightarrow> ds
      | Some mapped \<Rightarrow>
          if mapped \<notin> set (sub_types s) then ds
          else attempt payload_text now newIds (config_number js ''cooldownMinutes'' 60 s)
            (event_input tenantId org (company_name d) s e mapped) ds)"

definition detect_signal ::
  "(rat members \<Rightarrow> string) \<Rightarrow> js_numbers \<Rightarrow> int \<Rightarrow> (nat \<Rightarrow> string) \<Rightarrow> string \<Rightarrow> detect_data \<Rightarrow>
   subscription \<Rightarrow> string \<Rightarrow> stored_signal list \<Rightarrow> detect_state \<Rightarrow> detect_state" where
  "detect_signal payload_text js now newIds tenantId d s org rows ds =
     (case rows of
        latest # prev # _ \<Rightarrow>
          (case (sg_score latest, sg_score prev) of
             (Some latestN, Some prevN) \<Rightarrow>
               if (case config_number js ''signalDeltaMin'' 10 s of
                     Some threshold \<Rightarrow> of_int \<bar>latestN - prevN\<bar> < threshold | None \<Rightarrow> False)
               then ds
               else attempt payload_text now newIds (config_number js ''cooldownMinutes'' 60 s)
                 (signal_input tenantId org (company_name d) s latest prev latestN prevN) ds
           | _ \<Rightarrow> ds)
      | _ \<Rightarrow> ds)"

definition detect_subscription ::
  "(rat members \<Rightarrow> string) \<Rightarrow> js_numbers \<Rightarrow> int \<Rightarrow> (nat \<Rightarrow> string) \<Rightarrow> string \<Rightarrow> detect_data \<Rightarrow>
   subscription \<Rightarrow> detect_state \<Rightarrow> detect_state" where
  "detect_subscription payload_text js now newIds tenantId d s ds =
     (case normalize_org (su_organisationNumber s) of
        None \<Rightarrow> ds
      | Some org \<Rightarrow>
          (let ds = fold (detect_event payload_text js now newIds tenantId d s org)
                 (filter (\<lambda>e. ce_orgNumber e = org) (dd_events d)) ds
           in if ''signal.change'' \<in> set (sub_types s)
              then fold (detect_signal payload_text js now newIds tenantId d s org) (signal_groups org d) ds
              else ds))"

definition company_subs :: "string \<Rightarrow> monitoring_store \<Rightarrow> subscription list" where
  "company_subs tenantId st =
     filter (\<lambda>s. normalize_org (su_organisationNumber s) \<noteq> None)
       (find_desc (\<lambda>s. su_tenantId s = tenantId \<and> su_status s = ''active'') su_createdAt (mo_subs st))"

text \<open>The three queries of a run.\<close>

definition detect_query ::
  "string \<Rightarrow> string list \<Rightarrow> int \<Rightarrow> detect_data \<Rightarrow> detect_data" where
  "detect_query tenantId orgs since db =
     \<lparr>dd_events = find_desc (\<lambda>e. ce_tenantId e = tenantId \<and> ce_orgNumber e \<in> set orgs \<and>
        se_createdAt e \<ge> since \<and> ce_changeType e \<noteq> UNCHANGED) se_createdAt (dd_events db),
      dd_signals = sort_key (\<lambda>g. (sg_organisationNumber g, sg_signalType g, - sg_computedAt g))
        (filter (\<lambda>g. sg_tenantId g = tenantId \<and> sg_organisationNumber g \<in> set orgs) (dd_signals db)),
      dd_companies = filter (\<lambda>c. nm_tenantId c = tenantId \<and> nm_organisationNumber c \<in> set orgs)
        (dd_companies db)\<rparr>"

record detect_summary =
  dy_scanned :: nat
  dy_created :: nat
  dy_triggered :: "string list"

definition detect_changes ::
  "(rat members \<Rightarrow> string) \<Rightarrow> js_numbers \<Rightarrow> int \<Rightarrow> (nat \<Rightarrow> string) \<Rightarrow> string \<Rightarrow> string option \<Rightarrow> int \<Rightarrow>
   detect_data \<Rightarrow> monitoring_store \<Rightarrow> detect_summary result \<times> monitoring_store" where
  "detect_changes payload_text js now newIds tenantId actorId lookbackHours db st =
     (let subs = company_subs tenantId st;
          orgs = fold insert_new (map (\<lambda>s. or_default (normalize_org (su_organisationNumber s)) []) subs) []
      in if orgs = [] then (Inr \<lparr>dy_scanned = length subs, dy_created = 0, dy_triggered = []\<rparr>, st)
         else
           (let d = detect_query tenantId orgs (now - lookbackHours * 60 * 60 * 1000) db;
                ds = fold (detect_subscription payload_text js now newIds tenantId d) subs
                  \<lparr>ds_alerts = mo_alerts st, ds_created = 0, ds_triggered = [], ds_failed = False\<rparr>;
                st' = st\<lparr>mo_alerts := ds_alerts ds\<rparr>
            in if ds_failed ds then (Inl (InternalError ''invalid timestamp''), st')
               else (Inr \<lparr>dy_scanned = length subs, dy_created = ds_created ds,
                       dy_triggered = ds_triggered ds\<rparr>,
                     monitoring_log tenantId actorId ''monitoring.detect_changes.run'' ''monitoring''
                       (''window:'' @ show_int lookbackHours @ ''h'')
                       (Some [(''scanned_subscriptions'', JNum (of_nat (length subs))),
                          (''created_alerts'', JNum (of_nat (ds_created ds))),
                          (''lookback_hours'', JNum (of_int lookbackHours)),
                          (''triggered_event_types'', strings_json (ds_triggered ds))]) st')))"

section \<open>The scheduler\<close>

record scheduler =
  sc_enabled :: bool
  sc_intervalMs :: int
  sc_lookbackHours :: int
  sc_running :: bool
  sc_lastRunAt :: int

text \<open>One tick of the interval timer; the failure of one tenant is logged and the next one runs.\<close>

definition detection_tick ::
  "(rat members \<Rightarrow> string) \<Rightarrow> js_numbers \<Rightarrow> int \<Rightarrow> (nat \<Rightarrow> string) \<Rightarrow> detect_data \<Rightarrow> scheduler \<Rightarrow>
   monitoring_store \<Rightarrow> scheduler \<times> monitoring_store" where
  "detection_tick payload_text js now newIds db sc st =
     (if \<not> sc_enabled sc \<or> sc_running sc \<or> now - sc_lastRunAt sc < sc_intervalMs sc then (sc, st)
      else (let tenants = fold insert_new
                  (map su_tenantId (filter (\<lambda>s. su_status s = ''active'') (mo_subs st))) []
            in (sc\<lparr>sc_lastRunAt := now\<rparr>,
                fold (\<lambda>t st. snd (detect_changes payload_text js now newIds t None (sc_lookbackHours sc) db st))
                  tenants st)))"

section \<open>What a run adds\<close>

definition same_stream :: "alert \<Rightarrow> alert \<Rightarrow> bool" where
  "same_stream b a \<longleftrightarrow> ma_tenantId b = ma_tenantId a \<and> ma_subscriptionId b = ma_subscriptionId a \<and>
     ma_alertType b = ma_alertType a"

text \<open>
  An alert that is due after \<open>old\<close>: no earlier one of its subscription and type is about the same
  change, and none about the same company is within the cooldown of the subscription.
\<close>

definition alert_due :: "js_numbers \<Rightarrow> int \<Rightarrow> subscription list \<Rightarrow> alert list \<Rightarrow> alert \<Rightarrow> bool" where
  "alert_due js now subs old a \<longleftrightarrow>
     (\<exists>s \<in> set subs. \<exists>c. su_id s = ma_subscriptionId a \<and>
        config_number js ''cooldownMinutes'' 60 s = Some c \<and>
        (\<forall>b \<in> set old. same_stream b a \<longrightarrow>
           dedupe_key (ma_payload b) \<noteq> dedupe_key (ma_payload a) \<and>
           (or_default (ma_organisationNumber b) [] = or_default (ma_organisationNumber a) [] \<longrightarrow>
             ma_createdAt b < cooldown_since now c)))"

definition grown :: "js_numbers \<Rightarrow> int \<Rightarrow> subscription list \<Rightarrow> alert list \<Rightarrow> alert list \<Rightarrow> bool" where
  "grown js now subs old as \<longleftrightarrow>
     (\<exists>new. as = old @ new \<and> (\<forall>k < length new. alert_due js now subs (old @ take k new) (new ! k)))"

lemma grown_refl: "grown js now subs old old"
  by (simp add: grown_def)

lemma grown_snoc:
  assumes "grown js now subs old as" and "alert_due js now subs as a"
  shows "grown js now subs old (as @ [a])"
proof -
  obtain new where new: "as = old @ new"
    "\<forall>k < length new. alert_due js now subs (old @ take k new) (new ! k)"
    using assms(1) unfolding grown_def by blast
  have "alert_due js now subs (old @ take k (new @ [a])) ((new @ [a]) ! k)"
    if "k < length (new @ [a])" for k
    using new that assms(2) by (cases "k = length new") (auto simp: nth_append)
  then show ?thesis using new(1) unfolding grown_def by (intro exI [of _ "new @ [a]"]) auto
qed

text \<open>
  What is relied on of \<open>CAST(payload AS text)\<close>: the text contains the dedupe key of the object,
  a string without backslashes, which needs no escape.
\<close>

definition shows_keys :: "(rat members \<Rightarrow> string) \<Rightarrow> bool" where
  "shows_keys payload_text \<longleftrightarrow>
     (\<forall>ms. CHR 0x5C \<notin> set (dedupe_key ms) \<longrightarrow> has_sub (dedupe_key ms) (payload_text ms))"

definition keyed :: "subscription \<Rightarrow> (rat \<Rightarrow> alert_input) \<Rightarrow> bool" where
  "keyed s mk \<longleftrightarrow> (\<forall>c. ai_subscriptionId (mk c) = su_id s \<and> ai_cooldownMinutes (mk c) = c \<and>
     dedupe_key (ai_payload (mk c)) \<noteq> [] \<and> CHR 0x5C \<notin> set (dedupe_key (ai_payload (mk c))))"

lemma same_key_duplicate:
  assumes "shows_keys payload_text" and "dedupe_key (ma_payload b) = dedupe_key (ai_payload i)"
    and "CHR 0x5C \<notin> set (dedupe_key (ai_payload i))"
    and "ma_tenantId b = ai_tenantId i" "ma_subscriptionId b = ai_subscriptionId i"
      "ma_alertType b = ai_alertType i"
  shows "is_duplicate payload_text i b"
proof -
  let ?k = "dedupe_key (ai_payload i)"
  have "has_sub ?k (payload_text (ma_payload b))"
    using assms(1,3) assms(2) [symmetric] by (simp add: shows_keys_def)
  then obtain x y where "payload_text (ma_payload b) = x @ ?k @ y" by (auto simp: has_sub_split)
  moreover have "CHR 0x5C \<notin> set (to_lower ?k)"
  proof
    assume "CHR 0x5C \<in> set (to_lower ?k)"
    then have "CHR 0x5C \<in> lower_char ` set ?k" by (simp only: set_map)
    then obtain c where c: "CHR 0x5C = lower_char c" "c \<in> set ?k" by (rule imageE)
    then have "c = CHR 0x5C" using lower_backslash [of c] by simp
    then show False using assms(3) c(2) by simp
  qed
  then have "like (''%'' @ to_lower ?k @ ''%'') (to_lower x @ to_lower ?k @ to_lower y)"
    by (rule like_contains_self)
  moreover have "to_lower ''%'' = ''%''" by code_simp
  ultimately have "ilike (''%'' @ ?k @ ''%'') (payload_text (ma_payload b))"
    by (simp add: ilike_def)
  then show ?thesis using assms(4-6) by (simp add: is_duplicate_def)
qed

lemma attempt_grown:
  assumes "shows_keys payload_text" "keyed s mk" "s \<in> set subs"
    and grown: "grown js now subs old (ds_alerts ds)"
  shows "grown js now subs old
    (ds_alerts (attempt payload_text now newIds (config_number js ''cooldownMinutes'' 60 s) mk ds))"
proof (cases "ds_failed ds \<or> config_number js ''cooldownMinutes'' 60 s = None")
  case True
  then show ?thesis using grown by (auto simp: attempt_def)
next
  case False
  then obtain c where c: "config_number js ''cooldownMinutes'' 60 s = Some c" "\<not> ds_failed ds" by auto
  let ?i = "mk c" and ?as = "ds_alerts ds"
  have k: "ai_subscriptionId ?i = su_id s" "ai_cooldownMinutes ?i = c" "dedupe_key (ai_payload ?i) \<noteq> []"
    "CHR 0x5C \<notin> set (dedupe_key (ai_payload ?i))"
    using assms(2) by (simp_all add: keyed_def)
  show ?thesis
  proof (cases "list_ex (in_cooldown now ?i) ?as \<or> list_ex (is_duplicate payload_text ?i) ?as")
    case True
    then show ?thesis using grown c k(3) by (auto simp: attempt_def create_alert_if_missing_def)
  next
    case False
    let ?a = "alert_of now (newIds (length ?as)) ?i"
    have "dedupe_key (ma_payload b) \<noteq> dedupe_key (ma_payload ?a) \<and>
        (or_default (ma_organisationNumber b) [] = or_default (ma_organisationNumber ?a) [] \<longrightarrow>
          ma_createdAt b < cooldown_since now c)"
      if "b \<in> set ?as" "same_stream b ?a" for b
    proof -
      have b: "\<not> in_cooldown now ?i b" "\<not> is_duplicate payload_text ?i b"
        using False that(1) by (auto simp: list_ex_iff)
      have s: "ma_tenantId b = ai_tenantId ?i" "ma_subscriptionId b = ai_subscriptionId ?i"
        "ma_alertType b = ai_alertType ?i"
        using that(2) by (simp_all add: same_stream_def alert_of_def)
      have "dedupe_key (ma_payload b) \<noteq> dedupe_key (ai_payload ?i)"
        using same_key_duplicate [OF assms(1) _ k(4) s] b(2) by blast
      then show ?thesis using b(1) s k(2) by (auto simp: in_cooldown_def alert_of_def)
    qed
    then have "alert_due js now subs ?as ?a"
      using assms(3) c(1) k(1) unfolding alert_due_def
      by (intro bexI [of _ s] exI [of _ c]) (auto simp: alert_of_def)
    then have "grown js now subs old (?as @ [?a])" by (rule grown_snoc [OF grown])
    then show ?thesis using False c k(3) by (auto simp: attempt_def create_alert_if_missing_def)
  qed
qed

text \<open>Ids are UUIDs; all that matters here is that they hold no backslash.\<close>

definition plain_ids :: "detect_data \<Rightarrow> bool" where
  "plain_ids d \<longleftrightarrow> (\<forall>e \<in> set (dd_events d). CHR 0x5C \<notin> set (se_id e)) \<and>
     (\<forall>g \<in> set (dd_signals d). CHR 0x5C \<notin> set (ss_id g))"

lemma alert_type_values:
  "alert_type_for_attribute a = Some m \<Longrightarrow>
    m \<in> {''ownership.change'', ''board.change'', ''filings.change''}"
  by (auto simp: alert_type_for_attribute_def Let_def split: if_splits)

lemma event_input_keyed:
  assumes "CHR 0x5C \<notin> set (se_id e)" and "alert_type_for_attribute a = Some m"
  shows "keyed s (event_input tenantId org name s e m)"
  using alert_type_values [OF assms(2)] assms(1)
  by (auto simp: keyed_def event_input_def dedupe_key_def event_key_def)

lemma signal_input_keyed:
  "CHR 0x5C \<notin> set (ss_id latest) \<Longrightarrow> keyed s (signal_input tenantId org name s latest prev l p)"
  by (auto simp: keyed_def signal_input_def dedupe_key_def)

lemma signal_groups_member:
  "rows \<in> set (signal_groups org d) \<Longrightarrow> g \<in> set rows \<Longrightarrow> g \<in> set (dd_signals d)"
  by (auto simp: signal_groups_def Let_def)

lemma detect_event_grown:
  assumes "shows_keys payload_text" "plain_ids d" "s \<in> set subs" "e \<in> set (dd_events d)"
    and "grown js now subs old (ds_alerts ds)"
  shows "grown js now subs old (ds_alerts (detect_event payload_text js now newIds tenantId d s org e ds))"
proof (cases "alert_type_for_attribute (ce_attributeName e)")
  case None
  then show ?thesis using assms by (simp add: detect_event_def)
next
  case (Some m)
  have "keyed s (event_input tenantId org (company_name d) s e m)"
    using event_input_keyed [OF _ Some] assms(2,4) by (auto simp: plain_ids_def)
  from attempt_grown [OF assms(1) this assms(3,5)] show ?thesis
    using assms(5) by (simp add: detect_event_def Some)
qed

lemma detect_signal_grown:
  assumes "shows_keys payload_text" "plain_ids d" "s \<in> set subs" "rows \<in> set (signal_groups org d)"
    and "grown js now subs old (ds_alerts ds)"
  shows "grown js now subs old
    (ds_alerts (detect_signal payload_text js now newIds tenantId d s org rows ds))"
proof -
  have "grown js now subs old (ds_alerts (attempt payload_text now newIds
      (config_number js ''cooldownMinutes'' 60 s)
      (signal_input tenantId org (company_name d) s latest prev l p) ds))"
    if "latest \<in> set rows" for latest prev l p
  proof (rule attempt_grown [OF assms(1) _ assms(3,5)])
    show "keyed s (signal_input tenantId org (company_name d) s latest prev l p)"
      using signal_groups_member [OF assms(4) that] assms(2)
      by (intro signal_input_keyed) (auto simp: plain_ids_def)
  qed
  then show ?thesis using assms(5)
    by (auto simp: detect_signal_def split: list.split option.split)
qed

lemma detect_subscription_grown:
  assumes "shows_keys payload_text" "plain_ids d" "s \<in> set subs"
    and "grown js now subs old (ds_alerts ds)"
  shows "grown js now subs old (ds_alerts (detect_subscription payload_text js now newIds tenantId d s ds))"
proof -
  let ?G = "\<lambda>ds. grown js now subs old (ds_alerts ds)"
  have e: "?G (fold (detect_event payload_text js now newIds tenantId d s org)
      (filter (\<lambda>e. ce_orgNumber e = org) (dd_events d)) ds)" for org
    by (rule fold_inv [where I = ?G]) (use assms in \<open>auto intro: detect_event_grown\<close>)
  have "?G (fold (detect_signal payload_text js now newIds tenantId d s org) (signal_groups org d)
      (fold (detect_event payload_text js now newIds tenantId d s org)
        (filter (\<lambda>e. ce_orgNumber e = org) (dd_events d)) ds))" for org
    by (rule fold_inv [where I = ?G]) (use assms e in \<open>auto intro: detect_signal_grown\<close>)
  then show ?thesis using e assms(4)
    by (auto simp: detect_subscription_def Let_def split: option.split)
qed

lemma plain_ids_query: "plain_ids db \<Longrightarrow> plain_ids (detect_query tenantId orgs since db)"
  by (auto simp: plain_ids_def detect_query_def set_find_desc)

lemma company_subs_subset: "set (company_subs tenantId st) \<subseteq> set (mo_subs st)"
  by (auto simp: company_subs_def set_find_desc)

lemma detect_changes_grown:
  assumes "shows_keys payload_text" "plain_ids db"
  shows "grown js now (company_subs tenantId st) (mo_alerts st)
    (mo_alerts (snd (detect_changes payload_text js now newIds tenantId actorId h db st)))"
proof -
  let ?subs = "company_subs tenantId st"
  let ?G = "\<lambda>ds. grown js now ?subs (mo_alerts st) (ds_alerts ds)"
  have "?G (fold (detect_subscription payload_text js now newIds tenantId (detect_query tenantId orgs since db))
      ?subs \<lparr>ds_alerts = mo_alerts st, ds_created = 0, ds_triggered = [], ds_failed = False\<rparr>)" for orgs since
    by (rule fold_inv [where I = ?G])
      (use assms plain_ids_query in \<open>auto intro: detect_subscription_grown grown_refl\<close>)
  then show ?thesis
    by (simp add: detect_changes_def Let_def monitoring_log_def grown_refl)
qed


section \<open>What a run answers\<close>

definition answered :: "(rat members \<Rightarrow> string) \<Rightarrow> int \<Rightarrow> alert_input \<Rightarrow> detect_state \<Rightarrow> bool" where
  "answered payload_text now i ds \<longleftrightarrow>
     (\<exists>a \<in> set (ds_alerts ds). in_cooldown now i a \<or> is_duplicate payload_text i a)"

lemma attempt_alerts: "set (ds_alerts ds) \<subseteq> set (ds_alerts (attempt pt now newIds c mk ds))"
  by (auto simp: attempt_def create_alert_if_missing_def split: option.split)

lemma attempt_ok: "\<not> ds_failed ds \<Longrightarrow> c \<noteq> None \<Longrightarrow> \<not> ds_failed (attempt pt now newIds c mk ds)"
  by (auto simp: attempt_def split: prod.splits if_splits)

lemma attempt_answers:
  assumes "\<not> ds_failed ds" and "c \<ge> 0" and "ai_cooldownMinutes (mk c) = c"
  shows "answered pt now (mk c) (attempt pt now newIds (Some c) mk ds)"
proof -
  have "in_cooldown now (mk c) (alert_of now newId (mk c))" for newId
    using assms(2,3) by (simp add: in_cooldown_def alert_of_def cooldown_since_def)
      (meson floor_le_iff le_less_trans less_add_one zero_le_mult_iff zero_le_numeral
        diff_le_eq le_add_same_cancel1 floor_mono floor_of_int)
  then show ?thesis using assms(1)
    by (auto simp: answered_def attempt_def create_alert_if_missing_def list_ex_iff)
qed

text \<open>What every step keeps: no failure where all settings are numbers, and every answer given.\<close>

definition keeps :: "(detect_state \<Rightarrow> detect_state) \<Rightarrow> bool" where
  "keeps f \<longleftrightarrow> (\<forall>ds. set (ds_alerts ds) \<subseteq> set (ds_alerts (f ds)) \<and> (\<not> ds_failed ds \<longrightarrow> \<not> ds_failed (f ds)))"

lemma keeps_attempt: "c \<noteq> None \<Longrightarrow> keeps (attempt pt now newIds c mk)"
  using attempt_alerts attempt_ok by (auto simp: keeps_def)

lemma keeps_fold: "(\<And>x. x \<in> set xs \<Longrightarrow> keeps (f x)) \<Longrightarrow> keeps (fold f xs)"
  by (induction xs) (auto simp: keeps_def subset_iff)

lemma keeps_id: "keeps (\<lambda>ds. ds)"
  by (simp add: keeps_def)

lemma keeps_comp: "keeps f \<Longrightarrow> keeps g \<Longrightarrow> keeps (\<lambda>ds. g (f ds))"
  unfolding keeps_def by (meson subset_trans)

lemma keeps_event:
  assumes "config_number js ''cooldownMinutes'' 60 s \<noteq> None"
  shows "keeps (detect_event pt js now newIds t d s org e)"
  using keeps_attempt [OF assms] keeps_id
  by (cases "alert_type_for_attribute (ce_attributeName e)") (auto simp: detect_event_def keeps_def)

lemma keeps_signal:
  assumes "config_number js ''cooldownMinutes'' 60 s \<noteq> None"
  shows "keeps (detect_signal pt js now newIds t d s org rows)"
  using keeps_attempt [OF assms] keeps_id
  by (auto simp: detect_signal_def keeps_def split: list.split option.split)

lemma keeps_subscription:
  assumes "config_number js ''cooldownMinutes'' 60 s \<noteq> None"
  shows "keeps (detect_subscription pt js now newIds t d s)"
proof (cases "normalize_org (su_organisationNumber s)")
  case None
  then show ?thesis by (simp add: detect_subscription_def keeps_def)
next
  case (Some org)
  let ?e = "fold (detect_event pt js now newIds t d s org) (filter (\<lambda>e. ce_orgNumber e = org) (dd_events d))"
  let ?g = "fold (detect_signal pt js now newIds t d s org) (signal_groups org d)"
  have k: "keeps ?e" "keeps ?g"
    by (rule keeps_fold, rule keeps_event [OF assms]) (rule keeps_fold, rule keeps_signal [OF assms])
  have eq: "detect_subscription pt js now newIds t d s =
      (if ''signal.change'' \<in> set (sub_types s) then (\<lambda>ds. ?g (?e ds)) else ?e)"
    by (simp add: fun_eq_iff detect_subscription_def Some Let_def)
  show ?thesis unfolding eq using k keeps_comp [OF k] by simp
qed

text \<open>A step that answers keeps doing so inside a loop of steps.\<close>

lemma fold_answered:
  assumes "x \<in> set xs" and "\<And>y. y \<in> set xs \<Longrightarrow> keeps (f y)"
    and "\<And>ds. \<not> ds_failed ds \<Longrightarrow> answered pt now i (f x ds)" and "\<not> ds_failed ds"
  shows "answered pt now i (fold f xs ds)"
proof -
  obtain ys zs where xs: "xs = ys @ x # zs" using assms(1) by (auto simp: in_set_conv_decomp)
  have k: "keeps (fold f ys)" "keeps (fold f zs)"
    using assms(2) xs by (auto intro: keeps_fold)
  let ?ds = "f x (fold f ys ds)"
  have "answered pt now i ?ds" using assms(3,4) k(1) by (simp add: keeps_def)
  moreover have "set (ds_alerts ?ds) \<subseteq> set (ds_alerts (fold f zs ?ds))"
    using k(2) by (simp add: keeps_def)
  moreover have "fold f xs ds = fold f zs ?ds" by (simp add: xs)
  ultimately show ?thesis unfolding answered_def by auto
qed


section \<open>Sample run\<close>

definition sample_sub :: subscription where
  "sample_sub = \<lparr>su_id = ''s'', su_tenantId = ''t'', su_partyId = None, su_companyId = None,
     su_status = ''active'', su_eventTypes = [''Board.Change''], su_subjectType = ''company'',
     su_organisationNumber = Some ''5560001234'', su_personnummer = None, su_datasetFamilies = [],
     su_alertConfig = [], su_createdByUserId = None, su_createdAt = 0\<rparr>"

definition sample_event :: stored_event where
  "sample_event = \<lparr>ce_tenantId = ''t'', ce_orgNumber = ''5560001234'', ce_snapshotIdBefore = None,
     ce_snapshotIdAfter = ''x'', ce_attributeName = ''board'', ce_oldValue = None, ce_newValue = None,
     ce_changeType = MODIFIED, ce_correlationId = None, ce_actorId = None, se_id = ''e'',
     se_createdAt = 0\<rparr>"

definition sample_data :: detect_data where
  "sample_data = \<lparr>dd_events = [sample_event], dd_signals = [], dd_companies = []\<rparr>"

definition sample_monitoring :: monitoring_store where
  "sample_monitoring = \<lparr>mo_subs = [sample_sub], mo_alerts = [], mo_audit = empty_audit\<rparr>"

definition simple_numbers :: js_numbers where
  "simple_numbers = \<lparr>number_text = (\<lambda>_. []), number_value = (\<lambda>_. None)\<rparr>"

lemma sample_normalize: "normalize_org (Some ''5560001234'') = Some ''5560001234''"
  by code_simp

lemma sample_company_subs: "company_subs ''t'' sample_monitoring = [sample_sub]"
  by (simp add: company_subs_def sample_monitoring_def find_desc_def sample_sub_def sample_normalize)

lemma sample_cooldown: "config_number simple_numbers ''cooldownMinutes'' 60 sample_sub = Some 60"
  by (simp add: config_number_def sample_sub_def)



end
