(* ===== verification/ProviderClient.thy ===== *)
theory ProviderClient
  imports IntegrationTokens FailureState
begin

text \<open>
  \<open>BolagsverketClient\<close> (backend/src/companies/integrations/bolagsverket.client.ts): the headers
  and tokens of a request, the retry loop, the errors a failed request becomes and the calls of
  the provider's endpoints. The network is a function from the number of the request to its
  answer; random request ids are arguments. The parsing of the headers of a downloaded document
  is left out.
\<close>

section \<open>Data\<close>

text \<open>An answer: a body, or an error with its status, if any, and its body (\<open>error.response.data\<close>).\<close>

datatype 'n http_answer = HttpOk "'n json" | HttpError "nat option" "rat json option"

text \<open>\<open>NoFiData\<close> is \<open>BvFiEndpointNoDataError\<close>.\<close>

datatype client_error = Thrown provider_exception | NoFiData string

type_synonym headers = "(string \<times> string) list"

record cached_token =
  ct_accessToken :: string
  ct_expiresAt :: rat
  ct_scope :: "string option"
  ct_tokenType :: "string option"

record token_metrics =
  tm_cacheHits :: nat
  tm_cacheMisses :: nat
  tm_refreshes :: nat
  tm_requestFailures :: nat

record client_state =
  cl_tokenCaches :: "(string \<times> cached_token) list"
  cl_metrics :: token_metrics

record 'n fetched =
  fd_responsePayload :: "'n json"
  fd_requestId :: string

section \<open>Addresses and headers\<close>

definition normalize_base_url :: "string \<Rightarrow> string" where
  "normalize_base_url url = (if ends_with ''/'' url then butlast url else url)"

definition build_url :: "string \<Rightarrow> string \<Rightarrow> string" where
  "build_url base path = normalize_base_url base @ (if prefix ''/'' path then path else CHR ''/'' # path)"

definition vh_enabled :: "token_config \<Rightarrow> bool" where
  "vh_enabled cfg \<longleftrightarrow> map_option to_lower (cfg ''BV_VH_ENABLED'') = Some ''true''"

definition vh_base_url :: "token_config \<Rightarrow> string" where
  "vh_base_url cfg = normalize_base_url (or_default (Option.bind (cfg ''BV_VH_BASE_URL'') (nonempty \<circ> trim))
     ''https://gw-accept2.api.bolagsverket.se/verkliga-huvudman/v1'')"

definition vh_post_path :: "token_config \<Rightarrow> string" where
  "vh_post_path cfg =
     (case Option.bind (cfg ''BV_VH_POST_PATH'') (nonempty \<circ> trim) of
        Some p \<Rightarrow> if prefix ''/'' p then p else ''/organisationer''
      | None \<Rightarrow> ''/organisationer'')"

definition foretagsinfo_oauth_enabled :: "token_config \<Rightarrow> bool" where
  "foretagsinfo_oauth_enabled cfg \<longleftrightarrow> map_option to_lower (cfg ''BV_FORETAGSINFO_USE_OAUTH'') = Some ''true''"

text \<open>\<open>/^Bearer\s+/i\<close>: the rest of a token after its prefix.\<close>

definition bearer_rest :: "string \<Rightarrow> string option" where
  "bearer_rest t =
     (if to_lower (take 6 t) = ''bearer'' \<and> drop 6 t \<noteq> [] \<and> is_space (hd (drop 6 t))
      then Some (dropWhile is_space (drop 6 t)) else None)"

definition foretagsinfo_auth_header :: "token_config \<Rightarrow> (string \<times> string) option" where
  "foretagsinfo_auth_header cfg =
     (let name = or_default (cfg ''BV_FORETAGSINFO_AUTH_HEADER'') ''Authorization''
      in case Option.bind (cfg ''BV_FORETAGSINFO_AUTH_VALUE'') nonempty of
           Some v \<Rightarrow> Some (name, v)
         | None \<Rightarrow>
             map_option (\<lambda>t. (name, ''Bearer '' @ or_default (bearer_rest t) t))
               (Option.bind (or_else (cfg ''BV_FORETAGSINFO_BEARER_TOKEN'')
                  (or_else (cfg ''BV_FORETAGSINFO_AUTH_TOKEN'') (cfg ''BV_FORETAGSINFO_TOKEN'')))
                (nonempty \<circ> trim)))"

definition base_headers :: "string \<Rightarrow> headers \<Rightarrow> headers" where
  "base_headers requestId extra =
     spread [(''content-type'', ''application/json''), (''x-request-id'', requestId)] extra"

definition hvd_headers ::
  "provider_exception + string \<Rightarrow> string \<Rightarrow> headers \<Rightarrow> provider_exception + headers" where
  "hvd_headers token requestId extra =
     (case token of Inl e \<Rightarrow> Inl e
      | Inr t \<Rightarrow> Inr (spread [(''content-type'', ''application/json''), (''Authorization'', ''Bearer '' @ t),
          (''x-request-id'', requestId)] extra))"

text \<open>
  The headers of the organisation API: OAuth for a tenant or when it is switched on, else the
  configured header, else the legacy client id and secret.
\<close>

definition foretagsinfo_headers ::
  "token_config \<Rightarrow> string option \<Rightarrow> provider_exception + string \<Rightarrow> string \<Rightarrow> headers \<Rightarrow>
   provider_exception + headers" where
  "foretagsinfo_headers cfg tenantId token requestId extra =
     (let h = base_headers requestId extra
      in if truthy_str tenantId \<or> foretagsinfo_oauth_enabled cfg
         then (case token of Inl e \<Rightarrow> Inl e | Inr t \<Rightarrow> Inr (put_member ''Authorization'' (''Bearer '' @ t) h))
         else (case foretagsinfo_auth_header cfg of
             Some (name, v) \<Rightarrow> Inr (put_member name v h)
           | None \<Rightarrow>
               (case (Option.bind (cfg ''BV_CLIENT_ID'') nonempty, Option.bind (cfg ''BV_CLIENT_SECRET'') nonempty) of
                  (Some i, Some s) \<Rightarrow> Inr (put_member ''x-client-secret'' s (put_member ''x-client-id'' i h))
                | _ \<Rightarrow> Inr h)))"

section \<open>Errors\<close>

record api_error =
  ae_status :: "rat json option"
  ae_title :: "rat json option"
  ae_detail :: "rat json option"
  ae_code :: "rat json option"
  ae_requestId :: "rat json option"

definition normalize_api_error :: "nat option \<Rightarrow> string option \<Rightarrow> rat json option \<Rightarrow> api_error" where
  "normalize_api_error status requestId details =
     (let st = map_option (\<lambda>n. JNum (of_nat n)) status; rid = map_option JStr requestId
      in case string_of details of
           Some s \<Rightarrow> \<lparr>ae_status = st, ae_title = None, ae_detail = Some (JStr s), ae_code = None, ae_requestId = rid\<rparr>
         | None \<Rightarrow> \<lparr>ae_status = nullish_or (member_of ''status'' details) st,
             ae_title = member_of ''title'' details, ae_detail = member_of ''detail'' details,
             ae_code = member_of ''code'' details,
             ae_requestId = nullish_or (member_of ''requestId'' details) rid\<rparr>)"

text \<open>\<open>a || b || c\<close>\<close>

definition first_truthy :: "rat json option list \<Rightarrow> rat json option" where
  "first_truthy vs = Option.bind (find truthy vs) id"

definition map_error ::
  "js_numbers \<Rightarrow> nat option \<Rightarrow> string option \<Rightarrow> rat json option \<Rightarrow> provider_exception" where
  "map_error js status requestId details =
     (let n = normalize_api_error status requestId details;
          suffix = (case first_truthy [ae_detail n, ae_title n, ae_code n] of
              None \<Rightarrow> [] | Some d \<Rightarrow> '': '' @ js_string js d);
          base = (if truthy (ae_requestId n) then '' (requestId: '' @ js_string js (the (ae_requestId n)) @ '')'' else []);
          mapped = nullish_or (ae_status n) (map_option (\<lambda>n. JNum (of_nat n)) status)
      in if mapped = Some (JNum 400) then HttpException 400 (''Bolagsverket rejected the request'' @ base @ suffix)
         else if mapped = Some (JNum 401) then UnauthorizedException (''Bolagsverket authentication failed'' @ base @ suffix)
         else if mapped = Some (JNum 403) then ForbiddenException (''Bolagsverket access forbidden'' @ base @ suffix)
         else HttpException 500 (''Bolagsverket request failed (HTTP '' @
           (case mapped of None \<Rightarrow> ''unknown'' | Some v \<Rightarrow> js_string js v) @ '')'' @ base @ suffix))"

fun exception_message :: "provider_exception \<Rightarrow> string" where
  "exception_message (GatewayTimeoutException m) = m"
| "exception_message (UnauthorizedException m) = m"
| "exception_message (ForbiddenException m) = m"
| "exception_message (HttpException s m) = m"
| "exception_message (OtherError m c) = m"

fun is_http_exception :: "provider_exception \<Rightarrow> bool" where
  "is_http_exception (OtherError m c) = False"
| "is_http_exception e = True"

text \<open>The response of an \<open>HttpException\<close> made from a message holds that message.\<close>

definition no_catalog_error :: "provider_exception \<Rightarrow> bool" where
  "no_catalog_error e \<longleftrightarrow>
     (let m = exception_message e; saknas = has_sub ''Information saknas'' m
      in has_sub ''FM130'' m \<or> (if is_http_exception e then saknas else saknas \<and> has_sub ''Bolagsverket'' m))"

fun optional_endpoint_empty :: "client_error \<Rightarrow> bool" where
  "optional_endpoint_empty (NoFiData i) = True"
| "optional_endpoint_empty (Thrown e) = no_catalog_error e"

section \<open>The retry loop\<close>

definition max_retries :: nat where
  "max_retries = 3"

text \<open>
  \<open>requestWithRetry\<close> from the \<open>k\<close>th request with attempt counter \<open>a\<close>; the last component lists
  the waits, 0 for the repetition with a new token. \<open>fuel\<close> bounds the requests; the counter grows with each
  and stops the loop at three, so four are enough.
\<close>

fun request_loop ::
  "js_numbers \<Rightarrow> bool \<Rightarrow> (nat \<Rightarrow> string) \<Rightarrow> (nat \<Rightarrow> provider_exception + headers) \<Rightarrow> (nat \<Rightarrow> 'n http_answer) \<Rightarrow>
   nat \<Rightarrow> nat \<Rightarrow> nat \<Rightarrow> int \<Rightarrow> ((client_error + 'n fetched) \<times> int list) option" where
  "request_loop js fi404 ids hdr ans 0 k a delay = None"
| "request_loop js fi404 ids hdr ans (Suc fuel) k a delay =
     (case hdr k of
        Inl e \<Rightarrow> Some (Inl (Thrown e), [])
      | Inr h \<Rightarrow>
          (case ans k of
             HttpOk body \<Rightarrow> Some (Inr \<lparr>fd_responsePayload = body, fd_requestId = ids k\<rparr>, [])
           | HttpError status details \<Rightarrow>
               if status = Some 401 \<and> a = 0
               then map_option (\<lambda>(r, ds). (r, 0 # ds))
                 (request_loop js fi404 ids hdr ans fuel (k + 1) (a + 1) delay)
               else if (\<exists>s \<in> set retryable_status_codes. status = Some s) \<and> a < max_retries
               then map_option (\<lambda>(r, ds). (r, delay # ds))
                 (request_loop js fi404 ids hdr ans fuel (k + 1) (a + 1) (next_delay_ms delay))
               else if fi404 \<and> status = Some 404 then Some (Inl (NoFiData (ids k)), [])
               else Some (Inl (Thrown (map_error js status (Some (ids k)) details)), [])))"

definition request_with_retry ::
  "js_numbers \<Rightarrow> bool \<Rightarrow> (nat \<Rightarrow> string) \<Rightarrow> (nat \<Rightarrow> provider_exception + headers) \<Rightarrow> (nat \<Rightarrow> 'n http_answer) \<Rightarrow>
   (client_error + 'n fetched) \<times> int list" where
  "request_with_retry js fi404 ids hdr ans =
     the (request_loop js fi404 ids hdr ans (max_retries + 1) 0 0 initial_delay_ms)"

section \<open>Tokens without a tenant\<close>

definition no_client_state :: client_state where
  "no_client_state = \<lparr>cl_tokenCaches = [], cl_metrics =
     \<lparr>tm_cacheHits = 0, tm_cacheMisses = 0, tm_refreshes = 0, tm_requestFailures = 0\<rparr>\<rparr>"

definition auth_text :: "token_auth \<Rightarrow> string" where
  "auth_text a = (case a of HvdAuth \<Rightarrow> ''hvd'' | OrgAuth \<Rightarrow> ''org'')"

definition token_cache_key :: "token_config \<Rightarrow> token_auth \<Rightarrow> string" where
  "token_cache_key cfg auth = auth_text auth @ '':'' @ token_scopes cfg auth"

definition invalidate_token :: "client_state \<Rightarrow> client_state" where
  "invalidate_token st = st\<lparr>cl_tokenCaches := []\<rparr>"

text \<open>What a finished request leaves of the cache: a repetition after a 401 has cleared it.\<close>

definition after_request :: "int list \<Rightarrow> client_state \<Rightarrow> client_state" where
  "after_request waits st = (if 0 \<in> set waits then invalidate_token st else st)"

definition token_refresh_skew_ms :: rat where
  "token_refresh_skew_ms = 60000"

definition cached_token_of :: "rat \<Rightarrow> oauth_token \<Rightarrow> cached_token" where
  "cached_token_of now t =
     (let expiresInMs = ot_expires_in t * 1000;
          skewMs = min token_refresh_skew_ms (of_int \<lfloor>expiresInMs / 10\<rfloor>)
      in \<lparr>ct_accessToken = ot_access_token t, ct_expiresAt = now + max (expiresInMs - skewMs) 0,
          ct_scope = ot_scope t, ct_tokenType = ot_token_type t\<rparr>)"

text \<open>
  The token requests of \<open>requestAccessToken\<close>, whose last error goes through \<open>mapError\<close>; \<open>ans\<close>
  gives the answers with the body of an error.
\<close>

fun client_token_attempts ::
  "js_numbers \<Rightarrow> string \<Rightarrow> (nat \<Rightarrow> rat http_answer) \<Rightarrow> nat \<Rightarrow> nat \<Rightarrow> (provider_exception + oauth_token)" where
  "client_token_attempts js rid ans k 0 = Inl (HttpException 500 ''Bolagsverket token request failed'')"
| "client_token_attempts js rid ans k (Suc n) =
     (let (status, details, r) =
        (case ans k of HttpOk body \<Rightarrow> (None, None, parse_token js body)
         | HttpError s d \<Rightarrow> (s, d, Inl \<lparr>te_status = s, te_message = []\<rparr>))
      in case r of
           Inr t \<Rightarrow> Inr t
         | Inl e \<Rightarrow>
             if retryable \<lparr>te_status = status, te_message = []\<rparr> \<and> n > 0
             then client_token_attempts js rid ans (k + 1) n
             else Inl (map_error js status (Some rid) details))"

definition client_request_token ::
  "js_numbers \<Rightarrow> token_config \<Rightarrow> token_auth \<Rightarrow> string \<Rightarrow> (nat \<Rightarrow> rat http_answer) \<Rightarrow> provider_exception + oauth_token" where
  "client_request_token js cfg auth rid ans =
     (case token_client_id cfg auth of
        Inl e \<Rightarrow> Inl (UnauthorizedException (te_message e))
      | Inr _ \<Rightarrow>
          (case token_client_secret cfg auth of
             Inl e \<Rightarrow> Inl (UnauthorizedException (te_message e))
           | Inr _ \<Rightarrow> client_token_attempts js rid ans 0 (max_retries + 1)))"

definition is_token_valid :: "rat \<Rightarrow> string \<Rightarrow> client_state \<Rightarrow> bool" where
  "is_token_valid now key st =
     (case map_of (cl_tokenCaches st) key of None \<Rightarrow> False | Some t \<Rightarrow> now < ct_expiresAt t)"

text \<open>
  \<open>getAccessToken\<close> without a tenant, at time \<open>now\<close>; \<open>later\<close> is the time the answer arrives.
  A client error before the first request is not counted as a failure.
\<close>

definition get_access_token ::
  "js_numbers \<Rightarrow> token_config \<Rightarrow> token_auth \<Rightarrow> rat \<Rightarrow> rat \<Rightarrow> string \<Rightarrow> (nat \<Rightarrow> rat http_answer) \<Rightarrow> client_state \<Rightarrow>
   (provider_exception + string) \<times> client_state" where
  "get_access_token js cfg auth now later rid ans st =
     (let key = token_cache_key cfg auth; m = cl_metrics st
      in if is_token_valid now key st
         then (Inr (ct_accessToken (the (map_of (cl_tokenCaches st) key))),
               st\<lparr>cl_metrics := m\<lparr>tm_cacheHits := tm_cacheHits m + 1\<rparr>\<rparr>)
         else (let m = m\<lparr>tm_cacheMisses := tm_cacheMisses m + 1\<rparr>;
                   configured = (\<exists>i s. token_client_id cfg auth = Inr i \<and> token_client_secret cfg auth = Inr s)
               in case client_request_token js cfg auth rid ans of
                    Inl e \<Rightarrow> (Inl e, st\<lparr>cl_metrics := if configured
                        then m\<lparr>tm_requestFailures := tm_requestFailures m + 1\<rparr> else m\<rparr>)
                  | Inr t \<Rightarrow> (Inr (ot_access_token t),
                      st\<lparr>cl_metrics := m\<lparr>tm_refreshes := tm_refreshes m + 1\<rparr>,
                         cl_tokenCaches := put_member key (cached_token_of later t) (cl_tokenCaches st)\<rparr>)))"

record token_entry =
  tn_cacheKey :: string
  tn_expiresAt :: rat
  tn_expiresInMs :: rat
  tn_scope :: "string option"
  tn_tokenType :: "string option"

definition token_cache_status :: "rat \<Rightarrow> client_state \<Rightarrow> token_entry list \<times> token_metrics" where
  "token_cache_status now st =
     (map (\<lambda>(k, t). \<lparr>tn_cacheKey = k, tn_expiresAt = ct_expiresAt t, tn_expiresInMs = max (ct_expiresAt t - now) 0,
         tn_scope = ct_scope t, tn_tokenType = ct_tokenType t\<rparr>) (cl_tokenCaches st), cl_metrics st)"

definition hvd_revoke_url :: "token_config \<Rightarrow> string" where
  "hvd_revoke_url cfg = or_default (cfg ''BV_HVD_REVOKE_URL'') ''https://portal.api.bolagsverket.se/oauth2/revoke''"

text \<open>\<open>failure\<close> is the error of the revocation request, if it fails.\<close>

definition revoke_access_token ::
  "token_config \<Rightarrow> string option \<Rightarrow> client_state \<Rightarrow> (bool \<times> string option) \<times> client_state" where
  "revoke_access_token cfg failure st =
     (if hvd_revoke_url cfg = [] then ((False, Some ''Revocation endpoint is not configured''), st)
      else (case map_of (cl_tokenCaches st) (token_cache_key cfg HvdAuth) of
          None \<Rightarrow> ((False, Some ''No access token available to revoke''), st)
        | Some t \<Rightarrow>
            (case failure of
               Some e \<Rightarrow> ((False, Some e), st)
             | None \<Rightarrow> ((True, None), invalidate_token st))))"

section \<open>The endpoints\<close>

definition plain_fetch :: "client_error + 'n fetched \<Rightarrow> provider_exception + 'n fetched" where
  "plain_fetch r =
     (case r of Inr f \<Rightarrow> Inr f | Inl (Thrown e) \<Rightarrow> Inl e
      | Inl (NoFiData i) \<Rightarrow> Inl (OtherError ''Bolagsverket FI endpoint returned no resource (HTTP 404)'' None))"

text \<open>A call that answers a missing resource with a default payload.\<close>

definition fetch_or_empty :: "string \<Rightarrow> 'n json \<Rightarrow> client_error + 'n fetched \<Rightarrow> provider_exception + 'n fetched" where
  "fetch_or_empty newId body r =
     (case r of
        Inl e \<Rightarrow> if optional_endpoint_empty e
          then Inr \<lparr>fd_responsePayload = body, fd_requestId = newId\<rparr> else plain_fetch r
      | Inr f \<Rightarrow> Inr f)"

definition fetch_verkliga_huvudman :: "string \<Rightarrow> client_error + 'n fetched \<Rightarrow> provider_exception + 'n fetched" where
  "fetch_verkliga_huvudman newId r = fetch_or_empty newId JNull r"

definition fetch_organization_engagements :: "string \<Rightarrow> client_error + ('n :: zero) fetched \<Rightarrow> provider_exception + 'n fetched" where
  "fetch_organization_engagements newId r =
     fetch_or_empty newId (JObj [(''totaltAntalTraffar'', JNum 0), (''funktionarsOrganisationsengagemang'', JArr [])]) r"

definition fetch_financial_reports :: "string \<Rightarrow> client_error + 'n fetched \<Rightarrow> provider_exception + 'n fetched" where
  "fetch_financial_reports newId r = fetch_or_empty newId (JObj [(''finansiellaRapporter'', JArr [])]) r"

definition fetch_document_list :: "string \<Rightarrow> client_error + 'n fetched \<Rightarrow> provider_exception + 'n fetched" where
  "fetch_document_list newId r =
     (case r of
        Inr f \<Rightarrow>
          (let ms = (case fd_responsePayload f of JObj ms \<Rightarrow> ms | _ \<Rightarrow> []);
               dokument = (case map_of ms ''dokument'' of Some (JArr xs) \<Rightarrow> xs | _ \<Rightarrow> [])
           in Inr (f\<lparr>fd_responsePayload := JObj (put_member ''dokument'' (JArr dokument) ms)\<rparr>))
      | Inl (Thrown e) \<Rightarrow>
          if no_catalog_error e \<or>
             has_sub ''HTTP 404'' (exception_message e) \<and> has_sub ''Bolagsverket'' (exception_message e)
          then Inr \<lparr>fd_responsePayload = JObj [(''dokument'', JArr [])], fd_requestId = newId\<rparr>
          else Inl e
      | Inl (NoFiData i) \<Rightarrow> plain_fetch r)"

definition ensure_array :: "'n json \<Rightarrow> 'n json list" where
  "ensure_array v = (case v of JArr xs \<Rightarrow> xs | _ \<Rightarrow> [v])"

text \<open>The organisation, case and person calls wrap a single value into a list.\<close>

definition fetch_as_array :: "client_error + 'n fetched \<Rightarrow> provider_exception + 'n fetched" where
  "fetch_as_array r =
     map_sum id (\<lambda>f. f\<lparr>fd_responsePayload := JArr (ensure_array (fd_responsePayload f))\<rparr>) (plain_fetch r)"

definition organisation_payload ::
  "string \<Rightarrow> string list \<Rightarrow> string option \<Rightarrow> string option \<Rightarrow> rat members" where
  "organisation_payload i categories tidpunkt namnskydd =
     [(''identitetsbeteckning'', JStr i)] @ opt_member ''namnskyddslopnummer'' (map_option JStr namnskydd) @
     (if categories = [] then [] else [(''organisationInformationsmangd'', JArr (map JStr categories))]) @
     opt_member ''tidpunkt'' (map_option JStr tidpunkt)"

definition arende_payload ::
  "string option \<Rightarrow> string option \<Rightarrow> string option \<Rightarrow> string option \<Rightarrow> rat members" where
  "arende_payload arendenummer org fromdatum tomdatum =
     opt_member ''arendenummer'' (map_option JStr (Option.bind arendenummer nonempty)) @
     opt_member ''organisationIdentitetsbeteckning'' (map_option JStr (Option.bind org nonempty)) @
     opt_member ''fromdatum'' (map_option JStr (Option.bind fromdatum nonempty)) @
     opt_member ''tomdatum'' (map_option JStr (Option.bind tomdatum nonempty))"

definition period_payload :: "string \<Rightarrow> string option \<Rightarrow> string option \<Rightarrow> rat members" where
  "period_payload i fromdatum tomdatum =
     (''identitetsbeteckning'', JStr i) # arende_payload None None fromdatum tomdatum"

definition engagement_payload ::
  "string \<Rightarrow> nat \<Rightarrow> nat \<Rightarrow> string option \<Rightarrow> string option \<Rightarrow> rat json option \<Rightarrow> rat members" where
  "engagement_payload i sida antalPerSida sortAttribute sortOrder filters =
     [(''identitetsbeteckning'', JStr i),
      (''paginering'', JObj [(''sida'', JNum (of_nat sida)), (''antalPerSida'', JNum (of_nat antalPerSida))])] @
     (case (Option.bind sortAttribute nonempty, Option.bind sortOrder nonempty) of
        (Some a, Some o') \<Rightarrow> [(''sortering'', JObj [(''attribut'', JStr a), (''sorteringsordning'', JStr o')])]
      | _ \<Rightarrow> []) @
     opt_member ''filtrering'' filters"

definition person_payload :: "string \<Rightarrow> string list \<Rightarrow> rat members" where
  "person_payload i mangd =
     (''identitetsbeteckning'', JStr i) #
       (if mangd = [] then [] else [(''personInformationsmangd'', JArr (map JStr mangd))])"

definition health_status :: "'n json \<Rightarrow> string" where
  "health_status body = (if body = JStr ''OK'' then ''OK'' else ''UNKNOWN'')"

definition vh_health :: "token_config \<Rightarrow> client_error + 'n fetched \<Rightarrow> string \<times> bool" where
  "vh_health cfg r =
     (if \<not> vh_enabled cfg then (''DISABLED'', False)
      else case r of Inl _ \<Rightarrow> (''UNAVAILABLE'', True) | Inr f \<Rightarrow> (health_status (fd_responsePayload f), True))"

section \<open>File names\<close>

definition base_name :: "string \<Rightarrow> string" where
  "base_name p = rev (takeWhile (\<lambda>c. c \<noteq> CHR ''/'') (dropWhile (\<lambda>c. c = CHR ''/'') (rev p)))"

definition unsafe_char :: "char \<Rightarrow> bool" where
  "unsafe_char c \<longleftrightarrow> code c \<le> 31 \<or> code c = 127 \<or> code c = 34 \<or> code c = 39 \<or> code c = 59"

definition to_slash :: "char \<Rightarrow> char" where
  "to_slash c = (if code c = 92 then CHR ''/'' else c)"

text \<open>\<open>decode\<close> is \<open>decodeURIComponent\<close>, with the input itself where it throws.\<close>

definition sanitize_filename :: "(string \<Rightarrow> string) \<Rightarrow> string option \<Rightarrow> string option" where
  "sanitize_filename decode input =
     Option.bind (Option.bind input nonempty) (\<lambda>s.
       nonempty (take 255 (trim (filter (\<lambda>c. \<not> unsafe_char c)
         (base_name (map to_slash (decode s)))))))"

section \<open>Retries are bounded\<close>

lemma next_delay_bounds: "0 \<le> d \<Longrightarrow> 0 \<le> next_delay_ms d \<and> next_delay_ms d \<le> 2 * d"
  by (simp add: next_delay_ms_def)

lemma request_loop_returns:
  assumes "a + n = max_retries" and "0 \<le> delay"
  shows "\<exists>r ds. request_loop js fi404 ids hdr ans (Suc n) k a delay = Some (r, ds) \<and> length ds \<le> n \<and>
    sum_list ds \<le> delay * (2 ^ n - 1)"
  using assms
proof (induction n arbitrary: k a delay)
  case 0
  then show ?case by (auto simp: max_retries_def split: sum.splits http_answer.splits)
next
  case (Suc n)
  have again: "\<exists>r ds. map_option (\<lambda>(r, ds). (r, w # ds)) (request_loop js fi404 ids hdr ans (Suc n) (k + 1) (a + 1) d) =
        Some (r, ds) \<and> length ds \<le> Suc n \<and> sum_list ds \<le> delay * (2 ^ Suc n - 1)"
    if d: "0 \<le> d" "d \<le> 2 * delay" and w: "w \<le> delay" for w d
  proof -
    from Suc.IH [of "a + 1" d "k + 1"] Suc.prems(1) d(1) obtain r ds where
      r: "request_loop js fi404 ids hdr ans (Suc n) (k + 1) (a + 1) d = Some (r, ds)" "length ds \<le> n"
      "sum_list ds \<le> d * (2 ^ n - 1)" by auto
    have "d * (2 ^ n - 1) \<le> 2 * delay * (2 ^ n - 1)"
      using d(2) by (rule mult_right_mono) simp
    then have "w + sum_list ds \<le> delay * (2 ^ Suc n - 1)"
      using r(3) w by (simp add: algebra_simps)
    with r show ?thesis by (simp del: request_loop.simps)
  qed
  have base: "0 \<le> delay * (2 ^ Suc n - 1)" using Suc.prems(2) by simp
  show ?case
    using again [of delay 0] again [of "next_delay_ms delay" delay] Suc.prems(2) next_delay_bounds [of delay] base
    by (subst request_loop.simps) (auto simp del: request_loop.simps split: sum.splits http_answer.splits)
qed

text \<open>C10: A call of the provider always comes to an end: with at most three repetitions, which wait seven
  seconds together at most.
\<close>

theorem provider_call_bounded:
  "\<exists>r ds. request_loop js fi404 ids hdr ans 4 0 0 initial_delay_ms = Some (r, ds) \<and>
    request_with_retry js fi404 ids hdr ans = (r, ds) \<and> length ds \<le> 3 \<and> sum_list ds \<le> 7000"
proof -
  have "0 + 3 = max_retries" "0 \<le> initial_delay_ms" by (simp_all add: max_retries_def initial_delay_ms_def)
  from request_loop_returns [OF this, of js fi404 ids hdr ans 0] obtain r ds where
    r: "request_loop js fi404 ids hdr ans (Suc 3) 0 0 initial_delay_ms = Some (r, ds)" "length ds \<le> 3"
      "sum_list ds \<le> initial_delay_ms * (2 ^ 3 - 1)" by blast
  have f: "max_retries + 1 = Suc 3" "(4 :: nat) = Suc 3" by (simp_all add: max_retries_def)
  show ?thesis
    unfolding request_with_retry_def f using r by (simp add: initial_delay_ms_def del: request_loop.simps)
qed

section \<open>Failures\<close>

text \<open>Statuses of a failed call that the client passes on.\<close>

definition passed_on :: "nat option \<Rightarrow> bool" where
  "passed_on s \<longleftrightarrow> s = Some 400 \<or> s = Some 401 \<or> s = Some 403"

text \<open>What a failure was is lost on the way to the failure state: whatever the provider answered but 400,
  401 and 403, a timeout, an exceeded quota, an unavailable gateway or no answer at all, the
  error of the client is classified as a server error, never as a timeout, quota or
  availability problem.
\<close>

theorem provider_status_lost:
  assumes "\<not> passed_on status" and "member_of ''status'' details = None"
  shows "classify_failure (map_error js status rid details) =
    classification PROVIDER_ERROR ''http_500_server_error'' True False False"
proof -
  have n: "ae_status (normalize_api_error status rid details) = map_option (\<lambda>n. JNum (of_nat n)) status"
    using assms(2) by (auto simp: normalize_api_error_def Let_def split: option.splits)
  have c: "nullish_or (map_option (\<lambda>n. JNum (of_nat n)) status) (map_option (\<lambda>n. JNum (of_nat n)) status) =
      (map_option (\<lambda>n. JNum (of_nat n)) status :: rat json option)"
    by (cases status) simp_all
  have "map_option (\<lambda>n. JNum (of_nat n)) status \<notin>
      {Some (JNum 400), Some (JNum 401), Some (JNum 403) :: rat json option}"
    using assms(1) by (cases status) (auto simp: passed_on_def of_nat_eq_iff [where 'a = rat, of _ 400, simplified]
      of_nat_eq_iff [where 'a = rat, of _ 401, simplified] of_nat_eq_iff [where 'a = rat, of _ 403, simplified])
  then have "\<exists>m. map_error js status rid details = HttpException 500 m"
    by (simp add: map_error_def n c Let_def)
  then obtain m where "map_error js status rid details = HttpException 500 m" by blast
  moreover have "show_nat 500 = ''500''" by code_simp
  ultimately show ?thesis by simp
qed

section \<open>Cached tokens\<close>

text \<open>A token of the cache that was issued at \<open>t0\<close> with a lifetime.\<close>

lemma cached_token_in_time:
  assumes "ot_expires_in t > 0" and "now < ct_expiresAt (cached_token_of t0 t)"
  shows "now < t0 + ot_expires_in t * 1000"
proof -
  define f :: rat where "f = of_int \<lfloor>ot_expires_in t * 1000 / 10\<rfloor>"
  have "f \<ge> 0" using assms(1) by (simp add: f_def)
  moreover have "now < t0 + max (ot_expires_in t * 1000 - min 60000 f) 0"
    using assms(2) by (simp add: cached_token_of_def Let_def token_refresh_skew_ms_def f_def)
  ultimately show ?thesis using assms(1) by (auto simp: max_def min_def split: if_splits)
qed

lemma parsed_token_lifetime: "parse_token js body = Inr t \<Longrightarrow> ot_expires_in t > 0"
  by (auto simp: parse_token_def split: json.splits option.splits if_splits)

lemma requested_token_lifetime: "client_token_attempts js rid ans k n = Inr t \<Longrightarrow> ot_expires_in t > 0"
  by (induction n arbitrary: k)
    (auto simp: Let_def parsed_token_lifetime split: http_answer.splits sum.splits if_splits prod.splits)

text \<open>A token that was fetched and cached is served again only while the provider honours it.\<close>

theorem cached_token_served_in_time:
  assumes "get_access_token js cfg auth now later rid ans st = (Inr tok, st1)"
    and "\<not> is_token_valid now (token_cache_key cfg auth) st"
    and "client_request_token js cfg auth rid ans = Inr t"
    and "is_token_valid now2 (token_cache_key cfg auth) st1"
  shows "fst (get_access_token js cfg auth now2 later2 rid2 ans2 st1) = Inr tok \<and>
    now2 < later + ot_expires_in t * 1000"
proof -
  have st1: "map_of (cl_tokenCaches st1) (token_cache_key cfg auth) = Some (cached_token_of later t)" "tok = ot_access_token t"
    using assms(1-3) by (auto simp: get_access_token_def Let_def)
  have "ot_expires_in t > 0"
    using assms(3) unfolding client_request_token_def
    by (auto simp del: client_token_attempts.simps dest: requested_token_lifetime split: sum.splits)
  moreover have "now2 < ct_expiresAt (cached_token_of later t)"
    using assms(4) by (simp add: is_token_valid_def st1)
  ultimately show ?thesis
    using assms(4) st1 by (simp add: get_access_token_def Let_def cached_token_in_time) (simp add: cached_token_of_def Let_def)
qed

section \<open>File names\<close>

lemma base_name_no_slash: "c \<in> set (base_name p) \<Longrightarrow> c \<noteq> CHR ''/''"
  by (auto simp: base_name_def dest: set_takeWhileD)

lemma base_name_subset: "c \<in> set (base_name p) \<Longrightarrow> c \<in> set p"
  unfolding base_name_def using set_dropWhileD set_takeWhileD by fastforce

text \<open>The name the client gives a downloaded document has no directory part, no control character
  and no quote or semicolon that could break out of a header, and is not empty and at most 255
  characters long, whatever the provider sent.
\<close>

theorem sanitized_filename_safe:
  assumes "sanitize_filename decode input = Some f"
  shows "f \<noteq> [] \<and> length f \<le> 255 \<and>
    (\<forall>c \<in> set f. \<not> unsafe_char c \<and> c \<noteq> CHR ''/'' \<and> code c \<noteq> 92)"
proof -
  obtain s where f: "f = take 255 (trim (filter (\<lambda>c. \<not> unsafe_char c)
      (base_name (map to_slash (decode s)))))" "f \<noteq> []"
    using assms by (auto simp: sanitize_filename_def bind_eq_Some_conv dest: nonempty_SomeD)
  have "\<not> unsafe_char c \<and> c \<noteq> CHR ''/'' \<and> code c \<noteq> 92" if "c \<in> set f" for c
  proof -
    from that have "c \<in> set (trim (filter (\<lambda>c. \<not> unsafe_char c)
        (base_name (map to_slash (decode s)))))"
      unfolding f(1) by (rule in_set_takeD)
    from set_trim [OF this] have c: "\<not> unsafe_char c"
      "c \<in> set (base_name (map to_slash (decode s)))" by auto
    from base_name_subset [OF c(2)] obtain x where x: "c = to_slash x" by auto
    have "code (to_slash x) \<noteq> 92" by (simp add: to_slash_def code_def)
    with base_name_no_slash [OF c(2)] c(1) x show ?thesis by simp
  qed
  moreover have "length f \<le> 255" by (subst f(1)) simp
  ultimately show ?thesis using f(2) by blast
qed

section \<open>Witnesses\<close>

theorem provider_status_lost_witness:
  "classify_failure (map_error js (Some 429) None None) =
    classification PROVIDER_ERROR ''http_500_server_error'' True False False"
  by (rule provider_status_lost) (simp_all add: passed_on_def)

theorem sanitized_filename_safe_witness:
  "\<exists>f. sanitize_filename (\<lambda>s. s) (Some ''/tmp/a;b.zip'') = Some f \<and> (\<forall>c \<in> set f. \<not> unsafe_char c)"
proof -
  have s: "sanitize_filename (\<lambda>s. s) (Some ''/tmp/a;b.zip'') = Some ''ab.zip''" by code_simp
  from sanitized_filename_safe [OF s] show ?thesis using s by blast
qed

end
