(* ===== verification/CompanyMapper.thy ===== *)
theory CompanyMapper
  imports Prelude
begin

text \<open>
  \<open>BolagsverketMapper\<close> (backend/src/companies/integrations/bolagsverket.mapper.ts): the company
  record made from the high-value dataset and the rich organisation information. The payloads
  are JSON documents of the provider; as in its schema, the elements of their lists are objects,
  names and identities are strings, and dates are strings of digits and hyphens, on which \<open>localeCompare\<close> is the order of
  strings. The warnings of the logger are left out.
\<close>

section \<open>Data\<close>

record 'n field_error =
  fe_field :: string
  fe_errorType :: "'n json"

text \<open>\<open>NormalisedCompany\<close>; the two structured sections are the objects the code builds.\<close>

record 'n mapped_company =
  mc_organisationNumber :: string
  mc_legalName :: string
  mc_companyForm :: "string option"
  mc_status :: "string option"
  mc_registeredAt :: "'n json"
  mc_countryCode :: string
  mc_businessDescription :: "'n json"
  mc_signatoryText :: "'n json"
  mc_officers :: "'n json list"
  mc_shareInformation :: "'n json"
  mc_financialReports :: "'n json list"
  mc_addresses :: "'n json list"
  mc_allNames :: "'n json list"
  mc_permits :: "'n json list"
  mc_financialYear :: "'n json"
  mc_industryCode :: "'n json"
  mc_deregisteredAt :: "'n json"
  mc_sourcePayloadSummary :: "'n members"
  mc_fieldErrors :: "'n field_error list"
  mc_hvdSection :: "'n json"
  mc_v4Section :: "'n json"
  mc_documentList :: "'n json list option"

section \<open>Reading fields\<close>

definition extract_kod_klartext :: "'n json option \<Rightarrow> string option" where
  "extract_kod_klartext v = text_or_member [''klartext'', ''kod'', ''text'', ''beskrivning''] v"

definition extract_status_text :: "'n json option \<Rightarrow> string option" where
  "extract_status_text e =
     or_else (extract_kod_klartext (member_of ''status'' e)) (first_text e [''klartext'', ''kod''])"

definition or_null :: "'n json option \<Rightarrow> 'n json" where
  "or_null v = or_default v JNull"

definition extract_statusdatum :: "'n json option \<Rightarrow> 'n json" where
  "extract_statusdatum e = or_null (nullish_or (member_of ''statusdatum'' e) (member_of ''datum'' e))"

definition extract_date :: "string list \<Rightarrow> 'n json option \<Rightarrow> string option" where
  "extract_date keys v = text_or_member keys v"

definition extract_identity :: "'n json option \<Rightarrow> string option" where
  "extract_identity v = text_or_member [''identitetsbeteckning''] v"

text \<open>The texts of a list that are not empty, joined; \<open>null\<close> when there is none.\<close>

definition extract_proceedings :: "'n json option \<Rightarrow> string option" where
  "extract_proceedings v =
     (case v of
        Some (JStr s) \<Rightarrow> Some s
      | _ \<Rightarrow>
          (case member_of ''pagaendeAvvecklingsEllerOmstruktureringsforfarandeLista'' v of
             Some (JArr (x # xs)) \<Rightarrow>
               (let parts = List.map_filter
                      (\<lambda>i. Option.bind (first_text (Some i) [''klartext'', ''kod'']) nonempty) (x # xs)
                in if parts = [] then None else Some (join '', '' parts))
           | _ \<Rightarrow> first_text v [''klartext'', ''kod'']))"

definition address_keys :: "string list" where
  "address_keys = [''adresstyp'', ''gatuadress'', ''utdelningsadress'', ''postnummer'', ''postort'', ''land'']"

definition map_address :: "'n :: zero json option \<Rightarrow> 'n json" where
  "map_address a = (if truthy a then json_pick address_keys a else JNull)"

fun normalize_array :: "'n json option \<Rightarrow> 'n json list" where
  "normalize_array (Some (JArr xs)) = xs"
| "normalize_array (Some (JObj ms)) = [JObj ms]"
| "normalize_array v = []"

definition fel_of :: "'n json option \<Rightarrow> 'n json option" where
  "fel_of v = member_of ''fel'' v"

abbreviation has_fel :: "'n :: zero json option \<Rightarrow> bool" where
  "has_fel v \<equiv> truthy (fel_of v)"

definition fel_type :: "'n json option \<Rightarrow> 'n json" where
  "fel_type v = or_default (nullish_or (member_of ''typ'' (fel_of v)) None) (JStr ''UNKNOWN'')"

text \<open>The rows of a list without an error, each mapped.\<close>

definition valid_rows :: "('n :: zero json option \<Rightarrow> 'n json) \<Rightarrow> 'n json option \<Rightarrow> 'n json" where
  "valid_rows f v = JArr (map (f \<circ> Some) (filter (\<lambda>r. \<not> has_fel (Some r)) (normalize_array v)))"

text \<open>\<open>x?.fel ? null : x ? {...} : null\<close>\<close>

definition valid_object :: "('n :: zero json option \<Rightarrow> 'n json) \<Rightarrow> 'n json option \<Rightarrow> 'n json" where
  "valid_object f v = (if has_fel v \<or> \<not> truthy v then JNull else f v)"

text \<open>\<open>extractFieldOrNull\<close>: the value and the errors it adds.\<close>

definition extract_field ::
  "'n :: zero json option \<Rightarrow> ('n json option \<Rightarrow> 'n json) \<Rightarrow> string \<Rightarrow> 'n json \<times> 'n field_error list" where
  "extract_field raw extract fieldName =
     (case raw of None \<Rightarrow> (JNull, []) | Some JNull \<Rightarrow> (JNull, [])
      | Some v \<Rightarrow>
          if has_fel raw then (JNull, [\<lparr>fe_field = fieldName, fe_errorType = fel_type raw\<rparr>])
          else (extract raw, []))"

fun text_of_object :: "'n json option \<Rightarrow> 'n json" where
  "text_of_object (Some (JObj ms)) = json_field ''text'' (Some (JObj ms))"
| "text_of_object (Some (JArr xs)) = JNull"
| "text_of_object v = or_null v"

text \<open>\<open>typeof v === 'object' ? v?.belopp : v\<close>, then \<open>?? null\<close>.\<close>

fun amount_of :: "'n json option \<Rightarrow> 'n json" where
  "amount_of (Some (JObj ms)) = json_field ''belopp'' (Some (JObj ms))"
| "amount_of (Some (JArr xs)) = JNull"
| "amount_of v = or_null v"

section \<open>The records of the high-value dataset\<close>

definition record_date :: "'n json \<Rightarrow> string" where
  "record_date r = or_default (string_of (member_of ''registreringsdatum'' (Some r))) []"

text \<open>The latest first; records of one date keep their order.\<close>

definition sort_latest :: "'n json list \<Rightarrow> 'n json list" where
  "sort_latest xs = rev (sort_key record_date (rev xs))"

definition all_hvd_records :: "'n :: zero json option \<Rightarrow> 'n json list" where
  "all_hvd_records highValue =
     (case member_of ''organisationer'' highValue of
        Some (JArr xs) \<Rightarrow> sort_latest xs
      | _ \<Rightarrow> (case member_of ''organisation'' highValue of
                 Some o' \<Rightarrow> if truthy (Some o') then [o'] else []
               | None \<Rightarrow> []))"

definition primary_record :: "'n :: zero json list \<Rightarrow> 'n json" where
  "primary_record rs =
     or_default (or_else (find (\<lambda>r. \<not> has_fel (Some r)) rs) (nth_opt rs 0)) (JObj [])"

definition name_in_list :: "'n :: zero json option \<Rightarrow> string option" where
  "name_in_list v =
     (case v of
        Some (JArr xs) \<Rightarrow>
          Option.bind (find (\<lambda>n. \<not> has_fel (Some n) \<and> truthy (member_of ''namn'' (Some n))) xs)
            (\<lambda>n. string_of (member_of ''namn'' (Some n)))
      | _ \<Rightarrow> None)"

definition default_company_name :: string where
  "default_company_name = ''Unknown company''"

definition resolve_legal_name :: "'n :: zero json option \<Rightarrow> 'n json option \<Rightarrow> string" where
  "resolve_legal_name hv rich =
     or_default (or_else (string_of (member_of ''namn'' hv))
       (or_else (string_of (member_of ''namn'' rich))
         (or_else (name_in_list (member_of ''organisationsnamnLista'' hv))
           (name_in_list (member_of ''samtligaOrganisationsnamn'' rich))))) default_company_name"

definition map_officer :: "'n json option \<Rightarrow> 'n json" where
  "map_officer v =
     JObj [(''namn'', json_field ''namn'' v),
       (''personId'', or_null (nullish_or (member_of ''personId'' v) (member_of ''identitetsbeteckning'' v))),
       (''roller'', or_default (nullish_or (member_of ''roller'' v) None) (JArr [])),
       (''fodelseAr'', json_field ''fodelseAr'' v), (''nationalitet'', json_field ''nationalitet'' v)]"

definition financial_year_of :: "'n json option \<Rightarrow> 'n json option" where
  "financial_year_of rich = nullish_or (member_of ''rakenskapsar'' rich) (member_of ''rakenskapsAr'' rich)"

text \<open>The errors of the whole records and of the sections read as a whole.\<close>

definition section_errors :: "'n :: zero json option \<Rightarrow> 'n json option \<Rightarrow> 'n field_error list" where
  "section_errors hv rich =
     List.map_filter (\<lambda>(name, v). if has_fel v
         then Some \<lparr>fe_field = name, fe_errorType = fel_type v\<rparr> else None)
       [(''hvOrg'', hv), (''richOrg'', rich), (''aktieinformation'', member_of ''aktieinformation'' rich),
        (''rakenskapsar'', financial_year_of rich),
        (''rekonstruktionsstatus'', member_of ''rekonstruktionsstatus'' hv)]"

section \<open>The structured sections\<close>

definition name_keys :: "string list" where
  "name_keys = [''namn'', ''namnstyp'', ''sprak'', ''registreringsdatum'', ''avregistreringsdatum'']"

definition status_row :: "'n json option \<Rightarrow> 'n json" where
  "status_row s = JObj [(''status'', json_text (extract_status_text s)), (''statusdatum'', extract_statusdatum s)]"

text \<open>\<open>x?.fel ? null : x?.k ?? null\<close>\<close>

definition unless_fel :: "('n :: zero json option \<Rightarrow> 'n json) \<Rightarrow> 'n json option \<Rightarrow> 'n json" where
  "unless_fel f v = (if has_fel v then JNull else f v)"

definition hvd_section :: "'n :: zero json option \<Rightarrow> 'n json" where
  "hvd_section hv =
     (let m = (\<lambda>k. member_of k hv); text = (\<lambda>k. json_text (extract_kod_klartext (member_of k hv)));
          dereg = m ''avregistreringsinformation''; rek = m ''rekonstruktionsstatus''
      in JObj [(''identitetsbeteckning'', json_field ''identitetsbeteckning'' hv),
        (''namn'', json_field ''namn'' hv),
        (''names'', valid_rows (json_pick name_keys) (m ''organisationsnamnLista'')),
        (''juridiskForm'', text ''juridiskForm''),
        (''organisationsform'', text ''organisationsform''),
        (''organisationsdatum'', json_text (extract_date [''registreringsdatum''] (m ''organisationsdatum''))),
        (''registreringsdatum'', json_field ''registreringsdatum'' hv),
        (''verksamhetsbeskrivning'', text ''verksamhetsbeskrivning''),
        (''naringsgren'', valid_rows (json_pick [''snikod'', ''snikodText'']) (m ''snikoder'')),
        (''statusar'', valid_rows status_row (m ''organisationsstatusar'')),
        (''adresser'', valid_rows map_address (m ''adresser'')),
        (''postadressOrganisation'', map_address (m ''postadressOrganisation'')),
        (''reklamsparr'', text ''reklamsparr''),
        (''avregistreradOrganisation'',
          json_text (extract_date [''avregistreringsdatum''] (m ''avregistreradOrganisation''))),
        (''avregistreringsorsak'', unless_fel (\<lambda>d. json_text (extract_kod_klartext (member_of ''avregistreringsorsak'' d))) dereg),
        (''avregistreringsdatum'', unless_fel (json_field ''avregistreringsdatum'') dereg),
        (''pagaendeAvvecklingsEllerOmstruktureringsforfarande'',
          json_text (extract_proceedings (m ''pagaendeAvvecklingsEllerOmstruktureringsforfarande''))),
        (''verksamOrganisation'', text ''verksamOrganisation''),
        (''registreringsland'', text ''registreringsland''),
        (''organisationsidentitet'', json_text (extract_identity (m ''organisationsidentitet''))),
        (''rekonstruktionsstatus'', unless_fel (json_field ''rekonstruktionsstatus'') rek),
        (''rekonstruktionsdatum'', unless_fel (json_field ''rekonstruktionsdatum'') rek)])"

definition v4_officer :: "'n json option \<Rightarrow> 'n json" where
  "v4_officer o' =
     JObj [(''namn'', json_field ''namn'' o'),
       (''personId'', or_null (nullish_or (member_of ''personId'' o') (member_of ''identitetsbeteckning'' o'))),
       (''roller'', JArr (map (\<lambda>r. json_pick [''rollkod'', ''rollbeskrivning'', ''rollstatus'', ''fran'', ''tom''] (Some r))
          (normalize_array (member_of ''roller'' o')))),
       (''fodelseAr'', json_field ''fodelseAr'' o'), (''nationalitet'', json_field ''nationalitet'' o')]"

definition share_class :: "'n json option \<Rightarrow> 'n json" where
  "share_class s =
     JObj [(''aktieslagsnamn'', or_null (nullish_or (member_of ''aktieslagsnamn'' s) (member_of ''namn'' s))),
       (''antalAktier'', or_null (nullish_or (member_of ''antalAktier'' s) (member_of ''antal'' s))),
       (''aktiekapital'', json_field ''aktiekapital'' s),
       (''kvotvarde'', amount_of (member_of ''kvotvarde'' s)),
       (''rostvarde'', json_field ''rostvarde'' s)]"

definition share_limit :: "string \<Rightarrow> string \<Rightarrow> string \<Rightarrow> 'n json option \<Rightarrow> 'n json" where
  "share_limit k limits end' a =
     or_null (nullish_or (member_of k a) (member_of end' (member_of limits (member_of ''aktiegranser'' a))))"

definition share_section :: "'n :: zero json option \<Rightarrow> 'n json" where
  "share_section a =
     JObj [(''aktiekapital'', amount_of (member_of ''aktiekapital'' a)),
       (''antalAktier'', json_field ''antalAktier'' a), (''kvotvarde'', json_field ''kvotvarde'' a),
       (''aktiekapitalMin'', share_limit ''aktiekapitalMin'' ''aktiekapitalGranser'' ''lagst'' a),
       (''aktiekapitalMax'', share_limit ''aktiekapitalMax'' ''aktiekapitalGranser'' ''hogst'' a),
       (''antalAktierMin'', share_limit ''antalAktierMin'' ''antalAktierGranser'' ''lagst'' a),
       (''antalAktierMax'', share_limit ''antalAktierMax'' ''antalAktierGranser'' ''hogst'' a),
       (''registreringsdatum'', json_field ''registreringsdatum'' a),
       (''aktieslag'', valid_rows share_class (member_of ''aktieslag'' a))]"

definition municipality :: "'n json option \<Rightarrow> 'n json" where
  "municipality h =
     JObj [(''kommunnamn'', or_null (nullish_or (member_of ''kommunnamn'' h)
         (map_option JStr (extract_kod_klartext (member_of ''kommun'' h))))),
       (''kommunkod'', or_null (nullish_or (member_of ''kommunkod'' h) (member_of ''kod'' (member_of ''kommun'' h))))]"

text \<open>\<open>typeof v === 'string' ? v : v?.fel ? null : (v?.text ?? null)\<close>\<close>

definition text_section :: "'n :: zero json option \<Rightarrow> 'n json" where
  "text_section v =
     (case v of Some (JStr s) \<Rightarrow> JStr s | _ \<Rightarrow> if has_fel v then JNull else json_field ''text'' v)"

definition v4_section :: "'n :: zero json option \<Rightarrow> 'n json" where
  "v4_section rich =
     (let m = (\<lambda>k. member_of k rich)
      in JObj [(''identitetsbeteckning'', or_null (nullish_or
            (member_of ''identitetsbeteckning'' (m ''identitet'')) (m ''identitetsbeteckning''))),
        (''organisationsnamn'', or_null (nullish_or (member_of ''namn'' (m ''organisationsnamn'')) (m ''namn''))),
        (''organisationsform'', json_text (extract_kod_klartext (m ''organisationsform''))),
        (''organisationsdatum'', json_text (extract_date [''registreringsdatum'', ''bildatDatum''] (m ''organisationsdatum''))),
        (''registreringsdatum'', json_field ''registreringsdatum'' rich),
        (''organisationsstatusar'', valid_rows status_row (m ''organisationsstatusar'')),
        (''hemvistkommun'', valid_object municipality (m ''hemvistkommun'')),
        (''rakenskapsar'', valid_object (json_pick [''rakenskapsarInleds'', ''rakenskapsarAvslutas'',
            ''forstaRakenskapsarInleds'', ''forstaRakenskapsarAvslutas'']) (financial_year_of rich)),
        (''verksamhetsbeskrivning'', text_section (m ''verksamhetsbeskrivning'')),
        (''firmateckning'', text_section (m ''firmateckning'')),
        (''firmateckningstyp'', unless_fel (json_field ''firmateckningstyp'') (m ''firmateckning'')),
        (''samtligaOrganisationsnamn'', valid_rows (json_pick name_keys) (m ''samtligaOrganisationsnamn'')),
        (''funktionarer'', valid_rows v4_officer (m ''funktionarer'')),
        (''aktieinformation'', valid_object share_section (m ''aktieinformation'')),
        (''adresser'', valid_rows map_address (m ''adresser'')),
        (''tillstand'', valid_rows (json_pick [''tillstandstyp'', ''tillstandsnummer'', ''tillstandsstatus'',
            ''beviljatDatum'', ''giltigFran'', ''giltigTom'', ''utfardareNamn'']) (m ''tillstand'')),
        (''organisationsmarkeringar'', valid_rows (json_pick [''markeringstyp'', ''markeringsdatum'', ''text''])
          (m ''organisationsmarkeringar'')),
        (''bestammelser'', valid_rows (json_pick [''bestammelsetyp'', ''text'', ''registreringsdatum''])
          (m ''bestammelser'')),
        (''vakanserOchUpplysningar'', valid_rows (json_pick [''typ'', ''text'', ''registreringsdatum''])
          (m ''vakanserOchUpplysningar'')),
        (''ekonomiskPlan'', valid_object (json_pick [''plantyp'', ''godkandDatum'', ''registreringsdatum''])
          (m ''ekonomiskPlan'')),
        (''utlandskFilialagandeOrganisation'', valid_object (json_pick [''utlandskOrganisationNamn'',
            ''utlandskOrganisationIdentitetsbeteckning'', ''utlandskOrganisationLand''])
          (m ''utlandskFilialagandeOrganisation'')),
        (''finansiellaRapporter'', valid_rows (json_pick [''rapporttyp'', ''rapporteringsperiodFran'',
            ''rapporteringsperiodTom'', ''registreringsdatum'', ''dokumentId'']) (m ''finansiellaRapporter'')),
        (''ovrigOrganisationsinformation'', or_null (nullish_or (m ''ovrigOrganisationinformation'')
          (m ''ovrigOrganisationsinformation'')))])"

section \<open>The mapping\<close>

definition field_errors :: "'n :: zero json option \<Rightarrow> 'n json option \<Rightarrow> 'n field_error list" where
  "field_errors hv rich =
     snd (extract_field (member_of ''firmateckning'' rich) text_of_object ''firmateckning'') @
     snd (extract_field (member_of ''verksamhetsbeskrivning'' rich) text_of_object ''verksamhetsbeskrivning'') @
     snd (extract_field (item_of 0 (member_of ''snikoder'' hv)) (json_field ''snikod'') ''snikoder'') @
     snd (extract_field (member_of ''avregistreringsinformation'' hv) (json_field ''avregistreringsdatum'')
       ''avregistreringsinformation'') @
     section_errors hv rich"

definition raw_status :: "'n json option \<Rightarrow> 'n json option" where
  "raw_status v = member_of ''status'' (item_of 0 (member_of ''organisationsstatusar'' v))"

definition map_company ::
  "'n :: zero json option \<Rightarrow> 'n json list \<Rightarrow> string \<Rightarrow> 'n mapped_company" where
  "map_company highValue richInfo fallbackIdentifier =
     (let records = all_hvd_records highValue;
          hv = Some (primary_record records);
          rich = Some (or_default (nullish_or (nth_opt richInfo 0) None) (JObj []));
          errors = field_errors hv rich;
          year = financial_year_of rich
      in \<lparr>mc_organisationNumber = or_default (or_else (string_of (member_of ''identitetsbeteckning'' hv))
            (or_else (string_of (member_of ''identitetsbeteckning'' (member_of ''identitet'' rich)))
              (string_of (member_of ''identitetsbeteckning'' rich)))) fallbackIdentifier,
          mc_legalName = resolve_legal_name hv rich,
          mc_companyForm = or_else (extract_kod_klartext (member_of ''organisationsform'' hv))
            (extract_kod_klartext (member_of ''organisationsform'' rich)),
          mc_status = extract_kod_klartext (nullish_or (raw_status hv) (raw_status rich)),
          mc_registeredAt = or_null (nullish_or (member_of ''registreringsdatum'' hv)
            (nullish_or (map_option JStr (extract_date [''registreringsdatum''] (member_of ''organisationsdatum'' hv)))
              (nullish_or (member_of ''registreringsdatum'' rich)
                (map_option JStr (extract_date [''registreringsdatum''] (member_of ''organisationsdatum'' rich)))))),
          mc_countryCode = ''SE'',
          mc_businessDescription = fst (extract_field (member_of ''verksamhetsbeskrivning'' rich) text_of_object
            ''verksamhetsbeskrivning''),
          mc_signatoryText = fst (extract_field (member_of ''firmateckning'' rich) text_of_object ''firmateckning''),
          mc_officers = map (map_officer \<circ> Some) (normalize_array (member_of ''funktionarer'' rich)),
          mc_shareInformation = (if has_fel (member_of ''aktieinformation'' rich) then JObj []
            else or_default (nullish_or (member_of ''aktieinformation'' rich) None) (JObj [])),
          mc_financialReports = normalize_array (member_of ''finansiellaRapporter'' rich),
          mc_addresses = normalize_array (nullish_or (member_of ''adresser'' rich) (member_of ''adresser'' hv)),
          mc_allNames = normalize_array (member_of ''samtligaOrganisationsnamn'' rich),
          mc_permits = normalize_array (member_of ''tillstand'' rich),
          mc_financialYear = (if has_fel year then JNull else or_null year),
          mc_industryCode = fst (extract_field (item_of 0 (member_of ''snikoder'' hv)) (json_field ''snikod'') ''snikoder''),
          mc_deregisteredAt = fst (extract_field (member_of ''avregistreringsinformation'' hv)
            (json_field ''avregistreringsdatum'') ''avregistreringsinformation''),
          mc_sourcePayloadSummary = [(''hasHighValueDataset'', JBool (truthy highValue)),
            (''hasRichOrganisationInformation'', JBool (richInfo \<noteq> [])),
            (''partialDataFields'', JArr (map (JStr \<circ> fe_field) errors)),
            (''historicalRecords'', JArr (drop 1 records))],
          mc_fieldErrors = errors,
          mc_hvdSection = (if truthy highValue then hvd_section hv else JNull),
          mc_v4Section = (if richInfo \<noteq> [] then v4_section rich else JNull),
          mc_documentList = None\<rparr>)"

text \<open>The record as the object the code stores.\<close>

definition error_json :: "'n field_error \<Rightarrow> 'n json" where
  "error_json e = JObj [(''field'', JStr (fe_field e)), (''errorType'', fe_errorType e)]"

definition company_members :: "'n mapped_company \<Rightarrow> 'n members" where
  "company_members c =
     [(''organisationNumber'', JStr (mc_organisationNumber c)), (''legalName'', JStr (mc_legalName c)),
      (''companyForm'', json_text (mc_companyForm c)), (''status'', json_text (mc_status c)),
      (''registeredAt'', mc_registeredAt c), (''countryCode'', JStr (mc_countryCode c)),
      (''businessDescription'', mc_businessDescription c), (''signatoryText'', mc_signatoryText c),
      (''officers'', JArr (mc_officers c)), (''shareInformation'', mc_shareInformation c),
      (''financialReports'', JArr (mc_financialReports c)), (''addresses'', JArr (mc_addresses c)),
      (''allNames'', JArr (mc_allNames c)), (''permits'', JArr (mc_permits c)),
      (''financialYear'', mc_financialYear c), (''industryCode'', mc_industryCode c),
      (''deregisteredAt'', mc_deregisteredAt c),
      (''sourcePayloadSummary'', JObj (mc_sourcePayloadSummary c)),
      (''fieldErrors'', JArr (map error_json (mc_fieldErrors c))),
      (''hvdSection'', mc_hvdSection c), (''v4Section'', mc_v4Section c),
      (''documentList'', case mc_documentList c of None \<Rightarrow> JNull | Some ds \<Rightarrow> JArr ds)]"

section \<open>Properties\<close>

lemma set_sort_latest [simp]: "set (sort_latest xs) = set xs"
  by (simp add: sort_latest_def)

lemma sort_latest_descending: "sorted_wrt (\<lambda>a b. record_date a \<ge> record_date b) (sort_latest xs)"
proof -
  have "sorted (map record_date (sort_key record_date (rev xs)))" by simp
  then show ?thesis by (simp add: sort_latest_def sorted_wrt_rev sorted_wrt_map)
qed

lemma find_first_related:
  assumes "sorted_wrt R xs" and "find p xs = Some x" and "y \<in> set xs" and "p y"
  shows "y = x \<or> R x y"
  using assms
proof (induction xs)
  case Nil
  then show ?case by simp
next
  case (Cons a xs)
  then show ?case by (cases "p a") auto
qed

text \<open>Of several records of the high-value dataset the mapper works on one that is valid, when there
  is one, and no valid record is registered later.
\<close>

theorem primary_is_latest_valid:
  fixes xs :: "'n :: zero json list"
  assumes "member_of ''organisationer'' highValue = Some (JArr xs)" and "r \<in> set xs" and "\<not> has_fel (Some r)"
  shows "let p = primary_record (all_hvd_records highValue)
    in p \<in> set xs \<and> \<not> has_fel (Some p) \<and> record_date r \<le> record_date p"
proof -
  let ?v = "\<lambda>r. \<not> has_fel (Some r)"
  have rs: "all_hvd_records highValue = sort_latest xs" using assms(1) by (simp add: all_hvd_records_def)
  obtain p where p: "find ?v (sort_latest xs) = Some p"
    using assms(2,3) by (cases "find ?v (sort_latest xs)") (auto simp: find_None_iff)
  then have mem: "p \<in> set xs" "?v p" by (auto simp: find_Some_iff dest: nth_mem)
  have "r = p \<or> record_date r \<le> record_date p"
    using find_first_related [OF sort_latest_descending p, of r] assms(2,3) by simp
  then show ?thesis using p mem by (auto simp: rs primary_record_def)
qed

text \<open>The parts of the payloads that are read with an error check, by the name they are reported under.\<close>

definition checked_parts :: "'n :: zero json option \<Rightarrow> 'n json option \<Rightarrow> (string \<times> 'n json option) list" where
  "checked_parts hv rich =
     [(''firmateckning'', member_of ''firmateckning'' rich),
      (''verksamhetsbeskrivning'', member_of ''verksamhetsbeskrivning'' rich),
      (''snikoder'', item_of 0 (member_of ''snikoder'' hv)),
      (''avregistreringsinformation'', member_of ''avregistreringsinformation'' hv),
      (''hvOrg'', hv), (''richOrg'', rich), (''aktieinformation'', member_of ''aktieinformation'' rich),
      (''rakenskapsar'', financial_year_of rich),
      (''rekonstruktionsstatus'', member_of ''rekonstruktionsstatus'' hv)]"

lemma has_fel_extract:
  "extract_field v f name =
    (if has_fel v then (JNull, [\<lparr>fe_field = name, fe_errorType = fel_type v\<rparr>])
     else (if v = None \<or> v = Some JNull then JNull else f v, []))"
  by (auto simp: extract_field_def fel_of_def split: option.splits json.splits)

lemma field_errors_checked:
  "field_errors hv rich =
    map (\<lambda>(name, v). \<lparr>fe_field = name, fe_errorType = fel_type v\<rparr>) (filter (\<lambda>(_, v). has_fel v) (checked_parts hv rich))"
  by (simp add: field_errors_def checked_parts_def has_fel_extract section_errors_def)


text \<open>
  When the latest record is marked as erroneous and a later position holds a valid one, the
  valid record is the primary and also listed among the historical ones, and the erroneous one is
  dropped: the code takes all records but the first as history.
\<close>

theorem primary_listed_as_historical:
  fixes highValue :: "'n :: zero json option"
  assumes "all_hvd_records highValue = e # rs" and "has_fel (Some e)" and "r \<in> set rs" and "\<not> has_fel (Some r)"
  shows "\<exists>hist. map_of (mc_sourcePayloadSummary (map_company highValue richInfo fb)) ''historicalRecords'' =
      Some (JArr hist) \<and> primary_record (all_hvd_records highValue) \<in> set hist"
proof -
  obtain p where p: "find (\<lambda>r. \<not> has_fel (Some r)) rs = Some p"
    using assms(3,4) by (cases "find (\<lambda>r. \<not> has_fel (Some r)) rs") (auto simp: find_None_iff)
  then have "primary_record (all_hvd_records highValue) = p"
    using assms(1,2) by (simp add: primary_record_def)
  moreover have "p \<in> set rs" using p by (auto simp: find_Some_iff)
  ultimately show ?thesis by (simp add: map_company_def Let_def assms(1))
qed

text \<open>
  A status in the form of the organisation information, an object with code, text and date, is
  shown in its section, but the status of the company stays empty when the high-value dataset is
  missing: the code looks for a nested status only.
\<close>

theorem v4_status_lost:
  fixes ms :: "'n :: zero members"
  assumes "map_of ms ''organisationsstatusar'' = Some (JArr [JObj [(''kod'', JStr k), (''klartext'', JStr t), (''datum'', JStr d)]])"
  shows "mc_status (map_company None [JObj ms] fb) = None \<and>
    (\<exists>sec. mc_v4Section (map_company None [JObj ms] fb) = JObj sec \<and>
      map_of sec ''organisationsstatusar'' = Some (JArr [JObj [(''status'', JStr t), (''statusdatum'', JStr d)]]))"
proof -
  have p: "primary_record (all_hvd_records (None :: 'n json option)) = JObj []"
    by (simp add: primary_record_def all_hvd_records_def nth_opt_def)
  have row: "status_row (Some (JObj [(''kod'', JStr k), (''klartext'', JStr t), (''datum'', JStr d)])) =
      (JObj [(''status'', JStr t), (''statusdatum'', JStr d)] :: 'n json)"
    by (simp add: status_row_def extract_status_text_def extract_kod_klartext_def text_or_member_def
        extract_statusdatum_def or_null_def json_text_def)
  show ?thesis
    using row assms
    by (simp add: map_company_def p Let_def raw_status_def nth_opt_def extract_kod_klartext_def text_or_member_def
        v4_section_def valid_rows_def fel_of_def)
qed

section \<open>Witnesses\<close>

definition sample_record :: "string \<Rightarrow> int members \<Rightarrow> int json" where
  "sample_record d ms = JObj ((''registreringsdatum'', JStr d) # ms)"

definition sample_hvd :: "int json option" where
  "sample_hvd = Some (JObj [(''organisationer'', JArr [sample_record ''2019-01-01'' [],
     sample_record ''2021-01-01'' [(''fel'', JObj [(''typ'', JStr ''X'')])], sample_record ''2020-01-01'' []])])"

theorem primary_is_latest_valid_witness:
  "record_date (primary_record (all_hvd_records sample_hvd)) \<ge> ''2020-01-01''"
proof -
  have h: "member_of ''organisationer'' sample_hvd = Some (JArr [sample_record ''2019-01-01'' [],
     sample_record ''2021-01-01'' [(''fel'', JObj [(''typ'', JStr ''X'')])], sample_record ''2020-01-01'' []])"
    by (simp add: sample_hvd_def)
  have "\<not> has_fel (Some (sample_record ''2020-01-01'' []))"
    "record_date (sample_record ''2020-01-01'' []) = ''2020-01-01''"
    by (simp_all add: sample_record_def fel_of_def record_date_def)
  with primary_is_latest_valid [OF h, of "sample_record ''2020-01-01'' []"] show ?thesis
    by (simp add: Let_def)
qed


end
