(* ===== verification/ProviderStore.thy ===== *)
theory ProviderStore
  imports CompanyMapper SnapshotChain Dates Tables
begin

text \<open>
  What a fetch from the provider leaves in the database: \<open>BvCacheService\<close>
  (backend/src/companies/services/bv-cache.service.ts) and \<open>BvPersistenceService\<close>
  (backend/src/companies/services/bv-persistence.service.ts) with their tables. Documents hold
  integral numbers, as in the snapshot table.
\<close>

section \<open>Tables\<close>

record bv_organisation =
  og_id :: string
  og_tenantId :: string
  og_organisationsnummer :: string
  og_namn :: string
  og_organisationsformKlartext :: "string option"
  og_aktuellStatusKlartext :: "string option"
  og_senastUppdaterad :: int
  og_rawPayload :: "int members"
  og_dataQuality :: "int members"

text \<open>A row of one of the tables of full payloads.\<close>

record payload_row =
  pl_id :: string
  pl_tenantId :: string
  pl_organisationsnummer :: string
  pl_fetchedAt :: int
  pl_payload :: "int members"
  pl_requestId :: "string option"
  pl_snapshotId :: "string option"

record document_list_row =
  dl_tenantId :: string
  dl_organisationsnummer :: string
  dl_fetchedAt :: int
  dl_documents :: "int json list"
  dl_documentCount :: nat
  dl_requestId :: "string option"
  dl_snapshotId :: "string option"

record endpoint_row =
  er_tenantId :: string
  er_organisationNumber :: string
  er_source :: string
  er_sourceSystem :: "string option"
  er_endpointName :: string
  er_requestPayload :: "int members"
  er_responsePayload :: "int json"
  er_requestId :: string

section \<open>Snapshots\<close>

definition cache_ttl_days :: int where
  "cache_ttl_days = 30"

record cache_check =
  cc_isFresh :: bool
  cc_snapshot :: "snapshot option"
  cc_ageInDays :: "int option"

definition success_snapshot :: "string \<Rightarrow> string \<Rightarrow> snapshot \<Rightarrow> bool" where
  "success_snapshot tenantId org s \<longleftrightarrow> sn_tenantId s = tenantId \<and> sn_organisationsnummer s = org \<and>
     sn_fetchStatus s = ''success''"

definition check_freshness :: "int \<Rightarrow> string \<Rightarrow> string \<Rightarrow> snapshot list \<Rightarrow> cache_check" where
  "check_freshness now tenantId org rows =
     (case find_latest (success_snapshot tenantId org) sn_fetchedAt rows of
        None \<Rightarrow> \<lparr>cc_isFresh = False, cc_snapshot = None, cc_ageInDays = None\<rparr>
      | Some s \<Rightarrow>
          (let ageInDays = (now - sn_fetchedAt s) div ms_per_day
           in \<lparr>cc_isFresh = ageInDays < cache_ttl_days, cc_snapshot = Some s, cc_ageInDays = Some ageInDays\<rparr>))"

definition list_snapshots :: "string \<Rightarrow> string \<Rightarrow> nat \<Rightarrow> snapshot list \<Rightarrow> snapshot list" where
  "list_snapshots tenantId org limit rows = take limit (find_desc (of_company tenantId org) sn_fetchedAt rows)"

text \<open>A new snapshot, with the defaults of the table; \<open>createSnapshot\<close> adds it.\<close>

definition new_snapshot ::
  "string \<Rightarrow> string \<Rightarrow> string \<Rightarrow> string \<Rightarrow> string \<Rightarrow> int \<Rightarrow> snapshot_policy_decision \<Rightarrow> snapshot" where
  "new_snapshot newId tenantId org identifierType fetchStatus fetchedAt decision =
     \<lparr>sn_id = newId, sn_tenantId = tenantId, sn_organisationId = None, sn_organisationsnummer = org,
      sn_sourceName = ''bolagsverket'', sn_identifierUsed = org, sn_identifierType = identifierType,
      sn_fetchStatus = fetchStatus, sn_isFromCache = False, sn_cacheHitReason = None, sn_payloadHash = None,
      sn_rawPayloadSummary = [], sn_normalisedSummary = [], sn_errorMessage = None, sn_fetchedAt = fetchedAt,
      sn_apiCallCount = 0, sn_dataFreshnessDays = None, sn_correlationId = None, sn_actorId = None,
      sn_policyDecision = decision, sn_costImpactFlags = [], sn_isStaleFallback = False,
      sn_rawPayloadId = None, sn_previousSnapshotId = None, sn_versionNumber = 1, sn_sequenceNumber = 1,
      sn_replayId = None, sn_chainBroken = False\<rparr>"

definition create_snapshot :: "snapshot \<Rightarrow> snapshot list \<Rightarrow> snapshot list" where
  "create_snapshot s rows = rows @ [s]"

section \<open>Organisations\<close>

definition quality_tracked_field_count :: nat where
  "quality_tracked_field_count = 7"

definition completeness_score :: "'n field_error list \<Rightarrow> int" where
  "completeness_score errors =
     (let n = quality_tracked_field_count; e = min (length (distinct_in_order (map fe_field errors))) n
      in \<lfloor>(of_nat (n - e) / of_nat n) * 100 + 1 / 2 :: rat\<rfloor>)"

definition data_quality :: "int \<Rightarrow> int field_error list \<Rightarrow> int members" where
  "data_quality now errors =
     [(''completenessScore'', JNum (completeness_score errors)),
      (''missingFields'', JArr (map JStr (distinct_in_order (map fe_field errors)))),
      (''errorSources'', JArr (distinct_in_order (map fe_errorType errors))),
      (''fieldErrors'', JArr (map error_json errors)), (''lastUpdated'', JStr (iso_string now))]"

definition find_by_org_nr :: "string \<Rightarrow> string \<Rightarrow> bv_organisation list \<Rightarrow> bv_organisation option" where
  "find_by_org_nr tenantId org t = find_one (\<lambda>o'. og_tenantId o' = tenantId \<and> og_organisationsnummer o' = org) t"

definition upsert_organisation ::
  "int \<Rightarrow> string \<Rightarrow> string \<Rightarrow> int mapped_company \<Rightarrow> int members \<Rightarrow> bv_organisation list \<Rightarrow>
   bv_organisation \<times> bv_organisation list" where
  "upsert_organisation now newId tenantId c rawPayload t =
     (let existing = find_by_org_nr tenantId (mc_organisationNumber c) t;
          saved = \<lparr>og_id = (case existing of None \<Rightarrow> newId | Some e \<Rightarrow> og_id e), og_tenantId = tenantId,
            og_organisationsnummer = mc_organisationNumber c, og_namn = mc_legalName c,
            og_organisationsformKlartext = mc_companyForm c, og_aktuellStatusKlartext = mc_status c,
            og_senastUppdaterad = now, og_rawPayload = rawPayload,
            og_dataQuality = data_quality now (mc_fieldErrors c)\<rparr>
      in (saved, save og_id saved t))"

section \<open>Payloads\<close>

text \<open>\<open>storeHvdPayload\<close>, \<open>storeForetagsinfoPayload\<close> and \<open>storeVhPayload\<close>, each on its table.\<close>

definition store_payload ::
  "string \<Rightarrow> string \<Rightarrow> string \<Rightarrow> int \<Rightarrow> int members \<Rightarrow> string option \<Rightarrow> string option \<Rightarrow> payload_row list \<Rightarrow> payload_row list" where
  "store_payload i tenantId org fetchedAt payload requestId snapshotId t =
     t @ [\<lparr>pl_id = i, pl_tenantId = tenantId, pl_organisationsnummer = org, pl_fetchedAt = fetchedAt, pl_payload = payload,
       pl_requestId = requestId, pl_snapshotId = snapshotId\<rparr>]"

definition backfill_snapshot_id :: "string \<Rightarrow> string \<Rightarrow> payload_row list \<Rightarrow> payload_row list" where
  "backfill_snapshot_id i snapshotId = update_where (\<lambda>r. pl_id r = i) (pl_snapshotId_update (\<lambda>_. Some snapshotId))"

text \<open>A payload stored before its snapshot and linked afterwards is the row stored with it.\<close>

lemma backfill_after_store:
  assumes "i \<notin> pl_id ` set t"
  shows "backfill_snapshot_id i s (store_payload i tenantId org now payload rid None t) =
    store_payload i tenantId org now payload rid (Some s) t"
  using assms by (auto simp: backfill_snapshot_id_def store_payload_def update_where_def intro!: map_idI)

definition store_document_list ::
  "string \<Rightarrow> string \<Rightarrow> int \<Rightarrow> int json list \<Rightarrow> string option \<Rightarrow> string option \<Rightarrow> document_list_row list \<Rightarrow>
   document_list_row list" where
  "store_document_list tenantId org fetchedAt documents requestId snapshotId t =
     t @ [\<lparr>dl_tenantId = tenantId, dl_organisationsnummer = org, dl_fetchedAt = fetchedAt,
       dl_documents = documents, dl_documentCount = length documents, dl_requestId = requestId,
       dl_snapshotId = snapshotId\<rparr>]"

text \<open>
  \<open>storeEndpointPayload\<close> with the parameters its callers pass: the system is the first part of
  the source, the endpoint the rest.
\<close>

definition endpoint_payload ::
  "string \<Rightarrow> string \<Rightarrow> string \<Rightarrow> int members \<Rightarrow> int json \<Rightarrow> string \<Rightarrow> endpoint_row" where
  "endpoint_payload tenantId org source requestPayload responsePayload requestId =
     (let parts = split_on CHR ''.'' source
      in \<lparr>er_tenantId = tenantId, er_organisationNumber = org, er_source = source,
          er_sourceSystem = nonempty (hd parts),
          er_endpointName = or_default (nonempty (join ''.'' (tl parts))) source,
          er_requestPayload = requestPayload, er_responsePayload = responsePayload,
          er_requestId = requestId\<rparr>)"

section \<open>Laws\<close>

text \<open>The score of an organisation is a percentage, full only without field errors.\<close>

theorem completeness_score_bounds:
  "0 \<le> completeness_score errors \<and> completeness_score errors \<le> 100 \<and>
    (completeness_score errors = 100 \<longleftrightarrow> errors = [])"
proof -
  define k where "k = min (length (distinct_in_order (map fe_field errors))) 7"
  have "k \<le> 7" by (simp add: k_def)
  then have "k \<in> {0, 1, 2, 3, 4, 5, 6, 7}" by auto
  moreover have "k = 0 \<longleftrightarrow> errors = []"
    by (cases "errors = []") (simp_all add: k_def min_def distinct_in_order_def [of "[]"])
  moreover have "completeness_score errors = \<lfloor>(of_nat (7 - k) / 7) * 100 + 1 / 2 :: rat\<rfloor>"
    by (simp add: completeness_score_def quality_tracked_field_count_def k_def Let_def)
  ultimately show ?thesis by (auto simp: floor_eq_iff)
qed

lemma check_freshness_snapshot:
  assumes "cc_snapshot (check_freshness now t org rows) = Some s"
  shows "s \<in> set rows \<and> success_snapshot t org s \<and>
    (\<forall>r \<in> set rows. success_snapshot t org r \<longrightarrow> sn_fetchedAt r \<le> sn_fetchedAt s) \<and>
    cc_ageInDays (check_freshness now t org rows) = Some ((now - sn_fetchedAt s) div ms_per_day) \<and>
    cc_isFresh (check_freshness now t org rows) = ((now - sn_fetchedAt s) div ms_per_day < 30)"
proof -
  have "find_latest (success_snapshot t org) sn_fetchedAt rows = Some s"
    using assms by (auto simp: check_freshness_def Let_def split: option.splits)
  from find_latest_SomeD [OF this] this show ?thesis
    by (simp add: check_freshness_def Let_def cache_ttl_days_def)
qed

lemma upsert_then_find:
  assumes "unique_keys og_id t" and "newId \<notin> og_id ` set t"
  shows "find_by_org_nr tenantId (mc_organisationNumber c) (snd (upsert_organisation now newId tenantId c raw t)) =
    Some (fst (upsert_organisation now newId tenantId c raw t))"
proof (cases "find_by_org_nr tenantId (mc_organisationNumber c) t")
  case None
  have "save og_id (fst (upsert_organisation now newId tenantId c raw t)) t =
      t @ [fst (upsert_organisation now newId tenantId c raw t)]"
    by (rule save_new) (use assms(2) None in \<open>simp add: upsert_organisation_def Let_def\<close>)
  then show ?thesis
    using None by (simp add: upsert_organisation_def Let_def find_by_org_nr_def find_one_append find_one_Cons)
next
  case (Some e)
  then have e: "e \<in> set t" "og_tenantId e = tenantId" "og_organisationsnummer e = mc_organisationNumber c"
    by (auto simp: find_by_org_nr_def dest: find_one_SomeD)
  let ?s = "fst (upsert_organisation now newId tenantId c raw t)"
  let ?p = "\<lambda>o'. og_tenantId o' = tenantId \<and> og_organisationsnummer o' = mc_organisationNumber c"
  have s: "og_id ?s = og_id e" "?p ?s" using Some by (simp_all add: upsert_organisation_def Let_def)
  have save: "save og_id ?s t = map (\<lambda>x. if og_id x = og_id ?s then ?s else x) t"
    using assms(1) s(1) e(1) by (intro save_existing) auto
  have "find_one ?p (map (\<lambda>x. if og_id x = og_id ?s then ?s else x) u) = Some ?s"
    if "find_one ?p u = Some e" "unique_keys og_id u" for u
    using that
  proof (induction u)
    case Nil
    then show ?case by (simp add: table_simps)
  next
    case (Cons x u)
    show ?case
    proof (cases "?p x")
      case True
      with Cons.prems have "x = e" by (simp add: table_simps)
      then show ?thesis using s by (simp add: table_simps)
    next
      case False
      with Cons.prems have "find_one ?p u = Some e" by (simp add: table_simps)
      moreover from this have "og_id x \<noteq> og_id e"
        using Cons.prems(2) find_one_SomeD [of ?p u e] by (auto simp: table_simps)
      ultimately show ?thesis using Cons False s(1) by (auto simp: table_simps)
    qed
  qed
  then show ?thesis
    using Some assms(1) save by (simp add: upsert_organisation_def Let_def find_by_org_nr_def)
qed

end
