(* ===== verification/ProviderApi.thy ===== *)
theory ProviderApi
  imports ProviderClient ProviderStore JsonText
begin

text \<open>
  The single endpoints of \<open>BolagsverketService\<close>
  (backend/src/companies/services/bolagsverket.service.ts): each passes a call of
  \<open>BolagsverketClient\<close> on and stores its response for the tenant; the officers, the financial
  snapshot, the documents queued for ingestion and the validation of a record. The outcome of
  the call is an argument. The types of identity numbers are those of
  backend/src/companies/utils/identifier-validator.ts.
\<close>

section \<open>Stored calls\<close>

type_synonym 'n outcome = "provider_exception + 'n fetched"

text \<open>A job of the queue that ingests annual reports.\<close>

record ingest_job =
  ij_jobId :: string
  ij_tenantId :: string
  ij_organisationNumber :: string
  ij_dokumentIds :: "string list"

record api_store =
  as_endpoints :: "endpoint_row list"
  as_documentLists :: "document_list_row list"
  as_ingestJobs :: "ingest_job list"

definition log_endpoint ::
  "string option \<Rightarrow> string \<Rightarrow> string \<Rightarrow> int members \<Rightarrow> int json \<Rightarrow> string \<Rightarrow> api_store \<Rightarrow> api_store" where
  "log_endpoint tenant org source request response requestId st =
     (case Option.bind tenant nonempty of
        None \<Rightarrow> st
      | Some t \<Rightarrow> st\<lparr>as_endpoints := as_endpoints st @ [endpoint_payload t org source request response requestId]\<rparr>)"

text \<open>The common body of the endpoints; \<open>wrap\<close> is the form in which the response is stored.\<close>

definition stored_call ::
  "string option \<Rightarrow> string \<Rightarrow> string \<Rightarrow> int members \<Rightarrow> (int json \<Rightarrow> int json) \<Rightarrow> int outcome \<Rightarrow> api_store \<Rightarrow>
   (provider_exception + int json) \<times> api_store" where
  "stored_call tenant org source request wrap r st =
     (case r of
        Inl e \<Rightarrow> (Inl e, st)
      | Inr f \<Rightarrow> (Inr (fd_responsePayload f),
          log_endpoint tenant org source request (wrap (fd_responsePayload f)) (fd_requestId f) st))"

definition text_member :: "string \<Rightarrow> string option \<Rightarrow> 'n members" where
  "text_member k v = (case v of None \<Rightarrow> [] | Some s \<Rightarrow> [(k, JStr s)])"

definition texts_member :: "string \<Rightarrow> string list option \<Rightarrow> 'n members" where
  "texts_member k v = (case v of None \<Rightarrow> [] | Some xs \<Rightarrow> [(k, JArr (map JStr xs))])"

text \<open>The health checks, which store under the organisation \<open>system\<close> with an id of their own.\<close>

definition is_alive :: "string option \<Rightarrow> string \<Rightarrow> string \<Rightarrow> provider_exception + int json \<Rightarrow> api_store \<Rightarrow>
    (provider_exception + int json) \<times> api_store" where
  "is_alive tenant source uuid r st =
     (case r of
        Inl e \<Rightarrow> (Inl e, st)
      | Inr response \<Rightarrow> (Inr response, log_endpoint tenant ''system'' source [] response uuid st))"

definition hvd_is_alive where "hvd_is_alive tenant = is_alive tenant ''hvd.isalive''"

definition fi_is_alive where "fi_is_alive tenant = is_alive tenant ''fi.isalive''"

definition vh_is_alive where "vh_is_alive tenant = is_alive tenant ''vh.isalive''"

definition get_high_value_company_information ::
  "string option \<Rightarrow> string \<Rightarrow> int outcome \<Rightarrow> api_store \<Rightarrow> (provider_exception + int json) \<times> api_store" where
  "get_high_value_company_information tenant i =
     stored_call tenant i ''hvd.organisationer'' [(''identitetsbeteckning'', JStr i)] id"

text \<open>\<open>enabled\<close> is \<open>isVerkligaHuvudmanApiEnabled()\<close>; the response may be \<open>null\<close>.\<close>

definition get_verkliga_huvudman_register ::
  "bool \<Rightarrow> string option \<Rightarrow> string \<Rightarrow> int outcome \<Rightarrow> api_store \<Rightarrow> (provider_exception + int json) \<times> api_store" where
  "get_verkliga_huvudman_register enabled tenant i r st =
     (if enabled
      then stored_call tenant i ''vh.verkligaHuvudman'' [(''identitetsbeteckning'', JStr i)]
        (\<lambda>v. or_default (nullish_or (Some v) None) (JObj [])) r st
      else (Inr JNull, st))"

definition get_company_information ::
  "string option \<Rightarrow> string \<Rightarrow> string list option \<Rightarrow> string option \<Rightarrow> string option \<Rightarrow> int outcome \<Rightarrow> api_store \<Rightarrow>
   (provider_exception + int json) \<times> api_store" where
  "get_company_information tenant i categories tidpunkt lopnummer =
     stored_call tenant i ''fi.organisationer''
       ([(''identitetsbeteckning'', JStr i)] @ texts_member ''informationCategories'' categories @
        text_member ''tidpunkt'' tidpunkt @ text_member ''namnskyddslopnummer'' lopnummer)
       (\<lambda>v. JObj [(''organisationInformation'', v)])"

definition get_person_information ::
  "string option \<Rightarrow> string \<Rightarrow> string list option \<Rightarrow> int outcome \<Rightarrow> api_store \<Rightarrow>
   (provider_exception + int json) \<times> api_store" where
  "get_person_information tenant i sets =
     stored_call tenant i ''fi.personer''
       ([(''identitetsbeteckning'', JStr i)] @ texts_member ''personInformationsmangd'' sets) id"

definition get_signatory_options ::
  "string option \<Rightarrow> string \<Rightarrow> string \<Rightarrow> int outcome \<Rightarrow> api_store \<Rightarrow> (provider_exception + int json) \<times> api_store" where
  "get_signatory_options tenant person org =
     stored_call tenant org ''fi.firmateckningsalternativ''
       [(''funktionarIdentitetsbeteckning'', JStr person), (''organisationIdentitetsbeteckning'', JStr org)] id"

definition get_share_capital_changes ::
  "string option \<Rightarrow> string \<Rightarrow> string option \<Rightarrow> string option \<Rightarrow> int outcome \<Rightarrow> api_store \<Rightarrow>
   (provider_exception + int json) \<times> api_store" where
  "get_share_capital_changes tenant i fromdatum tomdatum =
     stored_call tenant i ''fi.aktiekapitalforandringar''
       ([(''identitetsbeteckning'', JStr i)] @ text_member ''fromdatum'' fromdatum @ text_member ''tomdatum'' tomdatum) id"

definition get_cases ::
  "string option \<Rightarrow> string option \<Rightarrow> string option \<Rightarrow> string option \<Rightarrow> string option \<Rightarrow> int outcome \<Rightarrow> api_store \<Rightarrow>
   (provider_exception + int json) \<times> api_store" where
  "get_cases tenant arendenummer org fromdatum tomdatum =
     stored_call tenant (or_default (or_else org arendenummer) ''unknown'') ''fi.arenden''
       (text_member ''arendenummer'' arendenummer @ text_member ''organisationIdentitetsbeteckning'' org @
        text_member ''fromdatum'' fromdatum @ text_member ''tomdatum'' tomdatum) id"

definition get_organisation_engagements ::
  "string option \<Rightarrow> string \<Rightarrow> nat \<Rightarrow> nat \<Rightarrow> int outcome \<Rightarrow> api_store \<Rightarrow>
   (provider_exception + int json) \<times> api_store" where
  "get_organisation_engagements tenant i pageNumber pageSize =
     stored_call tenant i ''fi.organisationsengagemang''
       [(''identitetsbeteckning'', JStr i), (''pageNumber'', JNum (int pageNumber)),
        (''pageSize'', JNum (int pageSize))] id"

definition get_financial_reports ::
  "string option \<Rightarrow> string \<Rightarrow> string option \<Rightarrow> string option \<Rightarrow> int outcome \<Rightarrow> api_store \<Rightarrow>
   (provider_exception + int json) \<times> api_store" where
  "get_financial_reports tenant i fromdatum tomdatum =
     stored_call tenant i ''fi.finansiella-rapporter''
       ([(''identitetsbeteckning'', JStr i)] @ text_member ''fromdatum'' fromdatum @ text_member ''tomdatum'' tomdatum) id"

section \<open>Documents\<close>

record document_download =
  dd_data :: string
  dd_contentType :: string
  dd_fileName :: string
  dd_requestId :: string

text \<open>The file as the client returns it: \<open>fileName\<close> is the safe name of the response, if any.\<close>

record fetched_file =
  ff_data :: string
  ff_contentType :: string
  ff_fileName :: "string option"
  ff_requestId :: string

definition get_document ::
  "(string \<Rightarrow> string) \<Rightarrow> string option \<Rightarrow> string \<Rightarrow> provider_exception + fetched_file \<Rightarrow> api_store \<Rightarrow>
   (provider_exception + document_download) \<times> api_store" where
  "get_document decode tenant dokumentId r st =
     (case r of
        Inl e \<Rightarrow> (Inl e, st)
      | Inr f \<Rightarrow>
          (let safe = or_default (sanitize_filename decode (Some dokumentId)) ''document''
           in (Inr \<lparr>dd_data = ff_data f, dd_contentType = ff_contentType f,
                 dd_fileName = or_default (ff_fileName f) (''bolagsverket-'' @ safe @ ''.zip''),
                 dd_requestId = ff_requestId f\<rparr>,
               log_endpoint tenant ''unknown'' ''hvd.dokument'' [(''dokumentId'', JStr dokumentId)]
                 (JObj ([(''dokumentId'', JStr dokumentId)] @ text_member ''fileName'' (ff_fileName f) @
                   [(''contentType'', JStr (ff_contentType f)), (''requestId'', JStr (ff_requestId f))]))
                 (ff_requestId f) st)))"

text \<open>\<open>stringifyHvdScalar\<close>; an array has none of the keys.\<close>

fun stringify_hvd_scalar :: "int json option \<Rightarrow> string" where
  "stringify_hvd_scalar (Some (JStr s)) = s"
| "stringify_hvd_scalar (Some (JNum n)) = show_int n"
| "stringify_hvd_scalar (Some (JBool b)) = (if b then ''true'' else ''false'')"
| "stringify_hvd_scalar (Some (JObj ms)) =
     or_default (find_one (\<lambda>s. trim s \<noteq> [])
       (List.map_filter (\<lambda>k. string_of (map_of ms k)) [''klartext'', ''beskrivning'', ''kod'', ''text''])) []"
| "stringify_hvd_scalar _ = []"

definition document_id :: "int json \<Rightarrow> string" where
  "document_id d = trim (or_default (string_of (member_of ''dokumentId'' (Some d))) [])"

text \<open>Rows have text in \<open>dokumentId\<close> and \<open>filformat\<close>, as declared.\<close>

definition should_auto_ingest :: "int json \<Rightarrow> bool" where
  "should_auto_ingest d =
     (let fmt = to_lower (or_default (string_of (member_of ''filformat'' (Some d))) []);
          typ = to_lower (stringify_hvd_scalar (member_of ''dokumenttyp'' (Some d)))
      in if document_id d = [] then False
         else if has_sub ''pdf'' fmt then False
         else if has_sub ''zip'' fmt then True
         else if has_sub (CHR 0xE5 # ''rsredovisning'') typ \<or> has_sub ''arsredovisning'' typ then True
         else fmt = [] \<and> typ = [])"

definition ingest_ids :: "int json list \<Rightarrow> string list" where
  "ingest_ids documents = distinct_in_order (map document_id (filter should_auto_ingest documents))"

text \<open>\<open>setting\<close> is \<open>AR_AUTO_INGEST_HVD\<close>. A job is added with its time in its id.\<close>

definition schedule_auto_ingest ::
  "string option \<Rightarrow> int \<Rightarrow> string \<Rightarrow> string \<Rightarrow> int json list \<Rightarrow> api_store \<Rightarrow> api_store" where
  "schedule_auto_ingest setting now tenantId org documents st =
     (if setting = Some ''false'' \<or> ingest_ids documents = [] then st
      else st\<lparr>as_ingestJobs := as_ingestJobs st @
        [\<lparr>ij_jobId = ''ar-auto-hvd-'' @ tenantId @ ''-'' @ org @ ''-'' @ show_int now, ij_tenantId = tenantId,
          ij_organisationNumber = org, ij_dokumentIds = ingest_ids documents\<rparr>]\<rparr>)"

definition rows_of :: "'n json option \<Rightarrow> 'n json list" where
  "rows_of v = (case v of Some (JArr xs) \<Rightarrow> xs | _ \<Rightarrow> [])"

definition get_document_list ::
  "string option \<Rightarrow> int \<Rightarrow> string option \<Rightarrow> string \<Rightarrow> int members \<Rightarrow> int outcome \<Rightarrow> api_store \<Rightarrow>
   (provider_exception + int json) \<times> api_store" where
  "get_document_list setting now tenant i requestPayload r st =
     (case r of
        Inl e \<Rightarrow> (Inl e, st)
      | Inr f \<Rightarrow>
          (Inr (fd_responsePayload f),
           (case Option.bind tenant nonempty of
              None \<Rightarrow> st
            | Some t \<Rightarrow>
                (let documents = rows_of (member_of ''dokument'' (Some (fd_responsePayload f)));
                     st = st\<lparr>as_documentLists := store_document_list t i now documents
                       (Some (fd_requestId f)) None (as_documentLists st)\<rparr>;
                     st = log_endpoint tenant i ''hvd.dokumentlista'' requestPayload (fd_responsePayload f)
                       (fd_requestId f) st
                 in if 10 \<le> length (digits_only i)
                    then schedule_auto_ingest setting now t (digits_only i) documents st else st))))"

section \<open>Officers and financial data\<close>

datatype officer_type = AllOfficers | Signatories | Board

record officer_profile =
  of_namn :: "int json"
  of_personId :: "int json"
  of_roller :: "int json list"
  of_fodelseAr :: "int json"
  of_nationalitet :: "int json"

definition has_role :: "string list \<Rightarrow> int json \<Rightarrow> bool" where
  "has_role codes o' \<longleftrightarrow>
     list_ex (\<lambda>r. case string_of (member_of ''rollkod'' (Some r)) of Some c \<Rightarrow> c \<in> set codes | None \<Rightarrow> False)
       (rows_of (member_of ''roller'' (Some o')))"

definition select_officers :: "officer_type \<Rightarrow> int json list \<Rightarrow> int json list" where
  "select_officers t officers =
     (case t of
        AllOfficers \<Rightarrow> officers
      | Signatories \<Rightarrow> filter (has_role [''FIRMATECKNARE'', ''FT'']) officers
      | Board \<Rightarrow> filter (has_role [''STYRELSEORDFORANDE'', ''STYRELSELEDAMOT'', ''STYRELSESUPPLEANT'']) officers)"

definition officer_profile_of :: "int json \<Rightarrow> officer_profile" where
  "officer_profile_of o' =
     \<lparr>of_namn = json_field ''namn'' (Some o'),
      of_personId = or_null (nullish_or (member_of ''personId'' (Some o')) (member_of ''identitetsbeteckning'' (Some o'))),
      of_roller = rows_of (member_of ''roller'' (Some o')),
      of_fodelseAr = json_field ''fodelseAr'' (Some o'), of_nationalitet = json_field ''nationalitet'' (Some o')\<rparr>"

definition get_officer_information :: "officer_type \<Rightarrow> int outcome \<Rightarrow> provider_exception + officer_profile list" where
  "get_officer_information t r =
     map_sum id (\<lambda>f. map officer_profile_of (select_officers t
       (rows_of (member_of ''funktionarer'' (nth_opt (rows_of (Some (fd_responsePayload f))) 0))))) r"

record financial_snapshot =
  fn_shareCapital :: "int json"
  fn_financialYear :: "int json"
  fn_financialReports :: "int json"
  fn_documents :: "int json"

definition get_financial_snapshot :: "int outcome \<Rightarrow> int outcome \<Rightarrow> financial_snapshot" where
  "get_financial_snapshot rich documents =
     (let org = (case rich of Inl e \<Rightarrow> None | Inr f \<Rightarrow> nth_opt (rows_of (Some (fd_responsePayload f))) 0);
          or_value = (\<lambda>k d. or_default (nullish_or (member_of k org) None) d)
      in \<lparr>fn_shareCapital = or_value ''aktieinformation'' (JObj []), fn_financialYear = or_value ''rakenskapsAr'' JNull,
          fn_financialReports = or_value ''finansiellaRapporter'' (JArr []),
          fn_documents = (case documents of Inl e \<Rightarrow> JNull | Inr f \<Rightarrow> fd_responsePayload f)\<rparr>)"

text \<open>The categories asked for; the second is not the one of the register, which has \<open>RAKENSKAPSAR\<close>.\<close>

definition financial_categories :: "string list" where
  "financial_categories = [''AKTIEINFORMATION'', ''RAKENSKAPS'' @ [CHR 0xC5] @ ''R'', ''FINANSIELLA_RAPPORTER'']"

section \<open>Validation\<close>

record validation_result =
  vr_errors :: "string list"
  vr_warnings :: "string list"

definition is_valid :: "validation_result \<Rightarrow> bool" where
  "is_valid r \<longleftrightarrow> vr_errors r = []"

definition share_capital_tolerance :: rat where
  "share_capital_tolerance = 1 / 100"

text \<open>
  The difference between the shares times their value and the capital, relative to the capital:
  a product or quotient that is \<open>NaN\<close> never exceeds the tolerance, a division by 0 always does.
\<close>

definition share_mismatch :: "js_numbers \<Rightarrow> rat json option \<Rightarrow> bool" where
  "share_mismatch js share =
     (let n = member_of ''antalAktier'' share; q = member_of ''kvotvarde'' share; k = member_of ''aktiekapital'' share
      in truthy n \<and> truthy q \<and> truthy k \<and>
         (case (js_number js n, js_number js q, js_number js k) of
            (Some n', Some q', Some k') \<Rightarrow>
              (let diff = \<bar>n' * q' - k'\<bar>
               in if k' = 0 then diff > 0 else diff / k' > share_capital_tolerance)
          | _ \<Rightarrow> False))"

definition share_warning :: "js_numbers \<Rightarrow> rat json option \<Rightarrow> string" where
  "share_warning js share =
     (let show = (\<lambda>k. js_key js (member_of k share));
          value' = (\<lambda>k. or_default (js_number js (member_of k share)) 0)
      in ''Share capital mismatch: '' @ show ''antalAktier'' @ '' '' @ [CHR 0xD7] @ '' '' @ show ''kvotvarde'' @ '' = '' @
         number_text js (value' ''antalAktier'' * value' ''kvotvarde'') @
         '', but registered aktiekapital = '' @ show ''aktiekapital'')"

text \<open>\<open>date\<close> is the time of \<open>new Date(v)\<close>, \<open>None\<close> for an invalid date.\<close>

definition year_reversed :: "(rat json \<Rightarrow> int option) \<Rightarrow> rat json option \<Rightarrow> bool" where
  "year_reversed date fy =
     (case (member_of ''rakenskapsarInleds'' fy, member_of ''rakenskapsarAvslutas'' fy) of
        (Some a, Some b) \<Rightarrow> truthy (Some a) \<and> truthy (Some b) \<and>
          (case (date a, date b) of (Some s, Some e) \<Rightarrow> e \<le> s | _ \<Rightarrow> False)
      | _ \<Rightarrow> False)"

definition validate_company_data ::
  "js_numbers \<Rightarrow> (rat json \<Rightarrow> int option) \<Rightarrow> rat mapped_company \<Rightarrow> validation_result" where
  "validate_company_data js date c =
     (let share = Some (mc_shareInformation c); fy = Some (mc_financialYear c);
          show = (\<lambda>k. js_key js (member_of k fy));
          partial = rows_of (map_of (mc_sourcePayloadSummary c) ''partialDataFields'')
      in \<lparr>vr_errors =
            (if mc_organisationNumber c = [] then [''Missing organisationNumber''] else []) @
            (if year_reversed date fy
             then [''Financial year start ('' @ show ''rakenskapsarInleds'' @ '') is not before end ('' @
               show ''rakenskapsarAvslutas'' @ '')''] else []),
          vr_warnings =
            (if mc_legalName c = [] \<or> mc_legalName c = default_company_name
             then [''Legal name is missing or unknown''] else []) @
            (if share_mismatch js share then [share_warning js share] else []) @
            (if partial \<noteq> [] then [''Partial data detected in fields: '' @ js_string js (JArr partial)] else [])\<rparr>)"

section \<open>Laws\<close>

lemma stored_call_cases:
  "stored_call tenant org source request wrap r st =
    (map_sum id fd_responsePayload r,
     case r of Inl e \<Rightarrow> st
     | Inr f \<Rightarrow> log_endpoint tenant org source request (wrap (fd_responsePayload f)) (fd_requestId f) st)"
  by (cases r) (simp_all add: stored_call_def)

lemma log_endpoint_Some:
  "t \<noteq> [] \<Longrightarrow> log_endpoint (Some t) org source request response requestId st =
    st\<lparr>as_endpoints := as_endpoints st @ [endpoint_payload t org source request response requestId]\<rparr>"
  by (cases t) (simp_all add: log_endpoint_def nonempty_def)

lemma mem_ingest_ids:
  "i \<in> set (ingest_ids documents) \<longleftrightarrow> (\<exists>d \<in> set documents. should_auto_ingest d \<and> i = document_id d)"
  by (auto simp: ingest_ids_def)

lemma should_auto_ingestD:
  "should_auto_ingest d \<Longrightarrow>
    document_id d \<noteq> [] \<and> \<not> has_sub ''pdf'' (to_lower (or_default (string_of (member_of ''filformat'' (Some d))) []))"
  by (auto simp: should_auto_ingest_def Let_def split: if_splits)

text \<open>
  A document list for a tenant queues at most one job, whose documents are distinct, have
  an id, are not PDF files and are exactly the admissible ones; the list and the response are
  stored whatever is queued.
\<close>

theorem document_list_queues_admissible:
  assumes "t \<noteq> []"
    and "st' = snd (get_document_list setting now (Some t) i request (Inr f) st)"
  shows "as_documentLists st' = as_documentLists st @
      [\<lparr>dl_tenantId = t, dl_organisationsnummer = i, dl_fetchedAt = now,
        dl_documents = rows_of (member_of ''dokument'' (Some (fd_responsePayload f))),
        dl_documentCount = length (rows_of (member_of ''dokument'' (Some (fd_responsePayload f)))),
        dl_requestId = Some (fd_requestId f), dl_snapshotId = None\<rparr>] \<and>
    length (as_endpoints st') = Suc (length (as_endpoints st)) \<and>
    (as_ingestJobs st' = as_ingestJobs st \<or>
     (\<exists>j. as_ingestJobs st' = as_ingestJobs st @ [j] \<and> ij_tenantId j = t \<and> distinct (ij_dokumentIds j) \<and>
       ij_dokumentIds j \<noteq> [] \<and> [] \<notin> set (ij_dokumentIds j) \<and>
       set (ij_dokumentIds j) = document_id ` Set.filter should_auto_ingest
         (set (rows_of (member_of ''dokument'' (Some (fd_responsePayload f)))))))"
proof -
  let ?docs = "rows_of (member_of ''dokument'' (Some (fd_responsePayload f)))"
  have t: "nonempty t = Some t" using assms(1) by (simp add: nonempty_def)
  have ids: "[] \<notin> set (ingest_ids ?docs)"
    "set (ingest_ids ?docs) = document_id ` Set.filter should_auto_ingest (set ?docs)"
    by (auto simp: mem_ingest_ids dest: should_auto_ingestD)
  have "distinct (ingest_ids ?docs)" by (simp add: ingest_ids_def)
  then show ?thesis
    unfolding assms(2) get_document_list_def
    using ids by (auto simp: t Let_def store_document_list_def log_endpoint_Some [OF assms(1)] schedule_auto_ingest_def)
qed

text \<open>Every list of the same documents queues them again: the id of a job holds the time.\<close>

theorem documents_queued_again:
  assumes "t \<noteq> []" and "10 \<le> length (digits_only i)" and "setting \<noteq> Some ''false''"
    and "ingest_ids (rows_of (member_of ''dokument'' (Some (fd_responsePayload f)))) \<noteq> []" and "now \<noteq> later"
  shows "\<exists>a b. as_ingestJobs (snd (get_document_list setting later (Some t) i q (Inr f)
      (snd (get_document_list setting now (Some t) i q (Inr f) st)))) = as_ingestJobs st @ [a, b] \<and>
    ij_jobId a \<noteq> ij_jobId b \<and> ij_dokumentIds a = ij_dokumentIds b"
proof -
  have t: "nonempty t = Some t" using assms(1) by (simp add: nonempty_def)
  show ?thesis
    using assms(2-5)
    by (simp add: get_document_list_def t Let_def log_endpoint_Some [OF assms(1)] schedule_auto_ingest_def
      show_int_inj)
qed

text \<open>
  Documents named by \<open>DokumentId\<close>, which the profile lists, are never queued; the financial
  year under the name of the schema is not in the financial snapshot.
\<close>

theorem capital_id_never_ingested:
  assumes "member_of ''dokumentId'' (Some d) = None"
  shows "ingest_ids [d] = []"
  using assms by (simp add: ingest_ids_def should_auto_ingest_def document_id_def trim_def distinct_in_order_def)

theorem financial_year_lost:
  assumes "fd_responsePayload f = JArr [org]" and "member_of ''rakenskapsAr'' (Some org) = None"
  shows "fn_financialYear (get_financial_snapshot (Inr f) documents) = JNull"
  using assms by (simp add: get_financial_snapshot_def rows_of_def nth_opt_def Let_def)

text \<open>
  A record is valid exactly when it has an organisation number and its financial year does
  not end at or before its start; a capital that deviates by more than one per cent, a missing
  name and partial fields only warn.
\<close>

theorem valid_company_iff:
  "is_valid (validate_company_data js date c) \<longleftrightarrow>
    mc_organisationNumber c \<noteq> [] \<and> \<not> year_reversed date (Some (mc_financialYear c))"
  by (simp add: is_valid_def validate_company_data_def Let_def)

text \<open>A capital given with its currency is never compared.\<close>

theorem capital_object_not_checked:
  assumes "member_of ''aktiekapital'' share = Some (JObj ms)" and "number_value js ''[object Object]'' = None"
  shows "\<not> share_mismatch js share"
  using assms by (simp add: share_mismatch_def Let_def split: option.splits)

end
