(* ===== verification/ProfileFetch.thy ===== *)
theory ProfileFetch
  imports ProviderApi
begin

text \<open>
  \<open>BolagsverketService\<close> (backend/src/companies/services/bolagsverket.service.ts), the
  complete profile of a company, made of the parallel calls of the provider, the pages of
  engagements and the persons. The outcome of every call is an argument, the result of
  \<open>BolagsverketClient\<close>; the writes of the calls that run in parallel are taken in the order of
  the calls.
\<close>

section \<open>Identities\<close>

datatype identifier_type = OrgNumber | PersonalNumber | GdNumber | InvalidIdentifier

definition classify_identifier :: "string \<Rightarrow> identifier_type" where
  "classify_identifier v =
     (if matches ([lit (CHR ''3''), lit (CHR ''0''), lit (CHR ''2'')] @ digits 7) v then GdNumber
      else if matches (digits 12) v then PersonalNumber
      else if matches (digits 10) v then OrgNumber else InvalidIdentifier)"

definition validate_identifier :: "string \<Rightarrow> bool" where
  "validate_identifier v \<longleftrightarrow> matches (digits 10) v \<or> matches (digits 12) v \<or>
     matches ([lit (CHR ''3''), lit (CHR ''0''), lit (CHR ''2'')] @ digits 7) v"

definition normalise_identity_digits :: "'n json option \<Rightarrow> string option" where
  "normalise_identity_digits raw = Option.bind (string_of raw) (nonempty \<circ> digits_only)"

definition is_fi_natural_person :: "string \<Rightarrow> bool" where
  "is_fi_natural_person d \<longleftrightarrow> classify_identifier d = PersonalNumber \<or> classify_identifier d = GdNumber"

definition officer_identity :: "'n json \<Rightarrow> string option" where
  "officer_identity o' =
     or_else (normalise_identity_digits (member_of ''identitetsbeteckning'' (member_of ''identitet'' (Some o'))))
       (or_else (normalise_identity_digits (member_of ''identitetsbeteckning'' (Some o')))
         (normalise_identity_digits (member_of ''personId'' (Some o'))))"

definition vh_identity :: "'n :: zero json \<Rightarrow> string option" where
  "vh_identity p =
     (if truthy (member_of ''arAnonym'' (Some p)) then None
      else normalise_identity_digits (member_of ''identitetsbeteckning'' (member_of ''identitet'' (Some p))))"

definition add_person :: "string option \<Rightarrow> string list \<Rightarrow> string list" where
  "add_person i out = (case i of Some d \<Rightarrow> if is_fi_natural_person d then insert_new d out else out | None \<Rightarrow> out)"

definition collect_person_identities :: "'n :: zero json list \<Rightarrow> 'n json option \<Rightarrow> string list" where
  "collect_person_identities info vh =
     fold (add_person \<circ> vh_identity)
       (rows_of (member_of ''verkligHuvudman'' vh) @ rows_of (member_of ''foretradare'' vh))
       (fold (add_person \<circ> officer_identity) (rows_of (member_of ''funktionarer'' (nth_opt info 0))) [])"

section \<open>Pages of engagements\<close>

definition org_engagement_max_pages :: nat where
  "org_engagement_max_pages = 25"

definition page_size :: nat where
  "page_size = 100"

record pages_state =
  pg_attempts :: nat
  pg_rows :: "int json list"
  pg_template :: "int json option"
  pg_total :: "int option"
  pg_store :: api_store

definition int_of :: "int json option \<Rightarrow> int option" where
  "int_of v = (case v of Some (JNum n) \<Rightarrow> Some n | _ \<Rightarrow> None)"

text \<open>One turn of the loop, with whether it goes on; the loop from page \<open>p\<close> with the pages left.\<close>

definition take_page ::
  "string option \<Rightarrow> string \<Rightarrow> nat \<Rightarrow> int outcome \<Rightarrow> pages_state \<Rightarrow> pages_state \<times> bool" where
  "take_page tenant org p r st =
     (case get_organisation_engagements tenant org p page_size r (pg_store st) of
        (Inl e, store) \<Rightarrow> (st\<lparr>pg_attempts := pg_attempts st + 1, pg_store := store\<rparr>, False)
      | (Inr res, store) \<Rightarrow>
          (let slice = rows_of (member_of ''funktionarsOrganisationsengagemang'' (Some res));
               total = int_of (member_of ''totaltAntalTraffar'' (Some res));
               rows = pg_rows st @ slice
           in (st\<lparr>pg_attempts := pg_attempts st + 1, pg_rows := rows,
                 pg_template := or_else (pg_template st) (Some res), pg_total := total, pg_store := store\<rparr>,
               \<not> (or_default total (int (length rows)) \<le> int (length rows) \<or> length slice < page_size))))"

fun fetch_pages ::
  "string option \<Rightarrow> string \<Rightarrow> (nat \<Rightarrow> int outcome) \<Rightarrow> nat \<Rightarrow> nat \<Rightarrow> pages_state \<Rightarrow> pages_state" where
  "fetch_pages tenant org page 0 p st = st"
| "fetch_pages tenant org page (Suc n) p st =
     (let (st, more) = take_page tenant org p (page p) st
      in if more then fetch_pages tenant org page n (p + 1) st else st)"

definition no_pages :: "api_store \<Rightarrow> pages_state" where
  "no_pages store = \<lparr>pg_attempts = 0, pg_rows = [], pg_template = None, pg_total = None, pg_store = store\<rparr>"

definition members_of :: "'n json option \<Rightarrow> 'n members" where
  "members_of v = (case v of Some (JObj ms) \<Rightarrow> ms | _ \<Rightarrow> [])"

definition fetch_all_engagements ::
  "string option \<Rightarrow> string \<Rightarrow> (nat \<Rightarrow> int outcome) \<Rightarrow> api_store \<Rightarrow> int json option \<times> nat \<times> api_store" where
  "fetch_all_engagements tenant org page store =
     (let st = fetch_pages tenant org page org_engagement_max_pages 1 (no_pages store);
          n = int (length (pg_rows st))
      in (if pg_attempts st = 0 then None
          else Some (JObj (spread (members_of (pg_template st))
            [(''totaltAntalTraffar'', JNum (or_default (pg_total st) n)),
             (''funktionarsOrganisationsengagemang'', JArr (pg_rows st)),
             (''sida'', JNum 1), (''antalPerSida'', JNum n)])), pg_attempts st, pg_store st))"

text \<open>The persons, in batches of six whose calls run in parallel; a failed call leaves its person out.\<close>

fun fetch_persons ::
  "string option \<Rightarrow> (string \<Rightarrow> int outcome) \<Rightarrow> string list \<Rightarrow> api_store \<Rightarrow> int members \<times> api_store" where
  "fetch_persons tenant person [] store = ([], store)"
| "fetch_persons tenant person (i # is) store =
     (let (r, store) = get_person_information tenant i None (person i) store;
          (ms, store) = fetch_persons tenant person is store
      in (case r of Inl e \<Rightarrow> ms | Inr v \<Rightarrow> (i, v) # ms, store))"

section \<open>The complete profile\<close>

datatype fetch_status = Loaded | Partial | Unavailable | Error | Skipped

record fetch_diagnostic =
  dg_provider :: string
  dg_status :: fetch_status
  dg_organisation_number :: string
  dg_message :: "string option"
  dg_request_id :: "string option"

record profile =
  pf_normalisedData :: "int mapped_company"
  pf_highValueDataset :: "int json option"
  pf_organisationInformation :: "int json list"
  pf_documents :: "int json option"
  pf_verkligaHuvudman :: "int json option"
  pf_retrievedAt :: string
  pf_hvdRequestId :: "string option"
  pf_v4RequestId :: "string option"
  pf_vhRequestId :: "string option"
  pf_engagements :: "int json option"
  pf_relatedPersons :: "int members option"
  pf_apiCallCount :: nat
  pf_diagnostics :: "fetch_diagnostic list"

text \<open>The outcomes of the calls of one fetch; \<open>fo_vh\<close> is \<open>None\<close> when that register is switched off.\<close>

record fetch_outcomes =
  fo_hvd :: "int outcome"
  fo_rich :: "int outcome"
  fo_documents :: "int outcome"
  fo_vh :: "int outcome option"
  fo_page :: "nat \<Rightarrow> int outcome"
  fo_person :: "string \<Rightarrow> int outcome"

definition outcome_value :: "'n outcome \<Rightarrow> 'n json option" where
  "outcome_value r = (case r of Inl e \<Rightarrow> None | Inr f \<Rightarrow> Some (fd_responsePayload f))"

definition outcome_id :: "'n outcome \<Rightarrow> string option" where
  "outcome_id r = (case r of Inl e \<Rightarrow> None | Inr f \<Rightarrow> Some (fd_requestId f))"

definition outcome_error :: "'n outcome \<Rightarrow> string option" where
  "outcome_error r = (case r of Inl e \<Rightarrow> Some (exception_message e) | Inr f \<Rightarrow> None)"

definition failed :: "'n outcome \<Rightarrow> bool" where
  "failed r \<longleftrightarrow> (\<exists>e \<in> set_option (outcome_error r). True)"

definition diagnostic :: "string \<Rightarrow> string \<Rightarrow> fetch_status \<Rightarrow> string option \<Rightarrow> string option \<Rightarrow> fetch_diagnostic" where
  "diagnostic provider org status message requestId =
     \<lparr>dg_provider = provider, dg_status = status, dg_organisation_number = org, dg_message = message,
      dg_request_id = requestId\<rparr>"

definition null_value :: "'n json option \<Rightarrow> 'n json option" where
  "null_value v = nullish_or v None"

definition diagnostics_of :: "string \<Rightarrow> fetch_outcomes \<Rightarrow> fetch_diagnostic list" where
  "diagnostics_of org o' =
     (let d = (\<lambda>p r. diagnostic p org (if failed r then Error else Loaded) (outcome_error r) (outcome_id r));
          rows = rows_of (outcome_value (fo_rich o'))
      in [d ''hvd.organisationer'' (fo_hvd o'),
          (if failed (fo_rich o') \<or> rows \<noteq> [] then d ''fi.organisationer'' (fo_rich o')
           else diagnostic ''fi.organisationer'' org Partial
             (Some (''F'' @ [CHR 0xF6] @ ''retagsinformation returned no organisationInformation rows''))
             (outcome_id (fo_rich o'))),
          d ''hvd.dokumentlista'' (fo_documents o'),
          (case fo_vh o' of
             None \<Rightarrow> diagnostic ''vh.verkligaHuvudman'' org Skipped
               (Some (''Verkliga huvudm'' @ [CHR 0xE4] @ ''n API not enabled (BV_VH_ENABLED)'')) None
           | Some r \<Rightarrow>
               if failed r \<or> truthy (outcome_value r) then d ''vh.verkligaHuvudman'' r
               else diagnostic ''vh.verkligaHuvudman'' org Unavailable
                 (Some ''No VH payload for this organisation (404 / empty)'') (outcome_id r))])"

text \<open>\<open>${reason}\<close> of an exception starts with its class name, a parameter.\<close>

definition failed_datasets :: "(provider_exception \<Rightarrow> string) \<Rightarrow> fetch_outcomes \<Rightarrow> string list" where
  "failed_datasets text o' =
     List.map_filter (\<lambda>(name, r). case r of Some (Inl e) \<Rightarrow> Some (name @ '': '' @ text e) | _ \<Rightarrow> None)
       [(''highValueDataset'', Some (fo_hvd o')), (''organisationInformation'', Some (fo_rich o')),
        (''documentList'', Some (fo_documents o')), (''verkligaHuvudman'', fo_vh o')]"

definition document_row :: "int json \<Rightarrow> int json" where
  "document_row d =
     JObj (opt_member ''dokumentId'' (nullish_or (member_of ''dokumentId'' (Some d)) (member_of ''DokumentId'' (Some d))) @
       opt_member ''filformat'' (member_of ''filformat'' (Some d)) @
       opt_member ''rapporteringsperiodTom'' (member_of ''rapporteringsperiodTom'' (Some d)) @
       opt_member ''registreringstidpunkt'' (member_of ''registreringstidpunkt'' (Some d)) @
       opt_member ''dokumenttyp'' (map_option JStr (string_of (member_of ''dokumenttyp'' (Some d)))))"

definition with_documents :: "int json option \<Rightarrow> int mapped_company \<Rightarrow> int mapped_company" where
  "with_documents documents c =
     (let rows = filter (\<lambda>d. \<not> truthy (member_of ''fel'' (Some d))) (rows_of (member_of ''dokument'' documents))
      in if rows = [] then c else c\<lparr>mc_documentList := Some (map document_row rows)\<rparr>)"

definition enrich_api_call_count_base :: nat where
  "enrich_api_call_count_base = 3"

definition core_failed :: "fetch_outcomes \<Rightarrow> bool" where
  "core_failed o' \<longleftrightarrow> failed (fo_hvd o') \<and> failed (fo_rich o') \<and> failed (fo_documents o')"

definition get_complete_company_data ::
  "(provider_exception \<Rightarrow> string) \<Rightarrow> int \<Rightarrow> string option \<Rightarrow> string \<Rightarrow> fetch_outcomes \<Rightarrow> api_store \<Rightarrow>
   (provider_exception + profile) \<times> api_store" where
  "get_complete_company_data text now tenant org o' store =
     (if core_failed o'
      then (Inl (HttpException 502 (''All Bolagsverket core API calls failed for '' @ org @ '': '' @
        join ''; '' (failed_datasets text o'))), store)
      else (let hvd = outcome_value (fo_hvd o'); info = rows_of (outcome_value (fo_rich o'));
                documents = outcome_value (fo_documents o'); vh = null_value (Option.bind (fo_vh o') outcome_value);
                ids = collect_person_identities info vh;
                (engagements, pageCalls, store) = fetch_all_engagements tenant org (fo_page o') store;
                (persons, store) = fetch_persons tenant (fo_person o') ids store
            in (Inr \<lparr>pf_normalisedData = with_documents documents (map_company hvd info org),
                 pf_highValueDataset = hvd, pf_organisationInformation = info, pf_documents = documents,
                 pf_verkligaHuvudman = vh, pf_retrievedAt = iso_string now,
                 pf_hvdRequestId = outcome_id (fo_hvd o'), pf_v4RequestId = outcome_id (fo_rich o'),
                 pf_vhRequestId = Option.bind (fo_vh o') outcome_id, pf_engagements = engagements,
                 pf_relatedPersons = (if ids = [] then None else Some (enumerated persons)),
                 pf_apiCallCount = enrich_api_call_count_base + (if fo_vh o' = None then 0 else 1) +
                   (pageCalls + length ids),
                 pf_diagnostics = diagnostics_of org o'\<rparr>, store)))"

section \<open>Identities of persons\<close>

definition person_list :: "string list \<Rightarrow> bool" where
  "person_list out \<longleftrightarrow> distinct out \<and> (\<forall>i \<in> set out. is_fi_natural_person i)"

lemma person_list_add: "person_list out \<Longrightarrow> person_list (add_person i out)"
  by (auto simp: person_list_def add_person_def insert_new_def split: option.splits)

lemma person_list_fold: "person_list out \<Longrightarrow> person_list (fold (add_person \<circ> f) xs out)"
  by (induction xs arbitrary: out) (simp_all add: person_list_add)

lemma collected_identities: "person_list (collect_person_identities info vh)"
  unfolding collect_person_identities_def
  by (intro person_list_fold) (simp add: person_list_def)

section \<open>Paging\<close>

lemma take_page_attempts: "pg_attempts (fst (take_page tenant org p r st)) = Suc (pg_attempts st)"
  by (simp add: take_page_def Let_def split: prod.splits sum.splits)

lemma fetch_pages_attempts:
  "pg_attempts st \<le> pg_attempts (fetch_pages tenant org page n p st) \<and>
    pg_attempts (fetch_pages tenant org page n p st) \<le> pg_attempts st + n"
proof (induction n arbitrary: p st)
  case 0
  then show ?case by simp
next
  case (Suc n)
  show ?case
    using Suc.IH [of "fst (take_page tenant org p (page p) st)" "Suc p"]
    by (simp add: take_page_attempts split_beta Let_def)
qed

lemma fetch_pages_tries: "0 < n \<Longrightarrow> pg_attempts st < pg_attempts (fetch_pages tenant org page n p st)"
  using fetch_pages_attempts [of "fst (take_page tenant org p (page p) st)" tenant org page "n - 1" "Suc p"]
  by (cases n) (simp_all add: take_page_attempts split_beta Let_def)

text \<open>A register with the rows \<open>xs\<close> that answers page by page.\<close>

definition page_of :: "int json list \<Rightarrow> nat \<Rightarrow> int json" where
  "page_of xs p = JObj [(''totaltAntalTraffar'', JNum (int (length xs))),
     (''funktionarsOrganisationsengagemang'', JArr (take page_size (drop (page_size * (p - 1)) xs)))]"

definition answers_pages :: "int json list \<Rightarrow> (nat \<Rightarrow> int outcome) \<Rightarrow> bool" where
  "answers_pages xs page \<longleftrightarrow> (\<forall>p. 1 \<le> p \<longrightarrow> (\<exists>i. page p = Inr \<lparr>fd_responsePayload = page_of xs p, fd_requestId = i\<rparr>))"

lemma rows_page_of:
  "rows_of (member_of ''funktionarsOrganisationsengagemang'' (Some (page_of xs p))) =
    take page_size (drop (page_size * (p - 1)) xs)"
  "int_of (member_of ''totaltAntalTraffar'' (Some (page_of xs p))) = Some (int (length xs))"
  by (simp_all add: page_of_def rows_of_def int_of_def)

lemma take_page_of:
  assumes "answers_pages xs page" and "1 \<le> p" and "pg_rows st = take (page_size * (p - 1)) xs"
  shows "pg_rows (fst (take_page tenant org p (page p) st)) = take (page_size * p) xs \<and>
    pg_total (fst (take_page tenant org p (page p) st)) = Some (int (length xs)) \<and>
    (snd (take_page tenant org p (page p) st) \<longleftrightarrow> page_size * p < length xs)"
proof -
  obtain i where r: "page p = Inr \<lparr>fd_responsePayload = page_of xs p, fd_requestId = i\<rparr>"
    using assms(1,2) by (auto simp: answers_pages_def)
  have p: "page_size * p = page_size * (p - 1) + page_size"
    using assms(2) by (cases p) simp_all
  have rows: "take (page_size * (p - 1)) xs @ take page_size (drop (page_size * (p - 1)) xs) = take (page_size * p) xs"
    by (simp only: p take_add)
  have more: "\<not> (int (length xs) \<le> int (length (take (page_size * p) xs)) \<or>
      length (take page_size (drop (page_size * (p - 1)) xs)) < page_size) \<longleftrightarrow> page_size * p < length xs"
    using assms(2) by (cases p) (auto simp: min_def page_size_def)
  show ?thesis
    unfolding take_page_def r get_organisation_engagements_def stored_call_def
    using more by (simp only: sum.case prod.case Let_def rows_page_of rows fst_conv snd_conv fetched.simps
        assms(3) or_default_simps) simp
qed

lemma fetch_pages_of:
  assumes "answers_pages xs page" and "1 \<le> p" and "pg_rows st = take (page_size * (p - 1)) xs" and "0 < n"
  shows "pg_rows (fetch_pages tenant org page n p st) = take (page_size * (p - 1 + n)) xs \<and>
    pg_total (fetch_pages tenant org page n p st) = Some (int (length xs)) \<and>
    pg_attempts (fetch_pages tenant org page n p st) =
      pg_attempts st + min n (max 1 ((length xs - page_size * (p - 1) + 99) div page_size))"
  using assms(2-)
proof (induction n arbitrary: p st)
  case 0
  then show ?case by simp
next
  case (Suc n)
  note step = take_page_of [OF assms(1) Suc.prems(1,2), of tenant org]
  let ?st = "fst (take_page tenant org p (page p) st)"
  show ?case
  proof (cases "page_size * p < length xs")
    case False
    then have "take (page_size * p) xs = take (page_size * (p - 1 + Suc n)) xs" by (simp add: algebra_simps)
    moreover have "length xs - page_size * (p - 1) \<le> page_size"
      using False Suc.prems(1) by (cases p) (auto simp: page_size_def)
    ultimately show ?thesis
      using step False by (simp add: split_beta Let_def take_page_attempts page_size_def)
  next
    case True
    then have loop: "fetch_pages tenant org page (Suc n) p st = fetch_pages tenant org page n (Suc p) ?st"
      using step by (simp add: split_beta Let_def)
    define q where "q = length xs - page_size * p"
    have size: "length xs - page_size * (p - 1) = page_size + q" and pos: "1 \<le> (q + 99) div page_size"
      using True Suc.prems(1) by (cases p; simp add: page_size_def q_def)+
    have next': "(page_size + q + 99) div page_size = Suc ((q + 99) div page_size)"
      by (simp add: page_size_def)
    show ?thesis
    proof (cases n)
      case 0
      then show ?thesis
        unfolding loop using step True Suc.prems(1) size by (simp add: take_page_attempts page_size_def)
    next
      case (Suc m)
      then have "pg_rows (fetch_pages tenant org page n (Suc p) ?st) = take (page_size * (p + n)) xs \<and>
          pg_total (fetch_pages tenant org page n (Suc p) ?st) = Some (int (length xs)) \<and>
          pg_attempts (fetch_pages tenant org page n (Suc p) ?st) =
            Suc (pg_attempts st) + min n (max 1 ((q + 99) div page_size))"
        using Suc.IH [of "Suc p" ?st] step by (simp only: take_page_attempts q_def) simp
      then show ?thesis
        unfolding loop size next' using pos Suc.prems(1) by (cases p) (auto simp: min_def max_def)
    qed
  qed
qed

text \<open>
  C8: A register that answers page by page is read completely up to 2500 rows, in one call for
  every hundred of them and never more than 25; the total it reports is kept, so that a longer
  list is cut while its total still counts the rows left out.
\<close>

theorem engagement_pages_complete:
  assumes "answers_pages xs page"
  shows "\<exists>m store'. fetch_all_engagements tenant org page store =
      (Some m, min 25 (max 1 ((length xs + 99) div 100)), store') \<and>
    member_of ''funktionarsOrganisationsengagemang'' (Some m) = Some (JArr (take 2500 xs)) \<and>
    member_of ''totaltAntalTraffar'' (Some m) = Some (JNum (int (length xs))) \<and>
    (length xs \<le> 2500 \<longrightarrow> take 2500 xs = xs)"
proof -
  let ?st = "fetch_pages tenant org page org_engagement_max_pages 1 (no_pages store)"
  have "pg_rows ?st = take 2500 xs \<and> pg_total ?st = Some (int (length xs)) \<and>
      pg_attempts ?st = min 25 (max 1 ((length xs + 99) div 100))"
    using fetch_pages_of [OF assms, of 1 "no_pages store" org_engagement_max_pages tenant org]
    by (simp add: no_pages_def org_engagement_max_pages_def page_size_def)
  then show ?thesis
    by (simp add: fetch_all_engagements_def Let_def map_of_spread)
qed

text \<open>A first page that fails looks like a register without engagements; the result is never \<open>null\<close>.\<close>

theorem failed_pages_look_empty:
  assumes "page 1 = Inl e"
  shows "\<exists>m. fetch_all_engagements tenant org page store = (Some m, 1, store) \<and>
    member_of ''funktionarsOrganisationsengagemang'' (Some m) = Some (JArr []) \<and>
    member_of ''totaltAntalTraffar'' (Some m) = Some (JNum 0)"
proof -
  have "fetch_pages tenant org page org_engagement_max_pages 1 (no_pages store) =
      (no_pages store)\<lparr>pg_attempts := 1\<rparr>"
    using assms by (simp add: org_engagement_max_pages_def eval_nat_numeral take_page_def
        get_organisation_engagements_def stored_call_def no_pages_def)
  then show ?thesis
    by (simp add: fetch_all_engagements_def Let_def no_pages_def members_of_def map_of_spread)
qed

theorem engagements_never_null: "fst (fetch_all_engagements tenant org page store) \<noteq> None"
proof -
  have "0 < pg_attempts (fetch_pages tenant org page org_engagement_max_pages 1 (no_pages store))"
    using fetch_pages_tries [of org_engagement_max_pages "no_pages store" tenant org page 1]
    by (simp add: org_engagement_max_pages_def no_pages_def)
  then show ?thesis by (simp add: fetch_all_engagements_def Let_def)
qed

section \<open>The profile\<close>

lemma failed_simps [simp]: "failed (Inl e)" "\<not> failed (Inr f)"
  by (simp_all add: failed_def outcome_error_def)

lemma failed_iff: "failed r \<longleftrightarrow> (\<exists>e. r = Inl e)"
  by (cases r) simp_all


lemma profile_of:
  assumes "get_complete_company_data text now tenant org o' store = (Inr pf, store')"
  shows "\<not> core_failed o'" "pf_diagnostics pf = diagnostics_of org o'"
    "pf_highValueDataset pf = outcome_value (fo_hvd o')"
    "pf_normalisedData pf = with_documents (outcome_value (fo_documents o'))
      (map_company (outcome_value (fo_hvd o')) (rows_of (outcome_value (fo_rich o'))) org)"
    "pf_apiCallCount pf = 3 + (if fo_vh o' = None then 0 else 1) +
      (fst (snd (fetch_all_engagements tenant org (fo_page o') store)) +
       length (collect_person_identities (rows_of (outcome_value (fo_rich o')))
         (null_value (Option.bind (fo_vh o') outcome_value))))"
    "pf_organisationInformation pf = rows_of (outcome_value (fo_rich o'))"
    "pf_verkligaHuvudman pf = null_value (Option.bind (fo_vh o') outcome_value)"
  using assms
  by (auto simp: get_complete_company_data_def Let_def enrich_api_call_count_base_def split: if_splits prod.splits)

lemma error_diagnostics:
  "list_ex (\<lambda>d. dg_status d = Error) (diagnostics_of org o') \<longleftrightarrow>
    failed (fo_hvd o') \<or> failed (fo_rich o') \<or> failed (fo_documents o') \<or> (\<exists>r. fo_vh o' = Some r \<and> failed r)"
  by (auto simp: diagnostics_of_def diagnostic_def Let_def split: option.splits)

text \<open>
  A profile reports an error exactly when one of its four parallel calls failed, and the
  calls it counts are at least the base and one page, at most the base, 25 pages and one call per
  person, the persons being distinct natural persons.
\<close>

theorem profile_reports_failures:
  assumes "get_complete_company_data text now tenant org o' store = (Inr pf, store')"
  shows "(list_ex (\<lambda>d. dg_status d = Error) (pf_diagnostics pf) \<longleftrightarrow>
      failed (fo_hvd o') \<or> failed (fo_rich o') \<or> failed (fo_documents o') \<or> (\<exists>r. fo_vh o' = Some r \<and> failed r)) \<and>
    4 \<le> pf_apiCallCount pf \<and>
    person_list (collect_person_identities (pf_organisationInformation pf) (pf_verkligaHuvudman pf)) \<and>
    pf_apiCallCount pf \<le> 29 + length (collect_person_identities (pf_organisationInformation pf) (pf_verkligaHuvudman pf))"
proof -
  let ?ids = "collect_person_identities (rows_of (outcome_value (fo_rich o'))) (null_value (Option.bind (fo_vh o') outcome_value))"
  let ?n = "pg_attempts (fetch_pages tenant org (fo_page o') org_engagement_max_pages 1 (no_pages store))"
  have "fst (snd (fetch_all_engagements tenant org (fo_page o') store)) = ?n"
    by (simp add: fetch_all_engagements_def Let_def)
  moreover have "0 < ?n" "?n \<le> 25"
    using fetch_pages_tries [of org_engagement_max_pages "no_pages store" tenant org "fo_page o'" 1]
      fetch_pages_attempts [of "no_pages store" tenant org "fo_page o'" org_engagement_max_pages 1]
    by (simp_all add: org_engagement_max_pages_def no_pages_def)
  ultimately have "4 \<le> pf_apiCallCount pf" "pf_apiCallCount pf \<le> 29 + length ?ids"
    by (simp_all add: profile_of(5) [OF assms])
  then show ?thesis
    by (simp add: profile_of(2,6,7) [OF assms] error_diagnostics collected_identities)
qed

section \<open>Witnesses\<close>

definition sample_outcomes :: "int outcome \<Rightarrow> int outcome \<Rightarrow> fetch_outcomes" where
  "sample_outcomes hvd rest =
     \<lparr>fo_hvd = hvd, fo_rich = rest, fo_documents = rest, fo_vh = None,
      fo_page = (\<lambda>p. Inl (OtherError ''down'' None)), fo_person = (\<lambda>i. Inl (OtherError ''down'' None))\<rparr>"

definition empty_api :: api_store where
  "empty_api = \<lparr>as_endpoints = [], as_documentLists = [], as_ingestJobs = []\<rparr>"

theorem engagement_pages_complete_witness:
  "\<exists>m store'. fetch_all_engagements None ''5560000001'' (\<lambda>p. Inr \<lparr>fd_responsePayload = page_of [JNull] p, fd_requestId = ''r''\<rparr>)
      empty_api = (Some m, 1, store') \<and>
    member_of ''funktionarsOrganisationsengagemang'' (Some m) = Some (JArr [JNull])"
proof -
  have "answers_pages [JNull] (\<lambda>p. Inr \<lparr>fd_responsePayload = page_of [JNull] p, fd_requestId = ''r''\<rparr>)"
    by (simp add: answers_pages_def)
  from engagement_pages_complete [OF this, of None "''5560000001''" empty_api] show ?thesis by auto
qed


theorem profile_reports_failures_witness:
  "\<exists>pf. fst (get_complete_company_data (\<lambda>e. ''E'') 0 None ''5560000001''
      (sample_outcomes (Inl (OtherError ''down'' None)) (Inr \<lparr>fd_responsePayload = JArr [], fd_requestId = ''r''\<rparr>)) empty_api) = Inr pf \<and>
    list_ex (\<lambda>d. dg_status d = Error) (pf_diagnostics pf) \<and> 4 \<le> pf_apiCallCount pf"
proof -
  let ?o = "sample_outcomes (Inl (OtherError ''down'' None)) (Inr \<lparr>fd_responsePayload = JArr [], fd_requestId = ''r''\<rparr>)"
  obtain pf store' where pf: "get_complete_company_data (\<lambda>e. ''E'') 0 None ''5560000001'' ?o empty_api = (Inr pf, store')"
    by (simp add: get_complete_company_data_def core_failed_def Let_def sample_outcomes_def split_beta)
  have "failed (fo_hvd ?o)" by (simp add: sample_outcomes_def)
  with profile_reports_failures [OF pf] pf show ?thesis by (metis fst_conv)
qed

theorem document_list_queues_admissible_witness:
  "\<exists>j. as_ingestJobs (snd (get_document_list None 5 (Some ''t'') ''5560000001'' []
      (Inr \<lparr>fd_responsePayload = JObj [(''dokument'', JArr [JObj [(''dokumentId'', JStr ''d'')]])], fd_requestId = ''r''\<rparr>)
      empty_api)) = [j] \<and> distinct (ij_dokumentIds j)"
proof -
  let ?f = "\<lparr>fd_responsePayload = JObj [(''dokument'', JArr [JObj [(''dokumentId'', JStr ''d'')]])], fd_requestId = ''r''\<rparr>
    :: int fetched"
  let ?st = "snd (get_document_list None 5 (Some ''t'') ''5560000001'' [] (Inr ?f) empty_api)"
  have "as_ingestJobs ?st \<noteq> []" by code_simp
  with document_list_queues_admissible [of "''t''" ?st None 5 "''5560000001''" "[]" ?f empty_api]
  show ?thesis by (auto simp: empty_api_def)
qed

end
