(* ===== verification/Enrichment.thy ===== *)
theory Enrichment
  imports ProfileFetch RawPayloads CachePolicy
begin

text \<open>
  The cache-aware fetch of \<open>BolagsverketService\<close>
  (backend/src/companies/services/bolagsverket.service.ts, \<open>enrichAndSave\<close>,
  \<open>enrichPersonEngagements\<close> and \<open>_linkAndCompareSnapshot\<close>): the policy decides whether the
  newest successful snapshot is served, else the complete profile is fetched and stored as the
  organisation, the raw payload, a snapshot linked into its chain and compared with its
  predecessor, and the payload tables. What runs detached in the code is taken in the order in
  which it is started; the snapshot table takes every write.
\<close>

section \<open>State\<close>

record enrich_store =
  es_snapshots :: "snapshot list"
  es_orgs :: "bv_organisation list"
  es_raw :: "raw_payload list"
  es_parseQueue :: "string list"
  es_hvd :: "payload_row list"
  es_fi :: "payload_row list"
  es_vh :: "payload_row list"
  es_events :: "change_event list"
  es_refreshQueue :: "(string \<times> refresh_job) list"
  es_api :: api_store
  es_audit :: audit_store

text \<open>
  What a call finds: the time, the ids of the rows it may add, SHA-256, \<open>String(err)\<close>, the
  policies, and which of the fallible steps fail.
\<close>

record enrich_env =
  en_now :: int
  en_orgId :: string
  en_snapshotId :: string
  en_rawId :: string
  en_payloadId :: string
  en_sha :: "string \<Rightarrow> string"
  en_text :: "provider_exception \<Rightarrow> string"
  en_policies :: policy_store
  en_policyThrows :: bool
  en_orgReadFails :: bool
  en_upsertError :: "string option"
  en_rawFails :: bool
  en_eventsError :: "string option"

record enrich_request =
  eq_tenantId :: string
  eq_org :: string
  eq_forceRefresh :: bool
  eq_correlationId :: "string option"
  eq_actorId :: "string option"

text \<open>The profile as served: fresh, or put together from the stored rows.\<close>

record served_profile =
  sv_normalisedData :: "int members"
  sv_highValueDataset :: "int json option"
  sv_organisationInformation :: "int json list"
  sv_documents :: "int json option"
  sv_verkligaHuvudman :: "int json option"
  sv_retrievedAt :: string
  sv_engagements :: "int json option"
  sv_relatedPersons :: "int members option"
  sv_apiCallCount :: int
  sv_diagnostics :: "fetch_diagnostic list"

record enrich_result =
  nr_result :: served_profile
  nr_snapshot :: snapshot
  nr_isFromCache :: bool
  nr_ageInDays :: "int option"

definition served_of :: "profile \<Rightarrow> served_profile" where
  "served_of pf =
     \<lparr>sv_normalisedData = company_members (pf_normalisedData pf), sv_highValueDataset = pf_highValueDataset pf,
      sv_organisationInformation = pf_organisationInformation pf, sv_documents = pf_documents pf,
      sv_verkligaHuvudman = pf_verkligaHuvudman pf, sv_retrievedAt = pf_retrievedAt pf,
      sv_engagements = pf_engagements pf, sv_relatedPersons = pf_relatedPersons pf,
      sv_apiCallCount = int (pf_apiCallCount pf), sv_diagnostics = pf_diagnostics pf\<rparr>"

section \<open>Audit events\<close>

definition decision_label :: "snapshot_policy_decision \<Rightarrow> string" where
  "decision_label d =
     (case d of CacheHit \<Rightarrow> ''cache_hit'' | FreshFetch \<Rightarrow> ''fresh_fetch'' | ForceRefreshFetch \<Rightarrow> ''force_refresh''
      | StaleFallbackFetch \<Rightarrow> ''stale_fallback'')"

definition label_json :: "snapshot_policy_decision option \<Rightarrow> rat json" where
  "label_json d = (case d of None \<Rightarrow> JNull | Some x \<Rightarrow> JStr (decision_label x))"

definition days_json :: "int option \<Rightarrow> rat json" where
  "days_json d = (case d of None \<Rightarrow> JNull | Some x \<Rightarrow> JNum (of_int x))"

definition enrich_event ::
  "enrich_request \<Rightarrow> audit_event_type \<Rightarrow> string \<Rightarrow> string \<Rightarrow> rat members option \<Rightarrow> rat members \<Rightarrow>
   enrich_store \<Rightarrow> enrich_store" where
  "enrich_event q type action status cost details st =
     st\<lparr>es_audit := snd (emit_audit_event
        \<lparr>ei_tenantId = eq_tenantId q, ei_userId = eq_actorId q, ei_eventType = type, ei_action = action,
         ei_status = status, ei_resourceId = Some (eq_org q), ei_correlationId = eq_correlationId q,
         ei_costImpact = cost,
         ei_metadata = Some ([(''orgNumber'', JStr (eq_org q)), (''forceRefresh'', JBool (eq_forceRefresh q))] @ details),
         ei_retentionExpiresAt = None\<rparr> (es_audit st))\<rparr>"

definition cost_of :: "nat \<Rightarrow> rat members" where
  "cost_of n = [(''apiCallCount'', JNum (of_nat n))]"

section \<open>Serving from the cache\<close>

definition age_in_hours :: "int \<Rightarrow> snapshot \<Rightarrow> rat" where
  "age_in_hours now s = of_int (now - sn_fetchedAt s) / 3600000"

text \<open>
  Whether the snapshot is served, and the label of the decision; the label starts as a cache hit
  and keeps that value when the policy asks for a call.
\<close>

definition cache_decision ::
  "policy_evaluation_result option \<Rightarrow> bool \<Rightarrow> bool \<times> snapshot_policy_decision" where
  "cache_decision r isFresh =
     (case r of
        None \<Rightarrow> (isFresh, if isFresh then CacheHit else FreshFetch)
      | Some p \<Rightarrow>
          if pe_isFresh p then (True, CacheHit)
          else if pe_decision p = StaleServe then (True, StaleFallbackFetch)
          else (False, CacheHit))"

definition company_opts :: "enrich_request \<Rightarrow> evaluate_opts" where
  "company_opts q =
     \<lparr>eo_entityType = Some ''company'', eo_entityId = Some (eq_org q), eo_correlationId = eq_correlationId q,
      eo_actorId = eq_actorId q, eo_orgNumber = Some (eq_org q)\<rparr>"

definition evaluate_snapshot ::
  "enrich_env \<Rightarrow> enrich_request \<Rightarrow> snapshot \<Rightarrow> enrich_store \<Rightarrow> policy_evaluation_result option \<times> enrich_store" where
  "evaluate_snapshot env q s st =
     (if en_policyThrows env then (None, st)
      else (let (r, aud) = evaluate (en_policies env) (eq_tenantId q) (age_in_hours (en_now env) s)
                  (company_opts q) (es_audit st)
            in (Some r, st\<lparr>es_audit := aud\<rparr>)))"

text \<open>The parts of the profile kept with the organisation.\<close>

definition stored_payload :: "enrich_env \<Rightarrow> enrich_request \<Rightarrow> enrich_store \<Rightarrow> int members" where
  "stored_payload env q st =
     (if en_orgReadFails env then []
      else (case find_by_org_nr (eq_tenantId q) (eq_org q) (es_orgs st) of None \<Rightarrow> [] | Some o' \<Rightarrow> og_rawPayload o'))"

definition cached_profile :: "int members \<Rightarrow> snapshot \<Rightarrow> served_profile" where
  "cached_profile raw s =
     \<lparr>sv_normalisedData = sn_normalisedSummary s,
      sv_highValueDataset = null_value (map_of raw ''highValueDataset''),
      sv_organisationInformation = rows_of (map_of raw ''organisationInformation''),
      sv_documents = null_value (map_of raw ''documents''),
      sv_verkligaHuvudman = null_value (map_of raw ''verkligaHuvudman''),
      sv_retrievedAt = iso_string (sn_fetchedAt s),
      sv_engagements = null_value (map_of raw ''organisationEngagementsAggregated''),
      sv_relatedPersons = (case map_of raw ''relatedPersonInformation'' of Some (JObj ms) \<Rightarrow> Some ms | _ \<Rightarrow> None),
      sv_apiCallCount = sn_apiCallCount s, sv_diagnostics = []\<rparr>"

text \<open>The first part of \<open>enrichAndSave\<close>: a result, or the label and the snapshot passed over.\<close>

definition try_cache ::
  "enrich_env \<Rightarrow> enrich_request \<Rightarrow> enrich_store \<Rightarrow>
   (snapshot_policy_decision option \<times> bool + enrich_result) \<times> enrich_store" where
  "try_cache env q st =
     (if eq_forceRefresh q
      then (Inl (None, False), enrich_event q FORCE_REFRESH ''company.refresh'' ''requested'' None [] st)
      else (let check = check_freshness (en_now env) (eq_tenantId q) (eq_org q) (es_snapshots st)
            in case cc_snapshot check of
                 None \<Rightarrow> (Inl (None, False), enrich_event q CACHE_MISS ''company.cache'' ''no_snapshot'' None [] st)
               | Some s \<Rightarrow>
                   (let (r, st) = evaluate_snapshot env q s st;
                        (serve, label) = cache_decision r (cc_isFresh check);
                        stale = (label = StaleFallbackFetch);
                        details = [(''cacheDecision'', JStr (decision_label label)),
                          (''ageInDays'', days_json (cc_ageInDays check))]
                    in if serve
                       then (Inr \<lparr>nr_result = cached_profile (stored_payload env q st) s,
                               nr_snapshot = s\<lparr>sn_policyDecision := label, sn_isStaleFallback := stale\<rparr>,
                               nr_isFromCache = True, nr_ageInDays = cc_ageInDays check\<rparr>,
                             enrich_event q (if stale then STALE_SERVED else CACHE_HIT) ''company.cache''
                               (if stale then ''stale_served'' else ''hit'') None details st)
                       else (Inl (Some label, True),
                             enrich_event q CACHE_MISS ''company.cache'' ''refresh_required'' None details st))))"

section \<open>Fetching and storing\<close>

definition json_or_null :: "'n json option \<Rightarrow> 'n json" where
  "json_or_null v = or_default v JNull"

definition kept_parts :: "profile \<Rightarrow> int members" where
  "kept_parts pf =
     (if truthy (pf_verkligaHuvudman pf) then [(''verkligaHuvudman'', json_or_null (pf_verkligaHuvudman pf))] else []) @
     opt_member ''organisationEngagementsAggregated'' (pf_engagements pf) @
     opt_member ''relatedPersonInformation'' (map_option JObj (pf_relatedPersons pf))"

text \<open>The payload kept with the organisation, and the content of the raw payload.\<close>

definition organisation_payload :: "profile \<Rightarrow> int members" where
  "organisation_payload pf =
     [(''highValueDataset'', json_or_null (pf_highValueDataset pf)),
      (''organisationInformation'', JArr (pf_organisationInformation pf)),
      (''documents'', json_or_null (pf_documents pf))] @ kept_parts pf"

definition raw_content :: "profile \<Rightarrow> int members" where
  "raw_content pf =
     [(''highValueDataset'', json_or_null (pf_highValueDataset pf)),
      (''organisationInformation'', JArr (pf_organisationInformation pf))] @
     (case member_of ''dokument'' (pf_documents pf) of Some (JArr xs) \<Rightarrow> [(''dokument'', JArr xs)] | _ \<Rightarrow> []) @
     kept_parts pf"

definition null_text :: "string option \<Rightarrow> 'n json" where
  "null_text s = (case s of None \<Rightarrow> JNull | Some t \<Rightarrow> JStr t)"

text \<open>Step 4: the id of the raw payload, new content being queued for parsing.\<close>

definition store_raw_step ::
  "enrich_env \<Rightarrow> enrich_request \<Rightarrow> profile \<Rightarrow> enrich_store \<Rightarrow> string option \<times> enrich_store" where
  "store_raw_step env q pf st =
     (if en_rawFails env then (None, st)
      else (let (r, rs) = store_raw_payload (en_sha env) (en_now env) (en_rawId env)
                  \<lparr>sp_tenantId = eq_tenantId q, sp_providerSource = ''bolagsverket'',
                   sp_organisationsnummer = eq_org q, sp_content = raw_content pf,
                   sp_metadata = Some [(''retrievedAt'', JStr (pf_retrievedAt pf)),
                     (''apiCallCount'', JNum (int (pf_apiCallCount pf))),
                     (''correlationId'', null_text (eq_correlationId q)), (''actorId'', null_text (eq_actorId q))],
                   sp_snapshotId = None, sp_payloadVersion = Some ''1''\<rparr>
                  \<lparr>rs_payloads = es_raw st, rs_audit = es_audit st\<rparr>;
                rawId = rw_id (sr_rawPayload r)
            in (Some rawId, st\<lparr>es_raw := rs_payloads rs, es_audit := rs_audit rs,
                  es_parseQueue := es_parseQueue st @
                    (if \<not> sr_isDeduplicated r \<and> rawId \<noteq> [] then [rawId] else [])\<rparr>)))"

definition fetched_snapshot ::
  "enrich_env \<Rightarrow> enrich_request \<Rightarrow> string \<Rightarrow> snapshot" where
  "fetched_snapshot env q status =
     (new_snapshot (en_snapshotId env) (eq_tenantId q) (eq_org q) ''organisationsnummer'' status (en_now env)
       (if eq_forceRefresh q then ForceRefreshFetch else FreshFetch))
       \<lparr>sn_correlationId := eq_correlationId q, sn_actorId := eq_actorId q\<rparr>"

text \<open>The snapshot of a profile, of an organisation or, after a failed write, of none.\<close>

definition profile_snapshot ::
  "enrich_env \<Rightarrow> enrich_request \<Rightarrow> string \<Rightarrow> string option \<Rightarrow> string option \<Rightarrow> string option \<Rightarrow> profile \<Rightarrow> snapshot" where
  "profile_snapshot env q status errorMessage orgId rawId pf =
     (fetched_snapshot env q status)
       \<lparr>sn_organisationId := orgId, sn_normalisedSummary := company_members (pf_normalisedData pf),
        sn_rawPayloadSummary := mc_sourcePayloadSummary (pf_normalisedData pf),
        sn_apiCallCount := int (pf_apiCallCount pf), sn_errorMessage := errorMessage,
        sn_costImpactFlags := [(''apiCallCharged'', JBool True), (''apiCallCount'', JNum (int (pf_apiCallCount pf)))],
        sn_rawPayloadId := rawId\<rparr>"

definition add_snapshot :: "snapshot \<Rightarrow> enrich_store \<Rightarrow> enrich_store" where
  "add_snapshot s st = st\<lparr>es_snapshots := create_snapshot s (es_snapshots st)\<rparr>"

text \<open>Step 5a: the full payloads of the registers that answered.\<close>

definition store_payloads :: "enrich_env \<Rightarrow> enrich_request \<Rightarrow> profile \<Rightarrow> enrich_store \<Rightarrow> enrich_store" where
  "store_payloads env q pf st =
     (let put = (\<lambda>payload requestId. store_payload (en_payloadId env) (eq_tenantId q) (eq_org q) (en_now env) payload requestId
                  (Some (en_snapshotId env)));
          st = (if truthy (pf_highValueDataset pf)
                then st\<lparr>es_hvd := put (members_of (pf_highValueDataset pf)) (pf_hvdRequestId pf) (es_hvd st)\<rparr> else st);
          st = (if pf_organisationInformation pf \<noteq> []
                then st\<lparr>es_fi := put [(''organisationInformation'', JArr (pf_organisationInformation pf))]
                  (pf_v4RequestId pf) (es_fi st)\<rparr> else st)
      in if truthy (pf_verkligaHuvudman pf)
         then st\<lparr>es_vh := put (members_of (pf_verkligaHuvudman pf)) (pf_vhRequestId pf) (es_vh st)\<rparr> else st)"

text \<open>\<open>_linkAndCompareSnapshot\<close>\<close>

definition link_and_compare ::
  "enrich_env \<Rightarrow> string \<Rightarrow> string \<Rightarrow> string \<Rightarrow> enrich_store \<Rightarrow> enrich_store" where
  "link_and_compare env tenantId snapshotId org st =
     (case link_snapshot (en_sha env) tenantId snapshotId org
         \<lparr>ss_rows = es_snapshots st, ss_audit = es_audit st\<rparr> of
        (Inl e, ss) \<Rightarrow> st
      | (Inr s, ss) \<Rightarrow>
          (let cs = snd (compare_snapshots tenantId (sn_id s) (sn_previousSnapshotId s)
                 \<lparr>cs_snapshots = ss_rows ss, cs_snapshots_err = None, cs_events = es_events st,
                  cs_events_err = en_eventsError env, cs_audit = ss_audit ss, cs_queue = es_refreshQueue st\<rparr>)
           in st\<lparr>es_snapshots := cs_snapshots cs, es_events := cs_events cs, es_audit := cs_audit cs,
                 es_refreshQueue := cs_queue cs\<rparr>))"

text \<open>Steps 3 to 6.\<close>

definition fetch_status_of :: "profile \<Rightarrow> string" where
  "fetch_status_of pf = (if list_ex (\<lambda>d. dg_status d = Error) (pf_diagnostics pf) then ''partial'' else ''success'')"

definition error_message_of :: "profile \<Rightarrow> string option" where
  "error_message_of pf =
     (if list_ex (\<lambda>d. dg_status d = Error) (pf_diagnostics pf)
      then Some (join ''; '' (map (\<lambda>d. dg_provider d @ '': '' @ or_default (dg_message d) ''request failed'')
        (filter (\<lambda>d. dg_status d = Error) (pf_diagnostics pf))))
      else None)"

definition persist_profile ::
  "enrich_env \<Rightarrow> enrich_request \<Rightarrow> rat members \<Rightarrow> profile \<Rightarrow> enrich_store \<Rightarrow> snapshot \<times> enrich_store" where
  "persist_profile env q trigger pf st =
     (let n = pf_apiCallCount pf;
          completed = (\<lambda>status more. enrich_event q REFRESH_COMPLETED ''company.refresh'' status (Some (cost_of n))
            (trigger @ [(''resultStatus'', JStr status), (''snapshotId'', JStr (en_snapshotId env)),
              (''apiCallCount'', JNum (of_nat n))] @ more))
      in case en_upsertError env of
           Some e \<Rightarrow>
             (let s = profile_snapshot env q ''partial'' (Some e) None None pf
              in (s, completed ''partial'' [(''error'', JStr e)] (add_snapshot s st)))
         | None \<Rightarrow>
             (let (org, orgs) = upsert_organisation (en_now env) (en_orgId env) (eq_tenantId q)
                    (pf_normalisedData pf) (organisation_payload pf) (es_orgs st);
                  (rawId, st) = store_raw_step env q pf (st\<lparr>es_orgs := orgs\<rparr>);
                  s = profile_snapshot env q (fetch_status_of pf) (error_message_of pf) (Some (og_id org)) rawId pf;
                  st = store_payloads env q pf (add_snapshot s st);
                  st = link_and_compare env (eq_tenantId q) (en_snapshotId env) (eq_org q) st
              in (s, completed (fetch_status_of pf) [] st)))"

definition trigger_type :: "enrich_request \<Rightarrow> bool \<Rightarrow> string" where
  "trigger_type q found =
     (if eq_forceRefresh q then ''force_refresh'' else if found then ''stale_refresh'' else ''cache_miss'')"

definition enrich_and_save ::
  "enrich_env \<Rightarrow> fetch_outcomes \<Rightarrow> enrich_request \<Rightarrow> enrich_store \<Rightarrow>
   (provider_exception + enrich_result) \<times> enrich_store" where
  "enrich_and_save env outs q st =
     (case try_cache env q st of
        (Inr r, st) \<Rightarrow> (Inr r, st)
      | (Inl (label, found), st) \<Rightarrow>
          (let trigger = [(''triggerType'', JStr (trigger_type q found))];
               st = enrich_event q REFRESH_INITIATED ''company.refresh'' ''initiated'' None
                 (trigger @ [(''cacheDecision'', label_json label), (''providerCall'', JBool True)]) st
           in case get_complete_company_data (en_text env) (en_now env) (Some (eq_tenantId q)) (eq_org q) outs (es_api st) of
                (Inl e, api) \<Rightarrow>
                  (let s = (fetched_snapshot env q ''error'')\<lparr>sn_errorMessage := Some (en_text env e)\<rparr>
                   in (Inl e, enrich_event q REFRESH_COMPLETED ''company.refresh'' ''error'' (Some (cost_of 0))
                     (trigger @ [(''resultStatus'', JStr ''error''), (''error'', JStr (en_text env e))])
                     (add_snapshot s (st\<lparr>es_api := api\<rparr>))))
              | (Inr pf, api) \<Rightarrow>
                  (let st = enrich_event q PROVIDER_CALLED ''company.provider_call'' ''completed''
                         (Some (cost_of (pf_apiCallCount pf))) trigger (st\<lparr>es_api := api\<rparr>);
                       (s, st) = persist_profile env q trigger pf st
                   in (Inr \<lparr>nr_result = served_of pf, nr_snapshot = s, nr_isFromCache = False, nr_ageInDays = None\<rparr>, st))))"

text \<open>\<open>enrichPersonEngagements\<close>; the response is one call of the client, which logs nothing here.\<close>

record engagements_result =
  gr_engagements :: "int members"
  gr_snapshot :: snapshot
  gr_isFromCache :: bool
  gr_ageInDays :: "int option"

definition enrich_person_engagements ::
  "enrich_env \<Rightarrow> int outcome \<Rightarrow> enrich_request \<Rightarrow> enrich_store \<Rightarrow>
   (provider_exception + engagements_result) \<times> enrich_store" where
  "enrich_person_engagements env r q st =
     (let check = check_freshness (en_now env) (eq_tenantId q) (eq_org q) (es_snapshots st)
      in case (if eq_forceRefresh q \<or> \<not> cc_isFresh check then None else cc_snapshot check) of
           Some s \<Rightarrow> (Inr \<lparr>gr_engagements = sn_normalisedSummary s, gr_snapshot = s, gr_isFromCache = True,
             gr_ageInDays = cc_ageInDays check\<rparr>, st)
         | None \<Rightarrow>
             (case r of
                Inl e \<Rightarrow> (Inl e, st)
              | Inr f \<Rightarrow>
                  (let s = (fetched_snapshot env q ''success'')
                         \<lparr>sn_identifierType := ''personnummer'',
                          sn_normalisedSummary := members_of (Some (fd_responsePayload f)), sn_apiCallCount := 1,
                          sn_costImpactFlags := [(''apiCallCharged'', JBool True), (''apiCallCount'', JNum 1)]\<rparr>
                   in (Inr \<lparr>gr_engagements = members_of (Some (fd_responsePayload f)), gr_snapshot = s,
                         gr_isFromCache = False, gr_ageInDays = None\<rparr>, add_snapshot s st))))"

section \<open>What each step leaves as it is\<close>

lemma enrich_event_keeps [simp]:
  "es_snapshots (enrich_event q ty a s c d st) = es_snapshots st" "es_orgs (enrich_event q ty a s c d st) = es_orgs st"
  "es_raw (enrich_event q ty a s c d st) = es_raw st" "es_api (enrich_event q ty a s c d st) = es_api st"
  "es_parseQueue (enrich_event q ty a s c d st) = es_parseQueue st" "es_hvd (enrich_event q ty a s c d st) = es_hvd st"
  "es_fi (enrich_event q ty a s c d st) = es_fi st" "es_vh (enrich_event q ty a s c d st) = es_vh st"
  "es_events (enrich_event q ty a s c d st) = es_events st"
  "es_refreshQueue (enrich_event q ty a s c d st) = es_refreshQueue st"
  by (simp_all add: enrich_event_def)

lemma evaluate_snapshot_keeps:
  "es_snapshots (snd (evaluate_snapshot env q s st)) = es_snapshots st"
  "es_orgs (snd (evaluate_snapshot env q s st)) = es_orgs st"
  "es_api (snd (evaluate_snapshot env q s st)) = es_api st"
  "es_raw (snd (evaluate_snapshot env q s st)) = es_raw st"
  by (simp_all add: evaluate_snapshot_def split_beta)

lemma try_cache_keeps:
  "es_snapshots (snd (try_cache env q st)) = es_snapshots st" "es_orgs (snd (try_cache env q st)) = es_orgs st"
  "es_api (snd (try_cache env q st)) = es_api st" "es_raw (snd (try_cache env q st)) = es_raw st"
  by (simp_all add: try_cache_def Let_def evaluate_snapshot_keeps split_beta split: option.splits)

lemma store_payloads_keeps [simp]:
  "es_snapshots (store_payloads env q pf st) = es_snapshots st" "es_orgs (store_payloads env q pf st) = es_orgs st"
  "es_raw (store_payloads env q pf st) = es_raw st" "es_api (store_payloads env q pf st) = es_api st"
  "es_audit (store_payloads env q pf st) = es_audit st" "es_events (store_payloads env q pf st) = es_events st"
  by (simp_all add: store_payloads_def Let_def)

lemma store_raw_step_keeps [simp]:
  "es_snapshots (snd (store_raw_step env q pf st)) = es_snapshots st"
  "es_orgs (snd (store_raw_step env q pf st)) = es_orgs st" "es_api (snd (store_raw_step env q pf st)) = es_api st"
  "es_events (snd (store_raw_step env q pf st)) = es_events st"
  by (simp_all add: store_raw_step_def Let_def split_beta)

lemma compare_keeps_snapshots: "cs_snapshots (snd (compare_snapshots t a b cs)) = cs_snapshots cs"
  by (cases "do_compare t a b cs")
    (auto simp: compare_snapshots_def split: sum.splits option.splits elim!: do_compare_OkD dest: do_compare_ErrD)

lemma link_and_compare_keeps [simp]:
  "es_orgs (link_and_compare env t i org st) = es_orgs st" "es_api (link_and_compare env t i org st) = es_api st"
  "es_raw (link_and_compare env t i org st) = es_raw st"
  by (simp_all add: link_and_compare_def Let_def split: prod.splits sum.splits)

text \<open>The chain step only writes the links of one snapshot.\<close>

definition relink :: "snapshot \<Rightarrow> snapshot \<Rightarrow> snapshot" where
  "relink l s = s\<lparr>sn_previousSnapshotId := sn_previousSnapshotId l, sn_versionNumber := sn_versionNumber l,
     sn_sequenceNumber := sn_sequenceNumber l, sn_replayId := sn_replayId l, sn_chainBroken := sn_chainBroken l\<rparr>"

lemma relink_simps [simp]:
  "sn_id (relink l s) = sn_id s" "sn_tenantId (relink l s) = sn_tenantId s"
  "sn_organisationsnummer (relink l s) = sn_organisationsnummer s" "sn_fetchStatus (relink l s) = sn_fetchStatus s"
  "sn_fetchedAt (relink l s) = sn_fetchedAt s" "sn_normalisedSummary (relink l s) = sn_normalisedSummary s"
  "sn_apiCallCount (relink l s) = sn_apiCallCount s" "success_snapshot t org (relink l s) = success_snapshot t org s"
  by (simp_all add: relink_def success_snapshot_def)

definition restarted :: "snapshot \<Rightarrow> bool" where
  "restarted s \<longleftrightarrow> sn_previousSnapshotId s = None \<and> sn_versionNumber s = 1"

lemma link_and_compare_found:
  assumes "find_snapshot t i (es_snapshots st) = Some s"
  shows "\<exists>l. es_snapshots (link_and_compare env t i org st) = save sn_id (relink l s) (es_snapshots st) \<and>
    (map_option sn_id (newest_snapshot t org (es_snapshots st)) = Some i \<longrightarrow> restarted l)"
proof -
  let ?ss = "\<lparr>ss_rows = es_snapshots st, ss_audit = es_audit st\<rparr>"
  obtain l where l: "fst (link_snapshot (en_sha env) t i org ?ss) = Inr l"
    and "ss_rows (snd (link_snapshot (en_sha env) t i org ?ss)) = save sn_id l (es_snapshots st)" and "l = relink l s"
    and r: "map_option sn_id (newest_snapshot t org (es_snapshots st)) = Some i \<longrightarrow> restarted l"
    using assms by (cases "newest_snapshot t org (es_snapshots st)")
      (auto simp: link_snapshot_def Let_def relink_def restarted_def)
  then have "es_snapshots (link_and_compare env t i org st) = save sn_id (relink l s) (es_snapshots st)"
    by (cases "link_snapshot (en_sha env) t i org ?ss")
      (simp add: link_and_compare_def Let_def compare_keeps_snapshots)
  with r show ?thesis by blast
qed

lemma link_and_compare_missing:
  "find_snapshot t i (es_snapshots st) = None \<Longrightarrow> link_and_compare env t i org st = st"
  by (simp add: link_and_compare_def link_snapshot_def)

text \<open>A new snapshot is the only one added, whatever links it gets.\<close>

lemma link_new_snapshot:
  assumes "sn_id s \<notin> sn_id ` set rows" and "sn_tenantId s = t" and "es_snapshots st = rows @ [s]"
  shows "\<exists>l. es_snapshots (link_and_compare env t (sn_id s) org st) = rows @ [relink l s] \<and>
    (newest_snapshot t org (rows @ [s]) = Some s \<longrightarrow> restarted l)"
proof -
  have f: "find_snapshot t (sn_id s) (es_snapshots st) = Some s"
    unfolding find_snapshot_def assms(3) by (rule find_one_unique) (use assms(1,2) in \<open>auto simp: image_iff\<close>)
  have save: "save sn_id (relink l s) (rows @ [s]) = rows @ [relink l s]" for l
    using assms(1) by (induction rows) auto
  from link_and_compare_found [OF f, of env org] show ?thesis
    unfolding assms(3) save by auto
qed

lemma profile_snapshot_simps [simp]:
  "sn_id (profile_snapshot env q status m o' r pf) = en_snapshotId env"
  "sn_tenantId (profile_snapshot env q status m o' r pf) = eq_tenantId q"
  "sn_organisationsnummer (profile_snapshot env q status m o' r pf) = eq_org q"
  "sn_fetchStatus (profile_snapshot env q status m o' r pf) = status"
  "sn_fetchedAt (profile_snapshot env q status m o' r pf) = en_now env"
  "sn_normalisedSummary (profile_snapshot env q status m o' r pf) = company_members (pf_normalisedData pf)"
  "sn_apiCallCount (profile_snapshot env q status m o' r pf) = int (pf_apiCallCount pf)"
  by (simp_all add: profile_snapshot_def fetched_snapshot_def new_snapshot_def)

definition new_id :: "enrich_env \<Rightarrow> enrich_store \<Rightarrow> bool" where
  "new_id env st \<longleftrightarrow> en_snapshotId env \<notin> sn_id ` set (es_snapshots st)"

lemma persist_snapshots:
  assumes "new_id env st"
  shows "\<exists>l. es_snapshots (snd (persist_profile env q tr pf st)) =
      es_snapshots st @ [relink l (fst (persist_profile env q tr pf st))] \<and>
    (newest_snapshot (eq_tenantId q) (eq_org q) (es_snapshots st @ [fst (persist_profile env q tr pf st)]) =
       Some (fst (persist_profile env q tr pf st)) \<longrightarrow> restarted l) \<and>
    (\<exists>m o' r. fst (persist_profile env q tr pf st) = profile_snapshot env q
      (if en_upsertError env = None then fetch_status_of pf else ''partial'') m o' r pf)"
proof (cases "en_upsertError env")
  case (Some e)
  then show ?thesis
    by (intro exI [of _ "profile_snapshot env q ''partial'' (Some e) None None pf"])
      (auto simp: persist_profile_def Let_def add_snapshot_def create_snapshot_def relink_def restarted_def
        profile_snapshot_def fetched_snapshot_def new_snapshot_def)
next
  case None
  obtain org orgs where u: "upsert_organisation (en_now env) (en_orgId env) (eq_tenantId q)
      (pf_normalisedData pf) (organisation_payload pf) (es_orgs st) = (org, orgs)" by fastforce
  obtain rawId st1 where r: "store_raw_step env q pf (st\<lparr>es_orgs := orgs\<rparr>) = (rawId, st1)" by fastforce
  from store_raw_step_keeps(1) [of env q pf "st\<lparr>es_orgs := orgs\<rparr>"] r
  have keep: "es_snapshots st1 = es_snapshots st" by simp
  let ?s = "profile_snapshot env q (fetch_status_of pf) (error_message_of pf) (Some (og_id org)) rawId pf"
  let ?st = "store_payloads env q pf (add_snapshot ?s st1)"
  have "es_snapshots ?st = es_snapshots st @ [?s]"
    by (simp add: add_snapshot_def create_snapshot_def keep)
  with link_new_snapshot [of ?s "es_snapshots st" "eq_tenantId q" ?st env "eq_org q"] assms
  obtain l where "es_snapshots (link_and_compare env (eq_tenantId q) (en_snapshotId env) (eq_org q) ?st) =
      es_snapshots st @ [relink l ?s]"
    and "newest_snapshot (eq_tenantId q) (eq_org q) (es_snapshots st @ [?s]) = Some ?s \<longrightarrow> restarted l"
    by (auto simp: new_id_def)
  then show ?thesis
    using None by (auto simp: persist_profile_def u r Let_def)
qed

lemma persist_appends:
  assumes "new_id env st"
  shows "\<exists>s. es_snapshots (snd (persist_profile env q tr pf st)) = es_snapshots st @ [s] \<and> sn_id s = en_snapshotId env \<and>
    sn_tenantId s = eq_tenantId q \<and> sn_organisationsnummer s = eq_org q \<and> sn_fetchedAt s = en_now env \<and>
    sn_fetchStatus s = (if en_upsertError env = None then fetch_status_of pf else ''partial'') \<and>
    sn_normalisedSummary s = company_members (pf_normalisedData pf)"
proof -
  obtain l m o' r where "es_snapshots (snd (persist_profile env q tr pf st)) =
      es_snapshots st @ [relink l (fst (persist_profile env q tr pf st))]"
    "fst (persist_profile env q tr pf st) = profile_snapshot env q
      (if en_upsertError env = None then fetch_status_of pf else ''partial'') m o' r pf"
    using persist_snapshots [OF assms, of q tr pf] by blast
  then show ?thesis by simp
qed

lemma persist_orgs:
  assumes "en_upsertError env = None"
  shows "es_orgs (snd (persist_profile env q tr pf st)) =
    snd (upsert_organisation (en_now env) (en_orgId env) (eq_tenantId q) (pf_normalisedData pf)
      (organisation_payload pf) (es_orgs st))"
  using assms
  by (simp add: persist_profile_def Let_def split_beta add_snapshot_def)

text \<open>The shape of a fetch that was not answered from the cache.\<close>

lemma enrich_live:
  assumes "fst (try_cache env q st) = Inl x"
    and "get_complete_company_data (en_text env) (en_now env) (Some (eq_tenantId q)) (eq_org q) outs (es_api st) = (Inr pf, api)"
  shows "\<exists>tr st1. es_snapshots st1 = es_snapshots st \<and> es_orgs st1 = es_orgs st \<and> es_api st1 = api \<and> es_raw st1 = es_raw st \<and>
    enrich_and_save env outs q st =
      (Inr \<lparr>nr_result = served_of pf, nr_snapshot = fst (persist_profile env q tr pf st1), nr_isFromCache = False,
        nr_ageInDays = None\<rparr>, snd (persist_profile env q tr pf st1))"
proof -
  obtain label found where x: "x = (label, found)" by fastforce
  obtain st1 where t: "try_cache env q st = (Inl (label, found), st1)"
    using assms(1) x by (cases "try_cache env q st") auto
  from try_cache_keeps [of env q st] t
  have "es_snapshots st1 = es_snapshots st" "es_orgs st1 = es_orgs st" "es_api st1 = es_api st" "es_raw st1 = es_raw st" by auto
  then show ?thesis
    using assms(2)
    by (intro exI [of _ "[(''triggerType'', JStr (trigger_type q found))]"]
        exI [of _ "enrich_event q PROVIDER_CALLED ''company.provider_call'' ''completed''
          (Some (cost_of (pf_apiCallCount pf))) [(''triggerType'', JStr (trigger_type q found))]
          ((enrich_event q REFRESH_INITIATED ''company.refresh'' ''initiated'' None
            [(''triggerType'', JStr (trigger_type q found)), (''cacheDecision'', label_json label),
             (''providerCall'', JBool True)] st1)\<lparr>es_api := api\<rparr>)"])
      (simp add: enrich_and_save_def t Let_def split_beta)
qed

lemma enrich_failed:
  assumes "fst (try_cache env q st) = Inl x"
    and "get_complete_company_data (en_text env) (en_now env) (Some (eq_tenantId q)) (eq_org q) outs (es_api st) = (Inl e, api)"
  shows "fst (enrich_and_save env outs q st) = Inl e" and
    "\<exists>s. es_snapshots (snd (enrich_and_save env outs q st)) = es_snapshots st @ [s] \<and> sn_fetchStatus s = ''error'' \<and>
      sn_id s = en_snapshotId env \<and> sn_tenantId s = eq_tenantId q \<and> sn_organisationsnummer s = eq_org q" and
    "es_orgs (snd (enrich_and_save env outs q st)) = es_orgs st" and
    "es_raw (snd (enrich_and_save env outs q st)) = es_raw st"
proof -
  obtain label found where x: "x = (label, found)" by fastforce
  obtain st1 where t: "try_cache env q st = (Inl (label, found), st1)"
    using assms(1) x by (cases "try_cache env q st") auto
  from try_cache_keeps [of env q st] t
  have k: "es_snapshots st1 = es_snapshots st" "es_orgs st1 = es_orgs st" "es_api st1 = es_api st" "es_raw st1 = es_raw st" by auto
  show "fst (enrich_and_save env outs q st) = Inl e" "es_orgs (snd (enrich_and_save env outs q st)) = es_orgs st"
    "es_raw (snd (enrich_and_save env outs q st)) = es_raw st"
    using assms(2) by (simp_all add: enrich_and_save_def t Let_def k add_snapshot_def)
  show "\<exists>s. es_snapshots (snd (enrich_and_save env outs q st)) = es_snapshots st @ [s] \<and> sn_fetchStatus s = ''error'' \<and>
      sn_id s = en_snapshotId env \<and> sn_tenantId s = eq_tenantId q \<and> sn_organisationsnummer s = eq_org q"
    using assms(2) by (simp add: enrich_and_save_def t Let_def k add_snapshot_def create_snapshot_def fetched_snapshot_def new_snapshot_def)
qed

section \<open>A failing register defeats the cache\<close>

definition no_success :: "string \<Rightarrow> string \<Rightarrow> enrich_store \<Rightarrow> bool" where
  "no_success t org st \<longleftrightarrow> list_all (\<lambda>s. \<not> success_snapshot t org s) (es_snapshots st)"

definition failing_part :: "fetch_outcomes \<Rightarrow> bool" where
  "failing_part o' \<longleftrightarrow> failed (fo_hvd o') \<or> failed (fo_rich o') \<or> failed (fo_documents o') \<or>
     (case fo_vh o' of None \<Rightarrow> False | Some r \<Rightarrow> failed r)"

lemma no_success_try:
  assumes "no_success (eq_tenantId q) (eq_org q) st"
  shows "\<exists>x. fst (try_cache env q st) = Inl x"
proof -
  have "cc_snapshot (check_freshness (en_now env) (eq_tenantId q) (eq_org q) (es_snapshots st)) = None"
  proof (rule ccontr)
    assume "cc_snapshot (check_freshness (en_now env) (eq_tenantId q) (eq_org q) (es_snapshots st)) \<noteq> None"
    then obtain s where "cc_snapshot (check_freshness (en_now env) (eq_tenantId q) (eq_org q) (es_snapshots st)) = Some s"
      by blast
    from check_freshness_snapshot [OF this] assms show False by (auto simp: no_success_def list_all_iff)
  qed
  then show ?thesis by (intro exI [of _ "(None, False)"]) (simp add: try_cache_def)
qed

lemma enrich_partial:
  assumes "no_success (eq_tenantId q) (eq_org q) st" and "failing_part outs" and "new_id env st"
  shows "(case fst (enrich_and_save env outs q st) of Inl e \<Rightarrow> True | Inr r \<Rightarrow> \<not> nr_isFromCache r) \<and>
    no_success (eq_tenantId q) (eq_org q) (snd (enrich_and_save env outs q st)) \<and>
    (\<exists>s. es_snapshots (snd (enrich_and_save env outs q st)) = es_snapshots st @ [s] \<and> sn_id s = en_snapshotId env)"
proof -
  obtain x where x: "fst (try_cache env q st) = Inl x" using no_success_try [OF assms(1)] by blast
  show ?thesis
  proof (cases "get_complete_company_data (en_text env) (en_now env) (Some (eq_tenantId q)) (eq_org q) outs (es_api st)")
    case (Pair r api)
    show ?thesis
    proof (cases r)
      case (Inl e)
      with enrich_failed [OF x] Pair assms(1) show ?thesis
        by (fastforce simp: no_success_def success_snapshot_def)
    next
      case (Inr pf)
      with Pair have pf: "get_complete_company_data (en_text env) (en_now env) (Some (eq_tenantId q)) (eq_org q) outs
        (es_api st) = (Inr pf, api)" by simp
      have partial: "fetch_status_of pf = ''partial''"
        using assms(2) by (simp add: fetch_status_of_def profile_of(2) [OF pf] error_diagnostics failing_part_def
            split: option.splits)
      from enrich_live [OF x pf] obtain tr st1 where k: "es_snapshots st1 = es_snapshots st"
        and run: "enrich_and_save env outs q st =
        (Inr \<lparr>nr_result = served_of pf, nr_snapshot = fst (persist_profile env q tr pf st1), nr_isFromCache = False,
          nr_ageInDays = None\<rparr>, snd (persist_profile env q tr pf st1))" by blast
      have "new_id env st1" using assms(3) by (simp add: new_id_def k)
      from persist_appends [OF this, of q tr pf] obtain s where
        "es_snapshots (snd (persist_profile env q tr pf st1)) = es_snapshots st @ [s]" "sn_id s = en_snapshotId env"
        "sn_fetchStatus s = ''partial''" by (auto simp: k partial)
      with run assms(1) show ?thesis by (simp add: no_success_def success_snapshot_def)
    qed
  qed
qed

text \<open>A sequence of lookups of one company, each with what it finds and what the calls answer.\<close>

fun enrich_runs ::
  "(enrich_env \<times> fetch_outcomes) list \<Rightarrow> enrich_request \<Rightarrow> enrich_store \<Rightarrow>
   (provider_exception + enrich_result) list \<times> enrich_store" where
  "enrich_runs [] q st = ([], st)"
| "enrich_runs ((env, outs) # runs) q st =
     (let (r, st) = enrich_and_save env outs q st; (rs, st) = enrich_runs runs q st in (r # rs, st))"

definition from_cache :: "provider_exception + enrich_result \<Rightarrow> bool" where
  "from_cache r = (case r of Inl e \<Rightarrow> False | Inr x \<Rightarrow> nr_isFromCache x)"

text \<open>
  While one register keeps failing, a company that was never read completely is never
  served from the cache, however the policies are set: every one of a sequence of lookups calls
  the provider and stores one more snapshot.
\<close>

theorem failing_part_defeats_cache:
  assumes "no_success (eq_tenantId q) (eq_org q) st"
    and "list_all (\<lambda>x. failing_part (snd x)) runs"
    and "distinct (map (\<lambda>x. en_snapshotId (fst x)) runs)"
    and "set (map (\<lambda>x. en_snapshotId (fst x)) runs) \<inter> sn_id ` set (es_snapshots st) = {}"
  shows "list_all (\<lambda>r. \<not> from_cache r) (fst (enrich_runs runs q st)) \<and>
    length (es_snapshots (snd (enrich_runs runs q st))) = length (es_snapshots st) + length runs"
  using assms
proof (induction runs arbitrary: st)
  case Nil
  then show ?case by simp
next
  case (Cons x runs)
  obtain env outs where x: "x = (env, outs)" by fastforce
  let ?r = "enrich_and_save env outs q st"
  have "new_id env st" using Cons.prems(4) x by (auto simp: new_id_def)
  with enrich_partial [OF Cons.prems(1)] Cons.prems(2) x obtain s where
    step: "case fst ?r of Inl e \<Rightarrow> True | Inr r \<Rightarrow> \<not> nr_isFromCache r" "no_success (eq_tenantId q) (eq_org q) (snd ?r)"
    "es_snapshots (snd ?r) = es_snapshots st @ [s]" "sn_id s = en_snapshotId env" by auto
  have "set (map (\<lambda>x. en_snapshotId (fst x)) runs) \<inter> sn_id ` set (es_snapshots (snd ?r)) = {}"
    using Cons.prems(3,4) x step(3,4) by auto
  with Cons.IH [of "snd ?r"] step(2) Cons.prems(2,3) x
  have "list_all (\<lambda>r. \<not> from_cache r) (fst (enrich_runs runs q (snd ?r))) \<and>
    length (es_snapshots (snd (enrich_runs runs q (snd ?r)))) = length (es_snapshots (snd ?r)) + length runs"
    by simp
  with step(1,3) x show ?case
    by (auto simp: from_cache_def split_beta Let_def split: sum.splits)
qed

section \<open>Every fetch starts a chain of its own\<close>

lemma enrich_liveD:
  assumes "enrich_and_save env outs q st = (Inr r, st')" and "\<not> nr_isFromCache r"
  obtains pf tr st1 where
    "get_complete_company_data (en_text env) (en_now env) (Some (eq_tenantId q)) (eq_org q) outs (es_api st) = (Inr pf, es_api st1)"
    "es_snapshots st1 = es_snapshots st" "es_orgs st1 = es_orgs st"
    "nr_result r = served_of pf" "nr_snapshot r = fst (persist_profile env q tr pf st1)"
    "st' = snd (persist_profile env q tr pf st1)"
proof -
  have "\<exists>x. fst (try_cache env q st) = Inl x"
  proof (cases "fst (try_cache env q st)")
    case (Inr r')
    then have "r = r'" using assms(1) by (cases "try_cache env q st") (simp add: enrich_and_save_def)
    moreover have "nr_isFromCache r'"
      using Inr by (auto simp: try_cache_def Let_def split_beta split: if_splits option.splits)
    ultimately show ?thesis using assms(2) by simp
  qed simp
  then obtain x where x: "fst (try_cache env q st) = Inl x" by blast
  show thesis
  proof (cases "get_complete_company_data (en_text env) (en_now env) (Some (eq_tenantId q)) (eq_org q) outs (es_api st)")
    case (Pair c api)
    show thesis
    proof (cases c)
      case (Inl e)
      with enrich_failed(1) [OF x, of outs e api] Pair assms(1) show thesis by simp
    next
      case (Inr pf)
      with Pair enrich_live [OF x, of outs pf api] obtain tr st1 where
        "es_snapshots st1 = es_snapshots st" "es_orgs st1 = es_orgs st" "es_api st1 = api"
        "enrich_and_save env outs q st =
          (Inr \<lparr>nr_result = served_of pf, nr_snapshot = fst (persist_profile env q tr pf st1), nr_isFromCache = False,
            nr_ageInDays = None\<rparr>, snd (persist_profile env q tr pf st1))" by blast
      with that [of pf st1 tr] Pair Inr assms(1) show thesis by auto
    qed
  qed
qed

definition older_snapshots :: "enrich_env \<Rightarrow> enrich_request \<Rightarrow> enrich_store \<Rightarrow> bool" where
  "older_snapshots env q st \<longleftrightarrow>
     list_all (\<lambda>s. of_company (eq_tenantId q) (eq_org q) s \<longrightarrow> sn_fetchedAt s < en_now env) (es_snapshots st)"

text \<open>
  A live fetch stores one snapshot, the newest of its company, and leaves it without a
  predecessor as version 1: the chain of a company never has more than one link.
\<close>

theorem live_fetch_restarts_chain:
  assumes "enrich_and_save env outs q st = (Inr r, st')" and "\<not> nr_isFromCache r"
    and "new_id env st" and "older_snapshots env q st"
  shows "\<exists>s. es_snapshots st' = es_snapshots st @ [s] \<and> sn_id s = en_snapshotId env \<and>
    sn_previousSnapshotId s = None \<and> sn_versionNumber s = 1"
proof -
  obtain pf tr st1 where k: "es_snapshots st1 = es_snapshots st" and st': "st' = snd (persist_profile env q tr pf st1)"
    using enrich_liveD [OF assms(1,2)] by metis
  let ?s = "fst (persist_profile env q tr pf st1)"
  have "new_id env st1" using assms(3) by (simp add: new_id_def k)
  from persist_snapshots [OF this, of q tr pf] obtain l m o' r' status where
    rows: "es_snapshots st' = es_snapshots st @ [relink l ?s]"
    and l: "newest_snapshot (eq_tenantId q) (eq_org q) (es_snapshots st @ [?s]) = Some ?s \<longrightarrow> restarted l"
    and s: "?s = profile_snapshot env q status m o' r' pf" unfolding st' k by metis
  have "newest_snapshot (eq_tenantId q) (eq_org q) (es_snapshots st @ [?s]) = Some ?s"
    by (rule newest_snapshot_eqI) (use assms(4) s in \<open>auto simp: older_snapshots_def list_all_iff of_company_def\<close>)
  with l rows s show ?thesis by (simp add: restarted_def relink_def)
qed

section \<open>What is fetched is served again\<close>

definition fresh_after :: "enrich_env \<Rightarrow> enrich_request \<Rightarrow> int \<Rightarrow> bool" where
  "fresh_after env q t \<longleftrightarrow> \<not> en_policyThrows env \<and>
     pe_isFresh (fst (evaluate (en_policies env) (eq_tenantId q) (of_int (en_now env - t) / 3600000) (company_opts q) empty_audit))"

lemma evaluate_audit: "fst (evaluate ps t a opts aud) = fst (evaluate ps t a opts empty_audit)"
  by (simp add: evaluate_def Let_def)

lemma fresh_try_cache:
  assumes "\<not> eq_forceRefresh q" and "fresh_after env q (sn_fetchedAt s)"
    and "cc_snapshot (check_freshness (en_now env) (eq_tenantId q) (eq_org q) (es_snapshots st)) = Some s"
  shows "\<exists>r. fst (try_cache env q st) = Inr r \<and> nr_isFromCache r \<and>
    nr_result r = cached_profile (stored_payload env q st) s"
proof -
  have "cache_decision (fst (evaluate_snapshot env q s st)) b = (True, CacheHit)" for b
    using assms(2) evaluate_audit [of "en_policies env" "eq_tenantId q" "age_in_hours (en_now env) s" "company_opts q" "es_audit st"]
    by (simp add: cache_decision_def evaluate_snapshot_def fresh_after_def split_beta age_in_hours_def)
  moreover have "stored_payload env q (snd (evaluate_snapshot env q s st)) = stored_payload env q st"
    by (simp add: stored_payload_def evaluate_snapshot_keeps)
  ultimately show ?thesis
    using assms(1,3) by (simp add: try_cache_def Let_def split_beta)
qed

lemma enrich_cached:
  assumes "fst (try_cache env q st) = Inr r"
  shows "fst (enrich_and_save env outs q st) = Inr r"
    and "es_api (snd (enrich_and_save env outs q st)) = es_api st"
    and "es_snapshots (snd (enrich_and_save env outs q st)) = es_snapshots st"
  using assms try_cache_keeps [of env q st] by (cases "try_cache env q st"; simp add: enrich_and_save_def)+

lemma null_value_stored [simp]: "null_value (Some (json_or_null v)) = null_value v"
  by (cases v) (simp_all add: null_value_def json_or_null_def)

lemma organisation_payload_members:
  "null_value (map_of (organisation_payload pf) ''highValueDataset'') = null_value (pf_highValueDataset pf)"
  "rows_of (map_of (organisation_payload pf) ''organisationInformation'') = pf_organisationInformation pf"
  "null_value (map_of (organisation_payload pf) ''documents'') = null_value (pf_documents pf)"
  "null_value (map_of (organisation_payload pf) ''organisationEngagementsAggregated'') = null_value (pf_engagements pf)"
  "map_of (organisation_payload pf) ''relatedPersonInformation'' = map_option JObj (pf_relatedPersons pf)"
  by (auto simp: organisation_payload_def kept_parts_def rows_of_def opt_member_def null_value_def [of None]
      split: option.splits)


section \<open>What the cache mixes up\<close>

text \<open>
  The engagements of a person are stored like the data of a company: a lookup of the same number
  is served them as the company.
\<close>

theorem engagements_served_as_company:
  assumes "enrich_person_engagements env (Inr f) q st = (Inr g, st')" and "\<not> gr_isFromCache g"
    and "older_snapshots env q st"
    and "eq_tenantId q' = eq_tenantId q" "eq_org q' = eq_org q" "\<not> eq_forceRefresh q'"
    and "fresh_after env' q' (en_now env)"
  shows "\<exists>r. fst (enrich_and_save env' outs q' st') = Inr r \<and> nr_isFromCache r \<and>
    sv_normalisedData (nr_result r) = members_of (Some (fd_responsePayload f))"
proof -
  let ?s = "(fetched_snapshot env q ''success'')
    \<lparr>sn_identifierType := ''personnummer'', sn_normalisedSummary := members_of (Some (fd_responsePayload f)),
     sn_apiCallCount := 1, sn_costImpactFlags := [(''apiCallCharged'', JBool True), (''apiCallCount'', JNum 1)]\<rparr>"
  have st': "st' = add_snapshot ?s st"
    using assms(1,2) by (auto simp: enrich_person_engagements_def Let_def split: option.splits)
  have s: "sn_tenantId ?s = eq_tenantId q" "sn_organisationsnummer ?s = eq_org q" "sn_fetchedAt ?s = en_now env"
    "sn_fetchStatus ?s = ''success''" "sn_normalisedSummary ?s = members_of (Some (fd_responsePayload f))"
    by (simp_all add: fetched_snapshot_def new_snapshot_def)
  have "find_latest (success_snapshot (eq_tenantId q) (eq_org q)) sn_fetchedAt (es_snapshots st') = Some ?s"
    by (rule find_latest_eqI)
      (use assms(3) s in \<open>auto simp: st' add_snapshot_def create_snapshot_def older_snapshots_def list_all_iff
        of_company_def success_snapshot_def\<close>)
  then have check: "cc_snapshot (check_freshness (en_now env') (eq_tenantId q') (eq_org q') (es_snapshots st')) = Some ?s"
    by (simp add: check_freshness_def assms(4,5) Let_def)
  from fresh_try_cache [OF assms(6) _ check] assms(7) s(3) obtain r where
    "fst (try_cache env' q' st') = Inr r" "nr_isFromCache r" "nr_result r = cached_profile (stored_payload env' q' st') ?s"
    by auto
  with enrich_cached(1) s(5) show ?thesis by (auto simp: cached_profile_def)
qed

text \<open>
  The organisation is stored under the number in the response, and read again under the number
  asked for: when they differ, the registers are missing from what the cache serves.
\<close>

theorem registers_lost_under_other_number:
  assumes "enrich_and_save env outs q st = (Inr r, st')" and "\<not> nr_isFromCache r" and "en_upsertError env = None"
    and "find_by_org_nr (eq_tenantId q) (eq_org q) (es_orgs st) = None"
    and "unique_keys og_id (es_orgs st)" and "en_orgId env \<notin> og_id ` set (es_orgs st)"
    and "map_of (sv_normalisedData (nr_result r)) ''organisationNumber'' \<noteq> Some (JStr (eq_org q))"
    and "eq_tenantId q' = eq_tenantId q" "eq_org q' = eq_org q"
    and "fst (try_cache env' q' st') = Inr r'"
  shows "sv_highValueDataset (nr_result r') = None \<and> sv_organisationInformation (nr_result r') = []"
proof -
  from assms(1,2) obtain pf tr st1 where
    k: "es_orgs st1 = es_orgs st" "nr_result r = served_of pf" "st' = snd (persist_profile env q tr pf st1)"
    by (rule enrich_liveD)
  let ?u = "upsert_organisation (en_now env) (en_orgId env) (eq_tenantId q) (pf_normalisedData pf) (organisation_payload pf)
    (es_orgs st)"
  have org: "mc_organisationNumber (pf_normalisedData pf) \<noteq> eq_org q"
    using assms(7) by (simp add: k served_of_def company_members_def)
  have "og_organisationsnummer (fst ?u) \<noteq> eq_org q"
    using org by (simp add: upsert_organisation_def Let_def)
  moreover have "set (snd ?u) \<subseteq> insert (fst ?u) (set (es_orgs st))"
    using set_save_subset [of og_id "fst ?u" "es_orgs st"] by (simp add: upsert_organisation_def Let_def)
  ultimately have "find_by_org_nr (eq_tenantId q) (eq_org q) (snd ?u) = None"
    using assms(4) by (fastforce simp: find_by_org_nr_def find_one_None_iff)
  then have "stored_payload env' q' st' = []"
    using persist_orgs [OF assms(3)] by (simp add: stored_payload_def assms(8,9) k)
  moreover have "stored_payload env' q' (snd (evaluate_snapshot env' q' s st')) = stored_payload env' q' st'" for s
    by (simp add: stored_payload_def evaluate_snapshot_keeps)
  ultimately show ?thesis
    using assms(10) by (auto simp: try_cache_def Let_def split_beta cached_profile_def null_value_def rows_of_def
        split: if_splits option.splits)
qed

text \<open>A miss that the policy asked for is reported with the decision of a cache hit.\<close>

theorem miss_reported_as_hit:
  assumes "\<not> eq_forceRefresh q" and "\<not> en_policyThrows env" and "au_up (es_audit st)"
    and "cc_snapshot (check_freshness (en_now env) (eq_tenantId q) (eq_org q) (es_snapshots st)) = Some s"
    and "pe_decision (fst (evaluate (en_policies env) (eq_tenantId q) (age_in_hours (en_now env) s) (company_opts q) empty_audit))
      \<in> {RefreshRequired, ProviderCall}"
  shows "\<exists>e. last (au_events (es_audit (snd (try_cache env q st)))) = e \<and> ae_eventType e = CACHE_MISS \<and>
    map_of (ae_metadata e) ''cacheDecision'' = Some (JStr ''cache_hit'')"
proof -
  let ?r = "fst (evaluate (en_policies env) (eq_tenantId q) (age_in_hours (en_now env) s) (company_opts q) (es_audit st))"
  have "pe_decision ?r \<in> {RefreshRequired, ProviderCall}"
    using assms(5) evaluate_audit [of "en_policies env" "eq_tenantId q" "age_in_hours (en_now env) s" "company_opts q" "es_audit st"]
    by simp
  then have d: "cache_decision (Some ?r) b = (False, CacheHit)" for b
    by (auto simp: cache_decision_def evaluate_def compute_decision_def Let_def split: if_splits)
  have up: "au_up (snd (evaluate (en_policies env) (eq_tenantId q) (age_in_hours (en_now env) s) (company_opts q) (es_audit st)))"
    using assms(3) by (simp add: evaluate_def Let_def audit_log_def)
  show ?thesis
    using assms(1,2,4) d up
    by (simp add: try_cache_def evaluate_snapshot_def split_beta Let_def enrich_event_def emit_audit_event_def
        event_row_def decision_label_def)
qed

section \<open>Witnesses\<close>

definition sample_env :: "string \<Rightarrow> int \<Rightarrow> enrich_env" where
  "sample_env i now =
     \<lparr>en_now = now, en_orgId = ''o'', en_snapshotId = i, en_rawId = ''r'', en_payloadId = ''p'', en_sha = (\<lambda>s. s), en_text = (\<lambda>e. ''E''),
      en_policies = \<lparr>ps_rows = [], ps_up = True\<rparr>, en_policyThrows = False, en_orgReadFails = False,
      en_upsertError = None, en_rawFails = False, en_eventsError = None\<rparr>"

definition sample_request :: enrich_request where
  "sample_request = \<lparr>eq_tenantId = ''t'', eq_org = ''5560000001'', eq_forceRefresh = False, eq_correlationId = None,
     eq_actorId = None\<rparr>"

definition empty_enrichment :: enrich_store where
  "empty_enrichment =
     \<lparr>es_snapshots = [], es_orgs = [], es_raw = [], es_parseQueue = [], es_hvd = [], es_fi = [], es_vh = [],
      es_events = [], es_refreshQueue = [], es_api = empty_api, es_audit = empty_audit\<rparr>"

definition answered :: "int json \<Rightarrow> int outcome" where
  "answered v = Inr \<lparr>fd_responsePayload = v, fd_requestId = ''r''\<rparr>"

lemma sample_live:
  fixes r :: "int outcome"
  assumes "\<not> failed r"
  shows "\<exists>pf api tr st1. get_complete_company_data (en_text (sample_env i now)) now (Some ''t'') ''5560000001''
      (sample_outcomes r (answered (JArr []))) empty_api = (Inr pf, api) \<and>
    enrich_and_save (sample_env i now) (sample_outcomes r (answered (JArr []))) sample_request empty_enrichment =
      (Inr \<lparr>nr_result = served_of pf, nr_snapshot = fst (persist_profile (sample_env i now) sample_request tr pf st1),
        nr_isFromCache = False, nr_ageInDays = None\<rparr>, snd (persist_profile (sample_env i now) sample_request tr pf st1))"
proof -
  let ?o = "sample_outcomes r (answered (JArr []))"
  have "no_success (eq_tenantId sample_request) (eq_org sample_request) empty_enrichment"
    by (simp add: no_success_def empty_enrichment_def)
  from no_success_try [OF this] obtain x where x: "fst (try_cache (sample_env i now) sample_request empty_enrichment) = Inl x"
    by blast
  have "\<not> core_failed ?o" using assms by (simp add: core_failed_def sample_outcomes_def)
  then obtain pf api where pf: "get_complete_company_data (en_text (sample_env i now)) now (Some ''t'') ''5560000001''
      ?o empty_api = (Inr pf, api)" by (simp add: get_complete_company_data_def Let_def split_beta)
  with enrich_live [OF x, of ?o pf api] show ?thesis
    by (simp add: sample_env_def sample_request_def empty_enrichment_def) blast
qed

theorem failing_part_defeats_cache_witness:
  "list_all (\<lambda>r. \<not> from_cache r) (fst (enrich_runs
    [(sample_env ''a'' 0, sample_outcomes (Inl (OtherError ''down'' None)) (answered (JArr []))),
     (sample_env ''b'' 1, sample_outcomes (Inl (OtherError ''down'' None)) (answered (JArr [])))]
    sample_request empty_enrichment))"
proof -
  let ?o = "sample_outcomes (Inl (OtherError ''down'' None)) (answered (JArr []))"
  have "failing_part ?o" by (simp add: failing_part_def sample_outcomes_def)
  moreover have "en_snapshotId (sample_env i now) = i" for i now by (simp add: sample_env_def)
  ultimately show ?thesis
    using failing_part_defeats_cache [of sample_request empty_enrichment "[(sample_env ''a'' 0, ?o), (sample_env ''b'' 1, ?o)]"]
    by (simp add: no_success_def empty_enrichment_def)
qed

theorem live_fetch_restarts_chain_witness:
  "\<exists>s. es_snapshots (snd (enrich_and_save (sample_env ''a'' 5) (sample_outcomes (answered (JObj []))
      (answered (JArr []))) sample_request empty_enrichment)) = [s] \<and> sn_previousSnapshotId s = None"
proof -
  let ?o = "sample_outcomes (answered (JObj [])) (answered (JArr []))"
  have "\<not> failed (answered (JObj []))" by (simp add: answered_def)
  from sample_live [OF this, of "''a''" 5] obtain r st' where
    run: "enrich_and_save (sample_env ''a'' 5) ?o sample_request empty_enrichment = (Inr r, st')" "\<not> nr_isFromCache r"
    by auto
  from live_fetch_restarts_chain [OF run] run(1) show ?thesis
    by (auto simp: new_id_def older_snapshots_def empty_enrichment_def)
qed


end
