(* ===== verification/LookupFlow.thy ===== *)
theory LookupFlow
  imports Enrichment RefreshDecision FailureState Lineage
begin

text \<open>
  The lookup of a company (backend/src/companies/companies.service.ts, \<open>computeFreshness\<close>,
  \<open>orchestrateLookup\<close>, \<open>_doEnrich\<close> and \<open>_attemptStaleFallback\<close>): the refresh decision, the
  backoff after failures, the live or cached profile, the fallback to stale data, and the sharing
  of a call between concurrent lookups. A call of the provider that runs into the timeout goes
  on and writes after the lookup has been answered. The failure table and the audit log take
  every write.
\<close>

section \<open>State\<close>

record lookup_store =
  lk_enrich :: enrich_store
  lk_failures :: "failure_row list"
  lk_lineage :: "lineage_row list"
  lk_lineage_up :: bool

record lookup_env =
  lv_enrich :: enrich_env
  lv_outs :: fetch_outcomes
  lv_timedOut :: bool
  lv_hooks :: "quota_hook list"
  lv_lineageId :: string

record lookup_request =
  lp_tenantId :: string
  lp_actorId :: "string option"
  lp_org :: string
  lp_force :: bool
  lp_correlationId :: string

datatype freshness_status = IsFresh | IsStale | IsExpired

record company_metadata =
  cm_source :: string
  cm_fetched_at :: string
  cm_age_days :: int
  cm_freshness :: freshness_status
  cm_cache_ttl_days :: int
  cm_snapshot_id :: string
  cm_correlation_id :: string
  cm_policy_decision :: snapshot_policy_decision
  cm_degraded :: bool
  cm_failure_state :: "string option"
  cm_has_hvd_data :: bool
  cm_has_foretagsinfo_data :: bool
  cm_has_verkliga_huvudman_data :: bool
  cm_profile_complete :: bool
  cm_diagnostics :: "fetch_diagnostic list"
  cm_snapshot_fetch_status :: string

type_synonym lookup_response = "int members \<times> company_metadata"

section \<open>Freshness\<close>

definition stale_threshold_days :: int where
  "stale_threshold_days = cache_ttl_days * 2"

definition compute_freshness :: "int \<Rightarrow> int \<Rightarrow> int \<Rightarrow> freshness_status" where
  "compute_freshness ageDays freshnessWindowHours maxAgeHours =
     (if of_int ageDays < (of_int freshnessWindowHours / 24 :: rat) then IsFresh
      else if of_int ageDays < (of_int maxAgeHours / 24 :: rat) then IsStale else IsExpired)"

definition freshness_text :: "freshness_status \<Rightarrow> string" where
  "freshness_text f = (case f of IsFresh \<Rightarrow> ''fresh'' | IsStale \<Rightarrow> ''stale'' | IsExpired \<Rightarrow> ''expired'')"

section \<open>Events\<close>

definition lookup_details :: "lookup_request \<Rightarrow> rat members" where
  "lookup_details p = [(''identitetsbeteckning'', JStr (lp_org p)), (''forceRefresh'', JBool (lp_force p))]"

definition lookup_input ::
  "lookup_request \<Rightarrow> audit_event_type \<Rightarrow> string \<Rightarrow> string \<Rightarrow> rat members option \<Rightarrow> rat members \<Rightarrow> create_audit_event_input" where
  "lookup_input p type action status cost meta =
     \<lparr>ei_tenantId = lp_tenantId p, ei_userId = lp_actorId p, ei_eventType = type, ei_action = action,
      ei_status = status, ei_resourceId = Some (lp_org p), ei_correlationId = Some (lp_correlationId p),
      ei_costImpact = cost, ei_metadata = Some meta, ei_retentionExpiresAt = None\<rparr>"

definition on_audit :: "(audit_store \<Rightarrow> audit_store) \<Rightarrow> lookup_store \<Rightarrow> lookup_store" where
  "on_audit f st = st\<lparr>lk_enrich := (lk_enrich st)\<lparr>es_audit := f (es_audit (lk_enrich st))\<rparr>\<rparr>"

definition lookup_event ::
  "lookup_request \<Rightarrow> audit_event_type \<Rightarrow> string \<Rightarrow> string \<Rightarrow> rat members option \<Rightarrow> rat members \<Rightarrow> lookup_store \<Rightarrow> lookup_store" where
  "lookup_event p type action status cost meta =
     on_audit (\<lambda>aud. snd (emit_audit_event (lookup_input p type action status cost meta) aud))"

definition usage_event ::
  "lookup_request \<Rightarrow> string \<Rightarrow> rat members \<Rightarrow> rat members \<Rightarrow> lookup_store \<Rightarrow> lookup_store" where
  "usage_event p status cost meta =
     on_audit (\<lambda>aud. snd (emit_usage_event (lookup_input p LOOKUP_COMPLETED ''company.lookup'' status (Some cost) meta) aud))"

definition capture_lookup :: "lookup_env \<Rightarrow> lookup_request \<Rightarrow> lookup_store \<Rightarrow> lookup_store" where
  "capture_lookup env p st =
     (let lg = snd (capture (en_now (lv_enrich env)) (lv_lineageId env)
            \<lparr>li_tenantId = lp_tenantId p, li_userId = lp_actorId p, li_correlationId = lp_correlationId p,
             li_triggerType = resolve_trigger_type (Some (lp_force p)) None, li_httpMethod = Some ''POST'',
             li_sourceEndpoint = Some ''/companies/lookup'',
             li_requestParameters = Some [(''identitetsbeteckning'', JStr (lp_org p)), (''force_refresh'', JBool (lp_force p))]\<rparr>
            \<lparr>lg_rows = lk_lineage st, lg_audit = es_audit (lk_enrich st), lg_up = lk_lineage_up st\<rparr>)
      in on_audit (\<lambda>a. lg_audit lg) (st\<lparr>lk_lineage := lg_rows lg\<rparr>))"

section \<open>Stale data\<close>

text \<open>The profile of a fallback reads the summary of the snapshot.\<close>

definition fallback_profile :: "snapshot \<Rightarrow> served_profile" where
  "fallback_profile s =
     (let raw = (\<lambda>k. null_value (map_of (sn_rawPayloadSummary s) k))
      in \<lparr>sv_normalisedData = sn_normalisedSummary s, sv_highValueDataset = raw ''highValueDataset'',
          sv_organisationInformation = rows_of (raw ''organisationInformation''), sv_documents = raw ''documents'',
          sv_verkligaHuvudman = raw ''verkligaHuvudman'', sv_retrievedAt = iso_string (sn_fetchedAt s),
          sv_engagements = raw ''organisationEngagementsAggregated'',
          sv_relatedPersons = (case raw ''relatedPersonInformation'' of Some (JObj ms) \<Rightarrow> Some ms | _ \<Rightarrow> None),
          sv_apiCallCount = sn_apiCallCount s, sv_diagnostics = []\<rparr>)"

definition request_of :: "lookup_request \<Rightarrow> enrich_request" where
  "request_of p =
     \<lparr>eq_tenantId = lp_tenantId p, eq_org = lp_org p, eq_forceRefresh = lp_force p,
      eq_correlationId = Some (lp_correlationId p), eq_actorId = lp_actorId p\<rparr>"

definition attempt_stale_fallback ::
  "lookup_env \<Rightarrow> lookup_request \<Rightarrow> lookup_store \<Rightarrow> enrich_result option \<times> lookup_store" where
  "attempt_stale_fallback env p st =
     (let check = check_freshness (en_now (lv_enrich env)) (lp_tenantId p) (lp_org p) (es_snapshots (lk_enrich st))
      in case cc_snapshot check of
           None \<Rightarrow> (None, st)
         | Some s \<Rightarrow>
             (let (r, es) = evaluate_snapshot (lv_enrich env) (request_of p) s (lk_enrich st);
                  st = st\<lparr>lk_enrich := es\<rparr>;
                  allowed = (case r of None \<Rightarrow> True | Some x \<Rightarrow> pe_staleFallbackAllowed x)
              in (if allowed
                  then Some \<lparr>nr_result = fallback_profile s,
                    nr_snapshot = s\<lparr>sn_policyDecision := StaleFallbackFetch, sn_isStaleFallback := True\<rparr>,
                    nr_isFromCache = True, nr_ageInDays = cc_ageInDays check\<rparr>
                  else None, st)))"

section \<open>The attempt\<close>

definition on_failures ::
  "(failure_store \<Rightarrow> failure_row \<times> failure_store) \<Rightarrow> lookup_store \<Rightarrow> lookup_store" where
  "on_failures f st =
     (let fst' = snd (f \<lparr>fst_rows = lk_failures st, fst_audit = es_audit (lk_enrich st)\<rparr>)
      in on_audit (\<lambda>a. fst_audit fst') (st\<lparr>lk_failures := fst_rows fst'\<rparr>))"

definition note_failure ::
  "lookup_env \<Rightarrow> lookup_request \<Rightarrow> failure_state \<Rightarrow> string \<Rightarrow> bool \<Rightarrow> int option \<Rightarrow> bool option \<Rightarrow>
   lookup_store \<Rightarrow> lookup_store" where
  "note_failure env p state reason recoverable staleAt increment =
     on_failures (record_failure (en_now (lv_enrich env)) (en_now (lv_enrich env))
       \<lparr>fi_tenantId = lp_tenantId p, fi_entityType = ''company'', fi_entityId = lp_org p, fi_failureState = state,
        fi_failureReason = reason, fi_isRecoverable = recoverable, fi_fallbackUsed = (staleAt \<noteq> None),
        fi_staleDataTimestamp = staleAt, fi_correlationId = Some (lp_correlationId p), fi_actorId = lp_actorId p,
        fi_incrementRetry = increment\<rparr>)"

definition note_success :: "lookup_env \<Rightarrow> lookup_request \<Rightarrow> lookup_store \<Rightarrow> lookup_store" where
  "note_success env p =
     on_failures (record_success (en_now (lv_enrich env)) (en_now (lv_enrich env))
       \<lparr>si_tenantId = lp_tenantId p, si_entityType = ''company'', si_entityId = lp_org p,
        si_correlationId = Some (lp_correlationId p), si_actorId = lp_actorId p\<rparr>)"

definition stale_event :: "lookup_request \<Rightarrow> string \<Rightarrow> failure_state \<Rightarrow> string \<Rightarrow> lookup_store \<Rightarrow> lookup_store" where
  "stale_event p status state reason =
     lookup_event p STALE_SERVED ''company.cache'' status None
       (lookup_details p @ [(''failureState'', JStr (failure_state_text state)), (''failureReason'', JStr reason)])"

text \<open>While the backoff runs: stale data or nothing.\<close>

definition serve_in_backoff ::
  "lookup_env \<Rightarrow> lookup_request \<Rightarrow> failure_recovery_status \<Rightarrow> lookup_store \<Rightarrow>
   (provider_exception + enrich_result) \<times> lookup_store" where
  "serve_in_backoff env p rec st =
     (let reason = or_default (rs_failureReason rec) ''provider_unavailable_backoff'';
          (fb, st) = attempt_stale_fallback env p st
      in case fb of
           Some r \<Rightarrow>
             (Inr r, stale_event p ''provider_unavailable_backoff'' (rs_state rec) reason
               (note_failure env p (rs_state rec) reason (rs_isRecoverable rec) (Some (sn_fetchedAt (nr_snapshot r)))
                 (Some False) st))
         | None \<Rightarrow>
             (Inl (HttpException 503 ''Provider unavailable and no cached data available''),
              note_failure env p NO_DATA_AVAILABLE reason (rs_isRecoverable rec) None (Some False) st))"

text \<open>Otherwise the enrichment, raced against the timeout; its outcome and the store it is seen with.\<close>

definition raced ::
  "lookup_env \<Rightarrow> lookup_request \<Rightarrow> lookup_store \<Rightarrow> (provider_exception + enrich_result) \<times> lookup_store" where
  "raced env p st =
     (if lv_timedOut env then (Inl (GatewayTimeoutException ''Bolagsverket API request timed out''), st)
      else (let (r, es) = enrich_and_save (lv_enrich env) (lv_outs env) (request_of p) (lk_enrich st)
            in (r, st\<lparr>lk_enrich := es\<rparr>)))"

definition serve_enriched ::
  "lookup_env \<Rightarrow> lookup_request \<Rightarrow> lookup_store \<Rightarrow> (provider_exception + enrich_result \<times> bool) \<times> lookup_store" where
  "serve_enriched env p st =
     (case raced env p st of
        (Inr r, st) \<Rightarrow>
          (Inr (r, False),
           if \<not> nr_isFromCache r \<and> sn_fetchStatus (nr_snapshot r) = ''success'' then note_success env p st else st)
      | (Inl e, st) \<Rightarrow>
          (let c = classify_failure e; (fb, st) = attempt_stale_fallback env p st
           in case fb of
                None \<Rightarrow> (Inl e, note_failure env p NO_DATA_AVAILABLE (fc_failureReason c) (fc_isRecoverable c) None None st)
              | Some r \<Rightarrow>
                  (Inr (r, True), stale_event p ''provider_failure_fallback'' (fc_failureState c) (fc_failureReason c)
                    (note_failure env p (fc_failureState c) (fc_failureReason c) (fc_isRecoverable c)
                      (Some (sn_fetchedAt (nr_snapshot r))) None st))))"

section \<open>The lookup\<close>

definition lookup_metadata ::
  "lookup_env \<Rightarrow> lookup_request \<Rightarrow> enrich_result \<Rightarrow> bool \<Rightarrow> company_metadata" where
  "lookup_metadata env p r fallbackUsed =
     (let s = nr_snapshot r; v = nr_result r;
          policy = get_policy_for_tenant (en_policies (lv_enrich env)) (lp_tenantId p);
          window = (case policy of None \<Rightarrow> cache_ttl_days * 24 | Some x \<Rightarrow> cp_freshnessWindowHours x);
          max_age = (case policy of None \<Rightarrow> stale_threshold_days * 24 | Some x \<Rightarrow> cp_maxAgeHours x);
          decision = (if fallbackUsed then StaleFallbackFetch else sn_policyDecision s);
          degraded = (decision = StaleFallbackFetch \<or> fallbackUsed);
          days = or_default (nr_ageInDays r) 0;
          hvd = (null_value (sv_highValueDataset v) \<noteq> None);
          fi = (sv_organisationInformation v \<noteq> [])
      in \<lparr>cm_source = (if nr_isFromCache r then ''DB'' else ''API''),
          cm_fetched_at = (if nr_isFromCache r then iso_string (sn_fetchedAt s) else sv_retrievedAt v),
          cm_age_days = days, cm_freshness = compute_freshness days window max_age,
          cm_cache_ttl_days = cache_ttl_days, cm_snapshot_id = sn_id s, cm_correlation_id = lp_correlationId p,
          cm_policy_decision = decision, cm_degraded = degraded,
          cm_failure_state = (if degraded then Some ''DEGRADED'' else None),
          cm_has_hvd_data = hvd, cm_has_foretagsinfo_data = fi,
          cm_has_verkliga_huvudman_data = (string_of (member_of ''identitetsbeteckning''
            (member_of ''organisation'' (sv_verkligaHuvudman v))) \<noteq> None),
          cm_profile_complete = (hvd \<and> fi), cm_diagnostics = sv_diagnostics v,
          cm_snapshot_fetch_status = sn_fetchStatus s\<rparr>)"

definition lookup_params :: "lookup_env \<Rightarrow> lookup_request \<Rightarrow> bool \<Rightarrow> refresh_decision_params" where
  "lookup_params env p available =
     \<lparr>rp_tenantId = lp_tenantId p, rp_dataAgeHours = 0, rp_forceRefresh = lp_force p, rp_entityId = Some (lp_org p),
      rp_entityType = Some ''company'', rp_correlationId = Some (lp_correlationId p), rp_actorId = lp_actorId p,
      rp_isApiAvailable = available, rp_quotaHooks = lv_hooks env\<rparr>"

definition completed ::
  "lookup_request \<Rightarrow> refresh_decision \<Rightarrow> enrich_result \<Rightarrow> company_metadata \<Rightarrow> lookup_store \<Rightarrow> lookup_store" where
  "completed p d r m st =
     (let s = nr_snapshot r; label = JStr (decision_label (cm_policy_decision m));
          cost = [(''source'', JStr (cm_source m)), (''provider_call'', JBool (\<not> nr_isFromCache r)),
            (''api_call_count'', JNum (of_int (sn_apiCallCount s))), (''force_refresh'', JBool (lp_force p)),
            (''policy_decision'', label), (''refresh_cost_flags'', JObj (rd_cost_flags d)),
            (''snapshot_cost_flags'', JObj (map (map_prod id (map_json of_int)) (sn_costImpactFlags s)))];
          st = on_audit (audit_log
            \<lparr>al_tenantId = lp_tenantId p, al_actorId = lp_actorId p, al_action = ''company.lookup'',
             al_resourceType = ''company'', al_resourceId = lp_org p,
             al_metadata = Some [(''correlationId'', JStr (lp_correlationId p)), (''source'', JStr (cm_source m)),
               (''identitetsbeteckning'', JStr (lp_org p)), (''ageDays'', JNum (of_int (cm_age_days m))),
               (''freshness'', JStr (freshness_text (cm_freshness m))), (''forceRefresh'', JBool (lp_force p)),
               (''snapshotId'', JStr (sn_id s)), (''policyDecision'', label),
               (''refreshDecision'', JObj [(''serve_from'', JStr (serve_text (rd_serve_from d))),
                 (''reason'', JStr (rd_reason d)), (''cost_flags'', JObj (rd_cost_flags d))])]\<rparr>) st;
          st = lookup_event p LOOKUP_COMPLETED ''company.lookup'' ''success'' (Some cost)
            (lookup_details p @ [(''source'', JStr (cm_source m)), (''cacheDecision'', label),
              (''providerCall'', JBool (\<not> nr_isFromCache r)), (''resultStatus'', JStr (sn_fetchStatus s)),
              (''snapshotId'', JStr (sn_id s))]) st
      in usage_event p ''success'' cost [(''source'', JStr (cm_source m)), (''snapshotId'', JStr (sn_id s))] st)"

definition failed_lookup ::
  "lookup_request \<Rightarrow> refresh_decision \<Rightarrow> provider_exception \<Rightarrow> lookup_store \<Rightarrow> lookup_store" where
  "failed_lookup p d e st =
     usage_event p ''error'' [(''force_refresh'', JBool (lp_force p))] [(''error'', JStr (exception_message e))]
       (lookup_event p LOOKUP_COMPLETED ''company.lookup'' ''error''
         (Some [(''force_refresh'', JBool (lp_force p)), (''refresh_cost_flags'', JObj (rd_cost_flags d))])
         (lookup_details p @ [(''resultStatus'', JStr ''error''), (''error'', JStr (exception_message e))]) st)"

definition recovery_of :: "lookup_env \<Rightarrow> lookup_request \<Rightarrow> lookup_store \<Rightarrow> failure_recovery_status" where
  "recovery_of env p st =
     get_recovery_status_for_entity (en_now (lv_enrich env)) (lp_tenantId p) ''company'' (lp_org p)
       \<lparr>fst_rows = lk_failures st, fst_audit = es_audit (lk_enrich st)\<rparr>"

definition serve_lookup ::
  "lookup_env \<Rightarrow> lookup_request \<Rightarrow> lookup_store \<Rightarrow> (provider_exception + enrich_result \<times> bool) \<times> lookup_store" where
  "serve_lookup env p st =
     (let rec = recovery_of env p st
      in if rs_canRetry rec then serve_enriched env p st
         else (let (r, st) = serve_in_backoff env p rec st in (map_sum id (\<lambda>x. (x, True)) r, st)))"

text \<open>What a call that was too slow still writes.\<close>

definition late_writes :: "lookup_env \<Rightarrow> lookup_request \<Rightarrow> bool \<Rightarrow> lookup_store \<Rightarrow> lookup_store" where
  "late_writes env p called st =
     (if called \<and> lv_timedOut env
      then st\<lparr>lk_enrich := snd (enrich_and_save (lv_enrich env) (lv_outs env) (request_of p) (lk_enrich st))\<rparr> else st)"

definition do_enrich ::
  "lookup_env \<Rightarrow> lookup_request \<Rightarrow> lookup_store \<Rightarrow> (provider_exception + lookup_response) \<times> lookup_store" where
  "do_enrich env p st =
     (let st = capture_lookup env p
            (lookup_event p LOOKUP_INITIATED ''company.lookup'' ''initiated'' None (lookup_details p) st);
          available = rs_canRetry (recovery_of env p st);
          (d, aud) = decide (en_policies (lv_enrich env)) (lookup_params env p available) (es_audit (lk_enrich st));
          (r, st) = serve_lookup env p (on_audit (\<lambda>a. aud) st)
      in case r of
           Inl e \<Rightarrow> (Inl e, late_writes env p available (failed_lookup p d e st))
         | Inr (x, fallbackUsed) \<Rightarrow>
             (let m = lookup_metadata env p x fallbackUsed
              in (Inr (sv_normalisedData (nr_result x), m), late_writes env p available (completed p d x m st))))"

section \<open>Sharing a call\<close>

text \<open>
  \<open>orchestrateLookup\<close> as a state machine: the calls that run, by number and key, and the map of
  the calls in flight. A lookup joins the call in the map or starts one; a call that settles
  removes the entry of its key.
\<close>

record flights =
  fl_running :: "(nat \<times> string) list"
  fl_inFlight :: "string \<rightharpoonup> nat"
  fl_next :: nat

datatype flight_event = LookUp string bool | Settle nat

definition dedupe_key :: "lookup_request \<Rightarrow> string" where
  "dedupe_key p = lp_tenantId p @ '':'' @ lp_org p"

definition start_lookup :: "string \<Rightarrow> bool \<Rightarrow> flights \<Rightarrow> nat \<times> flights" where
  "start_lookup key force s =
     (case (if force then None else fl_inFlight s key) of
        Some i \<Rightarrow> (i, s)
      | None \<Rightarrow> (fl_next s, s\<lparr>fl_running := (fl_next s, key) # fl_running s,
          fl_inFlight := (fl_inFlight s)(key \<mapsto> fl_next s), fl_next := Suc (fl_next s)\<rparr>))"

definition settle :: "nat \<Rightarrow> flights \<Rightarrow> flights" where
  "settle i s =
     (case map_of (fl_running s) i of
        None \<Rightarrow> s
      | Some key \<Rightarrow> s\<lparr>fl_running := filter (\<lambda>c. fst c \<noteq> i) (fl_running s),
          fl_inFlight := (fl_inFlight s)(key := None)\<rparr>)"

fun flight_step :: "flight_event \<Rightarrow> flights \<Rightarrow> flights" where
  "flight_step (LookUp key force) s = snd (start_lookup key force s)"
| "flight_step (Settle i) s = settle i s"

definition no_flights :: flights where
  "no_flights = \<lparr>fl_running = [], fl_inFlight = (\<lambda>k. None), fl_next = 0\<rparr>"

inductive flight_path :: "flight_event list \<Rightarrow> flights \<Rightarrow> bool" where
  start: "flight_path [] no_flights"
| step: "flight_path es s \<Longrightarrow> flight_path (es @ [e]) (flight_step e s)"

definition unforced :: "flight_event \<Rightarrow> bool" where
  "unforced e = (case e of LookUp key force \<Rightarrow> \<not> force | Settle i \<Rightarrow> True)"

text \<open>Every running call has its own number and key and is the one in the map.\<close>

definition shared :: "flights \<Rightarrow> bool" where
  "shared s \<longleftrightarrow> distinct (map fst (fl_running s)) \<and> distinct (map snd (fl_running s)) \<and>
     (\<forall>i key. (i, key) \<in> set (fl_running s) \<longleftrightarrow> fl_inFlight s key = Some i) \<and>
     (\<forall>c \<in> set (fl_running s). fst c < fl_next s)"

lemma shared_start: "shared s \<Longrightarrow> shared (snd (start_lookup key False s))"
proof -
  assume s: "shared s"
  show ?thesis
  proof (cases "fl_inFlight s key")
    case None
    then have "\<forall>i. (i, key) \<notin> set (fl_running s)" using s by (auto simp: shared_def)
    moreover have "\<forall>k. (fl_next s, k) \<notin> set (fl_running s)" using s by (fastforce simp: shared_def)
    ultimately show ?thesis
      using s None by (fastforce simp: shared_def start_lookup_def)
  next
    case (Some i)
    with s show ?thesis by (simp add: start_lookup_def)
  qed
qed

lemma shared_settle: "shared s \<Longrightarrow> shared (settle i s)"
proof -
  assume s: "shared s"
  show ?thesis
  proof (cases "map_of (fl_running s) i")
    case None
    with s show ?thesis by (simp add: settle_def)
  next
    case (Some key)
    then have mem: "(i, key) \<in> set (fl_running s)" by (rule map_of_SomeD)
    from s have d: "distinct (map fst (fl_running s))" and d': "distinct (map snd (fl_running s))"
      and run: "\<And>j k. (j, k) \<in> set (fl_running s) \<longleftrightarrow> fl_inFlight s k = Some j"
      and less: "\<And>c. c \<in> set (fl_running s) \<Longrightarrow> fst c < fl_next s"
      unfolding shared_def by blast+
    have keys: "(i, k) \<in> set (fl_running s) \<Longrightarrow> k = key" for k
      using eq_key_imp_eq_value [OF d mem] by simp
    have ids: "(j, key) \<in> set (fl_running s) \<Longrightarrow> j = i" for j
      using mem run [of j key] run [of i key] by simp
    have "distinct (map snd (filter (\<lambda>c. fst c \<noteq> i) (fl_running s)))"
      "distinct (map fst (filter (\<lambda>c. fst c \<noteq> i) (fl_running s)))"
      using d d' by (simp_all add: distinct_map_filter)
    moreover have "(j, k) \<in> set (filter (\<lambda>c. fst c \<noteq> i) (fl_running s)) \<longleftrightarrow>
        ((fl_inFlight s)(key := None)) k = Some j" for j k
    proof -
      have "(j, k) \<in> set (filter (\<lambda>c. fst c \<noteq> i) (fl_running s)) \<longleftrightarrow> (j, k) \<in> set (fl_running s) \<and> j \<noteq> i"
        by simp
      also have "\<dots> \<longleftrightarrow> (j, k) \<in> set (fl_running s) \<and> k \<noteq> key"
        using keys ids by blast
      also have "\<dots> \<longleftrightarrow> ((fl_inFlight s)(key := None)) k = Some j"
        by (simp add: run)
      finally show ?thesis .
    qed
    moreover have "fst c < fl_next s" if "c \<in> set (filter (\<lambda>c. fst c \<noteq> i) (fl_running s))" for c
      using less that by simp
    ultimately show ?thesis
      unfolding shared_def settle_def Some by simp
  qed
qed

text \<open>
  C4: As long as no lookup forces a refresh, there is at most one running call per tenant and
  company, and a lookup that finds one running shares it.
\<close>

theorem one_call_per_company:
  assumes "flight_path es s" and "list_all unforced es"
  shows "distinct (map snd (fl_running s)) \<and>
    (\<forall>i key. (i, key) \<in> set (fl_running s) \<longrightarrow> start_lookup key False s = (i, s))"
proof -
  from assms have "shared s"
  proof (induction rule: flight_path.induct)
    case start
    then show ?case by (simp add: shared_def no_flights_def)
  next
    case (step es s e)
    then show ?case by (cases e) (auto simp: unforced_def shared_start shared_settle)
  qed
  then show ?thesis by (auto simp: shared_def start_lookup_def)
qed

theorem one_call_per_company_witness:
  "start_lookup ''t:1'' False (snd (start_lookup ''t:1'' False no_flights)) = (0, snd (start_lookup ''t:1'' False no_flights))"
proof -
  have p: "flight_path [LookUp ''t:1'' False] (snd (start_lookup ''t:1'' False no_flights))"
    using flight_path.step [OF flight_path.start, of "LookUp ''t:1'' False"] by simp
  show ?thesis
    using one_call_per_company [OF p] by (simp add: unforced_def start_lookup_def no_flights_def)
qed

text \<open>
  A forced lookup replaces the entry of a running call; when that older call settles it removes
  the entry of the newer one, and the next lookup starts a third call while the second runs.
\<close>

theorem forced_lookup_breaks_sharing:
  "\<exists>es s. flight_path es s \<and> (1, ''t:1'') \<in> set (fl_running s) \<and> fst (start_lookup ''t:1'' False s) = 2"
proof -
  let ?s = "settle 0 (snd (start_lookup ''t:1'' True (snd (start_lookup ''t:1'' False no_flights))))"
  have "flight_path ((([] @ [LookUp ''t:1'' False]) @ [LookUp ''t:1'' True]) @ [Settle 0]) ?s"
    using flight_path.step [OF flight_path.step [OF flight_path.step [OF flight_path.start]],
        of "LookUp ''t:1'' False" "LookUp ''t:1'' True" "Settle 0"] by simp
  moreover have "(1, ''t:1'') \<in> set (fl_running ?s)" "fst (start_lookup ''t:1'' False ?s) = 2"
    by (simp_all add: settle_def start_lookup_def no_flights_def)
  ultimately show ?thesis by blast
qed

section \<open>What each step keeps\<close>

lemma on_audit_keeps [simp]:
  "es_snapshots (lk_enrich (on_audit f st)) = es_snapshots (lk_enrich st)"
  "es_api (lk_enrich (on_audit f st)) = es_api (lk_enrich st)"
  "es_orgs (lk_enrich (on_audit f st)) = es_orgs (lk_enrich st)"
  "lk_failures (on_audit f st) = lk_failures st"
  by (simp_all add: on_audit_def)

lemma event_keeps [simp]:
  "es_snapshots (lk_enrich (lookup_event p ty a s c m st)) = es_snapshots (lk_enrich st)"
  "es_api (lk_enrich (lookup_event p ty a s c m st)) = es_api (lk_enrich st)"
  "es_orgs (lk_enrich (lookup_event p ty a s c m st)) = es_orgs (lk_enrich st)"
  "lk_failures (lookup_event p ty a s c m st) = lk_failures st"
  "es_snapshots (lk_enrich (usage_event p s c' m st)) = es_snapshots (lk_enrich st)"
  "es_api (lk_enrich (usage_event p s c' m st)) = es_api (lk_enrich st)"
  "es_orgs (lk_enrich (usage_event p s c' m st)) = es_orgs (lk_enrich st)"
  "lk_failures (usage_event p s c' m st) = lk_failures st"
  by (simp_all add: lookup_event_def usage_event_def)

lemma capture_keeps [simp]:
  "es_snapshots (lk_enrich (capture_lookup env p st)) = es_snapshots (lk_enrich st)"
  "es_api (lk_enrich (capture_lookup env p st)) = es_api (lk_enrich st)"
  "es_orgs (lk_enrich (capture_lookup env p st)) = es_orgs (lk_enrich st)"
  "lk_failures (capture_lookup env p st) = lk_failures st"
  by (simp_all add: capture_lookup_def Let_def)

lemma completed_keeps [simp]:
  "es_snapshots (lk_enrich (completed p d r m st)) = es_snapshots (lk_enrich st)"
  "es_api (lk_enrich (completed p d r m st)) = es_api (lk_enrich st)"
  "lk_failures (completed p d r m st) = lk_failures st"
  "es_snapshots (lk_enrich (failed_lookup p d e st)) = es_snapshots (lk_enrich st)"
  "es_api (lk_enrich (failed_lookup p d e st)) = es_api (lk_enrich st)"
  "lk_failures (failed_lookup p d e st) = lk_failures st"
  by (simp_all add: completed_def failed_lookup_def Let_def)

lemma fallback_keeps:
  "es_snapshots (lk_enrich (snd (attempt_stale_fallback env p st))) = es_snapshots (lk_enrich st)"
  "es_api (lk_enrich (snd (attempt_stale_fallback env p st))) = es_api (lk_enrich st)"
  "lk_failures (snd (attempt_stale_fallback env p st)) = lk_failures st"
  by (simp_all add: attempt_stale_fallback_def Let_def split_beta evaluate_snapshot_keeps split: option.splits)

lemma on_failures_keeps [simp]:
  "es_snapshots (lk_enrich (on_failures f st)) = es_snapshots (lk_enrich st)"
  "es_api (lk_enrich (on_failures f st)) = es_api (lk_enrich st)"
  by (simp_all add: on_failures_def Let_def)

lemma note_keeps [simp]:
  "es_snapshots (lk_enrich (note_failure env p s r b a i st)) = es_snapshots (lk_enrich st)"
  "es_api (lk_enrich (note_failure env p s r b a i st)) = es_api (lk_enrich st)"
  "es_snapshots (lk_enrich (note_success env p st)) = es_snapshots (lk_enrich st)"
  "es_api (lk_enrich (note_success env p st)) = es_api (lk_enrich st)"
  "es_snapshots (lk_enrich (stale_event p t s r st)) = es_snapshots (lk_enrich st)"
  "es_api (lk_enrich (stale_event p t s r st)) = es_api (lk_enrich st)"
  "lk_failures (stale_event p t s r st) = lk_failures st"
  by (simp_all add: note_failure_def note_success_def stale_event_def)

lemma recovery_of_failures:
  "lk_failures a = lk_failures b \<Longrightarrow> recovery_of env p a = recovery_of env p b"
  by (simp add: recovery_of_def get_recovery_status_for_entity_def get_current_state_def)

text \<open>The row a failure leaves.\<close>

definition entity_rows :: "lookup_request \<Rightarrow> lookup_store \<Rightarrow> failure_row list" where
  "entity_rows p st = filter (of_entity (lp_tenantId p) ''company'' (lp_org p)) (lk_failures st)"

definition current_row :: "lookup_request \<Rightarrow> lookup_store \<Rightarrow> failure_row option" where
  "current_row p st = find_latest (of_entity (lp_tenantId p) ''company'' (lp_org p)) fs_createdAt (lk_failures st)"

lemma current_row_keeps [simp]:
  "current_row p (on_audit f st) = current_row p st"
  "current_row p (lookup_event p' ty a s c m st) = current_row p st"
  "current_row p (capture_lookup env p' st) = current_row p st"
  by (simp_all add: current_row_def)

lemma recovery_of_current: "recovery_of env p st = get_recovery_status (en_now (lv_enrich env)) (current_row p st)"
  by (simp add: recovery_of_def get_recovery_status_for_entity_def get_current_state_def current_row_def)

lemma note_failure_rows:
  "\<exists>row. lk_failures (note_failure env p s reason b at' i st) = lk_failures st @ [row] \<and>
    of_entity (lp_tenantId p) ''company'' (lp_org p) row \<and> fs_isRecoverable row = b \<and>
    fs_failureState row = (if at' = None then s else DEGRADED) \<and>
    fs_lastAttempted row = en_now (lv_enrich env) \<and> fs_createdAt row = en_now (lv_enrich env) \<and>
    (i = Some False \<longrightarrow> fs_retryCount row = (case current_row p st of None \<Rightarrow> 0 | Some c \<Rightarrow> fs_retryCount c))"
  by (simp add: note_failure_def on_failures_def record_failure_def Let_def of_entity_def next_retry_count_def
      get_current_state_def current_row_def)

section \<open>The backoff\<close>

text \<open>What holds a company back: a failure that may not be retried, or not yet.\<close>

definition held :: "int \<Rightarrow> failure_row \<Rightarrow> bool" where
  "held now c \<longleftrightarrow> fs_failureState c \<noteq> SUCCESS \<and>
     (fs_isRecoverable c \<longrightarrow> now < fs_lastAttempted c + compute_backoff_ms (fs_retryCount c))"

lemma canRetry_held:
  "rs_canRetry (get_recovery_status now (Some c)) \<longleftrightarrow> \<not> held now c"
  by (auto simp: get_recovery_status_def held_def Let_def)

lemma held_status:
  "held now c \<Longrightarrow> rs_isRecoverable (get_recovery_status now (Some c)) = fs_isRecoverable c \<and>
    rs_state (get_recovery_status now (Some c)) = fs_failureState c"
  by (auto simp: get_recovery_status_def held_def Let_def)

lemma backoff_rows:
  assumes "current_row p st = Some c" and "held (en_now (lv_enrich env)) c"
  shows "\<exists>row. lk_failures (snd (serve_in_backoff env p (recovery_of env p st) st)) = lk_failures st @ [row] \<and>
    of_entity (lp_tenantId p) ''company'' (lp_org p) row \<and> fs_isRecoverable row = fs_isRecoverable c \<and>
    fs_failureState row \<noteq> SUCCESS \<and> fs_lastAttempted row = en_now (lv_enrich env) \<and>
    fs_createdAt row = en_now (lv_enrich env)"
proof -
  let ?rec = "recovery_of env p st"
  let ?st = "snd (attempt_stale_fallback env p st)"
  have rec: "rs_isRecoverable ?rec = fs_isRecoverable c" "rs_state ?rec = fs_failureState c"
    using held_status [OF assms(2)] by (simp_all add: recovery_of_current assms(1))
  have c: "fs_failureState c \<noteq> SUCCESS" using assms(2) by (simp add: held_def)
  show ?thesis
  proof (cases "fst (attempt_stale_fallback env p st)")
    case None
    let ?reason = "or_default (rs_failureReason ?rec) ''provider_unavailable_backoff''"
    obtain row where "lk_failures (note_failure env p NO_DATA_AVAILABLE ?reason (rs_isRecoverable ?rec) None (Some False) ?st) =
        lk_failures ?st @ [row]" "of_entity (lp_tenantId p) ''company'' (lp_org p) row"
      "fs_isRecoverable row = rs_isRecoverable ?rec" "fs_failureState row = NO_DATA_AVAILABLE"
      "fs_lastAttempted row = en_now (lv_enrich env)" "fs_createdAt row = en_now (lv_enrich env)"
      using note_failure_rows [of env p NO_DATA_AVAILABLE ?reason "rs_isRecoverable ?rec" None "Some False" ?st] by auto
    then show ?thesis
      using None rec(1) by (intro exI [of _ row]) (simp add: serve_in_backoff_def Let_def split_beta fallback_keeps)
  next
    case (Some r)
    let ?reason = "or_default (rs_failureReason ?rec) ''provider_unavailable_backoff''"
    let ?at = "Some (sn_fetchedAt (nr_snapshot r))"
    obtain row where "lk_failures (note_failure env p (rs_state ?rec) ?reason (rs_isRecoverable ?rec) ?at (Some False) ?st) =
        lk_failures ?st @ [row]" "of_entity (lp_tenantId p) ''company'' (lp_org p) row"
      "fs_isRecoverable row = rs_isRecoverable ?rec" "fs_failureState row = DEGRADED"
      "fs_lastAttempted row = en_now (lv_enrich env)" "fs_createdAt row = en_now (lv_enrich env)"
      using note_failure_rows [of env p "rs_state ?rec" ?reason "rs_isRecoverable ?rec" ?at "Some False" ?st] by auto
    then show ?thesis
      using Some rec(1) by (intro exI [of _ row]) (simp add: serve_in_backoff_def Let_def split_beta fallback_keeps)
  qed
qed

lemma backoff_lookup:
  assumes "current_row p st = Some c" and "held (en_now (lv_enrich env)) c"
  shows "es_api (lk_enrich (snd (do_enrich env p st))) = es_api (lk_enrich st) \<and>
    es_snapshots (lk_enrich (snd (do_enrich env p st))) = es_snapshots (lk_enrich st) \<and>
    (\<exists>row. lk_failures (snd (do_enrich env p st)) = lk_failures st @ [row] \<and>
      of_entity (lp_tenantId p) ''company'' (lp_org p) row \<and> fs_isRecoverable row = fs_isRecoverable c \<and>
      fs_failureState row \<noteq> SUCCESS \<and> fs_lastAttempted row = en_now (lv_enrich env) \<and>
      fs_createdAt row = en_now (lv_enrich env))"
proof -
  let ?st1 = "capture_lookup env p (lookup_event p LOOKUP_INITIATED ''company.lookup'' ''initiated'' None (lookup_details p) st)"
  let ?dec = "decide (en_policies (lv_enrich env)) (lookup_params env p (rs_canRetry (recovery_of env p ?st1)))
    (es_audit (lk_enrich ?st1))"
  let ?st2 = "on_audit (\<lambda>a. snd ?dec) ?st1"
  let ?b = "serve_in_backoff env p (recovery_of env p ?st2) ?st2"
  have c: "current_row p ?st2 = Some c" "current_row p ?st1 = Some c" using assms(1) by (simp_all add: current_row_def)
  have no: "\<not> rs_canRetry (recovery_of env p ?st1)" "\<not> rs_canRetry (recovery_of env p ?st2)"
    using assms by (simp_all add: recovery_of_current canRetry_held)
  have keep: "es_api (lk_enrich (snd ?b)) = es_api (lk_enrich st)" "es_snapshots (lk_enrich (snd ?b)) = es_snapshots (lk_enrich st)"
    by (simp_all add: serve_in_backoff_def Let_def split_beta fallback_keeps split: option.splits)
  have run: "snd (do_enrich env p st) = (case fst ?b of
      Inl e \<Rightarrow> failed_lookup p (fst ?dec) e (snd ?b)
    | Inr x \<Rightarrow> completed p (fst ?dec) x (lookup_metadata env p x True) (snd ?b))"
    using no by (simp add: do_enrich_def Let_def split_beta serve_lookup_def late_writes_def split: sum.splits)
  have rows: "lk_failures ?st2 = lk_failures st" by simp
  from backoff_rows [OF c(1) assms(2), unfolded rows] obtain row where
    "lk_failures (snd ?b) = lk_failures st @ [row]" "of_entity (lp_tenantId p) ''company'' (lp_org p) row"
    "fs_isRecoverable row = fs_isRecoverable c" "fs_failureState row \<noteq> SUCCESS"
    "fs_lastAttempted row = en_now (lv_enrich env)" "fs_createdAt row = en_now (lv_enrich env)" by blast
  with keep run show ?thesis by (cases "fst ?b") auto
qed

text \<open>
  C5: While a failed company is held back no lookup of it, forced or not, calls the provider or
  stores a snapshot: it is answered with stale data marked as degraded, or with status 503.
\<close>

theorem backoff_blocks_calls:
  assumes "current_row p st = Some c" and "held (en_now (lv_enrich env)) c"
  shows "es_api (lk_enrich (snd (do_enrich env p st))) = es_api (lk_enrich st) \<and>
    es_snapshots (lk_enrich (snd (do_enrich env p st))) = es_snapshots (lk_enrich st) \<and>
    (case fst (do_enrich env p st) of
       Inl e \<Rightarrow> e = HttpException 503 ''Provider unavailable and no cached data available''
     | Inr (company, m) \<Rightarrow> cm_source m = ''DB'' \<and> cm_degraded m \<and> cm_policy_decision m = StaleFallbackFetch)"
proof -
  have no: "\<not> rs_canRetry (get_recovery_status (en_now (lv_enrich env)) (Some c))"
    using assms(2) by (simp add: canRetry_held)
  have fb: "nr_isFromCache r" if "fst (attempt_stale_fallback env p s) = Some r" for r s
    using that by (auto simp: attempt_stale_fallback_def Let_def split_beta split: option.splits if_splits)
  have "case fst (do_enrich env p st) of
       Inl e \<Rightarrow> e = HttpException 503 ''Provider unavailable and no cached data available''
     | Inr (company, m) \<Rightarrow> cm_source m = ''DB'' \<and> cm_degraded m \<and> cm_policy_decision m = StaleFallbackFetch"
    using no fb
    by (auto simp: do_enrich_def Let_def split_beta serve_lookup_def recovery_of_current assms(1)
        serve_in_backoff_def lookup_metadata_def split: option.splits sum.splits)
  with backoff_lookup [OF assms] show ?thesis by blast
qed

fun lookup_runs :: "(lookup_env \<times> lookup_request) list \<Rightarrow> lookup_store \<Rightarrow> lookup_store" where
  "lookup_runs [] st = st"
| "lookup_runs ((env, p) # runs) st = lookup_runs runs (snd (do_enrich env p st))"

text \<open>Each lookup comes less than the shortest delay after the one before.\<close>

fun impatient :: "int \<Rightarrow> (lookup_env \<times> lookup_request) list \<Rightarrow> bool" where
  "impatient t [] = True"
| "impatient t ((env, p) # runs) =
     (t < en_now (lv_enrich env) \<and> en_now (lv_enrich env) < t + base_delay_ms \<and> impatient (en_now (lv_enrich env)) runs)"

lemma current_row_new:
  assumes "current_row p st = Some c" and "lk_failures st' = lk_failures st @ [row]"
    and "of_entity (lp_tenantId p) ''company'' (lp_org p) row" and "fs_createdAt c < fs_createdAt row"
  shows "current_row p st' = Some row"
proof -
  have "fs_createdAt x \<le> fs_createdAt c" if "x \<in> set (lk_failures st)" "of_entity (lp_tenantId p) ''company'' (lp_org p) x" for x
    using find_latest_SomeD(3) [OF assms(1) [unfolded current_row_def]] that by blast
  then show ?thesis
    unfolding current_row_def assms(2) using assms(3,4) by (intro find_latest_snoc_new) fastforce+
qed

text \<open>
  C7: Lookups that keep coming within a minute of each other postpone the retry for ever: each
  one in the backoff restarts it, so however many come, none calls the provider.
\<close>

theorem impatient_lookups_starve:
  assumes "current_row p st = Some c" and "fs_failureState c \<noteq> SUCCESS"
    and "fs_lastAttempted c = t" "fs_createdAt c = t" and "impatient t runs"
    and "list_all (\<lambda>(env, q). lp_tenantId q = lp_tenantId p \<and> lp_org q = lp_org p) runs"
  shows "es_api (lk_enrich (lookup_runs runs st)) = es_api (lk_enrich st) \<and>
    es_snapshots (lk_enrich (lookup_runs runs st)) = es_snapshots (lk_enrich st) \<and>
    length (lk_failures (lookup_runs runs st)) = length (lk_failures st) + length runs"
  using assms
proof (induction runs arbitrary: st c t)
  case Nil
  then show ?case by simp
next
  case (Cons x runs)
  obtain env q where x: "x = (env, q)" by fastforce
  let ?now = "en_now (lv_enrich env)"
  from Cons.prems(5,6) x have now: "t < ?now" "?now < t + 60000" and rest: "impatient ?now runs"
    and q: "lp_tenantId q = lp_tenantId p" "lp_org q = lp_org p"
    by (auto simp: base_delay_ms_def)
  have "held ?now c"
    using Cons.prems(2,3) now compute_backoff_bounds [of "fs_retryCount c"] by (auto simp: held_def)
  moreover have c: "current_row q st = Some c" using Cons.prems(1) by (simp add: current_row_def q)
  ultimately obtain row where step: "es_api (lk_enrich (snd (do_enrich env q st))) = es_api (lk_enrich st)"
    "es_snapshots (lk_enrich (snd (do_enrich env q st))) = es_snapshots (lk_enrich st)"
    "lk_failures (snd (do_enrich env q st)) = lk_failures st @ [row]"
    "of_entity (lp_tenantId p) ''company'' (lp_org p) row" "fs_failureState row \<noteq> SUCCESS"
    "fs_lastAttempted row = ?now" "fs_createdAt row = ?now"
    using backoff_lookup [of q st c env] by (auto simp: q)
  have "current_row p (snd (do_enrich env q st)) = Some row"
    by (rule current_row_new [OF Cons.prems(1) step(3,4)]) (use step(7) Cons.prems(4) now in simp)
  from Cons.IH [OF this step(5,6,7) rest] Cons.prems(6) x step(1-3) show ?case by simp
qed

section \<open>What the answer tells\<close>

text \<open>A snapshot of the policy's stale window is labelled fresh as long as it is not a day old.\<close>

theorem stale_within_a_day_labelled_fresh:
  assumes "0 < window"
  shows "compute_freshness 0 window max_age = IsFresh"
  using assms by (simp add: compute_freshness_def)

text \<open>A stale fallback never has the registers: the summary of a snapshot only says whether they were there.\<close>

theorem fallback_loses_registers:
  assumes "sn_rawPayloadSummary s = mc_sourcePayloadSummary (map_company hvd info org)"
  shows "sv_highValueDataset (fallback_profile s) = None \<and> sv_organisationInformation (fallback_profile s) = [] \<and>
    sv_documents (fallback_profile s) = None"
  using assms by (simp add: fallback_profile_def Let_def map_company_def null_value_def rows_of_def)

section \<open>The decision is not obeyed\<close>

lemma live_lookup:
  assumes "rs_canRetry (recovery_of env p st)" and "\<not> lv_timedOut env"
    and "no_success (lp_tenantId p) (lp_org p) (lk_enrich st)" and "\<not> core_failed (lv_outs env)"
  shows "\<exists>r. fst (serve_enriched env p st) = Inr (r, False) \<and> \<not> nr_isFromCache r"
proof -
  obtain x where x: "fst (try_cache (lv_enrich env) (request_of p) (lk_enrich st)) = Inl x"
    using no_success_try [of "request_of p" "lk_enrich st" "lv_enrich env"] assms(3) by (auto simp: request_of_def)
  obtain pf api where "get_complete_company_data (en_text (lv_enrich env)) (en_now (lv_enrich env))
      (Some (eq_tenantId (request_of p))) (eq_org (request_of p)) (lv_outs env) (es_api (lk_enrich st)) = (Inr pf, api)"
    using assms(4) by (simp add: get_complete_company_data_def Let_def split_beta)
  from enrich_live [OF x this] obtain r es where
    "enrich_and_save (lv_enrich env) (lv_outs env) (request_of p) (lk_enrich st) = (Inr r, es)" "\<not> nr_isFromCache r"
    by fastforce
  then show ?thesis using assms(2) by (simp add: serve_enriched_def raced_def)
qed

text \<open>
  A quota hook that vetoes the call turns the refresh decision to stale data, but the decision is
  only logged: the lookup calls the provider all the same.
\<close>

theorem quota_veto_not_obeyed:
  assumes "lv_hooks env = [\<lambda>c. HookResult False None]" and "rs_canRetry (recovery_of env p st)" and "\<not> lv_timedOut env"
    and "no_success (lp_tenantId p) (lp_org p) (lk_enrich st)" and "\<not> core_failed (lv_outs env)"
  shows "rd_serve_from (fst (decide (en_policies (lv_enrich env)) (lookup_params env p True) aud)) = FromStaleDb \<and>
    (\<exists>company m. fst (do_enrich env p st) = Inr (company, m) \<and> cm_source m = ''API'')"
proof
  show "rd_serve_from (fst (decide (en_policies (lv_enrich env)) (lookup_params env p True) aud)) = FromStaleDb"
    using assms(1) by (simp add: decide_def Let_def split_beta lookup_params_def apply_hook_def)
  let ?st1 = "capture_lookup env p (lookup_event p LOOKUP_INITIATED ''company.lookup'' ''initiated'' None (lookup_details p) st)"
  let ?st2 = "on_audit (\<lambda>a. snd (decide (en_policies (lv_enrich env)) (lookup_params env p (rs_canRetry (recovery_of env p ?st1)))
    (es_audit (lk_enrich ?st1)))) ?st1"
  have "rs_canRetry (recovery_of env p ?st2)" using assms(2) by (simp add: recovery_of_current)
  moreover have "no_success (lp_tenantId p) (lp_org p) (lk_enrich ?st2)" using assms(4) by (simp add: no_success_def)
  ultimately obtain r where r: "fst (serve_lookup env p ?st2) = Inr (r, False)" "\<not> nr_isFromCache r"
    using live_lookup [of env p ?st2] assms(3,5) by (auto simp: serve_lookup_def Let_def)
  then show "\<exists>company m. fst (do_enrich env p st) = Inr (company, m) \<and> cm_source m = ''API''"
    by (simp add: do_enrich_def Let_def split_beta lookup_metadata_def)
qed

section \<open>Recovery\<close>

text \<open>
  C6: After a live lookup that was complete the company is not held back any more, whatever
  failures came before: the next lookup may call the provider.
\<close>

theorem complete_lookup_ends_backoff:
  assumes "fst (raced env p st) = Inr r" and "\<not> nr_isFromCache r" and "sn_fetchStatus (nr_snapshot r) = ''success''"
    and "list_all (\<lambda>f. fs_createdAt f < en_now (lv_enrich env)) (lk_failures st)"
  shows "rs_canRetry (recovery_of env' p (snd (serve_enriched env p st))) \<and>
    rs_retryCount (recovery_of env' p (snd (serve_enriched env p st))) = 0"
proof -
  let ?st = "snd (raced env p st)"
  have keep: "lk_failures ?st = lk_failures st" by (simp add: raced_def Let_def split_beta)
  have run: "snd (serve_enriched env p st) = note_success env p ?st"
    using assms(1-3) by (cases "raced env p st") (simp add: serve_enriched_def)
  obtain row where row: "lk_failures (note_success env p ?st) = lk_failures st @ [row]"
    "of_entity (lp_tenantId p) ''company'' (lp_org p) row" "fs_failureState row = SUCCESS"
    "fs_createdAt row = en_now (lv_enrich env)"
    by (simp add: note_success_def on_failures_def record_success_def Let_def of_entity_def keep)
  have "current_row p (note_success env p ?st) = Some row"
    unfolding current_row_def row(1)
    by (rule find_latest_snoc_new) (use row(2,4) assms(4) in \<open>auto simp: list_all_iff\<close>)
  then show ?thesis
    by (simp add: run recovery_of_current get_recovery_status_def row(3))
qed

section \<open>Witnesses\<close>

definition sample_lookup_env :: "int \<Rightarrow> int outcome \<Rightarrow> lookup_env" where
  "sample_lookup_env now r =
     \<lparr>lv_enrich = sample_env ''a'' now, lv_outs = sample_outcomes r (answered (JArr [])), lv_timedOut = False,
      lv_hooks = [], lv_lineageId = ''l''\<rparr>"

definition sample_lookup :: lookup_request where
  "sample_lookup = \<lparr>lp_tenantId = ''t'', lp_actorId = None, lp_org = ''5560000001'', lp_force = True, lp_correlationId = ''c''\<rparr>"

definition failed_once :: "int \<Rightarrow> lookup_store" where
  "failed_once t =
     \<lparr>lk_enrich = empty_enrichment,
      lk_failures = [\<lparr>fs_tenantId = ''t'', fs_entityType = ''company'', fs_entityId = ''5560000001'',
        fs_failureState = PROVIDER_TIMEOUT, fs_failureReason = Some ''timeout'', fs_lastAttempted = t,
        fs_fallbackUsed = False, fs_staleDataTimestamp = None, fs_retryCount = 1, fs_isRecoverable = True,
        fs_createdAt = t\<rparr>],
      lk_lineage = [], lk_lineage_up = True\<rparr>"

lemma failed_once_current: "current_row sample_lookup (failed_once t) = Some (hd (lk_failures (failed_once t)))"
  by (simp add: current_row_def failed_once_def sample_lookup_def find_latest_def find_desc_def of_entity_def)

theorem backoff_blocks_calls_witness:
  "es_api (lk_enrich (snd (do_enrich (sample_lookup_env 30000 (answered (JObj []))) sample_lookup (failed_once 0)))) = empty_api"
proof -
  have "held (en_now (lv_enrich (sample_lookup_env 30000 (answered (JObj []))))) (hd (lk_failures (failed_once 0)))"
    by (simp add: held_def failed_once_def sample_lookup_env_def sample_env_def compute_backoff_power)
  from backoff_blocks_calls [OF failed_once_current this] show ?thesis
    by (simp add: failed_once_def empty_enrichment_def)
qed

theorem impatient_lookups_starve_witness:
  "es_api (lk_enrich (lookup_runs [(sample_lookup_env 50000 (answered (JObj [])), sample_lookup),
      (sample_lookup_env 100000 (answered (JObj [])), sample_lookup)] (failed_once 0))) = empty_api"
  using impatient_lookups_starve [OF failed_once_current [of 0], of 0 "[(sample_lookup_env 50000 (answered (JObj [])), sample_lookup),
      (sample_lookup_env 100000 (answered (JObj [])), sample_lookup)]"]
  by (simp add: failed_once_def sample_lookup_env_def sample_env_def base_delay_ms_def empty_enrichment_def)

theorem complete_lookup_ends_backoff_witness:
  "\<exists>r. fst (raced (sample_lookup_env 90000 (answered (JObj []))) sample_lookup (failed_once 0)) = Inr r \<and>
    rs_canRetry (recovery_of (sample_lookup_env 90001 (answered (JObj []))) sample_lookup
      (snd (serve_enriched (sample_lookup_env 90000 (answered (JObj []))) sample_lookup (failed_once 0))))"
proof -
  let ?env = "sample_lookup_env 90000 (answered (JObj []))"
  have force: "fst (try_cache (sample_env ''a'' 90000) (request_of sample_lookup) empty_enrichment) = Inl (None, False)"
    by (simp add: try_cache_def request_of_def sample_lookup_def)
  have "\<not> core_failed (lv_outs ?env)"
    by (simp add: core_failed_def sample_lookup_env_def sample_outcomes_def answered_def)
  then obtain pf api where pf: "get_complete_company_data (en_text (sample_env ''a'' 90000)) (en_now (sample_env ''a'' 90000))
      (Some (eq_tenantId (request_of sample_lookup))) (eq_org (request_of sample_lookup)) (lv_outs ?env)
      (es_api empty_enrichment) = (Inr pf, api)"
    by (simp add: get_complete_company_data_def Let_def split_beta)
  from enrich_live [OF force this] obtain tr st1 where
    run: "enrich_and_save (sample_env ''a'' 90000) (lv_outs ?env) (request_of sample_lookup) empty_enrichment =
      (Inr \<lparr>nr_result = served_of pf, nr_snapshot = fst (persist_profile (sample_env ''a'' 90000) (request_of sample_lookup) tr pf st1),
        nr_isFromCache = False, nr_ageInDays = None\<rparr>,
       snd (persist_profile (sample_env ''a'' 90000) (request_of sample_lookup) tr pf st1))"
    and st1: "es_snapshots st1 = es_snapshots empty_enrichment" by blast
  have "fetch_status_of pf = ''success''"
    by (simp add: fetch_status_of_def profile_of(2) [OF pf] error_diagnostics sample_lookup_env_def sample_outcomes_def answered_def)
  moreover have "new_id (sample_env ''a'' 90000) st1" by (simp add: new_id_def st1 empty_enrichment_def)
  ultimately have status: "sn_fetchStatus (fst (persist_profile (sample_env ''a'' 90000) (request_of sample_lookup) tr pf st1)) = ''success''"
    using persist_snapshots [of "sample_env ''a'' 90000" st1 "request_of sample_lookup" tr pf] by (auto simp: sample_env_def)
  have "\<exists>r. fst (raced ?env sample_lookup (failed_once 0)) = Inr r \<and> \<not> nr_isFromCache r \<and> sn_fetchStatus (nr_snapshot r) = ''success''"
    using run status by (simp add: raced_def failed_once_def sample_lookup_env_def)
  then obtain r where r: "fst (raced ?env sample_lookup (failed_once 0)) = Inr r" "\<not> nr_isFromCache r"
    "sn_fetchStatus (nr_snapshot r) = ''success''" by blast
  from complete_lookup_ends_backoff [OF r, of "sample_lookup_env 90001 (answered (JObj []))"] r(1) show ?thesis
    by (simp add: failed_once_def sample_lookup_env_def sample_env_def)
qed

end
