(* ===== verification/SourcingProfile.thy ===== *)
theory SourcingProfile
  imports OwnershipInsights Signals
begin

text \<open>
  \<open>CompanySourcingProfileService\<close> (backend/src/companies/services/company-sourcing-profile.service.ts):
  the scores of a company for the three kinds of deal, the table they are kept in and the
  comparison of a score with past changes of ownership. Weighted sums are exact rationals,
  rounded to one decimal. The materialised view is not modelled.
\<close>

section \<open>Scores\<close>

datatype deal_mode = FounderExit | Distressed | RollUp

fun deal_mode_text :: "deal_mode \<Rightarrow> string" where
  "deal_mode_text FounderExit = ''founder_exit''"
| "deal_mode_text Distressed = ''distressed''"
| "deal_mode_text RollUp = ''roll_up''"

text \<open>\<open>asScore\<close>; a missing value is not a number and counts as zero.\<close>

definition as_score :: "rat option \<Rightarrow> rat" where
  "as_score v = (case v of None \<Rightarrow> 0 | Some n \<Rightarrow> min 100 (max 0 n))"

definition signal_score :: "string \<Rightarrow> string \<Rightarrow> string \<Rightarrow> signal_store \<Rightarrow> rat" where
  "signal_score tenantId org t ss =
     as_score (map_option of_int (Option.bind (latest_signal tenantId org t ss) sg_score))"

record deal_inputs =
  di_sellerReadiness :: rat
  di_transition :: rat
  di_stress :: rat
  di_acquisition :: rat
  di_growth :: rat
  di_complexity :: rat
  di_negativeProfit :: rat
  di_structureScale :: rat
  di_ownershipRisk :: rat

definition deal_inputs_of ::
  "(string \<Rightarrow> rat) \<Rightarrow> rat \<Rightarrow> financial_statement option \<Rightarrow> nat \<Rightarrow> deal_inputs" where
  "deal_inputs_of score risk latest edges =
     \<lparr>di_sellerReadiness = score ''seller_readiness'',
      di_transition = score ''ownership_transition_probability'',
      di_stress = score ''financial_stress'',
      di_acquisition = score ''acquisition_likelihood'',
      di_growth = score ''growth_vs_stagnation'',
      di_complexity = score ''compliance_ownership_complexity'',
      di_negativeProfit = (if is_some_and (\<lambda>x. x < 0) (Option.bind latest fs_netResult) then 100 else 0),
      di_structureScale = min 100 (of_nat edges * 8),
      di_ownershipRisk = risk\<rparr>"

definition founder_exit :: "deal_inputs \<Rightarrow> rat" where
  "founder_exit i = to_fixed 1
     (di_sellerReadiness i * 35 / 100 + di_transition i * 3 / 10 + di_acquisition i * 2 / 10 +
      (100 - di_stress i) * 15 / 100)"

definition distressed :: "deal_inputs \<Rightarrow> rat" where
  "distressed i = to_fixed 1
     (di_stress i * 5 / 10 + (100 - di_growth i) * 2 / 10 + di_complexity i * 15 / 100 +
      di_negativeProfit i * 1 / 10 + di_ownershipRisk i * 5 / 100)"

definition roll_up :: "deal_inputs \<Rightarrow> rat" where
  "roll_up i = to_fixed 1
     (di_acquisition i * 3 / 10 + di_growth i * 2 / 10 + (100 - di_complexity i) * 2 / 10 +
      di_structureScale i * 2 / 10 + (100 - di_ownershipRisk i) * 1 / 10)"

definition deal_scores :: "deal_inputs \<Rightarrow> (string \<times> rat) list" where
  "deal_scores i =
     [(''founder_exit'', founder_exit i), (''distressed'', distressed i), (''roll_up'', roll_up i)]"

text \<open>\<open>x.toFixed(1)\<close> of a number that is not negative.\<close>

definition fixed_text :: "rat \<Rightarrow> string" where
  "fixed_text x = (let n = \<lfloor>x * 10 + 1 / 2\<rfloor> in show_int (n div 10) @ ''.'' @ show_int (n mod 10))"

definition rationale_of :: "(string \<times> rat) list \<Rightarrow> string list" where
  "rationale_of = map (\<lambda>(k, x). k @ ''='' @ fixed_text x)"

definition deal_rationale :: "deal_inputs \<Rightarrow> (string \<times> string list) list" where
  "deal_rationale i =
     [(''founder_exit'', rationale_of
        [(''seller_readiness'', di_sellerReadiness i), (''ownership_transition_probability'', di_transition i),
         (''acquisition_likelihood'', di_acquisition i), (''financial_stress_inverse'', 100 - di_stress i)]),
      (''distressed'', rationale_of
        [(''financial_stress'', di_stress i), (''growth_inverse'', 100 - di_growth i),
         (''compliance_ownership_complexity'', di_complexity i), (''negative_profit_proxy'', di_negativeProfit i),
         (''ownership_risk_score'', di_ownershipRisk i)]),
      (''roll_up'', rationale_of
        [(''acquisition_likelihood'', di_acquisition i), (''growth_vs_stagnation'', di_growth i),
         (''complexity_inverse'', 100 - di_complexity i), (''ownership_edges_shape'', di_structureScale i),
         (''ownership_risk_inverse'', 100 - di_ownershipRisk i)])]"

definition signals_snapshot :: "deal_inputs \<Rightarrow> (string \<times> rat) list" where
  "signals_snapshot i =
     [(''acquisition_likelihood'', di_acquisition i), (''ownership_transition_probability'', di_transition i),
      (''seller_readiness'', di_sellerReadiness i), (''growth_vs_stagnation'', di_growth i),
      (''compliance_ownership_complexity'', di_complexity i), (''financial_stress'', di_stress i)]"

section \<open>Profiles\<close>

record sourcing_profile =
  sq_id :: string
  sq_tenantId :: string
  sq_organisationNumber :: string
  sq_ownershipRiskScore :: rat
  sq_dealModeScores :: "(string \<times> rat) list"
  sq_dealModeRationale :: "(string \<times> string list) list"
  sq_signalsSnapshot :: "(string \<times> rat) list"
  sq_createdAt :: int
  sq_updatedAt :: int

text \<open>What the service reads, and the ids new rows get.\<close>

record sourcing_env =
  pv_js :: js_numbers
  pv_collate :: "string \<Rightarrow> nat list"
  pv_now :: int
  pv_newId :: "string \<Rightarrow> string"
  pv_vhRows :: "vh_payload_row list"
  pv_db :: ownership_store
  pv_signals :: signal_store

record sourcing_state =
  sx_profiles :: "sourcing_profile list"
  sx_insights :: insights_state

definition valid_orgs :: "string list \<Rightarrow> string list" where
  "valid_orgs os = distinct_in_order (filter valid_org_length (map digits_only os))"

definition profile_of_org :: "string \<Rightarrow> string \<Rightarrow> sourcing_profile \<Rightarrow> bool" where
  "profile_of_org tenantId org p \<longleftrightarrow> sq_tenantId p = tenantId \<and> sq_organisationNumber p = org"

definition get_profiles :: "string \<Rightarrow> string list \<Rightarrow> sourcing_state \<Rightarrow> sourcing_profile list" where
  "get_profiles tenantId os st =
     filter (\<lambda>p. sq_tenantId p = tenantId \<and> sq_organisationNumber p \<in> set os) (sx_profiles st)"

definition current_edges :: "string \<Rightarrow> string \<Rightarrow> ownership_link list \<Rightarrow> nat" where
  "current_edges tenantId org links =
     count_where (\<lambda>l. lk_tenantId l = tenantId \<and> lk_ownedOrganisationNumber l = org \<and> lk_isCurrent l) links"

definition inputs_for :: "sourcing_env \<Rightarrow> string \<Rightarrow> string \<Rightarrow> insights \<Rightarrow> deal_inputs" where
  "inputs_for env tenantId org ins =
     deal_inputs_of (\<lambda>t. signal_score tenantId org t (pv_signals env))
       (as_score (Some (of_nat (in_ownershipRiskScore ins))))
       (latest_statement tenantId org (pv_signals env))
       (current_edges tenantId org (os_links (pv_db env)))"

definition new_profile :: "sourcing_env \<Rightarrow> string \<Rightarrow> string \<Rightarrow> insights \<Rightarrow> sourcing_profile" where
  "new_profile env tenantId org ins =
     (let i = inputs_for env tenantId org ins
      in \<lparr>sq_id = pv_newId env org, sq_tenantId = tenantId, sq_organisationNumber = org,
          sq_ownershipRiskScore = di_ownershipRisk i, sq_dealModeScores = deal_scores i,
          sq_dealModeRationale = deal_rationale i, sq_signalsSnapshot = signals_snapshot i,
          sq_createdAt = pv_now env, sq_updatedAt = pv_now env\<rparr>)"

text \<open>The row of a company is inserted, or its columns are overwritten.\<close>

fun upsert_profile :: "sourcing_profile \<Rightarrow> sourcing_profile list \<Rightarrow> sourcing_profile list" where
  "upsert_profile r [] = [r]"
| "upsert_profile r (p # ps) =
     (if profile_of_org (sq_tenantId r) (sq_organisationNumber r) p
      then r\<lparr>sq_id := sq_id p, sq_createdAt := sq_createdAt p\<rparr> # ps else p # upsert_profile r ps)"

fun build_profiles ::
  "sourcing_env \<Rightarrow> string \<Rightarrow> string list \<Rightarrow> insights_state \<Rightarrow> sourcing_profile list \<times> insights_state" where
  "build_profiles env tenantId [] ist = ([], ist)"
| "build_profiles env tenantId (org # os) ist =
     (let ((ins, cached), ist) = get_advanced_insights (pv_js env) (pv_collate env) (pv_now env) tenantId org
            (pv_vhRows env) (pv_db env) ist;
          (rows, ist) = build_profiles env tenantId os ist
      in (new_profile env tenantId org ins # rows, ist))"

definition rebuild_profiles ::
  "sourcing_env \<Rightarrow> string \<Rightarrow> string list \<Rightarrow> sourcing_state \<Rightarrow> sourcing_profile list \<times> sourcing_state" where
  "rebuild_profiles env tenantId organisationNumbers st =
     (let os = valid_orgs organisationNumbers
      in if os = [] then ([], st)
         else (let (rows, ist) = build_profiles env tenantId os (sx_insights st);
                   st = \<lparr>sx_profiles = fold upsert_profile rows (sx_profiles st), sx_insights = ist\<rparr>
               in (get_profiles tenantId os st, st)))"

definition ensure_profiles ::
  "sourcing_env \<Rightarrow> string \<Rightarrow> string list \<Rightarrow> sourcing_state \<Rightarrow> sourcing_profile list \<times> sourcing_state" where
  "ensure_profiles env tenantId organisationNumbers st =
     (let os = valid_orgs organisationNumbers
      in if os = [] then ([], st)
         else (let existing = map sq_organisationNumber (get_profiles tenantId os st);
                   missing = filter (\<lambda>org. org \<notin> set existing) os;
                   st = (if missing \<noteq> [] then snd (rebuild_profiles env tenantId missing st) else st)
               in (get_profiles tenantId os st, st)))"

section \<open>Calibration\<close>

record scored_org =
  ci_org :: string
  ci_score :: rat
  ci_events :: nat

record calibration =
  bt_sample_size :: nat
  bt_top_avg :: rat
  bt_bottom_avg :: rat
  bt_lift :: rat
  bt_recommendation :: string

definition min_sample :: nat where
  "min_sample = 30"

definition mode_score :: "string \<Rightarrow> sourcing_profile \<Rightarrow> rat" where
  "mode_score m p = as_score (map_of (sq_dealModeScores p) m)"

text \<open>The changes of ownership of each company among the last 10000 of all of them.\<close>

definition ownership_events :: "string \<Rightarrow> string list \<Rightarrow> ownership_link list \<Rightarrow> string \<Rightarrow> nat" where
  "ownership_events tenantId os links org =
     count_where (\<lambda>l. lk_ownedOrganisationNumber l = org)
       (take 10000 (sort_key (\<lambda>l. (- lk_updatedAt l, - lk_createdAt l))
         (filter (\<lambda>l. lk_tenantId l = tenantId \<and> lk_ownedOrganisationNumber l \<in> set os) links)))"

definition average_events :: "scored_org list \<Rightarrow> rat" where
  "average_events xs = (if xs = [] then 0 else of_nat (sum_list (map ci_events xs)) / of_nat (length xs))"

definition top_fifth :: "scored_org list \<Rightarrow> scored_org list" where
  "top_fifth xs = take (length xs div 5) xs"

definition bottom_fifth :: "scored_org list \<Rightarrow> scored_org list" where
  "bottom_fifth xs = drop (length xs * 4 div 5) xs"

definition lift_of :: "rat \<Rightarrow> rat \<Rightarrow> rat" where
  "lift_of topAvg bottomAvg =
     (if bottomAvg > 0 then topAvg / bottomAvg else if topAvg > 0 then 999 / 100 else 1)"

definition recommendation_of :: "rat \<Rightarrow> string" where
  "recommendation_of lift =
     (if lift < 11 / 10 then ''Reduce weight concentration and increase structural/financial factors.''
      else if lift > 18 / 10 then ''Current weighting appears strong; keep as baseline.''
      else ''Moderate signal quality; tune individual factor weights by +/-5%.'')"

definition ranked_orgs :: "string \<Rightarrow> deal_mode \<Rightarrow> ownership_link list \<Rightarrow> sourcing_profile list \<Rightarrow> scored_org list" where
  "ranked_orgs tenantId m links profiles =
     (let rows = take 5000 (find_desc (\<lambda>p. sq_tenantId p = tenantId) sq_updatedAt profiles);
          os = map sq_organisationNumber rows
      in sort_key (\<lambda>x. - ci_score x)
           (map (\<lambda>p. \<lparr>ci_org = sq_organisationNumber p, ci_score = mode_score (deal_mode_text m) p,
              ci_events = ownership_events tenantId os links (sq_organisationNumber p)\<rparr>) rows))"

text \<open>\<open>backtestDealMode\<close>; \<open>Inl\<close> carries the size of a sample that is too small.\<close>

definition backtest_deal_mode ::
  "string \<Rightarrow> deal_mode \<Rightarrow> ownership_link list \<Rightarrow> sourcing_profile list \<Rightarrow> nat + calibration" where
  "backtest_deal_mode tenantId m links profiles =
     (let xs = ranked_orgs tenantId m links profiles;
          topAvg = average_events (top_fifth xs); bottomAvg = average_events (bottom_fifth xs);
          lift = lift_of topAvg bottomAvg
      in if length xs < min_sample then Inl (length xs)
         else Inr \<lparr>bt_sample_size = length xs, bt_top_avg = to_fixed 2 topAvg,
           bt_bottom_avg = to_fixed 2 bottomAvg, bt_lift = to_fixed 2 lift,
           bt_recommendation = recommendation_of lift\<rparr>)"

section \<open>Scores stay within their range\<close>

definition scored_inputs :: "deal_inputs \<Rightarrow> bool" where
  "scored_inputs i \<longleftrightarrow>
     (\<forall>x \<in> {di_sellerReadiness i, di_transition i, di_stress i, di_acquisition i, di_growth i, di_complexity i,
        di_negativeProfit i, di_structureScale i, di_ownershipRisk i}. 0 \<le> x \<and> x \<le> 100)"

lemma as_score_range: "0 \<le> as_score v" "as_score v \<le> 100"
  by (simp_all add: as_score_def split: option.splits)

lemma scored_inputs_for: "scored_inputs (inputs_for env tenantId org ins)"
  by (simp add: scored_inputs_def inputs_for_def deal_inputs_of_def signal_score_def as_score_range)

lemma to_fixed_mono: "0 \<le> x \<Longrightarrow> x \<le> y \<Longrightarrow> to_fixed d x \<le> to_fixed d y"
  by (simp add: to_fixed_def Let_def divide_right_mono floor_mono)

lemma to_fixed_int: "to_fixed 1 (of_nat n) = of_nat n"
proof -
  have "\<lfloor>of_nat n * 10 + 1 / 2 :: rat\<rfloor> = int n * 10"
    by (rule floor_unique) simp_all
  then show ?thesis by (simp add: to_fixed_def)
qed

lemma to_fixed_range: "0 \<le> x \<Longrightarrow> x \<le> 100 \<Longrightarrow> 0 \<le> to_fixed 1 x \<and> to_fixed 1 x \<le> 100"
  using to_fixed_mono [of 0 x 1] to_fixed_mono [of x 100 1] to_fixed_int [of 0] to_fixed_int [of 100] by simp

lemma scored_inputsD:
  assumes "scored_inputs i"
  shows "0 \<le> di_sellerReadiness i" "di_sellerReadiness i \<le> 100"
    "0 \<le> di_transition i" "di_transition i \<le> 100"
    "0 \<le> di_stress i" "di_stress i \<le> 100"
    "0 \<le> di_acquisition i" "di_acquisition i \<le> 100"
    "0 \<le> di_growth i" "di_growth i \<le> 100"
    "0 \<le> di_complexity i" "di_complexity i \<le> 100"
    "0 \<le> di_negativeProfit i" "di_negativeProfit i \<le> 100"
    "0 \<le> di_structureScale i" "di_structureScale i \<le> 100"
    "0 \<le> di_ownershipRisk i" "di_ownershipRisk i \<le> 100"
  using assms by (simp_all add: scored_inputs_def)

lemma deal_scores_range:
  assumes "scored_inputs i"
  shows "\<forall>(m, s) \<in> set (deal_scores i). 0 \<le> s \<and> s \<le> 100"
proof -
  have "0 \<le> founder_exit i \<and> founder_exit i \<le> 100" "0 \<le> distressed i \<and> distressed i \<le> 100"
    "0 \<le> roll_up i \<and> roll_up i \<le> 100"
    unfolding founder_exit_def distressed_def roll_up_def
    by - (rule to_fixed_range; use scored_inputsD [OF assms] in \<open>simp add: field_simps\<close>)+
  then show ?thesis by (simp add: deal_scores_def)
qed

text \<open>
  A company that looks worse ranks no lower among the distressed and no higher among founder
  exits and roll-ups.
\<close>

definition no_better :: "deal_inputs \<Rightarrow> deal_inputs \<Rightarrow> bool" where
  "no_better i j \<longleftrightarrow>
     di_stress j \<le> di_stress i \<and> di_complexity j \<le> di_complexity i \<and> di_ownershipRisk j \<le> di_ownershipRisk i \<and>
     di_negativeProfit j \<le> di_negativeProfit i \<and>
     di_growth i \<le> di_growth j \<and> di_acquisition i \<le> di_acquisition j \<and>
     di_sellerReadiness i \<le> di_sellerReadiness j \<and> di_transition i \<le> di_transition j \<and>
     di_structureScale i \<le> di_structureScale j"

lemma no_betterD:
  assumes "no_better i j"
  shows "di_stress j \<le> di_stress i"
    "di_complexity j \<le> di_complexity i"
    "di_ownershipRisk j \<le> di_ownershipRisk i"
    "di_negativeProfit j \<le> di_negativeProfit i"
    "di_growth i \<le> di_growth j"
    "di_acquisition i \<le> di_acquisition j"
    "di_sellerReadiness i \<le> di_sellerReadiness j"
    "di_transition i \<le> di_transition j"
    "di_structureScale i \<le> di_structureScale j"
  using assms by (simp_all add: no_better_def)

lemma deal_scores_order:
  assumes "scored_inputs i" and "scored_inputs j" and "no_better i j"
  shows "distressed j \<le> distressed i" "founder_exit i \<le> founder_exit j" "roll_up i \<le> roll_up j"
  unfolding distressed_def founder_exit_def roll_up_def
  by - (rule to_fixed_mono; use scored_inputsD [OF assms(1)] scored_inputsD [OF assms(2)] no_betterD [OF assms(3)] in \<open>simp add: field_simps\<close>)+

section \<open>Every company asked for gets its profile\<close>

definition profile_key :: "sourcing_profile \<Rightarrow> string \<times> string" where
  "profile_key p = (sq_tenantId p, sq_organisationNumber p)"

lemma profile_of_org_key: "profile_of_org t o' p \<longleftrightarrow> profile_key p = (t, o')"
  by (simp add: profile_of_org_def profile_key_def)

lemma upsert_fresh: "profile_key r \<notin> profile_key ` set ps \<Longrightarrow> upsert_profile r ps = ps @ [r]"
  by (induction ps) (auto simp: profile_of_org_key profile_key_def)

lemma upsert_fresh_rows:
  "distinct (map profile_key rows) \<Longrightarrow> profile_key ` set rows \<inter> profile_key ` set ps = {} \<Longrightarrow>
   fold upsert_profile rows ps = ps @ rows"
  by (induction rows arbitrary: ps) (auto simp: upsert_fresh)

lemma build_profiles_rows:
  "\<exists>ins. fst (build_profiles env t os ist) = map (\<lambda>org. new_profile env t org (ins org)) os" if "distinct os"
  using that
proof (induction os arbitrary: ist)
  case Nil
  then show ?case by simp
next
  case (Cons org os)
  let ?a = "get_advanced_insights (pv_js env) (pv_collate env) (pv_now env) t org (pv_vhRows env) (pv_db env) ist"
  from Cons obtain ins where
    "fst (build_profiles env t os (snd ?a)) = map (\<lambda>org. new_profile env t org (ins org)) os" by auto
  then show ?case using Cons.prems
    by (intro exI [of _ "ins(org := fst (fst ?a))"]) (auto simp: split_beta Let_def)
qed

lemma new_profile_key [simp]:
  "profile_key (new_profile env t org ins) = (t, org)" "sq_organisationNumber (new_profile env t org ins) = org"
  "sq_tenantId (new_profile env t org ins) = t"
  by (simp_all add: profile_key_def new_profile_def Let_def)

lemma distinct_in_order_id: "distinct xs \<Longrightarrow> distinct_in_order xs = xs"
proof -
  have "distinct (ys @ xs) \<Longrightarrow> fold insert_new xs ys = ys @ xs" for ys
    by (induction xs arbitrary: ys) (auto simp: insert_new_def)
  then show "distinct xs \<Longrightarrow> distinct_in_order xs = xs" by (simp add: distinct_in_order_def)
qed

lemma valid_orgs_within: "distinct os \<Longrightarrow> set os \<subseteq> set (valid_orgs ns) \<Longrightarrow> valid_orgs os = os"
proof -
  assume d: "distinct os" and s: "set os \<subseteq> set (valid_orgs ns)"
  then have "\<forall>x \<in> set os. digits_only x = x \<and> valid_org_length x" by (fastforce simp: valid_orgs_def)
  then have "filter valid_org_length (map digits_only os) = os" by (induction os) auto
  then show "valid_orgs os = os" using d by (simp add: valid_orgs_def distinct_in_order_id)
qed

lemma rebuild_missing:
  assumes "distinct os" and "os \<noteq> []" and "set os \<subseteq> set (valid_orgs ns)"
    and "\<forall>p \<in> set (sx_profiles st). \<not> (sq_tenantId p = t \<and> sq_organisationNumber p \<in> set os)"
  obtains ins where "sx_profiles (snd (rebuild_profiles env t os st)) =
    sx_profiles st @ map (\<lambda>org. new_profile env t org (ins org)) os"
proof -
  obtain ins where r: "fst (build_profiles env t os (sx_insights st)) = map (\<lambda>org. new_profile env t org (ins org)) os"
    using build_profiles_rows [OF assms(1)] by metis
  have "fold upsert_profile (map (\<lambda>org. new_profile env t org (ins org)) os) (sx_profiles st) =
      sx_profiles st @ map (\<lambda>org. new_profile env t org (ins org)) os"
    by (rule upsert_fresh_rows) (use assms(1,4) in \<open>auto simp: comp_def distinct_map inj_on_def profile_key_def\<close>)
  then show ?thesis using that [of ins] assms(2) r
    by (simp add: rebuild_profiles_def valid_orgs_within [OF assms(1,3)] Let_def split_beta)
qed

text \<open>
  Every company asked for whose number is valid comes back with exactly one profile of the
  tenant; profiles that were there are kept as they were, of whatever tenant, and only the
  missing ones are computed, from the signals, statements and ownership of now.
\<close>

theorem ensured_profiles_complete:
  assumes "unique_keys profile_key (sx_profiles st)"
    and "ensure_profiles env t nums st = (ps, st')"
  shows "set (map sq_organisationNumber ps) = set (valid_orgs nums) \<and>
    distinct (map sq_organisationNumber ps) \<and> unique_keys profile_key (sx_profiles st') \<and>
    set (sx_profiles st) \<subseteq> set (sx_profiles st') \<and>
    (\<forall>p \<in> set (sx_profiles st') - set (sx_profiles st).
       \<exists>ins. p = new_profile env t (sq_organisationNumber p) ins \<and>
         (\<forall>q \<in> set (sx_profiles st). profile_key q \<noteq> profile_key p))"
proof -
  let ?os = "valid_orgs nums"
  let ?have = "map sq_organisationNumber (get_profiles t ?os st)"
  let ?missing = "filter (\<lambda>org. org \<notin> set ?have) ?os"
  have d: "distinct ?os" by (simp add: valid_orgs_def)
  have new: "\<forall>p \<in> set (sx_profiles st). \<not> (sq_tenantId p = t \<and> sq_organisationNumber p \<in> set ?missing)"
    by (auto simp: get_profiles_def)
  obtain ins where rows: "sx_profiles st' = sx_profiles st @ map (\<lambda>org. new_profile env t org (ins org)) ?missing"
  proof (cases "?missing = []")
    case True
    then have "st' = st" using assms(2) by (auto simp: ensure_profiles_def Let_def split: if_splits)
    then show ?thesis using True that by simp
  next
    case False
    then have n: "?os \<noteq> []" by auto
    have "st' = snd (rebuild_profiles env t ?missing st)"
      using assms(2) False n by (auto simp: ensure_profiles_def Let_def split: if_splits)
    then show ?thesis using rebuild_missing [of ?missing nums st t env] False d new that by auto
  qed
  have ps: "ps = get_profiles t ?os st'"
    using assms(2) by (auto simp: ensure_profiles_def Let_def get_profiles_def split: if_splits)
  have u: "unique_keys profile_key (sx_profiles st')"
    using assms(1) d new
    by (auto simp: rows unique_keys_def distinct_map inj_on_def comp_def profile_key_def get_profiles_def)
  have "distinct (map sq_organisationNumber ps)"
  proof -
    have "distinct (map profile_key ps)" using u by (simp add: ps get_profiles_def unique_keys_def distinct_map inj_on_def)
    then show ?thesis by (auto simp: ps get_profiles_def distinct_map inj_on_def profile_key_def)
  qed
  moreover have "set (map sq_organisationNumber ps) = set ?os"
    by (force simp: ps get_profiles_def rows)
  moreover have "\<forall>p \<in> set (sx_profiles st') - set (sx_profiles st). \<exists>ins. p = new_profile env t (sq_organisationNumber p) ins \<and>
      (\<forall>q \<in> set (sx_profiles st). profile_key q \<noteq> profile_key p)"
    using new by (auto simp: rows profile_key_def)
  ultimately show ?thesis using u by (auto simp: rows)
qed

definition sample_sourcing :: sourcing_env where
  "sample_sourcing = \<lparr>pv_js = \<lparr>number_text = (\<lambda>n. show_int \<lfloor>n\<rfloor>), number_value = (\<lambda>s. None)\<rparr>,
     pv_collate = map code, pv_now = 5, pv_newId = (\<lambda>org. org), pv_vhRows = [],
     pv_db = \<lparr>os_links = sample_links, os_owners = [],
       os_audit = \<lparr>au_logs = [], au_events = [], au_usage = [], au_now = 0, au_up = True\<rparr>\<rparr>,
     pv_signals = sample_signals\<rparr>"

definition sample_profiles :: sourcing_state where
  "sample_profiles = \<lparr>sx_profiles = [new_profile sample_sourcing ''t2'' ''5560001234''
       \<lparr>in_organisationNumber = ''5560001234'', in_generatedAt = '''', in_ownershipRiskScore = 7, in_anomalies = [],
        in_suspiciousPathFlags = [], in_hiddenOwnershipIndicators = [], in_nodes = 0, in_edges = 0,
        in_maxChainDepth = 0, in_potentialCycleNodes = 0, in_ownershipLinksCurrent = 0,
        in_beneficialOwnerRows = False, in_vhSnapshotPresent = False\<rparr>],
     sx_insights = \<lparr>ic_cache = (\<lambda>k. None), ic_hits = (\<lambda>k. 0), ic_queue = []\<rparr>\<rparr>"

theorem ensured_profiles_complete_witness:
  "set (map sq_organisationNumber (fst (ensure_profiles sample_sourcing ''t1''
     [''556000-1234'', ''12'', ''5560001234''] sample_profiles))) = {''5560001234''}"
proof -
  let ?nums = "[''556000-1234'', ''12'', ''5560001234'']"
  have v: "valid_orgs ?nums = [''5560001234'']"
    by (simp add: valid_orgs_def digits_only_def is_digit_def code_def valid_org_length_def distinct_in_order_def
      insert_new_def)
  have u: "unique_keys profile_key (sx_profiles sample_profiles)"
    by (simp add: sample_profiles_def unique_keys_def)
  obtain ps st' where e: "ensure_profiles sample_sourcing ''t1'' ?nums sample_profiles = (ps, st')"
    by (rule prod.exhaust)
  from ensured_profiles_complete [OF u e] have "set (map sq_organisationNumber ps) = set (valid_orgs ?nums)" by (rule conjunct1)
  then show ?thesis unfolding e v by (simp only: fst_conv list.set)
qed

section \<open>The fifths of the calibration\<close>

lemma sorted_take_drop:
  assumes "sorted xs" and "k \<le> n" and "x \<in> set (take k xs)" and "y \<in> set (drop n xs)"
  shows "x \<le> y"
proof -
  have "sorted (take n xs @ drop n xs)" using assms(1) by (simp only: append_take_drop_id)
  then show ?thesis
    using assms(4) subsetD [OF set_take_subset_set_take [OF assms(2)] assms(3)] by (simp only: sorted_append)
qed

text \<open>
  A calibration rests on 30 to 5000 companies; each of the top fifth scores at least as high as
  each of the bottom fifth, and none is in both.
\<close>

lemma backtest_fifths:
  assumes "backtest_deal_mode t m links profiles = Inr c"
  defines "xs \<equiv> ranked_orgs t m links profiles"
  shows "30 \<le> bt_sample_size c" "bt_sample_size c \<le> 5000" "bt_sample_size c = length xs"
    and "length (top_fifth xs) + length (bottom_fifth xs) \<le> length xs" "6 \<le> length (top_fifth xs)"
    and "x \<in> set (top_fifth xs) \<Longrightarrow> y \<in> set (bottom_fifth xs) \<Longrightarrow> ci_score y \<le> ci_score x"
proof -
  have n: "30 \<le> length xs" and c: "bt_sample_size c = length xs"
    using assms(1) by (auto simp: backtest_deal_mode_def xs_def [symmetric] min_sample_def Let_def split: if_splits)
  then show "30 \<le> bt_sample_size c" "bt_sample_size c = length xs" by simp_all
  show "bt_sample_size c \<le> 5000" using c by (simp add: xs_def ranked_orgs_def Let_def)
  show "length (top_fifth xs) + length (bottom_fifth xs) \<le> length xs" "6 \<le> length (top_fifth xs)"
    using n by (simp_all add: top_fifth_def bottom_fifth_def)
  have "sorted (map (\<lambda>x. - ci_score x) xs)" by (simp add: xs_def ranked_orgs_def Let_def)
  then have "- ci_score x \<le> - ci_score y" if "x \<in> set (top_fifth xs)" "y \<in> set (bottom_fifth xs)" for x y
    by (rule sorted_take_drop [of _ "length xs div 5" "length xs * 4 div 5"])
      (use that in \<open>auto simp: top_fifth_def bottom_fifth_def take_map drop_map\<close>)
  then show "ci_score y \<le> ci_score x" if "x \<in> set (top_fifth xs)" "y \<in> set (bottom_fifth xs)"
    using that by fastforce
qed

end
