(* ===== verification/CompanySearch.thy ===== *)
theory CompanySearch
  imports SourcingProfile SqlText "HOL-Library.AList"
begin

text \<open>
  The search of companies: \<open>CompaniesService.findAll\<close> with its cache and
  \<open>getSearchPerformance\<close> (backend/src/companies/companies.service.ts). A page is taken from the
  company index of the tenant, in the order asked for or by scores of the sourcing profiles,
  from the table of the bulk file, or from both. The collation of the database and the text of
  its JSON columns are parameters, and so are the times at which a call starts and ends.
\<close>

section \<open>Data\<close>

record company_row = indexed_company +
  cw_id :: string
  cw_legalName :: string
  cw_companyForm :: "string option"
  cw_countryCode :: string
  cw_createdAt :: int
  cw_updatedAt :: int

datatype depth_mode = DeepOnly | ShallowOnly | Merged

datatype sort_field = ByUpdatedAt | ByLegalName | ByCreatedAt | BySourcingRank | ByOwnershipRisk

record company_query =
  lq_q :: "string option"
  lq_orgNumber :: "string option"
  lq_status :: "string option"
  lq_formContains :: "string option"
  lq_industryContains :: "string option"
  lq_countryCode :: "string option"
  lq_hasReports :: "bool option"
  lq_officerContains :: "string option"
  lq_sortBy :: "sort_field option"
  lq_ascending :: "bool option"
  lq_dealMode :: "deal_mode option"
  lq_depthMode :: "depth_mode option"
  lq_page :: "nat option"
  lq_limit :: "nat option"

text \<open>
  A row of the answer; the columns that are not selected are absent, and with them the
  \<open>depth_state\<close> of the payload summary.
\<close>

record found_row =
  fw_id :: string
  fw_organisationNumber :: string
  fw_legalName :: string
  fw_status :: "string option"
  fw_companyForm :: "string option"
  fw_createdAt :: int
  fw_updatedAt :: int
  fw_depthSource :: "string option"
  fw_ownershipRiskScore :: "rat option"
  fw_dealModeScore :: "rat option"
  fw_dealModeRationale :: "string list"
  fw_depthState :: string
  fw_depthBadge :: string

record search_answer =
  sa_data :: "found_row list"
  sa_total :: nat
  sa_page :: nat
  sa_limit :: nat
  sa_hasNext :: bool
  sa_elapsedMs :: int
  sa_cacheHit :: bool

type_synonym cache_key = "string \<times> company_query \<times> bool"

record search_state =
  zs_companies :: "company_row list"
  zs_bulk :: "current_row list"
  zs_sourcing :: sourcing_state
  zs_audit :: audit_store
  zs_cache :: "(cache_key \<times> (int \<times> search_answer)) list"
  zs_latency :: "int list"

record search_env =
  ze_started :: int
  ze_ended :: int
  ze_collate :: "string \<Rightarrow> nat list"
  ze_jsonText :: "int json \<Rightarrow> string"
  ze_bulkId :: "current_row \<Rightarrow> string"
  ze_bulkCreated :: "current_row \<Rightarrow> int"
  ze_bulkUpdated :: "current_row \<Rightarrow> int"
  ze_sourcing :: sourcing_env

section \<open>The rows that match\<close>

definition contains_text :: "string \<Rightarrow> string \<Rightarrow> bool" where
  "contains_text needle s = ilike (''%'' @ needle @ ''%'') s"

definition strip_percent :: "string option \<Rightarrow> string" where
  "strip_percent s = trim (filter (\<lambda>c. c \<noteq> CHR ''%'') (or_default s []))"

definition when_text :: "string option \<Rightarrow> (string \<Rightarrow> bool) \<Rightarrow> bool" where
  "when_text s p = (case Option.bind s nonempty of None \<Rightarrow> True | Some x \<Rightarrow> p x)"

definition company_match :: "search_env \<Rightarrow> string \<Rightarrow> company_query \<Rightarrow> company_row \<Rightarrow> bool" where
  "company_match env tenantId q c \<longleftrightarrow>
     xc_tenantId c = tenantId \<and>
     when_text (lq_q q) (\<lambda>x. contains_text x (cw_legalName c)) \<and>
     when_text (lq_orgNumber q) (\<lambda>x. xc_organisationNumber c = x) \<and>
     when_text (lq_status q) (\<lambda>x. xc_status c = Some x) \<and>
     when_text (Some (strip_percent (lq_formContains q)))
       (\<lambda>x. case cw_companyForm c of None \<Rightarrow> False | Some f \<Rightarrow> contains_text x f) \<and>
     when_text (Some (strip_percent (lq_industryContains q)))
       (\<lambda>x. case xc_businessDescription c of None \<Rightarrow> False | Some d \<Rightarrow> contains_text x d) \<and>
     when_text (lq_countryCode q) (\<lambda>x. cw_countryCode c = x) \<and>
     (case lq_hasReports q of
        None \<Rightarrow> True
      | Some b \<Rightarrow> (case xc_financialReports c of JArr xs \<Rightarrow> (xs \<noteq> []) = b | _ \<Rightarrow> False)) \<and>
     when_text (Some (strip_percent (lq_officerContains q)))
       (\<lambda>x. contains_text x (ze_jsonText env (xc_officers c)))"

section \<open>Order\<close>

text \<open>\<open>ORDER BY key DESC\<close> on rows that keep their order where keys are equal.\<close>

definition sort_down :: "('r \<Rightarrow> 'k :: linorder) \<Rightarrow> 'r list \<Rightarrow> 'r list" where
  "sort_down key xs = rev (sort_key key (rev xs))"

definition by_id :: "company_row list \<Rightarrow> company_row list" where
  "by_id = sort_down (\<lambda>c. map code (cw_id c))"

text \<open>\<open>source_payload_summary->>key = 'true'\<close>\<close>

definition summary_true :: "string \<Rightarrow> company_row \<Rightarrow> bool" where
  "summary_true k c =
     (case map_of (xc_sourcePayloadSummary c) k of Some (JBool b) \<Rightarrow> b | Some (JStr s) \<Rightarrow> s = ''true'' | _ \<Rightarrow> False)"

text \<open>SQL's \<open>trim\<close> takes spaces only.\<close>

definition sql_trim :: "string \<Rightarrow> string" where
  "sql_trim s = rev (dropWhile (\<lambda>c. c = CHR '' '') (rev (dropWhile (\<lambda>c. c = CHR '' '') s)))"

definition sourcing_rank :: "company_row \<Rightarrow> int" where
  "sourcing_rank c =
     (if summary_true ''hasHighValueDataset'' c then 3 else 0) +
     (if summary_true ''hasRichOrganisationInformation'' c then 3 else 0) +
     (case xc_businessDescription c of None \<Rightarrow> 0 | Some d \<Rightarrow> if length (sql_trim d) \<ge> 24 then 2 else 0) +
     (case cw_companyForm c of None \<Rightarrow> 0 | Some f \<Rightarrow> if sql_trim f \<noteq> [] then 1 else 0)"

definition sort_companies :: "search_env \<Rightarrow> sort_field \<Rightarrow> bool \<Rightarrow> company_row list \<Rightarrow> company_row list" where
  "sort_companies env field ascending cs =
     (let dir = (\<lambda>k. if ascending then sort_key k else sort_down k)
      in case field of
           BySourcingRank \<Rightarrow> sort_down sourcing_rank (sort_down cw_updatedAt (by_id cs))
         | ByLegalName \<Rightarrow>
             (if ascending then sort_key (\<lambda>c. ze_collate env (cw_legalName c))
              else sort_down (\<lambda>c. ze_collate env (cw_legalName c))) (by_id cs)
         | ByCreatedAt \<Rightarrow> dir cw_createdAt (by_id cs)
         | _ \<Rightarrow> dir cw_updatedAt (by_id cs))"

section \<open>A page of the index\<close>

definition page_of :: "company_query \<Rightarrow> nat" where "page_of q = or_default (lq_page q) 1"
definition limit_of :: "company_query \<Rightarrow> nat" where "limit_of q = or_default (lq_limit q) 10"
definition offset_of :: "company_query \<Rightarrow> nat" where "offset_of q = (page_of q - 1) * limit_of q"

text \<open>The selected columns: the summary of the payload is not among them.\<close>

definition selected_row :: "company_row \<Rightarrow> found_row" where
  "selected_row c =
     \<lparr>fw_id = cw_id c, fw_organisationNumber = xc_organisationNumber c, fw_legalName = cw_legalName c,
      fw_status = xc_status c, fw_companyForm = cw_companyForm c, fw_createdAt = cw_createdAt c,
      fw_updatedAt = cw_updatedAt c, fw_depthSource = None, fw_ownershipRiskScore = None, fw_dealModeScore = None,
      fw_dealModeRationale = [], fw_depthState = [], fw_depthBadge = []\<rparr>"

definition score_row :: "deal_mode option \<Rightarrow> sourcing_profile list \<Rightarrow> company_row \<Rightarrow> found_row" where
  "score_row mode profiles c =
     (let p = find (\<lambda>p. sq_organisationNumber p = xc_organisationNumber c) (rev profiles)
      in (selected_row c)
           \<lparr>fw_ownershipRiskScore := Some (case p of None \<Rightarrow> 0 | Some p \<Rightarrow> sq_ownershipRiskScore p),
            fw_dealModeScore := map_option (\<lambda>m. case p of None \<Rightarrow> 0
              | Some p \<Rightarrow> or_default (map_of (sq_dealModeScores p) (deal_mode_text m)) 0) mode,
            fw_dealModeRationale := (case mode of None \<Rightarrow> [] | Some m \<Rightarrow> (case p of None \<Rightarrow> []
              | Some p \<Rightarrow> or_default (map_of (sq_dealModeRationale p) (deal_mode_text m)) []))\<rparr>)"

definition row_rank :: "deal_mode option \<Rightarrow> found_row \<Rightarrow> rat" where
  "row_rank mode r = (case mode of None \<Rightarrow> or_default (fw_ownershipRiskScore r) 0
     | Some m \<Rightarrow> or_default (fw_dealModeScore r) 0)"

definition needs_scoring :: "company_query \<Rightarrow> bool" where
  "needs_scoring q \<longleftrightarrow> or_default (lq_sortBy q) ByUpdatedAt = ByOwnershipRisk \<or> lq_dealMode q \<noteq> None"

definition candidate_limit :: "company_query \<Rightarrow> nat" where
  "candidate_limit q = max (limit_of q * 10) 120"

definition matching :: "search_env \<Rightarrow> string \<Rightarrow> company_query \<Rightarrow> search_state \<Rightarrow> company_row list" where
  "matching env tenantId q st = filter (company_match env tenantId q) (zs_companies st)"

definition plain_order :: "search_env \<Rightarrow> company_query \<Rightarrow> company_row list \<Rightarrow> company_row list" where
  "plain_order env q = sort_companies env (or_default (lq_sortBy q) ByUpdatedAt) (or_default (lq_ascending q) False)"

definition deep_page ::
  "search_env \<Rightarrow> string \<Rightarrow> company_query \<Rightarrow> search_state \<Rightarrow> found_row list \<times> nat \<times> sourcing_state" where
  "deep_page env tenantId q st =
     (let cs = matching env tenantId q st
      in if \<not> needs_scoring q
         then (map selected_row (take (limit_of q) (drop (offset_of q) (plain_order env q cs))), length cs, zs_sourcing st)
         else (let candidates = take (candidate_limit q) (sort_down cw_updatedAt (by_id cs));
                   (profiles, ss) = ensure_profiles (ze_sourcing env) tenantId (map xc_organisationNumber candidates)
                     (zs_sourcing st);
                   rows = sort_key (\<lambda>r. (- row_rank (lq_dealMode q) r, - fw_updatedAt r))
                     (map (score_row (lq_dealMode q) profiles) candidates)
               in (take (limit_of q) (drop (offset_of q) rows), length cs, ss)))"

section \<open>Rows of the bulk file\<close>

definition depth_badge :: "string \<Rightarrow> string" where
  "depth_badge s = (if s = ''ENRICHED'' then ''Enriched'' else if s = ''STALE_ENRICHED'' then ''Stale'' else ''Basic'')"

definition annotate_depth :: "found_row \<Rightarrow> found_row" where
  "annotate_depth r =
     (let s = to_upper (or_default (fw_depthSource r) ''ENRICHED'')
      in r\<lparr>fw_depthState := s, fw_depthBadge := depth_badge s\<rparr>)"

definition bulk_match :: "company_query \<Rightarrow> depth_mode \<Rightarrow> current_row \<Rightarrow> bool" where
  "bulk_match q mode b \<longleftrightarrow>
     when_text (lq_q q) (\<lambda>x. case bp_namePrimary (cu_payload b) of None \<Rightarrow> False | Some n \<Rightarrow> contains_text x n) \<and>
     when_text (lq_orgNumber q) (\<lambda>x. cu_org b = x) \<and>
     when_text (lq_countryCode q) (\<lambda>x. bp_registrationsCountryCode (cu_payload b) = Some x) \<and>
     (mode = ShallowOnly \<longrightarrow> cu_seedState b \<noteq> ''ENRICHED'')"

definition bulk_row :: "search_env \<Rightarrow> current_row \<Rightarrow> found_row" where
  "bulk_row env b =
     (let p = cu_payload b
      in \<lparr>fw_id = ze_bulkId env b, fw_organisationNumber = cu_org b,
          fw_legalName = or_default (bp_namePrimary p) (cu_org b),
          fw_status = Some (if bp_isDeregistered p then ''DEREGISTERED'' else ''ACTIVE''),
          fw_companyForm = or_else (bp_organisationFormText p) (bp_organisationFormCode p),
          fw_createdAt = ze_bulkCreated env b, fw_updatedAt = ze_bulkUpdated env b, fw_depthSource = None,
          fw_ownershipRiskScore = None, fw_dealModeScore = None, fw_dealModeRationale = [],
          fw_depthState = cu_seedState b, fw_depthBadge = depth_badge (cu_seedState b)\<rparr>)"

definition bulk_page :: "search_env \<Rightarrow> company_query \<Rightarrow> depth_mode \<Rightarrow> search_state \<Rightarrow> found_row list \<times> nat" where
  "bulk_page env q mode st =
     (let rows = sort_down (ze_bulkUpdated env) (filter (bulk_match q mode) (zs_bulk st))
      in (map (bulk_row env) (take (limit_of q) (drop (offset_of q) rows)), length rows))"

definition search_rows ::
  "search_env \<Rightarrow> string \<Rightarrow> company_query \<Rightarrow> search_state \<Rightarrow> found_row list \<times> nat \<times> sourcing_state" where
  "search_rows env tenantId q st =
     (let (rows, found, ss) = deep_page env tenantId q st;
          deep = map annotate_depth rows
      in case or_default (lq_depthMode q) DeepOnly of
           DeepOnly \<Rightarrow> (deep, found, ss)
         | ShallowOnly \<Rightarrow> (let (bulk, n) = bulk_page env q ShallowOnly st in (bulk, n, ss))
         | Merged \<Rightarrow>
             (let (bulk, n) = bulk_page env q Merged st;
                  merged = deep @ filter (\<lambda>r. fw_organisationNumber r \<notin> fw_organisationNumber ` set deep) bulk
              in (take (limit_of q) merged, max found (length merged), ss)))"

section \<open>The search\<close>

text \<open>The latencies of the last 300 calls.\<close>

definition note_latency :: "int \<Rightarrow> int list \<Rightarrow> int list" where
  "note_latency ms ls = (let ls = ls @ [ms] in if length ls > 300 then tl ls else ls)"

definition search_cache_get :: "int \<Rightarrow> cache_key \<Rightarrow> search_state \<Rightarrow> search_answer option" where
  "search_cache_get now k st = (case map_of (zs_cache st) k of
     None \<Rightarrow> None | Some (expiresAt, a) \<Rightarrow> if expiresAt > now then Some a else None)"

definition opt_text :: "string option \<Rightarrow> rat json" where
  "opt_text s = (case s of None \<Rightarrow> JNull | Some t \<Rightarrow> JStr t)"

definition depth_text :: "depth_mode \<Rightarrow> string" where
  "depth_text m = (case m of DeepOnly \<Rightarrow> ''deep_only'' | ShallowOnly \<Rightarrow> ''shallow_only'' | Merged \<Rightarrow> ''merged'')"

definition sort_text :: "sort_field \<Rightarrow> string" where
  "sort_text f = (case f of ByUpdatedAt \<Rightarrow> ''updatedAt'' | ByLegalName \<Rightarrow> ''legalName'' | ByCreatedAt \<Rightarrow> ''createdAt''
     | BySourcingRank \<Rightarrow> ''sourcing_rank'' | ByOwnershipRisk \<Rightarrow> ''ownership_risk'')"

definition search_metadata :: "company_query \<Rightarrow> bool \<Rightarrow> nat \<Rightarrow> rat members" where
  "search_metadata q via found =
     [(''q'', opt_text (lq_q q)), (''org_number'', opt_text (lq_orgNumber q)), (''status'', opt_text (lq_status q)),
      (''company_form_contains'', opt_text (nonempty (strip_percent (lq_formContains q)))),
      (''industry_contains'', opt_text (nonempty (strip_percent (lq_industryContains q)))),
      (''country_code'', opt_text (lq_countryCode q)),
      (''has_financial_reports'', case lq_hasReports q of None \<Rightarrow> JNull | Some b \<Rightarrow> JBool b),
      (''officer_role_contains'', opt_text (nonempty (strip_percent (lq_officerContains q)))),
      (''via'', JStr (if via then ''companies/search'' else ''companies'')),
      (''depth_mode'', JStr (depth_text (or_default (lq_depthMode q) DeepOnly))),
      (''deal_mode'', opt_text (map_option deal_mode_text (lq_dealMode q))),
      (''sort_by'', JStr (sort_text (or_default (lq_sortBy q) ByUpdatedAt))),
      (''sort_dir'', JStr (if or_default (lq_ascending q) False then ''asc'' else ''desc'')),
      (''page'', JNum (of_nat (page_of q))), (''limit'', JNum (of_nat (limit_of q))), (''total'', JNum (of_nat found))]"

text \<open>\<open>findAll\<close>\<close>

definition find_all ::
  "search_env \<Rightarrow> string \<Rightarrow> string option \<Rightarrow> company_query \<Rightarrow> bool \<Rightarrow> search_state \<Rightarrow> search_answer \<times> search_state" where
  "find_all env tenantId actorId q via st =
     (let key = (tenantId, q, via); ms = ze_ended env - ze_started env
      in case search_cache_get (ze_started env) key st of
           Some a \<Rightarrow> (a\<lparr>sa_elapsedMs := ms, sa_cacheHit := True\<rparr>, st\<lparr>zs_latency := note_latency ms (zs_latency st)\<rparr>)
         | None \<Rightarrow>
             (let (rows, found, ss) = search_rows env tenantId q st;
                  a = \<lparr>sa_data = rows, sa_total = found, sa_page = page_of q, sa_limit = limit_of q,
                    sa_hasNext = (offset_of q + length rows < found), sa_elapsedMs = ms, sa_cacheHit = False\<rparr>
              in (a, st\<lparr>zs_sourcing := ss,
                   zs_audit := audit_log \<lparr>al_tenantId = tenantId, al_actorId = actorId, al_action = ''company.search'',
                     al_resourceType = ''company'', al_resourceId = or_default (or_else (lq_q q) (lq_orgNumber q)) ''*'',
                     al_metadata = Some (search_metadata q via found)\<rparr> (zs_audit st),
                   zs_latency := note_latency ms (zs_latency st),
                   zs_cache := AList.update key (ze_ended env + 30000, a) (zs_cache st)\<rparr>)))"

text \<open>\<open>getSearchPerformance\<close>; a quantile is given in hundredths.\<close>

record search_performance =
  pe_samples :: nat
  pe_p50 :: int
  pe_p95 :: int
  pe_p99 :: int
  pe_targetMet :: "bool option"

definition pick_quantile :: "int list \<Rightarrow> nat \<Rightarrow> int" where
  "pick_quantile xs q = (if xs = [] then 0 else xs ! min (length xs - 1) (length xs * q div 100))"

definition search_performance_of :: "search_state \<Rightarrow> search_performance" where
  "search_performance_of st =
     (let xs = sort (zs_latency st)
      in \<lparr>pe_samples = length xs, pe_p50 = pick_quantile xs 50, pe_p95 = pick_quantile xs 95,
          pe_p99 = pick_quantile xs 99,
          pe_targetMet = (if xs = [] then None else Some (pick_quantile xs 95 \<le> 200))\<rparr>)"

section \<open>Pages\<close>

lemma matching_page [simp]: "company_match env t (q\<lparr>lq_page := p\<rparr>) = company_match env t q"
  by (rule ext) (simp add: company_match_def)

lemma query_page_simps [simp]:
  "limit_of (q\<lparr>lq_page := p\<rparr>) = limit_of q" "needs_scoring (q\<lparr>lq_page := p\<rparr>) = needs_scoring q"
  "plain_order env (q\<lparr>lq_page := p\<rparr>) = plain_order env q" "matching env t (q\<lparr>lq_page := p\<rparr>) st = matching env t q st"
  "page_of (q\<lparr>lq_page := Some n\<rparr>) = n" "candidate_limit (q\<lparr>lq_page := p\<rparr>) = candidate_limit q"
  by (simp_all add: limit_of_def needs_scoring_def plain_order_def matching_def page_of_def candidate_limit_def)

lemma concat_mapped: "concat (map (\<lambda>p. map f (g p)) xs) = map f (concat (map g xs))"
  by (simp add: map_concat comp_def)

lemma search_rows_deep:
  assumes "or_default (lq_depthMode q) DeepOnly = DeepOnly"
  shows "search_rows env t q st = (map annotate_depth (fst (deep_page env t q st)), snd (deep_page env t q st))"
  using assms by (simp add: search_rows_def split_beta Let_def)

text \<open>
  The pages of a search of the index that needs no scores are, put together, exactly the
  matching companies of the tenant in the order asked for, each once, and the total counts them.
\<close>

theorem search_pages_complete:
  assumes "or_default (lq_depthMode q) DeepOnly = DeepOnly" and "\<not> needs_scoring q"
    and "length (matching env t q st) \<le> n * limit_of q"
  shows "concat (map (\<lambda>p. fst (search_rows env t (q\<lparr>lq_page := Some (p + 1)\<rparr>) st)) [0..<n]) =
      map (annotate_depth \<circ> selected_row) (plain_order env q (matching env t q st)) \<and>
    fst (snd (search_rows env t q st)) = length (matching env t q st)"
proof -
  let ?rows = "plain_order env q (matching env t q st)"
  have m: "or_default (lq_depthMode (q\<lparr>lq_page := x\<rparr>)) DeepOnly = DeepOnly" for x using assms(1) by simp
  have o: "offset_of (q\<lparr>lq_page := Some (p + 1)\<rparr>) = p * limit_of q" for p by (simp add: offset_of_def)
  have "fst (search_rows env t (q\<lparr>lq_page := Some (p + 1)\<rparr>) st) =
      map (annotate_depth \<circ> selected_row) (take (limit_of q) (drop (p * limit_of q) ?rows))" for p
    using assms(2) by (simp only: search_rows_deep [OF m]) (simp add: deep_page_def Let_def o del: One_nat_def)
  moreover have "length ?rows = length (matching env t q st)"
    by (simp add: plain_order_def sort_companies_def by_id_def sort_down_def Let_def split: sort_field.split)
  ultimately have "concat (map (\<lambda>p. fst (search_rows env t (q\<lparr>lq_page := Some (p + 1)\<rparr>) st)) [0..<n]) =
      map (annotate_depth \<circ> selected_row) ?rows"
    using pages_concat [of "limit_of q" ?rows n] assms(3)
      concat_mapped [of "annotate_depth \<circ> selected_row" "\<lambda>p. take (limit_of q) (drop (p * limit_of q) ?rows)"] by simp
  then show ?thesis using assms(1,2) by (simp add: search_rows_deep deep_page_def Let_def)
qed

definition sample_company :: "string \<Rightarrow> string \<Rightarrow> int \<Rightarrow> company_row" where
  "sample_company tenantId org updated =
     \<lparr>xc_tenantId = tenantId, xc_organisationNumber = org, xc_status = Some ''ACTIVE'', xc_businessDescription = None,
      xc_signatoryText = None, xc_officers = JArr [], xc_shareInformation = JObj [], xc_financialReports = JArr [],
      xc_sourcePayloadSummary = [(''depth_state'', JStr ''BULK_ONLY'')], cw_id = org, cw_legalName = ''Bolag '' @ org,
      cw_companyForm = Some ''Aktiebolag'', cw_countryCode = ''SE'', cw_createdAt = 0, cw_updatedAt = updated\<rparr>"

definition any_query :: company_query where
  "any_query = \<lparr>lq_q = None, lq_orgNumber = None, lq_status = None, lq_formContains = None, lq_industryContains = None,
     lq_countryCode = None, lq_hasReports = None, lq_officerContains = None, lq_sortBy = None, lq_ascending = None,
     lq_dealMode = None, lq_depthMode = None, lq_page = None, lq_limit = Some 1\<rparr>"

definition plain_env :: search_env where
  "plain_env = \<lparr>ze_started = 0, ze_ended = 5, ze_collate = map code, ze_jsonText = (\<lambda>j. ''''), ze_bulkId = cu_org,
     ze_bulkCreated = (\<lambda>b. 0), ze_bulkUpdated = (\<lambda>b. 0), ze_sourcing = sample_sourcing\<rparr>"

definition two_companies :: search_state where
  "two_companies = \<lparr>zs_companies = [sample_company ''t'' ''5560000001'' 1, sample_company ''u'' ''5560000002'' 2,
      sample_company ''t'' ''5560000003'' 3], zs_bulk = [], zs_sourcing = sample_profiles, zs_audit = empty_audit,
     zs_cache = [], zs_latency = []\<rparr>"

lemma two_matching: "map xc_organisationNumber (matching plain_env ''t'' any_query two_companies) = [''5560000001'', ''5560000003'']"
  by (simp add: matching_def company_match_def when_text_def strip_percent_def trim_def any_query_def two_companies_def
    sample_company_def)

theorem search_pages_complete_witness:
  "length (concat (map (\<lambda>p. fst (search_rows plain_env ''t'' (any_query\<lparr>lq_page := Some (p + 1)\<rparr>) two_companies)) [0..<2])) = 2"
proof -
  have l: "length (matching plain_env ''t'' any_query two_companies) = 2"
    using arg_cong [OF two_matching, of length] by simp
  have q: "or_default (lq_depthMode any_query) DeepOnly = DeepOnly" "\<not> needs_scoring any_query" "limit_of any_query = 1"
    by (simp_all add: any_query_def needs_scoring_def limit_of_def)
  have "length (plain_order plain_env any_query (matching plain_env ''t'' any_query two_companies)) = 2"
    using l by (simp add: plain_order_def sort_companies_def by_id_def sort_down_def Let_def split: sort_field.split)
  then show ?thesis using search_pages_complete [OF q(1,2), of plain_env "''t''" two_companies 2] l q(3) by simp
qed

section \<open>Pages that are lost\<close>

text \<open>
  With scores only the newest candidates are ranked, ten pages of them or 120: a page behind
  them is empty although the answer says, before and on it, that more rows follow.
\<close>

theorem scored_pages_end:
  assumes "or_default (lq_depthMode q) DeepOnly = DeepOnly" and "needs_scoring q"
    and "candidate_limit q \<le> offset_of q" and "offset_of q < length (matching env t q st)"
    and "search_cache_get (ze_started env) (t, q, via) st = None"
  shows "sa_data (fst (find_all env t a q via st)) = [] \<and> sa_hasNext (fst (find_all env t a q via st)) \<and>
    sa_total (fst (find_all env t a q via st)) = length (matching env t q st)"
proof -
  have "length (take (candidate_limit q) xs) \<le> offset_of q" for xs :: "company_row list" using assms(3) by simp
  then have "fst (deep_page env t q st) = []" "fst (snd (deep_page env t q st)) = length (matching env t q st)"
    using assms(2) by (simp_all add: deep_page_def Let_def split_beta)
  then show ?thesis
    using assms(1,4,5) by (simp add: find_all_def Let_def split_beta search_rows_deep)
qed

text \<open>
  Every row of the index is shown as enriched, as the summary of the payload that says otherwise
  is not among the selected columns.
\<close>

lemma index_rows_shown_enriched:
  "fw_depthState (annotate_depth (selected_row c)) = ''ENRICHED'' \<and>
   fw_depthBadge (annotate_depth (selected_row c)) = ''Enriched''"
  by (simp add: annotate_depth_def selected_row_def Let_def depth_badge_def upper_char_def is_lower_def code_def)

text \<open>The search of the bulk file does not look at status, form, industry, reports and officers.\<close>

lemma shallow_search_ignores_filters:
  assumes "lq_depthMode q = Some ShallowOnly"
  shows "fst (search_rows env t (q\<lparr>lq_status := s, lq_formContains := f, lq_industryContains := i, lq_hasReports := r,
      lq_officerContains := o'\<rparr>) st) = fst (search_rows env t q st)"
proof -
  have "bulk_match (q\<lparr>lq_status := s, lq_formContains := f, lq_industryContains := i, lq_hasReports := r,
      lq_officerContains := o'\<rparr>) m = bulk_match q m" for m
    by (rule ext) (simp add: bulk_match_def)
  then show ?thesis
    using assms by (simp add: search_rows_def split_beta Let_def bulk_page_def limit_of_def offset_of_def page_of_def)
qed

text \<open>In the merged view a full page of the index leaves no room for rows of the bulk file.\<close>

lemma full_page_hides_bulk:
  assumes "lq_depthMode q = Some Merged" and "length (fst (deep_page env t q st)) = limit_of q"
  shows "fst (search_rows env t q st) = map annotate_depth (fst (deep_page env t q st))"
  using assms by (simp add: search_rows_def split_beta Let_def)

theorem scored_pages_end_witness:
  "\<exists>q st. sa_data (fst (find_all plain_env ''t'' None q False st)) = [] \<and> sa_hasNext (fst (find_all plain_env ''t'' None q False st))"
proof -
  let ?q = "any_query\<lparr>lq_sortBy := Some ByOwnershipRisk, lq_page := Some 121\<rparr>"
  let ?st = "two_companies\<lparr>zs_companies := replicate 121 (sample_company ''t'' ''5560000001'' 1)\<rparr>"
  have "company_match plain_env ''t'' ?q (sample_company ''t'' ''5560000001'' 1)"
    by (simp add: company_match_def when_text_def strip_percent_def trim_def any_query_def sample_company_def)
  then have "matching plain_env ''t'' ?q ?st = replicate 121 (sample_company ''t'' ''5560000001'' 1)"
    by (simp add: matching_def filter_replicate)
  moreover have "or_default (lq_depthMode ?q) DeepOnly = DeepOnly" "needs_scoring ?q" "candidate_limit ?q = 120"
      "offset_of ?q = 120"
    by (simp_all add: any_query_def needs_scoring_def candidate_limit_def offset_of_def page_of_def limit_of_def)
  moreover have "search_cache_get (ze_started plain_env) (''t'', ?q, False) ?st = None"
    by (simp add: search_cache_get_def two_companies_def)
  ultimately show ?thesis
    using scored_pages_end [of ?q plain_env "''t''" ?st False None]
    by (intro exI [of _ ?q] exI [of _ ?st]) (simp)
qed

section \<open>Tenants\<close>

text \<open>
  The searches of the tenants of a service, one after another, while the index and the bulk file
  stay as they are.
\<close>

record search_call =
  sk_env :: search_env
  sk_tenant :: string
  sk_actor :: "string option"
  sk_query :: company_query
  sk_via :: bool

definition run_search :: "search_call \<Rightarrow> search_state \<Rightarrow> search_answer \<times> search_state" where
  "run_search k st = find_all (sk_env k) (sk_tenant k) (sk_actor k) (sk_query k) (sk_via k) st"

fun run_searches :: "search_call list \<Rightarrow> search_state \<Rightarrow> search_state" where
  "run_searches [] st = st"
| "run_searches (k # ks) st = run_searches ks (snd (run_search k st))"

text \<open>The organisations of a row are in the tenant's index or in the bulk file.\<close>

definition visible :: "search_state \<Rightarrow> string \<Rightarrow> found_row \<Rightarrow> bool" where
  "visible st t r \<longleftrightarrow>
     (\<exists>c \<in> set (zs_companies st). xc_tenantId c = t \<and> fw_id r = cw_id c \<and> fw_organisationNumber r = xc_organisationNumber c) \<or>
     (\<exists>b \<in> set (zs_bulk st). fw_organisationNumber r = cu_org b)"

definition cache_visible :: "search_state \<Rightarrow> bool" where
  "cache_visible st \<longleftrightarrow> (\<forall>(k, (e, a)) \<in> set (zs_cache st). list_all (visible st (fst k)) (sa_data a))"

lemma set_sort_down [simp]: "set (sort_down k xs) = set xs"
  by (simp add: sort_down_def)

lemma set_by_id [simp]: "set (by_id xs) = set xs"
  by (simp add: by_id_def)

lemma set_sort_companies [simp]: "set (sort_companies env f a cs) = set cs"
  by (simp add: sort_companies_def Let_def split: sort_field.split)

lemma selected_row_simps [simp]:
  "fw_id (selected_row c) = cw_id c" "fw_organisationNumber (selected_row c) = xc_organisationNumber c"
  "fw_updatedAt (selected_row c) = cw_updatedAt c"
  "fw_id (score_row m ps c) = cw_id c" "fw_organisationNumber (score_row m ps c) = xc_organisationNumber c"
  "fw_id (annotate_depth r) = fw_id r" "fw_organisationNumber (annotate_depth r) = fw_organisationNumber r"
  by (simp_all add: selected_row_def score_row_def annotate_depth_def Let_def)

lemma deep_page_source:
  assumes "r \<in> set (fst (deep_page env t q st))"
  shows "\<exists>c \<in> set (zs_companies st). xc_tenantId c = t \<and> fw_id r = cw_id c \<and> fw_organisationNumber r = xc_organisationNumber c"
proof -
  have m: "set (matching env t q st) \<subseteq> {c \<in> set (zs_companies st). xc_tenantId c = t}"
    by (auto simp: matching_def company_match_def)
  show ?thesis
    using assms m
    by (auto simp: deep_page_def Let_def split_beta plain_order_def dest!: in_set_takeD in_set_dropD split: if_splits) blast+
qed

lemma bulk_page_source:
  assumes "r \<in> set (fst (bulk_page env q m st))"
  shows "\<exists>b \<in> set (zs_bulk st). fw_organisationNumber r = cu_org b"
proof -
  obtain b where "b \<in> set (take (limit_of q) (drop (offset_of q) (sort_down (ze_bulkUpdated env) (filter (bulk_match q m) (zs_bulk st)))))"
      "r = bulk_row env b"
    using assms by (auto simp: bulk_page_def Let_def)
  then have "b \<in> set (zs_bulk st)" by (auto dest!: in_set_takeD in_set_dropD)
  then show ?thesis using \<open>r = bulk_row env b\<close> by (auto simp: bulk_row_def Let_def)
qed

lemma search_rows_visible: "list_all (visible st t) (fst (search_rows env t q st))"
proof -
  have d: "visible st t (annotate_depth r)" if "r \<in> set (fst (deep_page env t q st))" for r
    using deep_page_source [OF that] by (auto simp: visible_def)
  have b: "visible st t r" if "r \<in> set (fst (bulk_page env q m st))" for r m
    using bulk_page_source [OF that] by (auto simp: visible_def)
  show ?thesis
    using d b
    by (auto simp: search_rows_def split_beta Let_def list_all_iff dest!: in_set_takeD split: depth_mode.split)
qed

lemma search_cache_getD: "search_cache_get now k st = Some a \<Longrightarrow> \<exists>e. (k, (e, a)) \<in> set (zs_cache st)"
  by (auto simp: search_cache_get_def split: option.splits if_splits dest!: map_of_SomeD)

lemma visible_same: "zs_companies st' = zs_companies st \<Longrightarrow> zs_bulk st' = zs_bulk st \<Longrightarrow> visible st' = visible st"
  by (intro ext) (simp add: visible_def)

lemma set_update_subset: "set (AList.update k v al) \<subseteq> insert (k, v) (set al)"
  by (induction al) auto

lemma run_search_visible:
  assumes "cache_visible st"
  shows "list_all (visible st (sk_tenant k)) (sa_data (fst (run_search k st)))"
    and "cache_visible (snd (run_search k st))"
    and "zs_companies (snd (run_search k st)) = zs_companies st" "zs_bulk (snd (run_search k st)) = zs_bulk st"
proof -
  show s: "zs_companies (snd (run_search k st)) = zs_companies st" "zs_bulk (snd (run_search k st)) = zs_bulk st"
    by (simp_all add: run_search_def find_all_def Let_def split_beta split: option.split)
  note v = visible_same [OF s]
  show "list_all (visible st (sk_tenant k)) (sa_data (fst (run_search k st)))"
  proof (cases "search_cache_get (ze_started (sk_env k)) (sk_tenant k, sk_query k, sk_via k) st")
    case None
    then show ?thesis using search_rows_visible by (simp add: run_search_def find_all_def Let_def split_beta)
  next
    case (Some a)
    then show ?thesis
      using search_cache_getD [OF Some] assms by (auto simp: run_search_def find_all_def Let_def cache_visible_def)
  qed
  show "cache_visible (snd (run_search k st))"
  proof (cases "search_cache_get (ze_started (sk_env k)) (sk_tenant k, sk_query k, sk_via k) st")
    case None
    then have "zs_cache (snd (run_search k st)) = AList.update (sk_tenant k, sk_query k, sk_via k)
        (ze_ended (sk_env k) + 30000, fst (run_search k st)) (zs_cache st)"
      by (simp add: run_search_def find_all_def Let_def split_beta)
    then have "set (zs_cache (snd (run_search k st))) \<subseteq> insert ((sk_tenant k, sk_query k, sk_via k),
        (ze_ended (sk_env k) + 30000, fst (run_search k st))) (set (zs_cache st))"
      by (simp add: set_update_subset)
    moreover have "list_all (visible st (sk_tenant k)) (sa_data (fst (run_search k st)))"
      using None search_rows_visible by (simp add: run_search_def find_all_def Let_def split_beta)
    ultimately show ?thesis using assms v unfolding cache_visible_def by fastforce
  next
    case (Some a)
    then have "zs_cache (snd (run_search k st)) = zs_cache st" by (simp add: run_search_def find_all_def Let_def)
    then show ?thesis using assms v by (simp add: cache_visible_def)
  qed
qed

lemma run_searches_keep:
  assumes "cache_visible st"
  shows "cache_visible (run_searches ks st) \<and> zs_companies (run_searches ks st) = zs_companies st \<and>
    zs_bulk (run_searches ks st) = zs_bulk st"
  using assms by (induction ks arbitrary: st) (simp_all add: run_search_visible)

text \<open>
  C16: Whatever searches the tenants make, in any order and served from the cache or not, every
  row of an answer is a company of the index of the tenant that asked or of the public bulk file.
\<close>

theorem search_stays_in_tenant:
  assumes "zs_cache st = []"
  shows "list_all (visible st (sk_tenant k)) (sa_data (fst (run_search k (run_searches ks st))))"
proof -
  have "cache_visible st" using assms by (simp add: cache_visible_def)
  from run_searches_keep [OF this, of ks] have c: "cache_visible (run_searches ks st)"
      "zs_companies (run_searches ks st) = zs_companies st" "zs_bulk (run_searches ks st) = zs_bulk st" by simp_all
  show ?thesis using run_search_visible(1) [OF c(1), of k] unfolding visible_same [OF c(2,3)] .
qed

theorem search_stays_in_tenant_witness:
  "list_all (visible two_companies ''u'') (sa_data (fst (run_search
     \<lparr>sk_env = plain_env, sk_tenant = ''u'', sk_actor = None, sk_query = any_query, sk_via = False\<rparr>
     (run_searches [\<lparr>sk_env = plain_env, sk_tenant = ''t'', sk_actor = None, sk_query = any_query, sk_via = False\<rparr>]
       two_companies))))"
proof -
  have c: "zs_cache two_companies = []" by (simp add: two_companies_def)
  show ?thesis
    using search_stays_in_tenant [OF c, of "\<lparr>sk_env = plain_env, sk_tenant = ''u'', sk_actor = None,
        sk_query = any_query, sk_via = False\<rparr>"]
    by (simp only: search_call.simps)
qed

section \<open>Latencies\<close>

lemma run_search_latency:
  assumes "length (zs_latency st) \<le> 300"
  shows "length (zs_latency (snd (run_search k st))) \<le> 300"
proof -
  have "length (note_latency ms (zs_latency st)) \<le> 300" for ms using assms by (simp add: note_latency_def Let_def)
  then show ?thesis by (simp add: run_search_def find_all_def Let_def split_beta split: option.split)
qed

lemma pick_quantile_mono:
  assumes "sorted xs" and "p \<le> q"
  shows "pick_quantile xs p \<le> pick_quantile xs q"
proof (cases "xs = []")
  case True
  then show ?thesis by (simp add: pick_quantile_def)
next
  case False
  have "length xs * p div 100 \<le> length xs * q div 100" using assms(2) by (simp add: div_le_mono)
  then have "min (length xs - 1) (length xs * p div 100) \<le> min (length xs - 1) (length xs * q div 100)" by linarith
  moreover have "min (length xs - 1) (length xs * q div 100) < length xs" using False by (simp add: min.strict_coboundedI1)
  ultimately show ?thesis using False assms(1) by (simp add: pick_quantile_def sorted_nth_mono)
qed

text \<open>The report is about at most 300 calls, and its quantiles are in order.\<close>

lemma run_searches_latency: "length (zs_latency st) \<le> 300 \<Longrightarrow> length (zs_latency (run_searches ks st)) \<le> 300"
proof (induction ks arbitrary: st)
  case (Cons k ks)
  show ?case unfolding run_searches.simps by (rule Cons.IH [OF run_search_latency [OF Cons.prems]])
qed simp

lemma search_performance_bounds:
  assumes "zs_latency st = []"
  shows "pe_samples (search_performance_of (run_searches ks st)) \<le> 300 \<and>
    pe_p50 (search_performance_of (run_searches ks st)) \<le> pe_p95 (search_performance_of (run_searches ks st)) \<and>
    pe_p95 (search_performance_of (run_searches ks st)) \<le> pe_p99 (search_performance_of (run_searches ks st))"
proof -
  have "length (zs_latency (run_searches ks st)) \<le> 300" using run_searches_latency [of st ks] by (simp add: assms)
  then show ?thesis by (simp add: search_performance_of_def Let_def pick_quantile_mono)
qed

end
