(* ===== verification/CompanyInsight.thy ===== *)
theory CompanyInsight
  imports CompanySearch
begin

text \<open>
  Companies side by side: \<open>compareCompanies\<close>, \<open>getDecisionInsight\<close> and
  \<open>findSimilarCompanies\<close> of \<open>CompaniesService\<close> (backend/src/companies/companies.service.ts) and
  \<open>CompanyDecisionService\<close> (backend/src/companies/services/company-decision.service.ts). Statements,
  signals and ownership links are those of the environment the sourcing profiles are built from.
  Weighted sums are exact rationals.
\<close>

section \<open>Reading\<close>

definition company_of :: "string \<Rightarrow> string \<Rightarrow> search_state \<Rightarrow> company_row option" where
  "company_of tenantId org st =
     find_one (\<lambda>c. xc_tenantId c = tenantId \<and> xc_organisationNumber c = org) (zs_companies st)"

definition statements_of :: "string \<Rightarrow> string \<Rightarrow> search_env \<Rightarrow> financial_statement list" where
  "statements_of tenantId org env =
     filter (\<lambda>f. fs_tenantId f = tenantId \<and> fs_organisationNumber f = org) (ss_statements (pv_signals (ze_sourcing env)))"

definition newest_statement :: "string \<Rightarrow> string \<Rightarrow> search_env \<Rightarrow> financial_statement option" where
  "newest_statement tenantId org env = latest_statement tenantId org (pv_signals (ze_sourcing env))"

definition links_of :: "search_env \<Rightarrow> ownership_link list" where
  "links_of env = os_links (pv_db (ze_sourcing env))"

definition signal_types_of :: "string \<Rightarrow> string \<Rightarrow> search_env \<Rightarrow> string list" where
  "signal_types_of tenantId org env =
     sort_key (ze_collate env) (remdups (map sg_signalType (filter (\<lambda>r. sg_tenantId r = tenantId \<and>
       sg_organisationNumber r = org) (ss_signals (pv_signals (ze_sourcing env))))))"

definition newest_signals :: "string \<Rightarrow> string \<Rightarrow> search_env \<Rightarrow> signal_entity list" where
  "newest_signals tenantId org env =
     List.map_filter (\<lambda>t. latest_signal tenantId org t (pv_signals (ze_sourcing env))) (signal_types_of tenantId org env)"

definition score_of :: "string \<Rightarrow> signal_entity list \<Rightarrow> rat option" where
  "score_of t rows = map_option of_int (Option.bind (find (\<lambda>r. sg_signalType r = t) rows) sg_score)"

section \<open>Comparison\<close>

record compared_financials =
  cf_fiscalYear :: "string option"
  cf_revenue :: "rat option"
  cf_netResult :: "rat option"
  cf_totalAssets :: "rat option"
  cf_totalEquity :: "rat option"
  cf_equityRatio :: "rat option"
  cf_statementsCount :: nat

record compared_row =
  cp_organisationNumber :: string
  cp_company :: "company_row option"
  cp_currentEdges :: nat
  cp_ownershipRiskScore :: rat
  cp_financials :: compared_financials
  cp_signals :: "signal_entity list"

definition financials_of :: "financial_statement list \<Rightarrow> financial_statement option \<Rightarrow> compared_financials" where
  "financials_of fs latest =
     (case latest of
        None \<Rightarrow> \<lparr>cf_fiscalYear = None, cf_revenue = None, cf_netResult = None, cf_totalAssets = None,
          cf_totalEquity = None, cf_equityRatio = None, cf_statementsCount = 0\<rparr>
      | Some f \<Rightarrow> \<lparr>cf_fiscalYear = Some (fs_fiscalYear f), cf_revenue = fs_revenue f, cf_netResult = fs_netResult f,
          cf_totalAssets = fs_totalAssets f, cf_totalEquity = fs_totalEquity f,
          cf_equityRatio = equity_ratio f,
          cf_statementsCount = length fs\<rparr>)"

definition compared_row_of ::
  "search_env \<Rightarrow> string \<Rightarrow> search_state \<Rightarrow> sourcing_profile list \<Rightarrow> string \<Rightarrow> compared_row" where
  "compared_row_of env tenantId st profiles org =
     \<lparr>cp_organisationNumber = org, cp_company = company_of tenantId org st,
      cp_currentEdges = current_edges tenantId org (links_of env),
      cp_ownershipRiskScore = (case find (\<lambda>p. sq_organisationNumber p = org) (rev profiles) of
        None \<Rightarrow> 0 | Some p \<Rightarrow> sq_ownershipRiskScore p),
      cp_financials = financials_of (statements_of tenantId org env) (newest_statement tenantId org env),
      cp_signals = newest_signals tenantId org env\<rparr>"

type_synonym compare_cache = "((string \<times> nat \<times> string list) \<times> (int \<times> compared_row list)) list"

definition compared_orgs :: "string list \<Rightarrow> string list" where
  "compared_orgs organisationNumbers = take 8 (valid_orgs organisationNumbers)"

text \<open>The rows, \<open>None\<close> when fewer than two numbers are valid.\<close>

definition compare_companies ::
  "search_env \<Rightarrow> string \<Rightarrow> string option \<Rightarrow> string list \<Rightarrow> nat option \<Rightarrow> search_state \<times> compare_cache \<Rightarrow>
   compared_row list option \<times> search_state \<times> compare_cache" where
  "compare_companies env tenantId actorId organisationNumbers years s =
     (let os = compared_orgs organisationNumbers; (st, cache) = s
      in if length os < 2 then (None, s)
         else (let key = (tenantId, or_default years 4, os)
               in case (case map_of cache key of None \<Rightarrow> None
                     | Some (expiresAt, rows) \<Rightarrow> if expiresAt > ze_started env then Some rows else None) of
                    Some rows \<Rightarrow> (Some rows, s)
                  | None \<Rightarrow>
                      (let (profiles, ss) = ensure_profiles (ze_sourcing env) tenantId os (zs_sourcing st);
                           rows = map (compared_row_of env tenantId st profiles) os
                       in (Some rows,
                           st\<lparr>zs_sourcing := ss,
                             zs_audit := audit_log \<lparr>al_tenantId = tenantId, al_actorId = actorId,
                               al_action = ''company.compare'', al_resourceType = ''company'',
                               al_resourceId = join '','' os,
                               al_metadata = Some [(''compared'', JNum (of_nat (length rows))),
                                 (''orgs'', JArr (map JStr os))]\<rparr> (zs_audit st)\<rparr>,
                           AList.update key (ze_ended env + 120000, rows) cache))))"

section \<open>Insight\<close>

text \<open>\<open>n.toFixed(1)\<close>\<close>

definition signed_text :: "rat \<Rightarrow> string" where
  "signed_text x = (if x < 0 then ''-'' @ fixed_text (- x) else fixed_text x)"

definition score_text :: "rat option \<Rightarrow> string" where
  "score_text x = (case x of None \<Rightarrow> ''n/a'' | Some n \<Rightarrow> signed_text n)"

record insight =
  ig_organisationNumber :: string
  ig_legalName :: string
  ig_summary :: string
  ig_recommendedAction :: string
  ig_confidence :: string
  ig_drivers :: "(string \<times> rat json) list"

text \<open>\<open>getDecisionInsight\<close>; \<open>dash\<close> is the dash of the sentence.\<close>

definition recommended_action :: "rat option \<Rightarrow> rat option \<Rightarrow> rat option \<Rightarrow> string" where
  "recommended_action acquisition stress readiness =
     (if or_default acquisition 0 \<ge> 70 \<and> or_default stress 100 \<le> 45 then ''Prioritize outreach''
      else if or_default stress 0 \<ge> 70 then ''High-risk diligence''
      else if or_default readiness 0 \<ge> 65 then ''Prepare approach hypothesis''
      else ''Monitor'')"

definition rat_json :: "rat option \<Rightarrow> rat json" where
  "rat_json x = (case x of None \<Rightarrow> JNull | Some n \<Rightarrow> JNum n)"

definition year_json :: "financial_statement option \<Rightarrow> rat json" where
  "year_json f = (case f of None \<Rightarrow> JNull | Some x \<Rightarrow> JStr (fs_fiscalYear x))"

definition get_decision_insight ::
  "string \<Rightarrow> search_env \<Rightarrow> string \<Rightarrow> string \<Rightarrow> search_state \<Rightarrow> insight result" where
  "get_decision_insight dash env tenantId raw st =
     (let org = digits_only raw
      in if \<not> valid_org_length org then Inl (NotFound ''Invalid organisation number'')
         else case company_of tenantId org st of
           None \<Rightarrow> Inl (NotFound ''Company not found'')
         | Some c \<Rightarrow>
             (let sigs = newest_signals tenantId org env; fin = newest_statement tenantId org env;
                  edges = current_edges tenantId org (links_of env);
                  acquisition = score_of ''acquisition_likelihood'' sigs; stress = score_of ''financial_stress'' sigs;
                  readiness = score_of ''seller_readiness'' sigs;
                  complexity = score_of ''compliance_ownership_complexity'' sigs;
                  act = recommended_action acquisition stress readiness
              in Inr \<lparr>ig_organisationNumber = org, ig_legalName = cw_legalName c,
                   ig_summary = cw_legalName c @ '': acquisition '' @ score_text acquisition @ '', stress '' @
                     score_text stress @ '', readiness '' @ score_text readiness @ '' '' @ dash @ '' '' @ to_lower act @ ''.'',
                   ig_recommendedAction = act,
                   ig_confidence = (if length sigs \<ge> 4 \<and> fin \<noteq> None then ''high''
                     else if length sigs \<ge> 2 then ''medium'' else ''low''),
                   ig_drivers = [(''acquisition_likelihood'', rat_json acquisition), (''financial_stress'', rat_json stress),
                     (''seller_readiness'', rat_json readiness),
                     (''compliance_ownership_complexity'', rat_json complexity),
                     (''ownership_edges_current'', JNum (of_nat edges)),
                     (''latest_financial_statement_year'', year_json fin)]\<rparr>))"

section \<open>Similar companies\<close>

datatype similar_mode = SameForm | SameIndustry | SimilarFinancials | SimilarOwnership

definition similar_mode_text :: "similar_mode \<Rightarrow> string" where
  "similar_mode_text m = (case m of SameForm \<Rightarrow> ''form'' | SameIndustry \<Rightarrow> ''industry'' | SimilarFinancials \<Rightarrow> ''financial''
     | SimilarOwnership \<Rightarrow> ''ownership'')"

definition parse_similar_mode :: "string option \<Rightarrow> similar_mode" where
  "parse_similar_mode raw =
     (let m = to_lower (or_default raw ''form'')
      in if m = ''industry'' then SameIndustry else if m = ''financial'' then SimilarFinancials
         else if m = ''ownership'' then SimilarOwnership else SameForm)"

text \<open>\<open>replace(/\s+/g, ' ')\<close>\<close>

fun collapse_space :: "string \<Rightarrow> string" where
  "collapse_space [] = []"
| "collapse_space (c # s) =
     (if is_space c then (if s \<noteq> [] \<and> is_space (hd s) then collapse_space s else CHR '' '' # collapse_space s)
      else c # collapse_space s)"

definition industry_snippet :: "(string \<Rightarrow> string) \<Rightarrow> string option \<Rightarrow> string option" where
  "industry_snippet nfkc text =
     Option.bind (Option.bind text nonempty) (\<lambda>x. let t = trim (collapse_space (nfkc x))
       in if length t < 8 then None else Some (take 96 t))"

record similar_answer =
  sm_data :: "company_row list"
  sm_total :: nat
  sm_anchor :: string
  sm_strategy :: string
  sm_companyForm :: "string option"
  sm_snippet :: "string option"
  sm_anchorCount :: "nat option"

definition no_similar :: "string \<Rightarrow> string \<Rightarrow> string option \<Rightarrow> nat option \<Rightarrow> similar_answer" where
  "no_similar org strategy form n =
     \<lparr>sm_data = [], sm_total = 0, sm_anchor = org, sm_strategy = strategy, sm_companyForm = form, sm_snippet = None,
      sm_anchorCount = n\<rparr>"

text \<open>\<open>GROUP BY\<close> organisation with \<open>COUNT\<close>, other than the anchor; nearest counts first.\<close>

definition org_buckets :: "string \<Rightarrow> string list \<Rightarrow> (string \<times> nat) list" where
  "org_buckets anchor os = map (\<lambda>x. (x, length (filter (\<lambda>y. y = x) os))) (remdups (filter (\<lambda>x. x \<noteq> anchor) os))"

definition rank_buckets :: "nat \<Rightarrow> (string \<times> nat) list \<Rightarrow> (string \<times> nat) list" where
  "rank_buckets n bs = sort_key (\<lambda>(x, k). (\<bar>int k - int n\<bar>, - int k)) bs"

definition similar_metadata :: "similar_answer \<Rightarrow> similar_mode \<Rightarrow> nat \<Rightarrow> rat members" where
  "similar_metadata a m limit =
     [(''strategy'', JStr (sm_strategy a))] @
     (case m of SameForm \<Rightarrow> [(''companyForm'', opt_text (sm_companyForm a))] | _ \<Rightarrow> []) @
     [(''limit'', JNum (of_nat limit)), (''total'', JNum (of_nat (sm_total a))), (''mode'', JStr (similar_mode_text m))] @
     (case m of SameIndustry \<Rightarrow> [(''industrySnippet'', opt_text (sm_snippet a))]
      | SimilarFinancials \<Rightarrow> [(''anchorFinancialReportsCount'', case sm_anchorCount a of None \<Rightarrow> JNull | Some n \<Rightarrow> JNum (of_nat n))]
      | SimilarOwnership \<Rightarrow> [(''anchorOfficersCount'', case sm_anchorCount a of None \<Rightarrow> JNull | Some n \<Rightarrow> JNum (of_nat n))]
      | _ \<Rightarrow> [])"

definition array_length :: "int json \<Rightarrow> nat" where
  "array_length j = (case j of JArr xs \<Rightarrow> length xs | _ \<Rightarrow> 0)"

text \<open>The answer for the modes that compare counts.\<close>

definition by_counts ::
  "string \<Rightarrow> string \<Rightarrow> string \<Rightarrow> string \<Rightarrow> nat \<Rightarrow> nat \<Rightarrow> string list \<Rightarrow> company_row \<Rightarrow> search_state \<Rightarrow> bool \<times> similar_answer" where
  "by_counts tenantId anchor none strategy n k os ref st =
     (if n = 0 then (False, no_similar anchor none (cw_companyForm ref) (Some 0))
      else (let bs = org_buckets anchor os
            in if bs = [] then (False, no_similar anchor none (cw_companyForm ref) (Some n))
               else (let ranked = map fst (rank_buckets n bs);
                         data = List.map_filter (\<lambda>x. company_of tenantId x st) (take k ranked)
                     in (True, \<lparr>sm_data = data, sm_total = length ranked, sm_anchor = anchor, sm_strategy = strategy,
                          sm_companyForm = cw_companyForm ref, sm_snippet = None, sm_anchorCount = Some n\<rparr>))))"

definition by_predicate ::
  "(company_row \<Rightarrow> bool) \<Rightarrow> nat \<Rightarrow> similar_answer \<Rightarrow> search_state \<Rightarrow> bool \<times> similar_answer" where
  "by_predicate p k a st =
     (let rows = sort_down cw_updatedAt (filter p (zs_companies st))
      in (True, a\<lparr>sm_data := take k rows, sm_total := length rows\<rparr>))"

definition similar_for ::
  "(string \<Rightarrow> string) \<Rightarrow> search_env \<Rightarrow> string \<Rightarrow> string \<Rightarrow> nat \<Rightarrow> similar_mode \<Rightarrow> company_row \<Rightarrow> search_state \<Rightarrow> bool \<times> similar_answer" where
  "similar_for nfkc env tenantId anchor k m ref st =
     (let other = (\<lambda>c. xc_tenantId c = tenantId \<and> xc_organisationNumber c \<noteq> anchor)
      in case m of
           SameForm \<Rightarrow>
             (case Option.bind (cw_companyForm ref) (\<lambda>f. nonempty (trim f)) of
                None \<Rightarrow> (False, no_similar anchor ''no_company_form'' None None)
              | Some f \<Rightarrow> by_predicate (\<lambda>c. other c \<and> cw_companyForm c = Some f) k
                  (no_similar anchor ''same_company_form'' (Some f) None) st)
         | SameIndustry \<Rightarrow>
             (case industry_snippet nfkc (xc_businessDescription ref) of
                None \<Rightarrow> (False, no_similar anchor ''no_industry_text'' (cw_companyForm ref) None)
              | Some s \<Rightarrow> by_predicate (\<lambda>c. other c \<and>
                    (case xc_businessDescription c of None \<Rightarrow> False | Some d \<Rightarrow> contains_text s d)) k
                  ((no_similar anchor ''industry_narrative_overlap'' (cw_companyForm ref) None)\<lparr>sm_snippet := Some s\<rparr>) st)
         | SimilarFinancials \<Rightarrow>
             (let os = map fs_organisationNumber (filter (\<lambda>f. fs_tenantId f = tenantId)
                    (ss_statements (pv_signals (ze_sourcing env))));
                  cnt = length (statements_of tenantId anchor env);
                  n = (if cnt > 0 then cnt else array_length (xc_financialReports ref))
              in by_counts tenantId anchor ''no_financial_reports'' ''financial_report_count_proximity'' n k os ref st)
         | SimilarOwnership \<Rightarrow>
             (let os = map lk_ownedOrganisationNumber (filter (\<lambda>l. lk_tenantId l = tenantId \<and> lk_isCurrent l) (links_of env));
                  cnt = current_edges tenantId anchor (links_of env);
                  n = (if cnt > 0 then cnt else array_length (xc_officers ref))
              in by_counts tenantId anchor ''no_officers'' ''officer_count_proximity'' n k os ref st))"

definition find_similar ::
  "(string \<Rightarrow> string) \<Rightarrow> search_env \<Rightarrow> string \<Rightarrow> string option \<Rightarrow> string \<Rightarrow> int \<Rightarrow> string option \<Rightarrow> search_state \<Rightarrow>
   similar_answer \<times> search_state" where
  "find_similar nfkc env tenantId actorId organisationNumber limit raw st =
     (let m = parse_similar_mode raw; anchor = digits_only organisationNumber
      in if \<not> valid_org_length anchor then (no_similar anchor ''invalid_org'' None None, st)
         else case company_of tenantId anchor st of
           None \<Rightarrow> (no_similar anchor ''not_indexed'' None None, st)
         | Some ref \<Rightarrow>
             (let k = nat (min (max limit 1) 50);
                  (found, a) = similar_for nfkc env tenantId anchor k m ref st
              in (a, if found
                  then st\<lparr>zs_audit := audit_log \<lparr>al_tenantId = tenantId, al_actorId = actorId,
                    al_action = ''company.similar'', al_resourceType = ''company'', al_resourceId = anchor,
                    al_metadata = Some (similar_metadata a m k)\<rparr> (zs_audit st)\<rparr>
                  else st)))"

section \<open>Decisions\<close>

text \<open>\<open>CompanyDecisionService\<close>\<close>

datatype decision_mode = PrivateEquity | Credit | Compliance

definition decision_mode_text :: "decision_mode \<Rightarrow> string" where
  "decision_mode_text m = (case m of PrivateEquity \<Rightarrow> ''pe'' | Credit \<Rightarrow> ''credit'' | Compliance \<Rightarrow> ''compliance'')"

definition all_decision_modes :: "decision_mode list" where
  "all_decision_modes = [PrivateEquity, Credit, Compliance]"

definition normalize_mode :: "string option \<Rightarrow> decision_mode" where
  "normalize_mode raw =
     (let m = to_lower (or_default raw ''pe'')
      in if m = ''credit'' then Credit else if m = ''compliance'' then Compliance else PrivateEquity)"

type_synonym scores = "(string \<times> rat option) list"

definition decision_types :: "string list" where
  "decision_types = [''acquisition_likelihood'', ''ownership_transition_probability'', ''seller_readiness'',
     ''growth_vs_stagnation'', ''compliance_ownership_complexity'', ''financial_stress'', ''board_network_signals'']"

definition score_map :: "signal_entity list \<Rightarrow> scores" where
  "score_map sigs = map (\<lambda>t. (t, score_of t sigs)) decision_types"

definition score_or_zero :: "scores \<Rightarrow> string \<Rightarrow> rat" where
  "score_or_zero s k = (case map_of s k of Some (Some x) \<Rightarrow> x | _ \<Rightarrow> 0)"

definition decision_composite :: "decision_mode \<Rightarrow> scores \<Rightarrow> rat" where
  "decision_composite m s =
     (let acq = score_or_zero s ''acquisition_likelihood''; transition = score_or_zero s ''ownership_transition_probability'';
          readiness = score_or_zero s ''seller_readiness''; growth = score_or_zero s ''growth_vs_stagnation'';
          complexity = score_or_zero s ''compliance_ownership_complexity''; stress = score_or_zero s ''financial_stress'';
          network = score_or_zero s ''board_network_signals''
      in case m of
           PrivateEquity \<Rightarrow> acq * 28 / 100 + readiness * 22 / 100 + growth * 2 / 10 + network * 12 / 100 +
             transition * 1 / 10 - stress * 6 / 100 - complexity * 4 / 100
         | Credit \<Rightarrow> (100 - stress) * 4 / 10 + growth * 18 / 100 + (100 - complexity) * 16 / 100 + network * 1 / 10 +
             readiness * 8 / 100 + acq * 8 / 100
         | Compliance \<Rightarrow> (100 - complexity) * 34 / 100 + (100 - stress) * 24 / 100 + transition * 16 / 100 +
             network * 1 / 10 + readiness * 8 / 100 + growth * 8 / 100)"

definition decision_action :: "decision_mode \<Rightarrow> scores \<Rightarrow> string" where
  "decision_action m s =
     (let composite = decision_composite m s; stress = score_or_zero s ''financial_stress'';
          readiness = score_or_zero s ''seller_readiness''; complexity = score_or_zero s ''compliance_ownership_complexity''
      in case m of
           PrivateEquity \<Rightarrow> if composite \<ge> 68 \<and> stress \<le> 50 then ''Prioritize outreach''
             else if stress \<ge> 70 then ''Watchlist / turnaround''
             else if readiness \<ge> 65 then ''Prepare approach hypothesis'' else ''Monitor''
         | Credit \<Rightarrow> if stress \<ge> 75 then ''Tighten terms / high-risk review''
             else if composite \<ge> 70 then ''Credit-approve candidate'' else ''Further covenant diligence''
         | Compliance \<Rightarrow> if complexity \<ge> 72 then ''Enhanced compliance diligence''
             else if composite \<ge> 72 then ''Standard diligence path'' else ''Monitor compliance signals'')"

record decision_snapshot =
  ds_id :: string
  ds_tenantId :: string
  ds_organisationNumber :: string
  ds_strategyMode :: decision_mode
  ds_legalName :: string
  ds_summary :: string
  ds_recommendedAction :: string
  ds_confidence :: string
  ds_drivers :: "(string \<times> rat json) list"
  ds_scores :: scores
  ds_createdAt :: int

text \<open>\<open>generateInsight\<close>; of the links only the five newest are read.\<close>

definition decision_insight ::
  "string \<Rightarrow> search_env \<Rightarrow> string \<Rightarrow> string \<Rightarrow> decision_mode \<Rightarrow> search_state \<Rightarrow> (insight \<times> scores) result" where
  "decision_insight dash env tenantId raw m st =
     (let org = digits_only raw
      in if \<not> valid_org_length org then Inl (NotFound ''Invalid organisation number'')
         else case company_of tenantId org st of
           None \<Rightarrow> Inl (NotFound ''Company not found'')
         | Some c \<Rightarrow>
             (let sigs = newest_signals tenantId org env; fin = newest_statement tenantId org env;
                  edges = min 5 (current_edges tenantId org (links_of env));
                  s = score_map sigs; composite = decision_composite m s; act = decision_action m s;
                  stress = score_of ''financial_stress'' sigs; readiness = score_of ''seller_readiness'' sigs
              in Inr (\<lparr>ig_organisationNumber = org, ig_legalName = cw_legalName c,
                   ig_summary = cw_legalName c @ '': '' @ to_upper (decision_mode_text m) @ '' composite '' @
                     signed_text composite @ '' with stress '' @ score_text stress @ '' and readiness '' @
                     score_text readiness @ '' '' @ dash @ '' '' @ to_lower act @ ''.'',
                   ig_recommendedAction = act,
                   ig_confidence = (if length sigs \<ge> 5 \<and> fin \<noteq> None \<and> edges > 0 then ''high''
                     else if length sigs \<ge> 3 then ''medium'' else ''low''),
                   ig_drivers = [(decision_mode_text m @ ''.composite'', JNum (to_fixed 1 composite)),
                     (''financial_stress'', rat_json stress), (''seller_readiness'', rat_json readiness),
                     (''ownership_edges_current'', JNum (of_nat edges)), (''latest_fiscal_year'', year_json fin)]\<rparr>, s)))"

definition generate_insight ::
  "string \<Rightarrow> search_env \<Rightarrow> string \<Rightarrow> string \<Rightarrow> string \<Rightarrow> decision_mode \<Rightarrow> bool \<Rightarrow> search_state \<Rightarrow> decision_snapshot list \<Rightarrow>
   insight result \<times> decision_snapshot list" where
  "generate_insight dash env newId tenantId raw m persist st ds =
     (case decision_insight dash env tenantId raw m st of
        Inl e \<Rightarrow> (Inl e, ds)
      | Inr (i, s) \<Rightarrow> (Inr i, if persist
          then ds @ [\<lparr>ds_id = newId, ds_tenantId = tenantId, ds_organisationNumber = ig_organisationNumber i,
            ds_strategyMode = m, ds_legalName = ig_legalName i, ds_summary = ig_summary i,
            ds_recommendedAction = ig_recommendedAction i, ds_confidence = ig_confidence i, ds_drivers = ig_drivers i,
            ds_scores = s, ds_createdAt = ze_ended env\<rparr>]
          else ds))"

text \<open>\<open>generateAndPersistAllModes\<close>; an error ends the loop.\<close>

fun persist_modes ::
  "string \<Rightarrow> search_env \<Rightarrow> (decision_mode \<Rightarrow> string) \<Rightarrow> string \<Rightarrow> string \<Rightarrow> decision_mode list \<Rightarrow> search_state \<Rightarrow>
   decision_snapshot list \<Rightarrow> insight list result \<times> decision_snapshot list" where
  "persist_modes dash env ids tenantId raw [] st ds = (Inr [], ds)"
| "persist_modes dash env ids tenantId raw (m # ms) st ds =
     (case generate_insight dash env (ids m) tenantId raw m True st ds of
        (Inl e, ds) \<Rightarrow> (Inl e, ds)
      | (Inr i, ds) \<Rightarrow> (case persist_modes dash env ids tenantId raw ms st ds of
            (Inl e, ds) \<Rightarrow> (Inl e, ds) | (Inr is, ds) \<Rightarrow> (Inr (i # is), ds)))"

definition persist_all_modes ::
  "string \<Rightarrow> search_env \<Rightarrow> (decision_mode \<Rightarrow> string) \<Rightarrow> string \<Rightarrow> string \<Rightarrow> search_state \<Rightarrow> decision_snapshot list \<Rightarrow>
   insight list result \<times> decision_snapshot list" where
  "persist_all_modes dash env ids tenantId raw = persist_modes dash env ids tenantId raw all_decision_modes"

definition decision_history ::
  "string \<Rightarrow> string \<Rightarrow> string option \<Rightarrow> int \<Rightarrow> decision_snapshot list \<Rightarrow> decision_snapshot list result" where
  "decision_history tenantId raw mode limit ds =
     (let org = digits_only raw
      in if \<not> valid_org_length org then Inl (NotFound ''Invalid organisation number'')
         else Inr (take (nat (min (max limit 1) 200))
           (find_desc (\<lambda>d. ds_tenantId d = tenantId \<and> ds_organisationNumber d = org \<and>
             ds_strategyMode d = normalize_mode mode) ds_createdAt ds)))"

section \<open>Similar companies are sound\<close>

lemma company_of_Some: "company_of t x st = Some c \<Longrightarrow> c \<in> set (zs_companies st) \<and> xc_tenantId c = t \<and> xc_organisationNumber c = x"
  unfolding company_of_def by (drule find_one_SomeD) simp

definition similar_to :: "string \<Rightarrow> string \<Rightarrow> search_state \<Rightarrow> company_row \<Rightarrow> bool" where
  "similar_to t anchor st c \<longleftrightarrow> c \<in> set (zs_companies st) \<and> xc_tenantId c = t \<and> xc_organisationNumber c \<noteq> anchor"

lemma length_map_filter: "length (List.map_filter f xs) \<le> length xs"
  by (simp add: List.map_filter_def)

lemma in_map_filter: "y \<in> set (List.map_filter f xs) \<Longrightarrow> \<exists>x \<in> set xs. f x = Some y"
  by (auto simp: List.map_filter_def intro: bexI)

lemma set_rank_buckets: "x \<in> set (map fst (rank_buckets n (org_buckets anchor os))) \<Longrightarrow> x \<noteq> anchor \<and> x \<in> set os"
  by (auto simp: rank_buckets_def org_buckets_def)

lemma by_counts_sound:
  assumes "by_counts t anchor none strategy n k os ref st = (b, a)"
  shows "list_all (similar_to t anchor st) (sm_data a) \<and> length (sm_data a) \<le> k \<and> length (sm_data a) \<le> sm_total a"
proof (cases "n = 0 \<or> org_buckets anchor os = []")
  case True
  then have "a = no_similar anchor none (cw_companyForm ref) (Some n)" using assms by (auto simp: by_counts_def Let_def split: if_splits)
  then show ?thesis by (simp add: no_similar_def)
next
  case False
  let ?top = "take k (map fst (rank_buckets n (org_buckets anchor os)))"
  have d: "sm_data a = List.map_filter (\<lambda>x. company_of t x st) ?top"
    "sm_total a = length (rank_buckets n (org_buckets anchor os))"
    using assms False by (auto simp: by_counts_def Let_def)
  have "similar_to t anchor st c" if "c \<in> set (sm_data a)" for c
  proof -
    obtain x where x: "x \<in> set ?top" "company_of t x st = Some c"
      using in_map_filter [OF \<open>c \<in> set (sm_data a)\<close> [unfolded d]] by blast
    have "x \<noteq> anchor" using set_rank_buckets [OF in_set_takeD [OF x(1)]] by simp
    then show ?thesis using company_of_Some [OF x(2)] by (simp add: similar_to_def)
  qed
  moreover have "length (sm_data a) \<le> length ?top" unfolding d by (rule length_map_filter)
  ultimately show ?thesis using d(2) by (simp add: list_all_iff)
qed

lemma by_predicate_sound:
  assumes "by_predicate p k a0 st = (b, a)" and "\<And>c. p c \<Longrightarrow> xc_tenantId c = t \<and> xc_organisationNumber c \<noteq> anchor"
  shows "list_all (similar_to t anchor st) (sm_data a) \<and> length (sm_data a) \<le> k \<and> length (sm_data a) \<le> sm_total a"
proof -
  let ?rows = "sort_down cw_updatedAt (filter p (zs_companies st))"
  have a: "sm_data a = take k ?rows" "sm_total a = length ?rows" using assms(1) by (auto simp: by_predicate_def Let_def)
  have "similar_to t anchor st c" if "c \<in> set (sm_data a)" for c
  proof -
    have "c \<in> set ?rows" using that unfolding a by (rule in_set_takeD)
    then show ?thesis using assms(2) by (auto simp: similar_to_def)
  qed
  then show ?thesis using a by (simp add: list_all_iff)
qed

text \<open>
  In every mode the similar companies are companies of the tenant's index other than the
  anchor, at most fifty and at most as many as asked for, and never more than the total.
\<close>

theorem similar_companies_sound:
  "let a = fst (find_similar nfkc env t actor org limit mode st)
   in list_all (similar_to t (digits_only org) st) (sm_data a) \<and> length (sm_data a) \<le> nat (min (max limit 1) 50) \<and>
      length (sm_data a) \<le> sm_total a"
proof -
  let ?k = "nat (min (max limit 1) 50)" and ?anchor = "digits_only org"
  have n: "list_all (similar_to t ?anchor st) (sm_data (no_similar x s f c)) \<and> length (sm_data (no_similar x s f c)) \<le> k \<and>
      length (sm_data (no_similar x s f c)) \<le> sm_total (no_similar x s f c)" for x s f c k
    by (simp add: no_similar_def)
  have "list_all (similar_to t ?anchor st) (sm_data a) \<and> length (sm_data a) \<le> k \<and> length (sm_data a) \<le> sm_total a"
    if "similar_for nfkc env t ?anchor k m ref st = (b, a)" for k m ref b a
  proof (cases m)
    case SameForm
    then show ?thesis
      using that n by_predicate_sound [where t = t and anchor = ?anchor]
      by (auto simp: similar_for_def Let_def split: option.splits)
  next
    case SameIndustry
    then show ?thesis
      using that n by_predicate_sound [where t = t and anchor = ?anchor]
      by (auto simp: similar_for_def Let_def split: option.splits)
  next
    case SimilarFinancials
    then show ?thesis using that by_counts_sound by (auto simp: similar_for_def Let_def)
  next
    case SimilarOwnership
    then show ?thesis using that by_counts_sound by (auto simp: similar_for_def Let_def)
  qed
  note sound = this
  show ?thesis
  proof (cases "valid_org_length ?anchor \<and> company_of t ?anchor st \<noteq> None")
    case False
    then show ?thesis using n by (auto simp: find_similar_def Let_def)
  next
    case True
    then obtain ref where ref: "company_of t ?anchor st = Some ref" by auto
    obtain b a where a: "similar_for nfkc env t ?anchor ?k (parse_similar_mode mode) ref st = (b, a)" by (metis prod.collapse)
    show ?thesis using sound [OF a] True ref a by (simp add: find_similar_def Let_def)
  qed
qed

section \<open>The nearest companies come first\<close>

lemma rank_buckets_sorted: "sorted (map (\<lambda>(x, k). \<bar>int k - int n\<bar>) (rank_buckets n bs))"
proof -
  have "sorted (map (\<lambda>(x, k). (\<bar>int k - int n\<bar>, - int k)) (rank_buckets n bs))" by (simp add: rank_buckets_def)
  then show ?thesis
    unfolding sorted_map by (rule sorted_wrt_mono_rel [rotated]) (auto simp: less_eq_prod_def split: prod.splits)
qed

section \<open>Comparison keeps the order asked for\<close>

lemma compared_orgs_distinct: "distinct (compared_orgs os) \<and> length (compared_orgs os) \<le> 8 \<and> list_all valid_org_length (compared_orgs os)"
proof -
  have "distinct (valid_orgs os)" "set (valid_orgs os) = set (filter valid_org_length (map digits_only os))"
    by (simp_all add: valid_orgs_def)
  then show ?thesis by (auto simp: compared_orgs_def list_all_iff dest!: in_set_takeD)
qed

text \<open>
  A comparison has a row for each of the first eight different valid numbers, in the order
  in which they were given, and the same request within two minutes gets the same rows.
\<close>

theorem comparison_ordered_and_kept:
  assumes "compare_companies env t actor os years (st, []) = (Some rows, st', cache)"
    and "ze_started env' < ze_ended env + 120000"
  shows "map cp_organisationNumber rows = compared_orgs os \<and>
    compare_companies env' t actor' os years (st', cache) = (Some rows, st', cache)"
proof -
  have two: "\<not> length (compared_orgs os) < 2" using assms(1) by (auto simp: compare_companies_def Let_def split: if_splits)
  then have rows: "rows = map (compared_row_of env t st (fst (ensure_profiles (ze_sourcing env) t (compared_orgs os)
      (zs_sourcing st)))) (compared_orgs os)"
    and cache: "cache = [((t, or_default years 4, compared_orgs os), (ze_ended env + 120000, rows))]"
    using assms(1) by (auto simp: compare_companies_def Let_def split_beta)
  have "map cp_organisationNumber rows = compared_orgs os"
    by (simp add: rows comp_def compared_row_of_def)
  then show ?thesis using two assms(2) by (simp add: compare_companies_def Let_def cache)
qed

theorem comparison_ordered_and_kept_witness:
  "\<exists>rows st' cache. compare_companies plain_env ''t'' None [''556000-0003'', ''5560000001''] None (two_companies, []) =
      (Some rows, st', cache) \<and> map cp_organisationNumber rows = [''5560000003'', ''5560000001'']"
proof -
  have os: "compared_orgs [''556000-0003'', ''5560000001''] = [''5560000003'', ''5560000001'']" by code_simp
  obtain rows st' cache where r: "compare_companies plain_env ''t'' None [''556000-0003'', ''5560000001''] None (two_companies, []) =
      (Some rows, st', cache)"
    by (simp add: compare_companies_def Let_def os split_beta)
  have "ze_started plain_env < ze_ended plain_env + 120000" by (simp add: plain_env_def)
  from comparison_ordered_and_kept [OF r this] show ?thesis using r os by auto
qed

section \<open>The range of a decision\<close>

definition scored :: "scores \<Rightarrow> bool" where
  "scored s \<longleftrightarrow> (\<forall>k x. map_of s k = Some (Some x) \<longrightarrow> 0 \<le> x \<and> x \<le> 100)"

lemma score_or_zero_range: "scored s \<Longrightarrow> 0 \<le> score_or_zero s k \<and> score_or_zero s k \<le> 100"
  by (auto simp: scored_def score_or_zero_def split: option.split)

lemma credit_range:
  fixes a b c d e f :: rat
  assumes "0 \<le> a \<and> a \<le> 100" "0 \<le> b \<and> b \<le> 100" "0 \<le> c \<and> c \<le> 100" "0 \<le> d \<and> d \<le> 100" "0 \<le> e \<and> e \<le> 100"
    "0 \<le> f \<and> f \<le> 100"
  shows "(100 - a) * 4 / 10 + b * 18 / 100 + (100 - c) * 16 / 100 + d * 1 / 10 + e * 8 / 100 + f * 8 / 100 \<in> {0..100}"
  using assms by (simp add: field_simps)

lemma compliance_range:
  fixes a b c d e f :: rat
  assumes "0 \<le> a \<and> a \<le> 100" "0 \<le> b \<and> b \<le> 100" "0 \<le> c \<and> c \<le> 100" "0 \<le> d \<and> d \<le> 100" "0 \<le> e \<and> e \<le> 100"
    "0 \<le> f \<and> f \<le> 100"
  shows "(100 - a) * 34 / 100 + (100 - b) * 24 / 100 + c * 16 / 100 + d * 1 / 10 + e * 8 / 100 + f * 8 / 100 \<in> {0..100}"
  using assms by (simp add: field_simps)

lemma equity_range:
  fixes a b c d e f g :: rat
  assumes "0 \<le> a \<and> a \<le> 100" "0 \<le> b \<and> b \<le> 100" "0 \<le> c \<and> c \<le> 100" "0 \<le> d \<and> d \<le> 100" "0 \<le> e \<and> e \<le> 100"
    "0 \<le> f \<and> f \<le> 100" "0 \<le> g \<and> g \<le> 100"
  shows "a * 28 / 100 + b * 22 / 100 + c * 2 / 10 + d * 12 / 100 + e * 1 / 10 - f * 6 / 100 - g * 4 / 100 \<in> {-10..92}"
proof -
  have "100 * (a * 28 / 100 + b * 22 / 100 + c * 2 / 10 + d * 12 / 100 + e * 1 / 10 - f * 6 / 100 - g * 4 / 100) =
      28 * a + 22 * b + 20 * c + 12 * d + 10 * e - 6 * f - 4 * g" by simp
  moreover have "- 1000 \<le> 28 * a + 22 * b + 20 * c + 12 * d + 10 * e - 6 * f - 4 * g"
    "28 * a + 22 * b + 20 * c + 12 * d + 10 * e - 6 * f - 4 * g \<le> 9200"
    using assms by simp_all
  ultimately show ?thesis unfolding atLeastAtMost_iff by linarith
qed

text \<open>
  The composite of a decision for credit or compliance is a percentage; the one for private
  equity reaches from -10 to 92 only, although it is reported as a score from 0 to 100.
\<close>

theorem composite_range:
  assumes "scored s"
  shows "decision_composite Credit s \<in> {0..100} \<and> decision_composite Compliance s \<in> {0..100} \<and>
    decision_composite PrivateEquity s \<in> {-10..92}"
proof -
  note r = score_or_zero_range [OF assms]
  show ?thesis
    unfolding decision_composite_def Let_def decision_mode.case
    by (rule conjI [OF credit_range [OF r r r r r r] conjI [OF compliance_range [OF r r r r r r]
      equity_range [OF r r r r r r r]]])
qed

definition worst_scores :: scores where
  "worst_scores = [(''financial_stress'', Some 100), (''compliance_ownership_complexity'', Some 100)]"

theorem composite_range_witness:
  "decision_composite PrivateEquity worst_scores = - 10 \<and> decision_composite Credit worst_scores \<in> {0..100}"
proof -
  have "scored worst_scores" by (auto simp: scored_def worst_scores_def split: if_splits)
  from composite_range [OF this] show ?thesis
    by (simp add: decision_composite_def score_or_zero_def worst_scores_def Let_def)
qed

text \<open>
  A company without a signal of stress is judged like one without stress: a signal that
  arrives can only lower its composite in every mode, and without it the credit decision never
  asks for tighter terms.
\<close>

theorem missing_stress_counts_as_none:
  assumes "map_of s ''financial_stress'' = Some None" and "0 \<le> x"
  shows "decision_composite m (put_member ''financial_stress'' (Some x) s) \<le> decision_composite m s \<and>
    decision_action Credit s \<noteq> ''Tighten terms / high-risk review''"
proof -
  have p: "map_of (put_member k v s) k' = (if k' = k then Some v else map_of s k')" for k k' and v :: "rat option"
    by (induction s) auto
  have z: "score_or_zero (put_member ''financial_stress'' (Some x) s) k =
      (if k = ''financial_stress'' then x else score_or_zero s k)" for k
    by (simp add: score_or_zero_def p)
  have s0: "score_or_zero s ''financial_stress'' = 0" using assms(1) by (simp add: score_or_zero_def)
  have "decision_composite m (put_member ''financial_stress'' (Some x) s) \<le> decision_composite m s"
    using assms(2) by (cases m) (simp_all add: decision_composite_def Let_def z s0)
  then show ?thesis by (simp add: decision_action_def Let_def s0)
qed

theorem missing_stress_counts_as_none_witness:
  "decision_action Credit [(''financial_stress'', None), (''growth_vs_stagnation'', Some 100)] \<noteq> ''Tighten terms / high-risk review'' \<and>
   decision_action Credit [(''financial_stress'', None), (''growth_vs_stagnation'', Some 100)] = ''Credit-approve candidate''"
  using missing_stress_counts_as_none [of "[(''financial_stress'', None), (''growth_vs_stagnation'', Some 100)]" 0]
  by (simp add: decision_action_def decision_composite_def score_or_zero_def Let_def)

text \<open>The insight of the company service, in contrast, reads a missing stress as the worst.\<close>

lemma insight_without_stress: "recommended_action a None r \<noteq> ''Prioritize outreach''"
  by (simp add: recommended_action_def)

section \<open>Decisions are kept\<close>

text \<open>A decision that is persisted heads the history of its mode.\<close>

lemma persisted_decision_listed:
  assumes "generate_insight dash env i t raw m True st ds = (Inr x, ds')"
    and "\<forall>d \<in> set ds. ds_createdAt d < ze_ended env" and "normalize_mode mode = m" and "0 < limit"
  shows "\<exists>d rest. decision_history t raw mode limit ds' = Inr (d # rest) \<and> ds_id d = i \<and> ds_summary d = ig_summary x \<and>
    ds_recommendedAction d = ig_recommendedAction x"
proof -
  obtain s where di: "decision_insight dash env t raw m st = Inr (x, s)"
    using assms(1) by (auto simp: generate_insight_def split: sum.splits prod.splits)
  let ?d = "\<lparr>ds_id = i, ds_tenantId = t, ds_organisationNumber = ig_organisationNumber x, ds_strategyMode = m,
    ds_legalName = ig_legalName x, ds_summary = ig_summary x, ds_recommendedAction = ig_recommendedAction x,
    ds_confidence = ig_confidence x, ds_drivers = ig_drivers x, ds_scores = s, ds_createdAt = ze_ended env\<rparr>"
  have ds': "ds' = ds @ [?d]" using assms(1) di by (simp add: generate_insight_def)
  have org: "valid_org_length (digits_only raw)" "ig_organisationNumber x = digits_only raw"
    using di by (auto simp: decision_insight_def Let_def split: if_splits option.splits)
  let ?p = "\<lambda>d. ds_tenantId d = t \<and> ds_organisationNumber d = digits_only raw \<and> ds_strategyMode d = normalize_mode mode"
  have "find_latest ?p ds_createdAt ds' = Some ?d"
    by (rule find_latest_eqI) (use assms(2,3) org in \<open>auto simp: ds'\<close>)
  then obtain rest where rest: "find_desc ?p ds_createdAt ds' = ?d # rest"
    by (auto simp: find_latest_def split: list.splits)
  obtain n where n: "nat (min (max limit 1) 200) = Suc n" using assms(4) by (cases "nat (min (max limit 1) 200)") auto
  show ?thesis using org by (simp add: decision_history_def Let_def rest n)
qed

end
