(* ===== verification/BulkStream.thy ===== *)
theory BulkStream
  imports BulkUpsert
begin

text \<open>
  The stream of a bulk file into the staging tables: \<open>ingestStreamWithCheckpoints\<close>
  (backend/src/bolagsverket-bulk/bolagsverket-bulk.service.ts) with the line parser service, the
  batch writer and the memory guard (backend/src/ingestion). The lines of the file, the readings
  of the memory and the outcome of each write are what the environment supplies; pauses of the
  loop and its log lines are left out.
\<close>

section \<open>Tables\<close>

record raw_row =
  rl_fileRunId :: string
  rl_lineNumber :: nat
  rl_rawLine :: string
  rl_sourceFileName :: string
  rl_columns :: "string list"
  rl_parseStatus :: string
  rl_parsedOk :: bool
  rl_parseError :: "string option"

record lineage_row =
  le_runId :: string
  le_provider :: string
  le_companyOrgnr :: "string option"
  le_rowNumber :: nat
  le_rawRecordHash :: string
  le_sourceFileKey :: string

record checkpoint_row =
  kp_fileRunId :: string
  kp_checkpointSeq :: nat
  kp_lastLineNumber :: nat
  kp_rowsWritten :: nat
  kp_stagingWritten :: nat

record stream_tables =
  tb_raw :: "raw_row list"
  tb_staging :: "staging_row list"
  tb_lineage :: "lineage_row list"
  tb_checkpoints :: "checkpoint_row list"

section \<open>One line\<close>

record stream_env =
  sv_parseCsv :: "string \<Rightarrow> string + string list list"
  sv_sha :: "string \<Rightarrow> string"
  sv_run :: string
  sv_key :: string
  sv_maxRows :: "nat option"
  sv_batchSize :: int
  sv_warnMb :: int
  sv_pauseMb :: int
  sv_failMb :: int
  sv_timeoutMs :: int

text \<open>\<open>BolagsverketLineParserService.parseLine\<close>\<close>

definition parse_bulk_line :: "stream_env \<Rightarrow> string \<Rightarrow> parsed_bulk_line result" where
  "parse_bulk_line env line =
     map_sum id (\<lambda>p. if pb_contentHash p = [] then p\<lparr>pb_contentHash := sv_sha env line\<rparr> else p)
       (parse_line_to_staging (sv_parseCsv env) (sv_sha env) line)"

definition parse_error_text :: "http_error \<Rightarrow> string" where
  "parse_error_text e = (case e of Failure m \<Rightarrow> m | _ \<Rightarrow> [])"

text \<open>\<open>sourceFileKey.split('/').pop()\<close>\<close>

definition source_file_name :: "string \<Rightarrow> string" where
  "source_file_name key = last (split_on (CHR ''/'') key)"

definition raw_row_of :: "stream_env \<Rightarrow> nat \<Rightarrow> string \<Rightarrow> raw_row" where
  "raw_row_of env n line =
     (case parse_bulk_line env line of
        Inr p \<Rightarrow> \<lparr>rl_fileRunId = sv_run env, rl_lineNumber = n, rl_rawLine = line,
          rl_sourceFileName = source_file_name (sv_key env), rl_columns = pb_rawColumns p,
          rl_parseStatus = ''parsed'', rl_parsedOk = True, rl_parseError = None\<rparr>
      | Inl e \<Rightarrow> \<lparr>rl_fileRunId = sv_run env, rl_lineNumber = n, rl_rawLine = line,
          rl_sourceFileName = source_file_name (sv_key env), rl_columns = [],
          rl_parseStatus = ''malformed'', rl_parsedOk = False, rl_parseError = Some (parse_error_text e)\<rparr>)"

definition staging_of_line :: "stream_env \<Rightarrow> string \<Rightarrow> staging_row option" where
  "staging_of_line env line =
     (case parse_bulk_line env line of Inr p \<Rightarrow> Some (staging_of_parsed (sv_run env) p) | Inl e \<Rightarrow> None)"

section \<open>Writing a batch\<close>

text \<open>\<open>writeStagingBatch\<close>: the lineage takes the line number of the raw row at the same index.\<close>

definition lineage_rows :: "stream_env \<Rightarrow> raw_row list \<Rightarrow> staging_row list \<Rightarrow> lineage_row list" where
  "lineage_rows env raws stagings =
     map (\<lambda>(i, r). \<lparr>le_runId = sv_run env, le_provider = ''bolagsverket'', le_companyOrgnr = st_identityValue r,
       le_rowNumber = (case nth_opt raws i of None \<Rightarrow> 0 | Some w \<Rightarrow> rl_lineNumber w),
       le_rawRecordHash = or_default (st_contentHash r) [], le_sourceFileKey = sv_key env\<rparr>)
       (zip [0..<length stagings] stagings)"

definition write_batch ::
  "stream_env \<Rightarrow> nat \<Rightarrow> nat \<Rightarrow> raw_row list \<Rightarrow> staging_row list \<Rightarrow> stream_tables \<Rightarrow> stream_tables" where
  "write_batch env seq lastLine raws stagings t =
     t\<lparr>tb_raw := tb_raw t @ raws, tb_staging := tb_staging t @ stagings,
       tb_lineage := tb_lineage t @ lineage_rows env raws stagings,
       tb_checkpoints := tb_checkpoints t @
         [\<lparr>kp_fileRunId = sv_run env, kp_checkpointSeq = seq, kp_lastLineNumber = lastLine,
           kp_rowsWritten = length raws, kp_stagingWritten = length stagings\<rparr>]\<rparr>"

text \<open>
  The race of the transaction and its timeout: done in time, rolled back, or overtaken by the
  timeout, in which case the transaction may still be committed.
\<close>

datatype write_outcome = Written | WriteFailed string | WriteTimedOut bool

text \<open>The readings around the flush with a given number.\<close>

record flush_env =
  fx_write :: "nat \<Rightarrow> write_outcome"
  fx_memory :: "nat \<Rightarrow> int"
  fx_recovered :: "nat \<Rightarrow> int"
  fx_firstMemory :: int

record stream_state =
  ln_line :: nat
  ln_parsed :: nat
  ln_seq :: nat
  ln_inserted :: nat
  ln_failed :: nat
  ln_peakMb :: int
  ln_stopped :: bool
  ln_batch :: int
  ln_raw :: "raw_row list"
  ln_staging :: "staging_row list"
  ln_tables :: stream_tables

definition min_batch :: "stream_env \<Rightarrow> int" where
  "min_batch env = (if sv_maxRows env = None then 50 else 1)"

definition initial_batch :: "stream_env \<Rightarrow> int" where
  "initial_batch env = max (min_batch env) (min 1000 (sv_batchSize env))"

definition oom_message :: string where
  "oom_message = ''Stopped before Render OOM: memory exceeded safe threshold''"

definition timeout_message :: "stream_env \<Rightarrow> string" where
  "timeout_message env = ''DB batch write timed out after '' @ show_int (max 1000 (sv_timeoutMs env)) @ ''ms''"

text \<open>\<open>flush\<close>; an error leaves the loop.\<close>

definition after_write :: "stream_env \<Rightarrow> flush_env \<Rightarrow> stream_state \<Rightarrow> string option \<times> stream_state" where
  "after_write env fx st =
     (let m = fx_memory fx (ln_seq st);
          st = st\<lparr>ln_peakMb := max (ln_peakMb st) m\<rparr>
      in if m \<ge> sv_failMb env then (Some oom_message, st)
         else (let st = (if m \<ge> sv_warnMb env \<and> ln_batch st > min_batch env
                         then st\<lparr>ln_batch := max (min_batch env) (ln_batch st * 4 div 5)\<rparr> else st)
               in if m \<ge> sv_pauseMb env \<and> fx_recovered fx (ln_seq st) \<ge> sv_failMb env
                  then (Some oom_message, st) else (None, st)))"

definition flush :: "stream_env \<Rightarrow> flush_env \<Rightarrow> stream_state \<Rightarrow> string option \<times> stream_state" where
  "flush env fx st =
     (if ln_raw st = [] \<and> ln_staging st = [] then (None, st)
      else (let st = st\<lparr>ln_seq := ln_seq st + 1\<rparr>;
                written = write_batch env (ln_seq st) (ln_line st) (ln_raw st) (ln_staging st) (ln_tables st)
            in case fx_write fx (ln_seq st) of
                 WriteFailed e \<Rightarrow> (Some e, st)
               | WriteTimedOut committed \<Rightarrow>
                   (Some (timeout_message env), if committed then st\<lparr>ln_tables := written\<rparr> else st)
               | Written \<Rightarrow>
                   after_write env fx
                     (st\<lparr>ln_tables := written, ln_inserted := ln_inserted st + length (ln_staging st),
                        ln_failed := ln_failed st + count_where (\<lambda>r. \<not> rl_parsedOk r) (ln_raw st),
                        ln_raw := [], ln_staging := []\<rparr>)))"

section \<open>The loop over the file\<close>

definition take_line :: "stream_env \<Rightarrow> string \<Rightarrow> stream_state \<Rightarrow> stream_state" where
  "take_line env line st =
     (let n = ln_line st + 1; st = st\<lparr>ln_line := n, ln_raw := ln_raw st @ [raw_row_of env n line]\<rparr>
      in case staging_of_line env line of
           None \<Rightarrow> st
         | Some r \<Rightarrow> st\<lparr>ln_parsed := ln_parsed st + 1, ln_staging := ln_staging st @ [r],
             ln_stopped := (case sv_maxRows env of None \<Rightarrow> ln_stopped st
               | Some k \<Rightarrow> ln_stopped st \<or> k \<le> ln_parsed st + 1)\<rparr>)"

definition step_line :: "stream_env \<Rightarrow> flush_env \<Rightarrow> string \<Rightarrow> stream_state \<Rightarrow> string option \<times> stream_state" where
  "step_line env fx line st =
     (if trim line = [] then (None, st)
      else (let st = take_line env line st
            in if int (length (ln_raw st)) \<ge> ln_batch st then flush env fx st else (None, st)))"

text \<open>The lines up to the end of the stream, which may be an error of the stream.\<close>

fun stream_lines ::
  "stream_env \<Rightarrow> flush_env \<Rightarrow> string option \<Rightarrow> string list \<Rightarrow> stream_state \<Rightarrow> string option \<times> stream_state" where
  "stream_lines env fx broken [] st = (case broken of None \<Rightarrow> flush env fx st | Some e \<Rightarrow> (Some e, st))"
| "stream_lines env fx broken (line # lines) st =
     (case step_line env fx line st of
        (Some e, st) \<Rightarrow> (Some e, st)
      | (None, st) \<Rightarrow> if ln_stopped st then flush env fx st else stream_lines env fx broken lines st)"

definition start_stream :: "stream_env \<Rightarrow> flush_env \<Rightarrow> stream_tables \<Rightarrow> stream_state" where
  "start_stream env fx t =
     \<lparr>ln_line = 0, ln_parsed = 0, ln_seq = 0, ln_inserted = 0, ln_failed = 0, ln_peakMb = fx_firstMemory fx,
      ln_stopped = False, ln_batch = initial_batch env, ln_raw = [], ln_staging = [], ln_tables = t\<rparr>"

text \<open>\<open>ingestStreamWithCheckpoints\<close>: the error, if any, and the last state with the counts.\<close>

definition ingest_stream ::
  "stream_env \<Rightarrow> flush_env \<Rightarrow> string list \<times> string option \<Rightarrow> stream_tables \<Rightarrow> string option \<times> stream_state" where
  "ingest_stream env fx file t = stream_lines env fx (snd file) (fst file) (start_stream env fx t)"

section \<open>What a file comes to\<close>

text \<open>
  The reference: the lines that are read, which are the lines that are not blank, up to the one
  with which the limit of parsed lines is reached; each with its number.
\<close>

definition parsable :: "stream_env \<Rightarrow> string \<Rightarrow> bool" where
  "parsable env line \<longleftrightarrow> staging_of_line env line \<noteq> None"

definition at_limit :: "stream_env \<Rightarrow> string list \<Rightarrow> bool" where
  "at_limit env ls \<longleftrightarrow>
     (case sv_maxRows env of None \<Rightarrow> False
      | Some k \<Rightarrow> filter (parsable env) ls \<noteq> [] \<and> k \<le> length (filter (parsable env) ls))"

fun lines_read_from :: "stream_env \<Rightarrow> string list \<Rightarrow> string list \<Rightarrow> string list" where
  "lines_read_from env seen [] = seen"
| "lines_read_from env seen (l # ls) =
     (if trim l = [] then lines_read_from env seen ls
      else if at_limit env (seen @ [l]) then seen @ [l] else lines_read_from env (seen @ [l]) ls)"

definition lines_read :: "stream_env \<Rightarrow> string list \<Rightarrow> string list" where
  "lines_read env = lines_read_from env []"

definition raw_rows :: "stream_env \<Rightarrow> string list \<Rightarrow> raw_row list" where
  "raw_rows env ls = map (\<lambda>(n, l). raw_row_of env n l) (List.enumerate 1 ls)"

definition staging_rows :: "stream_env \<Rightarrow> string list \<Rightarrow> staging_row list" where
  "staging_rows env ls = List.map_filter (staging_of_line env) ls"

lemma raw_rows_snoc: "raw_rows env (ls @ [l]) = raw_rows env ls @ [raw_row_of env (length ls + 1) l]"
  by (simp add: raw_rows_def enumerate_append_eq)

lemma staging_rows_snoc:
  "staging_rows env (ls @ [l]) = staging_rows env ls @ (case staging_of_line env l of None \<Rightarrow> [] | Some r \<Rightarrow> [r])"
  by (simp add: staging_rows_def List.map_filter_def split: option.split)

lemma raw_row_parsed: "rl_parsedOk (raw_row_of env n l) \<longleftrightarrow> parsable env l"
  by (simp add: raw_row_of_def parsable_def staging_of_line_def split: sum.split)

text \<open>
  The invariant of the loop: what is written and what is still in the chunks are together the
  rows of the lines read so far; counts and checkpoints agree with what is written.
\<close>

definition checkpointed :: "stream_tables \<Rightarrow> stream_tables \<Rightarrow> nat \<times> nat" where
  "checkpointed t0 t = (sum_list (map kp_rowsWritten (drop (length (tb_checkpoints t0)) (tb_checkpoints t))),
     sum_list (map kp_stagingWritten (drop (length (tb_checkpoints t0)) (tb_checkpoints t))))"

definition progress :: "stream_env \<Rightarrow> stream_tables \<Rightarrow> string list \<Rightarrow> stream_state \<Rightarrow> bool" where
  "progress env t0 ls st \<longleftrightarrow>
     ln_line st = length ls \<and> ln_parsed st = length (filter (parsable env) ls) \<and>
     (\<exists>rw sg. tb_raw (ln_tables st) = tb_raw t0 @ rw \<and> rw @ ln_raw st = raw_rows env ls \<and>
        tb_staging (ln_tables st) = tb_staging t0 @ sg \<and> sg @ ln_staging st = staging_rows env ls \<and>
        ln_inserted st = length sg \<and> ln_failed st = count_where (\<lambda>r. \<not> rl_parsedOk r) rw \<and>
        checkpointed t0 (ln_tables st) = (length rw, length sg)) \<and>
     length (tb_checkpoints t0) \<le> length (tb_checkpoints (ln_tables st))"

lemma progress_start: "progress env t [] (start_stream env fx t)"
  by (simp add: progress_def start_stream_def raw_rows_def staging_rows_def checkpointed_def List.map_filter_def
    count_where_def)

lemma progress_take_line:
  assumes "progress env t0 ls st"
  shows "progress env t0 (ls @ [l]) (take_line env l st)"
proof -
  obtain rw sg where *: "tb_raw (ln_tables st) = tb_raw t0 @ rw" "rw @ ln_raw st = raw_rows env ls"
      "tb_staging (ln_tables st) = tb_staging t0 @ sg" "sg @ ln_staging st = staging_rows env ls"
      "ln_inserted st = length sg" "ln_failed st = count_where (\<lambda>r. \<not> rl_parsedOk r) rw"
      "checkpointed t0 (ln_tables st) = (length rw, length sg)"
    using assms by (auto simp: progress_def)
  then have "rw @ ln_raw (take_line env l st) = raw_rows env (ls @ [l])"
    "sg @ ln_staging (take_line env l st) = staging_rows env (ls @ [l])"
    using assms by (auto simp: take_line_def Let_def raw_rows_snoc staging_rows_snoc progress_def
      simp flip: append_assoc split: option.split)
  then show ?thesis
    using assms * unfolding progress_def
    by (intro conjI exI [of _ rw] exI [of _ sg]) (auto simp: take_line_def Let_def parsable_def split: option.split)
qed

lemma checkpointed_write:
  assumes "length (tb_checkpoints t0) \<le> length (tb_checkpoints t)"
  shows "checkpointed t0 (write_batch env k n raws sgs t) =
    (fst (checkpointed t0 t) + length raws, snd (checkpointed t0 t) + length sgs)"
  using assms by (simp add: checkpointed_def write_batch_def)

lemma after_write_keeps:
  assumes "after_write env fx st = (e, st')"
  shows "ln_line st' = ln_line st" "ln_parsed st' = ln_parsed st" "ln_inserted st' = ln_inserted st"
    "ln_failed st' = ln_failed st" "ln_raw st' = ln_raw st" "ln_staging st' = ln_staging st"
    "ln_tables st' = ln_tables st" "ln_stopped st' = ln_stopped st"
  using assms by (auto simp: after_write_def Let_def split: if_splits)

lemma progress_flush:
  assumes "progress env t0 ls st" and "flush env fx st = (None, st')"
  shows "progress env t0 ls st' \<and> ln_raw st' = [] \<and> ln_staging st' = [] \<and> ln_stopped st' = ln_stopped st"
proof -
  obtain rw sg where *: "tb_raw (ln_tables st) = tb_raw t0 @ rw" "rw @ ln_raw st = raw_rows env ls"
      "tb_staging (ln_tables st) = tb_staging t0 @ sg" "sg @ ln_staging st = staging_rows env ls"
      "ln_inserted st = length sg" "ln_failed st = count_where (\<lambda>r. \<not> rl_parsedOk r) rw"
      "checkpointed t0 (ln_tables st) = (length rw, length sg)"
    and n: "length (tb_checkpoints t0) \<le> length (tb_checkpoints (ln_tables st))"
    using assms(1) by (auto simp: progress_def)
  let ?w = "write_batch env (ln_seq st + 1) (ln_line st) (ln_raw st) (ln_staging st) (ln_tables st)"
  show ?thesis
  proof (cases "ln_raw st = [] \<and> ln_staging st = []")
    case True
    then show ?thesis using assms by (simp add: flush_def)
  next
    case False
    then have a: "after_write env fx (st\<lparr>ln_seq := ln_seq st + 1, ln_tables := ?w,
        ln_inserted := ln_inserted st + length (ln_staging st),
        ln_failed := ln_failed st + count_where (\<lambda>r. \<not> rl_parsedOk r) (ln_raw st),
        ln_raw := [], ln_staging := []\<rparr>) = (None, st')"
      using assms(2) by (auto simp: flush_def Let_def split: write_outcome.splits)
    have c: "checkpointed t0 ?w = (length (rw @ ln_raw st), length (sg @ ln_staging st))"
      using checkpointed_write [OF n] *(7) by simp
    have "progress env t0 ls st'"
      using assms(1) *(1,3,5,6) c n unfolding progress_def
      by (intro conjI exI [of _ "rw @ ln_raw st"] exI [of _ "sg @ ln_staging st"])
        (simp_all add: after_write_keeps [OF a] write_batch_def count_where_def *(2,4) [symmetric])
    then show ?thesis by (simp add: after_write_keeps [OF a])
  qed
qed

lemma take_line_stopped:
  assumes "ln_stopped st \<longleftrightarrow> at_limit env ls" and "ln_parsed st = length (filter (parsable env) ls)"
  shows "ln_stopped (take_line env l st) \<longleftrightarrow> at_limit env (ls @ [l])"
  using assms by (auto simp: take_line_def Let_def at_limit_def parsable_def split: option.split)

lemma stream_lines_progress:
  assumes "stream_lines env fx broken lines st = (None, st')"
    and "progress env t0 ls st" and "\<not> ln_stopped st" and "\<not> at_limit env ls"
  shows "progress env t0 (lines_read_from env ls lines) st' \<and> ln_raw st' = [] \<and> ln_staging st' = [] \<and>
    (ln_stopped st' \<longleftrightarrow> at_limit env (lines_read_from env ls lines)) \<and> (broken = None \<or> ln_stopped st')"
  using assms
proof (induction lines arbitrary: st ls)
  case Nil
  then have "broken = None" and f: "flush env fx st = (None, st')" by (auto split: option.splits)
  then show ?case using progress_flush [OF Nil.prems(2) f] Nil.prems(3,4) by simp
next
  case (Cons l lines)
  show ?case
  proof (cases "trim l = []")
    case True
    then show ?thesis using Cons.IH [of st ls] Cons.prems by (auto simp: step_line_def)
  next
    case False
    let ?st = "take_line env l st" and ?ls = "ls @ [l]"
    have p: "progress env t0 ?ls ?st" by (rule progress_take_line [OF Cons.prems(2)])
    have s: "ln_stopped ?st \<longleftrightarrow> at_limit env ?ls"
      by (rule take_line_stopped) (use Cons.prems in \<open>simp_all add: progress_def\<close>)
    obtain st1 where st1: "step_line env fx l st = (None, st1)"
      using Cons.prems(1) by (auto split: prod.splits option.splits)
    have p1: "progress env t0 ?ls st1" and s1: "ln_stopped st1 \<longleftrightarrow> at_limit env ?ls"
      using st1 False progress_flush [OF p] p s
      by (auto simp: step_line_def Let_def split: if_splits)
    show ?thesis
    proof (cases "ln_stopped st1")
      case True
      then have f: "flush env fx st1 = (None, st')" using Cons.prems(1) st1 by simp
      show ?thesis using progress_flush [OF p1 f] True s1 False by simp
    next
      case no: False
      then have "stream_lines env fx broken lines st1 = (None, st')" using Cons.prems(1) st1 by simp
      from Cons.IH [OF this p1 no] no s1 False show ?thesis by auto
    qed
  qed
qed

lemma parsed_split: "length ls = length (staging_rows env ls) + length (filter (\<lambda>l. \<not> parsable env l) ls)"
  by (induction ls) (auto simp: staging_rows_def List.map_filter_def parsable_def)

lemma length_raw_rows [simp]: "length (raw_rows env ls) = length ls"
  by (simp add: raw_rows_def)

lemma failed_rows: "count_where (\<lambda>r. \<not> rl_parsedOk r) (raw_rows env ls) = length (filter (\<lambda>l. \<not> parsable env l) ls)"
proof -
  have "count_where (\<lambda>r. \<not> rl_parsedOk r) (map (\<lambda>(n, l). raw_row_of env n l) (List.enumerate k ls)) =
      length (filter (\<lambda>l. \<not> parsable env l) ls)" for k
    by (induction ls arbitrary: k) (simp_all add: count_where_def raw_row_parsed)
  then show ?thesis by (simp add: raw_rows_def)
qed

lemma stream_written_all:
  assumes "ingest_stream env fx file t = (None, st)"
  shows "let ls = lines_read env (fst file)
    in tb_raw (ln_tables st) = tb_raw t @ raw_rows env ls \<and>
       tb_staging (ln_tables st) = tb_staging t @ staging_rows env ls \<and>
       ln_line st = length ls \<and> ln_inserted st = length (staging_rows env ls) \<and>
       ln_inserted st + ln_failed st = ln_line st \<and> (ln_stopped st \<longleftrightarrow> at_limit env ls) \<and>
       checkpointed t (ln_tables st) = (ln_line st, ln_inserted st)"
proof -
  let ?ls = "lines_read env (fst file)"
  have "\<not> at_limit env []" by (simp add: at_limit_def split: option.split)
  then have p: "progress env t ?ls st" "ln_raw st = []" "ln_staging st = []" "ln_stopped st \<longleftrightarrow> at_limit env ?ls"
    using stream_lines_progress [OF assms [unfolded ingest_stream_def] progress_start]
    by (simp_all add: lines_read_def start_stream_def)
  then show ?thesis
    using parsed_split [of ?ls env]
    by (auto simp: progress_def Let_def failed_rows)
qed

text \<open>
  C13: A stream that is read without an error writes every line that is not blank exactly once,
  numbered in the order of the file, and one staging row for every line that parses, up to the
  limit of a test run; the counts and the checkpoints add up to them. The size of the batches,
  the readings of the memory and the number of flushes make no difference.
\<close>

theorem stream_written_once:
  assumes "ingest_stream env fx file t = (None, st)"
  shows "let ls = lines_read env (fst file)
    in tb_raw (ln_tables st) = tb_raw t @ raw_rows env ls \<and>
       tb_staging (ln_tables st) = tb_staging t @ staging_rows env ls \<and>
       ln_line st = length ls \<and> ln_inserted st = length (staging_rows env ls) \<and>
       ln_inserted st + ln_failed st = ln_line st \<and> (ln_stopped st \<longleftrightarrow> at_limit env ls) \<and>
       checkpointed t (ln_tables st) = (ln_line st, ln_inserted st)"
  by (rule stream_written_all [OF assms])

text \<open>Without failures and with memory to spare a file is always read to its end.\<close>

definition calm :: "stream_env \<Rightarrow> flush_env \<Rightarrow> bool" where
  "calm env fx \<longleftrightarrow> (\<forall>k. fx_write fx k = Written \<and> fx_memory fx k < sv_failMb env \<and> fx_recovered fx k < sv_failMb env)"

lemma calm_flush: "calm env fx \<Longrightarrow> fst (flush env fx st) = None"
proof -
  assume "calm env fx"
  then have "fx_write fx k = Written" "\<not> sv_failMb env \<le> fx_memory fx k" "\<not> sv_failMb env \<le> fx_recovered fx k" for k
    by (simp_all add: calm_def not_le)
  then show "fst (flush env fx st) = None" by (simp add: flush_def after_write_def Let_def)
qed

lemma calm_lines: "calm env fx \<Longrightarrow> fst (stream_lines env fx None lines st) = None"
proof (induction lines arbitrary: st)
  case Nil
  then show ?case by (simp add: calm_flush)
next
  case (Cons l lines)
  have "fst (step_line env fx l st) = None" using calm_flush [OF Cons.prems] by (simp add: step_line_def Let_def)
  then obtain st1 where "step_line env fx l st = (None, st1)" by (metis prod.collapse)
  then show ?case using Cons calm_flush [OF Cons.prems] by simp
qed

lemma calm_stream: "calm env fx \<Longrightarrow> fst (ingest_stream env fx (lines, None) t) = None"
  by (simp add: ingest_stream_def calm_lines)

definition sample_stream :: stream_env where
  "sample_stream = \<lparr>sv_parseCsv = (\<lambda>s. if s = ''good'' then Inr [''5560001234$ORGNR-IDORG'' # replicate 10 ''''] else Inl ''bad''),
     sv_sha = id, sv_run = ''r1'', sv_key = ''bulk/a.txt'', sv_maxRows = None, sv_batchSize = 250, sv_warnMb = 350,
     sv_pauseMb = 425, sv_failMb = 475, sv_timeoutMs = 30000\<rparr>"

definition sample_flush :: flush_env where
  "sample_flush = \<lparr>fx_write = (\<lambda>k. Written), fx_memory = (\<lambda>k. 100), fx_recovered = (\<lambda>k. 100), fx_firstMemory = 90\<rparr>"

definition no_tables :: stream_tables where
  "no_tables = \<lparr>tb_raw = [], tb_staging = [], tb_lineage = [], tb_checkpoints = []\<rparr>"

lemma sample_calm: "calm sample_stream sample_flush"
  by (simp add: calm_def sample_stream_def sample_flush_def)

lemma sample_parsable: "parsable sample_stream ''good''" "\<not> parsable sample_stream ''odd''"
  by (simp_all add: parsable_def staging_of_line_def parse_bulk_line_def parse_line_to_staging_def
    parse_delimited_line_def sample_stream_def nth_opt_def)

lemma sample_lines_read: "lines_read sample_stream [''odd'', '' '', ''good''] = [''odd'', ''good'']"
proof -
  have "trim ''odd'' \<noteq> []" "trim ''good'' \<noteq> []" "trim '' '' = []"
    by (simp_all add: trim_def is_space_def code_def)
  moreover have "\<not> at_limit sample_stream ls" for ls by (simp add: at_limit_def sample_stream_def)
  ultimately show ?thesis by (simp add: lines_read_def)
qed

theorem stream_written_once_witness:
  "map rl_parsedOk (tb_raw (ln_tables (snd (ingest_stream sample_stream sample_flush
     ([''odd'', '' '', ''good''], None) no_tables)))) = [False, True]"
proof -
  let ?file = "([''odd'', '' '', ''good''], None :: string option)"
  obtain st where st: "ingest_stream sample_stream sample_flush ?file no_tables = (None, st)"
    using calm_stream [OF sample_calm] by (metis prod.collapse)
  have "tb_raw (ln_tables st) = raw_rows sample_stream [''odd'', ''good'']"
    using stream_written_once [OF st] by (simp add: Let_def sample_lines_read no_tables_def)
  then show ?thesis by (simp add: st raw_rows_def raw_row_parsed sample_parsable)
qed

section \<open>The lineage\<close>

text \<open>
  The lineage of a row names the line that is as far into the batch as the row is among the
  parsed ones: in a batch that begins with a malformed line the first lineage row names that line.
\<close>

lemma lineage_names_other_line:
  assumes "\<not> rl_parsedOk w"
  shows "le_rowNumber (hd (lineage_rows env (w # ws) (r # rs))) = rl_lineNumber w"
  by (simp add: lineage_rows_def nth_opt_def upt_conv_Cons del: upt_Suc)

end
