(* ===== verification/BulkRuns.thy ===== *)
theory BulkRuns
  imports BulkStream Dates
begin

text \<open>
  The runs of the bulk ingestion: \<open>BolagsverketBulkService\<close>
  (backend/src/bolagsverket-bulk/bolagsverket-bulk.service.ts), its queue and scheduler, and the
  ingestion runs of \<open>IngestionService\<close> (backend/src/ingestion/ingestion.service.ts). Download, archive
  and object storage are supplied by the environment, as are the ids, the clock and an error
  that interrupts the application of a run. The progress written between batches, which the end
  of a run overwrites, and the ops alert, which changes nothing, are left out.
\<close>

section \<open>Tables\<close>

datatype run_status = Downloaded | ParsedRun | AppliedRun | FailedRun

record file_run =
  fr_id :: string
  fr_sourceUrl :: string
  fr_downloadedAt :: int
  fr_effectiveDate :: string
  fr_zipObjectKey :: string
  fr_txtObjectKey :: string
  fr_zipSha256 :: string
  fr_txtSha256 :: string
  fr_rowCount :: nat
  fr_parserProfile :: "string option"
  fr_status :: run_status
  fr_errorMessage :: "string option"

record ingestion_run =
  ig_id :: string
  ig_sourceProvider :: string
  ig_ingestionType :: string
  ig_status :: string
  ig_finishedAt :: "int option"
  ig_recordsSeen :: nat
  ig_recordsInserted :: nat
  ig_recordsFailed :: nat
  ig_memoryPeakMb :: int
  ig_r2ObjectKey :: "string option"
  ig_errorMessage :: "string option"

record source_file =
  fq_provider :: string
  fq_sha256 :: string
  fq_sizeBytes :: int
  fq_r2ObjectKey :: string
  fq_contentType :: string

record bulk_runs =
  bx_runs :: "file_run list"
  bx_ingestions :: "ingestion_run list"
  bx_files :: "source_file list"
  bx_tables :: stream_tables
  bx_bulk :: bulk_store

record download =
  dw_zipSha256 :: string
  dw_txtSha256 :: string
  dw_zipObjectKey :: string
  dw_txtObjectKey :: string
  dw_zipSizeBytes :: int
  dw_txtSizeBytes :: int

record run_env =
  rn_now :: int
  rn_defaultUrl :: string
  rn_profile :: string
  rn_maxRows :: "nat option"
  rn_maxTxtBytes :: int
  rn_download :: "string \<Rightarrow> string + download"
  rn_object :: "string \<Rightarrow> string + string list \<times> string option"
  rn_stream :: stream_env
  rn_flush :: flush_env
  rn_memoryMb :: int
  rn_ingestionId :: string
  rn_runId :: string
  rn_fingerprint :: "string \<Rightarrow> string"
  rn_applyError :: "(string \<times> (bulk_store \<Rightarrow> bulk_store)) option"
  rn_toDate :: "string \<Rightarrow> int"
  rn_defaultTenant :: string

section \<open>Ingestion runs\<close>

definition start_ingestion ::
  "string \<Rightarrow> string \<Rightarrow> string \<Rightarrow> string option \<Rightarrow> bulk_runs \<Rightarrow> bulk_runs" where
  "start_ingestion i provider ty key st = st\<lparr>bx_ingestions := bx_ingestions st @
     [\<lparr>ig_id = i, ig_sourceProvider = provider, ig_ingestionType = ty, ig_status = ''running'', ig_finishedAt = None,
       ig_recordsSeen = 0, ig_recordsInserted = 0, ig_recordsFailed = 0, ig_memoryPeakMb = 0,
       ig_r2ObjectKey = key, ig_errorMessage = None\<rparr>]\<rparr>"

definition update_ingestion :: "string \<Rightarrow> (ingestion_run \<Rightarrow> ingestion_run) \<Rightarrow> bulk_runs \<Rightarrow> bulk_runs" where
  "update_ingestion i f st = st\<lparr>bx_ingestions := update_where (\<lambda>r. ig_id r = i) f (bx_ingestions st)\<rparr>"

definition with_counts :: "nat \<times> nat \<times> nat \<times> int \<Rightarrow> ingestion_run \<Rightarrow> ingestion_run" where
  "with_counts c r = (case c of (seen, inserted, failed, mem) \<Rightarrow>
     r\<lparr>ig_recordsSeen := seen, ig_recordsInserted := inserted, ig_recordsFailed := failed, ig_memoryPeakMb := mem\<rparr>)"

definition finish_success :: "int \<Rightarrow> string \<Rightarrow> nat \<times> nat \<times> nat \<times> int \<Rightarrow> bulk_runs \<Rightarrow> bulk_runs" where
  "finish_success now i c = update_ingestion i
     (\<lambda>r. (with_counts c r)\<lparr>ig_status := ''applied'', ig_finishedAt := Some now, ig_errorMessage := None\<rparr>)"

definition finish_failure :: "int \<Rightarrow> string \<Rightarrow> nat \<times> nat \<times> nat \<times> int \<Rightarrow> string \<Rightarrow> bulk_runs \<Rightarrow> bulk_runs" where
  "finish_failure now i c e = update_ingestion i
     (\<lambda>r. (with_counts c r)\<lparr>ig_status := ''failed'', ig_finishedAt := Some now, ig_errorMessage := Some e\<rparr>)"

definition persist_source_file ::
  "string \<Rightarrow> string \<Rightarrow> int \<Rightarrow> string \<Rightarrow> string \<Rightarrow> bulk_runs \<Rightarrow> bulk_runs" where
  "persist_source_file provider sha sizeBytes key ty st =
     (case find_one (\<lambda>f. fq_provider f = provider \<and> fq_sha256 f = sha) (bx_files st) of
        Some f \<Rightarrow> st
      | None \<Rightarrow> st\<lparr>bx_files := bx_files st @ [\<lparr>fq_provider = provider, fq_sha256 = sha, fq_sizeBytes = sizeBytes,
          fq_r2ObjectKey = key, fq_contentType = ty\<rparr>]\<rparr>)"

section \<open>Messages of failures\<close>

definition pipeline_steps :: "string list" where
  "pipeline_steps = [''download_zip'', ''archive_zip'', ''extract_txt'', ''parse_stream'', ''apply_changes'']"

definition test_limit_prefix :: string where "test_limit_prefix = ''test_limit:''"
definition failure_phase_prefix :: string where "failure_phase_prefix = ''failure_phase:''"
definition failure_detail_prefix :: string where "failure_detail_prefix = ''failure_detail:''"

definition encode_failure :: "string \<Rightarrow> string \<Rightarrow> string" where
  "encode_failure phase detail =
     failure_phase_prefix @ phase @ [CHR 0x0A] @ failure_detail_prefix @ detail"

definition after_prefix :: "string \<Rightarrow> string list \<Rightarrow> string option" where
  "after_prefix pre ls = Option.bind (find (prefix pre) ls) (\<lambda>l. nonempty (trim (drop (length pre) l)))"

definition decode_failure :: "string option \<Rightarrow> string option \<times> string option" where
  "decode_failure encoded =
     (let raw = or_default encoded []
      in if raw = [] then (None, None)
         else if \<not> has_sub failure_phase_prefix raw then (None, Some raw)
         else (let ls = split_on (CHR 0x0A) raw
               in (after_prefix failure_phase_prefix ls, after_prefix failure_detail_prefix ls)))"

text \<open>\<open>readMaxRowsToProcess\<close>; \<open>number\<close> is \<open>Number\<close> on a text.\<close>

definition read_max_rows :: "(string \<Rightarrow> rat option) \<Rightarrow> string option \<Rightarrow> nat option" where
  "read_max_rows number raw =
     (case Option.bind raw (\<lambda>s. nonempty (trim s)) of
        None \<Rightarrow> None
      | Some s \<Rightarrow> (case number s of
            None \<Rightarrow> None
          | Some r \<Rightarrow> if r = of_int \<lfloor>r\<rfloor> \<and> r > 0 then Some (nat \<lfloor>r\<rfloor>) else None))"

section \<open>A run over a file\<close>

definition save_run :: "file_run \<Rightarrow> bulk_runs \<Rightarrow> bulk_runs" where
  "save_run r st = st\<lparr>bx_runs := save fr_id r (bx_runs st)\<rparr>"

definition stats_of :: "stream_state \<Rightarrow> nat \<times> nat \<times> nat \<times> int" where
  "stats_of s = (ln_line s, ln_inserted s, ln_failed s, ln_peakMb s)"

text \<open>The handler of errors; without statistics it reports zeros and the memory of now.\<close>

definition fail_run ::
  "run_env \<Rightarrow> string \<Rightarrow> string \<Rightarrow> stream_state option \<Rightarrow> file_run \<Rightarrow> bulk_runs \<Rightarrow> bulk_runs" where
  "fail_run env phase e stats run st =
     (let msg = encode_failure phase e
      in finish_failure (rn_now env) (rn_ingestionId env)
           (case stats of None \<Rightarrow> (0, 0, 0, rn_memoryMb env) | Some s \<Rightarrow> stats_of s) msg
           (save_run (run\<lparr>fr_status := FailedRun, fr_errorMessage := Some msg\<rparr>) st))"

record run_result =
  rx_runId :: string
  rx_rowCount :: nat
  rx_applied :: nat
  rx_changed :: nat
  rx_seeded :: nat
  rx_deduplicatedByHash :: bool
  rx_testCompleted :: bool

text \<open>The three steps of the application, on the staging rows the stream left.\<close>

definition apply_run :: "run_env \<Rightarrow> string \<Rightarrow> bulk_runs \<Rightarrow> (nat \<times> nat \<times> nat) \<times> bulk_store" where
  "apply_run env runId st =
     (let b = (bx_bulk st)\<lparr>bs_staging := tb_staging (bx_tables st)\<rparr>;
          ((applied, changed), b) = apply_staging_to_current runId (rn_now env) b;
          (removed, b) = detect_removed_companies runId (rn_now env) b;
          (seeded, b) = seed_companies_from_current (rn_toDate env) (rn_defaultTenant env) b
      in ((applied, changed + removed, seeded), b))"

definition stream_env_of :: "run_env \<Rightarrow> file_run \<Rightarrow> stream_env" where
  "stream_env_of env run =
     (rn_stream env)\<lparr>sv_run := fr_id run, sv_key := fr_txtObjectKey run, sv_maxRows := rn_maxRows env\<rparr>"

definition run_file :: "run_env \<Rightarrow> string \<Rightarrow> file_run \<Rightarrow> bulk_runs \<Rightarrow> (string + run_result) \<times> bulk_runs" where
  "run_file env firstPhase run st =
     (case rn_object env (fr_txtObjectKey run) of
        Inl e \<Rightarrow> (Inl e, fail_run env firstPhase e None run st)
      | Inr file \<Rightarrow>
          (let (err, s) = ingest_stream (stream_env_of env run) (rn_flush env) file (bx_tables st);
               st = st\<lparr>bx_tables := ln_tables s\<rparr>
           in case err of
                Some e \<Rightarrow> (Inl e, fail_run env ''parse_stream'' e (Some s) run st)
              | None \<Rightarrow>
                  (let run = run\<lparr>fr_rowCount := ln_line s, fr_status := ParsedRun\<rparr>;
                       result = (\<lambda>applied changed seeded test. \<lparr>rx_runId = fr_id run, rx_rowCount = ln_line s,
                         rx_applied = applied, rx_changed = changed, rx_seeded = seeded,
                         rx_deduplicatedByHash = False, rx_testCompleted = test\<rparr>);
                       ended = finish_success (rn_now env) (rn_ingestionId env) (stats_of s)
                   in if ln_stopped s
                      then (Inr (result 0 0 0 True),
                        ended (save_run (run\<lparr>fr_errorMessage := Some (test_limit_prefix @
                          show_nat (or_default (rn_maxRows env) 0))\<rparr>) st))
                      else (case rn_applyError env of
                          Some (e, part) \<Rightarrow>
                            (Inl e, fail_run env ''apply_changes'' e (Some s) run
                              (st\<lparr>bx_bulk := part ((bx_bulk st)\<lparr>bs_staging := tb_staging (bx_tables st)\<rparr>)\<rparr>))
                        | None \<Rightarrow>
                            (let ((applied, changed, seeded), b) = apply_run env (fr_id run) st
                             in (Inr (result applied changed seeded False),
                                 ended (save_run (run\<lparr>fr_status := AppliedRun\<rparr>) (st\<lparr>bx_bulk := b\<rparr>))))))))"

definition new_run :: "run_env \<Rightarrow> string \<Rightarrow> string \<Rightarrow> string \<Rightarrow> string \<Rightarrow> string \<Rightarrow> string \<Rightarrow> file_run" where
  "new_run env url zipKey txtKey zipSha txtSha profile =
     \<lparr>fr_id = rn_runId env, fr_sourceUrl = url, fr_downloadedAt = rn_now env,
      fr_effectiveDate = take 10 (iso_string (rn_now env)), fr_zipObjectKey = zipKey, fr_txtObjectKey = txtKey,
      fr_zipSha256 = zipSha, fr_txtSha256 = txtSha, fr_rowCount = 0, fr_parserProfile = Some profile,
      fr_status = Downloaded, fr_errorMessage = None\<rparr>"

text \<open>\<open>runWeeklyIngestion\<close>\<close>

definition too_large_message :: "int \<Rightarrow> int \<Rightarrow> string" where
  "too_large_message sizeBytes limit = ''Bulk TXT too large ('' @ show_int sizeBytes @
     '' bytes), exceeds BV_BULK_MAX_TXT_BYTES='' @ show_int limit"

definition run_weekly ::
  "run_env \<Rightarrow> string option \<Rightarrow> bool \<Rightarrow> bulk_runs \<Rightarrow> (string + run_result) \<times> bulk_runs" where
  "run_weekly env override force st =
     (let url = or_default (Option.bind override nonempty) (rn_defaultUrl env);
          ing = rn_ingestionId env;
          st = start_ingestion ing ''bolagsverket'' ''weekly_bulk'' None st
      in case rn_download env url of
           Inl e \<Rightarrow> (Inl e, st)
         | Inr d \<Rightarrow>
             (let st = update_ingestion ing (ig_r2ObjectKey_update (\<lambda>_. Some (dw_zipObjectKey d))) st;
                  st = persist_source_file ''bolagsverket.bulk.zip'' (dw_zipSha256 d) (dw_zipSizeBytes d)
                    (dw_zipObjectKey d) ''application/zip'' st;
                  st = persist_source_file ''bolagsverket.bulk.txt'' (dw_txtSha256 d) (dw_txtSizeBytes d)
                    (dw_txtObjectKey d) ''text/plain; charset=utf-8'' st;
                  msg = too_large_message (dw_txtSizeBytes d) (rn_maxTxtBytes env)
              in if rn_maxTxtBytes env > 0 \<and> dw_txtSizeBytes d > rn_maxTxtBytes env
                 then (Inl msg, finish_failure (rn_now env) ing (0, 0, 0, rn_memoryMb env) msg st)
                 else (case (if force then None
                         else find_one (\<lambda>r. fr_zipSha256 r = dw_zipSha256 d) (bx_runs st)) of
                     Some r \<Rightarrow>
                       (Inr \<lparr>rx_runId = fr_id r, rx_rowCount = fr_rowCount r, rx_applied = 0, rx_changed = 0,
                          rx_seeded = 0, rx_deduplicatedByHash = True, rx_testCompleted = False\<rparr>,
                        finish_success (rn_now env) ing (fr_rowCount r, 0, 0, rn_memoryMb env) st)
                   | None \<Rightarrow>
                       (let run = new_run env url (dw_zipObjectKey d) (dw_txtObjectKey d)
                              (if force then rn_fingerprint env (dw_zipSha256 d) else dw_zipSha256 d)
                              (dw_txtSha256 d) (rn_profile env)
                        in run_file env ''parse_stream'' run (save_run run st)))))"

text \<open>\<open>replayRunFromArchive\<close>\<close>

definition replay_run :: "run_env \<Rightarrow> string \<Rightarrow> bulk_runs \<Rightarrow> (string + run_result) \<times> bulk_runs" where
  "replay_run env runId st =
     (case find_key fr_id runId (bx_runs st) of
        None \<Rightarrow> (Inl ''EntityNotFoundError'', st)
      | Some src \<Rightarrow>
          (let run = new_run env (''replay:'' @ fr_id src) (fr_zipObjectKey src) (fr_txtObjectKey src)
                 (rn_fingerprint env (fr_zipSha256 src)) (fr_txtSha256 src)
                 (or_default (fr_parserProfile src) (rn_profile env));
               st = start_ingestion (rn_ingestionId env) ''bolagsverket'' ''replay_bulk'' (Some (fr_zipObjectKey src))
                 (save_run run st)
           in run_file env ''extract_txt'' run st))"

section \<open>What the interface shows of a run\<close>

definition is_test_completed :: "file_run \<Rightarrow> bool" where
  "is_test_completed r \<longleftrightarrow> fr_status r = ParsedRun \<and> prefix test_limit_prefix (or_default (fr_errorMessage r) [])"

record step_state =
  sw_step :: string
  sw_status :: string
  sw_message :: "string option"

record run_ui =
  ui_testCompleted :: bool
  ui_failureStep :: "string option"
  ui_failureDetail :: "string option"
  ui_steps :: "step_state list"

definition mark :: "string \<Rightarrow> string \<Rightarrow> string option \<Rightarrow> step_state list \<Rightarrow> step_state list" where
  "mark s status m = map (\<lambda>x. if sw_step x = s then x\<lparr>sw_status := status, sw_message := m\<rparr> else x)"

definition initial_steps :: "step_state list" where
  "initial_steps =
     mark ''extract_txt'' ''success'' None (mark ''archive_zip'' ''success'' None (mark ''download_zip'' ''success'' None
       (map (\<lambda>s. \<lparr>sw_step = s, sw_status = ''pending'', sw_message = None\<rparr>) pipeline_steps)))"

definition build_run_ui :: "file_run \<Rightarrow> run_ui" where
  "build_run_ui r =
     (let (phase, detail) = decode_failure (fr_errorMessage r);
          ui = (\<lambda>test step d steps. \<lparr>ui_testCompleted = test, ui_failureStep = step, ui_failureDetail = d, ui_steps = steps\<rparr>)
      in if is_test_completed r
         then (let limit = drop (length test_limit_prefix) (or_default (fr_errorMessage r) []);
                   d = (if limit \<noteq> [] then ''Validation mode stopped after '' @ limit @ '' parsed rows.''
                        else ''Validation mode stopped early by configured test limit.'')
               in ui True None (Some d) (mark ''apply_changes'' ''skipped'' (Some ''Skipped in validation mode.'')
                    (mark ''parse_stream'' ''success'' (Some d) initial_steps)))
         else case fr_status r of
           AppliedRun \<Rightarrow> ui False None None (mark ''apply_changes'' ''success'' None
             (mark ''parse_stream'' ''success'' None initial_steps))
         | ParsedRun \<Rightarrow> ui False None None (mark ''apply_changes'' ''pending'' (Some ''Apply phase not started.'')
             (mark ''parse_stream'' ''success'' None initial_steps))
         | Downloaded \<Rightarrow> ui False None None initial_steps
         | FailedRun \<Rightarrow>
             (case phase of
                Some p \<Rightarrow>
                  if p \<in> set pipeline_steps
                  then (let steps = mark p ''failed'' detail initial_steps;
                            steps = (if p = ''parse_stream''
                              then mark ''apply_changes'' ''pending'' (Some ''Parse failed before apply phase.'') steps else steps);
                            steps = (if p = ''apply_changes'' then mark ''parse_stream'' ''success'' None steps else steps)
                        in ui False (Some p) (Some (or_default detail ''Bulk ingestion failed.'')) steps)
                  else (let m = or_default (fr_errorMessage r) ''Bulk ingestion failed.''
                        in ui False (Some ''parse_stream'') (Some m)
                             (mark ''apply_changes'' ''pending'' (Some ''Parse failed before apply phase.'')
                               (mark ''parse_stream'' ''failed'' (Some m) initial_steps)))
              | None \<Rightarrow>
                  (let m = or_default (fr_errorMessage r) ''Bulk ingestion failed.''
                   in ui False (Some ''parse_stream'') (Some m)
                        (mark ''apply_changes'' ''pending'' (Some ''Parse failed before apply phase.'')
                          (mark ''parse_stream'' ''failed'' (Some m) initial_steps)))))"

definition list_weekly_runs :: "int \<Rightarrow> bulk_runs \<Rightarrow> (file_run \<times> run_ui) list" where
  "list_weekly_runs limit st =
     map (\<lambda>r. (r, build_run_ui r))
       (take (nat (max 1 (min 200 limit))) (find_desc (\<lambda>r. True) fr_downloadedAt (bx_runs st)))"

section \<open>Queue, schedule and access\<close>

record weekly_job =
  wj_sourceUrl :: "string option"

definition enqueue_weekly :: "weekly_job list \<Rightarrow> weekly_job list" where
  "enqueue_weekly q = q @ [\<lparr>wj_sourceUrl = None\<rparr>]"

definition enqueue_forced :: "string option \<Rightarrow> weekly_job list \<Rightarrow> weekly_job list" where
  "enqueue_forced url q = q @ [\<lparr>wj_sourceUrl = Option.bind url nonempty\<rparr>]"

text \<open>\<open>BolagsverketBulkProcessor.process\<close> on a weekly job, \<open>BolagsverketBulkScheduler\<close>.\<close>

definition process_weekly_job :: "run_env \<Rightarrow> weekly_job \<Rightarrow> bulk_runs \<Rightarrow> (string + run_result) \<times> bulk_runs" where
  "process_weekly_job env job = run_weekly env (wj_sourceUrl job) False"

definition schedule_weekly :: "string \<Rightarrow> weekly_job list \<Rightarrow> weekly_job list" where
  "schedule_weekly enabled q = (if to_lower enabled = ''true'' then enqueue_weekly q else q)"

definition ensure_admin_role :: "string \<Rightarrow> string option \<Rightarrow> string option \<Rightarrow> string option" where
  "ensure_admin_role platformTenant role tenantId =
     (if role \<noteq> Some ''admin'' then Some ''Access restricted to platform admin role.''
      else (let p = trim platformTenant
            in if p \<noteq> [] \<and> truthy_str tenantId \<and> tenantId \<noteq> Some p
               then Some ''Access restricted to platform admin tenant.'' else None))"

section \<open>Messages can be read back\<close>

lemma split_on_line:
  assumes "c \<notin> set a"
  shows "split_on c (a @ c # b) = a # split_on c b"
  using assms by (induction a) auto

lemma split_on_hd: "\<exists>ls. split_on c b = takeWhile (\<lambda>x. x \<noteq> c) b # ls"
proof (induction b)
  case Nil
  then show ?case by simp
next
  case (Cons x b)
  then show ?case by (cases "x = c") (auto split: list.splits)
qed

lemma has_sub_prefixed: "has_sub n (n @ s)"
proof -
  have "prefix n (n @ s)" by simp
  then show ?thesis by (cases "n @ s") auto
qed

text \<open>
  The step and the first line of the error are read back from the message of a failed run.
\<close>

lemma failure_message_roundtrip:
  assumes "CHR 0x0A \<notin> set phase"
  shows "decode_failure (Some (encode_failure phase detail)) =
    (nonempty (trim phase), nonempty (trim (takeWhile (\<lambda>c. c \<noteq> CHR 0x0A) detail)))"
proof -
  let ?raw = "encode_failure phase detail"
  let ?first = "failure_phase_prefix @ phase"
  have nl: "CHR 0x0A \<notin> set ?first" using assms by (simp add: failure_phase_prefix_def)
  obtain ls where ls: "split_on (CHR 0x0A) (failure_detail_prefix @ detail) =
      takeWhile (\<lambda>x. x \<noteq> CHR 0x0A) (failure_detail_prefix @ detail) # ls" using split_on_hd by metis
  have t: "takeWhile (\<lambda>x. x \<noteq> CHR 0x0A) (failure_detail_prefix @ detail) =
      failure_detail_prefix @ takeWhile (\<lambda>x. x \<noteq> CHR 0x0A) detail"
    by (simp add: failure_detail_prefix_def)
  have s: "split_on (CHR 0x0A) ?raw = ?first # (failure_detail_prefix @ takeWhile (\<lambda>x. x \<noteq> CHR 0x0A) detail) # ls"
    using split_on_line [OF nl, of "failure_detail_prefix @ detail"] ls t by (simp add: encode_failure_def)
  have no: "\<not> prefix failure_detail_prefix ?first"
    by (simp add: failure_phase_prefix_def failure_detail_prefix_def)
  have sub: "has_sub failure_phase_prefix ?raw"
    unfolding encode_failure_def by (rule has_sub_prefixed)
  have "?raw \<noteq> []" by (simp add: encode_failure_def)
  then show ?thesis
    using sub no by (simp add: decode_failure_def s after_prefix_def)
qed

section \<open>Ingestion runs come to an end\<close>

lemma save_run_simps [simp]:
  "bx_ingestions (save_run r st) = bx_ingestions st" "bx_runs (save_run r st) = save fr_id r (bx_runs st)"
  "bx_bulk (save_run r st) = bx_bulk st" "bx_tables (save_run r st) = bx_tables st"
  "bx_files (save_run r st) = bx_files st"
  by (simp_all add: save_run_def)

lemma update_ingestion_simps [simp]:
  "bx_runs (update_ingestion i f st) = bx_runs st" "bx_bulk (update_ingestion i f st) = bx_bulk st"
  "bx_tables (update_ingestion i f st) = bx_tables st" "bx_files (update_ingestion i f st) = bx_files st"
  by (simp_all add: update_ingestion_def)

lemma finish_simps [simp]:
  "bx_runs (finish_success now i c st) = bx_runs st" "bx_bulk (finish_success now i c st) = bx_bulk st"
  "bx_tables (finish_success now i c st) = bx_tables st"
  "bx_runs (finish_failure now i c e st) = bx_runs st" "bx_bulk (finish_failure now i c e st) = bx_bulk st"
  "bx_tables (finish_failure now i c e st) = bx_tables st"
  by (simp_all add: finish_success_def finish_failure_def)

lemma start_ingestion_simps [simp]:
  "bx_runs (start_ingestion i p t k st) = bx_runs st" "bx_bulk (start_ingestion i p t k st) = bx_bulk st"
  "bx_tables (start_ingestion i p t k st) = bx_tables st"
  by (simp_all add: start_ingestion_def)

lemma persist_source_file_simps [simp]:
  "bx_runs (persist_source_file p h n k t st) = bx_runs st" "bx_bulk (persist_source_file p h n k t st) = bx_bulk st"
  "bx_tables (persist_source_file p h n k t st) = bx_tables st"
  "bx_ingestions (persist_source_file p h n k t st) = bx_ingestions st"
  by (simp_all add: persist_source_file_def split: option.split)

text \<open>The ingestion runs with a given id, and their status.\<close>

definition ingestion_status :: "string \<Rightarrow> bulk_runs \<Rightarrow> string set" where
  "ingestion_status i st = set (map ig_status (filter (\<lambda>r. ig_id r = i) (bx_ingestions st)))"

lemma status_save_run [simp]: "ingestion_status i (save_run r st) = ingestion_status i st"
  by (simp add: ingestion_status_def)

lemma filter_update_where:
  "(\<And>r. p (f r) = p r) \<Longrightarrow> filter p (update_where p f t) = map f (filter p t)"
  by (induction t) (simp_all add: update_where_def)

lemma status_update:
  assumes "\<And>r. ig_id (f r) = ig_id r" and "\<And>r. ig_status (f r) = s" and "ingestion_status i st \<noteq> {}"
  shows "ingestion_status i (update_ingestion i f st) = {s}"
proof -
  have "filter (\<lambda>r. ig_id r = i) (update_where (\<lambda>r. ig_id r = i) f (bx_ingestions st)) =
      map f (filter (\<lambda>r. ig_id r = i) (bx_ingestions st))"
    by (rule filter_update_where) (simp add: assms(1))
  moreover have "filter (\<lambda>r. ig_id r = i) (bx_ingestions st) \<noteq> []"
    using assms(3) by (auto simp: ingestion_status_def filter_empty_conv)
  ultimately show ?thesis
    by (auto simp: ingestion_status_def update_ingestion_def comp_def assms(2) image_image image_constant_conv
      filter_empty_conv)
qed

lemma with_counts_id [simp]: "ig_id (with_counts c r) = ig_id r"
  by (simp add: with_counts_def split: prod.split)

lemma status_finished:
  assumes "ingestion_status i st \<noteq> {}"
  shows "ingestion_status i (finish_success now i c st) = {''applied''}"
    and "ingestion_status i (finish_failure now i c e st) = {''failed''}"
  using assms by (simp_all add: finish_success_def finish_failure_def status_update)

lemma status_started [simp]:
  "ingestion_status i (start_ingestion i p t k st) = insert ''running'' (ingestion_status i st)"
  by (simp add: ingestion_status_def start_ingestion_def)

lemma status_fail_run:
  "ingestion_status (rn_ingestionId env) st \<noteq> {} \<Longrightarrow>
   ingestion_status (rn_ingestionId env) (fail_run env phase e stats run st) = {''failed''}"
  by (simp add: fail_run_def Let_def status_finished)

lemma status_bulk [simp]:
  "ingestion_status i (bx_bulk_update f st) = ingestion_status i st"
  "ingestion_status i (bx_tables_update g st) = ingestion_status i st"
  by (simp_all add: ingestion_status_def)

lemma status_run_file:
  assumes "ingestion_status (rn_ingestionId env) st \<noteq> {}"
  shows "ingestion_status (rn_ingestionId env) (snd (run_file env phase run st)) =
    {if isl (fst (run_file env phase run st)) then ''failed'' else ''applied''}"
  using assms
  by (simp add: run_file_def Let_def split_beta status_fail_run status_finished
    split: sum.split option.split)

lemma status_touch [simp]:
  "ingestion_status i (update_ingestion i (ig_r2ObjectKey_update f) st) = ingestion_status i st"
proof -
  have "filter (\<lambda>r. ig_id r = i) (update_where (\<lambda>r. ig_id r = i) (ig_r2ObjectKey_update f) (bx_ingestions st)) =
      map (ig_r2ObjectKey_update f) (filter (\<lambda>r. ig_id r = i) (bx_ingestions st))"
    by (rule filter_update_where) simp
  then show ?thesis by (simp add: ingestion_status_def update_ingestion_def image_image)
qed

lemma status_persist [simp]:
  "ingestion_status i (persist_source_file p h n k t st) = ingestion_status i st"
  by (simp add: ingestion_status_def)

lemmas run_weekly_parts = run_weekly_def Let_def split_beta

lemma ingestion_run_ended:
  "ingestion_status (rn_ingestionId env) (snd (run_weekly env override force st)) =
     (case rn_download env (or_default (Option.bind override nonempty) (rn_defaultUrl env)) of
        Inl e \<Rightarrow> insert ''running'' (ingestion_status (rn_ingestionId env) st)
      | Inr d \<Rightarrow> {if isl (fst (run_weekly env override force st)) then ''failed'' else ''applied''})"
  by (simp add: run_weekly_parts status_finished status_run_file split: sum.split option.split)


text \<open>
  Once the file is downloaded the ingestion run is brought to an end, applied when the call
  returns a result and failed when it throws, with every later error of the stream, the memory,
  the database or the application; only an error of the download leaves it running for ever.
\<close>

theorem ingestion_run_settled:
  "ingestion_status (rn_ingestionId env) (snd (run_weekly env override force st)) =
     (case rn_download env (or_default (Option.bind override nonempty) (rn_defaultUrl env)) of
        Inl e \<Rightarrow> insert ''running'' (ingestion_status (rn_ingestionId env) st)
      | Inr d \<Rightarrow> {if isl (fst (run_weekly env override force st)) then ''failed'' else ''applied''})"
  by (rule ingestion_run_ended)

section \<open>What a run leaves in the tables\<close>

lemma find_key_map:
  assumes "\<And>c. key (f c) = key c"
  shows "find_key key k (map f t) = map_option f (find_key key k t)"
  using assms by (induction t) (simp_all add: find_key_def table_simps)

lemma apply_row_unique: "unique_keys cu_org (bs_current st) \<Longrightarrow> unique_keys cu_org (bs_current (snd (apply_row f t r st)))"
  by (simp add: apply_row_current unique_keys_save)

lemma apply_rows_unique: "unique_keys cu_org (bs_current st) \<Longrightarrow> unique_keys cu_org (bs_current (snd (apply_rows f t rs st)))"
  by (induction rs arbitrary: st) (simp_all del: apply_rows.simps add: apply_rows_Cons apply_row_unique, simp)

lemma seed_keeps_current [simp]:
  "bs_current (snd (seed_companies_from_current d t st)) = bs_current st"
  "bs_history (snd (seed_companies_from_current d t st)) = bs_history st"
  by (simp_all add: seed_companies_from_current_def Let_def)

text \<open>The row of an organisation after a run with the given staging rows.\<close>

definition row_after :: "string \<Rightarrow> int \<Rightarrow> current_row option \<Rightarrow> staging_row list \<Rightarrow> current_row option \<Rightarrow> bool" where
  "row_after runId now old rows new \<longleftrightarrow>
     (if rows = [] then new = map_option (\<lambda>c. if is_missing runId c then deactivate now c else c) old
      else (\<exists>c e. new = Some c \<and> cu_payload c = payload_of runId now e (last rows) \<and>
        bp_firstSeenAt (cu_payload c) = first_seen now old))"

lemma apply_run_rows:
  assumes "unique_keys cu_org (bs_current (bx_bulk st))" and "k \<noteq> []"
    and "filter (\<lambda>r. st_fileRunId r = runId) (tb_staging (bx_tables st)) = rows"
  shows "row_after runId (rn_now env) (find_key cu_org k (bs_current (bx_bulk st)))
    (filter (\<lambda>r. staging_org r = k) rows) (find_key cu_org k (bs_current (snd (apply_run env runId st))))"
proof -
  let ?b = "(bx_bulk st)\<lparr>bs_staging := tb_staging (bx_tables st)\<rparr>"
  let ?b1 = "snd (apply_rows runId (rn_now env) rows ?b)"
  let ?old = "find_key cu_org k (bs_current (bx_bulk st))"
  let ?rs = "filter (\<lambda>r. staging_org r = k) rows"
  have u: "unique_keys cu_org (bs_current ?b1)" by (rule apply_rows_unique) (simp add: assms(1))
  have "bs_current (snd (apply_run env runId st)) = map (\<lambda>c. if is_missing runId c then deactivate (rn_now env) c else c) (bs_current ?b1)"
    using detect_removed_result(1) [OF u] assms(3)
    by (simp add: apply_run_def Let_def split_beta apply_staging_simps)
  then have new: "find_key cu_org k (bs_current (snd (apply_run env runId st))) =
      map_option (\<lambda>c. if is_missing runId c then deactivate (rn_now env) c else c) (find_key cu_org k (bs_current ?b1))"
    by (simp add: find_key_map)
  from apply_rows_find [OF assms(2), where rows = rows and f = runId and t = "rn_now env" and st = ?b] show ?thesis
  proof (cases ?rs)
    case Nil
    then have "find_key cu_org k (bs_current ?b1) = ?old"
      using apply_rows_find [OF assms(2), where rows = rows and f = runId and t = "rn_now env" and st = ?b] by simp
    then show ?thesis using new Nil by (simp add: row_after_def)
  next
    case (Cons r rs)
    then obtain c e where c: "find_key cu_org k (bs_current ?b1) = Some c"
        "cu_payload c = payload_of runId (rn_now env) e (last ?rs)"
        "bp_firstSeenAt (cu_payload c) = first_seen (rn_now env) ?old"
      using apply_rows_find [OF assms(2), where rows = rows and f = runId and t = "rn_now env" and st = ?b] by auto
    then have "\<not> is_missing runId c" by (simp add: is_missing_def)
    then show ?thesis using new c Cons by (auto simp: row_after_def)
  qed
qed

definition completed :: "run_result \<Rightarrow> bool" where
  "completed r \<longleftrightarrow> \<not> rx_deduplicatedByHash r \<and> \<not> rx_testCompleted r"

lemma run_file_completed:
  assumes "run_file env phase run st = (Inr r, st')" and "completed r"
  obtains input s where "rn_object env (fr_txtObjectKey run) = Inr input"
    "ingest_stream (stream_env_of env run) (rn_flush env) input (bx_tables st) = (None, s)"
    "bx_bulk st' = snd (apply_run env (fr_id run) (st\<lparr>bx_tables := ln_tables s\<rparr>))"
    "bx_tables st' = ln_tables s" "\<not> ln_stopped s" "rx_rowCount r = ln_line s"
  using assms
  by (auto simp: run_file_def completed_def Let_def split_beta split: sum.splits option.splits if_splits
    intro: that [OF _ prod_eqI])

text \<open>All staging rows of a stream carry the id of its run.\<close>

lemma staging_of_line_run: "staging_of_line env l = Some r \<Longrightarrow> st_fileRunId r = sv_run env"
  by (simp add: staging_of_line_def split: sum.splits) (auto simp: staging_of_parsed_def)

lemma staging_rows_line: "r \<in> set (staging_rows env ls) \<Longrightarrow> \<exists>l \<in> set ls. staging_of_line env l = Some r"
  by (auto simp: staging_rows_def List.map_filter_def)

lemma staging_rows_run: "r \<in> set (staging_rows env ls) \<Longrightarrow> st_fileRunId r = sv_run env"
  using staging_of_line_run staging_rows_line by fast

text \<open>The staging rows of a file.\<close>

definition file_rows :: "run_env \<Rightarrow> file_run \<Rightarrow> string list \<Rightarrow> staging_row list" where
  "file_rows env run ls = staging_rows (stream_env_of env run) (lines_read (stream_env_of env run) ls)"

lemma run_file_rows:
  assumes "run_file env phase run st = (Inr r, st')" and "completed r"
    and "rn_object env (fr_txtObjectKey run) = Inr input"
    and "unique_keys cu_org (bs_current (bx_bulk st))"
    and "\<forall>x \<in> set (tb_staging (bx_tables st)). st_fileRunId x \<noteq> fr_id run" and "k \<noteq> []"
  shows "row_after (fr_id run) (rn_now env) (find_key cu_org k (bs_current (bx_bulk st)))
    (filter (\<lambda>r. staging_org r = k) (file_rows env run (fst input)))
    (find_key cu_org k (bs_current (bx_bulk st')))"
proof -
  obtain s where s: "ingest_stream (stream_env_of env run) (rn_flush env) input (bx_tables st) = (None, s)"
    and b: "bx_bulk st' = snd (apply_run env (fr_id run) (st\<lparr>bx_tables := ln_tables s\<rparr>))"
    using run_file_completed [OF assms(1,2)] assms(3) by (metis Inr_inject)
  let ?rows = "file_rows env run (fst input)"
  have "sv_run (stream_env_of env run) = fr_id run" by (simp add: stream_env_of_def)
  then have "\<forall>x \<in> set ?rows. st_fileRunId x = fr_id run"
    using staging_rows_run [of _ "stream_env_of env run"] by (simp add: file_rows_def)
  moreover have "tb_staging (ln_tables s) = tb_staging (bx_tables st) @ ?rows"
    using stream_written_all [OF s] by (simp add: file_rows_def Let_def)
  ultimately have rows: "filter (\<lambda>r. st_fileRunId r = fr_id run) (tb_staging (ln_tables s)) = ?rows"
    using assms(5) by (simp add: filter_id_conv filter_empty_conv)
  show ?thesis
    unfolding b using apply_run_rows [of "st\<lparr>bx_tables := ln_tables s\<rparr>" k "fr_id run" ?rows env] assms(4,6) rows by simp
qed

lemma new_run_simps [simp]:
  "fr_id (new_run env u zk tk zs ts p) = rn_runId env" "fr_txtObjectKey (new_run env u zk tk zs ts p) = tk"
  "fr_zipSha256 (new_run env u zk tk zs ts p) = zs"
  by (simp_all add: new_run_def)

definition weekly_url :: "run_env \<Rightarrow> string option \<Rightarrow> string" where
  "weekly_url env override = or_default (Option.bind override nonempty) (rn_defaultUrl env)"

definition accepted :: "run_env \<Rightarrow> download \<Rightarrow> bool" where
  "accepted env d \<longleftrightarrow> \<not> (rn_maxTxtBytes env > 0 \<and> dw_txtSizeBytes d > rn_maxTxtBytes env)"

text \<open>The state before the file is read, and the two ways a weekly run goes on.\<close>

definition before_file :: "run_env \<Rightarrow> download \<Rightarrow> bulk_runs \<Rightarrow> bulk_runs" where
  "before_file env d st =
     persist_source_file ''bolagsverket.bulk.txt'' (dw_txtSha256 d) (dw_txtSizeBytes d)
       (dw_txtObjectKey d) ''text/plain; charset=utf-8''
       (persist_source_file ''bolagsverket.bulk.zip'' (dw_zipSha256 d) (dw_zipSizeBytes d)
         (dw_zipObjectKey d) ''application/zip''
         (update_ingestion (rn_ingestionId env) (ig_r2ObjectKey_update (\<lambda>_. Some (dw_zipObjectKey d)))
           (start_ingestion (rn_ingestionId env) ''bolagsverket'' ''weekly_bulk'' None st)))"

lemma before_file_simps [simp]:
  "bx_runs (before_file env d st) = bx_runs st" "bx_bulk (before_file env d st) = bx_bulk st"
  "bx_tables (before_file env d st) = bx_tables st"
  by (simp_all add: before_file_def)

definition weekly_run :: "run_env \<Rightarrow> string option \<Rightarrow> bool \<Rightarrow> download \<Rightarrow> file_run" where
  "weekly_run env override force d =
     new_run env (weekly_url env override) (dw_zipObjectKey d) (dw_txtObjectKey d)
       (if force then rn_fingerprint env (dw_zipSha256 d) else dw_zipSha256 d) (dw_txtSha256 d) (rn_profile env)"

definition duplicate_of :: "file_run \<Rightarrow> run_result" where
  "duplicate_of r = \<lparr>rx_runId = fr_id r, rx_rowCount = fr_rowCount r, rx_applied = 0, rx_changed = 0,
     rx_seeded = 0, rx_deduplicatedByHash = True, rx_testCompleted = False\<rparr>"

lemma run_weekly_rejected:
  assumes "rn_download env (weekly_url env override) = Inr d" and "\<not> accepted env d"
  shows "isl (fst (run_weekly env override force st))"
proof -
  have c: "rn_maxTxtBytes env > 0 \<and> dw_txtSizeBytes d > rn_maxTxtBytes env" using assms(2) by (simp add: accepted_def)
  show ?thesis
    unfolding run_weekly_def Let_def assms(1) [unfolded weekly_url_def] sum.case if_P [OF c] by simp
qed

lemma run_weekly_rejected_state:
  assumes "rn_download env (weekly_url env override) = Inr d" and "\<not> accepted env d"
  shows "bx_bulk (snd (run_weekly env override force st)) = bx_bulk st"
    and "bx_runs (snd (run_weekly env override force st)) = bx_runs st"
proof -
  have c: "rn_maxTxtBytes env > 0 \<and> dw_txtSizeBytes d > rn_maxTxtBytes env" using assms(2) by (simp add: accepted_def)
  show "bx_bulk (snd (run_weekly env override force st)) = bx_bulk st"
    "bx_runs (snd (run_weekly env override force st)) = bx_runs st"
    unfolding run_weekly_def Let_def assms(1) [unfolded weekly_url_def] sum.case if_P [OF c] by simp_all
qed

lemma run_weekly_known:
  assumes "rn_download env (weekly_url env override) = Inr d" and "accepted env d"
    and "find_one (\<lambda>r. fr_zipSha256 r = dw_zipSha256 d) (bx_runs st) = Some r"
  shows "run_weekly env override False st = (Inr (duplicate_of r),
    finish_success (rn_now env) (rn_ingestionId env) (fr_rowCount r, 0, 0, rn_memoryMb env) (before_file env d st))"
  unfolding run_weekly_def Let_def assms(1) [unfolded weekly_url_def] sum.case if_not_P [OF assms(2) [unfolded accepted_def]]
  by (simp add: assms(3) before_file_def duplicate_of_def)

lemma run_weekly_new:
  assumes "rn_download env (weekly_url env override) = Inr d" and "accepted env d"
    and "force \<or> find_one (\<lambda>r. fr_zipSha256 r = dw_zipSha256 d) (bx_runs st) = None"
  shows "run_weekly env override force st =
    run_file env ''parse_stream'' (weekly_run env override force d)
      (save_run (weekly_run env override force d) (before_file env d st))"
  unfolding run_weekly_def Let_def assms(1) [unfolded weekly_url_def] sum.case if_not_P [OF assms(2) [unfolded accepted_def]]
  using assms(3) by (cases force) (simp_all add: before_file_def weekly_run_def weekly_url_def)

lemma weekly_run_simps [simp]:
  "fr_id (weekly_run env u f d) = rn_runId env" "fr_txtObjectKey (weekly_run env u f d) = dw_txtObjectKey d"
  "fr_zipSha256 (weekly_run env u False d) = dw_zipSha256 d"
  by (simp_all add: weekly_run_def)

text \<open>A run that returns a completed result was not answered as a duplicate.\<close>

lemma completed_is_new:
  assumes "run_weekly env override force st = (Inr r, st')" and "\<not> rx_deduplicatedByHash r"
    and "rn_download env (weekly_url env override) = Inr d"
  shows "accepted env d" and "force \<or> find_one (\<lambda>r. fr_zipSha256 r = dw_zipSha256 d) (bx_runs st) = None"
proof -
  show a: "accepted env d" using run_weekly_rejected [OF assms(3), of force st] assms(1) by auto
  show "force \<or> find_one (\<lambda>r. fr_zipSha256 r = dw_zipSha256 d) (bx_runs st) = None"
  proof (rule ccontr)
    assume "\<not> ?thesis"
    then obtain x where "\<not> force" "find_one (\<lambda>r. fr_zipSha256 r = dw_zipSha256 d) (bx_runs st) = Some x" by auto
    then show False using run_weekly_known [OF assms(3) a] assms(1,2) by (auto simp: duplicate_of_def)
  qed
qed


text \<open>
  A run that stopped before its end, in failure or at the limit of a test, and what it leaves.
\<close>

definition incomplete :: "string + run_result \<Rightarrow> bool" where
  "incomplete res \<longleftrightarrow> (case res of Inl e \<Rightarrow> True | Inr r \<Rightarrow> rx_testCompleted r)"

lemma run_file_incomplete:
  assumes "run_file env phase run st = (res, st')" and "incomplete res"
  obtains run' where "bx_runs st' = save fr_id run' (bx_runs st)" "fr_id run' = fr_id run"
    "fr_zipSha256 run' = fr_zipSha256 run" "fr_status run' \<noteq> AppliedRun"
  using assms
  by (auto simp: run_file_def incomplete_def fail_run_def Let_def split_beta split: sum.splits option.splits if_splits)

lemma find_one_save:
  assumes "find_one p t = None" and "p r"
  shows "find_one p (save key r t) = Some r"
  using assms by (induction t) (auto simp: table_simps split: if_splits)


text \<open>Without failures, limits and errors of the application a run completes.\<close>

lemma calm_run_completes:
  assumes "rn_download env (weekly_url env override) = Inr d" and "accepted env d"
    and "rn_object env (dw_txtObjectKey d) = Inr (ls, None)" and "rn_maxRows env = None"
    and "calm (stream_env_of env (weekly_run env override True d)) (rn_flush env)" and "rn_applyError env = None"
  shows "\<exists>r st'. run_weekly env override True st = (Inr r, st') \<and> completed r"
proof -
  let ?run = "weekly_run env override True d"
  let ?st = "save_run ?run (before_file env d st)"
  let ?senv = "stream_env_of env ?run"
  obtain s where s: "ingest_stream ?senv (rn_flush env) (ls, None) (bx_tables ?st) = (None, s)"
    using calm_stream [OF assms(5)] by (metis prod.collapse)
  have "sv_maxRows ?senv = None" by (simp add: stream_env_of_def assms(4))
  then have "\<not> ln_stopped s" using stream_written_all [OF s] by (simp add: Let_def at_limit_def)
  then show ?thesis
    using s assms(3,6) by (simp add: run_weekly_new [OF assms(1,2)] run_file_def Let_def split_beta completed_def)
qed

definition no_runs :: bulk_runs where
  "no_runs = \<lparr>bx_runs = [], bx_ingestions = [], bx_files = [], bx_tables = no_tables,
     bx_bulk = \<lparr>bs_staging = [], bs_current = [], bs_history = [], bs_names = [], bs_restructuring = [],
       bs_companies = []\<rparr>\<rparr>"

definition sample_run :: "(string + string list \<times> string option) \<Rightarrow> run_env" where
  "sample_run object = \<lparr>rn_now = 5, rn_defaultUrl = ''u'', rn_profile = ''p'', rn_maxRows = None, rn_maxTxtBytes = 0,
     rn_download = (\<lambda>u. Inr \<lparr>dw_zipSha256 = ''h'', dw_txtSha256 = ''t'', dw_zipObjectKey = ''z.zip'',
       dw_txtObjectKey = ''bulk/a.txt'', dw_zipSizeBytes = 1, dw_txtSizeBytes = 2\<rparr>),
     rn_object = (\<lambda>k. object), rn_stream = sample_stream, rn_flush = sample_flush, rn_memoryMb = 80,
     rn_ingestionId = ''i1'', rn_runId = ''r1'', rn_fingerprint = (\<lambda>h. h @ ''+''), rn_applyError = None,
     rn_toDate = (\<lambda>d. 0), rn_defaultTenant = ''t0''\<rparr>"

lemma sample_file_read: "lines_read sample_stream [''odd'', ''good''] = [''odd'', ''good'']"
proof -
  have "trim ''odd'' \<noteq> []" "trim ''good'' \<noteq> []" by (simp_all add: trim_def is_space_def code_def)
  moreover have "\<not> at_limit sample_stream ls" for ls by (simp add: at_limit_def sample_stream_def)
  ultimately show ?thesis by (simp add: lines_read_def)
qed

lemma sample_staged:
  "staging_of_line sample_stream ''odd'' = None"
  "map_option staging_org (staging_of_line sample_stream ''good'') = Some ''5560001234''"
  by (code_simp, code_simp)



end
