(* ===== verification/BulkEnrichment.thy ===== *)
theory BulkEnrichment
  imports BulkRuns Enrichment SqlText
begin

text \<open>
  Requests for deep data on companies of the bulk file:
  \<open>requestDeepEnrichment\<close>, \<open>processEnrichmentRequest\<close>, \<open>applyStaleEnrichedPolicy\<close>, the
  list of the bulk companies (backend/src/bolagsverket-bulk/bolagsverket-bulk.service.ts) and the
  worker that serves them and the weekly runs from one queue (bolagsverket-bulk.processor.ts). The
  fetch is \<open>Enrichment.enrich_and_save\<close>, on the state of the provider services; what a call
  finds (the clock, ids, answers of the provider) is supplied by its environment.
\<close>

section \<open>State\<close>

datatype enrichment_reason = CompanyOpened | Compare | Manual | ApiRequest | OwnershipView | Officers | DocumentsView | Financial

datatype request_status = RequestQueued | RequestStarted | RequestFinished | RequestFailed

record deep_request =
  dr_id :: string
  dr_organisationNumber :: string
  dr_requestedByUserId :: "string option"
  dr_requestedByTenantId :: string
  dr_reason :: enrichment_reason
  dr_status :: request_status
  dr_priority :: int
  dr_requestedAt :: int
  dr_startedAt :: "int option"
  dr_finishedAt :: "int option"
  dr_errorMessage :: "string option"

datatype bulk_task = WeeklyTask weekly_job | EnrichmentTask string int

record deep_state =
  dp_runs :: bulk_runs
  dp_requests :: "deep_request list"
  dp_queue :: "bulk_task list"
  dp_provider :: enrich_store

definition deep_rows :: "deep_state \<Rightarrow> current_row list" where
  "deep_rows st = bs_current (bx_bulk (dp_runs st))"

text \<open>The query builder's update of the row of an organisation.\<close>

definition set_seed :: "string \<Rightarrow> (current_row \<Rightarrow> current_row) \<Rightarrow> deep_state \<Rightarrow> deep_state" where
  "set_seed org f st = st\<lparr>dp_runs := (dp_runs st)\<lparr>bx_bulk := (bx_bulk (dp_runs st))
     \<lparr>bs_current := update_where (\<lambda>c. cu_org c = org) f (deep_rows st)\<rparr>\<rparr>\<rparr>"

section \<open>Operations\<close>

text \<open>\<open>requestDeepEnrichment\<close>\<close>

definition request_deep ::
  "string \<Rightarrow> int \<Rightarrow> string \<Rightarrow> string \<Rightarrow> string option \<Rightarrow> enrichment_reason \<Rightarrow> int option \<Rightarrow> deep_state \<Rightarrow>
   deep_request \<times> deep_state" where
  "request_deep i now org tenantId userId reason priority st =
     (let org = digits_only org;
          p = or_default priority 100;
          req = \<lparr>dr_id = i, dr_organisationNumber = org, dr_requestedByUserId = userId,
            dr_requestedByTenantId = tenantId, dr_reason = reason, dr_status = RequestQueued, dr_priority = p,
            dr_requestedAt = now, dr_startedAt = None, dr_finishedAt = None, dr_errorMessage = None\<rparr>;
          st = st\<lparr>dp_requests := save dr_id req (dp_requests st)\<rparr>;
          st = set_seed org (\<lambda>c. c\<lparr>cu_seedState := ''ENRICH_QUEUED''\<rparr>) st
      in (req, st\<lparr>dp_queue := dp_queue st @ [EnrichmentTask i (max 1 (1000 - p))]\<rparr>))"

text \<open>
  \<open>processEnrichmentRequest\<close> in its two halves: up to the call of the provider service, and
  from its outcome on.
\<close>

definition start_request :: "int \<Rightarrow> deep_request \<Rightarrow> deep_state \<Rightarrow> deep_request \<times> deep_state" where
  "start_request now req st =
     (let org = digits_only (dr_organisationNumber req);
          req = req\<lparr>dr_status := RequestStarted, dr_startedAt := Some now\<rparr>;
          st = st\<lparr>dp_requests := save dr_id req (dp_requests st)\<rparr>
      in (req, set_seed org (\<lambda>c. c\<lparr>cu_seedState := ''ENRICHING''\<rparr>) st))"

definition deep_request_of :: "deep_request \<Rightarrow> enrich_request" where
  "deep_request_of req =
     \<lparr>eq_tenantId = dr_requestedByTenantId req, eq_org = digits_only (dr_organisationNumber req),
      eq_forceRefresh = False, eq_correlationId = None, eq_actorId = dr_requestedByUserId req\<rparr>"

definition end_request ::
  "int \<Rightarrow> deep_request \<Rightarrow> (provider_exception + enrich_result) \<Rightarrow> deep_state \<Rightarrow> deep_state" where
  "end_request now req res st =
     (let org = digits_only (dr_organisationNumber req);
          put = (\<lambda>r st. st\<lparr>dp_requests := save dr_id r (dp_requests st)\<rparr>)
      in case res of
           Inr x \<Rightarrow>
             set_seed org (\<lambda>c. c\<lparr>cu_seedState := ''ENRICHED'', cu_deepDataFreshAt := Some now\<rparr>)
               (put (req\<lparr>dr_status := RequestFinished, dr_finishedAt := Some now, dr_errorMessage := None\<rparr>) st)
         | Inl e \<Rightarrow>
             set_seed org (\<lambda>c. c\<lparr>cu_seedState := ''ENRICH_FAILED''\<rparr>)
               (put (req\<lparr>dr_status := RequestFailed, dr_finishedAt := Some now,
                  dr_errorMessage := Some (exception_message e)\<rparr>) st))"

definition process_enrichment ::
  "enrich_env \<Rightarrow> fetch_outcomes \<Rightarrow> string \<Rightarrow> deep_state \<Rightarrow> deep_state" where
  "process_enrichment env outs requestId st =
     (case find_key dr_id requestId (dp_requests st) of
        None \<Rightarrow> st
      | Some req \<Rightarrow>
          (let (req, st) = start_request (en_now env) req st;
               (res, pv) = enrich_and_save env outs (deep_request_of req) (dp_provider st)
           in end_request (en_now env) req res (st\<lparr>dp_provider := pv\<rparr>)))"

text \<open>\<open>applyStaleEnrichedPolicy\<close>; the days are a whole number of at least one.\<close>

definition stale_enriched :: "int \<Rightarrow> int \<Rightarrow> current_row \<Rightarrow> bool" where
  "stale_enriched days now c \<longleftrightarrow> cu_seedState c = ''ENRICHED'' \<and>
     (case cu_deepDataFreshAt c of None \<Rightarrow> False | Some t \<Rightarrow> t < now - max 1 days * 86400000)"

definition apply_stale_policy :: "int \<Rightarrow> int \<Rightarrow> deep_state \<Rightarrow> deep_state" where
  "apply_stale_policy days now st = st\<lparr>dp_runs := (dp_runs st)\<lparr>bx_bulk := (bx_bulk (dp_runs st))
     \<lparr>bs_current := update_where (stale_enriched days now) (\<lambda>c. c\<lparr>cu_seedState := ''STALE_ENRICHED''\<rparr>)
       (deep_rows st)\<rparr>\<rparr>\<rparr>"

text \<open>\<open>listCurrentShallow\<close> and \<open>getShallowByOrg\<close>; \<open>updatedAt\<close> is the column the ORM keeps.\<close>

record shallow_query =
  sq_q :: "string option"
  sq_page :: "int option"
  sq_limit :: "int option"
  sq_seedState :: "string option"

record shallow_page =
  wp_data :: "current_row list"
  wp_total :: nat
  wp_page :: nat
  wp_limit :: nat

definition shallow_match :: "shallow_query \<Rightarrow> current_row \<Rightarrow> bool" where
  "shallow_match q c \<longleftrightarrow>
     (case Option.bind (sq_q q) (\<lambda>s. nonempty (trim s)) of
        None \<Rightarrow> True
      | Some s \<Rightarrow> ilike (''%'' @ s @ ''%'') (cu_org c) \<or>
          (case bp_namePrimary (cu_payload c) of None \<Rightarrow> False | Some n \<Rightarrow> ilike (''%'' @ s @ ''%'') n)) \<and>
     (case Option.bind (sq_seedState q) (\<lambda>s. nonempty (trim s)) of
        None \<Rightarrow> True | Some s \<Rightarrow> cu_seedState c = to_upper s)"

definition list_current_shallow ::
  "int \<Rightarrow> int \<Rightarrow> (current_row \<Rightarrow> int) \<Rightarrow> shallow_query \<Rightarrow> deep_state \<Rightarrow> shallow_page \<times> deep_state" where
  "list_current_shallow days now updatedAt q st =
     (let st = apply_stale_policy days now st;
          page = nat (max 1 (or_default (sq_page q) 1));
          limit = nat (max 1 (min 100 (or_default (sq_limit q) 20)));
          rows = find_desc (shallow_match q) updatedAt (deep_rows st)
      in (\<lparr>wp_data = take limit (drop ((page - 1) * limit) rows), wp_total = length rows,
           wp_page = page, wp_limit = limit\<rparr>, st))"

definition get_shallow_by_org :: "int \<Rightarrow> int \<Rightarrow> string \<Rightarrow> deep_state \<Rightarrow> current_row option \<times> deep_state" where
  "get_shallow_by_org days now org st =
     (let st = apply_stale_policy days now st
      in (find_key cu_org (digits_only org) (deep_rows st), st))"

text \<open>\<open>BolagsverketBulkProcessor.process\<close>\<close>

definition process_task ::
  "run_env \<Rightarrow> enrich_env \<Rightarrow> fetch_outcomes \<Rightarrow> bulk_task \<Rightarrow> deep_state \<Rightarrow> string option \<times> deep_state" where
  "process_task renv env outs t st =
     (case t of
        WeeklyTask j \<Rightarrow>
          (case process_weekly_job renv j (dp_runs st) of
             (Inl e, rs) \<Rightarrow> (Some e, st\<lparr>dp_runs := rs\<rparr>)
           | (Inr r, rs) \<Rightarrow> (None, st\<lparr>dp_runs := rs\<rparr>))
      | EnrichmentTask i p \<Rightarrow> (None, process_enrichment env outs i st))"

section \<open>What the steps leave\<close>

lemma set_seed_simps [simp]:
  "dp_requests (set_seed org f st) = dp_requests st" "dp_queue (set_seed org f st) = dp_queue st"
  "dp_provider (set_seed org f st) = dp_provider st"
  "deep_rows (set_seed org f st) = update_where (\<lambda>c. cu_org c = org) f (deep_rows st)"
  by (simp_all add: set_seed_def deep_rows_def)

lemma deep_rows_simps [simp]:
  "deep_rows (dp_requests_update g st) = deep_rows st" "deep_rows (dp_queue_update h st) = deep_rows st"
  "deep_rows (dp_provider_update k st) = deep_rows st"
  by (simp_all add: deep_rows_def)

lemma stale_simps [simp]:
  "dp_requests (apply_stale_policy d n st) = dp_requests st" "dp_queue (apply_stale_policy d n st) = dp_queue st"
  "deep_rows (apply_stale_policy d n st) =
    update_where (stale_enriched d n) (\<lambda>c. c\<lparr>cu_seedState := ''STALE_ENRICHED''\<rparr>) (deep_rows st)"
  by (simp_all add: apply_stale_policy_def deep_rows_def)

lemma cu_org_seed [simp]: "cu_org (c\<lparr>cu_seedState := s\<rparr>) = cu_org c" "cu_org (c\<lparr>cu_deepDataFreshAt := t\<rparr>) = cu_org c"
  by (simp_all add: cu_org_def)

section \<open>No request is lost\<close>

text \<open>
  The steps: a request, a task served, a worker lost after it began (its task is served again), a
  weekly run and the sweep of stale rows.
\<close>

inductive deep_step :: "deep_state \<Rightarrow> deep_state \<Rightarrow> bool" where
  requested: "find_key dr_id i (dp_requests st) = None \<Longrightarrow>
    deep_step st (snd (request_deep i now org tenantId userId reason priority st))"
| served: "dp_queue st = ys @ EnrichmentTask i p # zs \<Longrightarrow>
    deep_step st (process_enrichment env outs i (st\<lparr>dp_queue := ys @ zs\<rparr>))"
| worker_lost: "EnrichmentTask i p \<in> set (dp_queue st) \<Longrightarrow> find_key dr_id i (dp_requests st) = Some req \<Longrightarrow>
    deep_step st (snd (start_request now req st))"
| weekly: "dp_queue st = ys @ WeeklyTask j # zs \<Longrightarrow> rn_applyError renv = None \<Longrightarrow>
    deep_step st (snd (process_task renv env outs (WeeklyTask j) (st\<lparr>dp_queue := ys @ zs\<rparr>)))"
| weekly_queued: "deep_step st (st\<lparr>dp_queue := dp_queue st @ [WeeklyTask j]\<rparr>)"
| swept: "deep_step st (apply_stale_policy days now st)"

inductive deep_reachable :: "deep_state \<Rightarrow> bool" where
  start: "dp_requests st = [] \<Longrightarrow> dp_queue st = [] \<Longrightarrow> deep_rows st = [] \<Longrightarrow> deep_reachable st"
| step: "deep_reachable st \<Longrightarrow> deep_step st st' \<Longrightarrow> deep_reachable st'"

definition settled :: "deep_request \<Rightarrow> bool" where
  "settled r \<longleftrightarrow> dr_startedAt r \<noteq> None \<and> dr_finishedAt r \<noteq> None \<and>
     (dr_status r = RequestFinished \<and> dr_errorMessage r = None \<or>
      dr_status r = RequestFailed \<and> dr_errorMessage r \<noteq> None)"

definition waiting :: "bulk_task list \<Rightarrow> deep_request \<Rightarrow> bool" where
  "waiting q r \<longleftrightarrow> (\<exists>p. EnrichmentTask (dr_id r) p \<in> set q)"

definition requests_kept :: "deep_state \<Rightarrow> bool" where
  "requests_kept st \<longleftrightarrow> unique_keys dr_id (dp_requests st) \<and>
     (\<forall>r \<in> set (dp_requests st). settled r \<or> waiting (dp_queue st) r)"

lemma started_simps [simp]:
  "dp_requests (snd (start_request now req st)) = save dr_id (fst (start_request now req st)) (dp_requests st)"
  "dp_queue (snd (start_request now req st)) = dp_queue st"
  "dp_provider (snd (start_request now req st)) = dp_provider st"
  "dr_id (fst (start_request now req st)) = dr_id req"
  "dr_startedAt (fst (start_request now req st)) = Some now"
  "dr_organisationNumber (fst (start_request now req st)) = dr_organisationNumber req"
  by (simp_all add: start_request_def Let_def)

lemma find_key_id: "find_key key k t = Some r \<Longrightarrow> key r = k"
  using find_key_SomeD by fast

text \<open>A request that is processed is replaced by a settled one.\<close>

lemma process_settles:
  assumes "find_key dr_id i (dp_requests st) = Some req"
  obtains r where "settled r" "dr_id r = i"
    "dp_requests (process_enrichment env outs i st) = save dr_id r (dp_requests st)"
    "dp_queue (process_enrichment env outs i st) = dp_queue st"
proof -
  obtain req' st' where s: "start_request (en_now env) req st = (req', st')" by (metis prod.collapse)
  obtain res pv where e: "enrich_and_save env outs (deep_request_of req') (dp_provider st') = (res, pv)"
    by (metis prod.collapse)
  have s': "dp_requests st' = save dr_id req' (dp_requests st)" "dp_queue st' = dp_queue st" "dr_id req' = i"
      "dr_startedAt req' \<noteq> None"
    using started_simps [of "en_now env" req st] find_key_id [OF assms] by (simp_all add: s)
  show ?thesis
    using s' e
    by (cases res; intro that) (simp_all add: process_enrichment_def assms s Let_def end_request_def settled_def save_save_same)
qed

lemma weekly_task_keeps [simp]:
  "dp_requests (snd (process_task renv env outs (WeeklyTask j) st)) = dp_requests st"
  "dp_queue (snd (process_task renv env outs (WeeklyTask j) st)) = dp_queue st"
  by (simp_all add: process_task_def split: sum.split prod.split)

lemma requests_kept_step: "deep_step st st' \<Longrightarrow> requests_kept st \<Longrightarrow> requests_kept st'"
proof (induction rule: deep_step.induct)
  case (requested i st now org tenantId userId reason priority)
  then show ?case
    by (auto simp: requests_kept_def request_deep_def Let_def set_save unique_keys_save waiting_def)
next
  case (served st ys i p zs env outs)
  let ?st = "st\<lparr>dp_queue := ys @ zs\<rparr>"
  have rest: "settled r \<or> waiting (ys @ zs) r" if "r \<in> set (dp_requests st)" "dr_id r \<noteq> i" for r
    using served that by (auto simp: requests_kept_def waiting_def)
  show ?case
  proof (cases "find_key dr_id i (dp_requests st)")
    case None
    then have "\<forall>r \<in> set (dp_requests st). dr_id r \<noteq> i" by (simp add: find_key_def find_one_None_iff)
    then show ?thesis using rest served.prems None by (simp add: requests_kept_def process_enrichment_def)
  next
    case (Some req)
    then have f: "find_key dr_id i (dp_requests ?st) = Some req" by simp
    have u: "unique_keys dr_id (dp_requests st)" using served.prems by (simp add: requests_kept_def)
    from f obtain r where r: "settled r" "dr_id r = i"
        "dp_requests (process_enrichment env outs i ?st) = save dr_id r (dp_requests ?st)"
        "dp_queue (process_enrichment env outs i ?st) = dp_queue ?st"
      by (rule process_settles)
    have "settled x \<or> waiting (ys @ zs) x" if "x \<in> set (save dr_id r (dp_requests st))" for x
      using that r(1,2) rest [of x] by (auto simp: set_save [OF u])
    then show ?thesis using r u by (simp add: requests_kept_def unique_keys_save)
  qed
next
  case (worker_lost i p st req now)
  have "dr_id req = i" by (rule find_key_id [OF worker_lost.hyps(2)])
  then show ?case using worker_lost by (auto simp: requests_kept_def set_save unique_keys_save waiting_def)
next
  case (weekly st ys j zs renv env outs)
  then show ?case by (auto simp: requests_kept_def waiting_def)
qed (auto simp: requests_kept_def waiting_def)

section \<open>The deep data of a row is dated\<close>

definition dated :: "current_row \<Rightarrow> bool" where
  "dated c \<longleftrightarrow> (cu_seedState c = ''ENRICHED'' \<longrightarrow> cu_deepDataFreshAt c \<noteq> None)"

lemma update_where_all:
  assumes "list_all P t" and "\<And>c. P c \<Longrightarrow> P (f c)"
  shows "list_all P (update_where p f t)"
  using assms by (auto simp: update_where_def list_all_iff)

lemma save_all: "list_all P t \<Longrightarrow> P r \<Longrightarrow> list_all P (save key r t)"
  by (induction t) auto

lemma saved_row_dated:
  assumes "list_all dated t"
  shows "dated (saved_row f t' (find_key cu_org k t) row)"
proof (cases "find_key cu_org k t")
  case None
  then show ?thesis by (simp add: saved_row_def dated_def default_seed_state_def)
next
  case (Some c)
  then have "c \<in> set t" unfolding find_key_def by (blast dest: find_one_SomeD)
  then show ?thesis using assms Some by (auto simp: saved_row_def dated_def list_all_iff)
qed

lemma apply_rows_dated:
  "list_all dated (bs_current st) \<Longrightarrow> list_all dated (bs_current (snd (apply_rows f t rows st)))"
proof (induction rows arbitrary: st)
  case Nil
  then show ?case by simp
next
  case (Cons r rows)
  have "list_all dated (bs_current (snd (apply_row f t r st)))"
    using Cons.prems by (simp add: apply_row_current save_all saved_row_dated)
  from Cons.IH [OF this] show ?case by (simp add: apply_rows_Cons del: apply_rows.simps)
qed

lemma deactivate_dated: "list_all dated t \<Longrightarrow> list_all dated (update_where p (deactivate n) t)"
  by (auto simp: update_where_def list_all_iff dated_def deactivate_def)

lemma detect_removed_dated:
  assumes "list_all dated (bs_current st)"
  shows "list_all dated (bs_current (snd (detect_removed_companies f t st)))"
proof -
  have "list_all dated (bs_current (fold (\<lambda>row st. st\<lparr>bs_history := h row st,
      bs_current := update_where (\<lambda>c. cu_org c = cu_org row) (deactivate t) (bs_current st)\<rparr>) rows st))" for h rows
    using assms
    by (induction rows arbitrary: st) (simp_all add: deactivate_dated)
  then show ?thesis by (simp add: detect_removed_companies_def Let_def)
qed

lemma apply_run_dated:
  assumes "list_all dated (bs_current (bx_bulk st))"
  shows "list_all dated (bs_current (snd (apply_run env i st)))"
proof -
  have "list_all dated (bs_current (snd (apply_staging_to_current i (rn_now env)
      ((bx_bulk st)\<lparr>bs_staging := tb_staging (bx_tables st)\<rparr>))))"
    using apply_rows_dated [of "(bx_bulk st)\<lparr>bs_staging := tb_staging (bx_tables st)\<rparr>"] assms
    by (simp add: apply_staging_simps)
  from detect_removed_dated [OF this] show ?thesis by (simp add: apply_run_def Let_def split_beta)
qed

lemma fail_run_simps [simp]: "bx_bulk (fail_run env p e s run st) = bx_bulk st"
  by (simp add: fail_run_def Let_def)

lemma run_file_bulk:
  assumes "rn_applyError env = None"
  shows "bx_bulk (snd (run_file env p run st)) = bx_bulk st \<or>
    (\<exists>t. bx_bulk (snd (run_file env p run st)) = snd (apply_run env (fr_id run) (st\<lparr>bx_tables := t\<rparr>)))"
  using assms by (auto simp: run_file_def Let_def split_beta split: sum.split option.split)

lemma run_weekly_dated:
  assumes "rn_applyError env = None" and "list_all dated (bs_current (bx_bulk st))"
  shows "list_all dated (bs_current (bx_bulk (snd (run_weekly env u force st))))"
proof (cases "rn_download env (weekly_url env u)")
  case (Inl e)
  then show ?thesis using assms(2) by (simp add: run_weekly_def weekly_url_def Let_def)
next
  case (Inr d)
  show ?thesis
  proof (cases "accepted env d")
    case False
    then show ?thesis using assms(2) Inr by (simp add: run_weekly_rejected_state)
  next
    case a: True
    show ?thesis
    proof (cases "force \<or> find_one (\<lambda>r. fr_zipSha256 r = dw_zipSha256 d) (bx_runs st) = None")
      case True
      let ?st = "save_run (weekly_run env u force d) (before_file env d st)"
      have "list_all dated (bs_current (bx_bulk (?st\<lparr>bx_tables := t\<rparr>)))" for t using assms(2) by simp
      then show ?thesis
        using run_file_bulk [OF assms(1), of "''parse_stream''" "weekly_run env u force d" ?st] assms(2) apply_run_dated
        by (auto simp: run_weekly_new [OF Inr a True])
    next
      case False
      then obtain r where "force = False" "find_one (\<lambda>r. fr_zipSha256 r = dw_zipSha256 d) (bx_runs st) = Some r" by auto
      then show ?thesis using assms(2) by (simp add: run_weekly_known [OF Inr a])
    qed
  qed
qed

lemma deep_rows_weekly:
  "deep_rows (snd (process_task renv env outs (WeeklyTask j) st)) =
    bs_current (bx_bulk (snd (run_weekly renv (wj_sourceUrl j) False (dp_runs st))))"
  by (simp add: process_task_def process_weekly_job_def deep_rows_def split: sum.split prod.split)

lemma end_request_rows:
  "deep_rows (end_request now req res st) =
    update_where (\<lambda>c. cu_org c = digits_only (dr_organisationNumber req))
      (case res of Inr x \<Rightarrow> (\<lambda>c. c\<lparr>cu_seedState := ''ENRICHED'', cu_deepDataFreshAt := Some now\<rparr>)
        | Inl e \<Rightarrow> (\<lambda>c. c\<lparr>cu_seedState := ''ENRICH_FAILED''\<rparr>)) (deep_rows st)"
  by (simp add: end_request_def Let_def split: sum.split)

lemma start_request_rows:
  "deep_rows (snd (start_request now req st)) =
    update_where (\<lambda>c. cu_org c = digits_only (dr_organisationNumber req)) (\<lambda>c. c\<lparr>cu_seedState := ''ENRICHING''\<rparr>)
      (deep_rows st)"
  by (simp add: start_request_def Let_def)

lemma process_dated:
  assumes "list_all dated (deep_rows st)"
  shows "list_all dated (deep_rows (process_enrichment env outs i st))"
proof -
  have "list_all dated (update_where p (\<lambda>c. c\<lparr>cu_seedState := ''ENRICHING''\<rparr>) (deep_rows st))" for p
    by (rule update_where_all [OF assms]) (simp add: dated_def)
  then have "list_all dated (update_where q (case res of Inr x \<Rightarrow> (\<lambda>c. c\<lparr>cu_seedState := ''ENRICHED'', cu_deepDataFreshAt := Some n\<rparr>)
      | Inl e \<Rightarrow> (\<lambda>c. c\<lparr>cu_seedState := ''ENRICH_FAILED''\<rparr>)) (update_where p (\<lambda>c. c\<lparr>cu_seedState := ''ENRICHING''\<rparr>) (deep_rows st)))"
    for p q n and res :: "provider_exception + enrich_result"
    by (rule update_where_all) (simp add: dated_def split: sum.split)
  then show ?thesis
    using assms by (simp add: process_enrichment_def Let_def split_beta end_request_rows start_request_rows split: option.split)
qed

lemma dated_step: "deep_step st st' \<Longrightarrow> list_all dated (deep_rows st) \<Longrightarrow> list_all dated (deep_rows st')"
proof (induction rule: deep_step.induct)
  case (weekly st ys j zs renv env outs)
  then show ?case
    using run_weekly_dated [of renv "dp_runs st" "wj_sourceUrl j" False]
    by (simp add: deep_rows_weekly) (simp add: deep_rows_def)
qed (simp_all add: request_deep_def Let_def process_dated start_request_rows update_where_all dated_def)


definition no_deep :: deep_state where
  "no_deep = \<lparr>dp_runs = no_runs, dp_requests = [], dp_queue = [], dp_provider = empty_enrichment\<rparr>"


section \<open>How fresh deep data is\<close>

lemma update_where_twice:
  "(\<And>c. q (f c) = q c) \<Longrightarrow> update_where q g (update_where q f t) = update_where q (\<lambda>c. g (f c)) t"
  by (simp add: update_where_def)

lemma find_key_update:
  assumes "\<And>c. key (f c) = key c"
  shows "find_key key k (update_where (\<lambda>c. key c = k) f t) = map_option f (find_key key k t)"
  using assms by (induction t) (simp_all add: update_where_def find_key_def table_simps)

lemma process_row:
  assumes "find_key dr_id i (dp_requests st) = Some req"
    and "find_key cu_org (digits_only (dr_organisationNumber req)) (deep_rows st) = Some c"
  shows "find_key cu_org (digits_only (dr_organisationNumber req)) (deep_rows (process_enrichment env outs i st)) =
    Some (case fst (enrich_and_save env outs (deep_request_of req) (dp_provider st)) of
      Inr x \<Rightarrow> c\<lparr>cu_seedState := ''ENRICHED'', cu_deepDataFreshAt := Some (en_now env)\<rparr>
    | Inl e \<Rightarrow> c\<lparr>cu_seedState := ''ENRICH_FAILED''\<rparr>)"
    and "dp_provider (process_enrichment env outs i st) =
      snd (enrich_and_save env outs (deep_request_of req) (dp_provider st))"
proof -
  have q: "deep_request_of (fst (start_request (en_now env) req st)) = deep_request_of req"
    by (simp add: start_request_def deep_request_of_def Let_def)
  let ?org = "digits_only (dr_organisationNumber req)"
  let ?upd = "\<lambda>f. update_where (\<lambda>c. cu_org c = ?org) f
    (update_where (\<lambda>c. cu_org c = ?org) (\<lambda>c. c\<lparr>cu_seedState := ''ENRICHING''\<rparr>) (deep_rows st))"
  have u: "find_key cu_org ?org (?upd f) = Some (f (c\<lparr>cu_seedState := ''ENRICHING''\<rparr>))"
    if "\<And>c. cu_org (f c) = cu_org c" for f
    using that assms(2) by (simp add: find_key_update)
  show "find_key cu_org ?org (deep_rows (process_enrichment env outs i st)) =
      Some (case fst (enrich_and_save env outs (deep_request_of req) (dp_provider st)) of
        Inr x \<Rightarrow> c\<lparr>cu_seedState := ''ENRICHED'', cu_deepDataFreshAt := Some (en_now env)\<rparr>
      | Inl e \<Rightarrow> c\<lparr>cu_seedState := ''ENRICH_FAILED''\<rparr>)"
    using assms(1) u
    by (simp add: process_enrichment_def Let_def split_beta end_request_rows start_request_rows q split: sum.split)
  show "dp_provider (process_enrichment env outs i st) =
      snd (enrich_and_save env outs (deep_request_of req) (dp_provider st))"
    using assms(1) by (simp add: process_enrichment_def Let_def split_beta q end_request_def split: sum.split)
qed

text \<open>
  A request served from the cache dates the deep data of the company at the time of the
  request, however old the snapshot is that it was answered with: no provider is called and no
  snapshot is added, and the time until the row counts as stale starts anew.
\<close>

theorem cached_deep_data_dated_now:
  assumes "find_key dr_id i (dp_requests st) = Some req"
    and "find_key cu_org (digits_only (dr_organisationNumber req)) (deep_rows st) = Some c"
    and "cc_snapshot (check_freshness (en_now env) (dr_requestedByTenantId req)
      (digits_only (dr_organisationNumber req)) (es_snapshots (dp_provider st))) = Some s"
    and "fresh_after env (deep_request_of req) (sn_fetchedAt s)"
  shows "let st' = process_enrichment env outs i st
    in es_snapshots (dp_provider st') = es_snapshots (dp_provider st) \<and>
       es_api (dp_provider st') = es_api (dp_provider st) \<and>
       find_key cu_org (digits_only (dr_organisationNumber req)) (deep_rows st') =
         Some (c\<lparr>cu_seedState := ''ENRICHED'', cu_deepDataFreshAt := Some (en_now env)\<rparr>)"
proof -
  have "\<exists>r. fst (try_cache env (deep_request_of req) (dp_provider st)) = Inr r"
    using fresh_try_cache [of "deep_request_of req" env s "dp_provider st"] assms(3,4)
    by (auto simp: deep_request_of_def)
  then obtain r where r: "fst (try_cache env (deep_request_of req) (dp_provider st)) = Inr r" ..
  show ?thesis
    using process_row [OF assms(1,2), of env outs] enrich_cached [OF r, of outs] by (simp add: Let_def)
qed

definition stored_snapshot :: snapshot where
  "stored_snapshot = new_snapshot ''a'' ''t'' ''5560000001'' ''organisationsnummer'' ''success'' 5 FreshFetch"

definition sample_deep :: deep_state where
  "sample_deep =
     \<lparr>dp_runs = no_runs\<lparr>bx_bulk := (bx_bulk no_runs)\<lparr>bs_current :=
        [\<lparr>cu_payload = payload_of ''r1'' 1 None (staging_of_parsed ''r1'' (staging_of_columns id ''l''
            (''5560000001$ORGNR-IDORG'' # replicate 10 ''''))), cu_postalParseWarning = None,
          cu_seedState = ''ENRICH_QUEUED'', cu_deepDataFreshAt = None\<rparr>]\<rparr>\<rparr>,
      dp_requests = [fst (request_deep ''d1'' 1 ''556000-0001'' ''t'' None Manual None no_deep)], dp_queue = [],
      dp_provider = empty_enrichment\<lparr>es_snapshots := [stored_snapshot]\<rparr>\<rparr>"

lemma sample_deep_row:
  "map_option cu_seedState (find_key cu_org ''5560000001'' (deep_rows sample_deep)) = Some ''ENRICH_QUEUED''"
  by code_simp

lemma request_digits: "digits_only ''556000-0001'' = ''5560000001''" "digits_only ''5560000001'' = ''5560000001''"
  by (simp_all add: digits_only_def is_digit_def code_def)

theorem cached_deep_data_dated_now_witness:
  "\<exists>c. find_key cu_org ''5560000001'' (deep_rows (process_enrichment (sample_env ''b'' 3600005)
      (sample_outcomes (answered JNull) (answered JNull)) ''d1'' sample_deep)) = Some c \<and>
    cu_deepDataFreshAt c = Some 3600005"
proof -
  let ?env = "sample_env ''b'' 3600005"
  obtain c where c: "find_key cu_org ''5560000001'' (deep_rows sample_deep) = Some c" using sample_deep_row by auto
  let ?req = "fst (request_deep ''d1'' 1 ''556000-0001'' ''t'' None Manual None no_deep)"
  have req: "find_key dr_id ''d1'' (dp_requests sample_deep) = Some ?req" "dr_requestedByTenantId ?req = ''t''"
      "digits_only (dr_organisationNumber ?req) = ''5560000001''"
    by (simp_all add: sample_deep_def request_deep_def Let_def find_key_def table_simps request_digits)
  have snap: "cc_snapshot (check_freshness (en_now ?env) ''t'' ''5560000001'' (es_snapshots (dp_provider sample_deep))) =
      Some stored_snapshot"
    by (simp add: check_freshness_def sample_deep_def stored_snapshot_def find_latest_def find_desc_def
      success_snapshot_def of_company_def new_snapshot_def Let_def)
  have fresh: "fresh_after ?env (deep_request_of ?req) (sn_fetchedAt stored_snapshot)"
    by (simp add: fresh_after_def sample_env_def evaluate_def resolve_policy_def compute_decision_def resolved_def Let_def
        safe_default_policy_def company_opts_def find_latest_def find_desc_def stored_snapshot_def new_snapshot_def)
  show ?thesis
    using cached_deep_data_dated_now [OF req(1), of c ?env stored_snapshot] c req snap fresh
    by (simp add: Let_def sample_env_def)
qed

text \<open>
  A request that fails takes the mark of an enriched company away, although the deep data of the
  earlier request is still there.
\<close>

lemma failed_request_hides_deep_data:
  assumes "find_key dr_id i (dp_requests st) = Some req"
    and "find_key cu_org (digits_only (dr_organisationNumber req)) (deep_rows st) = Some c"
    and "isl (fst (enrich_and_save env outs (deep_request_of req) (dp_provider st)))"
  shows "find_key cu_org (digits_only (dr_organisationNumber req)) (deep_rows (process_enrichment env outs i st)) =
    Some (c\<lparr>cu_seedState := ''ENRICH_FAILED''\<rparr>)"
proof -
  obtain e where e: "fst (enrich_and_save env outs (deep_request_of req) (dp_provider st)) = Inl e"
    using assms(3) unfolding isl_def by blast
  show ?thesis using process_row(1) [OF assms(1,2), of env outs] unfolding e sum.case .
qed

section \<open>Pages\<close>

text \<open>
  The pages of a list are the matching rows, newest first, each on exactly one page, when no
  row changes between the calls.
\<close>

lemma shallow_pages_complete:
  assumes "nat (max 1 (min 100 (or_default (sq_limit q) 20))) = l"
    and "wp_total (fst (list_current_shallow days now u q st)) \<le> n * l"
  shows "concat (map (\<lambda>p. wp_data (fst (list_current_shallow days now u (q\<lparr>sq_page := Some (int p + 1)\<rparr>) st))) [0..<n]) =
    find_desc (shallow_match q) u (deep_rows (apply_stale_policy days now st))"
proof -
  let ?rows = "find_desc (shallow_match q) u (deep_rows (apply_stale_policy days now st))"
  have m: "shallow_match (q\<lparr>sq_page := x\<rparr>) = shallow_match q" for x by (rule ext) (simp add: shallow_match_def)
  have p: "nat (int p + 1) - Suc 0 = p" for p by linarith
  have "wp_data (fst (list_current_shallow days now u (q\<lparr>sq_page := Some (int p + 1)\<rparr>) st)) = take l (drop (p * l) ?rows)" for p
    using assms(1) by (simp add: list_current_shallow_def Let_def m p or_default_def del: stale_simps)
  moreover have "length ?rows \<le> n * l" using assms(2) by (simp add: list_current_shallow_def Let_def del: stale_simps)
  ultimately show ?thesis by (simp add: pages_concat)
qed

end
