(* ===== verification/OpsDashboard.thy ===== *)
theory OpsDashboard
  imports BulkRuns Billing Auth
begin

text \<open>
  The dashboard of the operators: \<open>getOpsDashboardSummaryWithFilters\<close>, its CSV export and alert,
  the snapshot of the queue and the report on the runtime
  (backend/src/bolagsverket-bulk/bolagsverket-bulk.service.ts). The week is supplied with its
  start and end, as calendar days depend on the zone of the server; the utilisation, which the
  code rounds to one decimal, is kept in tenths of a percent.
\<close>

section \<open>Input\<close>

record ops_config =
  oc_noRunPenalty :: int
  oc_failedPenalty :: int
  oc_notAppliedPenalty :: int
  oc_failedLineBase :: int
  oc_incompletePenalty :: int
  oc_yellow :: int
  oc_green :: int
  oc_profile :: string

record ops_env =
  od_now :: int
  od_weekStart :: int
  od_weekEnd :: int
  od_dayOf :: "int \<Rightarrow> int"
  od_config :: ops_config

record ops_tables =
  ot_runs :: bulk_runs
  ot_subscriptions :: "Billing.subscription list"
  ot_tenants :: "tenant list"
  ot_users :: "user list"
  ot_usage :: "audit_event list"

record ops_filters =
  of_tenantId :: "string option"
  of_planCode :: "string option"
  of_tenantPage :: "int option"
  of_tenantLimit :: "int option"

section \<open>The weekly run\<close>

definition week_runs :: "ops_env \<Rightarrow> ops_tables \<Rightarrow> file_run list" where
  "week_runs env t = take 8 (find_desc (\<lambda>r. od_weekStart env \<le> fr_downloadedAt r) fr_downloadedAt (bx_runs (ot_runs t)))"

definition scoped_week_runs :: "ops_env \<Rightarrow> ops_tables \<Rightarrow> file_run list" where
  "scoped_week_runs env t = filter (\<lambda>r. fr_downloadedAt r < od_weekEnd env) (week_runs env t)"

definition latest_run :: "ops_env \<Rightarrow> ops_tables \<Rightarrow> file_run option" where
  "latest_run env t = (case week_runs env t of [] \<Rightarrow> None | r # _ \<Rightarrow> Some r)"

record checkpoint_progress =
  pg_completedCheckpoints :: nat
  pg_lastCheckpointSeq :: nat
  pg_lastLineNumber :: nat
  pg_rowsWritten :: nat
  pg_stagingWritten :: nat

definition progress_of :: "checkpoint_row list \<Rightarrow> checkpoint_progress" where
  "progress_of cps =
     \<lparr>pg_completedCheckpoints = length cps,
      pg_lastCheckpointSeq = (if cps = [] then 0 else kp_checkpointSeq (last cps)),
      pg_lastLineNumber = (if cps = [] then 0 else kp_lastLineNumber (last cps)),
      pg_rowsWritten = sum_list (map kp_rowsWritten cps),
      pg_stagingWritten = sum_list (map kp_stagingWritten cps)\<rparr>"

definition run_deltas :: "bulk_change_type \<Rightarrow> file_run option \<Rightarrow> ops_tables \<Rightarrow> nat" where
  "run_deltas ty latest t = (case latest of None \<Rightarrow> 0 | Some r \<Rightarrow>
     count_where (\<lambda>h. hi_fileRunId h = fr_id r \<and> hi_changeType h = ty) (bs_history (bx_bulk (ot_runs t))))"

definition failed_lines_of :: "file_run option \<Rightarrow> ops_tables \<Rightarrow> nat" where
  "failed_lines_of latest t = (case latest of None \<Rightarrow> 0 | Some r \<Rightarrow>
     count_where (\<lambda>w. rl_fileRunId w = fr_id r \<and> \<not> rl_parsedOk w) (tb_raw (bx_tables (ot_runs t))))"

definition checkpoints_of :: "file_run option \<Rightarrow> ops_tables \<Rightarrow> checkpoint_row list" where
  "checkpoints_of latest t = (case latest of None \<Rightarrow> [] | Some r \<Rightarrow>
     find_asc (\<lambda>k. kp_fileRunId k = fr_id r) kp_checkpointSeq (tb_checkpoints (bx_tables (ot_runs t))))"

section \<open>The health of the ingestion\<close>

record run_health =
  hl_score :: int
  hl_color :: string
  hl_reasons :: "string list"

definition health_parts :: "ops_config \<Rightarrow> file_run option \<Rightarrow> nat \<Rightarrow> nat \<Rightarrow> (int \<times> string) list" where
  "health_parts c latest failedLines lastLine =
     (case latest of
        None \<Rightarrow> [(oc_noRunPenalty c, ''No weekly run detected.'')]
      | Some r \<Rightarrow> (case fr_status r of
            FailedRun \<Rightarrow> [(oc_failedPenalty c, ''Latest run failed.'')]
          | AppliedRun \<Rightarrow> []
          | _ \<Rightarrow> [(oc_notAppliedPenalty c, ''Latest run not fully applied.'')])) @
     (if failedLines > 0
      then [(min 25 (int failedLines div 10 + oc_failedLineBase c),
        ''Found '' @ show_nat failedLines @ '' failed parse lines.'')] else []) @
     (case latest of
        None \<Rightarrow> []
      | Some r \<Rightarrow> if fr_rowCount r \<noteq> 0 \<and> lastLine < fr_rowCount r
          then [(oc_incompletePenalty c, ''Checkpoint progress indicates incomplete ingestion.'')] else [])"

definition health_of :: "ops_config \<Rightarrow> file_run option \<Rightarrow> nat \<Rightarrow> nat \<Rightarrow> run_health" where
  "health_of c latest failedLines lastLine =
     (let parts = health_parts c latest failedLines lastLine;
          score = max 0 (min 100 (100 - sum_list (map fst parts)))
      in \<lparr>hl_score = score,
          hl_color = (if score \<ge> oc_green c then ''green'' else if score \<ge> oc_yellow c then ''yellow'' else ''red''),
          hl_reasons = map snd parts\<rparr>)"

section \<open>The use by tenants\<close>

record tenant_usage =
  tu_tenantId :: string
  tu_tenantName :: string
  tu_planCode :: string
  tu_users :: nat
  tu_companies :: nat
  tu_apiCalls30d :: nat
  tu_includedCallsPerDay :: nat
  tu_utilizationTenths :: int

text \<open>The cast of the query: a text of digits, or a whole number.\<close>

definition api_calls_of :: "audit_event \<Rightarrow> nat" where
  "api_calls_of e =
     (case map_of (ae_costImpact e) ''apiCallCount'' of
        Some (JNum r) \<Rightarrow> if r = of_int \<lfloor>r\<rfloor> \<and> r \<ge> 0 then nat \<lfloor>r\<rfloor> else 0
      | Some (JStr s) \<Rightarrow> if s \<noteq> [] \<and> list_all is_digit s then read_nat s else 0
      | _ \<Rightarrow> 0)"

definition recent_usage :: "ops_env \<Rightarrow> ops_tables \<Rightarrow> audit_event list" where
  "recent_usage env t = filter (\<lambda>e. ae_createdAt e \<ge> od_now env - 30 * 86400000) (ot_usage t)"

definition api_calls_30d :: "ops_env \<Rightarrow> ops_tables \<Rightarrow> string \<Rightarrow> nat" where
  "api_calls_30d env t tenantId =
     sum_list (map api_calls_of (filter (\<lambda>e. ae_tenantId e = tenantId) (recent_usage env t)))"

definition plan_of_tenant :: "ops_tables \<Rightarrow> string \<Rightarrow> string" where
  "plan_of_tenant t tenantId =
     to_lower (or_default (map_of (rev (map (\<lambda>s. (Billing.sb_tenantId s, Billing.sb_planCode s)) (ot_subscriptions t))) tenantId)
       ''free'')"

definition included_calls :: "string \<Rightarrow> nat" where
  "included_calls plan = (if plan = ''pro'' then 50000 else if plan = ''basic'' then 5000 else 500)"

definition utilization_tenths :: "nat \<Rightarrow> nat \<Rightarrow> int" where
  "utilization_tenths calls included = \<lfloor>(of_nat calls / of_nat included * 1000 :: rat) + 1 / 2\<rfloor>"

definition tenant_usage_of :: "ops_env \<Rightarrow> ops_tables \<Rightarrow> tenant \<Rightarrow> tenant_usage" where
  "tenant_usage_of env t x =
     (let plan = plan_of_tenant t (te_id x);
          calls = api_calls_30d env t (te_id x);
          included = included_calls plan
      in \<lparr>tu_tenantId = te_id x, tu_tenantName = te_name x, tu_planCode = plan,
          tu_users = count_where (\<lambda>u. ur_tenantId u = te_id x) (ot_users t),
          tu_companies = count_where (\<lambda>c. cm_tenantId c = te_id x) (bs_companies (bx_bulk (ot_runs t))),
          tu_apiCalls30d = calls, tu_includedCallsPerDay = included,
          tu_utilizationTenths = utilization_tenths calls included\<rparr>)"

definition filtered_usage :: "ops_env \<Rightarrow> ops_filters \<Rightarrow> ops_tables \<Rightarrow> tenant_usage list" where
  "filtered_usage env f t =
     filter (\<lambda>u. (case Option.bind (of_tenantId f) nonempty of None \<Rightarrow> True | Some i \<Rightarrow> tu_tenantId u = i) \<and>
         (case Option.bind (of_planCode f) nonempty of None \<Rightarrow> True | Some p \<Rightarrow> tu_planCode u = to_lower p))
       (map (tenant_usage_of env t)
         (filter (\<lambda>x. case Option.bind (of_tenantId f) nonempty of None \<Rightarrow> True | Some i \<Rightarrow> te_id x = i) (ot_tenants t)))"

section \<open>The summary\<close>

record usage_page =
  up_total :: nat
  up_page :: nat
  up_limit :: nat
  up_hasNext :: bool
  up_byTenant :: "tenant_usage list"

definition usage_page_of :: "ops_filters \<Rightarrow> tenant_usage list \<Rightarrow> usage_page" where
  "usage_page_of f us =
     (let limit = nat (max 1 (min 100 (or_default (of_tenantLimit f) 10)));
          page = nat (max 1 (or_default (of_tenantPage f) 1));
          offset = (page - 1) * limit;
          rows = take limit (drop offset (sort_key (\<lambda>u. - int (tu_apiCalls30d u)) us))
      in \<lparr>up_total = length us, up_page = page, up_limit = limit,
          up_hasNext = (offset + length rows < length us), up_byTenant = rows\<rparr>)"

record ops_summary =
  os_thisWeekRuns :: nat
  os_latestRun :: "file_run option"
  os_thisWeekStatus :: string
  os_parserProfile :: string
  os_new :: nat
  os_updated :: nat
  os_removed :: nat
  os_failedLines :: nat
  os_progress :: checkpoint_progress
  os_health :: run_health
  os_usage :: usage_page
  os_recentRuns :: "file_run list"
  os_utilizationSeries :: "(string \<times> string \<times> int) list"
  os_runHealthSeries :: "(string \<times> int \<times> run_status \<times> int) list"
  os_callsDaily :: "(int \<times> nat) list"

definition status_text :: "run_status \<Rightarrow> string" where
  "status_text s = (case s of Downloaded \<Rightarrow> ''downloaded'' | ParsedRun \<Rightarrow> ''parsed'' | AppliedRun \<Rightarrow> ''applied''
     | FailedRun \<Rightarrow> ''failed'')"

definition run_score :: "run_status \<Rightarrow> int" where
  "run_score s = (case s of AppliedRun \<Rightarrow> 90 | ParsedRun \<Rightarrow> 65 | FailedRun \<Rightarrow> 25 | Downloaded \<Rightarrow> 45)"

definition calls_daily :: "ops_env \<Rightarrow> ops_tables \<Rightarrow> (int \<times> nat) list" where
  "calls_daily env t =
     (let us = recent_usage env t
      in map (\<lambda>d. (d, sum_list (map api_calls_of (filter (\<lambda>e. od_dayOf env (ae_createdAt e) = d) us))))
           (sort (remdups (map (\<lambda>e. od_dayOf env (ae_createdAt e)) us))))"

definition ops_summary_of :: "ops_env \<Rightarrow> ops_filters \<Rightarrow> ops_tables \<Rightarrow> ops_summary" where
  "ops_summary_of env f t =
     (let latest = latest_run env t;
          failedLines = failed_lines_of latest t;
          cp = progress_of (checkpoints_of latest t);
          us = filtered_usage env f t
      in \<lparr>os_thisWeekRuns = length (scoped_week_runs env t), os_latestRun = latest,
          os_thisWeekStatus = (case latest of None \<Rightarrow> ''not_run'' | Some r \<Rightarrow> status_text (fr_status r)),
          os_parserProfile = or_default (Option.bind latest fr_parserProfile) (oc_profile (od_config env)),
          os_new = run_deltas NewRow latest t, os_updated = run_deltas UpdatedRow latest t,
          os_removed = run_deltas RemovedRow latest t, os_failedLines = failedLines, os_progress = cp,
          os_health = health_of (od_config env) latest failedLines (pg_lastLineNumber cp),
          os_usage = usage_page_of f us, os_recentRuns = scoped_week_runs env t,
          os_utilizationSeries = map (\<lambda>u. (tu_tenantId u, tu_tenantName u, tu_utilizationTenths u))
            (take 20 (sort_key (\<lambda>u. - tu_utilizationTenths u) us)),
          os_runHealthSeries = map (\<lambda>r. (fr_id r, fr_downloadedAt r, fr_status r, run_score (fr_status r)))
            (scoped_week_runs env t),
          os_callsDaily = calls_daily env t\<rparr>)"

section \<open>Export and alert\<close>

definition quote_csv :: "string \<Rightarrow> string" where
  "quote_csv s = ''\"'' @ concat (map (\<lambda>c. if c = CHR 0x22 then [c, c] else [c]) s) @ ''\"''"

definition tenths_text :: "int \<Rightarrow> string" where
  "tenths_text n = show_int (n div 10) @ (if n mod 10 = 0 then [] else ''.'' @ show_int (n mod 10))"

definition tenant_csv_row :: "tenant_usage \<Rightarrow> string" where
  "tenant_csv_row u = join '','' [tu_tenantId u, quote_csv (tu_tenantName u), tu_planCode u, show_nat (tu_users u),
     show_nat (tu_companies u), show_nat (tu_apiCalls30d u), show_nat (tu_includedCallsPerDay u),
     tenths_text (tu_utilizationTenths u)]"

definition newline :: string where "newline = [CHR 0x0A]"

definition export_text :: "bool \<Rightarrow> ops_summary \<Rightarrow> string" where
  "export_text tenantUsage s =
     (if tenantUsage
      then ''tenant_id,tenant_name,plan_code,users,companies,api_calls_30d,included_calls_per_day,package_utilization_pct'' @
        newline @ join newline (map tenant_csv_row (up_byTenant (os_usage s))) @ newline
      else join newline
        [''week_status,parser_profile,new_rows,updated_rows,removed_rows,failed_lines,checkpoints,last_line,rows_written,health_score,health_color'',
         join '','' [os_thisWeekStatus s, os_parserProfile s, show_nat (os_new s), show_nat (os_updated s),
           show_nat (os_removed s), show_nat (os_failedLines s), show_nat (pg_completedCheckpoints (os_progress s)),
           show_nat (pg_lastLineNumber (os_progress s)), show_nat (pg_rowsWritten (os_progress s)),
           show_int (hl_score (os_health s)), hl_color (os_health s)],
         []])"

definition export_ops_csv ::
  "ops_env \<Rightarrow> bool \<Rightarrow> ops_filters \<Rightarrow> rat members \<Rightarrow> (string option \<times> string option) \<Rightarrow> ops_tables \<Rightarrow> audit_store \<Rightarrow>
   string \<times> audit_store" where
  "export_ops_csv env tenantUsage f filters actor t audit =
     (let ty = (if tenantUsage then ''tenant_usage'' else ''run_deltas'')
      in (export_text tenantUsage (ops_summary_of env f t),
          audit_log \<lparr>al_tenantId = or_default (snd actor) ''00000000-0000-0000-0000-000000000000'',
            al_actorId = fst actor, al_action = ''ops.dashboard.export_csv'', al_resourceType = ''bolagsverket_bulk_ops'',
            al_resourceId = ty, al_metadata = Some [(''type'', JStr ty), (''filters'', JObj filters)]\<rparr> audit))"

text \<open>\<open>maybeEmitOpsAlert\<close>: the alert that is posted, if any.\<close>

definition no_filters :: ops_filters where
  "no_filters = \<lparr>of_tenantId = None, of_planCode = None, of_tenantPage = None, of_tenantLimit = None\<rparr>"

definition ops_alert :: "ops_env \<Rightarrow> string \<Rightarrow> string \<Rightarrow> ops_tables \<Rightarrow> (string \<times> string \<times> run_health) option" where
  "ops_alert env url runId t =
     (let h = os_health (ops_summary_of env no_filters t)
      in if trim url = [] \<or> hl_color h \<noteq> ''red'' then None else Some (trim url, runId, h))"

section \<open>The runtime and the queue\<close>

record safety_config =
  fc_batchSize :: int
  fc_autoThrottleEnabled :: bool
  fc_autoThrottleMaxPauseMs :: int

text \<open>\<open>getRuntimeSafetyReport\<close>: the warnings; \<open>policy\<close> is the eviction policy read from Redis.\<close>

definition safety_warnings :: "string option \<Rightarrow> safety_config \<Rightarrow> string list" where
  "safety_warnings policy c =
     (let batch = max 50 (min 1000 (fc_batchSize c))
      in (if \<not> truthy_str policy then [''Unable to read Redis maxmemory-policy.''] else []) @
         (case Option.bind policy nonempty of
            Some p \<Rightarrow> if p \<noteq> ''noeviction''
              then [''Redis eviction policy is \"'' @ p @ ''\" (recommended \"noeviction\" for queues).''] else []
          | None \<Rightarrow> []) @
         (if batch > 1000 then [''INGESTION_BATCH_SIZE is above safe cap; use <= 1000 (prefer 250 for 512MB tiers).''] else []) @
         (if \<not> fc_autoThrottleEnabled c
          then [''Auto-throttle is disabled; ingestion may impact API latency on small instances.''] else []) @
         (if fc_autoThrottleMaxPauseMs c < 20
          then [''Auto-throttle max pause is low; burst pressure may still occur under load.''] else []))"

definition safety_status :: "string option \<Rightarrow> safety_config \<Rightarrow> string" where
  "safety_status policy c = (if safety_warnings policy c = [] then ''ok'' else ''warning'')"

text \<open>
  \<open>getFileIngestionQueueSnapshot\<close>: the jobs of the states in the order they are asked for, each
  state's list as the queue returned it or \<open>None\<close> for an error, one job per id, name and time.
\<close>

record queue_job =
  qj_id :: "string option"
  qj_name :: string
  qj_timestamp :: int

fun collect_jobs :: "queue_job list \<Rightarrow> queue_job list \<Rightarrow> queue_job list" where
  "collect_jobs seen [] = seen"
| "collect_jobs seen (j # js) =
     (if \<exists>x \<in> set seen. (or_default (qj_id x) ''noid'', qj_name x, qj_timestamp x) =
           (or_default (qj_id j) ''noid'', qj_name j, qj_timestamp j)
      then collect_jobs seen js else collect_jobs (seen @ [j]) js)"

definition snapshot_jobs :: "queue_job list option list \<Rightarrow> queue_job list" where
  "snapshot_jobs states =
     take 40 (sort_key (\<lambda>j. - qj_timestamp j) (collect_jobs [] (concat (List.map_filter id states))))"

definition recent_file_runs :: "bulk_runs \<Rightarrow> (file_run \<times> run_ui) list" where
  "recent_file_runs st = map (\<lambda>r. (r, build_run_ui r)) (take 15 (find_desc (\<lambda>r. True) fr_downloadedAt (bx_runs st)))"

section \<open>Properties\<close>

lemma health_reasons_parts: "hl_reasons (health_of c latest n l) = map snd (health_parts c latest n l)"
  by (simp add: health_of_def Let_def)

definition default_ops :: ops_config where
  "default_ops = \<lparr>oc_noRunPenalty = 50, oc_failedPenalty = 60, oc_notAppliedPenalty = 20, oc_failedLineBase = 5,
     oc_incompletePenalty = 20, oc_yellow = 50, oc_green = 80, oc_profile = ''default_v1''\<rparr>"

lemma penalties_positive:
  assumes "0 < oc_noRunPenalty c" "0 < oc_failedPenalty c" "0 < oc_notAppliedPenalty c" "0 < oc_failedLineBase c"
    "0 < oc_incompletePenalty c"
  shows "\<forall>x \<in> set (map fst (health_parts c latest n l)). 0 < x"
proof -
  have "0 < min 25 (int n div 10 + oc_failedLineBase c)" using assms(4) by (simp add: pos_add_strict)
  then show ?thesis using assms by (auto simp: health_parts_def split: option.splits run_status.splits)
qed

lemma sum_positive: "\<forall>x \<in> set xs. 0 < (x :: int) \<Longrightarrow> xs \<noteq> [] \<Longrightarrow> 0 < sum_list xs"
proof (induction xs)
  case (Cons x xs)
  then show ?case by (cases "xs = []") (simp_all add: add_pos_pos)
qed simp

text \<open>
  The health score is a percentage, and with penalties that are not zero it is the full one
  exactly when no reason is given: when the latest run is applied, none of its lines failed and
  its checkpoints reach its last row.
\<close>

theorem healthy_without_reasons:
  assumes "0 < oc_noRunPenalty c" "0 < oc_failedPenalty c" "0 < oc_notAppliedPenalty c" "0 < oc_failedLineBase c"
    "0 < oc_incompletePenalty c"
  shows "hl_score (health_of c latest n l) \<in> {0..100} \<and>
   (hl_score (health_of c latest n l) = 100 \<longleftrightarrow> hl_reasons (health_of c latest n l) = []) \<and>
   (hl_reasons (health_of c latest n l) = [] \<longleftrightarrow>
     (case latest of None \<Rightarrow> False | Some r \<Rightarrow> fr_status r = AppliedRun \<and> \<not> l < fr_rowCount r) \<and> n = 0)"
proof -
  let ?parts = "health_parts c latest n l"
  have score: "hl_score (health_of c latest n l) = max 0 (min 100 (100 - sum_list (map fst ?parts)))"
    by (simp add: health_of_def Let_def)
  have "0 < sum_list (map fst ?parts)" if "?parts \<noteq> []"
    using sum_positive [OF penalties_positive [OF assms]] that by simp
  then have full: "hl_score (health_of c latest n l) = 100 \<longleftrightarrow> hl_reasons (health_of c latest n l) = []"
    by (cases "?parts = []") (auto simp: score health_reasons_parts)
  have "hl_reasons (health_of c latest n l) = [] \<longleftrightarrow>
     (case latest of None \<Rightarrow> False | Some r \<Rightarrow> fr_status r = AppliedRun \<and> \<not> l < fr_rowCount r) \<and> n = 0"
    by (auto simp: health_reasons_parts health_parts_def split: option.splits run_status.splits)
  then show ?thesis using full by (simp add: score)
qed

theorem healthy_without_reasons_witness:
  "hl_score (health_of default_ops None 0 0) \<noteq> 100"
  using healthy_without_reasons [of default_ops None 0 0] by (simp add: default_ops_def)

text \<open>
  A past week is not shown once eight later runs exist: the query takes the eight newest
  runs since the start of the week and only then drops those after its end.
\<close>

theorem past_week_hidden:
  assumes "od_weekStart env \<le> od_weekEnd env"
    and "8 \<le> count_where (\<lambda>r. od_weekEnd env \<le> fr_downloadedAt r) (bx_runs (ot_runs t))"
  shows "scoped_week_runs env t = [] \<and> os_thisWeekRuns (ops_summary_of env f t) = 0"
proof -
  let ?rows = "find_desc (\<lambda>r. od_weekStart env \<le> fr_downloadedAt r) fr_downloadedAt (bx_runs (ot_runs t))"
  let ?late = "\<lambda>r. od_weekEnd env \<le> fr_downloadedAt r"
  have s: "sorted (map (\<lambda>r. - fr_downloadedAt r) ?rows)" by (simp add: find_desc_def)
  have "filter ?late (filter (\<lambda>r. od_weekStart env \<le> fr_downloadedAt r) (bx_runs (ot_runs t))) =
      filter ?late (bx_runs (ot_runs t))"
    using assms(1) by (auto intro: filter_cong)
  then have n: "8 \<le> length (filter ?late ?rows)"
    using assms(2) by (simp add: find_desc_def filter_sort count_where_def)
  have "\<forall>r \<in> set (take 8 ?rows). ?late r"
  proof (rule ccontr)
    assume "\<not> ?thesis"
    then obtain i where i: "i < 8" "i < length ?rows" "\<not> ?late (?rows ! i)" by (auto simp: in_set_conv_nth)
    have "\<not> ?late (?rows ! j)" if "i \<le> j" "j < length ?rows" for j
      using sorted_nth_mono [OF s that(1)] that i(2,3) by simp
    then have "filter ?late (drop i ?rows) = []" by (auto simp: filter_empty_conv in_set_conv_nth)
    then have "filter ?late ?rows = filter ?late (take i ?rows)"
      by (metis append_take_drop_id filter_append append_Nil2)
    then have "length (filter ?late ?rows) \<le> i" using length_filter_le [of ?late "take i ?rows"] by simp
    then show False using n i(1) by simp
  qed
  then have "scoped_week_runs env t = []" by (auto simp: scoped_week_runs_def week_runs_def filter_empty_conv)
  then show ?thesis by (simp add: ops_summary_of_def Let_def)
qed

definition sample_ops :: "int list \<Rightarrow> ops_tables" where
  "sample_ops ts =
     \<lparr>ot_runs = no_runs\<lparr>bx_runs := map (\<lambda>t. (new_run (sample_run (Inl [])) ''u'' ''z'' ''t'' ''h'' ''h'' ''p'')
        \<lparr>fr_downloadedAt := t\<rparr>) ts\<rparr>,
      ot_subscriptions = [], ot_tenants = [], ot_users = [], ot_usage = []\<rparr>"

theorem past_week_hidden_witness:
  "scoped_week_runs \<lparr>od_now = 100, od_weekStart = 0, od_weekEnd = 10, od_dayOf = id, od_config = default_ops\<rparr>
     (sample_ops [5, 11, 12, 13, 14, 15, 16, 17, 18]) = []"
  using past_week_hidden [of "\<lparr>od_now = 100, od_weekStart = 0, od_weekEnd = 10, od_dayOf = id, od_config = default_ops\<rparr>"
    "sample_ops [5, 11, 12, 13, 14, 15, 16, 17, 18]"]
  by (simp add: sample_ops_def count_where_def)

text \<open>A tenant that makes exactly its daily calls every day for thirty days is shown at 3000 percent.\<close>

lemma utilization_of_full_use:
  "utilization_tenths (30 * included_calls plan) (included_calls plan) = 30000"
  by (simp add: utilization_tenths_def included_calls_def floor_eq_iff)

text \<open>The jobs shown are distinct, newest first.\<close>

lemma collect_jobs_distinct:
  assumes "distinct (map (\<lambda>x. (or_default (qj_id x) ''noid'', qj_name x, qj_timestamp x)) seen)"
  shows "distinct (map (\<lambda>x. (or_default (qj_id x) ''noid'', qj_name x, qj_timestamp x)) (collect_jobs seen js))"
  using assms
proof (induction js arbitrary: seen)
  case (Cons j js)
  show ?case
  proof (cases "\<exists>x \<in> set seen. (or_default (qj_id x) ''noid'', qj_name x, qj_timestamp x) =
      (or_default (qj_id j) ''noid'', qj_name j, qj_timestamp j)")
    case True
    then show ?thesis using Cons.IH [OF Cons.prems] by (simp only: collect_jobs.simps if_True)
  next
    case False
    then have "distinct (map (\<lambda>x. (or_default (qj_id x) ''noid'', qj_name x, qj_timestamp x)) (seen @ [j]))"
      using Cons.prems by auto
    from Cons.IH [OF this] show ?thesis using False by (simp only: collect_jobs.simps if_False)
  qed
qed simp

end
