(* ===== verification/AnnualMapping.thy ===== *)
theory AnnualMapping
  imports Tables Dates "HOL-Library.AList" "HOL-Library.Product_Lexorder"
begin

text \<open>
  Reading the facts of an annual report: \<open>matchConceptToRule\<close> and its rules
  (backend/src/annual-reports/config), the grouping of fields by statement, and
  \<open>AnnualReportPrimaryContextService\<close>
  (backend/src/annual-reports/services/annual-report-primary-context.service.ts). A \<open>Date\<close> is its
  time in milliseconds, as the entities declare the period columns.
\<close>

section \<open>The best of a list\<close>

text \<open>
  The loop \<open>if (!best || score(x) > best.score) best = x\<close> over a list, which the services write out
  at each use.
\<close>

definition keep_best :: "('a \<Rightarrow> 'k :: linorder) \<Rightarrow> 'a \<Rightarrow> 'a option \<Rightarrow> 'a option" where
  "keep_best score x best =
     (case best of None \<Rightarrow> Some x | Some b \<Rightarrow> if score x > score b then Some x else best)"

definition first_best :: "('a \<Rightarrow> 'k :: linorder) \<Rightarrow> 'a list \<Rightarrow> 'a option" where
  "first_best score xs = fold (keep_best score) xs None"

lemma first_best_Nil [simp]: "first_best score [] = None"
  by (simp add: first_best_def)

lemma fold_keep_best_Some:
  "fold (keep_best score) xs (Some b) =
     (case first_best score xs of None \<Rightarrow> Some b | Some x \<Rightarrow> if score x > score b then Some x else Some b)"
proof (induction xs arbitrary: b)
  case Nil
  then show ?case by simp
next
  case (Cons x xs)
  have "first_best score (x # xs) = fold (keep_best score) xs (Some x)"
    by (simp add: first_best_def keep_best_def)
  moreover have "fold (keep_best score) (x # xs) (Some b) =
      fold (keep_best score) xs (Some (if score x > score b then x else b))"
    by (simp add: keep_best_def)
  ultimately show ?case
    unfolding Cons.IH [of x] Cons.IH [of "if score x > score b then x else b"]
    by (auto split: option.splits)
qed

lemma first_best_Cons:
  "first_best score (x # xs) =
     (case first_best score xs of None \<Rightarrow> Some x | Some y \<Rightarrow> if score y > score x then Some y else Some x)"
proof -
  have "first_best score (x # xs) = fold (keep_best score) xs (Some x)"
    by (simp add: first_best_def keep_best_def)
  then show ?thesis by (simp add: fold_keep_best_Some)
qed

lemma first_best_None_iff [simp]: "first_best score xs = None \<longleftrightarrow> xs = []"
  by (cases xs) (auto simp: first_best_Cons split: option.splits if_splits)

text \<open>The result is the first element with the greatest score.\<close>

definition is_first_best :: "('a \<Rightarrow> 'k :: linorder) \<Rightarrow> 'a list \<Rightarrow> 'a \<Rightarrow> bool" where
  "is_first_best score xs x \<longleftrightarrow>
     (\<exists>us vs. xs = us @ x # vs \<and> (\<forall>u \<in> set us. score u < score x) \<and> (\<forall>v \<in> set vs. score v \<le> score x))"

lemma is_first_best_Cons:
  "is_first_best score (y # ys) x \<longleftrightarrow>
     x = y \<and> (\<forall>v \<in> set ys. score v \<le> score x) \<or> is_first_best score ys x \<and> score y < score x"
    (is "?l \<longleftrightarrow> ?r")
proof
  assume ?l
  then obtain us vs where l: "y # ys = us @ x # vs" "\<forall>u \<in> set us. score u < score x"
    "\<forall>v \<in> set vs. score v \<le> score x" by (auto simp: is_first_best_def)
  show ?r
  proof (cases us)
    case Nil
    with l show ?thesis by simp
  next
    case (Cons u us')
    with l have "ys = us' @ x # vs" "\<forall>u \<in> set us'. score u < score x" "score y < score x" by auto
    with l(3) show ?thesis unfolding is_first_best_def by blast
  qed
next
  assume ?r
  then show ?l
  proof
    assume "x = y \<and> (\<forall>v \<in> set ys. score v \<le> score x)"
    then show ?l unfolding is_first_best_def by - (rule exI [of _ "[]"], rule exI [of _ ys], auto)
  next
    assume r: "is_first_best score ys x \<and> score y < score x"
    then obtain us vs where "ys = us @ x # vs" "\<forall>u \<in> set us. score u < score x"
      "\<forall>v \<in> set vs. score v \<le> score x" by (auto simp: is_first_best_def)
    with r show ?l unfolding is_first_best_def by - (rule exI [of _ "y # us"], rule exI [of _ vs], simp)
  qed
qed

lemma is_first_best_max: "is_first_best score xs x \<Longrightarrow> x \<in> set xs \<and> (\<forall>y \<in> set xs. score y \<le> score x)"
  by (auto simp: is_first_best_def order.strict_implies_order)

lemma first_best_split: "first_best score xs = Some x \<longleftrightarrow> is_first_best score xs x"
proof (induction xs arbitrary: x)
  case Nil
  then show ?case by (simp add: is_first_best_def)
next
  case (Cons y ys)
  show ?case
  proof (cases "first_best score ys")
    case None
    then have "ys = []" by simp
    moreover have "\<not> is_first_best score [] x" by (simp add: is_first_best_def)
    ultimately show ?thesis by (auto simp: first_best_Cons is_first_best_Cons)
  next
    case (Some z)
    have z: "is_first_best score ys x \<longleftrightarrow> x = z" for x
      unfolding Cons.IH [of x, symmetric] Some by auto
    have max: "z \<in> set ys" "\<forall>v \<in> set ys. score v \<le> score z"
      using is_first_best_max [of score ys z] z by auto
    show ?thesis
    proof (cases "score z > score y")
      case True
      with max have "\<not> (\<forall>v \<in> set ys. score v \<le> score y)" by (auto simp: not_le)
      with True Some z show ?thesis by (auto simp: first_best_Cons is_first_best_Cons)
    next
      case False
      with max have "\<forall>v \<in> set ys. score v \<le> score y" by auto
      with False Some z show ?thesis by (auto simp: first_best_Cons is_first_best_Cons)
    qed
  qed
qed

lemma first_best_SomeD:
  assumes "first_best score xs = Some x"
  shows "x \<in> set xs" "\<forall>y \<in> set xs. score y \<le> score x"
  using is_first_best_max [of score xs x] assms by (auto simp: first_best_split)

lemma first_best_append:
  "first_best score (xs @ ys) =
     (case first_best score xs of None \<Rightarrow> first_best score ys | Some b \<Rightarrow> fold (keep_best score) ys (Some b))"
  by (auto simp: first_best_def split: option.splits)

lemma first_best_snoc: "first_best score (xs @ [x]) = keep_best score x (first_best score xs)"
  by (simp add: first_best_def)

section \<open>Rules\<close>

record mapping_rule =
  mr_canonicalField :: string
  mr_patterns :: "string list"
  mr_priority :: int

definition mapping :: "string \<Rightarrow> string list \<Rightarrow> int \<Rightarrow> mapping_rule" where
  "mapping field patterns priority =
     \<lparr>mr_canonicalField = field, mr_patterns = patterns, mr_priority = priority\<rparr>"

definition header_org_rules :: "mapping_rule list" where
  "header_org_rules =
    [mapping ''organisation_number_filing'' [''identitetsbeteckning'', ''organisationnumber'', ''organisation_number'', ''organisationsnummer'', ''registrationnumber''] 100]"

definition header_name_rules :: "mapping_rule list" where
  "header_name_rules =
    [mapping ''company_name_filing'' [''foretagsnamn'', ''legalname'', ''legal_name'', ''companyname'', ''entityname'', ''nameofreportingentity''] 100]"

definition financial_rules :: "mapping_rule list" where
  "financial_rules =
    [mapping ''revenue'' [''netsales'', ''netrevenue'', ''revenue'', ''omsattning'', ''rorintakter''] 90,
     mapping ''other_operating_income'' [''otheroperatingincome'', ''ovriga'', ''otherincome''] 70,
     mapping ''operating_expenses'' [''operatingexpenses'', ''rorelsekostnader'', ''totaloperatingexpenses''] 70,
     mapping ''personnel_costs'' [''personnelcost'', ''personalkostnad'', ''employeebenefit''] 80,
     mapping ''depreciation_amortization'' [''depreciation'', ''amortization'', ''avskrivning'', ''nedskrivning''] 75,
     mapping ''operating_profit'' [''operatingprofit'', ''operatingincome'', ''rorelseresultat'', ''ebit''] 85,
     mapping ''financial_result'' [''financialitems'', ''finansiell'', ''netfinancial'', ''resultfromfinancial''] 70,
     mapping ''profit_after_financial'' [''profitbeforetax'', ''resultatefterfinansiella'', ''profitlossbeforetax''] 80,
     mapping ''tax_on_profit'' [''incometax'', ''taxexpense'', ''skatt''] 75,
     mapping ''net_profit'' [''profitloss'', ''netincome'', ''arsresultat'', ''profitfortheyear'', ''resultat''] 85,
     mapping ''appropriations'' [''appropriation'', ''disposition''] 60,
     mapping ''intangible_assets'' [''intangibleassets'', ''immateriella''] 75,
     mapping ''tangible_assets'' [''propertyplant'', ''materiella'', ''tangibleassets''] 75,
     mapping ''financial_assets'' [''financialassets'', ''finansiellatillgangar''] 70,
     mapping ''total_fixed_assets'' [''noncurrentassets'', ''langfristiga'', ''totalfixed''] 65,
     mapping ''inventory'' [''inventor'', ''varulager''] 80,
     mapping ''receivables'' [''tradereceivable'', ''kundfordringar'', ''receivable''] 70,
     mapping ''cash_and_equivalents'' [''cashandcashequivalent'', ''kassa'', ''likvida''] 85,
     mapping ''total_current_assets'' [''currentassets'', ''omsattningstillgangar'', ''kortfristiga''] 65,
     mapping ''total_assets'' [''totalassets'', ''summa tillgangar'', ''assets''] 50,
     mapping ''equity'' [''equity'', ''egetkapital'', ''totalequity''] 70,
     mapping ''share_capital'' [''sharecapital'', ''aktiekapital''] 85,
     mapping ''unrestricted_equity'' [''unrestrictedequity'', ''fritt''] 65,
     mapping ''restricted_equity'' [''restrictedequity'', ''bundet''] 65,
     mapping ''untaxed_reserves'' [''untaxed'', ''obeskattade''] 70,
     mapping ''provisions'' [''provisions'', ''avsattningar''] 70,
     mapping ''long_term_liabilities'' [''noncurrentliabilities'', ''langfristiga skulder''] 70,
     mapping ''short_term_liabilities'' [''currentliabilities'', ''kortfristiga skulder''] 70,
     mapping ''accounts_payable'' [''tradepayable'', ''leverantorsskulder''] 75,
     mapping ''tax_liabilities'' [''taxliabilit'', ''skatteskulder''] 70,
     mapping ''total_equity_and_liabilities'' [''totalliabilit'', ''summa skulder'', ''equityandliabilit''] 55,
     mapping ''operating_cash_flow'' [''cashflowfromoperating'', ''rorelsekapital''] 80,
     mapping ''investing_cash_flow'' [''cashflowfrominvesting''] 80,
     mapping ''financing_cash_flow'' [''cashflowfromfinancing''] 80,
     mapping ''cash_flow_for_year'' [''netincreaseincash'', ''forandring likvida''] 70,
     mapping ''cash_beginning'' [''cashatbeginning'', ''likvida vid arets borjan''] 75,
     mapping ''cash_end'' [''cashatend'', ''likvida vid arets slut''] 75,
     mapping ''employee_count'' [''numberofemployees'', ''antal anstallda'', ''employees''] 85,
     mapping ''dividends'' [''dividend''] 70,
     mapping ''interest_income'' [''interestincome'', ''ranteintakter''] 70,
     mapping ''interest_expense'' [''interestexpense'', ''rantekostnader''] 70]"

definition auditor_rules :: "mapping_rule list" where
  "auditor_rules =
    [mapping ''auditor_name'' [''auditorname'', ''revisorsnamn'', ''signingauditor''] 85,
     mapping ''auditor_firm'' [''auditorfirm'', ''revisionsbolag'', ''auditfirm''] 85,
     mapping ''audit_opinion'' [''auditopinion'', ''revisionsberattelse'', ''auditreport''] 70]"

definition note_rules :: "mapping_rule list" where
  "note_rules =
    [mapping ''note_disclosure'' [''notetext'', ''disclosure'', ''footnote'', ''textblock''] 50]"


text \<open>\<open>matchConceptToRule\<close>\<close>

definition rule_applies :: "string \<Rightarrow> mapping_rule \<Rightarrow> bool" where
  "rule_applies conceptQname r \<longleftrightarrow> (\<exists>p \<in> set (mr_patterns r). has_sub (to_lower p) (to_lower conceptQname))"

definition match_concept :: "string \<Rightarrow> mapping_rule list \<Rightarrow> mapping_rule option" where
  "match_concept conceptQname rules =
     fold (\<lambda>r winner. if rule_applies conceptQname r then keep_best mr_priority r winner else winner) rules None"

text \<open>\<open>statementTypeForCanonicalField\<close>\<close>

datatype statement_type = IncomeStatement | BalanceSheet | CashFlow | EquityStatement | NotesStatement
  | MetadataStatement | AuditStatement | OtherStatement

definition income_fields :: "string list" where
  "income_fields = [''revenue'', ''other_operating_income'', ''operating_expenses'', ''personnel_costs'',
     ''depreciation_amortization'', ''operating_profit'', ''financial_result'', ''profit_after_financial'',
     ''tax_on_profit'', ''net_profit'', ''appropriations'', ''dividends'', ''interest_income'', ''interest_expense'']"

definition balance_fields :: "string list" where
  "balance_fields = [''intangible_assets'', ''tangible_assets'', ''financial_assets'', ''total_fixed_assets'',
     ''inventory'', ''receivables'', ''cash_and_equivalents'', ''total_current_assets'', ''total_assets'', ''equity'',
     ''share_capital'', ''unrestricted_equity'', ''restricted_equity'', ''untaxed_reserves'', ''provisions'',
     ''long_term_liabilities'', ''short_term_liabilities'', ''accounts_payable'', ''tax_liabilities'',
     ''total_equity_and_liabilities'']"

definition cash_fields :: "string list" where
  "cash_fields = [''operating_cash_flow'', ''investing_cash_flow'', ''financing_cash_flow'', ''cash_flow_for_year'',
     ''cash_beginning'', ''cash_end'']"

definition equity_fields :: "string list" where
  "equity_fields = [''share_capital'', ''unrestricted_equity'', ''restricted_equity'']"

definition statement_type_for :: "string \<Rightarrow> statement_type" where
  "statement_type_for field =
     (if field \<in> set income_fields then IncomeStatement
      else if field \<in> set balance_fields then BalanceSheet
      else if field \<in> set cash_fields then CashFlow
      else if field \<in> set equity_fields then EquityStatement
      else if field = ''employee_count'' then MetadataStatement
      else OtherStatement)"

section \<open>Contexts and facts\<close>

record xbrl_context =
  ax_parseRunId :: string
  ax_xbrlContextId :: string
  ax_periodInstant :: "int option"
  ax_periodStart :: "int option"
  ax_periodEnd :: "int option"
  ax_dimensions :: "(string \<times> string) list"

record xbrl_fact =
  ay_id :: string
  ay_parseRunId :: string
  ay_sequenceIndex :: int
  ay_contextRef :: "string option"
  ay_unitRef :: "string option"
  ay_conceptQname :: string
  ay_valueText :: "string option"
  ay_valueNumeric :: "string option"
  ay_decimals :: "int option"
  ay_isNil :: bool
  ay_documentType :: "string option"

record xbrl_unit =
  az_parseRunId :: string
  az_xbrlUnitId :: string
  az_measures :: "string list"

text \<open>\<open>d.getUTCFullYear()\<close> and \<open>d.toISOString().slice(0, 10)\<close>\<close>

definition full_year :: "int \<Rightarrow> int" where
  "full_year t = fst (civil_of_day (t div ms_per_day))"

definition date_text :: "int \<Rightarrow> string" where
  "date_text t = take 10 (iso_string t)"

section \<open>The primary context\<close>

record context_candidate =
  cg_xbrlContextId :: string
  cg_periodStart :: "int option"
  cg_periodEnd :: "int option"
  cg_factCount :: nat
  cg_keyFinancialCount :: nat
  cg_score :: nat

record primary_pick =
  pp_primaryContextId :: "string option"
  pp_periodStart :: "int option"
  pp_periodEnd :: "int option"
  pp_fiscalYear :: "int option"
  pp_factCount :: nat
  pp_keyFinancialFactCount :: nat
  pp_candidates :: "context_candidate list"

definition is_duration :: "xbrl_context \<Rightarrow> bool" where
  "is_duration c \<longleftrightarrow> ax_periodStart c \<noteq> None \<and> ax_periodEnd c \<noteq> None"

text \<open>\<open>f.contextRef?.trim()\<close>, skipped when empty.\<close>

definition trimmed_ref :: "xbrl_fact \<Rightarrow> string option" where
  "trimmed_ref f = Option.bind (map_option trim (ay_contextRef f)) nonempty"

text \<open>A step of the loop over the facts on the two maps of counts.\<close>

definition count_up :: "string \<Rightarrow> (string \<times> nat) list \<Rightarrow> (string \<times> nat) list" where
  "count_up k m = AList.update k (or_default (map_of m k) 0 + 1) m"

definition count_fact ::
  "xbrl_fact \<Rightarrow> (string \<times> nat) list \<times> (string \<times> nat) list \<Rightarrow> (string \<times> nat) list \<times> (string \<times> nat) list" where
  "count_fact f m =
     (case trimmed_ref f of None \<Rightarrow> m
      | Some r \<Rightarrow> (count_up r (fst m),
          if match_concept (ay_conceptQname f) financial_rules \<noteq> None then count_up r (snd m) else snd m))"

definition candidate_of :: "(string \<times> nat) list \<times> (string \<times> nat) list \<Rightarrow> xbrl_context \<Rightarrow> context_candidate" where
  "candidate_of m c =
     (let fc = or_default (map_of (fst m) (ax_xbrlContextId c)) 0;
          kf = or_default (map_of (snd m) (ax_xbrlContextId c)) 0
      in \<lparr>cg_xbrlContextId = ax_xbrlContextId c, cg_periodStart = ax_periodStart c, cg_periodEnd = ax_periodEnd c,
           cg_factCount = fc, cg_keyFinancialCount = kf, cg_score = kf * 1000 + fc\<rparr>)"

definition rank_candidates :: "context_candidate list \<Rightarrow> context_candidate list" where
  "rank_candidates = sort_key (\<lambda>c. (- int (cg_score c), - int (cg_factCount c)))"

definition select_primary_context :: "xbrl_context list \<Rightarrow> xbrl_fact list \<Rightarrow> primary_pick" where
  "select_primary_context contexts facts =
     (let counts = fold count_fact facts ([], []);
          candidates = rank_candidates (map (candidate_of counts) (filter is_duration contexts))
      in case candidates of
        [] \<Rightarrow> \<lparr>pp_primaryContextId = None, pp_periodStart = None, pp_periodEnd = None, pp_fiscalYear = None,
          pp_factCount = 0, pp_keyFinancialFactCount = 0, pp_candidates = []\<rparr>
      | best # _ \<Rightarrow> \<lparr>pp_primaryContextId = Some (cg_xbrlContextId best), pp_periodStart = cg_periodStart best,
          pp_periodEnd = cg_periodEnd best, pp_fiscalYear = map_option full_year (cg_periodEnd best),
          pp_factCount = cg_factCount best, pp_keyFinancialFactCount = cg_keyFinancialCount best,
          pp_candidates = candidates\<rparr>)"

section \<open>Properties\<close>

text \<open>The loop over the rules is the first of the applicable rules with the greatest priority.\<close>

lemma fold_match:
  "fold (\<lambda>r w. if P r then keep_best score r w else w) rs w = fold (keep_best score) (filter P rs) w"
  by (induction rs arbitrary: w) auto

lemma match_concept_first_best:
  "match_concept q rules = first_best mr_priority (filter (rule_applies q) rules)"
  by (simp add: match_concept_def first_best_def fold_match)

lemma match_concept_SomeD:
  assumes "match_concept q rules = Some r"
  shows "r \<in> set rules" "rule_applies q r"
    "\<forall>x \<in> set rules. rule_applies q x \<longrightarrow> mr_priority x \<le> mr_priority r"
  using first_best_SomeD [OF assms [unfolded match_concept_first_best]] by auto

lemma match_concept_None_iff: "match_concept q rules = None \<longleftrightarrow> (\<forall>r \<in> set rules. \<not> rule_applies q r)"
  by (simp add: match_concept_first_best filter_empty_conv)

lemma match_concept_unique: "match_concept q [r] = (if rule_applies q r then Some r else None)"
  by (simp add: match_concept_def keep_best_def)

lemma has_sub_sublist: "has_sub p s \<longleftrightarrow> sublist p s"
  by (induction s) (auto simp: sublist_Cons_right)

lemma has_sub_trans: "has_sub p q \<Longrightarrow> has_sub q s \<Longrightarrow> has_sub p s"
  by (auto simp: has_sub_sublist intro: sublist_order.order_trans)

text \<open>
  A pattern that contains a pattern of a rule of higher priority, or of an earlier one of the same
  priority, never makes its own rule win.
\<close>

definition beats :: "mapping_rule list \<Rightarrow> nat \<Rightarrow> nat \<Rightarrow> bool" where
  "beats rules j i \<longleftrightarrow> j < length rules \<and> i < length rules \<and>
     (mr_priority (rules ! i) < mr_priority (rules ! j) \<or>
      j < i \<and> mr_priority (rules ! i) = mr_priority (rules ! j))"

text \<open>Pattern \<open>p\<close> of rule \<open>i\<close> contains pattern \<open>p'\<close> of rule \<open>j\<close>.\<close>

definition shadows :: "mapping_rule list \<Rightarrow> nat \<times> string \<Rightarrow> nat \<times> string \<Rightarrow> bool" where
  "shadows rules = (\<lambda>(j, p') (i, p). beats rules j i \<and> p' \<in> set (mr_patterns (rules ! j)) \<and>
     p \<in> set (mr_patterns (rules ! i)) \<and> has_sub (to_lower p') (to_lower p))"

lemma earlier_rule_wins:
  assumes "match_concept q rules = Some r" and "distinct rules" and "i < length rules" and "j < length rules"
    and "rule_applies q (rules ! j)"
    and "mr_priority (rules ! i) < mr_priority (rules ! j) \<or>
      j < i \<and> mr_priority (rules ! i) = mr_priority (rules ! j)"
  shows "r \<noteq> rules ! i"
proof
  assume r: "r = rules ! i"
  have max: "mr_priority (rules ! j) \<le> mr_priority r"
    using match_concept_SomeD(3) [OF assms(1)] assms(4,5) by simp
  with assms(6) r have ji: "j < i" "mr_priority (rules ! i) = mr_priority (rules ! j)" by auto
  from assms(1) obtain us vs where split: "filter (rule_applies q) rules = us @ r # vs"
    and us: "\<forall>u \<in> set us. mr_priority u < mr_priority r"
    by (auto simp: match_concept_first_best first_best_split is_first_best_def)
  have app: "rule_applies q r" by (rule match_concept_SomeD(2) [OF assms(1)])
  have "rules = take i rules @ r # drop (Suc i) rules"
    using assms(3) r by (simp add: id_take_nth_drop)
  then have "filter (rule_applies q) rules =
      filter (rule_applies q) (take i rules) @ r # filter (rule_applies q) (drop (Suc i) rules)"
    using app by (metis filter.simps(2) filter_append)
  moreover have "distinct (filter (rule_applies q) rules)" using assms(2) by simp
  ultimately have "us = filter (rule_applies q) (take i rules)"
    using split by (metis append_Cons_eq_iff distinct.simps(2) distinct_append not_distinct_conv_prefix)
  moreover have "rules ! j \<in> set (take i rules)"
    using ji(1) assms(3) by (metis in_set_conv_nth length_take min.absorb4 nth_take)
  ultimately have "rules ! j \<in> set us" using assms(5) by simp
  with us r ji show False by auto
qed

lemma shadowed_pattern_loses:
  assumes "shadows rules (j, p') (i, p)" and "distinct rules" and "has_sub (to_lower p) (to_lower q)"
    and "match_concept q rules = Some r"
  shows "r \<noteq> rules ! i"
proof -
  have s: "beats rules j i" "p' \<in> set (mr_patterns (rules ! j))" "has_sub (to_lower p') (to_lower p)"
    using assms(1) by (auto simp: shadows_def)
  have "rule_applies q (rules ! j)"
    unfolding rule_applies_def using s(2,3) assms(3) by (blast intro: has_sub_trans)
  with s(1) show ?thesis using earlier_rule_wins [OF assms(4,2)] by (auto simp: beats_def)
qed

lemma financial_fields_distinct: "distinct (map mr_canonicalField financial_rules)"
  by code_simp

definition shadowed_financial_patterns :: "((nat \<times> string) \<times> (nat \<times> string)) list" where
  "shadowed_financial_patterns =
    [((5, ''operatingincome''), (1, ''otheroperatingincome'')),
     ((9, ''resultat''), (7, ''resultatefterfinansiella'')),
     ((9, ''profitloss''), (7, ''profitlossbeforetax'')),
     ((6, ''finansiell''), (13, ''finansiellatillgangar'')),
     ((0, ''omsattning''), (18, ''omsattningstillgangar'')),
     ((20, ''equity''), (22, ''unrestrictedequity'')),
     ((20, ''equity''), (23, ''restrictedequity'')),
     ((8, ''skatt''), (24, ''obeskattade'')),
     ((8, ''skatt''), (29, ''skatteskulder'')),
     ((20, ''equity''), (30, ''equityandliabilit''))]"

lemma financial_patterns_shadowed:
  "list_all (\<lambda>(w, l). shadows financial_rules w l) shadowed_financial_patterns"
  by code_simp

lemma shadowed_financial_loses:
  assumes "(w, (i, p)) \<in> set shadowed_financial_patterns" and "has_sub (to_lower p) (to_lower q)"
  shows "\<exists>r. match_concept q financial_rules = Some r \<and>
    mr_canonicalField r \<noteq> mr_canonicalField (financial_rules ! i)"
proof -
  obtain j p' where w: "w = (j, p')" by (cases w)
  have s: "shadows financial_rules (j, p') (i, p)"
    using financial_patterns_shadowed assms(1) w by (auto simp: list_all_iff)
  then have i: "i < length financial_rules" "p \<in> set (mr_patterns (financial_rules ! i))"
    by (auto simp: shadows_def beats_def)
  have "rule_applies q (financial_rules ! i)"
    unfolding rule_applies_def using i(2) assms(2) by blast
  with i(1) have "match_concept q financial_rules \<noteq> None"
    unfolding match_concept_None_iff by auto
  then obtain r where r: "match_concept q financial_rules = Some r" by blast
  have d: "distinct financial_rules" using financial_fields_distinct by (simp add: distinct_map)
  have "r \<noteq> financial_rules ! i"
    by (rule shadowed_pattern_loses [OF s d assms(2) r])
  then have "mr_canonicalField r \<noteq> mr_canonicalField (financial_rules ! i)"
    using match_concept_SomeD(1) [OF r] i(1) financial_fields_distinct
    by (metis distinct_map inj_on_eq_iff nth_mem)
  with r show ?thesis by blast
qed

text \<open>C20: A concept whose name contains one of these patterns, such as \<open>omsattningstillgangar\<close> (current
  assets), \<open>skatteskulder\<close> (tax liabilities) or \<open>profitlossbeforetax\<close>, is always stored under a field
  other than the one the pattern is listed for.
\<close>
theorem shadowed_patterns_never_win:
  assumes "(w, (i, p)) \<in> set shadowed_financial_patterns" and "has_sub (to_lower p) (to_lower q)"
  shows "\<exists>r. match_concept q financial_rules = Some r \<and>
    mr_canonicalField r \<noteq> mr_canonicalField (financial_rules ! i)"
  by (rule shadowed_financial_loses [OF assms])

lemma shadowed_patterns_never_win_witness:
  "(\<exists>r. match_concept ''bas:Omsattningstillgangar'' financial_rules = Some r \<and>
      mr_canonicalField r \<noteq> mr_canonicalField (financial_rules ! 18)) \<and>
   mr_canonicalField (financial_rules ! 18) = ''total_current_assets''"
proof (intro conjI)
  show "\<exists>r. match_concept ''bas:Omsattningstillgangar'' financial_rules = Some r \<and>
      mr_canonicalField r \<noteq> mr_canonicalField (financial_rules ! 18)"
    by (rule shadowed_patterns_never_win [where w = "(0, ''omsattning'')" and p = "''omsattningstillgangar''"])
      (code_simp, code_simp)
  show "mr_canonicalField (financial_rules ! 18) = ''total_current_assets''" by code_simp
qed

text \<open>The equity statement is unreachable: its fields are balance sheet fields.\<close>

lemma equity_fields_on_balance_sheet: "set equity_fields \<subseteq> set balance_fields"
  by code_simp

lemma no_equity_statement: "statement_type_for field \<noteq> EquityStatement"
  using equity_fields_on_balance_sheet by (auto simp: statement_type_for_def)

lemma financial_fields_statement:
  "list_all (\<lambda>r. statement_type_for (mr_canonicalField r) \<in> {IncomeStatement, BalanceSheet, CashFlow, MetadataStatement})
     financial_rules"
  by code_simp

text \<open>The counts of the loop are the numbers of facts that name a context.\<close>

definition facts_naming :: "string \<Rightarrow> xbrl_fact list \<Rightarrow> xbrl_fact list" where
  "facts_naming k facts = filter (\<lambda>f. trimmed_ref f = Some k) facts"

definition key_facts :: "xbrl_fact list \<Rightarrow> xbrl_fact list" where
  "key_facts facts = filter (\<lambda>f. match_concept (ay_conceptQname f) financial_rules \<noteq> None) facts"

lemma map_of_count_up:
  "or_default (map_of (count_up k m) x) 0 = or_default (map_of m x) 0 + (if x = k then 1 else 0)"
  by (simp add: count_up_def update_conv)

lemma fold_count_fact:
  "or_default (map_of (fst (fold count_fact facts m)) k) 0 =
     or_default (map_of (fst m) k) 0 + length (facts_naming k facts)"
  "or_default (map_of (snd (fold count_fact facts m)) k) 0 =
     or_default (map_of (snd m) k) 0 + length (facts_naming k (key_facts facts))"
proof (induction facts arbitrary: m)
  case (Cons f fs)
  { case 1
    show ?case
      using Cons.IH(1) [of "count_fact f m"]
      by (simp add: facts_naming_def count_fact_def map_of_count_up split: option.splits) }
  { case 2
    show ?case
      using Cons.IH(2) [of "count_fact f m"]
      by (simp add: facts_naming_def key_facts_def count_fact_def map_of_count_up split: option.splits) }
qed (simp_all add: facts_naming_def key_facts_def)

lemma candidate_counts:
  "cg_factCount (candidate_of (fold count_fact facts ([], [])) c) = length (facts_naming (ax_xbrlContextId c) facts)"
  "cg_keyFinancialCount (candidate_of (fold count_fact facts ([], [])) c) =
     length (facts_naming (ax_xbrlContextId c) (key_facts facts))"
  by (simp_all add: candidate_of_def Let_def fold_count_fact)

definition context_score :: "xbrl_fact list \<Rightarrow> xbrl_context \<Rightarrow> nat" where
  "context_score facts c =
     length (facts_naming (ax_xbrlContextId c) (key_facts facts)) * 1000 +
     length (facts_naming (ax_xbrlContextId c) facts)"

lemma candidate_score:
  "cg_score (candidate_of (fold count_fact facts ([], [])) c) = context_score facts c"
  using candidate_counts [of facts c] by (simp add: candidate_of_def context_score_def Let_def)

lemma primary_context_none:
  "pp_primaryContextId (select_primary_context contexts facts) = None \<longleftrightarrow> (\<forall>c \<in> set contexts. \<not> is_duration c)"
proof -
  let ?f = "candidate_of (fold count_fact facts ([], []))"
  have "pp_primaryContextId (select_primary_context contexts facts) = None \<longleftrightarrow>
      rank_candidates (map ?f (filter is_duration contexts)) = []"
    by (simp add: select_primary_context_def Let_def split: list.splits)
  also have "\<dots> \<longleftrightarrow> set (rank_candidates (map ?f (filter is_duration contexts))) = {}" by simp
  also have "\<dots> \<longleftrightarrow> (\<forall>c \<in> set contexts. \<not> is_duration c)" by (auto simp: rank_candidates_def)
  finally show ?thesis .
qed

lemma primary_context_best:
  assumes "pp_primaryContextId (select_primary_context contexts facts) = Some k"
  obtains c where "c \<in> set contexts" "is_duration c" "ax_xbrlContextId c = k"
    "pp_periodStart (select_primary_context contexts facts) = ax_periodStart c"
    "pp_periodEnd (select_primary_context contexts facts) = ax_periodEnd c"
    "\<And>d. d \<in> set contexts \<Longrightarrow> is_duration d \<Longrightarrow> context_score facts d \<le> context_score facts c"
proof -
  let ?f = "candidate_of (fold count_fact facts ([], []))"
  let ?key = "\<lambda>c. (- int (cg_score c), - int (cg_factCount c))"
  obtain b bs where cands: "rank_candidates (map ?f (filter is_duration contexts)) = b # bs"
    using assms by (auto simp: select_primary_context_def Let_def split: list.splits)
  then have mem: "set (b # bs) = ?f ` {c \<in> set contexts. is_duration c}"
    using set_sort [of ?key "map ?f (filter is_duration contexts)"] by (auto simp: rank_candidates_def)
  then obtain c where c: "c \<in> set contexts" "is_duration c" "b = ?f c" by auto
  have "sorted (map ?key (b # bs))"
    unfolding cands [symmetric] rank_candidates_def by simp
  then have le: "\<forall>x \<in> set (b # bs). cg_score x \<le> cg_score b"
    by (auto simp: less_eq_prod_def)
  have "context_score facts d \<le> context_score facts c" if "d \<in> set contexts" "is_duration d" for d
  proof -
    have "?f d \<in> set (b # bs)" using that mem by auto
    then have "cg_score (?f d) \<le> cg_score (?f c)" using le c(3) by blast
    then show ?thesis by (simp add: candidate_score)
  qed
  with c assms cands show ?thesis
    by (intro that [of c]) (auto simp: select_primary_context_def candidate_of_def Let_def)
qed

end
