(* ===== verification/AnnualServing.thy ===== *)
theory AnnualServing
  imports AnnualMapping
begin

text \<open>
  \<open>AnnualReportNormalizeService\<close>
  (backend/src/annual-reports/services/annual-report-normalize.service.ts): from the XBRL facts of
  the parse runs of an annual report to its header, financial rows, auditor, notes and periods.
  Rows whose generated id nothing reads have none here. The length in the score of a header text is
  weighed with the exact rational 1/1000.
\<close>

section \<open>State\<close>

datatype file_status = FilePending | FileExtracting | FileExtracted | FileNormalized | FileFailed

record annual_file =
  af_id :: string
  af_tenantId :: string
  af_companyId :: "string option"
  af_organisationsnummer :: "string option"
  af_bvStoredDocumentId :: "string option"
  af_originalFilename :: string
  af_contentType :: "string option"
  af_contentSha256 :: string
  af_sizeBytes :: string
  af_storageBucket :: "string option"
  af_storageKey :: "string option"
  af_status :: file_status
  af_ixbrlEntryPath :: "string option"
  af_createdAt :: int
  af_updatedAt :: int

datatype parse_status = ParseRunning | ParseCompleted | ParseFailed

record parse_run =
  ap_id :: string
  ap_fileId :: string
  ap_parserName :: string
  ap_parserVersion :: string
  ap_status :: parse_status
  ap_factCount :: nat
  ap_contextCount :: nat
  ap_unitCount :: nat
  ap_startedAt :: int
  ap_completedAt :: "int option"
  ap_sourceIxbrlPath :: "string option"
  ap_annualReportImportId :: "string option"
  ap_sourceFileId :: "string option"
  ap_documentType :: "string option"

record report_header =
  ah_id :: string
  ah_tenantId :: string
  ah_companyId :: "string option"
  ah_organisationsnummer :: "string option"
  ah_annualReportFileId :: string
  ah_parseRunId :: string
  ah_annualReportImportId :: "string option"
  ah_companyNameFromFiling :: "string option"
  ah_organisationNumberFiling :: "string option"
  ah_filingPeriodStart :: "int option"
  ah_filingPeriodEnd :: "int option"
  ah_fiscalYear :: "int option"
  ah_currencyCode :: "string option"
  ah_sourceFilename :: "string option"
  ah_parserName :: string
  ah_parserVersion :: string
  ah_primaryContextId :: "string option"
  ah_primarySourceFileId :: "string option"
  ah_extractedAt :: int
  ah_isSuperseded :: bool
  ah_supersededByHeaderId :: "string option"
  ah_metadata :: "int members"

datatype period_kind = PeriodCurrent | PeriodPrior | PeriodInstant | PeriodUnknown

definition period_kind_text :: "period_kind \<Rightarrow> string" where
  "period_kind_text k = (case k of PeriodCurrent \<Rightarrow> ''current'' | PeriodPrior \<Rightarrow> ''prior''
     | PeriodInstant \<Rightarrow> ''instant'' | PeriodUnknown \<Rightarrow> ''unknown'')"

record financial_row =
  aq_headerId :: string
  aq_canonicalField :: string
  aq_periodKind :: period_kind
  aq_valueNumeric :: "string option"
  aq_valueText :: "string option"
  aq_unitRef :: "string option"
  aq_currencyCode :: "string option"
  aq_sourceFactIds :: "string list"
  aq_rankingScore :: int

record auditor_row =
  ao_headerId :: string
  ao_auditorName :: "string option"
  ao_auditorFirm :: "string option"
  ao_auditOpinionHint :: "string option"
  ao_sourceFactIds :: "string list"

record note_row =
  aw_headerId :: string
  aw_noteRef :: "string option"
  aw_noteLabel :: "string option"
  aw_conceptQname :: "string option"
  aw_sourceFactIds :: "string list"

record period_row =
  av_headerId :: string
  av_periodLabel :: string
  av_periodStart :: "int option"
  av_periodEnd :: "int option"
  av_isInstant :: bool
  av_contextIds :: "string list"

record serving_state =
  ys_contexts :: "xbrl_context list"
  ys_facts :: "xbrl_fact list"
  ys_units :: "xbrl_unit list"
  ys_runs :: "parse_run list"
  ys_headers :: "report_header list"
  ys_financials :: "financial_row list"
  ys_auditors :: "auditor_row list"
  ys_notes :: "note_row list"
  ys_periods :: "period_row list"

section \<open>Contexts and periods\<close>

record context_info =
  ki_end :: "int option"
  ki_start :: "int option"
  ki_instant :: "int option"
  ki_hasDimensions :: bool

definition ctx_map_key :: "string \<Rightarrow> string option \<Rightarrow> string" where
  "ctx_map_key parseRunId contextRef = parseRunId @ ''::'' @ or_default contextRef []"

text \<open>A later entry of a key overwrites an earlier one.\<close>

definition build_ctx_map :: "xbrl_context list \<Rightarrow> string \<Rightarrow> context_info option" where
  "build_ctx_map contexts =
     map_of (rev (map (\<lambda>c. (ctx_map_key (ax_parseRunId c) (Some (ax_xbrlContextId c)),
       \<lparr>ki_end = ax_periodEnd c, ki_start = ax_periodStart c, ki_instant = ax_periodInstant c,
         ki_hasDimensions = ax_dimensions c \<noteq> []\<rparr>)) contexts))"

definition period_ends :: "xbrl_context list \<Rightarrow> (string \<times> int) list" where
  "period_ends contexts =
     fold (\<lambda>c ends. case ax_periodEnd c of None \<Rightarrow> ends | Some e \<Rightarrow> AList.update (date_text e) e ends) contexts []"

definition infer_reporting_ends :: "xbrl_context list \<Rightarrow> int option \<times> int option" where
  "infer_reporting_ends contexts =
     (let sorted = sort_key (\<lambda>e. - e) (map snd (period_ends contexts)); current = nth_opt sorted 0
      in (current,
          case current of None \<Rightarrow> None
          | Some e \<Rightarrow>
              if length sorted > 1
              then or_else (find (\<lambda>d. full_year d < full_year e) sorted) (nth_opt sorted 1)
              else None))"

definition find_period_start :: "xbrl_context list \<Rightarrow> int \<Rightarrow> int option" where
  "find_period_start contexts e =
     Option.bind (find (\<lambda>c. map_option date_text (ax_periodEnd c) = Some (date_text e) \<and> ax_periodStart c \<noteq> None) contexts)
       ax_periodStart"

text \<open>\<open>inferCurrency\<close>: the first measure that names a currency.\<close>

definition measure_currency :: "string \<Rightarrow> string option" where
  "measure_currency m =
     (let l = to_lower m
      in if has_sub ''iso4217:sek'' l \<or> ends_with '':sek'' l then Some ''SEK''
         else if has_sub ''iso4217:'' l
         then (let part = last (split_on (CHR '':'') m)
               in if matches [is_upper, is_upper, is_upper] part then Some part else None)
         else None)"

definition infer_currency :: "xbrl_unit list \<Rightarrow> string option" where
  "infer_currency units = nth_opt (List.map_filter measure_currency (concat (map az_measures units))) 0"

definition normalize_org_number :: "string option \<Rightarrow> string option" where
  "normalize_org_number raw =
     Option.bind (Option.bind raw nonempty) (\<lambda>r. let ds = digits_only r
       in if length ds \<ge> 10 then Some ds else nonempty (trim r))"

section \<open>Facts\<close>

text \<open>\<open>f.valueText?.trim() || (f.valueNumeric != null ? String(f.valueNumeric) : '')\<close>\<close>

definition fact_text :: "xbrl_fact \<Rightarrow> string" where
  "fact_text f =
     or_default (or_else (Option.bind (map_option trim (ay_valueText f)) nonempty) (ay_valueNumeric f)) []"

definition header_candidate :: "mapping_rule list \<Rightarrow> xbrl_fact \<Rightarrow> (string \<times> rat) option" where
  "header_candidate rules f =
     (let t = fact_text f
      in if ay_isNil f \<or> t = [] then None
         else map_option (\<lambda>r. (t, of_int (mr_priority r) + of_nat (length t) / 1000))
           (match_concept (ay_conceptQname f) rules))"

definition pick_header_text :: "xbrl_fact list \<Rightarrow> mapping_rule list \<Rightarrow> string option" where
  "pick_header_text facts rules = map_option fst (first_best snd (List.map_filter (header_candidate rules) facts))"

definition context_of_fact :: "(string \<Rightarrow> context_info option) \<Rightarrow> xbrl_fact \<Rightarrow> context_info option" where
  "context_of_fact ctxById f = ctxById (ctx_map_key (ay_parseRunId f) (ay_contextRef f))"

definition same_time :: "int option \<Rightarrow> int option \<Rightarrow> bool" where
  "same_time a b \<longleftrightarrow> a \<noteq> None \<and> b \<noteq> None \<and> a = b"

definition period_kind_for ::
  "(string \<Rightarrow> context_info option) \<Rightarrow> xbrl_fact \<Rightarrow> int option \<Rightarrow> int option \<Rightarrow> period_kind" where
  "period_kind_for ctxById f currentEnd priorEnd =
     (case context_of_fact ctxById f of
        None \<Rightarrow> PeriodUnknown
      | Some c \<Rightarrow>
          if same_time (ki_instant c) currentEnd then PeriodCurrent
          else if same_time (ki_instant c) priorEnd then PeriodPrior
          else if same_time (ki_end c) currentEnd then PeriodCurrent
          else if same_time (ki_end c) priorEnd then PeriodPrior
          else PeriodUnknown)"

definition score_fact :: "mapping_rule \<Rightarrow> xbrl_fact \<Rightarrow> period_kind \<Rightarrow> context_info option \<Rightarrow> int" where
  "score_fact rule f kind ctx =
     mr_priority rule +
     (if kind = PeriodCurrent \<or> kind = PeriodInstant then 40 else 0) +
     (if kind = PeriodPrior then 35 else 0) +
     (if kind = PeriodUnknown then - 30 else 0) +
     (if \<not> ay_isNil f \<and> ay_valueNumeric f \<noteq> None then 15 else 0) +
     (if ay_valueNumeric f = None \<and> truthy_str (ay_valueText f) then - 6 else 0) +
     (if truthy_str (ay_unitRef f) then 3 else 0) +
     (case ay_decimals f of None \<Rightarrow> 0 | Some d \<Rightarrow> if d \<ge> 0 then 1 else 0) +
     (case ctx of None \<Rightarrow> 8 | Some c \<Rightarrow> if ki_hasDimensions c then - 20 else 8)"

text \<open>A fact with its rule, period and score, where a rule matches.\<close>

record scored_fact =
  wn_fact :: xbrl_fact
  wn_rule :: mapping_rule
  wn_periodKind :: period_kind
  wn_score :: int

definition scored ::
  "(string \<Rightarrow> context_info option) \<Rightarrow> int option \<Rightarrow> int option \<Rightarrow> mapping_rule list \<Rightarrow> xbrl_fact \<Rightarrow> scored_fact option" where
  "scored ctxById currentEnd priorEnd rules f =
     map_option (\<lambda>r. let k = period_kind_for ctxById f currentEnd priorEnd
         in \<lparr>wn_fact = f, wn_rule = r, wn_periodKind = k, wn_score = score_fact r f k (context_of_fact ctxById f)\<rparr>)
       (match_concept (ay_conceptQname f) rules)"

section \<open>Rows of a header\<close>

definition winner_key :: "scored_fact \<Rightarrow> string" where
  "winner_key w = mr_canonicalField (wn_rule w) @ ''::'' @ period_kind_text (wn_periodKind w)"

definition keep_winner :: "scored_fact \<Rightarrow> (string \<times> scored_fact) list \<Rightarrow> (string \<times> scored_fact) list" where
  "keep_winner w m =
     (case map_of m (winner_key w) of
        None \<Rightarrow> AList.update (winner_key w) w m
      | Some prev \<Rightarrow> if wn_score w > wn_score prev then AList.update (winner_key w) w m else m)"

definition financial_winners ::
  "xbrl_fact list \<Rightarrow> (string \<Rightarrow> context_info option) \<Rightarrow> int option \<Rightarrow> int option \<Rightarrow> (string \<times> scored_fact) list" where
  "financial_winners facts ctxById currentEnd priorEnd =
     fold keep_winner (List.map_filter (scored ctxById currentEnd priorEnd financial_rules) facts) []"

definition financial_row_of :: "string \<Rightarrow> scored_fact \<Rightarrow> financial_row" where
  "financial_row_of headerId w =
     \<lparr>aq_headerId = headerId, aq_canonicalField = mr_canonicalField (wn_rule w), aq_periodKind = wn_periodKind w,
      aq_valueNumeric = ay_valueNumeric (wn_fact w), aq_valueText = ay_valueText (wn_fact w),
      aq_unitRef = ay_unitRef (wn_fact w), aq_currencyCode = None, aq_sourceFactIds = [ay_id (wn_fact w)],
      aq_rankingScore = wn_score w\<rparr>"

definition replace_financials ::
  "string \<Rightarrow> xbrl_fact list \<Rightarrow> (string \<Rightarrow> context_info option) \<Rightarrow> int option \<Rightarrow> int option \<Rightarrow>
   serving_state \<Rightarrow> serving_state" where
  "replace_financials headerId facts ctxById currentEnd priorEnd st =
     st\<lparr>ys_financials := delete_where (\<lambda>r. aq_headerId r = headerId) (ys_financials st) @
       map (financial_row_of headerId \<circ> snd) (financial_winners facts ctxById currentEnd priorEnd)\<rparr>"

text \<open>\<open>pick\<close> of \<open>replaceAuditor\<close>: the text of the best fact of a field, if it has one, and its id.\<close>

definition pick_auditor ::
  "xbrl_fact list \<Rightarrow> (string \<Rightarrow> context_info option) \<Rightarrow> int option \<Rightarrow> int option \<Rightarrow> string \<Rightarrow> (string \<times> string) option" where
  "pick_auditor facts ctxById currentEnd priorEnd field =
     (let rules = filter (\<lambda>r. mr_canonicalField r = field) auditor_rules
      in Option.bind (first_best wn_score (List.map_filter (scored ctxById currentEnd priorEnd rules) facts))
           (\<lambda>w. map_option (\<lambda>t. (t, ay_id (wn_fact w))) (nonempty (fact_text (wn_fact w)))))"

definition replace_auditor ::
  "string \<Rightarrow> xbrl_fact list \<Rightarrow> (string \<Rightarrow> context_info option) \<Rightarrow> int option \<Rightarrow> int option \<Rightarrow>
   serving_state \<Rightarrow> serving_state" where
  "replace_auditor headerId facts ctxById currentEnd priorEnd st =
     (let pick = pick_auditor facts ctxById currentEnd priorEnd;
          name = pick ''auditor_name''; firm = pick ''auditor_firm''; opinion = pick ''audit_opinion'';
          ids = List.map_filter (map_option snd) [name, firm, opinion];
          kept = delete_where (\<lambda>r. ao_headerId r = headerId) (ys_auditors st)
      in st\<lparr>ys_auditors := kept @
           (if name \<noteq> None \<or> firm \<noteq> None \<or> opinion \<noteq> None
            then [\<lparr>ao_headerId = headerId, ao_auditorName = map_option fst name, ao_auditorFirm = map_option fst firm,
              ao_auditOpinionHint = map_option fst opinion, ao_sourceFactIds = distinct_in_order ids\<rparr>]
            else [])\<rparr>)"

definition replace_notes :: "string \<Rightarrow> xbrl_fact list \<Rightarrow> serving_state \<Rightarrow> serving_state" where
  "replace_notes headerId facts st =
     (let noteFacts = filter (\<lambda>f. match_concept (ay_conceptQname f) note_rules \<noteq> None) facts
      in st\<lparr>ys_notes := delete_where (\<lambda>r. aw_headerId r = headerId) (ys_notes st) @
           map (\<lambda>f. \<lparr>aw_headerId = headerId, aw_noteRef = ay_contextRef f, aw_noteLabel = None,
             aw_conceptQname = Some (ay_conceptQname f), aw_sourceFactIds = [ay_id f]\<rparr>) (take 500 noteFacts)\<rparr>)"

definition period_row_of :: "string \<Rightarrow> string \<Rightarrow> xbrl_context list \<Rightarrow> int \<Rightarrow> string list \<Rightarrow> period_row" where
  "period_row_of headerId label contexts e ctxIds =
     \<lparr>av_headerId = headerId, av_periodLabel = label, av_periodStart = find_period_start contexts e,
      av_periodEnd = Some e, av_isInstant = False, av_contextIds = ctxIds\<rparr>"

definition replace_periods ::
  "string \<Rightarrow> xbrl_context list \<Rightarrow> int option \<Rightarrow> int option \<Rightarrow> serving_state \<Rightarrow> serving_state" where
  "replace_periods headerId contexts currentEnd priorEnd st =
     st\<lparr>ys_periods := delete_where (\<lambda>r. av_headerId r = headerId) (ys_periods st) @
       (case currentEnd of None \<Rightarrow> []
        | Some e \<Rightarrow> [period_row_of headerId ''current'' contexts e
            (map ax_xbrlContextId (filter (\<lambda>c. ax_periodEnd c = Some e \<or> ax_periodInstant c = Some e) contexts))]) @
       (case priorEnd of None \<Rightarrow> []
        | Some e \<Rightarrow> [period_row_of headerId ''prior'' contexts e
            (map ax_xbrlContextId (filter (\<lambda>c. ax_periodEnd c = Some e) contexts))])\<rparr>"

section \<open>Headers\<close>

definition supersede_older :: "string \<Rightarrow> string \<Rightarrow> serving_state \<Rightarrow> serving_state" where
  "supersede_older fileId newHeaderId st =
     st\<lparr>ys_headers := update_where
       (\<lambda>h. ah_annualReportFileId h = fileId \<and> ah_id h \<noteq> newHeaderId \<and> \<not> ah_isSuperseded h)
       (\<lambda>h. h\<lparr>ah_isSuperseded := True, ah_supersededByHeaderId := Some newHeaderId\<rparr>) (ys_headers st)\<rparr>"

definition contexts_in :: "string list \<Rightarrow> serving_state \<Rightarrow> xbrl_context list" where
  "contexts_in ids st = filter (\<lambda>c. ax_parseRunId c \<in> set ids) (ys_contexts st)"

definition facts_in :: "string list \<Rightarrow> serving_state \<Rightarrow> xbrl_fact list" where
  "facts_in ids st = filter (\<lambda>f. ay_parseRunId f \<in> set ids) (ys_facts st)"

definition units_in :: "string list \<Rightarrow> serving_state \<Rightarrow> xbrl_unit list" where
  "units_in ids st = filter (\<lambda>u. az_parseRunId u \<in> set ids) (ys_units st)"

text \<open>A member that is \<open>undefined\<close> is left out of the stored document.\<close>

definition date_member :: "string \<Rightarrow> int option \<Rightarrow> int members" where
  "date_member k d = (case d of None \<Rightarrow> [] | Some t \<Rightarrow> [(k, JStr (date_text t))])"

definition count_member :: "string \<Rightarrow> nat \<Rightarrow> int members" where
  "count_member k n = [(k, JNum (int n))]"

definition iso_json :: "int option \<Rightarrow> int json" where
  "iso_json d = json_text (map_option iso_string d)"

definition candidate_json :: "context_candidate \<Rightarrow> int json" where
  "candidate_json c = JObj [(''xbrlContextId'', JStr (cg_xbrlContextId c)), (''periodStart'', iso_json (cg_periodStart c)),
     (''periodEnd'', iso_json (cg_periodEnd c)), (''factCount'', JNum (int (cg_factCount c))),
     (''keyFinancialCount'', JNum (int (cg_keyFinancialCount c))), (''score'', JNum (int (cg_score c)))]"

definition pick_json :: "primary_pick \<Rightarrow> int json" where
  "pick_json p = JObj [(''primaryContextId'', json_text (pp_primaryContextId p)), (''periodStart'', iso_json (pp_periodStart p)),
     (''periodEnd'', iso_json (pp_periodEnd p)),
     (''fiscalYear'', case pp_fiscalYear p of None \<Rightarrow> JNull | Some y \<Rightarrow> JNum y),
     (''factCount'', JNum (int (pp_factCount p))), (''keyFinancialFactCount'', JNum (int (pp_keyFinancialFactCount p))),
     (''candidates'', JArr (map candidate_json (pp_candidates p)))]"

text \<open>
  The writes of a report: the header, its rows (the auditor may be read from other facts and contexts),
  and the older headers of the file.
\<close>

definition write_rows ::
  "string \<Rightarrow> xbrl_context list \<Rightarrow> xbrl_fact list \<Rightarrow> int option \<times> int option \<Rightarrow>
   xbrl_context list \<Rightarrow> xbrl_fact list \<Rightarrow> int option \<times> int option \<Rightarrow> serving_state \<Rightarrow> serving_state" where
  "write_rows k contexts facts ends auditContexts auditFacts auditEnds =
     replace_periods k contexts (fst ends) (snd ends) \<circ>
     replace_notes k facts \<circ>
     replace_auditor k auditFacts (build_ctx_map auditContexts) (fst auditEnds) (snd auditEnds) \<circ>
     replace_financials k facts (build_ctx_map contexts) (fst ends) (snd ends)"

definition write_header :: "report_header \<Rightarrow> (serving_state \<Rightarrow> serving_state) \<Rightarrow> serving_state \<Rightarrow> serving_state" where
  "write_header header rows st =
     supersede_older (ah_annualReportFileId header) (ah_id header)
       (rows (st\<lparr>ys_headers := save ah_id header (ys_headers st)\<rparr>))"

text \<open>\<open>normalizeServingData\<close>; the database gives the header its id and time.\<close>

definition serving_header ::
  "string \<Rightarrow> int \<Rightarrow> string \<Rightarrow> annual_file \<Rightarrow> parse_run \<Rightarrow> string option \<Rightarrow> xbrl_context list \<Rightarrow> xbrl_fact list \<Rightarrow>
   xbrl_unit list \<Rightarrow> report_header" where
  "serving_header newId now tenantId file run sourceFilename contexts facts units =
     (let (currentEnd, priorEnd) = infer_reporting_ends contexts;
          orgNorm = normalize_org_number (or_else (pick_header_text facts header_org_rules) (af_organisationsnummer file))
      in \<lparr>ah_id = newId, ah_tenantId = tenantId, ah_companyId = af_companyId file,
           ah_organisationsnummer = or_else orgNorm (af_organisationsnummer file),
           ah_annualReportFileId = af_id file, ah_parseRunId = ap_id run, ah_annualReportImportId = None,
           ah_companyNameFromFiling = pick_header_text facts header_name_rules,
           ah_organisationNumberFiling = orgNorm,
           ah_filingPeriodStart = Option.bind currentEnd (find_period_start contexts),
           ah_filingPeriodEnd = currentEnd, ah_fiscalYear = None, ah_currencyCode = infer_currency units,
           ah_sourceFilename = Some (or_default sourceFilename (af_originalFilename file)),
           ah_parserName = ap_parserName run, ah_parserVersion = ap_parserVersion run,
           ah_primaryContextId = None, ah_primarySourceFileId = None, ah_extractedAt = now,
           ah_isSuperseded = False, ah_supersededByHeaderId = None,
           ah_metadata = count_member ''factCount'' (length facts) @ count_member ''contextCount'' (length contexts) @
             count_member ''unitCount'' (length units) @ date_member ''inferredCurrentEnd'' currentEnd @
             date_member ''inferredPriorEnd'' priorEnd\<rparr>)"

definition normalize_serving_data ::
  "string \<Rightarrow> int \<Rightarrow> string \<Rightarrow> annual_file \<Rightarrow> parse_run \<Rightarrow> string option \<Rightarrow> serving_state \<Rightarrow> report_header \<times> serving_state" where
  "normalize_serving_data newId now tenantId file run sourceFilename st =
     (let contexts = contexts_in [ap_id run] st; facts = facts_in [ap_id run] st; units = units_in [ap_id run] st;
          header = serving_header newId now tenantId file run sourceFilename contexts facts units;
          ends = infer_reporting_ends contexts
      in (header, write_header header (write_rows newId contexts facts ends contexts facts ends) st))"

text \<open>
  \<open>rebuildServingForFile\<close>: the headers of the file go with their rows. Deleting a header clears the
  references to it (\<open>ON DELETE SET NULL\<close>).
\<close>

definition delete_header :: "string \<Rightarrow> serving_state \<Rightarrow> serving_state" where
  "delete_header k st =
     st\<lparr>ys_financials := delete_where (\<lambda>r. aq_headerId r = k) (ys_financials st),
       ys_auditors := delete_where (\<lambda>r. ao_headerId r = k) (ys_auditors st),
       ys_notes := delete_where (\<lambda>r. aw_headerId r = k) (ys_notes st),
       ys_periods := delete_where (\<lambda>r. av_headerId r = k) (ys_periods st),
       ys_headers := update_where (\<lambda>h. ah_supersededByHeaderId h = Some k) (\<lambda>h. h\<lparr>ah_supersededByHeaderId := None\<rparr>)
         (delete_where (\<lambda>h. ah_id h = k) (ys_headers st))\<rparr>"

definition rebuild_serving :: "string \<Rightarrow> int \<Rightarrow> annual_file \<Rightarrow> serving_state \<Rightarrow> report_header option \<times> serving_state" where
  "rebuild_serving newId now file st =
     (case find_latest (\<lambda>r. ap_fileId r = af_id file \<and> ap_status r = ParseCompleted) ap_startedAt (ys_runs st) of
        None \<Rightarrow> (None, st)
      | Some run \<Rightarrow>
          (let old = filter (\<lambda>h. ah_annualReportFileId h = af_id file) (ys_headers st);
               st = fold (\<lambda>h. delete_header (ah_id h)) old st;
               (header, st) = normalize_serving_data newId now (af_tenantId file) file run (ap_sourceIxbrlPath run) st
           in (Some header, st)))"

text \<open>\<open>normalizeServingFromZipImport\<close>\<close>

definition is_audit_run :: "parse_run \<Rightarrow> bool" where
  "is_audit_run r \<longleftrightarrow> ap_documentType r = Some ''audit_report''"

definition import_runs :: "string \<Rightarrow> serving_state \<Rightarrow> parse_run list" where
  "import_runs importId st =
     find_asc (\<lambda>r. ap_annualReportImportId r = Some importId \<and> ap_status r = ParseCompleted)
       (\<lambda>r. (- int (ap_factCount r), - ap_startedAt r)) (ys_runs st)"

text \<open>The header of an import, from the contexts and facts it is read from and the primary run.\<close>

definition import_header ::
  "string \<Rightarrow> int \<Rightarrow> string \<Rightarrow> annual_file \<Rightarrow> string \<Rightarrow> parse_run \<Rightarrow> xbrl_context list \<Rightarrow> xbrl_fact list \<Rightarrow>
   xbrl_unit list \<Rightarrow> primary_pick \<Rightarrow> int members \<Rightarrow> report_header" where
  "import_header newId now tenantId file importId run contexts facts units pick metadata =
     (let currentEnd = fst (infer_reporting_ends contexts);
          filingEnd = or_else (pp_periodEnd pick) currentEnd;
          orgNorm = normalize_org_number (or_else (pick_header_text facts header_org_rules) (af_organisationsnummer file))
      in \<lparr>ah_id = newId, ah_tenantId = tenantId, ah_companyId = af_companyId file,
           ah_organisationsnummer = or_else orgNorm (af_organisationsnummer file),
           ah_annualReportFileId = af_id file, ah_parseRunId = ap_id run, ah_annualReportImportId = Some importId,
           ah_companyNameFromFiling = pick_header_text facts header_name_rules,
           ah_organisationNumberFiling = orgNorm,
           ah_filingPeriodStart = or_else (pp_periodStart pick) (Option.bind filingEnd (find_period_start contexts)),
           ah_filingPeriodEnd = filingEnd,
           ah_fiscalYear = or_else (pp_fiscalYear pick) (map_option full_year filingEnd),
           ah_currencyCode = infer_currency units,
           ah_sourceFilename = Some (or_default (ap_sourceIxbrlPath run) (af_originalFilename file)),
           ah_parserName = ap_parserName run, ah_parserVersion = ap_parserVersion run,
           ah_primaryContextId = pp_primaryContextId pick, ah_primarySourceFileId = ap_sourceFileId run,
           ah_extractedAt = now, ah_isSuperseded = False, ah_supersededByHeaderId = None, ah_metadata = metadata\<rparr>)"

text \<open>The auditor is read with the ends of its own contexts, where there are any.\<close>

definition import_rows ::
  "report_header \<Rightarrow> xbrl_context list \<Rightarrow> xbrl_fact list \<Rightarrow> xbrl_context list \<Rightarrow> xbrl_fact list \<Rightarrow>
   serving_state \<Rightarrow> serving_state" where
  "import_rows header contexts facts auditContexts auditFacts =
     (let ends = infer_reporting_ends contexts; own = infer_reporting_ends auditContexts;
          auditEnds = (or_else (fst own) (fst ends), or_else (snd own) (snd ends))
      in write_header header (write_rows (ah_id header) contexts facts ends auditContexts auditFacts auditEnds))"

definition normalize_from_import ::
  "string \<Rightarrow> int \<Rightarrow> string \<Rightarrow> annual_file \<Rightarrow> string \<Rightarrow> serving_state \<Rightarrow> report_header result \<times> serving_state" where
  "normalize_from_import newId now tenantId file importId st =
     (let runs = import_runs importId st;
          auditIds = map ap_id (filter is_audit_run runs); annualRuns = filter (\<lambda>r. \<not> is_audit_run r) runs;
          annualIds = map ap_id annualRuns
      in case runs of
        [] \<Rightarrow> (Inl (Failure ''no_completed_parse_runs_for_import''), st)
      | ar # _ \<Rightarrow>
          (case annualRuns of
             [] \<Rightarrow>
               (let contexts = contexts_in [ap_id ar] st; facts = facts_in [ap_id ar] st; units = units_in [ap_id ar] st;
                    pick = select_primary_context contexts facts;
                    header = import_header newId now tenantId file importId ar contexts facts units pick
                      ([(''importId'', JStr importId), (''auditOnlyImport'', JBool True)] @
                       count_member ''factCount'' (length facts) @ count_member ''contextCount'' (length contexts) @
                       count_member ''unitCount'' (length units) @ [(''primaryContext'', pick_json pick)])
                in (Inr header, import_rows header contexts [] contexts facts st))
           | firstAnnual # _ \<Rightarrow>
               (let facts = facts_in annualIds st; contexts = contexts_in annualIds st; units = units_in annualIds st;
                    auditFacts = facts_in auditIds st; auditContexts = contexts_in auditIds st;
                    run = or_default (find (\<lambda>r. ap_documentType r = Some ''annual_report'') annualRuns) firstAnnual;
                    pick = select_primary_context (contexts_in [ap_id run] st)
                      (filter (\<lambda>f. ay_parseRunId f = ap_id run) facts);
                    (currentEnd, priorEnd) = infer_reporting_ends contexts;
                    header = import_header newId now tenantId file importId run contexts facts units pick
                      ([(''importId'', JStr importId)] @
                       count_member ''factCountAnnual'' (length facts) @ count_member ''factCountAudit'' (length auditFacts) @
                       count_member ''contextCountAnnual'' (length contexts) @
                       count_member ''contextCountAudit'' (length auditContexts) @ [(''primaryContext'', pick_json pick)] @
                       date_member ''inferredCurrentEnd'' currentEnd @ date_member ''inferredPriorEnd'' priorEnd)
                in (Inr header, import_rows header contexts facts auditContexts auditFacts st))))"

section \<open>The best fact of each field and period\<close>

lemma period_kind_text_inj: "period_kind_text k = period_kind_text k' \<longleftrightarrow> k = k'"
  by (cases k; cases k') (simp_all add: period_kind_text_def)

lemma period_kind_text_no_colon: "CHR '':'' \<notin> set (period_kind_text k)"
  by (cases k) (simp_all add: period_kind_text_def)

lemma append_no_sep_inj:
  assumes "c \<notin> set s" and "c \<notin> set t" and "a @ c # s = b @ c # t"
  shows "a = b \<and> s = t"
proof -
  have "rev s @ c # rev a = rev t @ c # rev b" using arg_cong [OF assms(3), of rev] by simp
  then have "takeWhile (\<lambda>x. x \<noteq> c) (rev s @ c # rev a) = takeWhile (\<lambda>x. x \<noteq> c) (rev t @ c # rev b)" by simp
  moreover have "takeWhile (\<lambda>x. x \<noteq> c) (rev s @ c # r) = rev s" "takeWhile (\<lambda>x. x \<noteq> c) (rev t @ c # r) = rev t" for r
    using assms(1,2) by (auto simp: takeWhile_tail)
  ultimately have "rev s = rev t" by simp
  with assms(3) show ?thesis by simp
qed

text \<open>The key of the winners tells field and period apart.\<close>

lemma winner_key_inj:
  "winner_key v = winner_key w \<longleftrightarrow>
     mr_canonicalField (wn_rule v) = mr_canonicalField (wn_rule w) \<and> wn_periodKind v = wn_periodKind w"
proof
  assume "winner_key v = winner_key w"
  then have "(mr_canonicalField (wn_rule v) @ '':'') @ CHR '':'' # period_kind_text (wn_periodKind v) =
      (mr_canonicalField (wn_rule w) @ '':'') @ CHR '':'' # period_kind_text (wn_periodKind w)"
    by (simp add: winner_key_def)
  from append_no_sep_inj [OF period_kind_text_no_colon period_kind_text_no_colon this]
  show "mr_canonicalField (wn_rule v) = mr_canonicalField (wn_rule w) \<and> wn_periodKind v = wn_periodKind w"
    by (simp add: period_kind_text_inj)
qed (simp add: winner_key_def)

lemma keep_winner_lookup:
  "map_of (keep_winner w m) k =
     (if winner_key w = k then keep_best wn_score w (map_of m k) else map_of m k)"
  by (auto simp: keep_winner_def keep_best_def update_conv split: option.splits)

lemma fold_keep_winner_lookup:
  "map_of (fold keep_winner ws m) k =
     fold (keep_best wn_score) (filter (\<lambda>w. winner_key w = k) ws) (map_of m k)"
  by (induction ws arbitrary: m) (simp_all add: keep_winner_lookup)

definition winners_ok :: "(string \<times> scored_fact) list \<Rightarrow> bool" where
  "winners_ok m \<longleftrightarrow> distinct (map fst m) \<and> (\<forall>(k, w) \<in> set m. winner_key w = k)"

lemma winners_ok_keep: "winners_ok m \<Longrightarrow> winners_ok (keep_winner w m)"
proof -
  assume ok: "winners_ok m"
  have "set (AList.update k v m) \<subseteq> insert (k, v) (set m)" for k :: string and v :: scored_fact
    by (induction m) auto
  then have "\<forall>(k, v) \<in> set (AList.update (winner_key w) w m). winner_key v = k"
    using ok unfolding winners_ok_def by blast
  with ok have "winners_ok (AList.update (winner_key w) w m)"
    by (simp add: winners_ok_def distinct_update)
  with ok show ?thesis by (simp add: keep_winner_def split: option.splits)
qed

lemma winners_ok_financial: "winners_ok (financial_winners facts ctxById currentEnd priorEnd)"
  unfolding financial_winners_def
  by (rule fold_inv) (auto simp: winners_ok_keep, simp add: winners_ok_def)

definition row_key :: "financial_row \<Rightarrow> string \<times> string \<times> period_kind" where
  "row_key r = (aq_headerId r, aq_canonicalField r, aq_periodKind r)"

definition new_rows ::
  "string \<Rightarrow> xbrl_fact list \<Rightarrow> (string \<Rightarrow> context_info option) \<Rightarrow> int option \<Rightarrow> int option \<Rightarrow> financial_row list" where
  "new_rows k facts ctxById currentEnd priorEnd =
     map (financial_row_of k \<circ> snd) (financial_winners facts ctxById currentEnd priorEnd)"

lemma distinct_new_rows: "distinct (map row_key (new_rows k facts ctxById currentEnd priorEnd))"
proof -
  define m where "m = financial_winners facts ctxById currentEnd priorEnd"
  have ok: "winners_ok m" unfolding m_def by (rule winners_ok_financial)
  have "inj_on (\<lambda>x. row_key (financial_row_of k (snd x))) (set m)"
  proof (rule inj_onI)
    fix x y assume xy: "x \<in> set m" "y \<in> set m"
      "row_key (financial_row_of k (snd x)) = row_key (financial_row_of k (snd y))"
    then have "winner_key (snd x) = winner_key (snd y)"
      by (simp add: row_key_def financial_row_of_def winner_key_inj)
    moreover have "winner_key (snd x) = fst x" "winner_key (snd y) = fst y"
      using xy ok by (auto simp: winners_ok_def)
    ultimately have "fst x = fst y" by simp
    with xy ok show "x = y" unfolding winners_ok_def by (metis eq_key_imp_eq_value prod.collapse)
  qed
  moreover have "distinct m" using ok by (auto simp: winners_ok_def distinct_map)
  ultimately show ?thesis by (simp add: new_rows_def m_def [symmetric] distinct_map o_def)
qed

text \<open>The facts of a field and period, with their scores.\<close>

definition bucket ::
  "xbrl_fact list \<Rightarrow> (string \<Rightarrow> context_info option) \<Rightarrow> int option \<Rightarrow> int option \<Rightarrow> string \<Rightarrow> period_kind \<Rightarrow> scored_fact list" where
  "bucket facts ctxById currentEnd priorEnd field kind =
     filter (\<lambda>w. mr_canonicalField (wn_rule w) = field \<and> wn_periodKind w = kind)
       (List.map_filter (scored ctxById currentEnd priorEnd financial_rules) facts)"

lemma winner_lookup:
  "map_of (financial_winners facts ctxById currentEnd priorEnd) (field @ ''::'' @ period_kind_text kind) =
     first_best wn_score (bucket facts ctxById currentEnd priorEnd field kind)"
proof -
  have "winner_key w = field @ ''::'' @ period_kind_text kind \<longleftrightarrow>
      mr_canonicalField (wn_rule w) = field \<and> wn_periodKind w = kind" for w
    using winner_key_inj [of w "w\<lparr>wn_rule := mapping field [] 0, wn_periodKind := kind\<rparr>"]
    by (simp add: winner_key_def mapping_def)
  then show ?thesis
    by (simp add: financial_winners_def fold_keep_winner_lookup first_best_def bucket_def)
qed

lemma new_rows_iff:
  "r \<in> set (new_rows k facts ctxById currentEnd priorEnd) \<longleftrightarrow>
     (\<exists>w. first_best wn_score (bucket facts ctxById currentEnd priorEnd (aq_canonicalField r) (aq_periodKind r)) = Some w \<and>
        r = financial_row_of k w)"
    (is "?l \<longleftrightarrow> ?r")
proof -
  define m where "m = financial_winners facts ctxById currentEnd priorEnd"
  have ok: "winners_ok m" unfolding m_def by (rule winners_ok_financial)
  have look: "map_of m (field @ ''::'' @ period_kind_text kind) =
      first_best wn_score (bucket facts ctxById currentEnd priorEnd field kind)" for field kind
    unfolding m_def by (rule winner_lookup)
  show ?thesis
  proof
    assume ?l
    then obtain key w where kw: "(key, w) \<in> set m" "r = financial_row_of k w"
      by (auto simp: new_rows_def m_def)
    with ok have "map_of m (winner_key w) = Some w" by (auto simp: winners_ok_def)
    with kw(2) show ?r
      by (intro exI [of _ w]) (simp add: look [symmetric] financial_row_of_def winner_key_def)
  next
    assume ?r
    then obtain w where w: "map_of m (aq_canonicalField r @ ''::'' @ period_kind_text (aq_periodKind r)) = Some w"
      "r = financial_row_of k w" unfolding look by blast
    then have "w \<in> snd ` set m" by (metis image_eqI map_of_SomeD snd_conv)
    with w(2) show ?l by (auto simp: new_rows_def m_def)
  qed
qed

lemma replaced_rows_best:
  assumes "st' = replace_financials k facts ctxById currentEnd priorEnd st"
  shows "{r \<in> set (ys_financials st'). aq_headerId r = k} =
      {financial_row_of k w | w field kind.
         first_best wn_score (bucket facts ctxById currentEnd priorEnd field kind) = Some w} \<and>
    distinct (map row_key (filter (\<lambda>r. aq_headerId r = k) (ys_financials st')))"
proof
  let ?new = "new_rows k facts ctxById currentEnd priorEnd"
  have fin: "ys_financials st' = delete_where (\<lambda>r. aq_headerId r = k) (ys_financials st) @ ?new"
    by (simp add: assms replace_financials_def new_rows_def)
  have own: "aq_headerId r = k" if "r \<in> set ?new" for r
    using that by (auto simp: new_rows_def financial_row_of_def)
  have "filter (\<lambda>r. aq_headerId r = k) (delete_where (\<lambda>r. aq_headerId r = k) (ys_financials st)) = []"
    by (simp add: filter_empty_conv)
  moreover have "filter (\<lambda>r. aq_headerId r = k) ?new = ?new" using own by simp
  ultimately have rows: "filter (\<lambda>r. aq_headerId r = k) (ys_financials st') = ?new" by (simp add: fin)
  then show "distinct (map row_key (filter (\<lambda>r. aq_headerId r = k) (ys_financials st')))"
    using distinct_new_rows by simp
  have key: "aq_canonicalField (financial_row_of k w) = field \<and> aq_periodKind (financial_row_of k w) = kind"
    if "first_best wn_score (bucket facts ctxById currentEnd priorEnd field kind) = Some w" for w field kind
    using first_best_SomeD(1) [OF that] by (simp add: bucket_def financial_row_of_def)
  have "{r \<in> set (ys_financials st'). aq_headerId r = k} = set ?new"
    using arg_cong [OF rows, of set] by simp
  also have "\<dots> = {financial_row_of k w | w field kind.
      first_best wn_score (bucket facts ctxById currentEnd priorEnd field kind) = Some w}"
  proof (intro set_eqI iffI)
    fix r assume "r \<in> set ?new"
    then show "r \<in> {financial_row_of k w | w field kind.
        first_best wn_score (bucket facts ctxById currentEnd priorEnd field kind) = Some w}"
      unfolding new_rows_iff by blast
  next
    fix r assume "r \<in> {financial_row_of k w | w field kind.
        first_best wn_score (bucket facts ctxById currentEnd priorEnd field kind) = Some w}"
    then obtain w field kind where w: "r = financial_row_of k w"
      "first_best wn_score (bucket facts ctxById currentEnd priorEnd field kind) = Some w" by blast
    show "r \<in> set ?new" unfolding new_rows_iff using w key [OF w(2)] by (intro exI [of _ w]) simp
  qed
  finally show "{r \<in> set (ys_financials st'). aq_headerId r = k} =
      {financial_row_of k w | w field kind.
         first_best wn_score (bucket facts ctxById currentEnd priorEnd field kind) = Some w}" .
qed

text \<open>
  C18: The financial rows of a report are the best facts of their field and period: a row is written
  exactly for the first fact with the greatest score among those that a rule maps to the field in
  the period, and the header has no second row for them.
\<close>
theorem financial_rows_best:
  "let rows = filter (\<lambda>r. aq_headerId r = k) (ys_financials (replace_financials k facts ctxById currentEnd priorEnd st))
   in set rows = {financial_row_of k w | w field kind.
        first_best wn_score (bucket facts ctxById currentEnd priorEnd field kind) = Some w} \<and>
      distinct (map row_key rows)"
  unfolding Let_def set_filter by (rule replaced_rows_best [OF refl])

text \<open>
  A fact without a value scores six more than one with a text, in the same context and under the same
  rule: a blank auditor fact hides a filled one.
\<close>

lemma blank_fact_outscores_text:
  assumes "ay_valueNumeric f = None" and "ay_valueText f = Some (c # t)"
  shows "score_fact r (f\<lparr>ay_valueText := None, ay_isNil := True\<rparr>) kind ctx = score_fact r f kind ctx + 6"
  using assms by (simp add: score_fact_def)

lemma blank_auditor_hides_name:
  "let filled = \<lparr>ay_id = ''2'', ay_parseRunId = ''7'', ay_sequenceIndex = 1, ay_contextRef = None, ay_unitRef = None,
       ay_conceptQname = ''gen:SigningAuditor'', ay_valueText = Some ''Anna Berg'', ay_valueNumeric = None,
       ay_decimals = None, ay_isNil = False, ay_documentType = None\<rparr>;
       blank = filled\<lparr>ay_id := ''3'', ay_valueText := None, ay_isNil := True\<rparr>
   in pick_auditor [filled] Map.empty None None ''auditor_name'' = Some (''Anna Berg'', ''2'') \<and>
      pick_auditor [filled, blank] Map.empty None None ''auditor_name'' = None"
  by code_simp

section \<open>Headers and their rows\<close>

text \<open>
  What the tables keep: one current header per file, a superseded header names its successor of the same
  file, rows belong to a header, and a header has one row per field and period.
\<close>

definition current_of :: "string \<Rightarrow> report_header list \<Rightarrow> report_header list" where
  "current_of fileId hs = filter (\<lambda>h. ah_annualReportFileId h = fileId \<and> \<not> ah_isSuperseded h) hs"

definition succeeded_in :: "report_header list \<Rightarrow> report_header \<Rightarrow> bool" where
  "succeeded_in hs h \<longleftrightarrow> (case ah_supersededByHeaderId h of None \<Rightarrow> \<not> ah_isSuperseded h
     | Some k \<Rightarrow> ah_isSuperseded h \<and>
         (\<exists>g \<in> set hs. ah_id g = k \<and> ah_annualReportFileId g = ah_annualReportFileId h))"

definition headers_ok :: "report_header list \<Rightarrow> bool" where
  "headers_ok hs \<longleftrightarrow> unique_keys ah_id hs \<and> (\<forall>f. length (current_of f hs) \<le> 1) \<and> (\<forall>h \<in> set hs. succeeded_in hs h)"

definition header_ids :: "serving_state \<Rightarrow> string set" where
  "header_ids st = ah_id ` set (ys_headers st)"

definition rows_ok :: "serving_state \<Rightarrow> bool" where
  "rows_ok st \<longleftrightarrow> distinct (map row_key (ys_financials st)) \<and>
     aq_headerId ` set (ys_financials st) \<subseteq> header_ids st \<and> ao_headerId ` set (ys_auditors st) \<subseteq> header_ids st \<and>
     aw_headerId ` set (ys_notes st) \<subseteq> header_ids st \<and> av_headerId ` set (ys_periods st) \<subseteq> header_ids st"

definition serving_ok :: "serving_state \<Rightarrow> bool" where
  "serving_ok st \<longleftrightarrow> headers_ok (ys_headers st) \<and> rows_ok st"

text \<open>The headers after a new one is saved and the older ones of its file are superseded.\<close>

definition outdated :: "report_header \<Rightarrow> report_header \<Rightarrow> report_header" where
  "outdated new h = (if ah_annualReportFileId h = ah_annualReportFileId new \<and> \<not> ah_isSuperseded h
     then h\<lparr>ah_isSuperseded := True, ah_supersededByHeaderId := Some (ah_id new)\<rparr> else h)"

definition superseding :: "report_header \<Rightarrow> report_header list \<Rightarrow> report_header list" where
  "superseding new hs = map (outdated new) hs @ [new]"

definition is_new :: "report_header \<Rightarrow> report_header list \<Rightarrow> bool" where
  "is_new new hs \<longleftrightarrow> ah_id new \<notin> ah_id ` set hs \<and> \<not> ah_isSuperseded new \<and> ah_supersededByHeaderId new = None"

lemma outdated_simps [simp]:
  "ah_id (outdated new h) = ah_id h"
  "ah_annualReportFileId (outdated new h) = ah_annualReportFileId h"
  "ah_isSuperseded (outdated new h) \<longleftrightarrow> ah_isSuperseded h \<or> ah_annualReportFileId h = ah_annualReportFileId new"
  by (cases "ah_isSuperseded h"; simp add: outdated_def)+

lemma outdated_other [simp]: "ah_annualReportFileId h \<noteq> ah_annualReportFileId new \<Longrightarrow> outdated new h = h"
  by (simp add: outdated_def)

lemma supersede_saved:
  assumes "is_new new hs" and "ys_headers st = save ah_id new hs"
  shows "ys_headers (supersede_older (ah_annualReportFileId new) (ah_id new) st) = superseding new hs"
proof -
  have "save ah_id new hs = hs @ [new]" using assms(1) by (intro save_new) (simp add: is_new_def)
  moreover have "ah_id h \<noteq> ah_id new" if "h \<in> set hs" for h
    using assms(1) that unfolding is_new_def by (metis image_eqI)
  ultimately show ?thesis
    by (simp add: assms(2) supersede_older_def update_where_def superseding_def outdated_def)
qed

lemma ids_superseding: "map ah_id (superseding new hs) = map ah_id hs @ [ah_id new]"
  by (simp add: superseding_def)

lemma current_of_append: "current_of f (hs @ gs) = current_of f hs @ current_of f gs"
  by (simp add: current_of_def)

lemma current_outdated:
  "current_of f (map (outdated new) hs) = (if f = ah_annualReportFileId new then [] else current_of f hs)"
proof (induction hs)
  case (Cons h hs)
  then show ?case by (cases "ah_annualReportFileId h = ah_annualReportFileId new") (simp_all add: current_of_def)
qed (simp add: current_of_def)

lemma current_superseding:
  assumes "is_new new hs"
  shows "current_of f (superseding new hs) = (if f = ah_annualReportFileId new then [new] else current_of f hs)"
  using assms unfolding superseding_def current_of_append current_outdated
  by (auto simp: current_of_def is_new_def)

lemma succeeded_outdated:
  assumes "succeeded_in hs h"
  shows "succeeded_in (superseding new hs) (outdated new h)"
proof (cases "ah_annualReportFileId h = ah_annualReportFileId new \<and> \<not> ah_isSuperseded h")
  case True
  then show ?thesis by (auto simp: succeeded_in_def superseding_def outdated_def)
next
  case False
  then have o: "outdated new h = h" by (auto simp: outdated_def)
  show ?thesis
  proof (cases "ah_supersededByHeaderId h")
    case None
    with assms o show ?thesis by (simp add: succeeded_in_def)
  next
    case (Some k)
    with assms obtain g where g: "ah_isSuperseded h" "g \<in> set hs" "ah_id g = k"
      "ah_annualReportFileId g = ah_annualReportFileId h" by (auto simp: succeeded_in_def)
    then have "outdated new g \<in> set (superseding new hs)" by (simp add: superseding_def)
    with g Some o show ?thesis unfolding succeeded_in_def by (auto intro!: bexI [of _ "outdated new g"])
  qed
qed

lemma headers_ok_superseding:
  assumes "headers_ok hs" and "is_new new hs"
  shows "headers_ok (superseding new hs)"
proof -
  have "unique_keys ah_id (superseding new hs)"
    using assms by (simp add: headers_ok_def unique_keys_def ids_superseding is_new_def)
  moreover have "length (current_of f (superseding new hs)) \<le> 1" for f
    using assms by (simp add: current_superseding headers_ok_def)
  moreover have "succeeded_in (superseding new hs) new"
    using assms(2) by (simp add: succeeded_in_def is_new_def)
  moreover have "succeeded_in (superseding new hs) (outdated new h)" if "h \<in> set hs" for h
    using that assms(1) by (intro succeeded_outdated) (simp add: headers_ok_def)
  ultimately show ?thesis by (auto simp: headers_ok_def superseding_def)
qed

lemma replace_selectors [simp]:
  "ys_headers (replace_financials k fs m a b st) = ys_headers st"
  "ys_headers (replace_auditor k fs m a b st) = ys_headers st"
  "ys_headers (replace_notes k fs st) = ys_headers st"
  "ys_headers (replace_periods k cs a b st) = ys_headers st"
  "ys_auditors (replace_financials k fs m a b st) = ys_auditors st"
  "ys_notes (replace_financials k fs m a b st) = ys_notes st"
  "ys_periods (replace_financials k fs m a b st) = ys_periods st"
  "ys_financials (replace_auditor k fs m a b st) = ys_financials st"
  "ys_notes (replace_auditor k fs m a b st) = ys_notes st"
  "ys_periods (replace_auditor k fs m a b st) = ys_periods st"
  "ys_financials (replace_notes k fs st) = ys_financials st"
  "ys_auditors (replace_notes k fs st) = ys_auditors st"
  "ys_periods (replace_notes k fs st) = ys_periods st"
  "ys_financials (replace_periods k cs a b st) = ys_financials st"
  "ys_auditors (replace_periods k cs a b st) = ys_auditors st"
  "ys_notes (replace_periods k cs a b st) = ys_notes st"
  "ys_financials (supersede_older f k st) = ys_financials st"
  "ys_auditors (supersede_older f k st) = ys_auditors st"
  "ys_notes (supersede_older f k st) = ys_notes st"
  "ys_periods (supersede_older f k st) = ys_periods st"
  by (simp_all add: replace_financials_def replace_auditor_def replace_notes_def replace_periods_def
      supersede_older_def Let_def)

text \<open>Old rows of the header go, all new rows carry its id.\<close>

lemma replaced_owners:
  "aq_headerId ` set (ys_financials (replace_financials k fs m a b st)) \<subseteq> insert k (aq_headerId ` set (ys_financials st))"
  "ao_headerId ` set (ys_auditors (replace_auditor k fs m a b st)) \<subseteq> insert k (ao_headerId ` set (ys_auditors st))"
  "aw_headerId ` set (ys_notes (replace_notes k fs st)) \<subseteq> insert k (aw_headerId ` set (ys_notes st))"
  "av_headerId ` set (ys_periods (replace_periods k cs a b st)) \<subseteq> insert k (av_headerId ` set (ys_periods st))"
  by (auto simp: replace_financials_def replace_auditor_def replace_notes_def replace_periods_def Let_def
      financial_row_of_def period_row_of_def split: option.splits)

lemma distinct_replaced_rows:
  assumes "distinct (map row_key (ys_financials st))"
  shows "distinct (map row_key (ys_financials (replace_financials k fs m a b st)))"
proof -
  have own: "aq_headerId r = k" if "r \<in> set (new_rows k fs m a b)" for r
    using that by (auto simp: new_rows_def financial_row_of_def)
  have "distinct (map row_key (delete_where (\<lambda>r. aq_headerId r = k) (ys_financials st)))"
    using assms by (auto simp: delete_where_def distinct_map intro: inj_on_subset)
  moreover have "row_key r \<noteq> row_key s"
    if "r \<in> set (delete_where (\<lambda>r. aq_headerId r = k) (ys_financials st))" "s \<in> set (new_rows k fs m a b)" for r s
    using that own by (auto simp: row_key_def)
  ultimately show ?thesis
    using distinct_new_rows [of k fs m a b]
    unfolding replace_financials_def new_rows_def [symmetric] by (force simp: new_rows_def [symmetric])
qed

text \<open>What a writer of rows of one header does.\<close>

definition rows_written :: "string \<Rightarrow> serving_state \<Rightarrow> serving_state \<Rightarrow> bool" where
  "rows_written k st st' \<longleftrightarrow> ys_headers st' = ys_headers st \<and>
     (distinct (map row_key (ys_financials st)) \<longrightarrow> distinct (map row_key (ys_financials st'))) \<and>
     aq_headerId ` set (ys_financials st') \<subseteq> insert k (aq_headerId ` set (ys_financials st)) \<and>
     ao_headerId ` set (ys_auditors st') \<subseteq> insert k (ao_headerId ` set (ys_auditors st)) \<and>
     aw_headerId ` set (ys_notes st') \<subseteq> insert k (aw_headerId ` set (ys_notes st)) \<and>
     av_headerId ` set (ys_periods st') \<subseteq> insert k (av_headerId ` set (ys_periods st))"

definition writes_rows_of :: "string \<Rightarrow> (serving_state \<Rightarrow> serving_state) \<Rightarrow> bool" where
  "writes_rows_of k rows \<longleftrightarrow> (\<forall>st. rows_written k st (rows st))"

lemma rows_writtenD:
  assumes "rows_written k st st'"
  shows "ys_headers st' = ys_headers st"
    "distinct (map row_key (ys_financials st)) \<Longrightarrow> distinct (map row_key (ys_financials st'))"
    "aq_headerId ` set (ys_financials st') \<subseteq> insert k (aq_headerId ` set (ys_financials st))"
    "ao_headerId ` set (ys_auditors st') \<subseteq> insert k (ao_headerId ` set (ys_auditors st))"
    "aw_headerId ` set (ys_notes st') \<subseteq> insert k (aw_headerId ` set (ys_notes st))"
    "av_headerId ` set (ys_periods st') \<subseteq> insert k (av_headerId ` set (ys_periods st))"
  using assms unfolding rows_written_def by simp_all

lemma rows_written_trans:
  assumes "rows_written k st st'" and "rows_written k st' st''"
  shows "rows_written k st st''"
proof -
  have chain: "C \<subseteq> insert k A" if "B \<subseteq> insert k A" "C \<subseteq> insert k B" for A B C :: "string set"
    using that by blast
  show ?thesis
    unfolding rows_written_def
    using rows_writtenD(1) [OF assms(1)] rows_writtenD(1) [OF assms(2)]
      rows_writtenD(2) [OF assms(2) rows_writtenD(2) [OF assms(1)]]
      chain [OF rows_writtenD(3) [OF assms(1)] rows_writtenD(3) [OF assms(2)]]
      chain [OF rows_writtenD(4) [OF assms(1)] rows_writtenD(4) [OF assms(2)]]
      chain [OF rows_writtenD(5) [OF assms(1)] rows_writtenD(5) [OF assms(2)]]
      chain [OF rows_writtenD(6) [OF assms(1)] rows_writtenD(6) [OF assms(2)]]
    by simp
qed

lemma writes_rows_comp:
  "writes_rows_of k f \<Longrightarrow> writes_rows_of k g \<Longrightarrow> writes_rows_of k (f \<circ> g)"
  by (simp add: writes_rows_of_def) (metis rows_written_trans)

lemma writes_rows_replace:
  "writes_rows_of k (replace_financials k fs m a b)" "writes_rows_of k (replace_auditor k fs m a b)"
  "writes_rows_of k (replace_notes k fs)" "writes_rows_of k (replace_periods k cs a b)"
  using replaced_owners distinct_replaced_rows by (auto simp: writes_rows_of_def rows_written_def subset_insertI)

lemma writes_write_rows: "writes_rows_of k (write_rows k cs fs e acs afs ae)"
  unfolding write_rows_def by (intro writes_rows_comp writes_rows_replace)

lemma headers_write_header:
  assumes "is_new header (ys_headers st)" and "writes_rows_of (ah_id header) rows"
  shows "ys_headers (write_header header rows st) = superseding header (ys_headers st)"
  unfolding write_header_def using assms by (intro supersede_saved) (simp_all add: writes_rows_of_def rows_written_def)

lemma serving_ok_write_header:
  assumes "serving_ok st" and "is_new header (ys_headers st)" and "writes_rows_of (ah_id header) rows"
  shows "serving_ok (write_header header rows st)"
proof -
  let ?st = "st\<lparr>ys_headers := save ah_id header (ys_headers st)\<rparr>"
  have hs: "ys_headers (write_header header rows st) = superseding header (ys_headers st)"
    by (rule headers_write_header [OF assms(2,3)])
  then have ids: "header_ids (write_header header rows st) = insert (ah_id header) (header_ids st)"
    using arg_cong [OF ids_superseding [of header "ys_headers st"], of set] by (auto simp: header_ids_def)
  have rows: "rows_ok st" using assms(1) by (simp add: serving_ok_def)
  note w = rows_writtenD [OF assms(3) [unfolded writes_rows_of_def, rule_format, of ?st]]
  have sel: "ys_financials (write_header header rows st) = ys_financials (rows ?st)"
    "ys_auditors (write_header header rows st) = ys_auditors (rows ?st)"
    "ys_notes (write_header header rows st) = ys_notes (rows ?st)"
    "ys_periods (write_header header rows st) = ys_periods (rows ?st)"
    by (simp_all add: write_header_def)
  have "rows_ok (write_header header rows st)"
    unfolding rows_ok_def ids sel
  proof (intro conjI)
    show "distinct (map row_key (ys_financials (rows ?st)))" using rows by (intro w(2)) (simp add: rows_ok_def)
    show "aq_headerId ` set (ys_financials (rows ?st)) \<subseteq> insert (ah_id header) (header_ids st)"
      using rows by (intro order_trans [OF w(3)]) (auto simp: rows_ok_def)
    show "ao_headerId ` set (ys_auditors (rows ?st)) \<subseteq> insert (ah_id header) (header_ids st)"
      using rows by (intro order_trans [OF w(4)]) (auto simp: rows_ok_def)
    show "aw_headerId ` set (ys_notes (rows ?st)) \<subseteq> insert (ah_id header) (header_ids st)"
      using rows by (intro order_trans [OF w(5)]) (auto simp: rows_ok_def)
    show "av_headerId ` set (ys_periods (rows ?st)) \<subseteq> insert (ah_id header) (header_ids st)"
      using rows by (intro order_trans [OF w(6)]) (auto simp: rows_ok_def)
  qed
  with assms hs show ?thesis by (simp add: serving_ok_def headers_ok_superseding)
qed

lemma serving_header_fields [simp]:
  "ah_id (serving_header newId now tenantId file run src cs fs us) = newId"
  "ah_annualReportFileId (serving_header newId now tenantId file run src cs fs us) = af_id file"
  "ah_parseRunId (serving_header newId now tenantId file run src cs fs us) = ap_id run"
  "\<not> ah_isSuperseded (serving_header newId now tenantId file run src cs fs us)"
  "ah_supersededByHeaderId (serving_header newId now tenantId file run src cs fs us) = None"
  by (simp_all add: serving_header_def Let_def case_prod_beta)

lemma import_header_fields [simp]:
  "ah_id (import_header newId now tenantId file importId run cs fs us pick md) = newId"
  "ah_annualReportFileId (import_header newId now tenantId file importId run cs fs us pick md) = af_id file"
  "ah_annualReportImportId (import_header newId now tenantId file importId run cs fs us pick md) = Some importId"
  "\<not> ah_isSuperseded (import_header newId now tenantId file importId run cs fs us pick md)"
  "ah_supersededByHeaderId (import_header newId now tenantId file importId run cs fs us pick md) = None"
  by (simp_all add: import_header_def Let_def case_prod_beta)

text \<open>Both ways of reading a report write a new header with its rows.\<close>

lemma normalize_serving_writes:
  assumes "normalize_serving_data newId now tenantId file run src st = (header, st')"
  obtains rows where "st' = write_header header rows st" "writes_rows_of newId rows"
    "ah_id header = newId" "ah_annualReportFileId header = af_id file" "ah_parseRunId header = ap_id run"
    "\<not> ah_isSuperseded header" "ah_supersededByHeaderId header = None"
proof -
  let ?cs = "contexts_in [ap_id run] st" and ?fs = "facts_in [ap_id run] st"
  have "header = serving_header newId now tenantId file run src ?cs ?fs (units_in [ap_id run] st)"
    and "st' = write_header header (write_rows newId ?cs ?fs (infer_reporting_ends ?cs) ?cs ?fs (infer_reporting_ends ?cs)) st"
    using assms by (auto simp: normalize_serving_data_def Let_def)
  then show ?thesis by (intro that [OF _ writes_write_rows]) simp_all
qed

lemma import_rows_writes:
  "\<exists>rows. import_rows header cs fs acs afs st = write_header header rows st \<and> writes_rows_of (ah_id header) rows"
  unfolding import_rows_def Let_def by (blast intro: writes_write_rows)

lemma normalize_import_writes:
  assumes "normalize_from_import newId now tenantId file importId st = (Inr header, st')"
  obtains rows where "st' = write_header header rows st" "writes_rows_of newId rows"
    "ah_id header = newId" "ah_annualReportFileId header = af_id file"
    "\<not> ah_isSuperseded header" "ah_supersededByHeaderId header = None"
proof -
  obtain cs fs acs afs where st': "st' = import_rows header cs fs acs afs st" and "ah_id header = newId"
    and "ah_annualReportFileId header = af_id file" and "\<not> ah_isSuperseded header"
    and "ah_supersededByHeaderId header = None"
    using assms unfolding normalize_from_import_def Let_def case_prod_beta
    by (auto split: list.splits)
  with import_rows_writes [of header cs fs acs afs st] that show ?thesis by blast
qed

lemma normalize_import_error:
  "normalize_from_import newId now tenantId file importId st = (Inl e, st') \<Longrightarrow> st' = st"
  by (auto simp: normalize_from_import_def Let_def case_prod_beta split: list.splits)

text \<open>A new header leaves the tables consistent and is the one current header of its file.\<close>

lemma written_header_current:
  assumes "serving_ok st" and "newId \<notin> header_ids st" and "writes_rows_of newId rows"
    and "ah_id header = newId" and "\<not> ah_isSuperseded header" and "ah_supersededByHeaderId header = None"
  shows "serving_ok (write_header header rows st) \<and>
    (\<forall>f. current_of f (ys_headers (write_header header rows st)) =
      (if f = ah_annualReportFileId header then [header] else current_of f (ys_headers st)))"
proof -
  have new: "is_new header (ys_headers st)" using assms by (simp add: is_new_def header_ids_def)
  have w: "writes_rows_of (ah_id header) rows" using assms(3,4) by simp
  show ?thesis
    using serving_ok_write_header [OF assms(1) new w] headers_write_header [OF new w] current_superseding [OF new]
    by simp
qed

section \<open>Deleting headers\<close>

definition forget :: "string set \<Rightarrow> report_header \<Rightarrow> report_header" where
  "forget ks h = (if ah_supersededByHeaderId h \<in> Some ` ks then h\<lparr>ah_supersededByHeaderId := None\<rparr> else h)"

lemma forget_simps [simp]:
  "ah_id (forget ks h) = ah_id h" "ah_annualReportFileId (forget ks h) = ah_annualReportFileId h"
  "ah_isSuperseded (forget ks h) = ah_isSuperseded h"
  by (simp_all add: forget_def)

lemma delete_header_headers:
  "ys_headers (delete_header k st) = map (forget {k}) (filter (\<lambda>h. ah_id h \<noteq> k) (ys_headers st))"
  by (simp add: delete_header_def update_where_def delete_where_def forget_def)

lemma forget_forget: "forget ks (forget {k} h) = forget (insert k ks) h"
  by (cases h) (auto simp: forget_def)

lemma fold_delete_headers:
  "ys_headers (fold delete_header ks st) =
     map (forget (set ks)) (filter (\<lambda>h. ah_id h \<notin> set ks) (ys_headers st))"
proof (induction ks arbitrary: st)
  case Nil
  then show ?case by (simp add: forget_def map_idI)
next
  case (Cons k ks)
  show ?case
    by (simp add: Cons.IH delete_header_headers filter_map o_def forget_forget conj_commute)
qed

lemma fold_delete_rows:
  "ys_financials (fold delete_header ks st) = filter (\<lambda>r. aq_headerId r \<notin> set ks) (ys_financials st)"
  "ys_auditors (fold delete_header ks st) = filter (\<lambda>r. ao_headerId r \<notin> set ks) (ys_auditors st)"
  "ys_notes (fold delete_header ks st) = filter (\<lambda>r. aw_headerId r \<notin> set ks) (ys_notes st)"
  "ys_periods (fold delete_header ks st) = filter (\<lambda>r. av_headerId r \<notin> set ks) (ys_periods st)"
  by (induction ks arbitrary: st) (simp_all add: delete_header_def delete_where_def conj_commute)

definition without_file :: "string \<Rightarrow> serving_state \<Rightarrow> serving_state" where
  "without_file fileId st = fold delete_header (map ah_id (filter (\<lambda>h. ah_annualReportFileId h = fileId) (ys_headers st))) st"

lemma headers_without_file:
  assumes "headers_ok (ys_headers st)"
  shows "ys_headers (without_file f st) = filter (\<lambda>h. ah_annualReportFileId h \<noteq> f) (ys_headers st)"
proof -
  let ?hs = "ys_headers st"
  let ?ks = "ah_id ` {h \<in> set ?hs. ah_annualReportFileId h = f}"
  have uniq: "g = h" if "g \<in> set ?hs" "h \<in> set ?hs" "ah_id g = ah_id h" for g h
    using assms that unique_keysD [of ah_id ?hs] by (simp add: headers_ok_def)
  have out: "ah_id h \<notin> ?ks \<longleftrightarrow> ah_annualReportFileId h \<noteq> f" if "h \<in> set ?hs" for h
    using that uniq by (auto simp: image_iff)
  have keep: "forget ?ks h = h" if h: "h \<in> set ?hs" "ah_annualReportFileId h \<noteq> f" for h
  proof -
    have "k \<notin> ?ks" if "ah_supersededByHeaderId h = Some k" for k
    proof
      assume k: "k \<in> ?ks"
      have "succeeded_in ?hs h" using assms h(1) by (simp add: headers_ok_def)
      with that obtain g where g: "g \<in> set ?hs" "ah_id g = k"
        "ah_annualReportFileId g = ah_annualReportFileId h"
        by (auto simp: succeeded_in_def)
      from k obtain x where x: "x \<in> set ?hs" "ah_annualReportFileId x = f" "ah_id x = k" by auto
      with g uniq [of x g] h(2) show False by simp
    qed
    then show ?thesis by (auto simp: forget_def)
  qed
  have "ys_headers (without_file f st) = map (forget ?ks) (filter (\<lambda>h. ah_id h \<notin> ?ks) ?hs)"
    by (simp add: without_file_def fold_delete_headers)
  also have "filter (\<lambda>h. ah_id h \<notin> ?ks) ?hs = filter (\<lambda>h. ah_annualReportFileId h \<noteq> f) ?hs"
    using out by (intro filter_cong) simp_all
  also have "map (forget ?ks) \<dots> = \<dots>"
    using keep by (intro map_idI) simp
  finally show ?thesis .
qed


lemma serving_ok_without_file:
  assumes "serving_ok st"
  shows "serving_ok (without_file f st)"
proof -
  let ?hs = "ys_headers st" and ?ks = "map ah_id (filter (\<lambda>h. ah_annualReportFileId h = f) (ys_headers st))"
  have ok: "headers_ok ?hs" and rows: "rows_ok st" using assms by (simp_all add: serving_ok_def)
  note hs = headers_without_file [OF ok, of f]
  have "unique_keys ah_id (ys_headers (without_file f st))"
    using ok unfolding hs headers_ok_def unique_keys_def by (simp add: distinct_map_filter)
  moreover have "length (current_of g (ys_headers (without_file f st))) \<le> 1" for g
  proof -
    have "current_of g (filter (\<lambda>h. ah_annualReportFileId h \<noteq> f) ?hs) = (if g = f then [] else current_of g ?hs)"
      by (auto simp: current_of_def filter_empty_conv intro!: filter_cong)
    then show ?thesis using ok unfolding hs by (simp add: headers_ok_def)
  qed
  moreover have "succeeded_in (ys_headers (without_file f st)) h" if "h \<in> set (ys_headers (without_file f st))" for h
  proof -
    have "succeeded_in ?hs h" "ah_annualReportFileId h \<noteq> f" using that ok by (auto simp: hs headers_ok_def)
    then show ?thesis by (auto simp: succeeded_in_def hs split: option.splits)
  qed
  ultimately have "headers_ok (ys_headers (without_file f st))" by (simp add: headers_ok_def)
  moreover have ids: "k \<in> header_ids (without_file f st)" if "k \<in> header_ids st" "k \<notin> set ?ks" for k
    using that by (auto simp: header_ids_def hs)
  have "rows_ok (without_file f st)"
    unfolding rows_ok_def
  proof (intro conjI)
    show "distinct (map row_key (ys_financials (without_file f st)))"
      using rows by (simp add: rows_ok_def without_file_def fold_delete_rows distinct_map_filter)
    show "aq_headerId ` set (ys_financials (without_file f st)) \<subseteq> header_ids (without_file f st)"
      using rows by (auto simp: rows_ok_def without_file_def fold_delete_rows simp del: set_map intro!: ids [unfolded without_file_def])
    show "ao_headerId ` set (ys_auditors (without_file f st)) \<subseteq> header_ids (without_file f st)"
      using rows by (auto simp: rows_ok_def without_file_def fold_delete_rows simp del: set_map intro!: ids [unfolded without_file_def])
    show "aw_headerId ` set (ys_notes (without_file f st)) \<subseteq> header_ids (without_file f st)"
      using rows by (auto simp: rows_ok_def without_file_def fold_delete_rows simp del: set_map intro!: ids [unfolded without_file_def])
    show "av_headerId ` set (ys_periods (without_file f st)) \<subseteq> header_ids (without_file f st)"
      using rows by (auto simp: rows_ok_def without_file_def fold_delete_rows simp del: set_map intro!: ids [unfolded without_file_def])
  qed
  ultimately show ?thesis by (simp add: serving_ok_def)
qed

lemma rebuild_without_file:
  "rebuild_serving newId now file st =
     (case find_latest (\<lambda>r. ap_fileId r = af_id file \<and> ap_status r = ParseCompleted) ap_startedAt (ys_runs st) of
        None \<Rightarrow> (None, st)
      | Some run \<Rightarrow>
          (let (header, st') = normalize_serving_data newId now (af_tenantId file) file run (ap_sourceIxbrlPath run)
             (without_file (af_id file) st) in (Some header, st')))"
proof -
  have "fold (\<lambda>h. delete_header (ah_id h)) hs s = fold delete_header (map ah_id hs) s"
    for hs :: "report_header list" and s
    by (induction hs arbitrary: s) simp_all
  then show ?thesis by (simp add: rebuild_serving_def without_file_def Let_def split: option.splits)
qed


section \<open>The tables over any sequence of operations\<close>

text \<open>
  An operation that reads a report, with the id the database draws for its header: reading a parse run,
  an import, or rebuilding a file. An id in use is refused by the primary key.
\<close>

datatype serving_event =
    ReadRun string int string annual_file parse_run "string option"
  | ReadImport string int string annual_file string
  | Rebuild string int annual_file

fun event_id :: "serving_event \<Rightarrow> string" where
  "event_id (ReadRun newId now tenantId file run src) = newId"
| "event_id (ReadImport newId now tenantId file importId) = newId"
| "event_id (Rebuild newId now file) = newId"

fun serve_event :: "serving_event \<Rightarrow> serving_state \<Rightarrow> serving_state" where
  "serve_event (ReadRun newId now tenantId file run src) st = snd (normalize_serving_data newId now tenantId file run src st)"
| "serve_event (ReadImport newId now tenantId file importId) st = snd (normalize_from_import newId now tenantId file importId st)"
| "serve_event (Rebuild newId now file) st = snd (rebuild_serving newId now file st)"

definition serving_step :: "serving_event \<Rightarrow> serving_state \<Rightarrow> serving_state" where
  "serving_step e st = (if event_id e \<in> header_ids st then st else serve_event e st)"

lemma serving_ok_read_run:
  assumes "serving_ok st" and "newId \<notin> header_ids st"
    and "normalize_serving_data newId now tenantId file run src st = (header, st')"
  shows "serving_ok st' \<and> (\<forall>f. current_of f (ys_headers st') =
    (if f = af_id file then [header] else current_of f (ys_headers st)))"
proof -
  obtain rows where "st' = write_header header rows st" "writes_rows_of newId rows"
    "ah_id header = newId" "ah_annualReportFileId header = af_id file"
    "\<not> ah_isSuperseded header" "ah_supersededByHeaderId header = None"
    using normalize_serving_writes [OF assms(3)] by metis
  with written_header_current [OF assms(1,2)] show ?thesis by metis
qed

lemma serving_ok_import:
  assumes "serving_ok st" and "newId \<notin> header_ids st"
    and "normalize_from_import newId now tenantId file importId st = (Inr header, st')"
  shows "serving_ok st' \<and> (\<forall>f. current_of f (ys_headers st') =
    (if f = af_id file then [header] else current_of f (ys_headers st)))"
proof -
  obtain rows where "st' = write_header header rows st" "writes_rows_of newId rows"
    "ah_id header = newId" "ah_annualReportFileId header = af_id file"
    "\<not> ah_isSuperseded header" "ah_supersededByHeaderId header = None"
    using normalize_import_writes [OF assms(3)] by metis
  with written_header_current [OF assms(1,2)] show ?thesis by metis
qed

lemma current_without_file:
  assumes "headers_ok (ys_headers st)" and "g \<noteq> f"
  shows "current_of g (ys_headers (without_file f st)) = current_of g (ys_headers st)"
  using assms by (auto simp: headers_without_file current_of_def intro!: filter_cong)

lemma without_file_ids:
  "headers_ok (ys_headers st) \<Longrightarrow> header_ids (without_file f st) \<subseteq> header_ids st"
  by (auto simp: header_ids_def headers_without_file)

lemma serving_ok_rebuild:
  assumes "serving_ok st" and "newId \<notin> header_ids st"
    and "rebuild_serving newId now file st = (Some header, st')"
  shows "serving_ok st' \<and> (\<forall>f. current_of f (ys_headers st') =
    (if f = af_id file then [header] else current_of f (ys_headers st)))"
proof -
  let ?st = "without_file (af_id file) st"
  obtain run where n: "normalize_serving_data newId now (af_tenantId file) file run (ap_sourceIxbrlPath run) ?st = (header, st')"
    using assms(3) unfolding rebuild_without_file by (auto split: option.splits prod.splits)
  have ok: "headers_ok (ys_headers st)" using assms(1) by (simp add: serving_ok_def)
  have "newId \<notin> header_ids ?st" using without_file_ids [OF ok] assms(2) by blast
  from serving_ok_read_run [OF serving_ok_without_file [OF assms(1)] this n]
  show ?thesis using current_without_file [OF ok] by simp
qed

lemma serving_step_ok: "serving_ok st \<Longrightarrow> serving_ok (serving_step e st)"
proof (cases "event_id e \<in> header_ids st")
  case True
  assume "serving_ok st"
  with True show ?thesis by (simp add: serving_step_def)
next
  case False
  assume ok: "serving_ok st"
  show ?thesis
  proof (cases e)
    case (ReadRun newId now tenantId doc run src)
    with False ok serving_ok_read_run [OF ok, of newId now tenantId doc run src] show ?thesis
      by (cases "normalize_serving_data newId now tenantId doc run src st") (simp add: serving_step_def)
  next
    case (ReadImport newId now tenantId doc importId)
    show ?thesis
    proof (cases "normalize_from_import newId now tenantId doc importId st")
      case (Pair r st')
      then show ?thesis
        using False ok ReadImport serving_ok_import [OF ok, of newId now tenantId doc importId]
          normalize_import_error [of newId now tenantId doc importId st]
        by (cases r) (simp_all add: serving_step_def)
    qed
  next
    case (Rebuild newId now doc)
    show ?thesis
    proof (cases "rebuild_serving newId now doc st")
      case (Pair r st')
      show ?thesis
      proof (cases r)
        case None
        with Pair have "st' = st" by (auto simp: rebuild_without_file split: option.splits prod.splits)
        with Pair Rebuild ok show ?thesis by (simp add: serving_step_def)
      next
        case (Some header)
        with Pair False ok Rebuild serving_ok_rebuild [OF ok, of newId now doc] show ?thesis
          by (simp add: serving_step_def)
      qed
    qed
  qed
qed

interpretation serving: invariant_machine serving_step serving_ok
  by unfold_locales (rule serving_step_ok)

text \<open>
  C17: However reports of any files were read, imported and rebuilt before, an import that succeeds makes its
  header the one current header of its file and leaves the current headers of all other files; superseded
  headers name a successor of their file, and rows belong to a header, one per field and period.
\<close>
theorem one_current_header:
  assumes "serving_ok st" and "newId \<notin> header_ids (fold serving_step es st)"
    and "normalize_from_import newId now tenantId file importId (fold serving_step es st) = (Inr header, st')"
  shows "current_of (af_id file) (ys_headers st') = [header] \<and>
    (f = af_id file \<or> current_of f (ys_headers st') = current_of f (ys_headers (fold serving_step es st))) \<and>
    serving_ok st'"
  using serving_ok_import [OF serving.run_inv [OF assms(1)] assms(2,3)] by simp

definition sample_file :: annual_file where
  "sample_file = \<lparr>af_id = ''f'', af_tenantId = ''t'', af_companyId = None, af_organisationsnummer = Some ''5560001234'',
     af_bvStoredDocumentId = None, af_originalFilename = ''ar.zip'', af_contentType = None, af_contentSha256 = ''0'',
     af_sizeBytes = ''1'', af_storageBucket = None, af_storageKey = None, af_status = FileExtracted,
     af_ixbrlEntryPath = None, af_createdAt = 0, af_updatedAt = 0\<rparr>"

definition sample_run :: parse_run where
  "sample_run = \<lparr>ap_id = ''7'', ap_fileId = ''f'', ap_parserName = ''arelle'', ap_parserVersion = ''2.0.0'',
     ap_status = ParseCompleted, ap_factCount = 0, ap_contextCount = 0, ap_unitCount = 0, ap_startedAt = 1,
     ap_completedAt = Some 2, ap_sourceIxbrlPath = Some ''ar.xhtml'', ap_annualReportImportId = Some ''i'',
     ap_sourceFileId = None, ap_documentType = Some ''annual_report''\<rparr>"

definition sample_serving :: serving_state where
  "sample_serving = \<lparr>ys_contexts = [], ys_facts = [], ys_units = [], ys_runs = [sample_run], ys_headers = [],
     ys_financials = [], ys_auditors = [], ys_notes = [], ys_periods = []\<rparr>"

lemma sample_serving_ok: "serving_ok sample_serving"
  by (simp add: serving_ok_def headers_ok_def rows_ok_def sample_serving_def current_of_def table_simps)

lemma sample_import_runs: "import_runs ''i'' (fold serving_step [Rebuild ''h1'' 5 sample_file] sample_serving) = [sample_run]"
  by code_simp

lemma one_current_header_witness:
  "\<exists>header st'.
     normalize_from_import ''h2'' 6 ''t'' sample_file ''i'' (fold serving_step [Rebuild ''h1'' 5 sample_file] sample_serving) =
       (Inr header, st') \<and>
     current_of ''f'' (ys_headers (fold serving_step [Rebuild ''h1'' 5 sample_file] sample_serving)) \<noteq> [] \<and>
     current_of ''f'' (ys_headers st') = [header]"
proof -
  let ?es = "[Rebuild ''h1'' 5 sample_file]"
  have runs: "\<not> is_audit_run sample_run" by (simp add: is_audit_run_def sample_run_def)
  obtain header st' where n:
    "normalize_from_import ''h2'' 6 ''t'' sample_file ''i'' (fold serving_step ?es sample_serving) = (Inr header, st')"
    unfolding normalize_from_import_def sample_import_runs Let_def case_prod_beta using runs by simp
  have "''h2'' \<notin> header_ids (fold serving_step ?es sample_serving)" by code_simp
  from one_current_header [OF sample_serving_ok this n, of "''f''"]
  have "current_of ''f'' (ys_headers st') = [header]" by (simp add: sample_file_def)
  moreover have "current_of ''f'' (ys_headers (fold serving_step ?es sample_serving)) \<noteq> []" by code_simp
  ultimately show ?thesis using n by blast
qed

end
