(* ===== verification/AnnualTables.thy ===== *)
theory AnnualTables
  imports AnnualServing
begin

text \<open>
  What is shown of the annual reports: the readers of \<open>AnnualReportsService\<close>
  (backend/src/annual-reports/services/annual-reports.service.ts) with the table of financial rows
  of an organisation and its rebuilding, and \<open>AnnualReportMappedSummaryService\<close>
  (backend/src/annual-reports/services/annual-report-mapped-summary.service.ts). The order of texts in
  the database is a parameter. Rebuilding in the background is a step of its own.
\<close>

section \<open>State\<close>

definition canonical_financial_labels :: "(string \<times> string) list" where
  "canonical_financial_labels =
    [(''revenue'', ''Nettooms'' @ [CHR 0xE4] @ ''ttning / int'' @ [CHR 0xE4] @ ''kter''),
     (''other_operating_income'', [CHR 0xD6] @ ''vriga r'' @ [CHR 0xF6] @ ''relseint'' @ [CHR 0xE4] @ ''kter''),
     (''operating_expenses'', ''R'' @ [CHR 0xF6] @ ''relsekostnader''),
     (''personnel_costs'', ''Personalkostnader''),
     (''depreciation_amortization'', ''Avskrivningar / nedskrivningar''),
     (''operating_profit'', ''R'' @ [CHR 0xF6] @ ''relseresultat''),
     (''financial_result'', ''Finansiella poster (netto)''),
     (''profit_after_financial'', ''Resultat efter finansiella poster''),
     (''appropriations'', ''Dispositioner / '' @ [CHR 0xF6] @ ''verskott''),
     (''tax_on_profit'', ''Skatt p'' @ [CHR 0xE5] @ '' '' @ [CHR 0xE5] @ ''rets resultat''),
     (''net_profit'', [CHR 0xC5] @ ''rets resultat''),
     (''intangible_assets'', ''Immateriella tillg'' @ [CHR 0xE5] @ ''ngar''),
     (''tangible_assets'', ''Materiella tillg'' @ [CHR 0xE5] @ ''ngar''),
     (''financial_assets'', ''Finansiella tillg'' @ [CHR 0xE5] @ ''ngar''),
     (''total_fixed_assets'', ''Anl'' @ [CHR 0xE4] @ ''ggningstillg'' @ [CHR 0xE5] @ ''ngar''),
     (''inventory'', ''Varulager''),
     (''receivables'', ''Kundfordringar / fordringar''),
     (''cash_and_equivalents'', ''Kassa och bank / likvida medel''),
     (''total_current_assets'', ''Oms'' @ [CHR 0xE4] @ ''ttningstillg'' @ [CHR 0xE5] @ ''ngar''),
     (''total_assets'', ''Summa tillg'' @ [CHR 0xE5] @ ''ngar''),
     (''equity'', ''Eget kapital''),
     (''share_capital'', ''Aktiekapital''),
     (''unrestricted_equity'', ''Fritt eget kapital''),
     (''restricted_equity'', ''Bundet eget kapital''),
     (''untaxed_reserves'', ''Obeskattade reserver''),
     (''provisions'', ''Avs'' @ [CHR 0xE4] @ ''ttningar''),
     (''long_term_liabilities'', ''L'' @ [CHR 0xE5] @ ''ngfristiga skulder''),
     (''short_term_liabilities'', ''Kortfristiga skulder''),
     (''accounts_payable'', ''Leverant'' @ [CHR 0xF6] @ ''rsskulder''),
     (''tax_liabilities'', ''Skatteskulder''),
     (''total_equity_and_liabilities'', ''Summa eget kapital och skulder''),
     (''operating_cash_flow'', ''Kassafl'' @ [CHR 0xF6] @ ''de fr'' @ [CHR 0xE5] @ ''n r'' @ [CHR 0xF6] @ ''relse''),
     (''investing_cash_flow'', ''Kassafl'' @ [CHR 0xF6] @ ''de fr'' @ [CHR 0xE5] @ ''n investeringar''),
     (''financing_cash_flow'', ''Kassafl'' @ [CHR 0xF6] @ ''de fr'' @ [CHR 0xE5] @ ''n finansiering''),
     (''cash_flow_for_year'', ''Kassafl'' @ [CHR 0xF6] @ ''de f'' @ [CHR 0xF6] @ ''r '' @ [CHR 0xE5] @ ''ret''),
     (''cash_beginning'', ''Likvida medel vid '' @ [CHR 0xE5] @ ''rets b'' @ [CHR 0xF6] @ ''rjan''),
     (''cash_end'', ''Likvida medel vid '' @ [CHR 0xE5] @ ''rets slut''),
     (''employee_count'', ''Antal anst'' @ [CHR 0xE4] @ ''llda''),
     (''dividends'', ''Utdelning''),
     (''interest_income'', ''R'' @ [CHR 0xE4] @ ''nteint'' @ [CHR 0xE4] @ ''kter''),
     (''interest_expense'', ''R'' @ [CHR 0xE4] @ ''ntekostnader'')]"

definition label_of :: "string \<Rightarrow> string" where
  "label_of field = or_default (map_of canonical_financial_labels field) field"

record api_row =
  yr_tenantId :: string
  yr_organisationsnummer :: string
  yr_fiscalYear :: "int option"
  yr_statementType :: statement_type
  yr_valueCode :: string
  yr_valueLabel :: string
  yr_periodKind :: period_kind
  yr_valueNumeric :: "string option"
  yr_valueText :: "string option"
  yr_currencyCode :: "string option"
  yr_sourceHeaderId :: string
  yr_sourceImportId :: "string option"
  yr_sourceFactIds :: "string list"
  yr_rankingScore :: int
  yr_updatedAt :: int

record mapped_value =
  ym_annualReportImportId :: string
  ym_sourceFileId :: "string option"
  ym_parseRunId :: "string option"
  ym_factId :: "string option"
  ym_orgNumber :: "string option"
  ym_fiscalYear :: "int option"
  ym_documentType :: string
  ym_statementType :: statement_type
  ym_valueCode :: string
  ym_valueLabel :: string
  ym_valueText :: "string option"
  ym_valueNumeric :: "string option"
  ym_currency :: "string option"
  ym_priorityRank :: int
  ym_mappingRule :: string

text \<open>The columns of a summary that are ever written.\<close>

record report_summary =
  yu_annualReportImportId :: string
  yu_orgNumber :: "string option"
  yu_fiscalYear :: "int option"
  yu_periodStart :: "int option"
  yu_periodEnd :: "int option"
  yu_currency :: "string option"
  yu_revenue :: "string option"
  yu_netProfit :: "string option"
  yu_operatingProfit :: "string option"
  yu_totalAssets :: "string option"
  yu_equity :: "string option"
  yu_cashAndBank :: "string option"
  yu_employeeCount :: "string option"
  yu_auditorName :: "string option"
  yu_auditOpinion :: "string option"

text \<open>
  The locks in Redis with their expiry, and the rebuilds in the background: tenant, organisation and
  whether the rebuild holds the lock.
\<close>

record tables_state =
  yt_serving :: serving_state
  yt_apiRows :: "api_row list"
  yt_mapped :: "mapped_value list"
  yt_summaries :: "report_summary list"
  yt_locks :: "(string \<times> int) list"
  yt_rebuilding :: "(string \<times> string \<times> bool) list"

section \<open>Headers of an organisation\<close>

text \<open>\<open>raw.replace(/\D/g, '') || raw\<close>\<close>

definition org_digits :: "string \<Rightarrow> string" where
  "org_digits raw = (let ds = digits_only raw in if ds = [] then raw else ds)"

definition current_for :: "string \<Rightarrow> string \<Rightarrow> report_header \<Rightarrow> bool" where
  "current_for tenantId org h \<longleftrightarrow> ah_tenantId h = tenantId \<and> \<not> ah_isSuperseded h \<and>
     (ah_organisationsnummer h = Some org \<or> digits_only (or_default (ah_organisationNumberFiling h) []) = org)"

definition get_latest_header :: "string \<Rightarrow> string \<Rightarrow> tables_state \<Rightarrow> report_header option" where
  "get_latest_header tenantId organisationNumber st =
     find_latest (current_for tenantId (org_digits organisationNumber)) ah_extractedAt (ys_headers (yt_serving st))"

text \<open>\<open>getHistory\<close>: headers without a period end last.\<close>

definition history_key :: "report_header \<Rightarrow> nat \<times> int \<times> int" where
  "history_key h = (if ah_filingPeriodEnd h = None then 1 else 0, - or_default (ah_filingPeriodEnd h) 0, - ah_extractedAt h)"

definition get_history :: "string \<Rightarrow> string \<Rightarrow> int option \<Rightarrow> tables_state \<Rightarrow> report_header list" where
  "get_history tenantId organisationNumber limit st =
     take (nat (min 500 (max 1 (or_default limit 200))))
       (find_asc (current_for tenantId (org_digits organisationNumber)) history_key (ys_headers (yt_serving st)))"

definition rows_of_header :: "string \<Rightarrow> tables_state \<Rightarrow> financial_row list" where
  "rows_of_header headerId st = filter (\<lambda>r. aq_headerId r = headerId) (ys_financials (yt_serving st))"

definition auditor_of_header :: "string \<Rightarrow> tables_state \<Rightarrow> auditor_row option" where
  "auditor_of_header headerId st = find_one (\<lambda>r. ao_headerId r = headerId) (ys_auditors (yt_serving st))"

definition get_financials :: "string \<Rightarrow> string \<Rightarrow> tables_state \<Rightarrow> (report_header \<times> financial_row list) option" where
  "get_financials tenantId organisationNumber st =
     map_option (\<lambda>h. (h, rows_of_header (ah_id h) st)) (get_latest_header tenantId organisationNumber st)"

section \<open>Comparison of years\<close>

text \<open>The loop that picks the first header of each year until there are enough.\<close>

fun pick_years :: "int \<Rightarrow> int list \<Rightarrow> report_header list \<Rightarrow> report_header list" where
  "pick_years maxYears seen [] = []"
| "pick_years maxYears seen (h # hs) =
     (case ah_filingPeriodEnd h of
        None \<Rightarrow> pick_years maxYears seen hs
      | Some e \<Rightarrow>
          (let y = full_year e
           in if y \<in> set seen then pick_years maxYears seen hs
              else h # (if int (length seen) + 1 \<ge> maxYears then [] else pick_years maxYears (y # seen) hs)))"

definition header_year :: "report_header \<Rightarrow> int" where
  "header_year h = full_year (or_default (ah_filingPeriodEnd h) 0)"

definition comparison_headers :: "string \<Rightarrow> string \<Rightarrow> int \<Rightarrow> tables_state \<Rightarrow> report_header list" where
  "comparison_headers tenantId org maxYears st =
     sort_key header_year (pick_years maxYears []
       (take (nat (min 500 (max (maxYears * 4) 80)))
         (find_asc (\<lambda>h. current_for tenantId org h \<and> ah_filingPeriodEnd h \<noteq> None)
           (\<lambda>h. (- or_default (ah_filingPeriodEnd h) 0, - ah_extractedAt h)) (ys_headers (yt_serving st)))))"

record comparison_column =
  yc_year :: int
  yc_headerId :: string
  yc_filingPeriodEnd :: "string option"
  yc_companyName :: "string option"
  yc_currencyCode :: "string option"
  yc_auditorFirm :: "string option"
  yc_factCount :: nat

record comparison_row =
  yw_canonicalField :: string
  yw_label :: string
  yw_byYear :: "(string \<times> string option) list"

definition shown_value :: "financial_row \<Rightarrow> string option" where
  "shown_value r = or_else (aq_valueNumeric r) (aq_valueText r)"

definition value_in_year :: "string \<Rightarrow> financial_row list \<Rightarrow> string option" where
  "value_in_year field fins =
     Option.bind (or_else
         (find (\<lambda>x. aq_canonicalField x = field \<and> (aq_periodKind x = PeriodCurrent \<or> aq_periodKind x = PeriodInstant)) fins)
         (find (\<lambda>x. aq_canonicalField x = field \<and> aq_periodKind x = PeriodPrior) fins))
       shown_value"

definition compared_fields :: "report_header list \<Rightarrow> tables_state \<Rightarrow> string list" where
  "compared_fields hs st =
     sort_key (map code) (distinct_in_order (map aq_canonicalField
       (filter (\<lambda>f. aq_periodKind f \<in> {PeriodCurrent, PeriodInstant, PeriodPrior})
         (concat (map (\<lambda>h. rows_of_header (ah_id h) st) hs)))))"

definition comparison_column_of :: "tables_state \<Rightarrow> report_header \<Rightarrow> comparison_column" where
  "comparison_column_of st h =
     (let aud = auditor_of_header (ah_id h) st
      in \<lparr>yc_year = header_year h, yc_headerId = ah_id h, yc_filingPeriodEnd = map_option date_text (ah_filingPeriodEnd h),
           yc_companyName = ah_companyNameFromFiling h, yc_currencyCode = ah_currencyCode h,
           yc_auditorFirm = Option.bind aud (\<lambda>a. or_else (ao_auditorFirm a) (ao_auditorName a)),
           yc_factCount = (case find_one (\<lambda>r. ap_id r = ah_parseRunId h) (ys_runs (yt_serving st)) of
             None \<Rightarrow> 0 | Some r \<Rightarrow> ap_factCount r)\<rparr>)"

definition get_financial_comparison ::
  "string \<Rightarrow> string \<Rightarrow> int \<Rightarrow> tables_state \<Rightarrow> int list \<times> comparison_column list \<times> comparison_row list" where
  "get_financial_comparison tenantId organisationNumber maxYears st =
     (let picked = comparison_headers tenantId (org_digits organisationNumber) maxYears st
      in (map header_year picked,
          map (comparison_column_of st) picked,
          map (\<lambda>field. \<lparr>yw_canonicalField = field, yw_label = label_of field,
              yw_byYear = map (\<lambda>h. (show_int (header_year h), value_in_year field (rows_of_header (ah_id h) st))) picked\<rparr>)
            (compared_fields picked st)))"

section \<open>The table of an organisation\<close>

definition statement_type_text :: "statement_type \<Rightarrow> string" where
  "statement_type_text t = (case t of IncomeStatement \<Rightarrow> ''income_statement'' | BalanceSheet \<Rightarrow> ''balance_sheet''
     | CashFlow \<Rightarrow> ''cash_flow'' | EquityStatement \<Rightarrow> ''equity'' | NotesStatement \<Rightarrow> ''notes''
     | MetadataStatement \<Rightarrow> ''metadata'' | AuditStatement \<Rightarrow> ''audit'' | OtherStatement \<Rightarrow> ''other'')"

text \<open>\<open>NULL\<close> comes first in a descending order.\<close>

definition api_order :: "(string \<Rightarrow> nat) \<Rightarrow> api_row \<Rightarrow> (nat \<times> int) \<times> nat \<times> nat \<times> nat" where
  "api_order collate r =
     ((case yr_fiscalYear r of None \<Rightarrow> (0, 0) | Some y \<Rightarrow> (1, - y)),
      collate (statement_type_text (yr_statementType r)), collate (yr_valueCode r), collate (period_kind_text (yr_periodKind r)))"

definition in_table :: "string \<Rightarrow> string \<Rightarrow> api_row \<Rightarrow> bool" where
  "in_table tenantId org r \<longleftrightarrow> yr_tenantId r = tenantId \<and> yr_organisationsnummer r = org"

definition read_api_rows :: "(string \<Rightarrow> nat) \<Rightarrow> string \<Rightarrow> string \<Rightarrow> tables_state \<Rightarrow> api_row list" where
  "read_api_rows collate tenantId org st = find_asc (in_table tenantId org) (api_order collate) (yt_apiRows st)"

definition rebuilt_row :: "int \<Rightarrow> string \<Rightarrow> string \<Rightarrow> report_header \<Rightarrow> financial_row \<Rightarrow> api_row" where
  "rebuilt_row now tenantId org h fin =
     \<lparr>yr_tenantId = tenantId, yr_organisationsnummer = org,
      yr_fiscalYear = or_else (ah_fiscalYear h) (map_option full_year (ah_filingPeriodEnd h)),
      yr_statementType = statement_type_for (aq_canonicalField fin), yr_valueCode = aq_canonicalField fin,
      yr_valueLabel = label_of (aq_canonicalField fin), yr_periodKind = aq_periodKind fin,
      yr_valueNumeric = aq_valueNumeric fin, yr_valueText = aq_valueText fin,
      yr_currencyCode = or_else (aq_currencyCode fin) (ah_currencyCode h),
      yr_sourceHeaderId = ah_id h, yr_sourceImportId = ah_annualReportImportId h,
      yr_sourceFactIds = aq_sourceFactIds fin, yr_rankingScore = aq_rankingScore fin, yr_updatedAt = now\<rparr>"

definition rebuild_api_table :: "int \<Rightarrow> string \<Rightarrow> string \<Rightarrow> tables_state \<Rightarrow> (nat \<times> nat) \<times> tables_state" where
  "rebuild_api_table now tenantId organisationNumber st =
     (let org = org_digits organisationNumber;
          headers = find_desc (current_for tenantId org) ah_extractedAt (ys_headers (yt_serving st));
          rows = concat (map (\<lambda>h. map (rebuilt_row now tenantId org h) (rows_of_header (ah_id h) st)) headers)
      in ((length rows, length headers),
          st\<lparr>yt_apiRows := delete_where (in_table tenantId org) (yt_apiRows st) @ rows\<rparr>))"

definition get_api_table ::
  "(string \<Rightarrow> nat) \<Rightarrow> int \<Rightarrow> string \<Rightarrow> string \<Rightarrow> bool \<Rightarrow> tables_state \<Rightarrow> api_row list \<times> tables_state" where
  "get_api_table collate now tenantId organisationNumber ensureBuilt st =
     (let org = org_digits organisationNumber; rows = read_api_rows collate tenantId org st
      in if ensureBuilt \<and> rows = []
         then (let st' = snd (rebuild_api_table now tenantId org st) in (read_api_rows collate tenantId org st', st'))
         else (rows, st))"

section \<open>Freshness and rebuilding in the background\<close>

definition lock_key :: "string \<Rightarrow> string \<Rightarrow> string" where
  "lock_key tenantId org = ''lock:financial-rebuild:'' @ tenantId @ '':'' @ org"

definition lock_held :: "int \<Rightarrow> string \<Rightarrow> tables_state \<Rightarrow> bool" where
  "lock_held now k st \<longleftrightarrow> (case map_of (yt_locks st) k of None \<Rightarrow> False | Some expiresAt \<Rightarrow> now < expiresAt)"

text \<open>\<open>triggerAsyncRebuildForOrg\<close>: without Redis a rebuild starts unlocked.\<close>

definition trigger_rebuild :: "bool \<Rightarrow> int \<Rightarrow> string \<Rightarrow> string \<Rightarrow> tables_state \<Rightarrow> tables_state" where
  "trigger_rebuild redisReady now tenantId organisationNumber st =
     (let org = org_digits organisationNumber; k = lock_key tenantId org
      in if \<not> redisReady then st\<lparr>yt_rebuilding := yt_rebuilding st @ [(tenantId, org, False)]\<rparr>
         else if lock_held now k st then st
         else st\<lparr>yt_locks := AList.update k (now + 20 * 60 * 1000) (yt_locks st),
                yt_rebuilding := yt_rebuilding st @ [(tenantId, org, True)]\<rparr>)"

text \<open>A rebuild in the background ends; a failure is only logged. Its lock is deleted.\<close>

definition finish_rebuild :: "int \<Rightarrow> bool \<Rightarrow> string \<times> string \<times> bool \<Rightarrow> tables_state \<Rightarrow> tables_state" where
  "finish_rebuild now fails job st =
     (case job of (tenantId, org, locked) \<Rightarrow>
        if job \<notin> set (yt_rebuilding st) then st
        else (let st = st\<lparr>yt_rebuilding := remove1 job (yt_rebuilding st)\<rparr>;
                  st = (if fails then st else snd (rebuild_api_table now tenantId org st))
              in if locked then st\<lparr>yt_locks := AList.delete (lock_key tenantId org) (yt_locks st)\<rparr> else st))"

datatype table_status = TableFresh | TableStale | TableProcessing

record table_answer =
  yn_status :: table_status
  yn_rows :: "api_row list"
  yn_stale :: bool
  yn_lastUpdatedAt :: "string option"

definition stale_threshold :: "int \<Rightarrow> int" where
  "stale_threshold days = max 1 days * 24 * 60 * 60 * 1000"

definition newest_update :: "api_row list \<Rightarrow> int option" where
  "newest_update rows = fold (\<lambda>r acc. case acc of None \<Rightarrow> Some (yr_updatedAt r)
     | Some a \<Rightarrow> if yr_updatedAt r > a then Some (yr_updatedAt r) else Some a) rows None"

definition get_table_with_freshness ::
  "(string \<Rightarrow> nat) \<Rightarrow> bool \<Rightarrow> int \<Rightarrow> int \<Rightarrow> string \<Rightarrow> string \<Rightarrow> tables_state \<Rightarrow> table_answer \<times> tables_state" where
  "get_table_with_freshness collate redisReady staleDays now tenantId organisationNumber st =
     (let org = org_digits organisationNumber;
          rows = fst (get_api_table collate now tenantId org False st);
          latest = newest_update rows;
          stale = (case latest of None \<Rightarrow> True | Some t \<Rightarrow> now - t > stale_threshold staleDays)
      in if rows = []
         then (\<lparr>yn_status = TableProcessing, yn_rows = [], yn_stale = True, yn_lastUpdatedAt = None\<rparr>,
           trigger_rebuild redisReady now tenantId org st)
         else if stale
         then (\<lparr>yn_status = TableStale, yn_rows = rows, yn_stale = True, yn_lastUpdatedAt = map_option iso_string latest\<rparr>,
           trigger_rebuild redisReady now tenantId org st)
         else (\<lparr>yn_status = TableFresh, yn_rows = rows, yn_stale = False, yn_lastUpdatedAt = map_option iso_string latest\<rparr>, st))"

section \<open>Mapped values and summaries\<close>

record summary_params =
  yp_annualReportImportId :: string
  yp_tenantId :: string
  yp_orgNumber :: "string option"
  yp_fiscalYear :: "int option"
  yp_documentTypeForFinancial :: string
  yp_headerId :: string
  yp_primaryParseRunId :: "string option"
  yp_primarySourceFileId :: "string option"

definition param_header :: "summary_params \<Rightarrow> tables_state \<Rightarrow> report_header option" where
  "param_header p st = find_one (\<lambda>h. ah_id h = yp_headerId p) (ys_headers (yt_serving st))"

definition resolved_org :: "summary_params \<Rightarrow> tables_state \<Rightarrow> string option" where
  "resolved_org p st =
     or_else (yp_orgNumber p) (or_else (Option.bind (param_header p st) ah_organisationsnummer)
       (Option.bind (param_header p st) ah_organisationNumberFiling))"

definition resolved_year :: "summary_params \<Rightarrow> tables_state \<Rightarrow> int option" where
  "resolved_year p st =
     or_else (yp_fiscalYear p) (or_else (Option.bind (param_header p st) ah_fiscalYear)
       (map_option full_year (Option.bind (param_header p st) ah_filingPeriodEnd)))"

definition imported_row :: "int \<Rightarrow> summary_params \<Rightarrow> string \<Rightarrow> int option \<Rightarrow> financial_row \<Rightarrow> api_row" where
  "imported_row now p org year fin =
     \<lparr>yr_tenantId = yp_tenantId p, yr_organisationsnummer = org, yr_fiscalYear = year,
      yr_statementType = statement_type_for (aq_canonicalField fin), yr_valueCode = aq_canonicalField fin,
      yr_valueLabel = label_of (aq_canonicalField fin), yr_periodKind = aq_periodKind fin,
      yr_valueNumeric = aq_valueNumeric fin, yr_valueText = aq_valueText fin, yr_currencyCode = aq_currencyCode fin,
      yr_sourceHeaderId = yp_headerId p, yr_sourceImportId = Some (yp_annualReportImportId p),
      yr_sourceFactIds = aq_sourceFactIds fin, yr_rankingScore = aq_rankingScore fin, yr_updatedAt = now\<rparr>"

definition replace_imported_rows :: "int \<Rightarrow> summary_params \<Rightarrow> tables_state \<Rightarrow> tables_state" where
  "replace_imported_rows now p st =
     (case Option.bind (resolved_org p st) nonempty of
        None \<Rightarrow> st
      | Some org \<Rightarrow> st\<lparr>yt_apiRows :=
          delete_where (\<lambda>r. in_table (yp_tenantId p) org r \<and> yr_sourceHeaderId r = yp_headerId p) (yt_apiRows st) @
          map (imported_row now p org (resolved_year p st)) (rows_of_header (yp_headerId p) st)\<rparr>)"

definition mapped_financial :: "summary_params \<Rightarrow> string option \<Rightarrow> int option \<Rightarrow> financial_row \<Rightarrow> mapped_value" where
  "mapped_financial p org year fin =
     \<lparr>ym_annualReportImportId = yp_annualReportImportId p, ym_sourceFileId = yp_primarySourceFileId p,
      ym_parseRunId = yp_primaryParseRunId p, ym_factId = nth_opt (aq_sourceFactIds fin) 0, ym_orgNumber = org,
      ym_fiscalYear = year, ym_documentType = yp_documentTypeForFinancial p,
      ym_statementType = statement_type_for (aq_canonicalField fin), ym_valueCode = aq_canonicalField fin,
      ym_valueLabel = label_of (aq_canonicalField fin), ym_valueText = aq_valueText fin,
      ym_valueNumeric = aq_valueNumeric fin, ym_currency = aq_currencyCode fin,
      ym_priorityRank = aq_rankingScore fin, ym_mappingRule = ''canonical_xbrl:'' @ aq_canonicalField fin\<rparr>"

definition mapped_auditor_field ::
  "summary_params \<Rightarrow> string option \<Rightarrow> int option \<Rightarrow> string \<Rightarrow> string \<Rightarrow> string option \<Rightarrow> string option \<Rightarrow> mapped_value list" where
  "mapped_auditor_field p org year valueCode valueLabel factId text =
     (if \<not> truthy_str text then []
      else [\<lparr>ym_annualReportImportId = yp_annualReportImportId p, ym_sourceFileId = None,
        ym_parseRunId = yp_primaryParseRunId p, ym_factId = factId, ym_orgNumber = org, ym_fiscalYear = year,
        ym_documentType = ''audit_report'', ym_statementType = AuditStatement, ym_valueCode = valueCode,
        ym_valueLabel = valueLabel, ym_valueText = text, ym_valueNumeric = None, ym_currency = None,
        ym_priorityRank = 100, ym_mappingRule = ''auditor_field''\<rparr>])"

definition mapped_auditor :: "summary_params \<Rightarrow> string option \<Rightarrow> int option \<Rightarrow> auditor_row option \<Rightarrow> mapped_value list" where
  "mapped_auditor p org year aud =
     (case aud of None \<Rightarrow> []
      | Some a \<Rightarrow>
          (let first = nth_opt (ao_sourceFactIds a) 0; second = nth_opt (ao_sourceFactIds a) 1
           in mapped_auditor_field p org year ''auditor_name'' ''Auditor name'' first (ao_auditorName a) @
              mapped_auditor_field p org year ''auditor_firm'' ''Audit firm'' (or_else second first) (ao_auditorFirm a) @
              mapped_auditor_field p org year ''audit_opinion'' ''Audit opinion'' None (ao_auditOpinionHint a)))"

definition empty_summary :: "string \<Rightarrow> report_summary" where
  "empty_summary importId =
     \<lparr>yu_annualReportImportId = importId, yu_orgNumber = None, yu_fiscalYear = None, yu_periodStart = None,
      yu_periodEnd = None, yu_currency = None, yu_revenue = None, yu_netProfit = None, yu_operatingProfit = None,
      yu_totalAssets = None, yu_equity = None, yu_cashAndBank = None, yu_employeeCount = None, yu_auditorName = None,
      yu_auditOpinion = None\<rparr>"

text \<open>A financial row of the current period in its column of the summary (\<open>SUMMARY_FIELD\<close>).\<close>

definition put_summary_field :: "financial_row \<Rightarrow> report_summary \<Rightarrow> report_summary" where
  "put_summary_field fin s =
     (let v = aq_valueNumeric fin; f = aq_canonicalField fin
      in if aq_periodKind fin \<noteq> PeriodCurrent then s
         else if f = ''revenue'' then s\<lparr>yu_revenue := v\<rparr>
         else if f = ''net_profit'' then s\<lparr>yu_netProfit := v\<rparr>
         else if f = ''operating_profit'' then s\<lparr>yu_operatingProfit := v\<rparr>
         else if f = ''total_assets'' then s\<lparr>yu_totalAssets := v\<rparr>
         else if f = ''equity'' then s\<lparr>yu_equity := v\<rparr>
         else if f = ''cash_and_equivalents'' then s\<lparr>yu_cashAndBank := v\<rparr>
         else if f = ''employee_count'' then s\<lparr>yu_employeeCount := v\<rparr>
         else s)"

definition summary_of :: "summary_params \<Rightarrow> tables_state \<Rightarrow> report_summary" where
  "summary_of p st =
     (let header = param_header p st; aud = auditor_of_header (yp_headerId p) st;
          old = or_default (find_one (\<lambda>s. yu_annualReportImportId s = yp_annualReportImportId p) (yt_summaries st))
            (empty_summary (yp_annualReportImportId p));
          s = old\<lparr>yu_orgNumber := resolved_org p st, yu_fiscalYear := resolved_year p st,
            yu_periodStart := or_else (Option.bind header ah_filingPeriodStart) (yu_periodStart old),
            yu_periodEnd := or_else (Option.bind header ah_filingPeriodEnd) (yu_periodEnd old),
            yu_currency := or_else (Option.bind header ah_currencyCode) (yu_currency old)\<rparr>;
          s = fold put_summary_field (rows_of_header (yp_headerId p) st) s
      in case aud of None \<Rightarrow> s
         | Some a \<Rightarrow> s\<lparr>yu_auditorName := ao_auditorName a, yu_auditOpinion := ao_auditOpinionHint a\<rparr>)"

definition rebuild_mapped_and_summary :: "int \<Rightarrow> summary_params \<Rightarrow> tables_state \<Rightarrow> tables_state" where
  "rebuild_mapped_and_summary now p st =
     (let org = resolved_org p st; year = resolved_year p st; fins = rows_of_header (yp_headerId p) st;
          summary = summary_of p st;
          mapped = delete_where (\<lambda>m. ym_annualReportImportId m = yp_annualReportImportId p) (yt_mapped st) @
            map (mapped_financial p org year) fins @ mapped_auditor p org year (auditor_of_header (yp_headerId p) st);
          st = replace_imported_rows now p st
      in st\<lparr>yt_mapped := mapped, yt_summaries := save yu_annualReportImportId summary (yt_summaries st)\<rparr>)"

section \<open>Properties\<close>

text \<open>Every field a concept can be stored under has a label.\<close>

lemma fields_labelled: "list_all (\<lambda>r. map_of canonical_financial_labels (mr_canonicalField r) \<noteq> None) financial_rules"
  by code_simp

lemma latest_header_current:
  assumes "get_latest_header tenantId org st = Some h"
  shows "h \<in> set (ys_headers (yt_serving st))" "current_for tenantId (org_digits org) h"
    "\<forall>g \<in> set (ys_headers (yt_serving st)). current_for tenantId (org_digits org) g \<longrightarrow> ah_extractedAt g \<le> ah_extractedAt h"
  using find_latest_SomeD [OF assms [unfolded get_latest_header_def]] by auto

lemma history_current: "set (get_history tenantId org limit st) \<subseteq> {h \<in> set (ys_headers (yt_serving st)). current_for tenantId (org_digits org) h}"
  unfolding get_history_def by (auto dest!: in_set_takeD simp: find_asc_def)

lemma history_bounded: "length (get_history tenantId org limit st) \<le> 500"
  by (simp add: get_history_def)

text \<open>Years that are picked are distinct, new and no more than asked for.\<close>

lemma pick_years_Cons:
  "pick_years n seen (h # hs) =
     (if ah_filingPeriodEnd h = None \<or> header_year h \<in> set seen then pick_years n seen hs
      else h # (if int (length seen) + 1 \<ge> n then [] else pick_years n (header_year h # seen) hs))"
  by (cases "ah_filingPeriodEnd h") (simp_all add: header_year_def Let_def)

declare pick_years.simps(2) [simp del]

lemma pick_years_subset: "set (pick_years n seen hs) \<subseteq> set hs"
proof (induction hs arbitrary: seen)
  case (Cons h hs)
  from Cons.IH [of seen] Cons.IH [of "header_year h # seen"] show ?case by (auto simp: pick_years_Cons)
qed simp

lemma pick_years_new: "header_year ` set (pick_years n seen hs) \<inter> set seen = {}"
proof (induction hs arbitrary: seen)
  case (Cons h hs)
  from Cons.IH [of seen] Cons.IH [of "header_year h # seen"] show ?case by (auto simp: pick_years_Cons)
qed simp

lemma pick_years_distinct: "distinct (map header_year (pick_years n seen hs))"
proof (induction hs arbitrary: seen)
  case (Cons h hs)
  from Cons.IH [of seen] Cons.IH [of "header_year h # seen"] pick_years_new [of n "header_year h # seen" hs]
  show ?case by (auto simp: pick_years_Cons)
qed simp

lemma pick_years_length:
  "int (length seen) < n \<Longrightarrow> int (length seen + length (pick_years n seen hs)) \<le> n"
proof (induction hs arbitrary: seen)
  case (Cons h hs)
  from Cons.IH [of seen] Cons.IH [of "header_year h # seen"] Cons.prems show ?case
    by (auto simp: pick_years_Cons)
qed simp

lemma pick_years_one: "n \<le> 1 \<Longrightarrow> length (pick_years n [] hs) \<le> 1"
  by (induction hs) (auto simp: pick_years_Cons)

lemma pick_years_bound: "int (length (pick_years n [] hs)) \<le> max 1 n"
proof (cases "n \<ge> 1")
  case True
  then show ?thesis using pick_years_length [of "[]" n hs] by simp
next
  case False
  then show ?thesis using pick_years_one [of n hs] by simp
qed

lemma comparison_headers_ok:
  defines "hs tenantId org n st \<equiv> comparison_headers tenantId org n st"
  shows "sorted_wrt (<) (map header_year (hs tenantId org n st))"
    "int (length (hs tenantId org n st)) \<le> max 1 n"
    "set (hs tenantId org n st) \<subseteq>
       {h \<in> set (ys_headers (yt_serving st)). current_for tenantId org h \<and> ah_filingPeriodEnd h \<noteq> None}"
proof -
  define cs where "cs = take (nat (min 500 (max (n * 4) 80)))
    (find_asc (\<lambda>h. current_for tenantId org h \<and> ah_filingPeriodEnd h \<noteq> None)
      (\<lambda>h. (- or_default (ah_filingPeriodEnd h) 0, - ah_extractedAt h)) (ys_headers (yt_serving st)))"
  have hs: "hs tenantId org n st = sort_key header_year (pick_years n [] cs)"
    by (simp add: hs_def comparison_headers_def cs_def)
  have "distinct (map header_year (sort_key header_year (pick_years n [] cs)))"
    using pick_years_distinct [of n "[]" cs] by (simp add: distinct_map)
  then show "sorted_wrt (<) (map header_year (hs tenantId org n st))"
    unfolding hs by (simp add: strict_sorted_iff)
  show "int (length (hs tenantId org n st)) \<le> max 1 n"
    unfolding hs by (simp add: pick_years_bound)
  have "set cs \<subseteq> {h \<in> set (ys_headers (yt_serving st)). current_for tenantId org h \<and> ah_filingPeriodEnd h \<noteq> None}"
    unfolding cs_def by (auto dest!: in_set_takeD simp: find_asc_def)
  with pick_years_subset [of n "[]" cs]
  show "set (hs tenantId org n st) \<subseteq>
       {h \<in> set (ys_headers (yt_serving st)). current_for tenantId org h \<and> ah_filingPeriodEnd h \<noteq> None}"
    unfolding hs by auto
qed

text \<open>
  The comparison of an organisation has strictly ascending years, at most the number asked for, and one
  column per year with the header of that year; a row has one value per year, in the same order.
\<close>
theorem comparison_years_ascend:
  "let (years, columns, rows) = get_financial_comparison tenantId organisationNumber maxYears st
   in sorted_wrt (<) years \<and> int (length years) \<le> max 1 maxYears \<and> map yc_year columns = years \<and>
      list_all (\<lambda>c. yc_headerId c \<in> ah_id ` {h \<in> set (ys_headers (yt_serving st)).
        current_for tenantId (org_digits organisationNumber) h \<and> header_year h = yc_year c}) columns \<and>
      list_all (\<lambda>r. map fst (yw_byYear r) = map show_int years) rows \<and>
      distinct (map yw_canonicalField rows)"
proof -
  let ?hs = "comparison_headers tenantId (org_digits organisationNumber) maxYears st"
  have fields: "distinct (compared_fields ?hs st)" by (simp add: compared_fields_def)
  show ?thesis
    unfolding get_financial_comparison_def Let_def prod.case
  proof (intro conjI)
    show "sorted_wrt (<) (map header_year ?hs)" by (rule comparison_headers_ok(1))
    show "int (length (map header_year ?hs)) \<le> max 1 maxYears" using comparison_headers_ok(2) by simp
    show "map yc_year (map (comparison_column_of st) ?hs) = map header_year ?hs"
      by (simp add: comparison_column_of_def Let_def)
    show "list_all (\<lambda>c. yc_headerId c \<in> ah_id ` {h \<in> set (ys_headers (yt_serving st)).
        current_for tenantId (org_digits organisationNumber) h \<and> header_year h = yc_year c})
        (map (comparison_column_of st) ?hs)"
      using comparison_headers_ok(3) [of tenantId "org_digits organisationNumber" maxYears st]
      by (auto simp: list_all_iff comparison_column_of_def Let_def)
  qed (use fields in \<open>simp_all add: list_all_iff o_def\<close>)
qed

section \<open>The table after a rebuild and after an import\<close>

lemma api_table_rebuilt:
  assumes "rebuild_api_table now tenantId raw st = ((n, k), st')"
  shows "filter (in_table tenantId (org_digits raw)) (yt_apiRows st') =
      concat (map (\<lambda>h. map (rebuilt_row now tenantId (org_digits raw) h) (rows_of_header (ah_id h) st))
        (find_desc (current_for tenantId (org_digits raw)) ah_extractedAt (ys_headers (yt_serving st)))) \<and>
    n = length (filter (in_table tenantId (org_digits raw)) (yt_apiRows st')) \<and>
    filter (\<lambda>r. \<not> in_table tenantId (org_digits raw) r) (yt_apiRows st') =
      filter (\<lambda>r. \<not> in_table tenantId (org_digits raw) r) (yt_apiRows st)"
proof -
  define rows where "rows = concat (map (\<lambda>h. map (rebuilt_row now tenantId (org_digits raw) h) (rows_of_header (ah_id h) st))
    (find_desc (current_for tenantId (org_digits raw)) ah_extractedAt (ys_headers (yt_serving st))))"
  have st': "yt_apiRows st' = delete_where (in_table tenantId (org_digits raw)) (yt_apiRows st) @ rows" and n: "n = length rows"
    using assms by (auto simp: rebuild_api_table_def Let_def rows_def)
  have own: "in_table tenantId (org_digits raw) r" if "r \<in> set rows" for r
    using that by (auto simp: rows_def in_table_def rebuilt_row_def)
  have "filter (in_table tenantId (org_digits raw)) rows = rows"
    "filter (\<lambda>r. \<not> in_table tenantId (org_digits raw) r) rows = []"
    using own by (auto simp: filter_empty_conv)
  moreover have "filter (in_table tenantId (org_digits raw)) (delete_where (in_table tenantId (org_digits raw)) (yt_apiRows st)) = []"
    by (simp add: filter_empty_conv)
  ultimately show ?thesis
    by (simp add: st' n rows_def [symmetric]) (simp add: delete_where_def)
qed

text \<open>A rebuild after a rebuild only renews the times.\<close>

lemma rebuild_rows_again:
  assumes "rebuild_api_table now tenantId raw st = (c, st')" and "rebuild_api_table later tenantId raw st' = (c', st'')"
  shows "c' = c \<and> map (\<lambda>r. r\<lparr>yr_updatedAt := 0\<rparr>) (filter (in_table tenantId (org_digits raw)) (yt_apiRows st'')) =
    map (\<lambda>r. r\<lparr>yr_updatedAt := 0\<rparr>) (filter (in_table tenantId (org_digits raw)) (yt_apiRows st'))"
proof -
  have s: "yt_serving st' = yt_serving st" using assms(1) by (auto simp: rebuild_api_table_def Let_def)
  then have rows: "rows_of_header k st' = rows_of_header k st" for k by (simp add: rows_of_header_def)
  have "c' = c" using assms by (auto simp: rebuild_api_table_def Let_def s rows length_concat o_def)
  obtain n k where c: "c = (n, k)" by (cases c)
  show ?thesis
    using api_table_rebuilt [OF assms(1) [unfolded c]] api_table_rebuilt [OF assms(2) [unfolded \<open>c' = c\<close> c]] \<open>c' = c\<close>
    by (simp add: map_concat o_def rows s rebuilt_row_def)
qed

lemma trigger_within_lock:
  assumes "now \<le> later" and "later < now + 20 * 60 * 1000" and "st' = trigger_rebuild True now tenantId org st"
    and "\<not> lock_held now (lock_key tenantId (org_digits org)) st"
  shows "trigger_rebuild True later tenantId org st' = st' \<and>
    yt_rebuilding st' = yt_rebuilding st @ [(tenantId, org_digits org, True)]"
  using assms by (simp add: trigger_rebuild_def Let_def lock_held_def update_conv)

lemma fresh_table:
  assumes "get_table_with_freshness collate ready days now tenantId org st = (a, st')" and "yn_status a = TableFresh"
  shows "st' = st \<and> yn_rows a = read_api_rows collate tenantId (org_digits (org_digits org)) st \<and> yn_rows a \<noteq> [] \<and>
    (\<exists>t. newest_update (yn_rows a) = Some t \<and> now - t \<le> stale_threshold days)"
  using assms by (auto simp: get_table_with_freshness_def get_api_table_def Let_def split: if_splits option.splits)

text \<open>Rows of an import never have a currency, which a rebuild takes from the header.\<close>

lemma imported_rows_lack_currency:
  assumes "\<forall>r \<in> set (ys_financials (yt_serving st)). aq_currencyCode r = None"
  shows "r \<in> set (map (imported_row now p org year) (rows_of_header (yp_headerId p) st)) \<Longrightarrow> yr_currencyCode r = None"
  using assms by (auto simp: imported_row_def rows_of_header_def)

lemma financials_lack_currency:
  "\<forall>r \<in> set (ys_financials st). aq_currencyCode r = None \<Longrightarrow>
   \<forall>r \<in> set (ys_financials (replace_financials k fs m a b st)). aq_currencyCode r = None"
  by (auto simp: replace_financials_def financial_row_of_def)

lemma imported_rows_kept:
  assumes "r \<in> set (yt_apiRows st)" and "yr_sourceHeaderId r \<noteq> yp_headerId p"
  shows "r \<in> set (yt_apiRows (rebuild_mapped_and_summary now p st))"
  using assms by (auto simp: rebuild_mapped_and_summary_def replace_imported_rows_def Let_def split: option.splits)

lemma import_supersedes:
  assumes "serving_ok sv" and "newId \<notin> header_ids sv"
    and "normalize_from_import newId now tenantId file importId sv = (Inr header, sv')"
  shows "ys_headers sv' = superseding header (ys_headers sv) \<and> ah_id header = newId \<and>
    ah_annualReportFileId header = af_id file"
proof -
  obtain rows where w: "sv' = write_header header rows sv" "writes_rows_of newId rows"
    "ah_id header = newId" "ah_annualReportFileId header = af_id file"
    "\<not> ah_isSuperseded header" "ah_supersededByHeaderId header = None"
    using normalize_import_writes [OF assms(3)] by metis
  then have "is_new header (ys_headers sv)" using assms(2) by (simp add: is_new_def header_ids_def)
  from headers_write_header [OF this] w show ?thesis by simp
qed

text \<open>
  C19: When a file is imported again, the table of the organisation keeps the rows of the header that the import
  superseded: they are served next to the new ones until the table is rebuilt.
\<close>
theorem superseded_rows_still_served:
  assumes "serving_ok (yt_serving st)" and "newId \<notin> header_ids (yt_serving st)"
    and "old \<in> set (ys_headers (yt_serving st))" and "ah_annualReportFileId old = af_id file"
    and "r \<in> set (read_api_rows collate tenantId org st)" and "yr_sourceHeaderId r = ah_id old"
    and "normalize_from_import newId now t file importId (yt_serving st) = (Inr header, sv')"
    and "yp_headerId p = newId"
    and "st' = rebuild_mapped_and_summary now p (st\<lparr>yt_serving := sv'\<rparr>)"
  shows "r \<in> set (read_api_rows collate tenantId org st') \<and>
    (\<exists>h \<in> set (ys_headers (yt_serving st')). ah_id h = yr_sourceHeaderId r \<and> ah_isSuperseded h)"
proof
  have imp: "ys_headers sv' = superseding header (ys_headers (yt_serving st))" "ah_annualReportFileId header = af_id file"
    using import_supersedes [OF assms(1,2,7)] by simp_all
  have old: "ah_id old \<noteq> newId" using assms(2,3) by (auto simp: header_ids_def)
  have r: "r \<in> set (yt_apiRows st)" "in_table tenantId org r"
    using assms(5) by (simp_all add: read_api_rows_def find_asc_def)
  have "r \<in> set (yt_apiRows st')"
    unfolding assms(9) by (rule imported_rows_kept) (use r old assms(6,8) in simp_all)
  with r(2) show "r \<in> set (read_api_rows collate tenantId org st')"
    by (simp add: read_api_rows_def find_asc_def)
  have serving: "yt_serving st' = sv'"
    unfolding assms(9) by (simp add: rebuild_mapped_and_summary_def replace_imported_rows_def Let_def split: option.splits)
  have "outdated header old \<in> set (ys_headers (yt_serving st'))"
    using assms(3) by (simp add: serving imp(1) superseding_def)
  moreover have "ah_isSuperseded (outdated header old)" using assms(4) imp(2) by simp
  ultimately show "\<exists>h \<in> set (ys_headers (yt_serving st')). ah_id h = yr_sourceHeaderId r \<and> ah_isSuperseded h"
    using assms(6) by (intro bexI [of _ "outdated header old"]) simp_all
qed

definition sample_row :: api_row where
  "sample_row = \<lparr>yr_tenantId = ''t'', yr_organisationsnummer = ''5560001234'', yr_fiscalYear = Some 2023,
     yr_statementType = IncomeStatement, yr_valueCode = ''revenue'', yr_valueLabel = ''R'', yr_periodKind = PeriodCurrent,
     yr_valueNumeric = Some ''100'', yr_valueText = None, yr_currencyCode = None, yr_sourceHeaderId = ''h1'',
     yr_sourceImportId = None, yr_sourceFactIds = [], yr_rankingScore = 1, yr_updatedAt = 5\<rparr>"

definition sample_tables :: tables_state where
  "sample_tables = \<lparr>yt_serving = serving_step (Rebuild ''h1'' 5 sample_file) sample_serving, yt_apiRows = [sample_row],
     yt_mapped = [], yt_summaries = [], yt_locks = [], yt_rebuilding = []\<rparr>"

definition sample_params :: summary_params where
  "sample_params = \<lparr>yp_annualReportImportId = ''i'', yp_tenantId = ''t'', yp_orgNumber = Some ''5560001234'',
     yp_fiscalYear = None, yp_documentTypeForFinancial = ''annual_report'', yp_headerId = ''h2'',
     yp_primaryParseRunId = None, yp_primarySourceFileId = None\<rparr>"

lemma superseded_rows_still_served_witness:
  "\<exists>header sv'.
     normalize_from_import ''h2'' 6 ''t'' sample_file ''i'' (yt_serving sample_tables) = (Inr header, sv') \<and>
     sample_row \<in> set (read_api_rows length ''t'' ''5560001234''
       (rebuild_mapped_and_summary 6 sample_params (sample_tables\<lparr>yt_serving := sv'\<rparr>)))"
proof -
  let ?sv = "yt_serving sample_tables"
  have sv: "?sv = fold serving_step [Rebuild ''h1'' 5 sample_file] sample_serving" by (simp add: sample_tables_def)
  have ok: "serving_ok ?sv" unfolding sv by (rule serving.run_inv [OF sample_serving_ok])
  have runs: "\<not> is_audit_run sample_run" by (simp add: is_audit_run_def sample_run_def)
  obtain header sv' where n: "normalize_from_import ''h2'' 6 ''t'' sample_file ''i'' ?sv = (Inr header, sv')"
    unfolding sv normalize_from_import_def sample_import_runs Let_def case_prod_beta using runs by simp
  have fresh: "''h2'' \<notin> header_ids ?sv" by code_simp
  have "map (\<lambda>h. (ah_id h, ah_annualReportFileId h)) (ys_headers ?sv) = [(''h1'', ''f'')]" by code_simp
  then obtain old where old: "old \<in> set (ys_headers ?sv)" "ah_id old = ''h1''" "ah_annualReportFileId old = ''f''" by auto
  have row: "sample_row \<in> set (read_api_rows length ''t'' ''5560001234'' sample_tables)"
    by (simp add: read_api_rows_def find_asc_def in_table_def sample_row_def sample_tables_def)
  have "sample_row \<in> set (read_api_rows length ''t'' ''5560001234''
      (rebuild_mapped_and_summary 6 sample_params (sample_tables\<lparr>yt_serving := sv'\<rparr>)))"
    using superseded_rows_still_served [OF ok fresh old(1) _ row _ n _ refl, of sample_params] old
    by (simp add: sample_file_def sample_row_def sample_params_def)
  with n show ?thesis by blast
qed

end
