(* ===== verification/Spec2Isabelle.thy ===== *)
theory Spec2Isabelle
  imports ApiQuota Auth RefreshDecision FailureState Normalization BulkJobs CreditDecision
    RiskIndicators RawPayloads Signals IntegrationTokens OwnershipInsights OwnershipIngestion Workplaces
    TargetLists Lineage Monitoring LookupFlow CompanyInsight
    BulkEnrichment OpsDashboard AnnualTables
begin

text \<open>
  Verification of the VerifyIQ backend (backend/src, a NestJS service): the lookup of Swedish
  companies with its caches, snapshots and version histories, the ingestion of the
  Bolagsverket bulk file, and the accounts, credentials, quotas and billing around it.

  How the parts interact. A lookup enters at \<open>CompaniesService.orchestrateLookup\<close>, which lets one
  call per company run at a time and asks \<open>RefreshDecisionService\<close> about a policy that
  \<open>CachePolicyEvaluationService\<close> resolves. \<open>BolagsverketService.enrichAndSave\<close> answers from the
  newest snapshot or calls the registers through \<open>BolagsverketClient\<close> and
  \<open>BolagsverketMapper\<close>. Fetched data becomes a snapshot that
  \<open>SnapshotChainService\<close> links to its predecessor and \<open>SnapshotComparisonService\<close> compares
  with it; \<open>NormalizationService\<close> keeps the normalised company and its versions;
  \<open>FailureStateService\<close> records provider failures and the backoff. The bulk file is read by
  \<open>BolagsverketBulkParser\<close> and applied by \<open>BolagsverketBulkUpsertService\<close>. \<open>AuthService\<close> opens
  tenants with \<open>EntitlementsService\<close>, \<open>ApiKeysService\<close> and \<open>OauthService\<close>, whose
  credentials the guards check; \<open>BillingService\<close> sets the plan that \<open>ApiQuotaService\<close> counts
  calls against. All of them write to \<open>AuditService\<close>.

  How code is modelled. A service's state is a record of its tables (and clock, queue or
  Redis); an operation is a function from state to result and state. A thrown exception is \<open>Inl\<close>
  of an HTTP error, \<open>null\<close> and \<open>undefined\<close> are \<open>None\<close>. Entities are records, string unions are
  datatypes. Times are integers in milliseconds; an operation runs at one instant, given as an
  argument like the ids and random strings it draws. Numbers that stay integral are \<open>int\<close>, hours
  and numbers in JSON documents are \<open>rat\<close>. Third-party code is a parameter: bcrypt, SHA-256,
  JWT, csv-parse, Stripe, date parsing and the round trip through a \<open>jsonb\<close> column.

  The theories.
  \<^item> \<open>Prelude\<close>: optional values, the JavaScript string functions, decimal numerals, JSON values,
    HTTP errors. \<open>Tables\<close>: repository calls on tables; the interfaces \<open>entity_store\<close> (lookup
    after save), \<open>invariant_machine\<close> and \<open>monotone_machine\<close> (what every operation keeps, every
    run keeps). \<open>JsonText\<close>: \<open>JSON.stringify\<close>, injective on documents. \<open>Dates\<close>: \<open>toISOString\<close>.
  \<^item> \<open>AuditTrail\<close> (audit/audit.service.ts): the log only grows.
  \<^item> \<open>CachePolicy\<close> (companies/services/cache-policy-evaluation.service.ts): resolution picks the
    most specific policy; older data is never judged more leniently; a safe default always answers.
  \<^item> \<open>RefreshDecision\<close> (companies/services/refresh-decision.service.ts): the decision as a function
    of policy, force, availability and hooks; batches.
  \<^item> \<open>SnapshotChain\<close> (companies/services/snapshot-chain.service.ts): walks end and follow
    the links, validation is exactly integrity, reconstruction repairs every chain. The cycle search
    recurses over a measure of unvisited snapshots; a walk over its step limit.
  \<^item> \<open>SnapshotComparison\<close> (companies/services/snapshot-comparison.service.ts): the comparison
    of texts decides equality of values (interface \<open>value_equality\<close>), every attribute is
    classified once, a failure leaves one event.
  \<^item> \<open>FailureState\<close> (companies/services/failure-state.service.ts): classification, retry counts,
    backoff.
  \<^item> \<open>Normalization\<close> (companies/mappers/company-normalizer.ts and
    companies/services/normalization.service.ts): the version history is complete in every run.
  \<^item> \<open>BulkParser\<close>, \<open>BulkUpsert\<close> (bolagsverket-bulk): the composite columns and their round trip; the
    application of a run as an update of a map from organisations to rows; history and removal.
  \<^item> \<open>Entitlements\<close> (entitlements), \<open>Credentials\<close> (api-keys, oauth, guards), \<open>Auth\<close> (auth),
    \<open>Billing\<close> (billing), \<open>ApiQuota\<close> (common/services/api-quota.service.ts): quotas are exact, keys
    and tokens are honoured until revoked or spent, the path from sign-up to log-in, activation
    of plans.
  \<^item> \<open>BulkJobs\<close> (bulk): queue workers as a step relation whose steps interleave in any way; a
    tenant never exceeds its concurrency, no item is lost, provider calls are spaced.
  \<^item> \<open>JsonCompare\<close>: the comparison operators of JavaScript on JSON; with them \<open>CreditDecision\<close>
    (credit-decisioning) and \<open>RiskIndicators\<close> (risk-indicators): rules over a company's data.
  \<^item> \<open>RawPayloads\<close> (companies/services/raw-payload-storage.service.ts): one row per tenant and
    content. \<open>Signals\<close> (companies/signals, the signals worker and service): scores, their bounds and
    monotonicity, what is stored is what is read.
  \<^item> \<open>IntegrationTokens\<close> (companies/services/integration-token.service.ts): the retry loop, which makes
    at most four requests, and where an access token may appear.
  \<^item> \<open>Ownership\<close>, \<open>OwnershipGraph\<close>, \<open>OwnershipInsights\<close>, \<open>OwnershipIngestion\<close>, \<open>Workplaces\<close> (ownership): which links are loaded,
    effective shares as sums over paths, the graph, its circles, what the cache serves. The traversals
    carry the depth limits of the code as fuel; the circle search gets one more than the number of
    nodes, which its stack never reaches.
  \<^item> \<open>ProviderClient\<close> (companies/integrations/bolagsverket.client.ts): URLs, headers, the retry
    loop (its fuel is the number of attempts the code allows), the token cache, every endpoint;
    at most four requests per call. \<open>CompanyMapper\<close> (companies/integrations/bolagsverket.mapper.ts):
    the normalised company; parts marked as failed are reported and left empty.
  \<^item> \<open>ProviderStore\<close> (companies/services/bv-cache.service.ts, bv-persistence.service.ts): the tables
    of organisations, payloads and snapshots. \<open>ProviderApi\<close>, \<open>ProfileFetch\<close>, \<open>Enrichment\<close>
    (companies/services/bolagsverket.service.ts): the single endpoints; the complete profile from
    parallel calls, with pages and partial failures; serving from the cache or fetching and
    storing, and that what was stored is what the next lookup gets. The page loop carries the
    page limit of the code as fuel.
  \<^item> \<open>LookupFlow\<close> (companies/companies.service.ts): sharing of calls in flight as a step relation,
    backoff, the timeout race, stale fallback, the metadata of an answer.
  \<^item> \<open>SourcingProfile\<close> (companies/services/company-sourcing-profile.service.ts): scores of a company
    per kind of deal, their range and order; every company asked for gets its profile.
  \<^item> \<open>BulkStream\<close>, \<open>BulkRuns\<close>, \<open>BulkEnrichment\<close>, \<open>OpsDashboard\<close>
    (bolagsverket-bulk/bolagsverket-bulk.service.ts, ingestion): the loop over the lines of a file writes each
    of them once, however they are batched; a completed run is an update of the table of
    companies; what failed runs leave behind; requests for deep data as a step relation that loses
    none of them; the dashboard.
  \<^item> \<open>CompanySearch\<close>, \<open>CompanyInsight\<close> (companies/companies.service.ts and
    companies/services/company-decision.service.ts): pages of the search are complete, or end early with scores,
    and stay within the tenant; similar companies, comparisons and decisions with their ranges.
  \<^item> \<open>AnnualMapping\<close>, \<open>AnnualServing\<close>, \<open>AnnualTables\<close> (annual-reports/config, annual-reports/services): which field
    a concept of an annual report is stored under; the rows of a report are the best facts of their kind, a file has
    one current header; the comparison of years, the table of an organisation and what keeps it current.
  \<^item> \<open>SqlText\<close>: \<open>LIKE\<close> patterns. \<open>Lineage\<close> (companies/services/lineage-*.ts): what is redacted.
    \<open>TargetLists\<close> (companies/services/target-lists.service.ts): lists stay consistent and apart.
    \<open>Monitoring\<close> (monitoring): which alerts a detection run makes, and that it overlooks no change.

  Not modelled. Network and storage I/O, the files of annual reports and their parser, the smaller table-backed services, controllers, validation of DTOs, migrations and the
  frontend. A char stands for one code unit of the Latin-1 range. Concurrent
  requests are not interleaved within an operation, except in \<open>BulkJobs\<close>, whose worker steps
  are the stretches of \<open>processItem\<close> between two waits.
\<close>

end
